(* ===== verification/Prelude.thy ===== *)
theory Prelude
  imports Main
begin

text \<open>
  The shared layer of the development: the JavaScript string operations the frontend uses
  (\<open>startsWith\<close>, \<open>endsWith\<close>, \<open>includes\<close>, \<open>split\<close>, \<open>join\<close>, \<open>slice\<close>, \<open>replace\<close> of a
  string pattern, decimal printing), the error results of fallible code, and the lemma collections
  the component theories use. A string is a list of Isabelle characters, that is, a JavaScript
  string whose code units are at most 255; a character is one code unit.
\<close>

named_theorems js_string \<comment> \<open>rewriting of the string operations\<close>
named_theorems web_simps \<comment> \<open>laws of headers, interceptors and configurations\<close>
named_theorems step_intros \<comment> \<open>introduction rules of the step relations\<close>

section \<open>Errors as values\<close>

text \<open>What a JavaScript expression of the modelled code can throw before a request is sent.\<close>

datatype js_error = JSError string | TypeError | DeepNesting

type_synonym 'a res = "js_error + 'a"

definition rbind :: "'a res \<Rightarrow> ('a \<Rightarrow> 'b res) \<Rightarrow> 'b res" where
  "rbind m f = (case m of Inl e \<Rightarrow> Inl e | Inr x \<Rightarrow> f x)"

fun rmap :: "('a \<Rightarrow> 'b res) \<Rightarrow> 'a list \<Rightarrow> 'b list res" where
  "rmap f [] = Inr []"
| "rmap f (x # xs) = rbind (f x) (\<lambda>y. rbind (rmap f xs) (\<lambda>ys. Inr (y # ys)))"

section \<open>Characters\<close>

abbreviation cc :: "char \<Rightarrow> nat" where
  "cc c \<equiv> of_char c"

definition is_upper :: "char \<Rightarrow> bool" where
  "is_upper c \<longleftrightarrow> 65 \<le> cc c \<and> cc c \<le> 90"

definition is_lower :: "char \<Rightarrow> bool" where
  "is_lower c \<longleftrightarrow> 97 \<le> cc c \<and> cc c \<le> 122"

definition is_digit :: "char \<Rightarrow> bool" where
  "is_digit c \<longleftrightarrow> 48 \<le> cc c \<and> cc c \<le> 57"

definition is_letter :: "char \<Rightarrow> bool" where
  "is_letter c \<longleftrightarrow> is_upper c \<or> is_lower c"

text \<open>\<open>\s\<close> of a regular expression and the white space of \<open>trim\<close>, in the range of a \<open>char\<close>.\<close>

definition is_space :: "char \<Rightarrow> bool" where
  "is_space c \<longleftrightarrow> (9 \<le> cc c \<and> cc c \<le> 13) \<or> cc c = 32 \<or> cc c = 160"

definition lower_char :: "char \<Rightarrow> char" where
  "lower_char c = (if is_upper c then char_of (cc c + 32) else c)"

definition upper_char :: "char \<Rightarrow> char" where
  "upper_char c = (if is_lower c then char_of (cc c - 32) else c)"

section \<open>String operations\<close>

definition startsWith :: "string \<Rightarrow> string \<Rightarrow> bool" where
  "startsWith s p \<longleftrightarrow> take (length p) s = p"

definition endsWith :: "string \<Rightarrow> string \<Rightarrow> bool" where
  "endsWith s p \<longleftrightarrow> startsWith (rev s) (rev p)"

fun str_includes :: "string \<Rightarrow> string \<Rightarrow> bool" where
  "str_includes [] p \<longleftrightarrow> p = []"
| "str_includes (c # s) p \<longleftrightarrow> startsWith (c # s) p \<or> str_includes s p"

fun join :: "string \<Rightarrow> string list \<Rightarrow> string" where
  "join sep [] = []"
| "join sep [x] = x"
| "join sep (x # y # ys) = x @ sep @ join sep (y # ys)"

fun cons_hd :: "'a \<Rightarrow> 'a list list \<Rightarrow> 'a list list" where
  "cons_hd c [] = [[c]]"
| "cons_hd c (x # xs) = (c # x) # xs"

text \<open>\<open>s.split(sep)\<close> for a separator that is not empty; the callers' separators are literals.\<close>

function split :: "string \<Rightarrow> string \<Rightarrow> string list" where
  "split sep [] = [[]]"
| "split sep (c # s) =
     (if startsWith (c # s) sep then [] # split sep (drop (length sep - 1) s)
      else cons_hd c (split sep s))"
  by pat_completeness auto
termination
  by (relation "measure (\<lambda>(sep, s). length s)") auto

text \<open>\<open>s.slice(from, to)\<close>: negative positions count from the end.\<close>

definition slice_pos :: "string \<Rightarrow> int \<Rightarrow> nat" where
  "slice_pos s i =
     (let n = int (length s) in nat (if i < 0 then max (n + i) 0 else min i n))"

definition slice :: "string \<Rightarrow> int \<Rightarrow> int \<Rightarrow> string" where
  "slice s from to = take (slice_pos s to - slice_pos s from) (drop (slice_pos s from) s)"

definition trimStart :: "string \<Rightarrow> string" where
  "trimStart s = dropWhile is_space s"

definition trim :: "string \<Rightarrow> string" where
  "trim s = rev (trimStart (rev (trimStart s)))"

text \<open>
  \<open>s.replace(pat, rep)\<close> for a string pattern: the first occurrence is replaced by the expansion
  of \<open>rep\<close>, where \<open>$$\<close>, \<open>$&\<close>, \<open>$`\<close> and \<open>$'\<close> stand for a dollar, the match, the text before it and
  the text after it. A string pattern has no captures, so any other \<open>$\<close> is literal.
\<close>

fun get_substitution :: "string \<Rightarrow> string \<Rightarrow> string \<Rightarrow> string \<Rightarrow> string" where
  "get_substitution m before after [] = []"
| "get_substitution m before after [c] = [c]"
| "get_substitution m before after (c # d # r) =
     (if c = CHR ''$'' \<and> d = CHR ''$'' then CHR ''$'' # get_substitution m before after r
      else if c = CHR ''$'' \<and> d = CHR ''&'' then m @ get_substitution m before after r
      else if c = CHR ''$'' \<and> cc d = 96 then before @ get_substitution m before after r
      else if c = CHR ''$'' \<and> cc d = 39 then after @ get_substitution m before after r
      else c # get_substitution m before after (d # r))"

fun find_first :: "string \<Rightarrow> string \<Rightarrow> (string \<times> string) option" where
  "find_first pat s =
     (if startsWith s pat then Some ([], drop (length pat) s)
      else (case s of [] \<Rightarrow> None
            | c # r \<Rightarrow> (case find_first pat r of None \<Rightarrow> None
                       | Some (before, after) \<Rightarrow> Some (c # before, after))))"

declare find_first.simps [simp del]

definition replace_first :: "string \<Rightarrow> string \<Rightarrow> string \<Rightarrow> string" where
  "replace_first s pat rep =
     (case find_first pat s of None \<Rightarrow> s
      | Some (before, after) \<Rightarrow> before @ get_substitution pat before after rep @ after)"

text \<open>Decimal printing of integers, as a template literal prints them.\<close>

function show_nat :: "nat \<Rightarrow> string" where
  "show_nat n =
     (if n < 10 then [char_of (48 + n)] else show_nat (n div 10) @ [char_of (48 + n mod 10)])"
  by pat_completeness auto
termination
  by (relation "measure id") auto

declare show_nat.simps [simp del]

definition show_int :: "int \<Rightarrow> string" where
  "show_int i = (if i < 0 then CHR ''-'' # show_nat (nat (- i)) else show_nat (nat i))"

definition digits_value :: "string \<Rightarrow> int" where
  "digits_value ds = foldl (\<lambda>n c. 10 * n + (int (cc c) - 48)) 0 ds"

section \<open>Lemmas on strings\<close>

lemma startsWith_Nil [simp]: "startsWith s []"
  by (simp add: startsWith_def)

lemma startsWith_Nil_left [simp]: "startsWith [] p \<longleftrightarrow> p = []"
  by (auto simp: startsWith_def)

lemma startsWith_Cons [simp]: "startsWith (c # s) (d # p) \<longleftrightarrow> c = d \<and> startsWith s p"
  by (simp add: startsWith_def)

lemma startsWith_iff: "startsWith s p \<longleftrightarrow> (\<exists>t. s = p @ t)"
  by (metis append_eq_conv_conj append_take_drop_id startsWith_def)

lemma startsWith_append [simp]: "startsWith (p @ s) p"
  by (auto simp: startsWith_iff)

lemma startsWith_length: "startsWith s p \<Longrightarrow> length p \<le> length s"
  by (auto simp: startsWith_iff)

lemma startsWith_appendI: "startsWith s p \<Longrightarrow> startsWith (s @ t) p"
  by (auto simp: startsWith_iff)

lemma startsWith_append_long: "length p \<le> length s \<Longrightarrow> startsWith (s @ t) p \<longleftrightarrow> startsWith s p"
  by (auto simp: startsWith_def)

lemma endsWith_append [simp]: "endsWith (s @ p) p"
  by (simp add: endsWith_def)

lemma endsWith_iff: "endsWith s p \<longleftrightarrow> (\<exists>t. s = t @ p)"
proof -
  have "(\<exists>t. rev s = rev p @ t) \<longleftrightarrow> (\<exists>t. s = t @ p)"
    by (metis rev_append rev_rev_ident)
  then show ?thesis by (simp add: endsWith_def startsWith_iff)
qed

lemma rbind_simps [simp]:
  "rbind (Inl e) f = Inl e" "rbind (Inr x) f = f x"
  by (simp_all add: rbind_def)

lemma rbind_assoc: "rbind (rbind m f) g = rbind m (\<lambda>x. rbind (f x) g)"
  by (simp add: rbind_def split: sum.splits)

lemma rbind_Inr_iff: "rbind m f = Inr y \<longleftrightarrow> (\<exists>x. m = Inr x \<and> f x = Inr y)"
  by (simp add: rbind_def split: sum.splits)

lemma rmap_Inr: "(\<And>x. x \<in> set xs \<Longrightarrow> f x = Inr (g x)) \<Longrightarrow> rmap f xs = Inr (map g xs)"
  by (induction xs) auto

lemma cons_hd_ne [simp]: "cons_hd c xs \<noteq> []"
  by (cases xs) auto

lemma split_ne [simp]: "split sep s \<noteq> []"
  by (induction sep s rule: split.induct) auto

lemma cons_hd_app: "xs \<noteq> [] \<Longrightarrow> cons_hd c (xs @ ys) = cons_hd c xs @ ys"
  by (cases xs) auto

lemma split_short: "length s < length sep \<Longrightarrow> split sep s = [s]"
proof (induction sep s rule: split.induct)
  case (2 sep c s)
  then have "\<not> startsWith (c # s) sep" using startsWith_length by fastforce
  with 2 show ?case by simp
qed simp

lemma join_split: "sep \<noteq> [] \<Longrightarrow> join sep (split sep s) = s"
proof (induction sep s rule: split.induct)
  case (2 sep c s)
  have *: "join sep ([] # xs) = sep @ join sep xs" if "xs \<noteq> []" for xs
    using that by (cases xs) auto
  have **: "join sep (cons_hd c xs) = c # join sep xs" if "xs \<noteq> []" for xs
    using that by (cases xs rule: list.exhaust; cases "tl xs") auto
  show ?case
  proof (cases "startsWith (c # s) sep")
    case True
    then have "sep @ drop (length sep - 1) s = c # s"
      using 2(3) by (cases sep) (auto simp: startsWith_iff)
    then show ?thesis using 2 True by (simp add: *)
  next
    case False
    then show ?thesis using 2 by (simp add: **)
  qed
qed simp

text \<open>Splitting is incremental: the last piece, the text after it, and nothing else is split again.\<close>

lemma split_append:
  "sep \<noteq> [] \<Longrightarrow> split sep (a @ b) = butlast (split sep a) @ split sep (last (split sep a) @ b)"
proof (induction sep a rule: split.induct)
  case (1 sep)
  then show ?case by simp
next
  case (2 sep c s)
  show ?case
  proof (cases "startsWith (c # s) sep")
    case True
    then have "startsWith (c # s @ b) sep" using startsWith_appendI by fastforce
    moreover have "length sep - 1 \<le> length s" using startsWith_length [OF True] by simp
    ultimately show ?thesis using 2 True by simp
  next
    case False
    show ?thesis
    proof (cases "startsWith (c # s @ b) sep")
      case True
      then have "length (c # s) < length sep"
        using False startsWith_append_long [of sep "c # s" b] by fastforce
      then show ?thesis by (simp add: split_short del: split.simps)
    next
      case no: False
      have IH: "split sep (s @ b) = butlast (split sep s) @ split sep (last (split sep s) @ b)"
        using 2 False by simp
      show ?thesis
      proof (cases "split sep s")
        case Nil
        then show ?thesis by simp
      next
        case (Cons h t)
        show ?thesis
        proof (cases "t = []")
          case True
          have "h = s" using join_split [of sep s] 2(3) Cons True by simp
          then show ?thesis using Cons True False no by simp
        next
          case False
          then show ?thesis using Cons IH no \<open>\<not> startsWith (c # s) sep\<close> by simp
        qed
      qed
    qed
  qed
qed

lemma split_free: "c \<notin> set s \<Longrightarrow> split [c] s = [s]"
  by (induction s) auto

lemma split_free_append: "c \<notin> set s \<Longrightarrow> split [c] (s @ c # t) = s # split [c] t"
  by (induction s) auto

lemma split_join:
  "xs \<noteq> [] \<Longrightarrow> (\<And>x. x \<in> set xs \<Longrightarrow> c \<notin> set x) \<Longrightarrow> split [c] (join [c] xs) = xs"
proof (induction "[c]" xs rule: join.induct)
  case (3 x y ys)
  then show ?case by (simp add: split_free_append)
qed (auto simp: split_free)

lemma split_char_append: "split [c] (x @ c # t) = split [c] x @ split [c] t"
  by (induction x) (auto simp: cons_hd_app)

lemma split_join_concat: "xs \<noteq> [] \<Longrightarrow> split [c] (join [c] xs) = concat (map (split [c]) xs)"
proof (induction "[c]" xs rule: join.induct)
  case (3 x y ys)
  then show ?case by (simp add: split_char_append del: split.simps)
qed simp_all

lemma find_first_at: "c \<notin> set b \<Longrightarrow> find_first (c # p) (b @ (c # p) @ r) = Some (b, r)"
proof (induction b)
  case Nil
  then show ?case by (simp add: find_first.simps [of "c # p" "c # p @ r"])
next
  case (Cons x b)
  then show ?case by (auto simp: find_first.simps [of "c # p" "x # b @ c # p @ r"])
qed

lemma get_substitution_plain: "CHR ''$'' \<notin> set rep \<Longrightarrow> get_substitution m b a rep = rep"
  by (induction m b a rep rule: get_substitution.induct) auto

lemma replace_first_at:
  "c \<notin> set b \<Longrightarrow> CHR ''$'' \<notin> set rep \<Longrightarrow> replace_first (b @ (c # p) @ r) (c # p) rep = b @ rep @ r"
  unfolding replace_first_def by (subst find_first_at) (simp_all add: get_substitution_plain)

lemma digit_char [simp]: "n < 10 \<Longrightarrow> is_digit (char_of (48 + n :: nat))"
  by (simp add: is_digit_def)

lemma show_nat_digits: "c \<in> set (show_nat n) \<Longrightarrow> is_digit c"
proof (induction n rule: show_nat.induct)
  case (1 n)
  show ?case
  proof (cases "n < 10")
    case True
    then show ?thesis using 1(2) by (simp add: show_nat.simps [of n])
  next
    case False
    then show ?thesis using 1 by (auto simp: show_nat.simps [of n])
  qed
qed

lemma show_nat_ne [simp]: "show_nat n \<noteq> []"
  by (simp add: show_nat.simps)

lemma show_int_ne [simp]: "show_int i \<noteq> []"
  by (simp add: show_int_def)

lemma digits_value_snoc: "digits_value (ds @ [c]) = 10 * digits_value ds + (int (cc c) - 48)"
  by (simp add: digits_value_def)

lemma digits_value_show_nat [simp]: "digits_value (show_nat n) = int n"
proof (induction n rule: show_nat.induct)
  case (1 n)
  show ?case
  proof (cases "n < 10")
    case True
    then show ?thesis by (simp add: show_nat.simps [of n] digits_value_def)
  next
    case False
    have "int n = 10 * int (n div 10) + int (n mod 10)" by presburger
    then show ?thesis
      using 1 False by (simp add: show_nat.simps [of n] digits_value_snoc del: of_nat_mod of_nat_div)
  qed
qed

end
