(* ===== verification/Encoding.thy ===== *)
theory Encoding
  imports Prelude
begin

text \<open>
  The two percent encodings the frontend relies on: \<open>encodeURIComponent\<close>, called by the path and
  query serializers, and the \<open>application/x-www-form-urlencoded\<close> serializer of \<open>URLSearchParams\<close>,
  called by the route guards and by the body serializer of the login form. Beside them stands what
  the receiver does, the \<open>urlencoded\<close> parser of the URL standard, and the interface \<open>url_codec\<close>
  that both encodings meet: what the parser reads back is what was written.
\<close>

section \<open>Definitions\<close>

definition hex_digit :: "nat \<Rightarrow> char" where
  "hex_digit k = (if k < 10 then char_of (48 + k) else char_of (55 + k))"

definition pct :: "nat \<Rightarrow> string" where
  "pct b = [CHR ''%'', hex_digit (b div 16), hex_digit (b mod 16)]"

text \<open>The UTF-8 bytes of a code point below 256.\<close>

definition utf8 :: "char \<Rightarrow> nat list" where
  "utf8 c = (if cc c < 128 then [cc c] else [192 + cc c div 64, 128 + cc c mod 64])"

text \<open>The characters \<open>encodeURIComponent\<close> leaves alone: letters, digits and \<open>- _ . ! ~ * ' ( )\<close>.\<close>

definition uri_unreserved :: "char \<Rightarrow> bool" where
  "uri_unreserved c \<longleftrightarrow> is_letter c \<or> is_digit c \<or> cc c \<in> {45, 95, 46, 33, 126, 42, 39, 40, 41}"

definition encode_char :: "char \<Rightarrow> string" where
  "encode_char c = (if uri_unreserved c then [c] else concat (map pct (utf8 c)))"

definition encodeURIComponent :: "string \<Rightarrow> string" where
  "encodeURIComponent s = concat (map encode_char s)"

text \<open>The form serializer: a space is \<open>+\<close>; letters, digits and \<open>* - . _\<close> stay.\<close>

definition form_unreserved :: "char \<Rightarrow> bool" where
  "form_unreserved c \<longleftrightarrow> is_letter c \<or> is_digit c \<or> cc c \<in> {42, 45, 46, 95}"

definition form_char :: "char \<Rightarrow> string" where
  "form_char c =
     (if c = CHR '' '' then ''+'' else if form_unreserved c then [c] else concat (map pct (utf8 c)))"

definition form_encode :: "string \<Rightarrow> string" where
  "form_encode s = concat (map form_char s)"

definition key_value :: "string \<Rightarrow> string \<Rightarrow> string" where
  "key_value k v = k @ ''='' @ v"

text \<open>\<open>new URLSearchParams(pairs).toString()\<close>\<close>

definition search_params_string :: "(string \<times> string) list \<Rightarrow> string" where
  "search_params_string ps = join ''&'' (map (\<lambda>(k, v). key_value (form_encode k) (form_encode v)) ps)"

text \<open>The receiver: percent decoding, UTF-8 decoding of code points below 256, the urlencoded parser.\<close>

definition hex_val :: "char \<Rightarrow> nat option" where
  "hex_val c =
     (if is_digit c then Some (cc c - 48)
      else if 65 \<le> cc c \<and> cc c \<le> 70 then Some (cc c - 55)
      else if 97 \<le> cc c \<and> cc c \<le> 102 then Some (cc c - 87) else None)"

fun percent_decode :: "string \<Rightarrow> nat list" where
  "percent_decode (c # h # l # t) =
     (if c = CHR ''%'' then
        (case hex_val h of None \<Rightarrow> cc c # percent_decode (h # l # t)
         | Some a \<Rightarrow> (case hex_val l of None \<Rightarrow> cc c # percent_decode (h # l # t)
                     | Some b \<Rightarrow> (16 * a + b) # percent_decode t))
      else cc c # percent_decode (h # l # t))"
| "percent_decode (c # t) = cc c # percent_decode t"
| "percent_decode [] = []"

fun utf8_decode :: "nat list \<Rightarrow> string option" where
  "utf8_decode [] = Some []"
| "utf8_decode (b # bs) =
     (if b < 128 then map_option ((#) (char_of b)) (utf8_decode bs)
      else (case bs of [] \<Rightarrow> None
            | d # ds \<Rightarrow>
                if 194 \<le> b \<and> b \<le> 195 \<and> 128 \<le> d \<and> d < 192
                then map_option ((#) (char_of ((b - 192) * 64 + (d - 128)))) (utf8_decode ds)
                else None))"

definition form_decode :: "string \<Rightarrow> string option" where
  "form_decode s = utf8_decode (percent_decode (map (\<lambda>c. if c = CHR ''+'' then CHR '' '' else c) s))"

definition split_pair :: "string \<Rightarrow> string \<times> string" where
  "split_pair s = (takeWhile (\<lambda>c. c \<noteq> CHR ''='') s, drop 1 (dropWhile (\<lambda>c. c \<noteq> CHR ''='') s))"

fun decode_pairs :: "(string \<Rightarrow> string option) \<Rightarrow> string list \<Rightarrow> (string \<times> string) list option" where
  "decode_pairs dec [] = Some []"
| "decode_pairs dec (x # xs) =
     (if x = [] then decode_pairs dec xs
      else (case (dec (fst (split_pair x)), dec (snd (split_pair x))) of
              (Some k, Some v) \<Rightarrow> map_option ((#) (k, v)) (decode_pairs dec xs)
            | _ \<Rightarrow> None))"

definition parse_urlencoded :: "string \<Rightarrow> (string \<times> string) list option" where
  "parse_urlencoded s = decode_pairs form_decode (split ''&'' s)"

section \<open>The interface of an encoding\<close>

lemma split_pair_key_value: "CHR ''='' \<notin> set k \<Longrightarrow> split_pair (key_value k v) = (k, v)"
proof -
  assume "CHR ''='' \<notin> set k"
  then have "\<And>c. c \<in> set k \<Longrightarrow> c \<noteq> CHR ''=''" by auto
  then show ?thesis
    by (simp add: split_pair_def key_value_def takeWhile_append2 dropWhile_append2)
qed

lemma key_value_ne [simp]: "key_value k v \<noteq> []"
  by (simp add: key_value_def)

lemma decode_pairs_append:
  "decode_pairs dec xs = Some ps \<Longrightarrow> decode_pairs dec ys = Some qs \<Longrightarrow>
   decode_pairs dec (xs @ ys) = Some (ps @ qs)"
  by (induction xs arbitrary: ps) (auto split: option.splits if_splits)

lemma decode_pairs_concat:
  "(\<And>x. x \<in> set xs \<Longrightarrow> decode_pairs dec (f x) = Some (g x)) \<Longrightarrow>
   decode_pairs dec (concat (map f xs)) = Some (concat (map g xs))"
  by (induction xs) (auto intro: decode_pairs_append)

text \<open>The characters that structure a URL, a query string, a cookie or a path template.\<close>

definition url_delim :: "char \<Rightarrow> bool" where
  "url_delim c \<longleftrightarrow> c \<in> set ''&=#?/{}$;, ''"

locale url_codec =
  fixes enc :: "string \<Rightarrow> string"
    and dec :: "string \<Rightarrow> string option"
  assumes dec_enc: "dec (enc s) = Some s"
    and enc_append: "enc (s @ t) = enc s @ enc t"
    and enc_delim: "c \<in> set (enc s) \<Longrightarrow> \<not> url_delim c"
begin

lemma enc_inj: "enc s = enc t \<longleftrightarrow> s = t"
  by (metis dec_enc option.inject)

lemma enc_Nil: "enc [] = []"
  using enc_append [of "[]" "[]"] by simp

lemma enc_ne: "s \<noteq> [] \<Longrightarrow> enc s \<noteq> []"
  using enc_inj [of s "[]"] enc_Nil by simp

lemma enc_free: "url_delim c \<Longrightarrow> c \<notin> set (enc s)"
  using enc_delim by blast

lemma decode_key_value:
  assumes "dec k' = Some k" "CHR ''='' \<notin> set k'"
  shows "decode_pairs dec [key_value k' (enc v)] = Some [(k, v)]"
  using assms by (simp add: split_pair_key_value dec_enc)

lemma decode_pairs_enc:
  "decode_pairs dec (map (\<lambda>(k, v). key_value (enc k) (enc v)) ps) = Some ps"
proof (induction ps)
  case (Cons p ps)
  obtain k v where p: "p = (k, v)" by fastforce
  have "CHR ''='' \<notin> set (enc k)" by (rule enc_free) (simp add: url_delim_def)
  then show ?case using Cons p by (simp add: split_pair_key_value dec_enc)
qed simp

end

section \<open>Lemmas\<close>

lemma cc_div: "cc c div 64 < 4"
  by (rule less_mult_imp_div_less) simp

lemma hex_digit_val: "k < 16 \<Longrightarrow> hex_val (hex_digit k) = Some k"
  by (auto simp: hex_digit_def hex_val_def is_digit_def)

lemma hex_digit_alnum: "k < 16 \<Longrightarrow> is_digit (hex_digit k) \<or> is_upper (hex_digit k)"
  by (auto simp: hex_digit_def is_digit_def is_upper_def)

lemma utf8_byte: "b \<in> set (utf8 c) \<Longrightarrow> b < 256"
  using cc_div [of c] by (auto simp: utf8_def split: if_splits)

lemma utf8_decode_utf8: "utf8_decode (utf8 c @ bs) = map_option ((#) c) (utf8_decode bs)"
proof (cases "cc c < 128")
  case True
  then show ?thesis by (simp add: utf8_def)
next
  case False
  have "cc c div 64 * 64 + cc c mod 64 = cc c" by simp
  moreover have "2 \<le> cc c div 64" "cc c div 64 \<le> 3" using False cc_div [of c] by auto
  ultimately show ?thesis using False by (simp add: utf8_def)
qed

lemma alnum_cc: "is_digit c \<or> is_upper c \<Longrightarrow> cc c \<in> {48..57} \<union> {65..90}"
  by (auto simp: is_digit_def is_upper_def)

lemma pct_chars: "b < 256 \<Longrightarrow> c \<in> set (pct b) \<Longrightarrow> c = CHR ''%'' \<or> is_digit c \<or> is_upper c"
  using hex_digit_alnum [of "b div 16"] hex_digit_alnum [of "b mod 16"]
  by (auto simp: pct_def less_mult_imp_div_less)

text \<open>One percent encoding for both serializers: which characters stay is the parameter.\<close>

definition pct_char :: "(char \<Rightarrow> bool) \<Rightarrow> char \<Rightarrow> string" where
  "pct_char keep c = (if keep c then [c] else concat (map pct (utf8 c)))"

definition safe_keep :: "(char \<Rightarrow> bool) \<Rightarrow> bool" where
  "safe_keep keep \<longleftrightarrow> (\<forall>c. keep c \<longrightarrow> cc c < 128 \<and> c \<noteq> CHR ''%'' \<and> c \<noteq> CHR ''+'' \<and> \<not> url_delim c)"

lemma pct_char_delim:
  assumes "safe_keep keep" "c \<in> set (pct_char keep d)"
  shows "c \<noteq> CHR ''+'' \<and> \<not> url_delim c"
proof (cases "keep d")
  case True
  then show ?thesis using assms by (auto simp: pct_char_def safe_keep_def)
next
  case False
  then obtain b where "b \<in> set (utf8 d)" "c \<in> set (pct b)"
    using assms(2) by (auto simp: pct_char_def)
  then have "c = CHR ''%'' \<or> is_digit c \<or> is_upper c" using pct_chars utf8_byte by blast
  then show ?thesis by (auto simp: is_digit_def is_upper_def url_delim_def)
qed

lemma percent_decode_pct: "b < 256 \<Longrightarrow> percent_decode (pct b @ t) = b # percent_decode t"
  by (simp add: pct_def hex_digit_val less_mult_imp_div_less)

lemma percent_decode_pcts:
  "(\<And>b. b \<in> set bs \<Longrightarrow> b < 256) \<Longrightarrow> percent_decode (concat (map pct bs) @ t) = bs @ percent_decode t"
  by (induction bs) (auto simp: percent_decode_pct)

lemma percent_decode_plain: "c \<noteq> CHR ''%'' \<Longrightarrow> percent_decode (c # t) = cc c # percent_decode t"
  by (cases t rule: list.exhaust; cases "tl t") auto

lemma percent_decode_char:
  "safe_keep keep \<Longrightarrow> percent_decode (pct_char keep c @ t) = utf8 c @ percent_decode t"
  using percent_decode_pcts [of "utf8 c" t] utf8_byte [of _ c]
  by (auto simp: pct_char_def safe_keep_def percent_decode_plain utf8_def [of c])

lemma percent_decode_chars:
  "safe_keep keep \<Longrightarrow> percent_decode (concat (map (pct_char keep) s)) = concat (map utf8 s)"
  by (induction s) (auto simp: percent_decode_char)

lemma utf8_decode_utf8s: "utf8_decode (concat (map utf8 s)) = Some s"
  by (induction s) (auto simp: utf8_decode_utf8)

lemma encode_char_pct: "encode_char = pct_char uri_unreserved"
  by (auto simp: encode_char_def pct_char_def)

lemma uri_safe: "safe_keep uri_unreserved"
  by (auto simp: safe_keep_def uri_unreserved_def url_delim_def is_letter_def is_upper_def is_lower_def is_digit_def)

lemma form_safe: "safe_keep form_unreserved"
  by (auto simp: safe_keep_def form_unreserved_def url_delim_def is_letter_def is_upper_def is_lower_def is_digit_def)

lemma plus_id: "CHR ''+'' \<notin> set s \<Longrightarrow> map (\<lambda>c. if c = CHR ''+'' then CHR '' '' else c) s = s"
  by (induction s) auto

lemma encodeURIComponent_Nil [simp]: "encodeURIComponent [] = []"
  by (simp add: encodeURIComponent_def)

lemma encodeURIComponent_append [simp]:
  "encodeURIComponent (s @ t) = encodeURIComponent s @ encodeURIComponent t"
  by (simp add: encodeURIComponent_def)

lemma encodeURIComponent_delim:
  "c \<in> set (encodeURIComponent s) \<Longrightarrow> c \<noteq> CHR ''+'' \<and> \<not> url_delim c"
  using pct_char_delim [OF uri_safe] by (fastforce simp: encodeURIComponent_def encode_char_pct)

lemma form_decode_encodeURIComponent: "form_decode (encodeURIComponent s) = Some s"
proof -
  have "CHR ''+'' \<notin> set (encodeURIComponent s)"
    using encodeURIComponent_delim [of "CHR ''+''" s] by auto
  then have "form_decode (encodeURIComponent s) = utf8_decode (percent_decode (encodeURIComponent s))"
    by (simp add: form_decode_def plus_id)
  then show ?thesis
    by (simp add: encodeURIComponent_def encode_char_pct percent_decode_chars [OF uri_safe]
        utf8_decode_utf8s)
qed

lemma form_char_plus:
  "map (\<lambda>c. if c = CHR ''+'' then CHR '' '' else c) (form_char c) =
     (if c = CHR '' '' then '' '' else pct_char form_unreserved c)"
proof (cases "c = CHR '' ''")
  case True
  then show ?thesis by (simp add: form_char_def)
next
  case False
  then have "form_char c = pct_char form_unreserved c" by (simp add: form_char_def pct_char_def)
  moreover have "CHR ''+'' \<notin> set (pct_char form_unreserved c)"
    using pct_char_delim [OF form_safe, of "CHR ''+''" c] by auto
  ultimately show ?thesis using False plus_id by simp
qed

lemma form_decode_form_encode: "form_decode (form_encode s) = Some s"
proof -
  have "percent_decode (map (\<lambda>c. if c = CHR ''+'' then CHR '' '' else c) (form_encode s)) =
      concat (map utf8 s)"
  proof (induction s)
    case Nil
    then show ?case by (simp add: form_encode_def)
  next
    case (Cons c s)
    have "utf8 (CHR '' '') = [32]" by (simp add: utf8_def)
    then show ?case using Cons
      by (simp add: form_encode_def form_char_plus percent_decode_char [OF form_safe]
          percent_decode_plain del: map_map)
  qed
  then show ?thesis by (simp add: form_decode_def utf8_decode_utf8s)
qed

lemma form_encode_delim: "c \<in> set (form_encode s) \<Longrightarrow> \<not> url_delim c"
proof -
  assume "c \<in> set (form_encode s)"
  then obtain d where "c \<in> set (form_char d)" by (auto simp: form_encode_def)
  then consider "c = CHR ''+''" | "c \<in> set (pct_char form_unreserved d)"
    by (auto simp: form_char_def pct_char_def split: if_splits)
  then show ?thesis using pct_char_delim [OF form_safe]
    by cases (auto simp: url_delim_def)
qed

interpretation uri: url_codec encodeURIComponent form_decode
proof unfold_locales
  show "form_decode (encodeURIComponent s) = Some s" for s
    by (rule form_decode_encodeURIComponent)
  show "encodeURIComponent (s @ t) = encodeURIComponent s @ encodeURIComponent t" for s t
    by simp
  show "c \<in> set (encodeURIComponent s) \<Longrightarrow> \<not> url_delim c" for c s
    using encodeURIComponent_delim by blast
qed

interpretation form: url_codec form_encode form_decode
proof unfold_locales
  show "form_decode (form_encode s) = Some s" for s
    by (rule form_decode_form_encode)
  show "form_encode (s @ t) = form_encode s @ form_encode t" for s t
    by (simp add: form_encode_def)
  show "c \<in> set (form_encode s) \<Longrightarrow> \<not> url_delim c" for c s
    by (rule form_encode_delim)
qed

lemma search_params_roundtrip: "parse_urlencoded (search_params_string ps) = Some ps"
proof (cases "ps = []")
  case True
  then show ?thesis by (simp add: parse_urlencoded_def search_params_string_def)
next
  case False
  have "CHR ''&'' \<notin> set (form_encode s)" for s
    by (rule form.enc_free) (simp add: url_delim_def)
  then have "split ''&'' (search_params_string ps) =
      map (\<lambda>(k, v). key_value (form_encode k) (form_encode v)) ps"
    unfolding search_params_string_def using False
    by (intro split_join) (auto simp: key_value_def)
  then show ?thesis by (simp add: parse_urlencoded_def form.decode_pairs_enc)
qed

end
