(* ===== verification/JsValue.thy ===== *)
theory JsValue
  imports Encoding
begin

text \<open>
  JavaScript values as the API client meets them, and the conversions of the language it uses:
  truthiness, \<open>typeof\<close>, string conversion, \<open>Object.entries\<close> and property access. Numbers are
  integers (the API's parameters are); a date carries its ISO form and its display form; an object
  is its list of enumerable own properties in enumeration order. \<open>JObject\<close> is a plain object,
  \<open>JInstance\<close> an instance of some other class.
\<close>

datatype jsval =
    JUndefined
  | JNull
  | JBool bool
  | JNum int
  | JBigInt int
  | JStr string
  | JSymbol
  | JFunction string \<comment> \<open>with its source text\<close>
  | JDate string string \<comment> \<open>\<open>toISOString()\<close> and \<open>toString()\<close>\<close>
  | JArray "jsval list"
  | JObject "(string \<times> jsval) list"
  | JInstance "(string \<times> jsval) list"
  | JURLSearchParams "(string \<times> string) list"

type_synonym props = "(string \<times> jsval) list"

fun truthy :: "jsval \<Rightarrow> bool" where
  "truthy JUndefined = False"
| "truthy JNull = False"
| "truthy (JBool b) = b"
| "truthy (JNum n) = (n \<noteq> 0)"
| "truthy (JBigInt n) = (n \<noteq> 0)"
| "truthy (JStr s) = (s \<noteq> [])"
| "truthy _ = True"

fun nullish :: "jsval \<Rightarrow> bool" where
  "nullish JUndefined = True"
| "nullish JNull = True"
| "nullish _ = False"

fun typeof_object :: "jsval \<Rightarrow> bool" where
  "typeof_object JNull = True"
| "typeof_object (JDate _ _) = True"
| "typeof_object (JArray _) = True"
| "typeof_object (JObject _) = True"
| "typeof_object (JInstance _) = True"
| "typeof_object (JURLSearchParams _) = True"
| "typeof_object _ = False"

fun is_array :: "jsval \<Rightarrow> bool" where
  "is_array (JArray _) = True"
| "is_array _ = False"

text \<open>
  The string conversion of a template literal. An array converts as \<open>join(',')\<close>, where
  \<open>null\<close> and \<open>undefined\<close> are empty; a symbol has no string conversion.
\<close>

lemma rmap_cong [fundef_cong]:
  "xs = ys \<Longrightarrow> (\<And>x. x \<in> set ys \<Longrightarrow> f x = g x) \<Longrightarrow> rmap f xs = rmap g ys"
  by (induction xs arbitrary: ys) auto

fun to_string :: "jsval \<Rightarrow> string res" where
  "to_string JUndefined = Inr ''undefined''"
| "to_string JNull = Inr ''null''"
| "to_string (JBool b) = Inr (if b then ''true'' else ''false'')"
| "to_string (JNum n) = Inr (show_int n)"
| "to_string (JBigInt n) = Inr (show_int n)"
| "to_string (JStr s) = Inr s"
| "to_string JSymbol = Inl TypeError"
| "to_string (JFunction src) = Inr src"
| "to_string (JDate i disp) = Inr disp"
| "to_string (JArray vs) =
     rbind (rmap (\<lambda>v. if nullish v then Inr [] else to_string v) vs) (\<lambda>ss. Inr (join '','' ss))"
| "to_string (JObject es) = Inr ''[object Object]''"
| "to_string (JInstance es) = Inr ''[object Object]''"
| "to_string (JURLSearchParams ps) = Inr (search_params_string ps)"

text \<open>An element of \<open>Array.prototype.join\<close>.\<close>

definition join_elem :: "jsval \<Rightarrow> string res" where
  "join_elem v = (if nullish v then Inr [] else to_string v)"

definition array_join :: "string \<Rightarrow> jsval list \<Rightarrow> string res" where
  "array_join sep vs = rbind (rmap join_elem vs) (\<lambda>ss. Inr (join sep ss))"

text \<open>\<open>Object.entries\<close>, and \<open>for ... in\<close> over a value without inherited enumerable properties.\<close>

fun obj_entries :: "jsval \<Rightarrow> props" where
  "obj_entries (JObject es) = es"
| "obj_entries (JInstance es) = es"
| "obj_entries (JArray vs) = map (\<lambda>(i, v). (show_nat i, v)) (enumerate 0 vs)"
| "obj_entries (JStr s) = map (\<lambda>(i, c). (show_nat i, JStr [c])) (enumerate 0 s)"
| "obj_entries _ = []"

definition prop_get :: "props \<Rightarrow> string \<Rightarrow> jsval" where
  "prop_get es k = (case map_of es k of None \<Rightarrow> JUndefined | Some v \<Rightarrow> v)"

text \<open>\<open>obj[k] = v\<close>: an existing property keeps its place, a new one goes last.\<close>

fun prop_set :: "(string \<times> 'v) list \<Rightarrow> string \<Rightarrow> 'v \<Rightarrow> (string \<times> 'v) list" where
  "prop_set [] k v = [(k, v)]"
| "prop_set ((j, w) # es) k v = (if j = k then (k, v) # es else (j, w) # prop_set es k v)"

definition prop_delete :: "(string \<times> 'v) list \<Rightarrow> string \<Rightarrow> (string \<times> 'v) list" where
  "prop_delete es k = filter (\<lambda>(j, _). j \<noteq> k) es"

text \<open>Object spread \<open>{...a, ...b}\<close>.\<close>

definition spread :: "(string \<times> 'v) list \<Rightarrow> (string \<times> 'v) list \<Rightarrow> (string \<times> 'v) list" where
  "spread a b = fold (\<lambda>(k, v) es. prop_set es k v) b a"

text \<open>A primitive that a query parameter may carry.\<close>

fun primitive :: "jsval \<Rightarrow> bool" where
  "primitive (JBool _) = True"
| "primitive (JNum _) = True"
| "primitive (JBigInt _) = True"
| "primitive (JStr _) = True"
| "primitive _ = False"

section \<open>Lemmas\<close>

lemma map_of_prop_set: "map_of (prop_set es k v) = (map_of es)(k \<mapsto> v)"
  by (induction es k v rule: prop_set.induct) (auto simp: fun_eq_iff)

lemma map_of_prop_delete: "map_of (prop_delete es k) = (map_of es)(k := None)"
  by (induction es) (auto simp: prop_delete_def fun_eq_iff)

lemma prop_set_keys: "fst ` set (prop_set es k v) = insert k (fst ` set es)"
  by (induction es k v rule: prop_set.induct) auto

lemma distinct_prop_set: "distinct (map fst es) \<Longrightarrow> distinct (map fst (prop_set es k v))"
proof (induction es k v rule: prop_set.induct)
  case (2 j w es k v)
  then show ?case using prop_set_keys [of es k v] by auto
qed simp

lemma map_of_spread: "map_of (spread a b) k = (case map_of (rev b) k of None \<Rightarrow> map_of a k | Some v \<Rightarrow> Some v)"
  by (induction b arbitrary: a)
    (auto simp: spread_def map_of_prop_set map_of_append map_add_def split: option.splits)

lemma primitive_not_nullish [simp]: "primitive v \<Longrightarrow> \<not> nullish v"
  by (cases v) auto

lemma primitive_not_object [simp]: "primitive v \<Longrightarrow> \<not> typeof_object v"
  by (cases v) auto

lemma primitive_not_array [simp]: "primitive v \<Longrightarrow> \<not> is_array v"
  by (cases v) auto

lemma primitive_to_string: "primitive v \<Longrightarrow> \<exists>s. to_string v = Inr s"
  by (cases v) auto

definition prim_string :: "jsval \<Rightarrow> string" where
  "prim_string v = (case to_string v of Inr s \<Rightarrow> s | Inl _ \<Rightarrow> [])"

lemma to_string_primitive: "primitive v \<Longrightarrow> to_string v = Inr (prim_string v)"
  by (auto simp: prim_string_def dest!: primitive_to_string)

end
