(* ===== verification/PathSerializer.thy ===== *)
theory PathSerializer
  imports JsValue
begin

text \<open>
  \<^verbatim>\<open>frontend/src/lib/api/core/pathSerializer.gen.ts\<close>: how a parameter becomes the text of a URL, in
  the OpenAPI styles. A result is \<open>Inl\<close> of what the code throws or \<open>Inr\<close> of the text. An absent
  \<open>allowReserved\<close>, \<open>explode\<close> or \<open>valueOnly\<close> is falsy, so it is \<open>False\<close> here.
\<close>

section \<open>Styles and separators\<close>

datatype style = Form | SpaceDelimited | PipeDelimited | DeepObject | Label | Matrix | Simple

fun separatorArrayExplode :: "style \<Rightarrow> string" where
  "separatorArrayExplode Label = ''.''"
| "separatorArrayExplode Matrix = '';''"
| "separatorArrayExplode Simple = '',''"
| "separatorArrayExplode _ = ''&''"

fun separatorArrayNoExplode :: "style \<Rightarrow> string" where
  "separatorArrayNoExplode Form = '',''"
| "separatorArrayNoExplode PipeDelimited = ''|''"
| "separatorArrayNoExplode SpaceDelimited = ''%20''"
| "separatorArrayNoExplode _ = '',''"

fun separatorObjectExplode :: "style \<Rightarrow> string" where
  "separatorObjectExplode Label = ''.''"
| "separatorObjectExplode Matrix = '';''"
| "separatorObjectExplode Simple = '',''"
| "separatorObjectExplode _ = ''&''"

section \<open>Serializers\<close>

definition encode_value :: "jsval \<Rightarrow> string res" where
  "encode_value v = rbind (to_string v) (\<lambda>s. Inr (encodeURIComponent s))"

definition serializePrimitiveParam :: "bool \<Rightarrow> string \<Rightarrow> jsval \<Rightarrow> string res" where
  "serializePrimitiveParam allowReserved name v =
     (if nullish v then Inr []
      else if typeof_object v then Inl DeepNesting
      else rbind (if allowReserved then to_string v else encode_value v)
             (\<lambda>s. Inr (name @ ''='' @ s)))"

definition serializeArrayParam ::
  "bool \<Rightarrow> bool \<Rightarrow> string \<Rightarrow> style \<Rightarrow> jsval list \<Rightarrow> string res" where
  "serializeArrayParam allowReserved explode name st value =
     (if \<not> explode then
        rbind (rmap (if allowReserved then join_elem else encode_value) value) (\<lambda>items.
          let joinedValues = join (separatorArrayNoExplode st) items in
          (case st of
             Label \<Rightarrow> Inr (''.'' @ joinedValues)
           | Matrix \<Rightarrow> Inr ('';'' @ name @ ''='' @ joinedValues)
           | Simple \<Rightarrow> Inr joinedValues
           | _ \<Rightarrow> Inr (name @ ''='' @ joinedValues)))
      else
        let separator = separatorArrayExplode st in
        rbind (rmap (\<lambda>v. if st = Label \<or> st = Simple
                          then (if allowReserved then join_elem v else encode_value v)
                          else serializePrimitiveParam allowReserved name v) value) (\<lambda>items.
          let joinedValues = join separator items in
          Inr (if st = Label \<or> st = Matrix then separator @ joinedValues else joinedValues)))"

definition serializeObjectParam ::
  "bool \<Rightarrow> bool \<Rightarrow> string \<Rightarrow> style \<Rightarrow> jsval \<Rightarrow> bool \<Rightarrow> string res" where
  "serializeObjectParam allowReserved explode name st value valueOnly =
     (case value of
        JDate isoString _ \<Rightarrow> Inr (if valueOnly then isoString else name @ ''='' @ isoString)
      | _ \<Rightarrow>
        if st \<noteq> DeepObject \<and> \<not> explode then
          rbind (rmap (\<lambda>(key, v). rbind (if allowReserved then join_elem v else encode_value v)
                                         (\<lambda>s. Inr [key, s])) (obj_entries value)) (\<lambda>values.
            let joinedValues = join '','' (concat values) in
            (case st of
               Form \<Rightarrow> Inr (name @ ''='' @ joinedValues)
             | Label \<Rightarrow> Inr (''.'' @ joinedValues)
             | Matrix \<Rightarrow> Inr ('';'' @ name @ ''='' @ joinedValues)
             | _ \<Rightarrow> Inr joinedValues))
        else
          let separator = separatorObjectExplode st in
          rbind (rmap (\<lambda>(key, v).
                   serializePrimitiveParam allowReserved
                     (if st = DeepObject then name @ ''['' @ key @ '']'' else key) v)
                 (obj_entries value)) (\<lambda>items.
            let joinedValues = join separator items in
            Inr (if st = Label \<or> st = Matrix then separator @ joinedValues else joinedValues)))"

section \<open>Lemmas\<close>

lemma encode_value_primitive:
  "primitive v \<Longrightarrow> encode_value v = Inr (encodeURIComponent (prim_string v))"
  by (simp add: encode_value_def to_string_primitive)

lemma serializePrimitiveParam_primitive:
  "primitive v \<Longrightarrow>
   serializePrimitiveParam False name v = Inr (key_value name (encodeURIComponent (prim_string v)))"
  by (simp add: serializePrimitiveParam_def encode_value_primitive key_value_def)

lemma serializePrimitiveParam_nullish [simp]:
  "nullish v \<Longrightarrow> serializePrimitiveParam ar name v = Inr []"
  by (simp add: serializePrimitiveParam_def)

lemma serializePrimitiveParam_object:
  "typeof_object v \<Longrightarrow> v \<noteq> JNull \<Longrightarrow> serializePrimitiveParam ar name v = Inl DeepNesting"
  by (cases v) (auto simp: serializePrimitiveParam_def)

text \<open>
  The serializers write names as they are. A name survives when it is ASCII and holds none of
  \<open>%\<close>, \<open>+\<close>, \<open>&\<close>, \<open>=\<close>, \<open>?\<close> and \<open>#\<close>, such as every parameter name of the API and its \<open>name[key]\<close> forms.
\<close>

definition query_char :: "char \<Rightarrow> bool" where
  "query_char c \<longleftrightarrow> cc c < 128 \<and> c \<notin> set ''%+&=?#''"

definition query_name :: "string \<Rightarrow> bool" where
  "query_name k \<longleftrightarrow> list_all query_char k"

lemma query_name_append [simp]: "query_name (j @ k) \<longleftrightarrow> query_name j \<and> query_name k"
  by (simp add: query_name_def)

lemma query_name_free:
  "query_name k \<Longrightarrow> CHR ''&'' \<notin> set k" "query_name k \<Longrightarrow> CHR ''='' \<notin> set k"
  "query_name k \<Longrightarrow> CHR ''?'' \<notin> set k" "query_name k \<Longrightarrow> CHR ''#'' \<notin> set k"
  by (auto simp: query_name_def query_char_def list_all_iff)

lemma query_name_dec: "query_name k \<Longrightarrow> form_decode k = Some k"
proof -
  assume k: "query_name k"
  have "CHR ''+'' \<notin> set k" using k by (auto simp: query_name_def query_char_def list_all_iff)
  moreover have "utf8_decode (percent_decode k) = Some k"
    using k by (induction k) (auto simp: query_name_def query_char_def percent_decode_plain)
  ultimately show ?thesis by (simp add: form_decode_def plus_id)
qed

text \<open>What the receiver reads from one serialized primitive.\<close>

definition param_pairs :: "string \<Rightarrow> jsval \<Rightarrow> (string \<times> string) list" where
  "param_pairs name v = (if nullish v then [] else [(name, prim_string v)])"

lemma split_amp_key_value:
  assumes "query_name k"
  shows "split ''&'' (key_value k (encodeURIComponent v)) = [key_value k (encodeURIComponent v)]"
proof (rule split_free)
  have "CHR ''&'' \<notin> set k" using assms by (rule query_name_free)
  moreover have "CHR ''&'' \<notin> set (encodeURIComponent v)"
    by (rule uri.enc_free) (simp add: url_delim_def)
  ultimately show "CHR ''&'' \<notin> set (key_value k (encodeURIComponent v))"
    by (simp add: key_value_def)
qed

text \<open>
  A text reads as a list of pairs when the urlencoded parser returns them and the text neither
  starts a query nor a fragment of its own.
\<close>

definition reads_as :: "string \<Rightarrow> (string \<times> string) list \<Rightarrow> bool" where
  "reads_as s ps \<longleftrightarrow> parse_urlencoded s = Some ps \<and> CHR ''?'' \<notin> set s \<and> CHR ''#'' \<notin> set s"

lemma reads_as_Nil [simp]: "reads_as [] ps \<longleftrightarrow> ps = []"
  by (auto simp: reads_as_def parse_urlencoded_def)

lemma reads_as_primitive:
  assumes "query_name name" and "nullish v \<or> primitive v"
  shows "\<exists>s. serializePrimitiveParam False name v = Inr s \<and> reads_as s (param_pairs name v)"
proof (cases "nullish v")
  case True
  then show ?thesis by (simp add: param_pairs_def)
next
  case False
  then have prim: "primitive v" using assms(2) by simp
  let ?e = "encodeURIComponent (prim_string v)"
  have "CHR ''='' \<notin> set name" using assms(1) by (rule query_name_free)
  then have "decode_pairs form_decode [key_value name ?e] = Some [(name, prim_string v)]"
    using uri.decode_key_value query_name_dec [OF assms(1)] by blast
  then have "parse_urlencoded (key_value name ?e) = Some [(name, prim_string v)]"
    using split_amp_key_value [OF assms(1)] by (simp add: parse_urlencoded_def del: decode_pairs.simps split.simps)
  moreover have "CHR ''?'' \<notin> set ?e" "CHR ''#'' \<notin> set ?e"
    by (rule uri.enc_free, simp add: url_delim_def)+
  ultimately show ?thesis using prim False query_name_free(3,4) [OF assms(1)]
    by (simp add: serializePrimitiveParam_primitive param_pairs_def reads_as_def key_value_def)
qed

lemma set_join: "set (join sep xs) \<subseteq> set sep \<union> (\<Union>x \<in> set xs. set x)"
  by (induction sep xs rule: join.induct) auto

lemma reads_as_join:
  assumes "\<And>x. x \<in> set xs \<Longrightarrow> reads_as (f x) (g x)"
  shows "reads_as (join ''&'' (map f xs)) (concat (map g xs))"
proof (cases "xs = []")
  case False
  then have "split ''&'' (join ''&'' (map f xs)) = concat (map (\<lambda>x. split ''&'' (f x)) xs)"
    by (subst split_join_concat) (auto simp: comp_def)
  moreover have "decode_pairs form_decode (concat (map (\<lambda>x. split ''&'' (f x)) xs)) =
      Some (concat (map g xs))"
    using assms by (intro decode_pairs_concat) (simp add: reads_as_def parse_urlencoded_def)
  ultimately show ?thesis
    using assms set_join [of "''&''" "map f xs"] by (fastforce simp: reads_as_def parse_urlencoded_def)
qed simp

lemma reads_as_append:
  assumes "reads_as s ps" "reads_as (join ''&'' ss) qs"
  shows "reads_as (join ''&'' (s # ss)) (ps @ qs)"
proof (cases "ss = []")
  case True
  then show ?thesis using assms by simp
next
  case False
  then have eq: "join ''&'' (s # ss) = s @ CHR ''&'' # join ''&'' ss" by (cases ss) auto
  then show ?thesis using assms
    by (simp add: reads_as_def parse_urlencoded_def split_char_append decode_pairs_append
        del: split.simps)
qed

lemma reads_as_rmap:
  assumes "\<And>x. x \<in> set xs \<Longrightarrow> \<exists>s. f x = Inr s \<and> reads_as s (g x)"
  shows "\<exists>ss. rmap f xs = Inr ss \<and> reads_as (join ''&'' ss) (concat (map g xs))"
proof -
  obtain h where h: "\<And>x. x \<in> set xs \<Longrightarrow> f x = Inr (h x) \<and> reads_as (h x) (g x)"
    using assms by metis
  then have "rmap f xs = Inr (map h xs)" by (intro rmap_Inr) auto
  then show ?thesis using h reads_as_join [of xs h g] by blast
qed

end
