(* ===== verification/UrlBuilder.thy ===== *)
theory UrlBuilder
  imports PathSerializer
begin

text \<open>
  Building a request's URL and body: \<^verbatim>\<open>frontend/src/lib/api/core/utils.gen.ts\<close> and the query
  serializer of \<^verbatim>\<open>frontend/src/lib/api/client/utils.gen.ts\<close>. The lemmas relate the code, which
  searches and replaces in the URL text, to a template of literals and parameters, and show that a
  receiver reads back the query that was sent.
\<close>

section \<open>Path parameters\<close>

definition brace_free :: "char \<Rightarrow> bool" where
  "brace_free c \<longleftrightarrow> c \<noteq> CHR ''{'' \<and> c \<noteq> CHR ''}''"

text \<open>\<open>url.match(PATH_PARAM_RE)\<close> for \<^verbatim>\<open>/\{[^{}]+\}/g\<close>: the matches from left to right.\<close>

function path_matches :: "string \<Rightarrow> string list" where
  "path_matches [] = []"
| "path_matches (c # s) =
     (if c = CHR ''{'' \<and> takeWhile brace_free s \<noteq> [] \<and> startsWith (dropWhile brace_free s) ''}''
      then (''{'' @ takeWhile brace_free s @ ''}'') # path_matches (tl (dropWhile brace_free s))
      else path_matches s)"
  by pat_completeness auto
termination
  by (relation "measure length") (auto simp: le_imp_less_Suc length_dropWhile_le le_trans [OF diff_le_self])

text \<open>A match \<open>{name}\<close> is read into its explode flag, its name and its style.\<close>

definition path_param :: "string \<Rightarrow> bool \<times> string \<times> style" where
  "path_param m =
     (let name = butlast (tl m);
          explode = endsWith name ''*'';
          name = (if explode then butlast name else name)
      in if startsWith name ''.'' then (explode, tl name, Label)
         else if startsWith name '';'' then (explode, tl name, Matrix)
         else (explode, name, Simple))"

definition substitute_param :: "props \<Rightarrow> string \<Rightarrow> string \<Rightarrow> string res" where
  "substitute_param path m url =
     (case path_param m of (explode, name, st) \<Rightarrow>
        let value = prop_get path name in
        if nullish value then Inr url
        else (case value of
                JArray vs \<Rightarrow>
                  rbind (serializeArrayParam False explode name st vs)
                    (\<lambda>r. Inr (replace_first url m r))
              | _ \<Rightarrow>
                  if typeof_object value then
                    rbind (serializeObjectParam False explode name st value True)
                      (\<lambda>r. Inr (replace_first url m r))
                  else if st = Matrix then
                    rbind (serializePrimitiveParam False name value)
                      (\<lambda>r. Inr (replace_first url m ('';'' @ r)))
                  else
                    rbind (to_string value) (\<lambda>s.
                      Inr (replace_first url m
                        (encodeURIComponent (if st = Label then ''.'' @ s else s))))))"

fun substitute_params :: "props \<Rightarrow> string list \<Rightarrow> string \<Rightarrow> string res" where
  "substitute_params path [] url = Inr url"
| "substitute_params path (m # ms) url =
     rbind (substitute_param path m url) (substitute_params path ms)"

definition defaultPathSerializer :: "props \<Rightarrow> string \<Rightarrow> string res" where
  "defaultPathSerializer path url = substitute_params path (path_matches url) url"

section \<open>Query parameters\<close>

record serializer_options =
  so_explode :: "bool option"
  so_style :: "style option"

record query_object_options =
  qo_allowReserved :: bool
  qo_array :: serializer_options
  qo_object :: serializer_options

record query_options =
  qs_args :: query_object_options
  qs_parameters :: "(string \<times> query_object_options) list"

definition no_serializer_options :: serializer_options where
  "no_serializer_options = \<lparr>so_explode = None, so_style = None\<rparr>"

definition or_default :: "'a option \<Rightarrow> 'a \<Rightarrow> 'a" where
  "or_default m d = (case m of None \<Rightarrow> d | Some x \<Rightarrow> x)"

definition serialize_query_value ::
  "query_object_options \<Rightarrow> string \<Rightarrow> jsval \<Rightarrow> string res" where
  "serialize_query_value options name value =
     (case value of
        JArray vs \<Rightarrow>
          serializeArrayParam (qo_allowReserved options)
            (or_default (so_explode (qo_array options)) True) name
            (or_default (so_style (qo_array options)) Form) vs
      | _ \<Rightarrow>
          if typeof_object value then
            serializeObjectParam (qo_allowReserved options)
              (or_default (so_explode (qo_object options)) True) name
              (or_default (so_style (qo_object options)) DeepObject) value False
          else serializePrimitiveParam (qo_allowReserved options) name value)"

fun serialize_entries :: "query_options \<Rightarrow> props \<Rightarrow> string list res" where
  "serialize_entries opts [] = Inr []"
| "serialize_entries opts ((name, value) # es) =
     (if nullish value then serialize_entries opts es
      else
        let options = (case map_of (qs_parameters opts) name of
                         Some per_parameter \<Rightarrow> per_parameter | None \<Rightarrow> qs_args opts) in
        rbind (serialize_query_value options name value) (\<lambda>s.
          rbind (serialize_entries opts es) (\<lambda>search.
            Inr (if s \<noteq> [] then s # search else search))))"

definition createQuerySerializer :: "query_options \<Rightarrow> jsval \<Rightarrow> string res" where
  "createQuerySerializer opts queryParams =
     (if truthy queryParams \<and> typeof_object queryParams
      then rbind (serialize_entries opts (obj_entries queryParams)) (\<lambda>search. Inr (join ''&'' search))
      else Inr [])"

definition default_query_options :: query_options where
  "default_query_options =
     \<lparr>qs_args = \<lparr>qo_allowReserved = False,
                  qo_array = \<lparr>so_explode = Some True, so_style = Some Form\<rparr>,
                  qo_object = \<lparr>so_explode = Some True, so_style = Some DeepObject\<rparr>\<rparr>,
      qs_parameters = []\<rparr>"

definition defaultQuerySerializer :: "jsval \<Rightarrow> string res" where
  "defaultQuerySerializer = createQuerySerializer default_query_options"

section \<open>The URL and the body\<close>

definition getUrl ::
  "string option \<Rightarrow> props option \<Rightarrow> jsval \<Rightarrow> (jsval \<Rightarrow> string res) \<Rightarrow> string \<Rightarrow> string res" where
  "getUrl baseUrl path query querySerializer url0 =
     (let pathUrl = (if startsWith url0 ''/'' then url0 else ''/'' @ url0);
          url = or_default baseUrl [] @ pathUrl
      in rbind (case path of None \<Rightarrow> Inr url | Some p \<Rightarrow> defaultPathSerializer p url) (\<lambda>url.
         rbind (if truthy query then querySerializer query else Inr []) (\<lambda>search.
           let search = (if startsWith search ''?'' then tl search else search) in
           Inr (if search \<noteq> [] then url @ ''?'' @ search else url))))"

datatype query_serializer = QSFunction "jsval \<Rightarrow> string res" | QSOptions query_options

definition buildUrl ::
  "string option \<Rightarrow> props option \<Rightarrow> jsval \<Rightarrow> query_serializer \<Rightarrow> string \<Rightarrow> string res" where
  "buildUrl baseUrl path query querySerializer url =
     getUrl baseUrl path query
       (case querySerializer of QSFunction f \<Rightarrow> f | QSOptions opts \<Rightarrow> createQuerySerializer opts) url"

text \<open>
  \<open>getValidRequestBody\<close>: the body, whether the client has a body serializer, and the serialized body
  when the options carry that property (\<open>None\<close> when they do not).
\<close>

definition getValidRequestBody :: "jsval \<Rightarrow> bool \<Rightarrow> jsval option \<Rightarrow> jsval" where
  "getValidRequestBody body hasSerializer serializedBody =
     (let hasBody = (body \<noteq> JUndefined) in
      if hasBody \<and> hasSerializer then
        (case serializedBody of
           Some sb \<Rightarrow> if sb \<noteq> JUndefined \<and> sb \<noteq> JStr [] then sb else JNull
         | None \<Rightarrow> if body \<noteq> JStr [] then body else JNull)
      else if hasBody then body else JUndefined)"

section \<open>Templates\<close>

datatype path_token = Lit string | Param string

definition token_text :: "path_token \<Rightarrow> string" where
  "token_text t = (case t of Lit s \<Rightarrow> s | Param n \<Rightarrow> ''{'' @ n @ ''}'')"

definition render :: "path_token list \<Rightarrow> string" where
  "render ts = concat (map token_text ts)"

definition plain_param :: "string \<Rightarrow> bool" where
  "plain_param n \<longleftrightarrow> n \<noteq> [] \<and> list_all brace_free n \<and> \<not> endsWith n ''*'' \<and>
     \<not> startsWith n ''.'' \<and> \<not> startsWith n '';''"

definition template_ok :: "path_token list \<Rightarrow> bool" where
  "template_ok ts \<longleftrightarrow> list_all (\<lambda>t. case t of Lit s \<Rightarrow> list_all brace_free s | Param n \<Rightarrow> plain_param n) ts"

definition token_value :: "props \<Rightarrow> path_token \<Rightarrow> string" where
  "token_value path t =
     (case t of Lit s \<Rightarrow> s | Param n \<Rightarrow> encodeURIComponent (prim_string (prop_get path n)))"

definition instantiate :: "props \<Rightarrow> path_token list \<Rightarrow> string" where
  "instantiate path ts = concat (map (token_value path) ts)"

definition params_of :: "path_token list \<Rightarrow> string list" where
  "params_of ts = concat (map (\<lambda>t. case t of Lit _ \<Rightarrow> [] | Param n \<Rightarrow> [n]) ts)"

lemma path_matches_free: "list_all brace_free s \<Longrightarrow> path_matches (s @ t) = path_matches t"
  by (induction s) (auto simp: brace_free_def)

lemma takeWhile_brace: "list_all brace_free n \<Longrightarrow> takeWhile brace_free (n @ CHR ''}'' # t) = n"
  "list_all brace_free n \<Longrightarrow> dropWhile brace_free (n @ CHR ''}'' # t) = CHR ''}'' # t"
  by (induction n) (auto simp: brace_free_def)

lemma path_matches_param:
  "plain_param n \<Longrightarrow> path_matches (''{'' @ n @ ''}'' @ t) = (''{'' @ n @ ''}'') # path_matches t"
  by (simp add: plain_param_def takeWhile_brace)

lemma path_matches_render:
  "template_ok ts \<Longrightarrow> path_matches (render ts) = map (\<lambda>n. ''{'' @ n @ ''}'') (params_of ts)"
proof (induction ts)
  case Nil
  then show ?case by (simp add: render_def params_of_def)
next
  case (Cons t ts)
  then show ?case
    using path_matches_param [of _ "render ts"] path_matches_free [of _ "render ts"]
    by (cases t) (simp_all add: render_def params_of_def template_ok_def token_text_def del: path_matches.simps)
qed

lemma path_param_plain: "plain_param n \<Longrightarrow> path_param (''{'' @ n @ ''}'') = (False, n, Simple)"
  by (simp add: path_param_def plain_param_def)

lemma substitute_param_plain:
  assumes "plain_param n" "primitive (prop_get path n)" "CHR ''{'' \<notin> set b"
  shows "substitute_param path (''{'' @ n @ ''}'') (b @ ''{'' @ n @ ''}'' @ r) =
           Inr (b @ encodeURIComponent (prim_string (prop_get path n)) @ r)"
proof -
  let ?e = "encodeURIComponent (prim_string (prop_get path n))"
  have "CHR ''$'' \<notin> set ?e" by (rule uri.enc_free) (simp add: url_delim_def)
  then have *: "replace_first (b @ ''{'' @ n @ ''}'' @ r) (''{'' @ n @ ''}'') ?e = b @ ?e @ r"
    using replace_first_at [OF assms(3), of ?e "n @ ''}''" r] by simp
  show ?thesis
  proof (cases "prop_get path n")
  qed (use assms(2) * in \<open>simp_all add: substitute_param_def path_param_plain [OF assms(1), simplified] prim_string_def\<close>)
qed

lemma instantiate_Cons: "instantiate path (t # ts) = token_value path t @ instantiate path ts"
  by (simp add: instantiate_def)

lemma render_Cons: "render (t # ts) = token_text t @ render ts"
  by (simp add: render_def)

lemma substitute_params_render:
  assumes "template_ok ts" "\<And>n. n \<in> set (params_of ts) \<Longrightarrow> primitive (prop_get path n)"
    "CHR ''{'' \<notin> set b"
  shows "substitute_params path (map (\<lambda>n. ''{'' @ n @ ''}'') (params_of ts)) (b @ render ts) =
           Inr (b @ instantiate path ts)"
  using assms
proof (induction ts arbitrary: b)
  case Nil
  then show ?case by (simp add: render_def params_of_def instantiate_def)
next
  case (Cons t ts)
  have ok: "template_ok ts" using Cons.prems(1) by (simp add: template_ok_def)
  show ?case
  proof (cases t)
    case (Lit s)
    then have "CHR ''{'' \<notin> set (b @ s)"
      using Cons.prems by (auto simp: template_ok_def list_all_iff brace_free_def)
    then have "substitute_params path (map (\<lambda>n. ''{'' @ n @ ''}'') (params_of ts)) ((b @ s) @ render ts) =
        Inr ((b @ s) @ instantiate path ts)"
      using Cons.prems(2) Lit by (intro Cons.IH [OF ok]) (auto simp: params_of_def)
    then show ?thesis using Lit
      by (simp add: render_Cons instantiate_Cons token_text_def token_value_def params_of_def)
  next
    case (Param n)
    let ?e = "encodeURIComponent (prim_string (prop_get path n))"
    have n: "plain_param n" "primitive (prop_get path n)"
      using Cons.prems(1,2) Param by (auto simp: template_ok_def params_of_def)
    have "CHR ''{'' \<notin> set ?e" by (rule uri.enc_free) (simp add: url_delim_def)
    then have "substitute_params path (map (\<lambda>n. ''{'' @ n @ ''}'') (params_of ts)) ((b @ ?e) @ render ts) =
        Inr ((b @ ?e) @ instantiate path ts)"
      using Cons.prems(2,3) Param by (intro Cons.IH [OF ok]) (auto simp: params_of_def)
    then show ?thesis
      using Param substitute_param_plain [OF n Cons.prems(3), of "render ts"]
      by (simp add: render_Cons instantiate_Cons token_text_def token_value_def params_of_def)
  qed
qed

section \<open>Queries\<close>

definition scalar :: "jsval \<Rightarrow> bool" where
  "scalar v \<longleftrightarrow> nullish v \<or> primitive v"

fun sendable :: "jsval \<Rightarrow> bool" where
  "sendable (JArray vs) = list_all scalar vs"
| "sendable (JObject es) = list_all (\<lambda>(k, v). query_name k \<and> scalar v) es"
| "sendable v = scalar v"

fun value_pairs :: "string \<Rightarrow> jsval \<Rightarrow> (string \<times> string) list" where
  "value_pairs name (JArray vs) = concat (map (param_pairs name) vs)"
| "value_pairs name (JObject es) =
     concat (map (\<lambda>(k, v). param_pairs (name @ ''['' @ k @ '']'') v) es)"
| "value_pairs name v = param_pairs name v"

definition query_pairs :: "props \<Rightarrow> (string \<times> string) list" where
  "query_pairs q = concat (map (\<lambda>(name, v). value_pairs name v) q)"

lemma reads_as_array:
  assumes "query_name name" "list_all scalar vs"
  shows "\<exists>s. serializeArrayParam False True name Form vs = Inr s \<and>
             reads_as s (concat (map (param_pairs name) vs))"
proof -
  have "\<exists>ss. rmap (serializePrimitiveParam False name) vs = Inr ss \<and>
      reads_as (join ''&'' ss) (concat (map (param_pairs name) vs))"
    using assms by (intro reads_as_rmap reads_as_primitive) (auto simp: list_all_iff scalar_def)
  then show ?thesis by (auto simp: serializeArrayParam_def)
qed

lemma reads_as_object:
  assumes "query_name name" "list_all (\<lambda>(k, v). query_name k \<and> scalar v) es"
  shows "\<exists>s. serializeObjectParam False True name DeepObject (JObject es) False = Inr s \<and>
             reads_as s (value_pairs name (JObject es))"
proof -
  let ?f = "\<lambda>(key, v). serializePrimitiveParam False (name @ ''['' @ key @ '']'') v"
  have br: "query_name ''[''" "query_name '']''" by (simp_all add: query_name_def query_char_def)
  have "\<exists>s. ?f x = Inr s \<and> reads_as s ((\<lambda>(k, v). param_pairs (name @ ''['' @ k @ '']'') v) x)"
    if "x \<in> set es" for x
  proof (cases x)
    case (Pair k v)
    then have "query_name (name @ ''['' @ k @ '']'')" "nullish v \<or> primitive v"
      using assms that br by (auto simp: list_all_iff scalar_def query_name_append simp del: append_Cons append_Nil)
    then show ?thesis using reads_as_primitive Pair by simp
  qed
  from reads_as_rmap [of es ?f, OF this] show ?thesis
    by (auto simp: serializeObjectParam_def)
qed

lemma serialize_query_value_parse:
  assumes "query_name name" "sendable v" "\<not> nullish v"
  shows "\<exists>s. serialize_query_value (qs_args default_query_options) name v = Inr s \<and>
             reads_as s (value_pairs name v)"
  using assms reads_as_array [of name] reads_as_object [of name] reads_as_primitive [of name v]
  by (cases v) (auto simp: serialize_query_value_def default_query_options_def or_default_def scalar_def)

lemma serialize_entries_parse:
  assumes "\<forall>(name, v) \<in> set q. query_name name \<and> sendable v"
  shows "\<exists>ss. serialize_entries default_query_options q = Inr ss \<and>
              reads_as (join ''&'' ss) (query_pairs q) \<and> [] \<notin> set ss"
  using assms
proof (induction q)
  case Nil
  then show ?case by (simp add: query_pairs_def)
next
  case (Cons e q)
  obtain name v where e: "e = (name, v)" by fastforce
  obtain ss where ss: "serialize_entries default_query_options q = Inr ss"
    "reads_as (join ''&'' ss) (query_pairs q)" "[] \<notin> set ss"
    using Cons by auto
  show ?case
  proof (cases "nullish v")
    case True
    then have "value_pairs name v = []" by (cases v) (auto simp: param_pairs_def)
    then show ?thesis using e ss True by (simp add: query_pairs_def)
  next
    case False
    obtain s where s: "serialize_query_value (qs_args default_query_options) name v = Inr s"
      "reads_as s (value_pairs name v)"
      using serialize_query_value_parse [of name v] Cons.prems e False by auto
    have "reads_as (join ''&'' (s # ss)) (value_pairs name v @ query_pairs q)"
      using s(2) ss(2) by (rule reads_as_append)
    moreover have "value_pairs name v = []" if "s = []"
      using s(2) that by simp
    ultimately show ?thesis using e ss s False
      by (auto simp: query_pairs_def default_query_options_def)
  qed
qed

lemma defaultQuerySerializer_parse:
  assumes "\<forall>(name, v) \<in> set q. query_name name \<and> sendable v"
  shows "\<exists>s. defaultQuerySerializer (JObject q) = Inr s \<and> reads_as s (query_pairs q)"
  using serialize_entries_parse [OF assms]
  by (auto simp: defaultQuerySerializer_def createQuerySerializer_def)


section \<open>Properties\<close>

definition literal_text :: "path_token list \<Rightarrow> string" where
  "literal_text ts = concat (map (\<lambda>t. case t of Lit s \<Rightarrow> s | Param _ \<Rightarrow> []) ts)"

lemma count_list_enc: "url_delim c \<Longrightarrow> count_list (encodeURIComponent s) c = 0"
  by (simp add: uri.enc_free)

lemma instantiate_delims:
  "url_delim c \<Longrightarrow> count_list (instantiate path ts) c = count_list (literal_text ts) c"
proof (induction ts)
  case (Cons t ts)
  then show ?case
    by (cases t) (simp_all add: instantiate_def literal_text_def token_value_def count_list_enc)
qed (simp add: instantiate_def literal_text_def)

lemma instantiate_free: "url_delim c \<Longrightarrow> c \<notin> set (literal_text ts) \<Longrightarrow> c \<notin> set (instantiate path ts)"
  using instantiate_delims [of c path ts] by (metis count_list_0_iff)

lemma defaultPathSerializer_render:
  assumes "template_ok ts" and "\<forall>n \<in> set (params_of ts). primitive (prop_get path n)"
  shows "defaultPathSerializer path (render ts) = Inr (instantiate path ts)"
  using substitute_params_render [OF assms(1), of path "[]"] assms
  by (simp add: defaultPathSerializer_def path_matches_render)

lemma instantiate_literal: "params_of ts = [] \<Longrightarrow> instantiate path ts = render ts"
  by (induction ts)
    (auto simp: params_of_def instantiate_def render_def token_value_def token_text_def split: path_token.splits)

text \<open>
  C1: for a path template of literals and parameter names, searching and replacing in the URL text
  gives the template with every parameter replaced by its percent-encoded value, and the values add
  no delimiter: no slash, question mark, hash or brace beyond those of the literals.
\<close>

theorem defaultPathSerializer_template:
  assumes "template_ok ts" and "\<forall>n \<in> set (params_of ts). primitive (prop_get path n)"
  shows "defaultPathSerializer path (render ts) = Inr (instantiate path ts) \<and>
         (\<forall>c. url_delim c \<longrightarrow> count_list (instantiate path ts) c = count_list (literal_text ts) c)"
  using defaultPathSerializer_render [OF assms] instantiate_delims by blast

theorem defaultPathSerializer_template_witness:
  "defaultPathSerializer [(''id'', JStr ''a/b'')] ''/x/{id}/y'' = Inr ''/x/a%2Fb/y''"
proof -
  let ?ts = "[Lit ''/x/'', Param ''id'', Lit ''/y'']"
  have "template_ok ?ts" "\<forall>n \<in> set (params_of ?ts). primitive (prop_get [(''id'', JStr ''a/b'')] n)"
    by code_simp+
  from defaultPathSerializer_template [OF this]
  have "defaultPathSerializer [(''id'', JStr ''a/b'')] (render ?ts) =
      Inr (instantiate [(''id'', JStr ''a/b'')] ?ts)" by blast
  moreover have "render ?ts = ''/x/{id}/y''" "instantiate [(''id'', JStr ''a/b'')] ?ts = ''/x/a%2Fb/y''"
    by code_simp+
  ultimately show ?thesis by simp
qed

text \<open>The two halves of a URL at its first question mark.\<close>

definition url_path :: "string \<Rightarrow> string" where
  "url_path u = takeWhile (\<lambda>c. c \<noteq> CHR ''?'') u"

definition url_search :: "string \<Rightarrow> string" where
  "url_search u = drop 1 (dropWhile (\<lambda>c. c \<noteq> CHR ''?'') u)"

lemma url_halves:
  assumes "CHR ''?'' \<notin> set p"
  shows "url_path p = p" "url_search p = []"
    "url_path (p @ ''?'' @ s) = p" "url_search (p @ ''?'' @ s) = s"
proof -
  have *: "\<And>c. c \<in> set p \<Longrightarrow> c \<noteq> CHR ''?''" using assms by auto
  then have d: "dropWhile (\<lambda>c. c \<noteq> CHR ''?'') p = []" by simp
  from * show "url_path p = p" "url_search p = []"
    "url_path (p @ ''?'' @ s) = p" "url_search (p @ ''?'' @ s) = s"
    by (simp_all add: url_path_def url_search_def takeWhile_append2 dropWhile_append2 d)
qed

text \<open>An absent path or query is an empty record.\<close>

definition record_of :: "props option \<Rightarrow> props" where
  "record_of m = (case m of None \<Rightarrow> [] | Some es \<Rightarrow> es)"

definition query_value :: "props option \<Rightarrow> jsval" where
  "query_value q = (case q of None \<Rightarrow> JUndefined | Some es \<Rightarrow> JObject es)"

lemma buildUrl_reads:
  assumes "template_ok (Lit base # Lit (''/'' @ first) # ts)"
    and "CHR ''?'' \<notin> set (literal_text (Lit base # Lit (''/'' @ first) # ts))"
    and "\<forall>n \<in> set (params_of ts). primitive (prop_get (record_of path) n)"
    and "\<forall>(name, v) \<in> set (record_of q). query_name name \<and> sendable v"
  shows "\<exists>u. buildUrl (Some base) path (query_value q) (QSFunction defaultQuerySerializer)
               (''/'' @ first @ render ts) = Inr u \<and>
             url_path u = base @ ''/'' @ first @ instantiate (record_of path) ts \<and>
             parse_urlencoded (url_search u) = Some (query_pairs (record_of q))"
proof -
  let ?ts = "Lit base # Lit (''/'' @ first) # ts" and ?path = "record_of path"
  have prims: "\<forall>n \<in> set (params_of ?ts). primitive (prop_get ?path n)"
    using assms(3) by (simp add: params_of_def)
  have rendered: "render ?ts = base @ ''/'' @ first @ render ts"
    by (simp add: render_def token_text_def)
  have "prop_get [] n = JUndefined" for n by (simp add: prop_get_def)
  then have "params_of ts = []" if "path = None"
    using assms(3) that by (cases "params_of ts") (auto simp: record_of_def)
  then have "instantiate [] ?ts = render ?ts" if "path = None"
    using that instantiate_literal [of ?ts] by (simp add: params_of_def)
  then have path: "(case path of None \<Rightarrow> Inr (base @ CHR ''/'' # first @ render ts)
      | Some p \<Rightarrow> defaultPathSerializer p (base @ CHR ''/'' # first @ render ts)) = Inr (instantiate ?path ?ts)"
    using defaultPathSerializer_render [OF assms(1) prims] rendered
    by (cases path) (simp_all add: record_of_def)
  have inst: "instantiate ?path ?ts = base @ ''/'' @ first @ instantiate ?path ts"
    by (simp add: instantiate_def token_value_def)
  have free: "CHR ''?'' \<notin> set (instantiate ?path ?ts)"
    using instantiate_free [OF _ assms(2)] by (simp add: url_delim_def)
  obtain s where s: "(if truthy (query_value q) then defaultQuerySerializer (query_value q) else Inr []) = Inr s"
    "reads_as s (query_pairs (record_of q))"
  proof (cases q)
    case None
    then show ?thesis using that [of "[]"] by (simp add: query_value_def record_of_def query_pairs_def)
  next
    case (Some es)
    then show ?thesis
      using that defaultQuerySerializer_parse [OF assms(4)] by (auto simp: query_value_def record_of_def)
  qed
  have "\<not> startsWith s ''?''" using s(2) by (cases s) (auto simp: reads_as_def)
  then have "buildUrl (Some base) path (query_value q) (QSFunction defaultQuerySerializer)
      (''/'' @ first @ render ts) =
      Inr (if s \<noteq> [] then instantiate ?path ?ts @ ''?'' @ s else instantiate ?path ?ts)"
    using path s(1) by (simp add: buildUrl_def getUrl_def or_default_def Let_def)
  moreover have "parse_urlencoded s = Some (query_pairs (record_of q))" using s(2) by (simp add: reads_as_def)
  ultimately show ?thesis
    using url_halves [OF free] inst by (auto simp: parse_urlencoded_def)
qed

text \<open>
  C2: the URL built from a base, a path template and a query record reads back as they were. Up to
  the first question mark it is the base and the instantiated template, and the urlencoded parser
  reads the rest as the query's name and value pairs, in order, arrays and nested objects included.
\<close>

theorem buildUrl_roundtrip:
  assumes "template_ok (Lit base # Lit (''/'' @ first) # ts)"
    and "CHR ''?'' \<notin> set (literal_text (Lit base # Lit (''/'' @ first) # ts))"
    and "\<forall>n \<in> set (params_of ts). primitive (prop_get path n)"
    and "\<forall>(name, v) \<in> set q. query_name name \<and> sendable v"
  shows "\<exists>u. buildUrl (Some base) (Some path) (JObject q) (QSFunction defaultQuerySerializer)
               (''/'' @ first @ render ts) = Inr u \<and>
             url_path u = base @ ''/'' @ first @ instantiate path ts \<and>
             parse_urlencoded (url_search u) = Some (query_pairs q)"
  using buildUrl_reads [OF assms(1,2), of "Some path" "Some q"] assms(3,4)
  by (simp add: record_of_def query_value_def)

theorem buildUrl_roundtrip_witness:
  "\<exists>u. buildUrl (Some []) (Some [(''id'', JStr ''a b'')])
         (JObject [(''tag'', JArray [JStr ''x&y'', JNum 3])]) (QSFunction defaultQuerySerializer)
         ''/e/{id}'' = Inr u \<and>
       url_path u = ''/e/a%20b'' \<and>
       parse_urlencoded (url_search u) = Some [(''tag'', ''x&y''), (''tag'', ''3'')]"
proof -
  let ?q = "[(''tag'', JArray [JStr ''x&y'', JNum 3])]" and ?p = "[(''id'', JStr ''a b'')]"
  have "template_ok (Lit [] # Lit (''/'' @ ''e/'') # [Param ''id''])"
    "CHR ''?'' \<notin> set (literal_text (Lit [] # Lit (''/'' @ ''e/'') # [Param ''id'']))"
    "\<forall>n \<in> set (params_of [Param ''id'']). primitive (prop_get ?p n)"
    "\<forall>(name, v) \<in> set ?q. query_name name \<and> sendable v"
    by code_simp+
  from buildUrl_roundtrip [OF this]
  have "\<exists>u. buildUrl (Some []) (Some ?p) (JObject ?q) (QSFunction defaultQuerySerializer)
      (''/'' @ ''e/'' @ render [Param ''id'']) = Inr u \<and>
      url_path u = [] @ ''/'' @ ''e/'' @ instantiate ?p [Param ''id''] \<and>
      parse_urlencoded (url_search u) = Some (query_pairs ?q)" .
  moreover have "render [Param ''id''] = ''{id}''" "instantiate ?p [Param ''id''] = ''a%20b''"
    "query_pairs ?q = [(''tag'', ''x&y''), (''tag'', ''3'')]"
    by code_simp+
  ultimately show ?thesis by simp
qed

end
