(* ===== verification/ApiTypes.thy ===== *)
theory ApiTypes
  imports Complex_Main JsValue
begin

text \<open>
  The API's data types, \<^verbatim>\<open>frontend/src/lib/api/types.gen.ts\<close>, and the enumerations of the runtime
  schemas, \<^verbatim>\<open>frontend/src/lib/api/zod.gen.ts\<close>. A constant object \<open>E\<close> whose values form the type \<open>E\<close>
  is a datatype with the object's keys as constructors (\<open>EventType.RESULT_STORED\<close> reads as in the
  source), a function to the string the key stands for and the list of the keys in source order;
  \<open>zE\<close> is the list of strings the schema of the same name admits. A nullable or optional field is an
  \<open>option\<close>, an array a list, and a number that may be fractional a \<open>rat\<close>.
\<close>

section \<open>Enumerations\<close>

datatype CancelStatus =
    ALREADY_CANCELLED | CANCELLATION_REQUESTED

primrec CancelStatus_value :: "CancelStatus \<Rightarrow> string" where
  "CancelStatus_value CancelStatus.ALREADY_CANCELLED = ''already_cancelled''"
| "CancelStatus_value CancelStatus.CANCELLATION_REQUESTED = ''cancellation_requested''"

definition CancelStatus_members :: "CancelStatus list" where
  "CancelStatus_members =
     [CancelStatus.ALREADY_CANCELLED, CancelStatus.CANCELLATION_REQUESTED]"

definition zCancelStatus :: "string list" where
  "zCancelStatus =
     [''already_cancelled'', ''cancellation_requested'']"

datatype EndpointGroup =
    EXECUTION | ADMIN | SSE | WEBSOCKET | AUTH | PUBLIC | API

primrec EndpointGroup_value :: "EndpointGroup \<Rightarrow> string" where
  "EndpointGroup_value EndpointGroup.EXECUTION = ''execution''"
| "EndpointGroup_value EndpointGroup.ADMIN = ''admin''"
| "EndpointGroup_value EndpointGroup.SSE = ''sse''"
| "EndpointGroup_value EndpointGroup.WEBSOCKET = ''websocket''"
| "EndpointGroup_value EndpointGroup.AUTH = ''auth''"
| "EndpointGroup_value EndpointGroup.PUBLIC = ''public''"
| "EndpointGroup_value EndpointGroup.API = ''api''"

definition EndpointGroup_members :: "EndpointGroup list" where
  "EndpointGroup_members =
     [EndpointGroup.EXECUTION, EndpointGroup.ADMIN, EndpointGroup.SSE, EndpointGroup.WEBSOCKET,
      EndpointGroup.AUTH, EndpointGroup.PUBLIC, EndpointGroup.API]"

definition zEndpointGroup :: "string list" where
  "zEndpointGroup =
     [''execution'', ''admin'', ''sse'', ''websocket'', ''auth'', ''public'', ''api'']"

datatype Environment =
    DEVELOPMENT | STAGING | PRODUCTION | TEST

primrec Environment_value :: "Environment \<Rightarrow> string" where
  "Environment_value Environment.DEVELOPMENT = ''development''"
| "Environment_value Environment.STAGING = ''staging''"
| "Environment_value Environment.PRODUCTION = ''production''"
| "Environment_value Environment.TEST = ''test''"

definition Environment_members :: "Environment list" where
  "Environment_members =
     [Environment.DEVELOPMENT, Environment.STAGING, Environment.PRODUCTION, Environment.TEST]"

definition zEnvironment :: "string list" where
  "zEnvironment =
     [''development'', ''staging'', ''production'', ''test'']"

datatype EventType =
    EXECUTION_REQUESTED | EXECUTION_ACCEPTED | EXECUTION_QUEUED | EXECUTION_STARTED |
    EXECUTION_RUNNING | EXECUTION_COMPLETED | EXECUTION_FAILED | EXECUTION_TIMEOUT |
    EXECUTION_CANCELLED | POD_CREATED | POD_SCHEDULED | POD_RUNNING | POD_SUCCEEDED | POD_FAILED |
    POD_TERMINATED | POD_DELETED | USER_REGISTERED | USER_LOGIN | USER_LOGGED_IN |
    USER_LOGGED_OUT | USER_UPDATED | USER_DELETED | USER_SETTINGS_UPDATED | NOTIFICATION_CREATED |
    NOTIFICATION_SENT | NOTIFICATION_DELIVERED | NOTIFICATION_FAILED | NOTIFICATION_READ |
    NOTIFICATION_ALL_READ | NOTIFICATION_CLICKED | NOTIFICATION_PREFERENCES_UPDATED |
    SCRIPT_SAVED | SCRIPT_DELETED | SCRIPT_SHARED | SECURITY_VIOLATION | RATE_LIMIT_EXCEEDED |
    AUTH_FAILED | RESOURCE_LIMIT_EXCEEDED | QUOTA_EXCEEDED | SYSTEM_ERROR | SERVICE_UNHEALTHY |
    SERVICE_RECOVERED | RESULT_STORED | RESULT_FAILED | DLQ_MESSAGE_RECEIVED |
    DLQ_MESSAGE_RETRIED | DLQ_MESSAGE_DISCARDED

primrec EventType_value :: "EventType \<Rightarrow> string" where
  "EventType_value EventType.EXECUTION_REQUESTED = ''execution_requested''"
| "EventType_value EventType.EXECUTION_ACCEPTED = ''execution_accepted''"
| "EventType_value EventType.EXECUTION_QUEUED = ''execution_queued''"
| "EventType_value EventType.EXECUTION_STARTED = ''execution_started''"
| "EventType_value EventType.EXECUTION_RUNNING = ''execution_running''"
| "EventType_value EventType.EXECUTION_COMPLETED = ''execution_completed''"
| "EventType_value EventType.EXECUTION_FAILED = ''execution_failed''"
| "EventType_value EventType.EXECUTION_TIMEOUT = ''execution_timeout''"
| "EventType_value EventType.EXECUTION_CANCELLED = ''execution_cancelled''"
| "EventType_value EventType.POD_CREATED = ''pod_created''"
| "EventType_value EventType.POD_SCHEDULED = ''pod_scheduled''"
| "EventType_value EventType.POD_RUNNING = ''pod_running''"
| "EventType_value EventType.POD_SUCCEEDED = ''pod_succeeded''"
| "EventType_value EventType.POD_FAILED = ''pod_failed''"
| "EventType_value EventType.POD_TERMINATED = ''pod_terminated''"
| "EventType_value EventType.POD_DELETED = ''pod_deleted''"
| "EventType_value EventType.USER_REGISTERED = ''user_registered''"
| "EventType_value EventType.USER_LOGIN = ''user_login''"
| "EventType_value EventType.USER_LOGGED_IN = ''user_logged_in''"
| "EventType_value EventType.USER_LOGGED_OUT = ''user_logged_out''"
| "EventType_value EventType.USER_UPDATED = ''user_updated''"
| "EventType_value EventType.USER_DELETED = ''user_deleted''"
| "EventType_value EventType.USER_SETTINGS_UPDATED = ''user_settings_updated''"
| "EventType_value EventType.NOTIFICATION_CREATED = ''notification_created''"
| "EventType_value EventType.NOTIFICATION_SENT = ''notification_sent''"
| "EventType_value EventType.NOTIFICATION_DELIVERED = ''notification_delivered''"
| "EventType_value EventType.NOTIFICATION_FAILED = ''notification_failed''"
| "EventType_value EventType.NOTIFICATION_READ = ''notification_read''"
| "EventType_value EventType.NOTIFICATION_ALL_READ = ''notification_all_read''"
| "EventType_value EventType.NOTIFICATION_CLICKED = ''notification_clicked''"
| "EventType_value EventType.NOTIFICATION_PREFERENCES_UPDATED = ''notification_preferences_updated''"
| "EventType_value EventType.SCRIPT_SAVED = ''script_saved''"
| "EventType_value EventType.SCRIPT_DELETED = ''script_deleted''"
| "EventType_value EventType.SCRIPT_SHARED = ''script_shared''"
| "EventType_value EventType.SECURITY_VIOLATION = ''security_violation''"
| "EventType_value EventType.RATE_LIMIT_EXCEEDED = ''rate_limit_exceeded''"
| "EventType_value EventType.AUTH_FAILED = ''auth_failed''"
| "EventType_value EventType.RESOURCE_LIMIT_EXCEEDED = ''resource_limit_exceeded''"
| "EventType_value EventType.QUOTA_EXCEEDED = ''quota_exceeded''"
| "EventType_value EventType.SYSTEM_ERROR = ''system_error''"
| "EventType_value EventType.SERVICE_UNHEALTHY = ''service_unhealthy''"
| "EventType_value EventType.SERVICE_RECOVERED = ''service_recovered''"
| "EventType_value EventType.RESULT_STORED = ''result_stored''"
| "EventType_value EventType.RESULT_FAILED = ''result_failed''"
| "EventType_value EventType.DLQ_MESSAGE_RECEIVED = ''dlq_message_received''"
| "EventType_value EventType.DLQ_MESSAGE_RETRIED = ''dlq_message_retried''"
| "EventType_value EventType.DLQ_MESSAGE_DISCARDED = ''dlq_message_discarded''"

definition EventType_members :: "EventType list" where
  "EventType_members =
     [EventType.EXECUTION_REQUESTED, EventType.EXECUTION_ACCEPTED, EventType.EXECUTION_QUEUED,
      EventType.EXECUTION_STARTED, EventType.EXECUTION_RUNNING, EventType.EXECUTION_COMPLETED,
      EventType.EXECUTION_FAILED, EventType.EXECUTION_TIMEOUT, EventType.EXECUTION_CANCELLED,
      EventType.POD_CREATED, EventType.POD_SCHEDULED, EventType.POD_RUNNING,
      EventType.POD_SUCCEEDED, EventType.POD_FAILED, EventType.POD_TERMINATED,
      EventType.POD_DELETED, EventType.USER_REGISTERED, EventType.USER_LOGIN,
      EventType.USER_LOGGED_IN, EventType.USER_LOGGED_OUT, EventType.USER_UPDATED,
      EventType.USER_DELETED, EventType.USER_SETTINGS_UPDATED, EventType.NOTIFICATION_CREATED,
      EventType.NOTIFICATION_SENT, EventType.NOTIFICATION_DELIVERED, EventType.NOTIFICATION_FAILED,
      EventType.NOTIFICATION_READ, EventType.NOTIFICATION_ALL_READ, EventType.NOTIFICATION_CLICKED,
      EventType.NOTIFICATION_PREFERENCES_UPDATED, EventType.SCRIPT_SAVED, EventType.SCRIPT_DELETED,
      EventType.SCRIPT_SHARED, EventType.SECURITY_VIOLATION, EventType.RATE_LIMIT_EXCEEDED,
      EventType.AUTH_FAILED, EventType.RESOURCE_LIMIT_EXCEEDED, EventType.QUOTA_EXCEEDED,
      EventType.SYSTEM_ERROR, EventType.SERVICE_UNHEALTHY, EventType.SERVICE_RECOVERED,
      EventType.RESULT_STORED, EventType.RESULT_FAILED, EventType.DLQ_MESSAGE_RECEIVED,
      EventType.DLQ_MESSAGE_RETRIED, EventType.DLQ_MESSAGE_DISCARDED]"

definition zEventType :: "string list" where
  "zEventType =
     [''execution_requested'', ''execution_accepted'', ''execution_queued'', ''execution_started'',
      ''execution_running'', ''execution_completed'', ''execution_failed'', ''execution_timeout'',
      ''execution_cancelled'', ''pod_created'', ''pod_scheduled'', ''pod_running'',
      ''pod_succeeded'', ''pod_failed'', ''pod_terminated'', ''pod_deleted'', ''user_registered'',
      ''user_login'', ''user_logged_in'', ''user_logged_out'', ''user_updated'', ''user_deleted'',
      ''user_settings_updated'', ''notification_created'', ''notification_sent'',
      ''notification_delivered'', ''notification_failed'', ''notification_read'',
      ''notification_all_read'', ''notification_clicked'', ''notification_preferences_updated'',
      ''script_saved'', ''script_deleted'', ''script_shared'', ''security_violation'',
      ''rate_limit_exceeded'', ''auth_failed'', ''resource_limit_exceeded'', ''quota_exceeded'',
      ''system_error'', ''service_unhealthy'', ''service_recovered'', ''result_stored'',
      ''result_failed'', ''dlq_message_received'', ''dlq_message_retried'',
      ''dlq_message_discarded'']"

datatype ExecutionErrorType =
    SYSTEM_ERROR | TIMEOUT | RESOURCE_LIMIT | SCRIPT_ERROR | PERMISSION_DENIED

primrec ExecutionErrorType_value :: "ExecutionErrorType \<Rightarrow> string" where
  "ExecutionErrorType_value ExecutionErrorType.SYSTEM_ERROR = ''system_error''"
| "ExecutionErrorType_value ExecutionErrorType.TIMEOUT = ''timeout''"
| "ExecutionErrorType_value ExecutionErrorType.RESOURCE_LIMIT = ''resource_limit''"
| "ExecutionErrorType_value ExecutionErrorType.SCRIPT_ERROR = ''script_error''"
| "ExecutionErrorType_value ExecutionErrorType.PERMISSION_DENIED = ''permission_denied''"

definition ExecutionErrorType_members :: "ExecutionErrorType list" where
  "ExecutionErrorType_members =
     [ExecutionErrorType.SYSTEM_ERROR, ExecutionErrorType.TIMEOUT,
      ExecutionErrorType.RESOURCE_LIMIT, ExecutionErrorType.SCRIPT_ERROR,
      ExecutionErrorType.PERMISSION_DENIED]"

definition zExecutionErrorType :: "string list" where
  "zExecutionErrorType =
     [''system_error'', ''timeout'', ''resource_limit'', ''script_error'', ''permission_denied'']"

datatype ExecutionStatus =
    QUEUED | SCHEDULED | RUNNING | COMPLETED | FAILED | TIMEOUT | CANCELLED | ERROR

primrec ExecutionStatus_value :: "ExecutionStatus \<Rightarrow> string" where
  "ExecutionStatus_value ExecutionStatus.QUEUED = ''queued''"
| "ExecutionStatus_value ExecutionStatus.SCHEDULED = ''scheduled''"
| "ExecutionStatus_value ExecutionStatus.RUNNING = ''running''"
| "ExecutionStatus_value ExecutionStatus.COMPLETED = ''completed''"
| "ExecutionStatus_value ExecutionStatus.FAILED = ''failed''"
| "ExecutionStatus_value ExecutionStatus.TIMEOUT = ''timeout''"
| "ExecutionStatus_value ExecutionStatus.CANCELLED = ''cancelled''"
| "ExecutionStatus_value ExecutionStatus.ERROR = ''error''"

definition ExecutionStatus_members :: "ExecutionStatus list" where
  "ExecutionStatus_members =
     [ExecutionStatus.QUEUED, ExecutionStatus.SCHEDULED, ExecutionStatus.RUNNING,
      ExecutionStatus.COMPLETED, ExecutionStatus.FAILED, ExecutionStatus.TIMEOUT,
      ExecutionStatus.CANCELLED, ExecutionStatus.ERROR]"

definition zExecutionStatus :: "string list" where
  "zExecutionStatus =
     [''queued'', ''scheduled'', ''running'', ''completed'', ''failed'', ''timeout'',
      ''cancelled'', ''error'']"

datatype ExportFormat =
    CSV | JSON

primrec ExportFormat_value :: "ExportFormat \<Rightarrow> string" where
  "ExportFormat_value ExportFormat.CSV = ''csv''"
| "ExportFormat_value ExportFormat.JSON = ''json''"

definition ExportFormat_members :: "ExportFormat list" where
  "ExportFormat_members =
     [ExportFormat.CSV, ExportFormat.JSON]"

definition zExportFormat :: "string list" where
  "zExportFormat =
     [''csv'', ''json'']"

datatype LoginMethod =
    PASSWORD | OAUTH | SSO | API_KEY

primrec LoginMethod_value :: "LoginMethod \<Rightarrow> string" where
  "LoginMethod_value LoginMethod.PASSWORD = ''password''"
| "LoginMethod_value LoginMethod.OAUTH = ''oauth''"
| "LoginMethod_value LoginMethod.SSO = ''sso''"
| "LoginMethod_value LoginMethod.API_KEY = ''api_key''"

definition LoginMethod_members :: "LoginMethod list" where
  "LoginMethod_members =
     [LoginMethod.PASSWORD, LoginMethod.OAUTH, LoginMethod.SSO, LoginMethod.API_KEY]"

definition zLoginMethod :: "string list" where
  "zLoginMethod =
     [''password'', ''oauth'', ''sso'', ''api_key'']"

datatype NotificationSeverity =
    LOW | MEDIUM | HIGH | URGENT

primrec NotificationSeverity_value :: "NotificationSeverity \<Rightarrow> string" where
  "NotificationSeverity_value NotificationSeverity.LOW = ''low''"
| "NotificationSeverity_value NotificationSeverity.MEDIUM = ''medium''"
| "NotificationSeverity_value NotificationSeverity.HIGH = ''high''"
| "NotificationSeverity_value NotificationSeverity.URGENT = ''urgent''"

definition NotificationSeverity_members :: "NotificationSeverity list" where
  "NotificationSeverity_members =
     [NotificationSeverity.LOW, NotificationSeverity.MEDIUM, NotificationSeverity.HIGH,
      NotificationSeverity.URGENT]"

definition zNotificationSeverity :: "string list" where
  "zNotificationSeverity =
     [''low'', ''medium'', ''high'', ''urgent'']"

datatype NotificationStatus =
    PENDING | QUEUED | SENDING | DELIVERED | FAILED | READ | CLICKED

primrec NotificationStatus_value :: "NotificationStatus \<Rightarrow> string" where
  "NotificationStatus_value NotificationStatus.PENDING = ''pending''"
| "NotificationStatus_value NotificationStatus.QUEUED = ''queued''"
| "NotificationStatus_value NotificationStatus.SENDING = ''sending''"
| "NotificationStatus_value NotificationStatus.DELIVERED = ''delivered''"
| "NotificationStatus_value NotificationStatus.FAILED = ''failed''"
| "NotificationStatus_value NotificationStatus.READ = ''read''"
| "NotificationStatus_value NotificationStatus.CLICKED = ''clicked''"

definition NotificationStatus_members :: "NotificationStatus list" where
  "NotificationStatus_members =
     [NotificationStatus.PENDING, NotificationStatus.QUEUED, NotificationStatus.SENDING,
      NotificationStatus.DELIVERED, NotificationStatus.FAILED, NotificationStatus.READ,
      NotificationStatus.CLICKED]"

definition zNotificationStatus :: "string list" where
  "zNotificationStatus =
     [''pending'', ''queued'', ''sending'', ''delivered'', ''failed'', ''read'', ''clicked'']"

datatype QueuePriority =
    CRITICAL | HIGH | NORMAL | LOW | BACKGROUND

primrec QueuePriority_value :: "QueuePriority \<Rightarrow> string" where
  "QueuePriority_value QueuePriority.CRITICAL = ''critical''"
| "QueuePriority_value QueuePriority.HIGH = ''high''"
| "QueuePriority_value QueuePriority.NORMAL = ''normal''"
| "QueuePriority_value QueuePriority.LOW = ''low''"
| "QueuePriority_value QueuePriority.BACKGROUND = ''background''"

definition QueuePriority_members :: "QueuePriority list" where
  "QueuePriority_members =
     [QueuePriority.CRITICAL, QueuePriority.HIGH, QueuePriority.NORMAL, QueuePriority.LOW,
      QueuePriority.BACKGROUND]"

definition zQueuePriority :: "string list" where
  "zQueuePriority =
     [''critical'', ''high'', ''normal'', ''low'', ''background'']"

datatype RateLimitAlgorithm =
    SLIDING_WINDOW | TOKEN_BUCKET | FIXED_WINDOW | LEAKY_BUCKET

primrec RateLimitAlgorithm_value :: "RateLimitAlgorithm \<Rightarrow> string" where
  "RateLimitAlgorithm_value RateLimitAlgorithm.SLIDING_WINDOW = ''sliding_window''"
| "RateLimitAlgorithm_value RateLimitAlgorithm.TOKEN_BUCKET = ''token_bucket''"
| "RateLimitAlgorithm_value RateLimitAlgorithm.FIXED_WINDOW = ''fixed_window''"
| "RateLimitAlgorithm_value RateLimitAlgorithm.LEAKY_BUCKET = ''leaky_bucket''"

definition RateLimitAlgorithm_members :: "RateLimitAlgorithm list" where
  "RateLimitAlgorithm_members =
     [RateLimitAlgorithm.SLIDING_WINDOW, RateLimitAlgorithm.TOKEN_BUCKET,
      RateLimitAlgorithm.FIXED_WINDOW, RateLimitAlgorithm.LEAKY_BUCKET]"

definition zRateLimitAlgorithm :: "string list" where
  "zRateLimitAlgorithm =
     [''sliding_window'', ''token_bucket'', ''fixed_window'', ''leaky_bucket'']"

datatype ReplayStatus =
    PREVIEW | SCHEDULED | RUNNING | COMPLETED | FAILED

primrec ReplayStatus_value :: "ReplayStatus \<Rightarrow> string" where
  "ReplayStatus_value ReplayStatus.PREVIEW = ''preview''"
| "ReplayStatus_value ReplayStatus.SCHEDULED = ''scheduled''"
| "ReplayStatus_value ReplayStatus.RUNNING = ''running''"
| "ReplayStatus_value ReplayStatus.COMPLETED = ''completed''"
| "ReplayStatus_value ReplayStatus.FAILED = ''failed''"

definition ReplayStatus_members :: "ReplayStatus list" where
  "ReplayStatus_members =
     [ReplayStatus.PREVIEW, ReplayStatus.SCHEDULED, ReplayStatus.RUNNING, ReplayStatus.COMPLETED,
      ReplayStatus.FAILED]"

definition zReplayStatus :: "string list" where
  "zReplayStatus =
     [''preview'', ''scheduled'', ''running'', ''completed'', ''failed'']"

datatype SseControlEvent =
    STATUS

primrec SseControlEvent_value :: "SseControlEvent \<Rightarrow> string" where
  "SseControlEvent_value SseControlEvent.STATUS = ''status''"

definition SseControlEvent_members :: "SseControlEvent list" where
  "SseControlEvent_members =
     [SseControlEvent.STATUS]"

definition zSseControlEvent :: "string list" where
  "zSseControlEvent =
     [''status'']"

datatype StorageType =
    DATABASE | S3 | FILESYSTEM | REDIS

primrec StorageType_value :: "StorageType \<Rightarrow> string" where
  "StorageType_value StorageType.DATABASE = ''database''"
| "StorageType_value StorageType.S3 = ''s3''"
| "StorageType_value StorageType.FILESYSTEM = ''filesystem''"
| "StorageType_value StorageType.REDIS = ''redis''"

definition StorageType_members :: "StorageType list" where
  "StorageType_members =
     [StorageType.DATABASE, StorageType.S3, StorageType.FILESYSTEM, StorageType.REDIS]"

definition zStorageType :: "string list" where
  "zStorageType =
     [''database'', ''s3'', ''filesystem'', ''redis'']"

datatype Theme =
    LIGHT | DARK | SYSTEM

primrec Theme_value :: "Theme \<Rightarrow> string" where
  "Theme_value Theme.LIGHT = ''light''"
| "Theme_value Theme.DARK = ''dark''"
| "Theme_value Theme.SYSTEM = ''system''"

definition Theme_members :: "Theme list" where
  "Theme_members =
     [Theme.LIGHT, Theme.DARK, Theme.SYSTEM]"

definition zTheme :: "string list" where
  "zTheme =
     [''light'', ''dark'', ''system'']"

datatype UserRole =
    USER | ADMIN | MODERATOR

primrec UserRole_value :: "UserRole \<Rightarrow> string" where
  "UserRole_value UserRole.USER = ''user''"
| "UserRole_value UserRole.ADMIN = ''admin''"
| "UserRole_value UserRole.MODERATOR = ''moderator''"

definition UserRole_members :: "UserRole list" where
  "UserRole_members =
     [UserRole.USER, UserRole.ADMIN, UserRole.MODERATOR]"

definition zUserRole :: "string list" where
  "zUserRole =
     [''user'', ''admin'', ''moderator'']"

section \<open>Records\<close>

record ErrorResponse =
  status :: int
  detail :: string

record ResourceUsage =
  execution_time_wall_seconds :: rat
  cpu_time_jiffies :: int
  clk_tck_hertz :: int
  peak_memory_kb :: int

record ExecutionResponse =
  execution_id :: string
  status :: ExecutionStatus

record ExecutionResult =
  execution_id :: string
  status :: ExecutionStatus
  stdout :: "string option"
  stderr :: "string option"
  lang :: string
  lang_version :: string
  resource_usage :: "ResourceUsage option"
  exit_code :: "int option"
  error_type :: "ExecutionErrorType option"
  priority :: QueuePriority

text \<open>An execution's stream carries domain events and one control event.\<close>

datatype event_kind = Domain EventType | Control SseControlEvent

record SseExecutionEventSchema =
  event_type :: event_kind
  execution_id :: string
  timestamp :: "string option"
  event_id :: "string option"
  status :: "ExecutionStatus option"
  result :: "ExecutionResult option"

section \<open>What an enumeration promises\<close>

text \<open>
  An enumeration names every one of its members and gives each a string of its own. The clients of
  an enumeration rely on this alone: a string that came off the wire is read as the member it was
  written from, and two members are compared by comparing their strings.
\<close>

definition of_value :: "'a list \<Rightarrow> ('a \<Rightarrow> string) \<Rightarrow> string \<Rightarrow> 'a option" where
  "of_value members val s = List.find (\<lambda>m. val m = s) members"

locale string_enum =
  fixes members :: "'a list" and val :: "'a \<Rightarrow> string"
  assumes complete: "x \<in> set members"
    and distinct_values: "distinct (map val members)"
begin

lemma value_eq_iff: "val x = val y \<longleftrightarrow> x = y"
  using distinct_values complete by (auto simp: distinct_map inj_on_def)

lemma of_value_value: "of_value members val (val x) = Some x"
proof -
  obtain ys zs where "members = ys @ x # zs" and "x \<notin> set ys"
    using complete [of x] by (meson split_list_first)
  then show ?thesis
    by (induction ys arbitrary: members) (auto simp: of_value_def value_eq_iff)
qed

lemma of_value_SomeD: "of_value members val s = Some x \<Longrightarrow> s = val x"
  by (auto simp: of_value_def find_Some_iff)

lemma of_value_None: "of_value members val s = None \<longleftrightarrow> s \<notin> set (map val members)"
  by (auto simp: of_value_def find_None_iff)

end

lemma CancelStatus_complete: "x \<in> set CancelStatus_members"
  by (cases x) (simp_all add: CancelStatus_members_def)

lemma CancelStatus_distinct: "distinct (map CancelStatus_value CancelStatus_members)"
  by code_simp

interpretation cancelStatus: string_enum CancelStatus_members CancelStatus_value
  by unfold_locales (fact CancelStatus_complete, fact CancelStatus_distinct)

lemma EndpointGroup_complete: "x \<in> set EndpointGroup_members"
  by (cases x) (simp_all add: EndpointGroup_members_def)

lemma EndpointGroup_distinct: "distinct (map EndpointGroup_value EndpointGroup_members)"
  by code_simp

interpretation endpointGroup: string_enum EndpointGroup_members EndpointGroup_value
  by unfold_locales (fact EndpointGroup_complete, fact EndpointGroup_distinct)

lemma Environment_complete: "x \<in> set Environment_members"
  by (cases x) (simp_all add: Environment_members_def)

lemma Environment_distinct: "distinct (map Environment_value Environment_members)"
  by code_simp

interpretation environment: string_enum Environment_members Environment_value
  by unfold_locales (fact Environment_complete, fact Environment_distinct)

lemma EventType_complete: "x \<in> set EventType_members"
  by (cases x) (simp_all add: EventType_members_def)

lemma EventType_distinct: "distinct (map EventType_value EventType_members)"
  by code_simp

interpretation eventType: string_enum EventType_members EventType_value
  by unfold_locales (fact EventType_complete, fact EventType_distinct)

lemma ExecutionErrorType_complete: "x \<in> set ExecutionErrorType_members"
  by (cases x) (simp_all add: ExecutionErrorType_members_def)

lemma ExecutionErrorType_distinct: "distinct (map ExecutionErrorType_value ExecutionErrorType_members)"
  by code_simp

interpretation executionErrorType: string_enum ExecutionErrorType_members ExecutionErrorType_value
  by unfold_locales (fact ExecutionErrorType_complete, fact ExecutionErrorType_distinct)

lemma ExecutionStatus_complete: "x \<in> set ExecutionStatus_members"
  by (cases x) (simp_all add: ExecutionStatus_members_def)

lemma ExecutionStatus_distinct: "distinct (map ExecutionStatus_value ExecutionStatus_members)"
  by code_simp

interpretation executionStatus: string_enum ExecutionStatus_members ExecutionStatus_value
  by unfold_locales (fact ExecutionStatus_complete, fact ExecutionStatus_distinct)

lemma ExportFormat_complete: "x \<in> set ExportFormat_members"
  by (cases x) (simp_all add: ExportFormat_members_def)

lemma ExportFormat_distinct: "distinct (map ExportFormat_value ExportFormat_members)"
  by code_simp

interpretation exportFormat: string_enum ExportFormat_members ExportFormat_value
  by unfold_locales (fact ExportFormat_complete, fact ExportFormat_distinct)

lemma LoginMethod_complete: "x \<in> set LoginMethod_members"
  by (cases x) (simp_all add: LoginMethod_members_def)

lemma LoginMethod_distinct: "distinct (map LoginMethod_value LoginMethod_members)"
  by code_simp

interpretation loginMethod: string_enum LoginMethod_members LoginMethod_value
  by unfold_locales (fact LoginMethod_complete, fact LoginMethod_distinct)

lemma NotificationSeverity_complete: "x \<in> set NotificationSeverity_members"
  by (cases x) (simp_all add: NotificationSeverity_members_def)

lemma NotificationSeverity_distinct: "distinct (map NotificationSeverity_value NotificationSeverity_members)"
  by code_simp

interpretation notificationSeverity: string_enum NotificationSeverity_members NotificationSeverity_value
  by unfold_locales (fact NotificationSeverity_complete, fact NotificationSeverity_distinct)

lemma NotificationStatus_complete: "x \<in> set NotificationStatus_members"
  by (cases x) (simp_all add: NotificationStatus_members_def)

lemma NotificationStatus_distinct: "distinct (map NotificationStatus_value NotificationStatus_members)"
  by code_simp

interpretation notificationStatus: string_enum NotificationStatus_members NotificationStatus_value
  by unfold_locales (fact NotificationStatus_complete, fact NotificationStatus_distinct)

lemma QueuePriority_complete: "x \<in> set QueuePriority_members"
  by (cases x) (simp_all add: QueuePriority_members_def)

lemma QueuePriority_distinct: "distinct (map QueuePriority_value QueuePriority_members)"
  by code_simp

interpretation queuePriority: string_enum QueuePriority_members QueuePriority_value
  by unfold_locales (fact QueuePriority_complete, fact QueuePriority_distinct)

lemma RateLimitAlgorithm_complete: "x \<in> set RateLimitAlgorithm_members"
  by (cases x) (simp_all add: RateLimitAlgorithm_members_def)

lemma RateLimitAlgorithm_distinct: "distinct (map RateLimitAlgorithm_value RateLimitAlgorithm_members)"
  by code_simp

interpretation rateLimitAlgorithm: string_enum RateLimitAlgorithm_members RateLimitAlgorithm_value
  by unfold_locales (fact RateLimitAlgorithm_complete, fact RateLimitAlgorithm_distinct)

lemma ReplayStatus_complete: "x \<in> set ReplayStatus_members"
  by (cases x) (simp_all add: ReplayStatus_members_def)

lemma ReplayStatus_distinct: "distinct (map ReplayStatus_value ReplayStatus_members)"
  by code_simp

interpretation replayStatus: string_enum ReplayStatus_members ReplayStatus_value
  by unfold_locales (fact ReplayStatus_complete, fact ReplayStatus_distinct)

lemma SseControlEvent_complete: "x \<in> set SseControlEvent_members"
  by (cases x) (simp_all add: SseControlEvent_members_def)

lemma SseControlEvent_distinct: "distinct (map SseControlEvent_value SseControlEvent_members)"
  by code_simp

interpretation sseControlEvent: string_enum SseControlEvent_members SseControlEvent_value
  by unfold_locales (fact SseControlEvent_complete, fact SseControlEvent_distinct)

lemma StorageType_complete: "x \<in> set StorageType_members"
  by (cases x) (simp_all add: StorageType_members_def)

lemma StorageType_distinct: "distinct (map StorageType_value StorageType_members)"
  by code_simp

interpretation storageType: string_enum StorageType_members StorageType_value
  by unfold_locales (fact StorageType_complete, fact StorageType_distinct)

lemma Theme_complete: "x \<in> set Theme_members"
  by (cases x) (simp_all add: Theme_members_def)

lemma Theme_distinct: "distinct (map Theme_value Theme_members)"
  by code_simp

interpretation theme: string_enum Theme_members Theme_value
  by unfold_locales (fact Theme_complete, fact Theme_distinct)

lemma UserRole_complete: "x \<in> set UserRole_members"
  by (cases x) (simp_all add: UserRole_members_def)

lemma UserRole_distinct: "distinct (map UserRole_value UserRole_members)"
  by code_simp

interpretation userRole: string_enum UserRole_members UserRole_value
  by unfold_locales (fact UserRole_complete, fact UserRole_distinct)

text \<open>
  the runtime schemas and the static types agree on every enumeration: the strings a schema
  admits are the values of the constant object, in the same order.
\<close>

theorem zod_enums_agree:
  "map CancelStatus_value CancelStatus_members = zCancelStatus \<and>
   map EndpointGroup_value EndpointGroup_members = zEndpointGroup \<and>
   map Environment_value Environment_members = zEnvironment \<and>
   map EventType_value EventType_members = zEventType \<and>
   map ExecutionErrorType_value ExecutionErrorType_members = zExecutionErrorType \<and>
   map ExecutionStatus_value ExecutionStatus_members = zExecutionStatus \<and>
   map ExportFormat_value ExportFormat_members = zExportFormat \<and>
   map LoginMethod_value LoginMethod_members = zLoginMethod \<and>
   map NotificationSeverity_value NotificationSeverity_members = zNotificationSeverity \<and>
   map NotificationStatus_value NotificationStatus_members = zNotificationStatus \<and>
   map QueuePriority_value QueuePriority_members = zQueuePriority \<and>
   map RateLimitAlgorithm_value RateLimitAlgorithm_members = zRateLimitAlgorithm \<and>
   map ReplayStatus_value ReplayStatus_members = zReplayStatus \<and>
   map SseControlEvent_value SseControlEvent_members = zSseControlEvent \<and>
   map StorageType_value StorageType_members = zStorageType \<and>
   map Theme_value Theme_members = zTheme \<and>
   map UserRole_value UserRole_members = zUserRole"
  by (intro conjI) (simp_all add: CancelStatus_members_def zCancelStatus_def
      EndpointGroup_members_def zEndpointGroup_def
      Environment_members_def zEnvironment_def
      EventType_members_def zEventType_def
      ExecutionErrorType_members_def zExecutionErrorType_def
      ExecutionStatus_members_def zExecutionStatus_def
      ExportFormat_members_def zExportFormat_def
      LoginMethod_members_def zLoginMethod_def
      NotificationSeverity_members_def zNotificationSeverity_def
      NotificationStatus_members_def zNotificationStatus_def
      QueuePriority_members_def zQueuePriority_def
      RateLimitAlgorithm_members_def zRateLimitAlgorithm_def
      ReplayStatus_members_def zReplayStatus_def
      SseControlEvent_members_def zSseControlEvent_def
      StorageType_members_def zStorageType_def
      Theme_members_def zTheme_def
      UserRole_members_def zUserRole_def)

end
