(* ===== verification/Execution.thy ===== *)
theory Execution
  imports ApiTypes
begin

text \<open>
  Running a script from the editor, \<^verbatim>\<open>frontend/src/lib/editor/execution.svelte.ts\<close>. The object's
  fields are a record; an \<open>AbortController\<close> is a number, with the set of numbers whose signal is
  aborted. A call of \<open>execute\<close> is a run that advances at its awaits: the start request, the request
  of the stream, each event, and the return of the generator after a \<open>break\<close>. Runs, \<open>abort\<close> and
  \<open>reset\<close> interleave at these points as labelled steps.

  The mutation \<open>#start\<close> belongs to the query library: its observer is a value of type \<open>'m\<close>, read and
  changed through the record \<open>mutation_api\<close>, and \<open>Mutation_updates\<close> lets it change by itself.
\<close>

section \<open>Data\<close>

datatype ExecutionPhase = Idle | Starting | Active ExecutionStatus

definition ACTIVE_STATUSES :: "ExecutionStatus list" where
  "ACTIVE_STATUSES = [ExecutionStatus.QUEUED, ExecutionStatus.SCHEDULED, ExecutionStatus.RUNNING]"

definition FAILURE_MESSAGES :: "event_kind \<Rightarrow> string option" where
  "FAILURE_MESSAGES k =
     (if k = Domain EventType.EXECUTION_FAILED then Some ''Execution failed.''
      else if k = Domain EventType.EXECUTION_TIMEOUT then Some ''Execution timed out.''
      else if k = Domain EventType.RESULT_FAILED then Some ''Failed to store execution results.''
      else None)"

definition isActivePhase :: "ExecutionStatus \<Rightarrow> bool" where
  "isActivePhase s \<longleftrightarrow> s \<in> set ACTIVE_STATUSES"

record 'm mutation_api =
  isPending :: "'m \<Rightarrow> bool"
  mutation_error :: "'m \<Rightarrow> ErrorResponse option"
  mutation_reset :: "'m \<Rightarrow> 'm"
  mutateAsync :: "'m \<Rightarrow> 'm"

record 'm execution_state =
  cur_phase :: ExecutionPhase
  result :: "ExecutionResult option"
  streamError :: "string option"
  controller :: "nat option"
  start :: 'm
  aborted :: "nat set"
  created :: nat

section \<open>Getters and synchronous operations\<close>

definition phase :: "'m mutation_api \<Rightarrow> 'm execution_state \<Rightarrow> ExecutionPhase" where
  "phase api st = (if isPending api (start st) then Starting else cur_phase st)"

definition execution_error :: "'m mutation_api \<Rightarrow> 'm execution_state \<Rightarrow> string option" where
  "execution_error api st =
     (if streamError st \<noteq> None \<and> streamError st \<noteq> Some [] then streamError st
      else map_option detail (mutation_error api (start st)))"

definition isExecuting :: "'m mutation_api \<Rightarrow> 'm execution_state \<Rightarrow> bool" where
  "isExecuting api st \<longleftrightarrow> phase api st \<noteq> Idle"

definition reset :: "'m mutation_api \<Rightarrow> 'm execution_state \<Rightarrow> 'm execution_state" where
  "reset api st =
     st\<lparr>cur_phase := Idle, result := None, streamError := None, start := mutation_reset api (start st)\<rparr>"

definition abort :: "'m execution_state \<Rightarrow> 'm execution_state" where
  "abort st =
     st\<lparr>aborted := (case controller st of None \<Rightarrow> aborted st | Some c \<Rightarrow> insert c (aborted st)),
        controller := None, cur_phase := Idle\<rparr>"

section \<open>A run\<close>

text \<open>\<open>execute\<close> up to its await\<close>

definition execute :: "'m mutation_api \<Rightarrow> 'm execution_state \<Rightarrow> 'm execution_state" where
  "execute api st = (let st' = reset api (abort st) in st'\<lparr>start := mutateAsync api (start st')\<rparr>)"

text \<open>\<open>#follow\<close> up to its first await, with the controller it creates\<close>

definition follow :: "ExecutionResponse \<Rightarrow> 'm execution_state \<Rightarrow> nat \<times> 'm execution_state" where
  "follow data st =
     (created st,
      st\<lparr>created := Suc (created st), controller := Some (created st),
         cur_phase := Active (if isActivePhase (ExecutionResponse.status data)
                              then ExecutionResponse.status data else ExecutionStatus.QUEUED)\<rparr>)"

text \<open>The body of \<open>for await\<close>; the boolean says that it breaks, which is when \<open>terminalReceived\<close> is set\<close>

definition on_event ::
  "SseExecutionEventSchema \<Rightarrow> 'm execution_state \<Rightarrow> bool \<times> 'm execution_state" where
  "on_event ev st =
     (let st1 = (case SseExecutionEventSchema.status ev of
                   None \<Rightarrow> st
                 | Some s \<Rightarrow> if isActivePhase s then st\<lparr>cur_phase := Active s\<rparr> else st)
      in if event_type ev = Domain EventType.RESULT_STORED then
           (True, st1\<lparr>result := SseExecutionEventSchema.result ev\<rparr>)
         else (case FAILURE_MESSAGES (event_type ev) of
                 Some failure \<Rightarrow>
                   (True, st1\<lparr>result := SseExecutionEventSchema.result ev, streamError := Some failure\<rparr>)
               | None \<Rightarrow> (False, st1)))"

text \<open>\<open>#follow\<close> after the loop\<close>

definition follow_end :: "bool \<Rightarrow> nat \<Rightarrow> 'm execution_state \<Rightarrow> 'm execution_state" where
  "follow_end terminalReceived c st =
     (let st1 = (if \<not> terminalReceived \<and> c \<notin> aborted st
                 then st\<lparr>streamError := Some ''Connection to server lost.''\<rparr> else st)
      in st1\<lparr>controller := None, cur_phase := Idle\<rparr>)"

section \<open>Interleaving\<close>

text \<open>Where a run waits.\<close>

datatype pc = AwaitStart | AwaitStream nat | AwaitEvent nat | AwaitReturn nat | Finished

record 'm page =
  exec_st :: "'m execution_state"
  runs :: "pc list"

datatype 'm label =
    Execute
  | Abort
  | Reset
  | Mutation_updates 'm
  | Start_fails nat
  | Start_resolves nat ExecutionResponse
  | Connected nat
  | Event nat SseExecutionEventSchema
  | Stream_ends nat
  | Returned nat

definition waits :: "'m page \<Rightarrow> nat \<Rightarrow> pc option" where
  "waits p i = (if i < length (runs p) then Some (runs p ! i) else None)"

definition move :: "nat \<Rightarrow> pc \<Rightarrow> 'm execution_state \<Rightarrow> 'm page \<Rightarrow> 'm page" where
  "move i q st p = p\<lparr>exec_st := st, runs := (runs p)[i := q]\<rparr>"

fun step :: "'m mutation_api \<Rightarrow> 'm label \<Rightarrow> 'm page \<Rightarrow> 'm page option" where
  "step api Execute p = Some (p\<lparr>exec_st := execute api (exec_st p), runs := runs p @ [AwaitStart]\<rparr>)"
| "step api Abort p = Some (p\<lparr>exec_st := abort (exec_st p)\<rparr>)"
| "step api Reset p = Some (p\<lparr>exec_st := reset api (exec_st p)\<rparr>)"
| "step api (Mutation_updates m) p = Some (p\<lparr>exec_st := (exec_st p)\<lparr>start := m\<rparr>\<rparr>)"
| "step api (Start_fails i) p =
     (case waits p i of Some AwaitStart \<Rightarrow> Some (move i Finished (exec_st p) p) | _ \<Rightarrow> None)"
| "step api (Start_resolves i data) p =
     (case waits p i of
        Some AwaitStart \<Rightarrow>
          (case follow data (exec_st p) of (c, st) \<Rightarrow> Some (move i (AwaitStream c) st p))
      | _ \<Rightarrow> None)"
| "step api (Connected i) p =
     (case waits p i of Some (AwaitStream c) \<Rightarrow> Some (move i (AwaitEvent c) (exec_st p) p) | _ \<Rightarrow> None)"
| "step api (Event i ev) p =
     (case waits p i of
        Some (AwaitEvent c) \<Rightarrow>
          (case on_event ev (exec_st p) of (stop, st) \<Rightarrow>
             Some (move i (if stop then AwaitReturn c else AwaitEvent c) st p))
      | _ \<Rightarrow> None)"
| "step api (Stream_ends i) p =
     (case waits p i of
        Some (AwaitEvent c) \<Rightarrow> Some (move i Finished (follow_end False c (exec_st p)) p)
      | _ \<Rightarrow> None)"
| "step api (Returned i) p =
     (case waits p i of
        Some (AwaitReturn c) \<Rightarrow> Some (move i Finished (follow_end True c (exec_st p)) p)
      | _ \<Rightarrow> None)"

fun steps :: "'m mutation_api \<Rightarrow> 'm label list \<Rightarrow> 'm page \<Rightarrow> 'm page option" where
  "steps api [] p = Some p"
| "steps api (l # ls) p = (case step api l p of None \<Rightarrow> None | Some q \<Rightarrow> steps api ls q)"

text \<open>\<open>createExecutionState\<close>\<close>

definition createExecutionState :: "'m \<Rightarrow> 'm page" where
  "createExecutionState m =
     \<lparr>exec_st = \<lparr>cur_phase = Idle, result = None, streamError = None, controller = None,
                 start = m, aborted = {}, created = 0\<rparr>, runs = []\<rparr>"

inductive reachable :: "'m mutation_api \<Rightarrow> 'm page \<Rightarrow> bool" for api where
  reachable_init: "reachable api (createExecutionState m)"
| reachable_step: "reachable api p \<Longrightarrow> step api l p = Some q \<Longrightarrow> reachable api q"

section \<open>The invariant\<close>

fun holds :: "pc \<Rightarrow> nat option" where
  "holds AwaitStart = None"
| "holds (AwaitStream c) = Some c"
| "holds (AwaitEvent c) = Some c"
| "holds (AwaitReturn c) = Some c"
| "holds Finished = None"

definition run_holds :: "'m page \<Rightarrow> nat \<Rightarrow> nat option" where
  "run_holds p i = Option.bind (waits p i) holds"

definition stream_messages :: "string list" where
  "stream_messages =
     [''Execution failed.'', ''Execution timed out.'', ''Failed to store execution results.'',
      ''Connection to server lost.'']"

fun phase_ok :: "ExecutionPhase \<Rightarrow> bool" where
  "phase_ok Idle = True"
| "phase_ok Starting = False"
| "phase_ok (Active s) = isActivePhase s"

text \<open>What the fields of the object promise, whatever the runs do.\<close>

definition state_ok :: "'m execution_state \<Rightarrow> bool" where
  "state_ok st \<longleftrightarrow>
     phase_ok (cur_phase st) \<and>
     set_option (streamError st) \<subseteq> set stream_messages \<and>
     set_option (controller st) \<subseteq> {..<created st} - aborted st \<and>
     aborted st \<subseteq> {..<created st}"

text \<open>How the runs hold the controllers.\<close>

definition runs_ok :: "'m page \<Rightarrow> bool" where
  "runs_ok p \<longleftrightarrow>
     (\<forall>i c. run_holds p i = Some c \<longrightarrow> c < created (exec_st p)) \<and>
     (\<forall>i j c. run_holds p i = Some c \<and> run_holds p j = Some c \<longrightarrow> i = j) \<and>
     (\<forall>c. controller (exec_st p) = Some c \<longrightarrow> (\<exists>i. run_holds p i = Some c))"

lemma waits_move: "i < length (runs p) \<Longrightarrow> waits (move i q st p) j = (if j = i then Some q else waits p j)"
  by (auto simp: waits_def move_def nth_list_update)

lemma waits_SomeD: "waits p i = Some q \<Longrightarrow> i < length (runs p) \<and> runs p ! i = q"
  by (auto simp: waits_def split: if_splits)

lemma move_st [simp]: "exec_st (move i q st p) = st"
  by (simp add: move_def)

lemma move_len [simp]: "length (runs (move i q st p)) = length (runs p)"
  by (simp add: move_def)

lemma run_holds_move:
  "i < length (runs p) \<Longrightarrow> run_holds (move i q st p) j = (if j = i then holds q else run_holds p j)"
  by (simp add: run_holds_def waits_move)

lemma FAILURE_MESSAGES_messages: "FAILURE_MESSAGES k = Some s \<Longrightarrow> s \<in> set stream_messages"
  by (auto simp: FAILURE_MESSAGES_def stream_messages_def split: if_splits)

lemma state_ok_reset: "state_ok st \<Longrightarrow> state_ok (reset api st)"
  by (simp add: state_ok_def reset_def)

lemma state_ok_abort: "state_ok st \<Longrightarrow> state_ok (abort st)"
  by (auto simp: state_ok_def abort_def split: option.splits)

lemma state_ok_execute: "state_ok st \<Longrightarrow> state_ok (execute api st)"
  using state_ok_reset [OF state_ok_abort, of st api]
  by (simp add: execute_def Let_def state_ok_def)

lemma state_ok_follow: "state_ok st \<Longrightarrow> state_ok (snd (follow data st))"
  by (fastforce simp: state_ok_def follow_def isActivePhase_def ACTIVE_STATUSES_def)

lemma on_event_frame:
  "controller (snd (on_event ev st)) = controller st \<and> aborted (snd (on_event ev st)) = aborted st \<and>
   created (snd (on_event ev st)) = created st \<and> start (snd (on_event ev st)) = start st"
  by (simp add: on_event_def Let_def split: option.splits)

lemma state_ok_on_event: "state_ok st \<Longrightarrow> state_ok (snd (on_event ev st))"
  using FAILURE_MESSAGES_messages
  by (auto simp: state_ok_def on_event_def Let_def split: option.splits)

lemma state_ok_follow_end: "state_ok st \<Longrightarrow> state_ok (follow_end t c st)"
  by (auto simp: state_ok_def follow_end_def Let_def stream_messages_def)

lemmas state_ok_intros =
  state_ok_reset state_ok_abort state_ok_execute state_ok_follow state_ok_on_event state_ok_follow_end

lemma waits_lt: "waits p i = Some q \<Longrightarrow> i < length (runs p)"
  by (auto simp: waits_def split: if_splits)

lemma waits_holds: "waits p i = Some q \<Longrightarrow> run_holds p i = holds q"
  by (simp add: run_holds_def)

lemma runs_ok_same:
  assumes "runs_ok p" "\<And>i. run_holds q i = run_holds p i" "created (exec_st q) = created (exec_st p)"
    "controller (exec_st q) = None \<or> controller (exec_st q) = controller (exec_st p)"
  shows "runs_ok q"
  using assms by (auto simp: runs_ok_def)

text \<open>What a step of a run needs and does, as rewrite rules.\<close>

lemma step_iffs:
  "step api (Start_fails i) p = Some q \<longleftrightarrow>
     waits p i = Some AwaitStart \<and> q = move i Finished (exec_st p) p"
  "step api (Start_resolves i data) p = Some q \<longleftrightarrow>
     waits p i = Some AwaitStart \<and>
     q = move i (AwaitStream (created (exec_st p))) (snd (follow data (exec_st p))) p"
  "step api (Connected i) p = Some q \<longleftrightarrow>
     (\<exists>c. waits p i = Some (AwaitStream c) \<and> q = move i (AwaitEvent c) (exec_st p) p)"
  "step api (Event i ev) p = Some q \<longleftrightarrow>
     (\<exists>c. waits p i = Some (AwaitEvent c) \<and>
        q = move i (if fst (on_event ev (exec_st p)) then AwaitReturn c else AwaitEvent c)
              (snd (on_event ev (exec_st p))) p)"
  "step api (Stream_ends i) p = Some q \<longleftrightarrow>
     (\<exists>c. waits p i = Some (AwaitEvent c) \<and> q = move i Finished (follow_end False c (exec_st p)) p)"
  "step api (Returned i) p = Some q \<longleftrightarrow>
     (\<exists>c. waits p i = Some (AwaitReturn c) \<and> q = move i Finished (follow_end True c (exec_st p)) p)"
  by (auto simp: follow_def split: option.splits pc.splits prod.splits)

declare step.simps(5-10) [simp del]

lemma state_ok_step:
  assumes "state_ok (exec_st p)" "step api l p = Some q"
  shows "state_ok (exec_st q)"
proof (cases l)
  case (Mutation_updates m)
  then show ?thesis using assms by (auto simp: state_ok_def)
next
  case (Event i ev)
  then show ?thesis using assms by (auto simp: step_iffs intro: state_ok_on_event)
qed (use assms in \<open>auto simp: step_iffs intro: state_ok_intros\<close>)

lemma runs_ok_move:
  assumes "runs_ok p" "waits p i = Some r" "holds q = holds r"
    "created st = created (exec_st p)" "controller st = None \<or> controller st = controller (exec_st p)"
  shows "runs_ok (move i q st p)"
  using assms
  by (intro runs_ok_same [OF assms(1)]) (auto simp: run_holds_move waits_lt waits_holds)

lemma runs_ok_drop:
  assumes "runs_ok p" "waits p i = Some r" "created st = created (exec_st p)" "controller st = None"
  shows "runs_ok (move i Finished st p)"
  using assms waits_lt [OF assms(2)] by (auto simp: runs_ok_def run_holds_move split: if_splits)

lemma runs_ok_fresh:
  assumes "runs_ok p" "i < length (runs p)"
    and "controller st = Some (created (exec_st p))" "created st = Suc (created (exec_st p))"
    and "holds q = Some (created (exec_st p))"
  shows "runs_ok (move i q st p)"
  using assms unfolding runs_ok_def
  by (simp add: run_holds_move less_Suc_eq) (metis less_irrefl)

lemma execute_frame:
  "controller (execute api st) = None \<and> created (execute api st) = created st"
  by (simp add: execute_def reset_def abort_def Let_def)

lemma run_holds_append:
  "run_holds (p\<lparr>exec_st := st, runs := runs p @ [AwaitStart]\<rparr>) i = run_holds p i"
  by (auto simp: run_holds_def waits_def nth_append less_Suc_eq)

lemma runs_ok_append:
  assumes "runs_ok p" "created st = created (exec_st p)" "controller st = None"
  shows "runs_ok (p\<lparr>exec_st := st, runs := runs p @ [AwaitStart]\<rparr>)"
  using assms by (simp add: runs_ok_def run_holds_append)

lemma follow_end_frame:
  "controller (follow_end t c st) = None \<and> created (follow_end t c st) = created st"
  by (simp add: follow_end_def Let_def)

lemma runs_ok_step:
  assumes "runs_ok p" "step api l p = Some q"
  shows "runs_ok q"
proof (cases l)
  case Execute
  then show ?thesis using assms by (auto intro: runs_ok_append simp: execute_frame)
next
  case Abort
  then show ?thesis using assms(2)
    by (intro runs_ok_same [OF assms(1)]) (auto simp: run_holds_def waits_def abort_def)
next
  case Reset
  then show ?thesis using assms(2)
    by (intro runs_ok_same [OF assms(1)]) (auto simp: run_holds_def waits_def reset_def)
next
  case (Mutation_updates m)
  then show ?thesis using assms(2)
    by (intro runs_ok_same [OF assms(1)]) (auto simp: run_holds_def waits_def)
next
  case (Start_resolves i data)
  then show ?thesis
    using assms by (auto simp: step_iffs follow_def dest: waits_lt intro!: runs_ok_fresh)
next
  case (Event i ev)
  then show ?thesis using assms on_event_frame [of ev "exec_st p"]
    by (auto simp: step_iffs intro: runs_ok_move [OF assms(1)])
qed (use assms in \<open>auto simp: step_iffs follow_end_frame
      intro: runs_ok_move [OF assms(1)] runs_ok_drop [OF assms(1)]\<close>)

lemma reachable_ok: "reachable api p \<Longrightarrow> state_ok (exec_st p) \<and> runs_ok p"
proof (induction rule: reachable.induct)
  case (reachable_init m)
  show ?case
    by (simp add: createExecutionState_def state_ok_def runs_ok_def run_holds_def waits_def)
next
  case (reachable_step p l q)
  then show ?case using state_ok_step runs_ok_step by blast
qed

section \<open>A run left alone\<close>

text \<open>The answer a stream gives: its first terminal event decides, and without one the connection was lost.\<close>

definition terminal :: "SseExecutionEventSchema \<Rightarrow> bool" where
  "terminal ev \<longleftrightarrow>
     event_type ev = Domain EventType.RESULT_STORED \<or> FAILURE_MESSAGES (event_type ev) \<noteq> None"

fun verdict :: "SseExecutionEventSchema list \<Rightarrow> ExecutionResult option \<times> string option" where
  "verdict [] = (None, Some ''Connection to server lost.'')"
| "verdict (ev # evs) =
     (if terminal ev then (SseExecutionEventSchema.result ev, FAILURE_MESSAGES (event_type ev))
      else verdict evs)"

text \<open>The steps of run \<open>i\<close> on a stream that yields \<open>evs\<close> and then ends.\<close>

fun reads :: "nat \<Rightarrow> SseExecutionEventSchema list \<Rightarrow> 'm label list" where
  "reads i [] = [Stream_ends i]"
| "reads i (ev # evs) = Event i ev # (if terminal ev then [Returned i] else reads i evs)"

lemma FAILURE_MESSAGES_stored [simp]: "FAILURE_MESSAGES (Domain EventType.RESULT_STORED) = None"
  by (simp add: FAILURE_MESSAGES_def)

lemma on_event_terminal: "fst (on_event ev st) = terminal ev"
  by (auto simp: on_event_def terminal_def Let_def split: option.splits)

lemma on_event_result:
  "terminal ev \<Longrightarrow> result (snd (on_event ev st)) = SseExecutionEventSchema.result ev \<and>
     streamError (snd (on_event ev st)) =
       (case FAILURE_MESSAGES (event_type ev) of None \<Rightarrow> streamError st | Some m \<Rightarrow> Some m)"
  by (auto simp: on_event_def terminal_def Let_def split: option.splits)

lemma on_event_quiet:
  "\<not> terminal ev \<Longrightarrow> result (snd (on_event ev st)) = result st \<and>
     streamError (snd (on_event ev st)) = streamError st"
  by (auto simp: on_event_def terminal_def Let_def split: option.splits)

lemmas on_event_facts = on_event_terminal on_event_frame

text \<open>What a finished run leaves behind.\<close>

definition settled :: "'m page \<Rightarrow> nat \<Rightarrow> 'm page \<Rightarrow> SseExecutionEventSchema list \<Rightarrow> bool" where
  "settled p i q evs \<longleftrightarrow>
     runs q = (runs p)[i := Finished] \<and> cur_phase (exec_st q) = Idle \<and> controller (exec_st q) = None \<and>
     (result (exec_st q), streamError (exec_st q)) = verdict evs \<and>
     start (exec_st q) = start (exec_st p) \<and> aborted (exec_st q) = aborted (exec_st p)"

lemma steps_reads:
  assumes "waits p i = Some (AwaitEvent c)" "c \<notin> aborted (exec_st p)"
    "result (exec_st p) = None" "streamError (exec_st p) = None"
  shows "\<exists>q. steps api (reads i evs) p = Some q \<and> settled p i q evs"
  using assms
proof (induction evs arbitrary: p)
  case Nil
  then show ?case
    by (simp add: step.simps settled_def follow_end_def move_def Let_def)
next
  case (Cons ev evs)
  let ?st = "snd (on_event ev (exec_st p))"
  let ?p = "move i (if terminal ev then AwaitReturn c else AwaitEvent c) ?st p"
  have one: "step api (Event i ev) p = Some ?p"
    using Cons.prems(1) by (simp add: step_iffs on_event_facts)
  have len: "i < length (runs p)" using Cons.prems(1) by (rule waits_lt)
  show ?case
  proof (cases "terminal ev")
    case True
    then have "step api (Returned i) ?p = Some (move i Finished (follow_end True c ?st) ?p)"
      using len by (simp add: step_iffs waits_move)
    then show ?thesis
      using True one on_event_result [OF True, of "exec_st p"] Cons.prems
      by (auto simp: settled_def follow_end_def move_def Let_def on_event_facts split: option.splits)
  next
    case False
    then obtain q where "steps api (reads i evs) ?p = Some q" "settled ?p i q evs"
      using Cons.IH [of ?p] Cons.prems on_event_quiet [OF False, of "exec_st p"] len
      by (auto simp: waits_move on_event_facts)
    then show ?thesis
      using False one by (auto simp: settled_def on_event_facts move_def)
  qed
qed

lemma execute_fields:
  "result (execute api st) = None \<and> streamError (execute api st) = None \<and>
   created (execute api st) = created st \<and>
   aborted (execute api st) = aborted st \<union> set_option (controller st)"
  by (simp add: execute_def reset_def abort_def Let_def split: option.splits)

lemma run_settles:
  assumes "reachable api p"
  shows "\<exists>q. steps api
           ([Execute, Start_resolves (length (runs p)) data, Connected (length (runs p))] @
            reads (length (runs p)) evs) p = Some q \<and>
           runs q = runs p @ [Finished] \<and> cur_phase (exec_st q) = Idle \<and>
           controller (exec_st q) = None \<and> (result (exec_st q), streamError (exec_st q)) = verdict evs"
proof -
  let ?i = "length (runs p)" and ?st = "execute api (exec_st p)"
  let ?p1 = "p\<lparr>exec_st := ?st, runs := runs p @ [AwaitStart]\<rparr>"
  let ?p2 = "move ?i (AwaitStream (created ?st)) (snd (follow data ?st)) ?p1"
  let ?p3 = "move ?i (AwaitEvent (created ?st)) (snd (follow data ?st)) ?p2"
  have "state_ok ?st" using reachable_ok [OF assms] state_ok_execute by blast
  then have fresh: "created ?st \<notin> aborted ?st" by (auto simp: state_ok_def)
  have s2: "step api (Start_resolves ?i data) ?p1 = Some ?p2"
    by (simp add: step_iffs waits_def)
  have s3: "step api (Connected ?i) ?p2 = Some ?p3"
    by (simp add: step_iffs waits_move)
  obtain q where "steps api (reads ?i evs) ?p3 = Some q" "settled ?p3 ?i q evs"
    using steps_reads [of ?p3 ?i "created ?st" api evs] fresh
    by (auto simp: waits_move follow_def execute_fields)
  then show ?thesis
    using s2 s3 by (auto simp: settled_def move_def)
qed

text \<open>
  C9: a run left alone ends, and ends with its stream's verdict. From any reachable state, pressing
  run, a start that succeeds and a stream that yields \<open>evs\<close> always lead to a state in which the run
  is finished, the phase is idle, no controller is left and the result and the error are those of
  the first terminal event, or the message that the connection was lost where there is none.
\<close>

theorem execute_delivers_verdict:
  assumes "reachable api p"
  shows "\<exists>q. steps api
           ([Execute, Start_resolves (length (runs p)) data, Connected (length (runs p))] @
            reads (length (runs p)) evs) p = Some q \<and>
           runs q = runs p @ [Finished] \<and> cur_phase (exec_st q) = Idle \<and>
           controller (exec_st q) = None \<and> (result (exec_st q), streamError (exec_st q)) = verdict evs"
  by (rule run_settles [OF assms])

text \<open>An observer that knows only whether the request is under way, and a few events to run on.\<close>

definition flag_api :: "bool mutation_api" where
  "flag_api = \<lparr>isPending = id, mutation_error = (\<lambda>_. None), mutation_reset = (\<lambda>_. False), mutateAsync = (\<lambda>_. True)\<rparr>"

definition sample_result :: ExecutionResult where
  "sample_result =
     ExecutionResult.make ''e'' ExecutionStatus.COMPLETED (Some ''hi'') None ''python'' ''3.12''
       None (Some 0) None QueuePriority.NORMAL"

definition sample_event :: "EventType \<Rightarrow> ExecutionResult option \<Rightarrow> SseExecutionEventSchema" where
  "sample_event k r =
     SseExecutionEventSchema.make (Domain k) ''e'' None None None r"

definition started :: ExecutionResponse where
  "started = ExecutionResponse.make ''e'' ExecutionStatus.QUEUED"

theorem execute_delivers_verdict_witness:
  "\<exists>q. steps flag_api
     ([Execute, Start_resolves 0 started, Connected 0] @
      reads 0 [sample_event EventType.POD_RUNNING None,
               sample_event EventType.RESULT_STORED (Some sample_result)]) (createExecutionState False) = Some q \<and>
     runs q = [Finished] \<and> result (exec_st q) = Some sample_result \<and> streamError (exec_st q) = None"
  using execute_delivers_verdict [OF reachable_init, of flag_api False started
      "[sample_event EventType.POD_RUNNING None, sample_event EventType.RESULT_STORED (Some sample_result)]"]
  by (fastforce simp: createExecutionState_def terminal_def sample_event_def SseExecutionEventSchema.make_def FAILURE_MESSAGES_def)



section \<open>One run at a time\<close>

text \<open>
  The page enables its run button only while nothing executes. \<open>driven\<close> are the states it reaches when
  \<open>execute\<close> and \<open>reset\<close> are called only then and the observer is honest: it reports a pending request
  as long as a run waits for its start, which is what the query library documents of \<open>isPending\<close>.
\<close>

definition honest :: "'m mutation_api \<Rightarrow> 'm page \<Rightarrow> bool" where
  "honest api p \<longleftrightarrow> (\<forall>i. waits p i = Some AwaitStart \<longrightarrow> isPending api (start (exec_st p)))"

lemma honest_iff: "honest api p \<longleftrightarrow> AwaitStart \<in> set (runs p) \<longrightarrow> isPending api (start (exec_st p))"
  by (auto simp: honest_def waits_def in_set_conv_nth)

fun allowed :: "'m mutation_api \<Rightarrow> 'm label \<Rightarrow> 'm page \<Rightarrow> bool" where
  "allowed api Execute p \<longleftrightarrow> \<not> isExecuting api (exec_st p)"
| "allowed api Reset p \<longleftrightarrow> \<not> isExecuting api (exec_st p)"
| "allowed api Abort p \<longleftrightarrow> False"
| "allowed api _ p \<longleftrightarrow> True"

inductive driven :: "'m mutation_api \<Rightarrow> 'm page \<Rightarrow> bool" for api where
  driven_init: "driven api (createExecutionState m)"
| driven_step: "driven api p \<Longrightarrow> allowed api l p \<Longrightarrow> step api l p = Some q \<Longrightarrow> honest api q \<Longrightarrow> driven api q"

definition live :: "'m page \<Rightarrow> nat \<Rightarrow> bool" where
  "live p i \<longleftrightarrow> (\<exists>q. waits p i = Some q \<and> q \<noteq> Finished)"

definition serial :: "'m page \<Rightarrow> bool" where
  "serial p \<longleftrightarrow>
     (\<forall>i j. live p i \<and> live p j \<longrightarrow> i = j) \<and>
     (\<forall>i c. run_holds p i = Some c \<longrightarrow> controller (exec_st p) = Some c \<and> cur_phase (exec_st p) \<noteq> Idle)"

lemma live_move: "i < length (runs p) \<Longrightarrow> live (move i q st p) j = (if j = i then q \<noteq> Finished else live p j)"
  by (simp add: live_def waits_move)

lemma run_holds_live: "run_holds p i = Some c \<Longrightarrow> live p i"
  by (cases "waits p i") (auto simp: run_holds_def live_def split: pc.splits)

lemma on_event_active:
  "cur_phase st \<noteq> Idle \<Longrightarrow> cur_phase (snd (on_event ev st)) \<noteq> Idle"
  by (simp add: on_event_def Let_def split: option.splits)

lemma driven_reachable: "driven api p \<Longrightarrow> reachable api p"
  by (induction rule: driven.induct) (auto intro: reachable.intros)

lemma live_executing:
  assumes "serial p" "honest api p" "live p i"
  shows "isExecuting api (exec_st p)"
proof -
  obtain q where q: "waits p i = Some q" "q \<noteq> Finished" using assms(3) by (auto simp: live_def)
  then show ?thesis
    using assms waits_holds [OF q(1)] by (cases q) (auto simp: honest_def serial_def isExecuting_def phase_def)
qed

lemma serial_idle: "(\<And>i. \<not> live p i) \<Longrightarrow> serial p"
  using run_holds_live by (fastforce simp: serial_def)

lemma serial_move:
  assumes "serial p" "waits p i = Some r" "r \<noteq> Finished"
    and "holds q = None \<or> controller st = holds q \<and> cur_phase st \<noteq> Idle"
  shows "serial (move i q st p)"
proof -
  have i: "i < length (runs p)" "live p i" using assms(2,3) waits_lt by (auto simp: live_def)
  then have "\<not> live p j" if "j \<noteq> i" for j using assms(1) that by (auto simp: serial_def)
  then have "run_holds p j = None" if "j \<noteq> i" for j
    using run_holds_live that by (metis option.exhaust)
  then show ?thesis
    using assms i by (auto simp: serial_def live_move run_holds_move split: if_splits)
qed

lemma live_append:
  "live (p\<lparr>exec_st := st, runs := runs p @ [AwaitStart]\<rparr>) i \<longleftrightarrow> live p i \<or> i = length (runs p)"
  by (auto simp: live_def waits_def nth_append less_Suc_eq)

lemma run_holds_st: "run_holds (p\<lparr>exec_st := st\<rparr>) i = run_holds p i"
  by (simp add: run_holds_def waits_def)

lemma live_runs: "live (p\<lparr>exec_st := st\<rparr>) i = live p i"
  by (simp add: live_def waits_def)

lemma serial_step:
  assumes "serial p" "honest api p" "allowed api l p" "step api l p = Some q"
  shows "serial q"
proof (cases l)
  case Execute
  then have no: "\<not> live p i" for i
    using assms(3) live_executing [OF assms(1,2)] by auto
  have q: "q = p\<lparr>exec_st := execute api (exec_st p), runs := runs p @ [AwaitStart]\<rparr>"
    using assms(4) Execute by simp
  have "run_holds p i = None" for i
    using no run_holds_live by (metis option.exhaust)
  then have "run_holds q i = None" for i
    by (simp add: q run_holds_append)
  then show ?thesis using no by (auto simp: serial_def q live_append)
next
  case Reset
  then have "\<not> live p i" for i
    using assms(3) live_executing [OF assms(1,2)] by auto
  then show ?thesis using assms(4) Reset by (auto simp: live_runs intro!: serial_idle)
next
  case Abort
  then show ?thesis using assms(3) by simp
next
  case (Mutation_updates m)
  then show ?thesis using assms(1,4) by (auto simp: serial_def live_runs run_holds_st)
next
  case (Event i ev)
  then obtain c where w: "waits p i = Some (AwaitEvent c)"
    and q: "q = move i (if terminal ev then AwaitReturn c else AwaitEvent c) (snd (on_event ev (exec_st p))) p"
    using assms(4) by (auto simp: step_iffs on_event_facts)
  have "controller (exec_st p) = Some c" "cur_phase (exec_st p) \<noteq> Idle"
    using assms(1) waits_holds [OF w] by (auto simp: serial_def)
  then show ?thesis
    unfolding q using w by (intro serial_move [OF assms(1) w]) (auto simp: on_event_facts on_event_active)
next
  case (Connected i)
  then obtain c where w: "waits p i = Some (AwaitStream c)" and q: "q = move i (AwaitEvent c) (exec_st p) p"
    using assms(4) by (auto simp: step_iffs)
  then show ?thesis
    unfolding q using assms(1) waits_holds [OF w] by (intro serial_move [OF assms(1) w]) (auto simp: serial_def)
qed (use assms(4) in \<open>auto simp: step_iffs follow_def intro: serial_move [OF assms(1)]\<close>)

lemma driven_serial: "driven api p \<Longrightarrow> serial p \<and> honest api p"
proof (induction rule: driven.induct)
  case (driven_init m)
  show ?case by (simp add: createExecutionState_def serial_def honest_def live_def run_holds_def waits_def)
next
  case (driven_step p l q)
  then show ?case using serial_step by blast
qed

text \<open>
  C10: used through its run button, the page never has two runs at once; while a run is under way the
  page says that it is executing, and once the run follows its stream, aborting would reach it: the
  current controller is the run's own.
\<close>

theorem one_run_at_a_time:
  assumes "driven api p"
  shows "(\<forall>i j. live p i \<and> live p j \<longrightarrow> i = j) \<and>
         (\<forall>i. live p i \<longrightarrow> isExecuting api (exec_st p)) \<and>
         (\<forall>i c. run_holds p i = Some c \<longrightarrow> c \<in> aborted (abort (exec_st p)) - aborted (exec_st p))"
proof -
  have s: "serial p" "honest api p" using driven_serial [OF assms] by simp_all
  have "state_ok (exec_st p)" using reachable_ok [OF driven_reachable [OF assms]] by simp
  then show ?thesis
    using s live_executing [OF s] by (auto simp: serial_def state_ok_def abort_def)
qed

theorem one_run_at_a_time_witness:
  "\<exists>q. steps flag_api [Execute, Start_resolves 0 started] (createExecutionState False) = Some q \<and>
       driven flag_api q \<and> run_holds q 0 = Some 0 \<and> 0 \<in> aborted (abort (exec_st q)) - aborted (exec_st q)"
proof -
  let ?p0 = "createExecutionState False"
  let ?p1 = "the (step flag_api Execute ?p0)"
  let ?p2 = "the (step flag_api (Start_resolves 0 started) ?p1)"
  have steps: "step flag_api Execute ?p0 = Some ?p1" "step flag_api (Start_resolves 0 started) ?p1 = Some ?p2"
    by code_simp+
  have "driven flag_api ?p1"
    by (rule driven_step [OF driven_init _ steps(1)]) (unfold honest_iff, code_simp+)
  then have d: "driven flag_api ?p2"
    by (rule driven_step [OF _ _ steps(2)]) (unfold honest_iff, code_simp+)
  have h: "run_holds ?p2 0 = Some 0" by code_simp
  obtain p1 p2 where "step flag_api Execute ?p0 = Some p1"
    "step flag_api (Start_resolves 0 started) p1 = Some p2" "driven flag_api p2" "run_holds p2 0 = Some 0"
    using steps d h by blast
  then show ?thesis
    using one_run_at_a_time [of flag_api p2] by (intro exI [of _ p2]) (simp del: step.simps)
qed

section \<open>Stale runs\<close>

text \<open>
  \<open>reset\<close> does not stop the run. After loading another script clears the output, the old run's
  result still arrives and is shown.
\<close>

theorem reset_leaves_run:
  "\<exists>q. steps flag_api
     [Execute, Start_resolves 0 started, Mutation_updates False, Connected 0, Reset,
      Event 0 (sample_event EventType.RESULT_STORED (Some sample_result))] (createExecutionState False) = Some q \<and>
     result (exec_st q) = Some sample_result"
  by (simp add: step.simps createExecutionState_def waits_def move_def follow_def execute_def reset_def
      abort_def on_event_def sample_event_def SseExecutionEventSchema.make_def Let_def)


end
