(* ===== verification/Sse.thy ===== *)
theory Sse
  imports JsValue
begin

text \<open>
  The Server-Sent Events client, \<^verbatim>\<open>frontend/src/lib/api/core/serverSentEvents.gen.ts\<close>: reading a
  response body in chunks, splitting it into events, and reconnecting with a growing delay. The
  server and the network are the script of turns the loop meets; what the client does in answer is
  the list of observations: a connection with its \<open>Last-Event-ID\<close>, an \<open>onSseEvent\<close> or
  \<open>onSseError\<close> call, a value yielded, a sleep. \<open>JSON.parse\<close>, the validator and the transformer are
  arguments, so the lemmas hold for all of them.
\<close>

section \<open>Data\<close>

record stream_event =
  se_data :: jsval
  se_event :: "string option"
  se_id :: "string option"
  se_retry :: int

record sse_options =
  responseValidator :: "(jsval \<Rightarrow> js_error option) option"
  responseTransformer :: "(jsval \<Rightarrow> jsval res) option"
  sseDefaultRetryDelay :: "int option"
  sseMaxRetryAttempts :: "int option"
  sseMaxRetryDelay :: "int option"
  parseJson :: "string \<Rightarrow> jsval option" \<comment> \<open>\<open>JSON.parse\<close>, \<open>None\<close> where it throws\<close>

record sse_state =
  lastEventId :: "string option"
  retryDelay :: int

datatype sse_obs =
    Connect "string option" \<comment> \<open>a request, with its \<open>Last-Event-ID\<close> header\<close>
  | OnSseEvent stream_event
  | Yield jsval
  | OnSseError js_error
  | Sleep int

text \<open>How reading a body ends, what one attempt meets, and what the loop meets at its head.\<close>

datatype body_end = Done | ReadError js_error

datatype connection =
    FetchFails js_error \<comment> \<open>building, intercepting or sending the request throws\<close>
  | Responds int string "(string list \<times> body_end) option"
      \<comment> \<open>status, status text, and the body's chunks if there is a body\<close>

datatype turn = Aborted | Attempt connection

datatype sse_end = Ended | Waiting

section \<open>Reading events\<close>

text \<open>\<^verbatim>\<open>buffer.replace(/\r\n?/g, '\n')\<close>\<close>

fun normalize :: "string \<Rightarrow> string" where
  "normalize [] = []"
| "normalize [c] = [if cc c = 13 then CHR 0x0A else c]"
| "normalize (c # d # s) =
     (if cc c = 13 then (if cc d = 10 then CHR 0x0A # normalize s else CHR 0x0A # normalize (d # s))
      else c # normalize (d # s))"

text \<open>\<open>line.replace(/^field:\s*/, '')\<close> for a line that starts with \<open>field:\<close>\<close>

definition field_value :: "string \<Rightarrow> string \<Rightarrow> string" where
  "field_value field line = dropWhile is_space (drop (length field) line)"

text \<open>\<open>Number.parseInt(s, 10)\<close>, \<open>None\<close> for \<open>NaN\<close>\<close>

definition parseInt10 :: "string \<Rightarrow> int option" where
  "parseInt10 s =
     (let t = dropWhile is_space s;
          neg = startsWith t ''-'';
          u = (if neg \<or> startsWith t ''+'' then tl t else t);
          ds = takeWhile is_digit u
      in if ds = [] then None else Some (if neg then - digits_value ds else digits_value ds))"

text \<open>The lines of one event: its data lines, its name, and the changes to the client's state.\<close>

fun read_lines ::
  "string list \<Rightarrow> string list \<Rightarrow> string option \<Rightarrow> sse_state \<Rightarrow>
   string list \<times> string option \<times> sse_state" where
  "read_lines [] dataLines eventName st = (dataLines, eventName, st)"
| "read_lines (line # ls) dataLines eventName st =
     (if startsWith line ''data:'' then
        read_lines ls (dataLines @ [field_value ''data:'' line]) eventName st
      else if startsWith line ''event:'' then
        read_lines ls dataLines (Some (field_value ''event:'' line)) st
      else if startsWith line ''id:'' then
        read_lines ls dataLines eventName (st\<lparr>lastEventId := Some (field_value ''id:'' line)\<rparr>)
      else if startsWith line ''retry:'' then
        read_lines ls dataLines eventName
          (case parseInt10 (field_value ''retry:'' line) of
             None \<Rightarrow> st | Some parsed \<Rightarrow> st\<lparr>retryDelay := parsed\<rparr>)
      else read_lines ls dataLines eventName st)"

definition run_validator :: "sse_options \<Rightarrow> jsval \<Rightarrow> unit res" where
  "run_validator opts d =
     (case responseValidator opts of None \<Rightarrow> Inr ()
      | Some v \<Rightarrow> (case v d of None \<Rightarrow> Inr () | Some e \<Rightarrow> Inl e))"

definition run_transformer :: "sse_options \<Rightarrow> jsval \<Rightarrow> jsval res" where
  "run_transformer opts d = (case responseTransformer opts of None \<Rightarrow> Inr d | Some t \<Rightarrow> t d)"

definition read_data :: "sse_options \<Rightarrow> string list \<Rightarrow> jsval res" where
  "read_data opts dataLines =
     (if dataLines = [] then Inr JUndefined
      else let rawData = join [CHR 0x0A] dataLines in
        (case parseJson opts rawData of
           None \<Rightarrow> Inr (JStr rawData)
         | Some d \<Rightarrow> rbind (run_validator opts d) (\<lambda>_. run_transformer opts d)))"

definition read_event ::
  "sse_options \<Rightarrow> sse_state \<Rightarrow> string \<Rightarrow> sse_state \<times> sse_obs list \<times> js_error option" where
  "read_event opts st chunk =
     (case read_lines (split [CHR 0x0A] chunk) [] None st of (dataLines, eventName, st') \<Rightarrow>
        (case read_data opts dataLines of
           Inl e \<Rightarrow> (st', [], Some e)
         | Inr d \<Rightarrow>
             (st', OnSseEvent \<lparr>se_data = d, se_event = eventName, se_id = lastEventId st',
                                se_retry = retryDelay st'\<rparr>
                   # (if dataLines \<noteq> [] then [Yield d] else []), None)))"

fun read_events ::
  "sse_options \<Rightarrow> sse_state \<Rightarrow> string list \<Rightarrow> sse_state \<times> sse_obs list \<times> js_error option" where
  "read_events opts st [] = (st, [], None)"
| "read_events opts st (chunk # chunks) =
     (case read_event opts st chunk of
        (st1, os1, Some e) \<Rightarrow> (st1, os1, Some e)
      | (st1, os1, None) \<Rightarrow>
          (case read_events opts st1 chunks of (st2, os2, r) \<Rightarrow> (st2, os1 @ os2, r)))"

fun read_body ::
  "sse_options \<Rightarrow> string \<Rightarrow> sse_state \<Rightarrow> string list \<Rightarrow> body_end \<Rightarrow>
   sse_state \<times> sse_obs list \<times> js_error option" where
  "read_body opts buffer st [] Done = (st, [], None)"
| "read_body opts buffer st [] (ReadError e) = (st, [], Some e)"
| "read_body opts buffer st (value # vals) fin =
     (let chunks = split [CHR 0x0A, CHR 0x0A] (normalize (buffer @ value)) in
      case read_events opts st (butlast chunks) of
        (st1, os1, Some e) \<Rightarrow> (st1, os1, Some e)
      | (st1, os1, None) \<Rightarrow>
          (case read_body opts (last chunks) st1 vals fin of (st2, os2, r) \<Rightarrow> (st2, os1 @ os2, r)))"

section \<open>Connecting and reconnecting\<close>

definition connect ::
  "sse_options \<Rightarrow> sse_state \<Rightarrow> connection \<Rightarrow> sse_state \<times> sse_obs list \<times> js_error option" where
  "connect opts st c =
     (case c of
        FetchFails e \<Rightarrow> (st, [], Some e)
      | Responds status statusText body \<Rightarrow>
          if \<not> (200 \<le> status \<and> status \<le> 299) then
            (st, [], Some (JSError (''SSE failed: '' @ show_int status @ '' '' @ statusText)))
          else (case body of
                  None \<Rightarrow> (st, [], Some (JSError ''No body in SSE response''))
                | Some (vals, fin) \<Rightarrow> read_body opts [] st vals fin))"

definition backoff :: "sse_options \<Rightarrow> sse_state \<Rightarrow> nat \<Rightarrow> int" where
  "backoff opts st attempt =
     min (retryDelay st * 2 ^ (attempt - 1))
         (case sseMaxRetryDelay opts of None \<Rightarrow> 30000 | Some d \<Rightarrow> d)"

definition give_up :: "sse_options \<Rightarrow> nat \<Rightarrow> bool" where
  "give_up opts attempt \<longleftrightarrow>
     (case sseMaxRetryAttempts opts of None \<Rightarrow> False | Some n \<Rightarrow> n \<le> int attempt)"

fun sse_loop ::
  "sse_options \<Rightarrow> nat \<Rightarrow> sse_state \<Rightarrow> turn list \<Rightarrow> sse_obs list \<times> sse_end" where
  "sse_loop opts attempt st [] = ([], Waiting)"
| "sse_loop opts attempt st (Aborted # ts) = ([], Ended)"
| "sse_loop opts attempt st (Attempt c # ts) =
     (case connect opts st c of
        (st1, os, None) \<Rightarrow> (Connect (lastEventId st) # os, Ended)
      | (st1, os, Some e) \<Rightarrow>
          if give_up opts (Suc attempt) then (Connect (lastEventId st) # os @ [OnSseError e], Ended)
          else
            (case sse_loop opts (Suc attempt) st1 ts of (os', r) \<Rightarrow>
               (Connect (lastEventId st) # os @ [OnSseError e, Sleep (backoff opts st1 (Suc attempt))] @ os', r)))"

definition createSseClient :: "sse_options \<Rightarrow> turn list \<Rightarrow> sse_obs list \<times> sse_end" where
  "createSseClient opts ts =
     sse_loop opts 0
       \<lparr>lastEventId = None,
        retryDelay = (case sseDefaultRetryDelay opts of None \<Rightarrow> 3000 | Some d \<Rightarrow> d)\<rparr> ts"

text \<open>What the consumer of the stream sees.\<close>

definition yields :: "sse_obs list \<Rightarrow> jsval list" where
  "yields os = concat (map (\<lambda>ob. case ob of Yield d \<Rightarrow> [d] | _ \<Rightarrow> []) os)"

section \<open>Lemmas\<close>

abbreviation lf :: char where "lf \<equiv> CHR 0x0A"

definition cr_free :: "string \<Rightarrow> bool" where
  "cr_free s \<longleftrightarrow> list_all (\<lambda>c. cc c \<noteq> 13) s"

lemma cr_free_append [simp]: "cr_free (s @ t) \<longleftrightarrow> cr_free s \<and> cr_free t"
  by (simp add: cr_free_def)

lemma cr_free_concat [simp]: "cr_free (concat ss) \<longleftrightarrow> (\<forall>s \<in> set ss. cr_free s)"
  by (induction ss) (auto simp: cr_free_def)

lemma normalize_cr_free: "cr_free s \<Longrightarrow> normalize s = s"
  by (induction s rule: normalize.induct) (auto simp: cr_free_def)

lemma split_last: "sep \<noteq> [] \<Longrightarrow> split sep (last (split sep s)) = [last (split sep s)]"
proof -
  assume "sep \<noteq> []"
  then have "split sep s = butlast (split sep s) @ split sep (last (split sep s))"
    using split_append [of sep s "[]"] by simp
  moreover have "split sep s = butlast (split sep s) @ [last (split sep s)]"
    by simp
  ultimately show ?thesis by (metis append_same_eq same_append_eq)
qed

lemma last_split_set: "sep \<noteq> [] \<Longrightarrow> set (last (split sep s)) \<subseteq> set s"
proof (induction sep s rule: split.induct)
  case (2 sep c s)
  then show ?case
  proof (cases "startsWith (c # s) sep")
    case True
    then show ?thesis using 2 set_drop_subset [of "length sep - 1" s] by fastforce
  next
    case False
    obtain h t where ht: "split sep s = h # t" by (cases "split sep s") auto
    then show ?thesis using 2 False by (cases "t = []") auto
  qed
qed simp

lemma read_events_append:
  "read_events opts st (xs @ ys) =
     (case read_events opts st xs of
        (st1, os1, Some e) \<Rightarrow> (st1, os1, Some e)
      | (st1, os1, None) \<Rightarrow>
          (case read_events opts st1 ys of (st2, os2, r) \<Rightarrow> (st2, os1 @ os2, r)))"
  by (induction xs arbitrary: st) (auto split: prod.splits option.splits)

definition body_result ::
  "body_end \<Rightarrow> sse_state \<times> sse_obs list \<times> js_error option \<Rightarrow>
   sse_state \<times> sse_obs list \<times> js_error option" where
  "body_result fin r =
     (case r of (st, os, Some e) \<Rightarrow> (st, os, Some e)
      | (st, os, None) \<Rightarrow> (st, os, case fin of Done \<Rightarrow> None | ReadError e \<Rightarrow> Some e))"

lemma read_body_whole:
  assumes "cr_free buffer" "cr_free (concat vals)" "split [lf, lf] buffer = [buffer]"
  shows "read_body opts buffer st vals fin =
           body_result fin (read_events opts st (butlast (split [lf, lf] (buffer @ concat vals))))"
  using assms
proof (induction vals arbitrary: buffer st)
  case Nil
  then show ?case by (cases fin) (simp_all add: body_result_def)
next
  case (Cons v vs)
  let ?s = "split [lf, lf] (buffer @ v)"
  have norm: "normalize (buffer @ v) = buffer @ v"
    using Cons.prems by (simp add: normalize_cr_free)
  have last: "cr_free (last ?s)"
    using last_split_set [of "[lf, lf]" "buffer @ v"] Cons.prems
    by (auto simp: cr_free_def list_all_iff)
  have IH: "read_body opts (last ?s) st1 vs fin =
      body_result fin (read_events opts st1 (butlast (split [lf, lf] (last ?s @ concat vs))))" for st1
    using Cons.prems(2) by (intro Cons.IH last) (simp_all add: split_last)
  have "butlast (split [lf, lf] (buffer @ v @ concat vs)) =
      butlast ?s @ butlast (split [lf, lf] (last ?s @ concat vs))"
    using split_append [of "[lf, lf]" "buffer @ v" "concat vs"] by (simp add: butlast_append)
  then show ?case
    by (simp add: norm IH read_events_append body_result_def del: split.simps
        split: prod.splits option.splits)
qed

lemma read_body_chunking:
  assumes "concat vals = concat vals'" "cr_free (concat vals)"
  shows "read_body opts [] st vals fin = read_body opts [] st vals' fin"
proof -
  have c: "cr_free []" "split [lf, lf] [] = [[]]" by (simp_all add: cr_free_def)
  show ?thesis
    using read_body_whole [OF c(1) _ c(2), of vals] read_body_whole [OF c(1) _ c(2), of vals'] assms
    by simp
qed

text \<open>The bound on attempts and on delays.\<close>

definition connects :: "sse_obs list \<Rightarrow> nat" where
  "connects os = length (filter (\<lambda>ob. case ob of Connect _ \<Rightarrow> True | _ \<Rightarrow> False) os)"

definition sleeps :: "sse_obs list \<Rightarrow> int list" where
  "sleeps os = concat (map (\<lambda>ob. case ob of Sleep d \<Rightarrow> [d] | _ \<Rightarrow> []) os)"

lemma obs_append [simp]:
  "connects (xs @ ys) = connects xs + connects ys" "sleeps (xs @ ys) = sleeps xs @ sleeps ys"
  "yields (xs @ ys) = yields xs @ yields ys"
  by (simp_all add: connects_def sleeps_def yields_def)

lemma obs_simps [simp]:
  "connects [] = 0" "connects (Connect i # os) = Suc (connects os)"
  "connects (OnSseEvent ev # os) = connects os" "connects (Yield d # os) = connects os"
  "connects (OnSseError e # os) = connects os" "connects (Sleep n # os) = connects os"
  "sleeps [] = []" "sleeps (Connect i # os) = sleeps os"
  "sleeps (OnSseEvent ev # os) = sleeps os" "sleeps (Yield d # os) = sleeps os"
  "sleeps (OnSseError e # os) = sleeps os" "sleeps (Sleep n # os) = n # sleeps os"
  "yields [] = []" "yields (Connect i # os) = yields os"
  "yields (OnSseEvent ev # os) = yields os" "yields (Yield d # os) = d # yields os"
  "yields (OnSseError e # os) = yields os" "yields (Sleep n # os) = yields os"
  by (simp_all add: connects_def sleeps_def yields_def)

lemma read_event_quiet: "read_event opts st c = (st', os, r) \<Longrightarrow> connects os = 0 \<and> sleeps os = []"
  by (auto simp: read_event_def split: prod.splits sum.splits if_splits)

lemma read_events_quiet: "read_events opts st cs = (st', os, r) \<Longrightarrow> connects os = 0 \<and> sleeps os = []"
proof (induction cs arbitrary: st st' os r)
  case (Cons c cs)
  then show ?case by (fastforce split: prod.splits option.splits dest: read_event_quiet)
qed simp

lemma read_body_quiet:
  "read_body opts b st vs fin = (st', os, r) \<Longrightarrow> connects os = 0 \<and> sleeps os = []"
proof (induction opts b st vs fin arbitrary: st' os r rule: read_body.induct)
  case (3 opts buffer st v vals fin)
  then show ?case
    by (fastforce simp: Let_def split: prod.splits option.splits dest: read_events_quiet simp del: split.simps)
qed simp_all

lemma connect_quiet: "connect opts st c = (st', os, r) \<Longrightarrow> connects os = 0 \<and> sleeps os = []"
  by (auto simp: connect_def split: connection.splits if_splits option.splits dest: read_body_quiet)

lemma sse_loop_connects:
  assumes "sseMaxRetryAttempts opts = Some n" "int attempt < n"
  shows "int (attempt + connects (fst (sse_loop opts attempt st ts))) \<le> n"
  using assms(2)
proof (induction ts arbitrary: attempt st)
  case (Cons t ts)
  show ?case
  proof (cases t)
    case Aborted
    then show ?thesis using Cons.prems by simp
  next
    case (Attempt c)
    obtain st1 os r where c: "connect opts st c = (st1, os, r)" by (metis prod_cases3)
    have q: "connects os = 0" using connect_quiet [OF c] by simp
    show ?thesis
    proof (cases "r = None \<or> give_up opts (Suc attempt)")
      case True
      then show ?thesis using Attempt c q Cons.prems by (auto split: option.splits)
    next
      case False
      then have "int (Suc attempt) < n" using assms(1) by (simp add: give_up_def)
      then have "int (Suc attempt + connects (fst (sse_loop opts (Suc attempt) st1 ts))) \<le> n"
        by (rule Cons.IH)
      then show ?thesis using Attempt c q False by (auto split: prod.splits)
    qed
  qed
qed simp

lemma sse_loop_ends:
  assumes "sseMaxRetryAttempts opts = Some n" "n \<le> int (attempt + length ts)" "ts \<noteq> []"
  shows "snd (sse_loop opts attempt st ts) = Ended"
  using assms(2,3)
proof (induction ts arbitrary: attempt st)
  case (Cons t ts)
  show ?case
  proof (cases t)
    case (Attempt c)
    obtain st1 os r where c: "connect opts st c = (st1, os, r)" by (metis prod_cases3)
    show ?thesis
    proof (cases "r = None \<or> give_up opts (Suc attempt)")
      case True
      then show ?thesis using Attempt c by (auto split: option.splits)
    next
      case False
      then have "ts \<noteq> []" using Cons.prems assms(1) by (auto simp: give_up_def)
      then have "snd (sse_loop opts (Suc attempt) st1 ts) = Ended"
        using Cons.prems by (intro Cons.IH) auto
      then show ?thesis using Attempt c False by (auto split: prod.splits)
    qed
  qed simp
qed simp

lemma sse_loop_sleeps:
  assumes "sseMaxRetryDelay opts = Some m \<or> sseMaxRetryDelay opts = None \<and> m = 30000"
  shows "\<forall>d \<in> set (sleeps (fst (sse_loop opts attempt st ts))). d \<le> m"
proof (induction ts arbitrary: attempt st)
  case (Cons t ts)
  show ?case
  proof (cases t)
    case (Attempt c)
    obtain st1 os r where c: "connect opts st c = (st1, os, r)" by (metis prod_cases3)
    have "sleeps os = []" using connect_quiet [OF c] by simp
    moreover have "backoff opts st1 (Suc attempt) \<le> m" using assms by (auto simp: backoff_def)
    ultimately show ?thesis using Attempt c Cons.IH [of "Suc attempt" st1]
      by (auto split: option.splits prod.splits)
  qed simp
qed simp

text \<open>Which \<open>Last-Event-ID\<close> a reconnection carries.\<close>

fun id_after :: "string option \<Rightarrow> sse_obs list \<Rightarrow> string option" where
  "id_after i [] = i"
| "id_after i (OnSseEvent ev # os) = id_after (se_id ev) os"
| "id_after i (_ # os) = id_after i os"

fun resumes :: "string option \<Rightarrow> sse_obs list \<Rightarrow> bool" where
  "resumes i [] = True"
| "resumes i (Connect h # os) = (h = i \<and> resumes i os)"
| "resumes i (OnSseEvent ev # os) = resumes (se_id ev) os"
| "resumes i (_ # os) = resumes i os"

lemma id_after_append [simp]: "id_after i (xs @ ys) = id_after (id_after i xs) ys"
  by (induction i xs rule: id_after.induct) auto

lemma resumes_append [simp]: "resumes i (xs @ ys) \<longleftrightarrow> resumes i xs \<and> resumes (id_after i xs) ys"
  by (induction i xs rule: resumes.induct) auto

definition no_checks :: "sse_options \<Rightarrow> bool" where
  "no_checks opts \<longleftrightarrow> responseValidator opts = None \<and> responseTransformer opts = None"

definition decode_data :: "sse_options \<Rightarrow> string \<Rightarrow> jsval" where
  "decode_data opts raw = (case parseJson opts raw of None \<Rightarrow> JStr raw | Some d \<Rightarrow> d)"

lemma read_data_plain:
  "no_checks opts \<Longrightarrow> ds \<noteq> [] \<Longrightarrow> read_data opts ds = Inr (decode_data opts (join [lf] ds))"
  "no_checks opts \<Longrightarrow> read_data opts [] = Inr JUndefined"
  by (auto simp: read_data_def no_checks_def run_validator_def run_transformer_def decode_data_def
      split: option.splits)

lemma read_event_resumes:
  assumes "no_checks opts" "read_event opts st c = (st', os, r)"
  shows "resumes (lastEventId st) os \<and> id_after (lastEventId st) os = lastEventId st' \<and> r = None"
proof -
  obtain ds ev st1 where l: "read_lines (split [lf] c) [] None st = (ds, ev, st1)"
    by (metis prod_cases3)
  show ?thesis using assms l read_data_plain(1) [OF assms(1), of ds]
    by (cases "ds = []") (auto simp: read_event_def read_data_plain(2) [OF assms(1)])
qed

lemma read_events_resumes:
  assumes "no_checks opts" "read_events opts st cs = (st', os, r)"
  shows "resumes (lastEventId st) os \<and> id_after (lastEventId st) os = lastEventId st' \<and> r = None"
  using assms(2)
proof (induction cs arbitrary: st st' os r)
  case (Cons c cs)
  obtain st1 os1 r1 where c: "read_event opts st c = (st1, os1, r1)" by (metis prod_cases3)
  obtain st2 os2 r2 where cs: "read_events opts st1 cs = (st2, os2, r2)" by (metis prod_cases3)
  show ?case using Cons.prems c cs read_event_resumes [OF assms(1) c] Cons.IH [OF cs] by auto
qed simp

lemma read_body_resumes:
  assumes "no_checks opts" "read_body opts b st vs fin = (st', os, r)"
  shows "resumes (lastEventId st) os \<and> id_after (lastEventId st) os = lastEventId st'"
  using assms(2)
proof (induction vs arbitrary: b st st' os r)
  case Nil
  then show ?case by (cases fin) auto
next
  case (Cons v vs)
  let ?s = "split [lf, lf] (normalize (b @ v))"
  obtain st1 os1 r1 where c: "read_events opts st (butlast ?s) = (st1, os1, r1)" by (metis prod_cases3)
  obtain st2 os2 r2 where cs: "read_body opts (last ?s) st1 vs fin = (st2, os2, r2)" by (metis prod_cases3)
  show ?case using Cons.prems c cs read_events_resumes [OF assms(1) c] Cons.IH [OF cs]
    by (auto simp: Let_def simp del: split.simps)
qed

lemma connect_resumes:
  assumes "no_checks opts" "connect opts st c = (st', os, r)"
  shows "resumes (lastEventId st) os \<and> id_after (lastEventId st) os = lastEventId st'"
  using assms by (auto simp: connect_def split: connection.splits if_splits option.splits
      dest: read_body_resumes)

lemma sse_loop_resumes:
  assumes "no_checks opts"
  shows "resumes (lastEventId st) (fst (sse_loop opts attempt st ts))"
proof (induction ts arbitrary: attempt st)
  case (Cons t ts)
  show ?case
  proof (cases t)
    case (Attempt c)
    obtain st1 os r where c: "connect opts st c = (st1, os, r)" by (metis prod_cases3)
    show ?thesis using Attempt c connect_resumes [OF assms c] Cons.IH [of st1 "Suc attempt"]
      by (auto split: option.splits prod.splits)
  qed simp
qed simp

text \<open>Attempts that all fail.\<close>

lemma sse_loop_all_fail:
  assumes "sseMaxRetryAttempts opts = Some (int (attempt + length es))" "es \<noteq> []"
    "sseMaxRetryDelay opts = Some m"
  shows "sleeps (fst (sse_loop opts attempt st (map (Attempt \<circ> FetchFails) es @ ts))) =
           map (\<lambda>k. min (retryDelay st * 2 ^ k) m) [attempt..<attempt + length es - 1] \<and>
         connects (fst (sse_loop opts attempt st (map (Attempt \<circ> FetchFails) es @ ts))) = length es \<and>
         snd (sse_loop opts attempt st (map (Attempt \<circ> FetchFails) es @ ts)) = Ended"
  using assms(1,2)
proof (induction es arbitrary: attempt)
  case (Cons e es)
  show ?case
  proof (cases "es = []")
    case True
    then show ?thesis using Cons.prems by (simp add: connect_def give_up_def)
  next
    case False
    have "\<not> give_up opts (Suc attempt)" using False Cons.prems by (simp add: give_up_def)
    moreover have "[attempt..<attempt + length es] = attempt # [Suc attempt..<attempt + length es]"
      using False by (simp add: upt_conv_Cons)
    ultimately show ?thesis using Cons.IH [of "Suc attempt"] Cons.prems False assms(3)
      by (auto simp: connect_def backoff_def split: prod.splits)
  qed
qed simp

text \<open>The wire format a server sends.\<close>

record wire_event =
  we_event :: "string option"
  we_id :: "string option"
  we_data :: "string list"

definition opt_line :: "string \<Rightarrow> string option \<Rightarrow> string list" where
  "opt_line field v = (case v of None \<Rightarrow> [] | Some s \<Rightarrow> [field @ s])"

definition wire_lines :: "wire_event \<Rightarrow> string list" where
  "wire_lines ev = opt_line ''event: '' (we_event ev) @ opt_line ''id: '' (we_id ev) @
     map (\<lambda>d. ''data: '' @ d) (we_data ev)"

definition wire :: "wire_event \<Rightarrow> string" where
  "wire ev = join [lf] (wire_lines ev) @ [lf, lf]"

definition field_ok :: "string \<Rightarrow> bool" where
  "field_ok s \<longleftrightarrow> list_all (\<lambda>c. cc c \<noteq> 10 \<and> cc c \<noteq> 13) s \<and> (s \<noteq> [] \<longrightarrow> \<not> is_space (hd s))"

definition wire_ok :: "wire_event \<Rightarrow> bool" where
  "wire_ok ev \<longleftrightarrow> we_data ev \<noteq> [] \<and> list_all field_ok (we_data ev) \<and>
     (\<forall>s. we_event ev = Some s \<longrightarrow> field_ok s) \<and> (\<forall>s. we_id ev = Some s \<longrightarrow> field_ok s)"

fun prepend :: "string \<Rightarrow> string list \<Rightarrow> string list" where
  "prepend l [] = [l]"
| "prepend l (h # t) = (l @ h) # t"

lemma split_nn_prepend: "lf \<notin> set l \<Longrightarrow> split [lf, lf] (l @ x) = prepend l (split [lf, lf] x)"
proof (induction l)
  case Nil
  then show ?case by (cases "split [lf, lf] x") auto
next
  case (Cons c l)
  then show ?case by (cases "split [lf, lf] x") auto
qed

lemma split_nn_block:
  assumes "ls \<noteq> []" "\<And>l. l \<in> set ls \<Longrightarrow> l \<noteq> [] \<and> lf \<notin> set l"
  shows "split [lf, lf] (join [lf] ls @ [lf, lf] @ rest) = join [lf] ls # split [lf, lf] rest"
  using assms
proof (induction "[lf]" ls rule: join.induct)
  case (2 x)
  then show ?case by (simp add: split_nn_prepend)
next
  case (3 x y ys)
  obtain c y' where y: "y = c # y'" "c \<noteq> lf" using 3(3) [of y] by (cases y) auto
  obtain r where r: "join [lf] (y # ys) @ [lf, lf] @ rest = c # r"
    using y by (cases ys) auto
  have IH: "split [lf, lf] (c # r) = join [lf] (y # ys) # split [lf, lf] rest"
    using 3 r by simp
  have "split [lf, lf] (join [lf] (x # y # ys) @ [lf, lf] @ rest) = split [lf, lf] (x @ (lf # c # r))"
    using r by simp
  also have "\<dots> = prepend x (cons_hd lf (split [lf, lf] (c # r)))"
    using y 3(3) [of x] by (subst split_nn_prepend) auto
  finally show ?case by (simp add: IH del: split.simps)
qed simp

lemma field_value_wire:
  assumes "field_ok s"
  shows "field_value ''data:'' (''data: '' @ s) = s" "field_value ''event:'' (''event: '' @ s) = s"
    "field_value ''id:'' (''id: '' @ s) = s"
proof -
  have "dropWhile is_space s = s" using assms by (cases s) (simp_all add: field_ok_def)
  moreover have "is_space (CHR '' '')" by (simp add: is_space_def)
  ultimately show "field_value ''data:'' (''data: '' @ s) = s"
    "field_value ''event:'' (''event: '' @ s) = s" "field_value ''id:'' (''id: '' @ s) = s"
    by (simp_all add: field_value_def)
qed

lemma read_lines_data:
  "list_all field_ok ds \<Longrightarrow> read_lines (map (\<lambda>d. ''data: '' @ d) ds) acc ev st = (acc @ ds, ev, st)"
proof (induction ds arbitrary: acc)
  case (Cons d ds)
  then show ?case using field_value_wire(1) [of d] by simp
qed simp

definition set_id :: "string option \<Rightarrow> sse_state \<Rightarrow> sse_state" where
  "set_id i st = (case i of None \<Rightarrow> st | Some s \<Rightarrow> st\<lparr>lastEventId := Some s\<rparr>)"

lemma read_lines_wire:
  assumes "wire_ok ev"
  shows "read_lines (wire_lines ev) [] None st = (we_data ev, we_event ev, set_id (we_id ev) st)"
proof -
  have d: "list_all field_ok (we_data ev)" using assms by (simp add: wire_ok_def)
  show ?thesis
    using assms read_lines_data [OF d] field_value_wire
    by (cases "we_event ev"; cases "we_id ev")
      (simp_all add: wire_lines_def opt_line_def set_id_def wire_ok_def)
qed

lemma field_ok_free: "field_ok s \<Longrightarrow> lf \<notin> set s \<and> cr_free s"
proof -
  assume ok: "field_ok s"
  have "cc lf = 10" by simp
  then show ?thesis using ok unfolding field_ok_def cr_free_def list_all_iff by metis
qed

lemma wire_line_cases:
  assumes "wire_ok ev" "l \<in> set (wire_lines ev)"
  shows "\<exists>f s. l = f @ s \<and> f \<in> {''event: '', ''id: '', ''data: ''} \<and> field_ok s"
proof -
  consider s where "we_event ev = Some s" "l = ''event: '' @ s"
    | s where "we_id ev = Some s" "l = ''id: '' @ s"
    | s where "s \<in> set (we_data ev)" "l = ''data: '' @ s"
    using assms(2) by (cases "we_event ev"; cases "we_id ev") (auto simp: wire_lines_def opt_line_def)
  then show ?thesis
  proof cases
    case 1
    then have "field_ok s" using assms(1) by (simp add: wire_ok_def)
    with 1(2) show ?thesis by blast
  next
    case 2
    then have "field_ok s" using assms(1) by (simp add: wire_ok_def)
    with 2(2) show ?thesis by blast
  next
    case 3
    then have "field_ok s" using assms(1) by (simp add: wire_ok_def list_all_iff)
    with 3(2) show ?thesis by blast
  qed
qed

lemma wire_lines_ok:
  assumes "wire_ok ev"
  shows "wire_lines ev \<noteq> []" "\<And>l. l \<in> set (wire_lines ev) \<Longrightarrow> l \<noteq> [] \<and> lf \<notin> set l"
    "\<And>l. l \<in> set (wire_lines ev) \<Longrightarrow> cr_free l"
proof -
  show "wire_lines ev \<noteq> []" using assms by (simp add: wire_lines_def wire_ok_def)
  fix l assume "l \<in> set (wire_lines ev)"
  from wire_line_cases [OF assms this] obtain f s
    where "l = f @ s" "f \<in> {''event: '', ''id: '', ''data: ''}" "field_ok s" by blast
  then show "l \<noteq> [] \<and> lf \<notin> set l" "cr_free l"
    using field_ok_free [of s] by (auto simp: cr_free_def)
qed

lemma wire_cr_free: "wire_ok ev \<Longrightarrow> cr_free (wire ev)"
proof -
  assume ok: "wire_ok ev"
  have "cr_free (join [lf] ls)" if "\<And>l. l \<in> set ls \<Longrightarrow> cr_free l" for ls
    using that by (induction "[lf]" ls rule: join.induct) (auto simp: cr_free_def)
  then show ?thesis using wire_lines_ok(3) [OF ok] by (simp add: wire_def cr_free_def)
qed

lemma read_event_wire:
  assumes "wire_ok ev" "no_checks opts"
  shows "read_event opts st (join [lf] (wire_lines ev)) =
     (set_id (we_id ev) st,
      [OnSseEvent \<lparr>se_data = decode_data opts (join [lf] (we_data ev)), se_event = we_event ev,
                   se_id = lastEventId (set_id (we_id ev) st),
                   se_retry = retryDelay (set_id (we_id ev) st)\<rparr>,
       Yield (decode_data opts (join [lf] (we_data ev)))], None)"
proof -
  have "split [lf] (join [lf] (wire_lines ev)) = wire_lines ev"
    using wire_lines_ok [OF assms(1)] by (intro split_join) auto
  then show ?thesis
    using assms read_lines_wire [OF assms(1)] read_data_plain(1) [OF assms(2)]
    by (simp add: read_event_def wire_ok_def)
qed

lemma split_wires:
  assumes "\<And>ev. ev \<in> set evs \<Longrightarrow> wire_ok ev"
  shows "split [lf, lf] (concat (map wire evs)) = map (\<lambda>ev. join [lf] (wire_lines ev)) evs @ [[]]"
  using assms
proof (induction evs)
  case (Cons ev evs)
  have "wire_ok ev" using Cons.prems by simp
  then have "split [lf, lf] (wire ev @ concat (map wire evs)) =
      join [lf] (wire_lines ev) # split [lf, lf] (concat (map wire evs))"
    using split_nn_block [of "wire_lines ev" "concat (map wire evs)"] wire_lines_ok by (simp add: wire_def)
  then show ?case using Cons by (simp del: split.simps)
qed simp

lemma read_events_wire:
  assumes "\<And>ev. ev \<in> set evs \<Longrightarrow> wire_ok ev" "no_checks opts"
    "read_events opts st (map (\<lambda>ev. join [lf] (wire_lines ev)) evs) = (st', os, r)"
  shows "yields os = map (\<lambda>ev. decode_data opts (join [lf] (we_data ev))) evs \<and> r = None"
  using assms(1,3)
proof (induction evs arbitrary: st st' os r)
  case (Cons ev evs)
  let ?st = "set_id (we_id ev) st"
  obtain st2 os2 r2 where cs:
    "read_events opts ?st (map (\<lambda>ev. join [lf] (wire_lines ev)) evs) = (st2, os2, r2)"
    by (metis prod_cases3)
  show ?case using Cons.prems cs Cons.IH [OF _ cs] read_event_wire [OF _ assms(2), of ev st]
    by auto
qed simp

lemma read_body_wire:
  assumes "\<And>ev. ev \<in> set evs \<Longrightarrow> wire_ok ev" "no_checks opts" "concat vals = concat (map wire evs)"
    "read_body opts [] st vals Done = (st', os, r)"
  shows "yields os = map (\<lambda>ev. decode_data opts (join [lf] (we_data ev))) evs \<and> r = None"
proof -
  have c: "cr_free []" "split [lf, lf] [] = [[]]" by (simp_all add: cr_free_def)
  have "cr_free (concat vals)" using assms(1,3) wire_cr_free by simp
  from read_body_whole [OF c(1) this c(2), of opts st Done]
  have "(st', os, r) = body_result Done (read_events opts st (map (\<lambda>ev. join [lf] (wire_lines ev)) evs))"
    using assms(3,4) split_wires [OF assms(1)] by (simp add: butlast_append del: split.simps)
  moreover obtain st1 os1 r1 where
    ev: "read_events opts st (map (\<lambda>ev. join [lf] (wire_lines ev)) evs) = (st1, os1, r1)"
    by (metis prod_cases3)
  ultimately show ?thesis using read_events_wire [OF assms(1,2) ev] by (simp add: body_result_def)
qed

section \<open>Properties\<close>

definition plain_options :: "int option \<Rightarrow> int option \<Rightarrow> int option \<Rightarrow> sse_options" where
  "plain_options delay attempts maxDelay =
     \<lparr>responseValidator = None, responseTransformer = None, sseDefaultRetryDelay = delay,
      sseMaxRetryAttempts = attempts, sseMaxRetryDelay = maxDelay, parseJson = (\<lambda>_. None)\<rparr>"

text \<open>
  C3: how the network cuts a body into chunks does not matter, as long as no line ends in a carriage
  return: the state, the observations and the error are the same for every chunking of the same text.
\<close>

theorem sse_chunking_invariant:
  assumes "concat vals = concat vals'" and "cr_free (concat vals)"
  shows "read_body opts [] st vals fin = read_body opts [] st vals' fin"
  using assms by (rule read_body_chunking)

theorem sse_chunking_invariant_witness:
  "read_body (plain_options None None None) [] \<lparr>lastEventId = None, retryDelay = 3000\<rparr>
     [''da'', ''ta: x'' @ [lf], lf # ''data''] Done =
   read_body (plain_options None None None) [] \<lparr>lastEventId = None, retryDelay = 3000\<rparr>
     [''data: x'' @ [lf, lf] @ ''data''] Done"
  by (rule sse_chunking_invariant) code_simp+

text \<open>
  With CRLF line ends the chunking does matter: a chunk that ends between the carriage return
  and the line feed turns one event of two data lines into two events.
\<close>

theorem sse_crlf_split_breaks_event:
  "let cr = CHR 0x0D; opts = plain_options None None None;
       st = \<lparr>lastEventId = None, retryDelay = 3000\<rparr>;
       whole = ''data: a'' @ [cr, lf] @ ''data: b'' @ [cr, lf, cr, lf];
       parts = [''data: a'' @ [cr], lf # ''data: b'' @ [cr, lf, cr, lf]]
   in concat parts = whole \<and>
      yields (fst (snd (read_body opts [] st [whole] Done))) = [JStr (''a'' @ [lf] @ ''b'')] \<and>
      yields (fst (snd (read_body opts [] st parts Done))) = [JStr ''a'', JStr ''b'']"
  by code_simp

lemma delivered:
  assumes "\<forall>ev \<in> set evs. wire_ok ev" and "no_checks opts"
    and "concat vals = concat (map wire evs)" and "200 \<le> status" and "status \<le> 299"
  shows "yields (fst (createSseClient opts (Attempt (Responds status txt (Some (vals, Done))) # ts))) =
           map (\<lambda>ev. decode_data opts (join [lf] (we_data ev))) evs \<and>
         connects (fst (createSseClient opts (Attempt (Responds status txt (Some (vals, Done))) # ts))) = 1 \<and>
         snd (createSseClient opts (Attempt (Responds status txt (Some (vals, Done))) # ts)) = Ended"
proof -
  let ?st = "\<lparr>lastEventId = None,
    retryDelay = (case sseDefaultRetryDelay opts of None \<Rightarrow> 3000 | Some d \<Rightarrow> d)\<rparr>"
  obtain st os r where b: "read_body opts [] ?st vals Done = (st, os, r)" by (metis prod_cases3)
  then have "yields os = map (\<lambda>ev. decode_data opts (join [lf] (we_data ev))) evs" "r = None"
    using read_body_wire [OF _ assms(2,3) b] assms(1) by auto
  then show ?thesis using b assms(4,5) read_body_quiet [OF b]
    by (simp add: createSseClient_def connect_def)
qed



text \<open>
  C5: a bound on attempts is kept and makes the client stop: at most \<open>n\<close> connections are opened
  whatever the server does, and the stream has ended once the script has \<open>n\<close> turns. No sleep is longer
  than the cap, thirty seconds unless the options say otherwise.
\<close>

theorem sse_retry_bounds:
  assumes "sseMaxRetryAttempts opts = Some n" and "0 < n"
  shows "int (connects (fst (createSseClient opts ts))) \<le> n \<and>
         (n \<le> int (length ts) \<longrightarrow> snd (createSseClient opts ts) = Ended) \<and>
         (\<forall>d \<in> set (sleeps (fst (createSseClient opts ts))).
            d \<le> (case sseMaxRetryDelay opts of None \<Rightarrow> 30000 | Some m \<Rightarrow> m))"
proof -
  have "\<forall>d \<in> set (sleeps (fst (createSseClient opts ts))).
      d \<le> (case sseMaxRetryDelay opts of None \<Rightarrow> 30000 | Some m \<Rightarrow> m)"
    unfolding createSseClient_def by (intro sse_loop_sleeps) (auto split: option.splits)
  moreover have "int (connects (fst (createSseClient opts ts))) \<le> n"
    using sse_loop_connects [OF assms(1), of 0] assms(2) by (simp add: createSseClient_def)
  moreover have "snd (createSseClient opts ts) = Ended" if "n \<le> int (length ts)"
  proof -
    have "ts \<noteq> []" using that assms(2) by auto
    then show ?thesis
      using sse_loop_ends [OF assms(1), of 0 ts] that by (simp add: createSseClient_def)
  qed
  ultimately show ?thesis by blast
qed

theorem sse_retry_bounds_witness:
  "int (connects (fst (createSseClient (plain_options None (Some 2) None)
     [Attempt (FetchFails TypeError), Attempt (FetchFails TypeError), Attempt (FetchFails TypeError)]))) \<le> 2 \<and>
   snd (createSseClient (plain_options None (Some 2) None)
     [Attempt (FetchFails TypeError), Attempt (FetchFails TypeError), Attempt (FetchFails TypeError)]) = Ended"
  using sse_retry_bounds [of "plain_options None (Some 2) None" 2
      "[Attempt (FetchFails TypeError), Attempt (FetchFails TypeError), Attempt (FetchFails TypeError)]"]
  by (simp add: plain_options_def del: sse_loop.simps)

lemma retries_forever:
  assumes "sseMaxRetryAttempts opts = None"
  shows "snd (sse_loop opts attempt st (replicate k (Attempt (FetchFails e)))) = Waiting"
  using assms by (induction k arbitrary: attempt) (simp_all add: connect_def give_up_def case_prod_unfold)

text \<open>
  C8: the client comes to an end within a bounded number of connections, whatever the network does, exactly
  when the options limit the attempts; without \<open>sseMaxRetryAttempts\<close> there is no bound: a server that
  cannot be reached keeps it trying for ever.
\<close>

theorem sse_stops_iff_bounded:
  "(\<exists>k. \<forall>ts. k \<le> length ts \<longrightarrow> snd (createSseClient opts ts) = Ended) \<longleftrightarrow> sseMaxRetryAttempts opts \<noteq> None"
proof
  assume "\<exists>k. \<forall>ts. k \<le> length ts \<longrightarrow> snd (createSseClient opts ts) = Ended"
  then obtain k where "snd (createSseClient opts (replicate k (Attempt (FetchFails TypeError)))) = Ended"
    by (metis length_replicate order_refl)
  then show "sseMaxRetryAttempts opts \<noteq> None"
    by (cases "sseMaxRetryAttempts opts = None") (simp_all add: createSseClient_def retries_forever)
next
  assume "sseMaxRetryAttempts opts \<noteq> None"
  then obtain n where n: "sseMaxRetryAttempts opts = Some n" by auto
  have "snd (createSseClient opts ts) = Ended" if "Suc (nat n) \<le> length ts" for ts
  proof -
    have "n \<le> int (0 + length ts)" "ts \<noteq> []" using that by auto
    then show ?thesis using sse_loop_ends [OF n] by (simp add: createSseClient_def)
  qed
  then show "\<exists>k. \<forall>ts. k \<le> length ts \<longrightarrow> snd (createSseClient opts ts) = Ended" by blast
qed

theorem sse_stops_iff_bounded_witness:
  "\<not> (\<exists>k. \<forall>ts. k \<le> length ts \<longrightarrow> snd (createSseClient (plain_options None None None) ts) = Ended) \<and>
   (\<exists>k. \<forall>ts. k \<le> length ts \<longrightarrow> snd (createSseClient (plain_options None (Some 3) None) ts) = Ended)"
  unfolding sse_stops_iff_bounded by (simp add: plain_options_def)

text \<open>
  C6: when every attempt fails, the client makes exactly the attempts it may, doubling the delay
  from the default up to the cap, and ends without sleeping after the last one.
\<close>

theorem sse_backoff_schedule:
  assumes "sseMaxRetryAttempts opts = Some (int (length es))" and "es \<noteq> []"
    and "sseDefaultRetryDelay opts = Some d" and "sseMaxRetryDelay opts = Some m"
  shows "sleeps (fst (createSseClient opts (map (Attempt \<circ> FetchFails) es @ ts))) =
           map (\<lambda>k. min (d * 2 ^ k) m) [0..<length es - 1] \<and>
         connects (fst (createSseClient opts (map (Attempt \<circ> FetchFails) es @ ts))) = length es \<and>
         snd (createSseClient opts (map (Attempt \<circ> FetchFails) es @ ts)) = Ended"
  using sse_loop_all_fail [of opts 0 es m _ ts] assms by (simp add: createSseClient_def)

theorem sse_backoff_schedule_witness:
  "sleeps (fst (createSseClient (plain_options (Some 5000) (Some 4) (Some 12000))
     (map (Attempt \<circ> FetchFails) [TypeError, TypeError, TypeError, TypeError] @ []))) = [5000, 10000, 12000]"
  using sse_backoff_schedule [of "plain_options (Some 5000) (Some 4) (Some 12000)"
      "[TypeError, TypeError, TypeError, TypeError]" 5000 12000 "[]"]
  by (simp add: plain_options_def upt_rec del: map_append append_Nil2)



end
