(* ===== verification/LiveRun.thy ===== *)
theory LiveRun
  imports Execution Sse
begin

text \<open>
  The execution state of \<^verbatim>\<open>lib/editor/execution.svelte.ts\<close> on the event client of
  \<^verbatim>\<open>lib/api/core/serverSentEvents.gen.ts\<close>: what a server can make a run do, end to end.
\<close>

section \<open>A run on its event stream\<close>

text \<open>
  \<open>#follow\<close> iterates over the stream of the event client. Its options are the number of attempts alone;
  \<open>parse\<close> is \<open>JSON.parse\<close>, and \<open>view\<close> reads the parsed data as the event the SDK declares it to be.
\<close>

definition follow_options :: "(string \<Rightarrow> jsval option) \<Rightarrow> sse_options" where
  "follow_options parse =
     \<lparr>responseValidator = None, responseTransformer = None, sseDefaultRetryDelay = None,
      sseMaxRetryAttempts = Some 3, sseMaxRetryDelay = None, parseJson = parse\<rparr>"

text \<open>The script of a run whose stream meets \<open>ts\<close>: the button, the start, the stream and its events.\<close>

definition live_run ::
  "(string \<Rightarrow> jsval option) \<Rightarrow> (jsval \<Rightarrow> SseExecutionEventSchema) \<Rightarrow> ExecutionResponse \<Rightarrow> turn list \<Rightarrow>
   'm page \<Rightarrow> 'm label list" where
  "live_run parse view data ts p =
     [Execute, Start_resolves (length (runs p)) data, Connected (length (runs p))] @
     reads (length (runs p)) (map view (yields (fst (createSseClient (follow_options parse) ts))))"



section \<open>Witnesses\<close>

text \<open>A parser and a view under which the text \<open>stored\<close> is the event of a stored result.\<close>

definition sample_view :: "jsval \<Rightarrow> SseExecutionEventSchema" where
  "sample_view v =
     (if v = JStr ''stored'' then sample_event EventType.RESULT_STORED (Some sample_result)
      else sample_event EventType.POD_RUNNING None)"

definition refusals :: "turn list" where
  "refusals = map (Attempt \<circ> FetchFails) [TypeError, TypeError, TypeError]"


definition stored_wire :: wire_event where
  "stored_wire = \<lparr>we_event = None, we_id = Some ''7'', we_data = [''stored'']\<rparr>"

definition running_wire :: wire_event where
  "running_wire = \<lparr>we_event = None, we_id = None, we_data = [''pod'']\<rparr>"


end
