(* ===== verification/Json.thy ===== *)
theory Json
  imports JsValue
begin

text \<open>
  \<open>JSON.stringify\<close> and the request bodies built with it,
  \<^verbatim>\<open>frontend/src/lib/api/core/bodySerializer.gen.ts\<close>. The value \<open>undefined\<close>, a function and a symbol
  have no JSON text (\<open>None\<close>); a \<open>bigint\<close> throws unless the replacer of \<open>jsonBodySerializer\<close> turns it
  into a string first. \<open>FormData\<close> and \<open>URLSearchParams\<close> are lists of pairs in the order of their
  \<open>append\<close> calls; \<open>Object.entries\<close> of \<open>null\<close> and \<open>undefined\<close> throws.
\<close>

section \<open>JSON text\<close>

definition hex_digit :: "nat \<Rightarrow> char" where
  "hex_digit n = char_of (if n < 10 then 48 + n else 87 + n)"

definition json_char :: "char \<Rightarrow> string" where
  "json_char c =
     (if cc c = 34 then [CHR 0x5C, CHR 0x22]
      else if cc c = 92 then [CHR 0x5C, CHR 0x5C]
      else if cc c = 8 then [CHR 0x5C, CHR ''b'']
      else if cc c = 12 then [CHR 0x5C, CHR ''f'']
      else if cc c = 10 then [CHR 0x5C, CHR ''n'']
      else if cc c = 13 then [CHR 0x5C, CHR ''r'']
      else if cc c = 9 then [CHR 0x5C, CHR ''t'']
      else if cc c < 32 then [CHR 0x5C, CHR ''u'', CHR ''0'', CHR ''0'', hex_digit (cc c div 16), hex_digit (cc c mod 16)]
      else [c])"

definition json_quote :: "string \<Rightarrow> string" where
  "json_quote s = [CHR 0x22] @ concat (map json_char s) @ [CHR 0x22]"

text \<open>
  \<open>bigints\<close> says that the replacer \<open>typeof value === 'bigint' ? value.toString() : value\<close> is passed.
\<close>

lemma rmap_snd_cong [fundef_cong]:
  "xs = ys \<Longrightarrow> (\<And>k v. (k, v) \<in> set ys \<Longrightarrow> f v = g v) \<Longrightarrow>
   rmap (\<lambda>(k, v). f v) xs = rmap (\<lambda>(k, v). g v) ys"
  by (rule rmap_cong) auto

definition json_members :: "(string \<times> string option) list \<Rightarrow> string" where
  "json_members ms =
     ''{'' @ join '','' (concat (map (\<lambda>(k, t). case t of None \<Rightarrow> [] | Some s \<Rightarrow> [json_quote k @ '':'' @ s]) ms)) @ ''}''"

definition json_elements :: "string option list \<Rightarrow> string" where
  "json_elements ts = ''['' @ join '','' (map (\<lambda>t. case t of None \<Rightarrow> ''null'' | Some s \<Rightarrow> s) ts) @ '']''"

fun json_text :: "bool \<Rightarrow> jsval \<Rightarrow> string option res" where
  "json_text bigints JUndefined = Inr None"
| "json_text bigints JNull = Inr (Some ''null'')"
| "json_text bigints (JBool b) = Inr (Some (if b then ''true'' else ''false''))"
| "json_text bigints (JNum n) = Inr (Some (show_int n))"
| "json_text bigints (JBigInt n) = (if bigints then Inr (Some (json_quote (show_int n))) else Inl TypeError)"
| "json_text bigints (JStr s) = Inr (Some (json_quote s))"
| "json_text bigints JSymbol = Inr None"
| "json_text bigints (JFunction src) = Inr None"
| "json_text bigints (JDate i disp) = Inr (Some (json_quote i))"
| "json_text bigints (JArray vs) =
     rbind (rmap (json_text bigints) vs) (\<lambda>ts. Inr (Some (json_elements ts)))"
| "json_text bigints (JObject es) =
     rbind (rmap (\<lambda>(k, v). json_text bigints v) es)
       (\<lambda>ts. Inr (Some (json_members (zip (map fst es) ts))))"
| "json_text bigints (JInstance es) =
     rbind (rmap (\<lambda>(k, v). json_text bigints v) es)
       (\<lambda>ts. Inr (Some (json_members (zip (map fst es) ts))))"
| "json_text bigints (JURLSearchParams ps) = Inr (Some ''{}'')"

definition json_stringify :: "jsval \<Rightarrow> string option res" where
  "json_stringify = json_text False"

section \<open>Body serializers\<close>

text \<open>What \<open>append\<close> receives for \<open>undefined\<close> is the string of that name.\<close>

definition appended :: "string option \<Rightarrow> string" where
  "appended t = (case t of None \<Rightarrow> ''undefined'' | Some s \<Rightarrow> s)"

definition serializeFormDataPair ::
  "(string \<times> string) list \<Rightarrow> string \<Rightarrow> jsval \<Rightarrow> (string \<times> string) list res" where
  "serializeFormDataPair data key value =
     (case value of
        JStr s \<Rightarrow> Inr (data @ [(key, s)])
      | JDate i _ \<Rightarrow> Inr (data @ [(key, i)])
      | _ \<Rightarrow> rbind (json_stringify value) (\<lambda>t. Inr (data @ [(key, appended t)])))"

definition serializeUrlSearchParamsPair ::
  "(string \<times> string) list \<Rightarrow> string \<Rightarrow> jsval \<Rightarrow> (string \<times> string) list res" where
  "serializeUrlSearchParamsPair data key value =
     (case value of
        JStr s \<Rightarrow> Inr (data @ [(key, s)])
      | _ \<Rightarrow> rbind (json_stringify value) (\<lambda>t. Inr (data @ [(key, appended t)])))"

text \<open>\<open>forEach\<close> over an array's elements and over an object's entries.\<close>

fun each_value ::
  "('d \<Rightarrow> string \<Rightarrow> jsval \<Rightarrow> 'd res) \<Rightarrow> string \<Rightarrow> jsval list \<Rightarrow> 'd \<Rightarrow> 'd res" where
  "each_value pair key [] data = Inr data"
| "each_value pair key (v # vs) data = rbind (pair data key v) (each_value pair key vs)"

fun each_entry ::
  "('d \<Rightarrow> string \<Rightarrow> jsval \<Rightarrow> 'd res) \<Rightarrow> props \<Rightarrow> 'd \<Rightarrow> 'd res" where
  "each_entry pair [] data = Inr data"
| "each_entry pair ((key, value) # es) data =
     rbind (case value of
              JUndefined \<Rightarrow> Inr data
            | JNull \<Rightarrow> Inr data
            | JArray vs \<Rightarrow> each_value pair key vs data
            | _ \<Rightarrow> pair data key value)
       (each_entry pair es)"

definition formDataBodySerializer :: "jsval \<Rightarrow> (string \<times> string) list res" where
  "formDataBodySerializer body =
     (if nullish body then Inl TypeError
      else each_entry serializeFormDataPair (obj_entries body) [])"

definition jsonBodySerializer :: "jsval \<Rightarrow> string option res" where
  "jsonBodySerializer body = json_text True body"

definition urlSearchParamsBodySerializer :: "jsval \<Rightarrow> string res" where
  "urlSearchParamsBodySerializer body =
     (if nullish body then Inl TypeError
      else rbind (each_entry serializeUrlSearchParamsPair (obj_entries body) [])
             (\<lambda>data. Inr (search_params_string data)))"

section \<open>Reading JSON text\<close>

text \<open>
  A reader for JSON text as the serializers write it, without white space and with whole numbers. Its
  fuel bounds the nesting and the length of what it reads; the length of the text is enough.
\<close>

definition hex_value :: "char \<Rightarrow> nat" where
  "hex_value c = (if is_digit c then cc c - 48 else cc c - 87)"

fun read_escape :: "string \<Rightarrow> (char \<times> string) option" where
  "read_escape [] = None"
| "read_escape (c # s) =
     (if c = CHR ''b'' then Some (CHR 0x08, s) else if c = CHR ''f'' then Some (CHR 0x0C, s)
      else if c = CHR ''n'' then Some (CHR 0x0A, s) else if c = CHR ''r'' then Some (CHR 0x0D, s)
      else if c = CHR ''t'' then Some (CHR 0x09, s)
      else if c = CHR ''u'' then
        (case s of
           z0 # z1 # h # l # s' \<Rightarrow> Some (char_of (16 * hex_value h + hex_value l), s')
         | _ \<Rightarrow> None)
      else Some (c, s))"

lemma read_escape_shorter: "read_escape s = Some (c, s') \<Longrightarrow> length s' < length s"
  by (cases s) (auto split: if_splits list.splits)

function read_chars :: "string \<Rightarrow> (string \<times> string) option" where
  "read_chars [] = None"
| "read_chars (c # s) =
     (if cc c = 34 then Some ([], s)
      else if cc c = 92 then
        (case read_escape s of
           None \<Rightarrow> None
         | Some (d, s') \<Rightarrow> map_option (\<lambda>(cs, r). (d # cs, r)) (read_chars s'))
      else map_option (\<lambda>(cs, r). (c # cs, r)) (read_chars s))"
  by pat_completeness auto
termination
  by (relation "measure length") (auto dest!: read_escape_shorter)

definition read_number :: "string \<Rightarrow> (jsval \<times> string) option" where
  "read_number s =
     (let neg = startsWith s ''-''; u = (if neg then tl s else s); ds = takeWhile is_digit u in
      if ds = [] then None
      else let n = digits_value ds in
        Some (JNum (if neg then - n else n), dropWhile is_digit u))"

fun read_value :: "nat \<Rightarrow> string \<Rightarrow> (jsval \<times> string) option"
  and read_elements :: "nat \<Rightarrow> string \<Rightarrow> (jsval list \<times> string) option"
  and read_members :: "nat \<Rightarrow> string \<Rightarrow> (props \<times> string) option" where
  "read_value 0 s = None"
| "read_value (Suc n) s =
     (if startsWith s ''null'' then Some (JNull, drop 4 s)
      else if startsWith s ''true'' then Some (JBool True, drop 4 s)
      else if startsWith s ''false'' then Some (JBool False, drop 5 s)
      else if startsWith s [CHR 0x22] then map_option (\<lambda>(cs, r). (JStr cs, r)) (read_chars (tl s))
      else if startsWith s ''[]'' then Some (JArray [], drop 2 s)
      else if startsWith s ''['' then map_option (\<lambda>(vs, r). (JArray vs, r)) (read_elements n (tl s))
      else if startsWith s ''{}'' then Some (JObject [], drop 2 s)
      else if startsWith s ''{'' then map_option (\<lambda>(es, r). (JObject es, r)) (read_members n (tl s))
      else read_number s)"
| "read_elements 0 s = None"
| "read_elements (Suc n) s =
     (case read_value n s of
        None \<Rightarrow> None
      | Some (v, r) \<Rightarrow>
          if startsWith r '','' then map_option (\<lambda>(vs, r'). (v # vs, r')) (read_elements n (tl r))
          else if startsWith r '']'' then Some ([v], tl r) else None)"
| "read_members 0 s = None"
| "read_members (Suc n) s =
     (if \<not> startsWith s [CHR 0x22] then None
      else case read_chars (tl s) of
        None \<Rightarrow> None
      | Some (k, r0) \<Rightarrow>
          if \<not> startsWith r0 '':'' then None
          else (case read_value n (tl r0) of
                  None \<Rightarrow> None
                | Some (v, r) \<Rightarrow>
                    if startsWith r '','' then map_option (\<lambda>(es, r'). ((k, v) # es, r')) (read_members n (tl r))
                    else if startsWith r ''}'' then Some ([(k, v)], tl r) else None))"

definition json_read :: "string \<Rightarrow> jsval option" where
  "json_read t = (case read_value (length t) t of Some (v, []) \<Rightarrow> Some v | _ \<Rightarrow> None)"

text \<open>What a value is to its JSON reader, \<open>None\<close> where it has no JSON text.\<close>

fun json_view :: "jsval \<Rightarrow> jsval option" where
  "json_view JUndefined = None"
| "json_view (JBigInt n) = Some (JStr (show_int n))"
| "json_view JSymbol = None"
| "json_view (JFunction src) = None"
| "json_view (JDate i disp) = Some (JStr i)"
| "json_view (JArray vs) =
     Some (JArray (map (\<lambda>v. case json_view v of None \<Rightarrow> JNull | Some w \<Rightarrow> w) vs))"
| "json_view (JObject es) =
     Some (JObject (concat (map (\<lambda>(k, v). case json_view v of None \<Rightarrow> [] | Some w \<Rightarrow> [(k, w)]) es)))"
| "json_view (JInstance es) =
     Some (JObject (concat (map (\<lambda>(k, v). case json_view v of None \<Rightarrow> [] | Some w \<Rightarrow> [(k, w)]) es)))"
| "json_view (JURLSearchParams ps) = Some (JObject [])"
| "json_view v = Some v"

section \<open>Writing and reading agree\<close>

lemma hex_round: "n < 16 \<Longrightarrow> hex_value (hex_digit n) = n"
  by (auto simp: hex_value_def hex_digit_def is_digit_def)

lemma hex_pair: "cc c < 32 \<Longrightarrow>
  char_of (16 * hex_value (hex_digit (cc c div 16)) + hex_value (hex_digit (cc c mod 16))) = c"
  by (simp add: hex_round)

lemma read_chars_char:
  "read_chars (json_char c @ t) = map_option (\<lambda>(cs, r). (c # cs, r)) (read_chars t)"
proof (cases "cc c \<in> {34, 92, 8, 12, 10, 13, 9}")
  case True
  then have "cc c \<in> of_char ` {CHR 0x22, CHR 0x5C, CHR 0x08, CHR 0x0C, CHR 0x0A, CHR 0x0D, CHR 0x09}"
    by simp
  then have "c \<in> {CHR 0x22, CHR 0x5C, CHR 0x08, CHR 0x0C, CHR 0x0A, CHR 0x0D, CHR 0x09}"
    by (simp only: inj_image_mem_iff [OF inj_of_char])
  then show ?thesis by (auto simp: json_char_def)
next
  case False
  then show ?thesis using hex_pair [of c] by (auto simp: json_char_def)
qed

lemma read_chars_quoted: "read_chars (concat (map json_char s) @ CHR 0x22 # t) = Some (s, t)"
  by (induction s) (simp_all add: read_chars_char)

definition ends_number :: "string \<Rightarrow> bool" where
  "ends_number t \<longleftrightarrow> t = [] \<or> \<not> is_digit (hd t)"

lemma takeWhile_show_nat:
  assumes "ends_number t"
  shows "takeWhile is_digit (show_nat n @ t) = show_nat n" "dropWhile is_digit (show_nat n @ t) = t"
proof -
  have "takeWhile is_digit t = []" "dropWhile is_digit t = t"
    using assms by (cases t; simp add: ends_number_def)+
  then show "takeWhile is_digit (show_nat n @ t) = show_nat n" "dropWhile is_digit (show_nat n @ t) = t"
    using show_nat_digits [of _ n] by (simp_all add: takeWhile_append dropWhile_append)
qed

lemma show_nat_hd: "is_digit (hd (show_nat n))"
  using show_nat_digits hd_in_set show_nat_ne by blast

lemma read_number_show:
  assumes "ends_number t"
  shows "read_number (show_int n @ t) = Some (JNum n, t)"
proof (cases "n < 0")
  case True
  then show ?thesis
    using takeWhile_show_nat [OF assms] by (simp add: read_number_def show_int_def Let_def)
next
  case False
  obtain c s where c: "show_nat (nat n) = c # s" "is_digit c"
    using show_nat_hd [of "nat n"] by (metis list.collapse show_nat_ne)
  then have "\<not> startsWith (show_nat (nat n) @ t) ''-''"
    by (auto simp: is_digit_def)
  then show ?thesis
    using False takeWhile_show_nat [OF assms, of "nat n"] by (simp add: read_number_def show_int_def Let_def)
qed

text \<open>A text that reads as a value, before anything that does not continue a number.\<close>

definition reads_value :: "string \<Rightarrow> jsval \<Rightarrow> bool" where
  "reads_value t v \<longleftrightarrow>
     (\<forall>n rest. length t \<le> n \<and> ends_number rest \<longrightarrow> read_value n (t @ rest) = Some (v, rest))"

lemma reads_value_head:
  assumes "reads_value t v"
  shows "\<exists>c s. t = c # s \<and> c \<noteq> CHR '']''"
proof -
  have r: "read_value (length t) t = Some (v, [])"
    using assms by (auto simp: reads_value_def ends_number_def dest!: spec [of _ "length t"] spec [of _ "[]"])
  then obtain c s where t: "t = c # s" by (cases t) auto
  moreover have "c \<noteq> CHR '']''"
  proof
    assume "c = CHR '']''"
    then show False using r by (simp add: t read_number_def is_digit_def)
  qed
  ultimately show ?thesis by simp
qed

lemma ends_number_delim: "ends_number (CHR '','' # t)" "ends_number (CHR '']'' # t)" "ends_number (CHR ''}'' # t)"
  by (simp_all add: ends_number_def is_digit_def)

lemma reads_valueI:
  assumes "t \<noteq> []"
    and "\<And>n rest. length t \<le> Suc n \<Longrightarrow> ends_number rest \<Longrightarrow> read_value (Suc n) (t @ rest) = Some (v, rest)"
  shows "reads_value t v"
  unfolding reads_value_def
proof (intro allI impI)
  fix n rest assume a: "length t \<le> n \<and> ends_number rest"
  then obtain m where "n = Suc m" using assms(1) by (cases n) auto
  then show "read_value n (t @ rest) = Some (v, rest)" using a assms(2) by blast
qed

lemma reads_value_atom:
  "reads_value ''null'' JNull" "reads_value (if b then ''true'' else ''false'') (JBool b)"
  "reads_value ''{}'' (JObject [])" "reads_value ''[]'' (JArray [])"
  by (rule reads_valueI; simp)+

lemma reads_value_quote: "reads_value (json_quote s) (JStr s)"
  by (rule reads_valueI) (simp_all add: json_quote_def read_chars_quoted)

lemma reads_value_int: "reads_value (show_int n) (JNum n)"
proof -
  have "\<exists>c s. show_int n = c # s \<and> (is_digit c \<or> c = CHR ''-'')"
    using show_nat_hd by (cases "n < 0") (auto simp: show_int_def, metis list.collapse show_nat_ne)
  then obtain c s where c: "show_int n = c # s" "is_digit c \<or> c = CHR ''-''" by blast
  then have "c \<noteq> CHR ''n'' \<and> c \<noteq> CHR ''t'' \<and> c \<noteq> CHR ''f'' \<and> c \<noteq> CHR 0x22 \<and> c \<noteq> CHR ''['' \<and> c \<noteq> CHR ''{''"
    by (auto simp: is_digit_def)
  then show ?thesis
    using read_number_show [of _ n] c by (intro reads_valueI) auto
qed

lemma read_elements_join:
  assumes "list_all2 reads_value ts vs" "ts \<noteq> []" "length (join '','' ts) < n"
  shows "read_elements n (join '','' ts @ CHR '']'' # rest) = Some (vs, rest)"
  using assms
proof (induction ts vs arbitrary: n rule: list_all2_induct)
  case (Cons t ts v vs)
  then obtain m where n: "n = Suc m" by (cases n) auto
  show ?case
  proof (cases ts)
    case Nil
    then show ?thesis
      using Cons n ends_number_delim by (auto simp: reads_value_def)
  next
    case (Cons t' ts')
    then have j: "join '','' (t # ts) = t @ CHR '','' # join '','' ts" by simp
    have "read_value m (t @ CHR '','' # join '','' ts @ CHR '']'' # rest) = Some (v, CHR '','' # join '','' ts @ CHR '']'' # rest)"
      using Cons.prems Cons.hyps n j ends_number_delim by (auto simp: reads_value_def)
    moreover have "read_elements m (join '','' ts @ CHR '']'' # rest) = Some (vs, rest)"
      using Cons.prems Cons.IH [of m] n j \<open>ts = t' # ts'\<close> by simp
    ultimately show ?thesis using n by (simp add: j)
  qed
qed simp

definition member_text :: "string \<times> string \<Rightarrow> string" where
  "member_text m = json_quote (fst m) @ '':'' @ snd m"

lemma read_members_join:
  assumes "list_all2 (\<lambda>m e. fst m = fst e \<and> reads_value (snd m) (snd e)) ms es" "ms \<noteq> []"
    "length (join '','' (map member_text ms)) < n"
  shows "read_members n (join '','' (map member_text ms) @ CHR ''}'' # rest) = Some (es, rest)"
  using assms
proof (induction ms es arbitrary: n rule: list_all2_induct)
  case (Cons m ms e es)
  then obtain k where n: "n = Suc k" by (cases n) auto
  obtain name t v where m: "m = (name, t)" "e = (name, v)" "reads_value t v"
    using Cons.hyps by (cases m; cases e) auto
  have q: "json_quote name @ s = CHR 0x22 # concat (map json_char name) @ CHR 0x22 # s" for s
    by (simp add: json_quote_def)
  show ?case
  proof (cases ms)
    case Nil
    then show ?thesis
      using Cons n m ends_number_delim
      by (auto simp: reads_value_def member_text_def q read_chars_quoted)
  next
    case (Cons m' ms')
    then have j: "join '','' (map member_text (m # ms)) = json_quote name @ CHR '':'' # t @ CHR '','' # join '','' (map member_text ms)"
      by (simp add: member_text_def m)
    have "read_value k (t @ CHR '','' # join '','' (map member_text ms) @ CHR ''}'' # rest) =
        Some (v, CHR '','' # join '','' (map member_text ms) @ CHR ''}'' # rest)"
      using Cons.prems m(3) n j ends_number_delim by (auto simp: reads_value_def)
    moreover have "read_members k (join '','' (map member_text ms) @ CHR ''}'' # rest) = Some (es, rest)"
      using Cons.prems Cons.IH [of k] n j \<open>ms = m' # ms'\<close> by simp
    ultimately show ?thesis unfolding j using n m by (simp add: q read_chars_quoted)
  qed
qed simp

lemma join_map_ne: "xs \<noteq> [] \<Longrightarrow> f (hd xs) \<noteq> [] \<Longrightarrow> \<exists>s. join sep (map f xs) = f (hd xs) @ s"
  by (cases xs rule: list.exhaust; cases "tl xs") auto

lemma reads_value_array:
  assumes "list_all2 reads_value ts vs"
  shows "reads_value (''['' @ join '','' ts @ '']'') (JArray vs)"
proof (cases "ts = []")
  case True
  then show ?thesis using assms reads_value_atom(4) by simp
next
  case False
  then obtain t0 where t0: "reads_value (hd ts) t0" using assms by (cases ts; cases vs) auto
  then obtain c s where "hd ts = c # s" "c \<noteq> CHR '']''" using reads_value_head by blast
  then obtain s' where j: "join '','' ts = c # s'" "c \<noteq> CHR '']''"
    using join_map_ne [of ts "\<lambda>t. t" "'',''"] False by auto
  show ?thesis
  proof (rule reads_valueI)
    fix n rest
    assume "length (''['' @ join '','' ts @ '']'') \<le> Suc n"
    then have "read_elements n (join '','' ts @ CHR '']'' # rest) = Some (vs, rest)"
      using read_elements_join [OF assms False] by simp
    then show "read_value (Suc n) ((''['' @ join '','' ts @ '']'') @ rest) = Some (JArray vs, rest)"
      using j by simp
  qed simp
qed

lemma reads_value_object:
  assumes "list_all2 (\<lambda>m e. fst m = fst e \<and> reads_value (snd m) (snd e)) ms es"
  shows "reads_value (''{'' @ join '','' (map member_text ms) @ ''}'') (JObject es)"
proof (cases "ms = []")
  case True
  then show ?thesis using assms reads_value_atom(3) by simp
next
  case False
  then obtain s' where j: "join '','' (map member_text ms) = CHR 0x22 # s'"
    using join_map_ne [of ms member_text "'',''"] by (auto simp: member_text_def json_quote_def)
  show ?thesis
  proof (rule reads_valueI)
    fix n rest
    assume "length (''{'' @ join '','' (map member_text ms) @ ''}'') \<le> Suc n"
    then have "read_members n (join '','' (map member_text ms) @ CHR ''}'' # rest) = Some (es, rest)"
      using read_members_join [OF assms False] by simp
    then show "read_value (Suc n) ((''{'' @ join '','' (map member_text ms) @ ''}'') @ rest) = Some (JObject es, rest)"
      using j by simp
  qed simp
qed

text \<open>The text of a value, if any, reads as what the value is to a reader.\<close>

definition agree :: "string option \<Rightarrow> jsval option \<Rightarrow> bool" where
  "agree t w = rel_option reads_value t w"

lemma rmap_all:
  assumes "\<And>x. x \<in> set xs \<Longrightarrow> \<exists>y. f x = Inr y \<and> P x y"
  shows "\<exists>ys. rmap f xs = Inr ys \<and> list_all2 P xs ys"
  using assms
proof (induction xs)
  case (Cons x xs)
  from Cons.prems obtain y where y: "f x = Inr y" "P x y" by auto
  from Cons obtain ys where "rmap f xs = Inr ys" "list_all2 P xs ys" by auto
  with y show ?case by auto
qed simp

lemma json_elements_agree:
  assumes "list_all2 (\<lambda>v t. agree t (json_view v)) vs ts"
  shows "agree (Some (json_elements ts)) (json_view (JArray vs))"
proof -
  have "list_all2 reads_value (map (\<lambda>t. case t of None \<Rightarrow> ''null'' | Some s \<Rightarrow> s) ts)
      (map (\<lambda>v. case json_view v of None \<Rightarrow> JNull | Some w \<Rightarrow> w) vs)"
    using assms by (induction vs ts rule: list_all2_induct)
      (auto simp: agree_def reads_value_atom elim!: option.rel_cases)
  then show ?thesis by (simp add: agree_def json_elements_def reads_value_array [simplified])
qed

lemma json_members_agree:
  assumes "list_all2 (\<lambda>(k, v) t. agree t (json_view v)) es ts"
  shows "agree (Some (json_members (zip (map fst es) ts))) (json_view (JObject es))"
proof -
  let ?ms = "concat (map (\<lambda>(k, t). case t of None \<Rightarrow> [] | Some s \<Rightarrow> [(k, s)]) (zip (map fst es) ts))"
  have "list_all2 (\<lambda>m e. fst m = fst e \<and> reads_value (snd m) (snd e)) ?ms
      (concat (map (\<lambda>(k, v). case json_view v of None \<Rightarrow> [] | Some w \<Rightarrow> [(k, w)]) es))"
    using assms by (induction es ts rule: list_all2_induct) (auto simp: agree_def elim!: option.rel_cases)
  moreover have "json_members (zip (map fst es) ts) = ''{'' @ join '','' (map member_text ?ms) @ ''}''"
    by (simp add: json_members_def map_concat comp_def member_text_def case_prod_unfold option.case_distrib
        cong: option.case_cong)
  ultimately show ?thesis
    by (simp add: agree_def reads_value_object [simplified])
qed

lemma json_text_agree: "\<exists>t. json_text True v = Inr t \<and> agree t (json_view v)"
proof (induction v rule: json_view.induct)
  case (6 vs)
  then obtain ts where "rmap (json_text True) vs = Inr ts" "list_all2 (\<lambda>v t. agree t (json_view v)) vs ts"
    using rmap_all [of vs "json_text True" "\<lambda>v t. agree t (json_view v)"] by auto
  then show ?case using json_elements_agree by auto
next
  case (7 es)
  then obtain ts where "rmap (\<lambda>(k, v). json_text True v) es = Inr ts"
    "list_all2 (\<lambda>(k, v) t. agree t (json_view v)) es ts"
    using rmap_all [of es "\<lambda>(k, v). json_text True v" "\<lambda>(k, v) t. agree t (json_view v)"] by fastforce
  then show ?case using json_members_agree by auto
next
  case (8 es)
  then obtain ts where "rmap (\<lambda>(k, v). json_text True v) es = Inr ts"
    "list_all2 (\<lambda>(k, v) t. agree t (json_view v)) es ts"
    using rmap_all [of es "\<lambda>(k, v). json_text True v" "\<lambda>(k, v) t. agree t (json_view v)"] by fastforce
  then show ?case using json_members_agree by auto
qed (auto simp: agree_def reads_value_quote reads_value_int reads_value_atom [simplified])

lemma json_body_read:
  "\<exists>t. jsonBodySerializer body = Inr t \<and> (t = None \<longleftrightarrow> json_view body = None) \<and>
       (\<forall>s. t = Some s \<longrightarrow> json_read s = json_view body)"
proof -
  obtain t where t: "json_text True body = Inr t" "rel_option reads_value t (json_view body)"
    using json_text_agree [of body] by (auto simp: agree_def)
  have "json_read s = Some w" if "reads_value s w" for s w
  proof -
    have "read_value (length s) s = Some (w, [])"
      using that [unfolded reads_value_def, rule_format, of "length s" "[]"] by (simp add: ends_number_def)
    then show ?thesis by (simp add: json_read_def)
  qed
  then show ?thesis
    using t by (auto simp: jsonBodySerializer_def elim!: option.rel_cases)
qed

text \<open>
  C13: the JSON body carries the value. The serializer never throws, it gives no text exactly for the
  values that have none, and otherwise its text is read back as the value's JSON view: big integers
  as strings, dates as their ISO form, absent members dropped, everything else as it is.
\<close>

theorem jsonBodySerializer_roundtrip:
  "\<exists>t. jsonBodySerializer body = Inr t \<and>
       (case t of None \<Rightarrow> json_view body = None
        | Some s \<Rightarrow> json_view body \<noteq> None \<and> json_read s = json_view body)"
  using json_body_read [of body] by (elim exE conjE) (auto split: option.split)

text \<open>Form fields: an entry's strings in order, \<open>null\<close> and \<open>undefined\<close> left out.\<close>

fun field_strings :: "jsval \<Rightarrow> string list option" where
  "field_strings JUndefined = Some []"
| "field_strings JNull = Some []"
| "field_strings (JStr s) = Some [s]"
| "field_strings (JArray vs) =
     (if list_all (\<lambda>v. case v of JStr _ \<Rightarrow> True | _ \<Rightarrow> False) vs
      then Some (map (\<lambda>v. case v of JStr s \<Rightarrow> s | _ \<Rightarrow> []) vs) else None)"
| "field_strings _ = None"

definition form_fields :: "props \<Rightarrow> (string \<times> string) list" where
  "form_fields es = concat (map (\<lambda>(k, v). map (Pair k) (the (field_strings v))) es)"

lemma pair_string: "serializeUrlSearchParamsPair data k (JStr s) = Inr (data @ [(k, s)])"
  by (simp add: serializeUrlSearchParamsPair_def)

lemma each_value_strings:
  "list_all (\<lambda>v. case v of JStr _ \<Rightarrow> True | _ \<Rightarrow> False) vs \<Longrightarrow>
   each_value serializeUrlSearchParamsPair k vs data =
     Inr (data @ map (Pair k) (map (\<lambda>v. case v of JStr s \<Rightarrow> s | _ \<Rightarrow> []) vs))"
  by (induction vs arbitrary: data)
    (auto simp: serializeUrlSearchParamsPair_def split: jsval.splits)

lemma each_entry_strings:
  "\<forall>(k, v) \<in> set es. field_strings v \<noteq> None \<Longrightarrow>
   each_entry serializeUrlSearchParamsPair es data = Inr (data @ form_fields es)"
proof (induction es arbitrary: data)
  case (Cons e es)
  obtain k v where e: "e = (k, v)" by (cases e)
  have "field_strings v \<noteq> None" using Cons.prems e by auto
  then show ?case
    using Cons by (cases v) (auto simp: e form_fields_def pair_string each_value_strings split: if_splits)
qed (simp add: form_fields_def)

text \<open>
  C14: a form body is read by the server as the fields that were given: the strings of each entry, in
  order and once per element of an array, whatever characters they hold.
\<close>

theorem urlSearchParamsBodySerializer_roundtrip:
  assumes "\<forall>(k, v) \<in> set es. field_strings v \<noteq> None"
  shows "\<exists>s. urlSearchParamsBodySerializer (JObject es) = Inr s \<and> parse_urlencoded s = Some (form_fields es)"
  using each_entry_strings [OF assms, of "[]"] search_params_roundtrip [of "form_fields es"]
  by (simp add: urlSearchParamsBodySerializer_def)

theorem urlSearchParamsBodySerializer_roundtrip_witness:
  "\<exists>s. urlSearchParamsBodySerializer
          (JObject [(''username'', JStr ''a&b''), (''scope'', JNull), (''role'', JArray [JStr ''x'', JStr ''y=z''])]) = Inr s \<and>
       parse_urlencoded s = Some [(''username'', ''a&b''), (''role'', ''x''), (''role'', ''y=z'')]"
  using urlSearchParamsBodySerializer_roundtrip
    [of "[(''username'', JStr ''a&b''), (''scope'', JNull), (''role'', JArray [JStr ''x'', JStr ''y=z''])]"]
  by (simp add: form_fields_def)

end
