(* ===== verification/HttpHeaders.thy ===== *)
theory HttpHeaders
  imports Json "HOL-Library.List_Lexorder" "HOL-Library.Char_ord"
begin

text \<open>
  The platform's \<open>Headers\<close> object and its use in \<^verbatim>\<open>frontend/src/lib/api/client/utils.gen.ts\<close>: merging
  header sources and adding credentials. A header list holds lower-case names and normalised
  values in the order of insertion; a name that is not a token and a value with a forbidden byte
  are a \<open>TypeError\<close>.
\<close>

section \<open>The header list\<close>

type_synonym headers = "(string \<times> string) list"

definition lower :: "string \<Rightarrow> string" where
  "lower s = map lower_char s"

definition token_char :: "char \<Rightarrow> bool" where
  "token_char c \<longleftrightarrow> is_letter c \<or> is_digit c \<or> cc c \<in> set [33, 35, 36, 37, 38, 39, 42, 43, 45, 46, 94, 95, 96, 124, 126]"

definition header_name :: "string \<Rightarrow> bool" where
  "header_name n \<longleftrightarrow> n \<noteq> [] \<and> list_all token_char n"

definition http_space :: "char \<Rightarrow> bool" where
  "http_space c \<longleftrightarrow> cc c = 9 \<or> cc c = 10 \<or> cc c = 13 \<or> cc c = 32"

definition header_norm :: "string \<Rightarrow> string" where
  "header_norm v = rev (dropWhile http_space (rev (dropWhile http_space v)))"

definition header_value :: "string \<Rightarrow> bool" where
  "header_value v \<longleftrightarrow> list_all (\<lambda>c. cc c \<noteq> 0 \<and> cc c \<noteq> 10 \<and> cc c \<noteq> 13) v"

definition header_values :: "string \<Rightarrow> headers \<Rightarrow> string list" where
  "header_values n hs = map snd (filter (\<lambda>(m, _). m = lower n) hs)"

text \<open>\<open>get\<close> combines the values of a name.\<close>

definition header_get :: "string \<Rightarrow> headers \<Rightarrow> string option" where
  "header_get n hs =
     (let vs = header_values n hs in if vs = [] then None else Some (join '', '' vs))"

definition header_has :: "string \<Rightarrow> headers \<Rightarrow> bool" where
  "header_has n hs \<longleftrightarrow> header_get n hs \<noteq> None"

definition header_delete :: "string \<Rightarrow> headers \<Rightarrow> headers res" where
  "header_delete n hs =
     (if header_name n then Inr (filter (\<lambda>(m, _). m \<noteq> lower n) hs) else Inl TypeError)"

definition header_append :: "string \<Rightarrow> string \<Rightarrow> headers \<Rightarrow> headers res" where
  "header_append n v hs =
     (if header_name n \<and> header_value (header_norm v) then Inr (hs @ [(lower n, header_norm v)])
      else Inl TypeError)"

fun put_first :: "string \<Rightarrow> string \<Rightarrow> headers \<Rightarrow> headers" where
  "put_first n v [] = [(n, v)]"
| "put_first n v ((m, u) # hs) =
     (if m = n then (n, v) # filter (\<lambda>(m', _). m' \<noteq> n) hs else (m, u) # put_first n v hs)"

definition header_set :: "string \<Rightarrow> string \<Rightarrow> headers \<Rightarrow> headers res" where
  "header_set n v hs =
     (if header_name n \<and> header_value (header_norm v) then Inr (put_first (lower n) (header_norm v) hs)
      else Inl TypeError)"

text \<open>\<open>headersEntries\<close>: \<open>forEach\<close> goes through the names in order, each with its combined value.\<close>

definition headersEntries :: "headers \<Rightarrow> (string \<times> string) list" where
  "headersEntries hs = map (\<lambda>n. (n, case header_get n hs of None \<Rightarrow> [] | Some v \<Rightarrow> v)) (sort (remdups (map fst hs)))"

section \<open>Merging header sources\<close>

text \<open>A source is a \<open>Headers\<close> object or a record; the value of a record's header is any value.\<close>

datatype header_source = HeadersObject headers | HeaderRecord props

definition source_entries :: "header_source \<Rightarrow> props" where
  "source_entries h =
     (case h of HeadersObject hs \<Rightarrow> map (\<lambda>(n, v). (n, JStr v)) (headersEntries hs)
      | HeaderRecord es \<Rightarrow> es)"

fun append_values :: "string \<Rightarrow> jsval list \<Rightarrow> headers \<Rightarrow> headers res" where
  "append_values key [] hs = Inr hs"
| "append_values key (v # vs) hs =
     rbind (to_string v) (\<lambda>s. rbind (header_append key s hs) (append_values key vs))"

definition merge_entry :: "string \<Rightarrow> jsval \<Rightarrow> headers \<Rightarrow> headers res" where
  "merge_entry key value hs =
     (case value of
        JNull \<Rightarrow> header_delete key hs
      | JArray vs \<Rightarrow> append_values key vs hs
      | JUndefined \<Rightarrow> Inr hs
      | _ \<Rightarrow>
          rbind (if typeof_object value then rbind (json_stringify value) (\<lambda>t. Inr (appended t))
                 else to_string value)
            (\<lambda>s. header_set key s hs))"

fun merge_entries :: "props \<Rightarrow> headers \<Rightarrow> headers res" where
  "merge_entries [] hs = Inr hs"
| "merge_entries ((key, value) # es) hs = rbind (merge_entry key value hs) (merge_entries es)"

fun merge_sources :: "header_source option list \<Rightarrow> headers \<Rightarrow> headers res" where
  "merge_sources [] hs = Inr hs"
| "merge_sources (None # hss) hs = merge_sources hss hs"
| "merge_sources (Some h # hss) hs = rbind (merge_entries (source_entries h) hs) (merge_sources hss)"

definition mergeHeaders :: "header_source option list \<Rightarrow> headers res" where
  "mergeHeaders hss = merge_sources hss []"

section \<open>Credentials\<close>

datatype auth_in = InHeader | InQuery | InCookie

datatype auth_scheme = Basic | Bearer

datatype auth_type = ApiKey | Http

record Auth =
  auth_location :: "auth_in option"
  auth_key :: "string option"
  auth_name :: "string option"
  auth_scheme_of :: "auth_scheme option"
  auth_type_of :: auth_type

text \<open>A token, or a function that gives one.\<close>

datatype auth_source = AuthToken string | AuthFunction "Auth \<Rightarrow> string option"

text \<open>\<open>btoa\<close> is an argument: it belongs to the platform.\<close>

definition getAuthToken :: "(string \<Rightarrow> string) \<Rightarrow> Auth \<Rightarrow> auth_source option \<Rightarrow> string option" where
  "getAuthToken btoa auth callback =
     (let token = (case callback of None \<Rightarrow> None | Some (AuthToken t) \<Rightarrow> Some t | Some (AuthFunction f) \<Rightarrow> f auth) in
      case token of
        None \<Rightarrow> None
      | Some t \<Rightarrow>
          if t = [] then None
          else (case auth_scheme_of auth of
                  Some Bearer \<Rightarrow> Some (''Bearer '' @ t)
                | Some Basic \<Rightarrow> Some (''Basic '' @ btoa t)
                | None \<Rightarrow> Some t))"

definition checkForExistence :: "headers \<Rightarrow> props option \<Rightarrow> string option \<Rightarrow> bool" where
  "checkForExistence hs query name =
     (case name of
        None \<Rightarrow> False
      | Some n \<Rightarrow>
          n \<noteq> [] \<and>
          (header_has n hs \<or>
           (case query of None \<Rightarrow> False | Some q \<Rightarrow> truthy (prop_get q n)) \<or>
           (case header_get ''Cookie'' hs of None \<Rightarrow> False | Some c \<Rightarrow> str_includes c (n @ ''=''))))"

text \<open>One scheme of \<open>setAuthParams\<close>; the headers and the query are what it changes.\<close>

definition set_auth ::
  "(string \<Rightarrow> string) \<Rightarrow> auth_source option \<Rightarrow> Auth \<Rightarrow> headers \<times> props option \<Rightarrow> (headers \<times> props option) res" where
  "set_auth btoa source auth hq =
     (case hq of (hs, query) \<Rightarrow>
        if checkForExistence hs query (auth_name auth) then Inr hq
        else (case getAuthToken btoa auth source of
                None \<Rightarrow> Inr hq
              | Some token \<Rightarrow>
                  let name = (case auth_name auth of None \<Rightarrow> ''Authorization'' | Some n \<Rightarrow> n) in
                  (case auth_location auth of
                     Some InQuery \<Rightarrow>
                       Inr (hs, Some (prop_set (case query of None \<Rightarrow> [] | Some q \<Rightarrow> q) name (JStr token)))
                   | Some InCookie \<Rightarrow>
                       rbind (header_append ''Cookie'' (name @ ''='' @ token) hs) (\<lambda>hs'. Inr (hs', query))
                   | _ \<Rightarrow> rbind (header_set name token hs) (\<lambda>hs'. Inr (hs', query)))))"

fun setAuthParams ::
  "(string \<Rightarrow> string) \<Rightarrow> auth_source option \<Rightarrow> Auth list \<Rightarrow> headers \<times> props option \<Rightarrow> (headers \<times> props option) res" where
  "setAuthParams btoa source [] hq = Inr hq"
| "setAuthParams btoa source (auth # auths) hq =
     rbind (set_auth btoa source auth hq) (setAuthParams btoa source auths)"

section \<open>What a header store promises\<close>

text \<open>A change to the headers, and what it makes of the value under one name.\<close>

datatype header_op = SetHeader string string | AppendHeader string string | DeleteHeader string

fun op_effect :: "string \<Rightarrow> header_op \<Rightarrow> string option \<Rightarrow> string option" where
  "op_effect n (SetHeader m v) cur = (if lower m = lower n then Some (header_norm v) else cur)"
| "op_effect n (AppendHeader m v) cur =
     (if lower m = lower n
      then Some (case cur of None \<Rightarrow> header_norm v | Some u \<Rightarrow> u @ '', '' @ header_norm v) else cur)"
| "op_effect n (DeleteHeader m) cur = (if lower m = lower n then None else cur)"

locale header_store =
  fixes get :: "string \<Rightarrow> 'h \<Rightarrow> string option"
    and set_header append_header :: "string \<Rightarrow> string \<Rightarrow> 'h \<Rightarrow> 'h res"
    and delete_header :: "string \<Rightarrow> 'h \<Rightarrow> 'h res"
  assumes get_set: "set_header m v h = Inr h' \<Longrightarrow> get n h' = op_effect n (SetHeader m v) (get n h)"
    and get_append: "append_header m v h = Inr h' \<Longrightarrow> get n h' = op_effect n (AppendHeader m v) (get n h)"
    and get_delete: "delete_header m h = Inr h' \<Longrightarrow> get n h' = op_effect n (DeleteHeader m) (get n h)"
begin

text \<open>The value under a name after a sequence of changes depends on that name's changes alone.\<close>

fun run_op :: "header_op \<Rightarrow> 'h \<Rightarrow> 'h res" where
  "run_op (SetHeader m v) h = set_header m v h"
| "run_op (AppendHeader m v) h = append_header m v h"
| "run_op (DeleteHeader m) h = delete_header m h"

fun run_ops :: "header_op list \<Rightarrow> 'h \<Rightarrow> 'h res" where
  "run_ops [] h = Inr h"
| "run_ops (p # ps) h = rbind (run_op p h) (run_ops ps)"

lemma get_run_op: "run_op p h = Inr h' \<Longrightarrow> get n h' = op_effect n p (get n h)"
  by (cases p) (auto dest: get_set get_append get_delete simp del: op_effect.simps)

lemma get_run_ops: "run_ops ps h = Inr h' \<Longrightarrow> get n h' = fold (op_effect n) ps (get n h)"
proof (induction ps arbitrary: h)
  case (Cons p ps)
  then obtain h1 where "run_op p h = Inr h1" "run_ops ps h1 = Inr h'"
    by (cases "run_op p h") auto
  then show ?case using Cons.IH get_run_op by simp
qed simp

lemma run_ops_append: "run_ops (ps @ qs) h = rbind (run_ops ps h) (run_ops qs)"
proof (induction ps arbitrary: h)
  case (Cons p ps)
  then show ?case by (cases "run_op p h") auto
qed simp

end

lemma header_values_Cons:
  "header_values n ((m, v) # hs) = (if m = lower n then v # header_values n hs else header_values n hs)"
  by (simp add: header_values_def)

lemma header_values_filter:
  "header_values n (filter (\<lambda>(k, _). k \<noteq> m) hs) = (if m = lower n then [] else header_values n hs)"
  by (induction hs) (auto simp: header_values_def)

lemma header_values_put:
  "header_values n (put_first m v hs) = (if m = lower n then [v] else header_values n hs)"
proof (induction m v hs rule: put_first.induct)
  case (1 n v)
  show ?case by (simp add: header_values_def)
next
  case (2 m v k u hs)
  then show ?case using header_values_filter [of n m hs] by (auto simp: header_values_Cons)
qed

lemma join_snoc: "vs \<noteq> [] \<Longrightarrow> join sep (vs @ [v]) = join sep vs @ sep @ v"
  by (induction sep vs rule: join.induct) auto

interpretation hdr: header_store header_get header_set header_append header_delete
proof
  fix m v h h' n
  show "header_set m v h = Inr h' \<Longrightarrow> header_get n h' = op_effect n (SetHeader m v) (header_get n h)"
    by (auto simp: header_set_def header_get_def header_values_put Let_def split: if_splits)
  show "header_delete m h = Inr h' \<Longrightarrow> header_get n h' = op_effect n (DeleteHeader m) (header_get n h)"
    by (auto simp: header_delete_def header_get_def header_values_filter Let_def split: if_splits)
  show "header_append m v h = Inr h' \<Longrightarrow> header_get n h' = op_effect n (AppendHeader m v) (header_get n h)"
    by (auto simp: header_append_def header_get_def header_values_def join_snoc Let_def split: if_splits)
qed

section \<open>Merging and credentials\<close>

text \<open>The entries of all sources, and the last word on a name among entries that are text, null or absent.\<close>

definition all_entries :: "header_source option list \<Rightarrow> props" where
  "all_entries hss = concat (map (\<lambda>h. case h of None \<Rightarrow> [] | Some h \<Rightarrow> source_entries h) hss)"

fun plain_value :: "jsval \<Rightarrow> bool" where
  "plain_value (JStr s) = True"
| "plain_value JNull = True"
| "plain_value JUndefined = True"
| "plain_value _ = False"

definition last_entry :: "string \<Rightarrow> props \<Rightarrow> jsval option" where
  "last_entry n es =
     map_of (rev (map (\<lambda>(k, v). (lower k, v)) (filter (\<lambda>(k, v). v \<noteq> JUndefined) es))) (lower n)"

fun entry_ops :: "string \<times> jsval \<Rightarrow> header_op list" where
  "entry_ops (k, JStr s) = [SetHeader k s]"
| "entry_ops (k, JNull) = [DeleteHeader k]"
| "entry_ops (k, _) = []"

lemma merge_entries_append: "merge_entries (es @ fs) hs = rbind (merge_entries es hs) (merge_entries fs)"
proof (induction es arbitrary: hs)
  case (Cons e es)
  obtain k v where e: "e = (k, v)" by (cases e)
  show ?case using Cons.IH by (cases "merge_entry k v hs") (simp_all add: e)
qed simp

lemma merge_sources_entries: "merge_sources hss hs = merge_entries (all_entries hss) hs"
proof (induction hss arbitrary: hs)
  case Nil
  show ?case by (simp add: all_entries_def)
next
  case (Cons h hss)
  then have "merge_sources hss = merge_entries (all_entries hss)" by blast
  then show ?case
    by (cases h) (simp_all add: all_entries_def merge_entries_append)
qed

lemma merge_entries_ops:
  "\<forall>(k, v) \<in> set es. plain_value v \<Longrightarrow> merge_entries es hs = hdr.run_ops (concat (map entry_ops es)) hs"
proof (induction es arbitrary: hs)
  case (Cons e es)
  obtain k v where e: "e = (k, v)" by (cases e)
  then have "plain_value v" and "merge_entries es = hdr.run_ops (concat (map entry_ops es))"
    using Cons by auto
  then show ?case by (cases v) (simp_all add: e merge_entry_def hdr.run_ops_append rbind_def)
qed simp

lemma last_entry_Cons:
  "last_entry n ((k, v) # es) =
     (case last_entry n es of Some w \<Rightarrow> Some w
      | None \<Rightarrow> if v \<noteq> JUndefined \<and> lower k = lower n then Some v else None)"
  by (auto simp: last_entry_def map_add_def split: option.splits)

lemma fold_entry_ops:
  "\<forall>(k, v) \<in> set es. plain_value v \<Longrightarrow>
   fold (op_effect n) (concat (map entry_ops es)) cur =
     (case last_entry n es of None \<Rightarrow> cur | Some (JStr s) \<Rightarrow> Some (header_norm s) | Some _ \<Rightarrow> None)"
proof (induction es arbitrary: cur)
  case (Cons e es)
  obtain k v where e: "e = (k, v)" by (cases e)
  have "plain_value v" using Cons.prems by (auto simp: e)
  then show ?case
    using Cons by (cases v) (auto simp: last_entry_Cons e split: option.splits)
qed (simp add: last_entry_def)

text \<open>
  C18: merging headers, the last source that mentions a name decides it, whatever the case of the
  letters: a string sets the header, \<open>null\<close> removes it, \<open>undefined\<close> says nothing. The merge of sources
  with well-formed names and values does not throw.
\<close>

theorem mergeHeaders_last_wins:
  assumes "\<forall>(k, v) \<in> set (all_entries hss). plain_value v"
    and "\<forall>(k, v) \<in> set (all_entries hss). header_name k \<and> (case v of JStr s \<Rightarrow> header_value (header_norm s) | _ \<Rightarrow> True)"
  shows "\<exists>hs. mergeHeaders hss = Inr hs \<and>
           (\<forall>n. header_get n hs =
              (case last_entry n (all_entries hss) of Some (JStr s) \<Rightarrow> Some (header_norm s) | _ \<Rightarrow> None))"
proof -
  let ?es = "all_entries hss"
  have "\<exists>hs. merge_entries es hs0 = Inr hs" if "set es \<subseteq> set ?es" for es hs0
    using that
  proof (induction es arbitrary: hs0)
    case (Cons e es)
    obtain k v where e: "e = (k, v)" "(k, v) \<in> set ?es" using Cons.prems by (cases e) auto
    then have "plain_value v" "header_name k" "case v of JStr s \<Rightarrow> header_value (header_norm s) | _ \<Rightarrow> True"
      using assms by auto
    then obtain hs1 where "merge_entry k v hs0 = Inr hs1"
      by (cases v) (auto simp: merge_entry_def header_set_def header_delete_def)
    then show ?case using Cons by (simp add: e)
  qed simp
  then obtain hs where hs: "merge_entries ?es [] = Inr hs" by blast
  then have "header_get n hs = fold (op_effect n) (concat (map entry_ops ?es)) (header_get n [])" for n
    using hdr.get_run_ops merge_entries_ops [OF assms(1)] by simp
  then show ?thesis
    using hs fold_entry_ops [OF assms(1)]
    by (auto simp: mergeHeaders_def merge_sources_entries header_get_def header_values_def
        split: option.splits jsval.splits)
qed

theorem mergeHeaders_last_wins_witness:
  "\<exists>hs. mergeHeaders [Some (HeaderRecord [(''Content-Type'', JStr ''application/json''), (''X-A'', JStr ''1'')]), None,
            Some (HeaderRecord [(''content-type'', JNull), (''x-a'', JStr '' 2 '')])] = Inr hs \<and>
        header_get ''Content-Type'' hs = None \<and> header_get ''X-a'' hs = Some ''2''"
proof -
  let ?hss = "[Some (HeaderRecord [(''Content-Type'', JStr ''application/json''), (''X-A'', JStr ''1'')]), None,
            Some (HeaderRecord [(''content-type'', JNull), (''x-a'', JStr '' 2 '')])]"
  have "\<forall>(k, v) \<in> set (all_entries ?hss). plain_value v"
    "\<forall>(k, v) \<in> set (all_entries ?hss).
       header_name k \<and> (case v of JStr s \<Rightarrow> header_value (header_norm s) | _ \<Rightarrow> True)"
    by code_simp+
  moreover have "last_entry ''Content-Type'' (all_entries ?hss) = Some JNull"
    "last_entry ''X-a'' (all_entries ?hss) = Some (JStr '' 2 '')" "header_norm '' 2 '' = ''2''"
    by code_simp+
  ultimately show ?thesis using mergeHeaders_last_wins [of ?hss] by fastforce
qed

lemma str_includes_append: "str_includes (a @ p @ b) p"
proof (induction a)
  case Nil
  have "startsWith (p @ b) p" by simp
  then show ?case by (cases "p @ b") auto
qed simp

lemma header_norm_prefix:
  assumes "p \<noteq> []" "\<not> http_space (hd p)" "\<not> http_space (last p)"
  shows "\<exists>t'. header_norm (p @ t) = p @ t'"
proof -
  have "dropWhile http_space (p @ t) = p @ t" using assms by (cases p) auto
  moreover have "dropWhile http_space (rev (p @ t)) = dropWhile http_space (rev t) @ rev p"
    if "\<exists>c \<in> set t. \<not> http_space c"
    using that by (auto simp: dropWhile_append)
  moreover have "dropWhile http_space (rev (p @ t)) = rev p" if "\<forall>c \<in> set t. http_space c"
    using that assms by (cases "rev p") (auto simp: dropWhile_append hd_rev)
  ultimately show ?thesis
    by (cases "\<forall>c \<in> set t. http_space c") (auto simp: header_norm_def)
qed

lemma token_not_space: "token_char c \<Longrightarrow> \<not> http_space c"
  by (auto simp: token_char_def http_space_def is_letter_def is_digit_def is_upper_def is_lower_def)

lemma cookie_pair:
  assumes "header_name n"
  shows "str_includes (a @ header_norm (n @ ''='' @ t)) (n @ ''='')"
proof -
  have "\<not> http_space (hd n)"
    using assms token_not_space by (auto simp: header_name_def list_all_iff)
  then obtain t' where "header_norm ((n @ ''='') @ t) = (n @ ''='') @ t'"
    using header_norm_prefix [of "n @ ''=''" t] assms by (auto simp: header_name_def http_space_def)
  then show ?thesis using str_includes_append [of a "n @ ''=''" t'] by simp
qed

lemma cookie_appended:
  assumes "header_append ''Cookie'' (n @ ''='' @ t) hs = Inr hs'" "header_name n"
  shows "\<exists>c. header_get ''Cookie'' hs' = Some c \<and> str_includes c (n @ ''='')"
proof (cases "header_get ''Cookie'' hs")
  case None
  then show ?thesis
    using hdr.get_append [OF assms(1), of "''Cookie''"] cookie_pair [OF assms(2), of "[]" t] by simp
next
  case (Some u)
  then show ?thesis
    using hdr.get_append [OF assms(1), of "''Cookie''"] cookie_pair [OF assms(2), of "u @ '', ''" t] by simp
qed

lemma set_auth_exists:
  assumes "auth_name auth = Some n" "header_name n"
    and "set_auth btoa source auth (hs, query) = Inr (hs', query')"
    and "getAuthToken btoa auth source \<noteq> None"
  shows "checkForExistence hs' query' (auth_name auth)"
proof (cases "checkForExistence hs query (auth_name auth)")
  case True
  then show ?thesis using assms(3) by (simp add: set_auth_def)
next
  case False
  obtain token where token: "getAuthToken btoa auth source = Some token" using assms(4) by auto
  have n: "n \<noteq> []" using assms(2) by (simp add: header_name_def)
  have t: "token \<noteq> []" using token by (auto simp: getAuthToken_def Let_def split: option.splits if_splits auth_scheme.splits)
  have header: "header_has n hs'" if "header_set n token hs = Inr hs'"
    using hdr.get_set [OF that, of n] by (simp add: header_has_def)
  consider "auth_location auth = Some InQuery" | "auth_location auth = Some InCookie"
    | "auth_location auth = None \<or> auth_location auth = Some InHeader"
    by (cases "auth_location auth") (auto intro: auth_in.exhaust)
  then show ?thesis
  proof cases
    case 1
    then have "prop_get (the query') n = JStr token" "query' \<noteq> None"
      using assms(1,3) False token by (auto simp: set_auth_def prop_get_def map_of_prop_set)
    then show ?thesis using assms(1) n t by (auto simp: checkForExistence_def)
  next
    case 2
    then obtain "header_append ''Cookie'' (n @ ''='' @ token) hs = Inr hs'"
      using assms(1,3) False token
      by (cases "header_append ''Cookie'' (n @ ''='' @ token) hs") (auto simp: set_auth_def)
    then show ?thesis using cookie_appended [OF _ assms(2)] assms(1) n by (fastforce simp: checkForExistence_def)
  next
    case 3
    then have "header_set n token hs = Inr hs'"
      using assms(1,3) False token
      by (cases "header_set n token hs") (auto simp: set_auth_def)
    then show ?thesis using header assms(1) n by (simp add: checkForExistence_def)
  qed
qed

text \<open>
  Credentials are added once. Applying a named security scheme a second time, to the options its
  first application left, changes nothing, wherever the scheme puts its token.
\<close>

theorem set_auth_idempotent:
  assumes "auth_name auth = Some n" "header_name n" "set_auth btoa source auth hq = Inr hq'"
  shows "set_auth btoa source auth hq' = Inr hq'"
proof -
  obtain hs query where hq1: "hq = (hs, query)" by (cases hq)
  obtain hs' query' where hq2: "hq' = (hs', query')" by (cases hq')
  note hq = hq1 hq2
  show ?thesis
  proof (cases "getAuthToken btoa auth source = None")
    case True
    then show ?thesis by (simp add: set_auth_def hq)
  next
    case False
    then show ?thesis using set_auth_exists [OF assms(1,2) assms(3) [unfolded hq] False] by (simp add: set_auth_def hq)
  qed
qed

theorem set_auth_idempotent_witness:
  "\<exists>hq'. set_auth id (Some (AuthToken ''t''))
            \<lparr>auth_location = Some InCookie, auth_key = None, auth_name = Some ''sid'', auth_scheme_of = None, auth_type_of = ApiKey\<rparr>
            ([], None) = Inr hq' \<and>
         set_auth id (Some (AuthToken ''t''))
            \<lparr>auth_location = Some InCookie, auth_key = None, auth_name = Some ''sid'', auth_scheme_of = None, auth_type_of = ApiKey\<rparr>
            hq' = Inr hq'"
proof -
  let ?a = "\<lparr>auth_location = Some InCookie, auth_key = None, auth_name = Some ''sid'', auth_scheme_of = None, auth_type_of = ApiKey\<rparr>"
  have n: "auth_name ?a = Some ''sid''" "header_name ''sid''"
    by (simp, code_simp)
  have "set_auth id (Some (AuthToken ''t'')) ?a ([], None) = Inr ([(''cookie'', ''sid=t'')], None)"
    by code_simp
  from set_auth_idempotent [OF n this] this show ?thesis by blast
qed

end
