(* ===== verification/Interceptors.thy ===== *)
theory Interceptors
  imports Prelude
begin

text \<open>
  The interceptor registry, class \<open>Interceptors\<close> of \<^verbatim>\<open>frontend/src/lib/api/client/utils.gen.ts\<close>. A
  function object is a value of type \<open>'i\<close>, compared by identity; the array keeps \<open>null\<close> (\<open>None\<close>) where
  an interceptor was ejected, so that the indices handed out stay valid.
\<close>

type_synonym 'i interceptors = "'i option list"

datatype 'i interceptor_id = ById int | ByFn 'i

text \<open>\<open>this.fns[index]\<close>, where a missing element is falsy like \<open>null\<close>\<close>

definition fn_at :: "'i interceptors \<Rightarrow> int \<Rightarrow> 'i option" where
  "fn_at fns index = (if 0 \<le> index \<and> nat index < length fns then fns ! nat index else None)"

fun indexOf_from :: "int \<Rightarrow> 'i interceptors \<Rightarrow> 'i \<Rightarrow> int" where
  "indexOf_from i [] f = -1"
| "indexOf_from i (g # fns) f = (if g = Some f then i else indexOf_from (i + 1) fns f)"

definition getInterceptorIndex :: "'i interceptors \<Rightarrow> 'i interceptor_id \<Rightarrow> int" where
  "getInterceptorIndex fns i =
     (case i of ById n \<Rightarrow> if fn_at fns n \<noteq> None then n else -1 | ByFn f \<Rightarrow> indexOf_from 0 fns f)"

definition clear :: "'i interceptors \<Rightarrow> 'i interceptors" where
  "clear fns = []"

definition eject :: "'i interceptors \<Rightarrow> 'i interceptor_id \<Rightarrow> 'i interceptors" where
  "eject fns i =
     (let index = getInterceptorIndex fns i in
      if fn_at fns index \<noteq> None then fns[nat index := None] else fns)"

definition interceptor_exists :: "'i interceptors \<Rightarrow> 'i interceptor_id \<Rightarrow> bool" where
  "interceptor_exists fns i \<longleftrightarrow> fn_at fns (getInterceptorIndex fns i) \<noteq> None"

text \<open>\<open>update\<close> returns the id, or \<open>false\<close> (\<open>None\<close>).\<close>

definition update ::
  "'i interceptors \<Rightarrow> 'i interceptor_id \<Rightarrow> 'i \<Rightarrow> 'i interceptors \<times> 'i interceptor_id option" where
  "update fns i f =
     (let index = getInterceptorIndex fns i in
      if fn_at fns index \<noteq> None then (fns[nat index := Some f], Some i) else (fns, None))"

definition use :: "'i interceptors \<Rightarrow> 'i \<Rightarrow> 'i interceptors \<times> int" where
  "use fns f = (fns @ [Some f], int (length fns))"

text \<open>The functions a loop \<open>for (const fn of fns) if (fn)\<close> calls, in order.\<close>

definition active :: "'i interceptors \<Rightarrow> 'i list" where
  "active fns = concat (map (\<lambda>g. case g of None \<Rightarrow> [] | Some f \<Rightarrow> [f]) fns)"

section \<open>What a registry promises\<close>

locale registry =
  fixes lookup :: "'s \<Rightarrow> int \<Rightarrow> 'i option"
    and use_fn :: "'s \<Rightarrow> 'i \<Rightarrow> 's \<times> int"
    and eject_id :: "'s \<Rightarrow> int \<Rightarrow> 's"
    and update_id :: "'s \<Rightarrow> int \<Rightarrow> 'i \<Rightarrow> 's"
    and issued :: "'s \<Rightarrow> int"
  assumes lookup_issued: "lookup s n \<noteq> None \<Longrightarrow> n < issued s"
    and use_id: "snd (use_fn s f) = issued s"
    and issued_use: "issued (fst (use_fn s f)) = issued s + 1"
    and lookup_use: "lookup (fst (use_fn s f)) n = (if n = issued s then Some f else lookup s n)"
    and lookup_eject: "lookup (eject_id s m) n = (if n = m then None else lookup s n)"
    and issued_eject: "issued (eject_id s m) = issued s"
    and lookup_update:
      "lookup (update_id s m f) n = (if n = m \<and> lookup s m \<noteq> None then Some f else lookup s n)"
    and issued_update: "issued (update_id s m f) = issued s"
begin

lemma use_fresh: "lookup s (snd (use_fn s f)) = None"
  using lookup_issued [of s "issued s"] by (cases "lookup s (issued s)") (auto simp: use_id)

lemma use_then_eject: "lookup (eject_id (fst (use_fn s f)) (snd (use_fn s f))) n = lookup s n"
  using use_fresh [of s f] by (auto simp: lookup_eject lookup_use use_id)

lemma update_after_eject: "lookup (update_id (eject_id s m) m f) n = lookup (eject_id s m) n"
  by (simp add: lookup_update lookup_eject)

lemma ids_not_reused: "snd (use_fn (eject_id (fst (use_fn s f)) m) g) \<noteq> snd (use_fn s f)"
  by (simp add: use_id issued_eject issued_use)

end

lemma fn_at_update: "fn_at (fns[k := v]) n = (if 0 \<le> n \<and> nat n = k \<and> k < length fns then v else fn_at fns n)"
  by (auto simp: fn_at_def nth_list_update)

lemma fn_at_outside [simp]: "fn_at fns (-1) = None"
  by (simp add: fn_at_def)

interpretation reg: registry fn_at use "\<lambda>fns n. eject fns (ById n)"
  "\<lambda>fns n f. fst (update fns (ById n) f)" "\<lambda>fns. int (length fns)"
proof
  fix fns :: "'i interceptors" and m n :: int and f :: 'i
  show "fn_at fns n \<noteq> None \<Longrightarrow> n < int (length fns)"
    by (auto simp: fn_at_def split: if_splits)
  show "snd (use fns f) = int (length fns)" "int (length (fst (use fns f))) = int (length fns) + 1"
    by (simp_all add: use_def)
  show "fn_at (fst (use fns f)) n = (if n = int (length fns) then Some f else fn_at fns n)"
    by (auto simp: use_def fn_at_def nth_append)
  show "fn_at (eject fns (ById m)) n = (if n = m then None else fn_at fns n)"
    by (auto simp: eject_def getInterceptorIndex_def fn_at_update Let_def) (auto simp: fn_at_def split: if_splits)
  show "int (length (eject fns (ById m))) = int (length fns)"
    by (simp add: eject_def Let_def)
  show "fn_at (fst (update fns (ById m) f)) n = (if n = m \<and> fn_at fns m \<noteq> None then Some f else fn_at fns n)"
    by (auto simp: update_def getInterceptorIndex_def fn_at_update Let_def) (auto simp: fn_at_def split: if_splits)
  show "int (length (fst (update fns (ById m) f))) = int (length fns)"
    by (simp add: update_def Let_def)
qed

section \<open>Order and identity\<close>

lemma active_append [simp]: "active (fns @ gns) = active fns @ active gns"
  by (simp add: active_def)

lemma exists_iff: "interceptor_exists fns (ById n) \<longleftrightarrow> fn_at fns n \<noteq> None"
  by (simp add: interceptor_exists_def getInterceptorIndex_def)

lemma eject_last: "eject (fns @ [Some f]) (ById (int (length fns))) = fns @ [None]"
  by (simp add: eject_def getInterceptorIndex_def fn_at_def Let_def)

text \<open>
  an id identifies its interceptor for good. A registered function gets an id that names nothing
  before, runs after every function registered earlier, and is removed by ejecting that id, which
  restores the functions that run; ejecting other ids leaves it, and its id is never given out again,
  even after it was ejected.
\<close>

theorem interceptor_ids:
  assumes "use fns f = (fns', n)"
  shows "\<not> interceptor_exists fns (ById n) \<and> interceptor_exists fns' (ById n) \<and>
         active fns' = active fns @ [f] \<and> active (eject fns' (ById n)) = active fns \<and>
         (\<forall>m. interceptor_exists (eject fns' (ById m)) (ById n) \<longleftrightarrow> m \<noteq> n) \<and>
         (\<forall>m g. snd (use (eject fns' (ById m)) g) \<noteq> n)"
proof -
  have fns': "fns' = fst (use fns f)" "n = snd (use fns f)" using assms by simp_all
  have "active fns' = active fns @ [f]" "active (eject fns' (ById n)) = active fns"
    using assms by (auto simp: use_def eject_last active_def)
  then show ?thesis
    using reg.use_fresh [of fns f] reg.lookup_use [of fns f n] reg.lookup_eject [of fns' _ n]
      reg.ids_not_reused [of fns f]
    by (auto simp: exists_iff fns' reg.use_id)
qed

theorem interceptor_ids_witness:
  "active (eject (fst (use [Some True] False)) (ById (snd (use [Some True] False)))) = [True]"
  using interceptor_ids [of "[Some True]" False "fst (use [Some True] False)" "snd (use [Some True] False)"]
  by (simp add: active_def)

end
