(* ===== verification/Client.thy ===== *)
theory Client
  imports UrlBuilder HttpHeaders Interceptors
begin

text \<open>
  The API client, \<^verbatim>\<open>frontend/src/lib/api/client/client.gen.ts\<close>, with the configuration functions of
  \<^verbatim>\<open>client/utils.gen.ts\<close>: what happens from an endpoint's options to a request on the wire, and from
  the response or a failure to what the caller gets.

  The world \<open>'w\<close> is everything the fetch function and the interceptors may read and change. An
  option that is \<open>undefined\<close> counts as absent, so that spreading one record over another takes the
  present fields of the second. A response carries the outcome of reading its body.
\<close>

section \<open>Data\<close>

text \<open>What is thrown: an error of the runtime, or a value the program throws.\<close>

datatype failure = Failure js_error | Thrown jsval

definition failure_truthy :: "failure \<Rightarrow> bool" where
  "failure_truthy e = (case e of Failure _ \<Rightarrow> True | Thrown v \<Rightarrow> truthy v)"

datatype parse_as = ParseArrayBuffer | ParseAuto | ParseBlob | ParseFormData | ParseJson | ParseStream | ParseText

datatype response_style = StyleData | StyleFields

record request =
  req_method :: string
  req_url :: string
  req_headers :: headers
  req_body :: jsval

record response =
  resp_status :: int
  resp_headers :: headers
  resp_text :: "failure + string"
  resp_form :: "failure + (string \<times> string) list"

text \<open>What the body of a response becomes.\<close>

datatype payload =
    JsonData jsval
  | TextData string
  | BlobData string
  | BufferData string
  | FormFields "(string \<times> string) list"
  | StreamData "failure + string"

type_synonym 'w fetch = "request \<Rightarrow> 'w \<Rightarrow> (failure + response) \<times> 'w"

text \<open>\<open>Config\<close> and \<open>RequestOptions\<close>: the fields the client reads.\<close>

record 'w config =
  auth :: "auth_source option"
  baseUrl :: "string option"
  body :: jsval
  bodySerializer :: "(jsval \<Rightarrow> failure + jsval) option"
  config_fetch :: "'w fetch option"
  config_headers :: "header_source option"
  config_method :: "string option"
  parseAs :: "parse_as option"
  path :: "props option"
  query :: "props option"
  querySerializer :: "query_serializer option"
  requestValidator :: "(jsval \<times> props option \<times> props option \<Rightarrow> failure option) option"
  response_transformer :: "(jsval \<Rightarrow> failure + jsval) option"
  response_validator :: "(jsval \<Rightarrow> failure option) option"
  responseStyle :: "response_style option"
  security :: "Auth list option"
  throwOnError :: "bool option"
  url :: string

record 'w resolved = "'w config" +
  resolved_headers :: headers
  serializedBody :: jsval

text \<open>The three registries of a client.\<close>

type_synonym 'w request_fn = "request \<Rightarrow> 'w resolved \<Rightarrow> 'w \<Rightarrow> (failure + request) \<times> 'w"
type_synonym 'w response_fn = "response \<Rightarrow> request \<Rightarrow> 'w resolved \<Rightarrow> 'w \<Rightarrow> (failure + response) \<times> 'w"
type_synonym 'w error_fn =
  "failure \<Rightarrow> response option \<Rightarrow> request option \<Rightarrow> 'w config \<Rightarrow> 'w \<Rightarrow> (failure + failure) \<times> 'w"

record 'w middleware =
  error_fns :: "'w error_fn interceptors"
  request_fns :: "'w request_fn interceptors"
  response_fns :: "'w response_fn interceptors"

text \<open>What the platform provides: \<open>fetch\<close>, \<open>btoa\<close>, \<open>JSON.parse\<close>, URL resolution, forbidden headers.\<close>

record 'w platform =
  global_fetch :: "'w fetch"
  btoa :: "string \<Rightarrow> string"
  json_parse :: "string \<Rightarrow> jsval option"
  resolve_url :: "string \<Rightarrow> string option"
  forbidden_header :: "string \<Rightarrow> bool"

record 'w client =
  client_config :: "'w config"
  interceptors :: "'w middleware"

section \<open>Configuration\<close>

definition orElse :: "'a option \<Rightarrow> 'a option \<Rightarrow> 'a option" where
  "orElse b a = (case b of None \<Rightarrow> a | Some x \<Rightarrow> Some x)"

definition empty_config :: "'w config" where
  "empty_config =
     \<lparr>auth = None, baseUrl = None, body = JUndefined, bodySerializer = None, config_fetch = None,
      config_headers = None, config_method = None, parseAs = None, path = None, query = None,
      querySerializer = None, requestValidator = None, response_transformer = None,
      response_validator = None, responseStyle = None, security = None, throwOnError = None, url = []\<rparr>"

text \<open>\<open>{...a, ...b}\<close>\<close>

definition spread_config :: "'w config \<Rightarrow> 'w config \<Rightarrow> 'w config" where
  "spread_config a b =
     \<lparr>auth = orElse (auth b) (auth a), baseUrl = orElse (baseUrl b) (baseUrl a),
      body = (if body b = JUndefined then body a else body b),
      bodySerializer = orElse (bodySerializer b) (bodySerializer a),
      config_fetch = orElse (config_fetch b) (config_fetch a),
      config_headers = orElse (config_headers b) (config_headers a),
      config_method = orElse (config_method b) (config_method a),
      parseAs = orElse (parseAs b) (parseAs a), path = orElse (path b) (path a),
      query = orElse (query b) (query a),
      querySerializer = orElse (querySerializer b) (querySerializer a),
      requestValidator = orElse (requestValidator b) (requestValidator a),
      response_transformer = orElse (response_transformer b) (response_transformer a),
      response_validator = orElse (response_validator b) (response_validator a),
      responseStyle = orElse (responseStyle b) (responseStyle a),
      security = orElse (security b) (security a),
      throwOnError = orElse (throwOnError b) (throwOnError a),
      url = (if url b = [] then url a else url b)\<rparr>"

definition of_res :: "'a res \<Rightarrow> failure + 'a" where
  "of_res r = (case r of Inl e \<Rightarrow> Inl (Failure e) | Inr x \<Rightarrow> Inr x)"

definition json_serializer :: "jsval \<Rightarrow> failure + jsval" where
  "json_serializer b =
     (case jsonBodySerializer b of
        Inl e \<Rightarrow> Inl (Failure e)
      | Inr None \<Rightarrow> Inr JUndefined
      | Inr (Some t) \<Rightarrow> Inr (JStr t))"

definition defaultHeaders :: props where
  "defaultHeaders = [(''Content-Type'', JStr ''application/json'')]"

definition createConfig :: "'w config \<Rightarrow> 'w config" where
  "createConfig override =
     spread_config
       (empty_config\<lparr>bodySerializer := Some json_serializer,
          config_headers := Some (HeaderRecord defaultHeaders), parseAs := Some ParseAuto,
          querySerializer := Some (QSFunction defaultQuerySerializer)\<rparr>)
       override"

definition strip_slash :: "string \<Rightarrow> string" where
  "strip_slash u = (if endsWith u ''/'' then butlast u else u)"

definition mergeConfigs :: "'w config \<Rightarrow> 'w config \<Rightarrow> 'w config res" where
  "mergeConfigs a b =
     (let config = spread_config a b;
          config = config\<lparr>baseUrl := map_option strip_slash (baseUrl config)\<rparr>
      in rbind (mergeHeaders [config_headers a, config_headers b])
           (\<lambda>hs. Inr (config\<lparr>config_headers := Some (HeadersObject hs)\<rparr>)))"

definition createInterceptors :: "'w middleware" where
  "createInterceptors = \<lparr>error_fns = [], request_fns = [], response_fns = []\<rparr>"

definition createClient :: "'w config \<Rightarrow> 'w client res" where
  "createClient config =
     rbind (mergeConfigs (createConfig empty_config) config)
       (\<lambda>c. Inr \<lparr>client_config = c, interceptors = createInterceptors\<rparr>)"

definition getConfig :: "'w client \<Rightarrow> 'w config" where
  "getConfig cl = client_config cl"

definition setConfig :: "'w client \<Rightarrow> 'w config \<Rightarrow> 'w client res" where
  "setConfig cl config =
     rbind (mergeConfigs (client_config cl) config) (\<lambda>c. Inr (cl\<lparr>client_config := c\<rparr>))"

section \<open>Before a request\<close>

definition no_query_options :: query_options where
  "no_query_options =
     \<lparr>qs_args = \<lparr>qo_allowReserved = False, qo_array = no_serializer_options,
                  qo_object = no_serializer_options\<rparr>,
      qs_parameters = []\<rparr>"

definition fbind :: "failure + 'a \<Rightarrow> ('a \<Rightarrow> failure + 'b) \<Rightarrow> failure + 'b" where
  "fbind r f = (case r of Inl e \<Rightarrow> Inl e | Inr x \<Rightarrow> f x)"

definition options_url :: "'w config \<Rightarrow> string res" where
  "options_url opts =
     buildUrl (baseUrl opts) (path opts)
       (query_value (query opts))
       (case querySerializer opts of None \<Rightarrow> QSOptions no_query_options | Some s \<Rightarrow> s) (url opts)"

definition serialize_body :: "'w config \<Rightarrow> failure + jsval" where
  "serialize_body opts =
     (case bodySerializer opts of
        Some f \<Rightarrow> if body opts \<noteq> JUndefined then f (body opts) else Inr JUndefined
      | None \<Rightarrow> Inr JUndefined)"

definition validate_request :: "'w config \<Rightarrow> failure + unit" where
  "validate_request opts =
     (case requestValidator opts of
        None \<Rightarrow> Inr ()
      | Some v \<Rightarrow> (case v (body opts, path opts, query opts) of None \<Rightarrow> Inr () | Some e \<Rightarrow> Inl e))"

definition beforeRequest ::
  "'w platform \<Rightarrow> 'w client \<Rightarrow> 'w config \<Rightarrow> failure + 'w resolved \<times> string" where
  "beforeRequest pf cl options =
     (let config = client_config cl;
          opts = (spread_config config options)
            \<lparr>config_fetch := orElse (config_fetch options) (orElse (config_fetch config) (Some (global_fetch pf)))\<rparr>
      in fbind (of_res (mergeHeaders [config_headers config, config_headers options])) (\<lambda>hs.
         fbind (case security opts of
                  None \<Rightarrow> Inr (hs, query opts)
                | Some auths \<Rightarrow> of_res (setAuthParams (btoa pf) (auth opts) auths (hs, query opts)))
           (\<lambda>(hs, q).
              let opts = opts\<lparr>query := q\<rparr> in
              fbind (validate_request opts) (\<lambda>_.
              fbind (serialize_body opts) (\<lambda>serialized.
              fbind (if body opts = JUndefined \<or> serialized = JStr []
                     then of_res (header_delete ''Content-Type'' hs) else Inr hs) (\<lambda>hs.
              fbind (of_res (options_url opts)) (\<lambda>u.
                Inr (config.extend opts (resolved.fields hs serialized), u))))))))"

section \<open>A request\<close>

text \<open>\<open>new Request(url, init)\<close>: a method the platform forbids, a body on GET or HEAD, or a URL it
  cannot resolve is a \<open>TypeError\<close>; headers it forbids are dropped.\<close>

definition new_request ::
  "'w platform \<Rightarrow> string \<Rightarrow> string option \<Rightarrow> headers \<Rightarrow> jsval \<Rightarrow> failure + request" where
  "new_request pf u m hs b =
     (let meth = or_default m ''GET'' in
      case resolve_url pf u of
        None \<Rightarrow> Inl (Failure TypeError)
      | Some u' \<Rightarrow>
          if meth \<in> set [''CONNECT'', ''TRACE'', ''TRACK''] then Inl (Failure TypeError)
          else if \<not> nullish b \<and> meth \<in> set [''GET'', ''HEAD''] then Inl (Failure TypeError)
          else Inr \<lparr>req_method = meth, req_url = u',
                    req_headers = filter (\<lambda>(n, _). \<not> forbidden_header pf n) hs, req_body = b\<rparr>)"

text \<open>A loop over interceptors: the last value assigned, and what a function threw.\<close>

fun run_fns ::
  "('a \<Rightarrow> 'w \<Rightarrow> (failure + 'a) \<times> 'w) option list \<Rightarrow> 'a \<Rightarrow> 'w \<Rightarrow> 'a \<times> failure option \<times> 'w" where
  "run_fns [] x w = (x, None, w)"
| "run_fns (None # fs) x w = run_fns fs x w"
| "run_fns (Some f # fs) x w =
     (case f x w of (Inl e, w') \<Rightarrow> (x, Some e, w') | (Inr y, w') \<Rightarrow> run_fns fs y w')"

definition request_fns_on ::
  "'w client \<Rightarrow> 'w resolved \<Rightarrow> (request \<Rightarrow> 'w \<Rightarrow> (failure + request) \<times> 'w) option list" where
  "request_fns_on cl opts = map (map_option (\<lambda>f r. f r opts)) (request_fns (interceptors cl))"

definition response_fns_on ::
  "'w client \<Rightarrow> request \<Rightarrow> 'w resolved \<Rightarrow> (response \<Rightarrow> 'w \<Rightarrow> (failure + response) \<times> 'w) option list" where
  "response_fns_on cl req opts = map (map_option (\<lambda>f r. f r req opts)) (response_fns (interceptors cl))"

definition error_fns_on ::
  "'w client \<Rightarrow> response option \<Rightarrow> request option \<Rightarrow> 'w config \<Rightarrow>
   (failure \<Rightarrow> 'w \<Rightarrow> (failure + failure) \<times> 'w) option list" where
  "error_fns_on cl resp req options =
     map (map_option (\<lambda>f e. f e resp req options)) (error_fns (interceptors cl))"

definition getParseAs :: "string option \<Rightarrow> parse_as option" where
  "getParseAs contentType =
     (case contentType of
        None \<Rightarrow> Some ParseStream
      | Some ct \<Rightarrow>
          if ct = [] then Some ParseStream
          else
            let cleanContent = trim (hd (split '';'' ct)) in
            if cleanContent = [] then None
            else if startsWith cleanContent ''application/json'' \<or> endsWith cleanContent ''+json'' then Some ParseJson
            else if cleanContent = ''multipart/form-data'' then Some ParseFormData
            else if list_ex (startsWith cleanContent) [''application/'', ''audio/'', ''image/'', ''video/''] then Some ParseBlob
            else if startsWith cleanContent ''text/'' then Some ParseText
            else None)"

definition resp_ok :: "response \<Rightarrow> bool" where
  "resp_ok resp \<longleftrightarrow> 200 \<le> resp_status resp \<and> resp_status resp \<le> 299"

definition parse_as_of :: "'w config \<Rightarrow> response \<Rightarrow> parse_as" where
  "parse_as_of opts resp =
     or_default (if parseAs opts = Some ParseAuto then getParseAs (header_get ''Content-Type'' (resp_headers resp))
                 else parseAs opts) ParseJson"

definition empty_data :: "parse_as \<Rightarrow> response \<Rightarrow> failure + payload" where
  "empty_data p resp =
     (case p of
        ParseArrayBuffer \<Rightarrow> fbind (resp_text resp) (\<lambda>t. Inr (BufferData t))
      | ParseBlob \<Rightarrow> fbind (resp_text resp) (\<lambda>t. Inr (BlobData t))
      | ParseText \<Rightarrow> fbind (resp_text resp) (\<lambda>t. Inr (TextData t))
      | ParseFormData \<Rightarrow> Inr (FormFields [])
      | ParseStream \<Rightarrow> Inr (StreamData (resp_text resp))
      | _ \<Rightarrow> Inr (JsonData (JObject [])))"

definition json_data :: "'w platform \<Rightarrow> response \<Rightarrow> failure + jsval" where
  "json_data pf resp =
     fbind (resp_text resp) (\<lambda>t.
       if t = [] then Inr (JObject [])
       else (case json_parse pf t of None \<Rightarrow> Inl (Failure (JSError ''SyntaxError'')) | Some v \<Rightarrow> Inr v))"

definition check_data :: "'w config \<Rightarrow> jsval \<Rightarrow> failure + jsval" where
  "check_data opts v =
     (case (case response_validator opts of None \<Rightarrow> None | Some f \<Rightarrow> f v) of
        Some e \<Rightarrow> Inl e
      | None \<Rightarrow> (case response_transformer opts of None \<Rightarrow> Inr v | Some f \<Rightarrow> f v))"

definition full_data :: "'w platform \<Rightarrow> 'w config \<Rightarrow> parse_as \<Rightarrow> response \<Rightarrow> failure + payload" where
  "full_data pf opts p resp =
     (case p of
        ParseArrayBuffer \<Rightarrow> fbind (resp_text resp) (\<lambda>t. Inr (BufferData t))
      | ParseBlob \<Rightarrow> fbind (resp_text resp) (\<lambda>t. Inr (BlobData t))
      | ParseFormData \<Rightarrow> fbind (resp_form resp) (\<lambda>fs. Inr (FormFields fs))
      | ParseText \<Rightarrow> fbind (resp_text resp) (\<lambda>t. Inr (TextData t))
      | ParseJson \<Rightarrow> fbind (json_data pf resp) (\<lambda>v. fbind (check_data opts v) (\<lambda>v. Inr (JsonData v)))
      | ParseStream \<Rightarrow> Inr (StreamData (resp_text resp))
      | ParseAuto \<Rightarrow> Inr (JsonData JUndefined))"

definition read_error :: "'w platform \<Rightarrow> response \<Rightarrow> failure" where
  "read_error pf resp =
     (case resp_text resp of
        Inl e \<Rightarrow> e
      | Inr t \<Rightarrow>
          (case json_parse pf t of
             Some v \<Rightarrow> if nullish v then Thrown (JStr t) else Thrown v
           | None \<Rightarrow> Thrown (JStr t)))"

definition read_response :: "'w platform \<Rightarrow> 'w config \<Rightarrow> response \<Rightarrow> failure + payload" where
  "read_response pf opts resp =
     (if resp_ok resp then
        let p = parse_as_of opts resp in
        if resp_status resp = 204 \<or> header_get ''Content-Length'' (resp_headers resp) = Some ''0''
        then empty_data p resp else full_data pf opts p resp
      else Inl (read_error pf resp))"

text \<open>The body of the \<open>try\<close>: the request and the response assigned so far, and how it ends.\<close>

definition attempt ::
  "'w platform \<Rightarrow> 'w client \<Rightarrow> 'w config \<Rightarrow> 'w \<Rightarrow>
   request option \<times> response option \<times> (failure + payload) \<times> 'w" where
  "attempt pf cl options w =
     (case beforeRequest pf cl options of
        Inl e \<Rightarrow> (None, None, Inl e, w)
      | Inr (opts, u) \<Rightarrow>
          (case new_request pf u (config_method opts) (resolved_headers opts)
                  (getValidRequestBody (body opts) (bodySerializer opts \<noteq> None) (Some (serializedBody opts))) of
             Inl e \<Rightarrow> (None, None, Inl e, w)
           | Inr req0 \<Rightarrow>
               (case run_fns (request_fns_on cl opts) req0 w of
                  (req, Some e, w1) \<Rightarrow> (Some req, None, Inl e, w1)
                | (req, None, w1) \<Rightarrow>
                    (case (or_default (config_fetch opts) (global_fetch pf)) req w1 of
                       (Inl e, w2) \<Rightarrow> (Some req, None, Inl e, w2)
                     | (Inr resp0, w2) \<Rightarrow>
                         (case run_fns (response_fns_on cl req opts) resp0 w2 of
                            (resp, Some e, w3) \<Rightarrow> (Some req, Some resp, Inl e, w3)
                          | (resp, None, w3) \<Rightarrow>
                              (Some req, Some resp, read_response pf (config.truncate opts) resp, w3))))))"

datatype outcome =
    Data payload
  | Fields payload request response
  | ErrorFields failure "request option" "response option"
  | Undefined

definition final_error :: "failure \<Rightarrow> failure" where
  "final_error e = (if failure_truthy e then e else Thrown (JObject []))"

definition request_call ::
  "'w platform \<Rightarrow> 'w client \<Rightarrow> 'w config \<Rightarrow> 'w \<Rightarrow> (failure + outcome) \<times> 'w" where
  "request_call pf cl options w =
     (let throws = orElse (throwOnError options) (throwOnError (client_config cl)) = Some True;
          style = orElse (responseStyle options) (responseStyle (client_config cl))
      in case attempt pf cl options w of
           (Some req, Some resp, Inr d, w1) \<Rightarrow>
             (Inr (if style = Some StyleData then Data d else Fields d req resp), w1)
         | (req, resp, Inr d, w1) \<Rightarrow> (Inr (Data d), w1)
         | (req, resp, Inl e, w1) \<Rightarrow>
             (case run_fns (error_fns_on cl resp req options) e w1 of
                (e', Some thrown, w2) \<Rightarrow> (Inl thrown, w2)
              | (e', None, w2) \<Rightarrow>
                  let e'' = final_error e' in
                  (if throws then Inl e''
                   else Inr (if style = Some StyleData then Undefined else ErrorFields e'' req resp), w2)))"

text \<open>\<open>makeMethodFn\<close> and the methods of the client\<close>

definition makeMethodFn ::
  "string \<Rightarrow> 'w platform \<Rightarrow> 'w client \<Rightarrow> 'w config \<Rightarrow> 'w \<Rightarrow> (failure + outcome) \<times> 'w" where
  "makeMethodFn m pf cl options w = request_call pf cl (options\<lparr>config_method := Some m\<rparr>) w"

text \<open>\<open>makeSseFn\<close>: the resolved options and the URL a stream is opened with, and the request each
  connection sends, interceptors included.\<close>

definition makeSseFn ::
  "'w platform \<Rightarrow> 'w client \<Rightarrow> 'w config \<Rightarrow> failure + 'w resolved \<times> string" where
  "makeSseFn pf cl options = beforeRequest pf cl options"

definition onRequest ::
  "string \<Rightarrow> 'w platform \<Rightarrow> 'w client \<Rightarrow> 'w resolved \<Rightarrow> string \<Rightarrow> headers \<Rightarrow> 'w \<Rightarrow> (failure + request) \<times> 'w" where
  "onRequest m pf cl opts u hs w =
     (case new_request pf u (Some m) hs
             (getValidRequestBody (body opts) (bodySerializer opts \<noteq> None) (Some (serializedBody opts))) of
        Inl e \<Rightarrow> (Inl e, w)
      | Inr req0 \<Rightarrow>
          (case run_fns (request_fns_on cl opts) req0 w of
             (req, Some e, w1) \<Rightarrow> (Inl e, w1)
           | (req, None, w1) \<Rightarrow> (Inr req, w1)))"

definition client_buildUrl :: "'w client \<Rightarrow> 'w config \<Rightarrow> string res" where
  "client_buildUrl cl options = options_url (spread_config (client_config cl) options)"

section \<open>Interceptor loops\<close>

text \<open>A loop runs exactly the functions that are registered and not ejected, in their order.\<close>

lemma run_fns_active: "run_fns fs x w = run_fns (map Some (active fs)) x w"
  by (induction fs x w rule: run_fns.induct) (auto simp: active_def split: prod.splits sum.splits)

lemma active_map: "active (map (map_option h) fs) = map h (active fs)"
  by (induction fs) (auto simp: active_def split: option.splits)

lemma run_fns_total:
  assumes "\<forall>f \<in> set (active fs). \<forall>x w. \<exists>y w'. f x w = (Inr y, w')"
  shows "\<exists>y w'. run_fns fs x w = (y, None, w')"
  using assms
proof (induction fs x w rule: run_fns.induct)
  case (3 f fs x w)
  then obtain y w' where f: "f x w = (Inr y, w')" by (fastforce simp: active_def)
  then show ?case using 3 by (auto simp: active_def)
qed (auto simp: active_def)

text \<open>Functions that leave the world alone compose.\<close>

lemma run_fns_pure:
  "run_fns (map (\<lambda>g. Some (\<lambda>x w. (Inr (g x), w))) gs) x w = (fold (\<lambda>g x. g x) gs x, None, w)"
  by (induction gs arbitrary: x) auto

section \<open>Outcomes\<close>

lemma attempt_ok: "attempt pf cl options w = (req, resp, Inr d, w') \<Longrightarrow> \<exists>q r. req = Some q \<and> resp = Some r"
  by (auto simp: attempt_def split: sum.splits prod.splits option.splits)

definition throws :: "'w client \<Rightarrow> 'w config \<Rightarrow> bool" where
  "throws cl options \<longleftrightarrow> orElse (throwOnError options) (throwOnError (client_config cl)) = Some True"

definition style :: "'w client \<Rightarrow> 'w config \<Rightarrow> response_style option" where
  "style cl options = orElse (responseStyle options) (responseStyle (client_config cl))"

lemma final_error_truthy: "failure_truthy (final_error e)"
  by (simp add: final_error_def failure_truthy_def)

lemma request_call_ok:
  assumes "attempt pf cl options w = (req, resp, Inr d, w')"
  shows "\<exists>q r. req = Some q \<and> resp = Some r \<and>
     request_call pf cl options w =
       (Inr (if style cl options = Some StyleData
             then Data d else Fields d q r), w')"
  using assms attempt_ok [OF assms] by (auto simp: request_call_def style_def Let_def)

lemma request_call_error:
  assumes "attempt pf cl options w = (req, resp, Inl e, w1)"
    and "run_fns (error_fns_on cl resp req options) e w1 = (e', None, w2)"
  shows "request_call pf cl options w =
     ((if throws cl options then Inl (final_error e')
       else Inr (if style cl options = Some StyleData
                 then Undefined else ErrorFields (final_error e') req resp)), w2)"
  using assms by (auto simp: request_call_def throws_def style_def Let_def split: option.splits)

definition quiet_errors :: "'w client \<Rightarrow> bool" where
  "quiet_errors cl \<longleftrightarrow>
     (\<forall>f \<in> set (active (error_fns (interceptors cl))).
        \<forall>e resp req opts w. \<exists>e' w'. f e resp req opts w = (Inr e', w'))"

lemma quiet_run:
  assumes "quiet_errors cl"
  shows "\<exists>e' w'. run_fns (error_fns_on cl resp req options) e w = (e', None, w')"
  using assms by (intro run_fns_total) (fastforce simp: error_fns_on_def active_map quiet_errors_def)

text \<open>
  C15: a call that is not asked to throw returns. Whatever fails, from building the request over the
  network and the interceptors to reading the body, the caller gets a value: the data of a
  successful attempt, or else, as long as the error interceptors do not throw themselves, a truthy
  error with the request and the response there were (or \<open>undefined\<close> in the data style).
\<close>

theorem request_never_throws:
  assumes "\<not> throws cl options" "quiet_errors cl"
  shows "case attempt pf cl options w of
           (req, resp, Inr d, _) \<Rightarrow>
             \<exists>q r w'. req = Some q \<and> resp = Some r \<and>
               request_call pf cl options w =
                 (Inr (if style cl options = Some StyleData then Data d else Fields d q r), w')
         | (req, resp, Inl e, _) \<Rightarrow>
             \<exists>e' w'. failure_truthy e' \<and>
               request_call pf cl options w =
                 (Inr (if style cl options = Some StyleData then Undefined else ErrorFields e' req resp), w')"
proof -
  obtain req resp r w1 where a: "attempt pf cl options w = (req, resp, r, w1)"
    by (metis prod_cases4)
  show ?thesis
  proof (cases r)
    case (Inr d)
    then show ?thesis using request_call_ok [of pf cl options w req resp d w1] a by auto
  next
    case (Inl e)
    obtain e' w2 where "run_fns (error_fns_on cl resp req options) e w1 = (e', None, w2)"
      using quiet_run [OF assms(2)] by blast
    from request_call_error [OF a [unfolded Inl] this] show ?thesis
      using a Inl assms(1) final_error_truthy by auto
  qed
qed

text \<open>A platform that is offline, and a client without interceptors, to run the properties on.\<close>

definition offline :: "nat platform" where
  "offline =
     \<lparr>global_fetch = (\<lambda>req n. (Inl (Failure TypeError), Suc n)), btoa = id, json_parse = (\<lambda>_. None),
      resolve_url = (\<lambda>u. Some u), forbidden_header = (\<lambda>_. False)\<rparr>"

definition bare_client :: "nat client" where
  "bare_client = \<lparr>client_config = createConfig empty_config, interceptors = createInterceptors\<rparr>"

theorem request_never_throws_witness:
  "\<exists>e' w' req. failure_truthy e' \<and>
     request_call offline bare_client (empty_config\<lparr>url := ''/api/v1/x''\<rparr>) 0 = (Inr (ErrorFields e' (Some req) None), w')"
proof -
  let ?o = "empty_config\<lparr>url := ''/api/v1/x''\<rparr> :: nat config"
  have "\<not> throws bare_client ?o" "quiet_errors bare_client" "style bare_client ?o \<noteq> Some StyleData"
    by (simp_all add: throws_def quiet_errors_def style_def bare_client_def empty_config_def createConfig_def
        spread_config_def orElse_def createInterceptors_def active_def)
  moreover have "attempt offline bare_client ?o 0 =
      (Some \<lparr>req_method = ''GET'', req_url = ''/api/v1/x'', req_headers = [], req_body = JUndefined\<rparr>, None,
       Inl (Failure TypeError), 1)"
    by code_simp
  ultimately show ?thesis using request_never_throws [of bare_client ?o offline 0] by auto
qed

text \<open>
  C16: error interceptors see a failure in the order they were registered: with interceptors that
  compute \<open>gs\<close> and do nothing else, the error the caller gets is what they make of the failure one
  after the other, with \<open>{}\<close> in place of a falsy result; it is thrown exactly if the call asked for it.
\<close>

theorem request_error_pipeline:
  assumes "error_fns (interceptors cl) =
      map (\<lambda>g. Some (\<lambda>e resp req opts w. (Inr (g e resp req opts), w))) gs"
    and "attempt pf cl options w = (req, resp, Inl e, w1)"
  shows "\<exists>r. request_call pf cl options w = (r, w1) \<and>
     (let e' = final_error (fold (\<lambda>g e. g e resp req options) gs e) in
      r = Inl e' \<and> throws cl options \<or>
      \<not> throws cl options \<and>
        r = Inr (if style cl options = Some StyleData then Undefined else ErrorFields e' req resp))"
proof -
  have "run_fns (error_fns_on cl resp req options) e w1 =
      (fold (\<lambda>g e. g e resp req options) gs e, None, w1)"
    using run_fns_pure [of "map (\<lambda>g e. g e resp req options) gs" e w1]
    by (simp add: error_fns_on_def assms(1) fold_map comp_def)
  from request_call_error [OF assms(2) this] show ?thesis by (simp add: Let_def)
qed

theorem request_error_pipeline_witness:
  "\<exists>r. request_call offline (bare_client\<lparr>interceptors :=
          createInterceptors\<lparr>error_fns := [Some (\<lambda>e resp req opts w. (Inr (Thrown JNull), w))]\<rparr>\<rparr>)
        (empty_config\<lparr>throwOnError := Some True\<rparr>) 0 = (r, 1) \<and> r = Inl (Thrown (JObject []))"
proof -
  let ?c = "bare_client\<lparr>interceptors :=
          createInterceptors\<lparr>error_fns := [Some (\<lambda>e resp req opts w. (Inr (Thrown JNull), w))]\<rparr>\<rparr>"
  let ?o = "empty_config\<lparr>throwOnError := Some True\<rparr> :: nat config"
  have fns: "error_fns (interceptors ?c) =
      map (\<lambda>g. Some (\<lambda>e resp req opts w. (Inr (g e resp req opts), w))) [\<lambda>e resp req opts. Thrown JNull]"
    by simp
  have "attempt offline ?c ?o 0 =
      (Some \<lparr>req_method = ''GET'', req_url = ''/'', req_headers = [], req_body = JUndefined\<rparr>, None,
       Inl (Failure TypeError), 1)"
    by code_simp
  from request_error_pipeline [OF fns this] show ?thesis
    by (auto simp: throws_def empty_config_def orElse_def final_error_def failure_truthy_def)
qed

section \<open>On the wire\<close>

lemma fbind_Inr: "fbind r f = Inr y \<longleftrightarrow> (\<exists>x. r = Inr x \<and> f x = Inr y)"
  by (cases r) (auto simp: fbind_def)

lemma of_res_Inr: "of_res r = Inr x \<longleftrightarrow> r = Inr x"
  by (cases r) (auto simp: of_res_def)

text \<open>The headers a new client starts with, as its configuration and each request's options carry them.\<close>

definition json_headers :: headers where
  "json_headers = [(''content-type'', ''application/json'')]"

lemma default_headers_merged:
  "mergeHeaders [Some (HeaderRecord defaultHeaders), None] = Inr json_headers"
  "mergeHeaders [Some (HeadersObject json_headers), None] = Inr json_headers"
  by code_simp+

lemma json_headers_delete: "header_delete ''Content-Type'' json_headers = Inr []"
  by code_simp

lemma orElse_simps [simp]: "orElse None a = a" "orElse b None = b" "orElse (Some x) a = Some x"
  by (simp_all add: orElse_def split: option.splits)

lemma createConfig_headers: "config_headers (createConfig empty_config) = Some (HeaderRecord defaultHeaders)"
  by (simp add: createConfig_def spread_config_def empty_config_def)

lemma createClient_eq:
  "config_headers c = None \<Longrightarrow>
   createClient c =
     Inr \<lparr>client_config =
            (spread_config (createConfig empty_config) c)
              \<lparr>baseUrl := map_option strip_slash (baseUrl (spread_config (createConfig empty_config) c)),
               config_headers := Some (HeadersObject json_headers)\<rparr>,
          interceptors = createInterceptors\<rparr>"
  by (simp add: createClient_def mergeConfigs_def Let_def createConfig_headers default_headers_merged(1))

lemma createClient_config:
  assumes "createClient c = Inr cl" "config_headers c = None"
  shows "config_headers (client_config cl) = Some (HeadersObject json_headers)"
    "bodySerializer (client_config cl) = orElse (bodySerializer c) (Some json_serializer)"
    "body (client_config cl) = body c" "security (client_config cl) = security c"
    "request_fns (interceptors cl) = []"
proof -
  have cl: "cl = \<lparr>client_config =
            (spread_config (createConfig empty_config) c)
              \<lparr>baseUrl := map_option strip_slash (baseUrl (spread_config (createConfig empty_config) c)),
               config_headers := Some (HeadersObject json_headers)\<rparr>,
          interceptors = createInterceptors\<rparr>"
    using assms(1) createClient_eq [OF assms(2)] by simp
  show "config_headers (client_config cl) = Some (HeadersObject json_headers)" by (simp add: cl)
  show "bodySerializer (client_config cl) = orElse (bodySerializer c) (Some json_serializer)"
    "body (client_config cl) = body c" "security (client_config cl) = security c"
    by (simp_all add: cl spread_config_def createConfig_def empty_config_def)
  show "request_fns (interceptors cl) = []" by (simp add: cl createInterceptors_def)
qed

lemma json_serializer_ok: "\<exists>s. json_serializer b = Inr s \<and> s \<noteq> JStr []"
proof -
  obtain t where t: "jsonBodySerializer b = Inr t" "t = None \<longleftrightarrow> json_view b = None"
    "\<forall>s. t = Some s \<longrightarrow> json_read s = json_view b"
    using json_body_read [of b] by (elim exE conjE)
  have "json_read [] = None" by (simp add: json_read_def)
  then show ?thesis using t by (cases t) (auto simp: json_serializer_def)
qed

lemma json_serializer_read:
  assumes "json_view b = Some v"
  shows "\<exists>t. json_serializer b = Inr (JStr t) \<and> t \<noteq> [] \<and> json_read t = Some v"
proof -
  obtain t where "jsonBodySerializer b = Inr t" "t = None \<longleftrightarrow> json_view b = None"
    "\<forall>s. t = Some s \<longrightarrow> json_read s = json_view b"
    using json_body_read [of b] by (elim exE conjE)
  moreover have "json_read [] = None" by (simp add: json_read_def)
  ultimately show ?thesis using assms by (cases t) (auto simp: json_serializer_def)
qed

lemma header_get_filter:
  "\<not> p (lower n) \<Longrightarrow> header_get n (filter (\<lambda>(m, _). \<not> p m) hs) = header_get n hs"
proof -
  assume "\<not> p (lower n)"
  then have "header_values n (filter (\<lambda>(m, _). \<not> p m) hs) = header_values n hs"
    by (induction hs) (auto simp: header_values_def)
  then show ?thesis by (simp add: header_get_def)
qed

lemma header_get_json: "header_get ''Content-Type'' json_headers = Some ''application/json''"
  "header_get ''Content-Type'' [] = None"
  by code_simp+

text \<open>What \<open>beforeRequest\<close> hands on when neither side overrides the headers or the serializer.\<close>

lemma beforeRequest_json:
  assumes "createClient c = Inr cl" "config_headers c = None" "bodySerializer c = None" "body c = JUndefined"
    and "security c = None" "config_headers options = None" "bodySerializer options = None" "security options = None"
    and "beforeRequest pf cl options = Inr (opts, u)"
  shows "body opts = body options \<and> bodySerializer opts = Some json_serializer \<and>
     (body options = JUndefined \<longrightarrow> serializedBody opts = JUndefined \<and> resolved_headers opts = []) \<and>
     (body options \<noteq> JUndefined \<longrightarrow>
        json_serializer (body options) = Inr (serializedBody opts) \<and> resolved_headers opts = json_headers)"
  using assms(9) createClient_config [OF assms(1,2)] assms(3-8) default_headers_merged(2) json_headers_delete
    json_serializer_ok [of "body options"]
  by (auto simp: beforeRequest_def spread_config_def orElse_def Let_def fbind_Inr of_res_Inr
      serialize_body_def config.defs resolved.defs split: if_splits)

lemma attempt_request:
  assumes "attempt pf cl options w = (Some req, resp, r, w')" "request_fns (interceptors cl) = []"
  shows "\<exists>opts u. beforeRequest pf cl options = Inr (opts, u) \<and>
     new_request pf u (config_method opts) (resolved_headers opts)
       (getValidRequestBody (body opts) (bodySerializer opts \<noteq> None) (Some (serializedBody opts))) = Inr req"
  using assms
  by (auto simp: attempt_def request_fns_on_def split: sum.splits prod.splits option.splits)

text \<open>
  C17: what a request carries. With the default configuration, a request without a body has no
  \<open>Content-Type\<close> and no body; a request whose body has a JSON form declares \<open>application/json\<close> and its
  body is a text that reads back as that JSON form.
\<close>

theorem request_body_on_the_wire:
  assumes "createClient c = Inr cl" "config_headers c = None" "bodySerializer c = None" "body c = JUndefined"
    and "security c = None" "config_headers options = None" "bodySerializer options = None" "security options = None"
    and "\<not> forbidden_header pf ''content-type''"
    and "attempt pf cl options w = (Some req, resp, r, w')"
  shows "(body options = JUndefined \<longrightarrow>
            header_get ''Content-Type'' (req_headers req) = None \<and> nullish (req_body req)) \<and>
         (\<forall>v. json_view (body options) = Some v \<longrightarrow>
            header_get ''Content-Type'' (req_headers req) = Some ''application/json'' \<and>
            (\<exists>t. req_body req = JStr t \<and> json_read t = Some v))"
proof -
  obtain opts u where b: "beforeRequest pf cl options = Inr (opts, u)"
    and n: "new_request pf u (config_method opts) (resolved_headers opts)
       (getValidRequestBody (body opts) (bodySerializer opts \<noteq> None) (Some (serializedBody opts))) = Inr req"
    using attempt_request [OF assms(10) createClient_config(5) [OF assms(1,2)]] by blast
  have low: "lower ''Content-Type'' = ''content-type''" by code_simp
  have req: "header_get ''Content-Type'' (req_headers req) = header_get ''Content-Type'' (resolved_headers opts)"
    "req_body req = getValidRequestBody (body opts) (bodySerializer opts \<noteq> None) (Some (serializedBody opts))"
    using n assms(9) header_get_filter [of "forbidden_header pf" "''Content-Type''" "resolved_headers opts"]
    by (auto simp: new_request_def low Let_def split: option.splits if_splits)
  note o = beforeRequest_json [OF assms(1-8) b]
  have "header_get ''Content-Type'' (req_headers req) = Some ''application/json'' \<and>
      (\<exists>t. req_body req = JStr t \<and> json_read t = Some v)" if v: "json_view (body options) = Some v" for v
  proof -
    have "body options \<noteq> JUndefined" using v by auto
    then show ?thesis
      using json_serializer_read [OF v] o req header_get_json by (auto simp: getValidRequestBody_def)
  qed
  then show ?thesis
    using o req header_get_json by (auto simp: getValidRequestBody_def)
qed

theorem request_body_on_the_wire_witness:
  "\<exists>t. req_body \<lparr>req_method = ''POST'', req_url = ''/x'', req_headers = json_headers,
                  req_body = JStr [CHR ''['', CHR ''7'', CHR '']'']\<rparr> = JStr t \<and> json_read t = Some (JArray [JNum 7])"
proof -
  let ?o = "empty_config\<lparr>url := ''/x'', config_method := Some ''POST'', body := JArray [JNum 7]\<rparr> :: nat config"
  have "config_headers (empty_config :: nat config) = None" by (simp add: empty_config_def)
  from createClient_eq [OF this] obtain cl where cl: "createClient (empty_config :: nat config) = Inr cl" by blast
  have a: "attempt offline (case createClient (empty_config :: nat config) of Inr cl \<Rightarrow> cl | Inl _ \<Rightarrow> bare_client) ?o 0 =
      (Some \<lparr>req_method = ''POST'', req_url = ''/x'', req_headers = json_headers,
             req_body = JStr [CHR ''['', CHR ''7'', CHR '']'']\<rparr>, None, Inl (Failure TypeError), 1)"
    by code_simp
  have "\<not> forbidden_header offline ''content-type''" by (simp add: offline_def)
  from request_body_on_the_wire [OF cl _ _ _ _ _ _ _ this, of ?o 0 _ None] a cl show ?thesis
    by (simp add: empty_config_def)
qed

end
