(* ===== verification/ApiErrors.thy ===== *)
theory ApiErrors
  imports Client ApiTypes
begin

text \<open>
  What the application adds to the client, \<^verbatim>\<open>frontend/src/lib/api-interceptors.ts\<close> and
  \<^verbatim>\<open>frontend/src/lib/query-client.ts\<close>: every failure becomes an \<open>ErrorResponse\<close>, every request that
  is not a GET carries the CSRF token of the cookie, failures are shown as toasts, and queries are
  retried. The schema \<open>zErrorResponse\<close> belongs to a library: \<open>problem\<close>, an argument, is what its
  \<open>safeParse\<close> finds in a failure. The query library's cache and the page's reload are effects.
\<close>

section \<open>The application's world\<close>

datatype log_level = LogError | LogDebug

record log_line =
  log_level :: log_level
  log_method :: "string option"
  log_url :: string
  log_failure :: ErrorResponse

record app =
  document_cookie :: string
  logs :: "log_line list"

section \<open>Showing a failure\<close>

datatype toast_type = ToastError | ToastWarning

datatype ui_effect =
    Toast toast_type string "string option" \<comment> \<open>with the id that deduplicates it\<close>
  | ClearCache
  | RefreshAll

definition STATUS_MESSAGES :: "int \<Rightarrow> (string \<times> toast_type) option" where
  "STATUS_MESSAGES s =
     (if s = 403 then Some (''Access denied.'', ToastError)
      else if s = 423 then
        Some (''Your account has been temporarily locked due to too many failed login attempts. Please try again later.'',
              ToastWarning)
      else if s = 429 then Some (''Too many requests. Please slow down.'', ToastWarning)
      else None)"

definition handle401 :: "bool \<Rightarrow> ui_effect list" where
  "handle401 user =
     (if \<not> user then []
      else [Toast ToastWarning ''Session expired. Please log in again.'' (Some ''session-expired''),
            ClearCache, RefreshAll])"

definition showApiError :: "bool \<Rightarrow> ErrorResponse \<Rightarrow> bool \<Rightarrow> ui_effect list" where
  "showApiError user e inlineErrors =
     (if ErrorResponse.status e = 401 then (if inlineErrors then [] else handle401 user)
      else (case STATUS_MESSAGES (ErrorResponse.status e) of
              Some (message, ty) \<Rightarrow> [Toast ty message None]
            | None \<Rightarrow>
                if ErrorResponse.status e = 422 then
                  [Toast ToastError (''Validation error: '' @ detail e) None]
                else if ErrorResponse.status e \<ge> 500 then
                  [Toast ToastError ''Server error. Please try again later.'' None]
                else if \<not> inlineErrors then [Toast ToastError (detail e) None]
                else []))"

section \<open>Interceptors\<close>

definition network_error :: ErrorResponse where
  "network_error = \<lparr>ErrorResponse.status = 0, detail = ''Network error. Check your connection.''\<rparr>"

definition error_value :: "ErrorResponse \<Rightarrow> failure" where
  "error_value e =
     Thrown (JObject [(''status'', JNum (ErrorResponse.status e)), (''detail'', JStr (detail e))])"

definition to_failure ::
  "(failure \<Rightarrow> ErrorResponse option) \<Rightarrow> failure \<Rightarrow> response option \<Rightarrow> ErrorResponse" where
  "to_failure problem e resp =
     (case problem e of
        Some er \<Rightarrow> er
      | None \<Rightarrow>
          (case resp of
             Some r \<Rightarrow>
               \<lparr>ErrorResponse.status = resp_status r, detail = ''HTTP '' @ show_int (resp_status r)\<rparr>
           | None \<Rightarrow> network_error))"

definition failure_line :: "ErrorResponse \<Rightarrow> request option \<Rightarrow> app config \<Rightarrow> log_line" where
  "failure_line er req opts =
     \<lparr>log_level = (if ErrorResponse.status er = 0 \<or> ErrorResponse.status er \<ge> 500 then LogError else LogDebug),
      log_method = (case req of Some r \<Rightarrow> Some (req_method r) | None \<Rightarrow> config_method opts),
      log_url = (case req of Some r \<Rightarrow> req_url r | None \<Rightarrow> url opts),
      log_failure = er\<rparr>"

definition error_interceptor :: "(failure \<Rightarrow> ErrorResponse option) \<Rightarrow> app error_fn" where
  "error_interceptor problem e resp req opts w =
     (let er = to_failure problem e resp
      in (Inr (error_value er), w\<lparr>logs := logs w @ [failure_line er req opts]\<rparr>))"

text \<open>\<^verbatim>\<open>/(?:^|;\s*)csrf_token=([^;]*)/.exec(document.cookie)?.[1]\<close>\<close>

definition csrf_here :: "string \<Rightarrow> string option" where
  "csrf_here s =
     (if startsWith s ''csrf_token='' then Some (takeWhile (\<lambda>c. c \<noteq> CHR '';'') (drop 11 s)) else None)"

fun csrf_after :: "string \<Rightarrow> string option" where
  "csrf_after [] = None"
| "csrf_after (c # s) =
     (if c = CHR '';''
      then (case csrf_here (dropWhile is_space s) of Some v \<Rightarrow> Some v | None \<Rightarrow> csrf_after s)
      else csrf_after s)"

definition csrf_exec :: "string \<Rightarrow> string option" where
  "csrf_exec s = (case csrf_here s of Some v \<Rightarrow> Some v | None \<Rightarrow> csrf_after s)"

definition csrf_interceptor :: "app request_fn" where
  "csrf_interceptor req opts w =
     (case csrf_exec (document_cookie w) of
        Some token \<Rightarrow>
          if req_method req \<noteq> ''GET'' \<and> token \<noteq> [] then
            (case header_set ''X-CSRF-Token'' token (req_headers req) of
               Inl e \<Rightarrow> (Inl (Failure e), w)
             | Inr hs \<Rightarrow> (Inr (req\<lparr>req_headers := hs\<rparr>), w))
          else (Inr req, w)
      | None \<Rightarrow> (Inr req, w))"

definition initializeApiInterceptors ::
  "(failure \<Rightarrow> ErrorResponse option) \<Rightarrow> app client \<Rightarrow> app client res" where
  "initializeApiInterceptors problem cl =
     rbind (setConfig cl (empty_config\<lparr>baseUrl := Some []\<rparr>)) (\<lambda>cl.
       let m = interceptors cl in
       Inr (cl\<lparr>interceptors :=
         m\<lparr>error_fns := fst (use (error_fns m) (error_interceptor problem)),
           request_fns := fst (use (request_fns m) csrf_interceptor)\<rparr>\<rparr>))"

section \<open>Retries and cache callbacks\<close>

definition MAX_RETRIES :: nat where
  "MAX_RETRIES = 2"

definition retry :: "nat \<Rightarrow> ErrorResponse \<Rightarrow> bool" where
  "retry failures e \<longleftrightarrow>
     failures < MAX_RETRIES \<and> (ErrorResponse.status e = 0 \<or> ErrorResponse.status e \<ge> 500)"

definition query_onError :: "(ErrorResponse \<Rightarrow> bool \<Rightarrow> ui_effect list) \<Rightarrow> ErrorResponse \<Rightarrow> ui_effect list" where
  "query_onError handleError e = handleError e False"

definition mutation_onError ::
  "(ErrorResponse \<Rightarrow> bool \<Rightarrow> ui_effect list) \<Rightarrow> bool option option \<Rightarrow> ErrorResponse \<Rightarrow> ui_effect list" where
  "mutation_onError handleError meta e = handleError e (meta = Some (Some True))"

section \<open>The cookie\<close>

text \<open>\<open>document.cookie\<close>, from the cookies the page may read.\<close>

definition cookie_text :: "string \<times> string \<Rightarrow> string" where
  "cookie_text c = fst c @ ''='' @ snd c"

definition cookie_string :: "(string \<times> string) list \<Rightarrow> string" where
  "cookie_string cs = join ''; '' (map cookie_text cs)"

definition cookie_ok :: "string \<times> string \<Rightarrow> bool" where
  "cookie_ok c \<longleftrightarrow>
     fst c \<noteq> [] \<and> \<not> is_space (hd (fst c)) \<and> CHR ''='' \<notin> set (fst c) \<and>
     CHR '';'' \<notin> set (fst c) \<and> CHR '';'' \<notin> set (snd c)"

definition ends_cookie :: "string \<Rightarrow> bool" where
  "ends_cookie t \<longleftrightarrow> t = [] \<or> hd t = CHR '';''"

lemma append_eq_key:
  "CHR ''='' \<notin> set n \<Longrightarrow> CHR ''='' \<notin> set p \<Longrightarrow> n @ CHR ''='' # t = p @ CHR ''='' # u \<longleftrightarrow> n = p \<and> t = u"
proof (induction n arbitrary: p)
  case Nil
  then show ?case by (cases p) auto
next
  case (Cons a n)
  then show ?case by (cases p) auto
qed

lemma takeWhile_cookie:
  "CHR '';'' \<notin> set v \<Longrightarrow> ends_cookie t \<Longrightarrow> takeWhile (\<lambda>c. c \<noteq> CHR '';'') (v @ t) = v"
proof (induction v)
  case Nil
  then show ?case by (cases t) (auto simp: ends_cookie_def)
qed auto

lemma csrf_here_cookie:
  assumes "cookie_ok c" "ends_cookie t"
  shows "csrf_here (cookie_text c @ t) = (if fst c = ''csrf_token'' then Some (snd c) else None)"
proof -
  have "startsWith (cookie_text c @ t) ''csrf_token='' \<longleftrightarrow> fst c = ''csrf_token''"
    using assms(1) append_eq_key [of "fst c" "''csrf_token''" "snd c @ t"]
    by (auto simp: startsWith_iff cookie_text_def cookie_ok_def)
  moreover have "takeWhile (\<lambda>c. c \<noteq> CHR '';'') (snd c @ t) = snd c"
    using takeWhile_cookie [OF _ assms(2)] assms(1) by (simp add: cookie_ok_def)
  ultimately show ?thesis by (auto simp: csrf_here_def cookie_text_def)
qed

lemma csrf_after_plain: "CHR '';'' \<notin> set s \<Longrightarrow> csrf_after (s @ t) = csrf_after t"
  by (induction s) auto

lemma csrf_after_cookie: "cookie_ok c \<Longrightarrow> csrf_after (cookie_text c @ t) = csrf_after t"
  by (rule csrf_after_plain) (simp add: cookie_ok_def cookie_text_def)

lemma drop_space_cookie: "cookie_ok c \<Longrightarrow> dropWhile is_space (CHR '' '' # cookie_text c @ t) = cookie_text c @ t"
  by (cases "fst c") (auto simp: cookie_ok_def cookie_text_def is_space_def)

lemma csrf_after_space: "csrf_after (CHR '' '' # s) = csrf_after s"
  by simp

lemma csrf_exec_cookies:
  "list_all cookie_ok cs \<Longrightarrow> csrf_exec (cookie_string cs) = map_of cs ''csrf_token''"
proof (induction cs)
  case Nil
  show ?case by (simp add: csrf_exec_def cookie_string_def csrf_here_def)
next
  case (Cons c cs)
  show ?case
  proof (cases cs)
    case Nil
    then show ?thesis
      using Cons.prems csrf_here_cookie [of c "[]"] csrf_after_cookie [of c "[]"]
      by (cases c) (auto simp: csrf_exec_def cookie_string_def ends_cookie_def)
  next
    case (Cons d ds)
    then obtain t where t: "cookie_string cs = cookie_text d @ t"
      by (cases ds) (auto simp: cookie_string_def)
    have "cookie_string (c # cs) = cookie_text c @ CHR '';'' # CHR '' '' # cookie_string cs"
      by (simp add: cookie_string_def Cons)
    moreover have "csrf_after (CHR '';'' # CHR '' '' # cookie_string cs) = csrf_exec (cookie_string cs)"
    proof -
      have "dropWhile is_space (CHR '' '' # cookie_string cs) = cookie_string cs"
        unfolding t by (rule drop_space_cookie) (use Cons.prems \<open>cs = d # ds\<close> in simp)
      then show ?thesis
        by (simp add: csrf_exec_def csrf_after_space del: dropWhile.simps split: option.split)
    qed
    ultimately show ?thesis
      using Cons.IH Cons.prems csrf_here_cookie [of c "CHR '';'' # CHR '' '' # cookie_string cs"]
        csrf_after_cookie [of c "CHR '';'' # CHR '' '' # cookie_string cs"]
      by (cases c) (auto simp: csrf_exec_def ends_cookie_def simp del: csrf_after.simps)
  qed
qed

section \<open>The application's client\<close>

lemma initialize_interceptors:
  assumes "initializeApiInterceptors problem cl = Inr cl'" "interceptors cl = createInterceptors"
  shows "error_fns (interceptors cl') = [Some (error_interceptor problem)]"
    "request_fns (interceptors cl') = [Some csrf_interceptor]"
    "response_fns (interceptors cl') = []"
  using assms
  by (auto simp: initializeApiInterceptors_def setConfig_def rbind_Inr_iff Let_def use_def createInterceptors_def)

lemma attempt_request_fns:
  assumes "attempt pf cl options w = (Some req, resp, r, w')"
  shows "\<exists>opts u req0 x w1. beforeRequest pf cl options = Inr (opts, u) \<and>
     new_request pf u (config_method opts) (resolved_headers opts)
       (getValidRequestBody (body opts) (bodySerializer opts \<noteq> None) (Some (serializedBody opts))) = Inr req0 \<and>
     run_fns (request_fns_on cl opts) req0 w = (req, x, w1)"
  using assms by (auto simp: attempt_def split: sum.splits prod.splits option.splits)

lemma beforeRequest_method:
  "beforeRequest pf cl options = Inr (opts, u) \<Longrightarrow>
   config_method opts = orElse (config_method options) (config_method (client_config cl))"
  by (auto simp: beforeRequest_def spread_config_def Let_def fbind_Inr of_res_Inr config.defs resolved.defs)

lemma new_request_method:
  "new_request pf u m hs b = Inr req \<Longrightarrow> req_method req = or_default m ''GET''"
  by (auto simp: new_request_def Let_def split: option.splits if_splits)

text \<open>
  C19: the double submit. Whatever other cookies the page may read, every request of the
  application's client that is not a GET carries the value of the \<open>csrf_token\<close> cookie in
  \<open>X-CSRF-Token\<close>, whatever its options say about that header.
\<close>

theorem csrf_token_sent:
  assumes "initializeApiInterceptors problem cl = Inr cl'" "interceptors cl = createInterceptors"
    and "list_all cookie_ok cs" "document_cookie w = cookie_string cs"
    and "map_of cs ''csrf_token'' = Some token" "token \<noteq> []" "header_value (header_norm token)"
    and "config_method options = Some m" "m \<noteq> ''GET''"
    and "attempt pf cl' options w = (Some req, resp, r, w')"
  shows "header_get ''X-CSRF-Token'' (req_headers req) = Some (header_norm token)"
proof -
  obtain opts u req0 x w1 where b: "beforeRequest pf cl' options = Inr (opts, u)"
    and n: "new_request pf u (config_method opts) (resolved_headers opts)
       (getValidRequestBody (body opts) (bodySerializer opts \<noteq> None) (Some (serializedBody opts))) = Inr req0"
    and run: "run_fns (request_fns_on cl' opts) req0 w = (req, x, w1)"
    using attempt_request_fns [OF assms(10)] by blast
  have m: "req_method req0 = m"
    using new_request_method [OF n] beforeRequest_method [OF b] assms(8) by (simp add: or_default_def)
  have name: "header_name ''X-CSRF-Token''" by code_simp
  then obtain hs where hs: "header_set ''X-CSRF-Token'' token (req_headers req0) = Inr hs"
    using assms(7) by (simp add: header_set_def)
  have "csrf_exec (document_cookie w) = Some token"
    using csrf_exec_cookies [OF assms(3)] assms(4,5) by simp
  then have "csrf_interceptor req0 opts w = (Inr (req0\<lparr>req_headers := hs\<rparr>), w)"
    using m assms(6,9) hs by (simp add: csrf_interceptor_def)
  then have "req = req0\<lparr>req_headers := hs\<rparr>"
    using run initialize_interceptors [OF assms(1,2)] by (simp add: request_fns_on_def)
  then show ?thesis using hdr.get_set [OF hs] by simp
qed

lemma app_request_error:
  assumes "initializeApiInterceptors problem cl = Inr cl'" "interceptors cl = createInterceptors"
    and "attempt pf cl' options w = (req, resp, Inl e, w1)"
  shows "request_call pf cl' options w =
       (if throws cl' options then Inl (error_value (to_failure problem e resp))
        else Inr (if style cl' options = Some StyleData then Undefined
                  else ErrorFields (error_value (to_failure problem e resp)) req resp),
        w1\<lparr>logs := logs w1 @ [failure_line (to_failure problem e resp) req options]\<rparr>)"
proof -
  let ?er = "to_failure problem e resp"
  have "run_fns (error_fns_on cl' resp req options) e w1 =
      (error_value ?er, None, w1\<lparr>logs := logs w1 @ [failure_line ?er req options]\<rparr>)"
    using initialize_interceptors [OF assms(1,2)] by (simp add: error_fns_on_def error_interceptor_def Let_def)
  from request_call_error [OF assms(3) this] show ?thesis
    by (simp add: final_error_def failure_truthy_def error_value_def)
qed

text \<open>
  C20: every failure of the application's client reaches the caller as an \<open>ErrorResponse\<close>: the one
  in the response if there is one, or else one with the status of the response, or else the network
  error with status 0. It is logged once, as an error exactly for status 0 and 5xx.
\<close>

theorem failures_are_error_responses:
  assumes "initializeApiInterceptors problem cl = Inr cl'" "interceptors cl = createInterceptors"
    and "attempt pf cl' options w = (req, resp, Inl e, w1)"
  shows "\<exists>er line.
     request_call pf cl' options w =
       (if throws cl' options then Inl (error_value er)
        else Inr (if style cl' options = Some StyleData then Undefined else ErrorFields (error_value er) req resp),
        w1\<lparr>logs := logs w1 @ [line]\<rparr>) \<and>
     (log_level line = LogError \<longleftrightarrow> ErrorResponse.status er = 0 \<or> ErrorResponse.status er \<ge> 500) \<and>
     er = (case (problem e, resp) of
             (Some p, _) \<Rightarrow> p
           | (None, Some r) \<Rightarrow> \<lparr>ErrorResponse.status = resp_status r, detail = ''HTTP '' @ show_int (resp_status r)\<rparr>
           | (None, None) \<Rightarrow> \<lparr>ErrorResponse.status = 0, detail = ''Network error. Check your connection.''\<rparr>)"
  by (intro exI [of _ "to_failure problem e resp"] exI [of _ "failure_line (to_failure problem e resp) req options"]
      conjI app_request_error [OF assms])
    (auto simp: failure_line_def to_failure_def network_error_def split: option.splits)

text \<open>A server that answers every request with a forbidden status, and the application's client on it.\<close>

definition forbidding :: "app platform" where
  "forbidding =
     \<lparr>global_fetch = (\<lambda>req w. (Inr \<lparr>resp_status = 403, resp_headers = [], resp_text = Inr ''no'', resp_form = Inr []\<rparr>, w)),
      btoa = id, json_parse = (\<lambda>_. None), resolve_url = (\<lambda>u. Some u), forbidden_header = (\<lambda>_. False)\<rparr>"

definition fresh_client :: "app client" where
  "fresh_client = \<lparr>client_config = createConfig empty_config, interceptors = createInterceptors\<rparr>"

definition app_client :: "app client" where
  "app_client = (case initializeApiInterceptors (\<lambda>_. None) fresh_client of Inr cl \<Rightarrow> cl | Inl _ \<Rightarrow> fresh_client)"

definition two_cookies :: app where
  "two_cookies = \<lparr>document_cookie = ''a=1; csrf_token=t%3D'', logs = []\<rparr>"

lemma app_client_initialized:
  "initializeApiInterceptors (\<lambda>_. None) fresh_client = Inr app_client"
proof -
  have "mergeHeaders [config_headers (createConfig (empty_config :: app config)), None] = Inr json_headers"
    using default_headers_merged(1) by (simp add: createConfig_headers)
  then show ?thesis
    by (simp add: app_client_def initializeApiInterceptors_def setConfig_def mergeConfigs_def fresh_client_def
        empty_config_def Let_def)
qed

definition post_options :: "app config" where
  "post_options = empty_config\<lparr>url := ''/x'', config_method := Some ''POST'', throwOnError := Some True\<rparr>"

definition posted :: request where
  "posted = \<lparr>req_method = ''POST'', req_url = ''/x'', req_headers = [(''x-csrf-token'', ''t%3D'')], req_body = JUndefined\<rparr>"

lemma post_attempt:
  "attempt forbidding app_client post_options two_cookies =
     (Some posted,
      Some \<lparr>resp_status = 403, resp_headers = [], resp_text = Inr ''no'', resp_form = Inr []\<rparr>,
      Inl (Thrown (JStr ''no'')), two_cookies)"
  by code_simp

theorem csrf_token_sent_witness:
  "header_get ''X-CSRF-Token'' (req_headers posted) = Some (header_norm ''t%3D'')"
proof -
  let ?cs = "[(''a'', ''1''), (''csrf_token'', ''t%3D'')]"
  have "list_all cookie_ok ?cs" "document_cookie two_cookies = cookie_string ?cs" "header_value (header_norm ''t%3D'')"
    by code_simp+
  then show ?thesis
    using csrf_token_sent [OF app_client_initialized, of ?cs two_cookies "''t%3D''" post_options "''POST''"] post_attempt
    by (simp add: fresh_client_def post_options_def)
qed

theorem failures_are_error_responses_witness:
  "\<exists>line. request_call forbidding app_client post_options two_cookies =
     (Inl (error_value \<lparr>ErrorResponse.status = 403, detail = ''HTTP 403''\<rparr>), two_cookies\<lparr>logs := [line]\<rparr>) \<and>
     log_level line = LogDebug"
proof -
  have "throws app_client post_options" "''HTTP '' @ show_int 403 = ''HTTP 403''" "logs two_cookies = []"
    by code_simp+
  then show ?thesis
    using failures_are_error_responses [OF app_client_initialized _ post_attempt]
    by (auto simp: fresh_client_def) (metis log_level.exhaust)
qed

section \<open>What the user sees\<close>

fun is_toast :: "ui_effect \<Rightarrow> bool" where
  "is_toast (Toast _ _ _) = True"
| "is_toast _ = False"

text \<open>
  C21: what a failure shows. There is never more than one toast; nothing at all happens exactly for a
  401 that the form shows itself or that meets a visitor who is not signed in, and for the other
  failures left to the form: those that are neither one of the mapped statuses, nor a validation
  error, nor a 5xx. The cache is cleared and the page reloaded exactly when a signed-in user's
  session has expired.
\<close>

theorem showApiError_feedback:
  "length (filter is_toast (showApiError user e inline)) \<le> 1 \<and>
   (showApiError user e inline = [] \<longleftrightarrow>
      ErrorResponse.status e = 401 \<and> \<not> (user \<and> \<not> inline) \<or>
      inline \<and> ErrorResponse.status e < 500 \<and> ErrorResponse.status e \<notin> set [401, 403, 422, 423, 429]) \<and>
   (ClearCache \<in> set (showApiError user e inline) \<longleftrightarrow> ErrorResponse.status e = 401 \<and> \<not> inline \<and> user) \<and>
   (RefreshAll \<in> set (showApiError user e inline) \<longleftrightarrow> ErrorResponse.status e = 401 \<and> \<not> inline \<and> user)"
  by (cases "ErrorResponse.status e = 401")
    (auto simp: showApiError_def handle401_def STATUS_MESSAGES_def)

text \<open>
  The query library asks \<open>retry failureCount error\<close> after each failure of a query's fetch, counting
  from 0, and tries again exactly if the answer is true: the failures of one query that it made, in order.
\<close>

definition retried_run :: "(nat \<Rightarrow> ErrorResponse \<Rightarrow> bool) \<Rightarrow> ErrorResponse list \<Rightarrow> bool" where
  "retried_run policy es \<longleftrightarrow>
     es \<noteq> [] \<and> list_all (\<lambda>i. policy i (es ! i)) [0..<length es - 1] \<and>
     \<not> policy (length es - 1) (last es)"

definition may_pass :: "ErrorResponse \<Rightarrow> bool" where
  "may_pass e \<longleftrightarrow> ErrorResponse.status e = 0 \<or> ErrorResponse.status e \<ge> 500"

text \<open>
  C22: a query that fails for good was tried at most three times. Only network errors and 5xx were
  tried again, a 4xx never; and when the last failure is one that may pass, all three tries were used.
\<close>

theorem failed_query_attempts:
  assumes "retried_run retry es"
  shows "length es \<le> 3 \<and> list_all may_pass (butlast es) \<and> (may_pass (last es) \<longleftrightarrow> length es = 3 \<and> may_pass (es ! 2))"
proof -
  have es: "es \<noteq> []" and r: "\<And>i. i < length es - 1 \<Longrightarrow> retry i (es ! i)" and no: "\<not> retry (length es - 1) (last es)"
    using assms by (auto simp: retried_run_def list_all_iff)
  have len: "length es \<le> 3"
  proof (rule ccontr)
    assume "\<not> length es \<le> 3"
    then have "2 < length es - 1" by simp
    then show False using r [of 2] by (simp add: retry_def MAX_RETRIES_def)
  qed
  have "may_pass (es ! i)" if "i < length es - 1" for i
    using r [OF that] by (simp add: retry_def may_pass_def)
  then have "list_all may_pass (butlast es)"
    by (auto simp: list_all_iff in_set_conv_nth nth_butlast)
  moreover have "may_pass (last es) \<longleftrightarrow> length es = 3 \<and> may_pass (es ! 2)"
  proof (cases "length es = 3")
    case True
    then show ?thesis using es by (simp add: last_conv_nth)
  next
    case False
    then have "length es - 1 < 2" using len es by (cases "length es") auto
    then show ?thesis using no False by (auto simp: retry_def may_pass_def MAX_RETRIES_def)
  qed
  ultimately show ?thesis using len by blast
qed

theorem failed_query_attempts_witness:
  "length [network_error, network_error, network_error] \<le> 3 \<and> may_pass (last [network_error, network_error, network_error])"
proof -
  have "retried_run retry [network_error, network_error, network_error]" by code_simp
  from failed_query_attempts [OF this] show ?thesis by (simp add: may_pass_def network_error_def)
qed

end
