(* ===== verification/Sdk.thy ===== *)
theory Sdk
  imports ApiErrors
begin

text \<open>
  The endpoints of the backend, \<^verbatim>\<open>frontend/src/lib/api/sdk.gen.ts\<close>, one definition per function, and
  what \<^verbatim>\<open>frontend/src/lib/api/types.gen.ts\<close> declares that a call of it may pass: its path and query
  parameters with their types, its headers, whether it has a body, and its URL. An endpoint function
  is the call it makes of the client: a method, and the options it adds to the caller's.
\<close>

section \<open>Endpoints and calls\<close>

text \<open>Which body serializer and \<open>Content-Type\<close> the function adds to the options.\<close>

datatype body_kind = NoBody | JsonBody | FormBody

record endpoint =
  ep_method :: string
  ep_sse :: bool
  ep_url :: string
  ep_body :: body_kind

text \<open>\<open>{...options.headers}\<close>: a \<open>Headers\<close> object has no properties of its own to spread.\<close>

definition header_props :: "header_source option \<Rightarrow> props" where
  "header_props h = (case h of Some (HeaderRecord es) \<Rightarrow> es | _ \<Rightarrow> [])"

definition form_serializer :: "jsval \<Rightarrow> failure + jsval" where
  "form_serializer b =
     (case urlSearchParamsBodySerializer b of Inl e \<Rightarrow> Inl (Failure e) | Inr s \<Rightarrow> Inr (JStr s))"

definition endpoint_options :: "endpoint \<Rightarrow> 'w config \<Rightarrow> 'w config" where
  "endpoint_options ep options =
     (let base = empty_config\<lparr>url := ep_url ep\<rparr> in
      case ep_body ep of
        NoBody \<Rightarrow> spread_config base options
      | JsonBody \<Rightarrow>
          (spread_config base options)
            \<lparr>config_headers := Some (HeaderRecord
               (spread [(''Content-Type'', JStr ''application/json'')] (header_props (config_headers options))))\<rparr>
      | FormBody \<Rightarrow>
          (spread_config (base\<lparr>bodySerializer := Some form_serializer\<rparr>) options)
            \<lparr>config_headers := Some (HeaderRecord
               (spread [(''Content-Type'', JStr ''application/x-www-form-urlencoded'')]
                  (header_props (config_headers options))))\<rparr>)"

definition call_endpoint ::
  "endpoint \<Rightarrow> 'w platform \<Rightarrow> 'w client \<Rightarrow> 'w config \<Rightarrow> 'w \<Rightarrow> (failure + outcome) \<times> 'w" where
  "call_endpoint ep pf cl options w = makeMethodFn (ep_method ep) pf cl (endpoint_options ep options) w"

definition open_endpoint ::
  "endpoint \<Rightarrow> 'w platform \<Rightarrow> 'w client \<Rightarrow> 'w config \<Rightarrow> failure + 'w resolved \<times> string" where
  "open_endpoint ep pf cl options = makeSseFn pf cl (endpoint_options ep options)"

definition rest :: "string \<Rightarrow> string \<Rightarrow> body_kind \<Rightarrow> endpoint" where
  "rest m u k = \<lparr>ep_method = m, ep_sse = False, ep_url = u, ep_body = k\<rparr>"

definition sse :: "string \<Rightarrow> string \<Rightarrow> endpoint" where
  "sse m u = \<lparr>ep_method = m, ep_sse = True, ep_url = u, ep_body = NoBody\<rparr>"

section \<open>Parameter types\<close>

datatype param_type =
    PString | PNumber | PBoolean
  | POneOf "string list"
  | PArray param_type
  | PNullable param_type

fun accepts :: "param_type \<Rightarrow> jsval \<Rightarrow> bool" where
  "accepts PString v = (case v of JStr _ \<Rightarrow> True | _ \<Rightarrow> False)"
| "accepts PNumber v = (case v of JNum _ \<Rightarrow> True | _ \<Rightarrow> False)"
| "accepts PBoolean v = (case v of JBool _ \<Rightarrow> True | _ \<Rightarrow> False)"
| "accepts (POneOf ss) v = (case v of JStr s \<Rightarrow> s \<in> set ss | _ \<Rightarrow> False)"
| "accepts (PArray t) v = (case v of JArray vs \<Rightarrow> list_all (accepts t) vs | _ \<Rightarrow> False)"
| "accepts (PNullable t) v \<longleftrightarrow> v = JNull \<or> accepts t v"

text \<open>\<open>dt_body\<close> is the name of the body's type; \<open>None\<close> is the type \<open>never\<close>.\<close>

record endpoint_data =
  dt_body :: "string option"
  dt_headers :: "(string \<times> param_type) list"
  dt_path :: "(string \<times> param_type) list"
  dt_query :: "(string \<times> param_type) list"
  dt_url :: string

section \<open>The endpoints\<close>

definition loginApiV1AuthLoginPost :: endpoint where
  "loginApiV1AuthLoginPost =
     rest ''POST'' ''/api/v1/auth/login'' FormBody"

definition loginApiV1AuthLoginPost_data :: endpoint_data where
  "loginApiV1AuthLoginPost_data =
     \<lparr>dt_body = Some ''BodyLoginApiV1AuthLoginPost'', dt_headers = [], dt_path = [],
       dt_query = [], dt_url = ''/api/v1/auth/login''\<rparr>"

definition registerApiV1AuthRegisterPost :: endpoint where
  "registerApiV1AuthRegisterPost =
     rest ''POST'' ''/api/v1/auth/register'' JsonBody"

definition registerApiV1AuthRegisterPost_data :: endpoint_data where
  "registerApiV1AuthRegisterPost_data =
     \<lparr>dt_body = Some ''UserCreateWritable'', dt_headers = [], dt_path = [], dt_query = [],
       dt_url = ''/api/v1/auth/register''\<rparr>"

definition getCurrentUserProfileApiV1AuthMeGet :: endpoint where
  "getCurrentUserProfileApiV1AuthMeGet =
     rest ''GET'' ''/api/v1/auth/me'' NoBody"

definition getCurrentUserProfileApiV1AuthMeGet_data :: endpoint_data where
  "getCurrentUserProfileApiV1AuthMeGet_data =
     \<lparr>dt_body = None, dt_headers = [], dt_path = [], dt_query = [],
       dt_url = ''/api/v1/auth/me''\<rparr>"

definition logoutApiV1AuthLogoutPost :: endpoint where
  "logoutApiV1AuthLogoutPost =
     rest ''POST'' ''/api/v1/auth/logout'' NoBody"

definition logoutApiV1AuthLogoutPost_data :: endpoint_data where
  "logoutApiV1AuthLogoutPost_data =
     \<lparr>dt_body = None, dt_headers = [], dt_path = [], dt_query = [],
       dt_url = ''/api/v1/auth/logout''\<rparr>"

definition createExecutionApiV1ExecutePost :: endpoint where
  "createExecutionApiV1ExecutePost =
     rest ''POST'' ''/api/v1/execute'' JsonBody"

definition createExecutionApiV1ExecutePost_data :: endpoint_data where
  "createExecutionApiV1ExecutePost_data =
     \<lparr>dt_body = Some ''ExecutionRequest'', dt_headers = [(''Idempotency-Key'',
       (PNullable PString))], dt_path = [], dt_query = [], dt_url = ''/api/v1/execute''\<rparr>"

definition getResultApiV1ExecutionsExecutionIdResultGet :: endpoint where
  "getResultApiV1ExecutionsExecutionIdResultGet =
     rest ''GET'' ''/api/v1/executions/{execution_id}/result'' NoBody"

definition getResultApiV1ExecutionsExecutionIdResultGet_data :: endpoint_data where
  "getResultApiV1ExecutionsExecutionIdResultGet_data =
     \<lparr>dt_body = None, dt_headers = [], dt_path = [(''execution_id'', PString)],
       dt_query = [], dt_url = ''/api/v1/executions/{execution_id}/result''\<rparr>"

definition cancelExecutionApiV1ExecutionsExecutionIdCancelPost :: endpoint where
  "cancelExecutionApiV1ExecutionsExecutionIdCancelPost =
     rest ''POST'' ''/api/v1/executions/{execution_id}/cancel'' NoBody"

definition cancelExecutionApiV1ExecutionsExecutionIdCancelPost_data :: endpoint_data where
  "cancelExecutionApiV1ExecutionsExecutionIdCancelPost_data =
     \<lparr>dt_body = None, dt_headers = [], dt_path = [(''execution_id'', PString)],
       dt_query = [], dt_url = ''/api/v1/executions/{execution_id}/cancel''\<rparr>"

definition retryExecutionApiV1ExecutionsExecutionIdRetryPost :: endpoint where
  "retryExecutionApiV1ExecutionsExecutionIdRetryPost =
     rest ''POST'' ''/api/v1/executions/{execution_id}/retry'' NoBody"

definition retryExecutionApiV1ExecutionsExecutionIdRetryPost_data :: endpoint_data where
  "retryExecutionApiV1ExecutionsExecutionIdRetryPost_data =
     \<lparr>dt_body = None, dt_headers = [], dt_path = [(''execution_id'', PString)],
       dt_query = [], dt_url = ''/api/v1/executions/{execution_id}/retry''\<rparr>"

definition getExecutionEventsApiV1ExecutionsExecutionIdEventsGet :: endpoint where
  "getExecutionEventsApiV1ExecutionsExecutionIdEventsGet =
     rest ''GET'' ''/api/v1/executions/{execution_id}/events'' NoBody"

definition getExecutionEventsApiV1ExecutionsExecutionIdEventsGet_data :: endpoint_data where
  "getExecutionEventsApiV1ExecutionsExecutionIdEventsGet_data =
     \<lparr>dt_body = None, dt_headers = [], dt_path = [(''execution_id'', PString)],
       dt_query = [(''event_types'',
       (PNullable (PArray (POneOf (map EventType_value EventType_members))))), (''limit'',
       PNumber)], dt_url = ''/api/v1/executions/{execution_id}/events''\<rparr>"

definition getUserExecutionsApiV1UserExecutionsGet :: endpoint where
  "getUserExecutionsApiV1UserExecutionsGet =
     rest ''GET'' ''/api/v1/user/executions'' NoBody"

definition getUserExecutionsApiV1UserExecutionsGet_data :: endpoint_data where
  "getUserExecutionsApiV1UserExecutionsGet_data =
     \<lparr>dt_body = None, dt_headers = [], dt_path = [], dt_query = [(''status'',
       (PNullable (POneOf (map ExecutionStatus_value ExecutionStatus_members)))), (''lang'',
       (PNullable PString)), (''start_time'', (PNullable PString)), (''end_time'',
       (PNullable PString)), (''limit'', PNumber), (''skip'', PNumber)],
       dt_url = ''/api/v1/user/executions''\<rparr>"

definition getExampleScriptsApiV1ExampleScriptsGet :: endpoint where
  "getExampleScriptsApiV1ExampleScriptsGet =
     rest ''GET'' ''/api/v1/example-scripts'' NoBody"

definition getExampleScriptsApiV1ExampleScriptsGet_data :: endpoint_data where
  "getExampleScriptsApiV1ExampleScriptsGet_data =
     \<lparr>dt_body = None, dt_headers = [], dt_path = [], dt_query = [],
       dt_url = ''/api/v1/example-scripts''\<rparr>"

definition getK8sResourceLimitsApiV1K8sLimitsGet :: endpoint where
  "getK8sResourceLimitsApiV1K8sLimitsGet =
     rest ''GET'' ''/api/v1/k8s-limits'' NoBody"

definition getK8sResourceLimitsApiV1K8sLimitsGet_data :: endpoint_data where
  "getK8sResourceLimitsApiV1K8sLimitsGet_data =
     \<lparr>dt_body = None, dt_headers = [], dt_path = [], dt_query = [],
       dt_url = ''/api/v1/k8s-limits''\<rparr>"

definition deleteExecutionApiV1ExecutionsExecutionIdDelete :: endpoint where
  "deleteExecutionApiV1ExecutionsExecutionIdDelete =
     rest ''DELETE'' ''/api/v1/executions/{execution_id}'' NoBody"

definition deleteExecutionApiV1ExecutionsExecutionIdDelete_data :: endpoint_data where
  "deleteExecutionApiV1ExecutionsExecutionIdDelete_data =
     \<lparr>dt_body = None, dt_headers = [], dt_path = [(''execution_id'', PString)],
       dt_query = [], dt_url = ''/api/v1/executions/{execution_id}''\<rparr>"

definition listSavedScriptsApiV1ScriptsGet :: endpoint where
  "listSavedScriptsApiV1ScriptsGet =
     rest ''GET'' ''/api/v1/scripts'' NoBody"

definition listSavedScriptsApiV1ScriptsGet_data :: endpoint_data where
  "listSavedScriptsApiV1ScriptsGet_data =
     \<lparr>dt_body = None, dt_headers = [], dt_path = [], dt_query = [],
       dt_url = ''/api/v1/scripts''\<rparr>"

definition createSavedScriptApiV1ScriptsPost :: endpoint where
  "createSavedScriptApiV1ScriptsPost =
     rest ''POST'' ''/api/v1/scripts'' JsonBody"

definition createSavedScriptApiV1ScriptsPost_data :: endpoint_data where
  "createSavedScriptApiV1ScriptsPost_data =
     \<lparr>dt_body = Some ''SavedScriptCreateRequest'', dt_headers = [], dt_path = [],
       dt_query = [], dt_url = ''/api/v1/scripts''\<rparr>"

definition deleteSavedScriptApiV1ScriptsScriptIdDelete :: endpoint where
  "deleteSavedScriptApiV1ScriptsScriptIdDelete =
     rest ''DELETE'' ''/api/v1/scripts/{script_id}'' NoBody"

definition deleteSavedScriptApiV1ScriptsScriptIdDelete_data :: endpoint_data where
  "deleteSavedScriptApiV1ScriptsScriptIdDelete_data =
     \<lparr>dt_body = None, dt_headers = [], dt_path = [(''script_id'', PString)], dt_query = [],
       dt_url = ''/api/v1/scripts/{script_id}''\<rparr>"

definition getSavedScriptApiV1ScriptsScriptIdGet :: endpoint where
  "getSavedScriptApiV1ScriptsScriptIdGet =
     rest ''GET'' ''/api/v1/scripts/{script_id}'' NoBody"

definition getSavedScriptApiV1ScriptsScriptIdGet_data :: endpoint_data where
  "getSavedScriptApiV1ScriptsScriptIdGet_data =
     \<lparr>dt_body = None, dt_headers = [], dt_path = [(''script_id'', PString)], dt_query = [],
       dt_url = ''/api/v1/scripts/{script_id}''\<rparr>"

definition updateSavedScriptApiV1ScriptsScriptIdPut :: endpoint where
  "updateSavedScriptApiV1ScriptsScriptIdPut =
     rest ''PUT'' ''/api/v1/scripts/{script_id}'' JsonBody"

definition updateSavedScriptApiV1ScriptsScriptIdPut_data :: endpoint_data where
  "updateSavedScriptApiV1ScriptsScriptIdPut_data =
     \<lparr>dt_body = Some ''SavedScriptUpdate'', dt_headers = [], dt_path = [(''script_id'',
       PString)], dt_query = [], dt_url = ''/api/v1/scripts/{script_id}''\<rparr>"

definition livenessApiV1HealthLiveGet :: endpoint where
  "livenessApiV1HealthLiveGet =
     rest ''GET'' ''/api/v1/health/live'' NoBody"

definition livenessApiV1HealthLiveGet_data :: endpoint_data where
  "livenessApiV1HealthLiveGet_data =
     \<lparr>dt_body = None, dt_headers = [], dt_path = [], dt_query = [],
       dt_url = ''/api/v1/health/live''\<rparr>"

definition notificationStreamApiV1EventsNotificationsStreamGet :: endpoint where
  "notificationStreamApiV1EventsNotificationsStreamGet =
     sse ''GET'' ''/api/v1/events/notifications/stream''"

definition notificationStreamApiV1EventsNotificationsStreamGet_data :: endpoint_data where
  "notificationStreamApiV1EventsNotificationsStreamGet_data =
     \<lparr>dt_body = None, dt_headers = [], dt_path = [], dt_query = [],
       dt_url = ''/api/v1/events/notifications/stream''\<rparr>"

definition executionEventsApiV1EventsExecutionsExecutionIdGet :: endpoint where
  "executionEventsApiV1EventsExecutionsExecutionIdGet =
     sse ''GET'' ''/api/v1/events/executions/{execution_id}''"

definition executionEventsApiV1EventsExecutionsExecutionIdGet_data :: endpoint_data where
  "executionEventsApiV1EventsExecutionsExecutionIdGet_data =
     \<lparr>dt_body = None, dt_headers = [], dt_path = [(''execution_id'', PString)],
       dt_query = [], dt_url = ''/api/v1/events/executions/{execution_id}''\<rparr>"

definition browseEventsApiV1AdminEventsBrowsePost :: endpoint where
  "browseEventsApiV1AdminEventsBrowsePost =
     rest ''POST'' ''/api/v1/admin/events/browse'' JsonBody"

definition browseEventsApiV1AdminEventsBrowsePost_data :: endpoint_data where
  "browseEventsApiV1AdminEventsBrowsePost_data =
     \<lparr>dt_body = Some ''EventBrowseRequest'', dt_headers = [], dt_path = [], dt_query = [],
       dt_url = ''/api/v1/admin/events/browse''\<rparr>"

definition getEventStatsApiV1AdminEventsStatsGet :: endpoint where
  "getEventStatsApiV1AdminEventsStatsGet =
     rest ''GET'' ''/api/v1/admin/events/stats'' NoBody"

definition getEventStatsApiV1AdminEventsStatsGet_data :: endpoint_data where
  "getEventStatsApiV1AdminEventsStatsGet_data =
     \<lparr>dt_body = None, dt_headers = [], dt_path = [], dt_query = [(''hours'', PNumber)],
       dt_url = ''/api/v1/admin/events/stats''\<rparr>"

definition exportEventsApiV1AdminEventsExportExportFormatGet :: endpoint where
  "exportEventsApiV1AdminEventsExportExportFormatGet =
     rest ''GET'' ''/api/v1/admin/events/export/{export_format}'' NoBody"

definition exportEventsApiV1AdminEventsExportExportFormatGet_data :: endpoint_data where
  "exportEventsApiV1AdminEventsExportExportFormatGet_data =
     \<lparr>dt_body = None, dt_headers = [], dt_path = [(''export_format'',
       (POneOf (map ExportFormat_value ExportFormat_members)))], dt_query = [(''event_types'',
       (PNullable (PArray (POneOf (map EventType_value EventType_members))))), (''aggregate_id'',
       (PNullable PString)), (''user_id'', (PNullable PString)), (''service_name'',
       (PNullable PString)), (''start_time'', (PNullable PString)), (''end_time'',
       (PNullable PString)), (''limit'', PNumber)],
       dt_url = ''/api/v1/admin/events/export/{export_format}''\<rparr>"

definition deleteEventApiV1AdminEventsEventIdDelete :: endpoint where
  "deleteEventApiV1AdminEventsEventIdDelete =
     rest ''DELETE'' ''/api/v1/admin/events/{event_id}'' NoBody"

definition deleteEventApiV1AdminEventsEventIdDelete_data :: endpoint_data where
  "deleteEventApiV1AdminEventsEventIdDelete_data =
     \<lparr>dt_body = None, dt_headers = [], dt_path = [(''event_id'', PString)], dt_query = [],
       dt_url = ''/api/v1/admin/events/{event_id}''\<rparr>"

definition getEventDetailApiV1AdminEventsEventIdGet :: endpoint where
  "getEventDetailApiV1AdminEventsEventIdGet =
     rest ''GET'' ''/api/v1/admin/events/{event_id}'' NoBody"

definition getEventDetailApiV1AdminEventsEventIdGet_data :: endpoint_data where
  "getEventDetailApiV1AdminEventsEventIdGet_data =
     \<lparr>dt_body = None, dt_headers = [], dt_path = [(''event_id'', PString)], dt_query = [],
       dt_url = ''/api/v1/admin/events/{event_id}''\<rparr>"

definition replayEventsApiV1AdminEventsReplayPost :: endpoint where
  "replayEventsApiV1AdminEventsReplayPost =
     rest ''POST'' ''/api/v1/admin/events/replay'' JsonBody"

definition replayEventsApiV1AdminEventsReplayPost_data :: endpoint_data where
  "replayEventsApiV1AdminEventsReplayPost_data =
     \<lparr>dt_body = Some ''EventReplayRequest'', dt_headers = [], dt_path = [], dt_query = [],
       dt_url = ''/api/v1/admin/events/replay''\<rparr>"

definition streamReplayStatusApiV1AdminEventsReplaySessionIdStatusGet :: endpoint where
  "streamReplayStatusApiV1AdminEventsReplaySessionIdStatusGet =
     sse ''GET'' ''/api/v1/admin/events/replay/{session_id}/status''"

definition streamReplayStatusApiV1AdminEventsReplaySessionIdStatusGet_data :: endpoint_data where
  "streamReplayStatusApiV1AdminEventsReplaySessionIdStatusGet_data =
     \<lparr>dt_body = None, dt_headers = [], dt_path = [(''session_id'', PString)],
       dt_query = [], dt_url = ''/api/v1/admin/events/replay/{session_id}/status''\<rparr>"

definition listExecutionsApiV1AdminExecutionsGet :: endpoint where
  "listExecutionsApiV1AdminExecutionsGet =
     rest ''GET'' ''/api/v1/admin/executions/'' NoBody"

definition listExecutionsApiV1AdminExecutionsGet_data :: endpoint_data where
  "listExecutionsApiV1AdminExecutionsGet_data =
     \<lparr>dt_body = None, dt_headers = [], dt_path = [], dt_query = [(''status'',
       (PNullable (POneOf (map ExecutionStatus_value ExecutionStatus_members)))), (''priority'',
       (PNullable (POneOf (map QueuePriority_value QueuePriority_members)))), (''user_id'',
       (PNullable PString)), (''limit'', PNumber), (''skip'', PNumber)],
       dt_url = ''/api/v1/admin/executions/''\<rparr>"

definition updatePriorityApiV1AdminExecutionsExecutionIdPriorityPut :: endpoint where
  "updatePriorityApiV1AdminExecutionsExecutionIdPriorityPut =
     rest ''PUT'' ''/api/v1/admin/executions/{execution_id}/priority'' JsonBody"

definition updatePriorityApiV1AdminExecutionsExecutionIdPriorityPut_data :: endpoint_data where
  "updatePriorityApiV1AdminExecutionsExecutionIdPriorityPut_data =
     \<lparr>dt_body = Some ''PriorityUpdateRequest'', dt_headers = [],
       dt_path = [(''execution_id'', PString)], dt_query = [],
       dt_url = ''/api/v1/admin/executions/{execution_id}/priority''\<rparr>"

definition getQueueStatusApiV1AdminExecutionsQueueGet :: endpoint where
  "getQueueStatusApiV1AdminExecutionsQueueGet =
     rest ''GET'' ''/api/v1/admin/executions/queue'' NoBody"

definition getQueueStatusApiV1AdminExecutionsQueueGet_data :: endpoint_data where
  "getQueueStatusApiV1AdminExecutionsQueueGet_data =
     \<lparr>dt_body = None, dt_headers = [], dt_path = [], dt_query = [],
       dt_url = ''/api/v1/admin/executions/queue''\<rparr>"

definition getDefaultRateLimitRulesApiV1AdminRateLimitsDefaultsGet :: endpoint where
  "getDefaultRateLimitRulesApiV1AdminRateLimitsDefaultsGet =
     rest ''GET'' ''/api/v1/admin/rate-limits/defaults'' NoBody"

definition getDefaultRateLimitRulesApiV1AdminRateLimitsDefaultsGet_data :: endpoint_data where
  "getDefaultRateLimitRulesApiV1AdminRateLimitsDefaultsGet_data =
     \<lparr>dt_body = None, dt_headers = [], dt_path = [], dt_query = [],
       dt_url = ''/api/v1/admin/rate-limits/defaults''\<rparr>"

definition getUserRateLimitsApiV1AdminRateLimitsUserIdGet :: endpoint where
  "getUserRateLimitsApiV1AdminRateLimitsUserIdGet =
     rest ''GET'' ''/api/v1/admin/rate-limits/{user_id}'' NoBody"

definition getUserRateLimitsApiV1AdminRateLimitsUserIdGet_data :: endpoint_data where
  "getUserRateLimitsApiV1AdminRateLimitsUserIdGet_data =
     \<lparr>dt_body = None, dt_headers = [], dt_path = [(''user_id'', PString)], dt_query = [],
       dt_url = ''/api/v1/admin/rate-limits/{user_id}''\<rparr>"

definition updateUserRateLimitsApiV1AdminRateLimitsUserIdPut :: endpoint where
  "updateUserRateLimitsApiV1AdminRateLimitsUserIdPut =
     rest ''PUT'' ''/api/v1/admin/rate-limits/{user_id}'' JsonBody"

definition updateUserRateLimitsApiV1AdminRateLimitsUserIdPut_data :: endpoint_data where
  "updateUserRateLimitsApiV1AdminRateLimitsUserIdPut_data =
     \<lparr>dt_body = Some ''RateLimitUpdateRequest'', dt_headers = [], dt_path = [(''user_id'',
       PString)], dt_query = [], dt_url = ''/api/v1/admin/rate-limits/{user_id}''\<rparr>"

definition resetUserRateLimitsApiV1AdminRateLimitsUserIdResetPost :: endpoint where
  "resetUserRateLimitsApiV1AdminRateLimitsUserIdResetPost =
     rest ''POST'' ''/api/v1/admin/rate-limits/{user_id}/reset'' NoBody"

definition resetUserRateLimitsApiV1AdminRateLimitsUserIdResetPost_data :: endpoint_data where
  "resetUserRateLimitsApiV1AdminRateLimitsUserIdResetPost_data =
     \<lparr>dt_body = None, dt_headers = [], dt_path = [(''user_id'', PString)], dt_query = [],
       dt_url = ''/api/v1/admin/rate-limits/{user_id}/reset''\<rparr>"

definition getSystemSettingsApiV1AdminSettingsGet :: endpoint where
  "getSystemSettingsApiV1AdminSettingsGet =
     rest ''GET'' ''/api/v1/admin/settings/'' NoBody"

definition getSystemSettingsApiV1AdminSettingsGet_data :: endpoint_data where
  "getSystemSettingsApiV1AdminSettingsGet_data =
     \<lparr>dt_body = None, dt_headers = [], dt_path = [], dt_query = [],
       dt_url = ''/api/v1/admin/settings/''\<rparr>"

definition updateSystemSettingsApiV1AdminSettingsPut :: endpoint where
  "updateSystemSettingsApiV1AdminSettingsPut =
     rest ''PUT'' ''/api/v1/admin/settings/'' JsonBody"

definition updateSystemSettingsApiV1AdminSettingsPut_data :: endpoint_data where
  "updateSystemSettingsApiV1AdminSettingsPut_data =
     \<lparr>dt_body = Some ''SystemSettingsSchemaInput'', dt_headers = [], dt_path = [],
       dt_query = [], dt_url = ''/api/v1/admin/settings/''\<rparr>"

definition resetSystemSettingsApiV1AdminSettingsResetPost :: endpoint where
  "resetSystemSettingsApiV1AdminSettingsResetPost =
     rest ''POST'' ''/api/v1/admin/settings/reset'' NoBody"

definition resetSystemSettingsApiV1AdminSettingsResetPost_data :: endpoint_data where
  "resetSystemSettingsApiV1AdminSettingsResetPost_data =
     \<lparr>dt_body = None, dt_headers = [], dt_path = [], dt_query = [],
       dt_url = ''/api/v1/admin/settings/reset''\<rparr>"

definition listUsersApiV1AdminUsersGet :: endpoint where
  "listUsersApiV1AdminUsersGet =
     rest ''GET'' ''/api/v1/admin/users/'' NoBody"

definition listUsersApiV1AdminUsersGet_data :: endpoint_data where
  "listUsersApiV1AdminUsersGet_data =
     \<lparr>dt_body = None, dt_headers = [], dt_path = [], dt_query = [(''limit'', PNumber),
       (''offset'', PNumber), (''search'', (PNullable PString)), (''role'',
       (PNullable (POneOf (map UserRole_value UserRole_members)))), (''is_active'',
       (PNullable PBoolean)), (''bypass_rate_limit'', (PNullable PBoolean)), (''has_custom_limits'',
       (PNullable PBoolean)), (''custom_multiplier'', (PNullable PBoolean))],
       dt_url = ''/api/v1/admin/users/''\<rparr>"

definition createUserApiV1AdminUsersPost :: endpoint where
  "createUserApiV1AdminUsersPost =
     rest ''POST'' ''/api/v1/admin/users/'' JsonBody"

definition createUserApiV1AdminUsersPost_data :: endpoint_data where
  "createUserApiV1AdminUsersPost_data =
     \<lparr>dt_body = Some ''UserCreateWritable'', dt_headers = [], dt_path = [], dt_query = [],
       dt_url = ''/api/v1/admin/users/''\<rparr>"

definition deleteUserApiV1AdminUsersUserIdDelete :: endpoint where
  "deleteUserApiV1AdminUsersUserIdDelete =
     rest ''DELETE'' ''/api/v1/admin/users/{user_id}'' NoBody"

definition deleteUserApiV1AdminUsersUserIdDelete_data :: endpoint_data where
  "deleteUserApiV1AdminUsersUserIdDelete_data =
     \<lparr>dt_body = None, dt_headers = [], dt_path = [(''user_id'', PString)],
       dt_query = [(''cascade'', PBoolean)], dt_url = ''/api/v1/admin/users/{user_id}''\<rparr>"

definition getUserApiV1AdminUsersUserIdGet :: endpoint where
  "getUserApiV1AdminUsersUserIdGet =
     rest ''GET'' ''/api/v1/admin/users/{user_id}'' NoBody"

definition getUserApiV1AdminUsersUserIdGet_data :: endpoint_data where
  "getUserApiV1AdminUsersUserIdGet_data =
     \<lparr>dt_body = None, dt_headers = [], dt_path = [(''user_id'', PString)], dt_query = [],
       dt_url = ''/api/v1/admin/users/{user_id}''\<rparr>"

definition updateUserApiV1AdminUsersUserIdPut :: endpoint where
  "updateUserApiV1AdminUsersUserIdPut =
     rest ''PUT'' ''/api/v1/admin/users/{user_id}'' JsonBody"

definition updateUserApiV1AdminUsersUserIdPut_data :: endpoint_data where
  "updateUserApiV1AdminUsersUserIdPut_data =
     \<lparr>dt_body = Some ''UserUpdateWritable'', dt_headers = [], dt_path = [(''user_id'',
       PString)], dt_query = [], dt_url = ''/api/v1/admin/users/{user_id}''\<rparr>"

definition getUserOverviewApiV1AdminUsersUserIdOverviewGet :: endpoint where
  "getUserOverviewApiV1AdminUsersUserIdOverviewGet =
     rest ''GET'' ''/api/v1/admin/users/{user_id}/overview'' NoBody"

definition getUserOverviewApiV1AdminUsersUserIdOverviewGet_data :: endpoint_data where
  "getUserOverviewApiV1AdminUsersUserIdOverviewGet_data =
     \<lparr>dt_body = None, dt_headers = [], dt_path = [(''user_id'', PString)], dt_query = [],
       dt_url = ''/api/v1/admin/users/{user_id}/overview''\<rparr>"

definition resetUserPasswordApiV1AdminUsersUserIdResetPasswordPost :: endpoint where
  "resetUserPasswordApiV1AdminUsersUserIdResetPasswordPost =
     rest ''POST'' ''/api/v1/admin/users/{user_id}/reset-password'' JsonBody"

definition resetUserPasswordApiV1AdminUsersUserIdResetPasswordPost_data :: endpoint_data where
  "resetUserPasswordApiV1AdminUsersUserIdResetPasswordPost_data =
     \<lparr>dt_body = Some ''PasswordResetRequest'', dt_headers = [], dt_path = [(''user_id'',
       PString)], dt_query = [], dt_url = ''/api/v1/admin/users/{user_id}/reset-password''\<rparr>"

definition unlockUserApiV1AdminUsersUserIdUnlockPost :: endpoint where
  "unlockUserApiV1AdminUsersUserIdUnlockPost =
     rest ''POST'' ''/api/v1/admin/users/{user_id}/unlock'' NoBody"

definition unlockUserApiV1AdminUsersUserIdUnlockPost_data :: endpoint_data where
  "unlockUserApiV1AdminUsersUserIdUnlockPost_data =
     \<lparr>dt_body = None, dt_headers = [], dt_path = [(''user_id'', PString)], dt_query = [],
       dt_url = ''/api/v1/admin/users/{user_id}/unlock''\<rparr>"

definition getUserSettingsApiV1UserSettingsGet :: endpoint where
  "getUserSettingsApiV1UserSettingsGet =
     rest ''GET'' ''/api/v1/user/settings/'' NoBody"

definition getUserSettingsApiV1UserSettingsGet_data :: endpoint_data where
  "getUserSettingsApiV1UserSettingsGet_data =
     \<lparr>dt_body = None, dt_headers = [], dt_path = [], dt_query = [],
       dt_url = ''/api/v1/user/settings/''\<rparr>"

definition updateUserSettingsApiV1UserSettingsPut :: endpoint where
  "updateUserSettingsApiV1UserSettingsPut =
     rest ''PUT'' ''/api/v1/user/settings/'' JsonBody"

definition updateUserSettingsApiV1UserSettingsPut_data :: endpoint_data where
  "updateUserSettingsApiV1UserSettingsPut_data =
     \<lparr>dt_body = Some ''UserSettingsUpdate'', dt_headers = [], dt_path = [], dt_query = [],
       dt_url = ''/api/v1/user/settings/''\<rparr>"

definition updateThemeApiV1UserSettingsThemePut :: endpoint where
  "updateThemeApiV1UserSettingsThemePut =
     rest ''PUT'' ''/api/v1/user/settings/theme'' JsonBody"

definition updateThemeApiV1UserSettingsThemePut_data :: endpoint_data where
  "updateThemeApiV1UserSettingsThemePut_data =
     \<lparr>dt_body = Some ''ThemeUpdateRequest'', dt_headers = [], dt_path = [], dt_query = [],
       dt_url = ''/api/v1/user/settings/theme''\<rparr>"

definition updateNotificationSettingsApiV1UserSettingsNotificationsPut :: endpoint where
  "updateNotificationSettingsApiV1UserSettingsNotificationsPut =
     rest ''PUT'' ''/api/v1/user/settings/notifications'' JsonBody"

definition updateNotificationSettingsApiV1UserSettingsNotificationsPut_data :: endpoint_data where
  "updateNotificationSettingsApiV1UserSettingsNotificationsPut_data =
     \<lparr>dt_body = Some ''NotificationSettingsInput'', dt_headers = [], dt_path = [],
       dt_query = [], dt_url = ''/api/v1/user/settings/notifications''\<rparr>"

definition updateEditorSettingsApiV1UserSettingsEditorPut :: endpoint where
  "updateEditorSettingsApiV1UserSettingsEditorPut =
     rest ''PUT'' ''/api/v1/user/settings/editor'' JsonBody"

definition updateEditorSettingsApiV1UserSettingsEditorPut_data :: endpoint_data where
  "updateEditorSettingsApiV1UserSettingsEditorPut_data =
     \<lparr>dt_body = Some ''EditorSettingsInput'', dt_headers = [], dt_path = [], dt_query = [],
       dt_url = ''/api/v1/user/settings/editor''\<rparr>"

definition getSettingsHistoryApiV1UserSettingsHistoryGet :: endpoint where
  "getSettingsHistoryApiV1UserSettingsHistoryGet =
     rest ''GET'' ''/api/v1/user/settings/history'' NoBody"

definition getSettingsHistoryApiV1UserSettingsHistoryGet_data :: endpoint_data where
  "getSettingsHistoryApiV1UserSettingsHistoryGet_data =
     \<lparr>dt_body = None, dt_headers = [], dt_path = [], dt_query = [(''limit'', PNumber)],
       dt_url = ''/api/v1/user/settings/history''\<rparr>"

definition restoreSettingsApiV1UserSettingsRestorePost :: endpoint where
  "restoreSettingsApiV1UserSettingsRestorePost =
     rest ''POST'' ''/api/v1/user/settings/restore'' JsonBody"

definition restoreSettingsApiV1UserSettingsRestorePost_data :: endpoint_data where
  "restoreSettingsApiV1UserSettingsRestorePost_data =
     \<lparr>dt_body = Some ''RestoreSettingsRequest'', dt_headers = [], dt_path = [],
       dt_query = [], dt_url = ''/api/v1/user/settings/restore''\<rparr>"

definition updateCustomSettingApiV1UserSettingsCustomKeyPut :: endpoint where
  "updateCustomSettingApiV1UserSettingsCustomKeyPut =
     rest ''PUT'' ''/api/v1/user/settings/custom/{key}'' JsonBody"

definition updateCustomSettingApiV1UserSettingsCustomKeyPut_data :: endpoint_data where
  "updateCustomSettingApiV1UserSettingsCustomKeyPut_data =
     \<lparr>dt_body = Some ''Record'', dt_headers = [], dt_path = [(''key'', PString)],
       dt_query = [], dt_url = ''/api/v1/user/settings/custom/{key}''\<rparr>"

definition getNotificationsApiV1NotificationsGet :: endpoint where
  "getNotificationsApiV1NotificationsGet =
     rest ''GET'' ''/api/v1/notifications'' NoBody"

definition getNotificationsApiV1NotificationsGet_data :: endpoint_data where
  "getNotificationsApiV1NotificationsGet_data =
     \<lparr>dt_body = None, dt_headers = [], dt_path = [], dt_query = [(''status'',
       (PNullable (POneOf (map NotificationStatus_value NotificationStatus_members)))),
       (''include_tags'', (PNullable (PArray PString))), (''exclude_tags'',
       (PNullable (PArray PString))), (''tag_prefix'', (PNullable PString)), (''limit'', PNumber),
       (''offset'', PNumber)], dt_url = ''/api/v1/notifications''\<rparr>"

definition markNotificationReadApiV1NotificationsNotificationIdReadPut :: endpoint where
  "markNotificationReadApiV1NotificationsNotificationIdReadPut =
     rest ''PUT'' ''/api/v1/notifications/{notification_id}/read'' NoBody"

definition markNotificationReadApiV1NotificationsNotificationIdReadPut_data :: endpoint_data where
  "markNotificationReadApiV1NotificationsNotificationIdReadPut_data =
     \<lparr>dt_body = None, dt_headers = [], dt_path = [(''notification_id'', PString)],
       dt_query = [], dt_url = ''/api/v1/notifications/{notification_id}/read''\<rparr>"

definition markAllReadApiV1NotificationsMarkAllReadPost :: endpoint where
  "markAllReadApiV1NotificationsMarkAllReadPost =
     rest ''POST'' ''/api/v1/notifications/mark-all-read'' NoBody"

definition markAllReadApiV1NotificationsMarkAllReadPost_data :: endpoint_data where
  "markAllReadApiV1NotificationsMarkAllReadPost_data =
     \<lparr>dt_body = None, dt_headers = [], dt_path = [], dt_query = [],
       dt_url = ''/api/v1/notifications/mark-all-read''\<rparr>"

definition getUnreadCountApiV1NotificationsUnreadCountGet :: endpoint where
  "getUnreadCountApiV1NotificationsUnreadCountGet =
     rest ''GET'' ''/api/v1/notifications/unread-count'' NoBody"

definition getUnreadCountApiV1NotificationsUnreadCountGet_data :: endpoint_data where
  "getUnreadCountApiV1NotificationsUnreadCountGet_data =
     \<lparr>dt_body = None, dt_headers = [], dt_path = [], dt_query = [],
       dt_url = ''/api/v1/notifications/unread-count''\<rparr>"

definition deleteNotificationApiV1NotificationsNotificationIdDelete :: endpoint where
  "deleteNotificationApiV1NotificationsNotificationIdDelete =
     rest ''DELETE'' ''/api/v1/notifications/{notification_id}'' NoBody"

definition deleteNotificationApiV1NotificationsNotificationIdDelete_data :: endpoint_data where
  "deleteNotificationApiV1NotificationsNotificationIdDelete_data =
     \<lparr>dt_body = None, dt_headers = [], dt_path = [(''notification_id'', PString)],
       dt_query = [], dt_url = ''/api/v1/notifications/{notification_id}''\<rparr>"

text \<open>Every endpoint with the data it declares.\<close>

definition endpoints :: "(endpoint \<times> endpoint_data) list" where
  "endpoints =
     [(loginApiV1AuthLoginPost, loginApiV1AuthLoginPost_data),
      (registerApiV1AuthRegisterPost, registerApiV1AuthRegisterPost_data),
      (getCurrentUserProfileApiV1AuthMeGet, getCurrentUserProfileApiV1AuthMeGet_data),
      (logoutApiV1AuthLogoutPost, logoutApiV1AuthLogoutPost_data),
      (createExecutionApiV1ExecutePost, createExecutionApiV1ExecutePost_data),
      (getResultApiV1ExecutionsExecutionIdResultGet, getResultApiV1ExecutionsExecutionIdResultGet_data),
      (cancelExecutionApiV1ExecutionsExecutionIdCancelPost, cancelExecutionApiV1ExecutionsExecutionIdCancelPost_data),
      (retryExecutionApiV1ExecutionsExecutionIdRetryPost, retryExecutionApiV1ExecutionsExecutionIdRetryPost_data),
      (getExecutionEventsApiV1ExecutionsExecutionIdEventsGet, getExecutionEventsApiV1ExecutionsExecutionIdEventsGet_data),
      (getUserExecutionsApiV1UserExecutionsGet, getUserExecutionsApiV1UserExecutionsGet_data),
      (getExampleScriptsApiV1ExampleScriptsGet, getExampleScriptsApiV1ExampleScriptsGet_data),
      (getK8sResourceLimitsApiV1K8sLimitsGet, getK8sResourceLimitsApiV1K8sLimitsGet_data),
      (deleteExecutionApiV1ExecutionsExecutionIdDelete, deleteExecutionApiV1ExecutionsExecutionIdDelete_data),
      (listSavedScriptsApiV1ScriptsGet, listSavedScriptsApiV1ScriptsGet_data),
      (createSavedScriptApiV1ScriptsPost, createSavedScriptApiV1ScriptsPost_data),
      (deleteSavedScriptApiV1ScriptsScriptIdDelete, deleteSavedScriptApiV1ScriptsScriptIdDelete_data),
      (getSavedScriptApiV1ScriptsScriptIdGet, getSavedScriptApiV1ScriptsScriptIdGet_data),
      (updateSavedScriptApiV1ScriptsScriptIdPut, updateSavedScriptApiV1ScriptsScriptIdPut_data),
      (livenessApiV1HealthLiveGet, livenessApiV1HealthLiveGet_data),
      (notificationStreamApiV1EventsNotificationsStreamGet, notificationStreamApiV1EventsNotificationsStreamGet_data),
      (executionEventsApiV1EventsExecutionsExecutionIdGet, executionEventsApiV1EventsExecutionsExecutionIdGet_data),
      (browseEventsApiV1AdminEventsBrowsePost, browseEventsApiV1AdminEventsBrowsePost_data),
      (getEventStatsApiV1AdminEventsStatsGet, getEventStatsApiV1AdminEventsStatsGet_data),
      (exportEventsApiV1AdminEventsExportExportFormatGet, exportEventsApiV1AdminEventsExportExportFormatGet_data),
      (deleteEventApiV1AdminEventsEventIdDelete, deleteEventApiV1AdminEventsEventIdDelete_data),
      (getEventDetailApiV1AdminEventsEventIdGet, getEventDetailApiV1AdminEventsEventIdGet_data),
      (replayEventsApiV1AdminEventsReplayPost, replayEventsApiV1AdminEventsReplayPost_data),
      (streamReplayStatusApiV1AdminEventsReplaySessionIdStatusGet, streamReplayStatusApiV1AdminEventsReplaySessionIdStatusGet_data),
      (listExecutionsApiV1AdminExecutionsGet, listExecutionsApiV1AdminExecutionsGet_data),
      (updatePriorityApiV1AdminExecutionsExecutionIdPriorityPut, updatePriorityApiV1AdminExecutionsExecutionIdPriorityPut_data),
      (getQueueStatusApiV1AdminExecutionsQueueGet, getQueueStatusApiV1AdminExecutionsQueueGet_data),
      (getDefaultRateLimitRulesApiV1AdminRateLimitsDefaultsGet, getDefaultRateLimitRulesApiV1AdminRateLimitsDefaultsGet_data),
      (getUserRateLimitsApiV1AdminRateLimitsUserIdGet, getUserRateLimitsApiV1AdminRateLimitsUserIdGet_data),
      (updateUserRateLimitsApiV1AdminRateLimitsUserIdPut, updateUserRateLimitsApiV1AdminRateLimitsUserIdPut_data),
      (resetUserRateLimitsApiV1AdminRateLimitsUserIdResetPost, resetUserRateLimitsApiV1AdminRateLimitsUserIdResetPost_data),
      (getSystemSettingsApiV1AdminSettingsGet, getSystemSettingsApiV1AdminSettingsGet_data),
      (updateSystemSettingsApiV1AdminSettingsPut, updateSystemSettingsApiV1AdminSettingsPut_data),
      (resetSystemSettingsApiV1AdminSettingsResetPost, resetSystemSettingsApiV1AdminSettingsResetPost_data),
      (listUsersApiV1AdminUsersGet, listUsersApiV1AdminUsersGet_data),
      (createUserApiV1AdminUsersPost, createUserApiV1AdminUsersPost_data),
      (deleteUserApiV1AdminUsersUserIdDelete, deleteUserApiV1AdminUsersUserIdDelete_data),
      (getUserApiV1AdminUsersUserIdGet, getUserApiV1AdminUsersUserIdGet_data),
      (updateUserApiV1AdminUsersUserIdPut, updateUserApiV1AdminUsersUserIdPut_data),
      (getUserOverviewApiV1AdminUsersUserIdOverviewGet, getUserOverviewApiV1AdminUsersUserIdOverviewGet_data),
      (resetUserPasswordApiV1AdminUsersUserIdResetPasswordPost, resetUserPasswordApiV1AdminUsersUserIdResetPasswordPost_data),
      (unlockUserApiV1AdminUsersUserIdUnlockPost, unlockUserApiV1AdminUsersUserIdUnlockPost_data),
      (getUserSettingsApiV1UserSettingsGet, getUserSettingsApiV1UserSettingsGet_data),
      (updateUserSettingsApiV1UserSettingsPut, updateUserSettingsApiV1UserSettingsPut_data),
      (updateThemeApiV1UserSettingsThemePut, updateThemeApiV1UserSettingsThemePut_data),
      (updateNotificationSettingsApiV1UserSettingsNotificationsPut, updateNotificationSettingsApiV1UserSettingsNotificationsPut_data),
      (updateEditorSettingsApiV1UserSettingsEditorPut, updateEditorSettingsApiV1UserSettingsEditorPut_data),
      (getSettingsHistoryApiV1UserSettingsHistoryGet, getSettingsHistoryApiV1UserSettingsHistoryGet_data),
      (restoreSettingsApiV1UserSettingsRestorePost, restoreSettingsApiV1UserSettingsRestorePost_data),
      (updateCustomSettingApiV1UserSettingsCustomKeyPut, updateCustomSettingApiV1UserSettingsCustomKeyPut_data),
      (getNotificationsApiV1NotificationsGet, getNotificationsApiV1NotificationsGet_data),
      (markNotificationReadApiV1NotificationsNotificationIdReadPut, markNotificationReadApiV1NotificationsNotificationIdReadPut_data),
      (markAllReadApiV1NotificationsMarkAllReadPost, markAllReadApiV1NotificationsMarkAllReadPost_data),
      (getUnreadCountApiV1NotificationsUnreadCountGet, getUnreadCountApiV1NotificationsUnreadCountGet_data),
      (deleteNotificationApiV1NotificationsNotificationIdDelete, deleteNotificationApiV1NotificationsNotificationIdDelete_data)]"

lemmas endpoint_defs =
  rest_def sse_def
  loginApiV1AuthLoginPost_def loginApiV1AuthLoginPost_data_def
  registerApiV1AuthRegisterPost_def registerApiV1AuthRegisterPost_data_def
  getCurrentUserProfileApiV1AuthMeGet_def getCurrentUserProfileApiV1AuthMeGet_data_def
  logoutApiV1AuthLogoutPost_def logoutApiV1AuthLogoutPost_data_def
  createExecutionApiV1ExecutePost_def createExecutionApiV1ExecutePost_data_def
  getResultApiV1ExecutionsExecutionIdResultGet_def getResultApiV1ExecutionsExecutionIdResultGet_data_def
  cancelExecutionApiV1ExecutionsExecutionIdCancelPost_def cancelExecutionApiV1ExecutionsExecutionIdCancelPost_data_def
  retryExecutionApiV1ExecutionsExecutionIdRetryPost_def retryExecutionApiV1ExecutionsExecutionIdRetryPost_data_def
  getExecutionEventsApiV1ExecutionsExecutionIdEventsGet_def getExecutionEventsApiV1ExecutionsExecutionIdEventsGet_data_def
  getUserExecutionsApiV1UserExecutionsGet_def getUserExecutionsApiV1UserExecutionsGet_data_def
  getExampleScriptsApiV1ExampleScriptsGet_def getExampleScriptsApiV1ExampleScriptsGet_data_def
  getK8sResourceLimitsApiV1K8sLimitsGet_def getK8sResourceLimitsApiV1K8sLimitsGet_data_def
  deleteExecutionApiV1ExecutionsExecutionIdDelete_def deleteExecutionApiV1ExecutionsExecutionIdDelete_data_def
  listSavedScriptsApiV1ScriptsGet_def listSavedScriptsApiV1ScriptsGet_data_def
  createSavedScriptApiV1ScriptsPost_def createSavedScriptApiV1ScriptsPost_data_def
  deleteSavedScriptApiV1ScriptsScriptIdDelete_def deleteSavedScriptApiV1ScriptsScriptIdDelete_data_def
  getSavedScriptApiV1ScriptsScriptIdGet_def getSavedScriptApiV1ScriptsScriptIdGet_data_def
  updateSavedScriptApiV1ScriptsScriptIdPut_def updateSavedScriptApiV1ScriptsScriptIdPut_data_def
  livenessApiV1HealthLiveGet_def livenessApiV1HealthLiveGet_data_def
  notificationStreamApiV1EventsNotificationsStreamGet_def notificationStreamApiV1EventsNotificationsStreamGet_data_def
  executionEventsApiV1EventsExecutionsExecutionIdGet_def executionEventsApiV1EventsExecutionsExecutionIdGet_data_def
  browseEventsApiV1AdminEventsBrowsePost_def browseEventsApiV1AdminEventsBrowsePost_data_def
  getEventStatsApiV1AdminEventsStatsGet_def getEventStatsApiV1AdminEventsStatsGet_data_def
  exportEventsApiV1AdminEventsExportExportFormatGet_def exportEventsApiV1AdminEventsExportExportFormatGet_data_def
  deleteEventApiV1AdminEventsEventIdDelete_def deleteEventApiV1AdminEventsEventIdDelete_data_def
  getEventDetailApiV1AdminEventsEventIdGet_def getEventDetailApiV1AdminEventsEventIdGet_data_def
  replayEventsApiV1AdminEventsReplayPost_def replayEventsApiV1AdminEventsReplayPost_data_def
  streamReplayStatusApiV1AdminEventsReplaySessionIdStatusGet_def streamReplayStatusApiV1AdminEventsReplaySessionIdStatusGet_data_def
  listExecutionsApiV1AdminExecutionsGet_def listExecutionsApiV1AdminExecutionsGet_data_def
  updatePriorityApiV1AdminExecutionsExecutionIdPriorityPut_def updatePriorityApiV1AdminExecutionsExecutionIdPriorityPut_data_def
  getQueueStatusApiV1AdminExecutionsQueueGet_def getQueueStatusApiV1AdminExecutionsQueueGet_data_def
  getDefaultRateLimitRulesApiV1AdminRateLimitsDefaultsGet_def getDefaultRateLimitRulesApiV1AdminRateLimitsDefaultsGet_data_def
  getUserRateLimitsApiV1AdminRateLimitsUserIdGet_def getUserRateLimitsApiV1AdminRateLimitsUserIdGet_data_def
  updateUserRateLimitsApiV1AdminRateLimitsUserIdPut_def updateUserRateLimitsApiV1AdminRateLimitsUserIdPut_data_def
  resetUserRateLimitsApiV1AdminRateLimitsUserIdResetPost_def resetUserRateLimitsApiV1AdminRateLimitsUserIdResetPost_data_def
  getSystemSettingsApiV1AdminSettingsGet_def getSystemSettingsApiV1AdminSettingsGet_data_def
  updateSystemSettingsApiV1AdminSettingsPut_def updateSystemSettingsApiV1AdminSettingsPut_data_def
  resetSystemSettingsApiV1AdminSettingsResetPost_def resetSystemSettingsApiV1AdminSettingsResetPost_data_def
  listUsersApiV1AdminUsersGet_def listUsersApiV1AdminUsersGet_data_def
  createUserApiV1AdminUsersPost_def createUserApiV1AdminUsersPost_data_def
  deleteUserApiV1AdminUsersUserIdDelete_def deleteUserApiV1AdminUsersUserIdDelete_data_def
  getUserApiV1AdminUsersUserIdGet_def getUserApiV1AdminUsersUserIdGet_data_def
  updateUserApiV1AdminUsersUserIdPut_def updateUserApiV1AdminUsersUserIdPut_data_def
  getUserOverviewApiV1AdminUsersUserIdOverviewGet_def getUserOverviewApiV1AdminUsersUserIdOverviewGet_data_def
  resetUserPasswordApiV1AdminUsersUserIdResetPasswordPost_def resetUserPasswordApiV1AdminUsersUserIdResetPasswordPost_data_def
  unlockUserApiV1AdminUsersUserIdUnlockPost_def unlockUserApiV1AdminUsersUserIdUnlockPost_data_def
  getUserSettingsApiV1UserSettingsGet_def getUserSettingsApiV1UserSettingsGet_data_def
  updateUserSettingsApiV1UserSettingsPut_def updateUserSettingsApiV1UserSettingsPut_data_def
  updateThemeApiV1UserSettingsThemePut_def updateThemeApiV1UserSettingsThemePut_data_def
  updateNotificationSettingsApiV1UserSettingsNotificationsPut_def updateNotificationSettingsApiV1UserSettingsNotificationsPut_data_def
  updateEditorSettingsApiV1UserSettingsEditorPut_def updateEditorSettingsApiV1UserSettingsEditorPut_data_def
  getSettingsHistoryApiV1UserSettingsHistoryGet_def getSettingsHistoryApiV1UserSettingsHistoryGet_data_def
  restoreSettingsApiV1UserSettingsRestorePost_def restoreSettingsApiV1UserSettingsRestorePost_data_def
  updateCustomSettingApiV1UserSettingsCustomKeyPut_def updateCustomSettingApiV1UserSettingsCustomKeyPut_data_def
  getNotificationsApiV1NotificationsGet_def getNotificationsApiV1NotificationsGet_data_def
  markNotificationReadApiV1NotificationsNotificationIdReadPut_def markNotificationReadApiV1NotificationsNotificationIdReadPut_data_def
  markAllReadApiV1NotificationsMarkAllReadPost_def markAllReadApiV1NotificationsMarkAllReadPost_data_def
  getUnreadCountApiV1NotificationsUnreadCountGet_def getUnreadCountApiV1NotificationsUnreadCountGet_data_def
  deleteNotificationApiV1NotificationsNotificationIdDelete_def deleteNotificationApiV1NotificationsNotificationIdDelete_data_def

section \<open>Endpoints and their declarations\<close>

text \<open>The tokens of a path template.\<close>

function tokens :: "string \<Rightarrow> string \<Rightarrow> path_token list" where
  "tokens lit [] = [Lit (rev lit)]"
| "tokens lit (c # s) =
     (if c = CHR ''{''
      then Lit (rev lit) # Param (takeWhile brace_free s) # tokens [] (tl (dropWhile brace_free s))
      else tokens (c # lit) s)"
  by pat_completeness auto
termination
  by (relation "measure (length \<circ> snd)")
    (auto simp: le_imp_less_Suc length_dropWhile_le le_trans [OF diff_le_self])

definition template :: "endpoint \<Rightarrow> path_token list" where
  "template ep = tokens [] (ep_url ep)"

fun one_value :: "param_type \<Rightarrow> bool" where
  "one_value (PArray t) = False"
| "one_value (PNullable t) = False"
| "one_value t = True"

text \<open>A type a query can carry: one value or an array of them, possibly \<open>null\<close>.\<close>

fun query_type :: "param_type \<Rightarrow> bool" where
  "query_type (PNullable t) = query_type t"
| "query_type (PArray t) = one_value t"
| "query_type t = True"

definition declared :: "endpoint \<times> endpoint_data \<Rightarrow> bool" where
  "declared e \<longleftrightarrow>
     (case e of (ep, d) \<Rightarrow>
        ep_url ep = dt_url d \<and> (ep_body ep = NoBody \<longleftrightarrow> dt_body d = None) \<and>
        (ep_sse ep \<longrightarrow> ep_method ep = ''GET'') \<and> (ep_method ep = ''GET'' \<longrightarrow> ep_body ep = NoBody) \<and>
        params_of (template ep) = map fst (dt_path d))"

definition sound_template :: "endpoint \<times> endpoint_data \<Rightarrow> bool" where
  "sound_template e \<longleftrightarrow>
     (case e of (ep, d) \<Rightarrow>
        render (template ep) = ep_url ep \<and> template_ok (template ep) \<and>
        CHR ''?'' \<notin> set (literal_text (template ep)) \<and> startsWith (ep_url ep) ''/api/v1/'' \<and>
        startsWith (literal_text (take 1 (template ep))) ''/'' \<and>
        list_all (\<lambda>(n, t). one_value t) (dt_path d) \<and>
        list_all (\<lambda>(n, t). query_name n \<and> query_type t) (dt_query d))"

lemma endpoints_declared: "list_all declared endpoints"
  by code_simp

lemma endpoints_sound: "list_all sound_template endpoints"
  by code_simp


section \<open>Well-typed calls\<close>

definition well_typed :: "endpoint_data \<Rightarrow> 'w config \<Rightarrow> bool" where
  "well_typed d options \<longleftrightarrow>
     list_all (\<lambda>(n, t). accepts t (prop_get (record_of (path options)) n)) (dt_path d) \<and>
     list_all (\<lambda>(k, v). case map_of (dt_query d) k of None \<Rightarrow> False | Some t \<Rightarrow> v = JUndefined \<or> accepts t v)
       (record_of (query options)) \<and>
     (dt_body d = None \<longrightarrow> body options = JUndefined)"

text \<open>Options that leave to the client what an endpoint's declaration does not mention.\<close>

definition plain_call :: "'w config \<Rightarrow> bool" where
  "plain_call options \<longleftrightarrow>
     url options = [] \<and> baseUrl options = None \<and> querySerializer options = None \<and> security options = None"

lemma accepts_primitive: "one_value t \<Longrightarrow> accepts t v \<Longrightarrow> primitive v"
  by (cases t; cases v) auto

lemma accepts_scalar: "one_value t \<Longrightarrow> accepts t v \<Longrightarrow> scalar v"
  using accepts_primitive by (auto simp: scalar_def)

lemma scalar_sendable: "scalar v \<Longrightarrow> sendable v"
  by (cases v) (auto simp: scalar_def)

lemma accepts_sendable: "query_type t \<Longrightarrow> accepts t v \<Longrightarrow> sendable v"
proof (induction t)
  case (PArray t)
  then obtain vs where "v = JArray vs" "list_all (accepts t) vs" by (cases v) auto
  then show ?case using PArray accepts_scalar [of t] by (auto simp: list_all_iff)
next
  case (PNullable t)
  then show ?case by (cases "v = JNull") (auto simp: scalar_def)
qed (auto intro: scalar_sendable simp: scalar_def split: jsval.splits)

lemma beforeRequest_url:
  assumes "beforeRequest pf cl o' = Inr (opts, u)" "security (spread_config (client_config cl) o') = None"
  shows "buildUrl (orElse (baseUrl o') (baseUrl (client_config cl))) (orElse (path o') (path (client_config cl)))
     (query_value (orElse (query o') (query (client_config cl))))
     (case orElse (querySerializer o') (querySerializer (client_config cl)) of
        None \<Rightarrow> QSOptions no_query_options | Some s \<Rightarrow> s)
     (if url o' = [] then url (client_config cl) else url o') = Inr u"
  using assms
  by (auto simp: beforeRequest_def spread_config_def options_url_def Let_def fbind_Inr of_res_Inr)

lemma endpoint_options_fields:
  "baseUrl (endpoint_options ep options) = baseUrl options"
  "path (endpoint_options ep options) = path options"
  "query (endpoint_options ep options) = query options"
  "querySerializer (endpoint_options ep options) = querySerializer options"
  "security (endpoint_options ep options) = security options"
  "url (endpoint_options ep options) = (if url options = [] then ep_url ep else url options)"
  by (simp_all add: endpoint_options_def spread_config_def empty_config_def Let_def split: body_kind.splits)

lemma headers_of_base: "config_headers (empty_config\<lparr>baseUrl := b\<rparr>) = None"
  by (simp add: empty_config_def)

lemma client_url_config:
  assumes "createClient (empty_config\<lparr>baseUrl := Some base\<rparr>) = Inr cl"
  shows "baseUrl (client_config cl) = Some (strip_slash base)" "path (client_config cl) = None"
    "query (client_config cl) = None" "querySerializer (client_config cl) = Some (QSFunction defaultQuerySerializer)"
    "security (client_config cl) = None"
proof -
  note created = assms [unfolded createClient_eq [OF headers_of_base]]
  show "baseUrl (client_config cl) = Some (strip_slash base)" "path (client_config cl) = None"
    "query (client_config cl) = None" "querySerializer (client_config cl) = Some (QSFunction defaultQuerySerializer)"
    "security (client_config cl) = None"
    unfolding Inr_inject [OF created, symmetric]
    by (simp_all add: spread_config_def createConfig_def empty_config_def)
qed

lemma params_of_Lit: "params_of (Lit l # ts) = params_of ts"
  by (simp add: params_of_def)

lemma template_split:
  assumes "sound_template (ep, d)"
  shows "\<exists>first ts. template ep = Lit (''/'' @ first) # ts \<and> ep_url ep = ''/'' @ first @ render ts"
proof -
  obtain l ts where t: "template ep = Lit l # ts"
    using assms by (cases "template ep")
      (auto simp: sound_template_def literal_text_def startsWith_iff split: path_token.splits)
  moreover obtain first where "l = ''/'' @ first"
    using assms t by (auto simp: sound_template_def literal_text_def startsWith_iff)
  moreover have "render (template ep) = ep_url ep" using assms by (simp add: sound_template_def)
  ultimately show ?thesis by (auto simp: render_def token_text_def)
qed

text \<open>
  C23: a well-typed call asks for what it means. For every endpoint, every options that its
  declaration allows, and any host whose name has no URL delimiters, the path of the URL that the
  client requests is the endpoint's template filled with the percent-encoded path parameters, and the
  server's parser reads the query parameters that were passed, in order.
\<close>

theorem well_typed_call_url:
  assumes "(ep, d) \<in> set endpoints" "well_typed d options" "plain_call options"
    and "createClient (empty_config\<lparr>baseUrl := Some base\<rparr>) = Inr cl"
    and "list_all (\<lambda>c. brace_free c \<and> c \<noteq> CHR ''?'') (strip_slash base)"
    and "beforeRequest pf cl (endpoint_options ep options) = Inr (opts, u)"
  shows "url_path u = strip_slash base @ instantiate (record_of (path options)) (template ep) \<and>
         parse_urlencoded (url_search u) = Some (query_pairs (record_of (query options)))"
proof -
  have sound: "sound_template (ep, d)" and decl: "declared (ep, d)"
    using endpoints_sound endpoints_declared assms(1) by (auto simp: list_all_iff)
  obtain first ts where t: "template ep = Lit (''/'' @ first) # ts" "ep_url ep = ''/'' @ first @ render ts"
    using template_split [OF sound] by blast
  let ?ts = "Lit (strip_slash base) # Lit (''/'' @ first) # ts"
  have ok: "template_ok ?ts" "CHR ''?'' \<notin> set (literal_text ?ts)"
    using sound assms(5) t(1) by (auto simp: sound_template_def template_ok_def literal_text_def list_all_iff)
  have prims: "\<forall>n \<in> set (params_of ts). primitive (prop_get (record_of (path options)) n)"
  proof
    fix n assume "n \<in> set (params_of ts)"
    then have "n \<in> set (map fst (dt_path d))"
      using decl by (simp add: declared_def t(1) params_of_Lit)
    then obtain ty where "(n, ty) \<in> set (dt_path d)" by auto
    then have "one_value ty" "accepts ty (prop_get (record_of (path options)) n)"
      using sound assms(2) by (auto simp: sound_template_def well_typed_def list_all_iff)
    then show "primitive (prop_get (record_of (path options)) n)" by (rule accepts_primitive)
  qed
  have q: "\<forall>(name, v) \<in> set (record_of (query options)). query_name name \<and> sendable v"
  proof clarify
    fix name v assume "(name, v) \<in> set (record_of (query options))"
    then obtain ty where ty: "map_of (dt_query d) name = Some ty" "v = JUndefined \<or> accepts ty v"
      using assms(2) by (fastforce simp: well_typed_def list_all_iff split: option.splits)
    then have "query_name name" "query_type ty"
      using sound by (auto simp: sound_template_def list_all_iff dest!: map_of_SomeD)
    then show "query_name name \<and> sendable v"
      using ty(2) accepts_sendable scalar_sendable [of JUndefined] by (auto simp: scalar_def)
  qed
  note cfg = client_url_config [OF assms(4)]
  have "buildUrl (Some (strip_slash base)) (path options) (query_value (query options))
      (QSFunction defaultQuerySerializer) (''/'' @ first @ render ts) = Inr u"
    using beforeRequest_url [OF assms(6)] assms(3) cfg t(2)
    by (simp add: endpoint_options_fields plain_call_def spread_config_def)
  then show ?thesis
    using buildUrl_reads [OF ok prims q] t(1) by (auto simp: instantiate_def token_value_def)
qed

theorem well_typed_call_url_witness:
  "\<exists>u. url_path u = ''/api/v1/executions/a%2Fb/events'' \<and>
       parse_urlencoded (url_search u) =
         Some [(''event_types'', ''pod_created''), (''event_types'', ''pod_running''), (''limit'', ''5'')]"
proof -
  let ?ep = "getExecutionEventsApiV1ExecutionsExecutionIdEventsGet"
  let ?d = "getExecutionEventsApiV1ExecutionsExecutionIdEventsGet_data"
  let ?o = "empty_config\<lparr>path := Some [(''execution_id'', JStr ''a/b'')],
      query := Some [(''event_types'', JArray [JStr ''pod_created'', JStr ''pod_running'']), (''limit'', JNum 5)]\<rparr> :: app config"
  let ?c = "createClient (empty_config\<lparr>baseUrl := Some []\<rparr>) :: app client res"
  obtain cl where cl: "?c = Inr cl"
    using createClient_eq [OF headers_of_base] by blast
  have "(?ep, ?d) \<in> set endpoints" by (simp add: endpoints_def)
  moreover have "well_typed ?d ?o" "plain_call ?o" "list_all (\<lambda>c. brace_free c \<and> c \<noteq> CHR ''?'') (strip_slash [])"
    by code_simp+
  moreover have "case ?c of Inl _ \<Rightarrow> False | Inr cl \<Rightarrow>
      (case beforeRequest forbidding cl (endpoint_options ?ep ?o) of Inl _ \<Rightarrow> False | Inr _ \<Rightarrow> True)"
    by code_simp
  then obtain opts u where "beforeRequest forbidding cl (endpoint_options ?ep ?o) = Inr (opts, u)"
    by (auto simp: cl split: sum.splits)
  ultimately have "url_path u = strip_slash [] @ instantiate (record_of (path ?o)) (template ?ep) \<and>
      parse_urlencoded (url_search u) = Some (query_pairs (record_of (query ?o)))"
    using well_typed_call_url [OF _ _ _ cl] by blast
  moreover have "strip_slash [] @ instantiate (record_of (path ?o)) (template ?ep) = ''/api/v1/executions/a%2Fb/events''"
    "query_pairs (record_of (query ?o)) =
       [(''event_types'', ''pod_created''), (''event_types'', ''pod_running''), (''limit'', ''5'')]"
    by code_simp+
  ultimately show ?thesis by auto
qed

end
