(* ===== verification/Queries.thy ===== *)
theory Queries
  imports Sdk
begin

text \<open>
  The bindings to the query library, \<^verbatim>\<open>frontend/src/lib/api/@tanstack/svelte-query.gen.ts\<close>: the key
  under which a query's data is cached, the function that fetches it, the function of a mutation,
  and the pages of an infinite query. \<open>cl\<close> is the client a call goes to, \<open>options.client ?? client\<close>;
  the abort signal the library passes is not modelled. The library itself only stores the records.
\<close>

section \<open>Keys\<close>

record query_key =
  qk_id :: string
  qk_baseUrl :: "string option"
  qk_infinite :: "bool option"
  qk_tags :: "string list option"
  qk_body :: jsval
  qk_headers :: "header_source option"
  qk_path :: "props option"
  qk_query :: "props option"

definition createQueryKey ::
  "string \<Rightarrow> 'w client \<Rightarrow> 'w config \<Rightarrow> bool \<Rightarrow> string list option \<Rightarrow> query_key" where
  "createQueryKey i cl options isInfinite tags =
     \<lparr>qk_id = i,
      qk_baseUrl = (if baseUrl options \<noteq> None \<and> baseUrl options \<noteq> Some [] then baseUrl options
                    else baseUrl (getConfig cl)),
      qk_infinite = (if isInfinite then Some isInfinite else None),
      qk_tags = tags,
      qk_body = (if truthy (body options) then body options else JUndefined),
      qk_headers = config_headers options,
      qk_path = path options,
      qk_query = query options\<rparr>"

text \<open>The fields of a key that an endpoint reads when the key is spread into its options.\<close>

definition key_options :: "query_key \<Rightarrow> 'w config" where
  "key_options k =
     empty_config\<lparr>baseUrl := qk_baseUrl k, body := qk_body k, config_headers := qk_headers k,
        path := qk_path k, query := qk_query k\<rparr>"

section \<open>Fetching\<close>

text \<open>\<open>const { data } = await endpoint(...)\<close>: \<open>None\<close> where the result has no such field.\<close>

definition data_of :: "outcome \<Rightarrow> payload option" where
  "data_of r = (case r of Fields d _ _ \<Rightarrow> Some d | _ \<Rightarrow> None)"

definition fetched :: "(failure + outcome) \<times> 'w \<Rightarrow> (failure + payload option) \<times> 'w" where
  "fetched r = (case r of (Inl e, w) \<Rightarrow> (Inl e, w) | (Inr out, w) \<Rightarrow> (Inr (data_of out), w))"

record 'w query =
  queryKey :: query_key
  queryFn :: "'w platform \<Rightarrow> 'w \<Rightarrow> (failure + payload option) \<times> 'w"

definition queryOptions ::
  "endpoint \<Rightarrow> ('w client \<Rightarrow> 'w config \<Rightarrow> query_key) \<Rightarrow> 'w client \<Rightarrow> 'w config \<Rightarrow> 'w query" where
  "queryOptions ep key cl options =
     \<lparr>queryKey = key cl options,
      queryFn = (\<lambda>pf w. fetched (call_endpoint ep pf cl
        ((spread_config options (key_options (key cl options)))\<lparr>throwOnError := Some True\<rparr>) w))\<rparr>"

type_synonym 'w mutation = "'w config \<Rightarrow> 'w platform \<Rightarrow> 'w \<Rightarrow> (failure + payload option) \<times> 'w"

definition mutationOptions :: "endpoint \<Rightarrow> 'w client \<Rightarrow> 'w config \<Rightarrow> 'w mutation" where
  "mutationOptions ep cl options fnOptions pf w =
     fetched (call_endpoint ep pf cl ((spread_config options fnOptions)\<lparr>throwOnError := Some True\<rparr>) w)"

section \<open>Pages\<close>

text \<open>A page is a number, the offset, or a record of parts that override the key's.\<close>

record page_parts =
  pp_body :: jsval
  pp_headers :: "header_source option"
  pp_path :: "props option"
  pp_query :: "props option"

datatype page_param = PageNumber int | PageParts page_parts

definition page_of :: "page_param \<Rightarrow> page_parts" where
  "page_of p =
     (case p of
        PageParts parts \<Rightarrow> parts
      | PageNumber n \<Rightarrow>
          \<lparr>pp_body = JUndefined, pp_headers = None, pp_path = None, pp_query = Some [(''offset'', JNum n)]\<rparr>)"

definition spread_props :: "props option \<Rightarrow> props \<Rightarrow> props option" where
  "spread_props a b = Some (spread (record_of a) b)"

definition createInfiniteParams :: "query_key \<Rightarrow> page_parts \<Rightarrow> query_key" where
  "createInfiniteParams k page =
     k\<lparr>qk_body := (if truthy (pp_body page)
                   then JObject (spread (obj_entries (qk_body k)) (obj_entries (pp_body page))) else qk_body k),
       qk_headers := (case pp_headers page of
                        None \<Rightarrow> qk_headers k
                      | Some h \<Rightarrow> Some (HeaderRecord (spread (header_props (qk_headers k)) (header_props (Some h))))),
       qk_path := (case pp_path page of None \<Rightarrow> qk_path k | Some p \<Rightarrow> spread_props (qk_path k) p),
       qk_query := (case pp_query page of None \<Rightarrow> qk_query k | Some q \<Rightarrow> spread_props (qk_query k) q)\<rparr>"

record 'w infinite_query =
  iq_key :: query_key
  iq_fn :: "page_param \<Rightarrow> 'w platform \<Rightarrow> 'w \<Rightarrow> (failure + payload option) \<times> 'w"

definition infiniteQueryOptions ::
  "endpoint \<Rightarrow> ('w client \<Rightarrow> 'w config \<Rightarrow> query_key) \<Rightarrow> 'w client \<Rightarrow> 'w config \<Rightarrow> 'w infinite_query" where
  "infiniteQueryOptions ep key cl options =
     \<lparr>iq_key = key cl options,
      iq_fn = (\<lambda>pageParam pf w. fetched (call_endpoint ep pf cl
        ((spread_config options (key_options (createInfiniteParams (key cl options) (page_of pageParam))))
           \<lparr>throwOnError := Some True\<rparr>) w))\<rparr>"

section \<open>The queries and mutations\<close>

definition loginApiV1AuthLoginPostMutation :: "'w client \<Rightarrow> 'w config \<Rightarrow> 'w mutation" where
  "loginApiV1AuthLoginPostMutation = mutationOptions loginApiV1AuthLoginPost"

definition registerApiV1AuthRegisterPostMutation :: "'w client \<Rightarrow> 'w config \<Rightarrow> 'w mutation" where
  "registerApiV1AuthRegisterPostMutation = mutationOptions registerApiV1AuthRegisterPost"

definition getCurrentUserProfileApiV1AuthMeGetQueryKey :: "'w client \<Rightarrow> 'w config \<Rightarrow> query_key" where
  "getCurrentUserProfileApiV1AuthMeGetQueryKey cl options = createQueryKey ''getCurrentUserProfileApiV1AuthMeGet'' cl options False None"

definition getCurrentUserProfileApiV1AuthMeGetOptions :: "'w client \<Rightarrow> 'w config \<Rightarrow> 'w query" where
  "getCurrentUserProfileApiV1AuthMeGetOptions = queryOptions getCurrentUserProfileApiV1AuthMeGet getCurrentUserProfileApiV1AuthMeGetQueryKey"

definition logoutApiV1AuthLogoutPostMutation :: "'w client \<Rightarrow> 'w config \<Rightarrow> 'w mutation" where
  "logoutApiV1AuthLogoutPostMutation = mutationOptions logoutApiV1AuthLogoutPost"

definition createExecutionApiV1ExecutePostMutation :: "'w client \<Rightarrow> 'w config \<Rightarrow> 'w mutation" where
  "createExecutionApiV1ExecutePostMutation = mutationOptions createExecutionApiV1ExecutePost"

definition getResultApiV1ExecutionsExecutionIdResultGetQueryKey :: "'w client \<Rightarrow> 'w config \<Rightarrow> query_key" where
  "getResultApiV1ExecutionsExecutionIdResultGetQueryKey cl options = createQueryKey ''getResultApiV1ExecutionsExecutionIdResultGet'' cl options False None"

definition getResultApiV1ExecutionsExecutionIdResultGetOptions :: "'w client \<Rightarrow> 'w config \<Rightarrow> 'w query" where
  "getResultApiV1ExecutionsExecutionIdResultGetOptions = queryOptions getResultApiV1ExecutionsExecutionIdResultGet getResultApiV1ExecutionsExecutionIdResultGetQueryKey"

definition cancelExecutionApiV1ExecutionsExecutionIdCancelPostMutation :: "'w client \<Rightarrow> 'w config \<Rightarrow> 'w mutation" where
  "cancelExecutionApiV1ExecutionsExecutionIdCancelPostMutation = mutationOptions cancelExecutionApiV1ExecutionsExecutionIdCancelPost"

definition retryExecutionApiV1ExecutionsExecutionIdRetryPostMutation :: "'w client \<Rightarrow> 'w config \<Rightarrow> 'w mutation" where
  "retryExecutionApiV1ExecutionsExecutionIdRetryPostMutation = mutationOptions retryExecutionApiV1ExecutionsExecutionIdRetryPost"

definition getExecutionEventsApiV1ExecutionsExecutionIdEventsGetQueryKey :: "'w client \<Rightarrow> 'w config \<Rightarrow> query_key" where
  "getExecutionEventsApiV1ExecutionsExecutionIdEventsGetQueryKey cl options = createQueryKey ''getExecutionEventsApiV1ExecutionsExecutionIdEventsGet'' cl options False None"

definition getExecutionEventsApiV1ExecutionsExecutionIdEventsGetOptions :: "'w client \<Rightarrow> 'w config \<Rightarrow> 'w query" where
  "getExecutionEventsApiV1ExecutionsExecutionIdEventsGetOptions = queryOptions getExecutionEventsApiV1ExecutionsExecutionIdEventsGet getExecutionEventsApiV1ExecutionsExecutionIdEventsGetQueryKey"

definition getUserExecutionsApiV1UserExecutionsGetQueryKey :: "'w client \<Rightarrow> 'w config \<Rightarrow> query_key" where
  "getUserExecutionsApiV1UserExecutionsGetQueryKey cl options = createQueryKey ''getUserExecutionsApiV1UserExecutionsGet'' cl options False None"

definition getUserExecutionsApiV1UserExecutionsGetOptions :: "'w client \<Rightarrow> 'w config \<Rightarrow> 'w query" where
  "getUserExecutionsApiV1UserExecutionsGetOptions = queryOptions getUserExecutionsApiV1UserExecutionsGet getUserExecutionsApiV1UserExecutionsGetQueryKey"

definition getExampleScriptsApiV1ExampleScriptsGetQueryKey :: "'w client \<Rightarrow> 'w config \<Rightarrow> query_key" where
  "getExampleScriptsApiV1ExampleScriptsGetQueryKey cl options = createQueryKey ''getExampleScriptsApiV1ExampleScriptsGet'' cl options False None"

definition getExampleScriptsApiV1ExampleScriptsGetOptions :: "'w client \<Rightarrow> 'w config \<Rightarrow> 'w query" where
  "getExampleScriptsApiV1ExampleScriptsGetOptions = queryOptions getExampleScriptsApiV1ExampleScriptsGet getExampleScriptsApiV1ExampleScriptsGetQueryKey"

definition getK8sResourceLimitsApiV1K8sLimitsGetQueryKey :: "'w client \<Rightarrow> 'w config \<Rightarrow> query_key" where
  "getK8sResourceLimitsApiV1K8sLimitsGetQueryKey cl options = createQueryKey ''getK8sResourceLimitsApiV1K8sLimitsGet'' cl options False None"

definition getK8sResourceLimitsApiV1K8sLimitsGetOptions :: "'w client \<Rightarrow> 'w config \<Rightarrow> 'w query" where
  "getK8sResourceLimitsApiV1K8sLimitsGetOptions = queryOptions getK8sResourceLimitsApiV1K8sLimitsGet getK8sResourceLimitsApiV1K8sLimitsGetQueryKey"

definition deleteExecutionApiV1ExecutionsExecutionIdDeleteMutation :: "'w client \<Rightarrow> 'w config \<Rightarrow> 'w mutation" where
  "deleteExecutionApiV1ExecutionsExecutionIdDeleteMutation = mutationOptions deleteExecutionApiV1ExecutionsExecutionIdDelete"

definition listSavedScriptsApiV1ScriptsGetQueryKey :: "'w client \<Rightarrow> 'w config \<Rightarrow> query_key" where
  "listSavedScriptsApiV1ScriptsGetQueryKey cl options = createQueryKey ''listSavedScriptsApiV1ScriptsGet'' cl options False None"

definition listSavedScriptsApiV1ScriptsGetOptions :: "'w client \<Rightarrow> 'w config \<Rightarrow> 'w query" where
  "listSavedScriptsApiV1ScriptsGetOptions = queryOptions listSavedScriptsApiV1ScriptsGet listSavedScriptsApiV1ScriptsGetQueryKey"

definition createSavedScriptApiV1ScriptsPostMutation :: "'w client \<Rightarrow> 'w config \<Rightarrow> 'w mutation" where
  "createSavedScriptApiV1ScriptsPostMutation = mutationOptions createSavedScriptApiV1ScriptsPost"

definition deleteSavedScriptApiV1ScriptsScriptIdDeleteMutation :: "'w client \<Rightarrow> 'w config \<Rightarrow> 'w mutation" where
  "deleteSavedScriptApiV1ScriptsScriptIdDeleteMutation = mutationOptions deleteSavedScriptApiV1ScriptsScriptIdDelete"

definition getSavedScriptApiV1ScriptsScriptIdGetQueryKey :: "'w client \<Rightarrow> 'w config \<Rightarrow> query_key" where
  "getSavedScriptApiV1ScriptsScriptIdGetQueryKey cl options = createQueryKey ''getSavedScriptApiV1ScriptsScriptIdGet'' cl options False None"

definition getSavedScriptApiV1ScriptsScriptIdGetOptions :: "'w client \<Rightarrow> 'w config \<Rightarrow> 'w query" where
  "getSavedScriptApiV1ScriptsScriptIdGetOptions = queryOptions getSavedScriptApiV1ScriptsScriptIdGet getSavedScriptApiV1ScriptsScriptIdGetQueryKey"

definition updateSavedScriptApiV1ScriptsScriptIdPutMutation :: "'w client \<Rightarrow> 'w config \<Rightarrow> 'w mutation" where
  "updateSavedScriptApiV1ScriptsScriptIdPutMutation = mutationOptions updateSavedScriptApiV1ScriptsScriptIdPut"

definition livenessApiV1HealthLiveGetQueryKey :: "'w client \<Rightarrow> 'w config \<Rightarrow> query_key" where
  "livenessApiV1HealthLiveGetQueryKey cl options = createQueryKey ''livenessApiV1HealthLiveGet'' cl options False None"

definition livenessApiV1HealthLiveGetOptions :: "'w client \<Rightarrow> 'w config \<Rightarrow> 'w query" where
  "livenessApiV1HealthLiveGetOptions = queryOptions livenessApiV1HealthLiveGet livenessApiV1HealthLiveGetQueryKey"

definition browseEventsApiV1AdminEventsBrowsePostQueryKey :: "'w client \<Rightarrow> 'w config \<Rightarrow> query_key" where
  "browseEventsApiV1AdminEventsBrowsePostQueryKey cl options = createQueryKey ''browseEventsApiV1AdminEventsBrowsePost'' cl options False None"

definition browseEventsApiV1AdminEventsBrowsePostOptions :: "'w client \<Rightarrow> 'w config \<Rightarrow> 'w query" where
  "browseEventsApiV1AdminEventsBrowsePostOptions = queryOptions browseEventsApiV1AdminEventsBrowsePost browseEventsApiV1AdminEventsBrowsePostQueryKey"

definition getEventStatsApiV1AdminEventsStatsGetQueryKey :: "'w client \<Rightarrow> 'w config \<Rightarrow> query_key" where
  "getEventStatsApiV1AdminEventsStatsGetQueryKey cl options = createQueryKey ''getEventStatsApiV1AdminEventsStatsGet'' cl options False None"

definition getEventStatsApiV1AdminEventsStatsGetOptions :: "'w client \<Rightarrow> 'w config \<Rightarrow> 'w query" where
  "getEventStatsApiV1AdminEventsStatsGetOptions = queryOptions getEventStatsApiV1AdminEventsStatsGet getEventStatsApiV1AdminEventsStatsGetQueryKey"

definition exportEventsApiV1AdminEventsExportExportFormatGetQueryKey :: "'w client \<Rightarrow> 'w config \<Rightarrow> query_key" where
  "exportEventsApiV1AdminEventsExportExportFormatGetQueryKey cl options = createQueryKey ''exportEventsApiV1AdminEventsExportExportFormatGet'' cl options False None"

definition exportEventsApiV1AdminEventsExportExportFormatGetOptions :: "'w client \<Rightarrow> 'w config \<Rightarrow> 'w query" where
  "exportEventsApiV1AdminEventsExportExportFormatGetOptions = queryOptions exportEventsApiV1AdminEventsExportExportFormatGet exportEventsApiV1AdminEventsExportExportFormatGetQueryKey"

definition deleteEventApiV1AdminEventsEventIdDeleteMutation :: "'w client \<Rightarrow> 'w config \<Rightarrow> 'w mutation" where
  "deleteEventApiV1AdminEventsEventIdDeleteMutation = mutationOptions deleteEventApiV1AdminEventsEventIdDelete"

definition getEventDetailApiV1AdminEventsEventIdGetQueryKey :: "'w client \<Rightarrow> 'w config \<Rightarrow> query_key" where
  "getEventDetailApiV1AdminEventsEventIdGetQueryKey cl options = createQueryKey ''getEventDetailApiV1AdminEventsEventIdGet'' cl options False None"

definition getEventDetailApiV1AdminEventsEventIdGetOptions :: "'w client \<Rightarrow> 'w config \<Rightarrow> 'w query" where
  "getEventDetailApiV1AdminEventsEventIdGetOptions = queryOptions getEventDetailApiV1AdminEventsEventIdGet getEventDetailApiV1AdminEventsEventIdGetQueryKey"

definition replayEventsApiV1AdminEventsReplayPostMutation :: "'w client \<Rightarrow> 'w config \<Rightarrow> 'w mutation" where
  "replayEventsApiV1AdminEventsReplayPostMutation = mutationOptions replayEventsApiV1AdminEventsReplayPost"

definition listExecutionsApiV1AdminExecutionsGetQueryKey :: "'w client \<Rightarrow> 'w config \<Rightarrow> query_key" where
  "listExecutionsApiV1AdminExecutionsGetQueryKey cl options = createQueryKey ''listExecutionsApiV1AdminExecutionsGet'' cl options False None"

definition listExecutionsApiV1AdminExecutionsGetOptions :: "'w client \<Rightarrow> 'w config \<Rightarrow> 'w query" where
  "listExecutionsApiV1AdminExecutionsGetOptions = queryOptions listExecutionsApiV1AdminExecutionsGet listExecutionsApiV1AdminExecutionsGetQueryKey"

definition updatePriorityApiV1AdminExecutionsExecutionIdPriorityPutMutation :: "'w client \<Rightarrow> 'w config \<Rightarrow> 'w mutation" where
  "updatePriorityApiV1AdminExecutionsExecutionIdPriorityPutMutation = mutationOptions updatePriorityApiV1AdminExecutionsExecutionIdPriorityPut"

definition getQueueStatusApiV1AdminExecutionsQueueGetQueryKey :: "'w client \<Rightarrow> 'w config \<Rightarrow> query_key" where
  "getQueueStatusApiV1AdminExecutionsQueueGetQueryKey cl options = createQueryKey ''getQueueStatusApiV1AdminExecutionsQueueGet'' cl options False None"

definition getQueueStatusApiV1AdminExecutionsQueueGetOptions :: "'w client \<Rightarrow> 'w config \<Rightarrow> 'w query" where
  "getQueueStatusApiV1AdminExecutionsQueueGetOptions = queryOptions getQueueStatusApiV1AdminExecutionsQueueGet getQueueStatusApiV1AdminExecutionsQueueGetQueryKey"

definition getDefaultRateLimitRulesApiV1AdminRateLimitsDefaultsGetQueryKey :: "'w client \<Rightarrow> 'w config \<Rightarrow> query_key" where
  "getDefaultRateLimitRulesApiV1AdminRateLimitsDefaultsGetQueryKey cl options = createQueryKey ''getDefaultRateLimitRulesApiV1AdminRateLimitsDefaultsGet'' cl options False None"

definition getDefaultRateLimitRulesApiV1AdminRateLimitsDefaultsGetOptions :: "'w client \<Rightarrow> 'w config \<Rightarrow> 'w query" where
  "getDefaultRateLimitRulesApiV1AdminRateLimitsDefaultsGetOptions = queryOptions getDefaultRateLimitRulesApiV1AdminRateLimitsDefaultsGet getDefaultRateLimitRulesApiV1AdminRateLimitsDefaultsGetQueryKey"

definition getUserRateLimitsApiV1AdminRateLimitsUserIdGetQueryKey :: "'w client \<Rightarrow> 'w config \<Rightarrow> query_key" where
  "getUserRateLimitsApiV1AdminRateLimitsUserIdGetQueryKey cl options = createQueryKey ''getUserRateLimitsApiV1AdminRateLimitsUserIdGet'' cl options False None"

definition getUserRateLimitsApiV1AdminRateLimitsUserIdGetOptions :: "'w client \<Rightarrow> 'w config \<Rightarrow> 'w query" where
  "getUserRateLimitsApiV1AdminRateLimitsUserIdGetOptions = queryOptions getUserRateLimitsApiV1AdminRateLimitsUserIdGet getUserRateLimitsApiV1AdminRateLimitsUserIdGetQueryKey"

definition updateUserRateLimitsApiV1AdminRateLimitsUserIdPutMutation :: "'w client \<Rightarrow> 'w config \<Rightarrow> 'w mutation" where
  "updateUserRateLimitsApiV1AdminRateLimitsUserIdPutMutation = mutationOptions updateUserRateLimitsApiV1AdminRateLimitsUserIdPut"

definition resetUserRateLimitsApiV1AdminRateLimitsUserIdResetPostMutation :: "'w client \<Rightarrow> 'w config \<Rightarrow> 'w mutation" where
  "resetUserRateLimitsApiV1AdminRateLimitsUserIdResetPostMutation = mutationOptions resetUserRateLimitsApiV1AdminRateLimitsUserIdResetPost"

definition getSystemSettingsApiV1AdminSettingsGetQueryKey :: "'w client \<Rightarrow> 'w config \<Rightarrow> query_key" where
  "getSystemSettingsApiV1AdminSettingsGetQueryKey cl options = createQueryKey ''getSystemSettingsApiV1AdminSettingsGet'' cl options False None"

definition getSystemSettingsApiV1AdminSettingsGetOptions :: "'w client \<Rightarrow> 'w config \<Rightarrow> 'w query" where
  "getSystemSettingsApiV1AdminSettingsGetOptions = queryOptions getSystemSettingsApiV1AdminSettingsGet getSystemSettingsApiV1AdminSettingsGetQueryKey"

definition updateSystemSettingsApiV1AdminSettingsPutMutation :: "'w client \<Rightarrow> 'w config \<Rightarrow> 'w mutation" where
  "updateSystemSettingsApiV1AdminSettingsPutMutation = mutationOptions updateSystemSettingsApiV1AdminSettingsPut"

definition resetSystemSettingsApiV1AdminSettingsResetPostMutation :: "'w client \<Rightarrow> 'w config \<Rightarrow> 'w mutation" where
  "resetSystemSettingsApiV1AdminSettingsResetPostMutation = mutationOptions resetSystemSettingsApiV1AdminSettingsResetPost"

definition listUsersApiV1AdminUsersGetQueryKey :: "'w client \<Rightarrow> 'w config \<Rightarrow> query_key" where
  "listUsersApiV1AdminUsersGetQueryKey cl options = createQueryKey ''listUsersApiV1AdminUsersGet'' cl options False None"

definition listUsersApiV1AdminUsersGetOptions :: "'w client \<Rightarrow> 'w config \<Rightarrow> 'w query" where
  "listUsersApiV1AdminUsersGetOptions = queryOptions listUsersApiV1AdminUsersGet listUsersApiV1AdminUsersGetQueryKey"

definition listUsersApiV1AdminUsersGetInfiniteQueryKey :: "'w client \<Rightarrow> 'w config \<Rightarrow> query_key" where
  "listUsersApiV1AdminUsersGetInfiniteQueryKey cl options = createQueryKey ''listUsersApiV1AdminUsersGet'' cl options True None"

definition listUsersApiV1AdminUsersGetInfiniteOptions :: "'w client \<Rightarrow> 'w config \<Rightarrow> 'w infinite_query" where
  "listUsersApiV1AdminUsersGetInfiniteOptions = infiniteQueryOptions listUsersApiV1AdminUsersGet listUsersApiV1AdminUsersGetInfiniteQueryKey"

definition createUserApiV1AdminUsersPostMutation :: "'w client \<Rightarrow> 'w config \<Rightarrow> 'w mutation" where
  "createUserApiV1AdminUsersPostMutation = mutationOptions createUserApiV1AdminUsersPost"

definition deleteUserApiV1AdminUsersUserIdDeleteMutation :: "'w client \<Rightarrow> 'w config \<Rightarrow> 'w mutation" where
  "deleteUserApiV1AdminUsersUserIdDeleteMutation = mutationOptions deleteUserApiV1AdminUsersUserIdDelete"

definition getUserApiV1AdminUsersUserIdGetQueryKey :: "'w client \<Rightarrow> 'w config \<Rightarrow> query_key" where
  "getUserApiV1AdminUsersUserIdGetQueryKey cl options = createQueryKey ''getUserApiV1AdminUsersUserIdGet'' cl options False None"

definition getUserApiV1AdminUsersUserIdGetOptions :: "'w client \<Rightarrow> 'w config \<Rightarrow> 'w query" where
  "getUserApiV1AdminUsersUserIdGetOptions = queryOptions getUserApiV1AdminUsersUserIdGet getUserApiV1AdminUsersUserIdGetQueryKey"

definition updateUserApiV1AdminUsersUserIdPutMutation :: "'w client \<Rightarrow> 'w config \<Rightarrow> 'w mutation" where
  "updateUserApiV1AdminUsersUserIdPutMutation = mutationOptions updateUserApiV1AdminUsersUserIdPut"

definition getUserOverviewApiV1AdminUsersUserIdOverviewGetQueryKey :: "'w client \<Rightarrow> 'w config \<Rightarrow> query_key" where
  "getUserOverviewApiV1AdminUsersUserIdOverviewGetQueryKey cl options = createQueryKey ''getUserOverviewApiV1AdminUsersUserIdOverviewGet'' cl options False None"

definition getUserOverviewApiV1AdminUsersUserIdOverviewGetOptions :: "'w client \<Rightarrow> 'w config \<Rightarrow> 'w query" where
  "getUserOverviewApiV1AdminUsersUserIdOverviewGetOptions = queryOptions getUserOverviewApiV1AdminUsersUserIdOverviewGet getUserOverviewApiV1AdminUsersUserIdOverviewGetQueryKey"

definition resetUserPasswordApiV1AdminUsersUserIdResetPasswordPostMutation :: "'w client \<Rightarrow> 'w config \<Rightarrow> 'w mutation" where
  "resetUserPasswordApiV1AdminUsersUserIdResetPasswordPostMutation = mutationOptions resetUserPasswordApiV1AdminUsersUserIdResetPasswordPost"

definition unlockUserApiV1AdminUsersUserIdUnlockPostMutation :: "'w client \<Rightarrow> 'w config \<Rightarrow> 'w mutation" where
  "unlockUserApiV1AdminUsersUserIdUnlockPostMutation = mutationOptions unlockUserApiV1AdminUsersUserIdUnlockPost"

definition getUserSettingsApiV1UserSettingsGetQueryKey :: "'w client \<Rightarrow> 'w config \<Rightarrow> query_key" where
  "getUserSettingsApiV1UserSettingsGetQueryKey cl options = createQueryKey ''getUserSettingsApiV1UserSettingsGet'' cl options False None"

definition getUserSettingsApiV1UserSettingsGetOptions :: "'w client \<Rightarrow> 'w config \<Rightarrow> 'w query" where
  "getUserSettingsApiV1UserSettingsGetOptions = queryOptions getUserSettingsApiV1UserSettingsGet getUserSettingsApiV1UserSettingsGetQueryKey"

definition updateUserSettingsApiV1UserSettingsPutMutation :: "'w client \<Rightarrow> 'w config \<Rightarrow> 'w mutation" where
  "updateUserSettingsApiV1UserSettingsPutMutation = mutationOptions updateUserSettingsApiV1UserSettingsPut"

definition updateThemeApiV1UserSettingsThemePutMutation :: "'w client \<Rightarrow> 'w config \<Rightarrow> 'w mutation" where
  "updateThemeApiV1UserSettingsThemePutMutation = mutationOptions updateThemeApiV1UserSettingsThemePut"

definition updateNotificationSettingsApiV1UserSettingsNotificationsPutMutation :: "'w client \<Rightarrow> 'w config \<Rightarrow> 'w mutation" where
  "updateNotificationSettingsApiV1UserSettingsNotificationsPutMutation = mutationOptions updateNotificationSettingsApiV1UserSettingsNotificationsPut"

definition updateEditorSettingsApiV1UserSettingsEditorPutMutation :: "'w client \<Rightarrow> 'w config \<Rightarrow> 'w mutation" where
  "updateEditorSettingsApiV1UserSettingsEditorPutMutation = mutationOptions updateEditorSettingsApiV1UserSettingsEditorPut"

definition getSettingsHistoryApiV1UserSettingsHistoryGetQueryKey :: "'w client \<Rightarrow> 'w config \<Rightarrow> query_key" where
  "getSettingsHistoryApiV1UserSettingsHistoryGetQueryKey cl options = createQueryKey ''getSettingsHistoryApiV1UserSettingsHistoryGet'' cl options False None"

definition getSettingsHistoryApiV1UserSettingsHistoryGetOptions :: "'w client \<Rightarrow> 'w config \<Rightarrow> 'w query" where
  "getSettingsHistoryApiV1UserSettingsHistoryGetOptions = queryOptions getSettingsHistoryApiV1UserSettingsHistoryGet getSettingsHistoryApiV1UserSettingsHistoryGetQueryKey"

definition restoreSettingsApiV1UserSettingsRestorePostMutation :: "'w client \<Rightarrow> 'w config \<Rightarrow> 'w mutation" where
  "restoreSettingsApiV1UserSettingsRestorePostMutation = mutationOptions restoreSettingsApiV1UserSettingsRestorePost"

definition updateCustomSettingApiV1UserSettingsCustomKeyPutMutation :: "'w client \<Rightarrow> 'w config \<Rightarrow> 'w mutation" where
  "updateCustomSettingApiV1UserSettingsCustomKeyPutMutation = mutationOptions updateCustomSettingApiV1UserSettingsCustomKeyPut"

definition getNotificationsApiV1NotificationsGetQueryKey :: "'w client \<Rightarrow> 'w config \<Rightarrow> query_key" where
  "getNotificationsApiV1NotificationsGetQueryKey cl options = createQueryKey ''getNotificationsApiV1NotificationsGet'' cl options False None"

definition getNotificationsApiV1NotificationsGetOptions :: "'w client \<Rightarrow> 'w config \<Rightarrow> 'w query" where
  "getNotificationsApiV1NotificationsGetOptions = queryOptions getNotificationsApiV1NotificationsGet getNotificationsApiV1NotificationsGetQueryKey"

definition getNotificationsApiV1NotificationsGetInfiniteQueryKey :: "'w client \<Rightarrow> 'w config \<Rightarrow> query_key" where
  "getNotificationsApiV1NotificationsGetInfiniteQueryKey cl options = createQueryKey ''getNotificationsApiV1NotificationsGet'' cl options True None"

definition getNotificationsApiV1NotificationsGetInfiniteOptions :: "'w client \<Rightarrow> 'w config \<Rightarrow> 'w infinite_query" where
  "getNotificationsApiV1NotificationsGetInfiniteOptions = infiniteQueryOptions getNotificationsApiV1NotificationsGet getNotificationsApiV1NotificationsGetInfiniteQueryKey"

definition markNotificationReadApiV1NotificationsNotificationIdReadPutMutation :: "'w client \<Rightarrow> 'w config \<Rightarrow> 'w mutation" where
  "markNotificationReadApiV1NotificationsNotificationIdReadPutMutation = mutationOptions markNotificationReadApiV1NotificationsNotificationIdReadPut"

definition markAllReadApiV1NotificationsMarkAllReadPostMutation :: "'w client \<Rightarrow> 'w config \<Rightarrow> 'w mutation" where
  "markAllReadApiV1NotificationsMarkAllReadPostMutation = mutationOptions markAllReadApiV1NotificationsMarkAllReadPost"

definition getUnreadCountApiV1NotificationsUnreadCountGetQueryKey :: "'w client \<Rightarrow> 'w config \<Rightarrow> query_key" where
  "getUnreadCountApiV1NotificationsUnreadCountGetQueryKey cl options = createQueryKey ''getUnreadCountApiV1NotificationsUnreadCountGet'' cl options False None"

definition getUnreadCountApiV1NotificationsUnreadCountGetOptions :: "'w client \<Rightarrow> 'w config \<Rightarrow> 'w query" where
  "getUnreadCountApiV1NotificationsUnreadCountGetOptions = queryOptions getUnreadCountApiV1NotificationsUnreadCountGet getUnreadCountApiV1NotificationsUnreadCountGetQueryKey"

definition deleteNotificationApiV1NotificationsNotificationIdDeleteMutation :: "'w client \<Rightarrow> 'w config \<Rightarrow> 'w mutation" where
  "deleteNotificationApiV1NotificationsNotificationIdDeleteMutation = mutationOptions deleteNotificationApiV1NotificationsNotificationIdDelete"

text \<open>The keys and fetch functions of all queries, the functions of all mutations.\<close>

definition all_queries :: "('w client \<Rightarrow> 'w config \<Rightarrow> 'w query) list" where
  "all_queries =
     [getCurrentUserProfileApiV1AuthMeGetOptions,
      getResultApiV1ExecutionsExecutionIdResultGetOptions,
      getExecutionEventsApiV1ExecutionsExecutionIdEventsGetOptions,
      getUserExecutionsApiV1UserExecutionsGetOptions,
      getExampleScriptsApiV1ExampleScriptsGetOptions,
      getK8sResourceLimitsApiV1K8sLimitsGetOptions,
      listSavedScriptsApiV1ScriptsGetOptions,
      getSavedScriptApiV1ScriptsScriptIdGetOptions,
      livenessApiV1HealthLiveGetOptions,
      browseEventsApiV1AdminEventsBrowsePostOptions,
      getEventStatsApiV1AdminEventsStatsGetOptions,
      exportEventsApiV1AdminEventsExportExportFormatGetOptions,
      getEventDetailApiV1AdminEventsEventIdGetOptions,
      listExecutionsApiV1AdminExecutionsGetOptions,
      getQueueStatusApiV1AdminExecutionsQueueGetOptions,
      getDefaultRateLimitRulesApiV1AdminRateLimitsDefaultsGetOptions,
      getUserRateLimitsApiV1AdminRateLimitsUserIdGetOptions,
      getSystemSettingsApiV1AdminSettingsGetOptions,
      listUsersApiV1AdminUsersGetOptions,
      getUserApiV1AdminUsersUserIdGetOptions,
      getUserOverviewApiV1AdminUsersUserIdOverviewGetOptions,
      getUserSettingsApiV1UserSettingsGetOptions,
      getSettingsHistoryApiV1UserSettingsHistoryGetOptions,
      getNotificationsApiV1NotificationsGetOptions,
      getUnreadCountApiV1NotificationsUnreadCountGetOptions]"

definition all_mutations :: "('w client \<Rightarrow> 'w config \<Rightarrow> 'w mutation) list" where
  "all_mutations =
     [loginApiV1AuthLoginPostMutation,
      registerApiV1AuthRegisterPostMutation,
      logoutApiV1AuthLogoutPostMutation,
      createExecutionApiV1ExecutePostMutation,
      cancelExecutionApiV1ExecutionsExecutionIdCancelPostMutation,
      retryExecutionApiV1ExecutionsExecutionIdRetryPostMutation,
      deleteExecutionApiV1ExecutionsExecutionIdDeleteMutation,
      createSavedScriptApiV1ScriptsPostMutation,
      deleteSavedScriptApiV1ScriptsScriptIdDeleteMutation,
      updateSavedScriptApiV1ScriptsScriptIdPutMutation,
      deleteEventApiV1AdminEventsEventIdDeleteMutation,
      replayEventsApiV1AdminEventsReplayPostMutation,
      updatePriorityApiV1AdminExecutionsExecutionIdPriorityPutMutation,
      updateUserRateLimitsApiV1AdminRateLimitsUserIdPutMutation,
      resetUserRateLimitsApiV1AdminRateLimitsUserIdResetPostMutation,
      updateSystemSettingsApiV1AdminSettingsPutMutation,
      resetSystemSettingsApiV1AdminSettingsResetPostMutation,
      createUserApiV1AdminUsersPostMutation,
      deleteUserApiV1AdminUsersUserIdDeleteMutation,
      updateUserApiV1AdminUsersUserIdPutMutation,
      resetUserPasswordApiV1AdminUsersUserIdResetPasswordPostMutation,
      unlockUserApiV1AdminUsersUserIdUnlockPostMutation,
      updateUserSettingsApiV1UserSettingsPutMutation,
      updateThemeApiV1UserSettingsThemePutMutation,
      updateNotificationSettingsApiV1UserSettingsNotificationsPutMutation,
      updateEditorSettingsApiV1UserSettingsEditorPutMutation,
      restoreSettingsApiV1UserSettingsRestorePostMutation,
      updateCustomSettingApiV1UserSettingsCustomKeyPutMutation,
      markNotificationReadApiV1NotificationsNotificationIdReadPutMutation,
      markAllReadApiV1NotificationsMarkAllReadPostMutation,
      deleteNotificationApiV1NotificationsNotificationIdDeleteMutation]"

definition query_specs :: "(string \<times> endpoint) list" where
  "query_specs =
     [(''getCurrentUserProfileApiV1AuthMeGet'', getCurrentUserProfileApiV1AuthMeGet),
      (''getResultApiV1ExecutionsExecutionIdResultGet'', getResultApiV1ExecutionsExecutionIdResultGet),
      (''getExecutionEventsApiV1ExecutionsExecutionIdEventsGet'', getExecutionEventsApiV1ExecutionsExecutionIdEventsGet),
      (''getUserExecutionsApiV1UserExecutionsGet'', getUserExecutionsApiV1UserExecutionsGet),
      (''getExampleScriptsApiV1ExampleScriptsGet'', getExampleScriptsApiV1ExampleScriptsGet),
      (''getK8sResourceLimitsApiV1K8sLimitsGet'', getK8sResourceLimitsApiV1K8sLimitsGet),
      (''listSavedScriptsApiV1ScriptsGet'', listSavedScriptsApiV1ScriptsGet),
      (''getSavedScriptApiV1ScriptsScriptIdGet'', getSavedScriptApiV1ScriptsScriptIdGet),
      (''livenessApiV1HealthLiveGet'', livenessApiV1HealthLiveGet),
      (''browseEventsApiV1AdminEventsBrowsePost'', browseEventsApiV1AdminEventsBrowsePost),
      (''getEventStatsApiV1AdminEventsStatsGet'', getEventStatsApiV1AdminEventsStatsGet),
      (''exportEventsApiV1AdminEventsExportExportFormatGet'', exportEventsApiV1AdminEventsExportExportFormatGet),
      (''getEventDetailApiV1AdminEventsEventIdGet'', getEventDetailApiV1AdminEventsEventIdGet),
      (''listExecutionsApiV1AdminExecutionsGet'', listExecutionsApiV1AdminExecutionsGet),
      (''getQueueStatusApiV1AdminExecutionsQueueGet'', getQueueStatusApiV1AdminExecutionsQueueGet),
      (''getDefaultRateLimitRulesApiV1AdminRateLimitsDefaultsGet'', getDefaultRateLimitRulesApiV1AdminRateLimitsDefaultsGet),
      (''getUserRateLimitsApiV1AdminRateLimitsUserIdGet'', getUserRateLimitsApiV1AdminRateLimitsUserIdGet),
      (''getSystemSettingsApiV1AdminSettingsGet'', getSystemSettingsApiV1AdminSettingsGet),
      (''listUsersApiV1AdminUsersGet'', listUsersApiV1AdminUsersGet),
      (''getUserApiV1AdminUsersUserIdGet'', getUserApiV1AdminUsersUserIdGet),
      (''getUserOverviewApiV1AdminUsersUserIdOverviewGet'', getUserOverviewApiV1AdminUsersUserIdOverviewGet),
      (''getUserSettingsApiV1UserSettingsGet'', getUserSettingsApiV1UserSettingsGet),
      (''getSettingsHistoryApiV1UserSettingsHistoryGet'', getSettingsHistoryApiV1UserSettingsHistoryGet),
      (''getNotificationsApiV1NotificationsGet'', getNotificationsApiV1NotificationsGet),
      (''getUnreadCountApiV1NotificationsUnreadCountGet'', getUnreadCountApiV1NotificationsUnreadCountGet)]"

lemmas query_defs =
  getCurrentUserProfileApiV1AuthMeGetOptions_def getCurrentUserProfileApiV1AuthMeGetQueryKey_def [abs_def]
  getResultApiV1ExecutionsExecutionIdResultGetOptions_def getResultApiV1ExecutionsExecutionIdResultGetQueryKey_def [abs_def]
  getExecutionEventsApiV1ExecutionsExecutionIdEventsGetOptions_def getExecutionEventsApiV1ExecutionsExecutionIdEventsGetQueryKey_def [abs_def]
  getUserExecutionsApiV1UserExecutionsGetOptions_def getUserExecutionsApiV1UserExecutionsGetQueryKey_def [abs_def]
  getExampleScriptsApiV1ExampleScriptsGetOptions_def getExampleScriptsApiV1ExampleScriptsGetQueryKey_def [abs_def]
  getK8sResourceLimitsApiV1K8sLimitsGetOptions_def getK8sResourceLimitsApiV1K8sLimitsGetQueryKey_def [abs_def]
  listSavedScriptsApiV1ScriptsGetOptions_def listSavedScriptsApiV1ScriptsGetQueryKey_def [abs_def]
  getSavedScriptApiV1ScriptsScriptIdGetOptions_def getSavedScriptApiV1ScriptsScriptIdGetQueryKey_def [abs_def]
  livenessApiV1HealthLiveGetOptions_def livenessApiV1HealthLiveGetQueryKey_def [abs_def]
  browseEventsApiV1AdminEventsBrowsePostOptions_def browseEventsApiV1AdminEventsBrowsePostQueryKey_def [abs_def]
  getEventStatsApiV1AdminEventsStatsGetOptions_def getEventStatsApiV1AdminEventsStatsGetQueryKey_def [abs_def]
  exportEventsApiV1AdminEventsExportExportFormatGetOptions_def exportEventsApiV1AdminEventsExportExportFormatGetQueryKey_def [abs_def]
  getEventDetailApiV1AdminEventsEventIdGetOptions_def getEventDetailApiV1AdminEventsEventIdGetQueryKey_def [abs_def]
  listExecutionsApiV1AdminExecutionsGetOptions_def listExecutionsApiV1AdminExecutionsGetQueryKey_def [abs_def]
  getQueueStatusApiV1AdminExecutionsQueueGetOptions_def getQueueStatusApiV1AdminExecutionsQueueGetQueryKey_def [abs_def]
  getDefaultRateLimitRulesApiV1AdminRateLimitsDefaultsGetOptions_def getDefaultRateLimitRulesApiV1AdminRateLimitsDefaultsGetQueryKey_def [abs_def]
  getUserRateLimitsApiV1AdminRateLimitsUserIdGetOptions_def getUserRateLimitsApiV1AdminRateLimitsUserIdGetQueryKey_def [abs_def]
  getSystemSettingsApiV1AdminSettingsGetOptions_def getSystemSettingsApiV1AdminSettingsGetQueryKey_def [abs_def]
  listUsersApiV1AdminUsersGetOptions_def listUsersApiV1AdminUsersGetQueryKey_def [abs_def]
  getUserApiV1AdminUsersUserIdGetOptions_def getUserApiV1AdminUsersUserIdGetQueryKey_def [abs_def]
  getUserOverviewApiV1AdminUsersUserIdOverviewGetOptions_def getUserOverviewApiV1AdminUsersUserIdOverviewGetQueryKey_def [abs_def]
  getUserSettingsApiV1UserSettingsGetOptions_def getUserSettingsApiV1UserSettingsGetQueryKey_def [abs_def]
  getSettingsHistoryApiV1UserSettingsHistoryGetOptions_def getSettingsHistoryApiV1UserSettingsHistoryGetQueryKey_def [abs_def]
  getNotificationsApiV1NotificationsGetOptions_def getNotificationsApiV1NotificationsGetQueryKey_def [abs_def]
  getUnreadCountApiV1NotificationsUnreadCountGetOptions_def getUnreadCountApiV1NotificationsUnreadCountGetQueryKey_def [abs_def]

lemmas mutation_defs =
  loginApiV1AuthLoginPostMutation_def
  registerApiV1AuthRegisterPostMutation_def
  logoutApiV1AuthLogoutPostMutation_def
  createExecutionApiV1ExecutePostMutation_def
  cancelExecutionApiV1ExecutionsExecutionIdCancelPostMutation_def
  retryExecutionApiV1ExecutionsExecutionIdRetryPostMutation_def
  deleteExecutionApiV1ExecutionsExecutionIdDeleteMutation_def
  createSavedScriptApiV1ScriptsPostMutation_def
  deleteSavedScriptApiV1ScriptsScriptIdDeleteMutation_def
  updateSavedScriptApiV1ScriptsScriptIdPutMutation_def
  deleteEventApiV1AdminEventsEventIdDeleteMutation_def
  replayEventsApiV1AdminEventsReplayPostMutation_def
  updatePriorityApiV1AdminExecutionsExecutionIdPriorityPutMutation_def
  updateUserRateLimitsApiV1AdminRateLimitsUserIdPutMutation_def
  resetUserRateLimitsApiV1AdminRateLimitsUserIdResetPostMutation_def
  updateSystemSettingsApiV1AdminSettingsPutMutation_def
  resetSystemSettingsApiV1AdminSettingsResetPostMutation_def
  createUserApiV1AdminUsersPostMutation_def
  deleteUserApiV1AdminUsersUserIdDeleteMutation_def
  updateUserApiV1AdminUsersUserIdPutMutation_def
  resetUserPasswordApiV1AdminUsersUserIdResetPasswordPostMutation_def
  unlockUserApiV1AdminUsersUserIdUnlockPostMutation_def
  updateUserSettingsApiV1UserSettingsPutMutation_def
  updateThemeApiV1UserSettingsThemePutMutation_def
  updateNotificationSettingsApiV1UserSettingsNotificationsPutMutation_def
  updateEditorSettingsApiV1UserSettingsEditorPutMutation_def
  restoreSettingsApiV1UserSettingsRestorePostMutation_def
  updateCustomSettingApiV1UserSettingsCustomKeyPutMutation_def
  markNotificationReadApiV1NotificationsNotificationIdReadPutMutation_def
  markAllReadApiV1NotificationsMarkAllReadPostMutation_def
  deleteNotificationApiV1NotificationsNotificationIdDeleteMutation_def

section \<open>A key stands for its request\<close>

text \<open>Options that carry only what a key records, with a body that is truthy or absent.\<close>

definition key_only :: "'w config \<Rightarrow> bool" where
  "key_only options \<longleftrightarrow>
     options = empty_config\<lparr>body := body options, config_headers := config_headers options,
                path := path options, query := query options\<rparr> \<and>
     (truthy (body options) \<or> body options = JUndefined)"

lemma key_only_eq:
  assumes "key_only o1" "key_only o2" "createQueryKey i1 cl o1 b t = createQueryKey i2 cl o2 b' t'"
  shows "i1 = i2 \<and> o1 = o2"
proof -
  have "body o1 = body o2" "config_headers o1 = config_headers o2" "path o1 = path o2" "query o1 = query o2"
    using assms by (auto simp: createQueryKey_def key_only_def split: if_splits)
  then have "o1 = o2"
    using assms(1,2) unfolding key_only_def by metis
  then show ?thesis using assms(3) by (simp add: createQueryKey_def)
qed

definition spec_query :: "string \<times> endpoint \<Rightarrow> 'w client \<Rightarrow> 'w config \<Rightarrow> 'w query" where
  "spec_query s = queryOptions (snd s) (\<lambda>cl options. createQueryKey (fst s) cl options False None)"

lemma all_queries_specs: "all_queries = map spec_query query_specs"
  by (simp add: all_queries_def query_specs_def spec_query_def query_defs)

lemma query_specs_distinct: "distinct (map fst query_specs)"
  by code_simp

lemma query_specs_endpoints: "list_all (\<lambda>(i, ep). ep \<in> set (map fst endpoints) \<and> \<not> ep_sse ep) query_specs"
  by (simp add: query_specs_def endpoints_def) (simp add: endpoint_defs)

text \<open>
  Cached data is reused only for the request it came from. If two of the SDK's queries have the
  same key, on the same client and with options that carry what keys record, then they are the same
  query with the same options, so that their fetch functions do the same in every world.
\<close>

theorem same_key_same_request:
  assumes "q1 \<in> set all_queries" "q2 \<in> set all_queries" "key_only o1" "key_only o2"
    and "queryKey (q1 cl o1) = queryKey (q2 cl o2)"
  shows "q1 = q2 \<and> o1 = o2 \<and> queryFn (q1 cl o1) pf w = queryFn (q2 cl o2) pf w"
proof -
  obtain s1 s2 where s: "q1 = spec_query s1" "q2 = spec_query s2" "s1 \<in> set query_specs" "s2 \<in> set query_specs"
    using assms(1,2) by (auto simp: all_queries_specs)
  have "fst s1 = fst s2 \<and> o1 = o2"
    using assms(5) key_only_eq [OF assms(3,4)] by (simp add: s spec_query_def queryOptions_def)
  moreover from this have "s1 = s2"
    using query_specs_distinct s(3,4) by (metis distinct_map inj_onD)
  ultimately show ?thesis by (simp add: s)
qed

theorem same_key_same_request_witness:
  "queryKey (getUserApiV1AdminUsersUserIdGetOptions fresh_client (empty_config\<lparr>path := Some [(''user_id'', JStr ''1'')]\<rparr>)) \<noteq>
   queryKey (getUserApiV1AdminUsersUserIdGetOptions fresh_client (empty_config\<lparr>path := Some [(''user_id'', JStr ''2'')]\<rparr>))"
proof
  let ?q = "getUserApiV1AdminUsersUserIdGetOptions :: app client \<Rightarrow> app config \<Rightarrow> app query"
  let ?o1 = "empty_config\<lparr>path := Some [(''user_id'', JStr ''1'')]\<rparr> :: app config"
  let ?o2 = "empty_config\<lparr>path := Some [(''user_id'', JStr ''2'')]\<rparr> :: app config"
  assume "queryKey (?q fresh_client ?o1) = queryKey (?q fresh_client ?o2)"
  moreover have "?q \<in> set all_queries" by (simp add: all_queries_def)
  moreover have "key_only ?o1" "key_only ?o2" by (simp_all add: key_only_def empty_config_def)
  ultimately have "?o1 = ?o2" using same_key_same_request [of ?q ?q ?o1 ?o2 fresh_client] by blast
  then show False by (simp add: empty_config_def)
qed

section \<open>What a fetch gives\<close>

definition call_options :: "endpoint \<Rightarrow> 'w config \<Rightarrow> 'w config" where
  "call_options ep o' = (endpoint_options ep (o'\<lparr>throwOnError := Some True\<rparr>))\<lparr>config_method := Some (ep_method ep)\<rparr>"

lemma call_options_fields:
  "throwOnError (call_options ep o') = Some True" "responseStyle (call_options ep o') = responseStyle o'"
  by (simp_all add: call_options_def endpoint_options_def spread_config_def empty_config_def Let_def split: body_kind.splits)

text \<open>How an attempt ends, to the caller of a query or a mutation of the application's client.\<close>

definition settled_fetch ::
  "(failure \<Rightarrow> ErrorResponse option) \<Rightarrow> response option \<Rightarrow> failure + payload \<Rightarrow> failure + payload option" where
  "settled_fetch problem resp r =
     (case r of Inr d \<Rightarrow> Inr (Some d) | Inl e \<Rightarrow> Inl (error_value (to_failure problem e resp)))"

lemma fetched_call:
  assumes "initializeApiInterceptors problem cl = Inr cl'" "interceptors cl = createInterceptors"
    and "responseStyle o' = None" "responseStyle (client_config cl') = None"
    and "attempt pf cl' (call_options ep o') w = (req, resp, r, w1)"
  shows "fst (fetched (call_endpoint ep pf cl' (o'\<lparr>throwOnError := Some True\<rparr>) w)) = settled_fetch problem resp r"
proof (cases r)
  case (Inr d)
  from request_call_ok [OF assms(5) [unfolded Inr]] show ?thesis
    using assms(3,4) Inr
    by (auto simp: call_endpoint_def makeMethodFn_def call_options_def [symmetric] style_def call_options_fields
        fetched_def data_of_def settled_fetch_def)
next
  case (Inl e)
  show ?thesis
    using app_request_error [OF assms(1,2) assms(5) [unfolded Inl]]
    by (simp add: call_endpoint_def makeMethodFn_def call_options_def [symmetric] throws_def call_options_fields
        fetched_def settled_fetch_def Inl)
qed



section \<open>Pages of an infinite query\<close>

text \<open>
  Page \<open>n\<close> of an infinite query asks for the query's own request at offset \<open>n\<close>: in the parameters of
  the page the query has \<open>offset\<close> \<open>n\<close>, every other query entry is the key's, and so is everything else.
\<close>

theorem page_number_params:
  "\<exists>q. createInfiniteParams k (page_of (PageNumber n)) = k\<lparr>qk_query := Some q\<rparr> \<and>
       prop_get q = (prop_get (record_of (qk_query k)))(''offset'' := JNum n)"
proof -
  let ?q = "spread (record_of (qk_query k)) [(''offset'', JNum n)]"
  have q: "map_of ?q name = (if name = ''offset'' then Some (JNum n) else map_of (record_of (qk_query k)) name)" for name
    by (simp add: map_of_spread)
  have "createInfiniteParams k (page_of (PageNumber n)) = k\<lparr>qk_query := Some ?q\<rparr>"
    by (simp add: createInfiniteParams_def page_of_def spread_props_def)
  then show ?thesis
    by (intro exI [of _ ?q]) (simp add: prop_get_def q fun_eq_iff)
qed

end
