(* ===== verification/Formatters.thy ===== *)
theory Formatters
  imports Complex_Main Prelude
begin

text \<open>
  How the pages show values, \<^verbatim>\<open>frontend/src/lib/formatters.ts\<close>: timestamps, durations, relative
  times, cut strings and field labels.

  A number of seconds is a rational; \<open>fl\<close>, a parameter, rounds a result to the nearest double, as
  each multiplication and division does. \<open>%\<close>, \<open>Math.floor\<close>, \<open>Math.round\<close> and \<open>toFixed\<close> are exact.
  Printed numbers are below \<open>10 ^ 21\<close>, where JavaScript turns to exponents. A date is its time in
  milliseconds; parsing one, the browser's locale and date-fns are the fields of \<open>dates\<close>.
\<close>

section \<open>Times\<close>

record dates =
  date_parse :: "string \<Rightarrow> int option" \<comment> \<open>\<open>new Date(s).getTime()\<close>, \<open>None\<close> for \<open>NaN\<close>\<close>
  date_time :: "int \<Rightarrow> string"
  date_only :: "int \<Rightarrow> string"
  time_only :: "int \<Rightarrow> string"
  differenceInSeconds :: "int \<Rightarrow> int \<Rightarrow> int"
  differenceInMinutes :: "int \<Rightarrow> int \<Rightarrow> int"
  differenceInHours :: "int \<Rightarrow> int \<Rightarrow> int"
  differenceInDays :: "int \<Rightarrow> int \<Rightarrow> int"

definition not_available :: string where
  "not_available = ''N/A''"

text \<open>\<open>None\<close> is \<open>null\<close> or \<open>undefined\<close>\<close>

definition validDate :: "dates \<Rightarrow> string option \<Rightarrow> int option" where
  "validDate D ts =
     (case ts of None \<Rightarrow> None | Some s \<Rightarrow> if s = [] then None else date_parse D s)"

definition formatTimestamp :: "dates \<Rightarrow> string option \<Rightarrow> string" where
  "formatTimestamp D ts =
     (case validDate D ts of None \<Rightarrow> not_available | Some d \<Rightarrow> date_time D d)"

definition formatDateOnly :: "dates \<Rightarrow> string option \<Rightarrow> string" where
  "formatDateOnly D ts =
     (case validDate D ts of None \<Rightarrow> not_available | Some d \<Rightarrow> date_only D d)"

definition formatTimeOnly :: "dates \<Rightarrow> string option \<Rightarrow> string" where
  "formatTimeOnly D ts =
     (case validDate D ts of None \<Rightarrow> not_available | Some d \<Rightarrow> time_only D d)"

definition math_round :: "rat \<Rightarrow> int" where
  "math_round x = \<lfloor>x + 1 / 2\<rfloor>"

text \<open>\<open>x.toFixed(1)\<close> for a number that is not negative\<close>

definition toFixed1 :: "rat \<Rightarrow> string" where
  "toFixed1 x = (let n = nat \<lfloor>10 * x + 1 / 2\<rfloor> in show_nat (n div 10) @ ''.'' @ show_nat (n mod 10))"

definition rat_mod :: "rat \<Rightarrow> rat \<Rightarrow> rat" where
  "rat_mod x y = x - y * of_int \<lfloor>x / y\<rfloor>"

definition formatDuration :: "(rat \<Rightarrow> rat) \<Rightarrow> rat option \<Rightarrow> string" where
  "formatDuration fl seconds =
     (case seconds of
        None \<Rightarrow> not_available
      | Some s \<Rightarrow>
          if s < 0 then not_available
          else if s < 1 then show_int (math_round (fl (s * 1000))) @ ''ms''
          else if s < 60 then toFixed1 s @ ''s''
          else if s < 3600 then
            let mins = \<lfloor>fl (s / 60)\<rfloor>; secs = \<lfloor>rat_mod s 60\<rfloor> in
            if secs > 0 then show_int mins @ ''m '' @ show_int secs @ ''s'' else show_int mins @ ''m''
          else
            let hours = \<lfloor>fl (s / 3600)\<rfloor>; mins = \<lfloor>fl (rat_mod s 3600 / 60)\<rfloor> in
            if mins > 0 then show_int hours @ ''h '' @ show_int mins @ ''m'' else show_int hours @ ''h'')"

definition formatDurationBetween ::
  "(rat \<Rightarrow> rat) \<Rightarrow> dates \<Rightarrow> string option \<Rightarrow> string option \<Rightarrow> string" where
  "formatDurationBetween fl D startDate endDate =
     (case (validDate D startDate, validDate D endDate) of
        (Some a, Some b) \<Rightarrow>
          if b - a < 0 then not_available else formatDuration fl (Some (fl (of_int (b - a) / 1000)))
      | _ \<Rightarrow> not_available)"

definition formatRelativeTime :: "dates \<Rightarrow> int \<Rightarrow> string option \<Rightarrow> string" where
  "formatRelativeTime D now ts =
     (case validDate D ts of
        None \<Rightarrow> not_available
      | Some d \<Rightarrow>
          if d > now then date_only D d
          else
            let diffSecs = differenceInSeconds D now d; diffMins = differenceInMinutes D now d;
                diffHrs = differenceInHours D now d; diffDys = differenceInDays D now d in
            if diffSecs < 60 then ''just now''
            else if diffMins < 60 then show_int diffMins @ ''m ago''
            else if diffHrs < 24 then show_int diffHrs @ ''h ago''
            else if diffDys < 7 then show_int diffDys @ ''d ago''
            else date_only D d)"

section \<open>Strings and labels\<close>

definition truncate :: "string option \<Rightarrow> int \<Rightarrow> string" where
  "truncate str maxLength =
     (case str of
        None \<Rightarrow> []
      | Some s \<Rightarrow>
          if s = [] then []
          else if int (length s) \<le> maxLength then s
          else slice s 0 (maxLength - 3) @ ''...'')"

definition formatBoolean :: "bool \<Rightarrow> string" where
  "formatBoolean value = (if value then ''Yes'' else ''No'')"

definition title_word :: "string \<Rightarrow> string" where
  "title_word w = map upper_char (take 1 w) @ map lower_char (drop 1 w)"

text \<open>\<open>replace(/[a-z]+/gi, ...)\<close>: every longest run of letters is replaced by its title form.\<close>

function title_words :: "string \<Rightarrow> string" where
  "title_words [] = []"
| "title_words (c # s) =
     (if is_letter c
      then title_word (c # takeWhile is_letter s) @ title_words (dropWhile is_letter s)
      else c # title_words s)"
  by pat_completeness auto
termination
  by (relation "measure length") (auto intro: le_imp_less_Suc length_dropWhile_le)

definition fieldTitle :: "string \<Rightarrow> string" where
  "fieldTitle key = map (\<lambda>c. if c = CHR ''_'' then CHR '' '' else c) (title_words key)"

section \<open>Lemmas\<close>

lemma validDate_None [simp]: "validDate D None = None"
  by (simp add: validDate_def)

lemma slice_prefix: "0 \<le> n \<Longrightarrow> n \<le> int (length s) \<Longrightarrow> slice s 0 n = take (nat n) s"
  by (simp add: slice_def slice_pos_def Let_def)

text \<open>A cut string fits, once the limit leaves room for the three dots.\<close>

lemma truncate_fits:
  assumes "3 \<le> m"
  shows "int (length (truncate (Some s) m)) \<le> m"
    and "int (length s) \<le> m \<Longrightarrow> truncate (Some s) m = s"
    and "m < int (length s) \<Longrightarrow> truncate (Some s) m = take (nat (m - 3)) s @ ''...''"
  using assms by (auto simp: truncate_def slice_prefix)

text \<open>Below three the negative end of the slice counts from the end of the string.\<close>

lemma truncate_overflows: "m < 3 \<Longrightarrow> 0 \<le> m \<Longrightarrow> m < int (length s) \<Longrightarrow> m < int (length (truncate (Some s) m))"
  by (auto simp: truncate_def slice_def slice_pos_def Let_def)

text \<open>Letters and the case functions.\<close>

lemma upper_char_upper: "is_letter c \<Longrightarrow> is_upper (upper_char c)"
  by (auto simp: upper_char_def is_letter_def is_upper_def is_lower_def)

lemma lower_char_lower: "is_letter c \<Longrightarrow> is_lower (lower_char c)"
  by (auto simp: lower_char_def is_letter_def is_upper_def is_lower_def)

lemma case_letter: "is_upper c \<Longrightarrow> is_letter c" "is_lower c \<Longrightarrow> is_letter c"
  by (simp_all add: is_letter_def)

lemma upper_char_fixed: "is_upper c \<Longrightarrow> upper_char c = c"
  by (simp add: upper_char_def is_upper_def is_lower_def)

lemma lower_char_fixed: "is_lower c \<Longrightarrow> lower_char c = c"
  by (simp add: lower_char_def is_upper_def is_lower_def)

definition titled :: "string \<Rightarrow> bool" where
  "titled w \<longleftrightarrow> (case w of [] \<Rightarrow> True | c # r \<Rightarrow> is_upper c \<and> list_all is_lower r)"

lemma title_word_titled: "list_all is_letter w \<Longrightarrow> titled (title_word w)"
  by (cases w) (auto simp: titled_def title_word_def list_all_iff upper_char_upper lower_char_lower)

lemma title_word_fixed: "titled w \<Longrightarrow> title_word w = w"
  by (cases w) (auto simp: titled_def title_word_def list_all_iff upper_char_fixed lower_char_fixed intro: map_idI)

lemma titled_letters: "titled w \<Longrightarrow> list_all is_letter w"
  by (cases w) (auto simp: titled_def list_all_iff case_letter)

lemma length_title_word [simp]: "length (title_word w) = length w"
  by (cases w) (auto simp: title_word_def)

lemma length_title_words: "length (title_words s) = length s"
proof (induction s rule: title_words.induct)
  case (2 c s)
  have "length (takeWhile is_letter s) + length (dropWhile is_letter s) = length s"
    by (metis length_append takeWhile_dropWhile_id)
  with 2 show ?case by (cases "is_letter c") auto
qed simp

lemma title_words_word:
  "titled w \<Longrightarrow> w \<noteq> [] \<Longrightarrow> (case r of [] \<Rightarrow> True | c # _ \<Rightarrow> \<not> is_letter c) \<Longrightarrow>
   title_words (w @ r) = w @ title_words r"
proof -
  assume w: "titled w" "w \<noteq> []" and r: "case r of [] \<Rightarrow> True | c # _ \<Rightarrow> \<not> is_letter c"
  from w obtain c v where v: "w = c # v" by (cases w) auto
  have l: "is_letter c" "\<And>x. x \<in> set v \<Longrightarrow> is_letter x"
    using titled_letters [OF w(1)] v by (auto simp: list_all_iff)
  have "takeWhile is_letter (v @ r) = v" "dropWhile is_letter (v @ r) = r"
    using l(2) r by (cases r; simp add: takeWhile_append2 dropWhile_append2)+
  then show ?thesis using v l(1) title_word_fixed [OF w(1)] by simp
qed

lemma dropWhile_head: "case dropWhile P s of [] \<Rightarrow> True | c # _ \<Rightarrow> \<not> P c"
  by (induction s) auto

lemma title_words_head:
  "(case s of [] \<Rightarrow> True | c # _ \<Rightarrow> \<not> is_letter c) \<Longrightarrow>
   (case title_words s of [] \<Rightarrow> True | c # _ \<Rightarrow> \<not> is_letter c)"
  by (cases s) auto

lemma title_words_idem: "title_words (title_words s) = title_words s"
proof (induction s rule: title_words.induct)
  case (2 c s)
  show ?case
  proof (cases "is_letter c")
    case True
    let ?w = "c # takeWhile is_letter s" and ?r = "dropWhile is_letter s"
    have "list_all is_letter ?w" using True by (auto simp: list_all_iff dest: set_takeWhileD)
    then have "titled (title_word ?w)" by (rule title_word_titled)
    moreover have "title_word ?w \<noteq> []" by (simp add: title_word_def)
    ultimately have "title_words (title_word ?w @ title_words ?r) = title_word ?w @ title_words (title_words ?r)"
      using title_words_head [OF dropWhile_head [of is_letter s]] by (rule title_words_word)
    then show ?thesis using True 2(1) by simp
  next
    case False
    then show ?thesis using 2(2) by simp
  qed
qed simp

lemma length_fieldTitle: "length (fieldTitle key) = length key"
  by (simp add: fieldTitle_def length_title_words)

lemma lower_map_underscore: "takeWhile is_letter (map (\<lambda>c. if c = CHR ''_'' then CHR '' '' else c) s) = takeWhile is_letter s"
  by (induction s) (auto simp: is_letter_def is_upper_def is_lower_def)

lemma dropWhile_map_underscore: "dropWhile is_letter (map (\<lambda>c. if c = CHR ''_'' then CHR '' '' else c) s) =
   map (\<lambda>c. if c = CHR ''_'' then CHR '' '' else c) (dropWhile is_letter s)"
  by (induction s) (auto simp: is_letter_def is_upper_def is_lower_def)

lemma title_word_underscore:
  "list_all is_letter w \<Longrightarrow> map (\<lambda>c. if c = CHR ''_'' then CHR '' '' else c) (title_word w) = title_word w"
proof -
  assume "list_all is_letter w"
  then have "list_all is_letter (title_word w)" by (rule titled_letters [OF title_word_titled])
  then show ?thesis
    by (intro map_idI) (auto simp: list_all_iff is_letter_def is_upper_def is_lower_def)
qed

lemma title_words_underscore:
  "title_words (map (\<lambda>c. if c = CHR ''_'' then CHR '' '' else c) s) =
   map (\<lambda>c. if c = CHR ''_'' then CHR '' '' else c) (title_words s)"
proof (induction s rule: title_words.induct)
  case (2 c s)
  show ?case
  proof (cases "is_letter c")
    case True
    have "list_all is_letter (c # takeWhile is_letter s)"
      using True by (auto simp: list_all_iff dest: set_takeWhileD)
    note w = title_word_underscore [OF this]
    show ?thesis
      using True 2(1) [OF True] w
      by (auto simp: lower_map_underscore dropWhile_map_underscore)
        (auto simp: is_letter_def is_upper_def is_lower_def)
  next
    case False
    then show ?thesis using 2(2) by (auto simp: is_letter_def is_upper_def is_lower_def)
  qed
qed simp

lemma fieldTitle_idem: "fieldTitle (fieldTitle key) = fieldTitle key"
  by (simp add: fieldTitle_def title_words_underscore title_words_idem)

section \<open>Durations\<close>

text \<open>What rounding to the nearest double guarantees, as IEEE 754 states it.\<close>

definition rounds_to_double :: "(rat \<Rightarrow> rat) \<Rightarrow> bool" where
  "rounds_to_double fl \<longleftrightarrow>
     (\<forall>x y. x \<le> y \<longrightarrow> fl x \<le> fl y) \<and>
     (\<forall>k :: nat. k < 2 ^ 53 \<longrightarrow> fl (of_nat k) = of_nat k) \<and>
     (\<forall>x. 1 / 4000 \<le> x \<longrightarrow> fl x - x \<le> x / 2 ^ 53)"

lemma rounds_to_double_id: "rounds_to_double (\<lambda>x. x)"
  by (auto simp: rounds_to_double_def)

lemma floor_rounded:
  assumes fl: "rounds_to_double fl" and d: "0 < d" "d \<le> 3600" and n: "n < 10 ^ 12"
  shows "\<lfloor>fl (rat_of_nat n / rat_of_nat d)\<rfloor> = int (n div d)"
proof (rule floor_unique)
  define x q where "x = rat_of_nat n / rat_of_nat d" and "q = n div d"
  have "q * d \<le> n" by (simp add: q_def)
  then have "rat_of_nat (q * d) \<le> rat_of_nat n" by (rule of_nat_mono)
  then have lo: "rat_of_nat q \<le> x" using d by (simp add: x_def pos_le_divide_eq)
  have "n < (q + 1) * d" using d div_less_iff_less_mult [of d n "q + 1"] by (simp add: q_def)
  then have "rat_of_nat (Suc n) \<le> rat_of_nat ((q + 1) * d)" by (intro of_nat_mono) simp
  then have hi: "x + 1 / rat_of_nat d \<le> rat_of_nat q + 1"
    using d by (simp add: x_def field_simps)
  have "rat_of_nat d \<le> rat_of_nat 3600" using d(2) by (rule of_nat_mono)
  then have d': "1 / 3600 \<le> 1 / rat_of_nat d" using d(1) by (simp add: frac_le)
  have "q \<le> n" by (simp add: q_def)
  then have "q < 2 ^ 53" using n by simp
  then have q: "fl (of_nat q) = of_nat q" using fl by (simp add: rounds_to_double_def)
  have "fl (of_nat q) \<le> fl x" using fl lo by (simp add: rounds_to_double_def)
  then show "of_int (int (n div d)) \<le> fl (rat_of_nat n / rat_of_nat d)"
    using q by (simp add: x_def q_def)
  have "x \<le> rat_of_nat n" using d by (simp add: x_def pos_divide_le_eq) (simp add: mult_le_cancel_left1)
  moreover have "rat_of_nat n < 10 ^ 12" using n by (metis of_nat_less_iff of_nat_numeral of_nat_power)
  ultimately have small: "x < 10 ^ 12" by linarith
  have "fl x < rat_of_nat q + 1"
  proof (cases "1 / 4000 \<le> x")
    case True
    then have "fl x - x \<le> x / 2 ^ 53" using fl by (simp add: rounds_to_double_def)
    moreover have "x / 2 ^ 53 < 1 / 3600" using small by simp
    ultimately show ?thesis using hi d' by linarith
  next
    case False
    have "n = 0"
    proof (rule ccontr)
      assume "n \<noteq> 0"
      then have "1 / rat_of_nat d \<le> x" by (simp add: x_def divide_right_mono)
      then show False using False d' by linarith
    qed
    moreover have "fl (of_nat 0) = of_nat 0" using fl unfolding rounds_to_double_def by (metis zero_less_numeral zero_less_power)
    ultimately show ?thesis by (simp add: x_def)
  qed
  then show "fl (rat_of_nat n / rat_of_nat d) < of_int (int (n div d)) + 1"
    by (simp add: x_def q_def)
qed

text \<open>The fields of a whole number of seconds, without empty ones.\<close>

definition duration_fields :: "nat \<Rightarrow> string" where
  "duration_fields n =
     (if n < 3600
      then show_nat (n div 60) @ ''m'' @ (if n mod 60 = 0 then [] else '' '' @ show_nat (n mod 60) @ ''s'')
      else show_nat (n div 3600) @ ''h'' @
        (if n mod 3600 div 60 = 0 then [] else '' '' @ show_nat (n mod 3600 div 60) @ ''m''))"

lemma rat_mod_nat: "0 < d \<Longrightarrow> rat_mod (of_nat n) (of_nat d) = of_nat (n mod d)"
proof -
  assume "0 < d"
  have "\<lfloor>rat_of_nat n / rat_of_nat d\<rfloor> = int (n div d)" by (simp add: floor_divide_of_nat_eq)
  moreover have "rat_of_nat n = of_nat d * of_nat (n div d) + of_nat (n mod d)"
    by (metis mult_div_mod_eq of_nat_add of_nat_mult)
  ultimately show ?thesis by (simp add: rat_mod_def)
qed

lemma show_int_nat [simp]: "show_int (int n) = show_nat n"
  by (simp add: show_int_def)

lemma formatDuration_fields:
  assumes fl: "rounds_to_double fl" and n: "60 \<le> n" "n < 10 ^ 12"
  shows "formatDuration fl (Some (of_nat n)) = duration_fields n"
proof -
  have m: "rat_mod (rat_of_nat n) 60 = of_nat (n mod 60)" "rat_mod (rat_of_nat n) 3600 = of_nat (n mod 3600)"
    using rat_mod_nat [of 60 n] rat_mod_nat [of 3600 n] by simp_all
  have f: "\<lfloor>fl (rat_of_nat n / 60)\<rfloor> = int (n div 60)" "\<lfloor>fl (rat_of_nat n / 3600)\<rfloor> = int (n div 3600)"
    using floor_rounded [OF fl, of 60 n] floor_rounded [OF fl, of 3600 n] n(2) by simp_all
  have "n mod 3600 < 10 ^ 12" using n(2) by (meson le_less_trans mod_less_eq_dividend)
  then have g: "\<lfloor>fl (rat_of_nat (n mod 3600) / 60)\<rfloor> = int (n mod 3600 div 60)"
    using floor_rounded [OF fl, of 60 "n mod 3600"] by simp
  have c: "\<not> rat_of_nat n < 0" "\<not> rat_of_nat n < 1" "\<not> rat_of_nat n < 60" "rat_of_nat n < 3600 \<longleftrightarrow> n < 3600"
    using n(1) of_nat_mono [of 60 n, where ?'a = rat] of_nat_less_iff [of n 3600, where ?'a = rat] by auto
  have z: "\<lfloor>rat_of_nat k\<rfloor> = int k" for k by simp
  show ?thesis
    unfolding formatDuration_def duration_fields_def Let_def option.case m f g z
    using c by (simp add: show_int_nat del: of_nat_div of_nat_mod of_nat_less_iff)
qed

text \<open>
  Both roundings can reach the next unit without changing it: just under a second is a thousand
  milliseconds, just under a minute sixty seconds.
\<close>

lemma formatDuration_not_carried:
  "fl (2047 / 2048 * 1000) = 2047 / 2048 * 1000 \<Longrightarrow> formatDuration fl (Some (2047 / 2048)) = ''1000ms''"
  "formatDuration fl (Some (1919 / 32)) = ''60.0s''"
proof -
  have d: "show_nat 1000 = ''1000''" "show_nat 60 = ''60''" "show_nat 0 = ''0''" by code_simp+
  have f: "\<lfloor>255875 / 256 + 1 / 2 :: rat\<rfloor> = 1000" "\<lfloor>10 * (1919 / 32) + 1 / 2 :: rat\<rfloor> = 600"
    by (simp_all add: floor_eq_iff)
  note facts = d f
  show "formatDuration fl (Some (2047 / 2048)) = ''1000ms''"
    if a: "fl (2047 / 2048 * 1000) = 2047 / 2048 * 1000"
    unfolding formatDuration_def option.case math_round_def a using facts by (simp add: show_int_def)
  show "formatDuration fl (Some (1919 / 32)) = ''60.0s''"
    using facts by (simp add: formatDuration_def toFixed1_def)
qed

text \<open>Ages in terms of whole milliseconds, for the differences as date-fns counts them.\<close>

definition counts_units :: "dates \<Rightarrow> bool" where
  "counts_units D \<longleftrightarrow>
     (\<forall>a b. b \<le> a \<longrightarrow>
        differenceInSeconds D a b = (a - b) div 1000 \<and>
        differenceInMinutes D a b = (a - b) div 60000 \<and>
        differenceInHours D a b = (a - b) div 3600000)"

definition age :: "dates \<Rightarrow> int \<Rightarrow> int \<Rightarrow> string" where
  "age D now d =
     (let ms = now - d in
      if ms < 60000 then ''just now''
      else if ms < 3600000 then show_int (ms div 60000) @ ''m ago''
      else if ms < 86400000 then show_int (ms div 3600000) @ ''h ago''
      else if differenceInDays D now d < 7 then show_int (differenceInDays D now d) @ ''d ago''
      else date_only D d)"

lemma int_div_less_iff: "0 < k \<Longrightarrow> x div k < n \<longleftrightarrow> x < n * k" for x :: int
proof -
  assume k: "0 < k"
  have "n * k \<le> x" if "n \<le> x div k"
    using that k mult_right_mono [of n "x div k" k] div_mult_mod_eq [of x k] pos_mod_sign [of k x] by linarith
  moreover have "n \<le> x div k" if "n * k \<le> x"
    using zdiv_mono1 [OF that k] k by simp
  ultimately show ?thesis by linarith
qed

lemma formatRelativeTime_age:
  assumes "counts_units D" and "validDate D ts = Some d" and "d \<le> now"
  shows "formatRelativeTime D now ts = age D now d"
proof -
  have e: "differenceInSeconds D now d = (now - d) div 1000" "differenceInMinutes D now d = (now - d) div 60000"
    "differenceInHours D now d = (now - d) div 3600000"
    using assms(1,3) by (simp_all add: counts_units_def)
  have "(now - d) div 1000 < 60 \<longleftrightarrow> now - d < 60000" "(now - d) div 60000 < 60 \<longleftrightarrow> now - d < 3600000"
    "(now - d) div 3600000 < 24 \<longleftrightarrow> now - d < 86400000" by (simp_all add: int_div_less_iff)
  then show ?thesis
    unfolding formatRelativeTime_def age_def assms(2) option.case Let_def e using assms(3) by auto
qed

end
