(* ===== verification/Schema.thy ===== *)
theory Schema
  imports Complex_Main Prelude
begin

text \<open>
  The type expressions of \<^verbatim>\<open>frontend/src/lib/api/types.gen.ts\<close> and the schema expressions of
  \<^verbatim>\<open>frontend/src/lib/api/zod.gen.ts\<close> as data, what a value of a TypeScript type is, and when a
  schema's output has a type.

  Zod itself is a library: \<open>parse z v\<close>, the data \<open>z.safeParse(v)\<close> yields, is a parameter, and
  \<open>zod_outputs parse\<close> states what its documentation says of the data each kind of schema lets through.
  The checks of a schema (\<open>gte\<close>, \<open>regex\<close>, ...) only restrict what it accepts.
\<close>

section \<open>Values and types\<close>

datatype data =
    VUndefined | VNull | VBool bool | VNum rat | VStr string
  | VArray "data list" | VObject "(string \<times> data) list"

datatype ts_type =
    TString | TNumber | TBoolean | TNull | TUndefined | TVoid | TNever | TUnknown
  | TLit string | TNumLit rat
  | TOneOf "string list" \<comment> \<open>\<open>(typeof E)[keyof typeof E]\<close> of a constant object of strings\<close>
  | TArray ts_type
  | TRecord ts_type \<comment> \<open>\<open>{[key: string]: T}\<close>\<close>
  | TObject "(string \<times> bool \<times> ts_type) list" \<comment> \<open>a field, whether it is optional, its type\<close>
  | TUnion "ts_type list"
  | TInter "ts_type list"

text \<open>\<open>v.k\<close>; a value has an object type when what is read from its fields has their types\<close>

definition read_field :: "(string \<times> data) list \<Rightarrow> string \<Rightarrow> data" where
  "read_field es k = (case map_of es k of None \<Rightarrow> VUndefined | Some w \<Rightarrow> w)"

fun has_type :: "ts_type \<Rightarrow> data \<Rightarrow> bool" where
  "has_type TString v = (case v of VStr _ \<Rightarrow> True | _ \<Rightarrow> False)"
| "has_type TNumber v = (case v of VNum _ \<Rightarrow> True | _ \<Rightarrow> False)"
| "has_type TBoolean v = (case v of VBool _ \<Rightarrow> True | _ \<Rightarrow> False)"
| "has_type TNull v = (v = VNull)"
| "has_type TUndefined v = (v = VUndefined)"
| "has_type TVoid v = (v = VUndefined)"
| "has_type TNever v = False"
| "has_type TUnknown v = True"
| "has_type (TLit s) v = (v = VStr s)"
| "has_type (TNumLit n) v = (v = VNum n)"
| "has_type (TOneOf ss) v = (case v of VStr s \<Rightarrow> s \<in> set ss | _ \<Rightarrow> False)"
| "has_type (TArray t) v = (case v of VArray vs \<Rightarrow> list_all (has_type t) vs | _ \<Rightarrow> False)"
| "has_type (TRecord t) v = (case v of VObject es \<Rightarrow> list_all (\<lambda>e. has_type t (snd e)) es | _ \<Rightarrow> False)"
| "has_type (TObject fs) v =
     (case v of
        VObject es \<Rightarrow>
          list_all (\<lambda>f. fst (snd f) \<and> read_field es (fst f) = VUndefined \<or>
              has_type (snd (snd f)) (read_field es (fst f))) fs
      | _ \<Rightarrow> False)"
| "has_type (TUnion ts) v = list_ex (\<lambda>t. has_type t v) ts"
| "has_type (TInter ts) v = list_all (\<lambda>t. has_type t v) ts"

section \<open>Schemas\<close>

datatype zcheck = Gte rat | Gt rat | Lte rat | MinLength nat | MaxLength nat | Regex string

datatype zschema =
    ZString | ZInt | ZNumber | ZBoolean | ZNull | ZVoid | ZUnknown | ZDatetime | ZEmail
  | ZLiteral string | ZNumLiteral rat
  | ZEnum "string list"
  | ZArray zschema
  | ZRecord zschema zschema
  | ZObject "(string \<times> zschema) list"
  | ZUnion "zschema list"
  | ZDiscriminatedUnion string "zschema list"
  | ZOptional zschema
  | ZNullable zschema
  | ZNullish zschema
  | ZDefault zschema data
  | ZReadonly zschema
  | ZCheck zschema "zcheck list"

text \<open>What the data of a successful parse looks like.\<close>

fun output_of :: "(zschema \<Rightarrow> data \<Rightarrow> data option) \<Rightarrow> zschema \<Rightarrow> data \<Rightarrow> bool" where
  "output_of parse ZInt w = (\<exists>n. w = VNum n)"
| "output_of parse ZNumber w = (\<exists>n. w = VNum n)"
| "output_of parse ZBoolean w = (\<exists>b. w = VBool b)"
| "output_of parse ZNull w = (w = VNull)"
| "output_of parse ZVoid w = (w = VUndefined)"
| "output_of parse ZUnknown w = True"
| "output_of parse (ZLiteral s) w = (w = VStr s)"
| "output_of parse (ZNumLiteral n) w = (w = VNum n)"
| "output_of parse (ZEnum ss) w = (\<exists>s \<in> set ss. w = VStr s)"
| "output_of parse (ZArray z) w = (\<exists>ws. w = VArray ws \<and> (\<forall>x \<in> set ws. \<exists>u. parse z u = Some x))"
| "output_of parse (ZRecord k z) w = (\<exists>es. w = VObject es \<and> (\<forall>e \<in> set es. \<exists>u. parse z u = Some (snd e)))"
| "output_of parse (ZObject fs) w =
     (\<exists>es. w = VObject es \<and> (\<forall>f \<in> set fs. \<exists>u. parse (snd f) u = Some (read_field es (fst f))))"
| "output_of parse (ZUnion zs) w = (\<exists>z \<in> set zs. \<exists>u. parse z u = Some w)"
| "output_of parse (ZDiscriminatedUnion d zs) w = (\<exists>z \<in> set zs. \<exists>u. parse z u = Some w)"
| "output_of parse (ZOptional z) w = (w = VUndefined \<or> (\<exists>u. parse z u = Some w))"
| "output_of parse (ZNullable z) w = (w = VNull \<or> (\<exists>u. parse z u = Some w))"
| "output_of parse (ZNullish z) w = (w = VNull \<or> w = VUndefined \<or> (\<exists>u. parse z u = Some w))"
| "output_of parse (ZDefault z d) w = (w = d \<or> w \<noteq> VUndefined \<and> (\<exists>u. parse z u = Some w))"
| "output_of parse (ZReadonly z) w = (\<exists>u. parse z u = Some w)"
| "output_of parse (ZCheck z cs) w = (\<exists>u. parse z u = Some w)"
| "output_of parse _ w = (\<exists>s. w = VStr s)" \<comment> \<open>the string formats\<close>

definition zod_outputs :: "(zschema \<Rightarrow> data \<Rightarrow> data option) \<Rightarrow> bool" where
  "zod_outputs parse \<longleftrightarrow> (\<forall>z v w. parse z v = Some w \<longrightarrow> output_of parse z w)"

section \<open>The type of a schema's output\<close>

fun may_be_undefined :: "ts_type \<Rightarrow> bool" where
  "may_be_undefined TUndefined = True"
| "may_be_undefined TVoid = True"
| "may_be_undefined TUnknown = True"
| "may_be_undefined (TUnion ts) = list_ex may_be_undefined ts"
| "may_be_undefined (TInter ts) = list_all may_be_undefined ts"
| "may_be_undefined _ = False"

fun defined_part :: "ts_type \<Rightarrow> ts_type" where
  "defined_part TUndefined = TNever"
| "defined_part (TUnion ts) = TUnion (map defined_part ts)"
| "defined_part t = t"

fun type_of_value :: "data \<Rightarrow> ts_type" where
  "type_of_value (VStr s) = TLit s"
| "type_of_value (VNum n) = TNumLit n"
| "type_of_value (VBool b) = TBoolean"
| "type_of_value VNull = TNull"
| "type_of_value VUndefined = TUndefined"
| "type_of_value (VArray []) = TArray TNever"
| "type_of_value (VArray vs) = TUnknown"
| "type_of_value (VObject es) =
     (if distinct (map fst es) then TObject (map (\<lambda>e. (fst e, False, type_of_value (snd e))) es)
      else TUnknown)"

fun infer :: "zschema \<Rightarrow> ts_type" where
  "infer ZInt = TNumber"
| "infer ZNumber = TNumber"
| "infer ZBoolean = TBoolean"
| "infer ZNull = TNull"
| "infer ZVoid = TUndefined"
| "infer ZUnknown = TUnknown"
| "infer (ZLiteral s) = TLit s"
| "infer (ZNumLiteral n) = TNumLit n"
| "infer (ZEnum ss) = TOneOf ss"
| "infer (ZArray z) = TArray (infer z)"
| "infer (ZRecord k z) = TRecord (infer z)"
| "infer (ZObject fs) = TObject (map (\<lambda>f. (fst f, may_be_undefined (infer (snd f)), infer (snd f))) fs)"
| "infer (ZUnion zs) = TUnion (map infer zs)"
| "infer (ZDiscriminatedUnion d zs) = TUnion (map infer zs)"
| "infer (ZOptional z) = TUnion [infer z, TUndefined]"
| "infer (ZNullable z) = TUnion [infer z, TNull]"
| "infer (ZNullish z) = TUnion [infer z, TNull, TUndefined]"
| "infer (ZDefault z d) = TUnion [defined_part (infer z), type_of_value d]"
| "infer (ZReadonly z) = infer z"
| "infer (ZCheck z cs) = infer z"
| "infer _ = TString"

lemma size_ts_elem [termination_simp]: "t \<in> set ts \<Longrightarrow> size t < Suc (size_list size ts)" for t :: ts_type
  using size_list_estimation' [of t ts "size t" size] by simp

lemma size_ts_field [termination_simp]:
  "f \<in> set fs \<Longrightarrow> size (snd (snd f)) + 3 \<le> size_list (size_prod (\<lambda>x. 0) (size_prod (\<lambda>x. 0) size)) fs"
  for f :: "string \<times> bool \<times> ts_type"
  by (induction fs) (auto simp: size_prod_def)

fun find_field :: "string \<Rightarrow> (string \<times> 'a) list \<Rightarrow> (string \<times> 'a) option" where
  "find_field k [] = None"
| "find_field k (f # fs) = (if fst f = k then Some f else find_field k fs)"

lemma find_field_member: "find_field k fs = Some f \<Longrightarrow> f \<in> set fs"
  by (induction fs) (auto split: if_splits)

text \<open>An executable part of assignability.\<close>

function subtype :: "ts_type \<Rightarrow> ts_type \<Rightarrow> bool" where
  "subtype a b =
     (case a of
        TUnion ts \<Rightarrow> if b = TUnknown then True else list_all (\<lambda>t. subtype t b) ts
      | TNever \<Rightarrow> True
      | _ \<Rightarrow>
         (case b of
            TUnknown \<Rightarrow> True
          | TInter us \<Rightarrow> list_all (\<lambda>u. subtype a u) us
          | TUnion us \<Rightarrow> list_ex (\<lambda>u. subtype a u) us
          | TString \<Rightarrow> (case a of TString \<Rightarrow> True | TLit _ \<Rightarrow> True | TOneOf _ \<Rightarrow> True | _ \<Rightarrow> False)
          | TNumber \<Rightarrow> (case a of TNumber \<Rightarrow> True | TNumLit _ \<Rightarrow> True | _ \<Rightarrow> False)
          | TBoolean \<Rightarrow> (case a of TBoolean \<Rightarrow> True | _ \<Rightarrow> False)
          | TNull \<Rightarrow> (case a of TNull \<Rightarrow> True | _ \<Rightarrow> False)
          | TUndefined \<Rightarrow> (case a of TUndefined \<Rightarrow> True | _ \<Rightarrow> False)
          | TVoid \<Rightarrow> (case a of TUndefined \<Rightarrow> True | _ \<Rightarrow> False)
          | TNever \<Rightarrow> False
          | TLit s' \<Rightarrow> (case a of TLit s \<Rightarrow> s = s' | _ \<Rightarrow> False)
          | TNumLit n' \<Rightarrow> (case a of TNumLit n \<Rightarrow> n = n' | _ \<Rightarrow> False)
          | TOneOf ss' \<Rightarrow>
              (case a of TLit s \<Rightarrow> s \<in> set ss' | TOneOf ss \<Rightarrow> if ss = ss' then True else list_all (\<lambda>s. s \<in> set ss') ss | _ \<Rightarrow> False)
          | TArray u \<Rightarrow> (case a of TArray t \<Rightarrow> subtype t u | _ \<Rightarrow> False)
          | TRecord u \<Rightarrow> (case a of TRecord t \<Rightarrow> subtype t u | TObject fs \<Rightarrow> u = TUnknown | _ \<Rightarrow> False)
          | TObject gs \<Rightarrow>
              (case a of
                 TObject fs \<Rightarrow>
                   list_all (\<lambda>g.
                     case find_field (fst g) fs of
                       None \<Rightarrow> False
                     | Some f \<Rightarrow>
                         if fst g = fst f \<and> (\<not> fst (snd f) \<or> fst (snd g) \<or> may_be_undefined (snd (snd g)))
                         then subtype (snd (snd f))
                           (if fst (snd g) then TUnion [snd (snd g), TUndefined] else snd (snd g))
                         else False) gs
               | _ \<Rightarrow> False)))"
  by pat_completeness auto
termination
  by (relation "measure (\<lambda>(a, b). size a + size b)")
    (auto simp: less_Suc_eq_le dest!: find_field_member size_ts_elem size_ts_field split: if_splits)

declare subtype.simps [simp del]

section \<open>Soundness\<close>

lemma undefined_type: "has_type t VUndefined \<longleftrightarrow> may_be_undefined t"
  by (induction t) (auto simp: list_ex_iff list_all_iff)

lemma defined_part_type: "has_type t w \<Longrightarrow> w \<noteq> VUndefined \<Longrightarrow> has_type (defined_part t) w"
  by (induction t) (auto simp: list_ex_iff)

lemma has_object:
  "has_type (TObject fs) v \<longleftrightarrow> (\<exists>es. v = VObject es \<and> (\<forall>f \<in> set fs.
     fst (snd f) \<and> read_field es (fst f) = VUndefined \<or> has_type (snd (snd f)) (read_field es (fst f))))"
  by (cases v) (auto simp: list_all_iff)

lemma type_of_value_type: "has_type (type_of_value v) v"
proof (induction v rule: type_of_value.induct)
  case (8 es)
  have "has_type (type_of_value w) w" if "(k, w) \<in> set es" "distinct (map fst es)" for k w
    using 8 [OF that(2,1)] by simp
  then show ?case by (auto simp: has_object read_field_def simp del: has_type.simps(14))
qed auto

lemma subtype_object:
  assumes IH: "\<And>f g v. f \<in> set fs \<Longrightarrow> g \<in> set gs \<Longrightarrow> fst (snd g) \<Longrightarrow>
        subtype (snd (snd f)) (TUnion [snd (snd g), TUndefined]) \<Longrightarrow> has_type (snd (snd f)) v \<Longrightarrow>
        has_type (TUnion [snd (snd g), TUndefined]) v"
    and IH': "\<And>f g v. f \<in> set fs \<Longrightarrow> g \<in> set gs \<Longrightarrow> subtype (snd (snd f)) (snd (snd g)) \<Longrightarrow>
        has_type (snd (snd f)) v \<Longrightarrow> has_type (snd (snd g)) v"
    and "subtype (TObject fs) (TObject gs)" and "has_type (TObject fs) v"
  shows "has_type (TObject gs) v"
proof -
  obtain es where v: "v = VObject es"
    and fs: "\<And>f. f \<in> set fs \<Longrightarrow> fst (snd f) \<and> read_field es (fst f) = VUndefined \<or>
        has_type (snd (snd f)) (read_field es (fst f))"
    using assms(4) unfolding has_object by blast
  have "fst (snd g) \<and> read_field es (fst g) = VUndefined \<or> has_type (snd (snd g)) (read_field es (fst g))"
    if g: "g \<in> set gs" for g
  proof -
    have "(case find_field (fst g) fs of
                       None \<Rightarrow> False
                     | Some f \<Rightarrow>
                         if fst g = fst f \<and> (\<not> fst (snd f) \<or> fst (snd g) \<or> may_be_undefined (snd (snd g)))
                         then subtype (snd (snd f))
                           (if fst (snd g) then TUnion [snd (snd g), TUndefined] else snd (snd g))
                         else False)"
      using assms(3) g by (simp add: subtype.simps [of "TObject fs"] list_all_iff)
    then obtain f where f: "f \<in> set fs" "fst f = fst g"
      "fst (snd f) \<longrightarrow> fst (snd g) \<or> may_be_undefined (snd (snd g))"
      "if fst (snd g) then subtype (snd (snd f)) (TUnion [snd (snd g), TUndefined])
       else subtype (snd (snd f)) (snd (snd g))"
      using find_field_member [of "fst g" fs] by (fastforce split: option.splits if_splits)
    show ?thesis
      using fs [OF f(1)] f(2-4) IH [OF f(1) g] IH' [OF f(1) g] undefined_type [of "snd (snd g)"]
      by (auto split: if_splits)
  qed
  then show ?thesis unfolding has_object v by blast
qed

definition simple_type :: "ts_type \<Rightarrow> bool" where
  "simple_type t \<longleftrightarrow> (case t of TUnion _ \<Rightarrow> False | TNever \<Rightarrow> False | _ \<Rightarrow> True)"

lemma subtype_union: "subtype (TUnion ts) b \<longleftrightarrow> b = TUnknown \<or> list_all (\<lambda>t. subtype t b) ts"
  by (simp add: subtype.simps [of "TUnion ts"])

lemma subtype_to_inter: "simple_type a \<Longrightarrow> subtype a (TInter us) \<longleftrightarrow> list_all (\<lambda>u. subtype a u) us"
  by (cases a) (simp_all add: simple_type_def subtype.simps [of _ "TInter us"])

lemma subtype_to_union: "simple_type a \<Longrightarrow> subtype a (TUnion us) \<longleftrightarrow> list_ex (\<lambda>u. subtype a u) us"
  by (cases a) (simp_all add: simple_type_def subtype.simps [of _ "TUnion us"])

definition leaf_type :: "ts_type \<Rightarrow> bool" where
  "leaf_type t \<longleftrightarrow> (case t of TUnion _ \<Rightarrow> False | TInter _ \<Rightarrow> False | TUnknown \<Rightarrow> False | _ \<Rightarrow> True)"

text \<open>Between types that are neither unions nor intersections.\<close>

lemma subtype_leaf:
  assumes "simple_type a" and "leaf_type b" and "subtype a b" and "has_type a v"
    and array: "\<And>t u w. a = TArray t \<Longrightarrow> b = TArray u \<Longrightarrow> subtype t u \<Longrightarrow> has_type t w \<Longrightarrow> has_type u w"
    and rcd: "\<And>t u w. a = TRecord t \<Longrightarrow> b = TRecord u \<Longrightarrow> subtype t u \<Longrightarrow> has_type t w \<Longrightarrow> has_type u w"
    and obj: "\<And>fs gs. a = TObject fs \<Longrightarrow> b = TObject gs \<Longrightarrow> subtype a b \<Longrightarrow> has_type b v"
  shows "has_type b v"
proof -
  note sub = assms(3) [unfolded subtype.simps [of a b]]
  show ?thesis
  proof (cases a)
  case (TArray t)
  then show ?thesis
    using assms(1-4) array by (cases b) (auto simp: leaf_type_def subtype.simps [of "TArray t"] list_all_iff split: data.splits)
next
  case (TRecord t)
  then show ?thesis
    using assms(1-4) rcd by (cases b) (auto simp: leaf_type_def subtype.simps [of "TRecord t"] list_all_iff split: data.splits)
next
  case (TObject fs)
  show ?thesis
  proof (cases b)
    case gs: (TObject gs)
    then show ?thesis using obj TObject assms(3) by blast
  next
    case (TRecord u)
    then show ?thesis
      using TObject assms(3,4) by (auto simp: subtype.simps [of "TObject fs"] list_all_iff split: data.splits)
  qed (use TObject assms(2,3) in \<open>auto simp: leaf_type_def subtype.simps [of "TObject fs"]\<close>)
qed (use sub assms(1,2,4) in \<open>cases b; auto simp: simple_type_def leaf_type_def list_all_iff
       split: data.splits if_splits\<close>)+
qed

lemma subtype_sound: "subtype a b \<Longrightarrow> has_type a v \<Longrightarrow> has_type b v"
proof (induction "size a + size b" arbitrary: a b v rule: less_induct)
  case less
  note IH = less(1) and sub = less(2) and v = less(3)
  show ?case
  proof (cases "simple_type a")
    case False
    then obtain ts where "a = TUnion ts \<or> a = TNever" by (cases a) (auto simp: simple_type_def)
    with v obtain t where t: "a = TUnion ts" "t \<in> set ts" "has_type t v" by (auto simp: list_ex_iff)
    then show ?thesis
      using sub IH [of t b v] size_ts_elem [of t ts] by (auto simp: subtype_union list_all_iff)
  next
    case a: True
    show ?thesis
    proof (cases "leaf_type b")
      case False
      then consider (union) us where "b = TUnion us" | (inter) us where "b = TInter us" | "b = TUnknown"
        by (cases b) (auto simp: leaf_type_def)
      then show ?thesis
      proof cases
        case union
        then obtain u where "u \<in> set us" "subtype a u"
          using sub a by (auto simp: subtype_to_union list_ex_iff)
        then show ?thesis using IH [of a u v] v union size_ts_elem [of u us] by (auto simp: list_ex_iff)
      next
        case inter
        have "has_type u v" if "u \<in> set us" for u
          using IH [of a u v] v inter sub a that size_ts_elem [of u us]
          by (simp add: subtype_to_inter list_all_iff)
        then show ?thesis using inter by (simp add: list_all_iff)
      qed simp
    next
      case b: True
      show ?thesis
      proof (rule subtype_leaf [OF a b sub v])
        fix t u w assume "a = TArray t" "b = TArray u" "subtype t u" "has_type t w"
        then show "has_type u w" using IH [of t u w] by simp
      next
        fix t u w assume "a = TRecord t" "b = TRecord u" "subtype t u" "has_type t w"
        then show "has_type u w" using IH [of t u w] by simp
      next
        fix fs gs assume o: "a = TObject fs" "b = TObject gs" "subtype a b"
        have s: "size (snd (snd f)) + 3 \<le> size a" if "f \<in> set fs" for f
          using size_ts_field [OF that] o(1) by simp
        have s': "size (snd (snd g)) + 3 \<le> size b" if "g \<in> set gs" for g
          using size_ts_field [OF that] o(2) by simp
        show "has_type b v"
          unfolding o(2)
        proof (rule subtype_object [where fs = fs])
          fix f g v' assume "f \<in> set fs" "g \<in> set gs"
            and "subtype (snd (snd f)) (TUnion [snd (snd g), TUndefined])" "has_type (snd (snd f)) v'"
          then show "has_type (TUnion [snd (snd g), TUndefined]) v'"
            using IH [of "snd (snd f)" "TUnion [snd (snd g), TUndefined]" v'] s [of f] s' [of g] by simp
        next
          fix f g v' assume "f \<in> set fs" "g \<in> set gs"
            and "subtype (snd (snd f)) (snd (snd g))" "has_type (snd (snd f)) v'"
          then show "has_type (snd (snd g)) v'"
            using IH [of "snd (snd f)" "snd (snd g)" v'] s [of f] s' [of g] by simp
        qed (use o v sub in simp_all)
      qed
    qed
  qed
qed

lemma parsed_output: "zod_outputs parse \<Longrightarrow> parse z u = Some w \<Longrightarrow> output_of parse z w"
  by (simp add: zod_outputs_def)

lemma infer_sound:
  assumes "zod_outputs parse"
  shows "parse z u = Some w \<Longrightarrow> has_type (infer z) w"
proof (induction z arbitrary: u w)
  case (ZObject fs)
  obtain es where w: "w = VObject es"
    and fs: "\<And>f. f \<in> set fs \<Longrightarrow> \<exists>u. parse (snd f) u = Some (read_field es (fst f))"
    using parsed_output [OF assms ZObject(2)] by fastforce
  have "has_type (infer (snd f)) (read_field es (fst f))" if "f \<in> set fs" for f
    using fs [OF that] ZObject(1) [of f "snd f"] that by (cases f) fastforce
  then show ?case unfolding infer.simps has_object w by auto
next
  case (ZDefault z d)
  then show ?case
    using parsed_output [OF assms ZDefault(2)] type_of_value_type [of d] defined_part_type [of "infer z" w] by auto
next
  case (ZArray z)
  then show ?case using parsed_output [OF assms ZArray(2)] by (fastforce simp: list_all_iff)
next
  case (ZRecord k z)
  then show ?case using parsed_output [OF assms ZRecord(3)] by (fastforce simp: list_all_iff)
next
  case (ZUnion zs)
  then show ?case using parsed_output [OF assms ZUnion(2)] by (fastforce simp: list_ex_iff)
next
  case (ZDiscriminatedUnion d zs)
  then show ?case using parsed_output [OF assms ZDiscriminatedUnion(2)] by (fastforce simp: list_ex_iff)
next
  case (ZOptional z)
  then show ?case using parsed_output [OF assms ZOptional(2)] by fastforce
next
  case (ZNullable z)
  then show ?case using parsed_output [OF assms ZNullable(2)] by fastforce
next
  case (ZNullish z)
  then show ?case using parsed_output [OF assms ZNullish(2)] by fastforce
next
  case (ZReadonly z)
  then show ?case using parsed_output [OF assms ZReadonly(2)] by fastforce
next
  case (ZCheck z cs)
  then show ?case using parsed_output [OF assms ZCheck(2)] by fastforce
qed (use parsed_output [OF assms] in \<open>force+\<close>)

text \<open>A schema whose inferred type is assignable to a declared type lets only its values through.\<close>

lemma schema_sound:
  "zod_outputs parse \<Longrightarrow> subtype (infer z) t \<Longrightarrow> parse z u = Some w \<Longrightarrow> has_type t w"
  by (rule subtype_sound [OF _ infer_sound])

section \<open>An instance of the parameter\<close>

text \<open>
  A parser that satisfies \<open>zod_outputs\<close>, checks ignored: it shows that the hypothesis can hold and
  lets concrete documents be parsed.
\<close>

fun first_some :: "'a option list \<Rightarrow> 'a option" where
  "first_some [] = None"
| "first_some (r # rs) = (case r of None \<Rightarrow> first_some rs | Some x \<Rightarrow> Some x)"

fun zparse :: "zschema \<Rightarrow> data \<Rightarrow> data option" where
  "zparse ZInt v = (case v of VNum _ \<Rightarrow> Some v | _ \<Rightarrow> None)"
| "zparse ZNumber v = (case v of VNum _ \<Rightarrow> Some v | _ \<Rightarrow> None)"
| "zparse ZBoolean v = (case v of VBool _ \<Rightarrow> Some v | _ \<Rightarrow> None)"
| "zparse ZNull v = (if v = VNull then Some v else None)"
| "zparse ZVoid v = (if v = VUndefined then Some v else None)"
| "zparse ZUnknown v = Some v"
| "zparse (ZLiteral s) v = (if v = VStr s then Some v else None)"
| "zparse (ZNumLiteral n) v = (if v = VNum n then Some v else None)"
| "zparse (ZEnum ss) v = (case v of VStr s \<Rightarrow> if s \<in> set ss then Some v else None | _ \<Rightarrow> None)"
| "zparse (ZArray z) v =
     (case v of VArray vs \<Rightarrow> map_option VArray (those (map (zparse z) vs)) | _ \<Rightarrow> None)"
| "zparse (ZRecord k z) v =
     (case v of
        VObject es \<Rightarrow> map_option VObject (those (map (\<lambda>e. map_option (Pair (fst e)) (zparse z (snd e))) es))
      | _ \<Rightarrow> None)"
| "zparse (ZObject fs) v =
     (case v of
        VObject es \<Rightarrow>
          if distinct (map fst fs)
          then map_option VObject
            (those (map (\<lambda>f. map_option (Pair (fst f)) (zparse (snd f) (read_field es (fst f)))) fs))
          else None
      | _ \<Rightarrow> None)"
| "zparse (ZUnion zs) v = first_some (map (\<lambda>z. zparse z v) zs)"
| "zparse (ZDiscriminatedUnion d zs) v = first_some (map (\<lambda>z. zparse z v) zs)"
| "zparse (ZOptional z) v = (if v = VUndefined then Some v else zparse z v)"
| "zparse (ZNullable z) v = (if v = VNull then Some v else zparse z v)"
| "zparse (ZNullish z) v = (if v = VUndefined \<or> v = VNull then Some v else zparse z v)"
| "zparse (ZDefault z d) v =
     (if v = VUndefined then Some d
      else map_option (\<lambda>w. if w = VUndefined then d else w) (zparse z v))"
| "zparse (ZReadonly z) v = zparse z v"
| "zparse (ZCheck z cs) v = zparse z v"
| "zparse _ v = (case v of VStr _ \<Rightarrow> Some v | _ \<Rightarrow> None)"

lemma those_Some: "those (map f xs) = Some ys \<longleftrightarrow> length ys = length xs \<and> (\<forall>i < length xs. f (xs ! i) = Some (ys ! i))"
proof (induction xs arbitrary: ys)
  case (Cons x xs)
  then show ?case
    by (cases ys) (auto simp: nth_Cons split: option.splits nat.splits)
qed auto

lemma those_member: "those (map f xs) = Some ys \<Longrightarrow> y \<in> set ys \<Longrightarrow> \<exists>x \<in> set xs. f x = Some y"
  by (auto simp: those_Some in_set_conv_nth) (metis nth_mem)

lemma those_map_of:
  assumes "those (map (\<lambda>f. map_option (Pair (fst f)) (g f)) fs) = Some ps" and "distinct (map fst fs)"
    and "f \<in> set fs"
  shows "\<exists>w. map_of ps (fst f) = Some w \<and> g f = Some w"
proof -
  have len: "length ps = length fs" and eq: "\<And>i. i < length fs \<Longrightarrow> map_option (Pair (fst (fs ! i))) (g (fs ! i)) = Some (ps ! i)"
    using assms(1) by (auto simp: those_Some)
  have "fst (ps ! i) = fst (fs ! i)" if "i < length fs" for i
    using eq [OF that] by (auto simp: map_option_eq_Some) (metis fst_conv)
  then have "map fst ps = map fst fs" using len by (intro nth_equalityI) auto
  then have d: "distinct (map fst ps)" using assms(2) by simp
  obtain i where i: "i < length fs" "f = fs ! i" using assms(3) by (auto simp: in_set_conv_nth)
  then obtain w where w: "g f = Some w" "ps ! i = (fst f, w)" using eq [of i] by (auto simp: map_option_eq_Some)
  then have "(fst f, w) \<in> set ps" using i(1) len by (metis nth_mem)
  then show ?thesis using d w(1) by (auto intro: map_of_is_SomeI)
qed

lemma first_some_member: "first_some (map g zs) = Some w \<Longrightarrow> \<exists>z \<in> set zs. g z = Some w"
  by (induction zs) (auto split: option.splits)

lemma zparse_outputs: "zod_outputs zparse"
proof -
  have "output_of zparse z w" if p: "zparse z v = Some w" for z v w
  proof (cases z)
    case (ZArray x)
    with p obtain vs ws where w: "w = VArray ws" "those (map (zparse x) vs) = Some ws"
      by (auto split: data.splits)
    then show ?thesis using ZArray those_member [OF w(2)] by auto
  next
    case (ZRecord k x)
    with p obtain es ps where w: "w = VObject ps"
      "those (map (\<lambda>e. map_option (Pair (fst e)) (zparse x (snd e))) es) = Some ps"
      by (auto split: data.splits)
    then show ?thesis using ZRecord those_member [OF w(2)] by fastforce
  next
    case (ZObject fs)
    with p obtain es ps where w: "w = VObject ps" "distinct (map fst fs)"
      "those (map (\<lambda>f. map_option (Pair (fst f)) (zparse (snd f) (read_field es (fst f)))) fs) = Some ps"
      by (auto split: data.splits if_splits)
    then show ?thesis
      using ZObject those_map_of [OF w(3,2)] by (fastforce simp: read_field_def)
  next
    case (ZUnion zs)
    then show ?thesis using p first_some_member by fastforce
  next
    case (ZDiscriminatedUnion d zs)
    then show ?thesis using p first_some_member by fastforce
  next
    case (ZDefault x d)
    then show ?thesis using p by (auto simp: map_option_eq_Some split: if_splits)
  qed (use p in \<open>auto split: data.splits if_splits\<close>)
  then show ?thesis by (simp add: zod_outputs_def)
qed

section \<open>Rules for checking one schema after another\<close>

named_theorems wire \<comment> \<open>what is known of the named schemas and types\<close>

lemma subtype_unknown [simp]: "subtype a TUnknown"
  by (cases a) (simp_all add: subtype.simps [of _ TUnknown])

lemma subtype_never [simp]: "subtype TNever b"
  by (simp add: subtype.simps [of TNever])

lemma subtype_elem: "subtype (TUnion ts) u \<Longrightarrow> t \<in> set ts \<Longrightarrow> subtype t u"
  by (auto simp: subtype_union list_all_iff)

lemma subtype_unionI: "(\<And>t. t \<in> set ts \<Longrightarrow> subtype t u) \<Longrightarrow> subtype (TUnion ts) u"
  by (simp add: subtype_union list_all_iff)

lemma not_simple: "\<not> simple_type a \<Longrightarrow> a = TNever \<or> (\<exists>ts. a = TUnion ts)"
  by (cases a) (auto simp: simple_type_def)

lemma subtype_union_right: "list_ex (subtype a) us \<Longrightarrow> subtype a (TUnion us)"
proof (induction a)
  case (TUnion ts)
  then show ?case by (auto simp: list_ex_iff dest: subtype_elem intro!: subtype_unionI)
qed (auto simp: subtype_to_union simple_type_def)

lemma subtype_inter_right: "list_all (subtype a) us \<Longrightarrow> subtype a (TInter us)"
proof (induction a)
  case (TUnion ts)
  then show ?case by (auto simp: list_all_iff dest: subtype_elem intro!: subtype_unionI)
qed (auto simp: subtype_to_inter simple_type_def)

lemma subtype_defined_part: "subtype a u \<Longrightarrow> subtype (defined_part a) u"
proof (induction a)
  case (TUnion ts)
  then show ?case using subtype_elem [OF TUnion(2)] by (auto intro!: subtype_unionI)
qed auto

lemma subtype_objects:
  "subtype (TObject fs) (TObject gs) \<longleftrightarrow>
     list_all (\<lambda>g. case find_field (fst g) fs of
         None \<Rightarrow> False
       | Some f \<Rightarrow>
           (\<not> fst (snd f) \<or> fst (snd g) \<or> may_be_undefined (snd (snd g))) \<and>
           subtype (snd (snd f)) (if fst (snd g) then TUnion [snd (snd g), TUndefined] else snd (snd g))) gs"
proof -
  have "fst f = k" if "find_field k fs = Some f" for k f
    using that by (induction fs) (auto split: if_splits)
  then have "(case find_field (fst g) fs of
         None \<Rightarrow> False
       | Some f \<Rightarrow>
           if fst g = fst f \<and> (\<not> fst (snd f) \<or> fst (snd g) \<or> may_be_undefined (snd (snd g)))
           then subtype (snd (snd f)) (if fst (snd g) then TUnion [snd (snd g), TUndefined] else snd (snd g))
           else False) \<longleftrightarrow>
       (case find_field (fst g) fs of
         None \<Rightarrow> False
       | Some f \<Rightarrow>
           (\<not> fst (snd f) \<or> fst (snd g) \<or> may_be_undefined (snd (snd g))) \<and>
           subtype (snd (snd f)) (if fst (snd g) then TUnion [snd (snd g), TUndefined] else snd (snd g)))" for g
    by (cases "find_field (fst g) fs") simp_all
  then show ?thesis by (simp add: subtype.simps [of "TObject fs" "TObject gs"])
qed

lemma subtype_leaves:
  "subtype TString TString" "subtype TNumber TNumber" "subtype TBoolean TBoolean" "subtype TNull TNull"
  "subtype TUndefined TUndefined" "subtype TUndefined TVoid" "subtype (TLit s) TString" "subtype (TNumLit n) TNumber"
  "subtype (TLit s) (TLit s')  \<longleftrightarrow> s = s'" "subtype (TNumLit n) (TNumLit n') \<longleftrightarrow> n = n'"
  "subtype (TArray t) (TArray u) \<longleftrightarrow> subtype t u" "subtype (TRecord t) (TRecord u) \<longleftrightarrow> subtype t u"
  "subtype (TObject fs) (TRecord TUnknown)"
  "subtype (TLit s) (TOneOf ss) \<longleftrightarrow> s \<in> set ss" "subtype (TOneOf ss) (TOneOf ss)"
  "subtype TNull TString = False" "subtype TNull TNumber = False" "subtype TUndefined TNull = False"
  "subtype TUndefined TString = False" "subtype TString TNull = False" "subtype TNumber TNull = False"
  by (simp_all add: subtype.simps [of _ TString] subtype.simps [of _ TNumber] subtype.simps [of _ TBoolean]
      subtype.simps [of _ TNull] subtype.simps [of _ TUndefined] subtype.simps [of _ TVoid]
      subtype.simps [of _ "TLit s'"] subtype.simps [of _ "TNumLit n'"] subtype.simps [of _ "TArray u"]
      subtype.simps [of _ "TRecord u"] subtype.simps [of _ "TRecord TUnknown"] subtype.simps [of _ "TOneOf ss"])

text \<open>Unions whose members correspond one by one.\<close>

lemma subtype_unions: "list_all2 subtype as bs \<Longrightarrow> subtype (TUnion as) (TUnion bs)"
  by (intro subtype_unionI subtype_union_right)
    (auto simp: list_ex_iff list_all2_conv_all_nth in_set_conv_nth, metis nth_mem)

lemma may_be_undefined_defined_part: "\<not> may_be_undefined t \<Longrightarrow> \<not> may_be_undefined (defined_part t)"
  by (induction t) (auto simp: list_ex_iff)

lemmas subtype_rules = subtype_leaves subtype_objects subtype_union subtype_union_right
  subtype_inter_right subtype_defined_part subtype_unions may_be_undefined_defined_part

end
