(* ===== verification/WireTypes.thy ===== *)
theory WireTypes
  imports Schema ApiTypes
begin

text \<open>
  The type declarations of \<^verbatim>\<open>frontend/src/lib/api/types.gen.ts\<close>, each \<open>export type X\<close> as \<open>X_type\<close>: what
  travels to and from the server, the data every endpoint takes, its responses and its errors.
  \<open>values_of\<close> is the indexed access \<open>X[keyof X]\<close>; an object with an index signature beside its
  fields is an intersection.
\<close>

fun values_of :: "ts_type \<Rightarrow> ts_type" where
  "values_of (TObject fs) = TUnion (map (\<lambda>f. snd (snd f)) fs)"
| "values_of _ = TNever"

definition ExecutionErrorType_type :: ts_type where
  "ExecutionErrorType_type =
     TOneOf (map ExecutionErrorType_value ExecutionErrorType_members)"

definition ExecutionStatus_type :: ts_type where
  "ExecutionStatus_type =
     TOneOf (map ExecutionStatus_value ExecutionStatus_members)"

definition QueuePriority_type :: ts_type where
  "QueuePriority_type =
     TOneOf (map QueuePriority_value QueuePriority_members)"

definition AdminExecutionResponse_type :: ts_type where
  "AdminExecutionResponse_type =
     TObject [
      (''execution_id'', False, TString),
      (''script'', False, TString),
      (''status'', False, ExecutionStatus_type),
      (''lang'', False, TString),
      (''lang_version'', False, TString),
      (''stdout'', False, TUnion [TString, TNull]),
      (''stderr'', False, TUnion [TString, TNull]),
      (''exit_code'', False, TUnion [TNumber, TNull]),
      (''error_type'', False, TUnion [ExecutionErrorType_type, TNull]),
      (''priority'', False, QueuePriority_type),
      (''user_id'', False, TUnion [TString, TNull]),
      (''created_at'', False, TString),
      (''updated_at'', False, TString)]"

definition AdminExecutionListResponse_type :: ts_type where
  "AdminExecutionListResponse_type =
     TObject [
      (''executions'', False, TArray AdminExecutionResponse_type),
      (''total'', False, TNumber),
      (''limit'', False, TNumber),
      (''skip'', False, TNumber),
      (''has_more'', False, TBoolean)]"

definition Environment_type :: ts_type where
  "Environment_type =
     TOneOf (map Environment_value Environment_members)"

definition EventMetadata_type :: ts_type where
  "EventMetadata_type =
     TObject [
      (''service_name'', False, TString),
      (''service_version'', False, TString),
      (''user_id'', False, TString),
      (''environment'', True, Environment_type)]"

definition AuthFailedEvent_type :: ts_type where
  "AuthFailedEvent_type =
     TObject [
      (''event_id'', False, TString),
      (''event_type'', False, TLit ''auth_failed''),
      (''event_version'', False, TString),
      (''timestamp'', False, TString),
      (''aggregate_id'', True, TUnion [TString, TNull]),
      (''metadata'', False, EventMetadata_type),
      (''username'', True, TUnion [TString, TNull]),
      (''reason'', True, TString),
      (''ip_address'', True, TUnion [TString, TNull])]"

definition DerivedCounts_type :: ts_type where
  "DerivedCounts_type =
     TObject [
      (''succeeded'', False, TNumber),
      (''failed'', False, TNumber),
      (''timeout'', False, TNumber),
      (''cancelled'', False, TNumber),
      (''terminal_total'', False, TNumber)]"

definition EventType_type :: ts_type where
  "EventType_type =
     TOneOf (map EventType_value EventType_members)"

definition DlqMessageDiscardedEvent_type :: ts_type where
  "DlqMessageDiscardedEvent_type =
     TObject [
      (''event_id'', False, TString),
      (''event_type'', False, TLit ''dlq_message_discarded''),
      (''event_version'', False, TString),
      (''timestamp'', False, TString),
      (''aggregate_id'', True, TUnion [TString, TNull]),
      (''metadata'', False, EventMetadata_type),
      (''dlq_event_id'', True, TString),
      (''original_topic'', True, TString),
      (''original_event_type'', True, EventType_type),
      (''reason'', True, TString),
      (''retry_count'', True, TNumber)]"

definition DlqMessageReceivedEvent_type :: ts_type where
  "DlqMessageReceivedEvent_type =
     TObject [
      (''event_id'', False, TString),
      (''event_type'', False, TLit ''dlq_message_received''),
      (''event_version'', False, TString),
      (''timestamp'', False, TString),
      (''aggregate_id'', True, TUnion [TString, TNull]),
      (''metadata'', False, EventMetadata_type),
      (''dlq_event_id'', True, TString),
      (''original_topic'', True, TString),
      (''original_event_type'', True, EventType_type),
      (''error'', True, TString),
      (''retry_count'', True, TNumber),
      (''producer_id'', True, TString),
      (''failed_at'', True, TString)]"

definition DlqMessageRetriedEvent_type :: ts_type where
  "DlqMessageRetriedEvent_type =
     TObject [
      (''event_id'', False, TString),
      (''event_type'', False, TLit ''dlq_message_retried''),
      (''event_version'', False, TString),
      (''timestamp'', False, TString),
      (''aggregate_id'', True, TUnion [TString, TNull]),
      (''metadata'', False, EventMetadata_type),
      (''dlq_event_id'', True, TString),
      (''original_topic'', True, TString),
      (''original_event_type'', True, EventType_type),
      (''retry_count'', True, TNumber),
      (''retry_topic'', True, TString)]"

definition EventTypeCount_type :: ts_type where
  "EventTypeCount_type =
     TObject [(''event_type'', False, EventType_type), (''count'', False, TNumber)]"

definition HourlyEventCount_type :: ts_type where
  "HourlyEventCount_type =
     TObject [(''hour'', False, TString), (''count'', False, TNumber)]"

definition ServiceEventCount_type :: ts_type where
  "ServiceEventCount_type =
     TObject [(''service_name'', False, TString), (''count'', False, TNumber)]"

definition UserEventCount_type :: ts_type where
  "UserEventCount_type =
     TObject [(''user_id'', False, TString), (''event_count'', False, TNumber)]"

definition EventStatistics_type :: ts_type where
  "EventStatistics_type =
     TObject [
      (''total_events'', False, TNumber),
      (''events_by_type'', False, TArray EventTypeCount_type),
      (''events_by_service'', False, TArray ServiceEventCount_type),
      (''events_by_hour'', False, TArray HourlyEventCount_type),
      (''top_users'', False, TArray UserEventCount_type),
      (''error_rate'', False, TNumber),
      (''avg_processing_time'', False, TNumber),
      (''start_time'', False, TUnion [TString, TNull]),
      (''end_time'', False, TUnion [TString, TNull])]"

definition ExecutionAcceptedEvent_type :: ts_type where
  "ExecutionAcceptedEvent_type =
     TObject [
      (''event_id'', False, TString),
      (''event_type'', False, TLit ''execution_accepted''),
      (''event_version'', False, TString),
      (''timestamp'', False, TString),
      (''aggregate_id'', True, TUnion [TString, TNull]),
      (''metadata'', False, EventMetadata_type),
      (''execution_id'', True, TString),
      (''queue_position'', True, TNumber),
      (''estimated_wait_seconds'', True, TUnion [TNumber, TNull]),
      (''priority'', True, QueuePriority_type)]"

definition ExecutionCancelledEvent_type :: ts_type where
  "ExecutionCancelledEvent_type =
     TObject [
      (''event_id'', False, TString),
      (''event_type'', False, TLit ''execution_cancelled''),
      (''event_version'', False, TString),
      (''timestamp'', False, TString),
      (''aggregate_id'', True, TUnion [TString, TNull]),
      (''metadata'', False, EventMetadata_type),
      (''execution_id'', True, TString),
      (''cancelled_by'', True, TString),
      (''force_terminated'', True, TBoolean)]"

definition ResourceUsageDomain_type :: ts_type where
  "ResourceUsageDomain_type =
     TObject [
      (''execution_time_wall_seconds'', True, TNumber),
      (''cpu_time_jiffies'', True, TNumber),
      (''clk_tck_hertz'', True, TNumber),
      (''peak_memory_kb'', True, TNumber)]"

definition ExecutionCompletedEvent_type :: ts_type where
  "ExecutionCompletedEvent_type =
     TObject [
      (''event_id'', False, TString),
      (''event_type'', False, TLit ''execution_completed''),
      (''event_version'', False, TString),
      (''timestamp'', False, TString),
      (''aggregate_id'', True, TUnion [TString, TNull]),
      (''metadata'', False, EventMetadata_type),
      (''execution_id'', True, TString),
      (''exit_code'', True, TNumber),
      (''resource_usage'', True, ResourceUsageDomain_type),
      (''stdout'', True, TString),
      (''stderr'', True, TString)]"

definition ExecutionFailedEvent_type :: ts_type where
  "ExecutionFailedEvent_type =
     TObject [
      (''event_id'', False, TString),
      (''event_type'', False, TLit ''execution_failed''),
      (''event_version'', False, TString),
      (''timestamp'', False, TString),
      (''aggregate_id'', True, TUnion [TString, TNull]),
      (''metadata'', False, EventMetadata_type),
      (''execution_id'', True, TString),
      (''exit_code'', True, TNumber),
      (''error_type'', True, ExecutionErrorType_type),
      (''resource_usage'', True, TUnion [ResourceUsageDomain_type, TNull]),
      (''stdout'', True, TString),
      (''stderr'', True, TString)]"

definition ExecutionQueuedEvent_type :: ts_type where
  "ExecutionQueuedEvent_type =
     TObject [
      (''event_id'', False, TString),
      (''event_type'', False, TLit ''execution_queued''),
      (''event_version'', False, TString),
      (''timestamp'', False, TString),
      (''aggregate_id'', True, TUnion [TString, TNull]),
      (''metadata'', False, EventMetadata_type),
      (''execution_id'', True, TString),
      (''position_in_queue'', True, TUnion [TNumber, TNull]),
      (''estimated_start_time'', True, TUnion [TString, TNull])]"

definition ExecutionRequestedEvent_type :: ts_type where
  "ExecutionRequestedEvent_type =
     TObject [
      (''event_id'', False, TString),
      (''event_type'', False, TLit ''execution_requested''),
      (''event_version'', False, TString),
      (''timestamp'', False, TString),
      (''aggregate_id'', True, TUnion [TString, TNull]),
      (''metadata'', False, EventMetadata_type),
      (''execution_id'', True, TString),
      (''script'', True, TString),
      (''language'', True, TString),
      (''language_version'', True, TString),
      (''runtime_image'', True, TString),
      (''runtime_command'', True, TArray TString),
      (''runtime_filename'', True, TString),
      (''timeout_seconds'', True, TNumber),
      (''cpu_limit'', True, TString),
      (''memory_limit'', True, TString),
      (''cpu_request'', True, TString),
      (''memory_request'', True, TString),
      (''priority'', True, QueuePriority_type)]"

definition ExecutionRunningEvent_type :: ts_type where
  "ExecutionRunningEvent_type =
     TObject [
      (''event_id'', False, TString),
      (''event_type'', False, TLit ''execution_running''),
      (''event_version'', False, TString),
      (''timestamp'', False, TString),
      (''aggregate_id'', True, TUnion [TString, TNull]),
      (''metadata'', False, EventMetadata_type),
      (''execution_id'', True, TString),
      (''pod_name'', True, TString),
      (''progress_percentage'', True, TUnion [TNumber, TNull])]"

definition ExecutionStartedEvent_type :: ts_type where
  "ExecutionStartedEvent_type =
     TObject [
      (''event_id'', False, TString),
      (''event_type'', False, TLit ''execution_started''),
      (''event_version'', False, TString),
      (''timestamp'', False, TString),
      (''aggregate_id'', True, TUnion [TString, TNull]),
      (''metadata'', False, EventMetadata_type),
      (''execution_id'', True, TString),
      (''pod_name'', True, TString),
      (''node_name'', True, TUnion [TString, TNull]),
      (''container_id'', True, TUnion [TString, TNull])]"

definition ExecutionTimeoutEvent_type :: ts_type where
  "ExecutionTimeoutEvent_type =
     TObject [
      (''event_id'', False, TString),
      (''event_type'', False, TLit ''execution_timeout''),
      (''event_version'', False, TString),
      (''timestamp'', False, TString),
      (''aggregate_id'', True, TUnion [TString, TNull]),
      (''metadata'', False, EventMetadata_type),
      (''execution_id'', True, TString),
      (''timeout_seconds'', True, TNumber),
      (''resource_usage'', True, ResourceUsageDomain_type),
      (''stdout'', True, TString),
      (''stderr'', True, TString)]"

definition NotificationAllReadEvent_type :: ts_type where
  "NotificationAllReadEvent_type =
     TObject [
      (''event_id'', False, TString),
      (''event_type'', False, TLit ''notification_all_read''),
      (''event_version'', False, TString),
      (''timestamp'', False, TString),
      (''aggregate_id'', True, TUnion [TString, TNull]),
      (''metadata'', False, EventMetadata_type),
      (''user_id'', True, TString),
      (''count'', True, TNumber),
      (''read_at'', True, TString)]"

definition NotificationClickedEvent_type :: ts_type where
  "NotificationClickedEvent_type =
     TObject [
      (''event_id'', False, TString),
      (''event_type'', False, TLit ''notification_clicked''),
      (''event_version'', False, TString),
      (''timestamp'', False, TString),
      (''aggregate_id'', True, TUnion [TString, TNull]),
      (''metadata'', False, EventMetadata_type),
      (''notification_id'', True, TString),
      (''user_id'', True, TString),
      (''clicked_at'', True, TString),
      (''action'', True, TUnion [TString, TNull])]"

definition NotificationSeverity_type :: ts_type where
  "NotificationSeverity_type =
     TOneOf (map NotificationSeverity_value NotificationSeverity_members)"

definition NotificationCreatedEvent_type :: ts_type where
  "NotificationCreatedEvent_type =
     TObject [
      (''event_id'', False, TString),
      (''event_type'', False, TLit ''notification_created''),
      (''event_version'', False, TString),
      (''timestamp'', False, TString),
      (''aggregate_id'', True, TUnion [TString, TNull]),
      (''metadata'', False, EventMetadata_type),
      (''notification_id'', True, TString),
      (''user_id'', True, TString),
      (''subject'', True, TString),
      (''body'', True, TString),
      (''severity'', True, NotificationSeverity_type),
      (''tags'', True, TArray TString)]"

definition NotificationDeliveredEvent_type :: ts_type where
  "NotificationDeliveredEvent_type =
     TObject [
      (''event_id'', False, TString),
      (''event_type'', False, TLit ''notification_delivered''),
      (''event_version'', False, TString),
      (''timestamp'', False, TString),
      (''aggregate_id'', True, TUnion [TString, TNull]),
      (''metadata'', False, EventMetadata_type),
      (''notification_id'', True, TString),
      (''user_id'', True, TString),
      (''delivered_at'', True, TString)]"

definition NotificationFailedEvent_type :: ts_type where
  "NotificationFailedEvent_type =
     TObject [
      (''event_id'', False, TString),
      (''event_type'', False, TLit ''notification_failed''),
      (''event_version'', False, TString),
      (''timestamp'', False, TString),
      (''aggregate_id'', True, TUnion [TString, TNull]),
      (''metadata'', False, EventMetadata_type),
      (''notification_id'', True, TString),
      (''user_id'', True, TString),
      (''error'', True, TString),
      (''retry_count'', True, TNumber)]"

definition NotificationPreferencesUpdatedEvent_type :: ts_type where
  "NotificationPreferencesUpdatedEvent_type =
     TObject [
      (''event_id'', False, TString),
      (''event_type'', False, TLit ''notification_preferences_updated''),
      (''event_version'', False, TString),
      (''timestamp'', False, TString),
      (''aggregate_id'', True, TUnion [TString, TNull]),
      (''metadata'', False, EventMetadata_type),
      (''user_id'', True, TString),
      (''changed_fields'', True, TArray TString)]"

definition NotificationReadEvent_type :: ts_type where
  "NotificationReadEvent_type =
     TObject [
      (''event_id'', False, TString),
      (''event_type'', False, TLit ''notification_read''),
      (''event_version'', False, TString),
      (''timestamp'', False, TString),
      (''aggregate_id'', True, TUnion [TString, TNull]),
      (''metadata'', False, EventMetadata_type),
      (''notification_id'', True, TString),
      (''user_id'', True, TString),
      (''read_at'', True, TString)]"

definition NotificationSentEvent_type :: ts_type where
  "NotificationSentEvent_type =
     TObject [
      (''event_id'', False, TString),
      (''event_type'', False, TLit ''notification_sent''),
      (''event_version'', False, TString),
      (''timestamp'', False, TString),
      (''aggregate_id'', True, TUnion [TString, TNull]),
      (''metadata'', False, EventMetadata_type),
      (''notification_id'', True, TString),
      (''user_id'', True, TString),
      (''sent_at'', True, TString)]"

definition PodCreatedEvent_type :: ts_type where
  "PodCreatedEvent_type =
     TObject [
      (''event_id'', False, TString),
      (''event_type'', False, TLit ''pod_created''),
      (''event_version'', False, TString),
      (''timestamp'', False, TString),
      (''aggregate_id'', True, TUnion [TString, TNull]),
      (''metadata'', False, EventMetadata_type),
      (''execution_id'', True, TString),
      (''pod_name'', True, TString),
      (''namespace'', True, TString)]"

definition PodDeletedEvent_type :: ts_type where
  "PodDeletedEvent_type =
     TObject [
      (''event_id'', False, TString),
      (''event_type'', False, TLit ''pod_deleted''),
      (''event_version'', False, TString),
      (''timestamp'', False, TString),
      (''aggregate_id'', True, TUnion [TString, TNull]),
      (''metadata'', False, EventMetadata_type),
      (''execution_id'', True, TString),
      (''pod_name'', True, TString),
      (''reason'', True, TUnion [TString, TNull])]"

definition PodFailedEvent_type :: ts_type where
  "PodFailedEvent_type =
     TObject [
      (''event_id'', False, TString),
      (''event_type'', False, TLit ''pod_failed''),
      (''event_version'', False, TString),
      (''timestamp'', False, TString),
      (''aggregate_id'', True, TUnion [TString, TNull]),
      (''metadata'', False, EventMetadata_type),
      (''execution_id'', True, TString),
      (''pod_name'', True, TString),
      (''exit_code'', True, TNumber),
      (''reason'', True, TUnion [TString, TNull]),
      (''message'', True, TUnion [TString, TNull]),
      (''stdout'', True, TUnion [TString, TNull]),
      (''stderr'', True, TUnion [TString, TNull])]"

definition ContainerStatusInfo_type :: ts_type where
  "ContainerStatusInfo_type =
     TObject [
      (''name'', False, TString),
      (''ready'', True, TBoolean),
      (''restart_count'', True, TNumber),
      (''state'', True, TString)]"

definition PodRunningEvent_type :: ts_type where
  "PodRunningEvent_type =
     TObject [
      (''event_id'', False, TString),
      (''event_type'', False, TLit ''pod_running''),
      (''event_version'', False, TString),
      (''timestamp'', False, TString),
      (''aggregate_id'', True, TUnion [TString, TNull]),
      (''metadata'', False, EventMetadata_type),
      (''execution_id'', True, TString),
      (''pod_name'', True, TString),
      (''container_statuses'', True, TArray ContainerStatusInfo_type)]"

definition PodScheduledEvent_type :: ts_type where
  "PodScheduledEvent_type =
     TObject [
      (''event_id'', False, TString),
      (''event_type'', False, TLit ''pod_scheduled''),
      (''event_version'', False, TString),
      (''timestamp'', False, TString),
      (''aggregate_id'', True, TUnion [TString, TNull]),
      (''metadata'', False, EventMetadata_type),
      (''execution_id'', True, TString),
      (''pod_name'', True, TString),
      (''node_name'', True, TString)]"

definition PodSucceededEvent_type :: ts_type where
  "PodSucceededEvent_type =
     TObject [
      (''event_id'', False, TString),
      (''event_type'', False, TLit ''pod_succeeded''),
      (''event_version'', False, TString),
      (''timestamp'', False, TString),
      (''aggregate_id'', True, TUnion [TString, TNull]),
      (''metadata'', False, EventMetadata_type),
      (''execution_id'', True, TString),
      (''pod_name'', True, TString),
      (''exit_code'', True, TNumber),
      (''stdout'', True, TUnion [TString, TNull]),
      (''stderr'', True, TUnion [TString, TNull])]"

definition PodTerminatedEvent_type :: ts_type where
  "PodTerminatedEvent_type =
     TObject [
      (''event_id'', False, TString),
      (''event_type'', False, TLit ''pod_terminated''),
      (''event_version'', False, TString),
      (''timestamp'', False, TString),
      (''aggregate_id'', True, TUnion [TString, TNull]),
      (''metadata'', False, EventMetadata_type),
      (''execution_id'', True, TString),
      (''pod_name'', True, TString),
      (''exit_code'', True, TNumber),
      (''reason'', True, TUnion [TString, TNull]),
      (''message'', True, TUnion [TString, TNull])]"

definition QuotaExceededEvent_type :: ts_type where
  "QuotaExceededEvent_type =
     TObject [
      (''event_id'', False, TString),
      (''event_type'', False, TLit ''quota_exceeded''),
      (''event_version'', False, TString),
      (''timestamp'', False, TString),
      (''aggregate_id'', True, TUnion [TString, TNull]),
      (''metadata'', False, EventMetadata_type),
      (''quota_type'', True, TString),
      (''limit'', True, TNumber),
      (''current_usage'', True, TNumber),
      (''user_id'', True, TString)]"

definition RateLimitExceededEvent_type :: ts_type where
  "RateLimitExceededEvent_type =
     TObject [
      (''event_id'', False, TString),
      (''event_type'', False, TLit ''rate_limit_exceeded''),
      (''event_version'', False, TString),
      (''timestamp'', False, TString),
      (''aggregate_id'', True, TUnion [TString, TNull]),
      (''metadata'', False, EventMetadata_type),
      (''user_id'', True, TUnion [TString, TNull]),
      (''endpoint'', True, TString),
      (''limit'', True, TNumber),
      (''window_seconds'', True, TNumber)]"

definition RateLimitSummary_type :: ts_type where
  "RateLimitSummary_type =
     TObject [
      (''bypass_rate_limit'', False, TBoolean),
      (''global_multiplier'', False, TNumber),
      (''has_custom_limits'', False, TBoolean)]"

definition ResourceLimitExceededEvent_type :: ts_type where
  "ResourceLimitExceededEvent_type =
     TObject [
      (''event_id'', False, TString),
      (''event_type'', False, TLit ''resource_limit_exceeded''),
      (''event_version'', False, TString),
      (''timestamp'', False, TString),
      (''aggregate_id'', True, TUnion [TString, TNull]),
      (''metadata'', False, EventMetadata_type),
      (''resource_type'', True, TString),
      (''limit'', True, TNumber),
      (''requested'', True, TNumber),
      (''user_id'', True, TUnion [TString, TNull])]"

definition StorageType_type :: ts_type where
  "StorageType_type =
     TOneOf (map StorageType_value StorageType_members)"

definition ResultFailedEvent_type :: ts_type where
  "ResultFailedEvent_type =
     TObject [
      (''event_id'', False, TString),
      (''event_type'', False, TLit ''result_failed''),
      (''event_version'', False, TString),
      (''timestamp'', False, TString),
      (''aggregate_id'', True, TUnion [TString, TNull]),
      (''metadata'', False, EventMetadata_type),
      (''execution_id'', True, TString),
      (''storage_type'', True, TUnion [StorageType_type, TNull])]"

definition ResultStoredEvent_type :: ts_type where
  "ResultStoredEvent_type =
     TObject [
      (''event_id'', False, TString),
      (''event_type'', False, TLit ''result_stored''),
      (''event_version'', False, TString),
      (''timestamp'', False, TString),
      (''aggregate_id'', True, TUnion [TString, TNull]),
      (''metadata'', False, EventMetadata_type),
      (''execution_id'', True, TString),
      (''storage_type'', True, TUnion [StorageType_type, TNull]),
      (''storage_path'', True, TString),
      (''size_bytes'', True, TNumber)]"

definition ScriptDeletedEvent_type :: ts_type where
  "ScriptDeletedEvent_type =
     TObject [
      (''event_id'', False, TString),
      (''event_type'', False, TLit ''script_deleted''),
      (''event_version'', False, TString),
      (''timestamp'', False, TString),
      (''aggregate_id'', True, TUnion [TString, TNull]),
      (''metadata'', False, EventMetadata_type),
      (''script_id'', True, TString),
      (''user_id'', True, TString),
      (''deleted_by'', True, TUnion [TString, TNull])]"

definition ScriptSavedEvent_type :: ts_type where
  "ScriptSavedEvent_type =
     TObject [
      (''event_id'', False, TString),
      (''event_type'', False, TLit ''script_saved''),
      (''event_version'', False, TString),
      (''timestamp'', False, TString),
      (''aggregate_id'', True, TUnion [TString, TNull]),
      (''metadata'', False, EventMetadata_type),
      (''script_id'', True, TString),
      (''user_id'', True, TString),
      (''title'', True, TString),
      (''language'', True, TString)]"

definition ScriptSharedEvent_type :: ts_type where
  "ScriptSharedEvent_type =
     TObject [
      (''event_id'', False, TString),
      (''event_type'', False, TLit ''script_shared''),
      (''event_version'', False, TString),
      (''timestamp'', False, TString),
      (''aggregate_id'', True, TUnion [TString, TNull]),
      (''metadata'', False, EventMetadata_type),
      (''script_id'', True, TString),
      (''shared_by'', True, TString),
      (''shared_with'', True, TArray TString),
      (''permissions'', True, TString)]"

definition SecurityViolationEvent_type :: ts_type where
  "SecurityViolationEvent_type =
     TObject [
      (''event_id'', False, TString),
      (''event_type'', False, TLit ''security_violation''),
      (''event_version'', False, TString),
      (''timestamp'', False, TString),
      (''aggregate_id'', True, TUnion [TString, TNull]),
      (''metadata'', False, EventMetadata_type),
      (''user_id'', True, TUnion [TString, TNull]),
      (''violation_type'', True, TString),
      (''details'', True, TString),
      (''ip_address'', True, TUnion [TString, TNull])]"

definition ServiceRecoveredEvent_type :: ts_type where
  "ServiceRecoveredEvent_type =
     TObject [
      (''event_id'', False, TString),
      (''event_type'', False, TLit ''service_recovered''),
      (''event_version'', False, TString),
      (''timestamp'', False, TString),
      (''aggregate_id'', True, TUnion [TString, TNull]),
      (''metadata'', False, EventMetadata_type),
      (''service_name'', True, TString),
      (''health_check'', True, TString),
      (''downtime_seconds'', True, TNumber)]"

definition ServiceUnhealthyEvent_type :: ts_type where
  "ServiceUnhealthyEvent_type =
     TObject [
      (''event_id'', False, TString),
      (''event_type'', False, TLit ''service_unhealthy''),
      (''event_version'', False, TString),
      (''timestamp'', False, TString),
      (''aggregate_id'', True, TUnion [TString, TNull]),
      (''metadata'', False, EventMetadata_type),
      (''service_name'', True, TString),
      (''health_check'', True, TString),
      (''reason'', True, TString)]"

definition SystemErrorEvent_type :: ts_type where
  "SystemErrorEvent_type =
     TObject [
      (''event_id'', False, TString),
      (''event_type'', False, TLit ''system_error''),
      (''event_version'', False, TString),
      (''timestamp'', False, TString),
      (''aggregate_id'', True, TUnion [TString, TNull]),
      (''metadata'', False, EventMetadata_type),
      (''error_type'', True, TString),
      (''message'', True, TString),
      (''service_name'', True, TString),
      (''stack_trace'', True, TUnion [TString, TNull])]"

definition UserDeletedEvent_type :: ts_type where
  "UserDeletedEvent_type =
     TObject [
      (''event_id'', False, TString),
      (''event_type'', False, TLit ''user_deleted''),
      (''event_version'', False, TString),
      (''timestamp'', False, TString),
      (''aggregate_id'', True, TUnion [TString, TNull]),
      (''metadata'', False, EventMetadata_type),
      (''user_id'', True, TString),
      (''deleted_by'', True, TUnion [TString, TNull]),
      (''reason'', True, TUnion [TString, TNull])]"

definition LoginMethod_type :: ts_type where
  "LoginMethod_type =
     TOneOf (map LoginMethod_value LoginMethod_members)"

definition UserLoggedInEvent_type :: ts_type where
  "UserLoggedInEvent_type =
     TObject [
      (''event_id'', False, TString),
      (''event_type'', False, TLit ''user_logged_in''),
      (''event_version'', False, TString),
      (''timestamp'', False, TString),
      (''aggregate_id'', True, TUnion [TString, TNull]),
      (''metadata'', False, EventMetadata_type),
      (''user_id'', True, TString),
      (''login_method'', True, LoginMethod_type),
      (''ip_address'', True, TUnion [TString, TNull]),
      (''user_agent'', True, TUnion [TString, TNull])]"

definition UserLoggedOutEvent_type :: ts_type where
  "UserLoggedOutEvent_type =
     TObject [
      (''event_id'', False, TString),
      (''event_type'', False, TLit ''user_logged_out''),
      (''event_version'', False, TString),
      (''timestamp'', False, TString),
      (''aggregate_id'', True, TUnion [TString, TNull]),
      (''metadata'', False, EventMetadata_type),
      (''user_id'', True, TString),
      (''logout_reason'', True, TUnion [TString, TNull])]"

definition UserLoginEvent_type :: ts_type where
  "UserLoginEvent_type =
     TObject [
      (''event_id'', False, TString),
      (''event_type'', False, TLit ''user_login''),
      (''event_version'', False, TString),
      (''timestamp'', False, TString),
      (''aggregate_id'', True, TUnion [TString, TNull]),
      (''metadata'', False, EventMetadata_type),
      (''user_id'', True, TString),
      (''login_method'', True, LoginMethod_type),
      (''ip_address'', True, TUnion [TString, TNull]),
      (''user_agent'', True, TUnion [TString, TNull])]"

definition UserRegisteredEvent_type :: ts_type where
  "UserRegisteredEvent_type =
     TObject [
      (''event_id'', False, TString),
      (''event_type'', False, TLit ''user_registered''),
      (''event_version'', False, TString),
      (''timestamp'', False, TString),
      (''aggregate_id'', True, TUnion [TString, TNull]),
      (''metadata'', False, EventMetadata_type),
      (''user_id'', True, TString),
      (''username'', True, TString),
      (''email'', True, TString)]"

definition UserRole_type :: ts_type where
  "UserRole_type =
     TOneOf (map UserRole_value UserRole_members)"

definition UserResponse_type :: ts_type where
  "UserResponse_type =
     TObject [
      (''username'', False, TString),
      (''email'', False, TString),
      (''role'', False, UserRole_type),
      (''is_active'', False, TBoolean),
      (''user_id'', False, TString),
      (''is_superuser'', False, TBoolean),
      (''created_at'', False, TString),
      (''updated_at'', False, TString)]"

definition UserSettingsUpdatedEvent_type :: ts_type where
  "UserSettingsUpdatedEvent_type =
     TInter [TObject [
       (''event_id'', False, TString),
       (''event_type'', False, TLit ''user_settings_updated''),
       (''event_version'', False, TString),
       (''timestamp'', False, TString),
       (''aggregate_id'', True, TUnion [TString, TNull]),
       (''metadata'', False, EventMetadata_type),
       (''user_id'', True, TString),
       (''changed_fields'', True, TArray TString),
       (''reason'', True, TUnion [TString, TNull])], TRecord TUnknown]"

definition UserUpdatedEvent_type :: ts_type where
  "UserUpdatedEvent_type =
     TObject [
      (''event_id'', False, TString),
      (''event_type'', False, TLit ''user_updated''),
      (''event_version'', False, TString),
      (''timestamp'', False, TString),
      (''aggregate_id'', True, TUnion [TString, TNull]),
      (''metadata'', False, EventMetadata_type),
      (''user_id'', True, TString),
      (''updated_fields'', True, TArray TString),
      (''updated_by'', True, TUnion [TString, TNull])]"

definition AdminUserOverview_type :: ts_type where
  "AdminUserOverview_type =
     TObject [
      (''user'', False, UserResponse_type),
      (''stats'', False, EventStatistics_type),
      (''derived_counts'', False, DerivedCounts_type),
      (''rate_limit_summary'', False, RateLimitSummary_type),
      (''recent_events'', False, TArray (TUnion [
        ExecutionRequestedEvent_type,
        ExecutionAcceptedEvent_type,
        ExecutionQueuedEvent_type,
        ExecutionStartedEvent_type,
        ExecutionRunningEvent_type,
        ExecutionCompletedEvent_type,
        ExecutionFailedEvent_type,
        ExecutionTimeoutEvent_type,
        ExecutionCancelledEvent_type,
        PodCreatedEvent_type,
        PodScheduledEvent_type,
        PodRunningEvent_type,
        PodSucceededEvent_type,
        PodFailedEvent_type,
        PodTerminatedEvent_type,
        PodDeletedEvent_type,
        ResultStoredEvent_type,
        ResultFailedEvent_type,
        UserSettingsUpdatedEvent_type,
        UserRegisteredEvent_type,
        UserLoginEvent_type,
        UserLoggedInEvent_type,
        UserLoggedOutEvent_type,
        UserUpdatedEvent_type,
        UserDeletedEvent_type,
        NotificationCreatedEvent_type,
        NotificationSentEvent_type,
        NotificationDeliveredEvent_type,
        NotificationFailedEvent_type,
        NotificationReadEvent_type,
        NotificationAllReadEvent_type,
        NotificationClickedEvent_type,
        NotificationPreferencesUpdatedEvent_type,
        ScriptSavedEvent_type,
        ScriptDeletedEvent_type,
        ScriptSharedEvent_type,
        SecurityViolationEvent_type,
        RateLimitExceededEvent_type,
        AuthFailedEvent_type,
        ResourceLimitExceededEvent_type,
        QuotaExceededEvent_type,
        SystemErrorEvent_type,
        ServiceUnhealthyEvent_type,
        ServiceRecoveredEvent_type,
        DlqMessageReceivedEvent_type,
        DlqMessageRetriedEvent_type,
        DlqMessageDiscardedEvent_type]))]"

definition BodyLoginApiV1AuthLoginPost_type :: ts_type where
  "BodyLoginApiV1AuthLoginPost_type =
     TObject [
      (''grant_type'', True, TUnion [TString, TNull]),
      (''username'', False, TString),
      (''password'', False, TString),
      (''scope'', True, TString),
      (''client_id'', True, TUnion [TString, TNull]),
      (''client_secret'', True, TUnion [TString, TNull])]"

definition CancelStatus_type :: ts_type where
  "CancelStatus_type =
     TOneOf (map CancelStatus_value CancelStatus_members)"

definition CancelResponse_type :: ts_type where
  "CancelResponse_type =
     TObject [
      (''execution_id'', False, TString),
      (''status'', False, CancelStatus_type),
      (''message'', False, TString),
      (''event_id'', False, TUnion [TString, TNull])]"

definition DeleteNotificationResponse_type :: ts_type where
  "DeleteNotificationResponse_type =
     TObject [(''message'', False, TString)]"

definition DeleteResponse_type :: ts_type where
  "DeleteResponse_type =
     TObject [(''message'', False, TString), (''execution_id'', False, TString)]"

definition DeleteUserResponse_type :: ts_type where
  "DeleteUserResponse_type =
     TObject [
      (''user_deleted'', False, TBoolean),
      (''executions'', False, TNumber),
      (''saved_scripts'', False, TNumber),
      (''notifications'', False, TNumber),
      (''user_settings'', False, TNumber),
      (''events'', False, TNumber)]"

definition EditorSettingsInput_type :: ts_type where
  "EditorSettingsInput_type =
     TObject [
      (''font_size'', True, TNumber),
      (''tab_size'', True, TUnion [TNumLit 2, TNumLit 4, TNumLit 8]),
      (''use_tabs'', True, TBoolean),
      (''word_wrap'', True, TBoolean),
      (''show_line_numbers'', True, TBoolean)]"

definition EditorSettingsOutput_type :: ts_type where
  "EditorSettingsOutput_type =
     TObject [
      (''font_size'', False, TNumber),
      (''tab_size'', False, TUnion [TNumLit 2, TNumLit 4, TNumLit 8]),
      (''use_tabs'', False, TBoolean),
      (''word_wrap'', False, TBoolean),
      (''show_line_numbers'', False, TBoolean)]"

definition EndpointGroup_type :: ts_type where
  "EndpointGroup_type =
     TOneOf (map EndpointGroup_value EndpointGroup_members)"

definition RateLimitAlgorithm_type :: ts_type where
  "RateLimitAlgorithm_type =
     TOneOf (map RateLimitAlgorithm_value RateLimitAlgorithm_members)"

definition EndpointUsageStats_type :: ts_type where
  "EndpointUsageStats_type =
     TObject [
      (''algorithm'', False, RateLimitAlgorithm_type),
      (''remaining'', False, TNumber)]"

definition ErrorResponse_type :: ts_type where
  "ErrorResponse_type =
     TObject [(''status'', False, TNumber), (''detail'', False, TString)]"

definition EventFilter_type :: ts_type where
  "EventFilter_type =
     TObject [
      (''event_types'', True, TUnion [TArray EventType_type, TNull]),
      (''aggregate_id'', True, TUnion [TString, TNull]),
      (''user_id'', True, TUnion [TString, TNull]),
      (''start_time'', True, TUnion [TString, TNull]),
      (''end_time'', True, TUnion [TString, TNull]),
      (''service_name'', True, TUnion [TString, TNull]),
      (''search_text'', True, TUnion [TString, TNull])]"

definition EventBrowseRequest_type :: ts_type where
  "EventBrowseRequest_type =
     TObject [
      (''filters'', False, EventFilter_type),
      (''skip'', True, TNumber),
      (''limit'', True, TNumber)]"

definition EventBrowseResponse_type :: ts_type where
  "EventBrowseResponse_type =
     TObject [
      (''events'', False, TArray (TUnion [
        ExecutionRequestedEvent_type,
        ExecutionAcceptedEvent_type,
        ExecutionQueuedEvent_type,
        ExecutionStartedEvent_type,
        ExecutionRunningEvent_type,
        ExecutionCompletedEvent_type,
        ExecutionFailedEvent_type,
        ExecutionTimeoutEvent_type,
        ExecutionCancelledEvent_type,
        PodCreatedEvent_type,
        PodScheduledEvent_type,
        PodRunningEvent_type,
        PodSucceededEvent_type,
        PodFailedEvent_type,
        PodTerminatedEvent_type,
        PodDeletedEvent_type,
        ResultStoredEvent_type,
        ResultFailedEvent_type,
        UserSettingsUpdatedEvent_type,
        UserRegisteredEvent_type,
        UserLoginEvent_type,
        UserLoggedInEvent_type,
        UserLoggedOutEvent_type,
        UserUpdatedEvent_type,
        UserDeletedEvent_type,
        NotificationCreatedEvent_type,
        NotificationSentEvent_type,
        NotificationDeliveredEvent_type,
        NotificationFailedEvent_type,
        NotificationReadEvent_type,
        NotificationAllReadEvent_type,
        NotificationClickedEvent_type,
        NotificationPreferencesUpdatedEvent_type,
        ScriptSavedEvent_type,
        ScriptDeletedEvent_type,
        ScriptSharedEvent_type,
        SecurityViolationEvent_type,
        RateLimitExceededEvent_type,
        AuthFailedEvent_type,
        ResourceLimitExceededEvent_type,
        QuotaExceededEvent_type,
        SystemErrorEvent_type,
        ServiceUnhealthyEvent_type,
        ServiceRecoveredEvent_type,
        DlqMessageReceivedEvent_type,
        DlqMessageRetriedEvent_type,
        DlqMessageDiscardedEvent_type])),
      (''total'', False, TNumber),
      (''skip'', False, TNumber),
      (''limit'', False, TNumber)]"

definition EventDeleteResponse_type :: ts_type where
  "EventDeleteResponse_type =
     TObject [(''message'', False, TString), (''event_id'', False, TString)]"

definition EventSummary_type :: ts_type where
  "EventSummary_type =
     TObject [
      (''event_id'', False, TString),
      (''event_type'', False, EventType_type),
      (''timestamp'', False, TString),
      (''aggregate_id'', True, TUnion [TString, TNull])]"

definition EventDetailResponse_type :: ts_type where
  "EventDetailResponse_type =
     TObject [
      (''event'', False, TUnion [
        TInter [TObject [(''event_type'', False, TLit ''execution_requested'')], ExecutionRequestedEvent_type],
        TInter [TObject [(''event_type'', False, TLit ''execution_accepted'')], ExecutionAcceptedEvent_type],
        TInter [TObject [(''event_type'', False, TLit ''execution_queued'')], ExecutionQueuedEvent_type],
        TInter [TObject [(''event_type'', False, TLit ''execution_started'')], ExecutionStartedEvent_type],
        TInter [TObject [(''event_type'', False, TLit ''execution_running'')], ExecutionRunningEvent_type],
        TInter [TObject [(''event_type'', False, TLit ''execution_completed'')], ExecutionCompletedEvent_type],
        TInter [TObject [(''event_type'', False, TLit ''execution_failed'')], ExecutionFailedEvent_type],
        TInter [TObject [(''event_type'', False, TLit ''execution_timeout'')], ExecutionTimeoutEvent_type],
        TInter [TObject [(''event_type'', False, TLit ''execution_cancelled'')], ExecutionCancelledEvent_type],
        TInter [TObject [(''event_type'', False, TLit ''pod_created'')], PodCreatedEvent_type],
        TInter [TObject [(''event_type'', False, TLit ''pod_scheduled'')], PodScheduledEvent_type],
        TInter [TObject [(''event_type'', False, TLit ''pod_running'')], PodRunningEvent_type],
        TInter [TObject [(''event_type'', False, TLit ''pod_succeeded'')], PodSucceededEvent_type],
        TInter [TObject [(''event_type'', False, TLit ''pod_failed'')], PodFailedEvent_type],
        TInter [TObject [(''event_type'', False, TLit ''pod_terminated'')], PodTerminatedEvent_type],
        TInter [TObject [(''event_type'', False, TLit ''pod_deleted'')], PodDeletedEvent_type],
        TInter [TObject [(''event_type'', False, TLit ''result_stored'')], ResultStoredEvent_type],
        TInter [TObject [(''event_type'', False, TLit ''result_failed'')], ResultFailedEvent_type],
        TInter [TObject [(''event_type'', False, TLit ''user_settings_updated'')], UserSettingsUpdatedEvent_type],
        TInter [TObject [(''event_type'', False, TLit ''user_registered'')], UserRegisteredEvent_type],
        TInter [TObject [(''event_type'', False, TLit ''user_login'')], UserLoginEvent_type],
        TInter [TObject [(''event_type'', False, TLit ''user_logged_in'')], UserLoggedInEvent_type],
        TInter [TObject [(''event_type'', False, TLit ''user_logged_out'')], UserLoggedOutEvent_type],
        TInter [TObject [(''event_type'', False, TLit ''user_updated'')], UserUpdatedEvent_type],
        TInter [TObject [(''event_type'', False, TLit ''user_deleted'')], UserDeletedEvent_type],
        TInter [TObject [(''event_type'', False, TLit ''notification_created'')], NotificationCreatedEvent_type],
        TInter [TObject [(''event_type'', False, TLit ''notification_sent'')], NotificationSentEvent_type],
        TInter [TObject [(''event_type'', False, TLit ''notification_delivered'')], NotificationDeliveredEvent_type],
        TInter [TObject [(''event_type'', False, TLit ''notification_failed'')], NotificationFailedEvent_type],
        TInter [TObject [(''event_type'', False, TLit ''notification_read'')], NotificationReadEvent_type],
        TInter [TObject [(''event_type'', False, TLit ''notification_all_read'')], NotificationAllReadEvent_type],
        TInter [TObject [(''event_type'', False, TLit ''notification_clicked'')], NotificationClickedEvent_type],
        TInter [TObject [(''event_type'', False, TLit ''notification_preferences_updated'')], NotificationPreferencesUpdatedEvent_type],
        TInter [TObject [(''event_type'', False, TLit ''script_saved'')], ScriptSavedEvent_type],
        TInter [TObject [(''event_type'', False, TLit ''script_deleted'')], ScriptDeletedEvent_type],
        TInter [TObject [(''event_type'', False, TLit ''script_shared'')], ScriptSharedEvent_type],
        TInter [TObject [(''event_type'', False, TLit ''security_violation'')], SecurityViolationEvent_type],
        TInter [TObject [(''event_type'', False, TLit ''rate_limit_exceeded'')], RateLimitExceededEvent_type],
        TInter [TObject [(''event_type'', False, TLit ''auth_failed'')], AuthFailedEvent_type],
        TInter [TObject [(''event_type'', False, TLit ''resource_limit_exceeded'')], ResourceLimitExceededEvent_type],
        TInter [TObject [(''event_type'', False, TLit ''quota_exceeded'')], QuotaExceededEvent_type],
        TInter [TObject [(''event_type'', False, TLit ''system_error'')], SystemErrorEvent_type],
        TInter [TObject [(''event_type'', False, TLit ''service_unhealthy'')], ServiceUnhealthyEvent_type],
        TInter [TObject [(''event_type'', False, TLit ''service_recovered'')], ServiceRecoveredEvent_type],
        TInter [TObject [(''event_type'', False, TLit ''dlq_message_received'')], DlqMessageReceivedEvent_type],
        TInter [TObject [(''event_type'', False, TLit ''dlq_message_retried'')], DlqMessageRetriedEvent_type],
        TInter [TObject [(''event_type'', False, TLit ''dlq_message_discarded'')], DlqMessageDiscardedEvent_type]]),
      (''related_events'', False, TArray EventSummary_type),
      (''timeline'', False, TArray EventSummary_type)]"

definition EventReplayRequest_type :: ts_type where
  "EventReplayRequest_type =
     TObject [
      (''event_ids'', True, TUnion [TArray TString, TNull]),
      (''aggregate_id'', True, TUnion [TString, TNull]),
      (''start_time'', True, TUnion [TString, TNull]),
      (''end_time'', True, TUnion [TString, TNull]),
      (''dry_run'', True, TBoolean)]"

definition ReplayStatus_type :: ts_type where
  "ReplayStatus_type =
     TOneOf (map ReplayStatus_value ReplayStatus_members)"

definition EventReplayResponse_type :: ts_type where
  "EventReplayResponse_type =
     TObject [
      (''dry_run'', False, TBoolean),
      (''total_events'', False, TNumber),
      (''replay_id'', False, TString),
      (''session_id'', False, TUnion [TString, TNull]),
      (''status'', False, ReplayStatus_type),
      (''events_preview'', False, TUnion [TArray EventSummary_type, TNull])]"

definition ResourceUsage_type :: ts_type where
  "ResourceUsage_type =
     TObject [
      (''execution_time_wall_seconds'', False, TNumber),
      (''cpu_time_jiffies'', False, TNumber),
      (''clk_tck_hertz'', False, TNumber),
      (''peak_memory_kb'', False, TNumber)]"

definition ExecutionResult_type :: ts_type where
  "ExecutionResult_type =
     TObject [
      (''execution_id'', False, TString),
      (''status'', False, ExecutionStatus_type),
      (''stdout'', False, TUnion [TString, TNull]),
      (''stderr'', False, TUnion [TString, TNull]),
      (''lang'', False, TString),
      (''lang_version'', False, TString),
      (''resource_usage'', False, TUnion [ResourceUsage_type, TNull]),
      (''exit_code'', False, TUnion [TNumber, TNull]),
      (''error_type'', False, TUnion [ExecutionErrorType_type, TNull]),
      (''priority'', False, QueuePriority_type)]"

definition ReplayError_type :: ts_type where
  "ReplayError_type =
     TObject [
      (''timestamp'', False, TString),
      (''error'', False, TString),
      (''error_type'', False, TUnion [TString, TNull]),
      (''event_id'', False, TUnion [TString, TNull])]"

definition EventReplayStatusResponse_type :: ts_type where
  "EventReplayStatusResponse_type =
     TObject [
      (''session_id'', False, TString),
      (''status'', False, ReplayStatus_type),
      (''total_events'', False, TNumber),
      (''replayed_events'', False, TNumber),
      (''failed_events'', False, TNumber),
      (''skipped_events'', False, TNumber),
      (''replay_id'', False, TString),
      (''created_at'', False, TString),
      (''started_at'', False, TUnion [TString, TNull]),
      (''completed_at'', False, TUnion [TString, TNull]),
      (''errors'', False, TUnion [TArray ReplayError_type, TNull]),
      (''estimated_completion'', False, TUnion [TString, TNull]),
      (''execution_results'', False, TUnion [TArray ExecutionResult_type, TNull]),
      (''progress_percentage'', False, TNumber)]"

definition EventStatsResponse_type :: ts_type where
  "EventStatsResponse_type =
     TObject [
      (''total_events'', False, TNumber),
      (''events_by_type'', False, TArray EventTypeCount_type),
      (''events_by_hour'', False, TArray HourlyEventCount_type),
      (''top_users'', False, TArray UserEventCount_type),
      (''error_rate'', False, TNumber),
      (''avg_processing_time'', False, TNumber)]"

definition ExampleScripts_type :: ts_type where
  "ExampleScripts_type =
     TObject [(''scripts'', False, TRecord TString)]"

definition ExecutionListResponse_type :: ts_type where
  "ExecutionListResponse_type =
     TObject [
      (''executions'', False, TArray ExecutionResult_type),
      (''total'', False, TNumber),
      (''limit'', False, TNumber),
      (''skip'', False, TNumber),
      (''has_more'', False, TBoolean)]"

definition ExecutionRequest_type :: ts_type where
  "ExecutionRequest_type =
     TObject [
      (''script'', False, TString),
      (''lang'', True, TString),
      (''lang_version'', True, TString)]"

definition ExecutionResponse_type :: ts_type where
  "ExecutionResponse_type =
     TObject [
      (''execution_id'', False, TString),
      (''status'', False, ExecutionStatus_type)]"

definition ExportFormat_type :: ts_type where
  "ExportFormat_type =
     TOneOf (map ExportFormat_value ExportFormat_members)"

definition LanguageInfo_type :: ts_type where
  "LanguageInfo_type =
     TObject [(''versions'', False, TArray TString), (''file_ext'', False, TString)]"

definition LanguageLimits_type :: ts_type where
  "LanguageLimits_type =
     TObject [
      (''cpu_limit'', False, TString),
      (''memory_limit'', False, TString),
      (''execution_timeout'', False, TNumber)]"

definition LivenessResponse_type :: ts_type where
  "LivenessResponse_type =
     TObject [
      (''status'', False, TString),
      (''uptime_seconds'', False, TNumber),
      (''timestamp'', False, TString)]"

definition LoginResponse_type :: ts_type where
  "LoginResponse_type =
     TObject [
      (''message'', False, TString),
      (''username'', False, TString),
      (''role'', False, UserRole_type),
      (''csrf_token'', False, TString)]"

definition MessageResponse_type :: ts_type where
  "MessageResponse_type =
     TObject [(''message'', False, TString)]"

definition NotificationStatus_type :: ts_type where
  "NotificationStatus_type =
     TOneOf (map NotificationStatus_value NotificationStatus_members)"

definition NotificationResponse_type :: ts_type where
  "NotificationResponse_type =
     TObject [
      (''notification_id'', False, TString),
      (''status'', False, NotificationStatus_type),
      (''subject'', False, TString),
      (''body'', False, TString),
      (''action_url'', False, TString),
      (''created_at'', False, TString),
      (''read_at'', False, TUnion [TString, TNull]),
      (''severity'', False, NotificationSeverity_type),
      (''tags'', False, TArray TString)]"

definition NotificationListResponse_type :: ts_type where
  "NotificationListResponse_type =
     TObject [
      (''notifications'', False, TArray NotificationResponse_type),
      (''total'', False, TNumber),
      (''unread_count'', False, TNumber)]"

definition NotificationSettingsInput_type :: ts_type where
  "NotificationSettingsInput_type =
     TObject [
      (''execution_completed'', True, TBoolean),
      (''execution_failed'', True, TBoolean)]"

definition NotificationSettingsOutput_type :: ts_type where
  "NotificationSettingsOutput_type =
     TObject [
      (''execution_completed'', False, TBoolean),
      (''execution_failed'', False, TBoolean)]"

definition PasswordResetRequest_type :: ts_type where
  "PasswordResetRequest_type =
     TObject [(''new_password'', False, TString)]"

definition PriorityUpdateRequest_type :: ts_type where
  "PriorityUpdateRequest_type =
     TObject [(''priority'', False, QueuePriority_type)]"

definition QueueStatusResponse_type :: ts_type where
  "QueueStatusResponse_type =
     TObject [
      (''queue_depth'', False, TNumber),
      (''active_count'', False, TNumber),
      (''max_concurrent'', False, TNumber),
      (''by_priority'', False, TRecord TNumber)]"

definition RateLimitRuleRequest_type :: ts_type where
  "RateLimitRuleRequest_type =
     TObject [
      (''endpoint_pattern'', True, TString),
      (''group'', True, EndpointGroup_type),
      (''requests'', True, TNumber),
      (''window_seconds'', True, TNumber),
      (''algorithm'', True, RateLimitAlgorithm_type),
      (''burst_multiplier'', True, TNumber),
      (''priority'', True, TNumber),
      (''enabled'', True, TBoolean)]"

definition RateLimitRuleResponse_type :: ts_type where
  "RateLimitRuleResponse_type =
     TObject [
      (''endpoint_pattern'', False, TString),
      (''group'', False, EndpointGroup_type),
      (''requests'', False, TNumber),
      (''window_seconds'', False, TNumber),
      (''algorithm'', False, RateLimitAlgorithm_type),
      (''burst_multiplier'', False, TNumber),
      (''priority'', False, TNumber),
      (''enabled'', False, TBoolean)]"

definition RateLimitUpdateRequest_type :: ts_type where
  "RateLimitUpdateRequest_type =
     TObject [
      (''bypass_rate_limit'', True, TBoolean),
      (''global_multiplier'', True, TNumber),
      (''rules'', True, TArray RateLimitRuleRequest_type),
      (''notes'', True, TString)]"

definition UserRateLimitConfigResponse_type :: ts_type where
  "UserRateLimitConfigResponse_type =
     TObject [
      (''user_id'', False, TString),
      (''bypass_rate_limit'', False, TBoolean),
      (''global_multiplier'', False, TNumber),
      (''rules'', False, TArray RateLimitRuleResponse_type),
      (''created_at'', False, TString),
      (''updated_at'', False, TString),
      (''notes'', False, TString)]"

definition RateLimitUpdateResponse_type :: ts_type where
  "RateLimitUpdateResponse_type =
     TObject [
      (''user_id'', False, TString),
      (''updated'', False, TBoolean),
      (''config'', False, UserRateLimitConfigResponse_type)]"

definition ResourceLimits_type :: ts_type where
  "ResourceLimits_type =
     TObject [
      (''cpu_limit'', False, TString),
      (''memory_limit'', False, TString),
      (''cpu_request'', False, TString),
      (''memory_request'', False, TString),
      (''execution_timeout'', False, TNumber),
      (''supported_runtimes'', False, TRecord LanguageInfo_type),
      (''language_limits'', False, TRecord LanguageLimits_type)]"

definition RestoreSettingsRequest_type :: ts_type where
  "RestoreSettingsRequest_type =
     TObject [
      (''timestamp'', False, TString),
      (''reason'', True, TUnion [TString, TNull])]"

definition SseControlEvent_type :: ts_type where
  "SseControlEvent_type =
     TOneOf (map SseControlEvent_value SseControlEvent_members)"

definition SseExecutionEventSchema_type :: ts_type where
  "SseExecutionEventSchema_type =
     TObject [
      (''event_type'', False, TUnion [EventType_type, SseControlEvent_type]),
      (''execution_id'', False, TString),
      (''timestamp'', False, TUnion [TString, TNull]),
      (''event_id'', False, TUnion [TString, TNull]),
      (''status'', False, TUnion [ExecutionStatus_type, TNull]),
      (''result'', False, TUnion [ExecutionResult_type, TNull])]"

definition SavedScriptCreateRequest_type :: ts_type where
  "SavedScriptCreateRequest_type =
     TObject [
      (''name'', False, TString),
      (''script'', False, TString),
      (''lang'', True, TString),
      (''lang_version'', True, TString),
      (''description'', True, TUnion [TString, TNull])]"

definition SavedScriptResponse_type :: ts_type where
  "SavedScriptResponse_type =
     TObject [
      (''script_id'', False, TString),
      (''name'', False, TString),
      (''script'', False, TString),
      (''lang'', False, TString),
      (''lang_version'', False, TString),
      (''description'', False, TUnion [TString, TNull]),
      (''created_at'', False, TString),
      (''updated_at'', False, TString)]"

definition SavedScriptListResponse_type :: ts_type where
  "SavedScriptListResponse_type =
     TObject [(''scripts'', False, TArray SavedScriptResponse_type)]"

definition SavedScriptUpdate_type :: ts_type where
  "SavedScriptUpdate_type =
     TObject [
      (''name'', True, TUnion [TString, TNull]),
      (''script'', True, TUnion [TString, TNull]),
      (''lang'', True, TUnion [TString, TNull]),
      (''lang_version'', True, TUnion [TString, TNull]),
      (''description'', True, TUnion [TString, TNull]),
      (''updated_at'', True, TString)]"

definition SettingsHistoryEntry_type :: ts_type where
  "SettingsHistoryEntry_type =
     TObject [
      (''timestamp'', False, TString),
      (''event_type'', False, EventType_type),
      (''field'', False, TString),
      (''old_value'', False, TUnknown),
      (''new_value'', False, TUnknown),
      (''reason'', False, TUnion [TString, TNull])]"

definition SettingsHistoryResponse_type :: ts_type where
  "SettingsHistoryResponse_type =
     TObject [
      (''history'', False, TArray SettingsHistoryEntry_type),
      (''limit'', False, TNumber)]"

definition SystemSettingsSchemaInput_type :: ts_type where
  "SystemSettingsSchemaInput_type =
     TObject [
      (''max_timeout_seconds'', True, TNumber),
      (''memory_limit'', True, TString),
      (''cpu_limit'', True, TString),
      (''max_concurrent_executions'', True, TNumber),
      (''max_executions_per_user'', True, TNumber),
      (''password_min_length'', True, TNumber),
      (''session_timeout_minutes'', True, TNumber),
      (''max_login_attempts'', True, TNumber),
      (''lockout_duration_minutes'', True, TNumber)]"

definition SystemSettingsSchemaOutput_type :: ts_type where
  "SystemSettingsSchemaOutput_type =
     TObject [
      (''max_timeout_seconds'', False, TNumber),
      (''memory_limit'', False, TString),
      (''cpu_limit'', False, TString),
      (''max_concurrent_executions'', False, TNumber),
      (''max_executions_per_user'', False, TNumber),
      (''password_min_length'', False, TNumber),
      (''session_timeout_minutes'', False, TNumber),
      (''max_login_attempts'', False, TNumber),
      (''lockout_duration_minutes'', False, TNumber)]"

definition Theme_type :: ts_type where
  "Theme_type =
     TOneOf (map Theme_value Theme_members)"

definition ThemeUpdateRequest_type :: ts_type where
  "ThemeUpdateRequest_type =
     TObject [(''theme'', False, Theme_type)]"

definition UnlockResponse_type :: ts_type where
  "UnlockResponse_type =
     TObject [(''user_id'', False, TString), (''message'', False, TString)]"

definition UnreadCountResponse_type :: ts_type where
  "UnreadCountResponse_type =
     TObject [(''unread_count'', False, TNumber)]"

definition UserCreate_type :: ts_type where
  "UserCreate_type =
     TObject [
      (''username'', False, TString),
      (''email'', False, TString),
      (''role'', True, UserRole_type),
      (''is_active'', True, TBoolean)]"

definition UserListResponse_type :: ts_type where
  "UserListResponse_type =
     TObject [
      (''users'', False, TArray UserResponse_type),
      (''total'', False, TNumber),
      (''offset'', False, TNumber),
      (''limit'', False, TNumber)]"

definition UserRateLimitsResponse_type :: ts_type where
  "UserRateLimitsResponse_type =
     TObject [
      (''user_id'', False, TString),
      (''rate_limit_config'', False, UserRateLimitConfigResponse_type),
      (''current_usage'', False, TRecord EndpointUsageStats_type)]"

definition UserSettings_type :: ts_type where
  "UserSettings_type =
     TObject [
      (''user_id'', False, TString),
      (''theme'', False, Theme_type),
      (''timezone'', False, TString),
      (''date_format'', False, TString),
      (''time_format'', False, TString),
      (''notifications'', False, NotificationSettingsOutput_type),
      (''editor'', False, EditorSettingsOutput_type),
      (''custom_settings'', False, TRecord TUnknown),
      (''version'', False, TNumber),
      (''created_at'', False, TString),
      (''updated_at'', False, TString)]"

definition UserSettingsUpdate_type :: ts_type where
  "UserSettingsUpdate_type =
     TObject [
      (''theme'', True, TUnion [Theme_type, TNull]),
      (''timezone'', True, TUnion [TString, TNull]),
      (''date_format'', True, TUnion [TString, TNull]),
      (''time_format'', True, TUnion [TString, TNull]),
      (''notifications'', True, TUnion [NotificationSettingsInput_type, TNull]),
      (''editor'', True, TUnion [EditorSettingsInput_type, TNull]),
      (''custom_settings'', True, TUnion [TRecord TUnknown, TNull])]"

definition UserUpdate_type :: ts_type where
  "UserUpdate_type =
     TObject [
      (''username'', True, TUnion [TString, TNull]),
      (''email'', True, TUnion [TString, TNull]),
      (''role'', True, TUnion [UserRole_type, TNull]),
      (''is_active'', True, TUnion [TBoolean, TNull]),
      (''password'', True, TNull)]"

definition EventReplayStatusResponseWritable_type :: ts_type where
  "EventReplayStatusResponseWritable_type =
     TObject [
      (''session_id'', False, TString),
      (''status'', False, ReplayStatus_type),
      (''total_events'', False, TNumber),
      (''replayed_events'', False, TNumber),
      (''failed_events'', False, TNumber),
      (''skipped_events'', False, TNumber),
      (''replay_id'', False, TString),
      (''created_at'', False, TString),
      (''started_at'', False, TUnion [TString, TNull]),
      (''completed_at'', False, TUnion [TString, TNull]),
      (''errors'', False, TUnion [TArray ReplayError_type, TNull]),
      (''estimated_completion'', False, TUnion [TString, TNull]),
      (''execution_results'', False, TUnion [TArray ExecutionResult_type, TNull])]"

definition UserCreateWritable_type :: ts_type where
  "UserCreateWritable_type =
     TObject [
      (''username'', False, TString),
      (''email'', False, TString),
      (''role'', True, UserRole_type),
      (''is_active'', True, TBoolean),
      (''password'', False, TString)]"

definition UserUpdateWritable_type :: ts_type where
  "UserUpdateWritable_type =
     TObject [
      (''username'', True, TUnion [TString, TNull]),
      (''email'', True, TUnion [TString, TNull]),
      (''role'', True, TUnion [UserRole_type, TNull]),
      (''is_active'', True, TUnion [TBoolean, TNull]),
      (''password'', True, TUnion [TString, TNull])]"

definition LoginApiV1AuthLoginPostData_type :: ts_type where
  "LoginApiV1AuthLoginPostData_type =
     TObject [
      (''body'', False, BodyLoginApiV1AuthLoginPost_type),
      (''path'', True, TNever),
      (''query'', True, TNever),
      (''url'', False, TLit ''/api/v1/auth/login'')]"

definition LoginApiV1AuthLoginPostErrors_type :: ts_type where
  "LoginApiV1AuthLoginPostErrors_type =
     TObject [
      (''401'', False, ErrorResponse_type),
      (''403'', False, ErrorResponse_type),
      (''423'', False, ErrorResponse_type),
      (''default'', False, ErrorResponse_type)]"

definition LoginApiV1AuthLoginPostError_type :: ts_type where
  "LoginApiV1AuthLoginPostError_type =
     values_of LoginApiV1AuthLoginPostErrors_type"

definition LoginApiV1AuthLoginPostResponses_type :: ts_type where
  "LoginApiV1AuthLoginPostResponses_type =
     TObject [(''200'', False, LoginResponse_type)]"

definition LoginApiV1AuthLoginPostResponse_type :: ts_type where
  "LoginApiV1AuthLoginPostResponse_type =
     values_of LoginApiV1AuthLoginPostResponses_type"

definition RegisterApiV1AuthRegisterPostData_type :: ts_type where
  "RegisterApiV1AuthRegisterPostData_type =
     TObject [
      (''body'', False, UserCreateWritable_type),
      (''path'', True, TNever),
      (''query'', True, TNever),
      (''url'', False, TLit ''/api/v1/auth/register'')]"

definition RegisterApiV1AuthRegisterPostErrors_type :: ts_type where
  "RegisterApiV1AuthRegisterPostErrors_type =
     TObject [
      (''409'', False, ErrorResponse_type),
      (''422'', False, ErrorResponse_type),
      (''default'', False, ErrorResponse_type)]"

definition RegisterApiV1AuthRegisterPostError_type :: ts_type where
  "RegisterApiV1AuthRegisterPostError_type =
     values_of RegisterApiV1AuthRegisterPostErrors_type"

definition RegisterApiV1AuthRegisterPostResponses_type :: ts_type where
  "RegisterApiV1AuthRegisterPostResponses_type =
     TObject [(''200'', False, UserResponse_type)]"

definition RegisterApiV1AuthRegisterPostResponse_type :: ts_type where
  "RegisterApiV1AuthRegisterPostResponse_type =
     values_of RegisterApiV1AuthRegisterPostResponses_type"

definition GetCurrentUserProfileApiV1AuthMeGetData_type :: ts_type where
  "GetCurrentUserProfileApiV1AuthMeGetData_type =
     TObject [
      (''body'', True, TNever),
      (''path'', True, TNever),
      (''query'', True, TNever),
      (''url'', False, TLit ''/api/v1/auth/me'')]"

definition GetCurrentUserProfileApiV1AuthMeGetErrors_type :: ts_type where
  "GetCurrentUserProfileApiV1AuthMeGetErrors_type =
     TObject [
      (''401'', False, ErrorResponse_type),
      (''default'', False, ErrorResponse_type)]"

definition GetCurrentUserProfileApiV1AuthMeGetError_type :: ts_type where
  "GetCurrentUserProfileApiV1AuthMeGetError_type =
     values_of GetCurrentUserProfileApiV1AuthMeGetErrors_type"

definition GetCurrentUserProfileApiV1AuthMeGetResponses_type :: ts_type where
  "GetCurrentUserProfileApiV1AuthMeGetResponses_type =
     TObject [(''200'', False, UserResponse_type)]"

definition GetCurrentUserProfileApiV1AuthMeGetResponse_type :: ts_type where
  "GetCurrentUserProfileApiV1AuthMeGetResponse_type =
     values_of GetCurrentUserProfileApiV1AuthMeGetResponses_type"

definition LogoutApiV1AuthLogoutPostData_type :: ts_type where
  "LogoutApiV1AuthLogoutPostData_type =
     TObject [
      (''body'', True, TNever),
      (''path'', True, TNever),
      (''query'', True, TNever),
      (''url'', False, TLit ''/api/v1/auth/logout'')]"

definition LogoutApiV1AuthLogoutPostErrors_type :: ts_type where
  "LogoutApiV1AuthLogoutPostErrors_type =
     TObject [
      (''403'', False, ErrorResponse_type),
      (''default'', False, ErrorResponse_type)]"

definition LogoutApiV1AuthLogoutPostError_type :: ts_type where
  "LogoutApiV1AuthLogoutPostError_type =
     values_of LogoutApiV1AuthLogoutPostErrors_type"

definition LogoutApiV1AuthLogoutPostResponses_type :: ts_type where
  "LogoutApiV1AuthLogoutPostResponses_type =
     TObject [(''200'', False, MessageResponse_type)]"

definition LogoutApiV1AuthLogoutPostResponse_type :: ts_type where
  "LogoutApiV1AuthLogoutPostResponse_type =
     values_of LogoutApiV1AuthLogoutPostResponses_type"

definition CreateExecutionApiV1ExecutePostData_type :: ts_type where
  "CreateExecutionApiV1ExecutePostData_type =
     TObject [
      (''body'', False, ExecutionRequest_type),
      (''headers'', True, TObject [(''Idempotency-Key'', True, TUnion [TString, TNull])]),
      (''path'', True, TNever),
      (''query'', True, TNever),
      (''url'', False, TLit ''/api/v1/execute'')]"

definition CreateExecutionApiV1ExecutePostErrors_type :: ts_type where
  "CreateExecutionApiV1ExecutePostErrors_type =
     TObject [
      (''409'', False, ErrorResponse_type),
      (''429'', False, ErrorResponse_type),
      (''500'', False, ErrorResponse_type),
      (''default'', False, ErrorResponse_type)]"

definition CreateExecutionApiV1ExecutePostError_type :: ts_type where
  "CreateExecutionApiV1ExecutePostError_type =
     values_of CreateExecutionApiV1ExecutePostErrors_type"

definition CreateExecutionApiV1ExecutePostResponses_type :: ts_type where
  "CreateExecutionApiV1ExecutePostResponses_type =
     TObject [(''200'', False, ExecutionResponse_type)]"

definition CreateExecutionApiV1ExecutePostResponse_type :: ts_type where
  "CreateExecutionApiV1ExecutePostResponse_type =
     values_of CreateExecutionApiV1ExecutePostResponses_type"

definition GetResultApiV1ExecutionsExecutionIdResultGetData_type :: ts_type where
  "GetResultApiV1ExecutionsExecutionIdResultGetData_type =
     TObject [
      (''body'', True, TNever),
      (''path'', False, TObject [(''execution_id'', False, TString)]),
      (''query'', True, TNever),
      (''url'', False, TLit ''/api/v1/executions/{execution_id}/result'')]"

definition GetResultApiV1ExecutionsExecutionIdResultGetErrors_type :: ts_type where
  "GetResultApiV1ExecutionsExecutionIdResultGetErrors_type =
     TObject [
      (''403'', False, ErrorResponse_type),
      (''404'', False, ErrorResponse_type),
      (''default'', False, ErrorResponse_type)]"

definition GetResultApiV1ExecutionsExecutionIdResultGetError_type :: ts_type where
  "GetResultApiV1ExecutionsExecutionIdResultGetError_type =
     values_of GetResultApiV1ExecutionsExecutionIdResultGetErrors_type"

definition GetResultApiV1ExecutionsExecutionIdResultGetResponses_type :: ts_type where
  "GetResultApiV1ExecutionsExecutionIdResultGetResponses_type =
     TObject [(''200'', False, ExecutionResult_type)]"

definition GetResultApiV1ExecutionsExecutionIdResultGetResponse_type :: ts_type where
  "GetResultApiV1ExecutionsExecutionIdResultGetResponse_type =
     values_of GetResultApiV1ExecutionsExecutionIdResultGetResponses_type"

definition CancelExecutionApiV1ExecutionsExecutionIdCancelPostData_type :: ts_type where
  "CancelExecutionApiV1ExecutionsExecutionIdCancelPostData_type =
     TObject [
      (''body'', True, TNever),
      (''path'', False, TObject [(''execution_id'', False, TString)]),
      (''query'', True, TNever),
      (''url'', False, TLit ''/api/v1/executions/{execution_id}/cancel'')]"

definition CancelExecutionApiV1ExecutionsExecutionIdCancelPostErrors_type :: ts_type where
  "CancelExecutionApiV1ExecutionsExecutionIdCancelPostErrors_type =
     TObject [
      (''400'', False, ErrorResponse_type),
      (''403'', False, ErrorResponse_type),
      (''404'', False, ErrorResponse_type),
      (''default'', False, ErrorResponse_type)]"

definition CancelExecutionApiV1ExecutionsExecutionIdCancelPostError_type :: ts_type where
  "CancelExecutionApiV1ExecutionsExecutionIdCancelPostError_type =
     values_of CancelExecutionApiV1ExecutionsExecutionIdCancelPostErrors_type"

definition CancelExecutionApiV1ExecutionsExecutionIdCancelPostResponses_type :: ts_type where
  "CancelExecutionApiV1ExecutionsExecutionIdCancelPostResponses_type =
     TObject [(''200'', False, CancelResponse_type)]"

definition CancelExecutionApiV1ExecutionsExecutionIdCancelPostResponse_type :: ts_type where
  "CancelExecutionApiV1ExecutionsExecutionIdCancelPostResponse_type =
     values_of CancelExecutionApiV1ExecutionsExecutionIdCancelPostResponses_type"

definition RetryExecutionApiV1ExecutionsExecutionIdRetryPostData_type :: ts_type where
  "RetryExecutionApiV1ExecutionsExecutionIdRetryPostData_type =
     TObject [
      (''body'', True, TNever),
      (''path'', False, TObject [(''execution_id'', False, TString)]),
      (''query'', True, TNever),
      (''url'', False, TLit ''/api/v1/executions/{execution_id}/retry'')]"

definition RetryExecutionApiV1ExecutionsExecutionIdRetryPostErrors_type :: ts_type where
  "RetryExecutionApiV1ExecutionsExecutionIdRetryPostErrors_type =
     TObject [
      (''400'', False, ErrorResponse_type),
      (''403'', False, ErrorResponse_type),
      (''404'', False, ErrorResponse_type),
      (''422'', False, ErrorResponse_type),
      (''429'', False, ErrorResponse_type),
      (''default'', False, ErrorResponse_type)]"

definition RetryExecutionApiV1ExecutionsExecutionIdRetryPostError_type :: ts_type where
  "RetryExecutionApiV1ExecutionsExecutionIdRetryPostError_type =
     values_of RetryExecutionApiV1ExecutionsExecutionIdRetryPostErrors_type"

definition RetryExecutionApiV1ExecutionsExecutionIdRetryPostResponses_type :: ts_type where
  "RetryExecutionApiV1ExecutionsExecutionIdRetryPostResponses_type =
     TObject [(''200'', False, ExecutionResponse_type)]"

definition RetryExecutionApiV1ExecutionsExecutionIdRetryPostResponse_type :: ts_type where
  "RetryExecutionApiV1ExecutionsExecutionIdRetryPostResponse_type =
     values_of RetryExecutionApiV1ExecutionsExecutionIdRetryPostResponses_type"

definition GetExecutionEventsApiV1ExecutionsExecutionIdEventsGetData_type :: ts_type where
  "GetExecutionEventsApiV1ExecutionsExecutionIdEventsGetData_type =
     TObject [
      (''body'', True, TNever),
      (''path'', False, TObject [(''execution_id'', False, TString)]),
      (''query'', True, TObject [
        (''event_types'', True, TUnion [TArray EventType_type, TNull]),
        (''limit'', True, TNumber)]),
      (''url'', False, TLit ''/api/v1/executions/{execution_id}/events'')]"

definition GetExecutionEventsApiV1ExecutionsExecutionIdEventsGetErrors_type :: ts_type where
  "GetExecutionEventsApiV1ExecutionsExecutionIdEventsGetErrors_type =
     TObject [
      (''403'', False, ErrorResponse_type),
      (''404'', False, ErrorResponse_type),
      (''default'', False, ErrorResponse_type)]"

definition GetExecutionEventsApiV1ExecutionsExecutionIdEventsGetError_type :: ts_type where
  "GetExecutionEventsApiV1ExecutionsExecutionIdEventsGetError_type =
     values_of GetExecutionEventsApiV1ExecutionsExecutionIdEventsGetErrors_type"

definition GetExecutionEventsApiV1ExecutionsExecutionIdEventsGetResponses_type :: ts_type where
  "GetExecutionEventsApiV1ExecutionsExecutionIdEventsGetResponses_type =
     TObject [
      (''200'', False, TArray (TUnion [
        ExecutionRequestedEvent_type,
        ExecutionAcceptedEvent_type,
        ExecutionQueuedEvent_type,
        ExecutionStartedEvent_type,
        ExecutionRunningEvent_type,
        ExecutionCompletedEvent_type,
        ExecutionFailedEvent_type,
        ExecutionTimeoutEvent_type,
        ExecutionCancelledEvent_type,
        PodCreatedEvent_type,
        PodScheduledEvent_type,
        PodRunningEvent_type,
        PodSucceededEvent_type,
        PodFailedEvent_type,
        PodTerminatedEvent_type,
        PodDeletedEvent_type,
        ResultStoredEvent_type,
        ResultFailedEvent_type,
        UserSettingsUpdatedEvent_type,
        UserRegisteredEvent_type,
        UserLoginEvent_type,
        UserLoggedInEvent_type,
        UserLoggedOutEvent_type,
        UserUpdatedEvent_type,
        UserDeletedEvent_type,
        NotificationCreatedEvent_type,
        NotificationSentEvent_type,
        NotificationDeliveredEvent_type,
        NotificationFailedEvent_type,
        NotificationReadEvent_type,
        NotificationAllReadEvent_type,
        NotificationClickedEvent_type,
        NotificationPreferencesUpdatedEvent_type,
        ScriptSavedEvent_type,
        ScriptDeletedEvent_type,
        ScriptSharedEvent_type,
        SecurityViolationEvent_type,
        RateLimitExceededEvent_type,
        AuthFailedEvent_type,
        ResourceLimitExceededEvent_type,
        QuotaExceededEvent_type,
        SystemErrorEvent_type,
        ServiceUnhealthyEvent_type,
        ServiceRecoveredEvent_type,
        DlqMessageReceivedEvent_type,
        DlqMessageRetriedEvent_type,
        DlqMessageDiscardedEvent_type]))]"

definition GetExecutionEventsApiV1ExecutionsExecutionIdEventsGetResponse_type :: ts_type where
  "GetExecutionEventsApiV1ExecutionsExecutionIdEventsGetResponse_type =
     values_of GetExecutionEventsApiV1ExecutionsExecutionIdEventsGetResponses_type"

definition GetUserExecutionsApiV1UserExecutionsGetData_type :: ts_type where
  "GetUserExecutionsApiV1UserExecutionsGetData_type =
     TObject [
      (''body'', True, TNever),
      (''path'', True, TNever),
      (''query'', True, TObject [
        (''status'', True, TUnion [ExecutionStatus_type, TNull]),
        (''lang'', True, TUnion [TString, TNull]),
        (''start_time'', True, TUnion [TString, TNull]),
        (''end_time'', True, TUnion [TString, TNull]),
        (''limit'', True, TNumber),
        (''skip'', True, TNumber)]),
      (''url'', False, TLit ''/api/v1/user/executions'')]"

definition GetUserExecutionsApiV1UserExecutionsGetErrors_type :: ts_type where
  "GetUserExecutionsApiV1UserExecutionsGetErrors_type =
     TObject [(''default'', False, ErrorResponse_type)]"

definition GetUserExecutionsApiV1UserExecutionsGetError_type :: ts_type where
  "GetUserExecutionsApiV1UserExecutionsGetError_type =
     values_of GetUserExecutionsApiV1UserExecutionsGetErrors_type"

definition GetUserExecutionsApiV1UserExecutionsGetResponses_type :: ts_type where
  "GetUserExecutionsApiV1UserExecutionsGetResponses_type =
     TObject [(''200'', False, ExecutionListResponse_type)]"

definition GetUserExecutionsApiV1UserExecutionsGetResponse_type :: ts_type where
  "GetUserExecutionsApiV1UserExecutionsGetResponse_type =
     values_of GetUserExecutionsApiV1UserExecutionsGetResponses_type"

definition GetExampleScriptsApiV1ExampleScriptsGetData_type :: ts_type where
  "GetExampleScriptsApiV1ExampleScriptsGetData_type =
     TObject [
      (''body'', True, TNever),
      (''path'', True, TNever),
      (''query'', True, TNever),
      (''url'', False, TLit ''/api/v1/example-scripts'')]"

definition GetExampleScriptsApiV1ExampleScriptsGetErrors_type :: ts_type where
  "GetExampleScriptsApiV1ExampleScriptsGetErrors_type =
     TObject [(''default'', False, ErrorResponse_type)]"

definition GetExampleScriptsApiV1ExampleScriptsGetError_type :: ts_type where
  "GetExampleScriptsApiV1ExampleScriptsGetError_type =
     values_of GetExampleScriptsApiV1ExampleScriptsGetErrors_type"

definition GetExampleScriptsApiV1ExampleScriptsGetResponses_type :: ts_type where
  "GetExampleScriptsApiV1ExampleScriptsGetResponses_type =
     TObject [(''200'', False, ExampleScripts_type)]"

definition GetExampleScriptsApiV1ExampleScriptsGetResponse_type :: ts_type where
  "GetExampleScriptsApiV1ExampleScriptsGetResponse_type =
     values_of GetExampleScriptsApiV1ExampleScriptsGetResponses_type"

definition GetK8sResourceLimitsApiV1K8sLimitsGetData_type :: ts_type where
  "GetK8sResourceLimitsApiV1K8sLimitsGetData_type =
     TObject [
      (''body'', True, TNever),
      (''path'', True, TNever),
      (''query'', True, TNever),
      (''url'', False, TLit ''/api/v1/k8s-limits'')]"

definition GetK8sResourceLimitsApiV1K8sLimitsGetErrors_type :: ts_type where
  "GetK8sResourceLimitsApiV1K8sLimitsGetErrors_type =
     TObject [(''default'', False, ErrorResponse_type)]"

definition GetK8sResourceLimitsApiV1K8sLimitsGetError_type :: ts_type where
  "GetK8sResourceLimitsApiV1K8sLimitsGetError_type =
     values_of GetK8sResourceLimitsApiV1K8sLimitsGetErrors_type"

definition GetK8sResourceLimitsApiV1K8sLimitsGetResponses_type :: ts_type where
  "GetK8sResourceLimitsApiV1K8sLimitsGetResponses_type =
     TObject [(''200'', False, ResourceLimits_type)]"

definition GetK8sResourceLimitsApiV1K8sLimitsGetResponse_type :: ts_type where
  "GetK8sResourceLimitsApiV1K8sLimitsGetResponse_type =
     values_of GetK8sResourceLimitsApiV1K8sLimitsGetResponses_type"

definition DeleteExecutionApiV1ExecutionsExecutionIdDeleteData_type :: ts_type where
  "DeleteExecutionApiV1ExecutionsExecutionIdDeleteData_type =
     TObject [
      (''body'', True, TNever),
      (''path'', False, TObject [(''execution_id'', False, TString)]),
      (''query'', True, TNever),
      (''url'', False, TLit ''/api/v1/executions/{execution_id}'')]"

definition DeleteExecutionApiV1ExecutionsExecutionIdDeleteErrors_type :: ts_type where
  "DeleteExecutionApiV1ExecutionsExecutionIdDeleteErrors_type =
     TObject [(''default'', False, ErrorResponse_type)]"

definition DeleteExecutionApiV1ExecutionsExecutionIdDeleteError_type :: ts_type where
  "DeleteExecutionApiV1ExecutionsExecutionIdDeleteError_type =
     values_of DeleteExecutionApiV1ExecutionsExecutionIdDeleteErrors_type"

definition DeleteExecutionApiV1ExecutionsExecutionIdDeleteResponses_type :: ts_type where
  "DeleteExecutionApiV1ExecutionsExecutionIdDeleteResponses_type =
     TObject [(''200'', False, DeleteResponse_type)]"

definition DeleteExecutionApiV1ExecutionsExecutionIdDeleteResponse_type :: ts_type where
  "DeleteExecutionApiV1ExecutionsExecutionIdDeleteResponse_type =
     values_of DeleteExecutionApiV1ExecutionsExecutionIdDeleteResponses_type"

definition ListSavedScriptsApiV1ScriptsGetData_type :: ts_type where
  "ListSavedScriptsApiV1ScriptsGetData_type =
     TObject [
      (''body'', True, TNever),
      (''path'', True, TNever),
      (''query'', True, TNever),
      (''url'', False, TLit ''/api/v1/scripts'')]"

definition ListSavedScriptsApiV1ScriptsGetErrors_type :: ts_type where
  "ListSavedScriptsApiV1ScriptsGetErrors_type =
     TObject [(''default'', False, ErrorResponse_type)]"

definition ListSavedScriptsApiV1ScriptsGetError_type :: ts_type where
  "ListSavedScriptsApiV1ScriptsGetError_type =
     values_of ListSavedScriptsApiV1ScriptsGetErrors_type"

definition ListSavedScriptsApiV1ScriptsGetResponses_type :: ts_type where
  "ListSavedScriptsApiV1ScriptsGetResponses_type =
     TObject [(''200'', False, SavedScriptListResponse_type)]"

definition ListSavedScriptsApiV1ScriptsGetResponse_type :: ts_type where
  "ListSavedScriptsApiV1ScriptsGetResponse_type =
     values_of ListSavedScriptsApiV1ScriptsGetResponses_type"

definition CreateSavedScriptApiV1ScriptsPostData_type :: ts_type where
  "CreateSavedScriptApiV1ScriptsPostData_type =
     TObject [
      (''body'', False, SavedScriptCreateRequest_type),
      (''path'', True, TNever),
      (''query'', True, TNever),
      (''url'', False, TLit ''/api/v1/scripts'')]"

definition CreateSavedScriptApiV1ScriptsPostErrors_type :: ts_type where
  "CreateSavedScriptApiV1ScriptsPostErrors_type =
     TObject [
      (''422'', False, ErrorResponse_type),
      (''default'', False, ErrorResponse_type)]"

definition CreateSavedScriptApiV1ScriptsPostError_type :: ts_type where
  "CreateSavedScriptApiV1ScriptsPostError_type =
     values_of CreateSavedScriptApiV1ScriptsPostErrors_type"

definition CreateSavedScriptApiV1ScriptsPostResponses_type :: ts_type where
  "CreateSavedScriptApiV1ScriptsPostResponses_type =
     TObject [(''200'', False, SavedScriptResponse_type)]"

definition CreateSavedScriptApiV1ScriptsPostResponse_type :: ts_type where
  "CreateSavedScriptApiV1ScriptsPostResponse_type =
     values_of CreateSavedScriptApiV1ScriptsPostResponses_type"

definition DeleteSavedScriptApiV1ScriptsScriptIdDeleteData_type :: ts_type where
  "DeleteSavedScriptApiV1ScriptsScriptIdDeleteData_type =
     TObject [
      (''body'', True, TNever),
      (''path'', False, TObject [(''script_id'', False, TString)]),
      (''query'', True, TNever),
      (''url'', False, TLit ''/api/v1/scripts/{script_id}'')]"

definition DeleteSavedScriptApiV1ScriptsScriptIdDeleteErrors_type :: ts_type where
  "DeleteSavedScriptApiV1ScriptsScriptIdDeleteErrors_type =
     TObject [
      (''404'', False, ErrorResponse_type),
      (''default'', False, ErrorResponse_type)]"

definition DeleteSavedScriptApiV1ScriptsScriptIdDeleteError_type :: ts_type where
  "DeleteSavedScriptApiV1ScriptsScriptIdDeleteError_type =
     values_of DeleteSavedScriptApiV1ScriptsScriptIdDeleteErrors_type"

definition DeleteSavedScriptApiV1ScriptsScriptIdDeleteResponses_type :: ts_type where
  "DeleteSavedScriptApiV1ScriptsScriptIdDeleteResponses_type =
     TObject [(''204'', False, TVoid)]"

definition DeleteSavedScriptApiV1ScriptsScriptIdDeleteResponse_type :: ts_type where
  "DeleteSavedScriptApiV1ScriptsScriptIdDeleteResponse_type =
     values_of DeleteSavedScriptApiV1ScriptsScriptIdDeleteResponses_type"

definition GetSavedScriptApiV1ScriptsScriptIdGetData_type :: ts_type where
  "GetSavedScriptApiV1ScriptsScriptIdGetData_type =
     TObject [
      (''body'', True, TNever),
      (''path'', False, TObject [(''script_id'', False, TString)]),
      (''query'', True, TNever),
      (''url'', False, TLit ''/api/v1/scripts/{script_id}'')]"

definition GetSavedScriptApiV1ScriptsScriptIdGetErrors_type :: ts_type where
  "GetSavedScriptApiV1ScriptsScriptIdGetErrors_type =
     TObject [
      (''404'', False, ErrorResponse_type),
      (''default'', False, ErrorResponse_type)]"

definition GetSavedScriptApiV1ScriptsScriptIdGetError_type :: ts_type where
  "GetSavedScriptApiV1ScriptsScriptIdGetError_type =
     values_of GetSavedScriptApiV1ScriptsScriptIdGetErrors_type"

definition GetSavedScriptApiV1ScriptsScriptIdGetResponses_type :: ts_type where
  "GetSavedScriptApiV1ScriptsScriptIdGetResponses_type =
     TObject [(''200'', False, SavedScriptResponse_type)]"

definition GetSavedScriptApiV1ScriptsScriptIdGetResponse_type :: ts_type where
  "GetSavedScriptApiV1ScriptsScriptIdGetResponse_type =
     values_of GetSavedScriptApiV1ScriptsScriptIdGetResponses_type"

definition UpdateSavedScriptApiV1ScriptsScriptIdPutData_type :: ts_type where
  "UpdateSavedScriptApiV1ScriptsScriptIdPutData_type =
     TObject [
      (''body'', False, SavedScriptUpdate_type),
      (''path'', False, TObject [(''script_id'', False, TString)]),
      (''query'', True, TNever),
      (''url'', False, TLit ''/api/v1/scripts/{script_id}'')]"

definition UpdateSavedScriptApiV1ScriptsScriptIdPutErrors_type :: ts_type where
  "UpdateSavedScriptApiV1ScriptsScriptIdPutErrors_type =
     TObject [
      (''404'', False, ErrorResponse_type),
      (''422'', False, ErrorResponse_type),
      (''default'', False, ErrorResponse_type)]"

definition UpdateSavedScriptApiV1ScriptsScriptIdPutError_type :: ts_type where
  "UpdateSavedScriptApiV1ScriptsScriptIdPutError_type =
     values_of UpdateSavedScriptApiV1ScriptsScriptIdPutErrors_type"

definition UpdateSavedScriptApiV1ScriptsScriptIdPutResponses_type :: ts_type where
  "UpdateSavedScriptApiV1ScriptsScriptIdPutResponses_type =
     TObject [(''200'', False, SavedScriptResponse_type)]"

definition UpdateSavedScriptApiV1ScriptsScriptIdPutResponse_type :: ts_type where
  "UpdateSavedScriptApiV1ScriptsScriptIdPutResponse_type =
     values_of UpdateSavedScriptApiV1ScriptsScriptIdPutResponses_type"

definition LivenessApiV1HealthLiveGetData_type :: ts_type where
  "LivenessApiV1HealthLiveGetData_type =
     TObject [
      (''body'', True, TNever),
      (''path'', True, TNever),
      (''query'', True, TNever),
      (''url'', False, TLit ''/api/v1/health/live'')]"

definition LivenessApiV1HealthLiveGetErrors_type :: ts_type where
  "LivenessApiV1HealthLiveGetErrors_type =
     TObject [(''default'', False, ErrorResponse_type)]"

definition LivenessApiV1HealthLiveGetError_type :: ts_type where
  "LivenessApiV1HealthLiveGetError_type =
     values_of LivenessApiV1HealthLiveGetErrors_type"

definition LivenessApiV1HealthLiveGetResponses_type :: ts_type where
  "LivenessApiV1HealthLiveGetResponses_type =
     TObject [(''200'', False, LivenessResponse_type)]"

definition LivenessApiV1HealthLiveGetResponse_type :: ts_type where
  "LivenessApiV1HealthLiveGetResponse_type =
     values_of LivenessApiV1HealthLiveGetResponses_type"

definition NotificationStreamApiV1EventsNotificationsStreamGetData_type :: ts_type where
  "NotificationStreamApiV1EventsNotificationsStreamGetData_type =
     TObject [
      (''body'', True, TNever),
      (''path'', True, TNever),
      (''query'', True, TNever),
      (''url'', False, TLit ''/api/v1/events/notifications/stream'')]"

definition NotificationStreamApiV1EventsNotificationsStreamGetErrors_type :: ts_type where
  "NotificationStreamApiV1EventsNotificationsStreamGetErrors_type =
     TObject [(''default'', False, ErrorResponse_type)]"

definition NotificationStreamApiV1EventsNotificationsStreamGetError_type :: ts_type where
  "NotificationStreamApiV1EventsNotificationsStreamGetError_type =
     values_of NotificationStreamApiV1EventsNotificationsStreamGetErrors_type"

definition NotificationStreamApiV1EventsNotificationsStreamGetResponses_type :: ts_type where
  "NotificationStreamApiV1EventsNotificationsStreamGetResponses_type =
     TObject [(''200'', False, NotificationResponse_type)]"

definition NotificationStreamApiV1EventsNotificationsStreamGetResponse_type :: ts_type where
  "NotificationStreamApiV1EventsNotificationsStreamGetResponse_type =
     values_of NotificationStreamApiV1EventsNotificationsStreamGetResponses_type"

definition ExecutionEventsApiV1EventsExecutionsExecutionIdGetData_type :: ts_type where
  "ExecutionEventsApiV1EventsExecutionsExecutionIdGetData_type =
     TObject [
      (''body'', True, TNever),
      (''path'', False, TObject [(''execution_id'', False, TString)]),
      (''query'', True, TNever),
      (''url'', False, TLit ''/api/v1/events/executions/{execution_id}'')]"

definition ExecutionEventsApiV1EventsExecutionsExecutionIdGetErrors_type :: ts_type where
  "ExecutionEventsApiV1EventsExecutionsExecutionIdGetErrors_type =
     TObject [(''default'', False, ErrorResponse_type)]"

definition ExecutionEventsApiV1EventsExecutionsExecutionIdGetError_type :: ts_type where
  "ExecutionEventsApiV1EventsExecutionsExecutionIdGetError_type =
     values_of ExecutionEventsApiV1EventsExecutionsExecutionIdGetErrors_type"

definition ExecutionEventsApiV1EventsExecutionsExecutionIdGetResponses_type :: ts_type where
  "ExecutionEventsApiV1EventsExecutionsExecutionIdGetResponses_type =
     TObject [(''200'', False, SseExecutionEventSchema_type)]"

definition ExecutionEventsApiV1EventsExecutionsExecutionIdGetResponse_type :: ts_type where
  "ExecutionEventsApiV1EventsExecutionsExecutionIdGetResponse_type =
     values_of ExecutionEventsApiV1EventsExecutionsExecutionIdGetResponses_type"

definition BrowseEventsApiV1AdminEventsBrowsePostData_type :: ts_type where
  "BrowseEventsApiV1AdminEventsBrowsePostData_type =
     TObject [
      (''body'', False, EventBrowseRequest_type),
      (''path'', True, TNever),
      (''query'', True, TNever),
      (''url'', False, TLit ''/api/v1/admin/events/browse'')]"

definition BrowseEventsApiV1AdminEventsBrowsePostErrors_type :: ts_type where
  "BrowseEventsApiV1AdminEventsBrowsePostErrors_type =
     TObject [(''default'', False, ErrorResponse_type)]"

definition BrowseEventsApiV1AdminEventsBrowsePostError_type :: ts_type where
  "BrowseEventsApiV1AdminEventsBrowsePostError_type =
     values_of BrowseEventsApiV1AdminEventsBrowsePostErrors_type"

definition BrowseEventsApiV1AdminEventsBrowsePostResponses_type :: ts_type where
  "BrowseEventsApiV1AdminEventsBrowsePostResponses_type =
     TObject [(''200'', False, EventBrowseResponse_type)]"

definition BrowseEventsApiV1AdminEventsBrowsePostResponse_type :: ts_type where
  "BrowseEventsApiV1AdminEventsBrowsePostResponse_type =
     values_of BrowseEventsApiV1AdminEventsBrowsePostResponses_type"

definition GetEventStatsApiV1AdminEventsStatsGetData_type :: ts_type where
  "GetEventStatsApiV1AdminEventsStatsGetData_type =
     TObject [
      (''body'', True, TNever),
      (''path'', True, TNever),
      (''query'', True, TObject [(''hours'', True, TNumber)]),
      (''url'', False, TLit ''/api/v1/admin/events/stats'')]"

definition GetEventStatsApiV1AdminEventsStatsGetErrors_type :: ts_type where
  "GetEventStatsApiV1AdminEventsStatsGetErrors_type =
     TObject [(''default'', False, ErrorResponse_type)]"

definition GetEventStatsApiV1AdminEventsStatsGetError_type :: ts_type where
  "GetEventStatsApiV1AdminEventsStatsGetError_type =
     values_of GetEventStatsApiV1AdminEventsStatsGetErrors_type"

definition GetEventStatsApiV1AdminEventsStatsGetResponses_type :: ts_type where
  "GetEventStatsApiV1AdminEventsStatsGetResponses_type =
     TObject [(''200'', False, EventStatsResponse_type)]"

definition GetEventStatsApiV1AdminEventsStatsGetResponse_type :: ts_type where
  "GetEventStatsApiV1AdminEventsStatsGetResponse_type =
     values_of GetEventStatsApiV1AdminEventsStatsGetResponses_type"

definition ExportEventsApiV1AdminEventsExportExportFormatGetData_type :: ts_type where
  "ExportEventsApiV1AdminEventsExportExportFormatGetData_type =
     TObject [
      (''body'', True, TNever),
      (''path'', False, TObject [(''export_format'', False, ExportFormat_type)]),
      (''query'', True, TObject [
        (''event_types'', True, TUnion [TArray EventType_type, TNull]),
        (''aggregate_id'', True, TUnion [TString, TNull]),
        (''user_id'', True, TUnion [TString, TNull]),
        (''service_name'', True, TUnion [TString, TNull]),
        (''start_time'', True, TUnion [TString, TNull]),
        (''end_time'', True, TUnion [TString, TNull]),
        (''limit'', True, TNumber)]),
      (''url'', False, TLit ''/api/v1/admin/events/export/{export_format}'')]"

definition ExportEventsApiV1AdminEventsExportExportFormatGetErrors_type :: ts_type where
  "ExportEventsApiV1AdminEventsExportExportFormatGetErrors_type =
     TObject [(''default'', False, ErrorResponse_type)]"

definition ExportEventsApiV1AdminEventsExportExportFormatGetError_type :: ts_type where
  "ExportEventsApiV1AdminEventsExportExportFormatGetError_type =
     values_of ExportEventsApiV1AdminEventsExportExportFormatGetErrors_type"

definition ExportEventsApiV1AdminEventsExportExportFormatGetResponses_type :: ts_type where
  "ExportEventsApiV1AdminEventsExportExportFormatGetResponses_type =
     TObject [(''200'', False, TUnknown)]"

definition DeleteEventApiV1AdminEventsEventIdDeleteData_type :: ts_type where
  "DeleteEventApiV1AdminEventsEventIdDeleteData_type =
     TObject [
      (''body'', True, TNever),
      (''path'', False, TObject [(''event_id'', False, TString)]),
      (''query'', True, TNever),
      (''url'', False, TLit ''/api/v1/admin/events/{event_id}'')]"

definition DeleteEventApiV1AdminEventsEventIdDeleteErrors_type :: ts_type where
  "DeleteEventApiV1AdminEventsEventIdDeleteErrors_type =
     TObject [
      (''404'', False, ErrorResponse_type),
      (''default'', False, ErrorResponse_type)]"

definition DeleteEventApiV1AdminEventsEventIdDeleteError_type :: ts_type where
  "DeleteEventApiV1AdminEventsEventIdDeleteError_type =
     values_of DeleteEventApiV1AdminEventsEventIdDeleteErrors_type"

definition DeleteEventApiV1AdminEventsEventIdDeleteResponses_type :: ts_type where
  "DeleteEventApiV1AdminEventsEventIdDeleteResponses_type =
     TObject [(''200'', False, EventDeleteResponse_type)]"

definition DeleteEventApiV1AdminEventsEventIdDeleteResponse_type :: ts_type where
  "DeleteEventApiV1AdminEventsEventIdDeleteResponse_type =
     values_of DeleteEventApiV1AdminEventsEventIdDeleteResponses_type"

definition GetEventDetailApiV1AdminEventsEventIdGetData_type :: ts_type where
  "GetEventDetailApiV1AdminEventsEventIdGetData_type =
     TObject [
      (''body'', True, TNever),
      (''path'', False, TObject [(''event_id'', False, TString)]),
      (''query'', True, TNever),
      (''url'', False, TLit ''/api/v1/admin/events/{event_id}'')]"

definition GetEventDetailApiV1AdminEventsEventIdGetErrors_type :: ts_type where
  "GetEventDetailApiV1AdminEventsEventIdGetErrors_type =
     TObject [
      (''404'', False, ErrorResponse_type),
      (''default'', False, ErrorResponse_type)]"

definition GetEventDetailApiV1AdminEventsEventIdGetError_type :: ts_type where
  "GetEventDetailApiV1AdminEventsEventIdGetError_type =
     values_of GetEventDetailApiV1AdminEventsEventIdGetErrors_type"

definition GetEventDetailApiV1AdminEventsEventIdGetResponses_type :: ts_type where
  "GetEventDetailApiV1AdminEventsEventIdGetResponses_type =
     TObject [(''200'', False, EventDetailResponse_type)]"

definition GetEventDetailApiV1AdminEventsEventIdGetResponse_type :: ts_type where
  "GetEventDetailApiV1AdminEventsEventIdGetResponse_type =
     values_of GetEventDetailApiV1AdminEventsEventIdGetResponses_type"

definition ReplayEventsApiV1AdminEventsReplayPostData_type :: ts_type where
  "ReplayEventsApiV1AdminEventsReplayPostData_type =
     TObject [
      (''body'', False, EventReplayRequest_type),
      (''path'', True, TNever),
      (''query'', True, TNever),
      (''url'', False, TLit ''/api/v1/admin/events/replay'')]"

definition ReplayEventsApiV1AdminEventsReplayPostErrors_type :: ts_type where
  "ReplayEventsApiV1AdminEventsReplayPostErrors_type =
     TObject [
      (''404'', False, ErrorResponse_type),
      (''422'', False, ErrorResponse_type),
      (''default'', False, ErrorResponse_type)]"

definition ReplayEventsApiV1AdminEventsReplayPostError_type :: ts_type where
  "ReplayEventsApiV1AdminEventsReplayPostError_type =
     values_of ReplayEventsApiV1AdminEventsReplayPostErrors_type"

definition ReplayEventsApiV1AdminEventsReplayPostResponses_type :: ts_type where
  "ReplayEventsApiV1AdminEventsReplayPostResponses_type =
     TObject [(''200'', False, EventReplayResponse_type)]"

definition ReplayEventsApiV1AdminEventsReplayPostResponse_type :: ts_type where
  "ReplayEventsApiV1AdminEventsReplayPostResponse_type =
     values_of ReplayEventsApiV1AdminEventsReplayPostResponses_type"

definition StreamReplayStatusApiV1AdminEventsReplaySessionIdStatusGetData_type :: ts_type where
  "StreamReplayStatusApiV1AdminEventsReplaySessionIdStatusGetData_type =
     TObject [
      (''body'', True, TNever),
      (''path'', False, TObject [(''session_id'', False, TString)]),
      (''query'', True, TNever),
      (''url'', False, TLit ''/api/v1/admin/events/replay/{session_id}/status'')]"

definition StreamReplayStatusApiV1AdminEventsReplaySessionIdStatusGetErrors_type :: ts_type where
  "StreamReplayStatusApiV1AdminEventsReplaySessionIdStatusGetErrors_type =
     TObject [(''default'', False, ErrorResponse_type)]"

definition StreamReplayStatusApiV1AdminEventsReplaySessionIdStatusGetError_type :: ts_type where
  "StreamReplayStatusApiV1AdminEventsReplaySessionIdStatusGetError_type =
     values_of StreamReplayStatusApiV1AdminEventsReplaySessionIdStatusGetErrors_type"

definition StreamReplayStatusApiV1AdminEventsReplaySessionIdStatusGetResponses_type :: ts_type where
  "StreamReplayStatusApiV1AdminEventsReplaySessionIdStatusGetResponses_type =
     TObject [(''200'', False, EventReplayStatusResponse_type)]"

definition StreamReplayStatusApiV1AdminEventsReplaySessionIdStatusGetResponse_type :: ts_type where
  "StreamReplayStatusApiV1AdminEventsReplaySessionIdStatusGetResponse_type =
     values_of StreamReplayStatusApiV1AdminEventsReplaySessionIdStatusGetResponses_type"

definition ListExecutionsApiV1AdminExecutionsGetData_type :: ts_type where
  "ListExecutionsApiV1AdminExecutionsGetData_type =
     TObject [
      (''body'', True, TNever),
      (''path'', True, TNever),
      (''query'', True, TObject [
        (''status'', True, TUnion [ExecutionStatus_type, TNull]),
        (''priority'', True, TUnion [QueuePriority_type, TNull]),
        (''user_id'', True, TUnion [TString, TNull]),
        (''limit'', True, TNumber),
        (''skip'', True, TNumber)]),
      (''url'', False, TLit ''/api/v1/admin/executions/'')]"

definition ListExecutionsApiV1AdminExecutionsGetErrors_type :: ts_type where
  "ListExecutionsApiV1AdminExecutionsGetErrors_type =
     TObject [
      (''403'', False, ErrorResponse_type),
      (''default'', False, ErrorResponse_type)]"

definition ListExecutionsApiV1AdminExecutionsGetError_type :: ts_type where
  "ListExecutionsApiV1AdminExecutionsGetError_type =
     values_of ListExecutionsApiV1AdminExecutionsGetErrors_type"

definition ListExecutionsApiV1AdminExecutionsGetResponses_type :: ts_type where
  "ListExecutionsApiV1AdminExecutionsGetResponses_type =
     TObject [(''200'', False, AdminExecutionListResponse_type)]"

definition ListExecutionsApiV1AdminExecutionsGetResponse_type :: ts_type where
  "ListExecutionsApiV1AdminExecutionsGetResponse_type =
     values_of ListExecutionsApiV1AdminExecutionsGetResponses_type"

definition UpdatePriorityApiV1AdminExecutionsExecutionIdPriorityPutData_type :: ts_type where
  "UpdatePriorityApiV1AdminExecutionsExecutionIdPriorityPutData_type =
     TObject [
      (''body'', False, PriorityUpdateRequest_type),
      (''path'', False, TObject [(''execution_id'', False, TString)]),
      (''query'', True, TNever),
      (''url'', False, TLit ''/api/v1/admin/executions/{execution_id}/priority'')]"

definition UpdatePriorityApiV1AdminExecutionsExecutionIdPriorityPutErrors_type :: ts_type where
  "UpdatePriorityApiV1AdminExecutionsExecutionIdPriorityPutErrors_type =
     TObject [
      (''403'', False, ErrorResponse_type),
      (''404'', False, ErrorResponse_type),
      (''default'', False, ErrorResponse_type)]"

definition UpdatePriorityApiV1AdminExecutionsExecutionIdPriorityPutError_type :: ts_type where
  "UpdatePriorityApiV1AdminExecutionsExecutionIdPriorityPutError_type =
     values_of UpdatePriorityApiV1AdminExecutionsExecutionIdPriorityPutErrors_type"

definition UpdatePriorityApiV1AdminExecutionsExecutionIdPriorityPutResponses_type :: ts_type where
  "UpdatePriorityApiV1AdminExecutionsExecutionIdPriorityPutResponses_type =
     TObject [(''200'', False, AdminExecutionResponse_type)]"

definition UpdatePriorityApiV1AdminExecutionsExecutionIdPriorityPutResponse_type :: ts_type where
  "UpdatePriorityApiV1AdminExecutionsExecutionIdPriorityPutResponse_type =
     values_of UpdatePriorityApiV1AdminExecutionsExecutionIdPriorityPutResponses_type"

definition GetQueueStatusApiV1AdminExecutionsQueueGetData_type :: ts_type where
  "GetQueueStatusApiV1AdminExecutionsQueueGetData_type =
     TObject [
      (''body'', True, TNever),
      (''path'', True, TNever),
      (''query'', True, TNever),
      (''url'', False, TLit ''/api/v1/admin/executions/queue'')]"

definition GetQueueStatusApiV1AdminExecutionsQueueGetErrors_type :: ts_type where
  "GetQueueStatusApiV1AdminExecutionsQueueGetErrors_type =
     TObject [
      (''403'', False, ErrorResponse_type),
      (''default'', False, ErrorResponse_type)]"

definition GetQueueStatusApiV1AdminExecutionsQueueGetError_type :: ts_type where
  "GetQueueStatusApiV1AdminExecutionsQueueGetError_type =
     values_of GetQueueStatusApiV1AdminExecutionsQueueGetErrors_type"

definition GetQueueStatusApiV1AdminExecutionsQueueGetResponses_type :: ts_type where
  "GetQueueStatusApiV1AdminExecutionsQueueGetResponses_type =
     TObject [(''200'', False, QueueStatusResponse_type)]"

definition GetQueueStatusApiV1AdminExecutionsQueueGetResponse_type :: ts_type where
  "GetQueueStatusApiV1AdminExecutionsQueueGetResponse_type =
     values_of GetQueueStatusApiV1AdminExecutionsQueueGetResponses_type"

definition GetDefaultRateLimitRulesApiV1AdminRateLimitsDefaultsGetData_type :: ts_type where
  "GetDefaultRateLimitRulesApiV1AdminRateLimitsDefaultsGetData_type =
     TObject [
      (''body'', True, TNever),
      (''path'', True, TNever),
      (''query'', True, TNever),
      (''url'', False, TLit ''/api/v1/admin/rate-limits/defaults'')]"

definition GetDefaultRateLimitRulesApiV1AdminRateLimitsDefaultsGetErrors_type :: ts_type where
  "GetDefaultRateLimitRulesApiV1AdminRateLimitsDefaultsGetErrors_type =
     TObject [(''default'', False, ErrorResponse_type)]"

definition GetDefaultRateLimitRulesApiV1AdminRateLimitsDefaultsGetError_type :: ts_type where
  "GetDefaultRateLimitRulesApiV1AdminRateLimitsDefaultsGetError_type =
     values_of GetDefaultRateLimitRulesApiV1AdminRateLimitsDefaultsGetErrors_type"

definition GetDefaultRateLimitRulesApiV1AdminRateLimitsDefaultsGetResponses_type :: ts_type where
  "GetDefaultRateLimitRulesApiV1AdminRateLimitsDefaultsGetResponses_type =
     TObject [(''200'', False, TArray RateLimitRuleResponse_type)]"

definition GetDefaultRateLimitRulesApiV1AdminRateLimitsDefaultsGetResponse_type :: ts_type where
  "GetDefaultRateLimitRulesApiV1AdminRateLimitsDefaultsGetResponse_type =
     values_of GetDefaultRateLimitRulesApiV1AdminRateLimitsDefaultsGetResponses_type"

definition GetUserRateLimitsApiV1AdminRateLimitsUserIdGetData_type :: ts_type where
  "GetUserRateLimitsApiV1AdminRateLimitsUserIdGetData_type =
     TObject [
      (''body'', True, TNever),
      (''path'', False, TObject [(''user_id'', False, TString)]),
      (''query'', True, TNever),
      (''url'', False, TLit ''/api/v1/admin/rate-limits/{user_id}'')]"

definition GetUserRateLimitsApiV1AdminRateLimitsUserIdGetErrors_type :: ts_type where
  "GetUserRateLimitsApiV1AdminRateLimitsUserIdGetErrors_type =
     TObject [(''default'', False, ErrorResponse_type)]"

definition GetUserRateLimitsApiV1AdminRateLimitsUserIdGetError_type :: ts_type where
  "GetUserRateLimitsApiV1AdminRateLimitsUserIdGetError_type =
     values_of GetUserRateLimitsApiV1AdminRateLimitsUserIdGetErrors_type"

definition GetUserRateLimitsApiV1AdminRateLimitsUserIdGetResponses_type :: ts_type where
  "GetUserRateLimitsApiV1AdminRateLimitsUserIdGetResponses_type =
     TObject [(''200'', False, UserRateLimitsResponse_type)]"

definition GetUserRateLimitsApiV1AdminRateLimitsUserIdGetResponse_type :: ts_type where
  "GetUserRateLimitsApiV1AdminRateLimitsUserIdGetResponse_type =
     values_of GetUserRateLimitsApiV1AdminRateLimitsUserIdGetResponses_type"

definition UpdateUserRateLimitsApiV1AdminRateLimitsUserIdPutData_type :: ts_type where
  "UpdateUserRateLimitsApiV1AdminRateLimitsUserIdPutData_type =
     TObject [
      (''body'', False, RateLimitUpdateRequest_type),
      (''path'', False, TObject [(''user_id'', False, TString)]),
      (''query'', True, TNever),
      (''url'', False, TLit ''/api/v1/admin/rate-limits/{user_id}'')]"

definition UpdateUserRateLimitsApiV1AdminRateLimitsUserIdPutErrors_type :: ts_type where
  "UpdateUserRateLimitsApiV1AdminRateLimitsUserIdPutErrors_type =
     TObject [(''default'', False, ErrorResponse_type)]"

definition UpdateUserRateLimitsApiV1AdminRateLimitsUserIdPutError_type :: ts_type where
  "UpdateUserRateLimitsApiV1AdminRateLimitsUserIdPutError_type =
     values_of UpdateUserRateLimitsApiV1AdminRateLimitsUserIdPutErrors_type"

definition UpdateUserRateLimitsApiV1AdminRateLimitsUserIdPutResponses_type :: ts_type where
  "UpdateUserRateLimitsApiV1AdminRateLimitsUserIdPutResponses_type =
     TObject [(''200'', False, RateLimitUpdateResponse_type)]"

definition UpdateUserRateLimitsApiV1AdminRateLimitsUserIdPutResponse_type :: ts_type where
  "UpdateUserRateLimitsApiV1AdminRateLimitsUserIdPutResponse_type =
     values_of UpdateUserRateLimitsApiV1AdminRateLimitsUserIdPutResponses_type"

definition ResetUserRateLimitsApiV1AdminRateLimitsUserIdResetPostData_type :: ts_type where
  "ResetUserRateLimitsApiV1AdminRateLimitsUserIdResetPostData_type =
     TObject [
      (''body'', True, TNever),
      (''path'', False, TObject [(''user_id'', False, TString)]),
      (''query'', True, TNever),
      (''url'', False, TLit ''/api/v1/admin/rate-limits/{user_id}/reset'')]"

definition ResetUserRateLimitsApiV1AdminRateLimitsUserIdResetPostErrors_type :: ts_type where
  "ResetUserRateLimitsApiV1AdminRateLimitsUserIdResetPostErrors_type =
     TObject [(''default'', False, ErrorResponse_type)]"

definition ResetUserRateLimitsApiV1AdminRateLimitsUserIdResetPostError_type :: ts_type where
  "ResetUserRateLimitsApiV1AdminRateLimitsUserIdResetPostError_type =
     values_of ResetUserRateLimitsApiV1AdminRateLimitsUserIdResetPostErrors_type"

definition ResetUserRateLimitsApiV1AdminRateLimitsUserIdResetPostResponses_type :: ts_type where
  "ResetUserRateLimitsApiV1AdminRateLimitsUserIdResetPostResponses_type =
     TObject [(''200'', False, MessageResponse_type)]"

definition ResetUserRateLimitsApiV1AdminRateLimitsUserIdResetPostResponse_type :: ts_type where
  "ResetUserRateLimitsApiV1AdminRateLimitsUserIdResetPostResponse_type =
     values_of ResetUserRateLimitsApiV1AdminRateLimitsUserIdResetPostResponses_type"

definition GetSystemSettingsApiV1AdminSettingsGetData_type :: ts_type where
  "GetSystemSettingsApiV1AdminSettingsGetData_type =
     TObject [
      (''body'', True, TNever),
      (''path'', True, TNever),
      (''query'', True, TNever),
      (''url'', False, TLit ''/api/v1/admin/settings/'')]"

definition GetSystemSettingsApiV1AdminSettingsGetErrors_type :: ts_type where
  "GetSystemSettingsApiV1AdminSettingsGetErrors_type =
     TObject [
      (''500'', False, ErrorResponse_type),
      (''default'', False, ErrorResponse_type)]"

definition GetSystemSettingsApiV1AdminSettingsGetError_type :: ts_type where
  "GetSystemSettingsApiV1AdminSettingsGetError_type =
     values_of GetSystemSettingsApiV1AdminSettingsGetErrors_type"

definition GetSystemSettingsApiV1AdminSettingsGetResponses_type :: ts_type where
  "GetSystemSettingsApiV1AdminSettingsGetResponses_type =
     TObject [(''200'', False, SystemSettingsSchemaOutput_type)]"

definition GetSystemSettingsApiV1AdminSettingsGetResponse_type :: ts_type where
  "GetSystemSettingsApiV1AdminSettingsGetResponse_type =
     values_of GetSystemSettingsApiV1AdminSettingsGetResponses_type"

definition UpdateSystemSettingsApiV1AdminSettingsPutData_type :: ts_type where
  "UpdateSystemSettingsApiV1AdminSettingsPutData_type =
     TObject [
      (''body'', False, SystemSettingsSchemaInput_type),
      (''path'', True, TNever),
      (''query'', True, TNever),
      (''url'', False, TLit ''/api/v1/admin/settings/'')]"

definition UpdateSystemSettingsApiV1AdminSettingsPutErrors_type :: ts_type where
  "UpdateSystemSettingsApiV1AdminSettingsPutErrors_type =
     TObject [
      (''400'', False, ErrorResponse_type),
      (''422'', False, ErrorResponse_type),
      (''500'', False, ErrorResponse_type),
      (''default'', False, ErrorResponse_type)]"

definition UpdateSystemSettingsApiV1AdminSettingsPutError_type :: ts_type where
  "UpdateSystemSettingsApiV1AdminSettingsPutError_type =
     values_of UpdateSystemSettingsApiV1AdminSettingsPutErrors_type"

definition UpdateSystemSettingsApiV1AdminSettingsPutResponses_type :: ts_type where
  "UpdateSystemSettingsApiV1AdminSettingsPutResponses_type =
     TObject [(''200'', False, SystemSettingsSchemaOutput_type)]"

definition UpdateSystemSettingsApiV1AdminSettingsPutResponse_type :: ts_type where
  "UpdateSystemSettingsApiV1AdminSettingsPutResponse_type =
     values_of UpdateSystemSettingsApiV1AdminSettingsPutResponses_type"

definition ResetSystemSettingsApiV1AdminSettingsResetPostData_type :: ts_type where
  "ResetSystemSettingsApiV1AdminSettingsResetPostData_type =
     TObject [
      (''body'', True, TNever),
      (''path'', True, TNever),
      (''query'', True, TNever),
      (''url'', False, TLit ''/api/v1/admin/settings/reset'')]"

definition ResetSystemSettingsApiV1AdminSettingsResetPostErrors_type :: ts_type where
  "ResetSystemSettingsApiV1AdminSettingsResetPostErrors_type =
     TObject [
      (''500'', False, ErrorResponse_type),
      (''default'', False, ErrorResponse_type)]"

definition ResetSystemSettingsApiV1AdminSettingsResetPostError_type :: ts_type where
  "ResetSystemSettingsApiV1AdminSettingsResetPostError_type =
     values_of ResetSystemSettingsApiV1AdminSettingsResetPostErrors_type"

definition ResetSystemSettingsApiV1AdminSettingsResetPostResponses_type :: ts_type where
  "ResetSystemSettingsApiV1AdminSettingsResetPostResponses_type =
     TObject [(''200'', False, SystemSettingsSchemaOutput_type)]"

definition ResetSystemSettingsApiV1AdminSettingsResetPostResponse_type :: ts_type where
  "ResetSystemSettingsApiV1AdminSettingsResetPostResponse_type =
     values_of ResetSystemSettingsApiV1AdminSettingsResetPostResponses_type"

definition ListUsersApiV1AdminUsersGetData_type :: ts_type where
  "ListUsersApiV1AdminUsersGetData_type =
     TObject [
      (''body'', True, TNever),
      (''path'', True, TNever),
      (''query'', True, TObject [
        (''limit'', True, TNumber),
        (''offset'', True, TNumber),
        (''search'', True, TUnion [TString, TNull]),
        (''role'', True, TUnion [UserRole_type, TNull]),
        (''is_active'', True, TUnion [TBoolean, TNull]),
        (''bypass_rate_limit'', True, TUnion [TBoolean, TNull]),
        (''has_custom_limits'', True, TUnion [TBoolean, TNull]),
        (''custom_multiplier'', True, TUnion [TBoolean, TNull])]),
      (''url'', False, TLit ''/api/v1/admin/users/'')]"

definition ListUsersApiV1AdminUsersGetErrors_type :: ts_type where
  "ListUsersApiV1AdminUsersGetErrors_type =
     TObject [(''default'', False, ErrorResponse_type)]"

definition ListUsersApiV1AdminUsersGetError_type :: ts_type where
  "ListUsersApiV1AdminUsersGetError_type =
     values_of ListUsersApiV1AdminUsersGetErrors_type"

definition ListUsersApiV1AdminUsersGetResponses_type :: ts_type where
  "ListUsersApiV1AdminUsersGetResponses_type =
     TObject [(''200'', False, UserListResponse_type)]"

definition ListUsersApiV1AdminUsersGetResponse_type :: ts_type where
  "ListUsersApiV1AdminUsersGetResponse_type =
     values_of ListUsersApiV1AdminUsersGetResponses_type"

definition CreateUserApiV1AdminUsersPostData_type :: ts_type where
  "CreateUserApiV1AdminUsersPostData_type =
     TObject [
      (''body'', False, UserCreateWritable_type),
      (''path'', True, TNever),
      (''query'', True, TNever),
      (''url'', False, TLit ''/api/v1/admin/users/'')]"

definition CreateUserApiV1AdminUsersPostErrors_type :: ts_type where
  "CreateUserApiV1AdminUsersPostErrors_type =
     TObject [
      (''409'', False, ErrorResponse_type),
      (''default'', False, ErrorResponse_type)]"

definition CreateUserApiV1AdminUsersPostError_type :: ts_type where
  "CreateUserApiV1AdminUsersPostError_type =
     values_of CreateUserApiV1AdminUsersPostErrors_type"

definition CreateUserApiV1AdminUsersPostResponses_type :: ts_type where
  "CreateUserApiV1AdminUsersPostResponses_type =
     TObject [(''200'', False, UserResponse_type)]"

definition CreateUserApiV1AdminUsersPostResponse_type :: ts_type where
  "CreateUserApiV1AdminUsersPostResponse_type =
     values_of CreateUserApiV1AdminUsersPostResponses_type"

definition DeleteUserApiV1AdminUsersUserIdDeleteData_type :: ts_type where
  "DeleteUserApiV1AdminUsersUserIdDeleteData_type =
     TObject [
      (''body'', True, TNever),
      (''path'', False, TObject [(''user_id'', False, TString)]),
      (''query'', True, TObject [(''cascade'', True, TBoolean)]),
      (''url'', False, TLit ''/api/v1/admin/users/{user_id}'')]"

definition DeleteUserApiV1AdminUsersUserIdDeleteErrors_type :: ts_type where
  "DeleteUserApiV1AdminUsersUserIdDeleteErrors_type =
     TObject [
      (''400'', False, ErrorResponse_type),
      (''404'', False, ErrorResponse_type),
      (''default'', False, ErrorResponse_type)]"

definition DeleteUserApiV1AdminUsersUserIdDeleteError_type :: ts_type where
  "DeleteUserApiV1AdminUsersUserIdDeleteError_type =
     values_of DeleteUserApiV1AdminUsersUserIdDeleteErrors_type"

definition DeleteUserApiV1AdminUsersUserIdDeleteResponses_type :: ts_type where
  "DeleteUserApiV1AdminUsersUserIdDeleteResponses_type =
     TObject [(''200'', False, DeleteUserResponse_type)]"

definition DeleteUserApiV1AdminUsersUserIdDeleteResponse_type :: ts_type where
  "DeleteUserApiV1AdminUsersUserIdDeleteResponse_type =
     values_of DeleteUserApiV1AdminUsersUserIdDeleteResponses_type"

definition GetUserApiV1AdminUsersUserIdGetData_type :: ts_type where
  "GetUserApiV1AdminUsersUserIdGetData_type =
     TObject [
      (''body'', True, TNever),
      (''path'', False, TObject [(''user_id'', False, TString)]),
      (''query'', True, TNever),
      (''url'', False, TLit ''/api/v1/admin/users/{user_id}'')]"

definition GetUserApiV1AdminUsersUserIdGetErrors_type :: ts_type where
  "GetUserApiV1AdminUsersUserIdGetErrors_type =
     TObject [
      (''404'', False, ErrorResponse_type),
      (''default'', False, ErrorResponse_type)]"

definition GetUserApiV1AdminUsersUserIdGetError_type :: ts_type where
  "GetUserApiV1AdminUsersUserIdGetError_type =
     values_of GetUserApiV1AdminUsersUserIdGetErrors_type"

definition GetUserApiV1AdminUsersUserIdGetResponses_type :: ts_type where
  "GetUserApiV1AdminUsersUserIdGetResponses_type =
     TObject [(''200'', False, UserResponse_type)]"

definition GetUserApiV1AdminUsersUserIdGetResponse_type :: ts_type where
  "GetUserApiV1AdminUsersUserIdGetResponse_type =
     values_of GetUserApiV1AdminUsersUserIdGetResponses_type"

definition UpdateUserApiV1AdminUsersUserIdPutData_type :: ts_type where
  "UpdateUserApiV1AdminUsersUserIdPutData_type =
     TObject [
      (''body'', False, UserUpdateWritable_type),
      (''path'', False, TObject [(''user_id'', False, TString)]),
      (''query'', True, TNever),
      (''url'', False, TLit ''/api/v1/admin/users/{user_id}'')]"

definition UpdateUserApiV1AdminUsersUserIdPutErrors_type :: ts_type where
  "UpdateUserApiV1AdminUsersUserIdPutErrors_type =
     TObject [
      (''404'', False, ErrorResponse_type),
      (''409'', False, ErrorResponse_type),
      (''default'', False, ErrorResponse_type)]"

definition UpdateUserApiV1AdminUsersUserIdPutError_type :: ts_type where
  "UpdateUserApiV1AdminUsersUserIdPutError_type =
     values_of UpdateUserApiV1AdminUsersUserIdPutErrors_type"

definition UpdateUserApiV1AdminUsersUserIdPutResponses_type :: ts_type where
  "UpdateUserApiV1AdminUsersUserIdPutResponses_type =
     TObject [(''200'', False, UserResponse_type)]"

definition UpdateUserApiV1AdminUsersUserIdPutResponse_type :: ts_type where
  "UpdateUserApiV1AdminUsersUserIdPutResponse_type =
     values_of UpdateUserApiV1AdminUsersUserIdPutResponses_type"

definition GetUserOverviewApiV1AdminUsersUserIdOverviewGetData_type :: ts_type where
  "GetUserOverviewApiV1AdminUsersUserIdOverviewGetData_type =
     TObject [
      (''body'', True, TNever),
      (''path'', False, TObject [(''user_id'', False, TString)]),
      (''query'', True, TNever),
      (''url'', False, TLit ''/api/v1/admin/users/{user_id}/overview'')]"

definition GetUserOverviewApiV1AdminUsersUserIdOverviewGetErrors_type :: ts_type where
  "GetUserOverviewApiV1AdminUsersUserIdOverviewGetErrors_type =
     TObject [
      (''404'', False, ErrorResponse_type),
      (''default'', False, ErrorResponse_type)]"

definition GetUserOverviewApiV1AdminUsersUserIdOverviewGetError_type :: ts_type where
  "GetUserOverviewApiV1AdminUsersUserIdOverviewGetError_type =
     values_of GetUserOverviewApiV1AdminUsersUserIdOverviewGetErrors_type"

definition GetUserOverviewApiV1AdminUsersUserIdOverviewGetResponses_type :: ts_type where
  "GetUserOverviewApiV1AdminUsersUserIdOverviewGetResponses_type =
     TObject [(''200'', False, AdminUserOverview_type)]"

definition GetUserOverviewApiV1AdminUsersUserIdOverviewGetResponse_type :: ts_type where
  "GetUserOverviewApiV1AdminUsersUserIdOverviewGetResponse_type =
     values_of GetUserOverviewApiV1AdminUsersUserIdOverviewGetResponses_type"

definition ResetUserPasswordApiV1AdminUsersUserIdResetPasswordPostData_type :: ts_type where
  "ResetUserPasswordApiV1AdminUsersUserIdResetPasswordPostData_type =
     TObject [
      (''body'', False, PasswordResetRequest_type),
      (''path'', False, TObject [(''user_id'', False, TString)]),
      (''query'', True, TNever),
      (''url'', False, TLit ''/api/v1/admin/users/{user_id}/reset-password'')]"

definition ResetUserPasswordApiV1AdminUsersUserIdResetPasswordPostErrors_type :: ts_type where
  "ResetUserPasswordApiV1AdminUsersUserIdResetPasswordPostErrors_type =
     TObject [
      (''404'', False, ErrorResponse_type),
      (''default'', False, ErrorResponse_type)]"

definition ResetUserPasswordApiV1AdminUsersUserIdResetPasswordPostError_type :: ts_type where
  "ResetUserPasswordApiV1AdminUsersUserIdResetPasswordPostError_type =
     values_of ResetUserPasswordApiV1AdminUsersUserIdResetPasswordPostErrors_type"

definition ResetUserPasswordApiV1AdminUsersUserIdResetPasswordPostResponses_type :: ts_type where
  "ResetUserPasswordApiV1AdminUsersUserIdResetPasswordPostResponses_type =
     TObject [(''200'', False, MessageResponse_type)]"

definition ResetUserPasswordApiV1AdminUsersUserIdResetPasswordPostResponse_type :: ts_type where
  "ResetUserPasswordApiV1AdminUsersUserIdResetPasswordPostResponse_type =
     values_of ResetUserPasswordApiV1AdminUsersUserIdResetPasswordPostResponses_type"

definition UnlockUserApiV1AdminUsersUserIdUnlockPostData_type :: ts_type where
  "UnlockUserApiV1AdminUsersUserIdUnlockPostData_type =
     TObject [
      (''body'', True, TNever),
      (''path'', False, TObject [(''user_id'', False, TString)]),
      (''query'', True, TNever),
      (''url'', False, TLit ''/api/v1/admin/users/{user_id}/unlock'')]"

definition UnlockUserApiV1AdminUsersUserIdUnlockPostErrors_type :: ts_type where
  "UnlockUserApiV1AdminUsersUserIdUnlockPostErrors_type =
     TObject [
      (''404'', False, ErrorResponse_type),
      (''default'', False, ErrorResponse_type)]"

definition UnlockUserApiV1AdminUsersUserIdUnlockPostError_type :: ts_type where
  "UnlockUserApiV1AdminUsersUserIdUnlockPostError_type =
     values_of UnlockUserApiV1AdminUsersUserIdUnlockPostErrors_type"

definition UnlockUserApiV1AdminUsersUserIdUnlockPostResponses_type :: ts_type where
  "UnlockUserApiV1AdminUsersUserIdUnlockPostResponses_type =
     TObject [(''200'', False, UnlockResponse_type)]"

definition UnlockUserApiV1AdminUsersUserIdUnlockPostResponse_type :: ts_type where
  "UnlockUserApiV1AdminUsersUserIdUnlockPostResponse_type =
     values_of UnlockUserApiV1AdminUsersUserIdUnlockPostResponses_type"

definition GetUserSettingsApiV1UserSettingsGetData_type :: ts_type where
  "GetUserSettingsApiV1UserSettingsGetData_type =
     TObject [
      (''body'', True, TNever),
      (''path'', True, TNever),
      (''query'', True, TNever),
      (''url'', False, TLit ''/api/v1/user/settings/'')]"

definition GetUserSettingsApiV1UserSettingsGetErrors_type :: ts_type where
  "GetUserSettingsApiV1UserSettingsGetErrors_type =
     TObject [(''default'', False, ErrorResponse_type)]"

definition GetUserSettingsApiV1UserSettingsGetError_type :: ts_type where
  "GetUserSettingsApiV1UserSettingsGetError_type =
     values_of GetUserSettingsApiV1UserSettingsGetErrors_type"

definition GetUserSettingsApiV1UserSettingsGetResponses_type :: ts_type where
  "GetUserSettingsApiV1UserSettingsGetResponses_type =
     TObject [(''200'', False, UserSettings_type)]"

definition GetUserSettingsApiV1UserSettingsGetResponse_type :: ts_type where
  "GetUserSettingsApiV1UserSettingsGetResponse_type =
     values_of GetUserSettingsApiV1UserSettingsGetResponses_type"

definition UpdateUserSettingsApiV1UserSettingsPutData_type :: ts_type where
  "UpdateUserSettingsApiV1UserSettingsPutData_type =
     TObject [
      (''body'', False, UserSettingsUpdate_type),
      (''path'', True, TNever),
      (''query'', True, TNever),
      (''url'', False, TLit ''/api/v1/user/settings/'')]"

definition UpdateUserSettingsApiV1UserSettingsPutErrors_type :: ts_type where
  "UpdateUserSettingsApiV1UserSettingsPutErrors_type =
     TObject [(''default'', False, ErrorResponse_type)]"

definition UpdateUserSettingsApiV1UserSettingsPutError_type :: ts_type where
  "UpdateUserSettingsApiV1UserSettingsPutError_type =
     values_of UpdateUserSettingsApiV1UserSettingsPutErrors_type"

definition UpdateUserSettingsApiV1UserSettingsPutResponses_type :: ts_type where
  "UpdateUserSettingsApiV1UserSettingsPutResponses_type =
     TObject [(''200'', False, UserSettings_type)]"

definition UpdateUserSettingsApiV1UserSettingsPutResponse_type :: ts_type where
  "UpdateUserSettingsApiV1UserSettingsPutResponse_type =
     values_of UpdateUserSettingsApiV1UserSettingsPutResponses_type"

definition UpdateThemeApiV1UserSettingsThemePutData_type :: ts_type where
  "UpdateThemeApiV1UserSettingsThemePutData_type =
     TObject [
      (''body'', False, ThemeUpdateRequest_type),
      (''path'', True, TNever),
      (''query'', True, TNever),
      (''url'', False, TLit ''/api/v1/user/settings/theme'')]"

definition UpdateThemeApiV1UserSettingsThemePutErrors_type :: ts_type where
  "UpdateThemeApiV1UserSettingsThemePutErrors_type =
     TObject [(''default'', False, ErrorResponse_type)]"

definition UpdateThemeApiV1UserSettingsThemePutError_type :: ts_type where
  "UpdateThemeApiV1UserSettingsThemePutError_type =
     values_of UpdateThemeApiV1UserSettingsThemePutErrors_type"

definition UpdateThemeApiV1UserSettingsThemePutResponses_type :: ts_type where
  "UpdateThemeApiV1UserSettingsThemePutResponses_type =
     TObject [(''200'', False, UserSettings_type)]"

definition UpdateThemeApiV1UserSettingsThemePutResponse_type :: ts_type where
  "UpdateThemeApiV1UserSettingsThemePutResponse_type =
     values_of UpdateThemeApiV1UserSettingsThemePutResponses_type"

definition UpdateNotificationSettingsApiV1UserSettingsNotificationsPutData_type :: ts_type where
  "UpdateNotificationSettingsApiV1UserSettingsNotificationsPutData_type =
     TObject [
      (''body'', False, NotificationSettingsInput_type),
      (''path'', True, TNever),
      (''query'', True, TNever),
      (''url'', False, TLit ''/api/v1/user/settings/notifications'')]"

definition UpdateNotificationSettingsApiV1UserSettingsNotificationsPutErrors_type :: ts_type where
  "UpdateNotificationSettingsApiV1UserSettingsNotificationsPutErrors_type =
     TObject [(''default'', False, ErrorResponse_type)]"

definition UpdateNotificationSettingsApiV1UserSettingsNotificationsPutError_type :: ts_type where
  "UpdateNotificationSettingsApiV1UserSettingsNotificationsPutError_type =
     values_of UpdateNotificationSettingsApiV1UserSettingsNotificationsPutErrors_type"

definition UpdateNotificationSettingsApiV1UserSettingsNotificationsPutResponses_type :: ts_type where
  "UpdateNotificationSettingsApiV1UserSettingsNotificationsPutResponses_type =
     TObject [(''200'', False, UserSettings_type)]"

definition UpdateNotificationSettingsApiV1UserSettingsNotificationsPutResponse_type :: ts_type where
  "UpdateNotificationSettingsApiV1UserSettingsNotificationsPutResponse_type =
     values_of UpdateNotificationSettingsApiV1UserSettingsNotificationsPutResponses_type"

definition UpdateEditorSettingsApiV1UserSettingsEditorPutData_type :: ts_type where
  "UpdateEditorSettingsApiV1UserSettingsEditorPutData_type =
     TObject [
      (''body'', False, EditorSettingsInput_type),
      (''path'', True, TNever),
      (''query'', True, TNever),
      (''url'', False, TLit ''/api/v1/user/settings/editor'')]"

definition UpdateEditorSettingsApiV1UserSettingsEditorPutErrors_type :: ts_type where
  "UpdateEditorSettingsApiV1UserSettingsEditorPutErrors_type =
     TObject [(''default'', False, ErrorResponse_type)]"

definition UpdateEditorSettingsApiV1UserSettingsEditorPutError_type :: ts_type where
  "UpdateEditorSettingsApiV1UserSettingsEditorPutError_type =
     values_of UpdateEditorSettingsApiV1UserSettingsEditorPutErrors_type"

definition UpdateEditorSettingsApiV1UserSettingsEditorPutResponses_type :: ts_type where
  "UpdateEditorSettingsApiV1UserSettingsEditorPutResponses_type =
     TObject [(''200'', False, UserSettings_type)]"

definition UpdateEditorSettingsApiV1UserSettingsEditorPutResponse_type :: ts_type where
  "UpdateEditorSettingsApiV1UserSettingsEditorPutResponse_type =
     values_of UpdateEditorSettingsApiV1UserSettingsEditorPutResponses_type"

definition GetSettingsHistoryApiV1UserSettingsHistoryGetData_type :: ts_type where
  "GetSettingsHistoryApiV1UserSettingsHistoryGetData_type =
     TObject [
      (''body'', True, TNever),
      (''path'', True, TNever),
      (''query'', True, TObject [(''limit'', True, TNumber)]),
      (''url'', False, TLit ''/api/v1/user/settings/history'')]"

definition GetSettingsHistoryApiV1UserSettingsHistoryGetErrors_type :: ts_type where
  "GetSettingsHistoryApiV1UserSettingsHistoryGetErrors_type =
     TObject [(''default'', False, ErrorResponse_type)]"

definition GetSettingsHistoryApiV1UserSettingsHistoryGetError_type :: ts_type where
  "GetSettingsHistoryApiV1UserSettingsHistoryGetError_type =
     values_of GetSettingsHistoryApiV1UserSettingsHistoryGetErrors_type"

definition GetSettingsHistoryApiV1UserSettingsHistoryGetResponses_type :: ts_type where
  "GetSettingsHistoryApiV1UserSettingsHistoryGetResponses_type =
     TObject [(''200'', False, SettingsHistoryResponse_type)]"

definition GetSettingsHistoryApiV1UserSettingsHistoryGetResponse_type :: ts_type where
  "GetSettingsHistoryApiV1UserSettingsHistoryGetResponse_type =
     values_of GetSettingsHistoryApiV1UserSettingsHistoryGetResponses_type"

definition RestoreSettingsApiV1UserSettingsRestorePostData_type :: ts_type where
  "RestoreSettingsApiV1UserSettingsRestorePostData_type =
     TObject [
      (''body'', False, RestoreSettingsRequest_type),
      (''path'', True, TNever),
      (''query'', True, TNever),
      (''url'', False, TLit ''/api/v1/user/settings/restore'')]"

definition RestoreSettingsApiV1UserSettingsRestorePostErrors_type :: ts_type where
  "RestoreSettingsApiV1UserSettingsRestorePostErrors_type =
     TObject [(''default'', False, ErrorResponse_type)]"

definition RestoreSettingsApiV1UserSettingsRestorePostError_type :: ts_type where
  "RestoreSettingsApiV1UserSettingsRestorePostError_type =
     values_of RestoreSettingsApiV1UserSettingsRestorePostErrors_type"

definition RestoreSettingsApiV1UserSettingsRestorePostResponses_type :: ts_type where
  "RestoreSettingsApiV1UserSettingsRestorePostResponses_type =
     TObject [(''200'', False, UserSettings_type)]"

definition RestoreSettingsApiV1UserSettingsRestorePostResponse_type :: ts_type where
  "RestoreSettingsApiV1UserSettingsRestorePostResponse_type =
     values_of RestoreSettingsApiV1UserSettingsRestorePostResponses_type"

definition UpdateCustomSettingApiV1UserSettingsCustomKeyPutData_type :: ts_type where
  "UpdateCustomSettingApiV1UserSettingsCustomKeyPutData_type =
     TObject [
      (''body'', False, TRecord TUnknown),
      (''path'', False, TObject [(''key'', False, TString)]),
      (''query'', True, TNever),
      (''url'', False, TLit ''/api/v1/user/settings/custom/{key}'')]"

definition UpdateCustomSettingApiV1UserSettingsCustomKeyPutErrors_type :: ts_type where
  "UpdateCustomSettingApiV1UserSettingsCustomKeyPutErrors_type =
     TObject [(''default'', False, ErrorResponse_type)]"

definition UpdateCustomSettingApiV1UserSettingsCustomKeyPutError_type :: ts_type where
  "UpdateCustomSettingApiV1UserSettingsCustomKeyPutError_type =
     values_of UpdateCustomSettingApiV1UserSettingsCustomKeyPutErrors_type"

definition UpdateCustomSettingApiV1UserSettingsCustomKeyPutResponses_type :: ts_type where
  "UpdateCustomSettingApiV1UserSettingsCustomKeyPutResponses_type =
     TObject [(''200'', False, UserSettings_type)]"

definition UpdateCustomSettingApiV1UserSettingsCustomKeyPutResponse_type :: ts_type where
  "UpdateCustomSettingApiV1UserSettingsCustomKeyPutResponse_type =
     values_of UpdateCustomSettingApiV1UserSettingsCustomKeyPutResponses_type"

definition GetNotificationsApiV1NotificationsGetData_type :: ts_type where
  "GetNotificationsApiV1NotificationsGetData_type =
     TObject [
      (''body'', True, TNever),
      (''path'', True, TNever),
      (''query'', True, TObject [
        (''status'', True, TUnion [NotificationStatus_type, TNull]),
        (''include_tags'', True, TUnion [TArray TString, TNull]),
        (''exclude_tags'', True, TUnion [TArray TString, TNull]),
        (''tag_prefix'', True, TUnion [TString, TNull]),
        (''limit'', True, TNumber),
        (''offset'', True, TNumber)]),
      (''url'', False, TLit ''/api/v1/notifications'')]"

definition GetNotificationsApiV1NotificationsGetErrors_type :: ts_type where
  "GetNotificationsApiV1NotificationsGetErrors_type =
     TObject [(''default'', False, ErrorResponse_type)]"

definition GetNotificationsApiV1NotificationsGetError_type :: ts_type where
  "GetNotificationsApiV1NotificationsGetError_type =
     values_of GetNotificationsApiV1NotificationsGetErrors_type"

definition GetNotificationsApiV1NotificationsGetResponses_type :: ts_type where
  "GetNotificationsApiV1NotificationsGetResponses_type =
     TObject [(''200'', False, NotificationListResponse_type)]"

definition GetNotificationsApiV1NotificationsGetResponse_type :: ts_type where
  "GetNotificationsApiV1NotificationsGetResponse_type =
     values_of GetNotificationsApiV1NotificationsGetResponses_type"

definition MarkNotificationReadApiV1NotificationsNotificationIdReadPutData_type :: ts_type where
  "MarkNotificationReadApiV1NotificationsNotificationIdReadPutData_type =
     TObject [
      (''body'', True, TNever),
      (''path'', False, TObject [(''notification_id'', False, TString)]),
      (''query'', True, TNever),
      (''url'', False, TLit ''/api/v1/notifications/{notification_id}/read'')]"

definition MarkNotificationReadApiV1NotificationsNotificationIdReadPutErrors_type :: ts_type where
  "MarkNotificationReadApiV1NotificationsNotificationIdReadPutErrors_type =
     TObject [(''default'', False, ErrorResponse_type)]"

definition MarkNotificationReadApiV1NotificationsNotificationIdReadPutError_type :: ts_type where
  "MarkNotificationReadApiV1NotificationsNotificationIdReadPutError_type =
     values_of MarkNotificationReadApiV1NotificationsNotificationIdReadPutErrors_type"

definition MarkNotificationReadApiV1NotificationsNotificationIdReadPutResponses_type :: ts_type where
  "MarkNotificationReadApiV1NotificationsNotificationIdReadPutResponses_type =
     TObject [(''204'', False, TVoid)]"

definition MarkNotificationReadApiV1NotificationsNotificationIdReadPutResponse_type :: ts_type where
  "MarkNotificationReadApiV1NotificationsNotificationIdReadPutResponse_type =
     values_of MarkNotificationReadApiV1NotificationsNotificationIdReadPutResponses_type"

definition MarkAllReadApiV1NotificationsMarkAllReadPostData_type :: ts_type where
  "MarkAllReadApiV1NotificationsMarkAllReadPostData_type =
     TObject [
      (''body'', True, TNever),
      (''path'', True, TNever),
      (''query'', True, TNever),
      (''url'', False, TLit ''/api/v1/notifications/mark-all-read'')]"

definition MarkAllReadApiV1NotificationsMarkAllReadPostErrors_type :: ts_type where
  "MarkAllReadApiV1NotificationsMarkAllReadPostErrors_type =
     TObject [(''default'', False, ErrorResponse_type)]"

definition MarkAllReadApiV1NotificationsMarkAllReadPostError_type :: ts_type where
  "MarkAllReadApiV1NotificationsMarkAllReadPostError_type =
     values_of MarkAllReadApiV1NotificationsMarkAllReadPostErrors_type"

definition MarkAllReadApiV1NotificationsMarkAllReadPostResponses_type :: ts_type where
  "MarkAllReadApiV1NotificationsMarkAllReadPostResponses_type =
     TObject [(''204'', False, TVoid)]"

definition MarkAllReadApiV1NotificationsMarkAllReadPostResponse_type :: ts_type where
  "MarkAllReadApiV1NotificationsMarkAllReadPostResponse_type =
     values_of MarkAllReadApiV1NotificationsMarkAllReadPostResponses_type"

definition GetUnreadCountApiV1NotificationsUnreadCountGetData_type :: ts_type where
  "GetUnreadCountApiV1NotificationsUnreadCountGetData_type =
     TObject [
      (''body'', True, TNever),
      (''path'', True, TNever),
      (''query'', True, TNever),
      (''url'', False, TLit ''/api/v1/notifications/unread-count'')]"

definition GetUnreadCountApiV1NotificationsUnreadCountGetErrors_type :: ts_type where
  "GetUnreadCountApiV1NotificationsUnreadCountGetErrors_type =
     TObject [(''default'', False, ErrorResponse_type)]"

definition GetUnreadCountApiV1NotificationsUnreadCountGetError_type :: ts_type where
  "GetUnreadCountApiV1NotificationsUnreadCountGetError_type =
     values_of GetUnreadCountApiV1NotificationsUnreadCountGetErrors_type"

definition GetUnreadCountApiV1NotificationsUnreadCountGetResponses_type :: ts_type where
  "GetUnreadCountApiV1NotificationsUnreadCountGetResponses_type =
     TObject [(''200'', False, UnreadCountResponse_type)]"

definition GetUnreadCountApiV1NotificationsUnreadCountGetResponse_type :: ts_type where
  "GetUnreadCountApiV1NotificationsUnreadCountGetResponse_type =
     values_of GetUnreadCountApiV1NotificationsUnreadCountGetResponses_type"

definition DeleteNotificationApiV1NotificationsNotificationIdDeleteData_type :: ts_type where
  "DeleteNotificationApiV1NotificationsNotificationIdDeleteData_type =
     TObject [
      (''body'', True, TNever),
      (''path'', False, TObject [(''notification_id'', False, TString)]),
      (''query'', True, TNever),
      (''url'', False, TLit ''/api/v1/notifications/{notification_id}'')]"

definition DeleteNotificationApiV1NotificationsNotificationIdDeleteErrors_type :: ts_type where
  "DeleteNotificationApiV1NotificationsNotificationIdDeleteErrors_type =
     TObject [(''default'', False, ErrorResponse_type)]"

definition DeleteNotificationApiV1NotificationsNotificationIdDeleteError_type :: ts_type where
  "DeleteNotificationApiV1NotificationsNotificationIdDeleteError_type =
     values_of DeleteNotificationApiV1NotificationsNotificationIdDeleteErrors_type"

definition DeleteNotificationApiV1NotificationsNotificationIdDeleteResponses_type :: ts_type where
  "DeleteNotificationApiV1NotificationsNotificationIdDeleteResponses_type =
     TObject [(''200'', False, DeleteNotificationResponse_type)]"

definition DeleteNotificationApiV1NotificationsNotificationIdDeleteResponse_type :: ts_type where
  "DeleteNotificationApiV1NotificationsNotificationIdDeleteResponse_type =
     values_of DeleteNotificationApiV1NotificationsNotificationIdDeleteResponses_type"

end
