(* ===== verification/WireSchemas.thy ===== *)
theory WireSchemas
  imports WireTypes
begin

text \<open>
  The runtime schemas of \<^verbatim>\<open>frontend/src/lib/api/zod.gen.ts\<close>, under their names in the source; the schema
  of an enumeration is \<open>ZEnum\<close> of the list of strings that \<open>ApiTypes\<close> has under its name.
\<close>

definition zBodyLoginApiV1AuthLoginPost :: zschema where
  "zBodyLoginApiV1AuthLoginPost =
     ZObject [
      (''grant_type'', ZNullish (ZCheck ZString [Regex ''^password$''])),
      (''username'', ZString),
      (''password'', ZString),
      (''scope'', ZDefault (ZOptional ZString) (VStr '''')),
      (''client_id'', ZNullish ZString),
      (''client_secret'', ZNullish ZString)]"

definition zCancelStatus_schema :: zschema where
  "zCancelStatus_schema = ZEnum zCancelStatus"

definition zCancelResponse :: zschema where
  "zCancelResponse =
     ZObject [
      (''execution_id'', ZString),
      (''status'', zCancelStatus_schema),
      (''message'', ZString),
      (''event_id'', ZNullable ZString)]"

definition zContainerStatusInfo :: zschema where
  "zContainerStatusInfo =
     ZObject [
      (''name'', ZString),
      (''ready'', ZDefault (ZOptional ZBoolean) (VBool False)),
      (''restart_count'', ZDefault (ZOptional ZInt) (VNum 0)),
      (''state'', ZDefault (ZOptional ZString) (VStr ''unknown''))]"

definition zDeleteNotificationResponse :: zschema where
  "zDeleteNotificationResponse =
     ZObject [(''message'', ZString)]"

definition zDeleteResponse :: zschema where
  "zDeleteResponse =
     ZObject [(''message'', ZString), (''execution_id'', ZString)]"

definition zDeleteUserResponse :: zschema where
  "zDeleteUserResponse =
     ZObject [
      (''user_deleted'', ZBoolean),
      (''executions'', ZDefault ZInt (VNum 0)),
      (''saved_scripts'', ZDefault ZInt (VNum 0)),
      (''notifications'', ZDefault ZInt (VNum 0)),
      (''user_settings'', ZDefault ZInt (VNum 0)),
      (''events'', ZDefault ZInt (VNum 0))]"

definition zDerivedCounts :: zschema where
  "zDerivedCounts =
     ZObject [
      (''succeeded'', ZDefault ZInt (VNum 0)),
      (''failed'', ZDefault ZInt (VNum 0)),
      (''timeout'', ZDefault ZInt (VNum 0)),
      (''cancelled'', ZDefault ZInt (VNum 0)),
      (''terminal_total'', ZDefault ZInt (VNum 0))]"

definition zEditorSettingsInput :: zschema where
  "zEditorSettingsInput =
     ZObject [
      (''font_size'', ZDefault (ZOptional (ZCheck ZInt [Gte 8, Lte 32])) (VNum 14)),
      (''tab_size'', ZDefault (ZOptional (ZUnion [ZNumLiteral 2, ZNumLiteral 4, ZNumLiteral 8])) (VNum 4)),
      (''use_tabs'', ZDefault (ZOptional ZBoolean) (VBool False)),
      (''word_wrap'', ZDefault (ZOptional ZBoolean) (VBool True)),
      (''show_line_numbers'', ZDefault (ZOptional ZBoolean) (VBool True))]"

definition zEditorSettingsOutput :: zschema where
  "zEditorSettingsOutput =
     ZObject [
      (''font_size'', ZDefault (ZCheck ZInt [Gte 8, Lte 32]) (VNum 14)),
      (''tab_size'', ZDefault (ZUnion [ZNumLiteral 2, ZNumLiteral 4, ZNumLiteral 8]) (VNum 4)),
      (''use_tabs'', ZDefault ZBoolean (VBool False)),
      (''word_wrap'', ZDefault ZBoolean (VBool True)),
      (''show_line_numbers'', ZDefault ZBoolean (VBool True))]"

definition zEndpointGroup_schema :: zschema where
  "zEndpointGroup_schema = ZEnum zEndpointGroup"

definition zEnvironment_schema :: zschema where
  "zEnvironment_schema = ZEnum zEnvironment"

definition zErrorResponse :: zschema where
  "zErrorResponse =
     ZObject [(''status'', ZInt), (''detail'', ZString)]"

definition zEventDeleteResponse :: zschema where
  "zEventDeleteResponse =
     ZObject [(''message'', ZString), (''event_id'', ZString)]"

definition zEventMetadata :: zschema where
  "zEventMetadata =
     ZObject [
      (''service_name'', ZString),
      (''service_version'', ZString),
      (''user_id'', ZString),
      (''environment'', ZDefault (ZOptional zEnvironment_schema) (VStr ''production''))]"

definition zAuthFailedEvent :: zschema where
  "zAuthFailedEvent =
     ZObject [
      (''event_id'', ZString),
      (''event_type'', ZDefault (ZLiteral ''auth_failed'') (VStr ''auth_failed'')),
      (''event_version'', ZDefault ZString (VStr ''1.0'')),
      (''timestamp'', ZDatetime),
      (''aggregate_id'', ZNullish ZString),
      (''metadata'', zEventMetadata),
      (''username'', ZNullish ZString),
      (''reason'', ZOptional ZString),
      (''ip_address'', ZNullish ZString)]"

definition zEventReplayRequest :: zschema where
  "zEventReplayRequest =
     ZObject [
      (''event_ids'', ZNullish (ZArray ZString)),
      (''aggregate_id'', ZNullish ZString),
      (''start_time'', ZNullish ZDatetime),
      (''end_time'', ZNullish ZDatetime),
      (''dry_run'', ZDefault (ZOptional ZBoolean) (VBool True))]"

definition zEventType_schema :: zschema where
  "zEventType_schema = ZEnum zEventType"

definition zDlqMessageDiscardedEvent :: zschema where
  "zDlqMessageDiscardedEvent =
     ZObject [
      (''event_id'', ZString),
      (''event_type'', ZDefault (ZLiteral ''dlq_message_discarded'') (VStr ''dlq_message_discarded'')),
      (''event_version'', ZDefault ZString (VStr ''1.0'')),
      (''timestamp'', ZDatetime),
      (''aggregate_id'', ZNullish ZString),
      (''metadata'', zEventMetadata),
      (''dlq_event_id'', ZOptional ZString),
      (''original_topic'', ZOptional ZString),
      (''original_event_type'', ZOptional zEventType_schema),
      (''reason'', ZOptional ZString),
      (''retry_count'', ZOptional ZInt)]"

definition zDlqMessageReceivedEvent :: zschema where
  "zDlqMessageReceivedEvent =
     ZObject [
      (''event_id'', ZString),
      (''event_type'', ZDefault (ZLiteral ''dlq_message_received'') (VStr ''dlq_message_received'')),
      (''event_version'', ZDefault ZString (VStr ''1.0'')),
      (''timestamp'', ZDatetime),
      (''aggregate_id'', ZNullish ZString),
      (''metadata'', zEventMetadata),
      (''dlq_event_id'', ZOptional ZString),
      (''original_topic'', ZOptional ZString),
      (''original_event_type'', ZOptional zEventType_schema),
      (''error'', ZOptional ZString),
      (''retry_count'', ZOptional ZInt),
      (''producer_id'', ZOptional ZString),
      (''failed_at'', ZOptional ZDatetime)]"

definition zDlqMessageRetriedEvent :: zschema where
  "zDlqMessageRetriedEvent =
     ZObject [
      (''event_id'', ZString),
      (''event_type'', ZDefault (ZLiteral ''dlq_message_retried'') (VStr ''dlq_message_retried'')),
      (''event_version'', ZDefault ZString (VStr ''1.0'')),
      (''timestamp'', ZDatetime),
      (''aggregate_id'', ZNullish ZString),
      (''metadata'', zEventMetadata),
      (''dlq_event_id'', ZOptional ZString),
      (''original_topic'', ZOptional ZString),
      (''original_event_type'', ZOptional zEventType_schema),
      (''retry_count'', ZOptional ZInt),
      (''retry_topic'', ZOptional ZString)]"

definition zEventFilter :: zschema where
  "zEventFilter =
     ZObject [
      (''event_types'', ZNullish (ZArray zEventType_schema)),
      (''aggregate_id'', ZNullish ZString),
      (''user_id'', ZNullish ZString),
      (''start_time'', ZNullish ZDatetime),
      (''end_time'', ZNullish ZDatetime),
      (''service_name'', ZNullish ZString),
      (''search_text'', ZNullish ZString)]"

definition zEventBrowseRequest :: zschema where
  "zEventBrowseRequest =
     ZObject [
      (''filters'', zEventFilter),
      (''skip'', ZDefault (ZOptional ZInt) (VNum 0)),
      (''limit'', ZDefault (ZOptional (ZCheck ZInt [Lte 500])) (VNum 50))]"

definition zEventSummary :: zschema where
  "zEventSummary =
     ZObject [
      (''event_id'', ZString),
      (''event_type'', zEventType_schema),
      (''timestamp'', ZDatetime),
      (''aggregate_id'', ZNullish ZString)]"

definition zEventTypeCount :: zschema where
  "zEventTypeCount =
     ZObject [(''event_type'', zEventType_schema), (''count'', ZInt)]"

definition zExampleScripts :: zschema where
  "zExampleScripts =
     ZObject [(''scripts'', ZRecord ZString ZString)]"

definition zExecutionCancelledEvent :: zschema where
  "zExecutionCancelledEvent =
     ZObject [
      (''event_id'', ZString),
      (''event_type'', ZDefault (ZLiteral ''execution_cancelled'') (VStr ''execution_cancelled'')),
      (''event_version'', ZDefault ZString (VStr ''1.0'')),
      (''timestamp'', ZDatetime),
      (''aggregate_id'', ZNullish ZString),
      (''metadata'', zEventMetadata),
      (''execution_id'', ZOptional ZString),
      (''cancelled_by'', ZOptional ZString),
      (''force_terminated'', ZDefault (ZOptional ZBoolean) (VBool False))]"

definition zExecutionErrorType_schema :: zschema where
  "zExecutionErrorType_schema = ZEnum zExecutionErrorType"

definition zExecutionQueuedEvent :: zschema where
  "zExecutionQueuedEvent =
     ZObject [
      (''event_id'', ZString),
      (''event_type'', ZDefault (ZLiteral ''execution_queued'') (VStr ''execution_queued'')),
      (''event_version'', ZDefault ZString (VStr ''1.0'')),
      (''timestamp'', ZDatetime),
      (''aggregate_id'', ZNullish ZString),
      (''metadata'', zEventMetadata),
      (''execution_id'', ZOptional ZString),
      (''position_in_queue'', ZNullish ZInt),
      (''estimated_start_time'', ZNullish ZDatetime)]"

definition zExecutionRequest :: zschema where
  "zExecutionRequest =
     ZObject [
      (''script'', ZCheck ZString [MaxLength 50000]),
      (''lang'', ZDefault (ZOptional ZString) (VStr ''python'')),
      (''lang_version'', ZDefault (ZOptional ZString) (VStr ''3.14''))]"

definition zExecutionRunningEvent :: zschema where
  "zExecutionRunningEvent =
     ZObject [
      (''event_id'', ZString),
      (''event_type'', ZDefault (ZLiteral ''execution_running'') (VStr ''execution_running'')),
      (''event_version'', ZDefault ZString (VStr ''1.0'')),
      (''timestamp'', ZDatetime),
      (''aggregate_id'', ZNullish ZString),
      (''metadata'', zEventMetadata),
      (''execution_id'', ZOptional ZString),
      (''pod_name'', ZOptional ZString),
      (''progress_percentage'', ZNullish ZInt)]"

definition zExecutionStartedEvent :: zschema where
  "zExecutionStartedEvent =
     ZObject [
      (''event_id'', ZString),
      (''event_type'', ZDefault (ZLiteral ''execution_started'') (VStr ''execution_started'')),
      (''event_version'', ZDefault ZString (VStr ''1.0'')),
      (''timestamp'', ZDatetime),
      (''aggregate_id'', ZNullish ZString),
      (''metadata'', zEventMetadata),
      (''execution_id'', ZOptional ZString),
      (''pod_name'', ZOptional ZString),
      (''node_name'', ZNullish ZString),
      (''container_id'', ZNullish ZString)]"

definition zExecutionStatus_schema :: zschema where
  "zExecutionStatus_schema = ZEnum zExecutionStatus"

definition zExecutionResponse :: zschema where
  "zExecutionResponse =
     ZObject [(''execution_id'', ZString), (''status'', zExecutionStatus_schema)]"

definition zExportFormat_schema :: zschema where
  "zExportFormat_schema = ZEnum zExportFormat"

definition zHourlyEventCount :: zschema where
  "zHourlyEventCount =
     ZObject [(''hour'', ZString), (''count'', ZInt)]"

definition zLanguageInfo :: zschema where
  "zLanguageInfo =
     ZObject [(''versions'', ZArray ZString), (''file_ext'', ZString)]"

definition zLanguageLimits :: zschema where
  "zLanguageLimits =
     ZObject [
      (''cpu_limit'', ZString),
      (''memory_limit'', ZString),
      (''execution_timeout'', ZInt)]"

definition zLivenessResponse :: zschema where
  "zLivenessResponse =
     ZObject [
      (''status'', ZString),
      (''uptime_seconds'', ZInt),
      (''timestamp'', ZDatetime)]"

definition zLoginMethod_schema :: zschema where
  "zLoginMethod_schema = ZEnum zLoginMethod"

definition zMessageResponse :: zschema where
  "zMessageResponse =
     ZObject [(''message'', ZString)]"

definition zNotificationAllReadEvent :: zschema where
  "zNotificationAllReadEvent =
     ZObject [
      (''event_id'', ZString),
      (''event_type'', ZDefault (ZLiteral ''notification_all_read'') (VStr ''notification_all_read'')),
      (''event_version'', ZDefault ZString (VStr ''1.0'')),
      (''timestamp'', ZDatetime),
      (''aggregate_id'', ZNullish ZString),
      (''metadata'', zEventMetadata),
      (''user_id'', ZOptional ZString),
      (''count'', ZOptional ZInt),
      (''read_at'', ZOptional ZDatetime)]"

definition zNotificationClickedEvent :: zschema where
  "zNotificationClickedEvent =
     ZObject [
      (''event_id'', ZString),
      (''event_type'', ZDefault (ZLiteral ''notification_clicked'') (VStr ''notification_clicked'')),
      (''event_version'', ZDefault ZString (VStr ''1.0'')),
      (''timestamp'', ZDatetime),
      (''aggregate_id'', ZNullish ZString),
      (''metadata'', zEventMetadata),
      (''notification_id'', ZOptional ZString),
      (''user_id'', ZOptional ZString),
      (''clicked_at'', ZOptional ZDatetime),
      (''action'', ZNullish ZString)]"

definition zNotificationDeliveredEvent :: zschema where
  "zNotificationDeliveredEvent =
     ZObject [
      (''event_id'', ZString),
      (''event_type'', ZDefault (ZLiteral ''notification_delivered'') (VStr ''notification_delivered'')),
      (''event_version'', ZDefault ZString (VStr ''1.0'')),
      (''timestamp'', ZDatetime),
      (''aggregate_id'', ZNullish ZString),
      (''metadata'', zEventMetadata),
      (''notification_id'', ZOptional ZString),
      (''user_id'', ZOptional ZString),
      (''delivered_at'', ZOptional ZDatetime)]"

definition zNotificationFailedEvent :: zschema where
  "zNotificationFailedEvent =
     ZObject [
      (''event_id'', ZString),
      (''event_type'', ZDefault (ZLiteral ''notification_failed'') (VStr ''notification_failed'')),
      (''event_version'', ZDefault ZString (VStr ''1.0'')),
      (''timestamp'', ZDatetime),
      (''aggregate_id'', ZNullish ZString),
      (''metadata'', zEventMetadata),
      (''notification_id'', ZOptional ZString),
      (''user_id'', ZOptional ZString),
      (''error'', ZOptional ZString),
      (''retry_count'', ZDefault (ZOptional ZInt) (VNum 0))]"

definition zNotificationPreferencesUpdatedEvent :: zschema where
  "zNotificationPreferencesUpdatedEvent =
     ZObject [
      (''event_id'', ZString),
      (''event_type'', ZDefault (ZLiteral ''notification_preferences_updated'') (VStr ''notification_preferences_updated'')),
      (''event_version'', ZDefault ZString (VStr ''1.0'')),
      (''timestamp'', ZDatetime),
      (''aggregate_id'', ZNullish ZString),
      (''metadata'', zEventMetadata),
      (''user_id'', ZOptional ZString),
      (''changed_fields'', ZOptional (ZArray ZString))]"

definition zNotificationReadEvent :: zschema where
  "zNotificationReadEvent =
     ZObject [
      (''event_id'', ZString),
      (''event_type'', ZDefault (ZLiteral ''notification_read'') (VStr ''notification_read'')),
      (''event_version'', ZDefault ZString (VStr ''1.0'')),
      (''timestamp'', ZDatetime),
      (''aggregate_id'', ZNullish ZString),
      (''metadata'', zEventMetadata),
      (''notification_id'', ZOptional ZString),
      (''user_id'', ZOptional ZString),
      (''read_at'', ZOptional ZDatetime)]"

definition zNotificationSentEvent :: zschema where
  "zNotificationSentEvent =
     ZObject [
      (''event_id'', ZString),
      (''event_type'', ZDefault (ZLiteral ''notification_sent'') (VStr ''notification_sent'')),
      (''event_version'', ZDefault ZString (VStr ''1.0'')),
      (''timestamp'', ZDatetime),
      (''aggregate_id'', ZNullish ZString),
      (''metadata'', zEventMetadata),
      (''notification_id'', ZOptional ZString),
      (''user_id'', ZOptional ZString),
      (''sent_at'', ZOptional ZDatetime)]"

definition zNotificationSettingsInput :: zschema where
  "zNotificationSettingsInput =
     ZObject [
      (''execution_completed'', ZDefault (ZOptional ZBoolean) (VBool True)),
      (''execution_failed'', ZDefault (ZOptional ZBoolean) (VBool True))]"

definition zNotificationSettingsOutput :: zschema where
  "zNotificationSettingsOutput =
     ZObject [
      (''execution_completed'', ZDefault ZBoolean (VBool True)),
      (''execution_failed'', ZDefault ZBoolean (VBool True))]"

definition zNotificationSeverity_schema :: zschema where
  "zNotificationSeverity_schema = ZEnum zNotificationSeverity"

definition zNotificationCreatedEvent :: zschema where
  "zNotificationCreatedEvent =
     ZObject [
      (''event_id'', ZString),
      (''event_type'', ZDefault (ZLiteral ''notification_created'') (VStr ''notification_created'')),
      (''event_version'', ZDefault ZString (VStr ''1.0'')),
      (''timestamp'', ZDatetime),
      (''aggregate_id'', ZNullish ZString),
      (''metadata'', zEventMetadata),
      (''notification_id'', ZOptional ZString),
      (''user_id'', ZOptional ZString),
      (''subject'', ZOptional ZString),
      (''body'', ZOptional ZString),
      (''severity'', ZOptional zNotificationSeverity_schema),
      (''tags'', ZOptional (ZArray ZString))]"

definition zNotificationStatus_schema :: zschema where
  "zNotificationStatus_schema = ZEnum zNotificationStatus"

definition zNotificationResponse :: zschema where
  "zNotificationResponse =
     ZObject [
      (''notification_id'', ZString),
      (''status'', zNotificationStatus_schema),
      (''subject'', ZString),
      (''body'', ZString),
      (''action_url'', ZString),
      (''created_at'', ZDatetime),
      (''read_at'', ZNullable ZDatetime),
      (''severity'', zNotificationSeverity_schema),
      (''tags'', ZArray ZString)]"

definition zNotificationListResponse :: zschema where
  "zNotificationListResponse =
     ZObject [
      (''notifications'', ZArray zNotificationResponse),
      (''total'', ZInt),
      (''unread_count'', ZInt)]"

definition zPasswordResetRequest :: zschema where
  "zPasswordResetRequest =
     ZObject [(''new_password'', ZCheck ZString [MinLength 8])]"

definition zPodCreatedEvent :: zschema where
  "zPodCreatedEvent =
     ZObject [
      (''event_id'', ZString),
      (''event_type'', ZDefault (ZLiteral ''pod_created'') (VStr ''pod_created'')),
      (''event_version'', ZDefault ZString (VStr ''1.0'')),
      (''timestamp'', ZDatetime),
      (''aggregate_id'', ZNullish ZString),
      (''metadata'', zEventMetadata),
      (''execution_id'', ZOptional ZString),
      (''pod_name'', ZOptional ZString),
      (''namespace'', ZDefault (ZOptional ZString) (VStr ''default''))]"

definition zPodDeletedEvent :: zschema where
  "zPodDeletedEvent =
     ZObject [
      (''event_id'', ZString),
      (''event_type'', ZDefault (ZLiteral ''pod_deleted'') (VStr ''pod_deleted'')),
      (''event_version'', ZDefault ZString (VStr ''1.0'')),
      (''timestamp'', ZDatetime),
      (''aggregate_id'', ZNullish ZString),
      (''metadata'', zEventMetadata),
      (''execution_id'', ZOptional ZString),
      (''pod_name'', ZOptional ZString),
      (''reason'', ZNullish ZString)]"

definition zPodFailedEvent :: zschema where
  "zPodFailedEvent =
     ZObject [
      (''event_id'', ZString),
      (''event_type'', ZDefault (ZLiteral ''pod_failed'') (VStr ''pod_failed'')),
      (''event_version'', ZDefault ZString (VStr ''1.0'')),
      (''timestamp'', ZDatetime),
      (''aggregate_id'', ZNullish ZString),
      (''metadata'', zEventMetadata),
      (''execution_id'', ZOptional ZString),
      (''pod_name'', ZOptional ZString),
      (''exit_code'', ZDefault (ZOptional ZInt) (VNum 1)),
      (''reason'', ZNullish ZString),
      (''message'', ZNullish ZString),
      (''stdout'', ZNullish ZString),
      (''stderr'', ZNullish ZString)]"

definition zPodRunningEvent :: zschema where
  "zPodRunningEvent =
     ZObject [
      (''event_id'', ZString),
      (''event_type'', ZDefault (ZLiteral ''pod_running'') (VStr ''pod_running'')),
      (''event_version'', ZDefault ZString (VStr ''1.0'')),
      (''timestamp'', ZDatetime),
      (''aggregate_id'', ZNullish ZString),
      (''metadata'', zEventMetadata),
      (''execution_id'', ZOptional ZString),
      (''pod_name'', ZOptional ZString),
      (''container_statuses'', ZOptional (ZArray zContainerStatusInfo))]"

definition zPodScheduledEvent :: zschema where
  "zPodScheduledEvent =
     ZObject [
      (''event_id'', ZString),
      (''event_type'', ZDefault (ZLiteral ''pod_scheduled'') (VStr ''pod_scheduled'')),
      (''event_version'', ZDefault ZString (VStr ''1.0'')),
      (''timestamp'', ZDatetime),
      (''aggregate_id'', ZNullish ZString),
      (''metadata'', zEventMetadata),
      (''execution_id'', ZOptional ZString),
      (''pod_name'', ZOptional ZString),
      (''node_name'', ZDefault (ZOptional ZString) (VStr ''''))]"

definition zPodSucceededEvent :: zschema where
  "zPodSucceededEvent =
     ZObject [
      (''event_id'', ZString),
      (''event_type'', ZDefault (ZLiteral ''pod_succeeded'') (VStr ''pod_succeeded'')),
      (''event_version'', ZDefault ZString (VStr ''1.0'')),
      (''timestamp'', ZDatetime),
      (''aggregate_id'', ZNullish ZString),
      (''metadata'', zEventMetadata),
      (''execution_id'', ZOptional ZString),
      (''pod_name'', ZOptional ZString),
      (''exit_code'', ZDefault (ZOptional ZInt) (VNum 0)),
      (''stdout'', ZNullish ZString),
      (''stderr'', ZNullish ZString)]"

definition zPodTerminatedEvent :: zschema where
  "zPodTerminatedEvent =
     ZObject [
      (''event_id'', ZString),
      (''event_type'', ZDefault (ZLiteral ''pod_terminated'') (VStr ''pod_terminated'')),
      (''event_version'', ZDefault ZString (VStr ''1.0'')),
      (''timestamp'', ZDatetime),
      (''aggregate_id'', ZNullish ZString),
      (''metadata'', zEventMetadata),
      (''execution_id'', ZOptional ZString),
      (''pod_name'', ZOptional ZString),
      (''exit_code'', ZDefault (ZOptional ZInt) (VNum 0)),
      (''reason'', ZNullish ZString),
      (''message'', ZNullish ZString)]"

definition zQueuePriority_schema :: zschema where
  "zQueuePriority_schema = ZEnum zQueuePriority"

definition zAdminExecutionResponse :: zschema where
  "zAdminExecutionResponse =
     ZObject [
      (''execution_id'', ZString),
      (''script'', ZString),
      (''status'', zExecutionStatus_schema),
      (''lang'', ZString),
      (''lang_version'', ZString),
      (''stdout'', ZNullable ZString),
      (''stderr'', ZNullable ZString),
      (''exit_code'', ZNullable ZInt),
      (''error_type'', ZNullable zExecutionErrorType_schema),
      (''priority'', ZDefault zQueuePriority_schema (VStr ''normal'')),
      (''user_id'', ZNullable ZString),
      (''created_at'', ZDatetime),
      (''updated_at'', ZDatetime)]"

definition zAdminExecutionListResponse :: zschema where
  "zAdminExecutionListResponse =
     ZObject [
      (''executions'', ZArray zAdminExecutionResponse),
      (''total'', ZInt),
      (''limit'', ZInt),
      (''skip'', ZInt),
      (''has_more'', ZBoolean)]"

definition zExecutionAcceptedEvent :: zschema where
  "zExecutionAcceptedEvent =
     ZObject [
      (''event_id'', ZString),
      (''event_type'', ZDefault (ZLiteral ''execution_accepted'') (VStr ''execution_accepted'')),
      (''event_version'', ZDefault ZString (VStr ''1.0'')),
      (''timestamp'', ZDatetime),
      (''aggregate_id'', ZNullish ZString),
      (''metadata'', zEventMetadata),
      (''execution_id'', ZOptional ZString),
      (''queue_position'', ZOptional ZInt),
      (''estimated_wait_seconds'', ZNullish ZNumber),
      (''priority'', ZDefault (ZOptional zQueuePriority_schema) (VStr ''normal''))]"

definition zExecutionRequestedEvent :: zschema where
  "zExecutionRequestedEvent =
     ZObject [
      (''event_id'', ZString),
      (''event_type'', ZDefault (ZLiteral ''execution_requested'') (VStr ''execution_requested'')),
      (''event_version'', ZDefault ZString (VStr ''1.0'')),
      (''timestamp'', ZDatetime),
      (''aggregate_id'', ZNullish ZString),
      (''metadata'', zEventMetadata),
      (''execution_id'', ZOptional ZString),
      (''script'', ZOptional ZString),
      (''language'', ZOptional ZString),
      (''language_version'', ZOptional ZString),
      (''runtime_image'', ZOptional ZString),
      (''runtime_command'', ZOptional (ZArray ZString)),
      (''runtime_filename'', ZOptional ZString),
      (''timeout_seconds'', ZOptional ZInt),
      (''cpu_limit'', ZOptional ZString),
      (''memory_limit'', ZOptional ZString),
      (''cpu_request'', ZOptional ZString),
      (''memory_request'', ZOptional ZString),
      (''priority'', ZDefault (ZOptional zQueuePriority_schema) (VStr ''normal''))]"

definition zPriorityUpdateRequest :: zschema where
  "zPriorityUpdateRequest =
     ZObject [(''priority'', zQueuePriority_schema)]"

definition zQueueStatusResponse :: zschema where
  "zQueueStatusResponse =
     ZObject [
      (''queue_depth'', ZInt),
      (''active_count'', ZInt),
      (''max_concurrent'', ZInt),
      (''by_priority'', ZRecord ZString ZInt)]"

definition zQuotaExceededEvent :: zschema where
  "zQuotaExceededEvent =
     ZObject [
      (''event_id'', ZString),
      (''event_type'', ZDefault (ZLiteral ''quota_exceeded'') (VStr ''quota_exceeded'')),
      (''event_version'', ZDefault ZString (VStr ''1.0'')),
      (''timestamp'', ZDatetime),
      (''aggregate_id'', ZNullish ZString),
      (''metadata'', zEventMetadata),
      (''quota_type'', ZOptional ZString),
      (''limit'', ZOptional ZInt),
      (''current_usage'', ZOptional ZInt),
      (''user_id'', ZOptional ZString)]"

definition zRateLimitAlgorithm_schema :: zschema where
  "zRateLimitAlgorithm_schema = ZEnum zRateLimitAlgorithm"

definition zEndpointUsageStats :: zschema where
  "zEndpointUsageStats =
     ZObject [(''algorithm'', zRateLimitAlgorithm_schema), (''remaining'', ZInt)]"

definition zRateLimitExceededEvent :: zschema where
  "zRateLimitExceededEvent =
     ZObject [
      (''event_id'', ZString),
      (''event_type'', ZDefault (ZLiteral ''rate_limit_exceeded'') (VStr ''rate_limit_exceeded'')),
      (''event_version'', ZDefault ZString (VStr ''1.0'')),
      (''timestamp'', ZDatetime),
      (''aggregate_id'', ZNullish ZString),
      (''metadata'', zEventMetadata),
      (''user_id'', ZNullish ZString),
      (''endpoint'', ZOptional ZString),
      (''limit'', ZOptional ZInt),
      (''window_seconds'', ZOptional ZInt)]"

definition zRateLimitRuleRequest :: zschema where
  "zRateLimitRuleRequest =
     ZObject [
      (''endpoint_pattern'', ZDefault (ZOptional (ZCheck ZString [MinLength 1])) (VStr '''')),
      (''group'', ZDefault (ZOptional zEndpointGroup_schema) (VStr ''api'')),
      (''requests'', ZDefault (ZOptional (ZCheck ZInt [Gte 1])) (VNum 60)),
      (''window_seconds'', ZDefault (ZOptional (ZCheck ZInt [Gte 1])) (VNum 60)),
      (''algorithm'', ZDefault (ZOptional zRateLimitAlgorithm_schema) (VStr ''sliding_window'')),
      (''burst_multiplier'', ZDefault (ZOptional (ZCheck ZNumber [Gte 1])) (VNum (3 / 2))),
      (''priority'', ZDefault (ZOptional ZInt) (VNum 0)),
      (''enabled'', ZDefault (ZOptional ZBoolean) (VBool True))]"

definition zRateLimitRuleResponse :: zschema where
  "zRateLimitRuleResponse =
     ZObject [
      (''endpoint_pattern'', ZString),
      (''group'', zEndpointGroup_schema),
      (''requests'', ZInt),
      (''window_seconds'', ZInt),
      (''algorithm'', zRateLimitAlgorithm_schema),
      (''burst_multiplier'', ZDefault ZNumber (VNum (3 / 2))),
      (''priority'', ZDefault ZInt (VNum 0)),
      (''enabled'', ZDefault ZBoolean (VBool True))]"

definition zRateLimitSummary :: zschema where
  "zRateLimitSummary =
     ZObject [
      (''bypass_rate_limit'', ZBoolean),
      (''global_multiplier'', ZNumber),
      (''has_custom_limits'', ZBoolean)]"

definition zRateLimitUpdateRequest :: zschema where
  "zRateLimitUpdateRequest =
     ZObject [
      (''bypass_rate_limit'', ZDefault (ZOptional ZBoolean) (VBool False)),
      (''global_multiplier'', ZDefault (ZOptional (ZCheck ZNumber [Gt 0])) (VNum 1)),
      (''rules'', ZDefault (ZOptional (ZArray zRateLimitRuleRequest)) (VArray [])),
      (''notes'', ZDefault (ZOptional ZString) (VStr ''''))]"

definition zReplayError :: zschema where
  "zReplayError =
     ZObject [
      (''timestamp'', ZDatetime),
      (''error'', ZString),
      (''error_type'', ZNullable ZString),
      (''event_id'', ZNullable ZString)]"

definition zReplayStatus_schema :: zschema where
  "zReplayStatus_schema = ZEnum zReplayStatus"

definition zEventReplayResponse :: zschema where
  "zEventReplayResponse =
     ZObject [
      (''dry_run'', ZBoolean),
      (''total_events'', ZInt),
      (''replay_id'', ZString),
      (''session_id'', ZNullable ZString),
      (''status'', zReplayStatus_schema),
      (''events_preview'', ZNullable (ZArray zEventSummary))]"

definition zResourceLimitExceededEvent :: zschema where
  "zResourceLimitExceededEvent =
     ZObject [
      (''event_id'', ZString),
      (''event_type'', ZDefault (ZLiteral ''resource_limit_exceeded'') (VStr ''resource_limit_exceeded'')),
      (''event_version'', ZDefault ZString (VStr ''1.0'')),
      (''timestamp'', ZDatetime),
      (''aggregate_id'', ZNullish ZString),
      (''metadata'', zEventMetadata),
      (''resource_type'', ZOptional ZString),
      (''limit'', ZOptional ZInt),
      (''requested'', ZOptional ZInt),
      (''user_id'', ZNullish ZString)]"

definition zResourceLimits :: zschema where
  "zResourceLimits =
     ZObject [
      (''cpu_limit'', ZString),
      (''memory_limit'', ZString),
      (''cpu_request'', ZString),
      (''memory_request'', ZString),
      (''execution_timeout'', ZInt),
      (''supported_runtimes'', ZRecord ZString zLanguageInfo),
      (''language_limits'', ZRecord ZString zLanguageLimits)]"

definition zResourceUsage :: zschema where
  "zResourceUsage =
     ZObject [
      (''execution_time_wall_seconds'', ZDefault ZNumber (VNum 0)),
      (''cpu_time_jiffies'', ZDefault ZInt (VNum 0)),
      (''clk_tck_hertz'', ZDefault ZInt (VNum 0)),
      (''peak_memory_kb'', ZDefault ZInt (VNum 0))]"

definition zExecutionResult :: zschema where
  "zExecutionResult =
     ZObject [
      (''execution_id'', ZString),
      (''status'', zExecutionStatus_schema),
      (''stdout'', ZNullable ZString),
      (''stderr'', ZNullable ZString),
      (''lang'', ZString),
      (''lang_version'', ZString),
      (''resource_usage'', ZNullable zResourceUsage),
      (''exit_code'', ZNullable ZInt),
      (''error_type'', ZNullable zExecutionErrorType_schema),
      (''priority'', ZDefault zQueuePriority_schema (VStr ''normal''))]"

definition zEventReplayStatusResponse :: zschema where
  "zEventReplayStatusResponse =
     ZObject [
      (''session_id'', ZString),
      (''status'', zReplayStatus_schema),
      (''total_events'', ZInt),
      (''replayed_events'', ZInt),
      (''failed_events'', ZInt),
      (''skipped_events'', ZInt),
      (''replay_id'', ZString),
      (''created_at'', ZDatetime),
      (''started_at'', ZNullable ZDatetime),
      (''completed_at'', ZNullable ZDatetime),
      (''errors'', ZNullable (ZArray zReplayError)),
      (''estimated_completion'', ZNullable ZDatetime),
      (''execution_results'', ZNullable (ZArray zExecutionResult)),
      (''progress_percentage'', ZReadonly ZNumber)]"

definition zExecutionListResponse :: zschema where
  "zExecutionListResponse =
     ZObject [
      (''executions'', ZArray zExecutionResult),
      (''total'', ZInt),
      (''limit'', ZInt),
      (''skip'', ZInt),
      (''has_more'', ZBoolean)]"

definition zResourceUsageDomain :: zschema where
  "zResourceUsageDomain =
     ZObject [
      (''execution_time_wall_seconds'', ZDefault (ZOptional ZNumber) (VNum 0)),
      (''cpu_time_jiffies'', ZDefault (ZOptional ZInt) (VNum 0)),
      (''clk_tck_hertz'', ZDefault (ZOptional ZInt) (VNum 0)),
      (''peak_memory_kb'', ZDefault (ZOptional ZInt) (VNum 0))]"

definition zExecutionCompletedEvent :: zschema where
  "zExecutionCompletedEvent =
     ZObject [
      (''event_id'', ZString),
      (''event_type'', ZDefault (ZLiteral ''execution_completed'') (VStr ''execution_completed'')),
      (''event_version'', ZDefault ZString (VStr ''1.0'')),
      (''timestamp'', ZDatetime),
      (''aggregate_id'', ZNullish ZString),
      (''metadata'', zEventMetadata),
      (''execution_id'', ZOptional ZString),
      (''exit_code'', ZOptional ZInt),
      (''resource_usage'', ZOptional zResourceUsageDomain),
      (''stdout'', ZDefault (ZOptional ZString) (VStr '''')),
      (''stderr'', ZDefault (ZOptional ZString) (VStr ''''))]"

definition zExecutionFailedEvent :: zschema where
  "zExecutionFailedEvent =
     ZObject [
      (''event_id'', ZString),
      (''event_type'', ZDefault (ZLiteral ''execution_failed'') (VStr ''execution_failed'')),
      (''event_version'', ZDefault ZString (VStr ''1.0'')),
      (''timestamp'', ZDatetime),
      (''aggregate_id'', ZNullish ZString),
      (''metadata'', zEventMetadata),
      (''execution_id'', ZOptional ZString),
      (''exit_code'', ZDefault (ZOptional ZInt) (VNum 1)),
      (''error_type'', ZOptional zExecutionErrorType_schema),
      (''resource_usage'', ZNullish zResourceUsageDomain),
      (''stdout'', ZDefault (ZOptional ZString) (VStr '''')),
      (''stderr'', ZDefault (ZOptional ZString) (VStr ''''))]"

definition zExecutionTimeoutEvent :: zschema where
  "zExecutionTimeoutEvent =
     ZObject [
      (''event_id'', ZString),
      (''event_type'', ZDefault (ZLiteral ''execution_timeout'') (VStr ''execution_timeout'')),
      (''event_version'', ZDefault ZString (VStr ''1.0'')),
      (''timestamp'', ZDatetime),
      (''aggregate_id'', ZNullish ZString),
      (''metadata'', zEventMetadata),
      (''execution_id'', ZOptional ZString),
      (''timeout_seconds'', ZOptional ZInt),
      (''resource_usage'', ZOptional zResourceUsageDomain),
      (''stdout'', ZDefault (ZOptional ZString) (VStr '''')),
      (''stderr'', ZDefault (ZOptional ZString) (VStr ''''))]"

definition zRestoreSettingsRequest :: zschema where
  "zRestoreSettingsRequest =
     ZObject [(''timestamp'', ZDatetime), (''reason'', ZNullish ZString)]"

definition zSseControlEvent_schema :: zschema where
  "zSseControlEvent_schema = ZEnum zSseControlEvent"

definition zSseExecutionEventSchema :: zschema where
  "zSseExecutionEventSchema =
     ZObject [
      (''event_type'', ZUnion [zEventType_schema, zSseControlEvent_schema]),
      (''execution_id'', ZString),
      (''timestamp'', ZNullable ZDatetime),
      (''event_id'', ZNullable ZString),
      (''status'', ZNullable zExecutionStatus_schema),
      (''result'', ZNullable zExecutionResult)]"

definition zSavedScriptCreateRequest :: zschema where
  "zSavedScriptCreateRequest =
     ZObject [
      (''name'', ZString),
      (''script'', ZString),
      (''lang'', ZDefault (ZOptional ZString) (VStr ''python'')),
      (''lang_version'', ZDefault (ZOptional ZString) (VStr ''3.14'')),
      (''description'', ZNullish ZString)]"

definition zSavedScriptResponse :: zschema where
  "zSavedScriptResponse =
     ZObject [
      (''script_id'', ZString),
      (''name'', ZString),
      (''script'', ZString),
      (''lang'', ZString),
      (''lang_version'', ZString),
      (''description'', ZNullable ZString),
      (''created_at'', ZDatetime),
      (''updated_at'', ZDatetime)]"

definition zSavedScriptListResponse :: zschema where
  "zSavedScriptListResponse =
     ZObject [(''scripts'', ZArray zSavedScriptResponse)]"

definition zSavedScriptUpdate :: zschema where
  "zSavedScriptUpdate =
     ZObject [
      (''name'', ZNullish ZString),
      (''script'', ZNullish ZString),
      (''lang'', ZNullish ZString),
      (''lang_version'', ZNullish ZString),
      (''description'', ZNullish ZString),
      (''updated_at'', ZOptional ZDatetime)]"

definition zScriptDeletedEvent :: zschema where
  "zScriptDeletedEvent =
     ZObject [
      (''event_id'', ZString),
      (''event_type'', ZDefault (ZLiteral ''script_deleted'') (VStr ''script_deleted'')),
      (''event_version'', ZDefault ZString (VStr ''1.0'')),
      (''timestamp'', ZDatetime),
      (''aggregate_id'', ZNullish ZString),
      (''metadata'', zEventMetadata),
      (''script_id'', ZOptional ZString),
      (''user_id'', ZOptional ZString),
      (''deleted_by'', ZNullish ZString)]"

definition zScriptSavedEvent :: zschema where
  "zScriptSavedEvent =
     ZObject [
      (''event_id'', ZString),
      (''event_type'', ZDefault (ZLiteral ''script_saved'') (VStr ''script_saved'')),
      (''event_version'', ZDefault ZString (VStr ''1.0'')),
      (''timestamp'', ZDatetime),
      (''aggregate_id'', ZNullish ZString),
      (''metadata'', zEventMetadata),
      (''script_id'', ZOptional ZString),
      (''user_id'', ZOptional ZString),
      (''title'', ZOptional ZString),
      (''language'', ZOptional ZString)]"

definition zScriptSharedEvent :: zschema where
  "zScriptSharedEvent =
     ZObject [
      (''event_id'', ZString),
      (''event_type'', ZDefault (ZLiteral ''script_shared'') (VStr ''script_shared'')),
      (''event_version'', ZDefault ZString (VStr ''1.0'')),
      (''timestamp'', ZDatetime),
      (''aggregate_id'', ZNullish ZString),
      (''metadata'', zEventMetadata),
      (''script_id'', ZOptional ZString),
      (''shared_by'', ZOptional ZString),
      (''shared_with'', ZOptional (ZArray ZString)),
      (''permissions'', ZOptional ZString)]"

definition zSecurityViolationEvent :: zschema where
  "zSecurityViolationEvent =
     ZObject [
      (''event_id'', ZString),
      (''event_type'', ZDefault (ZLiteral ''security_violation'') (VStr ''security_violation'')),
      (''event_version'', ZDefault ZString (VStr ''1.0'')),
      (''timestamp'', ZDatetime),
      (''aggregate_id'', ZNullish ZString),
      (''metadata'', zEventMetadata),
      (''user_id'', ZNullish ZString),
      (''violation_type'', ZOptional ZString),
      (''details'', ZOptional ZString),
      (''ip_address'', ZNullish ZString)]"

definition zServiceEventCount :: zschema where
  "zServiceEventCount =
     ZObject [(''service_name'', ZString), (''count'', ZInt)]"

definition zServiceRecoveredEvent :: zschema where
  "zServiceRecoveredEvent =
     ZObject [
      (''event_id'', ZString),
      (''event_type'', ZDefault (ZLiteral ''service_recovered'') (VStr ''service_recovered'')),
      (''event_version'', ZDefault ZString (VStr ''1.0'')),
      (''timestamp'', ZDatetime),
      (''aggregate_id'', ZNullish ZString),
      (''metadata'', zEventMetadata),
      (''service_name'', ZOptional ZString),
      (''health_check'', ZOptional ZString),
      (''downtime_seconds'', ZOptional ZInt)]"

definition zServiceUnhealthyEvent :: zschema where
  "zServiceUnhealthyEvent =
     ZObject [
      (''event_id'', ZString),
      (''event_type'', ZDefault (ZLiteral ''service_unhealthy'') (VStr ''service_unhealthy'')),
      (''event_version'', ZDefault ZString (VStr ''1.0'')),
      (''timestamp'', ZDatetime),
      (''aggregate_id'', ZNullish ZString),
      (''metadata'', zEventMetadata),
      (''service_name'', ZOptional ZString),
      (''health_check'', ZOptional ZString),
      (''reason'', ZOptional ZString)]"

definition zSettingsHistoryEntry :: zschema where
  "zSettingsHistoryEntry =
     ZObject [
      (''timestamp'', ZDatetime),
      (''event_type'', zEventType_schema),
      (''field'', ZString),
      (''old_value'', ZUnknown),
      (''new_value'', ZUnknown),
      (''reason'', ZNullable ZString)]"

definition zSettingsHistoryResponse :: zschema where
  "zSettingsHistoryResponse =
     ZObject [(''history'', ZArray zSettingsHistoryEntry), (''limit'', ZInt)]"

definition zStorageType_schema :: zschema where
  "zStorageType_schema = ZEnum zStorageType"

definition zResultFailedEvent :: zschema where
  "zResultFailedEvent =
     ZObject [
      (''event_id'', ZString),
      (''event_type'', ZDefault (ZLiteral ''result_failed'') (VStr ''result_failed'')),
      (''event_version'', ZDefault ZString (VStr ''1.0'')),
      (''timestamp'', ZDatetime),
      (''aggregate_id'', ZNullish ZString),
      (''metadata'', zEventMetadata),
      (''execution_id'', ZOptional ZString),
      (''storage_type'', ZNullish zStorageType_schema)]"

definition zResultStoredEvent :: zschema where
  "zResultStoredEvent =
     ZObject [
      (''event_id'', ZString),
      (''event_type'', ZDefault (ZLiteral ''result_stored'') (VStr ''result_stored'')),
      (''event_version'', ZDefault ZString (VStr ''1.0'')),
      (''timestamp'', ZDatetime),
      (''aggregate_id'', ZNullish ZString),
      (''metadata'', zEventMetadata),
      (''execution_id'', ZOptional ZString),
      (''storage_type'', ZNullish zStorageType_schema),
      (''storage_path'', ZDefault (ZOptional ZString) (VStr '''')),
      (''size_bytes'', ZDefault (ZOptional ZInt) (VNum 0))]"

definition zSystemErrorEvent :: zschema where
  "zSystemErrorEvent =
     ZObject [
      (''event_id'', ZString),
      (''event_type'', ZDefault (ZLiteral ''system_error'') (VStr ''system_error'')),
      (''event_version'', ZDefault ZString (VStr ''1.0'')),
      (''timestamp'', ZDatetime),
      (''aggregate_id'', ZNullish ZString),
      (''metadata'', zEventMetadata),
      (''error_type'', ZOptional ZString),
      (''message'', ZOptional ZString),
      (''service_name'', ZOptional ZString),
      (''stack_trace'', ZNullish ZString)]"

definition zSystemSettingsSchemaInput :: zschema where
  "zSystemSettingsSchemaInput =
     ZObject [
      (''max_timeout_seconds'', ZDefault (ZOptional (ZCheck ZInt [Gte 1, Lte 3600])) (VNum 300)),
      (''memory_limit'', ZDefault (ZOptional ZString) (VStr ''512Mi'')),
      (''cpu_limit'', ZDefault (ZOptional ZString) (VStr ''2000m'')),
      (''max_concurrent_executions'', ZDefault (ZOptional (ZCheck ZInt [Gte 1, Lte 100])) (VNum 10)),
      (''max_executions_per_user'', ZDefault (ZOptional (ZCheck ZInt [Gte 1, Lte 1000])) (VNum 100)),
      (''password_min_length'', ZDefault (ZOptional (ZCheck ZInt [Gte 8, Lte 32])) (VNum 8)),
      (''session_timeout_minutes'', ZDefault (ZOptional (ZCheck ZInt [Gte 5, Lte 1440])) (VNum 60)),
      (''max_login_attempts'', ZDefault (ZOptional (ZCheck ZInt [Gte 3, Lte 10])) (VNum 5)),
      (''lockout_duration_minutes'', ZDefault (ZOptional (ZCheck ZInt [Gte 5, Lte 60])) (VNum 15))]"

definition zSystemSettingsSchemaOutput :: zschema where
  "zSystemSettingsSchemaOutput =
     ZObject [
      (''max_timeout_seconds'', ZDefault (ZCheck ZInt [Gte 1, Lte 3600]) (VNum 300)),
      (''memory_limit'', ZDefault ZString (VStr ''512Mi'')),
      (''cpu_limit'', ZDefault ZString (VStr ''2000m'')),
      (''max_concurrent_executions'', ZDefault (ZCheck ZInt [Gte 1, Lte 100]) (VNum 10)),
      (''max_executions_per_user'', ZDefault (ZCheck ZInt [Gte 1, Lte 1000]) (VNum 100)),
      (''password_min_length'', ZDefault (ZCheck ZInt [Gte 8, Lte 32]) (VNum 8)),
      (''session_timeout_minutes'', ZDefault (ZCheck ZInt [Gte 5, Lte 1440]) (VNum 60)),
      (''max_login_attempts'', ZDefault (ZCheck ZInt [Gte 3, Lte 10]) (VNum 5)),
      (''lockout_duration_minutes'', ZDefault (ZCheck ZInt [Gte 5, Lte 60]) (VNum 15))]"

definition zTheme_schema :: zschema where
  "zTheme_schema = ZEnum zTheme"

definition zThemeUpdateRequest :: zschema where
  "zThemeUpdateRequest =
     ZObject [(''theme'', zTheme_schema)]"

definition zUnlockResponse :: zschema where
  "zUnlockResponse =
     ZObject [(''user_id'', ZString), (''message'', ZString)]"

definition zUnreadCountResponse :: zschema where
  "zUnreadCountResponse =
     ZObject [(''unread_count'', ZInt)]"

definition zUserDeletedEvent :: zschema where
  "zUserDeletedEvent =
     ZObject [
      (''event_id'', ZString),
      (''event_type'', ZDefault (ZLiteral ''user_deleted'') (VStr ''user_deleted'')),
      (''event_version'', ZDefault ZString (VStr ''1.0'')),
      (''timestamp'', ZDatetime),
      (''aggregate_id'', ZNullish ZString),
      (''metadata'', zEventMetadata),
      (''user_id'', ZOptional ZString),
      (''deleted_by'', ZNullish ZString),
      (''reason'', ZNullish ZString)]"

definition zUserEventCount :: zschema where
  "zUserEventCount =
     ZObject [(''user_id'', ZString), (''event_count'', ZInt)]"

definition zEventStatistics :: zschema where
  "zEventStatistics =
     ZObject [
      (''total_events'', ZInt),
      (''events_by_type'', ZArray zEventTypeCount),
      (''events_by_service'', ZArray zServiceEventCount),
      (''events_by_hour'', ZArray zHourlyEventCount),
      (''top_users'', ZArray zUserEventCount),
      (''error_rate'', ZDefault ZNumber (VNum 0)),
      (''avg_processing_time'', ZDefault ZNumber (VNum 0)),
      (''start_time'', ZNullable ZDatetime),
      (''end_time'', ZNullable ZDatetime)]"

definition zEventStatsResponse :: zschema where
  "zEventStatsResponse =
     ZObject [
      (''total_events'', ZInt),
      (''events_by_type'', ZArray zEventTypeCount),
      (''events_by_hour'', ZArray zHourlyEventCount),
      (''top_users'', ZArray zUserEventCount),
      (''error_rate'', ZNumber),
      (''avg_processing_time'', ZNumber)]"

definition zUserLoggedInEvent :: zschema where
  "zUserLoggedInEvent =
     ZObject [
      (''event_id'', ZString),
      (''event_type'', ZDefault (ZLiteral ''user_logged_in'') (VStr ''user_logged_in'')),
      (''event_version'', ZDefault ZString (VStr ''1.0'')),
      (''timestamp'', ZDatetime),
      (''aggregate_id'', ZNullish ZString),
      (''metadata'', zEventMetadata),
      (''user_id'', ZOptional ZString),
      (''login_method'', ZOptional zLoginMethod_schema),
      (''ip_address'', ZNullish ZString),
      (''user_agent'', ZNullish ZString)]"

definition zUserLoggedOutEvent :: zschema where
  "zUserLoggedOutEvent =
     ZObject [
      (''event_id'', ZString),
      (''event_type'', ZDefault (ZLiteral ''user_logged_out'') (VStr ''user_logged_out'')),
      (''event_version'', ZDefault ZString (VStr ''1.0'')),
      (''timestamp'', ZDatetime),
      (''aggregate_id'', ZNullish ZString),
      (''metadata'', zEventMetadata),
      (''user_id'', ZOptional ZString),
      (''logout_reason'', ZNullish ZString)]"

definition zUserLoginEvent :: zschema where
  "zUserLoginEvent =
     ZObject [
      (''event_id'', ZString),
      (''event_type'', ZDefault (ZLiteral ''user_login'') (VStr ''user_login'')),
      (''event_version'', ZDefault ZString (VStr ''1.0'')),
      (''timestamp'', ZDatetime),
      (''aggregate_id'', ZNullish ZString),
      (''metadata'', zEventMetadata),
      (''user_id'', ZOptional ZString),
      (''login_method'', ZOptional zLoginMethod_schema),
      (''ip_address'', ZNullish ZString),
      (''user_agent'', ZNullish ZString)]"

definition zUserRateLimitConfigResponse :: zschema where
  "zUserRateLimitConfigResponse =
     ZObject [
      (''user_id'', ZString),
      (''bypass_rate_limit'', ZBoolean),
      (''global_multiplier'', ZNumber),
      (''rules'', ZArray zRateLimitRuleResponse),
      (''created_at'', ZDatetime),
      (''updated_at'', ZDatetime),
      (''notes'', ZString)]"

definition zRateLimitUpdateResponse :: zschema where
  "zRateLimitUpdateResponse =
     ZObject [
      (''user_id'', ZString),
      (''updated'', ZBoolean),
      (''config'', zUserRateLimitConfigResponse)]"

definition zUserRateLimitsResponse :: zschema where
  "zUserRateLimitsResponse =
     ZObject [
      (''user_id'', ZString),
      (''rate_limit_config'', zUserRateLimitConfigResponse),
      (''current_usage'', ZRecord ZString zEndpointUsageStats)]"

definition zUserRegisteredEvent :: zschema where
  "zUserRegisteredEvent =
     ZObject [
      (''event_id'', ZString),
      (''event_type'', ZDefault (ZLiteral ''user_registered'') (VStr ''user_registered'')),
      (''event_version'', ZDefault ZString (VStr ''1.0'')),
      (''timestamp'', ZDatetime),
      (''aggregate_id'', ZNullish ZString),
      (''metadata'', zEventMetadata),
      (''user_id'', ZOptional ZString),
      (''username'', ZOptional ZString),
      (''email'', ZOptional ZString)]"

definition zUserRole_schema :: zschema where
  "zUserRole_schema = ZEnum zUserRole"

definition zLoginResponse :: zschema where
  "zLoginResponse =
     ZObject [
      (''message'', ZString),
      (''username'', ZString),
      (''role'', zUserRole_schema),
      (''csrf_token'', ZString)]"

definition zUserCreate :: zschema where
  "zUserCreate =
     ZObject [
      (''username'', ZString),
      (''email'', ZEmail),
      (''role'', ZDefault (ZOptional zUserRole_schema) (VStr ''user'')),
      (''is_active'', ZDefault (ZOptional ZBoolean) (VBool True))]"

definition zUserResponse :: zschema where
  "zUserResponse =
     ZObject [
      (''username'', ZString),
      (''email'', ZEmail),
      (''role'', zUserRole_schema),
      (''is_active'', ZBoolean),
      (''user_id'', ZString),
      (''is_superuser'', ZBoolean),
      (''created_at'', ZDatetime),
      (''updated_at'', ZDatetime)]"

definition zUserListResponse :: zschema where
  "zUserListResponse =
     ZObject [
      (''users'', ZArray zUserResponse),
      (''total'', ZInt),
      (''offset'', ZInt),
      (''limit'', ZInt)]"

definition zUserSettings :: zschema where
  "zUserSettings =
     ZObject [
      (''user_id'', ZString),
      (''theme'', ZDefault zTheme_schema (VStr ''system'')),
      (''timezone'', ZDefault ZString (VStr ''UTC'')),
      (''date_format'', ZDefault ZString (VStr ''YYYY-MM-DD'')),
      (''time_format'', ZDefault ZString (VStr ''24h'')),
      (''notifications'', zNotificationSettingsOutput),
      (''editor'', zEditorSettingsOutput),
      (''custom_settings'', ZRecord ZString ZUnknown),
      (''version'', ZDefault ZInt (VNum 1)),
      (''created_at'', ZDatetime),
      (''updated_at'', ZDatetime)]"

definition zUserSettingsUpdate :: zschema where
  "zUserSettingsUpdate =
     ZObject [
      (''theme'', ZNullish zTheme_schema),
      (''timezone'', ZNullish ZString),
      (''date_format'', ZNullish ZString),
      (''time_format'', ZNullish ZString),
      (''notifications'', ZNullish zNotificationSettingsInput),
      (''editor'', ZNullish zEditorSettingsInput),
      (''custom_settings'', ZNullish (ZRecord ZString ZUnknown))]"

definition zUserSettingsUpdatedEvent :: zschema where
  "zUserSettingsUpdatedEvent =
     ZObject [
      (''event_id'', ZString),
      (''event_type'', ZDefault (ZLiteral ''user_settings_updated'') (VStr ''user_settings_updated'')),
      (''event_version'', ZDefault ZString (VStr ''1.0'')),
      (''timestamp'', ZDatetime),
      (''aggregate_id'', ZNullish ZString),
      (''metadata'', zEventMetadata),
      (''user_id'', ZOptional ZString),
      (''changed_fields'', ZOptional (ZArray ZString)),
      (''reason'', ZNullish ZString)]"

definition zUserUpdate :: zschema where
  "zUserUpdate =
     ZObject [
      (''username'', ZNullish ZString),
      (''email'', ZNullish ZEmail),
      (''role'', ZNullish zUserRole_schema),
      (''is_active'', ZNullish ZBoolean),
      (''password'', ZOptional ZNull)]"

definition zUserUpdatedEvent :: zschema where
  "zUserUpdatedEvent =
     ZObject [
      (''event_id'', ZString),
      (''event_type'', ZDefault (ZLiteral ''user_updated'') (VStr ''user_updated'')),
      (''event_version'', ZDefault ZString (VStr ''1.0'')),
      (''timestamp'', ZDatetime),
      (''aggregate_id'', ZNullish ZString),
      (''metadata'', zEventMetadata),
      (''user_id'', ZOptional ZString),
      (''updated_fields'', ZOptional (ZArray ZString)),
      (''updated_by'', ZNullish ZString)]"

definition zAdminUserOverview :: zschema where
  "zAdminUserOverview =
     ZObject [
      (''user'', zUserResponse),
      (''stats'', zEventStatistics),
      (''derived_counts'', zDerivedCounts),
      (''rate_limit_summary'', zRateLimitSummary),
      (''recent_events'', ZDefault (ZArray (ZUnion [
        zExecutionRequestedEvent,
        zExecutionAcceptedEvent,
        zExecutionQueuedEvent,
        zExecutionStartedEvent,
        zExecutionRunningEvent,
        zExecutionCompletedEvent,
        zExecutionFailedEvent,
        zExecutionTimeoutEvent,
        zExecutionCancelledEvent,
        zPodCreatedEvent,
        zPodScheduledEvent,
        zPodRunningEvent,
        zPodSucceededEvent,
        zPodFailedEvent,
        zPodTerminatedEvent,
        zPodDeletedEvent,
        zResultStoredEvent,
        zResultFailedEvent,
        zUserSettingsUpdatedEvent,
        zUserRegisteredEvent,
        zUserLoginEvent,
        zUserLoggedInEvent,
        zUserLoggedOutEvent,
        zUserUpdatedEvent,
        zUserDeletedEvent,
        zNotificationCreatedEvent,
        zNotificationSentEvent,
        zNotificationDeliveredEvent,
        zNotificationFailedEvent,
        zNotificationReadEvent,
        zNotificationAllReadEvent,
        zNotificationClickedEvent,
        zNotificationPreferencesUpdatedEvent,
        zScriptSavedEvent,
        zScriptDeletedEvent,
        zScriptSharedEvent,
        zSecurityViolationEvent,
        zRateLimitExceededEvent,
        zAuthFailedEvent,
        zResourceLimitExceededEvent,
        zQuotaExceededEvent,
        zSystemErrorEvent,
        zServiceUnhealthyEvent,
        zServiceRecoveredEvent,
        zDlqMessageReceivedEvent,
        zDlqMessageRetriedEvent,
        zDlqMessageDiscardedEvent])) (VArray []))]"

definition zEventBrowseResponse :: zschema where
  "zEventBrowseResponse =
     ZObject [
      (''events'', ZArray (ZUnion [
        zExecutionRequestedEvent,
        zExecutionAcceptedEvent,
        zExecutionQueuedEvent,
        zExecutionStartedEvent,
        zExecutionRunningEvent,
        zExecutionCompletedEvent,
        zExecutionFailedEvent,
        zExecutionTimeoutEvent,
        zExecutionCancelledEvent,
        zPodCreatedEvent,
        zPodScheduledEvent,
        zPodRunningEvent,
        zPodSucceededEvent,
        zPodFailedEvent,
        zPodTerminatedEvent,
        zPodDeletedEvent,
        zResultStoredEvent,
        zResultFailedEvent,
        zUserSettingsUpdatedEvent,
        zUserRegisteredEvent,
        zUserLoginEvent,
        zUserLoggedInEvent,
        zUserLoggedOutEvent,
        zUserUpdatedEvent,
        zUserDeletedEvent,
        zNotificationCreatedEvent,
        zNotificationSentEvent,
        zNotificationDeliveredEvent,
        zNotificationFailedEvent,
        zNotificationReadEvent,
        zNotificationAllReadEvent,
        zNotificationClickedEvent,
        zNotificationPreferencesUpdatedEvent,
        zScriptSavedEvent,
        zScriptDeletedEvent,
        zScriptSharedEvent,
        zSecurityViolationEvent,
        zRateLimitExceededEvent,
        zAuthFailedEvent,
        zResourceLimitExceededEvent,
        zQuotaExceededEvent,
        zSystemErrorEvent,
        zServiceUnhealthyEvent,
        zServiceRecoveredEvent,
        zDlqMessageReceivedEvent,
        zDlqMessageRetriedEvent,
        zDlqMessageDiscardedEvent])),
      (''total'', ZInt),
      (''skip'', ZInt),
      (''limit'', ZInt)]"

definition zEventDetailResponse :: zschema where
  "zEventDetailResponse =
     ZObject [
      (''event'', ZDiscriminatedUnion ''event_type'' [
        zExecutionRequestedEvent,
        zExecutionAcceptedEvent,
        zExecutionQueuedEvent,
        zExecutionStartedEvent,
        zExecutionRunningEvent,
        zExecutionCompletedEvent,
        zExecutionFailedEvent,
        zExecutionTimeoutEvent,
        zExecutionCancelledEvent,
        zPodCreatedEvent,
        zPodScheduledEvent,
        zPodRunningEvent,
        zPodSucceededEvent,
        zPodFailedEvent,
        zPodTerminatedEvent,
        zPodDeletedEvent,
        zResultStoredEvent,
        zResultFailedEvent,
        zUserSettingsUpdatedEvent,
        zUserRegisteredEvent,
        zUserLoginEvent,
        zUserLoggedInEvent,
        zUserLoggedOutEvent,
        zUserUpdatedEvent,
        zUserDeletedEvent,
        zNotificationCreatedEvent,
        zNotificationSentEvent,
        zNotificationDeliveredEvent,
        zNotificationFailedEvent,
        zNotificationReadEvent,
        zNotificationAllReadEvent,
        zNotificationClickedEvent,
        zNotificationPreferencesUpdatedEvent,
        zScriptSavedEvent,
        zScriptDeletedEvent,
        zScriptSharedEvent,
        zSecurityViolationEvent,
        zRateLimitExceededEvent,
        zAuthFailedEvent,
        zResourceLimitExceededEvent,
        zQuotaExceededEvent,
        zSystemErrorEvent,
        zServiceUnhealthyEvent,
        zServiceRecoveredEvent,
        zDlqMessageReceivedEvent,
        zDlqMessageRetriedEvent,
        zDlqMessageDiscardedEvent]),
      (''related_events'', ZArray zEventSummary),
      (''timeline'', ZArray zEventSummary)]"

definition zEventReplayStatusResponseWritable :: zschema where
  "zEventReplayStatusResponseWritable =
     ZObject [
      (''session_id'', ZString),
      (''status'', zReplayStatus_schema),
      (''total_events'', ZInt),
      (''replayed_events'', ZInt),
      (''failed_events'', ZInt),
      (''skipped_events'', ZInt),
      (''replay_id'', ZString),
      (''created_at'', ZDatetime),
      (''started_at'', ZNullable ZDatetime),
      (''completed_at'', ZNullable ZDatetime),
      (''errors'', ZNullable (ZArray zReplayError)),
      (''estimated_completion'', ZNullable ZDatetime),
      (''execution_results'', ZNullable (ZArray zExecutionResult))]"

definition zUserCreateWritable :: zschema where
  "zUserCreateWritable =
     ZObject [
      (''username'', ZString),
      (''email'', ZEmail),
      (''role'', ZDefault (ZOptional zUserRole_schema) (VStr ''user'')),
      (''is_active'', ZDefault (ZOptional ZBoolean) (VBool True)),
      (''password'', ZCheck ZString [MinLength 8])]"

definition zUserUpdateWritable :: zschema where
  "zUserUpdateWritable =
     ZObject [
      (''username'', ZNullish ZString),
      (''email'', ZNullish ZEmail),
      (''role'', ZNullish zUserRole_schema),
      (''is_active'', ZNullish ZBoolean),
      (''password'', ZNullish (ZCheck ZString [MinLength 8]))]"

definition zLoginApiV1AuthLoginPostBody :: zschema where
  "zLoginApiV1AuthLoginPostBody =
     zBodyLoginApiV1AuthLoginPost"

definition zLoginApiV1AuthLoginPostResponse :: zschema where
  "zLoginApiV1AuthLoginPostResponse =
     zLoginResponse"

definition zRegisterApiV1AuthRegisterPostBody :: zschema where
  "zRegisterApiV1AuthRegisterPostBody =
     zUserCreateWritable"

definition zRegisterApiV1AuthRegisterPostResponse :: zschema where
  "zRegisterApiV1AuthRegisterPostResponse =
     zUserResponse"

definition zGetCurrentUserProfileApiV1AuthMeGetResponse :: zschema where
  "zGetCurrentUserProfileApiV1AuthMeGetResponse =
     zUserResponse"

definition zLogoutApiV1AuthLogoutPostResponse :: zschema where
  "zLogoutApiV1AuthLogoutPostResponse =
     zMessageResponse"

definition zCreateExecutionApiV1ExecutePostBody :: zschema where
  "zCreateExecutionApiV1ExecutePostBody =
     zExecutionRequest"

definition zCreateExecutionApiV1ExecutePostHeaders :: zschema where
  "zCreateExecutionApiV1ExecutePostHeaders =
     ZObject [(''Idempotency-Key'', ZNullish ZString)]"

definition zCreateExecutionApiV1ExecutePostResponse :: zschema where
  "zCreateExecutionApiV1ExecutePostResponse =
     zExecutionResponse"

definition zGetResultApiV1ExecutionsExecutionIdResultGetPath :: zschema where
  "zGetResultApiV1ExecutionsExecutionIdResultGetPath =
     ZObject [(''execution_id'', ZString)]"

definition zGetResultApiV1ExecutionsExecutionIdResultGetResponse :: zschema where
  "zGetResultApiV1ExecutionsExecutionIdResultGetResponse =
     zExecutionResult"

definition zCancelExecutionApiV1ExecutionsExecutionIdCancelPostPath :: zschema where
  "zCancelExecutionApiV1ExecutionsExecutionIdCancelPostPath =
     ZObject [(''execution_id'', ZString)]"

definition zCancelExecutionApiV1ExecutionsExecutionIdCancelPostResponse :: zschema where
  "zCancelExecutionApiV1ExecutionsExecutionIdCancelPostResponse =
     zCancelResponse"

definition zRetryExecutionApiV1ExecutionsExecutionIdRetryPostPath :: zschema where
  "zRetryExecutionApiV1ExecutionsExecutionIdRetryPostPath =
     ZObject [(''execution_id'', ZString)]"

definition zRetryExecutionApiV1ExecutionsExecutionIdRetryPostResponse :: zschema where
  "zRetryExecutionApiV1ExecutionsExecutionIdRetryPostResponse =
     zExecutionResponse"

definition zGetExecutionEventsApiV1ExecutionsExecutionIdEventsGetPath :: zschema where
  "zGetExecutionEventsApiV1ExecutionsExecutionIdEventsGetPath =
     ZObject [(''execution_id'', ZString)]"

definition zGetExecutionEventsApiV1ExecutionsExecutionIdEventsGetQuery :: zschema where
  "zGetExecutionEventsApiV1ExecutionsExecutionIdEventsGetQuery =
     ZObject [
      (''event_types'', ZNullish (ZArray zEventType_schema)),
      (''limit'', ZDefault (ZOptional (ZCheck ZInt [Gte 1, Lte 1000])) (VNum 100))]"

definition zGetExecutionEventsApiV1ExecutionsExecutionIdEventsGetResponse :: zschema where
  "zGetExecutionEventsApiV1ExecutionsExecutionIdEventsGetResponse =
     ZArray (ZUnion [
      zExecutionRequestedEvent,
      zExecutionAcceptedEvent,
      zExecutionQueuedEvent,
      zExecutionStartedEvent,
      zExecutionRunningEvent,
      zExecutionCompletedEvent,
      zExecutionFailedEvent,
      zExecutionTimeoutEvent,
      zExecutionCancelledEvent,
      zPodCreatedEvent,
      zPodScheduledEvent,
      zPodRunningEvent,
      zPodSucceededEvent,
      zPodFailedEvent,
      zPodTerminatedEvent,
      zPodDeletedEvent,
      zResultStoredEvent,
      zResultFailedEvent,
      zUserSettingsUpdatedEvent,
      zUserRegisteredEvent,
      zUserLoginEvent,
      zUserLoggedInEvent,
      zUserLoggedOutEvent,
      zUserUpdatedEvent,
      zUserDeletedEvent,
      zNotificationCreatedEvent,
      zNotificationSentEvent,
      zNotificationDeliveredEvent,
      zNotificationFailedEvent,
      zNotificationReadEvent,
      zNotificationAllReadEvent,
      zNotificationClickedEvent,
      zNotificationPreferencesUpdatedEvent,
      zScriptSavedEvent,
      zScriptDeletedEvent,
      zScriptSharedEvent,
      zSecurityViolationEvent,
      zRateLimitExceededEvent,
      zAuthFailedEvent,
      zResourceLimitExceededEvent,
      zQuotaExceededEvent,
      zSystemErrorEvent,
      zServiceUnhealthyEvent,
      zServiceRecoveredEvent,
      zDlqMessageReceivedEvent,
      zDlqMessageRetriedEvent,
      zDlqMessageDiscardedEvent])"

definition zGetUserExecutionsApiV1UserExecutionsGetQuery :: zschema where
  "zGetUserExecutionsApiV1UserExecutionsGetQuery =
     ZObject [
      (''status'', ZNullish zExecutionStatus_schema),
      (''lang'', ZNullish ZString),
      (''start_time'', ZNullish ZDatetime),
      (''end_time'', ZNullish ZDatetime),
      (''limit'', ZDefault (ZOptional (ZCheck ZInt [Gte 1, Lte 200])) (VNum 50)),
      (''skip'', ZDefault (ZOptional (ZCheck ZInt [Gte 0])) (VNum 0))]"

definition zGetUserExecutionsApiV1UserExecutionsGetResponse :: zschema where
  "zGetUserExecutionsApiV1UserExecutionsGetResponse =
     zExecutionListResponse"

definition zGetExampleScriptsApiV1ExampleScriptsGetResponse :: zschema where
  "zGetExampleScriptsApiV1ExampleScriptsGetResponse =
     zExampleScripts"

definition zGetK8sResourceLimitsApiV1K8sLimitsGetResponse :: zschema where
  "zGetK8sResourceLimitsApiV1K8sLimitsGetResponse =
     zResourceLimits"

definition zDeleteExecutionApiV1ExecutionsExecutionIdDeletePath :: zschema where
  "zDeleteExecutionApiV1ExecutionsExecutionIdDeletePath =
     ZObject [(''execution_id'', ZString)]"

definition zDeleteExecutionApiV1ExecutionsExecutionIdDeleteResponse :: zschema where
  "zDeleteExecutionApiV1ExecutionsExecutionIdDeleteResponse =
     zDeleteResponse"

definition zListSavedScriptsApiV1ScriptsGetResponse :: zschema where
  "zListSavedScriptsApiV1ScriptsGetResponse =
     zSavedScriptListResponse"

definition zCreateSavedScriptApiV1ScriptsPostBody :: zschema where
  "zCreateSavedScriptApiV1ScriptsPostBody =
     zSavedScriptCreateRequest"

definition zCreateSavedScriptApiV1ScriptsPostResponse :: zschema where
  "zCreateSavedScriptApiV1ScriptsPostResponse =
     zSavedScriptResponse"

definition zDeleteSavedScriptApiV1ScriptsScriptIdDeletePath :: zschema where
  "zDeleteSavedScriptApiV1ScriptsScriptIdDeletePath =
     ZObject [(''script_id'', ZString)]"

definition zDeleteSavedScriptApiV1ScriptsScriptIdDeleteResponse :: zschema where
  "zDeleteSavedScriptApiV1ScriptsScriptIdDeleteResponse =
     ZVoid"

definition zGetSavedScriptApiV1ScriptsScriptIdGetPath :: zschema where
  "zGetSavedScriptApiV1ScriptsScriptIdGetPath =
     ZObject [(''script_id'', ZString)]"

definition zGetSavedScriptApiV1ScriptsScriptIdGetResponse :: zschema where
  "zGetSavedScriptApiV1ScriptsScriptIdGetResponse =
     zSavedScriptResponse"

definition zUpdateSavedScriptApiV1ScriptsScriptIdPutBody :: zschema where
  "zUpdateSavedScriptApiV1ScriptsScriptIdPutBody =
     zSavedScriptUpdate"

definition zUpdateSavedScriptApiV1ScriptsScriptIdPutPath :: zschema where
  "zUpdateSavedScriptApiV1ScriptsScriptIdPutPath =
     ZObject [(''script_id'', ZString)]"

definition zUpdateSavedScriptApiV1ScriptsScriptIdPutResponse :: zschema where
  "zUpdateSavedScriptApiV1ScriptsScriptIdPutResponse =
     zSavedScriptResponse"

definition zLivenessApiV1HealthLiveGetResponse :: zschema where
  "zLivenessApiV1HealthLiveGetResponse =
     zLivenessResponse"

definition zNotificationStreamApiV1EventsNotificationsStreamGetResponse :: zschema where
  "zNotificationStreamApiV1EventsNotificationsStreamGetResponse =
     zNotificationResponse"

definition zExecutionEventsApiV1EventsExecutionsExecutionIdGetPath :: zschema where
  "zExecutionEventsApiV1EventsExecutionsExecutionIdGetPath =
     ZObject [(''execution_id'', ZString)]"

definition zExecutionEventsApiV1EventsExecutionsExecutionIdGetResponse :: zschema where
  "zExecutionEventsApiV1EventsExecutionsExecutionIdGetResponse =
     zSseExecutionEventSchema"

definition zBrowseEventsApiV1AdminEventsBrowsePostBody :: zschema where
  "zBrowseEventsApiV1AdminEventsBrowsePostBody =
     zEventBrowseRequest"

definition zBrowseEventsApiV1AdminEventsBrowsePostResponse :: zschema where
  "zBrowseEventsApiV1AdminEventsBrowsePostResponse =
     zEventBrowseResponse"

definition zGetEventStatsApiV1AdminEventsStatsGetQuery :: zschema where
  "zGetEventStatsApiV1AdminEventsStatsGetQuery =
     ZObject [(''hours'', ZDefault (ZOptional (ZCheck ZInt [Gte 1, Lte 168])) (VNum 24))]"

definition zGetEventStatsApiV1AdminEventsStatsGetResponse :: zschema where
  "zGetEventStatsApiV1AdminEventsStatsGetResponse =
     zEventStatsResponse"

definition zExportEventsApiV1AdminEventsExportExportFormatGetPath :: zschema where
  "zExportEventsApiV1AdminEventsExportExportFormatGetPath =
     ZObject [(''export_format'', zExportFormat_schema)]"

definition zExportEventsApiV1AdminEventsExportExportFormatGetQuery :: zschema where
  "zExportEventsApiV1AdminEventsExportExportFormatGetQuery =
     ZObject [
      (''event_types'', ZNullish (ZArray zEventType_schema)),
      (''aggregate_id'', ZNullish ZString),
      (''user_id'', ZNullish ZString),
      (''service_name'', ZNullish ZString),
      (''start_time'', ZNullish ZDatetime),
      (''end_time'', ZNullish ZDatetime),
      (''limit'', ZDefault (ZOptional (ZCheck ZInt [Gte 1, Lte 50000])) (VNum 10000))]"

definition zDeleteEventApiV1AdminEventsEventIdDeletePath :: zschema where
  "zDeleteEventApiV1AdminEventsEventIdDeletePath =
     ZObject [(''event_id'', ZString)]"

definition zDeleteEventApiV1AdminEventsEventIdDeleteResponse :: zschema where
  "zDeleteEventApiV1AdminEventsEventIdDeleteResponse =
     zEventDeleteResponse"

definition zGetEventDetailApiV1AdminEventsEventIdGetPath :: zschema where
  "zGetEventDetailApiV1AdminEventsEventIdGetPath =
     ZObject [(''event_id'', ZString)]"

definition zGetEventDetailApiV1AdminEventsEventIdGetResponse :: zschema where
  "zGetEventDetailApiV1AdminEventsEventIdGetResponse =
     zEventDetailResponse"

definition zReplayEventsApiV1AdminEventsReplayPostBody :: zschema where
  "zReplayEventsApiV1AdminEventsReplayPostBody =
     zEventReplayRequest"

definition zReplayEventsApiV1AdminEventsReplayPostResponse :: zschema where
  "zReplayEventsApiV1AdminEventsReplayPostResponse =
     zEventReplayResponse"

definition zStreamReplayStatusApiV1AdminEventsReplaySessionIdStatusGetPath :: zschema where
  "zStreamReplayStatusApiV1AdminEventsReplaySessionIdStatusGetPath =
     ZObject [(''session_id'', ZString)]"

definition zStreamReplayStatusApiV1AdminEventsReplaySessionIdStatusGetResponse :: zschema where
  "zStreamReplayStatusApiV1AdminEventsReplaySessionIdStatusGetResponse =
     zEventReplayStatusResponse"

definition zListExecutionsApiV1AdminExecutionsGetQuery :: zschema where
  "zListExecutionsApiV1AdminExecutionsGetQuery =
     ZObject [
      (''status'', ZNullish zExecutionStatus_schema),
      (''priority'', ZNullish zQueuePriority_schema),
      (''user_id'', ZNullish ZString),
      (''limit'', ZDefault (ZOptional (ZCheck ZInt [Gte 1, Lte 200])) (VNum 50)),
      (''skip'', ZDefault (ZOptional (ZCheck ZInt [Gte 0])) (VNum 0))]"

definition zListExecutionsApiV1AdminExecutionsGetResponse :: zschema where
  "zListExecutionsApiV1AdminExecutionsGetResponse =
     zAdminExecutionListResponse"

definition zUpdatePriorityApiV1AdminExecutionsExecutionIdPriorityPutBody :: zschema where
  "zUpdatePriorityApiV1AdminExecutionsExecutionIdPriorityPutBody =
     zPriorityUpdateRequest"

definition zUpdatePriorityApiV1AdminExecutionsExecutionIdPriorityPutPath :: zschema where
  "zUpdatePriorityApiV1AdminExecutionsExecutionIdPriorityPutPath =
     ZObject [(''execution_id'', ZString)]"

definition zUpdatePriorityApiV1AdminExecutionsExecutionIdPriorityPutResponse :: zschema where
  "zUpdatePriorityApiV1AdminExecutionsExecutionIdPriorityPutResponse =
     zAdminExecutionResponse"

definition zGetQueueStatusApiV1AdminExecutionsQueueGetResponse :: zschema where
  "zGetQueueStatusApiV1AdminExecutionsQueueGetResponse =
     zQueueStatusResponse"

definition zGetDefaultRateLimitRulesApiV1AdminRateLimitsDefaultsGetResponse :: zschema where
  "zGetDefaultRateLimitRulesApiV1AdminRateLimitsDefaultsGetResponse =
     ZArray zRateLimitRuleResponse"

definition zGetUserRateLimitsApiV1AdminRateLimitsUserIdGetPath :: zschema where
  "zGetUserRateLimitsApiV1AdminRateLimitsUserIdGetPath =
     ZObject [(''user_id'', ZString)]"

definition zGetUserRateLimitsApiV1AdminRateLimitsUserIdGetResponse :: zschema where
  "zGetUserRateLimitsApiV1AdminRateLimitsUserIdGetResponse =
     zUserRateLimitsResponse"

definition zUpdateUserRateLimitsApiV1AdminRateLimitsUserIdPutBody :: zschema where
  "zUpdateUserRateLimitsApiV1AdminRateLimitsUserIdPutBody =
     zRateLimitUpdateRequest"

definition zUpdateUserRateLimitsApiV1AdminRateLimitsUserIdPutPath :: zschema where
  "zUpdateUserRateLimitsApiV1AdminRateLimitsUserIdPutPath =
     ZObject [(''user_id'', ZString)]"

definition zUpdateUserRateLimitsApiV1AdminRateLimitsUserIdPutResponse :: zschema where
  "zUpdateUserRateLimitsApiV1AdminRateLimitsUserIdPutResponse =
     zRateLimitUpdateResponse"

definition zResetUserRateLimitsApiV1AdminRateLimitsUserIdResetPostPath :: zschema where
  "zResetUserRateLimitsApiV1AdminRateLimitsUserIdResetPostPath =
     ZObject [(''user_id'', ZString)]"

definition zResetUserRateLimitsApiV1AdminRateLimitsUserIdResetPostResponse :: zschema where
  "zResetUserRateLimitsApiV1AdminRateLimitsUserIdResetPostResponse =
     zMessageResponse"

definition zGetSystemSettingsApiV1AdminSettingsGetResponse :: zschema where
  "zGetSystemSettingsApiV1AdminSettingsGetResponse =
     zSystemSettingsSchemaOutput"

definition zUpdateSystemSettingsApiV1AdminSettingsPutBody :: zschema where
  "zUpdateSystemSettingsApiV1AdminSettingsPutBody =
     zSystemSettingsSchemaInput"

definition zUpdateSystemSettingsApiV1AdminSettingsPutResponse :: zschema where
  "zUpdateSystemSettingsApiV1AdminSettingsPutResponse =
     zSystemSettingsSchemaOutput"

definition zResetSystemSettingsApiV1AdminSettingsResetPostResponse :: zschema where
  "zResetSystemSettingsApiV1AdminSettingsResetPostResponse =
     zSystemSettingsSchemaOutput"

definition zListUsersApiV1AdminUsersGetQuery :: zschema where
  "zListUsersApiV1AdminUsersGetQuery =
     ZObject [
      (''limit'', ZDefault (ZOptional (ZCheck ZInt [Gte 1, Lte 1000])) (VNum 100)),
      (''offset'', ZDefault (ZOptional (ZCheck ZInt [Gte 0])) (VNum 0)),
      (''search'', ZNullish ZString),
      (''role'', ZNullish zUserRole_schema),
      (''is_active'', ZNullish ZBoolean),
      (''bypass_rate_limit'', ZNullish ZBoolean),
      (''has_custom_limits'', ZNullish ZBoolean),
      (''custom_multiplier'', ZNullish ZBoolean)]"

definition zListUsersApiV1AdminUsersGetResponse :: zschema where
  "zListUsersApiV1AdminUsersGetResponse =
     zUserListResponse"

definition zCreateUserApiV1AdminUsersPostBody :: zschema where
  "zCreateUserApiV1AdminUsersPostBody =
     zUserCreateWritable"

definition zCreateUserApiV1AdminUsersPostResponse :: zschema where
  "zCreateUserApiV1AdminUsersPostResponse =
     zUserResponse"

definition zDeleteUserApiV1AdminUsersUserIdDeletePath :: zschema where
  "zDeleteUserApiV1AdminUsersUserIdDeletePath =
     ZObject [(''user_id'', ZString)]"

definition zDeleteUserApiV1AdminUsersUserIdDeleteQuery :: zschema where
  "zDeleteUserApiV1AdminUsersUserIdDeleteQuery =
     ZObject [(''cascade'', ZDefault (ZOptional ZBoolean) (VBool True))]"

definition zDeleteUserApiV1AdminUsersUserIdDeleteResponse :: zschema where
  "zDeleteUserApiV1AdminUsersUserIdDeleteResponse =
     zDeleteUserResponse"

definition zGetUserApiV1AdminUsersUserIdGetPath :: zschema where
  "zGetUserApiV1AdminUsersUserIdGetPath =
     ZObject [(''user_id'', ZString)]"

definition zGetUserApiV1AdminUsersUserIdGetResponse :: zschema where
  "zGetUserApiV1AdminUsersUserIdGetResponse =
     zUserResponse"

definition zUpdateUserApiV1AdminUsersUserIdPutBody :: zschema where
  "zUpdateUserApiV1AdminUsersUserIdPutBody =
     zUserUpdateWritable"

definition zUpdateUserApiV1AdminUsersUserIdPutPath :: zschema where
  "zUpdateUserApiV1AdminUsersUserIdPutPath =
     ZObject [(''user_id'', ZString)]"

definition zUpdateUserApiV1AdminUsersUserIdPutResponse :: zschema where
  "zUpdateUserApiV1AdminUsersUserIdPutResponse =
     zUserResponse"

definition zGetUserOverviewApiV1AdminUsersUserIdOverviewGetPath :: zschema where
  "zGetUserOverviewApiV1AdminUsersUserIdOverviewGetPath =
     ZObject [(''user_id'', ZString)]"

definition zGetUserOverviewApiV1AdminUsersUserIdOverviewGetResponse :: zschema where
  "zGetUserOverviewApiV1AdminUsersUserIdOverviewGetResponse =
     zAdminUserOverview"

definition zResetUserPasswordApiV1AdminUsersUserIdResetPasswordPostBody :: zschema where
  "zResetUserPasswordApiV1AdminUsersUserIdResetPasswordPostBody =
     zPasswordResetRequest"

definition zResetUserPasswordApiV1AdminUsersUserIdResetPasswordPostPath :: zschema where
  "zResetUserPasswordApiV1AdminUsersUserIdResetPasswordPostPath =
     ZObject [(''user_id'', ZString)]"

definition zResetUserPasswordApiV1AdminUsersUserIdResetPasswordPostResponse :: zschema where
  "zResetUserPasswordApiV1AdminUsersUserIdResetPasswordPostResponse =
     zMessageResponse"

definition zUnlockUserApiV1AdminUsersUserIdUnlockPostPath :: zschema where
  "zUnlockUserApiV1AdminUsersUserIdUnlockPostPath =
     ZObject [(''user_id'', ZString)]"

definition zUnlockUserApiV1AdminUsersUserIdUnlockPostResponse :: zschema where
  "zUnlockUserApiV1AdminUsersUserIdUnlockPostResponse =
     zUnlockResponse"

definition zGetUserSettingsApiV1UserSettingsGetResponse :: zschema where
  "zGetUserSettingsApiV1UserSettingsGetResponse =
     zUserSettings"

definition zUpdateUserSettingsApiV1UserSettingsPutBody :: zschema where
  "zUpdateUserSettingsApiV1UserSettingsPutBody =
     zUserSettingsUpdate"

definition zUpdateUserSettingsApiV1UserSettingsPutResponse :: zschema where
  "zUpdateUserSettingsApiV1UserSettingsPutResponse =
     zUserSettings"

definition zUpdateThemeApiV1UserSettingsThemePutBody :: zschema where
  "zUpdateThemeApiV1UserSettingsThemePutBody =
     zThemeUpdateRequest"

definition zUpdateThemeApiV1UserSettingsThemePutResponse :: zschema where
  "zUpdateThemeApiV1UserSettingsThemePutResponse =
     zUserSettings"

definition zUpdateNotificationSettingsApiV1UserSettingsNotificationsPutBody :: zschema where
  "zUpdateNotificationSettingsApiV1UserSettingsNotificationsPutBody =
     zNotificationSettingsInput"

definition zUpdateNotificationSettingsApiV1UserSettingsNotificationsPutResponse :: zschema where
  "zUpdateNotificationSettingsApiV1UserSettingsNotificationsPutResponse =
     zUserSettings"

definition zUpdateEditorSettingsApiV1UserSettingsEditorPutBody :: zschema where
  "zUpdateEditorSettingsApiV1UserSettingsEditorPutBody =
     zEditorSettingsInput"

definition zUpdateEditorSettingsApiV1UserSettingsEditorPutResponse :: zschema where
  "zUpdateEditorSettingsApiV1UserSettingsEditorPutResponse =
     zUserSettings"

definition zGetSettingsHistoryApiV1UserSettingsHistoryGetQuery :: zschema where
  "zGetSettingsHistoryApiV1UserSettingsHistoryGetQuery =
     ZObject [(''limit'', ZDefault (ZOptional (ZCheck ZInt [Gte 1, Lte 200])) (VNum 50))]"

definition zGetSettingsHistoryApiV1UserSettingsHistoryGetResponse :: zschema where
  "zGetSettingsHistoryApiV1UserSettingsHistoryGetResponse =
     zSettingsHistoryResponse"

definition zRestoreSettingsApiV1UserSettingsRestorePostBody :: zschema where
  "zRestoreSettingsApiV1UserSettingsRestorePostBody =
     zRestoreSettingsRequest"

definition zRestoreSettingsApiV1UserSettingsRestorePostResponse :: zschema where
  "zRestoreSettingsApiV1UserSettingsRestorePostResponse =
     zUserSettings"

definition zUpdateCustomSettingApiV1UserSettingsCustomKeyPutBody :: zschema where
  "zUpdateCustomSettingApiV1UserSettingsCustomKeyPutBody =
     ZRecord ZString ZUnknown"

definition zUpdateCustomSettingApiV1UserSettingsCustomKeyPutPath :: zschema where
  "zUpdateCustomSettingApiV1UserSettingsCustomKeyPutPath =
     ZObject [(''key'', ZString)]"

definition zUpdateCustomSettingApiV1UserSettingsCustomKeyPutResponse :: zschema where
  "zUpdateCustomSettingApiV1UserSettingsCustomKeyPutResponse =
     zUserSettings"

definition zGetNotificationsApiV1NotificationsGetQuery :: zschema where
  "zGetNotificationsApiV1NotificationsGetQuery =
     ZObject [
      (''status'', ZNullish zNotificationStatus_schema),
      (''include_tags'', ZNullish (ZArray ZString)),
      (''exclude_tags'', ZNullish (ZArray ZString)),
      (''tag_prefix'', ZNullish ZString),
      (''limit'', ZDefault (ZOptional (ZCheck ZInt [Gte 1, Lte 100])) (VNum 50)),
      (''offset'', ZDefault (ZOptional (ZCheck ZInt [Gte 0])) (VNum 0))]"

definition zGetNotificationsApiV1NotificationsGetResponse :: zschema where
  "zGetNotificationsApiV1NotificationsGetResponse =
     zNotificationListResponse"

definition zMarkNotificationReadApiV1NotificationsNotificationIdReadPutPath :: zschema where
  "zMarkNotificationReadApiV1NotificationsNotificationIdReadPutPath =
     ZObject [(''notification_id'', ZString)]"

definition zMarkNotificationReadApiV1NotificationsNotificationIdReadPutResponse :: zschema where
  "zMarkNotificationReadApiV1NotificationsNotificationIdReadPutResponse =
     ZVoid"

definition zMarkAllReadApiV1NotificationsMarkAllReadPostResponse :: zschema where
  "zMarkAllReadApiV1NotificationsMarkAllReadPostResponse =
     ZVoid"

definition zGetUnreadCountApiV1NotificationsUnreadCountGetResponse :: zschema where
  "zGetUnreadCountApiV1NotificationsUnreadCountGetResponse =
     zUnreadCountResponse"

definition zDeleteNotificationApiV1NotificationsNotificationIdDeletePath :: zschema where
  "zDeleteNotificationApiV1NotificationsNotificationIdDeletePath =
     ZObject [(''notification_id'', ZString)]"

definition zDeleteNotificationApiV1NotificationsNotificationIdDeleteResponse :: zschema where
  "zDeleteNotificationApiV1NotificationsNotificationIdDeleteResponse =
     zDeleteNotificationResponse"

section \<open>Which schema stands for which type\<close>

text \<open>The declared type of a part of an endpoint's data.\<close>

fun field_of :: "string \<Rightarrow> ts_type \<Rightarrow> ts_type" where
  "field_of k (TObject fs) = (case map_of fs k of None \<Rightarrow> TNever | Some f \<Rightarrow> snd f)"
| "field_of k _ = TNever"

definition model_schemas :: "(zschema \<times> ts_type) list" where
  "model_schemas =
     [(zBodyLoginApiV1AuthLoginPost, BodyLoginApiV1AuthLoginPost_type),
      (zCancelStatus_schema, CancelStatus_type),
      (zCancelResponse, CancelResponse_type),
      (zContainerStatusInfo, ContainerStatusInfo_type),
      (zDeleteNotificationResponse, DeleteNotificationResponse_type),
      (zDeleteResponse, DeleteResponse_type),
      (zDeleteUserResponse, DeleteUserResponse_type),
      (zDerivedCounts, DerivedCounts_type),
      (zEditorSettingsInput, EditorSettingsInput_type),
      (zEditorSettingsOutput, EditorSettingsOutput_type),
      (zEndpointGroup_schema, EndpointGroup_type),
      (zEnvironment_schema, Environment_type),
      (zErrorResponse, ErrorResponse_type),
      (zEventDeleteResponse, EventDeleteResponse_type),
      (zEventMetadata, EventMetadata_type),
      (zAuthFailedEvent, AuthFailedEvent_type),
      (zEventReplayRequest, EventReplayRequest_type),
      (zEventType_schema, EventType_type),
      (zDlqMessageDiscardedEvent, DlqMessageDiscardedEvent_type),
      (zDlqMessageReceivedEvent, DlqMessageReceivedEvent_type),
      (zDlqMessageRetriedEvent, DlqMessageRetriedEvent_type),
      (zEventFilter, EventFilter_type),
      (zEventBrowseRequest, EventBrowseRequest_type),
      (zEventSummary, EventSummary_type),
      (zEventTypeCount, EventTypeCount_type),
      (zExampleScripts, ExampleScripts_type),
      (zExecutionCancelledEvent, ExecutionCancelledEvent_type),
      (zExecutionErrorType_schema, ExecutionErrorType_type),
      (zExecutionQueuedEvent, ExecutionQueuedEvent_type),
      (zExecutionRequest, ExecutionRequest_type),
      (zExecutionRunningEvent, ExecutionRunningEvent_type),
      (zExecutionStartedEvent, ExecutionStartedEvent_type),
      (zExecutionStatus_schema, ExecutionStatus_type),
      (zExecutionResponse, ExecutionResponse_type),
      (zExportFormat_schema, ExportFormat_type),
      (zHourlyEventCount, HourlyEventCount_type),
      (zLanguageInfo, LanguageInfo_type),
      (zLanguageLimits, LanguageLimits_type),
      (zLivenessResponse, LivenessResponse_type),
      (zLoginMethod_schema, LoginMethod_type),
      (zMessageResponse, MessageResponse_type),
      (zNotificationAllReadEvent, NotificationAllReadEvent_type),
      (zNotificationClickedEvent, NotificationClickedEvent_type),
      (zNotificationDeliveredEvent, NotificationDeliveredEvent_type),
      (zNotificationFailedEvent, NotificationFailedEvent_type),
      (zNotificationPreferencesUpdatedEvent, NotificationPreferencesUpdatedEvent_type),
      (zNotificationReadEvent, NotificationReadEvent_type),
      (zNotificationSentEvent, NotificationSentEvent_type),
      (zNotificationSettingsInput, NotificationSettingsInput_type),
      (zNotificationSettingsOutput, NotificationSettingsOutput_type),
      (zNotificationSeverity_schema, NotificationSeverity_type),
      (zNotificationCreatedEvent, NotificationCreatedEvent_type),
      (zNotificationStatus_schema, NotificationStatus_type),
      (zNotificationResponse, NotificationResponse_type),
      (zNotificationListResponse, NotificationListResponse_type),
      (zPasswordResetRequest, PasswordResetRequest_type),
      (zPodCreatedEvent, PodCreatedEvent_type),
      (zPodDeletedEvent, PodDeletedEvent_type),
      (zPodFailedEvent, PodFailedEvent_type),
      (zPodRunningEvent, PodRunningEvent_type),
      (zPodScheduledEvent, PodScheduledEvent_type),
      (zPodSucceededEvent, PodSucceededEvent_type),
      (zPodTerminatedEvent, PodTerminatedEvent_type),
      (zQueuePriority_schema, QueuePriority_type),
      (zAdminExecutionResponse, AdminExecutionResponse_type),
      (zAdminExecutionListResponse, AdminExecutionListResponse_type),
      (zExecutionAcceptedEvent, ExecutionAcceptedEvent_type),
      (zExecutionRequestedEvent, ExecutionRequestedEvent_type),
      (zPriorityUpdateRequest, PriorityUpdateRequest_type),
      (zQueueStatusResponse, QueueStatusResponse_type),
      (zQuotaExceededEvent, QuotaExceededEvent_type),
      (zRateLimitAlgorithm_schema, RateLimitAlgorithm_type),
      (zEndpointUsageStats, EndpointUsageStats_type),
      (zRateLimitExceededEvent, RateLimitExceededEvent_type),
      (zRateLimitRuleRequest, RateLimitRuleRequest_type),
      (zRateLimitRuleResponse, RateLimitRuleResponse_type),
      (zRateLimitSummary, RateLimitSummary_type),
      (zRateLimitUpdateRequest, RateLimitUpdateRequest_type),
      (zReplayError, ReplayError_type),
      (zReplayStatus_schema, ReplayStatus_type),
      (zEventReplayResponse, EventReplayResponse_type),
      (zResourceLimitExceededEvent, ResourceLimitExceededEvent_type),
      (zResourceLimits, ResourceLimits_type),
      (zResourceUsage, ResourceUsage_type),
      (zExecutionResult, ExecutionResult_type),
      (zEventReplayStatusResponse, EventReplayStatusResponse_type),
      (zExecutionListResponse, ExecutionListResponse_type),
      (zResourceUsageDomain, ResourceUsageDomain_type),
      (zExecutionCompletedEvent, ExecutionCompletedEvent_type),
      (zExecutionFailedEvent, ExecutionFailedEvent_type),
      (zExecutionTimeoutEvent, ExecutionTimeoutEvent_type),
      (zRestoreSettingsRequest, RestoreSettingsRequest_type),
      (zSseControlEvent_schema, SseControlEvent_type),
      (zSseExecutionEventSchema, SseExecutionEventSchema_type),
      (zSavedScriptCreateRequest, SavedScriptCreateRequest_type),
      (zSavedScriptResponse, SavedScriptResponse_type),
      (zSavedScriptListResponse, SavedScriptListResponse_type),
      (zSavedScriptUpdate, SavedScriptUpdate_type),
      (zScriptDeletedEvent, ScriptDeletedEvent_type),
      (zScriptSavedEvent, ScriptSavedEvent_type),
      (zScriptSharedEvent, ScriptSharedEvent_type),
      (zSecurityViolationEvent, SecurityViolationEvent_type),
      (zServiceEventCount, ServiceEventCount_type),
      (zServiceRecoveredEvent, ServiceRecoveredEvent_type),
      (zServiceUnhealthyEvent, ServiceUnhealthyEvent_type),
      (zSettingsHistoryEntry, SettingsHistoryEntry_type),
      (zSettingsHistoryResponse, SettingsHistoryResponse_type),
      (zStorageType_schema, StorageType_type),
      (zResultFailedEvent, ResultFailedEvent_type),
      (zResultStoredEvent, ResultStoredEvent_type),
      (zSystemErrorEvent, SystemErrorEvent_type),
      (zSystemSettingsSchemaInput, SystemSettingsSchemaInput_type),
      (zSystemSettingsSchemaOutput, SystemSettingsSchemaOutput_type),
      (zTheme_schema, Theme_type),
      (zThemeUpdateRequest, ThemeUpdateRequest_type),
      (zUnlockResponse, UnlockResponse_type),
      (zUnreadCountResponse, UnreadCountResponse_type),
      (zUserDeletedEvent, UserDeletedEvent_type),
      (zUserEventCount, UserEventCount_type),
      (zEventStatistics, EventStatistics_type),
      (zEventStatsResponse, EventStatsResponse_type),
      (zUserLoggedInEvent, UserLoggedInEvent_type),
      (zUserLoggedOutEvent, UserLoggedOutEvent_type),
      (zUserLoginEvent, UserLoginEvent_type),
      (zUserRateLimitConfigResponse, UserRateLimitConfigResponse_type),
      (zRateLimitUpdateResponse, RateLimitUpdateResponse_type),
      (zUserRateLimitsResponse, UserRateLimitsResponse_type),
      (zUserRegisteredEvent, UserRegisteredEvent_type),
      (zUserRole_schema, UserRole_type),
      (zLoginResponse, LoginResponse_type),
      (zUserCreate, UserCreate_type),
      (zUserResponse, UserResponse_type),
      (zUserListResponse, UserListResponse_type),
      (zUserSettings, UserSettings_type),
      (zUserSettingsUpdate, UserSettingsUpdate_type),
      (zUserSettingsUpdatedEvent, UserSettingsUpdatedEvent_type),
      (zUserUpdate, UserUpdate_type),
      (zUserUpdatedEvent, UserUpdatedEvent_type),
      (zAdminUserOverview, AdminUserOverview_type),
      (zEventBrowseResponse, EventBrowseResponse_type),
      (zEventDetailResponse, EventDetailResponse_type),
      (zEventReplayStatusResponseWritable, EventReplayStatusResponseWritable_type),
      (zUserCreateWritable, UserCreateWritable_type),
      (zUserUpdateWritable, UserUpdateWritable_type)]"

definition request_schemas :: "(zschema \<times> ts_type) list" where
  "request_schemas =
     [(zLoginApiV1AuthLoginPostBody, field_of ''body'' LoginApiV1AuthLoginPostData_type),
      (zRegisterApiV1AuthRegisterPostBody, field_of ''body'' RegisterApiV1AuthRegisterPostData_type),
      (zCreateExecutionApiV1ExecutePostBody, field_of ''body'' CreateExecutionApiV1ExecutePostData_type),
      (zCreateExecutionApiV1ExecutePostHeaders, field_of ''headers'' CreateExecutionApiV1ExecutePostData_type),
      (zGetResultApiV1ExecutionsExecutionIdResultGetPath, field_of ''path'' GetResultApiV1ExecutionsExecutionIdResultGetData_type),
      (zCancelExecutionApiV1ExecutionsExecutionIdCancelPostPath, field_of ''path'' CancelExecutionApiV1ExecutionsExecutionIdCancelPostData_type),
      (zRetryExecutionApiV1ExecutionsExecutionIdRetryPostPath, field_of ''path'' RetryExecutionApiV1ExecutionsExecutionIdRetryPostData_type),
      (zGetExecutionEventsApiV1ExecutionsExecutionIdEventsGetPath, field_of ''path'' GetExecutionEventsApiV1ExecutionsExecutionIdEventsGetData_type),
      (zGetExecutionEventsApiV1ExecutionsExecutionIdEventsGetQuery, field_of ''query'' GetExecutionEventsApiV1ExecutionsExecutionIdEventsGetData_type),
      (zGetUserExecutionsApiV1UserExecutionsGetQuery, field_of ''query'' GetUserExecutionsApiV1UserExecutionsGetData_type),
      (zDeleteExecutionApiV1ExecutionsExecutionIdDeletePath, field_of ''path'' DeleteExecutionApiV1ExecutionsExecutionIdDeleteData_type),
      (zCreateSavedScriptApiV1ScriptsPostBody, field_of ''body'' CreateSavedScriptApiV1ScriptsPostData_type),
      (zDeleteSavedScriptApiV1ScriptsScriptIdDeletePath, field_of ''path'' DeleteSavedScriptApiV1ScriptsScriptIdDeleteData_type),
      (zGetSavedScriptApiV1ScriptsScriptIdGetPath, field_of ''path'' GetSavedScriptApiV1ScriptsScriptIdGetData_type),
      (zUpdateSavedScriptApiV1ScriptsScriptIdPutBody, field_of ''body'' UpdateSavedScriptApiV1ScriptsScriptIdPutData_type),
      (zUpdateSavedScriptApiV1ScriptsScriptIdPutPath, field_of ''path'' UpdateSavedScriptApiV1ScriptsScriptIdPutData_type),
      (zExecutionEventsApiV1EventsExecutionsExecutionIdGetPath, field_of ''path'' ExecutionEventsApiV1EventsExecutionsExecutionIdGetData_type),
      (zBrowseEventsApiV1AdminEventsBrowsePostBody, field_of ''body'' BrowseEventsApiV1AdminEventsBrowsePostData_type),
      (zGetEventStatsApiV1AdminEventsStatsGetQuery, field_of ''query'' GetEventStatsApiV1AdminEventsStatsGetData_type),
      (zExportEventsApiV1AdminEventsExportExportFormatGetPath, field_of ''path'' ExportEventsApiV1AdminEventsExportExportFormatGetData_type),
      (zExportEventsApiV1AdminEventsExportExportFormatGetQuery, field_of ''query'' ExportEventsApiV1AdminEventsExportExportFormatGetData_type),
      (zDeleteEventApiV1AdminEventsEventIdDeletePath, field_of ''path'' DeleteEventApiV1AdminEventsEventIdDeleteData_type),
      (zGetEventDetailApiV1AdminEventsEventIdGetPath, field_of ''path'' GetEventDetailApiV1AdminEventsEventIdGetData_type),
      (zReplayEventsApiV1AdminEventsReplayPostBody, field_of ''body'' ReplayEventsApiV1AdminEventsReplayPostData_type),
      (zStreamReplayStatusApiV1AdminEventsReplaySessionIdStatusGetPath, field_of ''path'' StreamReplayStatusApiV1AdminEventsReplaySessionIdStatusGetData_type),
      (zListExecutionsApiV1AdminExecutionsGetQuery, field_of ''query'' ListExecutionsApiV1AdminExecutionsGetData_type),
      (zUpdatePriorityApiV1AdminExecutionsExecutionIdPriorityPutBody, field_of ''body'' UpdatePriorityApiV1AdminExecutionsExecutionIdPriorityPutData_type),
      (zUpdatePriorityApiV1AdminExecutionsExecutionIdPriorityPutPath, field_of ''path'' UpdatePriorityApiV1AdminExecutionsExecutionIdPriorityPutData_type),
      (zGetUserRateLimitsApiV1AdminRateLimitsUserIdGetPath, field_of ''path'' GetUserRateLimitsApiV1AdminRateLimitsUserIdGetData_type),
      (zUpdateUserRateLimitsApiV1AdminRateLimitsUserIdPutBody, field_of ''body'' UpdateUserRateLimitsApiV1AdminRateLimitsUserIdPutData_type),
      (zUpdateUserRateLimitsApiV1AdminRateLimitsUserIdPutPath, field_of ''path'' UpdateUserRateLimitsApiV1AdminRateLimitsUserIdPutData_type),
      (zResetUserRateLimitsApiV1AdminRateLimitsUserIdResetPostPath, field_of ''path'' ResetUserRateLimitsApiV1AdminRateLimitsUserIdResetPostData_type),
      (zUpdateSystemSettingsApiV1AdminSettingsPutBody, field_of ''body'' UpdateSystemSettingsApiV1AdminSettingsPutData_type),
      (zListUsersApiV1AdminUsersGetQuery, field_of ''query'' ListUsersApiV1AdminUsersGetData_type),
      (zCreateUserApiV1AdminUsersPostBody, field_of ''body'' CreateUserApiV1AdminUsersPostData_type),
      (zDeleteUserApiV1AdminUsersUserIdDeletePath, field_of ''path'' DeleteUserApiV1AdminUsersUserIdDeleteData_type),
      (zDeleteUserApiV1AdminUsersUserIdDeleteQuery, field_of ''query'' DeleteUserApiV1AdminUsersUserIdDeleteData_type),
      (zGetUserApiV1AdminUsersUserIdGetPath, field_of ''path'' GetUserApiV1AdminUsersUserIdGetData_type),
      (zUpdateUserApiV1AdminUsersUserIdPutBody, field_of ''body'' UpdateUserApiV1AdminUsersUserIdPutData_type),
      (zUpdateUserApiV1AdminUsersUserIdPutPath, field_of ''path'' UpdateUserApiV1AdminUsersUserIdPutData_type),
      (zGetUserOverviewApiV1AdminUsersUserIdOverviewGetPath, field_of ''path'' GetUserOverviewApiV1AdminUsersUserIdOverviewGetData_type),
      (zResetUserPasswordApiV1AdminUsersUserIdResetPasswordPostBody, field_of ''body'' ResetUserPasswordApiV1AdminUsersUserIdResetPasswordPostData_type),
      (zResetUserPasswordApiV1AdminUsersUserIdResetPasswordPostPath, field_of ''path'' ResetUserPasswordApiV1AdminUsersUserIdResetPasswordPostData_type),
      (zUnlockUserApiV1AdminUsersUserIdUnlockPostPath, field_of ''path'' UnlockUserApiV1AdminUsersUserIdUnlockPostData_type),
      (zUpdateUserSettingsApiV1UserSettingsPutBody, field_of ''body'' UpdateUserSettingsApiV1UserSettingsPutData_type),
      (zUpdateThemeApiV1UserSettingsThemePutBody, field_of ''body'' UpdateThemeApiV1UserSettingsThemePutData_type),
      (zUpdateNotificationSettingsApiV1UserSettingsNotificationsPutBody, field_of ''body'' UpdateNotificationSettingsApiV1UserSettingsNotificationsPutData_type),
      (zUpdateEditorSettingsApiV1UserSettingsEditorPutBody, field_of ''body'' UpdateEditorSettingsApiV1UserSettingsEditorPutData_type),
      (zGetSettingsHistoryApiV1UserSettingsHistoryGetQuery, field_of ''query'' GetSettingsHistoryApiV1UserSettingsHistoryGetData_type),
      (zRestoreSettingsApiV1UserSettingsRestorePostBody, field_of ''body'' RestoreSettingsApiV1UserSettingsRestorePostData_type),
      (zUpdateCustomSettingApiV1UserSettingsCustomKeyPutBody, field_of ''body'' UpdateCustomSettingApiV1UserSettingsCustomKeyPutData_type),
      (zUpdateCustomSettingApiV1UserSettingsCustomKeyPutPath, field_of ''path'' UpdateCustomSettingApiV1UserSettingsCustomKeyPutData_type),
      (zGetNotificationsApiV1NotificationsGetQuery, field_of ''query'' GetNotificationsApiV1NotificationsGetData_type),
      (zMarkNotificationReadApiV1NotificationsNotificationIdReadPutPath, field_of ''path'' MarkNotificationReadApiV1NotificationsNotificationIdReadPutData_type),
      (zDeleteNotificationApiV1NotificationsNotificationIdDeletePath, field_of ''path'' DeleteNotificationApiV1NotificationsNotificationIdDeleteData_type)]"

definition response_schemas :: "(zschema \<times> ts_type) list" where
  "response_schemas =
     [(zLoginApiV1AuthLoginPostResponse, LoginApiV1AuthLoginPostResponse_type),
      (zRegisterApiV1AuthRegisterPostResponse, RegisterApiV1AuthRegisterPostResponse_type),
      (zGetCurrentUserProfileApiV1AuthMeGetResponse, GetCurrentUserProfileApiV1AuthMeGetResponse_type),
      (zLogoutApiV1AuthLogoutPostResponse, LogoutApiV1AuthLogoutPostResponse_type),
      (zCreateExecutionApiV1ExecutePostResponse, CreateExecutionApiV1ExecutePostResponse_type),
      (zGetResultApiV1ExecutionsExecutionIdResultGetResponse, GetResultApiV1ExecutionsExecutionIdResultGetResponse_type),
      (zCancelExecutionApiV1ExecutionsExecutionIdCancelPostResponse, CancelExecutionApiV1ExecutionsExecutionIdCancelPostResponse_type),
      (zRetryExecutionApiV1ExecutionsExecutionIdRetryPostResponse, RetryExecutionApiV1ExecutionsExecutionIdRetryPostResponse_type),
      (zGetExecutionEventsApiV1ExecutionsExecutionIdEventsGetResponse, GetExecutionEventsApiV1ExecutionsExecutionIdEventsGetResponse_type),
      (zGetUserExecutionsApiV1UserExecutionsGetResponse, GetUserExecutionsApiV1UserExecutionsGetResponse_type),
      (zGetExampleScriptsApiV1ExampleScriptsGetResponse, GetExampleScriptsApiV1ExampleScriptsGetResponse_type),
      (zGetK8sResourceLimitsApiV1K8sLimitsGetResponse, GetK8sResourceLimitsApiV1K8sLimitsGetResponse_type),
      (zDeleteExecutionApiV1ExecutionsExecutionIdDeleteResponse, DeleteExecutionApiV1ExecutionsExecutionIdDeleteResponse_type),
      (zListSavedScriptsApiV1ScriptsGetResponse, ListSavedScriptsApiV1ScriptsGetResponse_type),
      (zCreateSavedScriptApiV1ScriptsPostResponse, CreateSavedScriptApiV1ScriptsPostResponse_type),
      (zDeleteSavedScriptApiV1ScriptsScriptIdDeleteResponse, DeleteSavedScriptApiV1ScriptsScriptIdDeleteResponse_type),
      (zGetSavedScriptApiV1ScriptsScriptIdGetResponse, GetSavedScriptApiV1ScriptsScriptIdGetResponse_type),
      (zUpdateSavedScriptApiV1ScriptsScriptIdPutResponse, UpdateSavedScriptApiV1ScriptsScriptIdPutResponse_type),
      (zLivenessApiV1HealthLiveGetResponse, LivenessApiV1HealthLiveGetResponse_type),
      (zNotificationStreamApiV1EventsNotificationsStreamGetResponse, NotificationStreamApiV1EventsNotificationsStreamGetResponse_type),
      (zExecutionEventsApiV1EventsExecutionsExecutionIdGetResponse, ExecutionEventsApiV1EventsExecutionsExecutionIdGetResponse_type),
      (zBrowseEventsApiV1AdminEventsBrowsePostResponse, BrowseEventsApiV1AdminEventsBrowsePostResponse_type),
      (zGetEventStatsApiV1AdminEventsStatsGetResponse, GetEventStatsApiV1AdminEventsStatsGetResponse_type),
      (zDeleteEventApiV1AdminEventsEventIdDeleteResponse, DeleteEventApiV1AdminEventsEventIdDeleteResponse_type),
      (zGetEventDetailApiV1AdminEventsEventIdGetResponse, GetEventDetailApiV1AdminEventsEventIdGetResponse_type),
      (zReplayEventsApiV1AdminEventsReplayPostResponse, ReplayEventsApiV1AdminEventsReplayPostResponse_type),
      (zStreamReplayStatusApiV1AdminEventsReplaySessionIdStatusGetResponse, StreamReplayStatusApiV1AdminEventsReplaySessionIdStatusGetResponse_type),
      (zListExecutionsApiV1AdminExecutionsGetResponse, ListExecutionsApiV1AdminExecutionsGetResponse_type),
      (zUpdatePriorityApiV1AdminExecutionsExecutionIdPriorityPutResponse, UpdatePriorityApiV1AdminExecutionsExecutionIdPriorityPutResponse_type),
      (zGetQueueStatusApiV1AdminExecutionsQueueGetResponse, GetQueueStatusApiV1AdminExecutionsQueueGetResponse_type),
      (zGetDefaultRateLimitRulesApiV1AdminRateLimitsDefaultsGetResponse, GetDefaultRateLimitRulesApiV1AdminRateLimitsDefaultsGetResponse_type),
      (zGetUserRateLimitsApiV1AdminRateLimitsUserIdGetResponse, GetUserRateLimitsApiV1AdminRateLimitsUserIdGetResponse_type),
      (zUpdateUserRateLimitsApiV1AdminRateLimitsUserIdPutResponse, UpdateUserRateLimitsApiV1AdminRateLimitsUserIdPutResponse_type),
      (zResetUserRateLimitsApiV1AdminRateLimitsUserIdResetPostResponse, ResetUserRateLimitsApiV1AdminRateLimitsUserIdResetPostResponse_type),
      (zGetSystemSettingsApiV1AdminSettingsGetResponse, GetSystemSettingsApiV1AdminSettingsGetResponse_type),
      (zUpdateSystemSettingsApiV1AdminSettingsPutResponse, UpdateSystemSettingsApiV1AdminSettingsPutResponse_type),
      (zResetSystemSettingsApiV1AdminSettingsResetPostResponse, ResetSystemSettingsApiV1AdminSettingsResetPostResponse_type),
      (zListUsersApiV1AdminUsersGetResponse, ListUsersApiV1AdminUsersGetResponse_type),
      (zCreateUserApiV1AdminUsersPostResponse, CreateUserApiV1AdminUsersPostResponse_type),
      (zDeleteUserApiV1AdminUsersUserIdDeleteResponse, DeleteUserApiV1AdminUsersUserIdDeleteResponse_type),
      (zGetUserApiV1AdminUsersUserIdGetResponse, GetUserApiV1AdminUsersUserIdGetResponse_type),
      (zUpdateUserApiV1AdminUsersUserIdPutResponse, UpdateUserApiV1AdminUsersUserIdPutResponse_type),
      (zGetUserOverviewApiV1AdminUsersUserIdOverviewGetResponse, GetUserOverviewApiV1AdminUsersUserIdOverviewGetResponse_type),
      (zResetUserPasswordApiV1AdminUsersUserIdResetPasswordPostResponse, ResetUserPasswordApiV1AdminUsersUserIdResetPasswordPostResponse_type),
      (zUnlockUserApiV1AdminUsersUserIdUnlockPostResponse, UnlockUserApiV1AdminUsersUserIdUnlockPostResponse_type),
      (zGetUserSettingsApiV1UserSettingsGetResponse, GetUserSettingsApiV1UserSettingsGetResponse_type),
      (zUpdateUserSettingsApiV1UserSettingsPutResponse, UpdateUserSettingsApiV1UserSettingsPutResponse_type),
      (zUpdateThemeApiV1UserSettingsThemePutResponse, UpdateThemeApiV1UserSettingsThemePutResponse_type),
      (zUpdateNotificationSettingsApiV1UserSettingsNotificationsPutResponse, UpdateNotificationSettingsApiV1UserSettingsNotificationsPutResponse_type),
      (zUpdateEditorSettingsApiV1UserSettingsEditorPutResponse, UpdateEditorSettingsApiV1UserSettingsEditorPutResponse_type),
      (zGetSettingsHistoryApiV1UserSettingsHistoryGetResponse, GetSettingsHistoryApiV1UserSettingsHistoryGetResponse_type),
      (zRestoreSettingsApiV1UserSettingsRestorePostResponse, RestoreSettingsApiV1UserSettingsRestorePostResponse_type),
      (zUpdateCustomSettingApiV1UserSettingsCustomKeyPutResponse, UpdateCustomSettingApiV1UserSettingsCustomKeyPutResponse_type),
      (zGetNotificationsApiV1NotificationsGetResponse, GetNotificationsApiV1NotificationsGetResponse_type),
      (zMarkNotificationReadApiV1NotificationsNotificationIdReadPutResponse, MarkNotificationReadApiV1NotificationsNotificationIdReadPutResponse_type),
      (zMarkAllReadApiV1NotificationsMarkAllReadPostResponse, MarkAllReadApiV1NotificationsMarkAllReadPostResponse_type),
      (zGetUnreadCountApiV1NotificationsUnreadCountGetResponse, GetUnreadCountApiV1NotificationsUnreadCountGetResponse_type),
      (zDeleteNotificationApiV1NotificationsNotificationIdDeleteResponse, DeleteNotificationApiV1NotificationsNotificationIdDeleteResponse_type)]"

end
