(* ===== verification/WireTyped.thy ===== *)
theory WireTyped
  imports WireSchemas
begin

text \<open>
  Every schema of \<^verbatim>\<open>frontend/src/lib/api/zod.gen.ts\<close> has an output assignable to the type that
  \<^verbatim>\<open>types.gen.ts\<close> declares under the same name, checked one schema after another.
\<close>

lemma zBodyLoginApiV1AuthLoginPost_typed [wire]: "subtype (infer zBodyLoginApiV1AuthLoginPost) BodyLoginApiV1AuthLoginPost_type"
  by (simp add: zBodyLoginApiV1AuthLoginPost_def BodyLoginApiV1AuthLoginPost_type_def wire subtype_rules)

lemma zCancelStatus_schema_typed [wire]: "subtype (infer zCancelStatus_schema) CancelStatus_type"
  by code_simp

lemma zCancelStatus_schema_defined [wire]: "may_be_undefined (infer zCancelStatus_schema) = False"
  by code_simp

lemma zCancelResponse_typed [wire]: "subtype (infer zCancelResponse) CancelResponse_type"
  by (simp add: zCancelResponse_def CancelResponse_type_def wire subtype_rules)

lemma zContainerStatusInfo_typed [wire]: "subtype (infer zContainerStatusInfo) ContainerStatusInfo_type"
  by (simp add: zContainerStatusInfo_def ContainerStatusInfo_type_def wire subtype_rules)

lemma zContainerStatusInfo_defined [wire]: "may_be_undefined (infer zContainerStatusInfo) = False"
  by (simp add: zContainerStatusInfo_def)

lemma zDeleteNotificationResponse_typed [wire]: "subtype (infer zDeleteNotificationResponse) DeleteNotificationResponse_type"
  by (simp add: zDeleteNotificationResponse_def DeleteNotificationResponse_type_def wire subtype_rules)

lemma zDeleteResponse_typed [wire]: "subtype (infer zDeleteResponse) DeleteResponse_type"
  by (simp add: zDeleteResponse_def DeleteResponse_type_def wire subtype_rules)

lemma zDeleteUserResponse_typed [wire]: "subtype (infer zDeleteUserResponse) DeleteUserResponse_type"
  by (simp add: zDeleteUserResponse_def DeleteUserResponse_type_def wire subtype_rules)

lemma zDerivedCounts_typed [wire]: "subtype (infer zDerivedCounts) DerivedCounts_type"
  by (simp add: zDerivedCounts_def DerivedCounts_type_def wire subtype_rules)

lemma zDerivedCounts_defined [wire]: "may_be_undefined (infer zDerivedCounts) = False"
  by (simp add: zDerivedCounts_def)

lemma zEditorSettingsInput_typed [wire]: "subtype (infer zEditorSettingsInput) EditorSettingsInput_type"
  by (simp add: zEditorSettingsInput_def EditorSettingsInput_type_def wire subtype_rules)

lemma zEditorSettingsInput_defined [wire]: "may_be_undefined (infer zEditorSettingsInput) = False"
  by (simp add: zEditorSettingsInput_def)

lemma zEditorSettingsOutput_typed [wire]: "subtype (infer zEditorSettingsOutput) EditorSettingsOutput_type"
  by (simp add: zEditorSettingsOutput_def EditorSettingsOutput_type_def wire subtype_rules)

lemma zEditorSettingsOutput_defined [wire]: "may_be_undefined (infer zEditorSettingsOutput) = False"
  by (simp add: zEditorSettingsOutput_def)

lemma zEndpointGroup_schema_typed [wire]: "subtype (infer zEndpointGroup_schema) EndpointGroup_type"
  by code_simp

lemma zEndpointGroup_schema_defined [wire]: "may_be_undefined (infer zEndpointGroup_schema) = False"
  by code_simp

lemma zEndpointGroup_schema_api [wire]: "subtype (TLit ''api'') EndpointGroup_type"
  by code_simp

lemma zEnvironment_schema_typed [wire]: "subtype (infer zEnvironment_schema) Environment_type"
  by code_simp

lemma zEnvironment_schema_defined [wire]: "may_be_undefined (infer zEnvironment_schema) = False"
  by code_simp

lemma zEnvironment_schema_production [wire]: "subtype (TLit ''production'') Environment_type"
  by code_simp

lemma zErrorResponse_typed [wire]: "subtype (infer zErrorResponse) ErrorResponse_type"
  by (simp add: zErrorResponse_def ErrorResponse_type_def wire subtype_rules)

lemma zEventDeleteResponse_typed [wire]: "subtype (infer zEventDeleteResponse) EventDeleteResponse_type"
  by (simp add: zEventDeleteResponse_def EventDeleteResponse_type_def wire subtype_rules)

lemma zEventMetadata_typed [wire]: "subtype (infer zEventMetadata) EventMetadata_type"
  by (simp add: zEventMetadata_def EventMetadata_type_def wire subtype_rules)

lemma zEventMetadata_defined [wire]: "may_be_undefined (infer zEventMetadata) = False"
  by (simp add: zEventMetadata_def)

lemma zAuthFailedEvent_typed [wire]: "subtype (infer zAuthFailedEvent) AuthFailedEvent_type"
  by (simp add: zAuthFailedEvent_def AuthFailedEvent_type_def wire subtype_rules)

lemma zAuthFailedEvent_defined [wire]: "may_be_undefined (infer zAuthFailedEvent) = False"
  by (simp add: zAuthFailedEvent_def)

lemma zAuthFailedEvent_kind [wire]:
  "subtype (infer zAuthFailedEvent) (TObject [(''event_type'', False, TLit ''auth_failed'')])"
  by (simp add: zAuthFailedEvent_def wire subtype_rules)

lemma zEventReplayRequest_typed [wire]: "subtype (infer zEventReplayRequest) EventReplayRequest_type"
  by (simp add: zEventReplayRequest_def EventReplayRequest_type_def wire subtype_rules)

lemma zEventType_schema_typed [wire]: "subtype (infer zEventType_schema) EventType_type"
  by code_simp

lemma zEventType_schema_defined [wire]: "may_be_undefined (infer zEventType_schema) = False"
  by code_simp

lemma zDlqMessageDiscardedEvent_typed [wire]: "subtype (infer zDlqMessageDiscardedEvent) DlqMessageDiscardedEvent_type"
  by (simp add: zDlqMessageDiscardedEvent_def DlqMessageDiscardedEvent_type_def wire subtype_rules)

lemma zDlqMessageDiscardedEvent_defined [wire]: "may_be_undefined (infer zDlqMessageDiscardedEvent) = False"
  by (simp add: zDlqMessageDiscardedEvent_def)

lemma zDlqMessageDiscardedEvent_kind [wire]:
  "subtype (infer zDlqMessageDiscardedEvent) (TObject [(''event_type'', False, TLit ''dlq_message_discarded'')])"
  by (simp add: zDlqMessageDiscardedEvent_def wire subtype_rules)

lemma zDlqMessageReceivedEvent_typed [wire]: "subtype (infer zDlqMessageReceivedEvent) DlqMessageReceivedEvent_type"
  by (simp add: zDlqMessageReceivedEvent_def DlqMessageReceivedEvent_type_def wire subtype_rules)

lemma zDlqMessageReceivedEvent_defined [wire]: "may_be_undefined (infer zDlqMessageReceivedEvent) = False"
  by (simp add: zDlqMessageReceivedEvent_def)

lemma zDlqMessageReceivedEvent_kind [wire]:
  "subtype (infer zDlqMessageReceivedEvent) (TObject [(''event_type'', False, TLit ''dlq_message_received'')])"
  by (simp add: zDlqMessageReceivedEvent_def wire subtype_rules)

lemma zDlqMessageRetriedEvent_typed [wire]: "subtype (infer zDlqMessageRetriedEvent) DlqMessageRetriedEvent_type"
  by (simp add: zDlqMessageRetriedEvent_def DlqMessageRetriedEvent_type_def wire subtype_rules)

lemma zDlqMessageRetriedEvent_defined [wire]: "may_be_undefined (infer zDlqMessageRetriedEvent) = False"
  by (simp add: zDlqMessageRetriedEvent_def)

lemma zDlqMessageRetriedEvent_kind [wire]:
  "subtype (infer zDlqMessageRetriedEvent) (TObject [(''event_type'', False, TLit ''dlq_message_retried'')])"
  by (simp add: zDlqMessageRetriedEvent_def wire subtype_rules)

lemma zEventFilter_typed [wire]: "subtype (infer zEventFilter) EventFilter_type"
  by (simp add: zEventFilter_def EventFilter_type_def wire subtype_rules)

lemma zEventFilter_defined [wire]: "may_be_undefined (infer zEventFilter) = False"
  by (simp add: zEventFilter_def)

lemma zEventBrowseRequest_typed [wire]: "subtype (infer zEventBrowseRequest) EventBrowseRequest_type"
  by (simp add: zEventBrowseRequest_def EventBrowseRequest_type_def wire subtype_rules)

lemma zEventSummary_typed [wire]: "subtype (infer zEventSummary) EventSummary_type"
  by (simp add: zEventSummary_def EventSummary_type_def wire subtype_rules)

lemma zEventSummary_defined [wire]: "may_be_undefined (infer zEventSummary) = False"
  by (simp add: zEventSummary_def)

lemma zEventTypeCount_typed [wire]: "subtype (infer zEventTypeCount) EventTypeCount_type"
  by (simp add: zEventTypeCount_def EventTypeCount_type_def wire subtype_rules)

lemma zEventTypeCount_defined [wire]: "may_be_undefined (infer zEventTypeCount) = False"
  by (simp add: zEventTypeCount_def)

lemma zExampleScripts_typed [wire]: "subtype (infer zExampleScripts) ExampleScripts_type"
  by (simp add: zExampleScripts_def ExampleScripts_type_def wire subtype_rules)

lemma zExecutionCancelledEvent_typed [wire]: "subtype (infer zExecutionCancelledEvent) ExecutionCancelledEvent_type"
  by (simp add: zExecutionCancelledEvent_def ExecutionCancelledEvent_type_def wire subtype_rules)

lemma zExecutionCancelledEvent_defined [wire]: "may_be_undefined (infer zExecutionCancelledEvent) = False"
  by (simp add: zExecutionCancelledEvent_def)

lemma zExecutionCancelledEvent_kind [wire]:
  "subtype (infer zExecutionCancelledEvent) (TObject [(''event_type'', False, TLit ''execution_cancelled'')])"
  by (simp add: zExecutionCancelledEvent_def wire subtype_rules)

lemma zExecutionErrorType_schema_typed [wire]: "subtype (infer zExecutionErrorType_schema) ExecutionErrorType_type"
  by code_simp

lemma zExecutionErrorType_schema_defined [wire]: "may_be_undefined (infer zExecutionErrorType_schema) = False"
  by code_simp

lemma zExecutionQueuedEvent_typed [wire]: "subtype (infer zExecutionQueuedEvent) ExecutionQueuedEvent_type"
  by (simp add: zExecutionQueuedEvent_def ExecutionQueuedEvent_type_def wire subtype_rules)

lemma zExecutionQueuedEvent_defined [wire]: "may_be_undefined (infer zExecutionQueuedEvent) = False"
  by (simp add: zExecutionQueuedEvent_def)

lemma zExecutionQueuedEvent_kind [wire]:
  "subtype (infer zExecutionQueuedEvent) (TObject [(''event_type'', False, TLit ''execution_queued'')])"
  by (simp add: zExecutionQueuedEvent_def wire subtype_rules)

lemma zExecutionRequest_typed [wire]: "subtype (infer zExecutionRequest) ExecutionRequest_type"
  by (simp add: zExecutionRequest_def ExecutionRequest_type_def wire subtype_rules)

lemma zExecutionRunningEvent_typed [wire]: "subtype (infer zExecutionRunningEvent) ExecutionRunningEvent_type"
  by (simp add: zExecutionRunningEvent_def ExecutionRunningEvent_type_def wire subtype_rules)

lemma zExecutionRunningEvent_defined [wire]: "may_be_undefined (infer zExecutionRunningEvent) = False"
  by (simp add: zExecutionRunningEvent_def)

lemma zExecutionRunningEvent_kind [wire]:
  "subtype (infer zExecutionRunningEvent) (TObject [(''event_type'', False, TLit ''execution_running'')])"
  by (simp add: zExecutionRunningEvent_def wire subtype_rules)

lemma zExecutionStartedEvent_typed [wire]: "subtype (infer zExecutionStartedEvent) ExecutionStartedEvent_type"
  by (simp add: zExecutionStartedEvent_def ExecutionStartedEvent_type_def wire subtype_rules)

lemma zExecutionStartedEvent_defined [wire]: "may_be_undefined (infer zExecutionStartedEvent) = False"
  by (simp add: zExecutionStartedEvent_def)

lemma zExecutionStartedEvent_kind [wire]:
  "subtype (infer zExecutionStartedEvent) (TObject [(''event_type'', False, TLit ''execution_started'')])"
  by (simp add: zExecutionStartedEvent_def wire subtype_rules)

lemma zExecutionStatus_schema_typed [wire]: "subtype (infer zExecutionStatus_schema) ExecutionStatus_type"
  by code_simp

lemma zExecutionStatus_schema_defined [wire]: "may_be_undefined (infer zExecutionStatus_schema) = False"
  by code_simp

lemma zExecutionResponse_typed [wire]: "subtype (infer zExecutionResponse) ExecutionResponse_type"
  by (simp add: zExecutionResponse_def ExecutionResponse_type_def wire subtype_rules)

lemma zExportFormat_schema_typed [wire]: "subtype (infer zExportFormat_schema) ExportFormat_type"
  by code_simp

lemma zExportFormat_schema_defined [wire]: "may_be_undefined (infer zExportFormat_schema) = False"
  by code_simp

lemma zHourlyEventCount_typed [wire]: "subtype (infer zHourlyEventCount) HourlyEventCount_type"
  by (simp add: zHourlyEventCount_def HourlyEventCount_type_def wire subtype_rules)

lemma zHourlyEventCount_defined [wire]: "may_be_undefined (infer zHourlyEventCount) = False"
  by (simp add: zHourlyEventCount_def)

lemma zLanguageInfo_typed [wire]: "subtype (infer zLanguageInfo) LanguageInfo_type"
  by (simp add: zLanguageInfo_def LanguageInfo_type_def wire subtype_rules)

lemma zLanguageInfo_defined [wire]: "may_be_undefined (infer zLanguageInfo) = False"
  by (simp add: zLanguageInfo_def)

lemma zLanguageLimits_typed [wire]: "subtype (infer zLanguageLimits) LanguageLimits_type"
  by (simp add: zLanguageLimits_def LanguageLimits_type_def wire subtype_rules)

lemma zLanguageLimits_defined [wire]: "may_be_undefined (infer zLanguageLimits) = False"
  by (simp add: zLanguageLimits_def)

lemma zLivenessResponse_typed [wire]: "subtype (infer zLivenessResponse) LivenessResponse_type"
  by (simp add: zLivenessResponse_def LivenessResponse_type_def wire subtype_rules)

lemma zLoginMethod_schema_typed [wire]: "subtype (infer zLoginMethod_schema) LoginMethod_type"
  by code_simp

lemma zLoginMethod_schema_defined [wire]: "may_be_undefined (infer zLoginMethod_schema) = False"
  by code_simp

lemma zMessageResponse_typed [wire]: "subtype (infer zMessageResponse) MessageResponse_type"
  by (simp add: zMessageResponse_def MessageResponse_type_def wire subtype_rules)

lemma zNotificationAllReadEvent_typed [wire]: "subtype (infer zNotificationAllReadEvent) NotificationAllReadEvent_type"
  by (simp add: zNotificationAllReadEvent_def NotificationAllReadEvent_type_def wire subtype_rules)

lemma zNotificationAllReadEvent_defined [wire]: "may_be_undefined (infer zNotificationAllReadEvent) = False"
  by (simp add: zNotificationAllReadEvent_def)

lemma zNotificationAllReadEvent_kind [wire]:
  "subtype (infer zNotificationAllReadEvent) (TObject [(''event_type'', False, TLit ''notification_all_read'')])"
  by (simp add: zNotificationAllReadEvent_def wire subtype_rules)

lemma zNotificationClickedEvent_typed [wire]: "subtype (infer zNotificationClickedEvent) NotificationClickedEvent_type"
  by (simp add: zNotificationClickedEvent_def NotificationClickedEvent_type_def wire subtype_rules)

lemma zNotificationClickedEvent_defined [wire]: "may_be_undefined (infer zNotificationClickedEvent) = False"
  by (simp add: zNotificationClickedEvent_def)

lemma zNotificationClickedEvent_kind [wire]:
  "subtype (infer zNotificationClickedEvent) (TObject [(''event_type'', False, TLit ''notification_clicked'')])"
  by (simp add: zNotificationClickedEvent_def wire subtype_rules)

lemma zNotificationDeliveredEvent_typed [wire]: "subtype (infer zNotificationDeliveredEvent) NotificationDeliveredEvent_type"
  by (simp add: zNotificationDeliveredEvent_def NotificationDeliveredEvent_type_def wire subtype_rules)

lemma zNotificationDeliveredEvent_defined [wire]: "may_be_undefined (infer zNotificationDeliveredEvent) = False"
  by (simp add: zNotificationDeliveredEvent_def)

lemma zNotificationDeliveredEvent_kind [wire]:
  "subtype (infer zNotificationDeliveredEvent) (TObject [(''event_type'', False, TLit ''notification_delivered'')])"
  by (simp add: zNotificationDeliveredEvent_def wire subtype_rules)

lemma zNotificationFailedEvent_typed [wire]: "subtype (infer zNotificationFailedEvent) NotificationFailedEvent_type"
  by (simp add: zNotificationFailedEvent_def NotificationFailedEvent_type_def wire subtype_rules)

lemma zNotificationFailedEvent_defined [wire]: "may_be_undefined (infer zNotificationFailedEvent) = False"
  by (simp add: zNotificationFailedEvent_def)

lemma zNotificationFailedEvent_kind [wire]:
  "subtype (infer zNotificationFailedEvent) (TObject [(''event_type'', False, TLit ''notification_failed'')])"
  by (simp add: zNotificationFailedEvent_def wire subtype_rules)

lemma zNotificationPreferencesUpdatedEvent_typed [wire]: "subtype (infer zNotificationPreferencesUpdatedEvent) NotificationPreferencesUpdatedEvent_type"
  by (simp add: zNotificationPreferencesUpdatedEvent_def NotificationPreferencesUpdatedEvent_type_def wire subtype_rules)

lemma zNotificationPreferencesUpdatedEvent_defined [wire]: "may_be_undefined (infer zNotificationPreferencesUpdatedEvent) = False"
  by (simp add: zNotificationPreferencesUpdatedEvent_def)

lemma zNotificationPreferencesUpdatedEvent_kind [wire]:
  "subtype (infer zNotificationPreferencesUpdatedEvent) (TObject [(''event_type'', False, TLit ''notification_preferences_updated'')])"
  by (simp add: zNotificationPreferencesUpdatedEvent_def wire subtype_rules)

lemma zNotificationReadEvent_typed [wire]: "subtype (infer zNotificationReadEvent) NotificationReadEvent_type"
  by (simp add: zNotificationReadEvent_def NotificationReadEvent_type_def wire subtype_rules)

lemma zNotificationReadEvent_defined [wire]: "may_be_undefined (infer zNotificationReadEvent) = False"
  by (simp add: zNotificationReadEvent_def)

lemma zNotificationReadEvent_kind [wire]:
  "subtype (infer zNotificationReadEvent) (TObject [(''event_type'', False, TLit ''notification_read'')])"
  by (simp add: zNotificationReadEvent_def wire subtype_rules)

lemma zNotificationSentEvent_typed [wire]: "subtype (infer zNotificationSentEvent) NotificationSentEvent_type"
  by (simp add: zNotificationSentEvent_def NotificationSentEvent_type_def wire subtype_rules)

lemma zNotificationSentEvent_defined [wire]: "may_be_undefined (infer zNotificationSentEvent) = False"
  by (simp add: zNotificationSentEvent_def)

lemma zNotificationSentEvent_kind [wire]:
  "subtype (infer zNotificationSentEvent) (TObject [(''event_type'', False, TLit ''notification_sent'')])"
  by (simp add: zNotificationSentEvent_def wire subtype_rules)

lemma zNotificationSettingsInput_typed [wire]: "subtype (infer zNotificationSettingsInput) NotificationSettingsInput_type"
  by (simp add: zNotificationSettingsInput_def NotificationSettingsInput_type_def wire subtype_rules)

lemma zNotificationSettingsInput_defined [wire]: "may_be_undefined (infer zNotificationSettingsInput) = False"
  by (simp add: zNotificationSettingsInput_def)

lemma zNotificationSettingsOutput_typed [wire]: "subtype (infer zNotificationSettingsOutput) NotificationSettingsOutput_type"
  by (simp add: zNotificationSettingsOutput_def NotificationSettingsOutput_type_def wire subtype_rules)

lemma zNotificationSettingsOutput_defined [wire]: "may_be_undefined (infer zNotificationSettingsOutput) = False"
  by (simp add: zNotificationSettingsOutput_def)

lemma zNotificationSeverity_schema_typed [wire]: "subtype (infer zNotificationSeverity_schema) NotificationSeverity_type"
  by code_simp

lemma zNotificationSeverity_schema_defined [wire]: "may_be_undefined (infer zNotificationSeverity_schema) = False"
  by code_simp

lemma zNotificationCreatedEvent_typed [wire]: "subtype (infer zNotificationCreatedEvent) NotificationCreatedEvent_type"
  by (simp add: zNotificationCreatedEvent_def NotificationCreatedEvent_type_def wire subtype_rules)

lemma zNotificationCreatedEvent_defined [wire]: "may_be_undefined (infer zNotificationCreatedEvent) = False"
  by (simp add: zNotificationCreatedEvent_def)

lemma zNotificationCreatedEvent_kind [wire]:
  "subtype (infer zNotificationCreatedEvent) (TObject [(''event_type'', False, TLit ''notification_created'')])"
  by (simp add: zNotificationCreatedEvent_def wire subtype_rules)

lemma zNotificationStatus_schema_typed [wire]: "subtype (infer zNotificationStatus_schema) NotificationStatus_type"
  by code_simp

lemma zNotificationStatus_schema_defined [wire]: "may_be_undefined (infer zNotificationStatus_schema) = False"
  by code_simp

lemma zNotificationResponse_typed [wire]: "subtype (infer zNotificationResponse) NotificationResponse_type"
  by (simp add: zNotificationResponse_def NotificationResponse_type_def wire subtype_rules)

lemma zNotificationResponse_defined [wire]: "may_be_undefined (infer zNotificationResponse) = False"
  by (simp add: zNotificationResponse_def)

lemma zNotificationListResponse_typed [wire]: "subtype (infer zNotificationListResponse) NotificationListResponse_type"
  by (simp add: zNotificationListResponse_def NotificationListResponse_type_def wire subtype_rules)

lemma zPasswordResetRequest_typed [wire]: "subtype (infer zPasswordResetRequest) PasswordResetRequest_type"
  by (simp add: zPasswordResetRequest_def PasswordResetRequest_type_def wire subtype_rules)

lemma zPodCreatedEvent_typed [wire]: "subtype (infer zPodCreatedEvent) PodCreatedEvent_type"
  by (simp add: zPodCreatedEvent_def PodCreatedEvent_type_def wire subtype_rules)

lemma zPodCreatedEvent_defined [wire]: "may_be_undefined (infer zPodCreatedEvent) = False"
  by (simp add: zPodCreatedEvent_def)

lemma zPodCreatedEvent_kind [wire]:
  "subtype (infer zPodCreatedEvent) (TObject [(''event_type'', False, TLit ''pod_created'')])"
  by (simp add: zPodCreatedEvent_def wire subtype_rules)

lemma zPodDeletedEvent_typed [wire]: "subtype (infer zPodDeletedEvent) PodDeletedEvent_type"
  by (simp add: zPodDeletedEvent_def PodDeletedEvent_type_def wire subtype_rules)

lemma zPodDeletedEvent_defined [wire]: "may_be_undefined (infer zPodDeletedEvent) = False"
  by (simp add: zPodDeletedEvent_def)

lemma zPodDeletedEvent_kind [wire]:
  "subtype (infer zPodDeletedEvent) (TObject [(''event_type'', False, TLit ''pod_deleted'')])"
  by (simp add: zPodDeletedEvent_def wire subtype_rules)

lemma zPodFailedEvent_typed [wire]: "subtype (infer zPodFailedEvent) PodFailedEvent_type"
  by (simp add: zPodFailedEvent_def PodFailedEvent_type_def wire subtype_rules)

lemma zPodFailedEvent_defined [wire]: "may_be_undefined (infer zPodFailedEvent) = False"
  by (simp add: zPodFailedEvent_def)

lemma zPodFailedEvent_kind [wire]:
  "subtype (infer zPodFailedEvent) (TObject [(''event_type'', False, TLit ''pod_failed'')])"
  by (simp add: zPodFailedEvent_def wire subtype_rules)

lemma zPodRunningEvent_typed [wire]: "subtype (infer zPodRunningEvent) PodRunningEvent_type"
  by (simp add: zPodRunningEvent_def PodRunningEvent_type_def wire subtype_rules)

lemma zPodRunningEvent_defined [wire]: "may_be_undefined (infer zPodRunningEvent) = False"
  by (simp add: zPodRunningEvent_def)

lemma zPodRunningEvent_kind [wire]:
  "subtype (infer zPodRunningEvent) (TObject [(''event_type'', False, TLit ''pod_running'')])"
  by (simp add: zPodRunningEvent_def wire subtype_rules)

lemma zPodScheduledEvent_typed [wire]: "subtype (infer zPodScheduledEvent) PodScheduledEvent_type"
  by (simp add: zPodScheduledEvent_def PodScheduledEvent_type_def wire subtype_rules)

lemma zPodScheduledEvent_defined [wire]: "may_be_undefined (infer zPodScheduledEvent) = False"
  by (simp add: zPodScheduledEvent_def)

lemma zPodScheduledEvent_kind [wire]:
  "subtype (infer zPodScheduledEvent) (TObject [(''event_type'', False, TLit ''pod_scheduled'')])"
  by (simp add: zPodScheduledEvent_def wire subtype_rules)

lemma zPodSucceededEvent_typed [wire]: "subtype (infer zPodSucceededEvent) PodSucceededEvent_type"
  by (simp add: zPodSucceededEvent_def PodSucceededEvent_type_def wire subtype_rules)

lemma zPodSucceededEvent_defined [wire]: "may_be_undefined (infer zPodSucceededEvent) = False"
  by (simp add: zPodSucceededEvent_def)

lemma zPodSucceededEvent_kind [wire]:
  "subtype (infer zPodSucceededEvent) (TObject [(''event_type'', False, TLit ''pod_succeeded'')])"
  by (simp add: zPodSucceededEvent_def wire subtype_rules)

lemma zPodTerminatedEvent_typed [wire]: "subtype (infer zPodTerminatedEvent) PodTerminatedEvent_type"
  by (simp add: zPodTerminatedEvent_def PodTerminatedEvent_type_def wire subtype_rules)

lemma zPodTerminatedEvent_defined [wire]: "may_be_undefined (infer zPodTerminatedEvent) = False"
  by (simp add: zPodTerminatedEvent_def)

lemma zPodTerminatedEvent_kind [wire]:
  "subtype (infer zPodTerminatedEvent) (TObject [(''event_type'', False, TLit ''pod_terminated'')])"
  by (simp add: zPodTerminatedEvent_def wire subtype_rules)

lemma zQueuePriority_schema_typed [wire]: "subtype (infer zQueuePriority_schema) QueuePriority_type"
  by code_simp

lemma zQueuePriority_schema_defined [wire]: "may_be_undefined (infer zQueuePriority_schema) = False"
  by code_simp

lemma zQueuePriority_schema_normal [wire]: "subtype (TLit ''normal'') QueuePriority_type"
  by code_simp

lemma zAdminExecutionResponse_typed [wire]: "subtype (infer zAdminExecutionResponse) AdminExecutionResponse_type"
  by (simp add: zAdminExecutionResponse_def AdminExecutionResponse_type_def wire subtype_rules)

lemma zAdminExecutionResponse_defined [wire]: "may_be_undefined (infer zAdminExecutionResponse) = False"
  by (simp add: zAdminExecutionResponse_def)

lemma zAdminExecutionListResponse_typed [wire]: "subtype (infer zAdminExecutionListResponse) AdminExecutionListResponse_type"
  by (simp add: zAdminExecutionListResponse_def AdminExecutionListResponse_type_def wire subtype_rules)

lemma zExecutionAcceptedEvent_typed [wire]: "subtype (infer zExecutionAcceptedEvent) ExecutionAcceptedEvent_type"
  by (simp add: zExecutionAcceptedEvent_def ExecutionAcceptedEvent_type_def wire subtype_rules)

lemma zExecutionAcceptedEvent_defined [wire]: "may_be_undefined (infer zExecutionAcceptedEvent) = False"
  by (simp add: zExecutionAcceptedEvent_def)

lemma zExecutionAcceptedEvent_kind [wire]:
  "subtype (infer zExecutionAcceptedEvent) (TObject [(''event_type'', False, TLit ''execution_accepted'')])"
  by (simp add: zExecutionAcceptedEvent_def wire subtype_rules)

lemma zExecutionRequestedEvent_typed [wire]: "subtype (infer zExecutionRequestedEvent) ExecutionRequestedEvent_type"
  by (simp add: zExecutionRequestedEvent_def ExecutionRequestedEvent_type_def wire subtype_rules)

lemma zExecutionRequestedEvent_defined [wire]: "may_be_undefined (infer zExecutionRequestedEvent) = False"
  by (simp add: zExecutionRequestedEvent_def)

lemma zExecutionRequestedEvent_kind [wire]:
  "subtype (infer zExecutionRequestedEvent) (TObject [(''event_type'', False, TLit ''execution_requested'')])"
  by (simp add: zExecutionRequestedEvent_def wire subtype_rules)

lemma zPriorityUpdateRequest_typed [wire]: "subtype (infer zPriorityUpdateRequest) PriorityUpdateRequest_type"
  by (simp add: zPriorityUpdateRequest_def PriorityUpdateRequest_type_def wire subtype_rules)

lemma zQueueStatusResponse_typed [wire]: "subtype (infer zQueueStatusResponse) QueueStatusResponse_type"
  by (simp add: zQueueStatusResponse_def QueueStatusResponse_type_def wire subtype_rules)

lemma zQuotaExceededEvent_typed [wire]: "subtype (infer zQuotaExceededEvent) QuotaExceededEvent_type"
  by (simp add: zQuotaExceededEvent_def QuotaExceededEvent_type_def wire subtype_rules)

lemma zQuotaExceededEvent_defined [wire]: "may_be_undefined (infer zQuotaExceededEvent) = False"
  by (simp add: zQuotaExceededEvent_def)

lemma zQuotaExceededEvent_kind [wire]:
  "subtype (infer zQuotaExceededEvent) (TObject [(''event_type'', False, TLit ''quota_exceeded'')])"
  by (simp add: zQuotaExceededEvent_def wire subtype_rules)

lemma zRateLimitAlgorithm_schema_typed [wire]: "subtype (infer zRateLimitAlgorithm_schema) RateLimitAlgorithm_type"
  by code_simp

lemma zRateLimitAlgorithm_schema_defined [wire]: "may_be_undefined (infer zRateLimitAlgorithm_schema) = False"
  by code_simp

lemma zRateLimitAlgorithm_schema_sliding_window [wire]: "subtype (TLit ''sliding_window'') RateLimitAlgorithm_type"
  by code_simp

lemma zEndpointUsageStats_typed [wire]: "subtype (infer zEndpointUsageStats) EndpointUsageStats_type"
  by (simp add: zEndpointUsageStats_def EndpointUsageStats_type_def wire subtype_rules)

lemma zEndpointUsageStats_defined [wire]: "may_be_undefined (infer zEndpointUsageStats) = False"
  by (simp add: zEndpointUsageStats_def)

lemma zRateLimitExceededEvent_typed [wire]: "subtype (infer zRateLimitExceededEvent) RateLimitExceededEvent_type"
  by (simp add: zRateLimitExceededEvent_def RateLimitExceededEvent_type_def wire subtype_rules)

lemma zRateLimitExceededEvent_defined [wire]: "may_be_undefined (infer zRateLimitExceededEvent) = False"
  by (simp add: zRateLimitExceededEvent_def)

lemma zRateLimitExceededEvent_kind [wire]:
  "subtype (infer zRateLimitExceededEvent) (TObject [(''event_type'', False, TLit ''rate_limit_exceeded'')])"
  by (simp add: zRateLimitExceededEvent_def wire subtype_rules)

lemma zRateLimitRuleRequest_typed [wire]: "subtype (infer zRateLimitRuleRequest) RateLimitRuleRequest_type"
  by (simp add: zRateLimitRuleRequest_def RateLimitRuleRequest_type_def wire subtype_rules)

lemma zRateLimitRuleRequest_defined [wire]: "may_be_undefined (infer zRateLimitRuleRequest) = False"
  by (simp add: zRateLimitRuleRequest_def)

lemma zRateLimitRuleResponse_typed [wire]: "subtype (infer zRateLimitRuleResponse) RateLimitRuleResponse_type"
  by (simp add: zRateLimitRuleResponse_def RateLimitRuleResponse_type_def wire subtype_rules)

lemma zRateLimitRuleResponse_defined [wire]: "may_be_undefined (infer zRateLimitRuleResponse) = False"
  by (simp add: zRateLimitRuleResponse_def)

lemma zRateLimitSummary_typed [wire]: "subtype (infer zRateLimitSummary) RateLimitSummary_type"
  by (simp add: zRateLimitSummary_def RateLimitSummary_type_def wire subtype_rules)

lemma zRateLimitSummary_defined [wire]: "may_be_undefined (infer zRateLimitSummary) = False"
  by (simp add: zRateLimitSummary_def)

lemma zRateLimitUpdateRequest_typed [wire]: "subtype (infer zRateLimitUpdateRequest) RateLimitUpdateRequest_type"
  by (simp add: zRateLimitUpdateRequest_def RateLimitUpdateRequest_type_def wire subtype_rules)

lemma zReplayError_typed [wire]: "subtype (infer zReplayError) ReplayError_type"
  by (simp add: zReplayError_def ReplayError_type_def wire subtype_rules)

lemma zReplayError_defined [wire]: "may_be_undefined (infer zReplayError) = False"
  by (simp add: zReplayError_def)

lemma zReplayStatus_schema_typed [wire]: "subtype (infer zReplayStatus_schema) ReplayStatus_type"
  by code_simp

lemma zReplayStatus_schema_defined [wire]: "may_be_undefined (infer zReplayStatus_schema) = False"
  by code_simp

lemma zEventReplayResponse_typed [wire]: "subtype (infer zEventReplayResponse) EventReplayResponse_type"
  by (simp add: zEventReplayResponse_def EventReplayResponse_type_def wire subtype_rules)

lemma zResourceLimitExceededEvent_typed [wire]: "subtype (infer zResourceLimitExceededEvent) ResourceLimitExceededEvent_type"
  by (simp add: zResourceLimitExceededEvent_def ResourceLimitExceededEvent_type_def wire subtype_rules)

lemma zResourceLimitExceededEvent_defined [wire]: "may_be_undefined (infer zResourceLimitExceededEvent) = False"
  by (simp add: zResourceLimitExceededEvent_def)

lemma zResourceLimitExceededEvent_kind [wire]:
  "subtype (infer zResourceLimitExceededEvent) (TObject [(''event_type'', False, TLit ''resource_limit_exceeded'')])"
  by (simp add: zResourceLimitExceededEvent_def wire subtype_rules)

lemma zResourceLimits_typed [wire]: "subtype (infer zResourceLimits) ResourceLimits_type"
  by (simp add: zResourceLimits_def ResourceLimits_type_def wire subtype_rules)

lemma zResourceUsage_typed [wire]: "subtype (infer zResourceUsage) ResourceUsage_type"
  by (simp add: zResourceUsage_def ResourceUsage_type_def wire subtype_rules)

lemma zResourceUsage_defined [wire]: "may_be_undefined (infer zResourceUsage) = False"
  by (simp add: zResourceUsage_def)

lemma zExecutionResult_typed [wire]: "subtype (infer zExecutionResult) ExecutionResult_type"
  by (simp add: zExecutionResult_def ExecutionResult_type_def wire subtype_rules)

lemma zExecutionResult_defined [wire]: "may_be_undefined (infer zExecutionResult) = False"
  by (simp add: zExecutionResult_def)

lemma zEventReplayStatusResponse_typed [wire]: "subtype (infer zEventReplayStatusResponse) EventReplayStatusResponse_type"
  by (simp add: zEventReplayStatusResponse_def EventReplayStatusResponse_type_def wire subtype_rules)

lemma zExecutionListResponse_typed [wire]: "subtype (infer zExecutionListResponse) ExecutionListResponse_type"
  by (simp add: zExecutionListResponse_def ExecutionListResponse_type_def wire subtype_rules)

lemma zResourceUsageDomain_typed [wire]: "subtype (infer zResourceUsageDomain) ResourceUsageDomain_type"
  by (simp add: zResourceUsageDomain_def ResourceUsageDomain_type_def wire subtype_rules)

lemma zResourceUsageDomain_defined [wire]: "may_be_undefined (infer zResourceUsageDomain) = False"
  by (simp add: zResourceUsageDomain_def)

lemma zExecutionCompletedEvent_typed [wire]: "subtype (infer zExecutionCompletedEvent) ExecutionCompletedEvent_type"
  by (simp add: zExecutionCompletedEvent_def ExecutionCompletedEvent_type_def wire subtype_rules)

lemma zExecutionCompletedEvent_defined [wire]: "may_be_undefined (infer zExecutionCompletedEvent) = False"
  by (simp add: zExecutionCompletedEvent_def)

lemma zExecutionCompletedEvent_kind [wire]:
  "subtype (infer zExecutionCompletedEvent) (TObject [(''event_type'', False, TLit ''execution_completed'')])"
  by (simp add: zExecutionCompletedEvent_def wire subtype_rules)

lemma zExecutionFailedEvent_typed [wire]: "subtype (infer zExecutionFailedEvent) ExecutionFailedEvent_type"
  by (simp add: zExecutionFailedEvent_def ExecutionFailedEvent_type_def wire subtype_rules)

lemma zExecutionFailedEvent_defined [wire]: "may_be_undefined (infer zExecutionFailedEvent) = False"
  by (simp add: zExecutionFailedEvent_def)

lemma zExecutionFailedEvent_kind [wire]:
  "subtype (infer zExecutionFailedEvent) (TObject [(''event_type'', False, TLit ''execution_failed'')])"
  by (simp add: zExecutionFailedEvent_def wire subtype_rules)

lemma zExecutionTimeoutEvent_typed [wire]: "subtype (infer zExecutionTimeoutEvent) ExecutionTimeoutEvent_type"
  by (simp add: zExecutionTimeoutEvent_def ExecutionTimeoutEvent_type_def wire subtype_rules)

lemma zExecutionTimeoutEvent_defined [wire]: "may_be_undefined (infer zExecutionTimeoutEvent) = False"
  by (simp add: zExecutionTimeoutEvent_def)

lemma zExecutionTimeoutEvent_kind [wire]:
  "subtype (infer zExecutionTimeoutEvent) (TObject [(''event_type'', False, TLit ''execution_timeout'')])"
  by (simp add: zExecutionTimeoutEvent_def wire subtype_rules)

lemma zRestoreSettingsRequest_typed [wire]: "subtype (infer zRestoreSettingsRequest) RestoreSettingsRequest_type"
  by (simp add: zRestoreSettingsRequest_def RestoreSettingsRequest_type_def wire subtype_rules)

lemma zSseControlEvent_schema_typed [wire]: "subtype (infer zSseControlEvent_schema) SseControlEvent_type"
  by code_simp

lemma zSseControlEvent_schema_defined [wire]: "may_be_undefined (infer zSseControlEvent_schema) = False"
  by code_simp

lemma zSseExecutionEventSchema_typed [wire]: "subtype (infer zSseExecutionEventSchema) SseExecutionEventSchema_type"
  by (simp add: zSseExecutionEventSchema_def SseExecutionEventSchema_type_def wire subtype_rules)

lemma zSavedScriptCreateRequest_typed [wire]: "subtype (infer zSavedScriptCreateRequest) SavedScriptCreateRequest_type"
  by (simp add: zSavedScriptCreateRequest_def SavedScriptCreateRequest_type_def wire subtype_rules)

lemma zSavedScriptResponse_typed [wire]: "subtype (infer zSavedScriptResponse) SavedScriptResponse_type"
  by (simp add: zSavedScriptResponse_def SavedScriptResponse_type_def wire subtype_rules)

lemma zSavedScriptResponse_defined [wire]: "may_be_undefined (infer zSavedScriptResponse) = False"
  by (simp add: zSavedScriptResponse_def)

lemma zSavedScriptListResponse_typed [wire]: "subtype (infer zSavedScriptListResponse) SavedScriptListResponse_type"
  by (simp add: zSavedScriptListResponse_def SavedScriptListResponse_type_def wire subtype_rules)

lemma zSavedScriptUpdate_typed [wire]: "subtype (infer zSavedScriptUpdate) SavedScriptUpdate_type"
  by (simp add: zSavedScriptUpdate_def SavedScriptUpdate_type_def wire subtype_rules)

lemma zScriptDeletedEvent_typed [wire]: "subtype (infer zScriptDeletedEvent) ScriptDeletedEvent_type"
  by (simp add: zScriptDeletedEvent_def ScriptDeletedEvent_type_def wire subtype_rules)

lemma zScriptDeletedEvent_defined [wire]: "may_be_undefined (infer zScriptDeletedEvent) = False"
  by (simp add: zScriptDeletedEvent_def)

lemma zScriptDeletedEvent_kind [wire]:
  "subtype (infer zScriptDeletedEvent) (TObject [(''event_type'', False, TLit ''script_deleted'')])"
  by (simp add: zScriptDeletedEvent_def wire subtype_rules)

lemma zScriptSavedEvent_typed [wire]: "subtype (infer zScriptSavedEvent) ScriptSavedEvent_type"
  by (simp add: zScriptSavedEvent_def ScriptSavedEvent_type_def wire subtype_rules)

lemma zScriptSavedEvent_defined [wire]: "may_be_undefined (infer zScriptSavedEvent) = False"
  by (simp add: zScriptSavedEvent_def)

lemma zScriptSavedEvent_kind [wire]:
  "subtype (infer zScriptSavedEvent) (TObject [(''event_type'', False, TLit ''script_saved'')])"
  by (simp add: zScriptSavedEvent_def wire subtype_rules)

lemma zScriptSharedEvent_typed [wire]: "subtype (infer zScriptSharedEvent) ScriptSharedEvent_type"
  by (simp add: zScriptSharedEvent_def ScriptSharedEvent_type_def wire subtype_rules)

lemma zScriptSharedEvent_defined [wire]: "may_be_undefined (infer zScriptSharedEvent) = False"
  by (simp add: zScriptSharedEvent_def)

lemma zScriptSharedEvent_kind [wire]:
  "subtype (infer zScriptSharedEvent) (TObject [(''event_type'', False, TLit ''script_shared'')])"
  by (simp add: zScriptSharedEvent_def wire subtype_rules)

lemma zSecurityViolationEvent_typed [wire]: "subtype (infer zSecurityViolationEvent) SecurityViolationEvent_type"
  by (simp add: zSecurityViolationEvent_def SecurityViolationEvent_type_def wire subtype_rules)

lemma zSecurityViolationEvent_defined [wire]: "may_be_undefined (infer zSecurityViolationEvent) = False"
  by (simp add: zSecurityViolationEvent_def)

lemma zSecurityViolationEvent_kind [wire]:
  "subtype (infer zSecurityViolationEvent) (TObject [(''event_type'', False, TLit ''security_violation'')])"
  by (simp add: zSecurityViolationEvent_def wire subtype_rules)

lemma zServiceEventCount_typed [wire]: "subtype (infer zServiceEventCount) ServiceEventCount_type"
  by (simp add: zServiceEventCount_def ServiceEventCount_type_def wire subtype_rules)

lemma zServiceEventCount_defined [wire]: "may_be_undefined (infer zServiceEventCount) = False"
  by (simp add: zServiceEventCount_def)

lemma zServiceRecoveredEvent_typed [wire]: "subtype (infer zServiceRecoveredEvent) ServiceRecoveredEvent_type"
  by (simp add: zServiceRecoveredEvent_def ServiceRecoveredEvent_type_def wire subtype_rules)

lemma zServiceRecoveredEvent_defined [wire]: "may_be_undefined (infer zServiceRecoveredEvent) = False"
  by (simp add: zServiceRecoveredEvent_def)

lemma zServiceRecoveredEvent_kind [wire]:
  "subtype (infer zServiceRecoveredEvent) (TObject [(''event_type'', False, TLit ''service_recovered'')])"
  by (simp add: zServiceRecoveredEvent_def wire subtype_rules)

lemma zServiceUnhealthyEvent_typed [wire]: "subtype (infer zServiceUnhealthyEvent) ServiceUnhealthyEvent_type"
  by (simp add: zServiceUnhealthyEvent_def ServiceUnhealthyEvent_type_def wire subtype_rules)

lemma zServiceUnhealthyEvent_defined [wire]: "may_be_undefined (infer zServiceUnhealthyEvent) = False"
  by (simp add: zServiceUnhealthyEvent_def)

lemma zServiceUnhealthyEvent_kind [wire]:
  "subtype (infer zServiceUnhealthyEvent) (TObject [(''event_type'', False, TLit ''service_unhealthy'')])"
  by (simp add: zServiceUnhealthyEvent_def wire subtype_rules)

lemma zSettingsHistoryEntry_typed [wire]: "subtype (infer zSettingsHistoryEntry) SettingsHistoryEntry_type"
  by (simp add: zSettingsHistoryEntry_def SettingsHistoryEntry_type_def wire subtype_rules)

lemma zSettingsHistoryEntry_defined [wire]: "may_be_undefined (infer zSettingsHistoryEntry) = False"
  by (simp add: zSettingsHistoryEntry_def)

lemma zSettingsHistoryResponse_typed [wire]: "subtype (infer zSettingsHistoryResponse) SettingsHistoryResponse_type"
  by (simp add: zSettingsHistoryResponse_def SettingsHistoryResponse_type_def wire subtype_rules)

lemma zStorageType_schema_typed [wire]: "subtype (infer zStorageType_schema) StorageType_type"
  by code_simp

lemma zStorageType_schema_defined [wire]: "may_be_undefined (infer zStorageType_schema) = False"
  by code_simp

lemma zResultFailedEvent_typed [wire]: "subtype (infer zResultFailedEvent) ResultFailedEvent_type"
  by (simp add: zResultFailedEvent_def ResultFailedEvent_type_def wire subtype_rules)

lemma zResultFailedEvent_defined [wire]: "may_be_undefined (infer zResultFailedEvent) = False"
  by (simp add: zResultFailedEvent_def)

lemma zResultFailedEvent_kind [wire]:
  "subtype (infer zResultFailedEvent) (TObject [(''event_type'', False, TLit ''result_failed'')])"
  by (simp add: zResultFailedEvent_def wire subtype_rules)

lemma zResultStoredEvent_typed [wire]: "subtype (infer zResultStoredEvent) ResultStoredEvent_type"
  by (simp add: zResultStoredEvent_def ResultStoredEvent_type_def wire subtype_rules)

lemma zResultStoredEvent_defined [wire]: "may_be_undefined (infer zResultStoredEvent) = False"
  by (simp add: zResultStoredEvent_def)

lemma zResultStoredEvent_kind [wire]:
  "subtype (infer zResultStoredEvent) (TObject [(''event_type'', False, TLit ''result_stored'')])"
  by (simp add: zResultStoredEvent_def wire subtype_rules)

lemma zSystemErrorEvent_typed [wire]: "subtype (infer zSystemErrorEvent) SystemErrorEvent_type"
  by (simp add: zSystemErrorEvent_def SystemErrorEvent_type_def wire subtype_rules)

lemma zSystemErrorEvent_defined [wire]: "may_be_undefined (infer zSystemErrorEvent) = False"
  by (simp add: zSystemErrorEvent_def)

lemma zSystemErrorEvent_kind [wire]:
  "subtype (infer zSystemErrorEvent) (TObject [(''event_type'', False, TLit ''system_error'')])"
  by (simp add: zSystemErrorEvent_def wire subtype_rules)

lemma zSystemSettingsSchemaInput_typed [wire]: "subtype (infer zSystemSettingsSchemaInput) SystemSettingsSchemaInput_type"
  by (simp add: zSystemSettingsSchemaInput_def SystemSettingsSchemaInput_type_def wire subtype_rules)

lemma zSystemSettingsSchemaOutput_typed [wire]: "subtype (infer zSystemSettingsSchemaOutput) SystemSettingsSchemaOutput_type"
  by (simp add: zSystemSettingsSchemaOutput_def SystemSettingsSchemaOutput_type_def wire subtype_rules)

lemma zTheme_schema_typed [wire]: "subtype (infer zTheme_schema) Theme_type"
  by code_simp

lemma zTheme_schema_defined [wire]: "may_be_undefined (infer zTheme_schema) = False"
  by code_simp

lemma zTheme_schema_system [wire]: "subtype (TLit ''system'') Theme_type"
  by code_simp

lemma zThemeUpdateRequest_typed [wire]: "subtype (infer zThemeUpdateRequest) ThemeUpdateRequest_type"
  by (simp add: zThemeUpdateRequest_def ThemeUpdateRequest_type_def wire subtype_rules)

lemma zUnlockResponse_typed [wire]: "subtype (infer zUnlockResponse) UnlockResponse_type"
  by (simp add: zUnlockResponse_def UnlockResponse_type_def wire subtype_rules)

lemma zUnreadCountResponse_typed [wire]: "subtype (infer zUnreadCountResponse) UnreadCountResponse_type"
  by (simp add: zUnreadCountResponse_def UnreadCountResponse_type_def wire subtype_rules)

lemma zUserDeletedEvent_typed [wire]: "subtype (infer zUserDeletedEvent) UserDeletedEvent_type"
  by (simp add: zUserDeletedEvent_def UserDeletedEvent_type_def wire subtype_rules)

lemma zUserDeletedEvent_defined [wire]: "may_be_undefined (infer zUserDeletedEvent) = False"
  by (simp add: zUserDeletedEvent_def)

lemma zUserDeletedEvent_kind [wire]:
  "subtype (infer zUserDeletedEvent) (TObject [(''event_type'', False, TLit ''user_deleted'')])"
  by (simp add: zUserDeletedEvent_def wire subtype_rules)

lemma zUserEventCount_typed [wire]: "subtype (infer zUserEventCount) UserEventCount_type"
  by (simp add: zUserEventCount_def UserEventCount_type_def wire subtype_rules)

lemma zUserEventCount_defined [wire]: "may_be_undefined (infer zUserEventCount) = False"
  by (simp add: zUserEventCount_def)

lemma zEventStatistics_typed [wire]: "subtype (infer zEventStatistics) EventStatistics_type"
  by (simp add: zEventStatistics_def EventStatistics_type_def wire subtype_rules)

lemma zEventStatistics_defined [wire]: "may_be_undefined (infer zEventStatistics) = False"
  by (simp add: zEventStatistics_def)

lemma zEventStatsResponse_typed [wire]: "subtype (infer zEventStatsResponse) EventStatsResponse_type"
  by (simp add: zEventStatsResponse_def EventStatsResponse_type_def wire subtype_rules)

lemma zUserLoggedInEvent_typed [wire]: "subtype (infer zUserLoggedInEvent) UserLoggedInEvent_type"
  by (simp add: zUserLoggedInEvent_def UserLoggedInEvent_type_def wire subtype_rules)

lemma zUserLoggedInEvent_defined [wire]: "may_be_undefined (infer zUserLoggedInEvent) = False"
  by (simp add: zUserLoggedInEvent_def)

lemma zUserLoggedInEvent_kind [wire]:
  "subtype (infer zUserLoggedInEvent) (TObject [(''event_type'', False, TLit ''user_logged_in'')])"
  by (simp add: zUserLoggedInEvent_def wire subtype_rules)

lemma zUserLoggedOutEvent_typed [wire]: "subtype (infer zUserLoggedOutEvent) UserLoggedOutEvent_type"
  by (simp add: zUserLoggedOutEvent_def UserLoggedOutEvent_type_def wire subtype_rules)

lemma zUserLoggedOutEvent_defined [wire]: "may_be_undefined (infer zUserLoggedOutEvent) = False"
  by (simp add: zUserLoggedOutEvent_def)

lemma zUserLoggedOutEvent_kind [wire]:
  "subtype (infer zUserLoggedOutEvent) (TObject [(''event_type'', False, TLit ''user_logged_out'')])"
  by (simp add: zUserLoggedOutEvent_def wire subtype_rules)

lemma zUserLoginEvent_typed [wire]: "subtype (infer zUserLoginEvent) UserLoginEvent_type"
  by (simp add: zUserLoginEvent_def UserLoginEvent_type_def wire subtype_rules)

lemma zUserLoginEvent_defined [wire]: "may_be_undefined (infer zUserLoginEvent) = False"
  by (simp add: zUserLoginEvent_def)

lemma zUserLoginEvent_kind [wire]:
  "subtype (infer zUserLoginEvent) (TObject [(''event_type'', False, TLit ''user_login'')])"
  by (simp add: zUserLoginEvent_def wire subtype_rules)

lemma zUserRateLimitConfigResponse_typed [wire]: "subtype (infer zUserRateLimitConfigResponse) UserRateLimitConfigResponse_type"
  by (simp add: zUserRateLimitConfigResponse_def UserRateLimitConfigResponse_type_def wire subtype_rules)

lemma zUserRateLimitConfigResponse_defined [wire]: "may_be_undefined (infer zUserRateLimitConfigResponse) = False"
  by (simp add: zUserRateLimitConfigResponse_def)

lemma zRateLimitUpdateResponse_typed [wire]: "subtype (infer zRateLimitUpdateResponse) RateLimitUpdateResponse_type"
  by (simp add: zRateLimitUpdateResponse_def RateLimitUpdateResponse_type_def wire subtype_rules)

lemma zUserRateLimitsResponse_typed [wire]: "subtype (infer zUserRateLimitsResponse) UserRateLimitsResponse_type"
  by (simp add: zUserRateLimitsResponse_def UserRateLimitsResponse_type_def wire subtype_rules)

lemma zUserRegisteredEvent_typed [wire]: "subtype (infer zUserRegisteredEvent) UserRegisteredEvent_type"
  by (simp add: zUserRegisteredEvent_def UserRegisteredEvent_type_def wire subtype_rules)

lemma zUserRegisteredEvent_defined [wire]: "may_be_undefined (infer zUserRegisteredEvent) = False"
  by (simp add: zUserRegisteredEvent_def)

lemma zUserRegisteredEvent_kind [wire]:
  "subtype (infer zUserRegisteredEvent) (TObject [(''event_type'', False, TLit ''user_registered'')])"
  by (simp add: zUserRegisteredEvent_def wire subtype_rules)

lemma zUserRole_schema_typed [wire]: "subtype (infer zUserRole_schema) UserRole_type"
  by code_simp

lemma zUserRole_schema_defined [wire]: "may_be_undefined (infer zUserRole_schema) = False"
  by code_simp

lemma zUserRole_schema_user [wire]: "subtype (TLit ''user'') UserRole_type"
  by code_simp

lemma zLoginResponse_typed [wire]: "subtype (infer zLoginResponse) LoginResponse_type"
  by (simp add: zLoginResponse_def LoginResponse_type_def wire subtype_rules)

lemma zUserCreate_typed [wire]: "subtype (infer zUserCreate) UserCreate_type"
  by (simp add: zUserCreate_def UserCreate_type_def wire subtype_rules)

lemma zUserResponse_typed [wire]: "subtype (infer zUserResponse) UserResponse_type"
  by (simp add: zUserResponse_def UserResponse_type_def wire subtype_rules)

lemma zUserResponse_defined [wire]: "may_be_undefined (infer zUserResponse) = False"
  by (simp add: zUserResponse_def)

lemma zUserListResponse_typed [wire]: "subtype (infer zUserListResponse) UserListResponse_type"
  by (simp add: zUserListResponse_def UserListResponse_type_def wire subtype_rules)

lemma zUserSettings_typed [wire]: "subtype (infer zUserSettings) UserSettings_type"
  by (simp add: zUserSettings_def UserSettings_type_def wire subtype_rules)

lemma zUserSettingsUpdate_typed [wire]: "subtype (infer zUserSettingsUpdate) UserSettingsUpdate_type"
  by (simp add: zUserSettingsUpdate_def UserSettingsUpdate_type_def wire subtype_rules)

lemma zUserSettingsUpdatedEvent_typed [wire]: "subtype (infer zUserSettingsUpdatedEvent) UserSettingsUpdatedEvent_type"
  by (simp add: zUserSettingsUpdatedEvent_def UserSettingsUpdatedEvent_type_def wire subtype_rules)

lemma zUserSettingsUpdatedEvent_defined [wire]: "may_be_undefined (infer zUserSettingsUpdatedEvent) = False"
  by (simp add: zUserSettingsUpdatedEvent_def)

lemma zUserSettingsUpdatedEvent_kind [wire]:
  "subtype (infer zUserSettingsUpdatedEvent) (TObject [(''event_type'', False, TLit ''user_settings_updated'')])"
  by (simp add: zUserSettingsUpdatedEvent_def wire subtype_rules)

lemma zUserUpdate_typed [wire]: "subtype (infer zUserUpdate) UserUpdate_type"
  by (simp add: zUserUpdate_def UserUpdate_type_def wire subtype_rules)

lemma zUserUpdatedEvent_typed [wire]: "subtype (infer zUserUpdatedEvent) UserUpdatedEvent_type"
  by (simp add: zUserUpdatedEvent_def UserUpdatedEvent_type_def wire subtype_rules)

lemma zUserUpdatedEvent_defined [wire]: "may_be_undefined (infer zUserUpdatedEvent) = False"
  by (simp add: zUserUpdatedEvent_def)

lemma zUserUpdatedEvent_kind [wire]:
  "subtype (infer zUserUpdatedEvent) (TObject [(''event_type'', False, TLit ''user_updated'')])"
  by (simp add: zUserUpdatedEvent_def wire subtype_rules)

lemma zAdminUserOverview_typed [wire]: "subtype (infer zAdminUserOverview) AdminUserOverview_type"
  by (simp add: zAdminUserOverview_def AdminUserOverview_type_def wire subtype_rules)

lemma zEventBrowseResponse_typed [wire]: "subtype (infer zEventBrowseResponse) EventBrowseResponse_type"
  by (simp add: zEventBrowseResponse_def EventBrowseResponse_type_def wire subtype_rules)

lemma zEventDetailResponse_typed [wire]: "subtype (infer zEventDetailResponse) EventDetailResponse_type"
  by (simp add: zEventDetailResponse_def EventDetailResponse_type_def wire subtype_rules)

lemma zEventReplayStatusResponseWritable_typed [wire]: "subtype (infer zEventReplayStatusResponseWritable) EventReplayStatusResponseWritable_type"
  by (simp add: zEventReplayStatusResponseWritable_def EventReplayStatusResponseWritable_type_def wire subtype_rules)

lemma zUserCreateWritable_typed [wire]: "subtype (infer zUserCreateWritable) UserCreateWritable_type"
  by (simp add: zUserCreateWritable_def UserCreateWritable_type_def wire subtype_rules)

lemma zUserUpdateWritable_typed [wire]: "subtype (infer zUserUpdateWritable) UserUpdateWritable_type"
  by (simp add: zUserUpdateWritable_def UserUpdateWritable_type_def wire subtype_rules)

lemma zLoginApiV1AuthLoginPostBody_typed [wire]: "subtype (infer zLoginApiV1AuthLoginPostBody) (field_of ''body'' LoginApiV1AuthLoginPostData_type)"
  by (simp add: zLoginApiV1AuthLoginPostBody_def LoginApiV1AuthLoginPostData_type_def wire subtype_rules)

lemma zLoginApiV1AuthLoginPostResponse_typed [wire]: "subtype (infer zLoginApiV1AuthLoginPostResponse) LoginApiV1AuthLoginPostResponse_type"
  by (simp add: zLoginApiV1AuthLoginPostResponse_def LoginApiV1AuthLoginPostResponse_type_def LoginApiV1AuthLoginPostResponses_type_def wire subtype_rules)

lemma zRegisterApiV1AuthRegisterPostBody_typed [wire]: "subtype (infer zRegisterApiV1AuthRegisterPostBody) (field_of ''body'' RegisterApiV1AuthRegisterPostData_type)"
  by (simp add: zRegisterApiV1AuthRegisterPostBody_def RegisterApiV1AuthRegisterPostData_type_def wire subtype_rules)

lemma zRegisterApiV1AuthRegisterPostResponse_typed [wire]: "subtype (infer zRegisterApiV1AuthRegisterPostResponse) RegisterApiV1AuthRegisterPostResponse_type"
  by (simp add: zRegisterApiV1AuthRegisterPostResponse_def RegisterApiV1AuthRegisterPostResponse_type_def RegisterApiV1AuthRegisterPostResponses_type_def wire subtype_rules)

lemma zGetCurrentUserProfileApiV1AuthMeGetResponse_typed [wire]: "subtype (infer zGetCurrentUserProfileApiV1AuthMeGetResponse) GetCurrentUserProfileApiV1AuthMeGetResponse_type"
  by (simp add: zGetCurrentUserProfileApiV1AuthMeGetResponse_def GetCurrentUserProfileApiV1AuthMeGetResponse_type_def GetCurrentUserProfileApiV1AuthMeGetResponses_type_def wire subtype_rules)

lemma zLogoutApiV1AuthLogoutPostResponse_typed [wire]: "subtype (infer zLogoutApiV1AuthLogoutPostResponse) LogoutApiV1AuthLogoutPostResponse_type"
  by (simp add: zLogoutApiV1AuthLogoutPostResponse_def LogoutApiV1AuthLogoutPostResponse_type_def LogoutApiV1AuthLogoutPostResponses_type_def wire subtype_rules)

lemma zCreateExecutionApiV1ExecutePostBody_typed [wire]: "subtype (infer zCreateExecutionApiV1ExecutePostBody) (field_of ''body'' CreateExecutionApiV1ExecutePostData_type)"
  by (simp add: zCreateExecutionApiV1ExecutePostBody_def CreateExecutionApiV1ExecutePostData_type_def wire subtype_rules)

lemma zCreateExecutionApiV1ExecutePostHeaders_typed [wire]: "subtype (infer zCreateExecutionApiV1ExecutePostHeaders) (field_of ''headers'' CreateExecutionApiV1ExecutePostData_type)"
  by (simp add: zCreateExecutionApiV1ExecutePostHeaders_def CreateExecutionApiV1ExecutePostData_type_def wire subtype_rules)

lemma zCreateExecutionApiV1ExecutePostResponse_typed [wire]: "subtype (infer zCreateExecutionApiV1ExecutePostResponse) CreateExecutionApiV1ExecutePostResponse_type"
  by (simp add: zCreateExecutionApiV1ExecutePostResponse_def CreateExecutionApiV1ExecutePostResponse_type_def CreateExecutionApiV1ExecutePostResponses_type_def wire subtype_rules)

lemma zGetResultApiV1ExecutionsExecutionIdResultGetPath_typed [wire]: "subtype (infer zGetResultApiV1ExecutionsExecutionIdResultGetPath) (field_of ''path'' GetResultApiV1ExecutionsExecutionIdResultGetData_type)"
  by (simp add: zGetResultApiV1ExecutionsExecutionIdResultGetPath_def GetResultApiV1ExecutionsExecutionIdResultGetData_type_def wire subtype_rules)

lemma zGetResultApiV1ExecutionsExecutionIdResultGetResponse_typed [wire]: "subtype (infer zGetResultApiV1ExecutionsExecutionIdResultGetResponse) GetResultApiV1ExecutionsExecutionIdResultGetResponse_type"
  by (simp add: zGetResultApiV1ExecutionsExecutionIdResultGetResponse_def GetResultApiV1ExecutionsExecutionIdResultGetResponse_type_def GetResultApiV1ExecutionsExecutionIdResultGetResponses_type_def wire subtype_rules)

lemma zCancelExecutionApiV1ExecutionsExecutionIdCancelPostPath_typed [wire]: "subtype (infer zCancelExecutionApiV1ExecutionsExecutionIdCancelPostPath) (field_of ''path'' CancelExecutionApiV1ExecutionsExecutionIdCancelPostData_type)"
  by (simp add: zCancelExecutionApiV1ExecutionsExecutionIdCancelPostPath_def CancelExecutionApiV1ExecutionsExecutionIdCancelPostData_type_def wire subtype_rules)

lemma zCancelExecutionApiV1ExecutionsExecutionIdCancelPostResponse_typed [wire]: "subtype (infer zCancelExecutionApiV1ExecutionsExecutionIdCancelPostResponse) CancelExecutionApiV1ExecutionsExecutionIdCancelPostResponse_type"
  by (simp add: zCancelExecutionApiV1ExecutionsExecutionIdCancelPostResponse_def CancelExecutionApiV1ExecutionsExecutionIdCancelPostResponse_type_def CancelExecutionApiV1ExecutionsExecutionIdCancelPostResponses_type_def wire subtype_rules)

lemma zRetryExecutionApiV1ExecutionsExecutionIdRetryPostPath_typed [wire]: "subtype (infer zRetryExecutionApiV1ExecutionsExecutionIdRetryPostPath) (field_of ''path'' RetryExecutionApiV1ExecutionsExecutionIdRetryPostData_type)"
  by (simp add: zRetryExecutionApiV1ExecutionsExecutionIdRetryPostPath_def RetryExecutionApiV1ExecutionsExecutionIdRetryPostData_type_def wire subtype_rules)

lemma zRetryExecutionApiV1ExecutionsExecutionIdRetryPostResponse_typed [wire]: "subtype (infer zRetryExecutionApiV1ExecutionsExecutionIdRetryPostResponse) RetryExecutionApiV1ExecutionsExecutionIdRetryPostResponse_type"
  by (simp add: zRetryExecutionApiV1ExecutionsExecutionIdRetryPostResponse_def RetryExecutionApiV1ExecutionsExecutionIdRetryPostResponse_type_def RetryExecutionApiV1ExecutionsExecutionIdRetryPostResponses_type_def wire subtype_rules)

lemma zGetExecutionEventsApiV1ExecutionsExecutionIdEventsGetPath_typed [wire]: "subtype (infer zGetExecutionEventsApiV1ExecutionsExecutionIdEventsGetPath) (field_of ''path'' GetExecutionEventsApiV1ExecutionsExecutionIdEventsGetData_type)"
  by (simp add: zGetExecutionEventsApiV1ExecutionsExecutionIdEventsGetPath_def GetExecutionEventsApiV1ExecutionsExecutionIdEventsGetData_type_def wire subtype_rules)

lemma zGetExecutionEventsApiV1ExecutionsExecutionIdEventsGetQuery_typed [wire]: "subtype (infer zGetExecutionEventsApiV1ExecutionsExecutionIdEventsGetQuery) (field_of ''query'' GetExecutionEventsApiV1ExecutionsExecutionIdEventsGetData_type)"
  by (simp add: zGetExecutionEventsApiV1ExecutionsExecutionIdEventsGetQuery_def GetExecutionEventsApiV1ExecutionsExecutionIdEventsGetData_type_def wire subtype_rules)

lemma zGetExecutionEventsApiV1ExecutionsExecutionIdEventsGetResponse_typed [wire]: "subtype (infer zGetExecutionEventsApiV1ExecutionsExecutionIdEventsGetResponse) GetExecutionEventsApiV1ExecutionsExecutionIdEventsGetResponse_type"
  by (simp add: zGetExecutionEventsApiV1ExecutionsExecutionIdEventsGetResponse_def GetExecutionEventsApiV1ExecutionsExecutionIdEventsGetResponse_type_def GetExecutionEventsApiV1ExecutionsExecutionIdEventsGetResponses_type_def wire subtype_rules)

lemma zGetUserExecutionsApiV1UserExecutionsGetQuery_typed [wire]: "subtype (infer zGetUserExecutionsApiV1UserExecutionsGetQuery) (field_of ''query'' GetUserExecutionsApiV1UserExecutionsGetData_type)"
  by (simp add: zGetUserExecutionsApiV1UserExecutionsGetQuery_def GetUserExecutionsApiV1UserExecutionsGetData_type_def wire subtype_rules)

lemma zGetUserExecutionsApiV1UserExecutionsGetResponse_typed [wire]: "subtype (infer zGetUserExecutionsApiV1UserExecutionsGetResponse) GetUserExecutionsApiV1UserExecutionsGetResponse_type"
  by (simp add: zGetUserExecutionsApiV1UserExecutionsGetResponse_def GetUserExecutionsApiV1UserExecutionsGetResponse_type_def GetUserExecutionsApiV1UserExecutionsGetResponses_type_def wire subtype_rules)

lemma zGetExampleScriptsApiV1ExampleScriptsGetResponse_typed [wire]: "subtype (infer zGetExampleScriptsApiV1ExampleScriptsGetResponse) GetExampleScriptsApiV1ExampleScriptsGetResponse_type"
  by (simp add: zGetExampleScriptsApiV1ExampleScriptsGetResponse_def GetExampleScriptsApiV1ExampleScriptsGetResponse_type_def GetExampleScriptsApiV1ExampleScriptsGetResponses_type_def wire subtype_rules)

lemma zGetK8sResourceLimitsApiV1K8sLimitsGetResponse_typed [wire]: "subtype (infer zGetK8sResourceLimitsApiV1K8sLimitsGetResponse) GetK8sResourceLimitsApiV1K8sLimitsGetResponse_type"
  by (simp add: zGetK8sResourceLimitsApiV1K8sLimitsGetResponse_def GetK8sResourceLimitsApiV1K8sLimitsGetResponse_type_def GetK8sResourceLimitsApiV1K8sLimitsGetResponses_type_def wire subtype_rules)

lemma zDeleteExecutionApiV1ExecutionsExecutionIdDeletePath_typed [wire]: "subtype (infer zDeleteExecutionApiV1ExecutionsExecutionIdDeletePath) (field_of ''path'' DeleteExecutionApiV1ExecutionsExecutionIdDeleteData_type)"
  by (simp add: zDeleteExecutionApiV1ExecutionsExecutionIdDeletePath_def DeleteExecutionApiV1ExecutionsExecutionIdDeleteData_type_def wire subtype_rules)

lemma zDeleteExecutionApiV1ExecutionsExecutionIdDeleteResponse_typed [wire]: "subtype (infer zDeleteExecutionApiV1ExecutionsExecutionIdDeleteResponse) DeleteExecutionApiV1ExecutionsExecutionIdDeleteResponse_type"
  by (simp add: zDeleteExecutionApiV1ExecutionsExecutionIdDeleteResponse_def DeleteExecutionApiV1ExecutionsExecutionIdDeleteResponse_type_def DeleteExecutionApiV1ExecutionsExecutionIdDeleteResponses_type_def wire subtype_rules)

lemma zListSavedScriptsApiV1ScriptsGetResponse_typed [wire]: "subtype (infer zListSavedScriptsApiV1ScriptsGetResponse) ListSavedScriptsApiV1ScriptsGetResponse_type"
  by (simp add: zListSavedScriptsApiV1ScriptsGetResponse_def ListSavedScriptsApiV1ScriptsGetResponse_type_def ListSavedScriptsApiV1ScriptsGetResponses_type_def wire subtype_rules)

lemma zCreateSavedScriptApiV1ScriptsPostBody_typed [wire]: "subtype (infer zCreateSavedScriptApiV1ScriptsPostBody) (field_of ''body'' CreateSavedScriptApiV1ScriptsPostData_type)"
  by (simp add: zCreateSavedScriptApiV1ScriptsPostBody_def CreateSavedScriptApiV1ScriptsPostData_type_def wire subtype_rules)

lemma zCreateSavedScriptApiV1ScriptsPostResponse_typed [wire]: "subtype (infer zCreateSavedScriptApiV1ScriptsPostResponse) CreateSavedScriptApiV1ScriptsPostResponse_type"
  by (simp add: zCreateSavedScriptApiV1ScriptsPostResponse_def CreateSavedScriptApiV1ScriptsPostResponse_type_def CreateSavedScriptApiV1ScriptsPostResponses_type_def wire subtype_rules)

lemma zDeleteSavedScriptApiV1ScriptsScriptIdDeletePath_typed [wire]: "subtype (infer zDeleteSavedScriptApiV1ScriptsScriptIdDeletePath) (field_of ''path'' DeleteSavedScriptApiV1ScriptsScriptIdDeleteData_type)"
  by (simp add: zDeleteSavedScriptApiV1ScriptsScriptIdDeletePath_def DeleteSavedScriptApiV1ScriptsScriptIdDeleteData_type_def wire subtype_rules)

lemma zDeleteSavedScriptApiV1ScriptsScriptIdDeleteResponse_typed [wire]: "subtype (infer zDeleteSavedScriptApiV1ScriptsScriptIdDeleteResponse) DeleteSavedScriptApiV1ScriptsScriptIdDeleteResponse_type"
  by (simp add: zDeleteSavedScriptApiV1ScriptsScriptIdDeleteResponse_def DeleteSavedScriptApiV1ScriptsScriptIdDeleteResponse_type_def DeleteSavedScriptApiV1ScriptsScriptIdDeleteResponses_type_def wire subtype_rules)

lemma zGetSavedScriptApiV1ScriptsScriptIdGetPath_typed [wire]: "subtype (infer zGetSavedScriptApiV1ScriptsScriptIdGetPath) (field_of ''path'' GetSavedScriptApiV1ScriptsScriptIdGetData_type)"
  by (simp add: zGetSavedScriptApiV1ScriptsScriptIdGetPath_def GetSavedScriptApiV1ScriptsScriptIdGetData_type_def wire subtype_rules)

lemma zGetSavedScriptApiV1ScriptsScriptIdGetResponse_typed [wire]: "subtype (infer zGetSavedScriptApiV1ScriptsScriptIdGetResponse) GetSavedScriptApiV1ScriptsScriptIdGetResponse_type"
  by (simp add: zGetSavedScriptApiV1ScriptsScriptIdGetResponse_def GetSavedScriptApiV1ScriptsScriptIdGetResponse_type_def GetSavedScriptApiV1ScriptsScriptIdGetResponses_type_def wire subtype_rules)

lemma zUpdateSavedScriptApiV1ScriptsScriptIdPutBody_typed [wire]: "subtype (infer zUpdateSavedScriptApiV1ScriptsScriptIdPutBody) (field_of ''body'' UpdateSavedScriptApiV1ScriptsScriptIdPutData_type)"
  by (simp add: zUpdateSavedScriptApiV1ScriptsScriptIdPutBody_def UpdateSavedScriptApiV1ScriptsScriptIdPutData_type_def wire subtype_rules)

lemma zUpdateSavedScriptApiV1ScriptsScriptIdPutPath_typed [wire]: "subtype (infer zUpdateSavedScriptApiV1ScriptsScriptIdPutPath) (field_of ''path'' UpdateSavedScriptApiV1ScriptsScriptIdPutData_type)"
  by (simp add: zUpdateSavedScriptApiV1ScriptsScriptIdPutPath_def UpdateSavedScriptApiV1ScriptsScriptIdPutData_type_def wire subtype_rules)

lemma zUpdateSavedScriptApiV1ScriptsScriptIdPutResponse_typed [wire]: "subtype (infer zUpdateSavedScriptApiV1ScriptsScriptIdPutResponse) UpdateSavedScriptApiV1ScriptsScriptIdPutResponse_type"
  by (simp add: zUpdateSavedScriptApiV1ScriptsScriptIdPutResponse_def UpdateSavedScriptApiV1ScriptsScriptIdPutResponse_type_def UpdateSavedScriptApiV1ScriptsScriptIdPutResponses_type_def wire subtype_rules)

lemma zLivenessApiV1HealthLiveGetResponse_typed [wire]: "subtype (infer zLivenessApiV1HealthLiveGetResponse) LivenessApiV1HealthLiveGetResponse_type"
  by (simp add: zLivenessApiV1HealthLiveGetResponse_def LivenessApiV1HealthLiveGetResponse_type_def LivenessApiV1HealthLiveGetResponses_type_def wire subtype_rules)

lemma zNotificationStreamApiV1EventsNotificationsStreamGetResponse_typed [wire]: "subtype (infer zNotificationStreamApiV1EventsNotificationsStreamGetResponse) NotificationStreamApiV1EventsNotificationsStreamGetResponse_type"
  by (simp add: zNotificationStreamApiV1EventsNotificationsStreamGetResponse_def NotificationStreamApiV1EventsNotificationsStreamGetResponse_type_def NotificationStreamApiV1EventsNotificationsStreamGetResponses_type_def wire subtype_rules)

lemma zExecutionEventsApiV1EventsExecutionsExecutionIdGetPath_typed [wire]: "subtype (infer zExecutionEventsApiV1EventsExecutionsExecutionIdGetPath) (field_of ''path'' ExecutionEventsApiV1EventsExecutionsExecutionIdGetData_type)"
  by (simp add: zExecutionEventsApiV1EventsExecutionsExecutionIdGetPath_def ExecutionEventsApiV1EventsExecutionsExecutionIdGetData_type_def wire subtype_rules)

lemma zExecutionEventsApiV1EventsExecutionsExecutionIdGetResponse_typed [wire]: "subtype (infer zExecutionEventsApiV1EventsExecutionsExecutionIdGetResponse) ExecutionEventsApiV1EventsExecutionsExecutionIdGetResponse_type"
  by (simp add: zExecutionEventsApiV1EventsExecutionsExecutionIdGetResponse_def ExecutionEventsApiV1EventsExecutionsExecutionIdGetResponse_type_def ExecutionEventsApiV1EventsExecutionsExecutionIdGetResponses_type_def wire subtype_rules)

lemma zBrowseEventsApiV1AdminEventsBrowsePostBody_typed [wire]: "subtype (infer zBrowseEventsApiV1AdminEventsBrowsePostBody) (field_of ''body'' BrowseEventsApiV1AdminEventsBrowsePostData_type)"
  by (simp add: zBrowseEventsApiV1AdminEventsBrowsePostBody_def BrowseEventsApiV1AdminEventsBrowsePostData_type_def wire subtype_rules)

lemma zBrowseEventsApiV1AdminEventsBrowsePostResponse_typed [wire]: "subtype (infer zBrowseEventsApiV1AdminEventsBrowsePostResponse) BrowseEventsApiV1AdminEventsBrowsePostResponse_type"
  by (simp add: zBrowseEventsApiV1AdminEventsBrowsePostResponse_def BrowseEventsApiV1AdminEventsBrowsePostResponse_type_def BrowseEventsApiV1AdminEventsBrowsePostResponses_type_def wire subtype_rules)

lemma zGetEventStatsApiV1AdminEventsStatsGetQuery_typed [wire]: "subtype (infer zGetEventStatsApiV1AdminEventsStatsGetQuery) (field_of ''query'' GetEventStatsApiV1AdminEventsStatsGetData_type)"
  by (simp add: zGetEventStatsApiV1AdminEventsStatsGetQuery_def GetEventStatsApiV1AdminEventsStatsGetData_type_def wire subtype_rules)

lemma zGetEventStatsApiV1AdminEventsStatsGetResponse_typed [wire]: "subtype (infer zGetEventStatsApiV1AdminEventsStatsGetResponse) GetEventStatsApiV1AdminEventsStatsGetResponse_type"
  by (simp add: zGetEventStatsApiV1AdminEventsStatsGetResponse_def GetEventStatsApiV1AdminEventsStatsGetResponse_type_def GetEventStatsApiV1AdminEventsStatsGetResponses_type_def wire subtype_rules)

lemma zExportEventsApiV1AdminEventsExportExportFormatGetPath_typed [wire]: "subtype (infer zExportEventsApiV1AdminEventsExportExportFormatGetPath) (field_of ''path'' ExportEventsApiV1AdminEventsExportExportFormatGetData_type)"
  by (simp add: zExportEventsApiV1AdminEventsExportExportFormatGetPath_def ExportEventsApiV1AdminEventsExportExportFormatGetData_type_def wire subtype_rules)

lemma zExportEventsApiV1AdminEventsExportExportFormatGetQuery_typed [wire]: "subtype (infer zExportEventsApiV1AdminEventsExportExportFormatGetQuery) (field_of ''query'' ExportEventsApiV1AdminEventsExportExportFormatGetData_type)"
  by (simp add: zExportEventsApiV1AdminEventsExportExportFormatGetQuery_def ExportEventsApiV1AdminEventsExportExportFormatGetData_type_def wire subtype_rules)

lemma zDeleteEventApiV1AdminEventsEventIdDeletePath_typed [wire]: "subtype (infer zDeleteEventApiV1AdminEventsEventIdDeletePath) (field_of ''path'' DeleteEventApiV1AdminEventsEventIdDeleteData_type)"
  by (simp add: zDeleteEventApiV1AdminEventsEventIdDeletePath_def DeleteEventApiV1AdminEventsEventIdDeleteData_type_def wire subtype_rules)

lemma zDeleteEventApiV1AdminEventsEventIdDeleteResponse_typed [wire]: "subtype (infer zDeleteEventApiV1AdminEventsEventIdDeleteResponse) DeleteEventApiV1AdminEventsEventIdDeleteResponse_type"
  by (simp add: zDeleteEventApiV1AdminEventsEventIdDeleteResponse_def DeleteEventApiV1AdminEventsEventIdDeleteResponse_type_def DeleteEventApiV1AdminEventsEventIdDeleteResponses_type_def wire subtype_rules)

lemma zGetEventDetailApiV1AdminEventsEventIdGetPath_typed [wire]: "subtype (infer zGetEventDetailApiV1AdminEventsEventIdGetPath) (field_of ''path'' GetEventDetailApiV1AdminEventsEventIdGetData_type)"
  by (simp add: zGetEventDetailApiV1AdminEventsEventIdGetPath_def GetEventDetailApiV1AdminEventsEventIdGetData_type_def wire subtype_rules)

lemma zGetEventDetailApiV1AdminEventsEventIdGetResponse_typed [wire]: "subtype (infer zGetEventDetailApiV1AdminEventsEventIdGetResponse) GetEventDetailApiV1AdminEventsEventIdGetResponse_type"
  by (simp add: zGetEventDetailApiV1AdminEventsEventIdGetResponse_def GetEventDetailApiV1AdminEventsEventIdGetResponse_type_def GetEventDetailApiV1AdminEventsEventIdGetResponses_type_def wire subtype_rules)

lemma zReplayEventsApiV1AdminEventsReplayPostBody_typed [wire]: "subtype (infer zReplayEventsApiV1AdminEventsReplayPostBody) (field_of ''body'' ReplayEventsApiV1AdminEventsReplayPostData_type)"
  by (simp add: zReplayEventsApiV1AdminEventsReplayPostBody_def ReplayEventsApiV1AdminEventsReplayPostData_type_def wire subtype_rules)

lemma zReplayEventsApiV1AdminEventsReplayPostResponse_typed [wire]: "subtype (infer zReplayEventsApiV1AdminEventsReplayPostResponse) ReplayEventsApiV1AdminEventsReplayPostResponse_type"
  by (simp add: zReplayEventsApiV1AdminEventsReplayPostResponse_def ReplayEventsApiV1AdminEventsReplayPostResponse_type_def ReplayEventsApiV1AdminEventsReplayPostResponses_type_def wire subtype_rules)

lemma zStreamReplayStatusApiV1AdminEventsReplaySessionIdStatusGetPath_typed [wire]: "subtype (infer zStreamReplayStatusApiV1AdminEventsReplaySessionIdStatusGetPath) (field_of ''path'' StreamReplayStatusApiV1AdminEventsReplaySessionIdStatusGetData_type)"
  by (simp add: zStreamReplayStatusApiV1AdminEventsReplaySessionIdStatusGetPath_def StreamReplayStatusApiV1AdminEventsReplaySessionIdStatusGetData_type_def wire subtype_rules)

lemma zStreamReplayStatusApiV1AdminEventsReplaySessionIdStatusGetResponse_typed [wire]: "subtype (infer zStreamReplayStatusApiV1AdminEventsReplaySessionIdStatusGetResponse) StreamReplayStatusApiV1AdminEventsReplaySessionIdStatusGetResponse_type"
  by (simp add: zStreamReplayStatusApiV1AdminEventsReplaySessionIdStatusGetResponse_def StreamReplayStatusApiV1AdminEventsReplaySessionIdStatusGetResponse_type_def StreamReplayStatusApiV1AdminEventsReplaySessionIdStatusGetResponses_type_def wire subtype_rules)

lemma zListExecutionsApiV1AdminExecutionsGetQuery_typed [wire]: "subtype (infer zListExecutionsApiV1AdminExecutionsGetQuery) (field_of ''query'' ListExecutionsApiV1AdminExecutionsGetData_type)"
  by (simp add: zListExecutionsApiV1AdminExecutionsGetQuery_def ListExecutionsApiV1AdminExecutionsGetData_type_def wire subtype_rules)

lemma zListExecutionsApiV1AdminExecutionsGetResponse_typed [wire]: "subtype (infer zListExecutionsApiV1AdminExecutionsGetResponse) ListExecutionsApiV1AdminExecutionsGetResponse_type"
  by (simp add: zListExecutionsApiV1AdminExecutionsGetResponse_def ListExecutionsApiV1AdminExecutionsGetResponse_type_def ListExecutionsApiV1AdminExecutionsGetResponses_type_def wire subtype_rules)

lemma zUpdatePriorityApiV1AdminExecutionsExecutionIdPriorityPutBody_typed [wire]: "subtype (infer zUpdatePriorityApiV1AdminExecutionsExecutionIdPriorityPutBody) (field_of ''body'' UpdatePriorityApiV1AdminExecutionsExecutionIdPriorityPutData_type)"
  by (simp add: zUpdatePriorityApiV1AdminExecutionsExecutionIdPriorityPutBody_def UpdatePriorityApiV1AdminExecutionsExecutionIdPriorityPutData_type_def wire subtype_rules)

lemma zUpdatePriorityApiV1AdminExecutionsExecutionIdPriorityPutPath_typed [wire]: "subtype (infer zUpdatePriorityApiV1AdminExecutionsExecutionIdPriorityPutPath) (field_of ''path'' UpdatePriorityApiV1AdminExecutionsExecutionIdPriorityPutData_type)"
  by (simp add: zUpdatePriorityApiV1AdminExecutionsExecutionIdPriorityPutPath_def UpdatePriorityApiV1AdminExecutionsExecutionIdPriorityPutData_type_def wire subtype_rules)

lemma zUpdatePriorityApiV1AdminExecutionsExecutionIdPriorityPutResponse_typed [wire]: "subtype (infer zUpdatePriorityApiV1AdminExecutionsExecutionIdPriorityPutResponse) UpdatePriorityApiV1AdminExecutionsExecutionIdPriorityPutResponse_type"
  by (simp add: zUpdatePriorityApiV1AdminExecutionsExecutionIdPriorityPutResponse_def UpdatePriorityApiV1AdminExecutionsExecutionIdPriorityPutResponse_type_def UpdatePriorityApiV1AdminExecutionsExecutionIdPriorityPutResponses_type_def wire subtype_rules)

lemma zGetQueueStatusApiV1AdminExecutionsQueueGetResponse_typed [wire]: "subtype (infer zGetQueueStatusApiV1AdminExecutionsQueueGetResponse) GetQueueStatusApiV1AdminExecutionsQueueGetResponse_type"
  by (simp add: zGetQueueStatusApiV1AdminExecutionsQueueGetResponse_def GetQueueStatusApiV1AdminExecutionsQueueGetResponse_type_def GetQueueStatusApiV1AdminExecutionsQueueGetResponses_type_def wire subtype_rules)

lemma zGetDefaultRateLimitRulesApiV1AdminRateLimitsDefaultsGetResponse_typed [wire]: "subtype (infer zGetDefaultRateLimitRulesApiV1AdminRateLimitsDefaultsGetResponse) GetDefaultRateLimitRulesApiV1AdminRateLimitsDefaultsGetResponse_type"
  by (simp add: zGetDefaultRateLimitRulesApiV1AdminRateLimitsDefaultsGetResponse_def GetDefaultRateLimitRulesApiV1AdminRateLimitsDefaultsGetResponse_type_def GetDefaultRateLimitRulesApiV1AdminRateLimitsDefaultsGetResponses_type_def wire subtype_rules)

lemma zGetUserRateLimitsApiV1AdminRateLimitsUserIdGetPath_typed [wire]: "subtype (infer zGetUserRateLimitsApiV1AdminRateLimitsUserIdGetPath) (field_of ''path'' GetUserRateLimitsApiV1AdminRateLimitsUserIdGetData_type)"
  by (simp add: zGetUserRateLimitsApiV1AdminRateLimitsUserIdGetPath_def GetUserRateLimitsApiV1AdminRateLimitsUserIdGetData_type_def wire subtype_rules)

lemma zGetUserRateLimitsApiV1AdminRateLimitsUserIdGetResponse_typed [wire]: "subtype (infer zGetUserRateLimitsApiV1AdminRateLimitsUserIdGetResponse) GetUserRateLimitsApiV1AdminRateLimitsUserIdGetResponse_type"
  by (simp add: zGetUserRateLimitsApiV1AdminRateLimitsUserIdGetResponse_def GetUserRateLimitsApiV1AdminRateLimitsUserIdGetResponse_type_def GetUserRateLimitsApiV1AdminRateLimitsUserIdGetResponses_type_def wire subtype_rules)

lemma zUpdateUserRateLimitsApiV1AdminRateLimitsUserIdPutBody_typed [wire]: "subtype (infer zUpdateUserRateLimitsApiV1AdminRateLimitsUserIdPutBody) (field_of ''body'' UpdateUserRateLimitsApiV1AdminRateLimitsUserIdPutData_type)"
  by (simp add: zUpdateUserRateLimitsApiV1AdminRateLimitsUserIdPutBody_def UpdateUserRateLimitsApiV1AdminRateLimitsUserIdPutData_type_def wire subtype_rules)

lemma zUpdateUserRateLimitsApiV1AdminRateLimitsUserIdPutPath_typed [wire]: "subtype (infer zUpdateUserRateLimitsApiV1AdminRateLimitsUserIdPutPath) (field_of ''path'' UpdateUserRateLimitsApiV1AdminRateLimitsUserIdPutData_type)"
  by (simp add: zUpdateUserRateLimitsApiV1AdminRateLimitsUserIdPutPath_def UpdateUserRateLimitsApiV1AdminRateLimitsUserIdPutData_type_def wire subtype_rules)

lemma zUpdateUserRateLimitsApiV1AdminRateLimitsUserIdPutResponse_typed [wire]: "subtype (infer zUpdateUserRateLimitsApiV1AdminRateLimitsUserIdPutResponse) UpdateUserRateLimitsApiV1AdminRateLimitsUserIdPutResponse_type"
  by (simp add: zUpdateUserRateLimitsApiV1AdminRateLimitsUserIdPutResponse_def UpdateUserRateLimitsApiV1AdminRateLimitsUserIdPutResponse_type_def UpdateUserRateLimitsApiV1AdminRateLimitsUserIdPutResponses_type_def wire subtype_rules)

lemma zResetUserRateLimitsApiV1AdminRateLimitsUserIdResetPostPath_typed [wire]: "subtype (infer zResetUserRateLimitsApiV1AdminRateLimitsUserIdResetPostPath) (field_of ''path'' ResetUserRateLimitsApiV1AdminRateLimitsUserIdResetPostData_type)"
  by (simp add: zResetUserRateLimitsApiV1AdminRateLimitsUserIdResetPostPath_def ResetUserRateLimitsApiV1AdminRateLimitsUserIdResetPostData_type_def wire subtype_rules)

lemma zResetUserRateLimitsApiV1AdminRateLimitsUserIdResetPostResponse_typed [wire]: "subtype (infer zResetUserRateLimitsApiV1AdminRateLimitsUserIdResetPostResponse) ResetUserRateLimitsApiV1AdminRateLimitsUserIdResetPostResponse_type"
  by (simp add: zResetUserRateLimitsApiV1AdminRateLimitsUserIdResetPostResponse_def ResetUserRateLimitsApiV1AdminRateLimitsUserIdResetPostResponse_type_def ResetUserRateLimitsApiV1AdminRateLimitsUserIdResetPostResponses_type_def wire subtype_rules)

lemma zGetSystemSettingsApiV1AdminSettingsGetResponse_typed [wire]: "subtype (infer zGetSystemSettingsApiV1AdminSettingsGetResponse) GetSystemSettingsApiV1AdminSettingsGetResponse_type"
  by (simp add: zGetSystemSettingsApiV1AdminSettingsGetResponse_def GetSystemSettingsApiV1AdminSettingsGetResponse_type_def GetSystemSettingsApiV1AdminSettingsGetResponses_type_def wire subtype_rules)

lemma zUpdateSystemSettingsApiV1AdminSettingsPutBody_typed [wire]: "subtype (infer zUpdateSystemSettingsApiV1AdminSettingsPutBody) (field_of ''body'' UpdateSystemSettingsApiV1AdminSettingsPutData_type)"
  by (simp add: zUpdateSystemSettingsApiV1AdminSettingsPutBody_def UpdateSystemSettingsApiV1AdminSettingsPutData_type_def wire subtype_rules)

lemma zUpdateSystemSettingsApiV1AdminSettingsPutResponse_typed [wire]: "subtype (infer zUpdateSystemSettingsApiV1AdminSettingsPutResponse) UpdateSystemSettingsApiV1AdminSettingsPutResponse_type"
  by (simp add: zUpdateSystemSettingsApiV1AdminSettingsPutResponse_def UpdateSystemSettingsApiV1AdminSettingsPutResponse_type_def UpdateSystemSettingsApiV1AdminSettingsPutResponses_type_def wire subtype_rules)

lemma zResetSystemSettingsApiV1AdminSettingsResetPostResponse_typed [wire]: "subtype (infer zResetSystemSettingsApiV1AdminSettingsResetPostResponse) ResetSystemSettingsApiV1AdminSettingsResetPostResponse_type"
  by (simp add: zResetSystemSettingsApiV1AdminSettingsResetPostResponse_def ResetSystemSettingsApiV1AdminSettingsResetPostResponse_type_def ResetSystemSettingsApiV1AdminSettingsResetPostResponses_type_def wire subtype_rules)

lemma zListUsersApiV1AdminUsersGetQuery_typed [wire]: "subtype (infer zListUsersApiV1AdminUsersGetQuery) (field_of ''query'' ListUsersApiV1AdminUsersGetData_type)"
  by (simp add: zListUsersApiV1AdminUsersGetQuery_def ListUsersApiV1AdminUsersGetData_type_def wire subtype_rules)

lemma zListUsersApiV1AdminUsersGetResponse_typed [wire]: "subtype (infer zListUsersApiV1AdminUsersGetResponse) ListUsersApiV1AdminUsersGetResponse_type"
  by (simp add: zListUsersApiV1AdminUsersGetResponse_def ListUsersApiV1AdminUsersGetResponse_type_def ListUsersApiV1AdminUsersGetResponses_type_def wire subtype_rules)

lemma zCreateUserApiV1AdminUsersPostBody_typed [wire]: "subtype (infer zCreateUserApiV1AdminUsersPostBody) (field_of ''body'' CreateUserApiV1AdminUsersPostData_type)"
  by (simp add: zCreateUserApiV1AdminUsersPostBody_def CreateUserApiV1AdminUsersPostData_type_def wire subtype_rules)

lemma zCreateUserApiV1AdminUsersPostResponse_typed [wire]: "subtype (infer zCreateUserApiV1AdminUsersPostResponse) CreateUserApiV1AdminUsersPostResponse_type"
  by (simp add: zCreateUserApiV1AdminUsersPostResponse_def CreateUserApiV1AdminUsersPostResponse_type_def CreateUserApiV1AdminUsersPostResponses_type_def wire subtype_rules)

lemma zDeleteUserApiV1AdminUsersUserIdDeletePath_typed [wire]: "subtype (infer zDeleteUserApiV1AdminUsersUserIdDeletePath) (field_of ''path'' DeleteUserApiV1AdminUsersUserIdDeleteData_type)"
  by (simp add: zDeleteUserApiV1AdminUsersUserIdDeletePath_def DeleteUserApiV1AdminUsersUserIdDeleteData_type_def wire subtype_rules)

lemma zDeleteUserApiV1AdminUsersUserIdDeleteQuery_typed [wire]: "subtype (infer zDeleteUserApiV1AdminUsersUserIdDeleteQuery) (field_of ''query'' DeleteUserApiV1AdminUsersUserIdDeleteData_type)"
  by (simp add: zDeleteUserApiV1AdminUsersUserIdDeleteQuery_def DeleteUserApiV1AdminUsersUserIdDeleteData_type_def wire subtype_rules)

lemma zDeleteUserApiV1AdminUsersUserIdDeleteResponse_typed [wire]: "subtype (infer zDeleteUserApiV1AdminUsersUserIdDeleteResponse) DeleteUserApiV1AdminUsersUserIdDeleteResponse_type"
  by (simp add: zDeleteUserApiV1AdminUsersUserIdDeleteResponse_def DeleteUserApiV1AdminUsersUserIdDeleteResponse_type_def DeleteUserApiV1AdminUsersUserIdDeleteResponses_type_def wire subtype_rules)

lemma zGetUserApiV1AdminUsersUserIdGetPath_typed [wire]: "subtype (infer zGetUserApiV1AdminUsersUserIdGetPath) (field_of ''path'' GetUserApiV1AdminUsersUserIdGetData_type)"
  by (simp add: zGetUserApiV1AdminUsersUserIdGetPath_def GetUserApiV1AdminUsersUserIdGetData_type_def wire subtype_rules)

lemma zGetUserApiV1AdminUsersUserIdGetResponse_typed [wire]: "subtype (infer zGetUserApiV1AdminUsersUserIdGetResponse) GetUserApiV1AdminUsersUserIdGetResponse_type"
  by (simp add: zGetUserApiV1AdminUsersUserIdGetResponse_def GetUserApiV1AdminUsersUserIdGetResponse_type_def GetUserApiV1AdminUsersUserIdGetResponses_type_def wire subtype_rules)

lemma zUpdateUserApiV1AdminUsersUserIdPutBody_typed [wire]: "subtype (infer zUpdateUserApiV1AdminUsersUserIdPutBody) (field_of ''body'' UpdateUserApiV1AdminUsersUserIdPutData_type)"
  by (simp add: zUpdateUserApiV1AdminUsersUserIdPutBody_def UpdateUserApiV1AdminUsersUserIdPutData_type_def wire subtype_rules)

lemma zUpdateUserApiV1AdminUsersUserIdPutPath_typed [wire]: "subtype (infer zUpdateUserApiV1AdminUsersUserIdPutPath) (field_of ''path'' UpdateUserApiV1AdminUsersUserIdPutData_type)"
  by (simp add: zUpdateUserApiV1AdminUsersUserIdPutPath_def UpdateUserApiV1AdminUsersUserIdPutData_type_def wire subtype_rules)

lemma zUpdateUserApiV1AdminUsersUserIdPutResponse_typed [wire]: "subtype (infer zUpdateUserApiV1AdminUsersUserIdPutResponse) UpdateUserApiV1AdminUsersUserIdPutResponse_type"
  by (simp add: zUpdateUserApiV1AdminUsersUserIdPutResponse_def UpdateUserApiV1AdminUsersUserIdPutResponse_type_def UpdateUserApiV1AdminUsersUserIdPutResponses_type_def wire subtype_rules)

lemma zGetUserOverviewApiV1AdminUsersUserIdOverviewGetPath_typed [wire]: "subtype (infer zGetUserOverviewApiV1AdminUsersUserIdOverviewGetPath) (field_of ''path'' GetUserOverviewApiV1AdminUsersUserIdOverviewGetData_type)"
  by (simp add: zGetUserOverviewApiV1AdminUsersUserIdOverviewGetPath_def GetUserOverviewApiV1AdminUsersUserIdOverviewGetData_type_def wire subtype_rules)

lemma zGetUserOverviewApiV1AdminUsersUserIdOverviewGetResponse_typed [wire]: "subtype (infer zGetUserOverviewApiV1AdminUsersUserIdOverviewGetResponse) GetUserOverviewApiV1AdminUsersUserIdOverviewGetResponse_type"
  by (simp add: zGetUserOverviewApiV1AdminUsersUserIdOverviewGetResponse_def GetUserOverviewApiV1AdminUsersUserIdOverviewGetResponse_type_def GetUserOverviewApiV1AdminUsersUserIdOverviewGetResponses_type_def wire subtype_rules)

lemma zResetUserPasswordApiV1AdminUsersUserIdResetPasswordPostBody_typed [wire]: "subtype (infer zResetUserPasswordApiV1AdminUsersUserIdResetPasswordPostBody) (field_of ''body'' ResetUserPasswordApiV1AdminUsersUserIdResetPasswordPostData_type)"
  by (simp add: zResetUserPasswordApiV1AdminUsersUserIdResetPasswordPostBody_def ResetUserPasswordApiV1AdminUsersUserIdResetPasswordPostData_type_def wire subtype_rules)

lemma zResetUserPasswordApiV1AdminUsersUserIdResetPasswordPostPath_typed [wire]: "subtype (infer zResetUserPasswordApiV1AdminUsersUserIdResetPasswordPostPath) (field_of ''path'' ResetUserPasswordApiV1AdminUsersUserIdResetPasswordPostData_type)"
  by (simp add: zResetUserPasswordApiV1AdminUsersUserIdResetPasswordPostPath_def ResetUserPasswordApiV1AdminUsersUserIdResetPasswordPostData_type_def wire subtype_rules)

lemma zResetUserPasswordApiV1AdminUsersUserIdResetPasswordPostResponse_typed [wire]: "subtype (infer zResetUserPasswordApiV1AdminUsersUserIdResetPasswordPostResponse) ResetUserPasswordApiV1AdminUsersUserIdResetPasswordPostResponse_type"
  by (simp add: zResetUserPasswordApiV1AdminUsersUserIdResetPasswordPostResponse_def ResetUserPasswordApiV1AdminUsersUserIdResetPasswordPostResponse_type_def ResetUserPasswordApiV1AdminUsersUserIdResetPasswordPostResponses_type_def wire subtype_rules)

lemma zUnlockUserApiV1AdminUsersUserIdUnlockPostPath_typed [wire]: "subtype (infer zUnlockUserApiV1AdminUsersUserIdUnlockPostPath) (field_of ''path'' UnlockUserApiV1AdminUsersUserIdUnlockPostData_type)"
  by (simp add: zUnlockUserApiV1AdminUsersUserIdUnlockPostPath_def UnlockUserApiV1AdminUsersUserIdUnlockPostData_type_def wire subtype_rules)

lemma zUnlockUserApiV1AdminUsersUserIdUnlockPostResponse_typed [wire]: "subtype (infer zUnlockUserApiV1AdminUsersUserIdUnlockPostResponse) UnlockUserApiV1AdminUsersUserIdUnlockPostResponse_type"
  by (simp add: zUnlockUserApiV1AdminUsersUserIdUnlockPostResponse_def UnlockUserApiV1AdminUsersUserIdUnlockPostResponse_type_def UnlockUserApiV1AdminUsersUserIdUnlockPostResponses_type_def wire subtype_rules)

lemma zGetUserSettingsApiV1UserSettingsGetResponse_typed [wire]: "subtype (infer zGetUserSettingsApiV1UserSettingsGetResponse) GetUserSettingsApiV1UserSettingsGetResponse_type"
  by (simp add: zGetUserSettingsApiV1UserSettingsGetResponse_def GetUserSettingsApiV1UserSettingsGetResponse_type_def GetUserSettingsApiV1UserSettingsGetResponses_type_def wire subtype_rules)

lemma zUpdateUserSettingsApiV1UserSettingsPutBody_typed [wire]: "subtype (infer zUpdateUserSettingsApiV1UserSettingsPutBody) (field_of ''body'' UpdateUserSettingsApiV1UserSettingsPutData_type)"
  by (simp add: zUpdateUserSettingsApiV1UserSettingsPutBody_def UpdateUserSettingsApiV1UserSettingsPutData_type_def wire subtype_rules)

lemma zUpdateUserSettingsApiV1UserSettingsPutResponse_typed [wire]: "subtype (infer zUpdateUserSettingsApiV1UserSettingsPutResponse) UpdateUserSettingsApiV1UserSettingsPutResponse_type"
  by (simp add: zUpdateUserSettingsApiV1UserSettingsPutResponse_def UpdateUserSettingsApiV1UserSettingsPutResponse_type_def UpdateUserSettingsApiV1UserSettingsPutResponses_type_def wire subtype_rules)

lemma zUpdateThemeApiV1UserSettingsThemePutBody_typed [wire]: "subtype (infer zUpdateThemeApiV1UserSettingsThemePutBody) (field_of ''body'' UpdateThemeApiV1UserSettingsThemePutData_type)"
  by (simp add: zUpdateThemeApiV1UserSettingsThemePutBody_def UpdateThemeApiV1UserSettingsThemePutData_type_def wire subtype_rules)

lemma zUpdateThemeApiV1UserSettingsThemePutResponse_typed [wire]: "subtype (infer zUpdateThemeApiV1UserSettingsThemePutResponse) UpdateThemeApiV1UserSettingsThemePutResponse_type"
  by (simp add: zUpdateThemeApiV1UserSettingsThemePutResponse_def UpdateThemeApiV1UserSettingsThemePutResponse_type_def UpdateThemeApiV1UserSettingsThemePutResponses_type_def wire subtype_rules)

lemma zUpdateNotificationSettingsApiV1UserSettingsNotificationsPutBody_typed [wire]: "subtype (infer zUpdateNotificationSettingsApiV1UserSettingsNotificationsPutBody) (field_of ''body'' UpdateNotificationSettingsApiV1UserSettingsNotificationsPutData_type)"
  by (simp add: zUpdateNotificationSettingsApiV1UserSettingsNotificationsPutBody_def UpdateNotificationSettingsApiV1UserSettingsNotificationsPutData_type_def wire subtype_rules)

lemma zUpdateNotificationSettingsApiV1UserSettingsNotificationsPutResponse_typed [wire]: "subtype (infer zUpdateNotificationSettingsApiV1UserSettingsNotificationsPutResponse) UpdateNotificationSettingsApiV1UserSettingsNotificationsPutResponse_type"
  by (simp add: zUpdateNotificationSettingsApiV1UserSettingsNotificationsPutResponse_def UpdateNotificationSettingsApiV1UserSettingsNotificationsPutResponse_type_def UpdateNotificationSettingsApiV1UserSettingsNotificationsPutResponses_type_def wire subtype_rules)

lemma zUpdateEditorSettingsApiV1UserSettingsEditorPutBody_typed [wire]: "subtype (infer zUpdateEditorSettingsApiV1UserSettingsEditorPutBody) (field_of ''body'' UpdateEditorSettingsApiV1UserSettingsEditorPutData_type)"
  by (simp add: zUpdateEditorSettingsApiV1UserSettingsEditorPutBody_def UpdateEditorSettingsApiV1UserSettingsEditorPutData_type_def wire subtype_rules)

lemma zUpdateEditorSettingsApiV1UserSettingsEditorPutResponse_typed [wire]: "subtype (infer zUpdateEditorSettingsApiV1UserSettingsEditorPutResponse) UpdateEditorSettingsApiV1UserSettingsEditorPutResponse_type"
  by (simp add: zUpdateEditorSettingsApiV1UserSettingsEditorPutResponse_def UpdateEditorSettingsApiV1UserSettingsEditorPutResponse_type_def UpdateEditorSettingsApiV1UserSettingsEditorPutResponses_type_def wire subtype_rules)

lemma zGetSettingsHistoryApiV1UserSettingsHistoryGetQuery_typed [wire]: "subtype (infer zGetSettingsHistoryApiV1UserSettingsHistoryGetQuery) (field_of ''query'' GetSettingsHistoryApiV1UserSettingsHistoryGetData_type)"
  by (simp add: zGetSettingsHistoryApiV1UserSettingsHistoryGetQuery_def GetSettingsHistoryApiV1UserSettingsHistoryGetData_type_def wire subtype_rules)

lemma zGetSettingsHistoryApiV1UserSettingsHistoryGetResponse_typed [wire]: "subtype (infer zGetSettingsHistoryApiV1UserSettingsHistoryGetResponse) GetSettingsHistoryApiV1UserSettingsHistoryGetResponse_type"
  by (simp add: zGetSettingsHistoryApiV1UserSettingsHistoryGetResponse_def GetSettingsHistoryApiV1UserSettingsHistoryGetResponse_type_def GetSettingsHistoryApiV1UserSettingsHistoryGetResponses_type_def wire subtype_rules)

lemma zRestoreSettingsApiV1UserSettingsRestorePostBody_typed [wire]: "subtype (infer zRestoreSettingsApiV1UserSettingsRestorePostBody) (field_of ''body'' RestoreSettingsApiV1UserSettingsRestorePostData_type)"
  by (simp add: zRestoreSettingsApiV1UserSettingsRestorePostBody_def RestoreSettingsApiV1UserSettingsRestorePostData_type_def wire subtype_rules)

lemma zRestoreSettingsApiV1UserSettingsRestorePostResponse_typed [wire]: "subtype (infer zRestoreSettingsApiV1UserSettingsRestorePostResponse) RestoreSettingsApiV1UserSettingsRestorePostResponse_type"
  by (simp add: zRestoreSettingsApiV1UserSettingsRestorePostResponse_def RestoreSettingsApiV1UserSettingsRestorePostResponse_type_def RestoreSettingsApiV1UserSettingsRestorePostResponses_type_def wire subtype_rules)

lemma zUpdateCustomSettingApiV1UserSettingsCustomKeyPutBody_typed [wire]: "subtype (infer zUpdateCustomSettingApiV1UserSettingsCustomKeyPutBody) (field_of ''body'' UpdateCustomSettingApiV1UserSettingsCustomKeyPutData_type)"
  by (simp add: zUpdateCustomSettingApiV1UserSettingsCustomKeyPutBody_def UpdateCustomSettingApiV1UserSettingsCustomKeyPutData_type_def wire subtype_rules)

lemma zUpdateCustomSettingApiV1UserSettingsCustomKeyPutPath_typed [wire]: "subtype (infer zUpdateCustomSettingApiV1UserSettingsCustomKeyPutPath) (field_of ''path'' UpdateCustomSettingApiV1UserSettingsCustomKeyPutData_type)"
  by (simp add: zUpdateCustomSettingApiV1UserSettingsCustomKeyPutPath_def UpdateCustomSettingApiV1UserSettingsCustomKeyPutData_type_def wire subtype_rules)

lemma zUpdateCustomSettingApiV1UserSettingsCustomKeyPutResponse_typed [wire]: "subtype (infer zUpdateCustomSettingApiV1UserSettingsCustomKeyPutResponse) UpdateCustomSettingApiV1UserSettingsCustomKeyPutResponse_type"
  by (simp add: zUpdateCustomSettingApiV1UserSettingsCustomKeyPutResponse_def UpdateCustomSettingApiV1UserSettingsCustomKeyPutResponse_type_def UpdateCustomSettingApiV1UserSettingsCustomKeyPutResponses_type_def wire subtype_rules)

lemma zGetNotificationsApiV1NotificationsGetQuery_typed [wire]: "subtype (infer zGetNotificationsApiV1NotificationsGetQuery) (field_of ''query'' GetNotificationsApiV1NotificationsGetData_type)"
  by (simp add: zGetNotificationsApiV1NotificationsGetQuery_def GetNotificationsApiV1NotificationsGetData_type_def wire subtype_rules)

lemma zGetNotificationsApiV1NotificationsGetResponse_typed [wire]: "subtype (infer zGetNotificationsApiV1NotificationsGetResponse) GetNotificationsApiV1NotificationsGetResponse_type"
  by (simp add: zGetNotificationsApiV1NotificationsGetResponse_def GetNotificationsApiV1NotificationsGetResponse_type_def GetNotificationsApiV1NotificationsGetResponses_type_def wire subtype_rules)

lemma zMarkNotificationReadApiV1NotificationsNotificationIdReadPutPath_typed [wire]: "subtype (infer zMarkNotificationReadApiV1NotificationsNotificationIdReadPutPath) (field_of ''path'' MarkNotificationReadApiV1NotificationsNotificationIdReadPutData_type)"
  by (simp add: zMarkNotificationReadApiV1NotificationsNotificationIdReadPutPath_def MarkNotificationReadApiV1NotificationsNotificationIdReadPutData_type_def wire subtype_rules)

lemma zMarkNotificationReadApiV1NotificationsNotificationIdReadPutResponse_typed [wire]: "subtype (infer zMarkNotificationReadApiV1NotificationsNotificationIdReadPutResponse) MarkNotificationReadApiV1NotificationsNotificationIdReadPutResponse_type"
  by (simp add: zMarkNotificationReadApiV1NotificationsNotificationIdReadPutResponse_def MarkNotificationReadApiV1NotificationsNotificationIdReadPutResponse_type_def MarkNotificationReadApiV1NotificationsNotificationIdReadPutResponses_type_def wire subtype_rules)

lemma zMarkAllReadApiV1NotificationsMarkAllReadPostResponse_typed [wire]: "subtype (infer zMarkAllReadApiV1NotificationsMarkAllReadPostResponse) MarkAllReadApiV1NotificationsMarkAllReadPostResponse_type"
  by (simp add: zMarkAllReadApiV1NotificationsMarkAllReadPostResponse_def MarkAllReadApiV1NotificationsMarkAllReadPostResponse_type_def MarkAllReadApiV1NotificationsMarkAllReadPostResponses_type_def wire subtype_rules)

lemma zGetUnreadCountApiV1NotificationsUnreadCountGetResponse_typed [wire]: "subtype (infer zGetUnreadCountApiV1NotificationsUnreadCountGetResponse) GetUnreadCountApiV1NotificationsUnreadCountGetResponse_type"
  by (simp add: zGetUnreadCountApiV1NotificationsUnreadCountGetResponse_def GetUnreadCountApiV1NotificationsUnreadCountGetResponse_type_def GetUnreadCountApiV1NotificationsUnreadCountGetResponses_type_def wire subtype_rules)

lemma zDeleteNotificationApiV1NotificationsNotificationIdDeletePath_typed [wire]: "subtype (infer zDeleteNotificationApiV1NotificationsNotificationIdDeletePath) (field_of ''path'' DeleteNotificationApiV1NotificationsNotificationIdDeleteData_type)"
  by (simp add: zDeleteNotificationApiV1NotificationsNotificationIdDeletePath_def DeleteNotificationApiV1NotificationsNotificationIdDeleteData_type_def wire subtype_rules)

lemma zDeleteNotificationApiV1NotificationsNotificationIdDeleteResponse_typed [wire]: "subtype (infer zDeleteNotificationApiV1NotificationsNotificationIdDeleteResponse) DeleteNotificationApiV1NotificationsNotificationIdDeleteResponse_type"
  by (simp add: zDeleteNotificationApiV1NotificationsNotificationIdDeleteResponse_def DeleteNotificationApiV1NotificationsNotificationIdDeleteResponse_type_def DeleteNotificationApiV1NotificationsNotificationIdDeleteResponses_type_def wire subtype_rules)

lemma schemas_check:
  "list_all (\<lambda>p. subtype (infer (fst p)) (snd p)) (model_schemas @ request_schemas @ response_schemas)"
  by (simp add: model_schemas_def request_schemas_def response_schemas_def wire)

section \<open>Errors\<close>

text \<open>What every endpoint declares for its failures, by status.\<close>

definition declared_errors :: "ts_type list" where
  "declared_errors =
     [LoginApiV1AuthLoginPostErrors_type,
      RegisterApiV1AuthRegisterPostErrors_type,
      GetCurrentUserProfileApiV1AuthMeGetErrors_type,
      LogoutApiV1AuthLogoutPostErrors_type,
      CreateExecutionApiV1ExecutePostErrors_type,
      GetResultApiV1ExecutionsExecutionIdResultGetErrors_type,
      CancelExecutionApiV1ExecutionsExecutionIdCancelPostErrors_type,
      RetryExecutionApiV1ExecutionsExecutionIdRetryPostErrors_type,
      GetExecutionEventsApiV1ExecutionsExecutionIdEventsGetErrors_type,
      GetUserExecutionsApiV1UserExecutionsGetErrors_type,
      GetExampleScriptsApiV1ExampleScriptsGetErrors_type,
      GetK8sResourceLimitsApiV1K8sLimitsGetErrors_type,
      DeleteExecutionApiV1ExecutionsExecutionIdDeleteErrors_type,
      ListSavedScriptsApiV1ScriptsGetErrors_type,
      CreateSavedScriptApiV1ScriptsPostErrors_type,
      DeleteSavedScriptApiV1ScriptsScriptIdDeleteErrors_type,
      GetSavedScriptApiV1ScriptsScriptIdGetErrors_type,
      UpdateSavedScriptApiV1ScriptsScriptIdPutErrors_type,
      LivenessApiV1HealthLiveGetErrors_type,
      NotificationStreamApiV1EventsNotificationsStreamGetErrors_type,
      ExecutionEventsApiV1EventsExecutionsExecutionIdGetErrors_type,
      BrowseEventsApiV1AdminEventsBrowsePostErrors_type,
      GetEventStatsApiV1AdminEventsStatsGetErrors_type,
      ExportEventsApiV1AdminEventsExportExportFormatGetErrors_type,
      DeleteEventApiV1AdminEventsEventIdDeleteErrors_type,
      GetEventDetailApiV1AdminEventsEventIdGetErrors_type,
      ReplayEventsApiV1AdminEventsReplayPostErrors_type,
      StreamReplayStatusApiV1AdminEventsReplaySessionIdStatusGetErrors_type,
      ListExecutionsApiV1AdminExecutionsGetErrors_type,
      UpdatePriorityApiV1AdminExecutionsExecutionIdPriorityPutErrors_type,
      GetQueueStatusApiV1AdminExecutionsQueueGetErrors_type,
      GetDefaultRateLimitRulesApiV1AdminRateLimitsDefaultsGetErrors_type,
      GetUserRateLimitsApiV1AdminRateLimitsUserIdGetErrors_type,
      UpdateUserRateLimitsApiV1AdminRateLimitsUserIdPutErrors_type,
      ResetUserRateLimitsApiV1AdminRateLimitsUserIdResetPostErrors_type,
      GetSystemSettingsApiV1AdminSettingsGetErrors_type,
      UpdateSystemSettingsApiV1AdminSettingsPutErrors_type,
      ResetSystemSettingsApiV1AdminSettingsResetPostErrors_type,
      ListUsersApiV1AdminUsersGetErrors_type,
      CreateUserApiV1AdminUsersPostErrors_type,
      DeleteUserApiV1AdminUsersUserIdDeleteErrors_type,
      GetUserApiV1AdminUsersUserIdGetErrors_type,
      UpdateUserApiV1AdminUsersUserIdPutErrors_type,
      GetUserOverviewApiV1AdminUsersUserIdOverviewGetErrors_type,
      ResetUserPasswordApiV1AdminUsersUserIdResetPasswordPostErrors_type,
      UnlockUserApiV1AdminUsersUserIdUnlockPostErrors_type,
      GetUserSettingsApiV1UserSettingsGetErrors_type,
      UpdateUserSettingsApiV1UserSettingsPutErrors_type,
      UpdateThemeApiV1UserSettingsThemePutErrors_type,
      UpdateNotificationSettingsApiV1UserSettingsNotificationsPutErrors_type,
      UpdateEditorSettingsApiV1UserSettingsEditorPutErrors_type,
      GetSettingsHistoryApiV1UserSettingsHistoryGetErrors_type,
      RestoreSettingsApiV1UserSettingsRestorePostErrors_type,
      UpdateCustomSettingApiV1UserSettingsCustomKeyPutErrors_type,
      GetNotificationsApiV1NotificationsGetErrors_type,
      MarkNotificationReadApiV1NotificationsNotificationIdReadPutErrors_type,
      MarkAllReadApiV1NotificationsMarkAllReadPostErrors_type,
      GetUnreadCountApiV1NotificationsUnreadCountGetErrors_type,
      DeleteNotificationApiV1NotificationsNotificationIdDeleteErrors_type]"

definition is_error_response :: "ts_type \<Rightarrow> bool" where
  "is_error_response t \<longleftrightarrow> t = ErrorResponse_type"

lemma declared_errors_uniform:
  "list_all (\<lambda>t. case t of TObject fs \<Rightarrow> list_all (\<lambda>f. \<not> fst (snd f) \<and> is_error_response (snd (snd f))) fs | _ \<Rightarrow> False)
     declared_errors"
  by (simp add: declared_errors_def is_error_response_def LoginApiV1AuthLoginPostErrors_type_def RegisterApiV1AuthRegisterPostErrors_type_def GetCurrentUserProfileApiV1AuthMeGetErrors_type_def LogoutApiV1AuthLogoutPostErrors_type_def CreateExecutionApiV1ExecutePostErrors_type_def GetResultApiV1ExecutionsExecutionIdResultGetErrors_type_def CancelExecutionApiV1ExecutionsExecutionIdCancelPostErrors_type_def RetryExecutionApiV1ExecutionsExecutionIdRetryPostErrors_type_def GetExecutionEventsApiV1ExecutionsExecutionIdEventsGetErrors_type_def GetUserExecutionsApiV1UserExecutionsGetErrors_type_def GetExampleScriptsApiV1ExampleScriptsGetErrors_type_def GetK8sResourceLimitsApiV1K8sLimitsGetErrors_type_def DeleteExecutionApiV1ExecutionsExecutionIdDeleteErrors_type_def ListSavedScriptsApiV1ScriptsGetErrors_type_def CreateSavedScriptApiV1ScriptsPostErrors_type_def DeleteSavedScriptApiV1ScriptsScriptIdDeleteErrors_type_def GetSavedScriptApiV1ScriptsScriptIdGetErrors_type_def UpdateSavedScriptApiV1ScriptsScriptIdPutErrors_type_def LivenessApiV1HealthLiveGetErrors_type_def NotificationStreamApiV1EventsNotificationsStreamGetErrors_type_def ExecutionEventsApiV1EventsExecutionsExecutionIdGetErrors_type_def BrowseEventsApiV1AdminEventsBrowsePostErrors_type_def GetEventStatsApiV1AdminEventsStatsGetErrors_type_def ExportEventsApiV1AdminEventsExportExportFormatGetErrors_type_def DeleteEventApiV1AdminEventsEventIdDeleteErrors_type_def GetEventDetailApiV1AdminEventsEventIdGetErrors_type_def ReplayEventsApiV1AdminEventsReplayPostErrors_type_def StreamReplayStatusApiV1AdminEventsReplaySessionIdStatusGetErrors_type_def ListExecutionsApiV1AdminExecutionsGetErrors_type_def UpdatePriorityApiV1AdminExecutionsExecutionIdPriorityPutErrors_type_def GetQueueStatusApiV1AdminExecutionsQueueGetErrors_type_def GetDefaultRateLimitRulesApiV1AdminRateLimitsDefaultsGetErrors_type_def GetUserRateLimitsApiV1AdminRateLimitsUserIdGetErrors_type_def UpdateUserRateLimitsApiV1AdminRateLimitsUserIdPutErrors_type_def ResetUserRateLimitsApiV1AdminRateLimitsUserIdResetPostErrors_type_def GetSystemSettingsApiV1AdminSettingsGetErrors_type_def UpdateSystemSettingsApiV1AdminSettingsPutErrors_type_def ResetSystemSettingsApiV1AdminSettingsResetPostErrors_type_def ListUsersApiV1AdminUsersGetErrors_type_def CreateUserApiV1AdminUsersPostErrors_type_def DeleteUserApiV1AdminUsersUserIdDeleteErrors_type_def GetUserApiV1AdminUsersUserIdGetErrors_type_def UpdateUserApiV1AdminUsersUserIdPutErrors_type_def GetUserOverviewApiV1AdminUsersUserIdOverviewGetErrors_type_def ResetUserPasswordApiV1AdminUsersUserIdResetPasswordPostErrors_type_def UnlockUserApiV1AdminUsersUserIdUnlockPostErrors_type_def GetUserSettingsApiV1UserSettingsGetErrors_type_def UpdateUserSettingsApiV1UserSettingsPutErrors_type_def UpdateThemeApiV1UserSettingsThemePutErrors_type_def UpdateNotificationSettingsApiV1UserSettingsNotificationsPutErrors_type_def UpdateEditorSettingsApiV1UserSettingsEditorPutErrors_type_def GetSettingsHistoryApiV1UserSettingsHistoryGetErrors_type_def RestoreSettingsApiV1UserSettingsRestorePostErrors_type_def UpdateCustomSettingApiV1UserSettingsCustomKeyPutErrors_type_def GetNotificationsApiV1NotificationsGetErrors_type_def MarkNotificationReadApiV1NotificationsNotificationIdReadPutErrors_type_def MarkAllReadApiV1NotificationsMarkAllReadPostErrors_type_def GetUnreadCountApiV1NotificationsUnreadCountGetErrors_type_def DeleteNotificationApiV1NotificationsNotificationIdDeleteErrors_type_def)

lemma error_response_value:
  "has_type ErrorResponse_type v \<Longrightarrow>
   \<exists>es n s. v = VObject es \<and> read_field es ''status'' = VNum n \<and> read_field es ''detail'' = VStr s"
  by (auto simp: ErrorResponse_type_def split: data.splits)

text \<open>
  C26: whatever a generated schema lets through, with the defaults it fills in, is a value of the
  type that the generated types declare under the schema's name: for the 144 models, the bodies, paths,
  queries and headers that endpoints take, and the responses they give.
\<close>

theorem schemas_match_types:
  assumes "zod_outputs parse"
    and "(z, t) \<in> set (model_schemas @ request_schemas @ response_schemas)"
    and "parse z v = Some w"
  shows "has_type t w"
proof -
  have "subtype (infer z) t" using bspec [OF schemas_check [unfolded list_all_iff] assms(2)] by simp
  then show ?thesis by (rule schema_sound [OF assms(1) _ assms(3)])
qed

theorem schemas_match_types_witness:
  "zparse zThemeUpdateRequest (VObject [(''theme'', VStr ''dark'')]) = Some (VObject [(''theme'', VStr ''dark'')]) \<and>
   has_type ThemeUpdateRequest_type (VObject [(''theme'', VStr ''dark'')])"
proof -
  have p: "zparse zThemeUpdateRequest (VObject [(''theme'', VStr ''dark'')]) = Some (VObject [(''theme'', VStr ''dark'')])"
    by code_simp
  have "(zThemeUpdateRequest, ThemeUpdateRequest_type) \<in> set (model_schemas @ request_schemas @ response_schemas)"
    by (simp add: model_schemas_def)
  from p schemas_match_types [OF zparse_outputs this p] show ?thesis by blast
qed



end
