(* ===== verification/Session.thy ===== *)
theory Session
  imports Sdk ApiErrors
begin

text \<open>
  Who is signed in and which pages they may open: the load functions \<^verbatim>\<open>routes/+layout.ts\<close>,
  \<^verbatim>\<open>routes/(auth)/+layout.ts\<close>, \<^verbatim>\<open>routes/admin/+layout.ts\<close> and \<^verbatim>\<open>routes/admin/+page.ts\<close> of
  \<^verbatim>\<open>frontend/src\<close>, and what \<^verbatim>\<open>routes/login/+page.svelte\<close> does once a login succeeded.

  SvelteKit is a library: \<open>resolve\<close> (a route id to its path) and \<open>match_route\<close> (a path to the id of the
  route that shows it) are the fields of \<open>kit\<close>; \<open>redirect\<close> and \<open>error\<close> end a load function and are
  results here. SvelteKit runs the load of a layout before those below it, which wait for its data.
\<close>

record kit =
  resolve :: "string \<Rightarrow> string"
  match_route :: "string \<Rightarrow> string option"

record page_url =
  pathname :: string
  search :: string

datatype 'a load_result =
    Loaded 'a
  | Redirected int string
  | ErrorPage jsval jsval
  | LoadFails failure

section \<open>The root layout\<close>

text \<open>A property of a value that may not be an object.\<close>

definition get_prop :: "jsval \<Rightarrow> string \<Rightarrow> jsval" where
  "get_prop v k = prop_get (obj_entries v) k"

text \<open>The data of a response as a value; a blob, a buffer or a form has no properties that are read.\<close>

fun payload_value :: "payload \<Rightarrow> jsval" where
  "payload_value (JsonData v) = v"
| "payload_value (TextData s) = JStr s"
| "payload_value _ = JInstance []"

definition failure_prop :: "failure \<Rightarrow> string \<Rightarrow> jsval" where
  "failure_prop e k = (case e of Thrown v \<Rightarrow> get_prop v k | Failure _ \<Rightarrow> JUndefined)"

text \<open>\<open>const {data, error: failure} = ...\<close>\<close>

fun outcome_fields :: "outcome \<Rightarrow> (jsval \<times> failure option) res" where
  "outcome_fields (Fields d req resp) = Inr (payload_value d, None)"
| "outcome_fields (ErrorFields e req resp) = Inr (JUndefined, Some e)"
| "outcome_fields Undefined = Inl TypeError"
| "outcome_fields (Data d) =
     (let v = payload_value d; e = get_prop v ''error'' in
      if nullish v then Inl TypeError
      else Inr (get_prop v ''data'', if e = JUndefined then None else Some (Thrown e)))"

definition root_load :: "app platform \<Rightarrow> app client \<Rightarrow> app \<Rightarrow> jsval load_result \<times> app" where
  "root_load pf cl w =
     (case call_endpoint getCurrentUserProfileApiV1AuthMeGet pf cl empty_config w of
        (Inl e, w1) \<Rightarrow> (LoadFails e, w1)
      | (Inr out, w1) \<Rightarrow>
          (case outcome_fields out of
             Inl e \<Rightarrow> (LoadFails (Failure e), w1)
           | Inr (data, failure) \<Rightarrow>
               (case failure of
                  Some e \<Rightarrow>
                    if failure_truthy e \<and> failure_prop e ''status'' \<noteq> JNum 401 \<and> failure_prop e ''status'' \<noteq> JNum 0
                    then (ErrorPage (failure_prop e ''status'') (failure_prop e ''detail''), w1)
                    else (Loaded (if nullish data then JNull else data), w1)
                | None \<Rightarrow> (Loaded (if nullish data then JNull else data), w1))))"

section \<open>The guards\<close>

definition login_location :: "kit \<Rightarrow> page_url \<Rightarrow> string" where
  "login_location k u =
     resolve k ''/login'' @ ''?'' @ search_params_string [(''redirect'', pathname u @ search u)]"

definition auth_load :: "kit \<Rightarrow> jsval \<Rightarrow> page_url \<Rightarrow> jsval load_result" where
  "auth_load k user u = (if \<not> truthy user then Redirected 307 (login_location k u) else Loaded user)"

text \<open>The boolean says that the toast \<open>Admin access required\<close> is shown.\<close>

definition admin_load :: "kit \<Rightarrow> jsval \<Rightarrow> page_url \<Rightarrow> jsval load_result \<times> bool" where
  "admin_load k user u =
     (if \<not> truthy user then (Redirected 307 (login_location k u), False)
      else if get_prop user ''role'' \<noteq> JStr (UserRole_value UserRole.ADMIN)
      then (Redirected 307 (resolve k ''/''), True)
      else (Loaded user, False))"

definition admin_page_load :: "'a load_result" where
  "admin_page_load = Redirected 307 ''/admin/events''"

text \<open>A page behind a guard: the root layout's load, then the guard's with the user it loaded.\<close>

definition visit ::
  "(jsval \<Rightarrow> jsval load_result) \<Rightarrow> app platform \<Rightarrow> app client \<Rightarrow> app \<Rightarrow> jsval load_result" where
  "visit guard pf cl w = (case fst (root_load pf cl w) of Loaded user \<Rightarrow> guard user | r \<Rightarrow> r)"

section \<open>After a login\<close>

text \<open>\<open>page.url.searchParams.get('redirect')\<close>, then \<open>match\<close> and \<open>goto\<close>\<close>

definition login_target :: "kit \<Rightarrow> string option \<Rightarrow> string" where
  "login_target k redirect =
     (let route = match_route k (case redirect of Some r \<Rightarrow> r | None \<Rightarrow> resolve k ''/(auth)/editor'')
      in resolve k (case route of Some i \<Rightarrow> i | None \<Rightarrow> ''/(auth)/editor''))"

definition login_redirect_param :: "string \<Rightarrow> string option" where
  "login_redirect_param qs =
     (case parse_urlencoded qs of None \<Rightarrow> None | Some ps \<Rightarrow> map_of ps ''redirect'')"

section \<open>Lemmas\<close>

lemma error_value_props [simp]:
  "failure_prop (error_value e) ''status'' = JNum (ErrorResponse.status e)"
  "failure_prop (error_value e) ''detail'' = JStr (detail e)"
  "failure_truthy (error_value e)"
  by (simp_all add: failure_prop_def error_value_def get_prop_def prop_get_def failure_truthy_def)

text \<open>The call of the root layout.\<close>

definition me_options :: "app config" where
  "me_options = (endpoint_options getCurrentUserProfileApiV1AuthMeGet empty_config)\<lparr>config_method := Some ''GET''\<rparr>"

lemma me_call: "call_endpoint getCurrentUserProfileApiV1AuthMeGet pf cl empty_config w = request_call pf cl me_options w"
  by (simp add: call_endpoint_def makeMethodFn_def me_options_def getCurrentUserProfileApiV1AuthMeGet_def rest_def)

lemma root_load_error:
  assumes "initializeApiInterceptors problem cl = Inr cl'" "interceptors cl = createInterceptors"
    and "\<not> throws cl' me_options" "style cl' me_options \<noteq> Some StyleData"
    and "attempt pf cl' me_options w = (req, resp, Inl e, w1)"
  shows "fst (root_load pf cl' w) =
    (let er = to_failure problem e resp in
     if ErrorResponse.status er \<noteq> 401 \<and> ErrorResponse.status er \<noteq> 0
     then ErrorPage (JNum (ErrorResponse.status er)) (JStr (detail er)) else Loaded JNull)"
  using app_request_error [OF assms(1,2,5)] assms(3,4)
  by (simp add: root_load_def me_call Let_def)

lemma login_location_param:
  "\<exists>qs. login_location k u = resolve k ''/login'' @ ''?'' @ qs \<and>
     login_redirect_param qs = Some (pathname u @ search u)"
  by (rule exI [of _ "search_params_string [(''redirect'', pathname u @ search u)]"])
    (simp add: login_location_def login_redirect_param_def search_params_roundtrip)

lemma root_load_ok:
  assumes "attempt pf cl me_options w = (req, resp, Inr d, w1)" and "style cl me_options \<noteq> Some StyleData"
  shows "fst (root_load pf cl w) =
    Loaded (if nullish (payload_value d) then JNull else payload_value d)"
  using request_call_ok [OF assms(1)] assms(2) by (auto simp: root_load_def me_call)

text \<open>
  C28: somebody whose session check fails keeps the session: only a 401, or a request that never got an
  answer, counts as signed out, and leads from any guarded page to the login page with an address from
  which that page's path and query can be read back; every other failure shows the error page with the
  server's status and detail, and no redirect.
\<close>

theorem failed_session_check:
  assumes "initializeApiInterceptors problem cl = Inr cl'" "interceptors cl = createInterceptors"
    and "\<not> throws cl' me_options" "style cl' me_options \<noteq> Some StyleData"
    and "attempt pf cl' me_options w = (req, resp, Inl e, w1)"
  shows "\<exists>qs. login_redirect_param qs = Some (pathname u @ search u) \<and>
    (let er = to_failure problem e resp;
         outcome = (if ErrorResponse.status er \<noteq> 401 \<and> ErrorResponse.status er \<noteq> 0
                    then ErrorPage (JNum (ErrorResponse.status er)) (JStr (detail er))
                    else Redirected 307 (resolve k ''/login'' @ ''?'' @ qs))
     in visit (\<lambda>user. auth_load k user u) pf cl' w = outcome \<and>
        visit (\<lambda>user. fst (admin_load k user u)) pf cl' w = outcome)"
proof -
  obtain qs where "login_location k u = resolve k ''/login'' @ ''?'' @ qs"
    and "login_redirect_param qs = Some (pathname u @ search u)"
    using login_location_param by blast
  then show ?thesis
    using root_load_error [OF assms] by (auto simp: visit_def Let_def auth_load_def admin_load_def)
qed


text \<open>
  C30: whoever was sent to the login page from a page of the site comes back to it after the login: with
  \<open>match_route\<close> finding the route of the page and \<open>resolve\<close> giving that route's path, the login leads to
  the path. A \<open>redirect\<close> that is no page of the site leads to the editor.
\<close>

theorem login_returns:
  assumes "match_route k (pathname u @ search u) = Some i" and "resolve k i = pathname u"
    and "match_route k crafted = None"
  shows "\<exists>qs. login_location k u = resolve k ''/login'' @ ''?'' @ qs \<and>
      login_target k (login_redirect_param qs) = pathname u \<and>
      login_target k (Some crafted) = resolve k ''/(auth)/editor''"
proof -
  obtain qs where "login_location k u = resolve k ''/login'' @ ''?'' @ qs"
    and "login_redirect_param qs = Some (pathname u @ search u)"
    using login_location_param by blast
  then show ?thesis using assms by (auto simp: login_target_def)
qed

text \<open>The query that the guard wrote into the address is lost: only the route is kept.\<close>

lemma login_forgets_query:
  "match_route k r = match_route k r' \<Longrightarrow> login_target k (Some r) = login_target k (Some r')"
  by (simp add: login_target_def)

section \<open>Concrete visits\<close>

text \<open>A site whose routes are their paths below the group, and a server that knows an administrator.\<close>

definition small_site :: kit where
  "small_site =
     \<lparr>resolve = (\<lambda>i. if i = ''/(auth)/editor'' then ''/editor'' else i),
      match_route = (\<lambda>p. if takeWhile (\<lambda>c. c \<noteq> CHR ''?'') p = ''/admin/users'' then Some ''/admin/users'' else None)\<rparr>"

definition users_url :: page_url where
  "users_url = \<lparr>pathname = ''/admin/users'', search = ''?page=2''\<rparr>"

definition admin_user :: jsval where
  "admin_user = JObject [(''username'', JStr ''root''), (''role'', JStr ''admin'')]"

definition admin_server :: "app platform" where
  "admin_server = forbidding\<lparr>
     global_fetch := (\<lambda>req w. (Inr \<lparr>resp_status = 200, resp_headers = [(''content-type'', ''application/json'')],
        resp_text = Inr ''{}'', resp_form = Inr []\<rparr>, w)),
     json_parse := (\<lambda>_. Some admin_user)\<rparr>"

definition asked :: request where
  "asked = \<lparr>req_method = ''GET'', req_url = ''/api/v1/auth/me'', req_headers = [], req_body = JUndefined\<rparr>"

lemma me_runs:
  "attempt admin_server app_client me_options two_cookies =
     (Some asked,
      Some \<lparr>resp_status = 200, resp_headers = [(''content-type'', ''application/json'')],
        resp_text = Inr ''{}'', resp_form = Inr []\<rparr>,
      Inr (JsonData admin_user), two_cookies) \<and>
   attempt forbidding app_client me_options two_cookies =
     (Some asked,
      Some \<lparr>resp_status = 403, resp_headers = [], resp_text = Inr ''no'', resp_form = Inr []\<rparr>,
      Inl (Thrown (JStr ''no'')), two_cookies) \<and>
   \<not> throws app_client me_options \<and> style app_client me_options \<noteq> Some StyleData \<and>
   visit (\<lambda>user. fst (admin_load small_site user users_url)) admin_server app_client two_cookies = Loaded admin_user"
  by code_simp

theorem failed_session_check_witness:
  "visit (\<lambda>user. auth_load small_site user users_url) forbidding app_client two_cookies =
     ErrorPage (JNum 403) (JStr ''HTTP 403'')"
proof -
  have "''HTTP '' @ show_int 403 = ''HTTP 403''" by code_simp
  then show ?thesis
    using failed_session_check [OF app_client_initialized _ _ _ conjunct1 [OF conjunct2 [OF me_runs]], of users_url small_site]
    by (auto simp: fresh_client_def to_failure_def Let_def me_runs)
qed


theorem login_returns_witness:
  "\<exists>qs. login_location small_site users_url = ''/login?'' @ qs \<and>
     login_target small_site (login_redirect_param qs) = ''/admin/users'' \<and>
     login_target small_site (Some ''https://elsewhere.example'') = ''/editor''"
proof -
  have "match_route small_site (pathname users_url @ search users_url) = Some ''/admin/users''"
    "resolve small_site ''/admin/users'' = pathname users_url"
    "match_route small_site ''https://elsewhere.example'' = None" by code_simp+
  from login_returns [OF this] show ?thesis by (simp add: small_site_def users_url_def)
qed

end
