(* ===== verification/Notifications.thy ===== *)
theory Notifications
  imports Sse Session Formatters
begin

text \<open>
  Notifications: the stream of \<^verbatim>\<open>lib/notifications/stream.svelte.ts\<close>, how they are shown
  (\<^verbatim>\<open>lib/notifications/display.ts\<close>), the scripts of \<^verbatim>\<open>components/NotificationCenter.svelte\<close> and of
  \<^verbatim>\<open>routes/(auth)/notifications/+page.svelte\<close>, all below \<^verbatim>\<open>frontend/src\<close>.

  An \<open>AbortController\<close> is a number, counted up as they are made. A loop of \<open>#start\<close> belongs to the
  controller whose signal it got and to the callback it was started with; what it does with its stream
  is a function of what the event client of \<open>Sse\<close> observes.
\<close>

section \<open>The stream\<close>

record 'cb notification_stream =
  abortController :: "nat option"
  controllers :: nat
  aborted_controllers :: "nat set"
  loops :: "(nat \<times> 'cb) list"

definition NotificationStream :: "'cb notification_stream" where
  "NotificationStream = \<lparr>abortController = None, controllers = 0, aborted_controllers = {}, loops = []\<rparr>"

definition disconnect :: "'cb notification_stream \<Rightarrow> 'cb notification_stream" where
  "disconnect s =
     s\<lparr>aborted_controllers := (case abortController s of None \<Rightarrow> aborted_controllers s
                               | Some c \<Rightarrow> insert c (aborted_controllers s)),
       abortController := None\<rparr>"

definition connect_stream :: "'cb \<Rightarrow> 'cb notification_stream \<Rightarrow> 'cb notification_stream" where
  "connect_stream onNotification s =
     (let s1 = disconnect s; controller = controllers s1 in
      s1\<lparr>controllers := Suc controller, abortController := Some controller,
         loops := loops s1 @ [(controller, onNotification)]\<rparr>)"

text \<open>\<open>#start\<close>: the options of the stream, and what the loop does with each thing the client reports\<close>

definition notification_options :: "(string \<Rightarrow> jsval option) \<Rightarrow> sse_options" where
  "notification_options parse =
     \<lparr>responseValidator = None, responseTransformer = None, sseDefaultRetryDelay = Some 5000,
      sseMaxRetryAttempts = Some 3, sseMaxRetryDelay = Some 20000, parseJson = parse\<rparr>"

datatype stream_effect =
    Notify jsval \<comment> \<open>\<open>onNotification(data)\<close>\<close>
  | Desktop jsval jsval \<comment> \<open>\<open>new Notification(subject, {body, icon})\<close>\<close>
  | LostConnection js_error \<comment> \<open>the warning in the log\<close>
  | StreamStopped js_error \<comment> \<open>the error in the log\<close>

text \<open>
  \<open>granted\<close>: \<open>Notification\<close> exists and its permission is granted. Reading a property of \<open>null\<close> or
  \<open>undefined\<close> throws, which stops the loop.
\<close>

fun start_effects :: "bool \<Rightarrow> bool \<Rightarrow> sse_obs list \<Rightarrow> stream_effect list" where
  "start_effects granted isAborted [] = []"
| "start_effects granted isAborted (Yield d # os) =
     Notify d #
     (if granted
      then (if nullish d then [StreamStopped TypeError]
            else Desktop (get_prop d ''subject'') (get_prop d ''body'') # start_effects granted isAborted os)
      else start_effects granted isAborted os)"
| "start_effects granted isAborted (OnSseError e # os) =
     (if isAborted then [] else [LostConnection e]) @ start_effects granted isAborted os"
| "start_effects granted isAborted (ob # os) = start_effects granted isAborted os"

section \<open>How a notification is shown\<close>

definition SEVERITY_COLORS :: "NotificationSeverity \<Rightarrow> string" where
  "SEVERITY_COLORS s =
     (case s of
        NotificationSeverity.LOW \<Rightarrow> ''text-fg-muted''
      | NotificationSeverity.MEDIUM \<Rightarrow> ''text-info''
      | NotificationSeverity.HIGH \<Rightarrow> ''text-orange''
      | NotificationSeverity.URGENT \<Rightarrow> ''text-danger'')"

datatype notification_icon = CircleAlert | TriangleAlert | CircleCheck | Info

definition notificationIcon :: "string list \<Rightarrow> notification_icon" where
  "notificationIcon tags =
     (let has = (\<lambda>t. t \<in> set tags) in
      if has ''failed'' \<or> has ''error'' \<or> has ''security'' then CircleAlert
      else if has ''timeout'' \<or> has ''warning'' then TriangleAlert
      else if has ''completed'' \<or> has ''success'' then CircleCheck
      else Info)"

section \<open>The center and the page\<close>

record notification =
  notification_id :: string
  notification_status :: NotificationStatus
  action_url :: "string option"

text \<open>The request that \<open>markAsRead\<close> makes: the identifier it marks, if any\<close>

definition markAsRead :: "notification \<Rightarrow> string list" where
  "markAsRead n = (if notification_status n = NotificationStatus.READ then [] else [notification_id n])"

definition AUTO_READ_DELAY_MS :: int where
  "AUTO_READ_DELAY_MS = 2000"

text \<open>The second effect of the center: whether it sets a timer, and what the timer marks when it fires\<close>

definition auto_read_timer :: "bool \<Rightarrow> nat \<Rightarrow> int option" where
  "auto_read_timer showDropdown unreadCount =
     (if \<not> showDropdown \<or> unreadCount = 0 then None else Some AUTO_READ_DELAY_MS)"

definition auto_read :: "bool \<Rightarrow> notification list \<Rightarrow> string list" where
  "auto_read showDropdown ns = (if \<not> showDropdown then [] else concat (map markAsRead (take 5 ns)))"

text \<open>\<open>openPage\<close>: where it goes, and then the list closes\<close>

definition openPage :: "kit \<Rightarrow> string \<Rightarrow> string option" where
  "openPage k u = (case match_route k u of None \<Rightarrow> None | Some i \<Rightarrow> Some (resolve k i))"

text \<open>\<open>handleNotificationClick\<close>: what is marked, and the page that is opened\<close>

definition handleNotificationClick :: "kit \<Rightarrow> notification \<Rightarrow> string list \<times> string option" where
  "handleNotificationClick k n =
     (markAsRead n,
      case action_url n of None \<Rightarrow> None | Some u \<Rightarrow> if u = [] then None else openPage k u)"

text \<open>\<^verbatim>\<open>input.split(/[\s,]+/).map((s) => s.trim()).filter(Boolean)\<close>\<close>

definition tag_separator :: "char \<Rightarrow> bool" where
  "tag_separator c \<longleftrightarrow> is_space c \<or> c = CHR '',''"

function split_tags :: "string \<Rightarrow> string list" where
  "split_tags s =
     (case dropWhile (\<lambda>c. \<not> tag_separator c) s of
        [] \<Rightarrow> [s]
      | c # r \<Rightarrow> takeWhile (\<lambda>c. \<not> tag_separator c) s # split_tags (dropWhile tag_separator r))"
  by pat_completeness auto
termination
proof (relation "measure length")
  fix s c r assume "dropWhile (\<lambda>c. \<not> tag_separator c) s = c # r"
  then have "length (c # r) \<le> length s" by (metis length_dropWhile_le)
  then show "(dropWhile tag_separator r, s) \<in> measure length"
    using length_dropWhile_le [of tag_separator r] by simp
qed simp

declare split_tags.simps [simp del]

definition parseTags :: "string \<Rightarrow> string list" where
  "parseTags input = filter (\<lambda>s. s \<noteq> []) (map trim (split_tags input))"

definition applyFilters :: "string \<Rightarrow> string \<Rightarrow> string \<Rightarrow> props" where
  "applyFilters includeTags excludeTags tagPrefix =
     [(''include_tags'', JArray (map JStr (parseTags includeTags))),
      (''exclude_tags'', JArray (map JStr (parseTags excludeTags))),
      (''tag_prefix'', if trim tagPrefix = [] then JUndefined else JStr (trim tagPrefix))]"

text \<open>\<open>isDeleting\<close> and \<open>deleteNotification\<close>; the pending deletion, if any\<close>

definition isDeleting :: "string option \<Rightarrow> string \<Rightarrow> bool" where
  "isDeleting pending i \<longleftrightarrow> pending = Some i"

definition deleteNotification :: "string option \<Rightarrow> string \<Rightarrow> string option" where
  "deleteNotification pending i = (if isDeleting pending i then None else Some i)"

section \<open>At most one live subscription\<close>

datatype 'cb stream_op = ConnectOp 'cb | DisconnectOp

fun run_op :: "'cb stream_op \<Rightarrow> 'cb notification_stream \<Rightarrow> 'cb notification_stream" where
  "run_op (ConnectOp cb) s = connect_stream cb s"
| "run_op DisconnectOp s = disconnect s"

text \<open>The specification: the subscription that is live, if any, as its callback.\<close>

fun spec_op :: "'cb stream_op \<Rightarrow> 'cb list \<Rightarrow> 'cb list" where
  "spec_op (ConnectOp cb) live = [cb]"
| "spec_op DisconnectOp live = []"

definition live_loops :: "'cb notification_stream \<Rightarrow> (nat \<times> 'cb) list" where
  "live_loops s = filter (\<lambda>l. fst l \<notin> aborted_controllers s) (loops s)"

definition stream_ok :: "'cb notification_stream \<Rightarrow> bool" where
  "stream_ok s \<longleftrightarrow>
     map fst (loops s) = [0..<controllers s] \<and> aborted_controllers s \<subseteq> {..<controllers s} \<and>
     (\<forall>c < controllers s. c \<notin> aborted_controllers s \<longleftrightarrow> abortController s = Some c) \<and>
     (\<forall>c. abortController s = Some c \<longrightarrow> c < controllers s)"

lemma loop_controller: "stream_ok s \<Longrightarrow> l \<in> set (loops s) \<Longrightarrow> fst l < controllers s"
  by (metis atLeastLessThan_iff atLeastLessThan_upt image_eqI image_set stream_ok_def)

lemma stream_ok_initial: "stream_ok NotificationStream"
  by (simp add: stream_ok_def NotificationStream_def)

lemma stream_ok_disconnect: "stream_ok s \<Longrightarrow> stream_ok (disconnect s)"
  by (auto simp: stream_ok_def disconnect_def split: option.splits)

lemma disconnect_fields [simp]:
  "abortController (disconnect s) = None" "controllers (disconnect s) = controllers s" "loops (disconnect s) = loops s"
  by (simp_all add: disconnect_def)

lemma disconnected: "stream_ok s \<Longrightarrow> c < controllers s \<Longrightarrow> c \<in> aborted_controllers (disconnect s)"
  using stream_ok_disconnect [of s] by (auto simp: stream_ok_def)

lemma live_disconnect: "stream_ok s \<Longrightarrow> live_loops (disconnect s) = []"
  by (auto simp: live_loops_def filter_empty_conv intro: disconnected loop_controller)

lemma live_connect: "stream_ok s \<Longrightarrow> live_loops (connect_stream cb s) = [(controllers s, cb)]"
  using live_disconnect [of s] stream_ok_disconnect [of s]
  by (auto simp: live_loops_def connect_stream_def Let_def stream_ok_def)

lemma stream_ok_connect: "stream_ok s \<Longrightarrow> stream_ok (connect_stream cb s)"
  using stream_ok_disconnect [of s] disconnected [of s]
  by (auto simp: stream_ok_def connect_stream_def Let_def less_Suc_eq)

lemma stream_ok_run: "stream_ok s \<Longrightarrow> stream_ok (run_op a s)"
  by (cases a) (simp_all add: stream_ok_connect stream_ok_disconnect)

lemma run_op_refines: "stream_ok s \<Longrightarrow> map snd (live_loops (run_op a s)) = spec_op a (map snd (live_loops s))"
  by (cases a) (simp_all add: live_connect live_disconnect)

lemma run_ops_refine:
  "stream_ok s \<Longrightarrow> map snd (live_loops (fold run_op as s)) = fold spec_op as (map snd (live_loops s))"
  by (induction as arbitrary: s) (simp_all add: stream_ok_run run_op_refines)

text \<open>
  C31: whatever sequence of \<open>connect\<close> and \<open>disconnect\<close> calls the pages make, the loops whose signal is
  not aborted are exactly the subscription the specification keeps: none after a disconnect, and after
  a connect the one it started, with its own callback, every earlier one aborted.
\<close>

theorem one_live_subscription:
  "map snd (live_loops (fold run_op (as :: 'cb stream_op list) NotificationStream)) = fold spec_op as []"
proof -
  have "live_loops (NotificationStream :: 'cb notification_stream) = []"
    by (simp add: live_loops_def NotificationStream_def)
  then show ?thesis using run_ops_refine [OF stream_ok_initial, of as] by simp
qed

section \<open>The loop over the stream\<close>

lemma start_effects_append:
  assumes "\<not> granted"
  shows "start_effects granted a (xs @ ys) = start_effects granted a xs @ start_effects granted a ys"
  using assms by (induction granted a xs rule: start_effects.induct) auto

lemma notified_data:
  assumes "list_all (\<lambda>d. \<not> nullish d) (yields os)"
  shows "filter (\<lambda>e. case e of Notify _ \<Rightarrow> True | _ \<Rightarrow> False) (start_effects granted a os) = map Notify (yields os)"
  using assms by (induction granted a os rule: start_effects.induct) (auto simp: yields_def)

text \<open>Tags.\<close>

definition tag_ok :: "string \<Rightarrow> bool" where
  "tag_ok t \<longleftrightarrow> t \<noteq> [] \<and> list_all (\<lambda>c. \<not> tag_separator c) t"

lemma split_tags_single: "list_all (\<lambda>c. \<not> tag_separator c) s \<Longrightarrow> split_tags s = [s]"
proof -
  assume "list_all (\<lambda>c. \<not> tag_separator c) s"
  then have "dropWhile (\<lambda>c. \<not> tag_separator c) s = []" by (simp add: list_all_iff)
  then show ?thesis by (simp only: split_tags.simps [of s] list.case)
qed

lemma split_tags_free: "t \<in> set (split_tags s) \<Longrightarrow> list_all (\<lambda>c. \<not> tag_separator c) t"
proof (induction s rule: split_tags.induct)
  case (1 s)
  show ?case
  proof (cases "dropWhile (\<lambda>c. \<not> tag_separator c) s")
    case Nil
    then have "list_all (\<lambda>c. \<not> tag_separator c) s" by (simp add: list_all_iff)
    then show ?thesis using 1(2) by (simp add: split_tags_single)
  next
    case (Cons c r)
    then show ?thesis
      using 1 by (auto simp: split_tags.simps [of s] list_all_iff dest: set_takeWhileD)
  qed
qed

lemma trim_free: "list_all (\<lambda>c. \<not> tag_separator c) t \<Longrightarrow> trim t = t"
proof -
  assume "list_all (\<lambda>c. \<not> tag_separator c) t"
  then have s: "\<And>c. c \<in> set t \<Longrightarrow> \<not> is_space c" by (auto simp: list_all_iff tag_separator_def)
  have d: "dropWhile is_space u = u" if "\<And>c. c \<in> set u \<Longrightarrow> \<not> is_space c" for u
    using that by (cases u) auto
  have "dropWhile is_space t = t" by (rule d) (fact s)
  moreover have "dropWhile is_space (rev t) = rev t" by (rule d) (use s in auto)
  ultimately show ?thesis by (simp add: trim_def trimStart_def)
qed

lemma parseTags_ok: "list_all tag_ok (parseTags s)"
proof -
  have "tag_ok (trim t)" if "t \<in> set (split_tags s)" "trim t \<noteq> []" for t
    using split_tags_free [OF that(1)] that(2) by (simp add: trim_free tag_ok_def)
  then show ?thesis by (auto simp: parseTags_def list_all_iff)
qed

lemma split_tags_cons:
  "list_all (\<lambda>c. \<not> tag_separator c) t \<Longrightarrow> tag_separator c \<Longrightarrow>
   split_tags (t @ c # r) = t # split_tags (dropWhile tag_separator r)"
proof -
  assume t: "list_all (\<lambda>c. \<not> tag_separator c) t" and c: "tag_separator c"
  have "dropWhile (\<lambda>c. \<not> tag_separator c) (t @ c # r) = c # r"
    "takeWhile (\<lambda>c. \<not> tag_separator c) (t @ c # r) = t"
    using t c by (simp_all add: list_all_iff takeWhile_append dropWhile_append3)
  then show ?thesis by (simp add: split_tags.simps [of "t @ c # r"])
qed

text \<open>The tags a user types, separated by a comma and a space, are the tags that are sent.\<close>

lemma parseTags_join: "list_all tag_ok ts \<Longrightarrow> parseTags (join '', '' ts) = ts"
proof (induction "'', ''" ts rule: join.induct)
  case 1
  show ?case by (simp add: parseTags_def split_tags.simps [of "[]"] trim_def trimStart_def)
next
  case (2 x)
  then show ?case by (simp add: parseTags_def split_tags_single tag_ok_def trim_free)
next
  case (3 x y ys)
  have s: "tag_separator CHR '',''" "tag_separator CHR '' ''" by code_simp+
  obtain c u where u: "join '', '' (y # ys) = c # u" "\<not> tag_separator c"
  proof -
    from 3(2) obtain c v where "y = c # v" "\<not> tag_separator c" by (cases y) (auto simp: tag_ok_def)
    then show ?thesis using that by (cases ys) auto
  qed
  have "split_tags (x @ '', '' @ join '', '' (y # ys)) = x # split_tags (join '', '' (y # ys))"
    using split_tags_cons [of x "CHR '',''" "CHR '' '' # join '', '' (y # ys)"] 3(2) s u
    by (simp add: tag_ok_def)
  then show ?case using 3 by (simp add: parseTags_def tag_ok_def trim_free)
qed

text \<open>
  A server that is gone: three warnings at most, five and then ten seconds apart, and the loop is over.
\<close>

lemma notification_gives_up:
  assumes "length es = 3"
  shows "sleeps (fst (createSseClient (notification_options parse) (map (Attempt \<circ> FetchFails) es @ ts))) = [5000, 10000]"
    and "snd (createSseClient (notification_options parse) (map (Attempt \<circ> FetchFails) es @ ts)) = Ended"
proof -
  let ?st = "\<lparr>lastEventId = None, retryDelay = 5000\<rparr> :: sse_state"
  have o: "sseMaxRetryAttempts (notification_options parse) = Some (int (0 + length es))"
    "sseMaxRetryDelay (notification_options parse) = Some 20000"
    using assms by (simp_all add: notification_options_def)
  have "createSseClient (notification_options parse) = sse_loop (notification_options parse) 0 ?st"
    by (simp add: createSseClient_def notification_options_def fun_eq_iff)
  moreover have ne: "es \<noteq> []" using assms by auto
  moreover have "map (\<lambda>k. min (retryDelay ?st * 2 ^ k) 20000) [0..<0 + length es - 1] = [5000, 10000]"
    using assms by (simp add: upt_rec)
  ultimately show "sleeps (fst (createSseClient (notification_options parse) (map (Attempt \<circ> FetchFails) es @ ts))) = [5000, 10000]"
    "snd (createSseClient (notification_options parse) (map (Attempt \<circ> FetchFails) es @ ts)) = Ended"
    using sse_loop_all_fail [OF o(1) ne o(2), of ?st ts] by simp_all
qed

text \<open>Opening the list marks at most five notifications, none of them read before.\<close>

lemma auto_read_bound: "length (auto_read showDropdown ns) \<le> 5"
proof -
  have "length (concat (map markAsRead ms)) \<le> length ms" for ms
    by (induction ms) (auto simp: markAsRead_def)
  from this [of "take 5 ns"] show ?thesis by (simp add: auto_read_def)
qed

lemma auto_read_unread:
  "i \<in> set (auto_read showDropdown ns) \<Longrightarrow>
   \<exists>n \<in> set ns. notification_id n = i \<and> notification_status n \<noteq> NotificationStatus.READ"
  by (auto simp: auto_read_def markAsRead_def split: if_splits dest: in_set_takeD)

end
