(* ===== verification/Editor.thy ===== *)
theory Editor
  imports Execution WireSchemas
begin

text \<open>
  The editor page: the draft and its runtime (\<^verbatim>\<open>lib/editor/draft.svelte.ts\<close>, \<^verbatim>\<open>lib/editor/runtime.ts\<close>,
  \<^verbatim>\<open>lib/editor/languages.ts\<close>), the run button of \<^verbatim>\<open>routes/(auth)/editor/+page.svelte\<close>, and the scripts of
  the components around it, \<^verbatim>\<open>components/editor/ScriptActions.svelte\<close>, \<^verbatim>\<open>SavedScripts.svelte\<close>,
  \<^verbatim>\<open>LoadExample.svelte\<close> and \<^verbatim>\<open>LanguageSelect.svelte\<close>, all below \<^verbatim>\<open>frontend/src\<close>.

  The languages the API offers are an object: a list of entries in enumeration order. An operation
  returns the new draft, the toasts it shows and the requests it makes; the execution state is that of
  \<open>Execution\<close>.
\<close>

section \<open>Runtimes\<close>

record LanguageInfo =
  versions :: "string list"
  file_ext :: string

type_synonym offer = "(string \<times> LanguageInfo) list"

type_synonym runtime = "string \<times> string"

definition newest :: "LanguageInfo \<Rightarrow> string" where
  "newest info = (case versions info of [] \<Rightarrow> [] | v # _ \<Rightarrow> v)"

definition pickRuntime :: "runtime \<Rightarrow> offer \<Rightarrow> runtime" where
  "pickRuntime r offered =
     (case r of (l, v) \<Rightarrow>
        (case map_of offered l of
           Some info \<Rightarrow> (l, if v \<in> set (versions info) then v else newest info)
         | None \<Rightarrow> (case offered of [] \<Rightarrow> r | (first, info) # _ \<Rightarrow> (first, newest info))))"

section \<open>The draft\<close>

record draft =
  script_id :: "string option"
  name :: string
  script :: string
  lang :: string
  lang_version :: string

text \<open>The initial draft; the language is what \<open>zExecutionRequest\<close> fills in for \<open>{}\<close>.\<close>

definition initial_draft :: draft where
  "initial_draft = \<lparr>script_id = None, name = [], script = [], lang = ''python'', lang_version = ''3.14''\<rparr>"

record SavedScriptResponse =
  saved_id :: string
  saved_name :: string
  saved_script :: string
  saved_lang :: string
  saved_lang_version :: string

definition openScript :: "SavedScriptResponse \<Rightarrow> draft" where
  "openScript s =
     \<lparr>script_id = Some (saved_id s), name = saved_name s, script = saved_script s,
      lang = saved_lang s, lang_version = saved_lang_version s\<rparr>"

definition newScript :: "draft \<Rightarrow> draft" where
  "newScript d = d\<lparr>script_id := None, name := [], script := []\<rparr>"

definition draft_runtime :: "draft \<Rightarrow> runtime" where
  "draft_runtime d = (lang d, lang_version d)"

definition select_runtime :: "string \<Rightarrow> string \<Rightarrow> draft \<Rightarrow> draft" where
  "select_runtime l v d = d\<lparr>lang := l, lang_version := v\<rparr>"

text \<open>The editor modes there are; any other language gets none.\<close>

definition loaders :: "string list" where
  "loaders = [''python'', ''node'', ''go'', ''ruby'', ''bash'']"

definition loadLanguage :: "string \<Rightarrow> string option" where
  "loadLanguage l = (if l \<in> set loaders then Some l else None)"

section \<open>Running\<close>

datatype toast = Info_toast string | Success_toast string | Warning_toast string | Error_toast string

definition switched_message :: "draft \<Rightarrow> runtime \<Rightarrow> string" where
  "switched_message d r =
     ''Version '' @ lang_version d @ '' of '' @ fst r @ '' is no longer available, switched to '' @ snd r @ ''.''"

text \<open>The body of the request that \<open>execute\<close> starts with\<close>

record run_request =
  rr_script :: string
  rr_lang :: string
  rr_lang_version :: string

definition run ::
  "'m mutation_api \<Rightarrow> offer \<Rightarrow> draft \<times> 'm execution_state \<Rightarrow>
   toast list \<times> run_request \<times> draft \<times> 'm execution_state" where
  "run api offered s =
     (case s of (d, st) \<Rightarrow>
        let r = pickRuntime (draft_runtime d) offered;
            d1 = d\<lparr>lang := fst r, lang_version := snd r\<rparr>
        in (if fst r = lang d \<and> snd r \<noteq> lang_version d then [Info_toast (switched_message d r)] else [],
            \<lparr>rr_script = script d1, rr_lang = fst r, rr_lang_version = snd r\<rparr>,
            d1, execute api st))"

definition run_disabled :: "'m mutation_api \<Rightarrow> offer \<Rightarrow> 'm execution_state \<Rightarrow> bool" where
  "run_disabled api offered st \<longleftrightarrow> isExecuting api st \<or> offered = []"

section \<open>Saving, opening and deleting scripts\<close>

record script_body =
  sb_name :: string
  sb_script :: string
  sb_lang :: string
  sb_lang_version :: string

datatype script_call = CreateScript script_body | UpdateScript string script_body

definition save :: "offer \<Rightarrow> draft \<Rightarrow> toast list \<times> script_call option" where
  "save offered d =
     (let r = pickRuntime (draft_runtime d) offered;
          body = \<lparr>sb_name = name d, sb_script = script d, sb_lang = fst r, sb_lang_version = snd r\<rparr> in
      if trim (sb_name body) = [] then ([Warning_toast ''Please provide a name for your script.''], None)
      else (case script_id d of
              None \<Rightarrow> ([], Some (CreateScript body))
            | Some i \<Rightarrow> ([], Some (if i = [] then CreateScript body else UpdateScript i body))))"

text \<open>What follows a save: the toast, the draft, and a further call when the script is gone.\<close>

datatype save_answer = Saved string | Failed int

fun after_save :: "script_call \<Rightarrow> save_answer \<Rightarrow> draft \<Rightarrow> toast list \<times> draft \<times> script_call option" where
  "after_save (CreateScript b) (Saved i) d =
     ([Success_toast ''Script saved successfully.''], d\<lparr>script_id := Some i\<rparr>, None)"
| "after_save (CreateScript b) (Failed st) d = ([], d, None)"
| "after_save (UpdateScript i b) (Saved _) d = ([Success_toast ''Script updated successfully.''], d, None)"
| "after_save (UpdateScript i b) (Failed st) d =
     ([], d, if st = 404 then Some (CreateScript b) else None)"

definition startNew :: "'m mutation_api \<Rightarrow> draft \<times> 'm execution_state \<Rightarrow> toast list \<times> draft \<times> 'm execution_state" where
  "startNew api s = ([Info_toast ''New script started.''], newScript (fst s), reset api (snd s))"

definition open_saved ::
  "'m mutation_api \<Rightarrow> SavedScriptResponse \<Rightarrow> 'm execution_state \<Rightarrow> toast list \<times> draft \<times> 'm execution_state" where
  "open_saved api saved st =
     ([Info_toast (''Loaded script: '' @ saved_name saved)], openScript saved, reset api st)"

text \<open>The delete button asks first; a deleted script that is open becomes a new one.\<close>

definition confirmDelete :: "bool \<Rightarrow> string \<Rightarrow> string option" where
  "confirmDelete confirmed i = (if confirmed then Some i else None)"

definition after_delete :: "string \<Rightarrow> draft \<Rightarrow> toast list \<times> draft" where
  "after_delete i d =
     ([Success_toast ''Script deleted successfully.''], if script_id d = Some i then newScript d else d)"

definition load_example ::
  "'m mutation_api \<Rightarrow> (string \<times> string) list option \<Rightarrow> draft \<times> 'm execution_state \<Rightarrow>
   toast list \<times> draft \<times> 'm execution_state" where
  "load_example api examples s =
     (case s of (d, st) \<Rightarrow>
        (case (case examples of None \<Rightarrow> None | Some es \<Rightarrow> map_of es (lang d)) of
           Some example \<Rightarrow>
             if example = [] then ([Warning_toast (''No example script available for '' @ lang d @ ''.'')], d, st)
             else ([Info_toast (''Loaded example script for '' @ lang d @ ''.'')],
                   d\<lparr>script := example\<rparr>, reset api st)
         | None \<Rightarrow> ([Warning_toast (''No example script available for '' @ lang d @ ''.'')], d, st)))"

section \<open>Files\<close>

text \<open>\<open>toLowerCase\<close> in the range of a \<open>char\<close>\<close>

definition js_lower :: "char \<Rightarrow> char" where
  "js_lower c = (if is_upper c \<or> (192 \<le> cc c \<and> cc c \<le> 222 \<and> cc c \<noteq> 215) then char_of (cc c + 32) else c)"

definition file_extension :: "string \<Rightarrow> string" where
  "file_extension n = map js_lower (last (split ''.'' n))"

definition language_of_file :: "offer \<Rightarrow> string \<Rightarrow> string option" where
  "language_of_file offered n =
     map_option fst (List.find (\<lambda>e. file_ext (snd e) = file_extension n) offered)"

definition allowed_extensions :: "offer \<Rightarrow> string list" where
  "allowed_extensions offered = map (\<lambda>e. ''.'' @ file_ext (snd e)) offered"

text \<open>
  \<open>upload\<close>: the file's text is \<open>None\<close> when reading it fails; \<open>check\<close> is \<open>safeParse\<close> of the request's
  script, with the message of \<open>firstIssue\<close> when it fails.
\<close>

definition upload ::
  "'m mutation_api \<Rightarrow> offer \<Rightarrow> (string \<Rightarrow> string + string) \<Rightarrow> string \<Rightarrow> string option \<Rightarrow>
   draft \<times> 'm execution_state \<Rightarrow> toast list \<times> draft \<times> 'm execution_state" where
  "upload api offered check n contents s =
     (case s of (d, st) \<Rightarrow>
        (case language_of_file offered n of
           None \<Rightarrow>
             ([Error_toast (''Unsupported file type. Allowed: '' @ join '', '' (allowed_extensions offered))], d, st)
         | Some l \<Rightarrow>
             (case contents of
                None \<Rightarrow> ([Error_toast ''Failed to read the selected file.''], d, st)
              | Some t \<Rightarrow>
                  (case check t of
                     Inl message \<Rightarrow> ([Error_toast message], d, st)
                   | Inr sc \<Rightarrow>
                       ([Info_toast (''Loaded '' @ l @ '' script from '' @ n)],
                        \<lparr>script_id = None, name = n, script = sc, lang = l,
                         lang_version = (case map_of offered l of None \<Rightarrow> [] | Some info \<Rightarrow> newest info)\<rparr>,
                        reset api st)))))"

text \<open>\<^verbatim>\<open>s.replace(/\.[^.]+$/, '')\<close>: the last dot and what follows it, if something does\<close>

definition strip_extension :: "string \<Rightarrow> string" where
  "strip_extension s =
     (let ps = split ''.'' s in
      if length ps < 2 \<or> last ps = [] then s else join ''.'' (butlast ps))"

definition download_name :: "offer \<Rightarrow> draft \<Rightarrow> string" where
  "download_name offered d =
     (let ext = (case map_of offered (fst (pickRuntime (draft_runtime d) offered)) of
                   None \<Rightarrow> ''txt'' | Some info \<Rightarrow> file_ext info);
          base = strip_extension (trim (name d))
      in (if base = [] then ''script'' else base) @ ''.'' @ ext)"

section \<open>Lemmas\<close>

definition offered_runtime :: "offer \<Rightarrow> runtime \<Rightarrow> bool" where
  "offered_runtime offered r \<longleftrightarrow>
     (case map_of offered (fst r) of None \<Rightarrow> False | Some info \<Rightarrow> snd r \<in> set (versions info))"

definition full_offer :: "offer \<Rightarrow> bool" where
  "full_offer offered \<longleftrightarrow> offered \<noteq> [] \<and> list_all (\<lambda>e. versions (snd e) \<noteq> []) offered"

lemma newest_in: "versions info \<noteq> [] \<Longrightarrow> newest info \<in> set (versions info)"
  by (cases "versions info") (simp_all add: newest_def)

lemma pickRuntime_kept: "offered_runtime offered r \<Longrightarrow> pickRuntime r offered = r"
  by (cases r) (auto simp: offered_runtime_def pickRuntime_def split: option.splits)

lemma pickRuntime_offered:
  assumes "full_offer offered"
  shows "offered_runtime offered (pickRuntime r offered)"
proof (cases "map_of offered (fst r)")
  case None
  obtain l info es where o: "offered = (l, info) # es" using assms by (cases offered) (auto simp: full_offer_def)
  then have "pickRuntime r offered = (l, newest info)"
    using None by (cases r) (simp add: pickRuntime_def)
  moreover have "newest info \<in> set (versions info)" using assms o by (simp add: full_offer_def newest_in)
  ultimately show ?thesis using o by (simp add: offered_runtime_def)
next
  case (Some info)
  then have "versions info \<noteq> []"
    using assms map_of_SomeD [OF Some] by (auto simp: full_offer_def list_all_iff)
  then show ?thesis using Some newest_in [of info] by (cases r) (simp add: pickRuntime_def offered_runtime_def)
qed

lemma pickRuntime_language:
  "map_of offered (fst r) \<noteq> None \<Longrightarrow> fst (pickRuntime r offered) = fst r"
  by (cases r) (auto simp: pickRuntime_def)

lemma pickRuntime_idem: "full_offer offered \<Longrightarrow> pickRuntime (pickRuntime r offered) offered = pickRuntime r offered"
  by (rule pickRuntime_kept [OF pickRuntime_offered])

text \<open>The initial runtime is what the schema of an execution request fills in.\<close>

fun zpick :: "string list \<Rightarrow> zschema \<Rightarrow> zschema" where
  "zpick ks (ZObject fs) = ZObject (filter (\<lambda>f. fst f \<in> set ks) fs)"
| "zpick ks z = z"

lemma initial_runtime:
  "zparse (zpick [''lang'', ''lang_version''] zExecutionRequest) (VObject []) =
     Some (VObject [(''lang'', VStr (lang initial_draft)), (''lang_version'', VStr (lang_version initial_draft))])"
  by (simp add: zExecutionRequest_def initial_draft_def read_field_def)

text \<open>Saving what was just saved updates it; saving what was deleted elsewhere creates it again.\<close>

lemma save_again:
  assumes "save offered d = (ts, Some (CreateScript b))" and "i \<noteq> []"
    and "after_save (CreateScript b) (Saved i) d = (ts', d', c)"
  shows "save offered d' = ([], Some (UpdateScript i b))" "c = None"
  using assms by (auto simp: save_def Let_def draft_runtime_def split: if_splits option.splits)

lemma save_after_deletion:
  assumes "save offered d = (ts, Some (UpdateScript i b))"
  shows "after_save (UpdateScript i b) (Failed 404) d = ([], d, Some (CreateScript b))"
    and "sb_name b = name d" "sb_script b = script d"
  using assms by (auto simp: save_def Let_def split: if_splits option.splits)

lemma deleted_is_closed: "script_id (snd (after_delete i d)) \<noteq> Some i"
  by (simp add: after_delete_def newScript_def)

text \<open>
  C32: the run button never asks for a runtime the API does not offer. With an offer in which every
  language has a version, a run sends the draft's script with an offered language and version, makes
  them the draft's own and starts the execution from a clean state; a runtime that is offered is kept
  without a message, and running again changes nothing and says nothing.
\<close>

theorem run_uses_the_offer:
  assumes "full_offer offered" and "run api offered (d, st) = (ts, req, d', st')"
  shows "offered_runtime offered (rr_lang req, rr_lang_version req) \<and>
    rr_script req = script d \<and> draft_runtime d' = (rr_lang req, rr_lang_version req) \<and>
    st' = execute api st \<and> result st' = None \<and>
    (offered_runtime offered (draft_runtime d) \<longrightarrow> ts = [] \<and> d' = d) \<and>
    (case run api offered (d', st') of (ts2, req2, d2, _) \<Rightarrow> ts2 = [] \<and> req2 = req \<and> d2 = d')"
proof -
  define r where "r = pickRuntime (draft_runtime d) offered"
  have d': "d' = d\<lparr>lang := fst r, lang_version := snd r\<rparr>"
    and req: "req = \<lparr>rr_script = script d, rr_lang = fst r, rr_lang_version = snd r\<rparr>" "st' = execute api st"
    and ts: "ts = (if fst r = lang d \<and> snd r \<noteq> lang_version d then [Info_toast (switched_message d r)] else [])"
    using assms(2) by (auto simp: run_def Let_def r_def)
  have off: "offered_runtime offered r" unfolding r_def by (rule pickRuntime_offered [OF assms(1)])
  have dr: "draft_runtime d' = r" by (simp add: d' draft_runtime_def)
  have again: "pickRuntime (draft_runtime d') offered = r" unfolding dr by (rule pickRuntime_kept [OF off])
  have kept: "ts = [] \<and> d' = d" if "offered_runtime offered (draft_runtime d)"
    using pickRuntime_kept [OF that] by (simp add: ts d' r_def [symmetric]) (simp add: r_def draft_runtime_def)
  have "result st' = None" by (simp add: req(2) execute_def Let_def reset_def)
  moreover have "run api offered (d', st') = ([], req, d', execute api st')"
    unfolding run_def Let_def prod.case again by (simp add: d' req(1))
  moreover have "draft_runtime d' = (rr_lang req, rr_lang_version req)" "rr_script req = script d"
    "(rr_lang req, rr_lang_version req) = r"
    by (simp_all add: dr req(1))
  ultimately show ?thesis using off kept req(2) by simp
qed

definition two_languages :: offer where
  "two_languages =
     [(''python'', \<lparr>versions = [''3.14'', ''3.12''], file_ext = ''py''\<rparr>), (''go'', \<lparr>versions = [''1.24''], file_ext = ''go''\<rparr>)]"

theorem run_uses_the_offer_witness:
  "\<exists>st' :: bool execution_state. run flag_api two_languages (initial_draft\<lparr>lang_version := ''2.7'', script := ''1''\<rparr>,
       \<lparr>cur_phase = Idle, result = None, streamError = None, controller = None, start = False, aborted = {}, created = 0\<rparr>)
     = ([Info_toast ''Version 2.7 of python is no longer available, switched to 3.14.''],
        \<lparr>rr_script = ''1'', rr_lang = ''python'', rr_lang_version = ''3.14''\<rparr>,
        initial_draft\<lparr>script := ''1''\<rparr>, st') \<and> result st' = None \<and>
     offered_runtime two_languages (''python'', ''3.14'')"
proof -
  let ?d = "initial_draft\<lparr>lang_version := ''2.7'', script := ''1''\<rparr>"
  let ?st = "\<lparr>cur_phase = Idle, result = None, streamError = None, controller = None, start = False, aborted = {},
      created = 0\<rparr> :: bool execution_state"
  let ?req = "\<lparr>rr_script = ''1'', rr_lang = ''python'', rr_lang_version = ''3.14''\<rparr>"
  have p: "pickRuntime (draft_runtime ?d) two_languages = (''python'', ''3.14'')"
    "switched_message ?d (''python'', ''3.14'') = ''Version 2.7 of python is no longer available, switched to 3.14.''"
    "lang ?d = ''python''" "lang_version ?d \<noteq> ''3.14''"
    "?d\<lparr>lang := ''python'', lang_version := ''3.14''\<rparr> = initial_draft\<lparr>script := ''1''\<rparr>" "full_offer two_languages"
    "script ?d = ''1''"
    by code_simp+
  have r: "run flag_api two_languages (?d, ?st) =
      ([Info_toast ''Version 2.7 of python is no longer available, switched to 3.14.''], ?req,
       initial_draft\<lparr>script := ''1''\<rparr>, execute flag_api ?st)"
    using p(1-5,7) unfolding run_def Let_def prod.case by simp
  from run_uses_the_offer [OF p(6) r] show ?thesis using r by (intro exI [of _ "execute flag_api ?st"]) simp
qed

end
