(* ===== verification/Forms.thy ===== *)
theory Forms
  imports Formatters WireTyped Editor
begin

text \<open>
  The forms of the pages: the wording of a validation problem (\<^verbatim>\<open>frontend/src/lib/validation.ts\<close>), how a
  form is built from an API schema (\<^verbatim>\<open>lib/forms.ts\<close>), and what each form sends once it is submitted
  (\<^verbatim>\<open>routes/login\<close>, \<^verbatim>\<open>routes/register\<close>, \<^verbatim>\<open>routes/(auth)/settings\<close>,
  \<^verbatim>\<open>routes/admin/settings\<close>,
  \<^verbatim>\<open>components/admin/users/UserFormModal.svelte\<close> and \<^verbatim>\<open>RateLimitsModal.svelte\<close>).

  Zod (\<open>parse\<close>) and the superforms library are parameters: the library parses the data of the form with
  the schema it was given and calls \<open>onUpdate\<close> with the outcome, a \<open>submitted\<close> record here.
\<close>

section \<open>Validation messages\<close>

text \<open>
  A number as \<open>String(n)\<close> shows it, for a number with at most \<open>fuel\<close> decimals (a rule of the
  specification is written as such a literal).
\<close>

fun decimals :: "nat \<Rightarrow> rat \<Rightarrow> string" where
  "decimals 0 x = []"
| "decimals (Suc fuel) x =
     (if x = 0 then [] else show_nat (nat \<lfloor>x * 10\<rfloor>) @ decimals fuel (x * 10 - of_int \<lfloor>x * 10\<rfloor>))"

definition show_number :: "rat \<Rightarrow> string" where
  "show_number x =
     (let a = \<bar>x\<bar>; i = \<lfloor>a\<rfloor> in
      (if x < 0 then ''-'' else []) @ show_int i @ (if a = of_int i then [] else ''.'' @ decimals 15 (a - of_int i)))"

datatype path_key = Key string | Index nat

text \<open>An issue Zod raised: what is wrong, where, and Zod's own message.\<close>

datatype issue =
    Issue (problem: problem) (issue_path: "path_key list") (issue_message: string)
and problem =
    Too_small string rat \<comment> \<open>\<open>origin\<close> and \<open>minimum\<close>\<close>
  | Too_big string rat \<comment> \<open>\<open>origin\<close> and \<open>maximum\<close>\<close>
  | Invalid_format string
  | Invalid_type string data \<comment> \<open>\<open>expected\<close> and \<open>input\<close>\<close>
  | Invalid_union "issue list list"
  | Invalid_value
  | Other_problem string

fun issueMessage :: "issue \<Rightarrow> string option"
  and union_message :: "issue list list \<Rightarrow> string option" where
  "issueMessage (Issue (Too_small orig minimum) p m) =
     (if orig \<noteq> ''string'' then Some (''Must be at least '' @ show_number minimum)
      else Some (if minimum = 1 then ''Required'' else ''Must be at least '' @ show_number minimum @ '' characters''))"
| "issueMessage (Issue (Too_big orig maximum) p m) =
     Some (if orig = ''string'' then ''Must be at most '' @ show_number maximum @ '' characters''
       else ''Must be at most '' @ show_number maximum)"
| "issueMessage (Issue (Invalid_format f) p m) = Some (''Must be a valid '' @ f)"
| "issueMessage (Issue (Invalid_type expected input) p m) =
     Some (if input = VUndefined then ''Required'' else ''Must be a '' @ expected)"
| "issueMessage (Issue (Invalid_union branches) p m) = union_message branches"
| "issueMessage (Issue Invalid_value p m) = None"
| "issueMessage (Issue (Other_problem c) p m) = None"
| "union_message [] = None"
| "union_message ([] # branches) = union_message branches"
| "union_message ((i # rest) # branches) =
     (if problem i = Invalid_value then union_message branches else issueMessage i)"

definition lower_first :: "string \<Rightarrow> string" where
  "lower_first s = (case s of [] \<Rightarrow> [] | c # cs \<Rightarrow> lower_char c # cs)"

definition firstIssue :: "issue list \<Rightarrow> string" where
  "firstIssue issues =
     (case issues of
        [] \<Rightarrow> ''Invalid input''
      | i # rest \<Rightarrow>
          let field = (case rev (issue_path i) of Key k # ks \<Rightarrow> fieldTitle k | _ \<Rightarrow> ''Value'') in
          case issueMessage i of
            None \<Rightarrow> field @ '': '' @ issue_message i
          | Some m \<Rightarrow>
              if m = [] then field @ '': '' @ issue_message i
              else if m = ''Required'' then field @ '' is required''
              else field @ '' '' @ lower_first m)"

section \<open>Building a form\<close>

definition filled :: "zschema \<Rightarrow> zschema" where
  "filled z = ZCheck z [MinLength 1]"

definition optionalText :: "zschema \<Rightarrow> zschema" where
  "optionalText z = ZUnion [ZLiteral '''', z]"

datatype 'h form_option = Flag bool | Setting string | Validators zschema | Handler 'h

text \<open>What \<open>apiForm\<close> hands to \<open>superForm\<close>: the starting values, if there are any, and the options.\<close>

definition apiForm ::
    "zschema \<Rightarrow> (string \<times> 'h form_option) list \<Rightarrow> data option \<Rightarrow>
      (data option \<times> zschema) \<times> (string \<times> 'h form_option) list" where
  "apiForm z opts initial =
     ((initial, z),
      spread [(''SPA'', Flag True), (''dataType'', Setting ''json''), (''applyAction'', Flag False),
        (''invalidateAll'', Flag False), (''resetForm'', Flag False), (''validators'', Validators z)] opts)"

text \<open>The form as \<open>onUpdate\<close> gets it: whether it is valid, its data, the fields with errors.\<close>

record submitted =
  valid :: bool
  form_data :: data
  errors :: "string list"

fun data_get :: "data \<Rightarrow> string \<Rightarrow> data" where
  "data_get (VObject es) k = read_field es k"
| "data_get _ k = VUndefined"

fun data_truthy :: "data \<Rightarrow> bool" where
  "data_truthy VUndefined = False"
| "data_truthy VNull = False"
| "data_truthy (VBool b) = b"
| "data_truthy (VNum n) = (n \<noteq> 0)"
| "data_truthy (VStr s) = (s \<noteq> [])"
| "data_truthy _ = True"

definition pick_fields :: "string list \<Rightarrow> data \<Rightarrow> data" where
  "pick_fields ks d = VObject (map (\<lambda>k. (k, data_get d k)) ks)"

text \<open>\<open>zod_object.shape.k\<close>\<close>

fun shape :: "zschema \<Rightarrow> string \<Rightarrow> zschema" where
  "shape (ZObject fs) k = (case map_of fs k of None \<Rightarrow> ZUnknown | Some z \<Rightarrow> z)"
| "shape _ k = ZUnknown"

section \<open>Login and registration\<close>

definition zLogin :: zschema where
  "zLogin =
     ZObject [
      (''username'', filled (shape zBodyLoginApiV1AuthLoginPost ''username'')),
      (''password'', filled (shape zBodyLoginApiV1AuthLoginPost ''password''))]"

definition login_update :: "submitted \<Rightarrow> data option" where
  "login_update f = (if valid f then Some (form_data f) else None)"

definition zRegister :: zschema where
  "zRegister =
     ZObject [
      (''email'', shape zUserCreateWritable ''email''),
      (''password'', shape zUserCreateWritable ''password''),
      (''username'', filled (shape zUserCreateWritable ''username'')),
      (''confirm_password'', ZString)]"

text \<open>The refinement over the parsed data\<close>

definition passwords_match :: "data \<Rightarrow> bool" where
  "passwords_match v \<longleftrightarrow> data_get v ''password'' = data_get v ''confirm_password''"

definition register_parse :: "(zschema \<Rightarrow> data \<Rightarrow> data option) \<Rightarrow> data \<Rightarrow> data option" where
  "register_parse parse v =
     (case parse zRegister v of None \<Rightarrow> None | Some w \<Rightarrow> if passwords_match w then Some w else None)"

definition register_update :: "submitted \<Rightarrow> data option" where
  "register_update f =
     (if \<not> valid f then None else Some (pick_fields [''username'', ''email'', ''password''] (form_data f)))"

section \<open>Creating and editing a user\<close>

datatype user_form_mode = CreateUser | EditUser data

definition user_form_schema :: "user_form_mode \<Rightarrow> zschema" where
  "user_form_schema opened =
     (let z = zUserCreateWritable in
      ZObject [
       (''username'', filled (shape z ''username'')),
       (''email'', shape z ''email''),
       (''password'',
         case opened of EditUser _ \<Rightarrow> optionalText (shape z ''password'') | CreateUser \<Rightarrow> shape z ''password''),
       (''role'', shape z ''role''),
       (''is_active'', shape z ''is_active'')])"

definition user_form_initial :: "user_form_mode \<Rightarrow> data option" where
  "user_form_initial opened =
     (case opened of
        CreateUser \<Rightarrow> None
      | EditUser user \<Rightarrow> Some (VObject [
          (''username'', data_get user ''username''),
          (''email'', data_get user ''email''),
          (''password'', VStr ''''),
          (''role'', data_get user ''role''),
          (''is_active'', data_get user ''is_active'')]))"

text \<open>The mutation a valid form runs: its body, and its path for an update\<close>

datatype user_call = Create_user data | Update_user data data

definition user_update_body :: "data \<Rightarrow> data" where
  "user_update_body d =
     VObject ([(''username'', data_get d ''username''), (''email'', data_get d ''email''),
       (''role'', data_get d ''role''), (''is_active'', data_get d ''is_active'')] @
       (if data_truthy (data_get d ''password'') then [(''password'', data_get d ''password'')] else []))"

definition user_form_update :: "user_form_mode \<Rightarrow> submitted \<Rightarrow> user_call option" where
  "user_form_update opened f =
     (if \<not> valid f then None
      else (case opened of
              CreateUser \<Rightarrow> Some (Create_user (form_data f))
            | EditUser user \<Rightarrow>
                Some (Update_user (VObject [(''user_id'', data_get user ''user_id'')])
                  (user_update_body (form_data f)))))"

section \<open>The settings of a user\<close>

definition settings_schema :: zschema where
  "settings_schema =
     ZObject [
      (''theme'', shape zUserSettings ''theme''),
      (''notifications'', zNotificationSettingsInput),
      (''editor'', zEditorSettingsInput)]"

definition settings_tabs :: "(string \<times> string) list" where
  "settings_tabs =
     [(''general'', ''General''), (''editor'', fieldTitle ''editor''), (''notifications'', fieldTitle ''notifications'')]"

definition settings_body :: "(string \<Rightarrow> bool) \<Rightarrow> data \<Rightarrow> data" where
  "settings_body tainted d =
     VObject (map (\<lambda>k. (k, if tainted k then data_get d k else VNull)) [''theme'', ''notifications'', ''editor''])"

text \<open>
  \<open>onUpdate\<close> of the page: the tab it shows next, its toasts and the body it saves. \<open>changed\<close> is
  \<open>isTainted()\<close>, \<open>tainted k\<close> is \<open>isTainted(k)\<close>.
\<close>

definition settings_update ::
    "bool \<Rightarrow> (string \<Rightarrow> bool) \<Rightarrow> submitted \<Rightarrow> string \<Rightarrow> string \<times> toast list \<times> data option" where
  "settings_update changed tainted f activeTab =
     (if \<not> valid f then
        (case List.find (\<lambda>tab. fst tab \<in> set (errors f)) settings_tabs of None \<Rightarrow> activeTab | Some tab \<Rightarrow> fst tab,
         [], None)
      else if \<not> changed then (activeTab, [Info_toast ''No changes to save''], None)
      else (activeTab, [], Some (settings_body tainted (form_data f))))"

text \<open>What the form starts over from whenever settings are loaded, saved or restored\<close>

definition settings_new_state :: "data \<Rightarrow> data" where
  "settings_new_state loaded = pick_fields [''theme'', ''notifications'', ''editor''] loaded"

text \<open>The success handlers: the cached settings, the queries to fetch again, the toast\<close>

datatype cache_step = Set_data string data | Invalidate string | Toast_shown toast | Hide_history

definition storeSettings :: "data \<Rightarrow> cache_step list" where
  "storeSettings d =
     [Set_data ''getUserSettingsApiV1UserSettingsGet'' d, Invalidate ''getSettingsHistoryApiV1UserSettingsHistoryGet'']"

definition settings_saved :: "data \<Rightarrow> cache_step list" where
  "settings_saved d = storeSettings d @ [Toast_shown (Success_toast ''Settings saved successfully'')]"

definition settings_restored :: "data \<Rightarrow> cache_step list" where
  "settings_restored d =
     storeSettings d @ [Hide_history, Toast_shown (Success_toast ''Settings restored successfully'')]"

definition restoreSettings :: "bool \<Rightarrow> string \<Rightarrow> data option" where
  "restoreSettings confirmed stamp =
     (if \<not> confirmed then None else Some (VObject [(''timestamp'', VStr stamp)]))"

section \<open>The settings of the system\<close>

definition system_settings_update :: "submitted \<Rightarrow> data option" where
  "system_settings_update f = (if valid f then Some (form_data f) else None)"

definition system_settings_saved :: "data \<Rightarrow> cache_step list" where
  "system_settings_saved d =
     [Set_data ''getSystemSettingsApiV1AdminSettingsGet'' d, Toast_shown (Success_toast ''Settings saved successfully'')]"

definition system_settings_reset :: "data \<Rightarrow> cache_step list" where
  "system_settings_reset d =
     [Set_data ''getSystemSettingsApiV1AdminSettingsGet'' d, Toast_shown (Success_toast ''Settings reset to defaults'')]"

definition resetSettings :: "bool \<Rightarrow> data option" where
  "resetSettings confirmed = (if \<not> confirmed then None else Some (VObject []))"

section \<open>The rate limits of a user\<close>

text \<open>\<open>z.parse({}).k\<close>: \<open>parse\<close> throws when the schema does not accept the empty object\<close>

definition schema_default :: "(zschema \<Rightarrow> data \<Rightarrow> data option) \<Rightarrow> zschema \<Rightarrow> data res" where
  "schema_default parse z = (case parse z (VObject []) of None \<Rightarrow> Inl (JSError ''ZodError'') | Some w \<Rightarrow> Inr w)"

definition DEFAULT_MULTIPLIER :: "(zschema \<Rightarrow> data \<Rightarrow> data option) \<Rightarrow> data res" where
  "DEFAULT_MULTIPLIER parse =
     rbind (schema_default parse zRateLimitUpdateRequest) (\<lambda>w. Inr (data_get w ''global_multiplier''))"

definition rate_limits_update :: "submitted \<Rightarrow> data option" where
  "rate_limits_update f = (if valid f then Some (form_data f) else None)"

definition rate_limits_new_state :: "data \<Rightarrow> data" where
  "rate_limits_new_state loaded =
     pick_fields [''bypass_rate_limit'', ''global_multiplier'', ''rules'', ''notes''] (data_get loaded ''rate_limit_config'')"

text \<open>\<open>fl\<close> rounds a product to the nearest double.\<close>

definition effectiveRequests :: "(rat \<Rightarrow> rat) \<Rightarrow> rat \<Rightarrow> rat \<Rightarrow> int" where
  "effectiveRequests fl multiplier requests = \<lfloor>fl (requests * multiplier)\<rfloor>"

definition addRule :: "(zschema \<Rightarrow> data \<Rightarrow> data option) \<Rightarrow> data list \<Rightarrow> data list res" where
  "addRule parse rules = rbind (schema_default parse zRateLimitRuleRequest) (\<lambda>r. Inr (rules @ [r]))"

definition removeRule :: "int \<Rightarrow> data list \<Rightarrow> data list" where
  "removeRule index rules = map snd (filter (\<lambda>(i, r). int i \<noteq> index) (enumerate 0 rules))"

section \<open>Messages\<close>

text \<open>The wording is one of two kinds of sentence, so that \<open>firstIssue\<close> can put a field's name in front.\<close>

lemma message_kinds:
  "issueMessage i = Some m \<Longrightarrow> m = ''Required'' \<or> startsWith m ''Must be ''"
  "union_message bs = Some m \<Longrightarrow> m = ''Required'' \<or> startsWith m ''Must be ''"
  by (induction i and bs rule: issueMessage_union_message.induct) (auto split: if_splits)

lemma lower_first_must: "startsWith m ''Must be '' \<Longrightarrow> \<exists>r. m = ''Must be '' @ r \<and> lower_first m = ''must be '' @ r"
  proof -
  have "lower_char CHR ''M'' = CHR ''m''" by code_simp
  then show "startsWith m ''Must be '' \<Longrightarrow> \<exists>r. m = ''Must be '' @ r \<and> lower_first m = ''must be '' @ r"
    by (auto simp: startsWith_iff lower_first_def)
qed

text \<open>The union of \<open>optionalText\<close>: the rule of the API is reported, not the literal that failed too.\<close>

lemma optionalText_reports_rule:
  "problem i \<noteq> Invalid_value \<Longrightarrow>
   issueMessage (Issue (Invalid_union [[Issue Invalid_value p m], i # is]) q m') = issueMessage i"
  by simp

text \<open>
  What a form or an upload shows for a failed parse always names the field that failed: it says that
  the field is required, or what it must be, or gives Zod's own message; and it is empty for no parse.
\<close>

theorem firstIssue_names_the_field:
  "firstIssue (Issue c (ks @ [Key k]) m # is) = fieldTitle k @ '' is required'' \<or>
   (\<exists>rule. firstIssue (Issue c (ks @ [Key k]) m # is) = fieldTitle k @ '' must be '' @ rule) \<or>
   issueMessage (Issue c (ks @ [Key k]) m) = None \<and>
     firstIssue (Issue c (ks @ [Key k]) m # is) = fieldTitle k @ '': '' @ m"
proof (cases "issueMessage (Issue c (ks @ [Key k]) m)")
  case None
  then show ?thesis by (simp add: firstIssue_def)
next
  case (Some w)
  from message_kinds(1) [OF this] show ?thesis
  proof
    assume "w = ''Required''"
    then show ?thesis using Some by (simp add: firstIssue_def)
  next
    assume "startsWith w ''Must be ''"
    then obtain r where "w = ''Must be '' @ r" "lower_first w = ''must be '' @ r"
      using lower_first_must by blast
    then show ?thesis using Some by (auto simp: firstIssue_def)
  qed
qed

section \<open>What the forms send\<close>

text \<open>superforms calls \<open>onUpdate\<close> with a valid form only when the form's schema accepted its data.\<close>

definition superform :: "(data \<Rightarrow> data option) \<Rightarrow> submitted \<Rightarrow> bool" where
  "superform accept f \<longleftrightarrow> \<not> valid f \<or> (\<exists>v. accept v = Some (form_data f))"

lemma parsed_field:
  assumes "zod_outputs parse" and "parse (ZObject fs) v = Some w" and "(k, z) \<in> set fs" and "subtype (infer z) t"
  shows "has_type t (data_get w k)"
proof -
  have "output_of parse (ZObject fs) w" using assms(1,2) unfolding zod_outputs_def by blast
  then obtain es where es: "w = VObject es" "\<forall>f \<in> set fs. \<exists>u. parse (snd f) u = Some (read_field es (fst f))"
    by auto
  then obtain u where "parse z u = Some (read_field es k)" using assms(3) by fastforce
  then show ?thesis using es(1) schema_sound [OF assms(1,4)] by simp
qed

lemma read_pick: "read_field (map (\<lambda>k. (k, g k)) ks) k = (if k \<in> set ks then g k else VUndefined)"
  by (auto simp: read_field_def map_of_map_restrict split: option.splits)

lemma picked_object:
  assumes "\<And>k opt t. (k, opt, t) \<in> set gs \<Longrightarrow> (k \<in> set ks \<and> has_type t (g k)) \<or> (opt \<and> k \<notin> set ks)"
  shows "has_type (TObject gs) (VObject (map (\<lambda>k. (k, g k)) ks))"
proof -
  have "fst (snd f) \<and> read_field (map (\<lambda>k. (k, g k)) ks) (fst f) = VUndefined \<or>
      has_type (snd (snd f)) (read_field (map (\<lambda>k. (k, g k)) ks) (fst f))" if "f \<in> set gs" for f
    using assms [of "fst f" "fst (snd f)" "snd (snd f)"] that unfolding read_pick by (cases "fst f \<in> set ks") simp_all
  then show ?thesis unfolding has_object by blast
qed

lemma union_member: "t \<in> set ts \<Longrightarrow> has_type t v \<Longrightarrow> has_type (TUnion ts) v"
  by (auto simp: list_ex_iff)

lemma read_append: "read_field (es @ fs) k = (case map_of es k of None \<Rightarrow> read_field fs k | Some v \<Rightarrow> v)"
  by (simp add: read_field_def map_add_def split: option.splits)


lemma update_body_typed:
  assumes "has_type TString (data_get d ''username'')" and "has_type TString (data_get d ''email'')"
    and "has_type UserRole_type (data_get d ''role'')" and "has_type TBoolean (data_get d ''is_active'')"
    and "has_type TString (data_get d ''password'')"
  shows "has_type UserUpdateWritable_type (user_update_body d)"
  using assms unfolding user_update_body_def UserUpdateWritable_type_def has_object
  by (intro exI conjI ballI refl) (auto simp: read_field_def)

lemma user_shapes:
  "shape zUserCreateWritable ''username'' = ZString"
  "shape zUserCreateWritable ''email'' = ZEmail"
  "shape zUserCreateWritable ''password'' = ZCheck ZString [MinLength 8]"
  "shape zUserCreateWritable ''role'' = ZDefault (ZOptional zUserRole_schema) (VStr ''user'')"
  "shape zUserCreateWritable ''is_active'' = ZDefault (ZOptional ZBoolean) (VBool True)"
  by (simp_all add: zUserCreateWritable_def)

lemma role_typed: "subtype (infer (ZDefault (ZOptional zUserRole_schema) (VStr ''user''))) UserRole_type"
  by code_simp

lemma active_typed: "subtype (infer (ZDefault (ZOptional ZBoolean) (VBool True))) TBoolean"
  by code_simp

lemma register_body_typed:
  assumes "zod_outputs parse" and "superform (register_parse parse) f" and "register_update f = Some b"
  shows "has_type UserCreateWritable_type b"
proof -
  from assms(2,3) obtain v where p: "parse zRegister v = Some (form_data f)"
    by (auto simp: superform_def register_update_def register_parse_def split: if_splits option.splits)
  have b: "b = pick_fields [''username'', ''email'', ''password''] (form_data f)"
    using assms(3) by (auto simp: register_update_def split: if_splits)
  note field = parsed_field [OF assms(1) p [unfolded zRegister_def]]
  have "has_type TString (data_get (form_data f) ''username'')"
    by (rule field [of _ "filled (shape zUserCreateWritable ''username'')"])
      (simp_all add: filled_def user_shapes subtype_rules)
  moreover have "has_type TString (data_get (form_data f) ''email'')"
    by (rule field [of _ "shape zUserCreateWritable ''email''"]) (simp_all add: user_shapes subtype_rules)
  moreover have "has_type TString (data_get (form_data f) ''password'')"
    by (rule field [of _ "shape zUserCreateWritable ''password''"]) (simp_all add: user_shapes subtype_rules)
  ultimately show ?thesis unfolding b pick_fields_def UserCreateWritable_type_def
    by (intro picked_object) auto
qed

lemma user_create_typed:
  assumes "zod_outputs parse" and "superform (parse (user_form_schema CreateUser)) f"
    and "user_form_update CreateUser f = Some (Create_user b)"
  shows "has_type UserCreateWritable_type b"
proof -
  from assms(2,3) obtain v where p: "parse (user_form_schema CreateUser) v = Some b"
    by (auto simp: superform_def user_form_update_def split: if_splits)
  have "subtype (infer (user_form_schema CreateUser)) UserCreateWritable_type"
    by code_simp
  then show ?thesis by (rule schema_sound [OF assms(1) _ p])
qed

lemma user_update_typed:
  assumes "zod_outputs parse" and "superform (parse (user_form_schema (EditUser u))) f"
    and "user_form_update (EditUser u) f = Some (Update_user path b)"
  shows "has_type UserUpdateWritable_type b"
proof -
  from assms(2,3) obtain v where p: "parse (user_form_schema (EditUser u)) v = Some (form_data f)"
    by (auto simp: superform_def user_form_update_def split: if_splits)
  have b: "b = user_update_body (form_data f)"
    using assms(3) by (auto simp: user_form_update_def split: if_splits)
  note field = parsed_field [OF assms(1) p [unfolded user_form_schema_def Let_def]]
  show ?thesis unfolding b
  proof (rule update_body_typed)
    show "has_type TString (data_get (form_data f) ''username'')"
      by (rule field [of _ "filled (shape zUserCreateWritable ''username'')"])
        (simp_all add: filled_def user_shapes subtype_rules)
    show "has_type TString (data_get (form_data f) ''email'')"
      by (rule field [of _ "shape zUserCreateWritable ''email''"]) (simp_all add: user_shapes subtype_rules)
    show "has_type TString (data_get (form_data f) ''password'')"
      by (rule field [of _ "optionalText (shape zUserCreateWritable ''password'')"])
        (simp_all add: optionalText_def user_shapes subtype_rules)
    show "has_type UserRole_type (data_get (form_data f) ''role'')"
      by (rule field [of _ "shape zUserCreateWritable ''role''"]) (simp_all add: user_shapes role_typed del: infer.simps)
    show "has_type TBoolean (data_get (form_data f) ''is_active'')"
      by (rule field [of _ "shape zUserCreateWritable ''is_active''"])
        (simp_all add: user_shapes active_typed del: infer.simps)
  qed
qed

lemma settings_body_typed:
  assumes "zod_outputs parse" and "superform (parse settings_schema) f"
    and "settings_update changed tainted f tab = (tab', ts, Some b)"
  shows "has_type UserSettingsUpdate_type b"
proof -
  have v: "valid f" "b = settings_body tainted (form_data f)"
    using assms(3) by (auto simp: settings_update_def split: if_splits)
  then obtain v where p: "parse settings_schema v = Some (form_data f)"
    using assms(2) by (auto simp: superform_def)
  note field = parsed_field [OF assms(1) p [unfolded settings_schema_def]]
  have "has_type Theme_type (data_get (form_data f) ''theme'')"
  proof (rule field [of _ "shape zUserSettings ''theme''"])
    show "subtype (infer (shape zUserSettings ''theme'')) Theme_type" by code_simp
  qed simp
  moreover have "has_type NotificationSettingsInput_type (data_get (form_data f) ''notifications'')"
    by (rule field [of _ zNotificationSettingsInput]) (simp_all add: zNotificationSettingsInput_typed)
  moreover have "has_type EditorSettingsInput_type (data_get (form_data f) ''editor'')"
    by (rule field [of _ zEditorSettingsInput]) (simp_all add: zEditorSettingsInput_typed)
  ultimately show ?thesis unfolding v(2) settings_body_def UserSettingsUpdate_type_def
    by (intro picked_object) auto
qed

text \<open>\<open>z.object\<close> drops the keys it does not know.\<close>

definition strips_unknown :: "(zschema \<Rightarrow> data \<Rightarrow> data option) \<Rightarrow> bool" where
  "strips_unknown parse \<longleftrightarrow>
     (\<forall>fs v w k. parse (ZObject fs) v = Some w \<longrightarrow> k \<notin> set (map fst fs) \<longrightarrow> data_get w k = VUndefined)"

lemma login_body_typed:
  assumes "zod_outputs parse" and "strips_unknown parse" and "superform (parse zLogin) f"
    and "login_update f = Some b"
  shows "has_type BodyLoginApiV1AuthLoginPost_type b"
proof -
  from assms(3,4) obtain v where p: "parse zLogin v = Some b"
    by (auto simp: superform_def login_update_def split: if_splits)
  note field = parsed_field [OF assms(1) p [unfolded zLogin_def]]
  have "output_of parse zLogin b" using assms(1) p unfolding zod_outputs_def by blast
  then obtain es where b: "b = VObject es" by (auto simp: zLogin_def)
  have "has_type TString (data_get b ''username'')"
    by (rule field [of _ "filled (shape zBodyLoginApiV1AuthLoginPost ''username'')"])
      (simp_all add: filled_def zBodyLoginApiV1AuthLoginPost_def subtype_rules)
  moreover have "has_type TString (data_get b ''password'')"
    by (rule field [of _ "filled (shape zBodyLoginApiV1AuthLoginPost ''password'')"])
      (simp_all add: filled_def zBodyLoginApiV1AuthLoginPost_def subtype_rules)
  moreover have "data_get b k = VUndefined" if "k \<noteq> ''username''" "k \<noteq> ''password''" for k
    using assms(2) p that unfolding strips_unknown_def zLogin_def by fastforce
  ultimately show ?thesis unfolding b BodyLoginApiV1AuthLoginPost_type_def has_object by auto
qed

text \<open>The forms, the schema each was built with, the body it sends and the type its endpoint declares.\<close>

datatype page_form =
    Login_form
  | Register_form
  | User_form user_form_mode
  | Settings_form bool "string \<Rightarrow> bool" string
  | System_settings_form
  | Rate_limits_form

fun form_accepts :: "(zschema \<Rightarrow> data \<Rightarrow> data option) \<Rightarrow> page_form \<Rightarrow> data \<Rightarrow> data option" where
  "form_accepts parse Login_form = parse zLogin"
| "form_accepts parse Register_form = register_parse parse"
| "form_accepts parse (User_form opened) = parse (user_form_schema opened)"
| "form_accepts parse (Settings_form changed tainted tab) = parse settings_schema"
| "form_accepts parse System_settings_form = parse zSystemSettingsSchemaInput"
| "form_accepts parse Rate_limits_form = parse zRateLimitUpdateRequest"

fun form_body :: "page_form \<Rightarrow> submitted \<Rightarrow> data option" where
  "form_body Login_form f = login_update f"
| "form_body Register_form f = register_update f"
| "form_body (User_form opened) f =
     (case user_form_update opened f of
        None \<Rightarrow> None | Some (Create_user b) \<Rightarrow> Some b | Some (Update_user path b) \<Rightarrow> Some b)"
| "form_body (Settings_form changed tainted tab) f = snd (snd (settings_update changed tainted f tab))"
| "form_body System_settings_form f = system_settings_update f"
| "form_body Rate_limits_form f = rate_limits_update f"

fun form_endpoint :: "page_form \<Rightarrow> ts_type" where
  "form_endpoint Login_form = LoginApiV1AuthLoginPostData_type"
| "form_endpoint Register_form = RegisterApiV1AuthRegisterPostData_type"
| "form_endpoint (User_form CreateUser) = CreateUserApiV1AdminUsersPostData_type"
| "form_endpoint (User_form (EditUser u)) = UpdateUserApiV1AdminUsersUserIdPutData_type"
| "form_endpoint (Settings_form changed tainted tab) = UpdateUserSettingsApiV1UserSettingsPutData_type"
| "form_endpoint System_settings_form = UpdateSystemSettingsApiV1AdminSettingsPutData_type"
| "form_endpoint Rate_limits_form = UpdateUserRateLimitsApiV1AdminRateLimitsUserIdPutData_type"

lemma endpoint_bodies:
  "field_of ''body'' (form_endpoint Login_form) = BodyLoginApiV1AuthLoginPost_type"
  "field_of ''body'' (form_endpoint Register_form) = UserCreateWritable_type"
  "field_of ''body'' (form_endpoint (User_form CreateUser)) = UserCreateWritable_type"
  "field_of ''body'' (form_endpoint (User_form (EditUser u))) = UserUpdateWritable_type"
  "field_of ''body'' (form_endpoint (Settings_form changed tainted tab)) = UserSettingsUpdate_type"
  "field_of ''body'' (form_endpoint System_settings_form) = SystemSettingsSchemaInput_type"
  "field_of ''body'' (form_endpoint Rate_limits_form) = RateLimitUpdateRequest_type"
  by (simp_all add: LoginApiV1AuthLoginPostData_type_def
      RegisterApiV1AuthRegisterPostData_type_def CreateUserApiV1AdminUsersPostData_type_def
      UpdateUserApiV1AdminUsersUserIdPutData_type_def UpdateUserSettingsApiV1UserSettingsPutData_type_def
      UpdateSystemSettingsApiV1AdminSettingsPutData_type_def
      UpdateUserRateLimitsApiV1AdminRateLimitsUserIdPutData_type_def)

declare form_endpoint.simps [simp del]

lemma unchanged_body_typed:
  "zod_outputs parse \<Longrightarrow> superform (parse z) f \<Longrightarrow> valid f \<Longrightarrow> subtype (infer z) t \<Longrightarrow> has_type t (form_data f)"
  by (auto simp: superform_def intro: schema_sound)

text \<open>
  C35: whatever the user typed, the body that a form sends has the type its endpoint declares: the login,
  the registration, a created and an edited user, the settings of a user and of the system, and the rate
  limits. It rests on what Zod documents of its outputs and on superforms submitting what the schema
  accepted.
\<close>

theorem form_bodies_well_typed:
  assumes "zod_outputs parse" and "strips_unknown parse"
    and "superform (form_accepts parse F) f" and "form_body F f = Some b"
  shows "has_type (field_of ''body'' (form_endpoint F)) b"
proof (cases F)
  case Login_form
  then show ?thesis using login_body_typed [OF assms(1,2)] assms(3,4) by (simp add: endpoint_bodies)
next
  case Register_form
  then show ?thesis using register_body_typed [OF assms(1)] assms(3,4) by (simp add: endpoint_bodies)
next
  case (User_form opened)
  then show ?thesis
    using user_create_typed [OF assms(1), of f b] user_update_typed [OF assms(1), of _ f _ b] assms(3,4)
    by (cases opened) (auto simp: endpoint_bodies user_form_update_def split: if_splits)
next
  case (Settings_form changed tainted tab)
  then show ?thesis
    using settings_body_typed [OF assms(1), of f changed tainted tab] assms(3,4)
    by (metis endpoint_bodies(5) form_accepts.simps(4) form_body.simps(4) prod.collapse)
next
  case System_settings_form
  then show ?thesis
    using unchanged_body_typed [OF assms(1) _ _ zSystemSettingsSchemaInput_typed] assms(3,4)
    by (auto simp: endpoint_bodies system_settings_update_def split: if_splits)
next
  case Rate_limits_form
  then show ?thesis
    using unchanged_body_typed [OF assms(1) _ _ zRateLimitUpdateRequest_typed] assms(3,4)
    by (auto simp: endpoint_bodies rate_limits_update_def split: if_splits)
qed

lemma zparse_strips: "strips_unknown zparse"
proof -
  have "data_get w k = VUndefined"
    if p: "zparse (ZObject fs) v = Some w" and k: "k \<notin> set (map fst fs)" for fs v w k
  proof -
    obtain es ps where w: "w = VObject ps"
      "those (map (\<lambda>f. map_option (Pair (fst f)) (zparse (snd f) (read_field es (fst f)))) fs) = Some ps"
      using p by (auto split: data.splits if_splits)
    have "fst e \<in> set (map fst fs)" if e: "e \<in> set ps" for e
    proof -
      obtain f where "f \<in> set fs" "map_option (Pair (fst f)) (zparse (snd f) (read_field es (fst f))) = Some e"
        using those_member [OF w(2) e] by blast
      then show ?thesis by (cases e) auto
    qed
    then show ?thesis using k w(1) by (fastforce simp: read_field_def dest: map_of_SomeD split: option.splits)
  qed
  then show ?thesis by (simp add: strips_unknown_def)
qed

definition typed_in :: submitted where
  "typed_in = \<lparr>valid = True, form_data = VObject [(''username'', VStr ''ann''), (''email'', VStr ''ann@example.org''),
     (''password'', VStr ''''), (''role'', VStr ''user''), (''is_active'', VBool True)], errors = []\<rparr>"

theorem form_bodies_well_typed_witness:
  "has_type (field_of ''body'' (form_endpoint (User_form (EditUser VNull))))
     (VObject [(''username'', VStr ''ann''), (''email'', VStr ''ann@example.org''),
       (''role'', VStr ''user''), (''is_active'', VBool True)])"
proof (rule form_bodies_well_typed [OF zparse_outputs zparse_strips])
  have "zparse (user_form_schema (EditUser VNull)) (form_data typed_in) = Some (form_data typed_in)"
    by code_simp
  then show "superform (form_accepts zparse (User_form (EditUser VNull))) typed_in"
    by (auto simp: superform_def)
  show "form_body (User_form (EditUser VNull)) typed_in = Some
     (VObject [(''username'', VStr ''ann''), (''email'', VStr ''ann@example.org''),
       (''role'', VStr ''user''), (''is_active'', VBool True)])"
    by code_simp
qed

section \<open>Single forms\<close>

lemma map_of_rev_distinct: "distinct (map fst es) \<Longrightarrow> map_of (rev es) = map_of es"
  by (subst map_of_inject_set) (simp_all add: rev_map [symmetric])

text \<open>A form's options: the page's own win, the schema validates unless the page says otherwise.\<close>

lemma apiForm_options:
  "distinct (map fst opts) \<Longrightarrow>
   map_of (snd (apiForm z opts initial)) ''validators'' =
     (case map_of opts ''validators'' of None \<Rightarrow> Some (Validators z) | Some h \<Rightarrow> Some h)"
  "distinct (map fst opts) \<Longrightarrow> map_of opts k = Some h \<Longrightarrow> map_of (snd (apiForm z opts initial)) k = Some h"
  by (simp_all add: apiForm_def map_of_spread map_of_rev_distinct split: option.splits)

text \<open>Registering: what is sent is what both password fields held, and the second field is not sent.\<close>

lemma register_confirmed:
  assumes "superform (register_parse parse) f" and "register_update f = Some b"
  shows "data_get b ''password'' = data_get (form_data f) ''confirm_password''"
    and "data_get b ''confirm_password'' = VUndefined"
proof -
  have v: "valid f" and b: "b = pick_fields [''username'', ''email'', ''password''] (form_data f)"
    using assms(2) by (auto simp: register_update_def split: if_splits)
  then have "passwords_match (form_data f)"
    using assms(1) by (auto simp: superform_def register_parse_def split: if_splits option.splits)
  then show "data_get b ''password'' = data_get (form_data f) ''confirm_password''"
    by (simp add: b passwords_match_def pick_fields_def read_field_def)
  show "data_get b ''confirm_password'' = VUndefined" by (simp add: b pick_fields_def read_field_def)
qed

text \<open>Editing a user with the password field left empty keeps the password.\<close>

lemma empty_password_kept:
  "data_get d ''password'' = VStr [] \<Longrightarrow> data_get (user_update_body d) ''password'' = VUndefined"
  by (simp add: user_update_body_def read_field_def)

lemma typed_password_sent:
  "data_get d ''password'' = VStr (c # cs) \<Longrightarrow> data_get (user_update_body d) ''password'' = VStr (c # cs)"
  by (simp add: user_update_body_def read_field_def)

text \<open>Settings: nothing is saved without a change, a section that did not change is not sent.\<close>

lemma unchanged_settings_not_saved: "settings_update False tainted f tab = (tab', ts, b) \<Longrightarrow> b = None"
  by (auto simp: settings_update_def split: if_splits)

lemma only_changed_sections:
  assumes "settings_update changed tainted f tab = (tab', ts, Some b)" and "k \<in> {''theme'', ''notifications'', ''editor''}"
  shows "data_get b k = (if tainted k then data_get (form_data f) k else VNull)" "tab' = tab" "ts = []"
proof -
  have "b = settings_body tainted (form_data f)" "tab' = tab" "ts = []"
    using assms(1) by (auto simp: settings_update_def split: if_splits)
  then show "data_get b k = (if tainted k then data_get (form_data f) k else VNull)" "tab' = tab" "ts = []"
    using assms(2) by (auto simp: settings_body_def read_field_def)
qed

lemma restore_typed: "restoreSettings confirmed t = Some b \<Longrightarrow> has_type RestoreSettingsRequest_type b"
  by (auto simp: restoreSettings_def RestoreSettingsRequest_type_def read_field_def split: if_splits)

text \<open>An invalid form shows a tab that has an error, if one has.\<close>

lemma invalid_settings_show_error:
  assumes "\<not> valid f" and "fst t \<in> set (errors f)" and "t \<in> set settings_tabs"
  shows "fst (settings_update changed tainted f tab) \<in> set (errors f)"
proof -
  have "List.find (\<lambda>tab. fst tab \<in> set (errors f)) settings_tabs \<noteq> None"
    unfolding find_None_iff using assms(2,3) by blast
  then obtain u where "List.find (\<lambda>tab. fst tab \<in> set (errors f)) settings_tabs = Some u" by blast
  moreover from this have "fst u \<in> set (errors f)" unfolding find_Some_iff by metis
  ultimately show ?thesis using assms(1) by (simp add: settings_update_def)
qed

text \<open>Rules: removing by index, and the rule that was just added can be removed again.\<close>

lemma removeRule_at:
  "n < length rules \<Longrightarrow> removeRule (int n) rules = take n rules @ drop (Suc n) rules"
proof -
  have keep: "map snd (filter (\<lambda>(i, r). int i \<noteq> m) (enumerate k xs)) = xs"
    if "m < int k \<or> m \<ge> int (k + length xs)" for m k and xs :: "data list"
    using that by (induction xs arbitrary: k) auto
  have "map snd (filter (\<lambda>(i, r). int i \<noteq> int (k + n)) (enumerate k rules)) = take n rules @ drop (Suc n) rules"
    if "n < length rules" for k
    using that
  proof (induction rules arbitrary: k n)
    case (Cons r rules)
    show ?case
    proof (cases n)
      case 0
      then show ?thesis using keep [of "int k" "Suc k" rules] by simp
    next
      case (Suc m)
      then show ?thesis using Cons.IH [of m "Suc k"] Cons.prems by simp
    qed
  qed simp
  from this [of 0] show "n < length rules \<Longrightarrow> removeRule (int n) rules = take n rules @ drop (Suc n) rules"
    by (simp add: removeRule_def)
qed

lemma added_rule_removed:
  assumes "addRule parse rules = Inr rules'"
  shows "length rules' = Suc (length rules)" and "removeRule (int (length rules)) rules' = rules"
proof -
  obtain r where r: "rules' = rules @ [r]"
    using assms by (auto simp: addRule_def schema_default_def rbind_def split: option.splits)
  then show "length rules' = Suc (length rules)" by simp
  show "removeRule (int (length rules)) rules' = rules" using removeRule_at [of "length rules" rules'] r by simp
qed

lemma default_multiplier: "DEFAULT_MULTIPLIER zparse = Inr (VNum 1)"
  by code_simp

text \<open>The default multiplier changes no limit, and a larger limit stays larger.\<close>

lemma effectiveRequests_default:
  "rounds_to_double fl \<Longrightarrow> n < 2 ^ 53 \<Longrightarrow> effectiveRequests fl 1 (of_nat n) = int n"
  by (simp add: effectiveRequests_def rounds_to_double_def)

lemma effectiveRequests_mono:
  "rounds_to_double fl \<Longrightarrow> 0 \<le> multiplier \<Longrightarrow> r \<le> r' \<Longrightarrow>
   effectiveRequests fl multiplier r \<le> effectiveRequests fl multiplier r'"
  by (simp add: effectiveRequests_def rounds_to_double_def floor_mono mult_right_mono)

end
