(* ===== verification/Admin.thy ===== *)
theory Admin
  imports Forms Notifications
begin

text \<open>
  The administration pages and what they share: \<^verbatim>\<open>lib/admin\<close>, \<^verbatim>\<open>lib/badges.ts\<close>, \<^verbatim>\<open>lib/data-table.ts\<close>,
  \<^verbatim>\<open>components/Pagination.svelte\<close>, \<^verbatim>\<open>components/admin\<close> and \<^verbatim>\<open>routes/admin\<close>, all below \<^verbatim>\<open>frontend/src\<close>;
  and two small components of every page, \<^verbatim>\<open>Header.svelte\<close> and \<^verbatim>\<open>ErrorDisplay.svelte\<close>.

  A page's filters are the object the API takes, as \<open>data\<close>. An operation returns the new state of the page
  and the requests and toasts it makes; answers of the browser's \<open>confirm\<close> are arguments.
\<close>

section \<open>Labels\<close>

definition ADMIN_ROUTES :: "(string \<times> string \<times> string) list" where
  "ADMIN_ROUTES =
     [(''/admin/events'', ''Event Browser'', ''Event Browser''),
      (''/admin/executions'', ''Executions'', ''Execution Management''),
      (''/admin/users'', ''Users'', ''User Management''),
      (''/admin/settings'', ''Settings'', ''System Settings'')]"

definition EXECUTION_STATUS_BADGE :: "ExecutionStatus \<Rightarrow> string" where
  "EXECUTION_STATUS_BADGE s =
     (case s of
        ExecutionStatus.QUEUED \<Rightarrow> ''badge-neutral''
      | ExecutionStatus.SCHEDULED \<Rightarrow> ''badge-neutral''
      | ExecutionStatus.RUNNING \<Rightarrow> ''badge-info''
      | ExecutionStatus.COMPLETED \<Rightarrow> ''badge-success''
      | ExecutionStatus.FAILED \<Rightarrow> ''badge-danger''
      | ExecutionStatus.TIMEOUT \<Rightarrow> ''badge-warning''
      | ExecutionStatus.CANCELLED \<Rightarrow> ''badge-neutral''
      | ExecutionStatus.ERROR \<Rightarrow> ''badge-danger'')"

definition GROUP_COLORS :: "EndpointGroup \<Rightarrow> string" where
  "GROUP_COLORS g =
     (case g of
        EndpointGroup.EXECUTION \<Rightarrow> ''bg-purple-soft text-purple''
      | EndpointGroup.ADMIN \<Rightarrow> ''bg-danger-soft text-danger''
      | EndpointGroup.SSE \<Rightarrow> ''bg-warning-soft text-warning''
      | EndpointGroup.WEBSOCKET \<Rightarrow> ''bg-success-soft text-success''
      | EndpointGroup.AUTH \<Rightarrow> ''bg-info-soft text-info''
      | EndpointGroup.API \<Rightarrow> ''bg-muted''
      | EndpointGroup.PUBLIC \<Rightarrow> ''bg-indigo-soft text-indigo'')"

definition EVENT_TYPES :: "string list" where
  "EVENT_TYPES = map EventType_value EventType_members"

definition getEventTypeColor :: "string \<Rightarrow> string" where
  "getEventTypeColor t =
     (if str_includes t ''_completed'' \<or> str_includes t ''_succeeded'' then ''text-success''
      else if str_includes t ''_failed'' \<or> str_includes t ''_timeout'' then ''text-danger''
      else if str_includes t ''_started'' \<or> str_includes t ''_running'' then ''text-info''
      else if str_includes t ''_requested'' then ''text-purple''
      else if str_includes t ''_created'' then ''text-indigo''
      else if str_includes t ''_terminated'' then ''text-orange''
      else ''text-fg-muted'')"

section \<open>Filters of events\<close>

fun schema_keys :: "zschema \<Rightarrow> string list" where
  "schema_keys (ZObject fs) = map fst fs"
| "schema_keys z = []"

definition FILTER_KEYS :: "string list" where
  "FILTER_KEYS = schema_keys zEventFilter"

definition filter_set :: "data \<Rightarrow> bool" where
  "filter_set v = (case v of VArray vs \<Rightarrow> vs \<noteq> [] | _ \<Rightarrow> data_truthy v)"

definition activeFilterKeys :: "data \<Rightarrow> string list" where
  "activeFilterKeys fs = filter (\<lambda>k. filter_set (data_get fs k)) FILTER_KEYS"

definition hasActiveFilters :: "data \<Rightarrow> bool" where
  "hasActiveFilters fs = (length (activeFilterKeys fs) > 0)"

definition getActiveFilterCount :: "data \<Rightarrow> nat" where
  "getActiveFilterCount fs = length (activeFilterKeys fs)"

definition getActiveFilterSummary :: "data \<Rightarrow> string list" where
  "getActiveFilterSummary fs = map fieldTitle (activeFilterKeys fs)"

text \<open>
  The inputs of \<open>EventFilters\<close>: the types selected, a text field, and a time field, whose value is local
  wall time; \<open>parseISO\<close>, \<open>toISOString\<close> and \<open>format\<close> are those of the date library.
\<close>

definition selected_types :: "string list \<Rightarrow> data" where
  "selected_types sel = (if sel \<noteq> [] then VArray (map VStr sel) else VNull)"

definition text_filter :: "string \<Rightarrow> data" where
  "text_filter v = (if v \<noteq> [] then VStr v else VNull)"

record time_inputs =
  iso_of_local :: "string \<Rightarrow> string" \<comment> \<open>\<open>parseISO(value).toISOString()\<close>\<close>
  local_of_iso :: "string \<Rightarrow> string" \<comment> \<open>\<open>format(parseISO(timestamp), LOCAL_DATETIME)\<close>\<close>

definition inputValue :: "time_inputs \<Rightarrow> data \<Rightarrow> string" where
  "inputValue L t = (case t of VStr s \<Rightarrow> if s \<noteq> [] then local_of_iso L s else [] | _ \<Rightarrow> [])"

definition fromInput :: "time_inputs \<Rightarrow> string \<Rightarrow> data" where
  "fromInput L v = (if v \<noteq> [] then VStr (iso_of_local L v) else VNull)"

definition set_filter :: "string \<Rightarrow> data \<Rightarrow> data \<Rightarrow> data" where
  "set_filter k v fs = (case fs of VObject es \<Rightarrow> VObject (prop_set es k v) | _ \<Rightarrow> fs)"

section \<open>Paging\<close>

record paging =
  pageIndex :: int
  pageSize :: int

datatype updater = Value paging | Function "paging \<Rightarrow> paging"

text \<open>\<open>onPaginationChange\<close> of \<open>createServerTable\<close>: what is written to the page's pagination\<close>

definition onPaginationChange :: "updater \<Rightarrow> paging \<Rightarrow> paging" where
  "onPaginationChange u p = (case u of Value q \<Rightarrow> q | Function f \<Rightarrow> f p)"

definition page_start :: "paging \<Rightarrow> int \<Rightarrow> int" where
  "page_start p rowCount = min (pageIndex p * pageSize p + 1) rowCount"

definition page_end :: "paging \<Rightarrow> int \<Rightarrow> int" where
  "page_end p rowCount = min ((pageIndex p + 1) * pageSize p) rowCount"

definition skip_of :: "paging \<Rightarrow> int" where
  "skip_of p = pageIndex p * pageSize p"

section \<open>The event browser\<close>

datatype dialog =
    Closed
  | Details string
  | Overview string
  | Preview string int data \<comment> \<open>the event, how many events, their previews\<close>

record events_page =
  form_filters :: data
  applied :: data
  events_paging :: paging
  dialog :: dialog
  replaySessionId :: string

definition initial_events_page :: events_page where
  "initial_events_page =
     \<lparr>form_filters = VObject [], applied = VObject [], events_paging = \<lparr>pageIndex = 0, pageSize = 10\<rparr>,
      dialog = Closed, replaySessionId = []\<rparr>"

text \<open>The body of the list's request\<close>

definition events_query :: "events_page \<Rightarrow> data" where
  "events_query s =
     VObject [(''filters'', applied s), (''skip'', VNum (of_int (skip_of (events_paging s)))),
       (''limit'', VNum (of_int (pageSize (events_paging s))))]"

text \<open>Assigning \<open>applied\<close> computes the page index anew.\<close>

definition applyFilters_events :: "events_page \<Rightarrow> events_page" where
  "applyFilters_events s =
     s\<lparr>applied := form_filters s, events_paging := (events_paging s)\<lparr>pageIndex := 0\<rparr>\<rparr>"

definition clearFilters :: "events_page \<Rightarrow> events_page" where
  "clearFilters s = applyFilters_events (s\<lparr>form_filters := VObject []\<rparr>)"

text \<open>The two actions that ask first, and the calls they make\<close>

definition deleteEvent :: "bool \<Rightarrow> string \<Rightarrow> string option" where
  "deleteEvent confirmed eventId = (if \<not> confirmed then None else Some eventId)"

definition replayEvent :: "bool \<Rightarrow> string \<Rightarrow> bool \<Rightarrow> data option" where
  "replayEvent confirmed eventId dryRun =
     (if \<not> dryRun \<and> \<not> confirmed then None
      else Some (VObject [(''event_ids'', VArray [VStr eventId]), (''dry_run'', VBool dryRun)]))"

text \<open>The answer of a replay: \<open>session\<close> and \<open>previews\<close> may be missing\<close>

definition after_replay ::
    "string \<Rightarrow> bool \<Rightarrow> int \<Rightarrow> data list option \<Rightarrow> string option \<Rightarrow> events_page \<Rightarrow> toast list \<times> events_page" where
  "after_replay eventId dryRun count previews session s =
     (if \<not> dryRun then
        ([Success_toast ''Replay scheduled! Tracking progress...''],
         s\<lparr>replaySessionId := (case session of None \<Rightarrow> [] | Some i \<Rightarrow> i)\<rparr>)
      else
        (case previews of
           Some (p # ps) \<Rightarrow> ([], s\<lparr>dialog := Preview eventId count (VArray (p # ps))\<rparr>)
         | _ \<Rightarrow> ([Info_toast (''Dry run: '' @ show_int count @ '' events would be replayed'')], s)))"

text \<open>Values of the API as arguments of the client; the numbers of a query are integers.\<close>

fun js_of :: "data \<Rightarrow> jsval" where
  "js_of VUndefined = JUndefined"
| "js_of VNull = JNull"
| "js_of (VBool b) = JBool b"
| "js_of (VNum n) = JNum \<lfloor>n\<rfloor>"
| "js_of (VStr s) = JStr s"
| "js_of (VArray vs) = JArray (map js_of vs)"
| "js_of (VObject es) = JObject (map (\<lambda>e. (fst e, js_of (snd e))) es)"

fun js_props :: "data \<Rightarrow> props" where
  "js_props (VObject es) = map (\<lambda>e. (fst e, js_of (snd e))) es"
| "js_props d = []"

text \<open>The export opens a URL of the client; the schema of the query drops what it does not know.\<close>

definition export_config :: "string \<Rightarrow> data \<Rightarrow> 'w config" where
  "export_config format q =
     empty_config\<lparr>url := ''/api/v1/admin/events/export/{export_format}'',
       path := Some [(''export_format'', JStr format)], query := Some (js_props q)\<rparr>"

definition exportEvents ::
    "(zschema \<Rightarrow> data \<Rightarrow> data option) \<Rightarrow> 'w client \<Rightarrow> string \<Rightarrow> events_page \<Rightarrow> (string \<times> toast list) res" where
  "exportEvents parse cl format s =
     (case parse zExportEventsApiV1AdminEventsExportExportFormatGetQuery (applied s) of
        None \<Rightarrow> Inl (JSError ''ZodError'')
      | Some q \<Rightarrow>
          rbind (client_buildUrl cl (export_config format q))
            (\<lambda>u. Inr (u, [Info_toast (''Starting '' @ format @ '' export...'')])))"

section \<open>The replay banner\<close>

definition replay_options :: "(string \<Rightarrow> jsval option) \<Rightarrow> sse_options" where
  "replay_options parse =
     \<lparr>responseValidator = None, responseTransformer = None, sseDefaultRetryDelay = None,
      sseMaxRetryAttempts = Some 3, sseMaxRetryDelay = None, parseJson = parse\<rparr>"

datatype replay_effect =
    Session jsval \<comment> \<open>\<open>session = status\<close>\<close>
  | Replay_toast toast
  | Replay_lost js_error
  | Replay_stopped js_error

text \<open>\<open>status.errors?.[0]?.error || 'Unknown error'\<close>\<close>

definition first_error :: "jsval \<Rightarrow> string res" where
  "first_error st =
     (let e = get_prop (get_prop (get_prop st ''errors'') ''0'') ''error'' in
      if truthy e then to_string e else Inr ''Unknown error'')"

definition replay_toast :: "jsval \<Rightarrow> toast list res" where
  "replay_toast st =
     (if get_prop st ''status'' = JStr (ReplayStatus_value ReplayStatus.COMPLETED) then
        rbind (to_string (get_prop st ''replayed_events''))
          (\<lambda>n. Inr [Success_toast (''Replay completed! Processed '' @ n @ '' events successfully.'')])
      else if get_prop st ''status'' = JStr (ReplayStatus_value ReplayStatus.FAILED) then
        rbind (first_error st) (\<lambda>e. Inr [Error_toast (''Replay failed: '' @ e)])
      else Inr [])"

text \<open>\<open>follow\<close>; a status that cannot be read stops it, which is logged unless the banner was closed.\<close>

fun follow_replay :: "bool \<Rightarrow> sse_obs list \<Rightarrow> replay_effect list" where
  "follow_replay isClosed [] = []"
| "follow_replay isClosed (Yield st # os) =
     Session st #
     (case (if nullish st then Inl TypeError else replay_toast st) of
        Inl e \<Rightarrow> if isClosed then [] else [Replay_stopped e]
      | Inr ts \<Rightarrow> map Replay_toast ts @ follow_replay isClosed os)"
| "follow_replay isClosed (OnSseError e # os) =
     (if isClosed then [] else [Replay_lost e]) @ follow_replay isClosed os"
| "follow_replay isClosed (ob # os) = follow_replay isClosed os"

section \<open>The users and the executions\<close>

text \<open>A page of a list with filters: a filter that changes goes back to the first page.\<close>

record list_page =
  filters :: data
  list_paging :: paging

definition edit_filter :: "string \<Rightarrow> data \<Rightarrow> list_page \<Rightarrow> list_page" where
  "edit_filter k v s =
     (if data_get (filters s) k = v then s
      else s\<lparr>filters := set_filter k v (filters s), list_paging := (list_paging s)\<lparr>pageIndex := 0\<rparr>\<rparr>)"

definition reset_filters :: "data \<Rightarrow> list_page \<Rightarrow> list_page" where
  "reset_filters noFilters s = s\<lparr>filters := noFilters, list_paging := (list_paging s)\<lparr>pageIndex := 0\<rparr>\<rparr>"

definition no_user_filters :: data where
  "no_user_filters =
     VObject (map (\<lambda>k. (k, VNull)) [''search'', ''role'', ''is_active'', ''bypass_rate_limit'',
       ''has_custom_limits'', ''custom_multiplier''])"

definition initial_users_page :: list_page where
  "initial_users_page = \<lparr>filters = no_user_filters, list_paging = \<lparr>pageIndex = 0, pageSize = 10\<rparr>\<rparr>"

definition or_null :: "data \<Rightarrow> data" where
  "or_null v = (if data_truthy v then v else VNull)"

fun data_fields :: "data \<Rightarrow> (string \<times> data) list" where
  "data_fields (VObject es) = es"
| "data_fields d = []"

definition users_query :: "list_page \<Rightarrow> data" where
  "users_query s =
     VObject (spread (data_fields (filters s))
       [(''search'', or_null (data_get (filters s) ''search'')),
        (''limit'', VNum (of_int (pageSize (list_paging s)))),
        (''offset'', VNum (of_int (skip_of (list_paging s))))])"

definition hasFiltersActive :: "list_page \<Rightarrow> bool" where
  "hasFiltersActive s = list_ex (\<lambda>e. snd e \<noteq> VNull \<and> snd e \<noteq> VStr []) (data_fields (filters s))"

definition no_execution_filters :: data where
  "no_execution_filters = VObject [(''status'', VNull), (''priority'', VNull), (''user_id'', VNull)]"

definition initial_executions_page :: list_page where
  "initial_executions_page = \<lparr>filters = no_execution_filters, list_paging = \<lparr>pageIndex = 0, pageSize = 20\<rparr>\<rparr>"

definition executions_query :: "list_page \<Rightarrow> data" where
  "executions_query s =
     VObject (spread (data_fields (filters s))
       [(''user_id'', or_null (data_get (filters s) ''user_id'')),
        (''limit'', VNum (of_int (pageSize (list_paging s)))),
        (''skip'', VNum (of_int (skip_of (list_paging s))))])"

text \<open>Two cells of the table of executions\<close>

definition user_cell :: "string option \<Rightarrow> string" where
  "user_cell userId = (case userId of None \<Rightarrow> ''-'' | Some u \<Rightarrow> if u = [] then ''-'' else Formatters.truncate (Some u) 12)"

definition lang_cell :: "string \<Rightarrow> string \<Rightarrow> string" where
  "lang_cell l v = l @ '' '' @ v"

section \<open>The header\<close>

text \<open>\<open>indexOf\<close> gives \<open>-1\<close> for a mode that is not in the list.\<close>

fun index_of :: "'a list \<Rightarrow> 'a \<Rightarrow> int" where
  "index_of [] x = -1"
| "index_of (y # ys) x = (if y = x then 0 else let i = index_of ys x in if i < 0 then -1 else i + 1)"

definition next_theme :: "string \<Rightarrow> string" where
  "next_theme mode =
     (let themes = map Theme_value Theme_members in
      themes ! nat ((index_of themes mode + 1) mod int (length themes)))"

text \<open>The new mode, and the body of the request that saves it for a user who is logged in\<close>

definition handleToggleTheme :: "bool \<Rightarrow> string \<Rightarrow> string \<times> data option" where
  "handleToggleTheme loggedIn mode =
     (let next = next_theme mode in
      (next, if loggedIn then Some (VObject [(''theme'', VStr next)]) else None))"

definition isMenuActive :: "bool \<Rightarrow> bool \<Rightarrow> bool" where
  "isMenuActive desktop menuRequested \<longleftrightarrow> menuRequested \<and> \<not> desktop"

definition toggleMenu :: "bool \<Rightarrow> bool \<Rightarrow> bool" where
  "toggleMenu desktop menuRequested = (\<not> isMenuActive desktop menuRequested)"

section \<open>Errors of a page\<close>

definition isNetworkError :: "string \<Rightarrow> bool" where
  "isNetworkError msg =
     (let m = map js_lower msg in
      str_includes m ''network'' \<or> str_includes m ''fetch'' \<or> str_includes m ''connection'')"

definition userMessage :: "string \<Rightarrow> string" where
  "userMessage msg =
     (if isNetworkError msg
      then ''Unable to connect to the server. Please check your internet connection and try again.''
      else ''Something went wrong. Our team has been notified and is working on it.'')"

section \<open>Lemmas on pages\<close>

text \<open>The rows a page shows, counted from 1, and how many pages there are.\<close>

definition page_rows :: "int \<Rightarrow> int \<Rightarrow> int \<Rightarrow> int list" where
  "page_rows per n i = [page_start \<lparr>pageIndex = i, pageSize = per\<rparr> n..page_end \<lparr>pageIndex = i, pageSize = per\<rparr> n]"

definition page_count :: "int \<Rightarrow> int \<Rightarrow> nat" where
  "page_count per n = nat ((n + per - 1) div per)"

lemma page_exists: "0 < per \<Longrightarrow> 0 \<le> n \<Longrightarrow> i < page_count per n \<Longrightarrow> int i * per < n"
proof -
  assume *: "0 < per" "0 \<le> n" "i < page_count per n"
  then have "int i + 1 \<le> (n + per - 1) div per" by (simp add: page_count_def)
  then have "(int i + 1) * per \<le> (n + per - 1) div per * per" using *(1) by (simp add: mult_right_mono)
  also have "\<dots> \<le> n + per - 1"
    using pos_mod_sign [OF *(1), of "n + per - 1"] div_mult_mod_eq [of "n + per - 1" per] by linarith
  finally show "int i * per < n" by (simp add: algebra_simps)
qed

lemma page_rows_bounds:
  assumes "0 < per" and "int i * per < n"
  shows "page_rows per n (int i) = [int i * per + 1..min (int (Suc i) * per) n]"
  using assms by (simp add: page_rows_def page_start_def page_end_def algebra_simps)

lemma first_pages:
  "0 < per \<Longrightarrow> 0 \<le> n \<Longrightarrow> k \<le> page_count per n \<Longrightarrow>
   concat (map (\<lambda>i. page_rows per n (int i)) [0..<k]) = [1..min (int k * per) n]"
proof (induction k)
  case (Suc k)
  then have lt: "int k * per < n" using page_exists [of per n k] by simp
  have "concat (map (\<lambda>i. page_rows per n (int i)) [0..<Suc k]) =
      [1..int k * per] @ [int k * per + 1..min (int (Suc k) * per) n]"
    using Suc lt page_rows_bounds [of per k n] by simp
  also have "\<dots> = [1..min (int (Suc k) * per) n]"
  proof (cases k)
    case (Suc j)
    have "1 \<le> int k * per" using Suc \<open>0 < per\<close> mult_mono [of 1 "int k" 1 per] by simp
    moreover have "int k * per \<le> min (int (Suc k) * per) n" using lt \<open>0 < per\<close> by (simp add: algebra_simps)
    ultimately show ?thesis by (rule upto_split2 [symmetric])
  qed simp
  finally show ?case .
qed simp

lemma page_count_covers: "0 < per \<Longrightarrow> 0 \<le> n \<Longrightarrow> n \<le> int (page_count per n) * per"
proof -
  assume *: "0 < per" "0 \<le> n"
  then have "0 \<le> (n + per - 1) div per" by (simp add: pos_imp_zdiv_nonneg_iff)
  moreover have "n + per - 1 - (n + per - 1) mod per \<le> (n + per - 1) div per * per"
    by (simp add: minus_mod_eq_div_mult)
  moreover have "(n + per - 1) mod per < per" using *(1) by simp
  ultimately show ?thesis by (simp add: page_count_def)
qed

text \<open>
  C36: paging shows every row exactly once. For a list of \<open>n\<close> rows in pages of \<open>per\<close> rows, the ranges that the
  pages announce are, one after the other, the rows from 1 to \<open>n\<close>; and a page asks the server for the
  rows it announces, as many as fit: it skips the rows before its first one, and shows at most \<open>per\<close>.
\<close>

theorem pages_show_every_row_once:
  assumes "0 < per" and "0 \<le> n"
  shows "concat (map (\<lambda>i. page_rows per n (int i)) [0..<page_count per n]) = [1..n] \<and>
    (\<forall>i < page_count per n.
       skip_of \<lparr>pageIndex = int i, pageSize = per\<rparr> = hd (page_rows per n (int i)) - 1 \<and>
       page_rows per n (int i) \<noteq> [] \<and> length (page_rows per n (int i)) \<le> nat per)"
proof (intro conjI allI impI)
  show "concat (map (\<lambda>i. page_rows per n (int i)) [0..<page_count per n]) = [1..n]"
    using first_pages [OF assms order_refl] page_count_covers [OF assms] by simp
  fix i assume "i < page_count per n"
  then have lt: "int i * per < n" using page_exists [OF assms] by blast
  have le: "int i * per + 1 \<le> min (int (Suc i) * per) n" using lt assms(1) by (simp add: algebra_simps)
  note rows = page_rows_bounds [OF assms(1) lt]
  show "page_rows per n (int i) \<noteq> []" unfolding rows upto_Nil using le by linarith
  show "skip_of \<lparr>pageIndex = int i, pageSize = per\<rparr> = hd (page_rows per n (int i)) - 1"
    using le unfolding rows by (simp add: upto_rec1 skip_of_def)
  show "length (page_rows per n (int i)) \<le> nat per"
    unfolding rows by (simp add: algebra_simps)
qed

theorem pages_show_every_row_once_witness:
  "concat (map (\<lambda>i. page_rows 10 23 (int i)) [0..<page_count 10 23]) = [1..23] \<and> page_count 10 23 = 3"
  using pages_show_every_row_once [of 10 23] by (simp add: page_count_def)

section \<open>Lemmas on the event browser\<close>

lemma FILTER_KEYS_are:
  "FILTER_KEYS = [''event_types'', ''aggregate_id'', ''user_id'', ''start_time'', ''end_time'', ''service_name'', ''search_text'']"
  by (simp add: FILTER_KEYS_def zEventFilter_def)

lemma filters_counted:
  "hasActiveFilters fs \<longleftrightarrow> getActiveFilterCount fs \<noteq> 0"
  "length (getActiveFilterSummary fs) = getActiveFilterCount fs"
  "getActiveFilterCount fs \<le> 7"
  using length_filter_le [of _ FILTER_KEYS]
  by (simp_all add: hasActiveFilters_def getActiveFilterCount_def getActiveFilterSummary_def activeFilterKeys_def
      FILTER_KEYS_are)

lemma data_get_set_filter: "data_get (set_filter k v (VObject es)) j = (if j = k then v else data_get (VObject es) j)"
  by (simp add: set_filter_def read_field_def map_of_prop_set)

text \<open>Emptying an input of the form turns its filter off, filling it in turns it on.\<close>

lemma emptied_input_is_off:
  "filter_set (text_filter v) \<longleftrightarrow> v \<noteq> []"
  "filter_set (selected_types sel) \<longleftrightarrow> sel \<noteq> []"
  "iso_of_local L v \<noteq> [] \<Longrightarrow> filter_set (fromInput L v) \<longleftrightarrow> v \<noteq> []"
  by (auto simp: filter_set_def text_filter_def selected_types_def fromInput_def)

lemma set_filter_counts:
  assumes "k \<in> set FILTER_KEYS"
  shows "k \<in> set (activeFilterKeys (set_filter k v (VObject es))) \<longleftrightarrow> filter_set v"
  using assms by (simp add: activeFilterKeys_def data_get_set_filter)

text \<open>A time field reads back what was typed when the date library's functions are inverse on it.\<close>

lemma time_input_reads_back:
  "iso_of_local L v \<noteq> [] \<Longrightarrow> local_of_iso L (iso_of_local L v) = v \<Longrightarrow> inputValue L (fromInput L v) = v"
  by (simp add: inputValue_def fromInput_def)

text \<open>Applied filters start at the first page, and cleared ones filter nothing.\<close>

lemma apply_starts_over:
  "events_query (applyFilters_events s) =
     VObject [(''filters'', form_filters s), (''skip'', VNum 0), (''limit'', VNum (of_int (pageSize (events_paging s))))]"
  by (simp add: events_query_def applyFilters_events_def skip_of_def)

lemma clear_filters_all: "\<not> hasActiveFilters (applied (clearFilters s))" "pageIndex (events_paging (clearFilters s)) = 0"
  by (simp_all add: clearFilters_def applyFilters_events_def hasActiveFilters_def activeFilterKeys_def
      read_field_def filter_set_def)

text \<open>Events are processed again only after the question was answered with yes.\<close>

lemma replay_needs_confirmation:
  "replayEvent confirmed e dryRun = Some b \<Longrightarrow> data_get b ''dry_run'' = VBool False \<Longrightarrow> confirmed"
  by (auto simp: replayEvent_def read_field_def split: if_splits)

lemma dry_run_schedules_nothing:
  "replaySessionId (snd (after_replay e True count previews session s)) = replaySessionId s"
  by (auto simp: after_replay_def split: option.splits list.splits)

text \<open>
  The export follows all applied filters but one: the text that is searched for is no parameter of the
  export, and the schema drops it without a word.
\<close>

lemma export_forgets_search:
  assumes "''search_text'' \<notin> fst ` set es"
  shows "exportEvents zparse cl fmt (s\<lparr>applied := VObject (es @ [(''search_text'', VStr t)])\<rparr>) =
    exportEvents zparse cl fmt (s\<lparr>applied := VObject es\<rparr>)"
proof -
  have "read_field (es @ [(''search_text'', VStr t)]) k = read_field es k" if "k \<noteq> ''search_text''" for k
    using that by (simp add: read_field_def map_add_def split: option.splits)
  then show ?thesis
    by (simp add: exportEvents_def zExportEventsApiV1AdminEventsExportExportFormatGetQuery_def)
qed

lemma searching_shows_as_active:
  "t \<noteq> [] \<Longrightarrow> ''search_text'' \<in> set (activeFilterKeys (set_filter ''search_text'' (text_filter t) (VObject es)))"
  by (subst set_filter_counts) (simp_all add: FILTER_KEYS_are emptied_input_is_off)

section \<open>Lemmas on the other pages\<close>

text \<open>Every event type has one colour, the failures and only they the colour of danger.\<close>

lemma danger_is_failure:
  "list_all (\<lambda>t. (getEventTypeColor t = ''text-danger'') = (endsWith t ''_failed'' \<or> endsWith t ''_timeout'')) EVENT_TYPES"
  by code_simp

lemma edit_goes_to_first_page:
  "edit_filter k v s \<noteq> s \<Longrightarrow> pageIndex (list_paging (edit_filter k v s)) = 0"
  "pageIndex (list_paging (reset_filters fs s)) = 0"
  by (auto simp: edit_filter_def reset_filters_def)

lemma reset_is_inactive:
  "\<not> hasFiltersActive (reset_filters no_user_filters s)"
  by (simp add: hasFiltersActive_def reset_filters_def no_user_filters_def)

text \<open>The requests of the lists have the types their endpoints declare.\<close>

lemma read_spread:
  "read_field (spread a b) k = (case map_of (rev b) k of None \<Rightarrow> read_field a k | Some v \<Rightarrow> v)"
  by (simp add: read_field_def map_of_spread split: option.splits)

lemma users_query_typed:
  assumes "has_type (field_of ''query'' ListUsersApiV1AdminUsersGetData_type) (filters s)"
  shows "has_type (field_of ''query'' ListUsersApiV1AdminUsersGetData_type) (users_query s)"
proof -
  obtain es where "filters s = VObject es" using assms
    by (cases "filters s") (simp_all add: ListUsersApiV1AdminUsersGetData_type_def)
  then show ?thesis using assms
    by (auto simp: users_query_def ListUsersApiV1AdminUsersGetData_type_def read_spread or_null_def)
qed

lemma executions_query_typed:
  assumes "has_type (field_of ''query'' ListExecutionsApiV1AdminExecutionsGetData_type) (filters s)"
  shows "has_type (field_of ''query'' ListExecutionsApiV1AdminExecutionsGetData_type) (executions_query s)"
proof -
  obtain es where "filters s = VObject es" using assms
    by (cases "filters s") (simp_all add: ListExecutionsApiV1AdminExecutionsGetData_type_def)
  then show ?thesis using assms
    by (auto simp: executions_query_def ListExecutionsApiV1AdminExecutionsGetData_type_def read_spread or_null_def)
qed

lemma events_query_typed:
  "has_type EventFilter_type (applied s) \<Longrightarrow> has_type EventBrowseRequest_type (events_query s)"
  by (simp add: events_query_def EventBrowseRequest_type_def read_field_def)

lemma replay_typed: "replayEvent confirmed e dryRun = Some b \<Longrightarrow> has_type EventReplayRequest_type b"
  by (auto simp: replayEvent_def EventReplayRequest_type_def read_field_def split: if_splits)

section \<open>Lemmas on the header\<close>

text \<open>The toggle goes round the themes and leaves an unknown mode for the first.\<close>

lemma toggle_goes_round:
  "next_theme ''light'' = ''dark''" "next_theme ''dark'' = ''system''" "next_theme ''system'' = ''light''"
  by code_simp+

lemma toggle_thrice: "m \<in> set (map Theme_value Theme_members) \<Longrightarrow> next_theme (next_theme (next_theme m)) = m"
  by (auto simp: Theme_members_def toggle_goes_round)

lemma index_of_absent: "x \<notin> set xs \<Longrightarrow> index_of xs x = -1"
  by (induction xs) auto

lemma toggle_unknown: "m \<notin> set (map Theme_value Theme_members) \<Longrightarrow> next_theme m = ''light''"
  by (simp add: next_theme_def Let_def index_of_absent) (simp add: Theme_members_def)

lemma saved_theme_typed: "snd (handleToggleTheme loggedIn m) = Some b \<Longrightarrow> has_type ThemeUpdateRequest_type b"
proof -
  assume "snd (handleToggleTheme loggedIn m) = Some b"
  then have b: "b = VObject [(''theme'', VStr (next_theme m))]" by (auto simp: handleToggleTheme_def Let_def split: if_splits)
  have "next_theme m \<in> {''light'', ''dark'', ''system''}"
    using toggle_unknown [of m] toggle_goes_round by (auto simp: Theme_members_def)
  then show ?thesis unfolding b
    by (auto simp: ThemeUpdateRequest_type_def Theme_type_def Theme_members_def read_field_def)
qed

text \<open>The menu button shows what it will do: open a closed menu, close an open one.\<close>

lemma menu_toggles: "isMenuActive False (toggleMenu False r) \<longleftrightarrow> \<not> isMenuActive False r"
  by (simp add: isMenuActive_def toggleMenu_def)

section \<open>Lemmas on the replay banner\<close>

text \<open>The banner shows every status that arrives and can be read, and a closed banner logs nothing.\<close>

lemma replay_shows_statuses:
  assumes "list_all (\<lambda>st. \<not> nullish st \<and> (\<exists>ts. replay_toast st = Inr ts)) (yields os)"
  shows "List.map_filter (\<lambda>e. case e of Session st \<Rightarrow> Some st | _ \<Rightarrow> None) (follow_replay c os) = yields os"
  using assms
proof (induction c os rule: follow_replay.induct)
  case (2 c st os)
  then obtain ts where "\<not> nullish st" "replay_toast st = Inr ts" by (auto simp: yields_def List.map_filter_def)
  then show ?case using 2 by (simp add: yields_def List.map_filter_def comp_def)
qed (auto simp: yields_def List.map_filter_def)

lemma closed_banner_silent:
  "Replay_lost e \<notin> set (follow_replay True os)" "Replay_stopped e \<notin> set (follow_replay True os)"
  by (induction "True" os rule: follow_replay.induct) (auto split: sum.splits)

text \<open>A page never shows the text of an error.\<close>

lemma userMessage_fixed: "userMessage m = userMessage m' \<longleftrightarrow> isNetworkError m = isNetworkError m'"
  by (simp add: userMessage_def)

end
