(* ===== verification/Markup.thy ===== *)
theory Markup
  imports Admin
begin

text \<open>
  What a Svelte component renders, as a tree. The theories of views translate the markup of the components
  into definitions over it: \<open>{#if}\<close> is \<open>if\<close> or \<open>case\<close>, \<open>{#each}\<close> is a \<open>map\<close>, a snippet is a
  definition of its own, and an element keeps its attributes in their order. White space is as Svelte
  leaves it inside a text; between elements it is layout and left out, and so are transitions, which
  only animate. An element of a component library is a node with its name and its properties. The type
  \<open>'a\<close> is of the actions that the handlers of a component perform.
\<close>

section \<open>Trees\<close>

datatype 'a attr =
    Attr string string
  | Has string bool
  | Bound string string \<comment> \<open>\<open>bind:name\<close>, with the value it holds\<close>
  | Prop string data \<comment> \<open>a property of a component that is no text\<close>
  | On string 'a

datatype 'a node =
    Text string
  | Glyph nat \<comment> \<open>a character that is no code unit below 256\<close>
  | El string "'a attr list" "'a node list"

text \<open>\<open>class={[...]}\<close>: what is falsy is left out.\<close>

definition clsx :: "string list \<Rightarrow> string" where
  "clsx cs = join '' '' (filter (\<lambda>c. c \<noteq> []) cs)"

text \<open>A text that is \<open>null\<close> or empty is falsy.\<close>

definition truthy_text :: "string option \<Rightarrow> string option" where
  "truthy_text t = (case t of None \<Rightarrow> None | Some s \<Rightarrow> if s = [] then None else Some s)"

text \<open>
  What Svelte shows for a value: nothing for \<open>null\<close> and \<open>undefined\<close>. A number of the API that is shown as it
  is is whole.
\<close>

fun shown :: "data \<Rightarrow> string" where
  "shown (VStr s) = s"
| "shown (VNum n) = show_int \<lfloor>n\<rfloor>"
| "shown (VBool b) = (if b then ''true'' else ''false'')"
| "shown _ = []"

definition field_text :: "data \<Rightarrow> string \<Rightarrow> string" where
  "field_text d k = shown (data_get d k)"

fun data_items :: "data \<Rightarrow> data list" where
  "data_items (VArray vs) = vs"
| "data_items _ = []"

text \<open>A value that may be missing, as the argument of a formatter\<close>

fun text_option :: "data \<Rightarrow> string option" where
  "text_option (VStr s) = Some s"
| "text_option _ = None"

section \<open>Reading a tree\<close>

fun texts :: "'a node \<Rightarrow> string list" where
  "texts (Text t) = [t]"
| "texts (Glyph n) = []"
| "texts (El tag as ns) = concat (map texts ns)"

fun elements :: "'a node \<Rightarrow> (string \<times> 'a attr list) list" where
  "elements (Text t) = []"
| "elements (Glyph n) = []"
| "elements (El tag as ns) = (tag, as) # concat (map elements ns)"

text \<open>What the user can do: the handlers of the elements that are not disabled\<close>

definition disabled :: "'a attr list \<Rightarrow> bool" where
  "disabled as \<longleftrightarrow> Has ''disabled'' True \<in> set as"

definition handlers :: "'a attr list \<Rightarrow> 'a list" where
  "handlers as = concat (map (\<lambda>a. case a of On e act \<Rightarrow> [act] | _ \<Rightarrow> []) as)"

definition actions :: "'a node \<Rightarrow> 'a list" where
  "actions n = concat (map (\<lambda>e. if disabled (snd e) then [] else handlers (snd e)) (elements n))"

text \<open>Where its links lead\<close>

definition hrefs :: "'a attr list \<Rightarrow> string list" where
  "hrefs as = concat (map (\<lambda>a. case a of Attr k v \<Rightarrow> if k = ''href'' then [v] else [] | _ \<Rightarrow> []) as)"

definition links :: "'a node \<Rightarrow> string list" where
  "links n = concat (map (\<lambda>e. hrefs (snd e)) (elements n))"

definition all_links :: "'a node list \<Rightarrow> string list" where
  "all_links ns = concat (map links ns)"

definition all_texts :: "'a node list \<Rightarrow> string list" where
  "all_texts ns = concat (map texts ns)"

definition all_elements :: "'a node list \<Rightarrow> (string \<times> 'a attr list) list" where
  "all_elements ns = concat (map elements ns)"

definition all_actions :: "'a node list \<Rightarrow> 'a list" where
  "all_actions ns = concat (map actions ns)"

section \<open>Lemmas\<close>

named_theorems view_simps \<comment> \<open>reading a tree from its parts\<close>

lemma all_texts_simps [view_simps]:
  "all_texts [] = []" "all_texts (n # ns) = texts n @ all_texts ns" "all_texts (ns @ ms) = all_texts ns @ all_texts ms"
  by (simp_all add: all_texts_def)

lemma all_elements_simps [view_simps]:
  "all_elements [] = []" "all_elements (n # ns) = elements n @ all_elements ns"
  "all_elements (ns @ ms) = all_elements ns @ all_elements ms"
  by (simp_all add: all_elements_def)

lemma concat_map_concat: "concat (map f (concat (map g ns))) = concat (map (\<lambda>n. concat (map f (g n))) ns)"
  by (induction ns) simp_all

lemma actions_simps [view_simps]:
  "actions (Text t) = []" "actions (Glyph g) = []"
  "actions (El tag as ns) = (if disabled as then [] else handlers as) @ all_actions ns"
  by (simp_all add: actions_def [abs_def] all_actions_def concat_map_concat)

lemma all_actions_simps [view_simps]:
  "all_actions [] = []" "all_actions (n # ns) = actions n @ all_actions ns"
  "all_actions (ns @ ms) = all_actions ns @ all_actions ms"
  by (simp_all add: all_actions_def)

lemma hrefs_simps [view_simps]:
  "hrefs [] = []" "hrefs (On e act # as) = hrefs as" "hrefs (Attr k v # as) = (if k = ''href'' then v # hrefs as else hrefs as)"
  "hrefs (Has k b # as) = hrefs as" "hrefs (Bound k v # as) = hrefs as"
  "hrefs (Prop k d # as) = hrefs as"
  by (simp_all add: hrefs_def)

lemma links_simps [view_simps]:
  "links (Text t) = []" "links (Glyph g) = []" "links (El tag as ns) = hrefs as @ all_links ns"
  by (simp_all add: links_def [abs_def] all_links_def concat_map_concat)

lemma all_links_simps [view_simps]:
  "all_links [] = []" "all_links (n # ns) = links n @ all_links ns" "all_links (ns @ ms) = all_links ns @ all_links ms"
  by (simp_all add: all_links_def)

lemma texts_El [view_simps]: "texts (El tag as ns) = all_texts ns"
  by (simp add: all_texts_def)

lemma elements_El [view_simps]: "elements (El tag as ns) = (tag, as) # all_elements ns"
  by (simp add: all_elements_def)

declare texts.simps(3) [simp del] elements.simps(3) [simp del]

lemma handlers_simps [view_simps]:
  "handlers [] = []" "handlers (On e act # as) = act # handlers as" "handlers (Attr k v # as) = handlers as"
  "handlers (Has k b # as) = handlers as" "handlers (Bound k v # as) = handlers as"
  "handlers (Prop k d # as) = handlers as"
  by (simp_all add: handlers_def)

lemma disabled_simps [view_simps]:
  "disabled [] \<longleftrightarrow> False" "disabled (On e act # as) \<longleftrightarrow> disabled as" "disabled (Attr k v # as) \<longleftrightarrow> disabled as"
  "disabled (Has k b # as) \<longleftrightarrow> (k = ''disabled'' \<and> b) \<or> disabled as" "disabled (Bound k v # as) \<longleftrightarrow> disabled as"
  "disabled (Prop k d # as) \<longleftrightarrow> disabled as"
  by (auto simp: disabled_def)

lemma all_over_map [view_simps]:
  "all_texts (map f xs) = concat (map (\<lambda>x. texts (f x)) xs)"
  "all_elements (map f xs) = concat (map (\<lambda>x. elements (f x)) xs)"
  "all_actions (map f xs) = concat (map (\<lambda>x. actions (f x)) xs)"
  "all_links (map f xs) = concat (map (\<lambda>x. links (f x)) xs)"
  by (simp_all add: all_texts_def all_elements_def all_actions_def all_links_def comp_def)

lemma all_over_each [view_simps]:
  "all_texts (concat (map f xs)) = concat (map (\<lambda>x. all_texts (f x)) xs)"
  "all_elements (concat (map f xs)) = concat (map (\<lambda>x. all_elements (f x)) xs)"
  "all_actions (concat (map f xs)) = concat (map (\<lambda>x. all_actions (f x)) xs)"
  "all_links (concat (map f xs)) = concat (map (\<lambda>x. all_links (f x)) xs)"
  by (induction xs) (simp_all add: view_simps)

text \<open>A component inside another: its actions become actions of the other.\<close>

lemma texts_map [view_simps]: "texts (map_node g n) = texts n"
proof (induction n)
  case (El tag as ns)
  then have "concat (map (\<lambda>n. texts (map_node g n)) ns) = concat (map texts ns)" by (simp cong: map_cong)
  then show ?case by (simp only: node.map texts.simps map_map comp_def)
qed simp_all

lemma elements_map [view_simps]:
  "elements (map_node g n) = map (\<lambda>e. (fst e, map (map_attr g) (snd e))) (elements n)"
proof (induction n)
  case (El tag as ns)
  then have "concat (map (\<lambda>n. elements (map_node g n)) ns) =
      map (\<lambda>e. (fst e, map (map_attr g) (snd e))) (concat (map elements ns))"
    by (induction ns) simp_all
  then show ?case by (simp add: elements.simps(3) comp_def)
qed simp_all

lemma map_attr_keeps:
  "map_attr g a = Has k b \<longleftrightarrow> a = Has k b" "map_attr g a = Attr k v \<longleftrightarrow> a = Attr k v"
  "Has k b = map_attr g a \<longleftrightarrow> a = Has k b" "Attr k v = map_attr g a \<longleftrightarrow> a = Attr k v"
  by (cases a; auto)+

lemma attr_member_map [view_simps]:
  "Has k b \<in> set (map (map_attr g) as) \<longleftrightarrow> Has k b \<in> set as"
  "Attr k v \<in> set (map (map_attr g) as) \<longleftrightarrow> Attr k v \<in> set as"
  by (auto simp: image_iff map_attr_keeps)

lemma disabled_map [view_simps]: "disabled (map (map_attr g) as) = disabled as"
  unfolding disabled_def by (rule attr_member_map)

lemma handlers_map [view_simps]: "handlers (map (map_attr g) as) = map g (handlers as)"
  by (induction as) (auto simp: handlers_def split: attr.splits)

lemma hrefs_map [view_simps]: "hrefs (map (map_attr g) as) = hrefs as"
  by (induction as) (auto simp: hrefs_def split: attr.splits)

lemma actions_map [view_simps]: "actions (map_node g n) = map g (actions n)"
proof -
  have "concat (map (\<lambda>e. if disabled (map (map_attr g) (snd e)) then [] else handlers (map (map_attr g) (snd e))) es) =
      map g (concat (map (\<lambda>e. if disabled (snd e) then [] else handlers (snd e)) es))" for es :: "(string \<times> 'b attr list) list"
    by (induction es) (simp_all add: disabled_map handlers_map)
  then show ?thesis by (simp add: actions_def elements_map comp_def cong: if_cong)
qed

lemma links_map [view_simps]: "links (map_node g n) = links n"
  by (simp add: links_def elements_map hrefs_map comp_def)

end
