(* ===== verification/PageViews.thy ===== *)
theory PageViews
  imports Markup LiveRun
begin

text \<open>
  The markup that every user sees: the output of a run (\<^verbatim>\<open>components/editor/OutputPanel.svelte\<close>), the header
  with its menus and the notification center, the notifications page, and the components they and the
  administration pages are made of (\<^verbatim>\<open>Spinner\<close>, \<^verbatim>\<open>Modal\<close>, \<^verbatim>\<open>ErrorDisplay\<close>, \<^verbatim>\<open>DataTable\<close>, \<^verbatim>\<open>Pagination\<close>).
\<close>

section \<open>Small components\<close>

definition sizeClass :: "string \<Rightarrow> string" where
  "sizeClass sz =
     (if sz = ''small'' then ''size-4'' else if sz = ''large'' then ''size-8''
      else if sz = ''xlarge'' then ''size-12'' else ''size-6'')"

definition colorClass :: "string \<Rightarrow> string" where
  "colorClass color =
     (if color = ''white'' then ''text-white'' else if color = ''current'' then ''text-current''
      else if color = ''muted'' then ''text-fg-subtle'' else ''text-accent'')"

definition Spinner_view :: "string \<Rightarrow> string \<Rightarrow> string \<Rightarrow> 'a node list" where
  "Spinner_view sz color className =
     [El ''svg'' [Attr ''class'' (''animate-spin '' @ sizeClass sz @ '' '' @ colorClass color @ '' '' @ className),
         Attr ''xmlns'' ''http://www.w3.org/2000/svg'',
         Attr ''fill'' ''none'',
         Attr ''viewBox'' ''0 0 24 24'',
         Attr ''role'' ''status'',
         Attr ''aria-label'' ''Loading'']
        ([El ''circle'' [Attr ''class'' ''opacity-20'',
            Attr ''cx'' ''12'',
            Attr ''cy'' ''12'',
            Attr ''r'' ''10'',
            Attr ''stroke'' ''currentColor'',
            Attr ''stroke-width'' ''2''] [],
         El ''path'' [Attr ''class'' ''opacity-75'',
            Attr ''fill'' ''currentColor'',
            Attr ''d'' ''M12 2a10 10 0 00-10 10h2a8 8 0 018-8V2z''] []])]"

text \<open>As an element of another component\<close>

definition Spinner :: "string \<Rightarrow> string \<Rightarrow> string \<Rightarrow> 'a node" where
  "Spinner sz color className = hd (Spinner_view sz color className)"

definition modal_size :: "string \<Rightarrow> string" where
  "modal_size sz =
     (if sz = ''sm'' then ''max-w-md'' else if sz = ''md'' then ''max-w-2xl''
      else if sz = ''lg'' then ''max-w-4xl'' else ''max-w-6xl'')"

text \<open>\<open>onClose\<close> runs when the dialog asks to be closed; \<open>footer\<close> may be absent.\<close>

definition Modal_view :: "bool \<Rightarrow> string \<Rightarrow> 'a \<Rightarrow> string \<Rightarrow> 'a node list \<Rightarrow> 'a node list option \<Rightarrow> 'a node list" where
  "Modal_view opened title onClose sz children footer =
     [El ''Dialog.Root'' [Has ''open'' opened, On ''onOpenChange'' onClose]
        ([El ''Dialog.Portal'' []
           ([El ''Dialog.Overlay'' [Attr ''class'' ''fixed inset-0 z-50 bg-backdrop data-[state=open]:animate-in data-[state=open]:fade-in-0 data-[state=closed]:animate-out data-[state=closed]:fade-out-0''] [],
            El ''Dialog.Content'' [Attr ''class'' (''fixed left-1/2 top-1/2 z-50 flex max-h-[95vh] sm:max-h-[90vh] w-[calc(100%-1rem)] sm:w-[calc(100%-2rem)] -translate-x-1/2 -translate-y-1/2 flex-col rounded-lg bg-surface shadow-xl outline-none data-[state=open]:animate-in data-[state=open]:fade-in-0 data-[state=open]:zoom-in-95 data-[state=closed]:animate-out data-[state=closed]:fade-out-0 data-[state=closed]:zoom-out-95 '' @ modal_size sz)]
              ([El ''div'' [Attr ''class'' ''flex shrink-0 items-center justify-between border-b p-4 sm:p-6'']
                 ([El ''Dialog.Title'' [Attr ''class'' ''text-lg sm:text-xl font-semibold''] [Text title],
                  El ''Dialog.Close'' [Attr ''aria-label'' ''Close dialog'',
                     Attr ''class'' ''rounded-md text-fg-muted hover:text-fg''] ([El ''X'' [Attr ''size'' ''24''] []])]),
               El ''div'' [Attr ''class'' ''min-h-0 flex-1 overflow-y-auto p-4 sm:p-6''] (children)] @
              (case footer of
                Some foot \<Rightarrow>
                  [El ''div'' [Attr ''class'' ''flex shrink-0 justify-end gap-3 border-t p-4 sm:p-6''] (foot)]
              | None \<Rightarrow> []))])])]"

datatype error_action = Reload | GoHome

text \<open>What the two buttons set \<open>window.location\<close> to, \<open>None\<close> for the page itself\<close>

definition error_act :: "error_action \<Rightarrow> string option" where
  "error_act a = (case a of Reload \<Rightarrow> None | GoHome \<Rightarrow> Some ''/'')"

definition ErrorDisplay_view :: "string \<Rightarrow> string \<Rightarrow> error_action node list" where
  "ErrorDisplay_view title msg =
     [El ''div'' [Attr ''class'' ''min-h-dvh flex items-center justify-center p-4'']
        ([El ''div'' [Attr ''class'' ''max-w-lg w-full bg-surface rounded-xl border border-danger/30 shadow-lg p-6 sm:p-8'']
           ([El ''div'' [Attr ''class'' ''flex justify-center mb-6'']
              ([El ''div'' [Attr ''class'' ''size-16 rounded-full bg-danger-soft flex items-center justify-center'']
                 ([El ''TriangleAlert'' [Attr ''class'' ''size-8 text-danger''] []])]),
            El ''h1'' [Attr ''class'' ''text-xl sm:text-2xl text-center mb-2''] [Text title],
            El ''p'' [Attr ''class'' ''text-center text-fg-muted mb-6''] [Text (userMessage msg)],
            El ''div'' [Attr ''class'' ''flex flex-col sm:flex-row gap-3'']
              ([El ''button'' [Attr ''type'' ''button'',
                  On ''onclick'' Reload,
                  Attr ''class'' ''flex-1 btn btn-primary py-2.5 text-sm font-medium''] [Text ''Reload Page''],
               El ''button'' [Attr ''type'' ''button'',
                  On ''onclick'' GoHome,
                  Attr ''class'' ''flex-1 btn py-2.5 text-sm font-medium bg-page border hover:bg-muted transition-colors''] [Text ''Go to Home'']]),
            El ''p'' [Attr ''class'' ''mt-6 text-xs text-center text-fg-muted'']
              ([Text ''If this problem persists, please contact support.''])])])]"

section \<open>The output of a run\<close>

text \<open>A part of a text with escape sequences, as Anser splits it\<close>

record ansi_part =
  part_content :: string
  part_fg :: "string option"
  part_bg :: "string option"
  decorations :: "string list"

definition ansi_class :: "ansi_part \<Rightarrow> string" where
  "ansi_class p =
     clsx ([case truthy_text (part_fg p) of None \<Rightarrow> [] | Some c \<Rightarrow> c @ ''-fg'',
            case truthy_text (part_bg p) of None \<Rightarrow> [] | Some c \<Rightarrow> c @ ''-bg''] @
           map (\<lambda>d. ''ansi-'' @ d) (decorations p))"

text \<open>\<open>x.toFixed(3)\<close> for a number that is not negative\<close>

definition toFixed3 :: "rat \<Rightarrow> string" where
  "toFixed3 x =
     (let n = nat \<lfloor>1000 * x + 1 / 2\<rfloor>
      in show_nat (n div 1000) @ ''.'' @ show_nat (n div 100 mod 10) @ show_nat (n div 10 mod 10) @ show_nat (n mod 10))"

definition phaseLabel :: "ExecutionPhase \<Rightarrow> string" where
  "phaseLabel p =
     (case p of
        Starting \<Rightarrow> ''Starting...''
      | Active ExecutionStatus.QUEUED \<Rightarrow> ''Queued...''
      | Active ExecutionStatus.SCHEDULED \<Rightarrow> ''Scheduled...''
      | Active ExecutionStatus.RUNNING \<Rightarrow> ''Running...''
      | _ \<Rightarrow> ''Executing...'')"

datatype output_action = CopyToClipboard string string \<comment> \<open>the text and its label\<close>

text \<open>The toast of \<open>copyToClipboard\<close>, after a write that succeeded or failed\<close>

definition copyToClipboard :: "bool \<Rightarrow> string \<Rightarrow> toast" where
  "copyToClipboard written label =
     (if written then Success_toast (label @ '' copied to clipboard'')
      else Error_toast (''Failed to copy '' @ map js_lower label))"

definition ansi_view :: "(string \<Rightarrow> ansi_part list) \<Rightarrow> string \<Rightarrow> output_action node list" where
  "ansi_view ansiToJson content =
     concat (map (\<lambda>part.
         [El ''span'' [Attr ''class'' (ansi_class part)] [Text (part_content part)]]) (ansiToJson content))"

definition copyButton_view :: "string \<Rightarrow> string \<Rightarrow> string \<Rightarrow> string \<Rightarrow> string \<Rightarrow> output_action node list" where
  "copyButton_view content label ariaLabel tip tone =
     [El ''Tooltip.Root'' []
        ([El ''Tooltip.Trigger'' [Attr ''class'' (''inline-flex items-center p-1.5 rounded-lg opacity-70 hover:opacity-100 transition-colors '' @ tone),
            Attr ''aria-label'' ariaLabel,
            On ''onclick'' (CopyToClipboard content label)] ([El ''Copy'' [Attr ''class'' ''size-4''] []]),
         El ''Tooltip.Portal'' []
           ([El ''Tooltip.Content'' [Attr ''side'' ''top'', Attr ''sideOffset'' ''6'', Attr ''class'' ''tooltip-content''] [Text tip]])])]"

definition usageField_view :: "string \<Rightarrow> string \<Rightarrow> output_action node list" where
  "usageField_view key val =
     [El ''div'' []
        ([El ''dt'' [] [Text (fieldTitle key)],
         El ''dd'' [Attr ''class'' ''font-medium''] [Text val]])]"

definition result_view :: "(string \<Rightarrow> ansi_part list) \<Rightarrow> ExecutionResult \<Rightarrow> output_action node" where
  "result_view ansiToJson r =
     El ''div'' [Attr ''class'' ''space-y-5 animate-fly-in'']
       ([El ''div'' [Attr ''class'' ''flex flex-wrap items-center justify-between gap-x-4 gap-y-1 text-xs'']
          ([El ''span'' [Attr ''class'' (''badge whitespace-nowrap '' @ (EXECUTION_STATUS_BADGE (ExecutionResult.status r)))]
             ([El ''span'' [Attr ''class'' ''mr-1 opacity-75''] [Text (fieldTitle ''status'')],
              Text (ExecutionStatus_value (ExecutionResult.status r))])] @
          (if ExecutionResult.execution_id r \<noteq> [] then
              (let executionId = ExecutionResult.execution_id r in
              [El ''Tooltip.Root'' []
                 ([El ''Tooltip.Trigger'' [Attr ''class'' ''inline-flex items-center p-1.5 rounded-lg text-fg-muted hover:text-fg hover:bg-muted transition-colors'',
                     Attr ''aria-label'' ''Click to copy execution ID'',
                     On ''onclick'' (CopyToClipboard executionId ''Execution ID'')] ([El ''FileText'' [Attr ''class'' ''size-4''] []]),
                  El ''Tooltip.Portal'' []
                    ([El ''Tooltip.Content'' [Attr ''side'' ''bottom'',
                        Attr ''align'' ''end'',
                        Attr ''sideOffset'' ''6'',
                        Attr ''class'' ''tooltip-content'']
                       ([Text (fieldTitle ''execution_id''),
                        El ''br'' [] [],
                        Text executionId,
                        El ''br'' [] [],
                        El ''span'' [Attr ''class'' ''opacity-75''] [Text ''Click to copy'']])])])])
           else []))] @
       (case truthy_text (stdout r) of
         Some out \<Rightarrow>
           [El ''div'' []
              ([El ''h4'' [Attr ''class'' ''section-label mb-1''] [Text (fieldTitle ''stdout'')],
               El ''div'' [Attr ''class'' ''relative'']
                 ([El ''pre'' [Attr ''class'' ''output-pre custom-scrollbar'', Attr ''data-testid'' ''output-pre''] (ansi_view ansiToJson out),
                  El ''div'' [Attr ''class'' ''absolute bottom-2 right-2'']
                    (copyButton_view out ''Output'' ''Copy output to clipboard'' ''Copy output'' ''text-fg-muted hover:text-fg hover:bg-muted'')])])]
       | None \<Rightarrow> []) @
       (case truthy_text (stderr r) of
         Some err \<Rightarrow>
           [El ''div'' []
              ([El ''h4'' [Attr ''class'' ''section-label text-danger mb-1''] [Text (fieldTitle ''stderr'')],
               El ''div'' [Attr ''class'' ''relative'']
                 ([El ''div'' [Attr ''class'' ''p-3 rounded-lg bg-danger-soft border border-danger/30'']
                    ([El ''pre'' [Attr ''class'' ''text-xs text-danger whitespace-pre-wrap break-words font-mono bg-transparent p-0 pr-8''] (ansi_view ansiToJson err)]),
                  El ''div'' [Attr ''class'' ''absolute bottom-2 right-2'']
                    (copyButton_view err ''Error text'' ''Copy error text to clipboard'' ''Copy errors'' ''text-danger hover:bg-danger-soft'')])])]
       | None \<Rightarrow> []) @
       (case resource_usage r of
         Some usage \<Rightarrow>
           ([El ''div'' [Attr ''class'' ''p-3 rounded-lg bg-info-soft border border-info/30 text-xs space-y-1'']
              ([El ''h4'' [Attr ''class'' ''section-label text-info mb-2''] [Text (fieldTitle ''resource_usage'')],
               El ''dl'' [Attr ''class'' ''facts sm:grid-cols-3 gap-x-3 gap-y-1'']
                 (usageField_view ''execution_time_wall_seconds'' (toFixed3 (execution_time_wall_seconds usage)) @
                 usageField_view ''cpu_time_jiffies'' (show_int (cpu_time_jiffies usage)) @
                 usageField_view ''peak_memory_kb'' (show_int (peak_memory_kb usage)))])])
       | None \<Rightarrow> []))"

definition OutputPanel_view :: "(string \<Rightarrow> ansi_part list) \<Rightarrow> ExecutionPhase \<Rightarrow> ExecutionResult option \<Rightarrow> string option \<Rightarrow> output_action node list" where
  "OutputPanel_view ansiToJson ph res msg =
     [El ''div'' [Attr ''class'' ''output-container flex flex-col h-full'']
        ([El ''h3'' [Attr ''class'' ''text-base font-medium mb-3 border-b pb-3 shrink-0''] [Text ''Execution Output''],
         El ''div'' [Attr ''class'' ''output-content flex-grow overflow-auto pr-2 text-sm custom-scrollbar'']
           ((if ph \<noteq> Idle then
               [El ''div'' [Attr ''class'' ''flex flex-col items-center justify-center h-full text-center p-4 animate-fade-in'']
                  ([Spinner ''medium'' ''primary'' '''',
                   El ''p'' [Attr ''class'' ''mt-3 text-sm font-medium text-accent''] [Text (phaseLabel ph)]])]
            else (case (truthy_text msg, res) of
             (Some e, None) \<Rightarrow>
               [El ''div'' [Attr ''class'' ''flex flex-col items-center justify-center h-full text-center p-4 animate-fade-in'']
                  ([El ''div'' [Attr ''class'' ''size-12 rounded-full bg-danger-soft flex items-center justify-center mb-3'']
                     ([El ''TriangleAlert'' [Attr ''class'' ''size-6 text-danger''] []]),
                   El ''p'' [Attr ''class'' ''text-sm font-medium text-danger''] [Text ''Execution Failed''],
                   El ''p'' [Attr ''class'' ''mt-1 text-xs text-fg-muted max-w-xs''] [Text e]])]
           | _ \<Rightarrow> (case res of
             Some r \<Rightarrow>
               [result_view ansiToJson r]
           | None \<Rightarrow> [El ''div'' [Attr ''class'' ''flex items-center justify-center h-full text-center text-fg-muted italic p-4'']
                ([Text (''Write some code and click '' @ [CHR 0x22] @ ''Run Script'' @ [CHR 0x22] @ '' to see the output.'')])]))))])]"

section \<open>Notifications\<close>

record NotificationResponse = notification +
  subject :: string
  body :: string
  tags :: "string list"
  severity :: NotificationSeverity
  created_at :: string

definition unread :: "NotificationResponse \<Rightarrow> bool" where
  "unread n \<longleftrightarrow> notification_status n \<noteq> NotificationStatus.READ"

primrec icon_name :: "notification_icon \<Rightarrow> string" where
  "icon_name CircleAlert = ''CircleAlert''"
| "icon_name TriangleAlert = ''TriangleAlert''"
| "icon_name CircleCheck = ''CircleCheck''"
| "icon_name Info = ''Info''"

datatype center_action = MarkAllRead | RequestPermission | ClickNotification NotificationResponse | ViewAll

text \<open>
  What the handlers of the center do: the notifications they mark, the page they open, and whether the list
  closes. \<open>openPage\<close> closes it when there is a page to open.
\<close>

datatype center_effect = Mark_read string | Mark_all_read | Goto string | Close_list | Ask_permission

definition center_act :: "kit \<Rightarrow> bool \<Rightarrow> center_action \<Rightarrow> center_effect list" where
  "center_act k supported a =
     (case a of
        MarkAllRead \<Rightarrow> [Mark_all_read]
      | RequestPermission \<Rightarrow> if supported then [Ask_permission] else []
      | ClickNotification n \<Rightarrow>
          (case handleNotificationClick k (notification.truncate n) of (marked, page) \<Rightarrow>
             map Mark_read marked @ (case page of None \<Rightarrow> [] | Some u \<Rightarrow> [Close_list, Goto u]))
      | ViewAll \<Rightarrow> [Close_list, Goto (resolve k ''/(auth)/notifications'')])"

text \<open>\<open>onSuccess\<close> of the mutations of the center: the list is fetched again\<close>

definition marked_all_read :: "center_effect list \<times> string" where
  "marked_all_read = ([Close_list], ''getNotificationsApiV1NotificationsGet'')"

definition notification_item :: "dates \<Rightarrow> int \<Rightarrow> NotificationResponse \<Rightarrow> center_action node" where
  "notification_item D now n =
     El ''button'' [Attr ''type'' ''button'',
        Attr ''class'' (clsx [''block w-full text-left p-4 border-b border-border/50 hover:bg-muted cursor-pointer transition-colors'', if unread n then ''bg-info-soft'' else '''']),
        On ''onclick'' (ClickNotification n),
        Attr ''aria-label'' (''View notification: '' @ subject n)]
       ([El ''span'' [Attr ''class'' ''flex items-start gap-x-3'']
          ([El ''span'' [Attr ''class'' (''mt-1 '' @ SEVERITY_COLORS (severity n))]
             ([El (icon_name (notificationIcon (tags n))) [Attr ''class'' ''size-5''] []]),
           El ''span'' [Attr ''class'' ''flex-1 min-w-0'']
             ([El ''span'' [Attr ''class'' ''block font-medium text-sm''] [Text (subject n)],
              El ''span'' [Attr ''class'' ''block text-sm text-fg-muted mt-1''] [Text (body n)],
              El ''span'' [Attr ''class'' ''block text-xs text-fg-subtle mt-2''] [Text (formatRelativeTime D now (Some (created_at n)))]])] @
          (if unread n then
              [El ''span'' [Attr ''class'' ''size-2 bg-accent rounded-full mt-2''] []]
           else []))])"

definition NotificationCenter_view :: "dates \<Rightarrow> int \<Rightarrow> bool \<Rightarrow> NotificationResponse list \<Rightarrow> int \<Rightarrow> string \<Rightarrow> bool \<Rightarrow> center_action node list" where
  "NotificationCenter_view D now loading notifications unreadCount permission showDropdown =
     [El ''Popover.Root'' [Has ''bind:open'' showDropdown]
        ([El ''Popover.Trigger'' [Attr ''class'' ''btn btn-ghost btn-icon relative'',
            Attr ''aria-label'' ''Notifications'']
           ([El ''Bell'' [Attr ''class'' ''size-5''] []] @
           (if unreadCount > 0 then
               [El ''span'' [Attr ''class'' ''absolute -top-1 -right-1 bg-danger-solid text-white text-xs rounded-full size-5 flex items-center justify-center'']
                  ([Text ((if unreadCount > 9 then ''9+'' else show_int unreadCount))])]
            else [])),
         El ''Popover.Portal'' []
           ([El ''Popover.Content'' [Attr ''align'' ''end'',
               Attr ''sideOffset'' ''8'',
               Attr ''class'' ''floating-panel w-96 p-0'']
              ([El ''div'' [Attr ''class'' ''p-4 border-b'']
                 ([El ''div'' [Attr ''class'' ''flex justify-between items-center'']
                    ([El ''h3'' [Attr ''class'' ''font-semibold text-lg''] [Text ''Notifications'']] @
                    (if unreadCount > 0 then
                        [El ''button'' [Attr ''type'' ''button'',
                            On ''onclick'' MarkAllRead,
                            Attr ''class'' ''text-sm text-info hover:underline''] [Text ''Mark all as read'']]
                     else []))] @
                 (if permission = ''default'' then
                     [El ''button'' [Attr ''type'' ''button'',
                         On ''onclick'' RequestPermission,
                         Attr ''class'' ''mt-2 w-full text-xs text-fg-muted hover:text-info flex items-center justify-center gap-1'']
                        ([El ''Bell'' [Attr ''class'' ''size-3''] [],
                         Text '' Enable desktop notifications''])]
                  else [])),
               El ''div'' [Attr ''class'' ''max-h-96 overflow-y-auto'']
                 ((if loading then
                     [El ''div'' [Attr ''class'' ''p-8 text-center''] [Spinner ''small'' ''primary'' '''']]
                  else (if notifications = [] then
                     [El ''div'' [Attr ''class'' ''p-8 text-center text-fg-muted''] [Text ''No notifications yet'']]
                  else concat (map (\<lambda>n.
                       [notification_item D now n]) notifications)))),
               El ''div'' [Attr ''class'' ''p-3 border-t'']
                 ([El ''button'' [Attr ''type'' ''button'',
                     On ''onclick'' ViewAll,
                     Attr ''class'' ''block w-full text-center text-sm text-info hover:underline bg-transparent border-none cursor-pointer''] [Text ''View all notifications'']])])])])]"

record notification_filters =
  includeTagsInput :: string
  excludeTagsInput :: string
  tagPrefixInput :: string

datatype notifications_action =
    ApplyFilters | MarkAllAsRead | MarkAsRead NotificationResponse | DeleteNotification string

text \<open>\<open>onSuccess\<close> of the mutations of the page\<close>

definition page_marked_all :: "cache_step list" where
  "page_marked_all =
     [Toast_shown (Success_toast ''All notifications marked as read''), Invalidate ''getNotificationsApiV1NotificationsGet'']"

definition notification_deleted :: "cache_step list" where
  "notification_deleted =
     [Toast_shown (Success_toast ''Notification deleted''), Invalidate ''getNotificationsApiV1NotificationsGet'']"

definition message_view :: "NotificationResponse \<Rightarrow> notifications_action node list" where
  "message_view n =
     [El ''h3'' [Attr ''class'' ''font-semibold''] [Text (subject n)],
      El ''p'' [Attr ''class'' ''text-sm text-fg-muted mt-1''] [Text (body n)]]"

definition notification_card :: "dates \<Rightarrow> int \<Rightarrow> string option \<Rightarrow> NotificationResponse \<Rightarrow> notifications_action node" where
  "notification_card D now deletion n =
     El ''article'' [Attr ''class'' (clsx [''card flex items-start gap-4 p-4'', if unread n then ''bg-info-soft border-info/30'' else ''''])]
       ([El (icon_name (notificationIcon (tags n))) [Attr ''class'' (''size-5 mt-1 shrink-0 '' @ (SEVERITY_COLORS (severity n)))] [],
        El ''div'' [Attr ''class'' ''flex-1'']
          ([El ''div'' [Attr ''class'' ''flex items-start justify-between'']
             ((if unread n then
                 [El ''button'' [Attr ''type'' ''button'',
                     Attr ''class'' ''flex-1 text-left'',
                     Attr ''title'' ''Mark as read'',
                     On ''onclick'' (MarkAsRead n)] (message_view n)]
              else [El ''div'' [Attr ''class'' ''flex-1''] (message_view n)]) @
             [El ''button'' [Attr ''type'' ''button'',
                 On ''onclick'' (DeleteNotification (notification_id n)),
                 Attr ''class'' ''btn btn-ghost btn-sm text-danger hover:bg-danger-soft ml-4'',
                 Has ''disabled'' (isDeleting deletion (notification_id n)),
                 Attr ''aria-label'' ''Delete notification'']
                ((if isDeleting deletion (notification_id n) then
                    [Spinner ''small'' ''primary'' '''']
                 else [El ''Trash'' [Attr ''class'' ''size-4''] []]))]),
           El ''div'' [Attr ''class'' ''flex items-center gap-4 mt-3'']
             ([El ''span'' [Attr ''class'' ''inline-flex items-center gap-1 text-xs text-fg-subtle'']
                ([El ''Clock'' [Attr ''class'' ''size-4''] [],
                 Text ('' '' @ formatRelativeTime D now (Some (created_at n)))]),
              El ''span'' [Attr ''class'' (''badge badge-neutral '' @ (SEVERITY_COLORS (severity n)))] [Text (NotificationSeverity_value (severity n))]] @
             (if tags n \<noteq> [] then
                 [El ''span'' [Attr ''class'' ''flex flex-wrap gap-1'']
                    (concat (map (\<lambda>tag.
                        [El ''span'' [Attr ''class'' ''badge badge-neutral border px-1.5 text-fg-muted''] [Text tag]]) (take 6 (tags n))))]
              else []) @
             (if \<not> unread n then
                 [El ''span'' [Attr ''class'' ''text-xs text-success''] [Text (NotificationStatus_value (notification_status n))]]
              else []))])])"

definition notifications_view :: "dates \<Rightarrow> int \<Rightarrow> notification_filters \<Rightarrow> bool \<Rightarrow> NotificationResponse list \<Rightarrow> int \<Rightarrow> string option \<Rightarrow> notifications_action node list" where
  "notifications_view D now f loading notifications unreadCount deletion =
     [El ''div'' [Attr ''class'' ''page max-w-5xl'']
        ([El ''div'' [Attr ''class'' ''card p-4 mb-6'']
           ([El ''div'' [Attr ''class'' ''grid grid-cols-1 md:grid-cols-4 gap-3'']
              ([El ''div'' [Attr ''class'' ''field'']
                 ([El ''label'' [Attr ''for'' ''include-tags''] [Text (fieldTitle ''include_tags'')],
                  El ''input'' [Attr ''id'' ''include-tags'',
                     Attr ''class'' ''w-full'',
                     Attr ''placeholder'' ''e.g. execution,completed'',
                     Bound ''value'' (includeTagsInput f)] []]),
               El ''div'' [Attr ''class'' ''field'']
                 ([El ''label'' [Attr ''for'' ''exclude-tags''] [Text (fieldTitle ''exclude_tags'')],
                  El ''input'' [Attr ''id'' ''exclude-tags'',
                     Attr ''class'' ''w-full'',
                     Attr ''placeholder'' ''e.g. external_alert'',
                     Bound ''value'' (excludeTagsInput f)] []]),
               El ''div'' [Attr ''class'' ''field'']
                 ([El ''label'' [Attr ''for'' ''tag-prefix''] [Text (fieldTitle ''tag_prefix'')],
                  El ''input'' [Attr ''id'' ''tag-prefix'',
                     Attr ''class'' ''w-full'',
                     Attr ''placeholder'' ''e.g. exec:'',
                     Bound ''value'' (tagPrefixInput f)] []]),
               El ''div'' [Attr ''class'' ''flex items-end'']
                 ([El ''button'' [Attr ''type'' ''button'',
                     Attr ''class'' ''btn btn-primary w-full'',
                     On ''onclick'' ApplyFilters] [Text ''Filter'']])])]),
         El ''div'' [Attr ''class'' ''flex justify-between items-center mb-8'']
           ([El ''h1'' [] [Text ''Notifications'']] @
           (if notifications \<noteq> [] \<and> unreadCount > 0 then
               [El ''button'' [Attr ''type'' ''button'',
                   On ''onclick'' MarkAllAsRead,
                   Attr ''class'' ''btn btn-secondary-outline btn-sm''] [Text ''Mark all as read'']]
            else []))] @
        (if loading then
            [El ''div'' [Attr ''class'' ''flex justify-center items-center h-64''] [Spinner ''xlarge'' ''primary'' '''']]
         else (if notifications = [] then
            [El ''div'' [Attr ''class'' ''card p-12 text-center'']
               ([El ''Bell'' [Attr ''class'' ''size-16 mx-auto mb-4 text-fg-subtle''] [],
                El ''h3'' [Attr ''class'' ''text-lg font-semibold mb-2''] [Text ''No notifications yet''],
                El ''p'' [Attr ''class'' ''text-fg-muted'']
                  ([Text (''You'' @ [CHR 0x27] @ ''ll see notifications here when there are updates about your executions or system events.'')])])]
         else [El ''div'' [Attr ''class'' ''space-y-3'']
             (concat (map (\<lambda>n.
                 [notification_card D now deletion n]) notifications))])))]"

section \<open>The header\<close>

text \<open>\<open>toUpperCase\<close>, for the letters that have a capital in the range of a \<open>char\<close>\<close>

definition js_upper :: "string \<Rightarrow> string" where
  "js_upper s =
     concat (map (\<lambda>c. if cc c = 223 then ''SS''
                      else if is_lower c \<or> (224 \<le> cc c \<and> cc c \<le> 254 \<and> cc c \<noteq> 247) then [char_of (cc c - 32)]
                      else [c]) s)"

datatype header_action = CloseMenu | ToggleMenu | ToggleTheme | Logout | In_center center_action

datatype header_effect = Menu bool | Set_mode string | Save_theme data | Send_logout | Clear_cache | Go_refreshed string

definition header_act :: "bool \<Rightarrow> string \<Rightarrow> bool \<Rightarrow> bool \<Rightarrow> header_action \<Rightarrow> header_effect list" where
  "header_act loggedIn mode desktop menuRequested a =
     (case a of
        CloseMenu \<Rightarrow> [Menu False]
      | ToggleMenu \<Rightarrow> [Menu (toggleMenu desktop menuRequested)]
      | ToggleTheme \<Rightarrow>
          (case handleToggleTheme loggedIn mode of (next, saved) \<Rightarrow>
             Set_mode next # (case saved of None \<Rightarrow> [] | Some b \<Rightarrow> [Save_theme b]))
      | Logout \<Rightarrow> [Send_logout]
      | In_center b \<Rightarrow> [])"

text \<open>\<open>onSettled\<close> of the logout: it runs whether the server answered or not.\<close>

definition logout_settled :: "kit \<Rightarrow> header_effect list" where
  "logout_settled k = [Clear_cache, Menu False, Go_refreshed (resolve k ''/login'')]"

text \<open>\<open>onSuccess\<close> of the theme: the cached settings are the server's\<close>

definition theme_saved :: "data \<Rightarrow> cache_step list" where
  "theme_saved d = [Set_data ''getUserSettingsApiV1UserSettingsGet'' d]"

definition user_menu :: "kit \<Rightarrow> data \<Rightarrow> header_action node" where
  "user_menu k u =
     El ''DropdownMenu.Content'' [Attr ''align'' ''end'',
        Attr ''sideOffset'' ''8'',
        Attr ''class'' ''floating-panel w-64'']
       ([El ''div'' [Attr ''class'' ''flex items-center gap-3 px-2 py-1.5'']
          ([El ''span'' [Attr ''class'' ''size-7 rounded-full bg-primary/20 flex items-center justify-center shrink-0 text-xs font-semibold text-accent''] [Text (js_upper (take 1 (field_text u ''username'')))],
           El ''span'' [Attr ''class'' ''min-w-0'']
             ([El ''span'' [Attr ''class'' ''block text-sm font-medium truncate'']
                ([Text (field_text u ''username'' @ '' '')] @
                (if data_get u ''role'' = VStr ''admin'' then
                    [El ''span'' [Attr ''class'' ''text-xs text-accent font-medium ml-1''] [Text (field_text u ''role'')]]
                 else [])),
              El ''span'' [Attr ''class'' ''block text-xs text-fg-muted truncate''] [Text (field_text u ''email'')]])]),
        El ''DropdownMenu.Separator'' [Attr ''class'' ''my-1 h-px bg-border''] []] @
       (if data_get u ''role'' = VStr ''admin'' then
           [El ''DropdownMenu.Item'' [Attr ''class'' ''floating-item'']
              ([El ''a'' [Attr ''href'' (resolve k ''/admin/events'')]
                 ([El ''Settings'' [Attr ''class'' ''size-4''] [],
                  Text ''Admin''])])]
        else []) @
       [El ''DropdownMenu.Item'' [Attr ''class'' ''floating-item'']
          ([El ''a'' [Attr ''href'' (resolve k ''/(auth)/settings'')]
             ([El ''User'' [Attr ''class'' ''size-4''] [],
              Text ''Settings''])]),
        El ''DropdownMenu.Separator'' [Attr ''class'' ''my-1 h-px bg-border''] [],
        El ''DropdownMenu.Item'' [Attr ''class'' ''floating-item text-danger'', On ''onSelect'' Logout]
          ([El ''LogOut'' [Attr ''class'' ''size-4''] [],
           Text ''Logout''])])"

definition mobile_menu :: "kit \<Rightarrow> data option \<Rightarrow> header_action node" where
  "mobile_menu k user =
     El ''div'' [Attr ''data-testid'' ''mobile-menu'',
        Attr ''class'' ''lg:hidden absolute top-16 left-0 right-0 bg-surface shadow-lg border-t px-2 py-3 sm:px-3'']
       ((case user of
         Some u \<Rightarrow>
           ([El ''div'' [Attr ''class'' ''px-3 py-2'']
              ([El ''div'' [Attr ''class'' ''text-sm font-medium''] [Text (field_text u ''username'')],
               El ''div'' [Attr ''class'' ''text-xs text-fg-muted''] [Text (field_text u ''role'')]])] @
           (if data_get u ''role'' = VStr ''admin'' then
               [El ''a'' [Attr ''href'' (resolve k ''/admin/events''),
                   On ''onclick'' CloseMenu,
                   Attr ''class'' ''menu-link'']
                  ([El ''Settings'' [Attr ''class'' ''size-5''] [],
                   Text '' Admin Panel''])]
            else []) @
           [El ''a'' [Attr ''href'' (resolve k ''/(auth)/settings''),
               On ''onclick'' CloseMenu,
               Attr ''class'' ''menu-link''] [Text ''Settings''],
            El ''button'' [Attr ''type'' ''button'',
               On ''onclick'' Logout,
               Attr ''class'' ''menu-link w-full text-danger hover:bg-danger-soft'']
              ([El ''LogOut'' [Attr ''class'' ''size-5''] [],
               Text '' Logout''])])
       | None \<Rightarrow> [El ''a'' [Attr ''href'' (resolve k ''/login''),
             On ''onclick'' CloseMenu,
             Attr ''class'' ''menu-link'']
            ([El ''LogIn'' [Attr ''class'' ''size-5''] [],
             Text '' Login'']),
          El ''a'' [Attr ''href'' (resolve k ''/register''),
             On ''onclick'' CloseMenu,
             Attr ''class'' ''menu-link'']
            ([El ''UserPlus'' [Attr ''class'' ''size-5''] [],
             Text '' Register''])]))"

definition Header_view :: "kit \<Rightarrow> header_action node list \<Rightarrow> string \<Rightarrow> data option \<Rightarrow> bool \<Rightarrow> bool \<Rightarrow> header_action node list" where
  "Header_view k center mode user desktop menuRequested =
     [El ''header'' [Attr ''class'' ''fixed top-0 left-0 right-0 bg-surface/80 backdrop-blur-md border-b shadow-xs z-50 h-16'']
        ([El ''div'' [Attr ''class'' ''app-container h-full'']
           ([El ''nav'' [Attr ''class'' ''flex items-center justify-between h-full'']
              ([El ''a'' [Attr ''href'' (resolve k ''/''),
                  On ''onclick'' CloseMenu,
                  Attr ''class'' ''group flex shrink-0 items-center gap-2'']
                 ([El ''img'' [Attr ''src'' ''/favicon.png'',
                     Attr ''alt'' ''Integr8sCode Logo'',
                     Attr ''class'' ''h-8 w-auto transition-transform group-hover:scale-110''] [],
                  El ''span'' [Attr ''class'' ''font-semibold text-xl tracking-tight transition-colors group-hover:text-accent''] [Text ''Integr8sCode'']]),
               El ''div'' [Attr ''class'' ''flex items-center gap-3'']
                 ([El ''button'' [Attr ''type'' ''button'',
                     On ''onclick'' ToggleTheme,
                     Attr ''title'' ''Toggle theme'',
                     Attr ''aria-label'' ''Toggle theme'',
                     Attr ''class'' ''btn btn-ghost btn-icon text-fg-muted hover:text-fg'']
                    ((if mode = ''light'' then
                        [El ''Sun'' [Attr ''class'' ''size-5''] []]
                     else (if mode = ''dark'' then
                        [El ''Moon'' [Attr ''class'' ''size-5''] []]
                     else [El ''MonitorCog'' [Attr ''class'' ''size-5''] []]))),
                  El ''div'' [Attr ''class'' ''hidden lg:flex items-center gap-3'']
                    ((case user of
                      Some u \<Rightarrow>
                        (center @
                        [El ''DropdownMenu.Root'' []
                           ([El ''DropdownMenu.Trigger'' [Attr ''aria-label'' ''User menu'', Attr ''class'' ''btn btn-ghost btn-sm group gap-2'']
                              ([El ''User'' [Attr ''class'' ''size-5''] [],
                               El ''span'' [Attr ''class'' ''hidden xl:inline font-medium''] [Text (field_text u ''username'')],
                               El ''ChevronDown'' [Attr ''class'' ''size-4 transition-transform duration-200 group-data-[state=open]:rotate-180''] []]),
                            El ''DropdownMenu.Portal'' [] [user_menu k u]])])
                    | None \<Rightarrow> [El ''a'' [Attr ''href'' (resolve k ''/login''),
                          On ''onclick'' CloseMenu,
                          Attr ''class'' ''btn btn-secondary-outline btn-sm''] [Text ''Login''],
                       El ''a'' [Attr ''href'' (resolve k ''/register''),
                          On ''onclick'' CloseMenu,
                          Attr ''class'' ''btn btn-primary btn-sm''] [Text ''Register'']])),
                  El ''div'' [Attr ''data-testid'' ''mobile-menu-toggle'', Attr ''class'' ''lg:hidden'']
                    ([El ''button'' [Attr ''type'' ''button'',
                        On ''onclick'' ToggleMenu,
                        Attr ''aria-label'' (if isMenuActive desktop menuRequested then ''Close menu'' else ''Open menu''),
                        Attr ''class'' ''btn btn-ghost btn-icon text-fg-muted hover:text-fg'']
                       ((if isMenuActive desktop menuRequested then
                           [El ''X'' [Attr ''class'' ''size-5''] []]
                        else [El ''Menu'' [Attr ''class'' ''size-5''] []]))])])])])] @
        (if isMenuActive desktop menuRequested then
            [mobile_menu k user]
         else []))]"

section \<open>Tables\<close>

text \<open>
  TanStack Table without grouped columns has one header group, in which every column has its header. A
  cell shows what its column renders for the row.
\<close>

record header_cell =
  header_id :: string
  header_class :: string
  isPlaceholder :: bool

record 'a cell =
  cell_id :: string
  cell_class :: string
  cell_nodes :: "'a node list"

record 'a table =
  header_groups :: "header_cell list list"
  table_rows :: "'a cell list list"

record ('r, 'a) column =
  column_id :: string
  column_class :: string
  column_cell :: "'r \<Rightarrow> 'a node list"

definition createServerTable :: "('r, 'a) column list \<Rightarrow> 'r list \<Rightarrow> 'a table" where
  "createServerTable columns rows =
     \<lparr>header_groups = [map (\<lambda>c. \<lparr>header_id = column_id c, header_class = column_class c, isPlaceholder = False\<rparr>) columns],
      table_rows = map (\<lambda>r. map (\<lambda>c. \<lparr>cell_id = column_id c, cell_class = column_class c,
        cell_nodes = column_cell c r\<rparr>) columns) rows\<rparr>"

definition headerCell :: "bool \<Rightarrow> string" where
  "headerCell dense = (if dense then ''table-header-cell-sm'' else ''table-header-cell'')"

definition bodyCell :: "bool \<Rightarrow> string" where
  "bodyCell dense = (if dense then ''table-cell-sm'' else ''table-cell'')"

definition DataTable_view :: "'a table \<Rightarrow> string \<Rightarrow> bool \<Rightarrow> string \<Rightarrow> bool \<Rightarrow> bool \<Rightarrow> 'a node list" where
  "DataTable_view table label loading emptyText dense cards =
     (if loading \<and> table_rows table = [] then
         [El ''div'' [Attr ''class'' ''empty-state'']
            ([Spinner ''large'' ''primary'' ''mx-auto mb-4'',
             El ''p'' [] [Text (''Loading '' @ map js_lower label @ ''...'')]])]
      else (if table_rows table = [] then
         [El ''p'' [Attr ''class'' ''empty-state''] [Text emptyText]]
      else ([El ''div'' [Attr ''class'' (''overflow-x-auto '' @ (if cards then ''hidden lg:block'' else ''''))]
          ([El ''table'' [Attr ''class'' ''table'', Attr ''aria-label'' label]
             ([El ''thead'' [Attr ''class'' ''table-header'']
                (concat (map (\<lambda>g.
                    [El ''tr'' []
                       (concat (map (\<lambda>h.
                           [El ''th'' [Attr ''scope'' ''col'', Attr ''class'' (headerCell dense @ '' '' @ header_class h)]
                              ((if \<not> isPlaceholder h then
                                  [Text (fieldTitle (header_id h))]
                               else []))]) g))]) (header_groups table))),
              El ''tbody'' [Attr ''class'' ''table-body'']
                (concat (map (\<lambda>row.
                    [El ''tr'' [Attr ''class'' ''table-row'']
                       (concat (map (\<lambda>c.
                           [El ''td'' [Attr ''class'' (bodyCell dense @ '' '' @ cell_class c)] (cell_nodes c)]) row))]) (table_rows table)))])])] @
       (if cards then
           [El ''ul'' [Attr ''class'' ''lg:hidden divide-y'', Attr ''aria-label'' label]
              (concat (map (\<lambda>row.
                  [El ''li'' [Attr ''class'' ''p-4'']
                     ([El ''dl'' [Attr ''class'' ''details items-center gap-x-4'']
                        (concat (map (\<lambda>c.
                            [El ''dt'' [] [Text (fieldTitle (cell_id c))],
                             El ''dd'' [Attr ''class'' ''min-w-0 wrap-anywhere''] (cell_nodes c)]) row))])]) (table_rows table)))]
        else []))))"

text \<open>\<open>getPageCount\<close>, \<open>getCanPreviousPage\<close>, \<open>getCanNextPage\<close> and \<open>getCanLastPage\<close> of the table\<close>

definition pageCount :: "paging \<Rightarrow> int \<Rightarrow> int" where
  "pageCount p rowCount = - ((- rowCount) div pageSize p)"

definition can_previous :: "paging \<Rightarrow> bool" where
  "can_previous p \<longleftrightarrow> pageIndex p > 0"

definition can_next :: "paging \<Rightarrow> int \<Rightarrow> bool" where
  "can_next p rowCount \<longleftrightarrow> pageIndex p < pageCount p rowCount - 1"

datatype paging_action = SetPageSize | FirstPage | PreviousPage | NextPage | LastPage

definition Pagination_view :: "paging \<Rightarrow> int \<Rightarrow> string \<Rightarrow> int list \<Rightarrow> paging_action node list" where
  "Pagination_view p rowCount itemName pageSizeOptions =
     (if rowCount > 0 then
         ([El ''div'' [Attr ''class'' ''pagination-container'']
            ([El ''div'' [Attr ''class'' ''pagination-info'']
               ([Text (''Showing '' @ show_int (page_start p rowCount) @ '' - '' @ show_int (page_end p rowCount) @ '' of '' @ show_int rowCount @ '' '' @ itemName)]),
             El ''div'' [Attr ''class'' ''flex items-center gap-4'']
               ([El ''select'' [Attr ''class'' ''pagination-selector'',
                   Attr ''value'' (show_int (pageSize p)),
                   On ''onchange'' SetPageSize,
                   Attr ''aria-label'' ''Items per page'']
                  (concat (map (\<lambda>size.
                      [El ''option'' [Attr ''value'' (show_int size)] [Text (show_int size @ '' / page'')]]) pageSizeOptions))] @
               (if pageCount p rowCount > 1 then
                   [El ''div'' [Attr ''class'' ''pagination-controls'']
                      ([El ''button'' [Attr ''type'' ''button'',
                          Attr ''class'' ''pagination-button'',
                          On ''onclick'' FirstPage,
                          Has ''disabled'' (\<not> can_previous p),
                          Attr ''aria-label'' ''First page''] ([El ''ChevronsLeft'' [Attr ''size'' ''16''] []]),
                       El ''button'' [Attr ''type'' ''button'',
                          Attr ''class'' ''pagination-button'',
                          On ''onclick'' PreviousPage,
                          Has ''disabled'' (\<not> can_previous p),
                          Attr ''aria-label'' ''Previous page''] ([El ''ChevronLeft'' [Attr ''size'' ''16''] []]),
                       El ''span'' [Attr ''class'' ''pagination-text'']
                         ([El ''span'' [Attr ''class'' ''font-medium''] [Text (show_int (pageIndex p + 1))],
                          Text '' / '',
                          El ''span'' [Attr ''class'' ''font-medium''] [Text (show_int (pageCount p rowCount))]]),
                       El ''button'' [Attr ''type'' ''button'',
                          Attr ''class'' ''pagination-button'',
                          On ''onclick'' NextPage,
                          Has ''disabled'' (\<not> can_next p rowCount),
                          Attr ''aria-label'' ''Next page''] ([El ''ChevronRight'' [Attr ''size'' ''16''] []]),
                       El ''button'' [Attr ''type'' ''button'',
                          Attr ''class'' ''pagination-button'',
                          On ''onclick'' LastPage,
                          Has ''disabled'' (\<not> can_next p rowCount),
                          Attr ''aria-label'' ''Last page''] ([El ''ChevronsRight'' [Attr ''size'' ''16''] []])])]
                else []))])])
      else [])"

section \<open>What is shown and what can be done\<close>

lemma Spinner_simps [view_simps]:
  "texts (Spinner sz color className) = []" "actions (Spinner sz color className) = []"
  "links (Spinner sz color className) = []"
  by (simp_all add: Spinner_def Spinner_view_def view_simps)

subsection \<open>The output panel\<close>

text \<open>The panel of the editor page, which passes the state of the run\<close>

definition panel ::
    "(string \<Rightarrow> ansi_part list) \<Rightarrow> 'm mutation_api \<Rightarrow> 'm execution_state \<Rightarrow> output_action node list" where
  "panel ansiToJson api st = OutputPanel_view ansiToJson (phase api st) (result st) (execution_error api st)"

lemma panel_busy:
  "phase api st \<noteq> Idle \<Longrightarrow> all_texts (panel A api st) = [''Execution Output'', phaseLabel (phase api st)]"
  by (simp add: panel_def OutputPanel_view_def view_simps)

lemma panel_failed:
  "phase api st = Idle \<Longrightarrow> result st = None \<Longrightarrow> execution_error api st = Some m \<Longrightarrow> m \<noteq> [] \<Longrightarrow>
   all_texts (panel A api st) = [''Execution Output'', ''Execution Failed'', m]"
  by (simp add: panel_def OutputPanel_view_def truthy_text_def view_simps)

lemma panel_prompt:
  "phase api st = Idle \<Longrightarrow> result st = None \<Longrightarrow> execution_error api st = None \<Longrightarrow>
   all_texts (panel A api st) =
     [''Execution Output'', ''Write some code and click '' @ [CHR 0x22] @ ''Run Script'' @ [CHR 0x22] @ '' to see the output.'']"
  by (simp add: panel_def OutputPanel_view_def truthy_text_def view_simps)

lemma panel_result:
  "phase api st = Idle \<Longrightarrow> result st = Some r \<Longrightarrow> panel A api st = panel_frame (result_view A r)"
  if "panel_frame = (\<lambda>n. [El ''div'' [Attr ''class'' ''output-container flex flex-col h-full'']
        [El ''h3'' [Attr ''class'' ''text-base font-medium mb-3 border-b pb-3 shrink-0''] [Text ''Execution Output''],
         El ''div'' [Attr ''class'' ''output-content flex-grow overflow-auto pr-2 text-sm custom-scrollbar''] [n]]])"
  using that by (simp add: panel_def OutputPanel_view_def split: option.splits)

lemma ansi_texts [view_simps]: "all_texts (ansi_view A t) = map part_content (A t)"
  by (simp add: ansi_view_def view_simps)

lemma result_texts:
  "set (texts (result_view A r)) \<supseteq> {ExecutionStatus_value (ExecutionResult.status r)}"
  "truthy_text (stdout r) = Some out \<Longrightarrow> part_content ` set (A out) \<subseteq> set (texts (result_view A r))"
  "truthy_text (stderr r) = Some err \<Longrightarrow> part_content ` set (A err) \<subseteq> set (texts (result_view A r))"
  by (auto simp: result_view_def view_simps Let_def)

lemma verdict_message: "snd (verdict evs) = Some m \<Longrightarrow> m \<noteq> []"
  by (induction evs) (auto simp: FAILURE_MESSAGES_def split: if_splits event_kind.splits EventType.splits)



subsection \<open>Notifications\<close>

text \<open>
  What the page offers for its notifications, in their order: unread ones can be marked, each can be deleted
  unless it is being deleted.
\<close>

lemma notifications_offer:
  "all_actions (notifications_view D now f loading ns unreadCount deletion) =
     ApplyFilters #
     (if ns \<noteq> [] \<and> unreadCount > 0 then [MarkAllAsRead] else []) @
     (if loading then []
      else concat (map (\<lambda>n. (if unread n then [MarkAsRead n] else []) @
             (if isDeleting deletion (notification_id n) then [] else [DeleteNotification (notification_id n)])) ns))"
proof -
  have card: "actions (notification_card D now deletion n) =
      (if unread n then [MarkAsRead n] else []) @
      (if isDeleting deletion (notification_id n) then [] else [DeleteNotification (notification_id n)])" for n
    by (simp add: notification_card_def message_view_def view_simps)
  show ?thesis by (simp add: notifications_view_def card view_simps)
qed

lemma center_offers:
  "all_actions (NotificationCenter_view D now loading ns unreadCount permission showDropdown) =
     (if unreadCount > 0 then [MarkAllRead] else []) @
     (if permission = ''default'' then [RequestPermission] else []) @
     (if loading then [] else map ClickNotification ns) @ [ViewAll]"
proof -
  have item: "actions (notification_item D now n) = [ClickNotification n]" for n
    by (simp add: notification_item_def view_simps)
  have "concat (map (\<lambda>n. [ClickNotification n]) ns) = map ClickNotification ns"
    by (induction ns) simp_all
  then show ?thesis by (simp add: NotificationCenter_view_def item view_simps)
qed

subsection \<open>The header\<close>

definition is_admin :: "data option \<Rightarrow> bool" where
  "is_admin user \<longleftrightarrow> (case user of None \<Rightarrow> False | Some u \<Rightarrow> data_get u ''role'' = VStr ''admin'')"

lemma center_links: "all_links (NotificationCenter_view D now loading ns unreadCount permission showDropdown) = []"
proof -
  have item: "links (notification_item D now n) = []" for n
    by (simp add: notification_item_def view_simps)
  have none: "concat (map (\<lambda>n. []) ns) = []" by (induction ns) simp_all
  show ?thesis by (simp add: NotificationCenter_view_def item none view_simps)
qed

definition center_view :: "dates \<Rightarrow> int \<Rightarrow> bool \<Rightarrow> NotificationResponse list \<Rightarrow> int \<Rightarrow> string \<Rightarrow> bool \<Rightarrow> header_action node list" where
  "center_view D now loading ns unreadCount permission showDropdown =
     map (map_node In_center) (NotificationCenter_view D now loading ns unreadCount permission showDropdown)"

lemma center_view_simps [view_simps]:
  "all_links (center_view D now loading ns unreadCount permission showDropdown) = []"
  "set (all_actions (center_view D now loading ns unreadCount permission showDropdown)) \<subseteq> range In_center"
proof -
  have "concat (map (\<lambda>n. links n) ms) = all_links ms" for ms :: "center_action node list"
    by (simp add: all_links_def)
  then show "all_links (center_view D now loading ns unreadCount permission showDropdown) = []"
    by (simp add: center_view_def view_simps center_links)
qed (auto simp: center_view_def view_simps)

text \<open>The routes that the header links to\<close>

definition header_routes :: "string set" where
  "header_routes = {''/'', ''/admin/events'', ''/(auth)/settings'', ''/login'', ''/register''}"


definition no_clock :: dates where
  "no_clock =
     \<lparr>date_parse = (\<lambda>s. None), date_time = show_int, date_only = show_int, time_only = show_int,
      differenceInSeconds = (-), differenceInMinutes = (-), differenceInHours = (-), differenceInDays = (-)\<rparr>"


subsection \<open>Tables\<close>

lemma table_texts:
  assumes "rows \<noteq> []"
  shows "all_texts (DataTable_view (createServerTable columns rows) label loading emptyText dense False) =
     map (\<lambda>c. fieldTitle (column_id c)) columns @
     concat (map (\<lambda>r. concat (map (\<lambda>c. all_texts (column_cell c r)) columns)) rows)"
proof -
  have "concat (map (\<lambda>c. [fieldTitle (column_id c)]) cs) = map (\<lambda>c. fieldTitle (column_id c)) cs"
    for cs :: "('a, 'b) column list"
    by (induction cs) simp_all
  then show ?thesis
    using assms by (simp add: DataTable_view_def createServerTable_def view_simps comp_def)
qed

text \<open>A table that is loading for the first time says so, and an empty one says that there is nothing.\<close>

lemma table_empty:
  "all_texts (DataTable_view (createServerTable columns []) label loading emptyText dense cards) =
     [if loading then ''Loading '' @ map js_lower label @ ''...'' else emptyText]"
  by (simp add: DataTable_view_def createServerTable_def view_simps)

text \<open>The buttons of the pagination lead to pages that there are.\<close>

lemma pagination_offers:
  assumes "pageSize p > 0" and "rowCount > 0" and "0 \<le> pageIndex p" and "pageIndex p < pageCount p rowCount"
  shows "set (all_actions (Pagination_view p rowCount itemName pageSizeOptions)) =
     {SetPageSize} \<union> (if pageIndex p > 0 then {FirstPage, PreviousPage} else {}) \<union>
     (if pageIndex p + 1 < pageCount p rowCount then {NextPage, LastPage} else {})"
  using assms by (auto simp: Pagination_view_def can_previous_def can_next_def view_simps)

lemma pageCount_covers:
  assumes "pageSize p > 0"
  shows "(pageCount p rowCount - 1) * pageSize p < rowCount \<and> rowCount \<le> pageCount p rowCount * pageSize p"
proof -
  define d m where "d = (- rowCount) div pageSize p" and "m = (- rowCount) mod pageSize p"
  have "pageSize p * d + m = - rowCount" "0 \<le> m" "m < pageSize p"
    using assms by (simp_all add: d_def m_def)
  then show ?thesis by (simp add: pageCount_def d_def [symmetric] algebra_simps)
qed

end
