(* ===== verification/EditorViews.thy ===== *)
theory EditorViews
  imports PageViews
begin

text \<open>
  The markup of the editor page \<^verbatim>\<open>routes/(auth)/editor/+page.svelte\<close> and of the components in
  \<^verbatim>\<open>components/editor\<close>. The code editor widget is a library component with its content, its language and
  its settings as properties; the item of a radio group that the library passes as checked is the one whose
  value the group has.
\<close>

section \<open>What the user can do\<close>

datatype editor_action =
    Load_example | Toggle_saved | Open_saved SavedScriptResponse | Delete_saved SavedScriptResponse
  | Upload_file | Start_new | Choose_file | Save_draft | Download_draft
  | Select_version string \<comment> \<open>of this language, the one that is chosen\<close>
  | Run_script | Toggle_options | In_output output_action

definition version_of :: "offer \<Rightarrow> draft \<Rightarrow> string \<Rightarrow> string" where
  "version_of offered d l =
     (let r = pickRuntime (draft_runtime d) offered in if l = fst r then snd r else [])"

text \<open>\<open>toggle\<close> of the saved scripts: whether they show, and whether they are fetched again\<close>

definition toggle_saved :: "bool \<Rightarrow> bool \<times> bool" where
  "toggle_saved visible = (\<not> visible, \<not> visible)"

section \<open>The components\<close>

definition LoadExample_view :: "string \<Rightarrow> editor_action node list \<Rightarrow> editor_action node list" where
  "LoadExample_view className children =
     [El ''button'' [Attr ''type'' ''button'',
         Attr ''class'' className,
         On ''onclick'' Load_example,
         Attr ''title'' ''Load an example script for the selected language''] (children)]"

definition EditorToolbar_view :: "draft \<Rightarrow> editor_action node list" where
  "EditorToolbar_view d =
     [El ''div'' [Attr ''class'' ''editor-toolbar flex items-center justify-between px-3 py-1 bg-page border-b shrink-0'']
        ([El ''div'' []
           ([El ''label'' [Attr ''for'' ''scriptNameInput'', Attr ''class'' ''sr-only''] [Text (fieldTitle ''name'')],
            El ''input'' [Attr ''id'' ''scriptNameInput'',
               Attr ''type'' ''text'',
               Attr ''class'' ''form-input-bare'',
               Attr ''placeholder'' ''Unnamed Script'',
               Bound ''value'' (name d)] []]),
         El ''div'' [Attr ''class'' ''flex items-center gap-x-2'']
           (LoadExample_view ''btn btn-secondary-outline btn-sm gap-1.5''
              ([El ''Lightbulb'' [Attr ''class'' ''size-4''] [],
                El ''span'' [Attr ''class'' ''hidden sm:inline''] [Text ''Example'']]))])]"

definition SavedScripts_view :: "bool \<Rightarrow> SavedScriptResponse list \<Rightarrow> editor_action node list" where
  "SavedScripts_view visible scripts =
     [El ''div'' [Attr ''class'' ''space-y-3'']
        ([El ''h4'' [Attr ''class'' ''section-label''] [Text ''Saved Scripts''],
         El ''div'' []
           ([El ''button'' [Attr ''type'' ''button'',
               Attr ''class'' ''btn btn-secondary-outline btn-sm w-full gap-1.5'',
               On ''onclick'' Toggle_saved,
               Has ''aria-expanded'' visible,
               Attr ''title'' (if visible then ''Hide Saved Scripts'' else ''Show Saved Scripts'')]
              ([El ''List'' [Attr ''class'' ''size-4''] [],
               El ''span'' []
                 ([Text ((if visible then ''Hide'' else ''Show'') @ '' Saved Scripts'')])])])] @
        (if visible then
            [El ''div'' [Attr ''class'' ''mt-2'']
               ((if scripts \<noteq> [] then
                   [El ''div'' [Attr ''class'' ''saved-scripts-container border rounded-lg bg-page shadow-inner'']
                      ([El ''ul'' [Attr ''class'' ''divide-y'']
                         (concat (map (\<lambda>s.
                             [El ''li'' [Attr ''class'' ''flex items-center justify-between hover:bg-muted text-sm group transition-colors duration-100'']
                                ([El ''button'' [Attr ''type'' ''button'',
                                    Attr ''class'' ''flex-grow text-left px-3 py-2 hover:text-accent font-medium min-w-0'',
                                    On ''onclick'' (Open_saved s),
                                    Attr ''title'' (''Load '' @ saved_name s @ '' ('' @ saved_lang s @ '' '' @ saved_lang_version s @ '')'')]
                                   ([El ''div'' [Attr ''class'' ''flex flex-col min-w-0'']
                                      ([El ''span'' [Attr ''class'' ''truncate''] [Text (saved_name s)],
                                       El ''span'' [Attr ''class'' ''text-xs text-fg-muted font-normal capitalize''] [Text (saved_lang s @ '' '' @ saved_lang_version s)]])]),
                                 El ''button'' [Attr ''type'' ''button'',
                                    Attr ''class'' ''p-2 text-fg-subtle hover:text-danger shrink-0 opacity-60 group-hover:opacity-100 transition-opacity duration-150 mr-1'',
                                    On ''onclick'' (Delete_saved s),
                                    Attr ''aria-label'' (''Delete '' @ saved_name s),
                                    Attr ''title'' (''Delete '' @ saved_name s)] ([El ''Trash'' [Attr ''class'' ''size-4''] []])])]) scripts))])]
                else [El ''p'' [Attr ''class'' ''p-4 text-xs text-fg-muted italic text-center border rounded-lg''] [Text ''No saved scripts yet.'']]))]
         else []))]"

definition ScriptActions_view :: "offer \<Rightarrow> editor_action node list" where
  "ScriptActions_view offered =
     [El ''input'' [Attr ''type'' ''file'',
         Attr ''accept'' (join '','' (allowed_extensions offered)),
         Attr ''class'' ''hidden'',
         On ''onchange'' Upload_file] [],
      El ''div'' [Attr ''class'' ''space-y-3'']
        ([El ''h4'' [Attr ''class'' ''section-label''] [Text ''File Actions''],
         El ''div'' [Attr ''class'' ''grid grid-cols-2 gap-2'']
           ([El ''button'' [Attr ''type'' ''button'',
               Attr ''class'' ''btn btn-secondary-outline btn-sm gap-1'',
               On ''onclick'' Start_new,
               Attr ''title'' ''Start a new script'']
              ([El ''FilePlus'' [Attr ''class'' ''size-4''] [],
               El ''span'' [] [Text ''New'']]),
            El ''button'' [Attr ''type'' ''button'',
               Attr ''class'' ''btn btn-secondary-outline btn-sm gap-1'',
               On ''onclick'' Choose_file,
               Attr ''title'' ''Upload a file'']
              ([El ''Upload'' [Attr ''class'' ''size-4''] [],
               El ''span'' [] [Text ''Upload'']]),
            El ''button'' [Attr ''type'' ''button'',
               Attr ''class'' ''btn btn-primary btn-sm gap-1'',
               On ''onclick'' Save_draft,
               Attr ''title'' ''Save current script'']
              ([El ''Save'' [Attr ''class'' ''size-4''] [],
               El ''span'' [] [Text ''Save'']]),
            El ''button'' [Attr ''type'' ''button'',
               Attr ''class'' ''btn btn-secondary-outline btn-sm gap-1'',
               On ''onclick'' Download_draft,
               Attr ''title'' ''Download current script'']
              ([El ''Download'' [Attr ''class'' ''size-4''] [],
               El ''span'' [] [Text ''Export'']])])])]"

definition limit_view :: "string \<Rightarrow> string \<Rightarrow> string \<Rightarrow> editor_action node list" where
  "limit_view icon key val =
     [El ''div'' [Attr ''class'' ''flex items-center justify-between'']
        ([El ''dt'' [Attr ''class'' ''inline-flex items-center gap-2 text-fg-muted'']
           ([El icon [Attr ''class'' ''size-4''] [],
            Text (fieldTitle key)]),
         El ''dd'' [Attr ''class'' ''font-semibold tabular-nums''] [Text val]])]"

definition ResourceLimits_view :: "data \<Rightarrow> string \<Rightarrow> editor_action node list" where
  "ResourceLimits_view languageLimits l =
     (if data_truthy (data_get languageLimits l) then
         ([El ''Popover.Root'' []
            ([El ''Popover.Trigger'' [Attr ''class'' ''btn btn-secondary-outline btn-sm gap-1.5 w-full sm:w-auto shrink-0 group'']
               ([El ''MessageSquare'' [Attr ''class'' ''size-4''] [],
                El ''span'' [] [Text ''Resource Limits''],
                El ''ChevronDown'' [Attr ''class'' ''size-4 transition-transform group-data-[state=open]:-rotate-180''] []]),
             El ''Popover.Portal'' []
               ([El ''Popover.Content'' [Attr ''align'' ''end'',
                   Attr ''sideOffset'' ''8'',
                   Attr ''class'' ''floating-panel w-64 sm:w-72 p-5'']
                  ([El ''dl'' [Attr ''class'' ''space-y-4 text-sm'']
                     (limit_view ''Cpu'' ''cpu_limit'' (field_text (data_get languageLimits l) ''cpu_limit'') @
                     limit_view ''MemoryStick'' ''memory_limit'' (field_text (data_get languageLimits l) ''memory_limit'') @
                     limit_view ''Clock'' ''execution_timeout'' (field_text (data_get languageLimits l) ''execution_timeout'' @ ''s''))])])])])
      else [])"

definition LanguageSelect_view :: "offer \<Rightarrow> draft \<Rightarrow> editor_action node list" where
  "LanguageSelect_view offered d =
     [El ''DropdownMenu.Root'' []
        ([El ''DropdownMenu.Trigger'' [Has ''disabled'' (offered = []),
            Attr ''aria-label'' ''Select language and version'',
            Attr ''class'' ''btn btn-secondary-outline btn-sm w-36 justify-between text-left disabled:opacity-50 disabled:cursor-not-allowed group'']
           ([El ''span'' [Attr ''class'' ''capitalize truncate'']
              ([Text ((if offered \<noteq> [] then fst (pickRuntime (draft_runtime d) offered) @ '' '' @ snd (pickRuntime (draft_runtime d) offered) else ''Unavailable''))]),
            El ''ChevronDown'' [Attr ''class'' ''ml-2 size-5 shrink-0 text-fg-muted transition-transform group-data-[state=open]:-rotate-180''] []]),
         El ''DropdownMenu.Portal'' []
           ([El ''DropdownMenu.Content'' [Attr ''side'' ''top'',
               Attr ''align'' ''start'',
               Attr ''sideOffset'' ''8'',
               Attr ''class'' ''floating-panel w-36'',
               Attr ''aria-label'' ''Select language and version'']
              (concat (map (\<lambda>(l, info).
                  [El ''DropdownMenu.Sub'' []
                     ([El ''DropdownMenu.SubTrigger'' [Attr ''class'' ''floating-item justify-between capitalize font-medium'']
                        ([Text (l @ '' ''),
                         El ''ChevronRight'' [Attr ''class'' ''size-4 text-fg-muted''] []]),
                      El ''DropdownMenu.Portal'' []
                        ([El ''DropdownMenu.SubContent'' [Attr ''sideOffset'' ''4'',
                            Attr ''class'' ''floating-panel min-w-24 max-h-60 overflow-y-auto'',
                            Attr ''aria-label'' (l @ '' versions'')]
                           ([El ''DropdownMenu.RadioGroup'' [Attr ''value'' (version_of offered d l), On ''onValueChange'' (Select_version l)]
                              (concat (map (\<lambda>v.
                                  [El ''DropdownMenu.RadioItem'' [Attr ''value'' v, Attr ''class'' ''floating-item justify-between'']
                                     ([El ''span'' [Has ''class:font-semibold'' (v = version_of offered d l)] [Text v]] @
                                     (if v = version_of offered d l then
                                         [El ''Check'' [Attr ''class'' ''size-4 text-accent''] []]
                                      else []))]) (versions info)))])])])]) offered))])])]"

section \<open>The page\<close>

definition editor_view :: "(string \<Rightarrow> ansi_part list) \<Rightarrow> 'm mutation_api \<Rightarrow> offer \<Rightarrow> data \<Rightarrow> data \<Rightarrow> SavedScriptResponse list \<Rightarrow> bool \<Rightarrow> bool \<Rightarrow> draft \<times> 'm execution_state \<Rightarrow> editor_action node list" where
  "editor_view A api offered languageLimits editorSettings scripts visible showOptions s =
     [El ''svelte:head'' []
        ([El ''title'' [] [Text ''Code Editor - Integr8sCode''],
         El ''meta'' [Attr ''name'' ''description'',
            Attr ''content'' ''Online code editor with syntax highlighting, multi-language support, and real-time compilation. Write and test your code instantly in the browser''] []]),
      El ''div'' [Attr ''class'' ''editor-grid-container space-y-4 md:space-y-0 md:gap-6'']
        ([El ''div'' [Attr ''class'' ''editor-header flex flex-col sm:flex-row sm:items-center sm:justify-between gap-4'']
           ([El ''h2'' [Attr ''class'' ''sm:text-2xl whitespace-nowrap''] [Text ''Code Editor'']] @
           ResourceLimits_view languageLimits (fst (pickRuntime (draft_runtime (fst s)) offered))),
         El ''div'' [Attr ''class'' ''editor-main-code flex flex-col rounded-lg overflow-hidden shadow-md border'']
           (EditorToolbar_view (fst s) @
           [El ''div'' [Attr ''class'' ''editor-wrapper h-full w-full relative'']
              ([El ''CodeMirrorEditor'' [Bound ''content'' (script (fst s)),
                  Attr ''lang'' (fst (pickRuntime (draft_runtime (fst s)) offered)),
                  Prop ''settings'' editorSettings] []] @
              (if trim (script (fst s)) = [] then
                  ([El ''div'' [Attr ''class'' ''absolute inset-0 flex flex-col items-center justify-center p-4 text-center pointer-events-none'']
                     ([El ''h3'' [Attr ''class'' ''text-lg font-semibold''] [Text ''Editor is Empty''],
                      El ''p'' [Attr ''class'' ''text-sm text-fg-muted mt-1 mb-4'']
                        ([Text ''Start typing, upload a file, or use an example to begin.''])] @
                     LoadExample_view ''btn btn-primary gap-2 pointer-events-auto''
                        ([El ''Lightbulb'' [Attr ''class'' ''size-4''] [],
                          El ''span'' [] [Text ''Start with an Example'']]))])
               else []))]),
         El ''div'' [Attr ''class'' ''editor-main-output''] (map (map_node In_output) (panel A api (snd s))),
         El ''div'' [Attr ''class'' ''editor-controls'']
           ([El ''div'' [Attr ''class'' ''flex flex-col gap-y-3'']
              ([El ''div'' [Attr ''class'' ''flex items-center gap-x-2 flex-wrap gap-y-2'']
                 (LanguageSelect_view offered (fst s) @
                 [El ''button'' [Attr ''type'' ''button'',
                     Attr ''class'' ''btn btn-primary btn-sm flex-grow sm:flex-grow-0 min-w-32.5'',
                     On ''onclick'' Run_script,
                     Has ''disabled'' (run_disabled api offered (snd s))]
                    ([El ''CirclePlay'' [Attr ''class'' ''size-5''] [],
                     El ''span'' [Attr ''class'' ''ml-1.5'']
                       ([Text ((if isExecuting api (snd s) then ''Executing...'' else ''Run Script''))])]),
                  El ''button'' [Attr ''type'' ''button'',
                     Attr ''class'' ''btn btn-secondary-outline btn-sm btn-icon ml-auto sm:ml-2'',
                     On ''onclick'' Toggle_options,
                     Has ''aria-expanded'' showOptions,
                     Attr ''title'' (if showOptions then ''Hide Options'' else ''Show Options'')]
                    ([El ''span'' [Attr ''class'' ''sr-only''] [Text ''Toggle Script Options''],
                     El ''div'' [Attr ''class'' ''transition-transform duration-300 ease-out-expo'',
                        Has ''class:rotate-90'' showOptions] ([El ''Settings'' [Attr ''class'' ''size-5''] []])])])] @
              (if showOptions then
                  [El ''div'' [Attr ''class'' ''p-4 bg-surface border rounded-lg flex gap-x-4'']
                     ([El ''div'' [Attr ''class'' ''w-1/2''] (ScriptActions_view offered),
                      El ''div'' [Attr ''class'' ''border-l''] [],
                      El ''div'' [Attr ''class'' ''w-1/2''] (SavedScripts_view visible scripts)])]
               else []))])])]"

section \<open>What the page offers\<close>

lemma output_actions: "set (all_actions (map (map_node In_output) ns)) \<subseteq> range In_output"
  by (auto simp: view_simps)

text \<open>The components of the page that never run a script\<close>

lemma no_run:
  "Run_script \<notin> set (all_actions (ResourceLimits_view languageLimits l))"
  "Run_script \<notin> set (all_actions (EditorToolbar_view d))"
  by (simp_all add: ResourceLimits_view_def limit_view_def EditorToolbar_view_def LoadExample_view_def view_simps)

lemma no_run2:
  "Run_script \<notin> set (all_actions (LanguageSelect_view offered d))"
  "Run_script \<notin> set (all_actions (ScriptActions_view offered))"
  "Run_script \<notin> set (all_actions (SavedScripts_view visible scripts))"
  by (auto simp: LanguageSelect_view_def ScriptActions_view_def SavedScripts_view_def view_simps split: prod.splits)

text \<open>The run button is there whenever nothing runs and the server offers a runtime, and only then.\<close>

lemma run_offered:
  "Run_script \<in> set (all_actions (editor_view A api offered languageLimits es scripts visible showOptions s)) \<longleftrightarrow>
   \<not> run_disabled api offered (snd s)"
proof -
  have "Run_script \<notin> set (all_actions (map (map_node In_output) (panel A api (snd s))))"
    using output_actions [of "panel A api (snd s)"] by auto
  then show ?thesis
    by (auto simp: editor_view_def LoadExample_view_def view_simps no_run no_run2)
qed

lemma offered_run_allowed:
  "Run_script \<in> set (all_actions (editor_view A api offered languageLimits es scripts visible showOptions (d, exec_st p))) \<Longrightarrow>
   allowed api Execute p"
  unfolding run_offered by (simp add: run_disabled_def)

text \<open>What can be done with the saved scripts, when they show\<close>

lemma saved_offers:
  "all_actions (SavedScripts_view visible scripts) =
     Toggle_saved # (if visible then concat (map (\<lambda>s. [Open_saved s, Delete_saved s]) scripts) else [])"
  by (simp add: SavedScripts_view_def view_simps)

end
