(* ===== verification/SiteViews.thy ===== *)
theory SiteViews
  imports EditorViews
begin

text \<open>
  The markup of the pages outside the administration: the layouts (\<^verbatim>\<open>routes/+layout.svelte\<close>,
  \<^verbatim>\<open>routes/admin/+layout.svelte\<close>, \<^verbatim>\<open>components/Footer.svelte\<close>), the start page, the login and the
  registration, the settings of a user with their history, the privacy policy and the error page.
\<close>

section \<open>Forms\<close>

text \<open>
  What the form library adds to the control of a field, by the name of the field: \<open>{...props}\<close>, its id, its
  name and its ARIA attributes, and \<open>{...$constraints[name]}\<close>, what the schema asks of it. The form itself,
  which the library's elements share, is not shown.
\<close>

record 'a form_library =
  control :: "string \<Rightarrow> 'a attr list"
  constraint :: "string \<Rightarrow> 'a attr list"

section \<open>Login and registration\<close>

definition login_field :: "'a form_library \<Rightarrow> data \<Rightarrow> string \<Rightarrow> string \<Rightarrow> string \<Rightarrow> 'a node list" where
  "login_field F d nm kind autocomplete =
     [El ''Field'' [Attr ''name'' nm]
        ([El ''Control'' [Attr ''id'' nm]
           ([El ''Label'' [Attr ''class'' ''sr-only''] [Text (fieldTitle nm)],
            El ''input'' (control F nm @
               constraint F nm @
               [Attr ''type'' kind,
               Attr ''autocomplete'' autocomplete,
               Attr ''placeholder'' (fieldTitle nm),
               Bound ''value'' (field_text d nm),
               Attr ''class'' ''form-input-standard'']) []]),
         El ''FieldErrors'' [Attr ''class'' ''mt-1''] []])]"

definition login_view :: "kit \<Rightarrow> 'a form_library \<Rightarrow> data \<Rightarrow> bool \<Rightarrow> string option \<Rightarrow> 'a node list" where
  "login_view k F d loading msg =
     [El ''svelte:head'' []
        ([El ''title'' [] [Text ''Login - Integr8sCode''],
         El ''meta'' [Attr ''name'' ''description'',
            Attr ''content'' ''Sign in to Integr8sCode to access your saved projects, code snippets, and personalized development environment''] []]),
      El ''div'' [Attr ''class'' ''min-h-[60vh] flex items-center justify-center py-12 px-4 sm:px-6 lg:px-8'']
        ([El ''div'' [Attr ''class'' ''max-w-md w-full space-y-8'']
           ([El ''div'' [Attr ''class'' ''text-center'']
              ([El ''h2'' [Attr ''class'' ''text-3xl font-bold''] [Text ''Sign in to your account''],
               El ''p'' [Attr ''class'' ''mt-2 text-sm text-fg-muted'']
                 ([Text ''Or '',
                  El ''a'' [Attr ''href'' (resolve k ''/register''), Attr ''class'' ''link font-medium''] [Text ''create a new account'']])]),
            El ''form'' [Attr ''method'' ''post'',
               Has ''novalidate'' True,
               Attr ''class'' ''mt-8 space-y-6 bg-surface p-8 rounded-lg shadow-md border'']
              ([El ''input'' [Attr ''type'' ''hidden'',
                  Attr ''name'' ''remember'',
                  Attr ''value'' ''true'',
                  Has ''hidden'' True] []] @
              (case truthy_text msg of
                Some e \<Rightarrow>
                  [El ''p'' [Attr ''class'' ''mt-0 text-sm text-danger text-center'',
                      Attr ''data-testid'' ''error-message''] [Text e]]
              | None \<Rightarrow> []) @
              [El ''div'' [Attr ''class'' ''space-y-2'']
                 (login_field F d ''username'' ''text'' ''username'' @
                 login_field F d ''password'' ''password'' ''current-password''),
               El ''div'' []
                 ([El ''button'' [Attr ''type'' ''submit'',
                     Has ''disabled'' loading,
                     Attr ''class'' ''btn btn-primary w-full'']
                    ((if loading then
                        [El ''span'' [Attr ''class'' ''absolute left-0 inset-y-0 flex items-center pl-3''] [Spinner ''small'' ''primary'' ''text-info''],
                         Text '' Logging in...'']
                     else [Text ''Sign in'']))])])])])]"

definition register_field :: "'a form_library \<Rightarrow> data \<Rightarrow> string \<Rightarrow> string \<Rightarrow> string \<Rightarrow> string \<Rightarrow> 'a node list" where
  "register_field F d nm ident kind autocomplete =
     [El ''Field'' [Attr ''name'' nm]
        ([El ''Control'' [Attr ''id'' ident]
           ([El ''Label'' [Attr ''class'' ''sr-only''] [Text (fieldTitle nm)],
            El ''input'' (control F nm @
               constraint F nm @
               [Attr ''type'' kind,
               Attr ''autocomplete'' autocomplete,
               Attr ''placeholder'' (fieldTitle nm),
               Bound ''value'' (field_text d nm),
               Attr ''class'' ''form-input-standard'']) []]),
         El ''FieldErrors'' [Attr ''class'' ''mt-1''] []])]"

definition register_view :: "kit \<Rightarrow> 'a form_library \<Rightarrow> data \<Rightarrow> bool \<Rightarrow> string option \<Rightarrow> 'a node list" where
  "register_view k F d loading msg =
     [El ''svelte:head'' []
        ([El ''title'' [] [Text ''Register - Integr8sCode''],
         El ''meta'' [Attr ''name'' ''description'',
            Attr ''content'' ''Create a free Integr8sCode account to save your projects, collaborate with others, and access advanced coding features''] []]),
      El ''div'' [Attr ''class'' ''min-h-[60vh] flex items-center justify-center py-12 px-4 sm:px-6 lg:px-8'']
        ([El ''div'' [Attr ''class'' ''max-w-md w-full space-y-8'']
           ([El ''div'' [Attr ''class'' ''text-center'']
              ([El ''h2'' [Attr ''class'' ''text-3xl font-bold''] [Text ''Create a new account''],
               El ''p'' [Attr ''class'' ''mt-2 text-sm text-fg-muted'']
                 ([Text ''Or '',
                  El ''a'' [Attr ''href'' (resolve k ''/login''), Attr ''class'' ''link font-medium''] [Text ''sign in to your existing account'']])]),
            El ''form'' [Attr ''method'' ''post'',
               Has ''novalidate'' True,
               Attr ''class'' ''mt-8 space-y-6 bg-surface p-8 rounded-lg shadow-md border'']
              ((case truthy_text msg of
                Some e \<Rightarrow>
                  [El ''p'' [Attr ''class'' ''mt-0 text-sm text-danger text-center'',
                      Attr ''data-testid'' ''error-message''] [Text e]]
              | None \<Rightarrow> []) @
              [El ''div'' [Attr ''class'' ''space-y-2'']
                 (register_field F d ''username'' ''username'' ''text'' ''username'' @
                 register_field F d ''email'' ''email'' ''email'' ''email'' @
                 register_field F d ''password'' ''password'' ''password'' ''new-password'' @
                 register_field F d ''confirm_password'' ''confirm-password'' ''password'' ''new-password''),
               El ''div'' []
                 ([El ''button'' [Attr ''type'' ''submit'',
                     Has ''disabled'' loading,
                     Attr ''class'' ''btn btn-primary w-full'']
                    ((if loading then
                        [El ''span'' [Attr ''class'' ''absolute left-0 inset-y-0 flex items-center pl-3''] [Spinner ''small'' ''primary'' ''text-info''],
                         Text '' Registering...'']
                     else [Text ''Create Account'']))])])])])]"

section \<open>The settings of a user\<close>

datatype settings_action = Show_history bool | Show_tab string | Pick_theme | Restore_at string

text \<open>The theme that is picked, in the form and as the mode of the page\<close>

definition pick_theme :: "string \<Rightarrow> data \<Rightarrow> (data \<times> string) option" where
  "pick_theme val d =
     (if val \<in> set (map Theme_value Theme_members) then Some (set_filter ''theme'' (VStr val) d, val) else None)"

definition tabSizes :: "int list" where
  "tabSizes = [2, 4, 8]"

definition editorToggles :: "string list" where
  "editorToggles = [''use_tabs'', ''word_wrap'', ''show_line_numbers'']"

definition notificationToggles :: "string list" where
  "notificationToggles = [''execution_completed'', ''execution_failed'']"

text \<open>A value of the history: what is an object, \<open>null\<close> among them, as JSON; a number of the settings is whole.\<close>

definition show_value :: "data \<Rightarrow> string" where
  "show_value v =
     (case v of
        VUndefined \<Rightarrow> ''undefined''
      | VBool b \<Rightarrow> shown v
      | VNum n \<Rightarrow> shown v
      | VStr s \<Rightarrow> s
      | _ \<Rightarrow> (case json_stringify (js_of v) of Inr (Some t) \<Rightarrow> t | _ \<Rightarrow> []))"

definition changeCell :: "data \<Rightarrow> settings_action node list" where
  "changeCell item =
     [El ''div'' [Attr ''class'' ''flex flex-wrap items-center gap-1 text-fg-muted'']
        ([El ''span'' [Attr ''class'' ''text-danger break-all''] [Text (show_value (data_get item ''old_value''))],
         El ''span'' [Attr ''class'' ''mx-1''] [Glyph 0x2192],
         El ''span'' [Attr ''class'' ''text-success break-all''] [Text (show_value (data_get item ''new_value''))]])]"

definition restoreCell :: "data \<Rightarrow> settings_action node list" where
  "restoreCell item =
     [El ''button'' [Attr ''type'' ''button'',
         On ''onclick'' (Restore_at (field_text item ''timestamp'')),
         Attr ''class'' ''btn btn-ghost btn-xs''] [Text ''Restore'']]"

definition history_columns :: "dates \<Rightarrow> (data, settings_action) column list" where
  "history_columns D =
     [\<lparr>column_id = ''timestamp'', column_class = ''w-36 whitespace-nowrap'',
        column_cell = (\<lambda>item. [Text (formatTimestamp D (text_option (data_get item ''timestamp'')))])\<rparr>,
      \<lparr>column_id = ''field'', column_class = ''w-32'', column_cell = (\<lambda>item. [Text (field_text item ''field'')])\<rparr>,
      \<lparr>column_id = ''change'', column_class = ''font-mono'', column_cell = changeCell\<rparr>,
      \<lparr>column_id = ''actions'', column_class = ''w-20'', column_cell = restoreCell\<rparr>]"

definition SettingsHistoryTable_view :: "dates \<Rightarrow> data list \<Rightarrow> bool \<Rightarrow> settings_action node list" where
  "SettingsHistoryTable_view D history loading =
     DataTable_view (createServerTable (history_columns D) history) ''Settings history'' loading ''No settings changes recorded yet. Make some changes to your settings to see history.'' True True"

definition settings_view :: "dates \<Rightarrow> settings_action form_library \<Rightarrow> data \<Rightarrow> string \<Rightarrow> bool \<Rightarrow> bool \<Rightarrow> bool \<Rightarrow> data list \<Rightarrow> bool \<Rightarrow> settings_action node list" where
  "settings_view D F d activeTab loading saving showHistory history historyLoading =
     [El ''svelte:head'' []
        ([El ''title'' [] [Text ''Settings - Integr8sCode''],
         El ''meta'' [Attr ''name'' ''description'',
            Attr ''content'' ''Manage your Integr8sCode account settings, editor preferences, and notification configuration''] []]),
      El ''div'' [Attr ''class'' ''page max-w-4xl'']
        ((if loading then
            [El ''div'' [Attr ''class'' ''flex justify-center items-center h-64''] [Spinner ''xlarge'' ''primary'' '''']]
         else ([El ''div'' [Attr ''class'' ''hero-animate-fly-in'',
              Attr ''style'' ''--fly-y: -20px; --fly-delay: 100ms;'']
             ([El ''div'' [Attr ''class'' ''flex justify-between items-center mb-8'']
                ([El ''h1'' [Attr ''class'' ''lg:text-4xl''] [Text ''Settings''],
                 El ''button'' [Attr ''type'' ''button'',
                    On ''onclick'' (Show_history True),
                    Attr ''class'' ''btn btn-secondary-outline btn-sm''] [Text ''View History'']])]),
           El ''div'' [Attr ''class'' ''flex gap-x-1 mb-6 bg-muted p-1 rounded-lg'']
             (concat (map (\<lambda>tab.
                 [El ''button'' [Attr ''type'' ''button'',
                     Attr ''class'' (clsx [''flex-1 px-4 py-2 text-sm font-medium rounded-md transition-colors'', if activeTab = fst tab then ''bg-surface shadow-xs text-accent'' else ''text-fg-muted hover:text-fg'']),
                     On ''onclick'' (Show_tab (fst tab))] [Text (snd tab)]]) settings_tabs)),
           El ''form'' [Attr ''method'' ''post'', Has ''novalidate'' True, Attr ''class'' ''card'']
             ([El ''div'' [Attr ''class'' ''p-6'']
                ((if activeTab = ''general'' then
                    ([El ''h2'' [Attr ''class'' ''mb-4''] [Text ''General''],
                     El ''Field'' [Attr ''name'' ''theme'']
                       ([El ''div'' [Attr ''class'' ''field'']
                          ([El ''Control'' []
                             ([El ''Label'' [] [Text (fieldTitle ''theme'')],
                              El ''Select.Root'' [Attr ''type'' ''single'',
                                 Attr ''value'' (field_text d ''theme''),
                                 On ''onValueChange'' Pick_theme]
                                ([El ''Select.Trigger'' (control F ''theme'' @
                                    [Attr ''class'' ''form-control-base flex items-center justify-between text-left group''])
                                   ([El ''span'' [Attr ''class'' ''truncate''] [Text (field_text d ''theme'')],
                                    El ''ChevronDown'' [Attr ''class'' ''size-5 ml-2 shrink-0 text-fg-muted transition-transform group-data-[state=open]:-rotate-180''] []]),
                                 El ''Select.Portal'' []
                                   ([El ''Select.Content'' [Attr ''sideOffset'' ''4'',
                                       Attr ''class'' ''floating-panel w-(--bits-select-anchor-width)'']
                                      ([El ''Select.Viewport'' []
                                         (concat (map (\<lambda>theme.
                                             [El ''Select.Item'' [Attr ''value'' theme,
                                                 Attr ''label'' theme,
                                                 Attr ''class'' ''floating-item justify-between'']
                                                ([Text (theme @ '' '')] @
                                                (if field_text d ''theme'' = theme then
                                                    [El ''Check'' [Attr ''class'' ''size-4 text-accent''] []]
                                                 else []))]) (map Theme_value Theme_members)))])])])])])])])
                 else (if activeTab = ''editor'' then
                    ([El ''h2'' [Attr ''class'' ''mb-4''] [Text (fieldTitle ''editor'')],
                     El ''div'' [Attr ''class'' ''flex flex-wrap gap-4'']
                       ([El ''Field'' [Attr ''name'' ''editor.font_size'']
                          ([El ''Control'' []
                             ([El ''div'' [Attr ''class'' ''field flex-1 min-w-25'']
                                ([El ''Label'' [] [Text (fieldTitle ''font_size'')],
                                 El ''input'' (control F ''editor.font_size'' @
                                    constraint F ''editor.font_size'' @
                                    [Attr ''type'' ''number'',
                                    Bound ''value'' (field_text (data_get d ''editor'') ''font_size''),
                                    Attr ''class'' ''form-input-standard'']) [],
                                 El ''FieldErrors'' [Attr ''class'' ''mt-1''] []])])]),
                        El ''Field'' [Attr ''name'' ''editor.tab_size'']
                          ([El ''Control'' []
                             ([El ''div'' [Attr ''class'' ''field flex-1 min-w-25'']
                                ([El ''Label'' [] [Text (fieldTitle ''tab_size'')],
                                 El ''select'' (control F ''editor.tab_size'' @
                                    [Bound ''value'' (field_text (data_get d ''editor'') ''tab_size''),
                                    Attr ''class'' ''form-select-standard''])
                                   (concat (map (\<lambda>size.
                                       [El ''option'' [Attr ''value'' (show_int size)] [Text (show_int size)]]) tabSizes))])])])]),
                     El ''div'' [Attr ''class'' ''my-6 border-t''] [],
                     El ''div'' [Attr ''class'' ''space-y-3'']
                       (concat (map (\<lambda>key.
                           [El ''Field'' [Attr ''name'' (''editor.'' @ key)]
                              ([El ''Control'' []
                                 ([El ''Label'' [Attr ''class'' ''settings-toggle'']
                                    ([El ''span'' [Attr ''class'' ''text-sm font-medium''] [Text (fieldTitle key)],
                                     El ''input'' (control F (''editor.'' @ key) @
                                        [Attr ''type'' ''checkbox'', Bound ''checked'' (field_text (data_get d ''editor'') key)]) []])])])]) editorToggles))])
                 else (if activeTab = ''notifications'' then
                    ([El ''h2'' [Attr ''class'' ''mb-4''] [Text (fieldTitle ''notifications'')],
                     El ''h3'' [Attr ''class'' ''font-semibold mb-2''] [Text ''Notification Types''],
                     El ''div'' [Attr ''class'' ''space-y-3'']
                       (concat (map (\<lambda>key.
                           [El ''Field'' [Attr ''name'' (''notifications.'' @ key)]
                              ([El ''Control'' []
                                 ([El ''Label'' [Attr ''class'' ''settings-toggle'']
                                    ([El ''span'' [Attr ''class'' ''text-sm font-medium''] [Text (fieldTitle key)],
                                     El ''input'' (control F (''notifications.'' @ key) @
                                        [Attr ''type'' ''checkbox'',
                                        Bound ''checked'' (field_text (data_get d ''notifications'') key)]) []])])])]) notificationToggles))])
                 else []))) @
                [El ''div'' [Attr ''class'' ''flex justify-end mt-6'']
                   ([El ''button'' [Attr ''type'' ''submit'', Attr ''class'' ''btn btn-primary'', Has ''disabled'' saving]
                      ((if saving then
                          [Spinner ''small'' ''white'' ''mr-2 inline-block'',
                           Text '' Saving...'']
                       else [Text ''Save Settings'']))])])])])))] @
     Modal_view showHistory ''Settings History'' (Show_history False) ''lg''
        ([El ''div'' [Attr ''class'' ''overflow-y-auto max-h-96''] (SettingsHistoryTable_view D history historyLoading)])
        (Some
          ([El ''button'' [Attr ''type'' ''button'',
               On ''onclick'' (Show_history False),
               Attr ''class'' ''btn btn-secondary-outline''] [Text ''Close'']]))"

section \<open>The start page\<close>

definition features :: "(string \<times> string \<times> string) list" where
  "features =
     [(''Zap'', ''Instant Execution'',
       ''Run code online effortlessly in isolated Kubernetes pods with near-native speed.''),
      (''ShieldCheck'', ''Secure & Efficient'',
       ''Strict resource limits (CPU, Memory, Time) and network restrictions ensure safe code execution.''),
      (''Clock'', ''Real-time Results'',
       ''Get immediate feedback with live execution status updates and detailed output upon completion.'')]"

text \<open>Before it is mounted, the page is empty.\<close>

definition home_view :: "kit \<Rightarrow> bool \<Rightarrow> 'a node list" where
  "home_view k ready =
     [El ''svelte:head'' []
        ([El ''title'' [] [Text ''Home - Integr8sCode''],
         El ''meta'' [Attr ''name'' ''description'',
            Attr ''content'' ''Integr8sCode - Write, compile, and manage code directly in your browser with our powerful online development environment''] []])] @
     (if ready then
         [El ''div'' [Attr ''class'' ''bg-page'']
            ([El ''section'' [Attr ''class'' ''gradient-bg relative isolate overflow-x-clip min-h-dvh -mt-16 pt-16 flex items-center justify-center px-4 sm:px-6 lg:px-8'']
               ([El ''div'' [Attr ''class'' ''relative z-10 text-center w-full -mt-4 sm:-mt-6'']
                  ([El ''div'' [Attr ''class'' ''hero-animate-fly-in'',
                      Attr ''style'' ''--fly-y: -20px; --fly-delay: 100ms;'']
                     ([El ''h1'' [Attr ''class'' ''mx-auto max-w-7xl text-4xl sm:text-5xl lg:text-7xl tracking-tight leading-tight px-2'']
                        ([Text ''Code, Run, '',
                         El ''span'' [Attr ''class'' ''text-accent''] [Text ''Integrate''],
                         Text ''. Instantly.''])]),
                   El ''div'' [Attr ''class'' ''hero-animate-fly-in'',
                      Attr ''style'' ''--fly-y: 15px; --fly-delay: 300ms;'']
                     ([El ''p'' [Attr ''class'' ''mx-auto mt-6 max-w-4xl text-lg sm:text-xl leading-relaxed text-fg-muted px-4'']
                        ([Text ''Welcome to Integr8sCode '',
                         Glyph 0x2013,
                         Text '' the seamless online execution environment built on Kubernetes. Paste your script, hit run, and get results securely and efficiently.''])]),
                   El ''div'' [Attr ''class'' ''mt-8 sm:mt-10 hero-animate-fly-in'',
                      Attr ''style'' ''--fly-y: 15px; --fly-delay: 500ms;'']
                     ([El ''a'' [Attr ''href'' (resolve k ''/(auth)/editor''),
                         Attr ''class'' ''btn btn-primary btn-lg font-semibold shadow-lg''] [Text ''Start Coding Now'']])])]),
             El ''section'' [Attr ''class'' ''app-container pt-14 pb-20 lg:pb-28'']
               ([El ''div'' [Attr ''class'' ''text-center mb-12 sm:mb-16'']
                  ([El ''p'' [Attr ''class'' ''section-label text-sm text-accent hero-animate-fly-in'',
                      Attr ''style'' ''--fly-delay: 600ms;''] [Text ''Core Features''],
                   El ''h2'' [Attr ''class'' ''mt-2 text-2xl sm:text-3xl lg:text-4xl font-bold tracking-tight hero-animate-fly-in'',
                      Attr ''style'' ''--fly-delay: 700ms;''] [Text ''Everything you need for quick execution.'']]),
                El ''div'' [Attr ''class'' ''features-grid mx-auto max-w-5xl grid sm:grid-cols-2 lg:grid-cols-3 gap-5'']
                  (concat (map (\<lambda>(i, icon, title, content).
                      [El ''div'' [Attr ''class'' ''feature-card group hero-animate-fly-in'',
                          Attr ''style'' (''--fly-y: 24px; --fly-delay: '' @ (show_nat (800 + i * 120)) @ ''ms;'')]
                         ([El ''h3'' [Attr ''class'' ''flex items-center gap-2 text-lg sm:text-xl font-semibold mb-2 transition-colors group-hover:text-accent'']
                            ([El icon [Attr ''class'' ''size-5 shrink-0 text-accent''] [],
                             Text ('' '' @ title)]),
                          El ''p'' [Attr ''class'' ''text-fg-muted''] [Text content]])]) (enumerate 0 features)))])])]
      else [])"

section \<open>The layouts\<close>

text \<open>The GitHub mark of the footer, drawn by the icon library\<close>

definition github :: data where
  "github =
     VObject [(''name'', VStr ''github''),
       (''node'', VArray [
         VArray [VStr ''path'', VObject [(''d'', VStr ''M15 22v-4a4.8 4.8 0 0 0-1-3.5c3 0 6-2 6-5.5.08-1.25-.27-2.48-1-3.5.28-1.15.28-2.35 0-3.5 0 0-1 0-3 1.5-2.64-.5-5.36-.5-8 0C6 2 5 2 5 2c-.3 1.15-.3 2.35 0 3.5A5.403 5.403 0 0 0 4 9c0 3.5 3 5.5 6 5.5-.39.49-.68 1.05-.85 1.65-.17.6-.22 1.23-.15 1.85v4'')]],
         VArray [VStr ''path'', VObject [(''d'', VStr ''M9 18c-4.51 2-5-2-7-2'')]]])]"

definition Footer_view :: "kit \<Rightarrow> data option \<Rightarrow> int \<Rightarrow> 'a node list" where
  "Footer_view k user year =
     [El ''footer'' [Attr ''class'' ''relative z-30 mt-8 pt-8 pb-6 bg-surface border-t'']
        ([El ''div'' [Attr ''class'' ''app-container py-6'']
           ([El ''div'' [Attr ''class'' ''grid grid-cols-1 md:grid-cols-12 gap-8 mb-8'']
              ([El ''div'' [Attr ''class'' ''md:col-span-5 lg:col-span-6'']
                 ([El ''h2'' [Attr ''class'' ''mb-2''] [Text ''Integr8sCode''],
                  El ''p'' [Attr ''class'' ''text-fg-muted'']
                    ([Text ''Run code online with ease and security, powered by Kubernetes.''])]),
               El ''div'' [Attr ''class'' ''md:col-span-7 lg:col-span-6 grid grid-cols-2 gap-8'']
                 ([El ''div'' []
                    ([El ''h3'' [Attr ''class'' ''section-label mb-4''] [Text ''Navigation''],
                     El ''ul'' [Attr ''class'' ''link-list space-y-3 text-sm'']
                       ([El ''li'' []
                          ([El ''a'' [Attr ''href'' (resolve k ''/'')] [Text ''Home'']]),
                        El ''li'' []
                          ([El ''a'' [Attr ''href'' (resolve k ''/(auth)/editor'')] [Text ''Code Editor'']])])]),
                  El ''div'' []
                    ([El ''h3'' [Attr ''class'' ''section-label mb-4''] [Text ''Tools & Info''],
                     El ''ul'' [Attr ''class'' ''link-list space-y-3 text-sm'']
                       ((if is_admin user then
                           [El ''li'' []
                              ([El ''a'' [Attr ''href'' ''/grafana'',
                                  Attr ''target'' ''_blank'',
                                  Attr ''rel'' ''external noopener noreferrer''] [Text ''Grafana'']])]
                        else []) @
                       [El ''li'' []
                          ([El ''a'' [Attr ''href'' (resolve k ''/privacy'')] [Text ''Privacy Policy'']])])])])]),
            El ''div'' [Attr ''class'' ''mt-8 pt-8 border-t flex flex-col sm:flex-row items-center justify-between gap-4'']
              ([El ''p'' [Attr ''class'' ''text-xs text-fg-muted text-center sm:text-left'']
                 ([Text ([CHR 0xA9] @ '' '' @ show_int year @ '' Integr8sCode. Built by Max Azatian. All rights reserved.'')]),
               El ''div'' [Attr ''class'' ''link-list flex gap-5'']
                 ([El ''a'' [Attr ''href'' ''https://t.me/MaxAzatian'',
                     Attr ''target'' ''_blank'',
                     Attr ''rel'' ''noopener noreferrer'',
                     Attr ''title'' ''Telegram'',
                     Attr ''class'' ''text-fg-muted'']
                    ([El ''span'' [Attr ''class'' ''sr-only''] [Text ''Telegram''],
                     El ''Send'' [Attr ''size'' ''20''] []]),
                  El ''a'' [Attr ''href'' ''https://github.com/HardMax71/Integr8sCode'',
                     Attr ''target'' ''_blank'',
                     Attr ''rel'' ''noopener noreferrer'',
                     Attr ''title'' ''GitHub'',
                     Attr ''class'' ''text-fg-muted'']
                    ([El ''span'' [Attr ''class'' ''sr-only''] [Text ''GitHub''],
                     El ''Icon'' [Prop ''icon'' github, Attr ''size'' ''20''] []])])])])])]"

definition layout_view :: "header_action node list \<Rightarrow> header_action node list \<Rightarrow> header_action node list \<Rightarrow> header_action node list" where
  "layout_view header children footer =
     [El ''ModeWatcher'' [Attr ''modeStorageKey'' ''app-theme'',
         Has ''disableHeadScriptInjection'' True,
         Has ''disableTransitions'' False] [],
      El ''QueryClientProvider'' []
        ([El ''Tooltip.Provider'' [Attr ''delayDuration'' ''300'']
           ([El ''div'' [Attr ''class'' ''flex flex-col min-h-dvh pt-16'']
              (header @
              [El ''Toaster'' [Has ''richColors'' True, Attr ''position'' ''top-right''] [],
               El ''main'' [Attr ''class'' ''flex-grow''] (children)] @
              footer)])])]"

text \<open>\<open>path\<close> is \<open>here\<close>: the link of the page that shows is marked.\<close>

definition admin_layout_view :: "kit \<Rightarrow> string \<Rightarrow> data \<Rightarrow> 'a node list \<Rightarrow> 'a node list" where
  "admin_layout_view k here user children =
     [El ''div'' [Attr ''class'' ''lg:flex'']
        ([El ''aside'' [Attr ''class'' ''bg-sidebar border-b lg:border-b-0 lg:shadow-lg lg:fixed lg:left-0 lg:top-16 lg:bottom-0 lg:w-64 lg:overflow-y-auto lg:z-10'']
           ([El ''div'' [Attr ''class'' ''p-3 lg:p-4'']
              ([El ''div'' [Attr ''class'' ''hidden lg:flex items-center gap-2 mb-8'']
                 ([El ''ShieldCheck'' [Attr ''class'' ''size-6 text-accent''] [],
                  El ''h2'' [Attr ''class'' ''font-bold''] [Text ''Admin Panel'']]),
               El ''nav'' [Attr ''aria-label'' ''Admin'', Attr ''class'' ''flex gap-2 overflow-x-auto lg:flex-col'']
                 (concat (map (\<lambda>(i, sidebarLabel, pageHeading).
                     (let href = resolve k i in
                     [El ''a'' ([Attr ''href'' href] @
                         (if here = href then [Attr ''aria-current'' ''page''] else []) @
                         [Attr ''class'' (clsx [''flex shrink-0 items-center gap-3 whitespace-nowrap px-4 py-2 rounded-lg transition-colors'', if here = href then ''bg-primary text-white'' else ''hover:bg-fg/10''])]) ([El ''span'' [] [Text sidebarLabel]])])) ADMIN_ROUTES)),
               El ''div'' [Attr ''class'' ''hidden lg:block mt-8 p-4 bg-surface rounded-lg border'']
                 ([El ''p'' [Attr ''class'' ''text-sm text-fg-muted''] [Text ''Logged in as:''],
                  El ''p'' [Attr ''class'' ''font-semibold truncate''] [Text (field_text user ''username'')]])])]),
         El ''div'' [Attr ''class'' ''flex-1 lg:ml-64 pb-16''] (children)])]"

section \<open>The privacy policy and the error page\<close>

definition lastUpdated :: string where "lastUpdated = ''August 30, 2025''"
definition operatorName :: string where "operatorName = ''Max Azatian''"
definition operatorEmail :: string where "operatorEmail = ''max.azatian@gmail.com''"
definition operatorLocation :: string where "operatorLocation = ''Germany''"

definition privacy_children :: "'a node" where
  "privacy_children =
     El ''section'' []
       ([El ''h2'' [] [Text ''Kids and this service''],
        El ''p'' []
          ([Text (''This service isn'' @ [CHR 0x27] @ ''t for anyone under 16. If you'' @ [CHR 0x27] @ ''re a parent and think your child has created an account, please ''),
           El ''a'' [Attr ''href'' (''mailto:'' @ operatorEmail @ ''?subject=Minor%20Account%20Concern'')] [Text ''let me know''],
           Text ('' and I'' @ [CHR 0x27] @ ''ll delete it.'')])])"

definition privacy_stack :: "'a node" where
  "privacy_stack =
     El ''section'' []
       ([El ''h2'' [] [Text ''The tech stack''],
        El ''p'' []
          ([Text ''I use various open-source tools to run this service, all self-hosted on my own infrastructure. This includes MongoDB for data storage, Kubernetes for code execution, Kafka for event processing, and several monitoring tools. These all run locally '',
           Glyph 0x2013,
           Text '' your data never goes to the companies that make these tools.'']),
        El ''p'' []
          ([Text (''Everything runs on my server. No external services get your data. No telemetry gets sent to third parties. It'' @ [CHR 0x27] @ ''s all self-contained.'')])])"

definition privacy_changes :: "'a node" where
  "privacy_changes =
     El ''section'' []
       ([El ''h2'' [] [Text ''Changes to this policy''],
        El ''p'' []
          ([Text (''If I need to update this privacy policy, I'' @ [CHR 0x27] @ ''ll post the new version here and update the date at the top. I recommend checking back occasionally, especially if privacy is important to you.'')])])"

definition privacy_contact :: "'a node" where
  "privacy_contact =
     El ''section'' []
       ([El ''h2'' [] [Text ''Get in touch''],
        El ''p'' []
          ([Text ''Questions? Concerns? Just want to chat about privacy? Email me at '',
           El ''a'' [Attr ''href'' (''mailto:'' @ operatorEmail @ ''?subject=Privacy%20Question'')] [Text operatorEmail],
           Text ''. I usually respond within 72 hours.'']),
        El ''p'' []
          ([Text (''If you'' @ [CHR 0x27] @ ''re in the EU and I can'' @ [CHR 0x27] @ ''t resolve your privacy concern, you can also contact your local data protection authority. But I'' @ [CHR 0x27] @ ''d appreciate it if you'' @ [CHR 0x27] @ ''d ''),
           El ''a'' [Attr ''href'' (''mailto:'' @ operatorEmail @ ''?subject=Privacy%20Concern'')] [Text ''talk to me first''],
           Text '' '',
           Glyph 0x2013,
           Text ('' I'' @ [CHR 0x27] @ ''m pretty reasonable and want to help.'')])])"

definition privacy_view :: "'a node list" where
  "privacy_view =
     [El ''svelte:head'' []
        ([El ''title'' [] [Text ''Privacy Policy - Integr8sCode''],
         El ''meta'' [Attr ''name'' ''description'',
            Attr ''content'' ''Privacy policy for Integr8sCode - how we handle your data, GDPR compliance, and your rights''] []]),
      El ''div'' [Attr ''class'' ''page max-w-4xl'']
        ([El ''div'' [Attr ''class'' ''bg-surface rounded-xl shadow-xs border p-6 sm:p-8 lg:p-10'']
           ([El ''div'' [Attr ''class'' ''hero-animate-fly-in'',
               Attr ''style'' ''--fly-y: -20px; --fly-delay: 100ms;'']
              ([El ''h1'' [Attr ''class'' ''lg:text-4xl mb-2''] [Text ''Privacy Policy''],
               El ''p'' [Attr ''class'' ''text-sm text-fg-muted mb-8''] [Text (''Last updated: '' @ lastUpdated)]]),
            El ''div'' [Attr ''class'' ''prose max-w-none'']
              ([El ''section'' []
                 ([El ''h2'' [] [Text ''Hi there!''],
                  El ''p'' []
                    ([Text (''I'' @ [CHR 0x27] @ ''m '' @ operatorName @ '', and I built Integr8sCode as a personal project. This is an online code execution platform that lets you run Python scripts in isolated environments. Since I'' @ [CHR 0x27] @ ''m handling your data, I want to be transparent about what information I collect and how I use it.'')]),
                  El ''p'' []
                    ([Text ''This privacy policy complies with GDPR and other data protection laws. If you have any questions, just drop me an email at '',
                     El ''a'' [Attr ''href'' (''mailto:'' @ operatorEmail)] [Text operatorEmail],
                     Text ''.''])]),
               El ''section'' []
                 ([El ''h2'' []
                    ([Text (''Who'' @ [CHR 0x27] @ ''s responsible for your data?'')]),
                  El ''p'' [] [Text ''That would be me:''],
                  El ''p'' []
                    ([Text operatorName,
                     El ''br'' [] [],
                     El ''a'' [Attr ''href'' (''mailto:'' @ operatorEmail)] [Text operatorEmail],
                     El ''br'' [] [],
                     Text ('' Based in '' @ operatorLocation)]),
                  El ''p'' []
                    ([Text ''Since this is a personal project, I handle all privacy matters myself. No corporate bureaucracy here '',
                     Glyph 0x2013,
                     Text '' just email me directly if you have concerns.''])]),
               El ''section'' []
                 ([El ''h2'' [] [Text ''What information do I collect?''],
                  El ''p'' []
                    ([Text ''When you create an account, I store your username, email address, and a securely hashed version of your password. I also keep track of when you created your account and when it was last updated.'']),
                  El ''p'' []
                    ([Text ''When you run code, I temporarily store the script you submitted, which programming language you chose, and the output it generates. I also track basic metrics like how long your code took to run and how much memory it used '',
                     Glyph 0x2013,
                     Text '' this helps prevent abuse and shows you performance information.'']),
                  El ''p'' []
                    ([Text ''For security purposes, server logs capture your IP address and browser information. This helps me detect and prevent attacks, enforce rate limits, and keep the service running smoothly. These logs are automatically deleted after 7 days.'']),
                  El ''p'' []
                    ([Text (''I don'' @ [CHR 0x27] @ ''t use any analytics services like Google Analytics, and I don'' @ [CHR 0x27] @ ''t track you around the web. The only cookies I use are essential ones for keeping you logged in and remembering your theme preference.'')])]),
               El ''section'' []
                 ([El ''h2'' [] [Text ''Why do I need this information?''],
                  El ''p'' []
                    ([Text ''Pretty straightforward '',
                     Glyph 0x2013,
                     Text '' I need your email and password to create your account and let you log in. The code execution data is necessary to, well, execute your code and show you the results. The security logs help me keep the platform safe from abuse and attacks.'']),
                  El ''p'' []
                    ([Text ''Under GDPR terms, I process your data based on our contract (providing you the service), legitimate interests (security and preventing abuse), and legal obligations (when required by law).''])]),
               El ''section'' []
                 ([El ''h2'' [] [Text ''How long do I keep your data?''],
                  El ''p'' []
                    ([Text ''Your account information stays as long as you have an account, plus 30 days after deletion (in case you change your mind or there are legal issues). Code execution data is kept for 90 days to help with debugging and support. Security logs are automatically purged after 7 days. Performance metrics are aggregated and anonymized after 30 days.''])]),
               El ''section'' []
                 ([El ''h2'' [] [Text ''Who else sees your data?''],
                  El ''p'' []
                    ([Text (''Almost nobody. The server hosting provider has physical access to the infrastructure, but they can'' @ [CHR 0x27] @ ''t access your actual data. I might have to share information if legally required (court order, etc.), but that hasn'' @ [CHR 0x27] @ ''t happened and hopefully never will.'')]),
                  El ''p'' []
                    ([Text (''I don'' @ [CHR 0x27] @ ''t sell your data. I don'' @ [CHR 0x27] @ ''t share it with advertisers. I don'' @ [CHR 0x27] @ ''t even have advertisers. This is a personal project, not a data harvesting operation.'')])]),
               El ''section'' []
                 ([El ''h2'' [] [Text ''How do I protect your data?''],
                  El ''p'' []
                    ([Text (''I use industry-standard security measures: HTTPS encryption for all connections, bcrypt for password hashing, isolated Kubernetes pods for code execution, and regular security updates. Your code runs in a sandboxed environment that'' @ [CHR 0x27] @ ''s destroyed after execution.'')]),
                  El ''p'' []
                    ([Text (''That said, no system is 100% secure. I do my best to protect your data, but I can'' @ [CHR 0x27] @ ''t guarantee absolute security ''),
                     Glyph 0x2013,
                     Text '' nobody can, really.''])]),
               El ''section'' []
                 ([El ''h2'' [] [Text ''Your rights (GDPR stuff)''],
                  El ''p'' []
                    ([Text ''Under GDPR, you have several rights regarding your data. You can request a copy of your data, ask me to correct mistakes, delete your account and data, restrict how I process your data, export your data in a portable format, object to certain processing, or withdraw consent at any time.'']),
                  El ''p'' []
                    ([Text ''To exercise any of these rights, just email me at '',
                     El ''a'' [Attr ''href'' (''mailto:'' @ operatorEmail @ ''?subject=GDPR%20Request'')] [Text operatorEmail],
                     Text (''. I'' @ [CHR 0x27] @ ''ll handle your request personally and respond within the GDPR-required timeframe.'')])]),
               El ''section'' []
                 ([El ''h2'' [] ([Text (''Where'' @ [CHR 0x27] @ ''s your data stored?'')]),
                  El ''p'' []
                    ([Text (''Everything is hosted on servers in '' @ operatorLocation @ '', which is in the EU. Your data doesn'' @ [CHR 0x27] @ ''t leave the EU, so it'' @ [CHR 0x27] @ ''s protected by GDPR. If you'' @ [CHR 0x27] @ ''re accessing this from outside the EU, your data gets transferred here for processing.'')])]),
               El ''section'' []
                 ([El ''h2'' [] [Text ''About cookies''],
                  El ''p'' []
                    ([Text ''I only use essential cookies '',
                     Glyph 0x2013,
                     Text '' the ones needed to keep you logged in and remember if you prefer dark mode. No tracking cookies, no advertising cookies, no third-party cookies. Just the bare minimum to make the site work.''])]),
               privacy_children,
               privacy_stack,
               privacy_changes,
               privacy_contact,
               El ''section'' []
                 ([El ''p'' []
                    ([Text (''This privacy policy was written in plain English because legal jargon helps nobody. If something isn'' @ [CHR 0x27] @ ''t clear, just ask. Thanks for trusting me with your data ''),
                     Glyph 0x2013,
                     Text '' I take that responsibility seriously.''])])])])])]"

definition error_view :: "int \<Rightarrow> string option \<Rightarrow> error_action node list" where
  "error_view code msg =
     [El ''svelte:head'' []
        ([El ''title'' []
           ([Text ((if code = 404 then ''Page not found'' else ''Error'') @ '' - Integr8sCode'')])])] @
     ErrorDisplay_view (if code = 404 then ''Page not found'' else ''Something went wrong'')
        (case msg of None \<Rightarrow> ''Unknown error'' | Some m \<Rightarrow> m)"

section \<open>What the pages offer\<close>

text \<open>The footer leads to the monitoring exactly for an administrator.\<close>

lemma footer_links:
  "all_links (Footer_view k user year) =
     [resolve k ''/'', resolve k ''/(auth)/editor''] @ (if is_admin user then [''/grafana''] else []) @
     [resolve k ''/privacy'', ''https://t.me/MaxAzatian'', ''https://github.com/HardMax71/Integr8sCode'']"
  by (simp add: Footer_view_def view_simps)

text \<open>The administration links to its four pages; the one that shows is marked.\<close>

lemma admin_layout_links:
  "all_links (admin_layout_view k here user children) =
     map (\<lambda>(i, sidebarLabel, pageHeading). resolve k i) ADMIN_ROUTES @ all_links children"
  by (simp add: admin_layout_view_def ADMIN_ROUTES_def Let_def view_simps)

text \<open>The history offers to restore each of its entries, the dialog to close it.\<close>

lemma history_offers:
  "set (all_actions (SettingsHistoryTable_view D history loading)) =
     (\<lambda>item. Restore_at (field_text item ''timestamp'')) ` set history"
  by (auto simp: SettingsHistoryTable_view_def DataTable_view_def createServerTable_def history_columns_def
      changeCell_def restoreCell_def view_simps)

text \<open>A control of the form library has no handlers of the page.\<close>

definition quiet :: "'a form_library \<Rightarrow> bool" where
  "quiet F \<longleftrightarrow> (\<forall>nm. handlers (control F nm) = [] \<and> handlers (constraint F nm) = [])"

lemma handlers_append [view_simps]: "handlers (as @ bs) = handlers as @ handlers bs"
  by (simp add: handlers_def)

lemma disabled_append [view_simps]: "disabled (as @ bs) \<longleftrightarrow> disabled as \<or> disabled bs"
  by (auto simp: disabled_def)

lemma quiet_handlers [view_simps]:
  "quiet F \<Longrightarrow> handlers (control F nm) = []" "quiet F \<Longrightarrow> handlers (constraint F nm) = []"
  by (simp_all add: quiet_def)

text \<open>The two forms have one button, which is disabled while the request is on its way.\<close>

lemma login_texts:
  "e \<noteq> [] \<Longrightarrow> e \<in> set (all_texts (login_view k F d loading (Some e)))"
  by (simp add: login_view_def truthy_text_def view_simps)

end
