(* ===== verification/AdminViews.thy ===== *)
theory AdminViews
  imports SiteViews
begin

text \<open>
  The markup of the administration: the pages of \<^verbatim>\<open>routes/admin\<close>, the tables, filters and dialogs of
  \<^verbatim>\<open>components/admin\<close> and \<^verbatim>\<open>components/EventTypeIcon.svelte\<close>. What the pages keep is in \<open>Admin\<close>; what their
  queries hold is a record of its own here, with the flags of the query.
\<close>

section \<open>Values\<close>

text \<open>The number a value is where arithmetic is done on it; the API sends numbers there.\<close>

fun number_of :: "data \<Rightarrow> rat" where
  "number_of (VNum x) = x"
| "number_of (VBool b) = (if b then 1 else 0)"
| "number_of _ = 0"

text \<open>A number that need not be whole, as it is shown\<close>

fun number_text :: "data \<Rightarrow> string" where
  "number_text (VNum x) = show_number x"
| "number_text d = shown d"

text \<open>\<open>x.toFixed(2)\<close> for a number that is not negative\<close>

definition toFixed2 :: "rat \<Rightarrow> string" where
  "toFixed2 x =
     (let n = nat \<lfloor>100 * x + 1 / 2\<rfloor>
      in show_nat (n div 100) @ ''.'' @ show_nat (n div 10 mod 10) @ show_nat (n mod 10))"

text \<open>\<open>v || '-'\<close>\<close>

definition or_dash :: "data \<Rightarrow> string \<Rightarrow> string" where
  "or_dash d k = (if data_truthy (data_get d k) then field_text d k else ''-'')"

text \<open>\<open>data?.items ?? []\<close> and \<open>data?.total ?? 0\<close>\<close>

definition items_of :: "string \<Rightarrow> data option \<Rightarrow> data list" where
  "items_of k d = (case d of None \<Rightarrow> [] | Some r \<Rightarrow> data_items (data_get r k))"

definition total_of :: "data option \<Rightarrow> int" where
  "total_of d = (case d of None \<Rightarrow> 0 | Some r \<Rightarrow> \<lfloor>number_of (data_get r ''total'')\<rfloor>)"

text \<open>The classes of a status and of a group by the string the API sends\<close>

definition status_badge :: "string \<Rightarrow> string" where
  "status_badge t =
     (case List.find (\<lambda>s. ExecutionStatus_value s = t) ExecutionStatus_members of
        None \<Rightarrow> [] | Some s \<Rightarrow> EXECUTION_STATUS_BADGE s)"

definition group_color :: "string \<Rightarrow> string" where
  "group_color t =
     (case List.find (\<lambda>g. EndpointGroup_value g = t) EndpointGroup_members of None \<Rightarrow> [] | Some g \<Rightarrow> GROUP_COLORS g)"

text \<open>\<open>JSON.stringify(value, null, 2)\<close>\<close>

definition indented :: "nat \<Rightarrow> string \<Rightarrow> string \<Rightarrow> string list \<Rightarrow> string" where
  "indented n l r ts =
     (if ts = [] then l @ r
      else l @ [CHR 0x0A] @ replicate (n + 2) (CHR 0x20) @ join ('','' @ [CHR 0x0A] @ replicate (n + 2) (CHR 0x20)) ts @
        [CHR 0x0A] @ replicate n (CHR 0x20) @ r)"

fun json_pretty :: "nat \<Rightarrow> data \<Rightarrow> string option" where
  "json_pretty n VUndefined = None"
| "json_pretty n VNull = Some ''null''"
| "json_pretty n (VBool b) = Some (if b then ''true'' else ''false'')"
| "json_pretty n (VNum x) = Some (show_number x)"
| "json_pretty n (VStr s) = Some (json_quote s)"
| "json_pretty n (VArray vs) =
     Some (indented n ''['' '']'' (map (\<lambda>v. case json_pretty (n + 2) v of None \<Rightarrow> ''null'' | Some t \<Rightarrow> t) vs))"
| "json_pretty n (VObject es) =
     Some (indented n ''{'' ''}''
       (concat (map (\<lambda>e. case json_pretty (n + 2) (snd e) of None \<Rightarrow> [] | Some t \<Rightarrow> [json_quote (fst e) @ '': '' @ t]) es)))"

section \<open>Events\<close>

datatype events_action =
    Toggle_filters | Apply_filters | Clear_filters | Choose_types | Type_filter string
  | Export_events string | Refresh_events | Close_banner
  | View_details string | View_user string | Delete_event string
  | Replay_event string bool \<comment> \<open>whether it is a dry run\<close>
  | Replay_shown string | Confirm_replay string | Close_dialog
  | Events_page paging_action

text \<open>The input of a filter: what is chosen, or what is typed into the field of a name\<close>

definition choose_types :: "string list \<Rightarrow> data \<Rightarrow> data" where
  "choose_types sel fs = set_filter ''event_types'' (selected_types sel) fs"

definition type_filter :: "time_inputs \<Rightarrow> string \<Rightarrow> string \<Rightarrow> data \<Rightarrow> data" where
  "type_filter L k val fs =
     set_filter k (if k = ''start_time'' \<or> k = ''end_time'' then fromInput L val else text_filter val) fs"

text \<open>
  What an action does to the page, with the calls it makes. \<open>confirmed\<close> is what the user answers, \<open>sel\<close> and
  \<open>val\<close> what the input holds, \<open>turn\<close> the updater that the table passes for a button of the pagination.
\<close>

datatype events_call = Send_delete string | Send_replay data | Fetch_again | Open_export string

definition events_act ::
    "time_inputs \<Rightarrow> (paging_action \<Rightarrow> updater) \<Rightarrow> bool \<Rightarrow> string list \<Rightarrow> string \<Rightarrow> events_action \<Rightarrow>
     events_page \<times> bool \<Rightarrow> events_call list \<times> events_page \<times> bool" where
  "events_act L turn confirmed sel val a p =
     (case p of (s, showFilters) \<Rightarrow>
      (case a of
         Toggle_filters \<Rightarrow> ([], s, \<not> showFilters)
       | Apply_filters \<Rightarrow> ([], applyFilters_events s, showFilters)
       | Clear_filters \<Rightarrow> ([], clearFilters s, showFilters)
       | Choose_types \<Rightarrow> ([], s\<lparr>form_filters := choose_types sel (form_filters s)\<rparr>, showFilters)
       | Type_filter k \<Rightarrow> ([], s\<lparr>form_filters := type_filter L k val (form_filters s)\<rparr>, showFilters)
       | Export_events format \<Rightarrow> ([Open_export format], s, showFilters)
       | Refresh_events \<Rightarrow> ([Fetch_again], s, showFilters)
       | Close_banner \<Rightarrow> ([], s\<lparr>replaySessionId := []\<rparr>, showFilters)
       | View_details i \<Rightarrow> ([], s\<lparr>dialog := Details i\<rparr>, showFilters)
       | View_user u \<Rightarrow> ([], if u \<noteq> [] then s\<lparr>dialog := Overview u\<rparr> else s, showFilters)
       | Delete_event i \<Rightarrow>
           (case deleteEvent confirmed i of None \<Rightarrow> [] | Some i \<Rightarrow> [Send_delete i], s, showFilters)
       | Replay_event i dryRun \<Rightarrow>
           (case replayEvent confirmed i dryRun of None \<Rightarrow> [] | Some b \<Rightarrow> [Send_replay b], s, showFilters)
       | Replay_shown i \<Rightarrow>
           (if i = [] then ([], s, showFilters)
            else (case replayEvent confirmed i False of None \<Rightarrow> [] | Some b \<Rightarrow> [Send_replay b],
              s\<lparr>dialog := Closed\<rparr>, showFilters))
       | Confirm_replay i \<Rightarrow>
           (case replayEvent confirmed i False of None \<Rightarrow> [] | Some b \<Rightarrow> [Send_replay b], s\<lparr>dialog := Closed\<rparr>, showFilters)
       | Close_dialog \<Rightarrow> ([], s\<lparr>dialog := Closed\<rparr>, showFilters)
       | Events_page b \<Rightarrow> ([], s\<lparr>events_paging := onPaginationChange (turn b) (events_paging s)\<rparr>, showFilters)))"

definition event_icon :: "string \<Rightarrow> string" where
  "event_icon t =
     (case map_of
        [(EventType_value EventType.EXECUTION_REQUESTED, ''FileInput''),
         (EventType_value EventType.EXECUTION_STARTED, ''CirclePlay''),
         (EventType_value EventType.EXECUTION_COMPLETED, ''CircleCheckBig''),
         (EventType_value EventType.EXECUTION_FAILED, ''CircleX''),
         (EventType_value EventType.EXECUTION_TIMEOUT, ''Clock''),
         (EventType_value EventType.POD_CREATED, ''Zap''),
         (EventType_value EventType.POD_RUNNING, ''Zap''),
         (EventType_value EventType.POD_SUCCEEDED, ''Check''),
         (EventType_value EventType.POD_FAILED, ''X''),
         (EventType_value EventType.POD_TERMINATED, ''CircleMinus'')] t of
        None \<Rightarrow> ''CircleQuestionMark'' | Some icon \<Rightarrow> icon)"

definition EventTypeIcon_view :: "string \<Rightarrow> int \<Rightarrow> 'a node list" where
  "EventTypeIcon_view eventType sz =
     [El (event_icon eventType) [Attr ''size'' (show_int sz)] []]"

definition EventFilters_view :: "time_inputs \<Rightarrow> data \<Rightarrow> events_action node list" where
  "EventFilters_view L fs =
     [El ''div'' [Attr ''class'' ''card mb-6'']
        ([El ''div'' [Attr ''class'' ''p-4'']
           ([El ''div'' [Attr ''class'' ''flex items-center justify-between mb-3'']
              ([El ''h3'' [Attr ''class'' ''text-sm font-semibold uppercase tracking-wide''] [Text ''Filter Events''],
               El ''div'' [Attr ''class'' ''flex gap-2'']
                 ([El ''button'' [Attr ''type'' ''button'',
                     On ''onclick'' Clear_filters,
                     Attr ''class'' ''btn btn-ghost btn-sm''] [Text ''Clear All''],
                  El ''button'' [Attr ''type'' ''button'',
                     On ''onclick'' Apply_filters,
                     Attr ''class'' ''btn btn-primary btn-sm''] [Text ''Apply'']])]),
            El ''div'' [Attr ''class'' ''space-y-3'']
              ([El ''div'' [Attr ''class'' ''grid grid-cols-1 sm:grid-cols-2 lg:grid-cols-4 xl:grid-cols-5 gap-3'']
                 ([El ''div'' [Attr ''class'' ''field lg:col-span-1'']
                    ([El ''label'' [Attr ''for'' ''event-types-filter''] [Text (fieldTitle ''event_types'')],
                     El ''select'' [Attr ''id'' ''event-types-filter'',
                        Has ''multiple'' True,
                        On ''onchange'' Choose_types,
                        Attr ''class'' ''form-select-standard text-sm h-20'',
                        Attr ''title'' ''Hold Ctrl/Cmd to select multiple'']
                       (concat (map (\<lambda>kind.
                           [El ''option'' [Attr ''value'' kind,
                               Has ''selected'' (VStr kind \<in> set (data_items (data_get fs ''event_types''))),
                               Attr ''class'' ''text-xs''] [Text kind]]) EVENT_TYPES))]),
                  El ''div'' [Attr ''class'' ''field'']
                    ([El ''label'' [Attr ''for'' ''search-filter''] [Text (fieldTitle ''search_text'')],
                     El ''input'' [Attr ''id'' ''search-filter'',
                        Attr ''type'' ''text'',
                        Attr ''value'' (field_text fs ''search_text''),
                        On ''oninput'' (Type_filter ''search_text''),
                        Attr ''class'' ''form-input-standard text-sm''] []]),
                  El ''div'' [Attr ''class'' ''field'']
                    ([El ''label'' [Attr ''for'' ''aggregate-filter''] [Text (fieldTitle ''aggregate_id'')],
                     El ''input'' [Attr ''id'' ''aggregate-filter'',
                        Attr ''type'' ''text'',
                        Attr ''value'' (field_text fs ''aggregate_id''),
                        On ''oninput'' (Type_filter ''aggregate_id''),
                        Attr ''placeholder'' ''exec_id'',
                        Attr ''class'' ''form-input-standard text-sm font-mono''] []]),
                  El ''div'' [Attr ''class'' ''field'']
                    ([El ''label'' [Attr ''for'' ''user-filter''] [Text (fieldTitle ''user_id'')],
                     El ''input'' [Attr ''id'' ''user-filter'',
                        Attr ''type'' ''text'',
                        Attr ''value'' (field_text fs ''user_id''),
                        On ''oninput'' (Type_filter ''user_id''),
                        Attr ''placeholder'' ''user_123'',
                        Attr ''class'' ''form-input-standard text-sm font-mono''] []])]),
               El ''div'' [Attr ''class'' ''grid grid-cols-1 sm:grid-cols-2 lg:grid-cols-3 gap-3'']
                 ([El ''div'' [Attr ''class'' ''field'']
                    ([El ''label'' [Attr ''for'' ''service-filter''] [Text (fieldTitle ''service_name'')],
                     El ''input'' [Attr ''id'' ''service-filter'',
                        Attr ''type'' ''text'',
                        Attr ''value'' (field_text fs ''service_name''),
                        On ''oninput'' (Type_filter ''service_name''),
                        Attr ''placeholder'' ''execution-service'',
                        Attr ''class'' ''form-input-standard text-sm''] []]),
                  El ''div'' [Attr ''class'' ''field'']
                    ([El ''label'' [Attr ''for'' ''start-time-filter''] [Text (fieldTitle ''start_time'')],
                     El ''input'' [Attr ''id'' ''start-time-filter'',
                        Attr ''type'' ''datetime-local'',
                        Attr ''value'' (inputValue L (data_get fs ''start_time'')),
                        On ''oninput'' (Type_filter ''start_time''),
                        Attr ''class'' ''form-input-standard text-sm''] []]),
                  El ''div'' [Attr ''class'' ''field'']
                    ([El ''label'' [Attr ''for'' ''end-time-filter''] [Text (fieldTitle ''end_time'')],
                     El ''input'' [Attr ''id'' ''end-time-filter'',
                        Attr ''type'' ''datetime-local'',
                        Attr ''value'' (inputValue L (data_get fs ''end_time'')),
                        On ''oninput'' (Type_filter ''end_time''),
                        Attr ''class'' ''form-input-standard text-sm''] []])])])])])]"

definition EventStatsCards_view :: "(rat \<Rightarrow> string) \<Rightarrow> data option \<Rightarrow> int \<Rightarrow> events_action node list" where
  "EventStatsCards_view toLocale stats totalEvents =
     (case stats of
       Some st \<Rightarrow>
         [El ''p'' [Attr ''class'' ''text-xs text-fg-muted mb-2''] [Text ''Last 24 hours''],
          El ''div'' [Attr ''class'' ''grid grid-cols-2 lg:grid-cols-4 gap-4 mb-6'']
            ([El ''dl'' [Attr ''class'' ''card stat p-4'']
               ([El ''dt'' [] [Text (fieldTitle ''total_events'')],
                El ''dd'' []
                  ([Text (toLocale (number_of (data_get st ''total_events'')))]),
                El ''dd'' [Attr ''class'' ''mt-0 text-xs font-normal text-fg-muted'']
                  ([Text (''of '' @ toLocale (of_int totalEvents) @ '' total'')])]),
             El ''dl'' [Attr ''class'' ''card stat p-4'']
               ([El ''dt'' [] [Text (fieldTitle ''error_rate'')],
                El ''dd'' [Attr ''class'' (if number_of (data_get st ''error_rate'') > 0 then ''text-danger'' else ''text-success'')] [Text (number_text (data_get st ''error_rate'') @ ''%'')]]),
             El ''dl'' [Attr ''class'' ''card stat p-4'']
               ([El ''dt'' [] [Text (fieldTitle ''avg_processing_time'')],
                El ''dd'' []
                  ([Text (toFixed2 (number_of (data_get st ''avg_processing_time'')) @ ''s'')])]),
             El ''dl'' [Attr ''class'' ''card stat p-4'']
               ([El ''dt'' [] [Text (fieldTitle ''top_users'')],
                El ''dd'' []
                  ([Text (show_nat (length (data_items (data_get st ''top_users''))))])])])]
     | None \<Rightarrow> [])"

definition timeCell :: "dates \<Rightarrow> data \<Rightarrow> events_action node list" where
  "timeCell D e =
     [El ''button'' [Attr ''type'' ''button'',
         Attr ''class'' ''text-left hover:underline'',
         On ''onclick'' (View_details (field_text e ''event_id'')),
         Attr ''aria-label'' (''View details for event '' @ (take 8 (field_text e ''event_id'')))]
        ([El ''div'' [Attr ''class'' ''text-xs text-fg-muted'']
           ([Text (formatDateOnly D (text_option (data_get e ''timestamp'')))]),
         El ''div'' [Attr ''class'' ''text-sm'']
           ([Text (formatTimeOnly D (text_option (data_get e ''timestamp'')))])])]"

definition typeCell :: "data \<Rightarrow> events_action node list" where
  "typeCell e =
     [El ''Tooltip.Root'' []
        ([El ''Tooltip.Trigger'' [Attr ''class'' ''cursor-help rounded'',
            Attr ''aria-label'' (field_text e ''event_type'')]
           ([El ''span'' [Attr ''class'' (getEventTypeColor (field_text e ''event_type'')),
               Attr ''data-testid'' ''event-type-icon'',
               Attr ''data-event-type'' (field_text e ''event_type'')] (EventTypeIcon_view (field_text e ''event_type'') 20)]),
         El ''Tooltip.Portal'' []
           ([El ''Tooltip.Content'' [Attr ''side'' ''bottom'',
               Attr ''align'' ''start'',
               Attr ''sideOffset'' ''6'',
               Attr ''class'' ''tooltip-content'']
              ([El ''div'' [Attr ''class'' ''font-medium''] [Text (field_text e ''event_type'')],
               El ''div'' [Attr ''class'' ''text-fg-subtle text-xs font-mono mt-0.5''] [Text (take 8 (field_text e ''event_id'') @ ''...'')]])])])]"

definition userCell :: "data \<Rightarrow> events_action node list" where
  "userCell e =
     (if data_truthy (data_get (data_get e ''metadata'') ''user_id'') then
         (let userId = field_text (data_get e ''metadata'') ''user_id'' in
         [El ''button'' [Attr ''type'' ''button'',
             Attr ''class'' ''text-info hover:underline text-left font-mono text-xs truncate'',
             Attr ''title'' ''View user overview'',
             On ''onclick'' (View_user userId)] [Text userId]])
      else [El ''span'' [Attr ''class'' ''text-fg-muted''] [Text ''-'']])"

definition serviceCell :: "data \<Rightarrow> events_action node list" where
  "serviceCell e =
     [El ''div'' [Attr ''class'' ''truncate'',
         Attr ''title'' (or_dash (data_get e ''metadata'') ''service_name'')] [Text (or_dash (data_get e ''metadata'') ''service_name'')]]"

definition event_actionsCell :: "data \<Rightarrow> events_action node list" where
  "event_actionsCell e =
     [El ''div'' [Attr ''class'' ''flex flex-wrap gap-1 justify-center'']
        ([El ''button'' [Attr ''type'' ''button'',
            On ''onclick'' (Replay_event (field_text e ''event_id'') True),
            Attr ''class'' ''p-1 hover:bg-muted rounded'',
            Attr ''title'' ''Preview replay'',
            Attr ''aria-label'' ''Preview replay''] ([El ''Eye'' [Attr ''size'' ''16''] []]),
         El ''button'' [Attr ''type'' ''button'',
            On ''onclick'' (Replay_event (field_text e ''event_id'') False),
            Attr ''class'' ''p-1 hover:bg-muted rounded text-info'',
            Attr ''title'' ''Replay'',
            Attr ''aria-label'' ''Replay''] ([El ''Play'' [Attr ''size'' ''16''] []]),
         El ''button'' [Attr ''type'' ''button'',
            On ''onclick'' (Delete_event (field_text e ''event_id'')),
            Attr ''class'' ''p-1 hover:bg-muted rounded text-danger'',
            Attr ''title'' ''Delete'',
            Attr ''aria-label'' ''Delete''] ([El ''Trash'' [Attr ''size'' ''16''] []])])]"

definition events_columns :: "dates \<Rightarrow> (data, events_action) column list" where
  "events_columns D =
     [\<lparr>column_id = ''timestamp'', column_class = [], column_cell = timeCell D\<rparr>,
      \<lparr>column_id = ''event_type'', column_class = [], column_cell = typeCell\<rparr>,
      \<lparr>column_id = ''user_id'', column_class = [], column_cell = userCell\<rparr>,
      \<lparr>column_id = ''service_name'', column_class = ''hidden xl:table-cell'', column_cell = serviceCell\<rparr>,
      \<lparr>column_id = ''actions'', column_class = ''text-center'', column_cell = event_actionsCell\<rparr>]"

definition EventsTable_view :: "dates \<Rightarrow> data list \<Rightarrow> int \<Rightarrow> paging \<Rightarrow> bool \<Rightarrow> events_action node list" where
  "EventsTable_view D events rowCount p loading =
     DataTable_view (createServerTable (events_columns D) events) ''Events'' loading ''No events found'' True True @
     map (map_node Events_page) (Pagination_view p rowCount ''events'' [10, 25, 50, 100])"

definition EventDetailsModal_view :: "dates \<Rightarrow> data option \<Rightarrow> data list \<Rightarrow> events_action node list" where
  "EventDetailsModal_view D event related =
     Modal_view True ''Event Details'' Close_dialog ''lg''
        ((case event of
           Some e \<Rightarrow>
             ([El ''div'' [Attr ''class'' ''space-y-4'']
                ([El ''div'' []
                   ([El ''h4'' [Attr ''class'' ''font-semibold mb-2''] [Text ''Basic Information''],
                    El ''dl'' [Attr ''class'' ''grid grid-cols-[auto_1fr] *:px-4 *:py-2 *:border-b *:border-border [&>dt]:font-semibold'']
                      ([El ''dt'' [] [Text (fieldTitle ''event_id'')],
                       El ''dd'' [Attr ''class'' ''font-mono text-sm''] [Text (field_text e ''event_id'')],
                       El ''dt'' [] [Text (fieldTitle ''event_type'')],
                       El ''dd'' []
                         ([El ''div'' [Attr ''class'' ''flex items-center gap-2'']
                            ([El ''span'' [Attr ''class'' ((getEventTypeColor (field_text e ''event_type'')) @ '' shrink-0''),
                                Attr ''title'' (field_text e ''event_type'')] (EventTypeIcon_view (field_text e ''event_type'') 20),
                             El ''span'' [Attr ''class'' (getEventTypeColor (field_text e ''event_type''))] [Text (field_text e ''event_type'')]])]),
                       El ''dt'' [] [Text (fieldTitle ''timestamp'')],
                       El ''dd'' [Attr ''class'' ''text-sm'']
                         ([Text (formatTimestamp D (text_option (data_get e ''timestamp'')))]),
                       El ''dt'' [] [Text (fieldTitle ''aggregate_id'')],
                       El ''dd'' [Attr ''class'' ''font-mono text-sm''] [Text (or_dash e ''aggregate_id'')]])]),
                 El ''div'' []
                   ([El ''h4'' [Attr ''class'' ''font-semibold mb-2''] [Text (fieldTitle ''event'')],
                    El ''pre'' [Attr ''class'' ''bg-muted p-3 rounded overflow-auto text-sm font-mono max-h-96'']
                      ([Text ((case json_pretty 0 e of None \<Rightarrow> [] | Some t \<Rightarrow> t))])])] @
                (if related \<noteq> [] then
                    [El ''div'' []
                       ([El ''h4'' [Attr ''class'' ''font-semibold mb-2''] [Text (fieldTitle ''related_events'')],
                        El ''div'' [Attr ''class'' ''space-y-1'']
                          (concat (map (\<lambda>r.
                              [El ''button'' [Attr ''type'' ''button'',
                                  On ''onclick'' (View_details (field_text r ''event_id'')),
                                  Attr ''class'' ''flex justify-between items-center w-full p-2 bg-muted rounded hover:bg-fg/10 transition-colors'']
                                 ([El ''span'' [Attr ''class'' (getEventTypeColor (field_text r ''event_type''))] [Text (field_text r ''event_type'')],
                                  El ''span'' [Attr ''class'' ''text-sm text-fg-muted'']
                                    ([Text (formatTimestamp D (text_option (data_get r ''timestamp'')))])])]) related))])]
                 else []))])
         | None \<Rightarrow> []))
        (Some
          ([El ''button'' [Attr ''type'' ''button'',
               On ''onclick'' (Replay_shown (case event of None \<Rightarrow> [] | Some e \<Rightarrow> field_text e ''event_id'')),
               Attr ''class'' ''btn btn-primary''] [Text ''Replay Event''],
            El ''button'' [Attr ''type'' ''button'',
               On ''onclick'' Close_dialog,
               Attr ''class'' ''btn btn-secondary-outline''] [Text ''Close'']]))"

definition ReplayPreviewModal_view :: "dates \<Rightarrow> string \<Rightarrow> int \<Rightarrow> data \<Rightarrow> events_action node list" where
  "ReplayPreviewModal_view D eventId count previews =
     Modal_view True ''Replay Preview'' Close_dialog ''md''
        ([El ''p'' [Attr ''class'' ''text-sm text-fg-muted -mt-2 mb-4''] [Text ''Review the events that will be replayed''],
          El ''div'' [Attr ''class'' ''mb-4'']
            ([El ''div'' [Attr ''class'' ''bg-info-soft border border-info/30 rounded-lg p-4'']
               ([El ''div'' [Attr ''class'' ''flex items-center justify-between'']
                  ([El ''span'' [Attr ''class'' ''font-semibold text-info'']
                     ([Text (show_int count @ '' event'' @ (if count \<noteq> 1 then ''s'' else []) @ '' will be replayed'')]),
                   El ''span'' [Attr ''class'' ''text-sm text-info''] [Text (fieldTitle ''dry_run'')]])])])] @
         (if data_items previews \<noteq> [] then
             ([El ''div'' [Attr ''class'' ''space-y-3'']
                ([El ''h3'' [Attr ''class'' ''font-medium mb-2''] [Text (fieldTitle ''events_preview'')]] @
                concat (map (\<lambda>e.
                    [El ''div'' [Attr ''class'' ''bg-muted rounded-lg p-3'']
                       ([El ''div'' [Attr ''class'' ''flex justify-between items-start'']
                          ([El ''div'' []
                             ([El ''div'' [Attr ''class'' ''font-mono text-xs text-fg-muted mb-1''] [Text (field_text e ''event_id'')],
                              El ''div'' [Attr ''class'' ''font-medium''] [Text (field_text e ''event_type'')]] @
                             (if data_truthy (data_get e ''aggregate_id'') then
                                 [El ''dl'' [Attr ''class'' ''flex gap-2 text-sm text-fg-muted mt-1'']
                                    ([El ''dt'' [] [Text (fieldTitle ''aggregate_id'')],
                                     El ''dd'' [Attr ''class'' ''font-mono''] [Text (field_text e ''aggregate_id'')]])]
                              else [])),
                           El ''div'' [Attr ''class'' ''text-sm text-fg-muted'']
                             ([Text (formatTimestamp D (text_option (data_get e ''timestamp'')))])])])]) (data_items previews)))])
          else []) @
         [El ''div'' [Attr ''class'' ''mt-6 bg-warning-soft border border-warning/30 rounded-lg p-4'']
            ([El ''div'' [Attr ''class'' ''flex'']
               ([El ''TriangleAlert'' [Attr ''size'' ''20'', Attr ''class'' ''text-warning mt-0.5 shrink-0''] [],
                El ''div'' [Attr ''class'' ''ml-3'']
                  ([El ''h3'' [Attr ''class'' ''text-sm font-medium text-warning''] [Text ''Warning''],
                   El ''div'' [Attr ''class'' ''mt-1 text-sm text-warning'']
                     ([Text ''Replaying events will re-process them through the system. This may trigger new executions and create duplicate results if the events have already been processed.''])])])])])
        (Some
          ([El ''button'' [Attr ''type'' ''button'',
               On ''onclick'' (Confirm_replay eventId),
               Attr ''class'' ''btn btn-primary''] [Text ''Proceed with Replay''],
            El ''button'' [Attr ''type'' ''button'',
               On ''onclick'' Close_dialog,
               Attr ''class'' ''btn btn-secondary-outline''] [Text ''Cancel'']]))"

definition ReplayProgressBanner_view :: "data option \<Rightarrow> events_action node list" where
  "ReplayProgressBanner_view session =
     (case session of
       Some st \<Rightarrow>
         ([El ''div'' [Attr ''class'' ''bg-info-soft border border-info/30 rounded-lg p-4 mb-6 relative'']
            ([El ''button'' [Attr ''type'' ''button'',
                On ''onclick'' Close_banner,
                Attr ''class'' ''absolute top-2 right-2 p-1 hover:bg-info-soft rounded-lg transition-colors'',
                Attr ''title'' ''Close'']
               ([El ''X'' [Attr ''size'' ''20'', Attr ''class'' ''text-info''] []]),
             El ''div'' [Attr ''class'' ''flex items-center justify-between mb-2 pr-8'']
               ([El ''h3'' [Attr ''class'' ''font-semibold text-info''] [Text ''Replay in Progress''],
                El ''span'' [Attr ''class'' ''text-sm text-info''] [Text (field_text st ''status'')]]),
             El ''div'' [Attr ''class'' ''mb-2'']
               ([El ''div'' [Attr ''class'' ''flex justify-between text-sm text-info mb-1'']
                  ([El ''span'' []
                     ([Text (''Progress: '' @ field_text st ''replayed_events'' @ '' / '' @ field_text st ''total_events'' @ '' events'')]),
                   El ''span'' []
                     ([Text (number_text (data_get st ''progress_percentage'') @ ''%'')])]),
                El ''div'' [Attr ''class'' ''w-full bg-info/25 rounded-full h-2 overflow-hidden'']
                  ([El ''div'' [Attr ''class'' ''bg-info h-2 rounded-full transition-[width] duration-300'',
                      Attr ''style'' (''width: '' @ ((show_number (min (number_of (data_get st ''progress_percentage'')) 100))) @ ''%'')] []])])] @
            (if data_items (data_get st ''errors'') \<noteq> [] then
                ([El ''div'' [Attr ''class'' ''mt-2 space-y-1'']
                   (concat (map (\<lambda>err.
                       [El ''div'' [Attr ''class'' ''p-2 bg-danger-soft border border-danger/30 rounded text-xs'']
                          ((if data_truthy (data_get err ''event_id'') then
                              [El ''div'' [Attr ''class'' ''font-mono text-fg-muted''] [Text (field_text err ''event_id'')]]
                           else []) @
                          [El ''div'' [Attr ''class'' ''text-danger''] [Text (field_text err ''error'')]])]) (data_items (data_get st ''errors''))))])
             else []) @
            (if data_items (data_get st ''execution_results'') \<noteq> [] then
                ([El ''div'' [Attr ''class'' ''mt-4 border-t border-info/30 pt-3'']
                   ([El ''h4'' [Attr ''class'' ''text-sm font-semibold text-info mb-2''] [Text (fieldTitle ''execution_results'')],
                    El ''div'' [Attr ''class'' ''space-y-2'']
                      (concat (map (\<lambda>r.
                          [El ''div'' [Attr ''class'' ''bg-surface rounded p-2 text-sm'']
                             ([El ''div'' [Attr ''class'' ''flex justify-between items-start'']
                                ([El ''div'' []
                                   ([El ''span'' [Attr ''class'' ''font-mono text-xs text-fg-muted''] [Text (field_text r ''execution_id'')],
                                    El ''div'' [Attr ''class'' ''flex items-center gap-2 mt-1'']
                                      ([El ''span'' [Attr ''class'' (''badge '' @ ((status_badge (field_text r ''status''))))] [Text (field_text r ''status'')]] @
                                      (if data_truthy (data_get (data_get r ''resource_usage'') ''execution_time_wall_seconds'') then
                                          [El ''span'' [Attr ''class'' ''text-fg-muted'']
                                             ([Text (toFixed2 (number_of (data_get (data_get r ''resource_usage'') ''execution_time_wall_seconds'')) @ ''s'')])]
                                       else []))])] @
                                (if data_truthy (data_get r ''stdout'') \<or> data_truthy (data_get r ''stderr'') then
                                    ([El ''div'' [Attr ''class'' ''text-right'']
                                       ((if data_truthy (data_get r ''stdout'') then
                                           [El ''div'' [Attr ''class'' ''font-mono text-success''] [Text (field_text r ''stdout'')]]
                                        else []) @
                                       (if data_truthy (data_get r ''stderr'') then
                                           [El ''div'' [Attr ''class'' ''font-mono text-danger''] [Text (field_text r ''stderr'')]]
                                        else []))])
                                 else []))])]) (data_items (data_get st ''execution_results''))))])])
             else []))])
     | None \<Rightarrow> [])"

definition UserOverviewModal_view :: "dates \<Rightarrow> kit \<Rightarrow> bool \<Rightarrow> data option \<Rightarrow> events_action node list" where
  "UserOverviewModal_view D k pending overview =
     Modal_view True ''User Overview'' Close_dialog ''lg''
        ((if pending then
             [El ''div'' [Attr ''class'' ''flex items-center justify-center py-10''] [Spinner ''medium'' ''primary'' '''']]
          else (case overview of
           Some ov \<Rightarrow>
             ([El ''div'' [Attr ''class'' ''grid grid-cols-1 md:grid-cols-2 gap-6'']
                ([El ''div'' []
                   ([El ''h3'' [Attr ''class'' ''font-semibold mb-3''] [Text (fieldTitle ''user'')],
                    El ''dl'' [Attr ''class'' ''details'']
                      ([El ''dt'' [] [Text (fieldTitle ''user_id'')],
                       El ''dd'' [Attr ''class'' ''font-mono''] [Text (field_text (data_get ov ''user'') ''user_id'')],
                       El ''dt'' [] [Text (fieldTitle ''username'')],
                       El ''dd'' [] [Text (field_text (data_get ov ''user'') ''username'')],
                       El ''dt'' [] [Text (fieldTitle ''email'')],
                       El ''dd'' [] [Text (field_text (data_get ov ''user'') ''email'')],
                       El ''dt'' [] [Text (fieldTitle ''role'')],
                       El ''dd'' [] [Text (field_text (data_get ov ''user'') ''role'')],
                       El ''dt'' [] [Text (fieldTitle ''is_active'')],
                       El ''dd'' []
                         ([Text (formatBoolean (data_truthy (data_get (data_get ov ''user'') ''is_active'')))]),
                       El ''dt'' [] [Text (fieldTitle ''is_superuser'')],
                       El ''dd'' []
                         ([Text (formatBoolean (data_truthy (data_get (data_get ov ''user'') ''is_superuser'')))])]),
                    El ''div'' [Attr ''class'' ''mt-4'']
                      ([El ''h4'' [Attr ''class'' ''font-medium mb-2''] [Text (fieldTitle ''rate_limit_summary'')],
                       El ''dl'' [Attr ''class'' ''details gap-y-1'']
                         ([El ''dt'' [] [Text (fieldTitle ''bypass_rate_limit'')],
                          El ''dd'' []
                            ([Text (formatBoolean (data_truthy (data_get (data_get ov ''rate_limit_summary'') ''bypass_rate_limit'')))]),
                          El ''dt'' [] [Text (fieldTitle ''global_multiplier'')],
                          El ''dd'' []
                            ([Text (number_text (data_get (data_get ov ''rate_limit_summary'') ''global_multiplier''))]),
                          El ''dt'' [] [Text (fieldTitle ''has_custom_limits'')],
                          El ''dd'' []
                            ([Text (formatBoolean (data_truthy (data_get (data_get ov ''rate_limit_summary'') ''has_custom_limits'')))])])])]),
                 El ''div'' []
                   ([El ''h3'' [Attr ''class'' ''font-semibold''] [Text (fieldTitle ''derived_counts'')],
                    El ''p'' [Attr ''class'' ''text-xs text-fg-muted mb-3''] [Text ''Last 24 hours''],
                    El ''div'' [Attr ''class'' ''grid grid-cols-2 gap-3'']
                      ([El ''div'' [Attr ''class'' ''p-3 rounded-lg bg-success-soft'']
                         ([El ''div'' [Attr ''class'' ''text-xs text-success''] [Text (fieldTitle ''succeeded'')],
                          El ''div'' [Attr ''class'' ''text-xl font-semibold text-success'']
                            ([Text (field_text (data_get ov ''derived_counts'') ''succeeded'')])]),
                       El ''div'' [Attr ''class'' ''p-3 rounded-lg bg-danger-soft'']
                         ([El ''div'' [Attr ''class'' ''text-xs text-danger''] [Text (fieldTitle ''failed'')],
                          El ''div'' [Attr ''class'' ''text-xl font-semibold text-danger'']
                            ([Text (field_text (data_get ov ''derived_counts'') ''failed'')])]),
                       El ''div'' [Attr ''class'' ''p-3 rounded-lg bg-warning-soft'']
                         ([El ''div'' [Attr ''class'' ''text-xs text-warning''] [Text (fieldTitle ''timeout'')],
                          El ''div'' [Attr ''class'' ''text-xl font-semibold text-warning'']
                            ([Text (field_text (data_get ov ''derived_counts'') ''timeout'')])]),
                       El ''div'' [Attr ''class'' ''p-3 rounded-lg bg-muted'']
                         ([El ''div'' [Attr ''class'' ''text-xs''] [Text (fieldTitle ''cancelled'')],
                          El ''div'' [Attr ''class'' ''text-xl font-semibold'']
                            ([Text (field_text (data_get ov ''derived_counts'') ''cancelled'')])])]),
                    El ''dl'' [Attr ''class'' ''details mt-3 [&>dd]:font-semibold'']
                      ([El ''dt'' [] [Text (fieldTitle ''terminal_total'')],
                       El ''dd'' []
                         ([Text (field_text (data_get ov ''derived_counts'') ''terminal_total'')]),
                       El ''dt'' [] [Text (fieldTitle ''total_events'')],
                       El ''dd'' []
                         ([Text (field_text (data_get ov ''stats'') ''total_events'')])])])])] @
             (if data_items (data_get ov ''recent_events'') \<noteq> [] then
                 [El ''div'' [Attr ''class'' ''mt-6'']
                    ([El ''h3'' [Attr ''class'' ''font-semibold mb-2''] [Text (fieldTitle ''recent_events'')],
                     El ''div'' [Attr ''class'' ''space-y-1 max-h-48 overflow-auto'']
                       (concat (map (\<lambda>e.
                           [El ''div'' [Attr ''class'' ''flex justify-between items-center p-2 bg-muted rounded'']
                              ([El ''div'' [Attr ''class'' ''text-sm'']
                                 ([El ''span'' [Attr ''class'' (getEventTypeColor (field_text e ''event_type''))] [Text (field_text e ''event_type'')],
                                  El ''span'' [Attr ''class'' ''ml-2 font-mono text-xs text-fg-muted''] [Text (or_dash e ''aggregate_id'')]]),
                               El ''div'' [Attr ''class'' ''text-xs text-fg-muted'']
                                 ([Text (formatTimestamp D (text_option (data_get e ''timestamp'')))])])]) (data_items (data_get ov ''recent_events''))))])]
              else []))
         | None \<Rightarrow> [El ''div'' [Attr ''class'' ''text-sm text-fg-muted''] [Text ''No data available'']])))
        (Some
          ([El ''a'' [Attr ''href'' (resolve k ''/admin/users''), Attr ''class'' ''btn btn-secondary-outline''] [Text ''Open User Management'']]))"

text \<open>
  What the queries of the page and of its dialogs hold: the list and whether it is pending or being fetched,
  the statistics, the session of a replay, the event and the user that are shown.
\<close>

record events_data =
  listed :: "data option"
  list_pending :: bool
  fetching :: bool
  stats :: "data option"
  session :: "data option"
  detail :: "data option"
  related :: "data list"
  overview :: "data option"
  overview_pending :: bool

definition exportIcons :: "string \<Rightarrow> string \<times> string" where
  "exportIcons format =
     (if format = ExportFormat_value ExportFormat.CSV then (''FileText'', ''text-success'') else (''Code'', ''text-info''))"

definition events_view :: "dates \<Rightarrow> time_inputs \<Rightarrow> (rat \<Rightarrow> string) \<Rightarrow> kit \<Rightarrow> events_page \<Rightarrow> bool \<Rightarrow> events_data \<Rightarrow> events_action node list" where
  "events_view D L toLocale k s showFilters v =
     [El ''div'' [Attr ''class'' ''container mx-auto px-4 pb-8'']
        ([El ''div'' [Attr ''class'' ''flex flex-col sm:flex-row sm:justify-between sm:items-center gap-4 mb-6'']
           ([El ''h1'' [] [Text ''Event Browser''],
            El ''div'' [Attr ''class'' ''flex flex-wrap gap-2'']
              ([El ''button'' [Attr ''type'' ''button'',
                  On ''onclick'' Toggle_filters,
                  Attr ''class'' (clsx [''btn btn-sm gap-1 sm:gap-2'', if showFilters then ''btn-primary ring-2 ring-primary ring-offset-2 ring-offset-page'' else ''btn-secondary-outline''])]
                 ([El ''span'' [Attr ''class'' ''transition-transform duration-200'',
                     Has ''class:rotate-180'' showFilters] ([El ''Funnel'' [Attr ''size'' ''16''] []]),
                  El ''span'' [Attr ''class'' ''hidden sm:inline''] [Text ''Filters'']] @
                 (if hasActiveFilters (applied s) then
                     [El ''span'' [Attr ''class'' (''inline-flex items-center justify-center min-w-[1.25rem] h-5 px-1.5 rounded-full text-xs font-bold '' @ ((if showFilters then ''bg-surface text-accent'' else ''bg-primary text-white'')))] [Text (show_nat (getActiveFilterCount (applied s)))]]
                  else [])),
               El ''DropdownMenu.Root'' []
                 ([El ''DropdownMenu.Trigger'' [Attr ''class'' ''btn btn-sm btn-secondary-outline gap-1 sm:gap-2'']
                    ([El ''Download'' [Attr ''size'' ''16''] [],
                     El ''span'' [Attr ''class'' ''hidden sm:inline''] [Text ''Export''],
                     El ''ChevronRight'' [Attr ''size'' ''12'', Attr ''class'' ''ml-1 rotate-90''] []]),
                  El ''DropdownMenu.Portal'' []
                    ([El ''DropdownMenu.Content'' [Attr ''align'' ''end'',
                        Attr ''sideOffset'' ''8'',
                        Attr ''class'' ''floating-panel w-48'']
                       (concat (map (\<lambda>format.
                           [El ''DropdownMenu.Item'' [Attr ''class'' ''floating-item'', On ''onSelect'' (Export_events format)]
                              ([El (fst (exportIcons format)) [Attr ''size'' ''16'', Attr ''class'' (snd (exportIcons format))] [],
                               Text (''Export as '' @ format)])]) (map ExportFormat_value ExportFormat_members)))])]),
               El ''button'' [Attr ''type'' ''button'',
                  On ''onclick'' Refresh_events,
                  Attr ''class'' ''btn btn-sm btn-primary gap-1 sm:gap-2'',
                  Has ''disabled'' (fetching v)]
                 ((if fetching v then
                     [Spinner ''small'' ''primary'' '''']
                  else [El ''RefreshCw'' [Attr ''size'' ''16''] []]) @
                 [El ''span'' [Attr ''class'' ''hidden sm:inline''] [Text ''Refresh'']])])])] @
        (if replaySessionId s \<noteq> [] then
            ReplayProgressBanner_view (session v)
         else []) @
        EventStatsCards_view toLocale (stats v) (total_of (listed v)) @
        (if \<not> showFilters \<and> hasActiveFilters (applied s) then
            ([El ''div'' [Attr ''class'' ''mb-4 flex flex-wrap items-center gap-2'']
               ([El ''span'' [Attr ''class'' ''text-xs font-medium text-fg-muted''] [Text ''Active filters:'']] @
               concat (map (\<lambda>active.
                   [El ''span'' [Attr ''class'' ''inline-flex items-center px-2 py-1 rounded-full text-xs font-medium bg-primary/10 text-accent''] [Text active]]) (getActiveFilterSummary (applied s))) @
               [El ''button'' [Attr ''type'' ''button'',
                   On ''onclick'' Clear_filters,
                   Attr ''class'' ''inline-flex items-center px-2 py-1 rounded-full text-xs font-medium bg-danger-soft text-danger hover:bg-danger/25 transition-colors'']
                  ([El ''X'' [Attr ''size'' ''12'', Attr ''class'' ''mr-1''] [],
                   Text '' Clear all''])])])
         else []) @
        (if showFilters then
            EventFilters_view L (form_filters s)
         else []) @
        [El ''div'' [Attr ''class'' ''card'']
           ([El ''div'' [Attr ''class'' ''p-6'']
              ([El ''div'' [Attr ''class'' ''mb-4'']
                 ([El ''h3'' [Attr ''class'' ''text-lg font-semibold mb-2''] [Text ''Events'']])] @
              EventsTable_view D (items_of ''events'' (listed v)) (total_of (listed v)) (events_paging s) (list_pending v))])])] @
     (case dialog s of
       Details i \<Rightarrow>
         EventDetailsModal_view D (detail v) (related v)
     | _ \<Rightarrow> (case dialog s of
       Preview i count previews \<Rightarrow>
         ReplayPreviewModal_view D i count previews
     | _ \<Rightarrow> (case dialog s of
       Overview i \<Rightarrow>
         UserOverviewModal_view D k (overview_pending v) (overview v)
     | _ \<Rightarrow> [])))"

section \<open>Executions\<close>

datatype executions_action =
    Set_priority string | Refresh_executions | Reset_executions | Executions_page paging_action

text \<open>The call that a chosen priority makes, and what follows its success\<close>

definition updatePriority :: "string \<Rightarrow> string \<Rightarrow> data" where
  "updatePriority executionId prio =
     VObject [(''path'', VObject [(''execution_id'', VStr executionId)]), (''body'', VObject [(''priority'', VStr prio)])]"

definition refresh_executions :: "cache_step list" where
  "refresh_executions =
     [Invalidate ''listExecutionsApiV1AdminExecutionsGet'', Invalidate ''getQueueStatusApiV1AdminExecutionsQueueGet'']"

definition priority_updated :: "string \<Rightarrow> cache_step list" where
  "priority_updated prio =
     Toast_shown (Success_toast (''Priority updated to '' @ prio)) #
     [Invalidate ''listExecutionsApiV1AdminExecutionsGet'', Invalidate ''getQueueStatusApiV1AdminExecutionsQueueGet'']"

definition execution_statusCell :: "string \<Rightarrow> executions_action node list" where
  "execution_statusCell st =
     [El ''span'' [Attr ''class'' (''badge '' @ ((status_badge st)))] [Text st]]"

definition priorityCell :: "data \<Rightarrow> executions_action node list" where
  "priorityCell e =
     [El ''select'' [Attr ''value'' (field_text e ''priority''),
         On ''onchange'' (Set_priority (field_text e ''execution_id'')),
         Attr ''class'' ''form-select-standard text-xs py-1 px-2'',
         Attr ''aria-label'' (''Priority for '' @ ((field_text e ''execution_id'')))]
        (concat (map (\<lambda>priority.
            [El ''option'' [Attr ''value'' priority] [Text priority]]) (map QueuePriority_value QueuePriority_members)))]"

definition executions_columns :: "dates \<Rightarrow> (data, executions_action) column list" where
  "executions_columns D =
     [\<lparr>column_id = ''execution_id'', column_class = ''font-mono text-xs'',
        column_cell = (\<lambda>e. [Text (Formatters.truncate (text_option (data_get e ''execution_id'')) 12)])\<rparr>,
      \<lparr>column_id = ''user_id'', column_class = ''text-xs'',
        column_cell = (\<lambda>e. [Text (user_cell (text_option (data_get e ''user_id'')))])\<rparr>,
      \<lparr>column_id = ''lang'', column_class = [],
        column_cell = (\<lambda>e. [Text (lang_cell (field_text e ''lang'') (field_text e ''lang_version''))])\<rparr>,
      \<lparr>column_id = ''status'', column_class = [], column_cell = (\<lambda>e. execution_statusCell (field_text e ''status''))\<rparr>,
      \<lparr>column_id = ''priority'', column_class = [], column_cell = priorityCell\<rparr>,
      \<lparr>column_id = ''created_at'', column_class = ''text-xs'',
        column_cell = (\<lambda>e. [Text (formatTimestamp D (text_option (data_get e ''created_at'')))])\<rparr>]"

definition ExecutionsTable_view :: "dates \<Rightarrow> data list \<Rightarrow> int \<Rightarrow> paging \<Rightarrow> bool \<Rightarrow> executions_action node list" where
  "ExecutionsTable_view D executions rowCount p loading =
     DataTable_view (createServerTable (executions_columns D) executions) ''Executions'' loading ''No executions found'' True True @
     (if rowCount > 0 then
         [El ''div'' [Attr ''class'' ''mt-4 border-t divider pt-4'']
            (map (map_node Executions_page) (Pagination_view p rowCount ''executions'' [10, 20, 50, 100]))]
      else [])"

definition executions_view :: "dates \<Rightarrow> list_page \<Rightarrow> data option \<Rightarrow> bool \<Rightarrow> data option \<Rightarrow> bool \<Rightarrow> executions_action node list" where
  "executions_view D s lst pending queue busy =
     [El ''div'' [Attr ''class'' ''container mx-auto px-2 sm:px-4 pb-8'']
        ([El ''div'' [Attr ''class'' ''flex flex-col sm:flex-row justify-between items-start sm:items-center gap-4 mb-6'']
           ([El ''h1'' [] [Text ''Execution Management''],
            El ''button'' [Attr ''type'' ''button'',
               On ''onclick'' Refresh_executions,
               Attr ''class'' ''btn btn-secondary-outline gap-2'',
               Has ''disabled'' busy]
              ((if busy then
                  [Spinner ''small'' ''primary'' '''']
               else [El ''RefreshCw'' [Attr ''class'' ''size-4''] []]) @
              [Text ''Refresh''])])] @
        (case queue of
          Some q \<Rightarrow>
            [El ''div'' [Attr ''class'' ''grid grid-cols-1 sm:grid-cols-3 gap-4 mb-6'']
               ([El ''dl'' [Attr ''class'' ''card stat p-4 bg-info-soft'']
                  ([El ''dt'' [Attr ''class'' ''font-medium text-info''] [Text (fieldTitle ''queue_depth'')],
                   El ''dd'' [] [Text (field_text q ''queue_depth'')]]),
                El ''dl'' [Attr ''class'' ''card stat p-4 bg-success-soft'']
                  ([El ''dt'' [Attr ''class'' ''font-medium text-success''] [Text (fieldTitle ''active_count'')],
                   El ''dd'' []
                     ([Text (field_text q ''active_count'' @ '' / '' @ field_text q ''max_concurrent'')])]),
                El ''dl'' [Attr ''class'' ''card stat p-4 bg-purple-soft'']
                  ([El ''dt'' [Attr ''class'' ''font-medium text-purple''] [Text (fieldTitle ''by_priority'')],
                   El ''dd'' [Attr ''class'' ''text-sm font-normal'']
                     ((if data_fields (data_get q ''by_priority'') = [] then [El ''span'' [Attr ''class'' ''text-fg-muted''] [Text ''Empty'']]
                      else concat (map (\<lambda>(priority, count).
                         [El ''span'' [Attr ''class'' ''mr-2''] [Text (priority @ '': '' @ shown count)]]) (data_fields (data_get q ''by_priority'')))))])])]
        | None \<Rightarrow> []) @
        [El ''div'' [Attr ''class'' ''card mb-6'']
           ([El ''div'' [Attr ''class'' ''p-4 flex flex-wrap gap-4 items-end'']
              ([El ''div'' [Attr ''class'' ''field'']
                 ([El ''label'' [Attr ''for'' ''status-filter''] [Text (fieldTitle ''status'')],
                  El ''select'' [Attr ''id'' ''status-filter'',
                     Bound ''value'' (field_text (filters s) ''status''),
                     Attr ''class'' ''form-select-standard'']
                    ([El ''option'' [Prop ''value'' VNull] [Text ''All'']] @
                    concat (map (\<lambda>st.
                        [El ''option'' [Attr ''value'' st] [Text st]]) (map ExecutionStatus_value ExecutionStatus_members)))]),
               El ''div'' [Attr ''class'' ''field'']
                 ([El ''label'' [Attr ''for'' ''priority-filter''] [Text (fieldTitle ''priority'')],
                  El ''select'' [Attr ''id'' ''priority-filter'',
                     Bound ''value'' (field_text (filters s) ''priority''),
                     Attr ''class'' ''form-select-standard'']
                    ([El ''option'' [Prop ''value'' VNull] [Text ''All'']] @
                    concat (map (\<lambda>p.
                        [El ''option'' [Attr ''value'' p] [Text p]]) (map QueuePriority_value QueuePriority_members)))]),
               El ''div'' [Attr ''class'' ''field'']
                 ([El ''label'' [Attr ''for'' ''user-search''] [Text (fieldTitle ''user_id'')],
                  El ''input'' [Attr ''id'' ''user-search'',
                     Attr ''type'' ''text'',
                     Bound ''value'' (field_text (filters s) ''user_id''),
                     Attr ''class'' ''form-input-standard''] []]),
               El ''button'' [Attr ''type'' ''button'',
                  On ''onclick'' Reset_executions,
                  Attr ''class'' ''btn btn-secondary-outline text-sm''] [Text ''Reset'']])]),
         El ''div'' [Attr ''class'' ''card'']
           ([El ''div'' [Attr ''class'' ''p-3 sm:p-6'']
              ([El ''h3'' [Attr ''class'' ''text-lg font-semibold mb-4''] [Text (''Executions ('' @ show_int (total_of lst) @ '')'')]] @
              ExecutionsTable_view D (items_of ''executions'' lst) (total_of lst) (list_paging s) pending)])])]"

section \<open>Users\<close>

datatype users_action =
    Create_user | Refetch_users | Toggle_advanced | Reset_users
  | Edit_user data | Limit_user data | Delete_user data | Shut_dialog
  | Remove_user data bool \<comment> \<open>and whether its data go too\<close>
  | Add_rule | Remove_rule int | Reset_counters
  | Users_page paging_action

datatype users_dialog = No_dialog | Creating | Editing data | Deleting data | Limiting data

definition users_dialog_act :: "users_action \<Rightarrow> users_dialog \<Rightarrow> users_dialog" where
  "users_dialog_act a dlg =
     (case a of
        Create_user \<Rightarrow> Creating
      | Edit_user u \<Rightarrow> Editing u
      | Limit_user u \<Rightarrow> Limiting u
      | Delete_user u \<Rightarrow> Deleting u
      | Shut_dialog \<Rightarrow> No_dialog
      | _ \<Rightarrow> dlg)"

text \<open>\<open>mode\<close> of the form dialog\<close>

definition form_of :: "users_dialog \<Rightarrow> user_form_mode option" where
  "form_of dlg = (case dlg of Creating \<Rightarrow> Some CreateUser | Editing u \<Rightarrow> Some (EditUser u) | _ \<Rightarrow> None)"

definition editing :: "user_form_mode \<Rightarrow> bool" where
  "editing opened \<longleftrightarrow> (case opened of CreateUser \<Rightarrow> False | EditUser u \<Rightarrow> True)"

text \<open>What follows a user that is saved, and one that is deleted: the dialog closes, the list is fetched again\<close>

definition user_saved :: "users_action \<times> cache_step list" where
  "user_saved = (Shut_dialog, [Invalidate ''listUsersApiV1AdminUsersGet''])"

definition remove_call :: "data \<Rightarrow> bool \<Rightarrow> data" where
  "remove_call u cascade =
     VObject [(''path'', VObject [(''user_id'', data_get u ''user_id'')]), (''query'', VObject [(''cascade'', VBool cascade)])]"

definition roleCell :: "data \<Rightarrow> users_action node list" where
  "roleCell u =
     [El ''span'' [Attr ''class'' (''badge '' @ ((if data_get u ''role'' = VStr ''admin'' then ''badge-info'' else ''badge-neutral'')))] [Text (field_text u ''role'')]]"

definition user_statusCell :: "data \<Rightarrow> users_action node list" where
  "user_statusCell u =
     [El ''span'' [Attr ''class'' (''badge '' @ ((if data_truthy (data_get u ''is_active'') then ''badge-success'' else ''badge-danger'')))]
        ([Text (formatBoolean (data_truthy (data_get u ''is_active'')))])]"

definition user_actionsCell :: "data \<Rightarrow> users_action node list" where
  "user_actionsCell u =
     [El ''div'' [Attr ''class'' ''flex flex-wrap gap-2'']
        ([El ''button'' [Attr ''type'' ''button'',
            On ''onclick'' (Edit_user u),
            Attr ''class'' ''p-1 hover:bg-muted rounded text-success hover:text-success'',
            Attr ''title'' ''Edit User'',
            Attr ''aria-label'' ''Edit User''] ([El ''Pencil'' [Attr ''class'' ''size-5''] []]),
         El ''button'' [Attr ''type'' ''button'',
            On ''onclick'' (Limit_user u),
            Attr ''class'' ''p-1 hover:bg-muted rounded text-info hover:text-info'',
            Attr ''title'' ''Manage Rate Limits'',
            Attr ''aria-label'' ''Manage Rate Limits''] ([El ''Clock'' [Attr ''class'' ''size-5''] []]),
         El ''button'' [Attr ''type'' ''button'',
            On ''onclick'' (Delete_user u),
            Attr ''class'' ''p-1 hover:bg-muted rounded text-danger hover:text-danger'',
            Attr ''title'' ''Delete User'',
            Attr ''aria-label'' ''Delete User''] ([El ''Trash'' [Attr ''class'' ''size-5''] []])])]"

definition users_columns :: "dates \<Rightarrow> (data, users_action) column list" where
  "users_columns D =
     [\<lparr>column_id = ''username'', column_class = ''font-medium'', column_cell = (\<lambda>u. [Text (field_text u ''username'')])\<rparr>,
      \<lparr>column_id = ''email'', column_class = [], column_cell = (\<lambda>u. [Text (field_text u ''email'')])\<rparr>,
      \<lparr>column_id = ''role'', column_class = [], column_cell = roleCell\<rparr>,
      \<lparr>column_id = ''created_at'', column_class = [],
        column_cell = (\<lambda>u. [Text (formatTimestamp D (text_option (data_get u ''created_at'')))])\<rparr>,
      \<lparr>column_id = ''is_active'', column_class = [], column_cell = user_statusCell\<rparr>,
      \<lparr>column_id = ''actions'', column_class = [], column_cell = user_actionsCell\<rparr>]"

definition UsersTable_view :: "dates \<Rightarrow> data list \<Rightarrow> int \<Rightarrow> paging \<Rightarrow> bool \<Rightarrow> users_action node list" where
  "UsersTable_view D users rowCount p loading =
     DataTable_view (createServerTable (users_columns D) users) ''Users'' loading ''No users found matching filters'' False True @
     (if rowCount > 0 then
         [El ''div'' [Attr ''class'' ''mt-4 border-t divider pt-4'']
            (map (map_node Users_page) (Pagination_view p rowCount ''users'' [5, 10, 20, 50]))]
      else [])"

definition booleanFilter :: "data \<Rightarrow> string \<Rightarrow> users_action node list" where
  "booleanFilter fs key =
     [El ''label'' [Attr ''for'' (key @ ''-filter'')] [Text (fieldTitle key)],
      El ''select'' [Attr ''id'' (key @ ''-filter''),
         Bound ''value'' (field_text fs key),
         Attr ''class'' ''form-select-standard w-full'']
        ([El ''option'' [Prop ''value'' VNull] [Text ''All''],
         El ''option'' [Prop ''value'' (VBool True)] [Text (formatBoolean True)],
         El ''option'' [Prop ''value'' (VBool False)] [Text (formatBoolean False)]])]"

definition UserFilters_view :: "data \<Rightarrow> bool \<Rightarrow> bool \<Rightarrow> users_action node list" where
  "UserFilters_view fs showAdvanced filtersActive =
     [El ''div'' [Attr ''class'' ''card mb-4'']
        ([El ''div'' [Attr ''class'' ''p-3 sm:p-4'']
           ([El ''div'' [Attr ''class'' ''flex flex-col lg:flex-row gap-3 lg:gap-4 lg:items-end'']
              ([El ''div'' [Attr ''class'' ''field w-full lg:flex-1 lg:max-w-md'']
                 ([El ''label'' [Attr ''for'' ''search-filter''] [Text (fieldTitle ''search'')],
                  El ''input'' [Attr ''id'' ''search-filter'',
                     Attr ''type'' ''text'',
                     Bound ''value'' (field_text fs ''search''),
                     Attr ''class'' ''w-full'',
                     Attr ''autocomplete'' ''off'',
                     Attr ''autocorrect'' ''off'',
                     Attr ''autocapitalize'' ''off'',
                     Attr ''spellcheck'' ''false''] []]),
               El ''div'' [Attr ''class'' ''field w-full sm:w-auto sm:min-w-35'']
                 ([El ''label'' [Attr ''for'' ''role-filter''] [Text (fieldTitle ''role'')],
                  El ''select'' [Attr ''id'' ''role-filter'',
                     Bound ''value'' (field_text fs ''role''),
                     Attr ''class'' ''form-select-standard w-full'']
                    ([El ''option'' [Prop ''value'' VNull] [Text ''All'']] @
                    concat (map (\<lambda>role.
                        [El ''option'' [Attr ''value'' role] [Text role]]) (map UserRole_value UserRole_members)))]),
               El ''div'' [Attr ''class'' ''field w-full sm:w-auto sm:min-w-35''] (booleanFilter fs ''is_active''),
               El ''button'' [Attr ''type'' ''button'',
                  On ''onclick'' Toggle_advanced,
                  Attr ''class'' ''btn btn-secondary-outline gap-2 w-full sm:w-auto'']
                 ([El ''ChevronDown'' [Attr ''class'' (''size-4 transition-transform '' @ ((if showAdvanced then ''rotate-180'' else [])))] [],
                  Text '' Advanced'']),
               El ''button'' [Attr ''type'' ''button'',
                  On ''onclick'' Reset_users,
                  Attr ''class'' ''btn btn-secondary-outline w-full sm:w-auto'',
                  Has ''disabled'' (\<not> filtersActive)] [Text ''Reset'']])] @
           (if showAdvanced then
               [El ''div'' [Attr ''class'' ''mt-4 pt-4 border-t'']
                  ([El ''h4'' [Attr ''class'' ''text-sm font-medium text-fg-muted mb-3''] [Text ''Rate Limit Filters''],
                   El ''div'' [Attr ''class'' ''grid grid-cols-1 sm:grid-cols-3 gap-3'']
                     ([El ''div'' [] (booleanFilter fs ''bypass_rate_limit''),
                      El ''div'' [] (booleanFilter fs ''has_custom_limits''),
                      El ''div'' [] (booleanFilter fs ''custom_multiplier'')])])]
            else []))])]"

definition DeleteUserModal_view :: "data \<Rightarrow> bool \<Rightarrow> bool \<Rightarrow> users_action node list" where
  "DeleteUserModal_view u cascade pending =
     Modal_view True ''Delete User'' Shut_dialog ''sm''
        ([El ''p'' [Attr ''class'' ''mb-4'']
            ([Text ''Are you sure you want to delete user '',
             El ''strong'' [] [Text (field_text u ''username'')],
             Text ''?'']),
          El ''div'' [Attr ''class'' ''mb-4'']
            ([El ''label'' [Attr ''class'' ''flex items-center gap-2'']
               ([El ''input'' [Attr ''type'' ''checkbox'',
                   Bound ''checked'' (if cascade then ''true'' else ''false''),
                   Attr ''aria-describedby'' ''cascade-description'',
                   Attr ''class'' ''rounded''] [],
                El ''span'' [Attr ''class'' ''text-sm''] [Text (fieldTitle ''cascade'')]]),
             El ''p'' [Attr ''id'' ''cascade-description'', Attr ''class'' ''mt-1 text-xs text-fg-muted'']
               ([Text (''Also deletes the user'' @ [CHR 0x27] @ ''s executions, scripts and other data'')])])] @
         (if cascade then
             [El ''div'' [Attr ''class'' ''mb-4 p-3 alert alert-warning'']
                ([El ''strong'' [] [Text ''Warning:''],
                 Text '' This will permanently delete all data associated with this user.''])]
          else []) @
         [El ''div'' [Attr ''class'' ''flex gap-3 justify-end'']
            ([El ''button'' [Attr ''type'' ''button'',
                On ''onclick'' Shut_dialog,
                Attr ''class'' ''btn btn-secondary'',
                Has ''disabled'' pending] [Text ''Cancel''],
             El ''button'' [Attr ''type'' ''button'',
                On ''onclick'' (Remove_user u cascade),
                Attr ''class'' ''btn btn-danger gap-2'',
                Has ''disabled'' pending]
               ((if pending then
                   [Spinner ''small'' ''primary'' '''',
                    Text ''Deleting...'']
                else [Text ''Delete User'']))])])
        None"

definition textField :: "users_action form_library \<Rightarrow> user_form_mode \<Rightarrow> data \<Rightarrow> bool \<Rightarrow> string \<Rightarrow> string \<Rightarrow> string \<Rightarrow> string option \<Rightarrow> users_action node list" where
  "textField F opened d saving nm kind autocomplete hint =
     [El ''Field'' [Attr ''name'' nm]
        ([El ''div'' [Attr ''class'' ''field'']
           ([El ''Control'' [Attr ''id'' (''user-form-'' @ nm)]
              ([El ''Label'' []
                 ([Text (fieldTitle nm @ '' '')] @
                 (if nm \<noteq> ''password'' \<or> \<not> editing opened then
                     [El ''span'' [Attr ''class'' ''text-danger''] [Text ''*'']]
                  else [])),
               El ''input'' (control F nm @
                  constraint F nm @
                  [Attr ''type'' kind] @
                  (case hint of None \<Rightarrow> [] | Some h \<Rightarrow> [Attr ''placeholder'' h]) @
                  [Attr ''autocomplete'' autocomplete,
                  Bound ''value'' (field_text d nm),
                  Attr ''class'' ''form-input-standard'',
                  Has ''disabled'' saving,
                  Attr ''autocapitalize'' ''off'',
                  Attr ''spellcheck'' ''false'']) []])] @
           (if nm = ''password'' \<and> editing opened then
               [El ''Description'' [] [Text ''Leave empty to keep the current password'']]
            else []) @
           [El ''FieldErrors'' [] []])])]"

definition UserFormModal_view :: "users_action form_library \<Rightarrow> user_form_mode \<Rightarrow> data \<Rightarrow> bool \<Rightarrow> users_action node list" where
  "UserFormModal_view F opened d saving =
     Modal_view True (if editing opened then ''Edit User'' else ''Create New User'') Shut_dialog ''sm''
        ([El ''form'' [Attr ''method'' ''post'', Has ''novalidate'' True, Attr ''autocomplete'' ''off'']
            ([El ''div'' [Attr ''class'' ''space-y-4'']
               (textField F opened d saving ''username'' ''text'' ''username'' (Some ''johndoe'') @
               textField F opened d saving ''email'' ''email'' ''email'' (Some ''john@example.com'') @
               textField F opened d saving ''password'' ''password'' ''new-password'' None @
               [El ''Field'' [Attr ''name'' ''role'']
                  ([El ''div'' [Attr ''class'' ''field'']
                     ([El ''Control'' [Attr ''id'' ''user-form-role'']
                        ([El ''Label'' [] [Text (fieldTitle ''role'')],
                         El ''select'' (control F ''role'' @
                            [Bound ''value'' (field_text d ''role''),
                            Attr ''class'' ''form-select-standard'',
                            Has ''disabled'' saving])
                           (concat (map (\<lambda>opt.
                               [El ''option'' [Attr ''value'' opt] [Text opt]]) (map UserRole_value UserRole_members)))])])]),
                El ''Field'' [Attr ''name'' ''is_active'']
                  ([El ''Control'' []
                     ([El ''div'' [Attr ''class'' ''flex items-center gap-2'']
                        ([El ''input'' (control F ''is_active'' @
                            [Attr ''type'' ''checkbox'',
                            Bound ''checked'' (field_text d ''is_active''),
                            Has ''disabled'' saving]) [],
                         El ''Label'' [Attr ''class'' ''cursor-pointer''] [Text (fieldTitle ''is_active'')]])])])]),
             El ''div'' [Attr ''class'' ''flex justify-end gap-2 mt-6'']
               ([El ''button'' [Attr ''type'' ''button'',
                   On ''onclick'' Shut_dialog,
                   Attr ''class'' ''btn btn-secondary-outline'',
                   Has ''disabled'' saving] [Text ''Cancel''],
                El ''button'' [Attr ''type'' ''submit'',
                   Attr ''class'' ''btn btn-primary gap-2'',
                   Has ''disabled'' saving]
                  ((if saving then
                      [Spinner ''small'' ''primary'' '''',
                       Text ''Saving...'']
                   else [Text ((if editing opened then ''Update User'' else ''Create User''))]))])])])
        None"

text \<open>Whether the multiplier of the form changes the limits, and the requests it makes of a limit\<close>

definition multiplied :: "data \<Rightarrow> data \<Rightarrow> bool" where
  "multiplied defaultMultiplier d \<longleftrightarrow> data_get d ''global_multiplier'' \<noteq> defaultMultiplier"

definition effective_text :: "(rat \<Rightarrow> rat) \<Rightarrow> data \<Rightarrow> data \<Rightarrow> string" where
  "effective_text fl d requests =
     show_int (effectiveRequests fl (number_of (data_get d ''global_multiplier'')) (number_of requests))"

definition usage_of :: "data option \<Rightarrow> (string \<times> data) list" where
  "usage_of limits = (case limits of None \<Rightarrow> [] | Some l \<Rightarrow> data_fields (data_get l ''current_usage''))"

definition field_errors :: "users_action node list" where
  "field_errors =
     [El ''FieldErrors'' [Attr ''class'' ''mt-1 text-xs''] []]"

definition default_rule :: "(rat \<Rightarrow> rat) \<Rightarrow> data \<Rightarrow> data \<Rightarrow> data \<Rightarrow> users_action node" where
  "default_rule fl defaultMultiplier d rule =
     El ''dl'' [Attr ''class'' ''facts grid-cols-2 lg:grid-cols-5 lg:gap-4 items-center p-3 bg-muted rounded-lg text-sm'']
       ([El ''div'' []
          ([El ''dt'' [] [Text (fieldTitle ''endpoint_pattern'')],
           El ''dd'' [Attr ''class'' ''font-mono''] [Text (field_text rule ''endpoint_pattern'')]]),
        El ''div'' []
          ([El ''dt'' [] [Text (fieldTitle ''requests'')],
           El ''dd'' []
             ((if multiplied defaultMultiplier d then
                 [El ''span'' [Attr ''class'' ''line-through text-fg-subtle''] [Text (field_text rule ''requests'')],
                  El ''span'' [Attr ''class'' ''font-semibold text-info''] [Text (effective_text fl d (data_get rule ''requests''))]]
              else [Text (field_text rule ''requests'')]))]),
        El ''div'' []
          ([El ''dt'' [] [Text (fieldTitle ''window_seconds'')],
           El ''dd'' [] [Text (field_text rule ''window_seconds'')]]),
        El ''div'' []
          ([El ''dt'' [] [Text (fieldTitle ''group'')],
           El ''dd'' []
             ([El ''span'' [Attr ''class'' (''badge rounded-full '' @ ((group_color (field_text rule ''group''))))] [Text (field_text rule ''group'')]])]),
        El ''div'' []
          ([El ''dt'' [] [Text (fieldTitle ''algorithm'')],
           El ''dd'' [] [Text (field_text rule ''algorithm'')]])])"

definition rule_row :: "(rat \<Rightarrow> rat) \<Rightarrow> users_action form_library \<Rightarrow> data \<Rightarrow> data \<Rightarrow> nat \<Rightarrow> data \<Rightarrow> users_action node" where
  "rule_row fl F defaultMultiplier d index rule =
     El ''div'' [Attr ''class'' ''p-3 bg-info-soft border border-info/30 rounded-lg'']
       ([El ''div'' [Attr ''class'' ''flex flex-col lg:flex-row items-start lg:items-center gap-3'']
          ([El ''ElementField'' [Attr ''name'' (''rules['' @ ((show_nat index)) @ ''].endpoint_pattern'')]
             ([El ''Control'' []
                ([El ''div'' [Attr ''class'' ''w-full lg:flex-1 lg:min-w-50'']
                   ([El ''input'' (control F (''rules['' @ (show_nat index) @ ''].endpoint_pattern'') @
                       [Attr ''type'' ''text'',
                       Bound ''value'' (field_text rule ''endpoint_pattern''),
                       Attr ''aria-label'' (fieldTitle ''endpoint_pattern''),
                       Attr ''class'' ''input-sm w-full'',
                       Has ''disabled'' (data_truthy (data_get d ''bypass_rate_limit''))]) []] @
                   field_errors)])]),
           El ''div'' [Attr ''class'' ''flex items-center gap-1 flex-wrap'']
             ([El ''ElementField'' [Attr ''name'' (''rules['' @ ((show_nat index)) @ ''].requests'')]
                ([El ''Control'' []
                   ([El ''input'' (control F (''rules['' @ (show_nat index) @ ''].requests'') @
                       constraint F ''rules.requests'' @
                       [Attr ''type'' ''number'',
                       Bound ''value'' (field_text rule ''requests''),
                       Attr ''aria-label'' (fieldTitle ''requests''),
                       Attr ''class'' ''input-sm w-16'',
                       Has ''disabled'' (data_truthy (data_get d ''bypass_rate_limit''))]) []])] @
                field_errors),
              El ''span'' [Attr ''class'' ''text-xs text-fg-muted''] [Text ''/''],
              El ''ElementField'' [Attr ''name'' (''rules['' @ ((show_nat index)) @ ''].window_seconds'')]
                ([El ''Control'' []
                   ([El ''input'' (control F (''rules['' @ (show_nat index) @ ''].window_seconds'') @
                       constraint F ''rules.window_seconds'' @
                       [Attr ''type'' ''number'',
                       Bound ''value'' (field_text rule ''window_seconds''),
                       Attr ''aria-label'' (fieldTitle ''window_seconds''),
                       Attr ''class'' ''input-sm w-16'',
                       Has ''disabled'' (data_truthy (data_get d ''bypass_rate_limit''))]) []])] @
                field_errors),
              El ''span'' [Attr ''class'' ''text-xs text-fg-muted''] [Text ''s'']] @
             (if multiplied defaultMultiplier d then
                 [El ''span'' [Attr ''class'' ''text-xs text-info ml-2'']
                    ([Text (''(effective '' @ effective_text fl d (data_get rule ''requests'') @ ''/'' @ field_text rule ''window_seconds'' @ ''s)'')])]
              else [])),
           El ''ElementField'' [Attr ''name'' (''rules['' @ ((show_nat index)) @ ''].group'')]
             ([El ''Control'' []
                ([El ''select'' (control F (''rules['' @ (show_nat index) @ ''].group'') @
                    [Bound ''value'' (field_text rule ''group''),
                    Attr ''aria-label'' (fieldTitle ''group''),
                    Attr ''class'' ''input-sm'',
                    Has ''disabled'' (data_truthy (data_get d ''bypass_rate_limit''))])
                   (concat (map (\<lambda>group.
                       [El ''option'' [Attr ''value'' group] [Text group]]) (map EndpointGroup_value EndpointGroup_members)))])]),
           El ''ElementField'' [Attr ''name'' (''rules['' @ ((show_nat index)) @ ''].algorithm'')]
             ([El ''Control'' []
                ([El ''select'' (control F (''rules['' @ (show_nat index) @ ''].algorithm'') @
                    [Bound ''value'' (field_text rule ''algorithm''),
                    Attr ''aria-label'' (fieldTitle ''algorithm''),
                    Attr ''class'' ''input-sm'',
                    Has ''disabled'' (data_truthy (data_get d ''bypass_rate_limit''))])
                   (concat (map (\<lambda>algorithm.
                       [El ''option'' [Attr ''value'' algorithm] [Text algorithm]]) (map RateLimitAlgorithm_value RateLimitAlgorithm_members)))])]),
           El ''ElementField'' [Attr ''name'' (''rules['' @ ((show_nat index)) @ ''].enabled'')]
             ([El ''Control'' []
                ([El ''div'' [Attr ''class'' ''flex items-center gap-2'']
                   ([El ''input'' (control F (''rules['' @ (show_nat index) @ ''].enabled'') @
                       [Attr ''type'' ''checkbox'',
                       Bound ''checked'' (field_text rule ''enabled''),
                       Attr ''class'' ''rounded text-info'',
                       Has ''disabled'' (data_truthy (data_get d ''bypass_rate_limit''))]) [],
                    El ''Label'' [Attr ''class'' ''cursor-pointer''] [Text (fieldTitle ''enabled'')]])])]),
           El ''button'' [Attr ''type'' ''button'',
              On ''onclick'' (Remove_rule (int index)),
              Attr ''class'' ''text-danger p-1'',
              Has ''disabled'' (data_truthy (data_get d ''bypass_rate_limit'')),
              Attr ''title'' ''Remove rule''] ([El ''X'' [Attr ''class'' ''size-4''] []])])])"

definition usage_view :: "data option \<Rightarrow> users_action node" where
  "usage_view limits =
     El ''div'' [Attr ''class'' ''border rounded-lg p-4'']
       ([El ''div'' [Attr ''class'' ''flex justify-between items-center mb-3'']
          ([El ''h4'' [Attr ''class'' ''font-semibold''] [Text (fieldTitle ''current_usage'')],
           El ''button'' [Attr ''type'' ''button'',
              On ''onclick'' Reset_counters,
              Attr ''class'' ''btn btn-sm btn-secondary''] [Text ''Reset All Counters'']]),
        El ''div'' [Attr ''class'' ''grid grid-cols-1 sm:grid-cols-2 gap-2'']
          (concat (map (\<lambda>(endpoint, usageData).
              [El ''div'' [Attr ''class'' ''flex justify-between items-center p-2 bg-muted rounded'']
                 ([El ''span'' [Attr ''class'' ''text-sm font-mono text-fg-muted''] [Text endpoint],
                  El ''div'' [Attr ''class'' ''flex items-center gap-2'']
                    ([El ''span'' [Attr ''class'' ''text-xs text-fg-muted''] [Text (field_text usageData ''algorithm'')],
                     El ''span'' [Attr ''class'' ''text-xs text-fg-muted''] [Text (fieldTitle ''remaining'')],
                     El ''span'' [Attr ''class'' ''text-sm font-semibold''] [Text (field_text usageData ''remaining'')]])])]) (usage_of limits)))])"

definition RateLimitsModal_view :: "(rat \<Rightarrow> rat) \<Rightarrow> users_action form_library \<Rightarrow> data \<Rightarrow> data list \<Rightarrow> data \<Rightarrow> bool \<Rightarrow> data option \<Rightarrow> data \<Rightarrow> bool \<Rightarrow> users_action node list" where
  "RateLimitsModal_view fl F defaultMultiplier defaultRules u pending limits d saving =
     Modal_view True (''Rate Limits for '' @ (field_text u ''username'')) Shut_dialog ''xl''
        ((if pending then
             [El ''div'' [Attr ''class'' ''flex justify-center py-8''] [Spinner ''medium'' ''primary'' '''']]
          else ([El ''form'' [Attr ''id'' ''rate-limits-form'',
               Attr ''method'' ''post'',
               Has ''novalidate'' True,
               Attr ''class'' ''space-y-4'']
              ([El ''div'' [Attr ''class'' ''border rounded-lg p-4 bg-muted'']
                 ([El ''div'' [Attr ''class'' ''flex items-center justify-between mb-3'']
                    ([El ''h4'' [Attr ''class'' ''font-semibold''] [Text ''Quick Settings''],
                     El ''Field'' [Attr ''name'' ''bypass_rate_limit'']
                       ([El ''Control'' []
                          ([El ''div'' [Attr ''class'' ''flex items-center gap-2'']
                             ([El ''input'' (control F ''bypass_rate_limit'' @
                                 [Attr ''type'' ''checkbox'',
                                 Bound ''checked'' (field_text d ''bypass_rate_limit''),
                                 Attr ''class'' ''rounded'']) [],
                              El ''Label'' [] [Text (fieldTitle ''bypass_rate_limit'')]])])])]),
                  El ''div'' [Attr ''class'' ''grid grid-cols-1 sm:grid-cols-2 gap-4'']
                    ([El ''Field'' [Attr ''name'' ''global_multiplier'']
                       ([El ''Control'' []
                          ([El ''div'' [Attr ''class'' ''field'']
                             ([El ''Label'' [] [Text (fieldTitle ''global_multiplier'')],
                              El ''input'' (control F ''global_multiplier'' @
                                 constraint F ''global_multiplier'' @
                                 [Attr ''type'' ''number'',
                                 Attr ''step'' ''0.1'',
                                 Bound ''value'' (number_text (data_get d ''global_multiplier'')),
                                 Attr ''class'' ''w-full'',
                                 Has ''disabled'' (data_truthy (data_get d ''bypass_rate_limit''))]) [],
                              El ''Description'' []
                                ([Text (''Multiplies all limits; '' @ number_text defaultMultiplier @ '' keeps them as they are'')])] @
                             field_errors)])]),
                     El ''Field'' [Attr ''name'' ''notes'']
                       ([El ''Control'' []
                          ([El ''div'' [Attr ''class'' ''field'']
                             ([El ''Label'' [] [Text (fieldTitle ''notes'')],
                              El ''textarea'' (control F ''notes'' @
                                 [Bound ''value'' (field_text d ''notes''), Attr ''rows'' ''2'', Attr ''class'' ''w-full'']) []])])])])]),
               El ''div'' [Attr ''class'' ''border rounded-lg p-4'']
                 ([El ''div'' [Attr ''class'' ''flex justify-between items-center mb-4'']
                    ([El ''h4'' [Attr ''class'' ''font-semibold''] [Text ''Endpoint Rate Limits''],
                     El ''button'' [Attr ''type'' ''button'',
                        On ''onclick'' Add_rule,
                        Attr ''class'' ''btn btn-sm btn-primary gap-1'',
                        Has ''disabled'' (data_truthy (data_get d ''bypass_rate_limit''))]
                       ([El ''Plus'' [Attr ''class'' ''size-4''] [],
                        Text ''Add Rule''])]),
                  El ''div'' [Attr ''class'' ''mb-4'']
                    ([El ''h5'' [Attr ''class'' ''section-label mb-2''] [Text ''Default Global Rules''],
                     El ''div'' [Attr ''class'' ''space-y-2'']
                       (concat (map (\<lambda>rule.
                           [default_rule fl defaultMultiplier d rule]) defaultRules))])] @
                 (if data_items (data_get d ''rules'') \<noteq> [] then
                     [El ''div'' []
                        ([El ''h5'' [Attr ''class'' ''section-label mb-2''] [Text (fieldTitle ''rules'')],
                         El ''div'' [Attr ''class'' ''space-y-2'']
                           (concat (map (\<lambda>(index, rule).
                               [rule_row fl F defaultMultiplier d index rule]) (enumerate 0 (data_items (data_get d ''rules'')))))])]
                  else []))] @
              (if usage_of limits \<noteq> [] then
                  [usage_view limits]
               else [])),
            El ''div'' [Attr ''class'' ''flex gap-3 justify-end mt-6'']
              ([El ''button'' [Attr ''type'' ''button'',
                  On ''onclick'' Shut_dialog,
                  Attr ''class'' ''btn btn-secondary'',
                  Has ''disabled'' saving] [Text ''Cancel''],
               El ''button'' [Attr ''type'' ''submit'',
                  Attr ''form'' ''rate-limits-form'',
                  Attr ''class'' ''btn btn-primary gap-2'',
                  Has ''disabled'' saving]
                 ((if saving then
                     [Spinner ''small'' ''primary'' '''',
                      Text ''Saving...'']
                  else [Text ''Save Changes'']))])])))
        None"

record users_data =
  users_listed :: "data option"
  users_pending :: bool
  users_fetching :: bool
  cascading :: bool
  removing :: bool
  default_multiplier :: data
  default_rules :: "data list"
  limits :: "data option"
  limits_pending :: bool
  dialog_form :: data
  dialog_saving :: bool

definition users_view :: "(rat \<Rightarrow> rat) \<Rightarrow> dates \<Rightarrow> users_action form_library \<Rightarrow> list_page \<Rightarrow> bool \<Rightarrow> users_dialog \<Rightarrow> users_data \<Rightarrow> users_action node list" where
  "users_view fl D F s showAdvanced dlg v =
     [El ''div'' [Attr ''class'' ''container mx-auto px-2 sm:px-4 pb-8'']
        ([El ''div'' [Attr ''class'' ''flex flex-col sm:flex-row justify-between items-start sm:items-center gap-4 mb-6'']
           ([El ''h1'' [] [Text ''User Management''],
            El ''div'' [Attr ''class'' ''flex gap-2 w-full sm:w-auto'']
              ([El ''button'' [Attr ''type'' ''button'',
                  On ''onclick'' Create_user,
                  Attr ''class'' ''btn btn-primary gap-2 flex-1 sm:flex-initial'']
                 ([El ''Plus'' [Attr ''class'' ''size-4''] [],
                  Text ''Create User'']),
               El ''button'' [Attr ''type'' ''button'',
                  On ''onclick'' Refetch_users,
                  Attr ''class'' ''btn btn-secondary-outline gap-2 flex-1 sm:flex-initial'',
                  Has ''disabled'' (users_fetching v)]
                 ((if users_fetching v then
                     [Spinner ''small'' ''primary'' '''']
                  else [El ''RefreshCw'' [Attr ''class'' ''size-4''] []]) @
                 [Text ''Refresh''])])])] @
        UserFilters_view (filters s) showAdvanced (hasFiltersActive s) @
        [El ''div'' [Attr ''class'' ''card'']
           ([El ''div'' [Attr ''class'' ''p-3 sm:p-6'']
              ([El ''h3'' [Attr ''class'' ''text-lg font-semibold mb-4'']
                 ([Text (''Users ('' @ show_int (total_of (users_listed v)) @ '')'')])] @
              UsersTable_view D (items_of ''users'' (users_listed v)) (total_of (users_listed v)) (list_paging s) (users_pending v))])])] @
     (case dlg of
       Deleting u \<Rightarrow>
         DeleteUserModal_view u (cascading v) (removing v)
     | _ \<Rightarrow> (case dlg of
       Limiting u \<Rightarrow>
         RateLimitsModal_view fl F (default_multiplier v) (default_rules v) u (limits_pending v) (limits v) (dialog_form v) (dialog_saving v)
     | _ \<Rightarrow> (case form_of dlg of
       Some opened \<Rightarrow>
         UserFormModal_view F opened (dialog_form v) (dialog_saving v)
     | None \<Rightarrow> [])))"

section \<open>The settings of the system\<close>

datatype system_action = Reset_system

definition setting_view :: "system_action form_library \<Rightarrow> data \<Rightarrow> string \<Rightarrow> string \<Rightarrow> system_action node list" where
  "setting_view F d nm kind =
     [El ''Field'' [Attr ''name'' nm]
        ([El ''Control'' []
           ([El ''div'' [Attr ''class'' ''field'']
              ([El ''Label'' [] [Text (fieldTitle nm)],
               El ''input'' (control F nm @
                  constraint F nm @
                  [Attr ''type'' kind,
                  Bound ''value'' (field_text d nm),
                  Attr ''class'' ''form-input-standard'']) [],
               El ''FieldErrors'' [Attr ''class'' ''mt-1''] []])])])]"

definition system_settings_view :: "system_action form_library \<Rightarrow> data \<Rightarrow> bool \<Rightarrow> bool \<Rightarrow> bool \<Rightarrow> system_action node list" where
  "system_settings_view F d loading saving resetting =
     [El ''div'' [Attr ''class'' ''container mx-auto px-4 pb-8'']
        ([El ''div'' [Attr ''class'' ''flex justify-between items-center mb-6'']
           ([El ''h1'' [Attr ''class'' ''text-3xl''] [Text ''System Settings'']]),
         El ''div'' [Attr ''class'' ''card'']
           ([El ''div'' [Attr ''class'' ''p-6'']
              ([El ''h3'' [Attr ''class'' ''text-lg font-semibold mb-4''] [Text ''Configuration'']] @
              (if loading then
                  [El ''div'' [Attr ''class'' ''flex justify-center items-center h-64''] [Spinner ''xlarge'' ''primary'' '''']]
               else ([El ''form'' [Attr ''method'' ''post'', Has ''novalidate'' True, Attr ''class'' ''space-y-6'']
                   ([El ''div'' []
                      ([El ''h4'' [Attr ''class'' ''font-semibold mb-3''] [Text ''Execution Limits''],
                       El ''div'' [Attr ''class'' ''grid grid-cols-1 md:grid-cols-2 gap-4'']
                         (setting_view F d ''max_timeout_seconds'' ''number'' @
                         setting_view F d ''memory_limit'' ''text'' @
                         setting_view F d ''cpu_limit'' ''text'' @
                         setting_view F d ''max_concurrent_executions'' ''number'' @
                         setting_view F d ''max_executions_per_user'' ''number'')]),
                    El ''div'' []
                      ([El ''h4'' [Attr ''class'' ''font-semibold mb-3''] [Text ''Security Settings''],
                       El ''div'' [Attr ''class'' ''grid grid-cols-1 md:grid-cols-2 gap-4'']
                         (setting_view F d ''password_min_length'' ''number'' @
                         setting_view F d ''session_timeout_minutes'' ''number'' @
                         setting_view F d ''max_login_attempts'' ''number'' @
                         setting_view F d ''lockout_duration_minutes'' ''number'')]),
                    El ''div'' [Attr ''class'' ''flex justify-end gap-3 pt-4 border-t'']
                      ([El ''button'' [Attr ''type'' ''button'',
                          On ''onclick'' Reset_system,
                          Attr ''class'' ''btn btn-ghost'',
                          Has ''disabled'' (saving \<or> resetting)]
                         ([Text ((if resetting then ''Resetting...'' else ''Reset to Defaults''))]),
                       El ''button'' [Attr ''type'' ''submit'',
                          Attr ''class'' ''btn btn-primary'',
                          Has ''disabled'' (saving \<or> resetting)]
                         ([Text ((if saving then ''Saving...'' else ''Save Settings''))])])])])))])])]"

section \<open>Shared controls\<close>

datatype refresh_action = Enabled_changed | Rate_changed | Refresh_now

definition refresh_rates :: "(int \<times> string) list" where
  "refresh_rates = [(5, ''5 seconds''), (10, ''10 seconds''), (30, ''30 seconds''), (60, ''1 minute'')]"

definition AutoRefreshControl_view :: "bool \<Rightarrow> int \<Rightarrow> (int \<times> string) list \<Rightarrow> bool \<Rightarrow> refresh_action node list" where
  "AutoRefreshControl_view enabled rate rateOptions loading =
     [El ''div'' [Attr ''class'' ''card'']
        ([El ''div'' [Attr ''class'' ''p-3 sm:p-4 flex flex-col sm:flex-row sm:items-center gap-2 sm:gap-4'']
           ([El ''div'' [Attr ''class'' ''flex items-center gap-2'']
              ([El ''input'' [Attr ''type'' ''checkbox'',
                  Bound ''checked'' (if enabled then ''true'' else ''false''),
                  On ''onchange'' Enabled_changed,
                  Attr ''aria-label'' ''Auto-refresh'',
                  Attr ''class'' ''size-4 rounded text-accent focus:ring-primary''] [],
               El ''span'' [Attr ''aria-hidden'' ''true'', Attr ''class'' ''text-sm font-medium''] [Text ''Auto-refresh'']])] @
           (if enabled then
               [El ''div'' [Attr ''class'' ''flex items-center gap-2 flex-1 sm:flex-initial'']
                  ([El ''span'' [Attr ''aria-hidden'' ''true'', Attr ''class'' ''text-xs sm:text-sm text-fg-muted''] [Text ''Every:''],
                   El ''select'' [Attr ''id'' ''refresh-rate'',
                      Attr ''aria-label'' ''Refresh every'',
                      Bound ''value'' (show_int rate),
                      On ''onchange'' Rate_changed,
                      Attr ''class'' ''form-select-standard'']
                     (concat (map (\<lambda>(val, label).
                         [El ''option'' [Attr ''value'' (show_int val)] [Text label]]) rateOptions))])]
            else []) @
           [El ''button'' [Attr ''type'' ''button'',
               On ''onclick'' Refresh_now,
               Attr ''class'' ''sm:ml-auto btn btn-primary btn-sm w-full sm:w-auto'',
               Has ''disabled'' loading]
              ((if loading then
                  [Spinner ''small'' ''white'' ''-ml-1 mr-2'',
                   Text ''Refreshing...'']
               else [El ''RefreshCw'' [Attr ''class'' ''size-4 mr-1.5''] [],
                 Text ''Refresh Now'']))])])]"

text \<open>\<open>handleToggle\<close> of the filter panel\<close>

definition handleToggle :: "bool \<Rightarrow> bool" where
  "handleToggle opened = (\<not> opened)"

text \<open>\<open>toggled\<close> is the action of the toggle; a panel without \<open>onClear\<close> or \<open>onApply\<close> has no such button.\<close>

definition FilterPanel_view :: "bool \<Rightarrow> bool \<Rightarrow> nat \<Rightarrow> 'a option \<Rightarrow> 'a option \<Rightarrow> 'a \<Rightarrow> 'a node list \<Rightarrow> string \<Rightarrow> bool \<Rightarrow> 'a node list" where
  "FilterPanel_view opened filtersActive filterCount onClear onApply toggled children title showToggleButton =
     (if showToggleButton then
         ([El ''button'' [Attr ''type'' ''button'',
             On ''onclick'' toggled,
             Has ''aria-expanded'' opened,
             Attr ''class'' (clsx [''btn btn-sm gap-1 sm:gap-2'', if opened then ''btn-primary ring-2 ring-primary ring-offset-2 ring-offset-page'' else ''btn-secondary-outline''])]
            ([El ''span'' [Attr ''class'' ''transition-transform duration-200'', Has ''class:rotate-180'' opened] ([El ''Funnel'' [Attr ''size'' ''16''] []]),
             El ''span'' [Attr ''class'' ''hidden sm:inline''] [Text ''Filters'']] @
            (if filtersActive then
                [El ''span'' [Attr ''class'' (''inline-flex items-center justify-center min-w-[1.25rem] h-5 px-1.5 rounded-full text-xs font-bold '' @ ((if opened then ''bg-surface text-accent'' else ''bg-primary text-white'')))] [Text (show_nat filterCount)]]
             else []))])
      else []) @
     (if opened then
         ([El ''div'' [Attr ''class'' ''card mb-6'']
            ([El ''div'' [Attr ''class'' ''p-4'']
               ([El ''div'' [Attr ''class'' ''flex items-center justify-between mb-3'']
                  ([El ''h3'' [Attr ''class'' ''text-sm font-semibold uppercase tracking-wide''] [Text title],
                   El ''div'' [Attr ''class'' ''flex gap-2'']
                     ((case onClear of
                       Some clears \<Rightarrow>
                         [El ''button'' [Attr ''type'' ''button'', On ''onclick'' clears, Attr ''class'' ''btn btn-ghost btn-sm''] [Text ''Clear All'']]
                     | None \<Rightarrow> []) @
                     (case onApply of
                       Some apply_now \<Rightarrow>
                         [El ''button'' [Attr ''type'' ''button'',
                             On ''onclick'' apply_now,
                             Attr ''class'' ''btn btn-primary btn-sm''] [Text ''Apply'']]
                     | None \<Rightarrow> []))])] @
               children)])])
      else [])"

section \<open>What the pages offer\<close>

text \<open>
  Nothing is deleted and nothing is replayed without being asked for. Whatever the event browser is told
  to do, as long as the user does not confirm it sends no deletion, and the replays it sends are dry runs.
\<close>

lemma unconfirmed_changes_nothing:
  "list_all
     (\<lambda>c. case c of Send_delete i \<Rightarrow> False | Send_replay b \<Rightarrow> data_get b ''dry_run'' = VBool True | _ \<Rightarrow> True)
     (fst (events_act L turn False sel val a p))"
  by (cases p; cases a)
    (auto simp: events_act_def deleteEvent_def replayEvent_def read_field_def split: if_splits option.splits)

text \<open>The actions of a row of the table of events\<close>

definition event_row :: "data \<Rightarrow> events_action set" where
  "event_row e =
     {View_details (field_text e ''event_id''), Replay_event (field_text e ''event_id'') True,
      Replay_event (field_text e ''event_id'') False, Delete_event (field_text e ''event_id'')} \<union>
     (if data_truthy (data_get (data_get e ''metadata'') ''user_id'')
      then {View_user (field_text (data_get e ''metadata'') ''user_id'')} else {})"

lemma events_table_offers:
  "set (all_actions (EventsTable_view D events rowCount p loading)) =
     (\<Union>e\<in>set events. event_row e) \<union>
     Events_page ` set (all_actions (Pagination_view p rowCount ''events'' [10, 25, 50, 100]))"
proof -
  have icon: "all_actions (EventTypeIcon_view t n) = []" for t n
    by (simp add: EventTypeIcon_view_def view_simps)
  have row: "(\<Union>c\<in>set (events_columns D). set (all_actions (column_cell c e))) = event_row e" for e
    by (auto simp: events_columns_def timeCell_def typeCell_def userCell_def serviceCell_def event_actionsCell_def
        event_row_def icon Let_def view_simps)
  have paging: "set (all_actions (map (map_node Events_page) ns)) = Events_page ` set (all_actions ns)"
    for ns :: "paging_action node list"
    by (auto simp: view_simps all_actions_def)
  have table: "set (all_actions (DataTable_view (createServerTable cs events) label loading emptyText dense True)) =
      (\<Union>e\<in>set events. \<Union>c\<in>set cs. set (all_actions (column_cell c e)))" for cs :: "(data, events_action) column list" and label emptyText dense
    by (auto simp: DataTable_view_def createServerTable_def view_simps)
  show ?thesis by (simp add: EventsTable_view_def all_actions_simps table row paging)
qed

text \<open>The actions of a user's row, and the dialog each of them opens\<close>

lemma user_row_offers:
  "all_actions (user_actionsCell u) = [Edit_user u, Limit_user u, Delete_user u]"
  by (simp add: user_actionsCell_def view_simps)

text \<open>A user is deleted once: while the request is on its way neither button of the dialog works.\<close>

lemma deletion_offers:
  "set (all_actions (DeleteUserModal_view u cascade pending)) =
     (if pending then {Shut_dialog} else {Shut_dialog, Remove_user u cascade})"
  by (auto simp: DeleteUserModal_view_def Modal_view_def view_simps)

text \<open>Rules of the rate limits\<close>

definition bypassed :: "data \<Rightarrow> bool" where
  "bypassed d \<longleftrightarrow> data_truthy (data_get d ''bypass_rate_limit'')"

lemma rule_row_offers:
  "quiet F \<Longrightarrow> actions (rule_row fl F defaultMultiplier d index rule) = (if bypassed d then [] else [Remove_rule (int index)])"
  by (simp add: rule_row_def bypassed_def field_errors_def view_simps)

lemma default_rule_offers: "actions (default_rule fl defaultMultiplier d rule) = []"
  by (simp add: default_rule_def view_simps)

lemma usage_offers: "actions (usage_view lims) = [Reset_counters]"
proof -
  have "concat (map (\<lambda>x. []) us) = []" for us :: "(string \<times> data) list" by (induction us) simp_all
  then show ?thesis by (simp add: usage_view_def case_prod_unfold view_simps)
qed

lemma removal_offered:
  assumes "quiet F"
  shows "Remove_rule i \<in> set (all_actions (RateLimitsModal_view fl F dm defaultRules u False lims d saving)) \<longleftrightarrow>
     \<not> bypassed d \<and> 0 \<le> i \<and> i < int (length (data_items (data_get d ''rules'')))"
proof -
  have rows: "(\<exists>x\<in>set (enumerate 0 rs). i = int (fst x)) \<longleftrightarrow> 0 \<le> i \<and> i < int (length rs)" for rs :: "data list"
    by (auto simp: in_set_enumerate_eq intro!: bexI [of _ "(nat i, rs ! nat i)"])
  have "(\<exists>rule\<in>set (data_items (data_get d ''rules'')). True) \<longleftrightarrow> data_items (data_get d ''rules'') \<noteq> []"
    by (cases "data_items (data_get d ''rules'')") auto
  then show ?thesis
    using assms rows [of "data_items (data_get d ''rules'')"]
    by (auto simp: RateLimitsModal_view_def Modal_view_def field_errors_def rule_row_offers default_rule_offers
        usage_offers bypassed_def [symmetric] case_prod_unfold view_simps)
qed



end
