(* ===== verification/KeySerializer.thy ===== *)
theory KeySerializer
  imports Json "HOL-Library.Sorting_Algorithms"
begin

text \<open>
  The values of query keys as JSON, \<^verbatim>\<open>frontend/src/lib/api/core/queryKeySerializer.gen.ts\<close>.
  \<open>String.prototype.localeCompare\<close> is a comparator of the library, which carries the laws of an order;
  \<open>Array.prototype.sort\<close> is the stable sort by it. \<open>None\<close> is \<open>undefined\<close>. A parameter with the name
  \<open>__proto__\<close>, whose assignment would set the prototype, is outside the model.
\<close>

section \<open>Through JSON text\<close>

definition queryKeyJsonReplacer :: "jsval \<Rightarrow> jsval" where
  "queryKeyJsonReplacer value =
     (case value of
        JUndefined \<Rightarrow> JUndefined
      | JFunction src \<Rightarrow> JUndefined
      | JSymbol \<Rightarrow> JUndefined
      | JBigInt n \<Rightarrow> JStr (show_int n)
      | JDate i disp \<Rightarrow> JStr i
      | _ \<Rightarrow> value)"

text \<open>
  What \<open>JSON.stringify\<close> writes after a replacer that leaves arrays and objects as they are. It hands a
  date to the replacer as its ISO form already, which makes no difference.
\<close>

fun replaced :: "(jsval \<Rightarrow> jsval) \<Rightarrow> jsval \<Rightarrow> jsval" where
  "replaced r (JArray vs) = JArray (map (replaced r) vs)"
| "replaced r (JObject es) = JObject (map (\<lambda>(k, v). (k, replaced r v)) es)"
| "replaced r (JInstance es) = JInstance (map (\<lambda>(k, v). (k, replaced r v)) es)"
| "replaced r v = r v"

definition stringifyToJsonValue :: "jsval \<Rightarrow> jsval option" where
  "stringifyToJsonValue input =
     (case json_stringify (replaced queryKeyJsonReplacer input) of
        Inl e \<Rightarrow> None
      | Inr None \<Rightarrow> None
      | Inr (Some json) \<Rightarrow> json_read json)"

fun isPlainObject :: "jsval \<Rightarrow> bool" where
  "isPlainObject (JObject es) = True"
| "isPlainObject _ = False"

section \<open>Search parameters\<close>

text \<open>What an object literal inherits: \<open>result[key]\<close> finds the methods of every object, too.\<close>

definition inherited :: "string \<Rightarrow> jsval" where
  "inherited k =
     (if k = ''constructor'' then JFunction ''function Object() { [native code] }''
      else if k \<in> set [''hasOwnProperty'', ''isPrototypeOf'', ''propertyIsEnumerable'', ''toLocaleString'', ''toString'',
        ''valueOf'', ''__defineGetter__'', ''__defineSetter__'', ''__lookupGetter__'', ''__lookupSetter__'']
      then JFunction (''function '' @ k @ ''() { [native code] }'')
      else JUndefined)"

fun add_param :: "props \<Rightarrow> string \<times> string \<Rightarrow> props" where
  "add_param result (k, v) =
     (case (case map_of result k of None \<Rightarrow> inherited k | Some w \<Rightarrow> w) of
        JUndefined \<Rightarrow> prop_set result k (JStr v)
      | JArray vs \<Rightarrow> prop_set result k (JArray (vs @ [JStr v]))
      | existing \<Rightarrow> prop_set result k (JArray [existing, JStr v]))"

definition serializeSearchParams :: "string comparator \<Rightarrow> (string \<times> string) list \<Rightarrow> jsval" where
  "serializeSearchParams collation params =
     JObject (foldl add_param [] (Sorting_Algorithms.sort (key fst collation) params))"

section \<open>Any value\<close>

definition serializeQueryKeyValue :: "string comparator \<Rightarrow> jsval \<Rightarrow> jsval option" where
  "serializeQueryKeyValue collation value =
     (case value of
        JNull \<Rightarrow> Some JNull
      | JStr s \<Rightarrow> Some value
      | JNum n \<Rightarrow> Some value
      | JBool b \<Rightarrow> Some value
      | JUndefined \<Rightarrow> None
      | JFunction src \<Rightarrow> None
      | JSymbol \<Rightarrow> None
      | JBigInt n \<Rightarrow> Some (JStr (show_int n))
      | JDate i disp \<Rightarrow> Some (JStr i)
      | JArray vs \<Rightarrow> stringifyToJsonValue value
      | JURLSearchParams ps \<Rightarrow> Some (serializeSearchParams collation ps)
      | _ \<Rightarrow> if isPlainObject value then stringifyToJsonValue value else None)"

section \<open>Lemmas\<close>

lemma rmap_over_map: "rmap f (map g xs) = rmap (\<lambda>x. f (g x)) xs"
  by (induction xs) simp_all

lemma rmap_values: "rmap (\<lambda>(k, v). f v) (map (\<lambda>(k, v). (k, g v)) es) = rmap (\<lambda>(k, v). f (g v)) es"
  by (simp add: rmap_over_map case_prod_unfold)

lemma rmap_congI: "(\<And>x. x \<in> set xs \<Longrightarrow> f x = g x) \<Longrightarrow> rmap f xs = rmap g xs"
  by (rule rmap_cong) simp_all

text \<open>The replacer does what the serializer of bodies does for big integers, and nothing else.\<close>

lemma replaced_text: "json_text False (replaced queryKeyJsonReplacer v) = json_text True v"
proof (induction v rule: json_view.induct)
  case (6 vs)
  then have "rmap (json_text False) (map (replaced queryKeyJsonReplacer) vs) = rmap (json_text True) vs"
    by (simp add: rmap_over_map cong: rmap_cong)
  then show ?case by simp
next
  case (7 es)
  then have "rmap (\<lambda>(k, v). json_text False v) (map (\<lambda>(k, v). (k, replaced queryKeyJsonReplacer v)) es) =
      rmap (\<lambda>(k, v). json_text True v) es"
    unfolding rmap_values by (intro rmap_congI) auto
  then show ?case by (simp add: case_prod_unfold comp_def)
next
  case (8 es)
  then have "rmap (\<lambda>(k, v). json_text False v) (map (\<lambda>(k, v). (k, replaced queryKeyJsonReplacer v)) es) =
      rmap (\<lambda>(k, v). json_text True v) es"
    unfolding rmap_values by (intro rmap_congI) auto
  then show ?case by (simp add: case_prod_unfold comp_def)
qed (simp_all add: queryKeyJsonReplacer_def)

text \<open>What comes out is the JSON view of the value, and nothing is ever thrown.\<close>

lemma stringify_view: "stringifyToJsonValue v = json_view v"
  using json_body_read [of v]
  by (auto simp: stringifyToJsonValue_def json_stringify_def replaced_text jsonBodySerializer_def
      split: option.splits)

definition viewed_members :: "(jsval \<Rightarrow> jsval option) \<Rightarrow> props \<Rightarrow> props" where
  "viewed_members f es = concat (map (\<lambda>(k, v). case f v of None \<Rightarrow> [] | Some w \<Rightarrow> [(k, w)]) es)"

lemma viewed_twice:
  "(\<And>k v u. (k, v) \<in> set es \<Longrightarrow> f v = Some u \<Longrightarrow> f u = Some u) \<Longrightarrow>
   viewed_members f (viewed_members f es) = viewed_members f es"
proof (induction es)
  case (Cons e es)
  then have "viewed_members f (viewed_members f es) = viewed_members f es" by (meson list.set_intros(2))
  moreover have "f u = Some u" if "f (snd e) = Some u" for u
    using Cons.prems [of "fst e" "snd e"] that by simp
  ultimately show ?case
    by (cases e) (auto simp: viewed_members_def split: option.splits)
qed (simp add: viewed_members_def)

lemma json_view_view: "json_view v = Some w \<Longrightarrow> json_view w = Some w"
proof (induction v arbitrary: w rule: json_view.induct)
  case (6 vs)
  have "json_view (case json_view v of None \<Rightarrow> JNull | Some w \<Rightarrow> w) =
      Some (case json_view v of None \<Rightarrow> JNull | Some w \<Rightarrow> w)" if "v \<in> set vs" for v
    using 6(1) [OF that] by (cases "json_view v") auto
  then show ?case using 6(2) by auto
next
  case (7 es)
  have "viewed_members json_view (viewed_members json_view es) = viewed_members json_view es"
    by (rule viewed_twice) (rule 7(1), auto)
  then show ?case using 7(2) by (auto simp: viewed_members_def)
next
  case (8 es)
  have "viewed_members json_view (viewed_members json_view es) = viewed_members json_view es"
    by (rule viewed_twice) (rule 8(1), auto)
  then show ?case using 8(2) by (auto simp: viewed_members_def)
qed auto

text \<open>The values of one parameter\<close>

definition values_of :: "string \<Rightarrow> (string \<times> string) list \<Rightarrow> string list" where
  "values_of k ps = map snd (filter (\<lambda>p. fst p = k) ps)"

definition param_entry :: "string list \<Rightarrow> jsval option" where
  "param_entry vs = (case vs of [] \<Rightarrow> None | [v] \<Rightarrow> Some (JStr v) | _ \<Rightarrow> Some (JArray (map JStr vs)))"

lemma added_params:
  assumes "inherited k = JUndefined"
  shows "map_of (foldl add_param [] ps) k = param_entry (values_of k ps)"
proof (induction ps rule: rev_induct)
  case Nil
  then show ?case by (simp add: values_of_def param_entry_def)
next
  case (snoc p ps)
  obtain j v where p: "p = (j, v)" by (cases p)
  let ?r = "foldl add_param [] ps"
  show ?case
  proof (cases "j = k")
    case False
    then have "map_of (add_param ?r p) k = map_of ?r k"
      by (auto simp: p map_of_prop_set split: jsval.splits)
    then show ?thesis using snoc False by (simp add: p values_of_def)
  next
    case True
    consider "values_of k ps = []" | u where "values_of k ps = [u]" | u w us where "values_of k ps = u # w # us"
      by (metis list.exhaust)
    then show ?thesis
      using snoc assms True
      by cases (auto simp: p map_of_prop_set param_entry_def values_of_def)
  qed
qed

lemma sorted_values: "values_of k (Sorting_Algorithms.sort (key fst collation) ps) = values_of k ps"
  if "\<And>a b. compare collation a b = Equiv \<Longrightarrow> a = b"
proof -
  have "compare collation k a = Equiv \<longleftrightarrow> a = k" for a
    using that by (metis compare.refl)
  then have "filter (\<lambda>p. fst p = k) ps = filter (\<lambda>p. compare (key fst collation) (k, undefined) p = Equiv) ps" for ps
    by simp
  then show ?thesis unfolding values_of_def by (metis stable_sort)
qed

text \<open>
  Two lists of parameters that differ in the order of different names only have the same key: that is
  what sorting is for. Values of the same name keep their order.
\<close>

lemma search_params_deterministic:
  assumes "\<And>a b. compare collation a b = Equiv \<Longrightarrow> a = b"
    and "\<And>k. values_of k ps = values_of k qs"
  shows "serializeSearchParams collation ps = serializeSearchParams collation qs"
proof -
  have same: "filter (\<lambda>p. fst p = k) ps = filter (\<lambda>p. fst p = k) qs" for k
  proof -
    have "filter (\<lambda>p. fst p = k) xs = map (Pair k) (values_of k xs)" for xs :: "(string \<times> string) list"
      by (induction xs) (auto simp: values_of_def)
    then show ?thesis using assms(2) by metis
  qed
  have segment: "filter (\<lambda>q. compare (key fst collation) y q = Equiv) xs = filter (\<lambda>p. fst p = fst y) xs"
    for y and xs :: "(string \<times> string) list"
    by (rule filter_cong) (use assms(1) in \<open>auto simp: dest: sym\<close>)
  have sorted_same: "filter (\<lambda>p. fst p = k) (Sorting_Algorithms.sort (key fst collation) xs) = filter (\<lambda>p. fst p = k) xs"
    for k and xs :: "(string \<times> string) list"
    using stable_sort [of "key fst collation" "(k, [])" xs] unfolding segment by simp
  have "mset ps = mset qs"
  proof (rule multiset_eqI)
    fix p
    have "count (mset xs) p = count (mset (filter (\<lambda>q. fst q = fst p) xs)) p" for xs :: "(string \<times> string) list"
      by (induction xs) auto
    then show "count (mset ps) p = count (mset qs) p" using same by metis
  qed
  then have "Sorting_Algorithms.sort (key fst collation) ps = Sorting_Algorithms.sort (key fst collation) qs"
    by (intro sort_eqI) (simp_all only: segment same sorted_same mset_sort sorted_sort)
  then show ?thesis by (simp add: serializeSearchParams_def)
qed

lemma search_params_entries:
  assumes "\<And>a b. compare collation a b = Equiv \<Longrightarrow> a = b" and "inherited k = JUndefined"
  shows "\<exists>es. serializeSearchParams collation ps = JObject es \<and> map_of es k = param_entry (values_of k ps)"
  using added_params [OF assms(2)] sorted_values [OF assms(1)] by (simp add: serializeSearchParams_def)

text \<open>A parameter with the name of a method of every object is read as if it were repeated.\<close>

lemma search_params_inherited:
  "serializeSearchParams collation [(''constructor'', ''x'')] =
     JObject [(''constructor'', JArray [JFunction ''function Object() { [native code] }'', JStr ''x''])]"
  by (simp add: serializeSearchParams_def inherited_def)

text \<open>Apart from search parameters, a key is the JSON view of its value, if it is a plain one.\<close>

lemma key_is_view:
  assumes "\<And>ps. v \<noteq> JURLSearchParams ps" and "\<And>es. v \<noteq> JInstance es"
  shows "serializeQueryKeyValue collation v = json_view v"
  by (cases v) (auto simp: serializeQueryKeyValue_def stringify_view assms)

end
