(* ===== verification/Params.thy ===== *)
theory Params
  imports JsValue
begin

text \<open>
  Flat arguments sorted into the slots of a request, \<^verbatim>\<open>frontend/src/lib/api/core/params.gen.ts\<close>. A
  \<open>param_config\<close> is one element of a \<open>FieldsConfig\<close>: \<open>In_field\<close> has \<open>in\<close>, \<open>Key_field\<close> has \<open>key\<close> and no
  \<open>in\<close>, \<open>Fields_config\<close> is the rest. The slots that are written are members of one object, the result.
\<close>

section \<open>Configurations\<close>

datatype slot = Body_slot | Headers_slot | Path_slot | Query_slot

fun slot_name :: "slot \<Rightarrow> string" where
  "slot_name Body_slot = ''body''"
| "slot_name Headers_slot = ''headers''"
| "slot_name Path_slot = ''path''"
| "slot_name Query_slot = ''query''"

datatype param_config =
    In_field slot "string option" "string option" \<comment> \<open>\<open>in\<close>, \<open>key\<close> and \<open>map\<close>\<close>
  | Key_field string slot \<comment> \<open>\<open>key\<close> and \<open>map\<close>\<close>
  | Fields_config "(slot \<times> bool) list option" "param_config list option" \<comment> \<open>\<open>allowExtra\<close> and \<open>args\<close>\<close>

datatype key_entry = To_slot slot "string option" | Alias_of slot

type_synonym key_map = "string \<Rightarrow> key_entry option"

definition extraPrefixes :: "(string \<times> slot) list" where
  "extraPrefixes =
     [(''$body_'', Body_slot), (''$headers_'', Headers_slot), (''$path_'', Path_slot), (''$query_'', Query_slot)]"

text \<open>A key that is absent or empty is falsy.\<close>

definition truthy_key :: "string option \<Rightarrow> string option" where
  "truthy_key k = (case k of None \<Rightarrow> None | Some s \<Rightarrow> if s = [] then None else Some s)"

fun buildKeyMap :: "param_config list \<Rightarrow> key_map \<Rightarrow> key_map" where
  "buildKeyMap [] m = m"
| "buildKeyMap (In_field sl k mp # cs) m =
     buildKeyMap cs (case truthy_key k of None \<Rightarrow> m | Some key \<Rightarrow> m(key \<mapsto> To_slot sl mp))"
| "buildKeyMap (Key_field key sl # cs) m = buildKeyMap cs (m(key \<mapsto> Alias_of sl))"
| "buildKeyMap (Fields_config extra None # cs) m = buildKeyMap cs m"
| "buildKeyMap (Fields_config extra (Some args) # cs) m = buildKeyMap cs (buildKeyMap args m)"

section \<open>Writing\<close>

text \<open>
  \<open>record[key] = value\<close> in a module, which is strict: an assignment to a primitive throws. An index of an
  array extends it if need be. A name that is no index, and any name on a date, a function or search
  parameters, becomes a property that no serializer of the client looks at (the name \<open>length\<close> is outside
  the model).
\<close>

definition array_index :: "string \<Rightarrow> nat option" where
  "array_index k =
     (let i = foldl (\<lambda>n c. 10 * n + (cc c - 48)) 0 k in if show_nat i = k \<and> i < 2 ^ 32 - 1 then Some i else None)"

fun set_member :: "jsval \<Rightarrow> string \<Rightarrow> jsval \<Rightarrow> jsval res" where
  "set_member (JObject es) k v = Inr (JObject (prop_set es k v))"
| "set_member (JInstance es) k v = Inr (JInstance (prop_set es k v))"
| "set_member (JArray vs) k v =
     (case array_index k of
        None \<Rightarrow> Inr (JArray vs)
      | Some i \<Rightarrow>
          Inr (JArray (if i < length vs then vs[i := v] else vs @ replicate (i - length vs) JUndefined @ [v])))"
| "set_member (JDate i disp) k v = Inr (JDate i disp)"
| "set_member (JFunction src) k v = Inr (JFunction src)"
| "set_member (JURLSearchParams ps) k v = Inr (JURLSearchParams ps)"
| "set_member _ k v = Inl TypeError"

definition writeSlot :: "slot \<Rightarrow> string \<Rightarrow> jsval \<Rightarrow> props \<Rightarrow> props res" where
  "writeSlot sl k v params =
     (let record = (case prop_get params (slot_name sl) of JUndefined \<Rightarrow> JObject [] | r \<Rightarrow> r)
      in rbind (set_member record k v) (\<lambda>r. Inr (prop_set params (slot_name sl) r)))"

definition first_allowed :: "(slot \<times> bool) list \<Rightarrow> slot option" where
  "first_allowed extra = map_option fst (List.find snd extra)"

definition write_unknown :: "param_config \<Rightarrow> string \<Rightarrow> jsval \<Rightarrow> props \<Rightarrow> props res" where
  "write_unknown config k v params =
     (case List.find (\<lambda>(prefix, sl). startsWith k prefix) extraPrefixes of
        Some (prefix, sl) \<Rightarrow> writeSlot sl (drop (length prefix) k) v params
      | None \<Rightarrow>
          (case config of
             Fields_config (Some extra) args \<Rightarrow>
               (case first_allowed extra of None \<Rightarrow> Inr params | Some sl \<Rightarrow> writeSlot sl k v params)
           | _ \<Rightarrow> Inr params))"

text \<open>\<open>field.map || key\<close>\<close>

definition mapped_name :: "string option \<Rightarrow> string \<Rightarrow> string" where
  "mapped_name mp k = (case truthy_key mp of None \<Rightarrow> k | Some n \<Rightarrow> n)"

definition write_entry :: "key_map \<Rightarrow> param_config \<Rightarrow> props \<Rightarrow> string \<times> jsval \<Rightarrow> props res" where
  "write_entry m config params e =
     (case e of (k, v) \<Rightarrow>
        (case m k of
           Some (To_slot sl mp) \<Rightarrow> writeSlot sl (mapped_name mp k) v params
         | Some (Alias_of sl) \<Rightarrow> Inr (prop_set params (slot_name sl) v)
         | None \<Rightarrow> write_unknown config k v params))"

fun write_entries :: "key_map \<Rightarrow> param_config \<Rightarrow> props \<Rightarrow> (string \<times> jsval) list \<Rightarrow> props res" where
  "write_entries m config params [] = Inr params"
| "write_entries m config params (e # es) =
     rbind (write_entry m config params e) (\<lambda>params'. write_entries m config params' es)"

definition write_arg :: "key_map \<Rightarrow> param_config \<Rightarrow> jsval \<Rightarrow> props \<Rightarrow> props res" where
  "write_arg m config arg params =
     (case config of
        In_field sl k mp \<Rightarrow>
          (case truthy_key k of
             Some key \<Rightarrow>
               (case m key of
                  None \<Rightarrow> Inl TypeError
                | Some (To_slot sl' mp') \<Rightarrow> writeSlot sl' (mapped_name mp' key) arg params
                | Some (Alias_of _) \<Rightarrow> Inr params)
           | None \<Rightarrow> Inr (prop_set params ''body'' arg))
      | _ \<Rightarrow> write_entries m config params (obj_entries arg))"

text \<open>
  The loop over the arguments: an argument without an element of its own keeps the element before it.
\<close>

fun write_args :: "key_map \<Rightarrow> param_config list \<Rightarrow> param_config option \<Rightarrow> jsval list \<Rightarrow> props \<Rightarrow> props res" where
  "write_args m fields current [] params = Inr params"
| "write_args m fields current (arg # args) params =
     (case (case fields of [] \<Rightarrow> current | config # _ \<Rightarrow> Some config) of
        None \<Rightarrow> write_args m (drop 1 fields) None args params
      | Some config \<Rightarrow>
          rbind (write_arg m config arg params) (write_args m (drop 1 fields) (Some config) args))"

definition empty_record :: "jsval \<Rightarrow> bool" where
  "empty_record v \<longleftrightarrow> truthy v \<and> typeof_object v \<and> \<not> is_array v \<and> obj_entries v = []"

definition stripEmptySlots :: "props \<Rightarrow> props" where
  "stripEmptySlots params = filter (\<lambda>(k, v). k = ''body'' \<or> \<not> empty_record v) params"

definition buildClientParams :: "jsval list \<Rightarrow> param_config list \<Rightarrow> props res" where
  "buildClientParams args fields =
     rbind (write_args (buildKeyMap fields (\<lambda>_. None)) fields None args
              [(''headers'', JObject []), (''path'', JObject []), (''query'', JObject [])])
       (\<lambda>params. Inr (stripEmptySlots params))"

section \<open>Lemmas\<close>

text \<open>The key map: the last mention of a key decides, in the order in which the configuration is read.\<close>

fun mentions :: "param_config list \<Rightarrow> (string \<times> key_entry) list" where
  "mentions [] = []"
| "mentions (In_field sl k mp # cs) = (case truthy_key k of None \<Rightarrow> [] | Some key \<Rightarrow> [(key, To_slot sl mp)]) @ mentions cs"
| "mentions (Key_field key sl # cs) = (key, Alias_of sl) # mentions cs"
| "mentions (Fields_config extra None # cs) = mentions cs"
| "mentions (Fields_config extra (Some args) # cs) = mentions args @ mentions cs"

lemma buildKeyMap_mentions:
  "buildKeyMap cs m k = (case map_of (rev (mentions cs)) k of None \<Rightarrow> m k | Some e \<Rightarrow> Some e)"
proof (induction cs m rule: buildKeyMap.induct)
  case (2 sl key mp cs m)
  then show ?case by (cases "truthy_key key") (simp_all add: map_add_def fun_upd_def split: option.splits)
qed (simp_all add: map_add_def fun_upd_def split: option.splits)

text \<open>What a request carries under a slot\<close>

definition slot_entry :: "props \<Rightarrow> slot \<Rightarrow> string \<Rightarrow> jsval" where
  "slot_entry params sl k = (case prop_get params (slot_name sl) of JObject es \<Rightarrow> prop_get es k | _ \<Rightarrow> JUndefined)"

text \<open>Headers, path and query are objects while every key goes into a slot.\<close>

definition plain_slots :: "props \<Rightarrow> bool" where
  "plain_slots params \<longleftrightarrow> distinct (map fst params) \<and>
     (\<forall>sl. (\<exists>es. prop_get params (slot_name sl) = JObject es) \<or> sl = Body_slot \<and> prop_get params ''body'' = JUndefined)"

lemma prop_get_set: "prop_get (prop_set es k v) j = (if j = k then v else prop_get es j)"
  by (simp add: prop_get_def map_of_prop_set)

lemma slot_name_inj [simp]: "slot_name sl = slot_name sl' \<longleftrightarrow> sl = sl'"
  by (cases sl; cases sl') simp_all

lemma writeSlot_entry:
  assumes "plain_slots params"
  shows "\<exists>params'. writeSlot sl k v params = Inr params' \<and> plain_slots params' \<and>
           (\<forall>sl' k'. slot_entry params' sl' k' = (if sl' = sl \<and> k' = k then v else slot_entry params sl' k'))"
proof -
  have "(\<exists>es. prop_get params (slot_name sl) = JObject es) \<or> prop_get params (slot_name sl) = JUndefined"
    using assms by (auto simp: plain_slots_def)
  then obtain es where es: "(case prop_get params (slot_name sl) of JUndefined \<Rightarrow> JObject [] | r \<Rightarrow> r) = JObject es"
    "\<And>k'. prop_get es k' = slot_entry params sl k'"
  proof (elim disjE exE)
    fix es assume "prop_get params (slot_name sl) = JObject es"
    then show ?thesis using that [of es] by (simp add: slot_entry_def)
  next
    assume "prop_get params (slot_name sl) = JUndefined"
    then show ?thesis using that [of "[]"] by (simp add: slot_entry_def prop_get_def)
  qed
  let ?p = "prop_set params (slot_name sl) (JObject (prop_set es k v))"
  have "writeSlot sl k v params = Inr ?p" using es(1) by (simp add: writeSlot_def)
  moreover have "plain_slots ?p"
    using assms unfolding plain_slots_def prop_get_set
    by (metis distinct_prop_set slot_name.simps(1) slot_name_inj)
  moreover have "slot_entry ?p sl' k' = (if sl' = sl \<and> k' = k then v else slot_entry params sl' k')" for sl' k'
    using es(2) by (auto simp: slot_entry_def prop_get_set)
  ultimately show ?thesis by blast
qed

text \<open>Where an entry of a flat argument goes, when the configuration has no alias\<close>

definition route :: "key_map \<Rightarrow> param_config \<Rightarrow> string \<Rightarrow> (slot \<times> string) option" where
  "route m config k =
     (case m k of
        Some (To_slot sl mp) \<Rightarrow> Some (sl, mapped_name mp k)
      | Some (Alias_of sl) \<Rightarrow> None
      | None \<Rightarrow>
          (case List.find (\<lambda>(prefix, sl). startsWith k prefix) extraPrefixes of
             Some (prefix, sl) \<Rightarrow> Some (sl, drop (length prefix) k)
           | None \<Rightarrow>
               (case config of
                  Fields_config (Some extra) args \<Rightarrow> map_option (\<lambda>sl. (sl, k)) (first_allowed extra)
                | _ \<Rightarrow> None)))"

definition routed :: "key_map \<Rightarrow> param_config \<Rightarrow> (string \<times> jsval) list \<Rightarrow> ((slot \<times> string) \<times> jsval) list" where
  "routed m config es = List.map_filter (\<lambda>(k, v). map_option (\<lambda>r. (r, v)) (route m config k)) es"

definition no_alias :: "key_map \<Rightarrow> bool" where
  "no_alias m \<longleftrightarrow> (\<forall>k sl. m k \<noteq> Some (Alias_of sl))"

lemma write_entry_routed:
  assumes "no_alias m" and "plain_slots params"
  shows "\<exists>params'. write_entry m config params (k, v) = Inr params' \<and> plain_slots params' \<and>
           (\<forall>sl j. slot_entry params' sl j = (if route m config k = Some (sl, j) then v else slot_entry params sl j))"
proof (cases "route m config k")
  case None
  then have "write_entry m config params (k, v) = Inr params"
    using assms(1) by (auto simp: write_entry_def write_unknown_def route_def no_alias_def
        split: option.splits key_entry.splits param_config.splits)
  then show ?thesis using assms(2) None by simp
next
  case (Some r)
  obtain sl j where r: "r = (sl, j)" by (cases r)
  have "write_entry m config params (k, v) = writeSlot sl j v params"
    using assms(1) Some by (auto simp: r write_entry_def write_unknown_def route_def no_alias_def
        split: option.splits key_entry.splits param_config.splits prod.splits)
  then show ?thesis using writeSlot_entry [OF assms(2), of sl j v] Some by (auto simp: r)
qed

lemma write_entries_routed:
  assumes "no_alias m" and "plain_slots params"
  shows "\<exists>params'. write_entries m config params es = Inr params' \<and> plain_slots params' \<and>
           (\<forall>sl j. slot_entry params' sl j =
              (case map_of (rev (routed m config es)) (sl, j) of None \<Rightarrow> slot_entry params sl j | Some v \<Rightarrow> v))"
  using assms(2)
proof (induction es arbitrary: params)
  case Nil
  then show ?case by (simp add: routed_def map_filter_simps)
next
  case (Cons e es)
  obtain k v where e: "e = (k, v)" by (cases e)
  obtain p1 where p1: "write_entry m config params e = Inr p1" "plain_slots p1"
    "\<And>sl j. slot_entry p1 sl j = (if route m config k = Some (sl, j) then v else slot_entry params sl j)"
    using write_entry_routed [OF assms(1) Cons.prems, of config k v] e by auto
  obtain p2 where p2: "write_entries m config p1 es = Inr p2" "plain_slots p2"
    "\<And>sl j. slot_entry p2 sl j =
       (case map_of (rev (routed m config es)) (sl, j) of None \<Rightarrow> slot_entry p1 sl j | Some v \<Rightarrow> v)"
    using Cons.IH [OF p1(2)] by auto
  have "routed m config (e # es) = (case route m config k of None \<Rightarrow> [] | Some r \<Rightarrow> [(r, v)]) @ routed m config es"
    by (simp add: routed_def map_filter_simps e split: option.splits)
  then show ?case
    using p1 p2 by (auto simp: map_add_def split: option.splits)
qed

lemma map_of_filter_distinct:
  "distinct (map fst es) \<Longrightarrow>
   map_of (filter P es) k = (case map_of es k of None \<Rightarrow> None | Some v \<Rightarrow> if P (k, v) then Some v else None)"
proof (induction es)
  case (Cons e es)
  then have "map_of es (fst e) = None" by (simp add: map_of_eq_None_iff)
  then show ?case using Cons by (cases e) auto
qed simp

lemma strip_entry: "plain_slots params \<Longrightarrow> slot_entry (stripEmptySlots params) sl k = slot_entry params sl k"
proof -
  assume "plain_slots params"
  then have "map_of (filter (\<lambda>(k, v). k = ''body'' \<or> \<not> empty_record v) params) j =
      (case map_of params j of None \<Rightarrow> None | Some v \<Rightarrow> if j = ''body'' \<or> \<not> empty_record v then Some v else None)" for j
    unfolding plain_slots_def by (simp add: map_of_filter_distinct split: option.splits)
  then show ?thesis
    by (auto simp: slot_entry_def stripEmptySlots_def prop_get_def empty_record_def split: option.splits jsval.splits)
qed

text \<open>
  A flat object is distributed as its configuration says: every slot holds, under each name, the last value
  that was routed there, and nothing else.
\<close>

lemma buildClientParams_routes:
  assumes "no_alias (buildKeyMap [Fields_config extra args] (\<lambda>_. None))"
  shows "\<exists>params. buildClientParams [JObject es] [Fields_config extra args] = Inr params \<and>
           (\<forall>sl k. slot_entry params sl k =
              (case map_of (rev (routed (buildKeyMap [Fields_config extra args] (\<lambda>_. None)) (Fields_config extra args) es)) (sl, k)
               of None \<Rightarrow> JUndefined | Some v \<Rightarrow> v))"
proof -
  let ?start = "[(''headers'', JObject []), (''path'', JObject []), (''query'', JObject [])]"
  have start: "plain_slots ?start"
    unfolding plain_slots_def
  proof (intro conjI allI)
    fix sl
    show "(\<exists>es. prop_get ?start (slot_name sl) = JObject es) \<or> sl = Body_slot \<and> prop_get ?start ''body'' = JUndefined"
      by (cases sl) (simp_all add: prop_get_def)
  qed simp
  have "slot_entry ?start sl k = JUndefined" for sl k
    by (cases sl) (simp_all add: slot_entry_def prop_get_def)
  moreover obtain params where
    "write_entries (buildKeyMap [Fields_config extra args] (\<lambda>_. None)) (Fields_config extra args) ?start es = Inr params"
    "plain_slots params"
    "\<And>sl k. slot_entry params sl k =
       (case map_of (rev (routed (buildKeyMap [Fields_config extra args] (\<lambda>_. None)) (Fields_config extra args) es)) (sl, k)
        of None \<Rightarrow> slot_entry ?start sl k | Some v \<Rightarrow> v)"
    using write_entries_routed [OF assms start] by blast
  ultimately show ?thesis
    by (intro exI [of _ "stripEmptySlots params"]) (simp add: buildClientParams_def write_arg_def strip_entry split: option.splits)
qed

text \<open>Aliases and prefixes, on a configuration of the generator's other style of functions\<close>

lemma buildClientParams_example:
  "buildClientParams
     [JObject [(''id'', JStr ''7''), (''q'', JStr ''x''), (''$headers_Accept'', JStr ''text''), (''other'', JNum 1)], JStr ''b'']
     [Fields_config None (Some [In_field Path_slot (Some ''id'') None, In_field Query_slot (Some ''q'') (Some ''search'')]),
      In_field Body_slot None None] =
   Inr [(''headers'', JObject [(''Accept'', JStr ''text'')]), (''path'', JObject [(''id'', JStr ''7'')]),
        (''query'', JObject [(''search'', JStr ''x'')]), (''body'', JStr ''b'')]"
  by code_simp

end
