(* ===== verification/Faker.thy ===== *)
theory Faker
  imports WireTyped "HOL-Library.State_Monad"
begin

text \<open>
  The mock data of the tests, \<^verbatim>\<open>frontend/src/lib/api/@faker-js/faker.gen.ts\<close>: one factory for every type
  of the API, every request and every response.

  Faker is a library. It draws from a generator whose state changes with every call, so a factory is a
  computation of the state monad, and its calls happen in the order in which JavaScript evaluates them.
  The record \<open>faker\<close> holds the functions the factories call. \<open>faker\<close>, the first argument of a factory, is
  the library's own instance, for which the options may hold another.
\<close>

section \<open>The library\<close>

record 's faker =
  datatype_boolean :: "rat option \<Rightarrow> ('s, bool) state" \<comment> \<open>with the probability of \<open>true\<close>\<close>
  number_int :: "(string \<times> rat) list \<Rightarrow> ('s, rat) state"
  number_float :: "(string \<times> rat) list \<Rightarrow> ('s, rat) state"
  string_sample :: "('s, string) state"
  string_alpha :: "(nat \<times> nat) option \<Rightarrow> ('s, string) state" \<comment> \<open>with the least and the greatest length\<close>
  internet_username :: "('s, string) state"
  internet_email :: "('s, string) state"
  internet_password :: "('s, string) state"
  internet_ip :: "('s, string) state"
  internet_userAgent :: "('s, string) state"
  location_timeZone :: "('s, string) state"
  location_state :: "('s, string) state"
  lorem_sentence :: "('s, string) state"
  lorem_words :: "('s, string) state"
  date_recent :: "('s, string) state" \<comment> \<open>the date's \<open>toISOString()\<close>\<close>
  helpers_fromRegExp :: "string \<Rightarrow> ('s, string) state"
  helpers_arrayElement :: "data list \<Rightarrow> ('s, data) state"
  helpers_multiple :: "('s, data) state \<Rightarrow> ('s, data list) state"

text \<open>
  What the documentation says of the two helpers: an element of a non-empty array, and results of the
  function that is passed.
\<close>

definition faker_helpers :: "'s faker \<Rightarrow> bool" where
  "faker_helpers f \<longleftrightarrow>
     (\<forall>xs s. xs \<noteq> [] \<longrightarrow> fst (run_state (helpers_arrayElement f xs) s) \<in> set xs) \<and>
     (\<forall>m s. set (fst (run_state (helpers_multiple f m) s)) \<subseteq> set_state m)"

datatype condition = Sure bool | Chance rat

record 's options =
  faker_option :: "'s faker option"
  includeOptional :: "condition option"
  useDefault :: "condition option"

definition the_faker :: "'s faker \<Rightarrow> 's options option \<Rightarrow> 's faker" where
  "the_faker faker opts =
     (case opts of None \<Rightarrow> faker | Some os \<Rightarrow> (case faker_option os of None \<Rightarrow> faker | Some f \<Rightarrow> f))"

fun resolveCondition :: "condition \<Rightarrow> 's faker \<Rightarrow> ('s, bool) state" where
  "resolveCondition (Sure b) f = State_Monad.return b"
| "resolveCondition (Chance p) f = datatype_boolean f (Some p)"

text \<open>\<open>options?.includeOptional ?? true\<close> and \<open>options?.useDefault ?? false\<close>\<close>

definition include_condition :: "'s options option \<Rightarrow> condition" where
  "include_condition opts =
     (case opts of None \<Rightarrow> Sure True | Some os \<Rightarrow> (case includeOptional os of None \<Rightarrow> Sure True | Some c \<Rightarrow> c))"

definition default_condition :: "'s options option \<Rightarrow> condition" where
  "default_condition opts =
     (case opts of None \<Rightarrow> Sure False | Some os \<Rightarrow> (case useDefault os of None \<Rightarrow> Sure False | Some c \<Rightarrow> c))"

section \<open>The expressions of the factories\<close>

definition text_of :: "('s, string) state \<Rightarrow> ('s, data) state" where
  "text_of m = do { s \<leftarrow> m; State_Monad.return (VStr s) }"

definition number_of :: "('s, rat) state \<Rightarrow> ('s, data) state" where
  "number_of m = do { n \<leftarrow> m; State_Monad.return (VNum n) }"

definition bool_of :: "('s, bool) state \<Rightarrow> ('s, data) state" where
  "bool_of m = do { b \<leftarrow> m; State_Monad.return (VBool b) }"

definition const :: "data \<Rightarrow> ('s, data) state" where
  "const v = State_Monad.return v"

text \<open>\<open>f.datatype.boolean() ? m : null\<close>\<close>

definition nullable :: "'s faker \<Rightarrow> ('s, data) state \<Rightarrow> ('s, data) state" where
  "nullable f m = do { b \<leftarrow> datatype_boolean f None; if b then m else State_Monad.return VNull }"

text \<open>\<open>resolveCondition(options?.useDefault ?? false, f) ? d : m\<close>\<close>

definition default_or :: "'s faker \<Rightarrow> 's options option \<Rightarrow> data \<Rightarrow> ('s, data) state \<Rightarrow> ('s, data) state" where
  "default_or f opts d m =
     do { b \<leftarrow> resolveCondition (default_condition opts) f; if b then State_Monad.return d else m }"

definition element_of :: "'s faker \<Rightarrow> ('s, data) state list \<Rightarrow> ('s, data) state" where
  "element_of f ms = do { vs \<leftarrow> State_Monad.traverse_list (\<lambda>m. m) ms; helpers_arrayElement f vs }"

definition multiple_of :: "'s faker \<Rightarrow> ('s, data) state \<Rightarrow> ('s, data) state" where
  "multiple_of f m = do { vs \<leftarrow> helpers_multiple f m; State_Monad.return (VArray vs) }"

text \<open>
  An object literal: a field \<open>k: m\<close>, or \<open>...!include ? {} : {k: m}\<close>, which adds it if optional fields are
  included.
\<close>

datatype ('s, 'v) field = Required string "('s, 'v) state" | Optional string "('s, 'v) state"

fun field_key :: "('s, 'v) field \<Rightarrow> string" where
  "field_key (Required k m) = k"
| "field_key (Optional k m) = k"

fun field_value :: "('s, 'v) field \<Rightarrow> ('s, 'v) state" where
  "field_value (Required k m) = m"
| "field_value (Optional k m) = m"

fun is_optional :: "('s, 'v) field \<Rightarrow> bool" where
  "is_optional (Required k m) = False"
| "is_optional (Optional k m) = True"

fun field_entries :: "'s faker \<Rightarrow> 's options option \<Rightarrow> ('s, data) field \<Rightarrow> ('s, (string \<times> data) list) state" where
  "field_entries f opts (Required k m) = do { v \<leftarrow> m; State_Monad.return [(k, v)] }"
| "field_entries f opts (Optional k m) =
     do { b \<leftarrow> resolveCondition (include_condition opts) f;
          if b then do { v \<leftarrow> m; State_Monad.return [(k, v)] } else State_Monad.return [] }"

definition object_of :: "'s faker \<Rightarrow> 's options option \<Rightarrow> ('s, data) field list \<Rightarrow> ('s, data) state" where
  "object_of f opts fs =
     do { es \<leftarrow> State_Monad.traverse_list (field_entries f opts) fs;
          State_Monad.return (VObject (fold (\<lambda>e acc. spread acc e) es [])) }"

text \<open>\<open>!include ? {} : {additionalProp: m}\<close>\<close>

definition record_of :: "'s faker \<Rightarrow> 's options option \<Rightarrow> ('s, data) state \<Rightarrow> ('s, data) state" where
  "record_of f opts m =
     do { b \<leftarrow> resolveCondition (include_condition opts) f;
          if b then do { v \<leftarrow> m; State_Monad.return (VObject [(''additionalProp'', v)]) }
          else State_Monad.return (VObject []) }"

section \<open>The factories\<close>

definition fakeBodyLoginApiV1AuthLoginPost :: "'s faker \<Rightarrow> 's options option \<Rightarrow> ('s, data) state" where
  "fakeBodyLoginApiV1AuthLoginPost faker opts =
     (let f = the_faker faker opts in
      object_of f opts [
        Optional ''grant_type'' (nullable f (text_of (helpers_fromRegExp f ''^password$''))),
        Required ''username'' (text_of (internet_username f)),
        Required ''password'' (text_of (internet_password f)),
        Optional ''scope'' (default_or f opts (VStr '''') (text_of (string_sample f))),
        Optional ''client_id'' (nullable f (text_of (string_sample f))),
        Optional ''client_secret'' (nullable f (text_of (string_sample f)))])"

definition fakeCancelStatus :: "'s faker \<Rightarrow> 's options option \<Rightarrow> ('s, data) state" where
  "fakeCancelStatus faker opts =
     (let f = the_faker faker opts in
      element_of f [
        const (VStr ''already_cancelled''),
        const (VStr ''cancellation_requested'')])"

definition fakeCancelResponse :: "'s faker \<Rightarrow> 's options option \<Rightarrow> ('s, data) state" where
  "fakeCancelResponse faker opts =
     (let f = the_faker faker opts in
      object_of f opts [
        Required ''execution_id'' (text_of (string_sample f)),
        Required ''status'' (fakeCancelStatus faker opts),
        Required ''message'' (text_of (string_sample f)),
        Required ''event_id'' (nullable f (text_of (string_sample f)))])"

definition fakeContainerStatusInfo :: "'s faker \<Rightarrow> 's options option \<Rightarrow> ('s, data) state" where
  "fakeContainerStatusInfo faker opts =
     (let f = the_faker faker opts in
      object_of f opts [
        Required ''name'' (text_of (string_sample f)),
        Optional ''ready'' (default_or f opts (VBool False) (bool_of (datatype_boolean f None))),
        Optional ''restart_count'' (default_or f opts (VNum 0) (number_of (number_int f []))),
        Optional ''state'' (default_or f opts (VStr ''unknown'') (text_of (location_state f)))])"

definition fakeDeleteNotificationResponse :: "'s faker \<Rightarrow> 's options option \<Rightarrow> ('s, data) state" where
  "fakeDeleteNotificationResponse faker opts =
     (let f = the_faker faker opts in
      object_of f opts [
        Required ''message'' (text_of (string_sample f))])"

definition fakeDeleteResponse :: "'s faker \<Rightarrow> 's options option \<Rightarrow> ('s, data) state" where
  "fakeDeleteResponse faker opts =
     (let f = the_faker faker opts in
      object_of f opts [
        Required ''message'' (text_of (string_sample f)),
        Required ''execution_id'' (text_of (string_sample f))])"

definition fakeDeleteUserResponse :: "'s faker \<Rightarrow> 's options option \<Rightarrow> ('s, data) state" where
  "fakeDeleteUserResponse faker opts =
     (let f = the_faker faker opts in
      object_of f opts [
        Required ''user_deleted'' (bool_of (datatype_boolean f None)),
        Required ''executions'' (default_or f opts (VNum 0) (number_of (number_int f []))),
        Required ''saved_scripts'' (default_or f opts (VNum 0) (number_of (number_int f []))),
        Required ''notifications'' (default_or f opts (VNum 0) (number_of (number_int f []))),
        Required ''user_settings'' (default_or f opts (VNum 0) (number_of (number_int f []))),
        Required ''events'' (default_or f opts (VNum 0) (number_of (number_int f [])))])"

definition fakeDerivedCounts :: "'s faker \<Rightarrow> 's options option \<Rightarrow> ('s, data) state" where
  "fakeDerivedCounts faker opts =
     (let f = the_faker faker opts in
      object_of f opts [
        Required ''succeeded'' (default_or f opts (VNum 0) (number_of (number_int f []))),
        Required ''failed'' (default_or f opts (VNum 0) (number_of (number_int f []))),
        Required ''timeout'' (default_or f opts (VNum 0) (number_of (number_int f []))),
        Required ''cancelled'' (default_or f opts (VNum 0) (number_of (number_int f []))),
        Required ''terminal_total'' (default_or f opts (VNum 0) (number_of (number_int f [])))])"

definition fakeEditorSettingsInput :: "'s faker \<Rightarrow> 's options option \<Rightarrow> ('s, data) state" where
  "fakeEditorSettingsInput faker opts =
     (let f = the_faker faker opts in
      object_of f opts [
        Optional ''font_size'' (default_or f opts (VNum 14) (number_of (number_int f [(''min'', 8), (''max'', 32)]))),
        Optional ''tab_size'' (default_or f opts (VNum 4) (element_of f [const (VNum 2), const (VNum 4), const (VNum 8)])),
        Optional ''use_tabs'' (default_or f opts (VBool False) (bool_of (datatype_boolean f None))),
        Optional ''word_wrap'' (default_or f opts (VBool True) (bool_of (datatype_boolean f None))),
        Optional ''show_line_numbers'' (default_or f opts (VBool True) (bool_of (datatype_boolean f None)))])"

definition fakeEditorSettingsOutput :: "'s faker \<Rightarrow> 's options option \<Rightarrow> ('s, data) state" where
  "fakeEditorSettingsOutput faker opts =
     (let f = the_faker faker opts in
      object_of f opts [
        Required ''font_size'' (default_or f opts (VNum 14) (number_of (number_int f [(''min'', 8), (''max'', 32)]))),
        Required ''tab_size'' (default_or f opts (VNum 4) (element_of f [const (VNum 2), const (VNum 4), const (VNum 8)])),
        Required ''use_tabs'' (default_or f opts (VBool False) (bool_of (datatype_boolean f None))),
        Required ''word_wrap'' (default_or f opts (VBool True) (bool_of (datatype_boolean f None))),
        Required ''show_line_numbers'' (default_or f opts (VBool True) (bool_of (datatype_boolean f None)))])"

definition fakeEndpointGroup :: "'s faker \<Rightarrow> 's options option \<Rightarrow> ('s, data) state" where
  "fakeEndpointGroup faker opts =
     (let f = the_faker faker opts in
      element_of f [
        const (VStr ''execution''),
        const (VStr ''admin''),
        const (VStr ''sse''),
        const (VStr ''websocket''),
        const (VStr ''auth''),
        const (VStr ''public''),
        const (VStr ''api'')])"

definition fakeEnvironment :: "'s faker \<Rightarrow> 's options option \<Rightarrow> ('s, data) state" where
  "fakeEnvironment faker opts =
     (let f = the_faker faker opts in
      element_of f [
        const (VStr ''development''),
        const (VStr ''staging''),
        const (VStr ''production''),
        const (VStr ''test'')])"

definition fakeErrorResponse :: "'s faker \<Rightarrow> 's options option \<Rightarrow> ('s, data) state" where
  "fakeErrorResponse faker opts =
     (let f = the_faker faker opts in
      object_of f opts [
        Required ''status'' (number_of (number_int f [])),
        Required ''detail'' (text_of (string_sample f))])"

definition fakeEventDeleteResponse :: "'s faker \<Rightarrow> 's options option \<Rightarrow> ('s, data) state" where
  "fakeEventDeleteResponse faker opts =
     (let f = the_faker faker opts in
      object_of f opts [
        Required ''message'' (text_of (string_sample f)),
        Required ''event_id'' (text_of (string_sample f))])"

definition fakeEventMetadata :: "'s faker \<Rightarrow> 's options option \<Rightarrow> ('s, data) state" where
  "fakeEventMetadata faker opts =
     (let f = the_faker faker opts in
      object_of f opts [
        Required ''service_name'' (text_of (string_sample f)),
        Required ''service_version'' (text_of (string_sample f)),
        Required ''user_id'' (text_of (string_sample f)),
        Optional ''environment'' (fakeEnvironment faker opts)])"

definition fakeAuthFailedEvent :: "'s faker \<Rightarrow> 's options option \<Rightarrow> ('s, data) state" where
  "fakeAuthFailedEvent faker opts =
     (let f = the_faker faker opts in
      object_of f opts [
        Required ''event_id'' (text_of (string_sample f)),
        Required ''event_type'' (const (VStr ''auth_failed'')),
        Required ''event_version'' (default_or f opts (VStr ''1.0'') (text_of (string_sample f))),
        Required ''timestamp'' (text_of (date_recent f)),
        Optional ''aggregate_id'' (nullable f (text_of (string_sample f))),
        Required ''metadata'' (fakeEventMetadata faker opts),
        Optional ''username'' (nullable f (text_of (internet_username f))),
        Optional ''reason'' (text_of (string_sample f)),
        Optional ''ip_address'' (nullable f (text_of (internet_ip f)))])"

definition fakeEventReplayRequest :: "'s faker \<Rightarrow> 's options option \<Rightarrow> ('s, data) state" where
  "fakeEventReplayRequest faker opts =
     (let f = the_faker faker opts in
      object_of f opts [
        Optional ''event_ids'' (nullable f (multiple_of f (text_of (string_sample f)))),
        Optional ''aggregate_id'' (nullable f (text_of (string_sample f))),
        Optional ''start_time'' (nullable f (text_of (date_recent f))),
        Optional ''end_time'' (nullable f (text_of (date_recent f))),
        Optional ''dry_run'' (default_or f opts (VBool True) (bool_of (datatype_boolean f None)))])"

definition fakeEventType :: "'s faker \<Rightarrow> 's options option \<Rightarrow> ('s, data) state" where
  "fakeEventType faker opts =
     (let f = the_faker faker opts in
      element_of f [
        const (VStr ''execution_requested''),
        const (VStr ''execution_accepted''),
        const (VStr ''execution_queued''),
        const (VStr ''execution_started''),
        const (VStr ''execution_running''),
        const (VStr ''execution_completed''),
        const (VStr ''execution_failed''),
        const (VStr ''execution_timeout''),
        const (VStr ''execution_cancelled''),
        const (VStr ''pod_created''),
        const (VStr ''pod_scheduled''),
        const (VStr ''pod_running''),
        const (VStr ''pod_succeeded''),
        const (VStr ''pod_failed''),
        const (VStr ''pod_terminated''),
        const (VStr ''pod_deleted''),
        const (VStr ''user_registered''),
        const (VStr ''user_login''),
        const (VStr ''user_logged_in''),
        const (VStr ''user_logged_out''),
        const (VStr ''user_updated''),
        const (VStr ''user_deleted''),
        const (VStr ''user_settings_updated''),
        const (VStr ''notification_created''),
        const (VStr ''notification_sent''),
        const (VStr ''notification_delivered''),
        const (VStr ''notification_failed''),
        const (VStr ''notification_read''),
        const (VStr ''notification_all_read''),
        const (VStr ''notification_clicked''),
        const (VStr ''notification_preferences_updated''),
        const (VStr ''script_saved''),
        const (VStr ''script_deleted''),
        const (VStr ''script_shared''),
        const (VStr ''security_violation''),
        const (VStr ''rate_limit_exceeded''),
        const (VStr ''auth_failed''),
        const (VStr ''resource_limit_exceeded''),
        const (VStr ''quota_exceeded''),
        const (VStr ''system_error''),
        const (VStr ''service_unhealthy''),
        const (VStr ''service_recovered''),
        const (VStr ''result_stored''),
        const (VStr ''result_failed''),
        const (VStr ''dlq_message_received''),
        const (VStr ''dlq_message_retried''),
        const (VStr ''dlq_message_discarded'')])"

definition fakeDlqMessageDiscardedEvent :: "'s faker \<Rightarrow> 's options option \<Rightarrow> ('s, data) state" where
  "fakeDlqMessageDiscardedEvent faker opts =
     (let f = the_faker faker opts in
      object_of f opts [
        Required ''event_id'' (text_of (string_sample f)),
        Required ''event_type'' (const (VStr ''dlq_message_discarded'')),
        Required ''event_version'' (default_or f opts (VStr ''1.0'') (text_of (string_sample f))),
        Required ''timestamp'' (text_of (date_recent f)),
        Optional ''aggregate_id'' (nullable f (text_of (string_sample f))),
        Required ''metadata'' (fakeEventMetadata faker opts),
        Optional ''dlq_event_id'' (text_of (string_sample f)),
        Optional ''original_topic'' (text_of (string_sample f)),
        Optional ''original_event_type'' (fakeEventType faker opts),
        Optional ''reason'' (text_of (string_sample f)),
        Optional ''retry_count'' (number_of (number_int f []))])"

definition fakeDlqMessageReceivedEvent :: "'s faker \<Rightarrow> 's options option \<Rightarrow> ('s, data) state" where
  "fakeDlqMessageReceivedEvent faker opts =
     (let f = the_faker faker opts in
      object_of f opts [
        Required ''event_id'' (text_of (string_sample f)),
        Required ''event_type'' (const (VStr ''dlq_message_received'')),
        Required ''event_version'' (default_or f opts (VStr ''1.0'') (text_of (string_sample f))),
        Required ''timestamp'' (text_of (date_recent f)),
        Optional ''aggregate_id'' (nullable f (text_of (string_sample f))),
        Required ''metadata'' (fakeEventMetadata faker opts),
        Optional ''dlq_event_id'' (text_of (string_sample f)),
        Optional ''original_topic'' (text_of (string_sample f)),
        Optional ''original_event_type'' (fakeEventType faker opts),
        Optional ''error'' (text_of (string_sample f)),
        Optional ''retry_count'' (number_of (number_int f [])),
        Optional ''producer_id'' (text_of (string_sample f)),
        Optional ''failed_at'' (text_of (date_recent f))])"

definition fakeDlqMessageRetriedEvent :: "'s faker \<Rightarrow> 's options option \<Rightarrow> ('s, data) state" where
  "fakeDlqMessageRetriedEvent faker opts =
     (let f = the_faker faker opts in
      object_of f opts [
        Required ''event_id'' (text_of (string_sample f)),
        Required ''event_type'' (const (VStr ''dlq_message_retried'')),
        Required ''event_version'' (default_or f opts (VStr ''1.0'') (text_of (string_sample f))),
        Required ''timestamp'' (text_of (date_recent f)),
        Optional ''aggregate_id'' (nullable f (text_of (string_sample f))),
        Required ''metadata'' (fakeEventMetadata faker opts),
        Optional ''dlq_event_id'' (text_of (string_sample f)),
        Optional ''original_topic'' (text_of (string_sample f)),
        Optional ''original_event_type'' (fakeEventType faker opts),
        Optional ''retry_count'' (number_of (number_int f [])),
        Optional ''retry_topic'' (text_of (string_sample f))])"

definition fakeEventFilter :: "'s faker \<Rightarrow> 's options option \<Rightarrow> ('s, data) state" where
  "fakeEventFilter faker opts =
     (let f = the_faker faker opts in
      object_of f opts [
        Optional ''event_types'' (nullable f (multiple_of f (fakeEventType faker opts))),
        Optional ''aggregate_id'' (nullable f (text_of (string_sample f))),
        Optional ''user_id'' (nullable f (text_of (string_sample f))),
        Optional ''start_time'' (nullable f (text_of (date_recent f))),
        Optional ''end_time'' (nullable f (text_of (date_recent f))),
        Optional ''service_name'' (nullable f (text_of (string_sample f))),
        Optional ''search_text'' (nullable f (text_of (string_sample f)))])"

definition fakeEventBrowseRequest :: "'s faker \<Rightarrow> 's options option \<Rightarrow> ('s, data) state" where
  "fakeEventBrowseRequest faker opts =
     (let f = the_faker faker opts in
      object_of f opts [
        Required ''filters'' (fakeEventFilter faker opts),
        Optional ''skip'' (default_or f opts (VNum 0) (number_of (number_int f []))),
        Optional ''limit'' (default_or f opts (VNum 50) (number_of (number_int f [(''max'', 500)])))])"

definition fakeEventSummary :: "'s faker \<Rightarrow> 's options option \<Rightarrow> ('s, data) state" where
  "fakeEventSummary faker opts =
     (let f = the_faker faker opts in
      object_of f opts [
        Required ''event_id'' (text_of (string_sample f)),
        Required ''event_type'' (fakeEventType faker opts),
        Required ''timestamp'' (text_of (date_recent f)),
        Optional ''aggregate_id'' (nullable f (text_of (string_sample f)))])"

definition fakeEventTypeCount :: "'s faker \<Rightarrow> 's options option \<Rightarrow> ('s, data) state" where
  "fakeEventTypeCount faker opts =
     (let f = the_faker faker opts in
      object_of f opts [
        Required ''event_type'' (fakeEventType faker opts),
        Required ''count'' (number_of (number_int f [(''max'', 1000), (''min'', 0)]))])"

definition fakeExampleScripts :: "'s faker \<Rightarrow> 's options option \<Rightarrow> ('s, data) state" where
  "fakeExampleScripts faker opts =
     (let f = the_faker faker opts in
      object_of f opts [
        Required ''scripts'' (record_of f opts (text_of (string_sample f)))])"

definition fakeExecutionCancelledEvent :: "'s faker \<Rightarrow> 's options option \<Rightarrow> ('s, data) state" where
  "fakeExecutionCancelledEvent faker opts =
     (let f = the_faker faker opts in
      object_of f opts [
        Required ''event_id'' (text_of (string_sample f)),
        Required ''event_type'' (const (VStr ''execution_cancelled'')),
        Required ''event_version'' (default_or f opts (VStr ''1.0'') (text_of (string_sample f))),
        Required ''timestamp'' (text_of (date_recent f)),
        Optional ''aggregate_id'' (nullable f (text_of (string_sample f))),
        Required ''metadata'' (fakeEventMetadata faker opts),
        Optional ''execution_id'' (text_of (string_sample f)),
        Optional ''cancelled_by'' (text_of (string_sample f)),
        Optional ''force_terminated'' (default_or f opts (VBool False) (bool_of (datatype_boolean f None)))])"

definition fakeExecutionErrorType :: "'s faker \<Rightarrow> 's options option \<Rightarrow> ('s, data) state" where
  "fakeExecutionErrorType faker opts =
     (let f = the_faker faker opts in
      element_of f [
        const (VStr ''system_error''),
        const (VStr ''timeout''),
        const (VStr ''resource_limit''),
        const (VStr ''script_error''),
        const (VStr ''permission_denied'')])"

definition fakeExecutionQueuedEvent :: "'s faker \<Rightarrow> 's options option \<Rightarrow> ('s, data) state" where
  "fakeExecutionQueuedEvent faker opts =
     (let f = the_faker faker opts in
      object_of f opts [
        Required ''event_id'' (text_of (string_sample f)),
        Required ''event_type'' (const (VStr ''execution_queued'')),
        Required ''event_version'' (default_or f opts (VStr ''1.0'') (text_of (string_sample f))),
        Required ''timestamp'' (text_of (date_recent f)),
        Optional ''aggregate_id'' (nullable f (text_of (string_sample f))),
        Required ''metadata'' (fakeEventMetadata faker opts),
        Optional ''execution_id'' (text_of (string_sample f)),
        Optional ''position_in_queue'' (nullable f (number_of (number_int f []))),
        Optional ''estimated_start_time'' (nullable f (text_of (date_recent f)))])"

definition fakeExecutionRequest :: "'s faker \<Rightarrow> 's options option \<Rightarrow> ('s, data) state" where
  "fakeExecutionRequest faker opts =
     (let f = the_faker faker opts in
      object_of f opts [
        Required ''script'' (text_of (string_alpha f (Some (0, 50000)))),
        Optional ''lang'' (default_or f opts (VStr ''python'') (text_of (string_sample f))),
        Optional ''lang_version'' (default_or f opts (VStr ''3.14'') (text_of (string_sample f)))])"

definition fakeExecutionRunningEvent :: "'s faker \<Rightarrow> 's options option \<Rightarrow> ('s, data) state" where
  "fakeExecutionRunningEvent faker opts =
     (let f = the_faker faker opts in
      object_of f opts [
        Required ''event_id'' (text_of (string_sample f)),
        Required ''event_type'' (const (VStr ''execution_running'')),
        Required ''event_version'' (default_or f opts (VStr ''1.0'') (text_of (string_sample f))),
        Required ''timestamp'' (text_of (date_recent f)),
        Optional ''aggregate_id'' (nullable f (text_of (string_sample f))),
        Required ''metadata'' (fakeEventMetadata faker opts),
        Optional ''execution_id'' (text_of (string_sample f)),
        Optional ''pod_name'' (text_of (string_sample f)),
        Optional ''progress_percentage'' (nullable f (number_of (number_int f [])))])"

definition fakeExecutionStartedEvent :: "'s faker \<Rightarrow> 's options option \<Rightarrow> ('s, data) state" where
  "fakeExecutionStartedEvent faker opts =
     (let f = the_faker faker opts in
      object_of f opts [
        Required ''event_id'' (text_of (string_sample f)),
        Required ''event_type'' (const (VStr ''execution_started'')),
        Required ''event_version'' (default_or f opts (VStr ''1.0'') (text_of (string_sample f))),
        Required ''timestamp'' (text_of (date_recent f)),
        Optional ''aggregate_id'' (nullable f (text_of (string_sample f))),
        Required ''metadata'' (fakeEventMetadata faker opts),
        Optional ''execution_id'' (text_of (string_sample f)),
        Optional ''pod_name'' (text_of (string_sample f)),
        Optional ''node_name'' (nullable f (text_of (string_sample f))),
        Optional ''container_id'' (nullable f (text_of (string_sample f)))])"

definition fakeExecutionStatus :: "'s faker \<Rightarrow> 's options option \<Rightarrow> ('s, data) state" where
  "fakeExecutionStatus faker opts =
     (let f = the_faker faker opts in
      element_of f [
        const (VStr ''queued''),
        const (VStr ''scheduled''),
        const (VStr ''running''),
        const (VStr ''completed''),
        const (VStr ''failed''),
        const (VStr ''timeout''),
        const (VStr ''cancelled''),
        const (VStr ''error'')])"

definition fakeExecutionResponse :: "'s faker \<Rightarrow> 's options option \<Rightarrow> ('s, data) state" where
  "fakeExecutionResponse faker opts =
     (let f = the_faker faker opts in
      object_of f opts [
        Required ''execution_id'' (text_of (string_sample f)),
        Required ''status'' (fakeExecutionStatus faker opts)])"

definition fakeExportFormat :: "'s faker \<Rightarrow> 's options option \<Rightarrow> ('s, data) state" where
  "fakeExportFormat faker opts =
     (let f = the_faker faker opts in
      element_of f [const (VStr ''csv''), const (VStr ''json'')])"

definition fakeHourlyEventCount :: "'s faker \<Rightarrow> 's options option \<Rightarrow> ('s, data) state" where
  "fakeHourlyEventCount faker opts =
     (let f = the_faker faker opts in
      object_of f opts [
        Required ''hour'' (text_of (string_sample f)),
        Required ''count'' (number_of (number_int f [(''max'', 1000), (''min'', 0)]))])"

definition fakeLanguageInfo :: "'s faker \<Rightarrow> 's options option \<Rightarrow> ('s, data) state" where
  "fakeLanguageInfo faker opts =
     (let f = the_faker faker opts in
      object_of f opts [
        Required ''versions'' (multiple_of f (text_of (string_sample f))),
        Required ''file_ext'' (text_of (string_sample f))])"

definition fakeLanguageLimits :: "'s faker \<Rightarrow> 's options option \<Rightarrow> ('s, data) state" where
  "fakeLanguageLimits faker opts =
     (let f = the_faker faker opts in
      object_of f opts [
        Required ''cpu_limit'' (text_of (string_sample f)),
        Required ''memory_limit'' (text_of (string_sample f)),
        Required ''execution_timeout'' (number_of (number_int f []))])"

definition fakeLivenessResponse :: "'s faker \<Rightarrow> 's options option \<Rightarrow> ('s, data) state" where
  "fakeLivenessResponse faker opts =
     (let f = the_faker faker opts in
      object_of f opts [
        Required ''status'' (text_of (string_sample f)),
        Required ''uptime_seconds'' (number_of (number_int f [])),
        Required ''timestamp'' (text_of (date_recent f))])"

definition fakeLoginMethod :: "'s faker \<Rightarrow> 's options option \<Rightarrow> ('s, data) state" where
  "fakeLoginMethod faker opts =
     (let f = the_faker faker opts in
      element_of f [
        const (VStr ''password''),
        const (VStr ''oauth''),
        const (VStr ''sso''),
        const (VStr ''api_key'')])"

definition fakeMessageResponse :: "'s faker \<Rightarrow> 's options option \<Rightarrow> ('s, data) state" where
  "fakeMessageResponse faker opts =
     (let f = the_faker faker opts in
      object_of f opts [
        Required ''message'' (text_of (string_sample f))])"

definition fakeNotificationAllReadEvent :: "'s faker \<Rightarrow> 's options option \<Rightarrow> ('s, data) state" where
  "fakeNotificationAllReadEvent faker opts =
     (let f = the_faker faker opts in
      object_of f opts [
        Required ''event_id'' (text_of (string_sample f)),
        Required ''event_type'' (const (VStr ''notification_all_read'')),
        Required ''event_version'' (default_or f opts (VStr ''1.0'') (text_of (string_sample f))),
        Required ''timestamp'' (text_of (date_recent f)),
        Optional ''aggregate_id'' (nullable f (text_of (string_sample f))),
        Required ''metadata'' (fakeEventMetadata faker opts),
        Optional ''user_id'' (text_of (string_sample f)),
        Optional ''count'' (number_of (number_int f [(''max'', 1000), (''min'', 0)])),
        Optional ''read_at'' (text_of (date_recent f))])"

definition fakeNotificationClickedEvent :: "'s faker \<Rightarrow> 's options option \<Rightarrow> ('s, data) state" where
  "fakeNotificationClickedEvent faker opts =
     (let f = the_faker faker opts in
      object_of f opts [
        Required ''event_id'' (text_of (string_sample f)),
        Required ''event_type'' (const (VStr ''notification_clicked'')),
        Required ''event_version'' (default_or f opts (VStr ''1.0'') (text_of (string_sample f))),
        Required ''timestamp'' (text_of (date_recent f)),
        Optional ''aggregate_id'' (nullable f (text_of (string_sample f))),
        Required ''metadata'' (fakeEventMetadata faker opts),
        Optional ''notification_id'' (text_of (string_sample f)),
        Optional ''user_id'' (text_of (string_sample f)),
        Optional ''clicked_at'' (text_of (date_recent f)),
        Optional ''action'' (nullable f (text_of (string_sample f)))])"

definition fakeNotificationDeliveredEvent :: "'s faker \<Rightarrow> 's options option \<Rightarrow> ('s, data) state" where
  "fakeNotificationDeliveredEvent faker opts =
     (let f = the_faker faker opts in
      object_of f opts [
        Required ''event_id'' (text_of (string_sample f)),
        Required ''event_type'' (const (VStr ''notification_delivered'')),
        Required ''event_version'' (default_or f opts (VStr ''1.0'') (text_of (string_sample f))),
        Required ''timestamp'' (text_of (date_recent f)),
        Optional ''aggregate_id'' (nullable f (text_of (string_sample f))),
        Required ''metadata'' (fakeEventMetadata faker opts),
        Optional ''notification_id'' (text_of (string_sample f)),
        Optional ''user_id'' (text_of (string_sample f)),
        Optional ''delivered_at'' (text_of (date_recent f))])"

definition fakeNotificationFailedEvent :: "'s faker \<Rightarrow> 's options option \<Rightarrow> ('s, data) state" where
  "fakeNotificationFailedEvent faker opts =
     (let f = the_faker faker opts in
      object_of f opts [
        Required ''event_id'' (text_of (string_sample f)),
        Required ''event_type'' (const (VStr ''notification_failed'')),
        Required ''event_version'' (default_or f opts (VStr ''1.0'') (text_of (string_sample f))),
        Required ''timestamp'' (text_of (date_recent f)),
        Optional ''aggregate_id'' (nullable f (text_of (string_sample f))),
        Required ''metadata'' (fakeEventMetadata faker opts),
        Optional ''notification_id'' (text_of (string_sample f)),
        Optional ''user_id'' (text_of (string_sample f)),
        Optional ''error'' (text_of (string_sample f)),
        Optional ''retry_count'' (default_or f opts (VNum 0) (number_of (number_int f [])))])"

definition fakeNotificationPreferencesUpdatedEvent :: "'s faker \<Rightarrow> 's options option \<Rightarrow> ('s, data) state" where
  "fakeNotificationPreferencesUpdatedEvent faker opts =
     (let f = the_faker faker opts in
      object_of f opts [
        Required ''event_id'' (text_of (string_sample f)),
        Required ''event_type'' (const (VStr ''notification_preferences_updated'')),
        Required ''event_version'' (default_or f opts (VStr ''1.0'') (text_of (string_sample f))),
        Required ''timestamp'' (text_of (date_recent f)),
        Optional ''aggregate_id'' (nullable f (text_of (string_sample f))),
        Required ''metadata'' (fakeEventMetadata faker opts),
        Optional ''user_id'' (text_of (string_sample f)),
        Optional ''changed_fields'' (multiple_of f (text_of (string_sample f)))])"

definition fakeNotificationReadEvent :: "'s faker \<Rightarrow> 's options option \<Rightarrow> ('s, data) state" where
  "fakeNotificationReadEvent faker opts =
     (let f = the_faker faker opts in
      object_of f opts [
        Required ''event_id'' (text_of (string_sample f)),
        Required ''event_type'' (const (VStr ''notification_read'')),
        Required ''event_version'' (default_or f opts (VStr ''1.0'') (text_of (string_sample f))),
        Required ''timestamp'' (text_of (date_recent f)),
        Optional ''aggregate_id'' (nullable f (text_of (string_sample f))),
        Required ''metadata'' (fakeEventMetadata faker opts),
        Optional ''notification_id'' (text_of (string_sample f)),
        Optional ''user_id'' (text_of (string_sample f)),
        Optional ''read_at'' (text_of (date_recent f))])"

definition fakeNotificationSentEvent :: "'s faker \<Rightarrow> 's options option \<Rightarrow> ('s, data) state" where
  "fakeNotificationSentEvent faker opts =
     (let f = the_faker faker opts in
      object_of f opts [
        Required ''event_id'' (text_of (string_sample f)),
        Required ''event_type'' (const (VStr ''notification_sent'')),
        Required ''event_version'' (default_or f opts (VStr ''1.0'') (text_of (string_sample f))),
        Required ''timestamp'' (text_of (date_recent f)),
        Optional ''aggregate_id'' (nullable f (text_of (string_sample f))),
        Required ''metadata'' (fakeEventMetadata faker opts),
        Optional ''notification_id'' (text_of (string_sample f)),
        Optional ''user_id'' (text_of (string_sample f)),
        Optional ''sent_at'' (text_of (date_recent f))])"

definition fakeNotificationSettingsInput :: "'s faker \<Rightarrow> 's options option \<Rightarrow> ('s, data) state" where
  "fakeNotificationSettingsInput faker opts =
     (let f = the_faker faker opts in
      object_of f opts [
        Optional ''execution_completed'' (default_or f opts (VBool True) (bool_of (datatype_boolean f None))),
        Optional ''execution_failed'' (default_or f opts (VBool True) (bool_of (datatype_boolean f None)))])"

definition fakeNotificationSettingsOutput :: "'s faker \<Rightarrow> 's options option \<Rightarrow> ('s, data) state" where
  "fakeNotificationSettingsOutput faker opts =
     (let f = the_faker faker opts in
      object_of f opts [
        Required ''execution_completed'' (default_or f opts (VBool True) (bool_of (datatype_boolean f None))),
        Required ''execution_failed'' (default_or f opts (VBool True) (bool_of (datatype_boolean f None)))])"

definition fakeNotificationSeverity :: "'s faker \<Rightarrow> 's options option \<Rightarrow> ('s, data) state" where
  "fakeNotificationSeverity faker opts =
     (let f = the_faker faker opts in
      element_of f [
        const (VStr ''low''),
        const (VStr ''medium''),
        const (VStr ''high''),
        const (VStr ''urgent'')])"

definition fakeNotificationCreatedEvent :: "'s faker \<Rightarrow> 's options option \<Rightarrow> ('s, data) state" where
  "fakeNotificationCreatedEvent faker opts =
     (let f = the_faker faker opts in
      object_of f opts [
        Required ''event_id'' (text_of (string_sample f)),
        Required ''event_type'' (const (VStr ''notification_created'')),
        Required ''event_version'' (default_or f opts (VStr ''1.0'') (text_of (string_sample f))),
        Required ''timestamp'' (text_of (date_recent f)),
        Optional ''aggregate_id'' (nullable f (text_of (string_sample f))),
        Required ''metadata'' (fakeEventMetadata faker opts),
        Optional ''notification_id'' (text_of (string_sample f)),
        Optional ''user_id'' (text_of (string_sample f)),
        Optional ''subject'' (text_of (string_sample f)),
        Optional ''body'' (text_of (string_sample f)),
        Optional ''severity'' (fakeNotificationSeverity faker opts),
        Optional ''tags'' (multiple_of f (text_of (string_sample f)))])"

definition fakeNotificationStatus :: "'s faker \<Rightarrow> 's options option \<Rightarrow> ('s, data) state" where
  "fakeNotificationStatus faker opts =
     (let f = the_faker faker opts in
      element_of f [
        const (VStr ''pending''),
        const (VStr ''queued''),
        const (VStr ''sending''),
        const (VStr ''delivered''),
        const (VStr ''failed''),
        const (VStr ''read''),
        const (VStr ''clicked'')])"

definition fakeNotificationResponse :: "'s faker \<Rightarrow> 's options option \<Rightarrow> ('s, data) state" where
  "fakeNotificationResponse faker opts =
     (let f = the_faker faker opts in
      object_of f opts [
        Required ''notification_id'' (text_of (string_sample f)),
        Required ''status'' (fakeNotificationStatus faker opts),
        Required ''subject'' (text_of (string_sample f)),
        Required ''body'' (text_of (string_sample f)),
        Required ''action_url'' (text_of (string_sample f)),
        Required ''created_at'' (text_of (date_recent f)),
        Required ''read_at'' (nullable f (text_of (date_recent f))),
        Required ''severity'' (fakeNotificationSeverity faker opts),
        Required ''tags'' (multiple_of f (text_of (string_sample f)))])"

definition fakeNotificationListResponse :: "'s faker \<Rightarrow> 's options option \<Rightarrow> ('s, data) state" where
  "fakeNotificationListResponse faker opts =
     (let f = the_faker faker opts in
      object_of f opts [
        Required ''notifications'' (multiple_of f (fakeNotificationResponse faker opts)),
        Required ''total'' (number_of (number_int f [])),
        Required ''unread_count'' (number_of (number_int f []))])"

definition fakePasswordResetRequest :: "'s faker \<Rightarrow> 's options option \<Rightarrow> ('s, data) state" where
  "fakePasswordResetRequest faker opts =
     (let f = the_faker faker opts in
      object_of f opts [
        Required ''new_password'' (text_of (string_alpha f (Some (8, 100))))])"

definition fakePodCreatedEvent :: "'s faker \<Rightarrow> 's options option \<Rightarrow> ('s, data) state" where
  "fakePodCreatedEvent faker opts =
     (let f = the_faker faker opts in
      object_of f opts [
        Required ''event_id'' (text_of (string_sample f)),
        Required ''event_type'' (const (VStr ''pod_created'')),
        Required ''event_version'' (default_or f opts (VStr ''1.0'') (text_of (string_sample f))),
        Required ''timestamp'' (text_of (date_recent f)),
        Optional ''aggregate_id'' (nullable f (text_of (string_sample f))),
        Required ''metadata'' (fakeEventMetadata faker opts),
        Optional ''execution_id'' (text_of (string_sample f)),
        Optional ''pod_name'' (text_of (string_sample f)),
        Optional ''namespace'' (default_or f opts (VStr ''default'') (text_of (string_sample f)))])"

definition fakePodDeletedEvent :: "'s faker \<Rightarrow> 's options option \<Rightarrow> ('s, data) state" where
  "fakePodDeletedEvent faker opts =
     (let f = the_faker faker opts in
      object_of f opts [
        Required ''event_id'' (text_of (string_sample f)),
        Required ''event_type'' (const (VStr ''pod_deleted'')),
        Required ''event_version'' (default_or f opts (VStr ''1.0'') (text_of (string_sample f))),
        Required ''timestamp'' (text_of (date_recent f)),
        Optional ''aggregate_id'' (nullable f (text_of (string_sample f))),
        Required ''metadata'' (fakeEventMetadata faker opts),
        Optional ''execution_id'' (text_of (string_sample f)),
        Optional ''pod_name'' (text_of (string_sample f)),
        Optional ''reason'' (nullable f (text_of (string_sample f)))])"

definition fakePodFailedEvent :: "'s faker \<Rightarrow> 's options option \<Rightarrow> ('s, data) state" where
  "fakePodFailedEvent faker opts =
     (let f = the_faker faker opts in
      object_of f opts [
        Required ''event_id'' (text_of (string_sample f)),
        Required ''event_type'' (const (VStr ''pod_failed'')),
        Required ''event_version'' (default_or f opts (VStr ''1.0'') (text_of (string_sample f))),
        Required ''timestamp'' (text_of (date_recent f)),
        Optional ''aggregate_id'' (nullable f (text_of (string_sample f))),
        Required ''metadata'' (fakeEventMetadata faker opts),
        Optional ''execution_id'' (text_of (string_sample f)),
        Optional ''pod_name'' (text_of (string_sample f)),
        Optional ''exit_code'' (default_or f opts (VNum 1) (number_of (number_int f []))),
        Optional ''reason'' (nullable f (text_of (string_sample f))),
        Optional ''message'' (nullable f (text_of (string_sample f))),
        Optional ''stdout'' (nullable f (text_of (string_sample f))),
        Optional ''stderr'' (nullable f (text_of (string_sample f)))])"

definition fakePodRunningEvent :: "'s faker \<Rightarrow> 's options option \<Rightarrow> ('s, data) state" where
  "fakePodRunningEvent faker opts =
     (let f = the_faker faker opts in
      object_of f opts [
        Required ''event_id'' (text_of (string_sample f)),
        Required ''event_type'' (const (VStr ''pod_running'')),
        Required ''event_version'' (default_or f opts (VStr ''1.0'') (text_of (string_sample f))),
        Required ''timestamp'' (text_of (date_recent f)),
        Optional ''aggregate_id'' (nullable f (text_of (string_sample f))),
        Required ''metadata'' (fakeEventMetadata faker opts),
        Optional ''execution_id'' (text_of (string_sample f)),
        Optional ''pod_name'' (text_of (string_sample f)),
        Optional ''container_statuses'' (multiple_of f (fakeContainerStatusInfo faker opts))])"

definition fakePodScheduledEvent :: "'s faker \<Rightarrow> 's options option \<Rightarrow> ('s, data) state" where
  "fakePodScheduledEvent faker opts =
     (let f = the_faker faker opts in
      object_of f opts [
        Required ''event_id'' (text_of (string_sample f)),
        Required ''event_type'' (const (VStr ''pod_scheduled'')),
        Required ''event_version'' (default_or f opts (VStr ''1.0'') (text_of (string_sample f))),
        Required ''timestamp'' (text_of (date_recent f)),
        Optional ''aggregate_id'' (nullable f (text_of (string_sample f))),
        Required ''metadata'' (fakeEventMetadata faker opts),
        Optional ''execution_id'' (text_of (string_sample f)),
        Optional ''pod_name'' (text_of (string_sample f)),
        Optional ''node_name'' (default_or f opts (VStr '''') (text_of (string_sample f)))])"

definition fakePodSucceededEvent :: "'s faker \<Rightarrow> 's options option \<Rightarrow> ('s, data) state" where
  "fakePodSucceededEvent faker opts =
     (let f = the_faker faker opts in
      object_of f opts [
        Required ''event_id'' (text_of (string_sample f)),
        Required ''event_type'' (const (VStr ''pod_succeeded'')),
        Required ''event_version'' (default_or f opts (VStr ''1.0'') (text_of (string_sample f))),
        Required ''timestamp'' (text_of (date_recent f)),
        Optional ''aggregate_id'' (nullable f (text_of (string_sample f))),
        Required ''metadata'' (fakeEventMetadata faker opts),
        Optional ''execution_id'' (text_of (string_sample f)),
        Optional ''pod_name'' (text_of (string_sample f)),
        Optional ''exit_code'' (default_or f opts (VNum 0) (number_of (number_int f []))),
        Optional ''stdout'' (nullable f (text_of (string_sample f))),
        Optional ''stderr'' (nullable f (text_of (string_sample f)))])"

definition fakePodTerminatedEvent :: "'s faker \<Rightarrow> 's options option \<Rightarrow> ('s, data) state" where
  "fakePodTerminatedEvent faker opts =
     (let f = the_faker faker opts in
      object_of f opts [
        Required ''event_id'' (text_of (string_sample f)),
        Required ''event_type'' (const (VStr ''pod_terminated'')),
        Required ''event_version'' (default_or f opts (VStr ''1.0'') (text_of (string_sample f))),
        Required ''timestamp'' (text_of (date_recent f)),
        Optional ''aggregate_id'' (nullable f (text_of (string_sample f))),
        Required ''metadata'' (fakeEventMetadata faker opts),
        Optional ''execution_id'' (text_of (string_sample f)),
        Optional ''pod_name'' (text_of (string_sample f)),
        Optional ''exit_code'' (default_or f opts (VNum 0) (number_of (number_int f []))),
        Optional ''reason'' (nullable f (text_of (string_sample f))),
        Optional ''message'' (nullable f (text_of (string_sample f)))])"

definition fakeQueuePriority :: "'s faker \<Rightarrow> 's options option \<Rightarrow> ('s, data) state" where
  "fakeQueuePriority faker opts =
     (let f = the_faker faker opts in
      element_of f [
        const (VStr ''critical''),
        const (VStr ''high''),
        const (VStr ''normal''),
        const (VStr ''low''),
        const (VStr ''background'')])"

definition fakeAdminExecutionResponse :: "'s faker \<Rightarrow> 's options option \<Rightarrow> ('s, data) state" where
  "fakeAdminExecutionResponse faker opts =
     (let f = the_faker faker opts in
      object_of f opts [
        Required ''execution_id'' (text_of (string_sample f)),
        Required ''script'' (text_of (string_sample f)),
        Required ''status'' (fakeExecutionStatus faker opts),
        Required ''lang'' (text_of (string_sample f)),
        Required ''lang_version'' (text_of (string_sample f)),
        Required ''stdout'' (nullable f (text_of (string_sample f))),
        Required ''stderr'' (nullable f (text_of (string_sample f))),
        Required ''exit_code'' (nullable f (number_of (number_int f []))),
        Required ''error_type'' (nullable f (fakeExecutionErrorType faker opts)),
        Required ''priority'' (fakeQueuePriority faker opts),
        Required ''user_id'' (nullable f (text_of (string_sample f))),
        Required ''created_at'' (text_of (date_recent f)),
        Required ''updated_at'' (text_of (date_recent f))])"

definition fakeAdminExecutionListResponse :: "'s faker \<Rightarrow> 's options option \<Rightarrow> ('s, data) state" where
  "fakeAdminExecutionListResponse faker opts =
     (let f = the_faker faker opts in
      object_of f opts [
        Required ''executions'' (multiple_of f (fakeAdminExecutionResponse faker opts)),
        Required ''total'' (number_of (number_int f [])),
        Required ''limit'' (number_of (number_int f [])),
        Required ''skip'' (number_of (number_int f [])),
        Required ''has_more'' (bool_of (datatype_boolean f None))])"

definition fakeExecutionAcceptedEvent :: "'s faker \<Rightarrow> 's options option \<Rightarrow> ('s, data) state" where
  "fakeExecutionAcceptedEvent faker opts =
     (let f = the_faker faker opts in
      object_of f opts [
        Required ''event_id'' (text_of (string_sample f)),
        Required ''event_type'' (const (VStr ''execution_accepted'')),
        Required ''event_version'' (default_or f opts (VStr ''1.0'') (text_of (string_sample f))),
        Required ''timestamp'' (text_of (date_recent f)),
        Optional ''aggregate_id'' (nullable f (text_of (string_sample f))),
        Required ''metadata'' (fakeEventMetadata faker opts),
        Optional ''execution_id'' (text_of (string_sample f)),
        Optional ''queue_position'' (number_of (number_int f [])),
        Optional ''estimated_wait_seconds'' (nullable f (number_of (number_float f []))),
        Optional ''priority'' (fakeQueuePriority faker opts)])"

definition fakeExecutionRequestedEvent :: "'s faker \<Rightarrow> 's options option \<Rightarrow> ('s, data) state" where
  "fakeExecutionRequestedEvent faker opts =
     (let f = the_faker faker opts in
      object_of f opts [
        Required ''event_id'' (text_of (string_sample f)),
        Required ''event_type'' (const (VStr ''execution_requested'')),
        Required ''event_version'' (default_or f opts (VStr ''1.0'') (text_of (string_sample f))),
        Required ''timestamp'' (text_of (date_recent f)),
        Optional ''aggregate_id'' (nullable f (text_of (string_sample f))),
        Required ''metadata'' (fakeEventMetadata faker opts),
        Optional ''execution_id'' (text_of (string_sample f)),
        Optional ''script'' (text_of (string_sample f)),
        Optional ''language'' (text_of (string_sample f)),
        Optional ''language_version'' (text_of (string_sample f)),
        Optional ''runtime_image'' (text_of (string_sample f)),
        Optional ''runtime_command'' (multiple_of f (text_of (string_sample f))),
        Optional ''runtime_filename'' (text_of (string_sample f)),
        Optional ''timeout_seconds'' (number_of (number_int f [])),
        Optional ''cpu_limit'' (text_of (string_sample f)),
        Optional ''memory_limit'' (text_of (string_sample f)),
        Optional ''cpu_request'' (text_of (string_sample f)),
        Optional ''memory_request'' (text_of (string_sample f)),
        Optional ''priority'' (fakeQueuePriority faker opts)])"

definition fakePriorityUpdateRequest :: "'s faker \<Rightarrow> 's options option \<Rightarrow> ('s, data) state" where
  "fakePriorityUpdateRequest faker opts =
     (let f = the_faker faker opts in
      object_of f opts [
        Required ''priority'' (fakeQueuePriority faker opts)])"

definition fakeQueueStatusResponse :: "'s faker \<Rightarrow> 's options option \<Rightarrow> ('s, data) state" where
  "fakeQueueStatusResponse faker opts =
     (let f = the_faker faker opts in
      object_of f opts [
        Required ''queue_depth'' (number_of (number_int f [])),
        Required ''active_count'' (number_of (number_int f [])),
        Required ''max_concurrent'' (number_of (number_int f [])),
        Required ''by_priority'' (record_of f opts (number_of (number_int f [])))])"

definition fakeQuotaExceededEvent :: "'s faker \<Rightarrow> 's options option \<Rightarrow> ('s, data) state" where
  "fakeQuotaExceededEvent faker opts =
     (let f = the_faker faker opts in
      object_of f opts [
        Required ''event_id'' (text_of (string_sample f)),
        Required ''event_type'' (const (VStr ''quota_exceeded'')),
        Required ''event_version'' (default_or f opts (VStr ''1.0'') (text_of (string_sample f))),
        Required ''timestamp'' (text_of (date_recent f)),
        Optional ''aggregate_id'' (nullable f (text_of (string_sample f))),
        Required ''metadata'' (fakeEventMetadata faker opts),
        Optional ''quota_type'' (text_of (string_sample f)),
        Optional ''limit'' (number_of (number_int f [])),
        Optional ''current_usage'' (number_of (number_int f [])),
        Optional ''user_id'' (text_of (string_sample f))])"

definition fakeRateLimitAlgorithm :: "'s faker \<Rightarrow> 's options option \<Rightarrow> ('s, data) state" where
  "fakeRateLimitAlgorithm faker opts =
     (let f = the_faker faker opts in
      element_of f [
        const (VStr ''sliding_window''),
        const (VStr ''token_bucket''),
        const (VStr ''fixed_window''),
        const (VStr ''leaky_bucket'')])"

definition fakeEndpointUsageStats :: "'s faker \<Rightarrow> 's options option \<Rightarrow> ('s, data) state" where
  "fakeEndpointUsageStats faker opts =
     (let f = the_faker faker opts in
      object_of f opts [
        Required ''algorithm'' (fakeRateLimitAlgorithm faker opts),
        Required ''remaining'' (number_of (number_int f []))])"

definition fakeRateLimitExceededEvent :: "'s faker \<Rightarrow> 's options option \<Rightarrow> ('s, data) state" where
  "fakeRateLimitExceededEvent faker opts =
     (let f = the_faker faker opts in
      object_of f opts [
        Required ''event_id'' (text_of (string_sample f)),
        Required ''event_type'' (const (VStr ''rate_limit_exceeded'')),
        Required ''event_version'' (default_or f opts (VStr ''1.0'') (text_of (string_sample f))),
        Required ''timestamp'' (text_of (date_recent f)),
        Optional ''aggregate_id'' (nullable f (text_of (string_sample f))),
        Required ''metadata'' (fakeEventMetadata faker opts),
        Optional ''user_id'' (nullable f (text_of (string_sample f))),
        Optional ''endpoint'' (text_of (string_sample f)),
        Optional ''limit'' (number_of (number_int f [])),
        Optional ''window_seconds'' (number_of (number_int f []))])"

definition fakeRateLimitRuleRequest :: "'s faker \<Rightarrow> 's options option \<Rightarrow> ('s, data) state" where
  "fakeRateLimitRuleRequest faker opts =
     (let f = the_faker faker opts in
      object_of f opts [
        Optional ''endpoint_pattern'' (default_or f opts (VStr '''') (text_of (string_alpha f (Some (1, 100))))),
        Optional ''group'' (fakeEndpointGroup faker opts),
        Optional ''requests'' (default_or f opts (VNum 60) (number_of (number_int f [(''min'', 1)]))),
        Optional ''window_seconds'' (default_or f opts (VNum 60) (number_of (number_int f [(''min'', 1)]))),
        Optional ''algorithm'' (fakeRateLimitAlgorithm faker opts),
        Optional ''burst_multiplier'' (default_or f opts (VNum (3 / 2)) (number_of (number_float f [(''min'', 1)]))),
        Optional ''priority'' (default_or f opts (VNum 0) (number_of (number_int f []))),
        Optional ''enabled'' (default_or f opts (VBool True) (bool_of (datatype_boolean f None)))])"

definition fakeRateLimitRuleResponse :: "'s faker \<Rightarrow> 's options option \<Rightarrow> ('s, data) state" where
  "fakeRateLimitRuleResponse faker opts =
     (let f = the_faker faker opts in
      object_of f opts [
        Required ''endpoint_pattern'' (text_of (string_sample f)),
        Required ''group'' (fakeEndpointGroup faker opts),
        Required ''requests'' (number_of (number_int f [])),
        Required ''window_seconds'' (number_of (number_int f [])),
        Required ''algorithm'' (fakeRateLimitAlgorithm faker opts),
        Required ''burst_multiplier'' (default_or f opts (VNum (3 / 2)) (number_of (number_float f []))),
        Required ''priority'' (default_or f opts (VNum 0) (number_of (number_int f []))),
        Required ''enabled'' (default_or f opts (VBool True) (bool_of (datatype_boolean f None)))])"

definition fakeRateLimitSummary :: "'s faker \<Rightarrow> 's options option \<Rightarrow> ('s, data) state" where
  "fakeRateLimitSummary faker opts =
     (let f = the_faker faker opts in
      object_of f opts [
        Required ''bypass_rate_limit'' (bool_of (datatype_boolean f None)),
        Required ''global_multiplier'' (number_of (number_float f [])),
        Required ''has_custom_limits'' (bool_of (datatype_boolean f None))])"

definition fakeRateLimitUpdateRequest :: "'s faker \<Rightarrow> 's options option \<Rightarrow> ('s, data) state" where
  "fakeRateLimitUpdateRequest faker opts =
     (let f = the_faker faker opts in
      object_of f opts [
        Optional ''bypass_rate_limit'' (default_or f opts (VBool False) (bool_of (datatype_boolean f None))),
        Optional ''global_multiplier'' (default_or f opts (VNum 1) (number_of (number_float f [(''min'', 0)]))),
        Optional ''rules'' (default_or f opts (VArray []) (multiple_of f (fakeRateLimitRuleRequest faker opts))),
        Optional ''notes'' (default_or f opts (VStr '''') (text_of (string_sample f)))])"

definition fakeReplayError :: "'s faker \<Rightarrow> 's options option \<Rightarrow> ('s, data) state" where
  "fakeReplayError faker opts =
     (let f = the_faker faker opts in
      object_of f opts [
        Required ''timestamp'' (text_of (date_recent f)),
        Required ''error'' (text_of (string_sample f)),
        Required ''error_type'' (nullable f (text_of (string_sample f))),
        Required ''event_id'' (nullable f (text_of (string_sample f)))])"

definition fakeReplayStatus :: "'s faker \<Rightarrow> 's options option \<Rightarrow> ('s, data) state" where
  "fakeReplayStatus faker opts =
     (let f = the_faker faker opts in
      element_of f [
        const (VStr ''preview''),
        const (VStr ''scheduled''),
        const (VStr ''running''),
        const (VStr ''completed''),
        const (VStr ''failed'')])"

definition fakeEventReplayResponse :: "'s faker \<Rightarrow> 's options option \<Rightarrow> ('s, data) state" where
  "fakeEventReplayResponse faker opts =
     (let f = the_faker faker opts in
      object_of f opts [
        Required ''dry_run'' (bool_of (datatype_boolean f None)),
        Required ''total_events'' (number_of (number_int f [])),
        Required ''replay_id'' (text_of (string_sample f)),
        Required ''session_id'' (nullable f (text_of (string_sample f))),
        Required ''status'' (fakeReplayStatus faker opts),
        Required ''events_preview'' (nullable f (multiple_of f (fakeEventSummary faker opts)))])"

definition fakeResourceLimitExceededEvent :: "'s faker \<Rightarrow> 's options option \<Rightarrow> ('s, data) state" where
  "fakeResourceLimitExceededEvent faker opts =
     (let f = the_faker faker opts in
      object_of f opts [
        Required ''event_id'' (text_of (string_sample f)),
        Required ''event_type'' (const (VStr ''resource_limit_exceeded'')),
        Required ''event_version'' (default_or f opts (VStr ''1.0'') (text_of (string_sample f))),
        Required ''timestamp'' (text_of (date_recent f)),
        Optional ''aggregate_id'' (nullable f (text_of (string_sample f))),
        Required ''metadata'' (fakeEventMetadata faker opts),
        Optional ''resource_type'' (text_of (string_sample f)),
        Optional ''limit'' (number_of (number_int f [])),
        Optional ''requested'' (number_of (number_int f [])),
        Optional ''user_id'' (nullable f (text_of (string_sample f)))])"

definition fakeResourceLimits :: "'s faker \<Rightarrow> 's options option \<Rightarrow> ('s, data) state" where
  "fakeResourceLimits faker opts =
     (let f = the_faker faker opts in
      object_of f opts [
        Required ''cpu_limit'' (text_of (string_sample f)),
        Required ''memory_limit'' (text_of (string_sample f)),
        Required ''cpu_request'' (text_of (string_sample f)),
        Required ''memory_request'' (text_of (string_sample f)),
        Required ''execution_timeout'' (number_of (number_int f [])),
        Required ''supported_runtimes'' (record_of f opts (fakeLanguageInfo faker opts)),
        Required ''language_limits'' (record_of f opts (fakeLanguageLimits faker opts))])"

definition fakeResourceUsage :: "'s faker \<Rightarrow> 's options option \<Rightarrow> ('s, data) state" where
  "fakeResourceUsage faker opts =
     (let f = the_faker faker opts in
      object_of f opts [
        Required ''execution_time_wall_seconds'' (default_or f opts (VNum 0) (number_of (number_float f []))),
        Required ''cpu_time_jiffies'' (default_or f opts (VNum 0) (number_of (number_int f []))),
        Required ''clk_tck_hertz'' (default_or f opts (VNum 0) (number_of (number_int f []))),
        Required ''peak_memory_kb'' (default_or f opts (VNum 0) (number_of (number_int f [])))])"

definition fakeExecutionResult :: "'s faker \<Rightarrow> 's options option \<Rightarrow> ('s, data) state" where
  "fakeExecutionResult faker opts =
     (let f = the_faker faker opts in
      object_of f opts [
        Required ''execution_id'' (text_of (string_sample f)),
        Required ''status'' (fakeExecutionStatus faker opts),
        Required ''stdout'' (nullable f (text_of (string_sample f))),
        Required ''stderr'' (nullable f (text_of (string_sample f))),
        Required ''lang'' (text_of (string_sample f)),
        Required ''lang_version'' (text_of (string_sample f)),
        Required ''resource_usage'' (nullable f (fakeResourceUsage faker opts)),
        Required ''exit_code'' (nullable f (number_of (number_int f []))),
        Required ''error_type'' (nullable f (fakeExecutionErrorType faker opts)),
        Required ''priority'' (fakeQueuePriority faker opts)])"

definition fakeEventReplayStatusResponse :: "'s faker \<Rightarrow> 's options option \<Rightarrow> ('s, data) state" where
  "fakeEventReplayStatusResponse faker opts =
     (let f = the_faker faker opts in
      object_of f opts [
        Required ''session_id'' (text_of (string_sample f)),
        Required ''status'' (fakeReplayStatus faker opts),
        Required ''total_events'' (number_of (number_int f [])),
        Required ''replayed_events'' (number_of (number_int f [])),
        Required ''failed_events'' (number_of (number_int f [])),
        Required ''skipped_events'' (number_of (number_int f [])),
        Required ''replay_id'' (text_of (string_sample f)),
        Required ''created_at'' (text_of (date_recent f)),
        Required ''started_at'' (nullable f (text_of (date_recent f))),
        Required ''completed_at'' (nullable f (text_of (date_recent f))),
        Required ''errors'' (nullable f (multiple_of f (fakeReplayError faker opts))),
        Required ''estimated_completion'' (nullable f (text_of (date_recent f))),
        Required ''execution_results'' (nullable f (multiple_of f (fakeExecutionResult faker opts))),
        Required ''progress_percentage'' (number_of (number_float f []))])"

definition fakeExecutionListResponse :: "'s faker \<Rightarrow> 's options option \<Rightarrow> ('s, data) state" where
  "fakeExecutionListResponse faker opts =
     (let f = the_faker faker opts in
      object_of f opts [
        Required ''executions'' (multiple_of f (fakeExecutionResult faker opts)),
        Required ''total'' (number_of (number_int f [])),
        Required ''limit'' (number_of (number_int f [])),
        Required ''skip'' (number_of (number_int f [])),
        Required ''has_more'' (bool_of (datatype_boolean f None))])"

definition fakeResourceUsageDomain :: "'s faker \<Rightarrow> 's options option \<Rightarrow> ('s, data) state" where
  "fakeResourceUsageDomain faker opts =
     (let f = the_faker faker opts in
      object_of f opts [
        Optional ''execution_time_wall_seconds'' (default_or f opts (VNum 0) (number_of (number_float f []))),
        Optional ''cpu_time_jiffies'' (default_or f opts (VNum 0) (number_of (number_int f []))),
        Optional ''clk_tck_hertz'' (default_or f opts (VNum 0) (number_of (number_int f []))),
        Optional ''peak_memory_kb'' (default_or f opts (VNum 0) (number_of (number_int f [])))])"

definition fakeExecutionCompletedEvent :: "'s faker \<Rightarrow> 's options option \<Rightarrow> ('s, data) state" where
  "fakeExecutionCompletedEvent faker opts =
     (let f = the_faker faker opts in
      object_of f opts [
        Required ''event_id'' (text_of (string_sample f)),
        Required ''event_type'' (const (VStr ''execution_completed'')),
        Required ''event_version'' (default_or f opts (VStr ''1.0'') (text_of (string_sample f))),
        Required ''timestamp'' (text_of (date_recent f)),
        Optional ''aggregate_id'' (nullable f (text_of (string_sample f))),
        Required ''metadata'' (fakeEventMetadata faker opts),
        Optional ''execution_id'' (text_of (string_sample f)),
        Optional ''exit_code'' (number_of (number_int f [])),
        Optional ''resource_usage'' (fakeResourceUsageDomain faker opts),
        Optional ''stdout'' (default_or f opts (VStr '''') (text_of (string_sample f))),
        Optional ''stderr'' (default_or f opts (VStr '''') (text_of (string_sample f)))])"

definition fakeExecutionFailedEvent :: "'s faker \<Rightarrow> 's options option \<Rightarrow> ('s, data) state" where
  "fakeExecutionFailedEvent faker opts =
     (let f = the_faker faker opts in
      object_of f opts [
        Required ''event_id'' (text_of (string_sample f)),
        Required ''event_type'' (const (VStr ''execution_failed'')),
        Required ''event_version'' (default_or f opts (VStr ''1.0'') (text_of (string_sample f))),
        Required ''timestamp'' (text_of (date_recent f)),
        Optional ''aggregate_id'' (nullable f (text_of (string_sample f))),
        Required ''metadata'' (fakeEventMetadata faker opts),
        Optional ''execution_id'' (text_of (string_sample f)),
        Optional ''exit_code'' (default_or f opts (VNum 1) (number_of (number_int f []))),
        Optional ''error_type'' (fakeExecutionErrorType faker opts),
        Optional ''resource_usage'' (nullable f (fakeResourceUsageDomain faker opts)),
        Optional ''stdout'' (default_or f opts (VStr '''') (text_of (string_sample f))),
        Optional ''stderr'' (default_or f opts (VStr '''') (text_of (string_sample f)))])"

definition fakeExecutionTimeoutEvent :: "'s faker \<Rightarrow> 's options option \<Rightarrow> ('s, data) state" where
  "fakeExecutionTimeoutEvent faker opts =
     (let f = the_faker faker opts in
      object_of f opts [
        Required ''event_id'' (text_of (string_sample f)),
        Required ''event_type'' (const (VStr ''execution_timeout'')),
        Required ''event_version'' (default_or f opts (VStr ''1.0'') (text_of (string_sample f))),
        Required ''timestamp'' (text_of (date_recent f)),
        Optional ''aggregate_id'' (nullable f (text_of (string_sample f))),
        Required ''metadata'' (fakeEventMetadata faker opts),
        Optional ''execution_id'' (text_of (string_sample f)),
        Optional ''timeout_seconds'' (number_of (number_int f [])),
        Optional ''resource_usage'' (fakeResourceUsageDomain faker opts),
        Optional ''stdout'' (default_or f opts (VStr '''') (text_of (string_sample f))),
        Optional ''stderr'' (default_or f opts (VStr '''') (text_of (string_sample f)))])"

definition fakeRestoreSettingsRequest :: "'s faker \<Rightarrow> 's options option \<Rightarrow> ('s, data) state" where
  "fakeRestoreSettingsRequest faker opts =
     (let f = the_faker faker opts in
      object_of f opts [
        Required ''timestamp'' (text_of (date_recent f)),
        Optional ''reason'' (nullable f (text_of (string_sample f)))])"

definition fakeSseControlEvent :: "('s, data) state" where
  "fakeSseControlEvent = const (VStr ''status'')"

definition fakeSseExecutionEventSchema :: "'s faker \<Rightarrow> 's options option \<Rightarrow> ('s, data) state" where
  "fakeSseExecutionEventSchema faker opts =
     (let f = the_faker faker opts in
      object_of f opts [
        Required ''event_type'' (element_of f [fakeEventType faker opts, fakeSseControlEvent]),
        Required ''execution_id'' (text_of (string_sample f)),
        Required ''timestamp'' (nullable f (text_of (date_recent f))),
        Required ''event_id'' (nullable f (text_of (string_sample f))),
        Required ''status'' (nullable f (fakeExecutionStatus faker opts)),
        Required ''result'' (nullable f (fakeExecutionResult faker opts))])"

definition fakeSavedScriptCreateRequest :: "'s faker \<Rightarrow> 's options option \<Rightarrow> ('s, data) state" where
  "fakeSavedScriptCreateRequest faker opts =
     (let f = the_faker faker opts in
      object_of f opts [
        Required ''name'' (text_of (string_sample f)),
        Required ''script'' (text_of (string_sample f)),
        Optional ''lang'' (default_or f opts (VStr ''python'') (text_of (string_sample f))),
        Optional ''lang_version'' (default_or f opts (VStr ''3.14'') (text_of (string_sample f))),
        Optional ''description'' (nullable f (text_of (lorem_sentence f)))])"

definition fakeSavedScriptResponse :: "'s faker \<Rightarrow> 's options option \<Rightarrow> ('s, data) state" where
  "fakeSavedScriptResponse faker opts =
     (let f = the_faker faker opts in
      object_of f opts [
        Required ''script_id'' (text_of (string_sample f)),
        Required ''name'' (text_of (string_sample f)),
        Required ''script'' (text_of (string_sample f)),
        Required ''lang'' (text_of (string_sample f)),
        Required ''lang_version'' (text_of (string_sample f)),
        Required ''description'' (nullable f (text_of (lorem_sentence f))),
        Required ''created_at'' (text_of (date_recent f)),
        Required ''updated_at'' (text_of (date_recent f))])"

definition fakeSavedScriptListResponse :: "'s faker \<Rightarrow> 's options option \<Rightarrow> ('s, data) state" where
  "fakeSavedScriptListResponse faker opts =
     (let f = the_faker faker opts in
      object_of f opts [
        Required ''scripts'' (multiple_of f (fakeSavedScriptResponse faker opts))])"

definition fakeSavedScriptUpdate :: "'s faker \<Rightarrow> 's options option \<Rightarrow> ('s, data) state" where
  "fakeSavedScriptUpdate faker opts =
     (let f = the_faker faker opts in
      object_of f opts [
        Optional ''name'' (nullable f (text_of (string_sample f))),
        Optional ''script'' (nullable f (text_of (string_sample f))),
        Optional ''lang'' (nullable f (text_of (string_sample f))),
        Optional ''lang_version'' (nullable f (text_of (string_sample f))),
        Optional ''description'' (nullable f (text_of (lorem_sentence f))),
        Optional ''updated_at'' (text_of (date_recent f))])"

definition fakeScriptDeletedEvent :: "'s faker \<Rightarrow> 's options option \<Rightarrow> ('s, data) state" where
  "fakeScriptDeletedEvent faker opts =
     (let f = the_faker faker opts in
      object_of f opts [
        Required ''event_id'' (text_of (string_sample f)),
        Required ''event_type'' (const (VStr ''script_deleted'')),
        Required ''event_version'' (default_or f opts (VStr ''1.0'') (text_of (string_sample f))),
        Required ''timestamp'' (text_of (date_recent f)),
        Optional ''aggregate_id'' (nullable f (text_of (string_sample f))),
        Required ''metadata'' (fakeEventMetadata faker opts),
        Optional ''script_id'' (text_of (string_sample f)),
        Optional ''user_id'' (text_of (string_sample f)),
        Optional ''deleted_by'' (nullable f (text_of (string_sample f)))])"

definition fakeScriptSavedEvent :: "'s faker \<Rightarrow> 's options option \<Rightarrow> ('s, data) state" where
  "fakeScriptSavedEvent faker opts =
     (let f = the_faker faker opts in
      object_of f opts [
        Required ''event_id'' (text_of (string_sample f)),
        Required ''event_type'' (const (VStr ''script_saved'')),
        Required ''event_version'' (default_or f opts (VStr ''1.0'') (text_of (string_sample f))),
        Required ''timestamp'' (text_of (date_recent f)),
        Optional ''aggregate_id'' (nullable f (text_of (string_sample f))),
        Required ''metadata'' (fakeEventMetadata faker opts),
        Optional ''script_id'' (text_of (string_sample f)),
        Optional ''user_id'' (text_of (string_sample f)),
        Optional ''title'' (text_of (lorem_words f)),
        Optional ''language'' (text_of (string_sample f))])"

definition fakeScriptSharedEvent :: "'s faker \<Rightarrow> 's options option \<Rightarrow> ('s, data) state" where
  "fakeScriptSharedEvent faker opts =
     (let f = the_faker faker opts in
      object_of f opts [
        Required ''event_id'' (text_of (string_sample f)),
        Required ''event_type'' (const (VStr ''script_shared'')),
        Required ''event_version'' (default_or f opts (VStr ''1.0'') (text_of (string_sample f))),
        Required ''timestamp'' (text_of (date_recent f)),
        Optional ''aggregate_id'' (nullable f (text_of (string_sample f))),
        Required ''metadata'' (fakeEventMetadata faker opts),
        Optional ''script_id'' (text_of (string_sample f)),
        Optional ''shared_by'' (text_of (string_sample f)),
        Optional ''shared_with'' (multiple_of f (text_of (string_sample f))),
        Optional ''permissions'' (text_of (string_sample f))])"

definition fakeSecurityViolationEvent :: "'s faker \<Rightarrow> 's options option \<Rightarrow> ('s, data) state" where
  "fakeSecurityViolationEvent faker opts =
     (let f = the_faker faker opts in
      object_of f opts [
        Required ''event_id'' (text_of (string_sample f)),
        Required ''event_type'' (const (VStr ''security_violation'')),
        Required ''event_version'' (default_or f opts (VStr ''1.0'') (text_of (string_sample f))),
        Required ''timestamp'' (text_of (date_recent f)),
        Optional ''aggregate_id'' (nullable f (text_of (string_sample f))),
        Required ''metadata'' (fakeEventMetadata faker opts),
        Optional ''user_id'' (nullable f (text_of (string_sample f))),
        Optional ''violation_type'' (text_of (string_sample f)),
        Optional ''details'' (text_of (string_sample f)),
        Optional ''ip_address'' (nullable f (text_of (internet_ip f)))])"

definition fakeServiceEventCount :: "'s faker \<Rightarrow> 's options option \<Rightarrow> ('s, data) state" where
  "fakeServiceEventCount faker opts =
     (let f = the_faker faker opts in
      object_of f opts [
        Required ''service_name'' (text_of (string_sample f)),
        Required ''count'' (number_of (number_int f [(''max'', 1000), (''min'', 0)]))])"

definition fakeServiceRecoveredEvent :: "'s faker \<Rightarrow> 's options option \<Rightarrow> ('s, data) state" where
  "fakeServiceRecoveredEvent faker opts =
     (let f = the_faker faker opts in
      object_of f opts [
        Required ''event_id'' (text_of (string_sample f)),
        Required ''event_type'' (const (VStr ''service_recovered'')),
        Required ''event_version'' (default_or f opts (VStr ''1.0'') (text_of (string_sample f))),
        Required ''timestamp'' (text_of (date_recent f)),
        Optional ''aggregate_id'' (nullable f (text_of (string_sample f))),
        Required ''metadata'' (fakeEventMetadata faker opts),
        Optional ''service_name'' (text_of (string_sample f)),
        Optional ''health_check'' (text_of (string_sample f)),
        Optional ''downtime_seconds'' (number_of (number_int f []))])"

definition fakeServiceUnhealthyEvent :: "'s faker \<Rightarrow> 's options option \<Rightarrow> ('s, data) state" where
  "fakeServiceUnhealthyEvent faker opts =
     (let f = the_faker faker opts in
      object_of f opts [
        Required ''event_id'' (text_of (string_sample f)),
        Required ''event_type'' (const (VStr ''service_unhealthy'')),
        Required ''event_version'' (default_or f opts (VStr ''1.0'') (text_of (string_sample f))),
        Required ''timestamp'' (text_of (date_recent f)),
        Optional ''aggregate_id'' (nullable f (text_of (string_sample f))),
        Required ''metadata'' (fakeEventMetadata faker opts),
        Optional ''service_name'' (text_of (string_sample f)),
        Optional ''health_check'' (text_of (string_sample f)),
        Optional ''reason'' (text_of (string_sample f))])"

definition fakeSettingsHistoryEntry :: "'s faker \<Rightarrow> 's options option \<Rightarrow> ('s, data) state" where
  "fakeSettingsHistoryEntry faker opts =
     (let f = the_faker faker opts in
      object_of f opts [
        Required ''timestamp'' (text_of (date_recent f)),
        Required ''event_type'' (fakeEventType faker opts),
        Required ''field'' (text_of (string_sample f)),
        Required ''old_value'' (const VUndefined),
        Required ''new_value'' (const VUndefined),
        Required ''reason'' (nullable f (text_of (string_sample f)))])"

definition fakeSettingsHistoryResponse :: "'s faker \<Rightarrow> 's options option \<Rightarrow> ('s, data) state" where
  "fakeSettingsHistoryResponse faker opts =
     (let f = the_faker faker opts in
      object_of f opts [
        Required ''history'' (multiple_of f (fakeSettingsHistoryEntry faker opts)),
        Required ''limit'' (number_of (number_int f []))])"

definition fakeStorageType :: "'s faker \<Rightarrow> 's options option \<Rightarrow> ('s, data) state" where
  "fakeStorageType faker opts =
     (let f = the_faker faker opts in
      element_of f [
        const (VStr ''database''),
        const (VStr ''s3''),
        const (VStr ''filesystem''),
        const (VStr ''redis'')])"

definition fakeResultFailedEvent :: "'s faker \<Rightarrow> 's options option \<Rightarrow> ('s, data) state" where
  "fakeResultFailedEvent faker opts =
     (let f = the_faker faker opts in
      object_of f opts [
        Required ''event_id'' (text_of (string_sample f)),
        Required ''event_type'' (const (VStr ''result_failed'')),
        Required ''event_version'' (default_or f opts (VStr ''1.0'') (text_of (string_sample f))),
        Required ''timestamp'' (text_of (date_recent f)),
        Optional ''aggregate_id'' (nullable f (text_of (string_sample f))),
        Required ''metadata'' (fakeEventMetadata faker opts),
        Optional ''execution_id'' (text_of (string_sample f)),
        Optional ''storage_type'' (nullable f (fakeStorageType faker opts))])"

definition fakeResultStoredEvent :: "'s faker \<Rightarrow> 's options option \<Rightarrow> ('s, data) state" where
  "fakeResultStoredEvent faker opts =
     (let f = the_faker faker opts in
      object_of f opts [
        Required ''event_id'' (text_of (string_sample f)),
        Required ''event_type'' (const (VStr ''result_stored'')),
        Required ''event_version'' (default_or f opts (VStr ''1.0'') (text_of (string_sample f))),
        Required ''timestamp'' (text_of (date_recent f)),
        Optional ''aggregate_id'' (nullable f (text_of (string_sample f))),
        Required ''metadata'' (fakeEventMetadata faker opts),
        Optional ''execution_id'' (text_of (string_sample f)),
        Optional ''storage_type'' (nullable f (fakeStorageType faker opts)),
        Optional ''storage_path'' (default_or f opts (VStr '''') (text_of (string_sample f))),
        Optional ''size_bytes'' (default_or f opts (VNum 0) (number_of (number_int f [])))])"

definition fakeSystemErrorEvent :: "'s faker \<Rightarrow> 's options option \<Rightarrow> ('s, data) state" where
  "fakeSystemErrorEvent faker opts =
     (let f = the_faker faker opts in
      object_of f opts [
        Required ''event_id'' (text_of (string_sample f)),
        Required ''event_type'' (const (VStr ''system_error'')),
        Required ''event_version'' (default_or f opts (VStr ''1.0'') (text_of (string_sample f))),
        Required ''timestamp'' (text_of (date_recent f)),
        Optional ''aggregate_id'' (nullable f (text_of (string_sample f))),
        Required ''metadata'' (fakeEventMetadata faker opts),
        Optional ''error_type'' (text_of (string_sample f)),
        Optional ''message'' (text_of (string_sample f)),
        Optional ''service_name'' (text_of (string_sample f)),
        Optional ''stack_trace'' (nullable f (text_of (string_sample f)))])"

definition fakeSystemSettingsSchemaInput :: "'s faker \<Rightarrow> 's options option \<Rightarrow> ('s, data) state" where
  "fakeSystemSettingsSchemaInput faker opts =
     (let f = the_faker faker opts in
      object_of f opts [
        Optional ''max_timeout_seconds'' (default_or f opts (VNum 300) (number_of (number_int f [(''min'', 1), (''max'', 3600)]))),
        Optional ''memory_limit'' (default_or f opts (VStr ''512Mi'') (text_of (string_sample f))),
        Optional ''cpu_limit'' (default_or f opts (VStr ''2000m'') (text_of (string_sample f))),
        Optional ''max_concurrent_executions'' (default_or f opts (VNum 10) (number_of (number_int f [(''min'', 1), (''max'', 100)]))),
        Optional ''max_executions_per_user'' (default_or f opts (VNum 100) (number_of (number_int f [(''min'', 1), (''max'', 1000)]))),
        Optional ''password_min_length'' (default_or f opts (VNum 8) (number_of (number_int f [(''min'', 8), (''max'', 32)]))),
        Optional ''session_timeout_minutes'' (default_or f opts (VNum 60) (number_of (number_int f [(''min'', 5), (''max'', 1440)]))),
        Optional ''max_login_attempts'' (default_or f opts (VNum 5) (number_of (number_int f [(''min'', 3), (''max'', 10)]))),
        Optional ''lockout_duration_minutes'' (default_or f opts (VNum 15) (number_of (number_int f [(''min'', 5), (''max'', 60)])))])"

definition fakeSystemSettingsSchemaOutput :: "'s faker \<Rightarrow> 's options option \<Rightarrow> ('s, data) state" where
  "fakeSystemSettingsSchemaOutput faker opts =
     (let f = the_faker faker opts in
      object_of f opts [
        Required ''max_timeout_seconds'' (default_or f opts (VNum 300) (number_of (number_int f [(''min'', 1), (''max'', 3600)]))),
        Required ''memory_limit'' (default_or f opts (VStr ''512Mi'') (text_of (string_sample f))),
        Required ''cpu_limit'' (default_or f opts (VStr ''2000m'') (text_of (string_sample f))),
        Required ''max_concurrent_executions'' (default_or f opts (VNum 10) (number_of (number_int f [(''min'', 1), (''max'', 100)]))),
        Required ''max_executions_per_user'' (default_or f opts (VNum 100) (number_of (number_int f [(''min'', 1), (''max'', 1000)]))),
        Required ''password_min_length'' (default_or f opts (VNum 8) (number_of (number_int f [(''min'', 8), (''max'', 32)]))),
        Required ''session_timeout_minutes'' (default_or f opts (VNum 60) (number_of (number_int f [(''min'', 5), (''max'', 1440)]))),
        Required ''max_login_attempts'' (default_or f opts (VNum 5) (number_of (number_int f [(''min'', 3), (''max'', 10)]))),
        Required ''lockout_duration_minutes'' (default_or f opts (VNum 15) (number_of (number_int f [(''min'', 5), (''max'', 60)])))])"

definition fakeTheme :: "'s faker \<Rightarrow> 's options option \<Rightarrow> ('s, data) state" where
  "fakeTheme faker opts =
     (let f = the_faker faker opts in
      element_of f [const (VStr ''light''), const (VStr ''dark''), const (VStr ''system'')])"

definition fakeThemeUpdateRequest :: "'s faker \<Rightarrow> 's options option \<Rightarrow> ('s, data) state" where
  "fakeThemeUpdateRequest faker opts =
     (let f = the_faker faker opts in
      object_of f opts [
        Required ''theme'' (fakeTheme faker opts)])"

definition fakeUnlockResponse :: "'s faker \<Rightarrow> 's options option \<Rightarrow> ('s, data) state" where
  "fakeUnlockResponse faker opts =
     (let f = the_faker faker opts in
      object_of f opts [
        Required ''user_id'' (text_of (string_sample f)),
        Required ''message'' (text_of (string_sample f))])"

definition fakeUnreadCountResponse :: "'s faker \<Rightarrow> 's options option \<Rightarrow> ('s, data) state" where
  "fakeUnreadCountResponse faker opts =
     (let f = the_faker faker opts in
      object_of f opts [
        Required ''unread_count'' (number_of (number_int f []))])"

definition fakeUserDeletedEvent :: "'s faker \<Rightarrow> 's options option \<Rightarrow> ('s, data) state" where
  "fakeUserDeletedEvent faker opts =
     (let f = the_faker faker opts in
      object_of f opts [
        Required ''event_id'' (text_of (string_sample f)),
        Required ''event_type'' (const (VStr ''user_deleted'')),
        Required ''event_version'' (default_or f opts (VStr ''1.0'') (text_of (string_sample f))),
        Required ''timestamp'' (text_of (date_recent f)),
        Optional ''aggregate_id'' (nullable f (text_of (string_sample f))),
        Required ''metadata'' (fakeEventMetadata faker opts),
        Optional ''user_id'' (text_of (string_sample f)),
        Optional ''deleted_by'' (nullable f (text_of (string_sample f))),
        Optional ''reason'' (nullable f (text_of (string_sample f)))])"

definition fakeUserEventCount :: "'s faker \<Rightarrow> 's options option \<Rightarrow> ('s, data) state" where
  "fakeUserEventCount faker opts =
     (let f = the_faker faker opts in
      object_of f opts [
        Required ''user_id'' (text_of (string_sample f)),
        Required ''event_count'' (number_of (number_int f []))])"

definition fakeEventStatistics :: "'s faker \<Rightarrow> 's options option \<Rightarrow> ('s, data) state" where
  "fakeEventStatistics faker opts =
     (let f = the_faker faker opts in
      object_of f opts [
        Required ''total_events'' (number_of (number_int f [])),
        Required ''events_by_type'' (multiple_of f (fakeEventTypeCount faker opts)),
        Required ''events_by_service'' (multiple_of f (fakeServiceEventCount faker opts)),
        Required ''events_by_hour'' (multiple_of f (fakeHourlyEventCount faker opts)),
        Required ''top_users'' (multiple_of f (fakeUserEventCount faker opts)),
        Required ''error_rate'' (default_or f opts (VNum 0) (number_of (number_float f []))),
        Required ''avg_processing_time'' (default_or f opts (VNum 0) (number_of (number_float f []))),
        Required ''start_time'' (nullable f (text_of (date_recent f))),
        Required ''end_time'' (nullable f (text_of (date_recent f)))])"

definition fakeEventStatsResponse :: "'s faker \<Rightarrow> 's options option \<Rightarrow> ('s, data) state" where
  "fakeEventStatsResponse faker opts =
     (let f = the_faker faker opts in
      object_of f opts [
        Required ''total_events'' (number_of (number_int f [])),
        Required ''events_by_type'' (multiple_of f (fakeEventTypeCount faker opts)),
        Required ''events_by_hour'' (multiple_of f (fakeHourlyEventCount faker opts)),
        Required ''top_users'' (multiple_of f (fakeUserEventCount faker opts)),
        Required ''error_rate'' (number_of (number_float f [])),
        Required ''avg_processing_time'' (number_of (number_float f []))])"

definition fakeUserLoggedInEvent :: "'s faker \<Rightarrow> 's options option \<Rightarrow> ('s, data) state" where
  "fakeUserLoggedInEvent faker opts =
     (let f = the_faker faker opts in
      object_of f opts [
        Required ''event_id'' (text_of (string_sample f)),
        Required ''event_type'' (const (VStr ''user_logged_in'')),
        Required ''event_version'' (default_or f opts (VStr ''1.0'') (text_of (string_sample f))),
        Required ''timestamp'' (text_of (date_recent f)),
        Optional ''aggregate_id'' (nullable f (text_of (string_sample f))),
        Required ''metadata'' (fakeEventMetadata faker opts),
        Optional ''user_id'' (text_of (string_sample f)),
        Optional ''login_method'' (fakeLoginMethod faker opts),
        Optional ''ip_address'' (nullable f (text_of (internet_ip f))),
        Optional ''user_agent'' (nullable f (text_of (internet_userAgent f)))])"

definition fakeUserLoggedOutEvent :: "'s faker \<Rightarrow> 's options option \<Rightarrow> ('s, data) state" where
  "fakeUserLoggedOutEvent faker opts =
     (let f = the_faker faker opts in
      object_of f opts [
        Required ''event_id'' (text_of (string_sample f)),
        Required ''event_type'' (const (VStr ''user_logged_out'')),
        Required ''event_version'' (default_or f opts (VStr ''1.0'') (text_of (string_sample f))),
        Required ''timestamp'' (text_of (date_recent f)),
        Optional ''aggregate_id'' (nullable f (text_of (string_sample f))),
        Required ''metadata'' (fakeEventMetadata faker opts),
        Optional ''user_id'' (text_of (string_sample f)),
        Optional ''logout_reason'' (nullable f (text_of (string_sample f)))])"

definition fakeUserLoginEvent :: "'s faker \<Rightarrow> 's options option \<Rightarrow> ('s, data) state" where
  "fakeUserLoginEvent faker opts =
     (let f = the_faker faker opts in
      object_of f opts [
        Required ''event_id'' (text_of (string_sample f)),
        Required ''event_type'' (const (VStr ''user_login'')),
        Required ''event_version'' (default_or f opts (VStr ''1.0'') (text_of (string_sample f))),
        Required ''timestamp'' (text_of (date_recent f)),
        Optional ''aggregate_id'' (nullable f (text_of (string_sample f))),
        Required ''metadata'' (fakeEventMetadata faker opts),
        Optional ''user_id'' (text_of (string_sample f)),
        Optional ''login_method'' (fakeLoginMethod faker opts),
        Optional ''ip_address'' (nullable f (text_of (internet_ip f))),
        Optional ''user_agent'' (nullable f (text_of (internet_userAgent f)))])"

definition fakeUserRateLimitConfigResponse :: "'s faker \<Rightarrow> 's options option \<Rightarrow> ('s, data) state" where
  "fakeUserRateLimitConfigResponse faker opts =
     (let f = the_faker faker opts in
      object_of f opts [
        Required ''user_id'' (text_of (string_sample f)),
        Required ''bypass_rate_limit'' (bool_of (datatype_boolean f None)),
        Required ''global_multiplier'' (number_of (number_float f [])),
        Required ''rules'' (multiple_of f (fakeRateLimitRuleResponse faker opts)),
        Required ''created_at'' (text_of (date_recent f)),
        Required ''updated_at'' (text_of (date_recent f)),
        Required ''notes'' (text_of (string_sample f))])"

definition fakeRateLimitUpdateResponse :: "'s faker \<Rightarrow> 's options option \<Rightarrow> ('s, data) state" where
  "fakeRateLimitUpdateResponse faker opts =
     (let f = the_faker faker opts in
      object_of f opts [
        Required ''user_id'' (text_of (string_sample f)),
        Required ''updated'' (bool_of (datatype_boolean f None)),
        Required ''config'' (fakeUserRateLimitConfigResponse faker opts)])"

definition fakeUserRateLimitsResponse :: "'s faker \<Rightarrow> 's options option \<Rightarrow> ('s, data) state" where
  "fakeUserRateLimitsResponse faker opts =
     (let f = the_faker faker opts in
      object_of f opts [
        Required ''user_id'' (text_of (string_sample f)),
        Required ''rate_limit_config'' (fakeUserRateLimitConfigResponse faker opts),
        Required ''current_usage'' (record_of f opts (fakeEndpointUsageStats faker opts))])"

definition fakeUserRegisteredEvent :: "'s faker \<Rightarrow> 's options option \<Rightarrow> ('s, data) state" where
  "fakeUserRegisteredEvent faker opts =
     (let f = the_faker faker opts in
      object_of f opts [
        Required ''event_id'' (text_of (string_sample f)),
        Required ''event_type'' (const (VStr ''user_registered'')),
        Required ''event_version'' (default_or f opts (VStr ''1.0'') (text_of (string_sample f))),
        Required ''timestamp'' (text_of (date_recent f)),
        Optional ''aggregate_id'' (nullable f (text_of (string_sample f))),
        Required ''metadata'' (fakeEventMetadata faker opts),
        Optional ''user_id'' (text_of (string_sample f)),
        Optional ''username'' (text_of (internet_username f)),
        Optional ''email'' (text_of (internet_email f))])"

definition fakeUserRole :: "'s faker \<Rightarrow> 's options option \<Rightarrow> ('s, data) state" where
  "fakeUserRole faker opts =
     (let f = the_faker faker opts in
      element_of f [const (VStr ''user''), const (VStr ''admin''), const (VStr ''moderator'')])"

definition fakeLoginResponse :: "'s faker \<Rightarrow> 's options option \<Rightarrow> ('s, data) state" where
  "fakeLoginResponse faker opts =
     (let f = the_faker faker opts in
      object_of f opts [
        Required ''message'' (text_of (string_sample f)),
        Required ''username'' (text_of (internet_username f)),
        Required ''role'' (fakeUserRole faker opts),
        Required ''csrf_token'' (text_of (string_sample f))])"

definition fakeUserCreate :: "'s faker \<Rightarrow> 's options option \<Rightarrow> ('s, data) state" where
  "fakeUserCreate faker opts =
     (let f = the_faker faker opts in
      object_of f opts [
        Required ''username'' (text_of (internet_username f)),
        Required ''email'' (text_of (internet_email f)),
        Optional ''role'' (fakeUserRole faker opts),
        Optional ''is_active'' (default_or f opts (VBool True) (bool_of (datatype_boolean f None)))])"

definition fakeUserResponse :: "'s faker \<Rightarrow> 's options option \<Rightarrow> ('s, data) state" where
  "fakeUserResponse faker opts =
     (let f = the_faker faker opts in
      object_of f opts [
        Required ''username'' (text_of (internet_username f)),
        Required ''email'' (text_of (internet_email f)),
        Required ''role'' (fakeUserRole faker opts),
        Required ''is_active'' (bool_of (datatype_boolean f None)),
        Required ''user_id'' (text_of (string_sample f)),
        Required ''is_superuser'' (bool_of (datatype_boolean f None)),
        Required ''created_at'' (text_of (date_recent f)),
        Required ''updated_at'' (text_of (date_recent f))])"

definition fakeUserListResponse :: "'s faker \<Rightarrow> 's options option \<Rightarrow> ('s, data) state" where
  "fakeUserListResponse faker opts =
     (let f = the_faker faker opts in
      object_of f opts [
        Required ''users'' (multiple_of f (fakeUserResponse faker opts)),
        Required ''total'' (number_of (number_int f [])),
        Required ''offset'' (number_of (number_int f [])),
        Required ''limit'' (number_of (number_int f []))])"

definition fakeUserSettings :: "'s faker \<Rightarrow> 's options option \<Rightarrow> ('s, data) state" where
  "fakeUserSettings faker opts =
     (let f = the_faker faker opts in
      object_of f opts [
        Required ''user_id'' (text_of (string_sample f)),
        Required ''theme'' (fakeTheme faker opts),
        Required ''timezone'' (default_or f opts (VStr ''UTC'') (text_of (location_timeZone f))),
        Required ''date_format'' (default_or f opts (VStr ''YYYY-MM-DD'') (text_of (string_sample f))),
        Required ''time_format'' (default_or f opts (VStr ''24h'') (text_of (string_sample f))),
        Required ''notifications'' (fakeNotificationSettingsOutput faker opts),
        Required ''editor'' (fakeEditorSettingsOutput faker opts),
        Required ''custom_settings'' (object_of f opts []),
        Required ''version'' (default_or f opts (VNum 1) (number_of (number_int f []))),
        Required ''created_at'' (text_of (date_recent f)),
        Required ''updated_at'' (text_of (date_recent f))])"

definition fakeUserSettingsUpdate :: "'s faker \<Rightarrow> 's options option \<Rightarrow> ('s, data) state" where
  "fakeUserSettingsUpdate faker opts =
     (let f = the_faker faker opts in
      object_of f opts [
        Optional ''theme'' (nullable f (fakeTheme faker opts)),
        Optional ''timezone'' (nullable f (text_of (location_timeZone f))),
        Optional ''date_format'' (nullable f (text_of (string_sample f))),
        Optional ''time_format'' (nullable f (text_of (string_sample f))),
        Optional ''notifications'' (nullable f (fakeNotificationSettingsInput faker opts)),
        Optional ''editor'' (nullable f (fakeEditorSettingsInput faker opts)),
        Optional ''custom_settings'' (nullable f (object_of f opts []))])"

definition fakeUserSettingsUpdatedEvent :: "'s faker \<Rightarrow> 's options option \<Rightarrow> ('s, data) state" where
  "fakeUserSettingsUpdatedEvent faker opts =
     (let f = the_faker faker opts in
      object_of f opts [
        Required ''event_id'' (text_of (string_sample f)),
        Required ''event_type'' (const (VStr ''user_settings_updated'')),
        Required ''event_version'' (default_or f opts (VStr ''1.0'') (text_of (string_sample f))),
        Required ''timestamp'' (text_of (date_recent f)),
        Optional ''aggregate_id'' (nullable f (text_of (string_sample f))),
        Required ''metadata'' (fakeEventMetadata faker opts),
        Optional ''user_id'' (text_of (string_sample f)),
        Optional ''changed_fields'' (multiple_of f (text_of (string_sample f))),
        Optional ''reason'' (nullable f (text_of (string_sample f)))])"

definition fakeUserUpdate :: "'s faker \<Rightarrow> 's options option \<Rightarrow> ('s, data) state" where
  "fakeUserUpdate faker opts =
     (let f = the_faker faker opts in
      object_of f opts [
        Optional ''username'' (nullable f (text_of (internet_username f))),
        Optional ''email'' (nullable f (text_of (internet_email f))),
        Optional ''role'' (nullable f (fakeUserRole faker opts)),
        Optional ''is_active'' (nullable f (bool_of (datatype_boolean f None))),
        Optional ''password'' (const VNull)])"

definition fakeUserUpdatedEvent :: "'s faker \<Rightarrow> 's options option \<Rightarrow> ('s, data) state" where
  "fakeUserUpdatedEvent faker opts =
     (let f = the_faker faker opts in
      object_of f opts [
        Required ''event_id'' (text_of (string_sample f)),
        Required ''event_type'' (const (VStr ''user_updated'')),
        Required ''event_version'' (default_or f opts (VStr ''1.0'') (text_of (string_sample f))),
        Required ''timestamp'' (text_of (date_recent f)),
        Optional ''aggregate_id'' (nullable f (text_of (string_sample f))),
        Required ''metadata'' (fakeEventMetadata faker opts),
        Optional ''user_id'' (text_of (string_sample f)),
        Optional ''updated_fields'' (multiple_of f (text_of (string_sample f))),
        Optional ''updated_by'' (nullable f (text_of (string_sample f)))])"

definition fakeAdminUserOverview :: "'s faker \<Rightarrow> 's options option \<Rightarrow> ('s, data) state" where
  "fakeAdminUserOverview faker opts =
     (let f = the_faker faker opts in
      object_of f opts [
        Required ''user'' (fakeUserResponse faker opts),
        Required ''stats'' (fakeEventStatistics faker opts),
        Required ''derived_counts'' (fakeDerivedCounts faker opts),
        Required ''rate_limit_summary'' (fakeRateLimitSummary faker opts),
        Required ''recent_events'' (default_or f opts (VArray []) (multiple_of f (element_of f [
          fakeExecutionRequestedEvent faker opts,
          fakeExecutionAcceptedEvent faker opts,
          fakeExecutionQueuedEvent faker opts,
          fakeExecutionStartedEvent faker opts,
          fakeExecutionRunningEvent faker opts,
          fakeExecutionCompletedEvent faker opts,
          fakeExecutionFailedEvent faker opts,
          fakeExecutionTimeoutEvent faker opts,
          fakeExecutionCancelledEvent faker opts,
          fakePodCreatedEvent faker opts,
          fakePodScheduledEvent faker opts,
          fakePodRunningEvent faker opts,
          fakePodSucceededEvent faker opts,
          fakePodFailedEvent faker opts,
          fakePodTerminatedEvent faker opts,
          fakePodDeletedEvent faker opts,
          fakeResultStoredEvent faker opts,
          fakeResultFailedEvent faker opts,
          fakeUserSettingsUpdatedEvent faker opts,
          fakeUserRegisteredEvent faker opts,
          fakeUserLoginEvent faker opts,
          fakeUserLoggedInEvent faker opts,
          fakeUserLoggedOutEvent faker opts,
          fakeUserUpdatedEvent faker opts,
          fakeUserDeletedEvent faker opts,
          fakeNotificationCreatedEvent faker opts,
          fakeNotificationSentEvent faker opts,
          fakeNotificationDeliveredEvent faker opts,
          fakeNotificationFailedEvent faker opts,
          fakeNotificationReadEvent faker opts,
          fakeNotificationAllReadEvent faker opts,
          fakeNotificationClickedEvent faker opts,
          fakeNotificationPreferencesUpdatedEvent faker opts,
          fakeScriptSavedEvent faker opts,
          fakeScriptDeletedEvent faker opts,
          fakeScriptSharedEvent faker opts,
          fakeSecurityViolationEvent faker opts,
          fakeRateLimitExceededEvent faker opts,
          fakeAuthFailedEvent faker opts,
          fakeResourceLimitExceededEvent faker opts,
          fakeQuotaExceededEvent faker opts,
          fakeSystemErrorEvent faker opts,
          fakeServiceUnhealthyEvent faker opts,
          fakeServiceRecoveredEvent faker opts,
          fakeDlqMessageReceivedEvent faker opts,
          fakeDlqMessageRetriedEvent faker opts,
          fakeDlqMessageDiscardedEvent faker opts])))])"

definition fakeEventBrowseResponse :: "'s faker \<Rightarrow> 's options option \<Rightarrow> ('s, data) state" where
  "fakeEventBrowseResponse faker opts =
     (let f = the_faker faker opts in
      object_of f opts [
        Required ''events'' (multiple_of f (element_of f [
          fakeExecutionRequestedEvent faker opts,
          fakeExecutionAcceptedEvent faker opts,
          fakeExecutionQueuedEvent faker opts,
          fakeExecutionStartedEvent faker opts,
          fakeExecutionRunningEvent faker opts,
          fakeExecutionCompletedEvent faker opts,
          fakeExecutionFailedEvent faker opts,
          fakeExecutionTimeoutEvent faker opts,
          fakeExecutionCancelledEvent faker opts,
          fakePodCreatedEvent faker opts,
          fakePodScheduledEvent faker opts,
          fakePodRunningEvent faker opts,
          fakePodSucceededEvent faker opts,
          fakePodFailedEvent faker opts,
          fakePodTerminatedEvent faker opts,
          fakePodDeletedEvent faker opts,
          fakeResultStoredEvent faker opts,
          fakeResultFailedEvent faker opts,
          fakeUserSettingsUpdatedEvent faker opts,
          fakeUserRegisteredEvent faker opts,
          fakeUserLoginEvent faker opts,
          fakeUserLoggedInEvent faker opts,
          fakeUserLoggedOutEvent faker opts,
          fakeUserUpdatedEvent faker opts,
          fakeUserDeletedEvent faker opts,
          fakeNotificationCreatedEvent faker opts,
          fakeNotificationSentEvent faker opts,
          fakeNotificationDeliveredEvent faker opts,
          fakeNotificationFailedEvent faker opts,
          fakeNotificationReadEvent faker opts,
          fakeNotificationAllReadEvent faker opts,
          fakeNotificationClickedEvent faker opts,
          fakeNotificationPreferencesUpdatedEvent faker opts,
          fakeScriptSavedEvent faker opts,
          fakeScriptDeletedEvent faker opts,
          fakeScriptSharedEvent faker opts,
          fakeSecurityViolationEvent faker opts,
          fakeRateLimitExceededEvent faker opts,
          fakeAuthFailedEvent faker opts,
          fakeResourceLimitExceededEvent faker opts,
          fakeQuotaExceededEvent faker opts,
          fakeSystemErrorEvent faker opts,
          fakeServiceUnhealthyEvent faker opts,
          fakeServiceRecoveredEvent faker opts,
          fakeDlqMessageReceivedEvent faker opts,
          fakeDlqMessageRetriedEvent faker opts,
          fakeDlqMessageDiscardedEvent faker opts])),
        Required ''total'' (number_of (number_int f [])),
        Required ''skip'' (number_of (number_int f [])),
        Required ''limit'' (number_of (number_int f []))])"

definition fakeEventDetailResponse :: "'s faker \<Rightarrow> 's options option \<Rightarrow> ('s, data) state" where
  "fakeEventDetailResponse faker opts =
     (let f = the_faker faker opts in
      object_of f opts [
        Required ''event'' (element_of f [
          fakeExecutionRequestedEvent faker opts,
          fakeExecutionAcceptedEvent faker opts,
          fakeExecutionQueuedEvent faker opts,
          fakeExecutionStartedEvent faker opts,
          fakeExecutionRunningEvent faker opts,
          fakeExecutionCompletedEvent faker opts,
          fakeExecutionFailedEvent faker opts,
          fakeExecutionTimeoutEvent faker opts,
          fakeExecutionCancelledEvent faker opts,
          fakePodCreatedEvent faker opts,
          fakePodScheduledEvent faker opts,
          fakePodRunningEvent faker opts,
          fakePodSucceededEvent faker opts,
          fakePodFailedEvent faker opts,
          fakePodTerminatedEvent faker opts,
          fakePodDeletedEvent faker opts,
          fakeResultStoredEvent faker opts,
          fakeResultFailedEvent faker opts,
          fakeUserSettingsUpdatedEvent faker opts,
          fakeUserRegisteredEvent faker opts,
          fakeUserLoginEvent faker opts,
          fakeUserLoggedInEvent faker opts,
          fakeUserLoggedOutEvent faker opts,
          fakeUserUpdatedEvent faker opts,
          fakeUserDeletedEvent faker opts,
          fakeNotificationCreatedEvent faker opts,
          fakeNotificationSentEvent faker opts,
          fakeNotificationDeliveredEvent faker opts,
          fakeNotificationFailedEvent faker opts,
          fakeNotificationReadEvent faker opts,
          fakeNotificationAllReadEvent faker opts,
          fakeNotificationClickedEvent faker opts,
          fakeNotificationPreferencesUpdatedEvent faker opts,
          fakeScriptSavedEvent faker opts,
          fakeScriptDeletedEvent faker opts,
          fakeScriptSharedEvent faker opts,
          fakeSecurityViolationEvent faker opts,
          fakeRateLimitExceededEvent faker opts,
          fakeAuthFailedEvent faker opts,
          fakeResourceLimitExceededEvent faker opts,
          fakeQuotaExceededEvent faker opts,
          fakeSystemErrorEvent faker opts,
          fakeServiceUnhealthyEvent faker opts,
          fakeServiceRecoveredEvent faker opts,
          fakeDlqMessageReceivedEvent faker opts,
          fakeDlqMessageRetriedEvent faker opts,
          fakeDlqMessageDiscardedEvent faker opts]),
        Required ''related_events'' (multiple_of f (fakeEventSummary faker opts)),
        Required ''timeline'' (multiple_of f (fakeEventSummary faker opts))])"

definition fakeEventReplayStatusResponseWritable :: "'s faker \<Rightarrow> 's options option \<Rightarrow> ('s, data) state" where
  "fakeEventReplayStatusResponseWritable faker opts =
     (let f = the_faker faker opts in
      object_of f opts [
        Required ''session_id'' (text_of (string_sample f)),
        Required ''status'' (fakeReplayStatus faker opts),
        Required ''total_events'' (number_of (number_int f [])),
        Required ''replayed_events'' (number_of (number_int f [])),
        Required ''failed_events'' (number_of (number_int f [])),
        Required ''skipped_events'' (number_of (number_int f [])),
        Required ''replay_id'' (text_of (string_sample f)),
        Required ''created_at'' (text_of (date_recent f)),
        Required ''started_at'' (nullable f (text_of (date_recent f))),
        Required ''completed_at'' (nullable f (text_of (date_recent f))),
        Required ''errors'' (nullable f (multiple_of f (fakeReplayError faker opts))),
        Required ''estimated_completion'' (nullable f (text_of (date_recent f))),
        Required ''execution_results'' (nullable f (multiple_of f (fakeExecutionResult faker opts)))])"

definition fakeUserCreateWritable :: "'s faker \<Rightarrow> 's options option \<Rightarrow> ('s, data) state" where
  "fakeUserCreateWritable faker opts =
     (let f = the_faker faker opts in
      object_of f opts [
        Required ''username'' (text_of (internet_username f)),
        Required ''email'' (text_of (internet_email f)),
        Optional ''role'' (fakeUserRole faker opts),
        Optional ''is_active'' (default_or f opts (VBool True) (bool_of (datatype_boolean f None))),
        Required ''password'' (text_of (internet_password f))])"

definition fakeUserUpdateWritable :: "'s faker \<Rightarrow> 's options option \<Rightarrow> ('s, data) state" where
  "fakeUserUpdateWritable faker opts =
     (let f = the_faker faker opts in
      object_of f opts [
        Optional ''username'' (nullable f (text_of (internet_username f))),
        Optional ''email'' (nullable f (text_of (internet_email f))),
        Optional ''role'' (nullable f (fakeUserRole faker opts)),
        Optional ''is_active'' (nullable f (bool_of (datatype_boolean f None))),
        Optional ''password'' (nullable f (text_of (internet_password f)))])"

definition fakeLoginApiV1AuthLoginPostRequest :: "'s faker \<Rightarrow> 's options option \<Rightarrow> ('s, data) state" where
  "fakeLoginApiV1AuthLoginPostRequest faker opts =
     (let f = the_faker faker opts in
      object_of f opts [
        Required ''body'' (fakeBodyLoginApiV1AuthLoginPost faker opts)])"

definition fakeLoginApiV1AuthLoginPostResponse200 :: "'s faker \<Rightarrow> 's options option \<Rightarrow> ('s, data) state" where
  "fakeLoginApiV1AuthLoginPostResponse200 faker opts = fakeLoginResponse faker opts"

definition fakeLoginApiV1AuthLoginPostResponse401 :: "'s faker \<Rightarrow> 's options option \<Rightarrow> ('s, data) state" where
  "fakeLoginApiV1AuthLoginPostResponse401 faker opts = fakeErrorResponse faker opts"

definition fakeLoginApiV1AuthLoginPostResponse403 :: "'s faker \<Rightarrow> 's options option \<Rightarrow> ('s, data) state" where
  "fakeLoginApiV1AuthLoginPostResponse403 faker opts = fakeErrorResponse faker opts"

definition fakeLoginApiV1AuthLoginPostResponse423 :: "'s faker \<Rightarrow> 's options option \<Rightarrow> ('s, data) state" where
  "fakeLoginApiV1AuthLoginPostResponse423 faker opts = fakeErrorResponse faker opts"

definition fakeLoginApiV1AuthLoginPostResponsedefault :: "'s faker \<Rightarrow> 's options option \<Rightarrow> ('s, data) state" where
  "fakeLoginApiV1AuthLoginPostResponsedefault faker opts = fakeErrorResponse faker opts"

definition fakeRegisterApiV1AuthRegisterPostRequest :: "'s faker \<Rightarrow> 's options option \<Rightarrow> ('s, data) state" where
  "fakeRegisterApiV1AuthRegisterPostRequest faker opts =
     (let f = the_faker faker opts in
      object_of f opts [
        Required ''body'' (fakeUserCreateWritable faker opts)])"

definition fakeRegisterApiV1AuthRegisterPostResponse200 :: "'s faker \<Rightarrow> 's options option \<Rightarrow> ('s, data) state" where
  "fakeRegisterApiV1AuthRegisterPostResponse200 faker opts = fakeUserResponse faker opts"

definition fakeRegisterApiV1AuthRegisterPostResponse409 :: "'s faker \<Rightarrow> 's options option \<Rightarrow> ('s, data) state" where
  "fakeRegisterApiV1AuthRegisterPostResponse409 faker opts = fakeErrorResponse faker opts"

definition fakeRegisterApiV1AuthRegisterPostResponse422 :: "'s faker \<Rightarrow> 's options option \<Rightarrow> ('s, data) state" where
  "fakeRegisterApiV1AuthRegisterPostResponse422 faker opts = fakeErrorResponse faker opts"

definition fakeRegisterApiV1AuthRegisterPostResponsedefault :: "'s faker \<Rightarrow> 's options option \<Rightarrow> ('s, data) state" where
  "fakeRegisterApiV1AuthRegisterPostResponsedefault faker opts = fakeErrorResponse faker opts"

definition fakeGetCurrentUserProfileApiV1AuthMeGetResponse200 :: "'s faker \<Rightarrow> 's options option \<Rightarrow> ('s, data) state" where
  "fakeGetCurrentUserProfileApiV1AuthMeGetResponse200 faker opts = fakeUserResponse faker opts"

definition fakeGetCurrentUserProfileApiV1AuthMeGetResponse401 :: "'s faker \<Rightarrow> 's options option \<Rightarrow> ('s, data) state" where
  "fakeGetCurrentUserProfileApiV1AuthMeGetResponse401 faker opts = fakeErrorResponse faker opts"

definition fakeGetCurrentUserProfileApiV1AuthMeGetResponsedefault :: "'s faker \<Rightarrow> 's options option \<Rightarrow> ('s, data) state" where
  "fakeGetCurrentUserProfileApiV1AuthMeGetResponsedefault faker opts = fakeErrorResponse faker opts"

definition fakeLogoutApiV1AuthLogoutPostResponse200 :: "'s faker \<Rightarrow> 's options option \<Rightarrow> ('s, data) state" where
  "fakeLogoutApiV1AuthLogoutPostResponse200 faker opts = fakeMessageResponse faker opts"

definition fakeLogoutApiV1AuthLogoutPostResponse403 :: "'s faker \<Rightarrow> 's options option \<Rightarrow> ('s, data) state" where
  "fakeLogoutApiV1AuthLogoutPostResponse403 faker opts = fakeErrorResponse faker opts"

definition fakeLogoutApiV1AuthLogoutPostResponsedefault :: "'s faker \<Rightarrow> 's options option \<Rightarrow> ('s, data) state" where
  "fakeLogoutApiV1AuthLogoutPostResponsedefault faker opts = fakeErrorResponse faker opts"

definition fakeCreateExecutionApiV1ExecutePostRequest :: "'s faker \<Rightarrow> 's options option \<Rightarrow> ('s, data) state" where
  "fakeCreateExecutionApiV1ExecutePostRequest faker opts =
     (let f = the_faker faker opts in
      object_of f opts [
        Required ''body'' (fakeExecutionRequest faker opts),
        Required ''headers'' (object_of f opts [
          Optional ''Idempotency-Key'' (nullable f (text_of (string_sample f)))])])"

definition fakeCreateExecutionApiV1ExecutePostResponse200 :: "'s faker \<Rightarrow> 's options option \<Rightarrow> ('s, data) state" where
  "fakeCreateExecutionApiV1ExecutePostResponse200 faker opts = fakeExecutionResponse faker opts"

definition fakeCreateExecutionApiV1ExecutePostResponse409 :: "'s faker \<Rightarrow> 's options option \<Rightarrow> ('s, data) state" where
  "fakeCreateExecutionApiV1ExecutePostResponse409 faker opts = fakeErrorResponse faker opts"

definition fakeCreateExecutionApiV1ExecutePostResponse429 :: "'s faker \<Rightarrow> 's options option \<Rightarrow> ('s, data) state" where
  "fakeCreateExecutionApiV1ExecutePostResponse429 faker opts = fakeErrorResponse faker opts"

definition fakeCreateExecutionApiV1ExecutePostResponse500 :: "'s faker \<Rightarrow> 's options option \<Rightarrow> ('s, data) state" where
  "fakeCreateExecutionApiV1ExecutePostResponse500 faker opts = fakeErrorResponse faker opts"

definition fakeCreateExecutionApiV1ExecutePostResponsedefault :: "'s faker \<Rightarrow> 's options option \<Rightarrow> ('s, data) state" where
  "fakeCreateExecutionApiV1ExecutePostResponsedefault faker opts = fakeErrorResponse faker opts"

definition fakeGetResultApiV1ExecutionsExecutionIdResultGetRequest :: "'s faker \<Rightarrow> 's options option \<Rightarrow> ('s, data) state" where
  "fakeGetResultApiV1ExecutionsExecutionIdResultGetRequest faker opts =
     (let f = the_faker faker opts in
      object_of f opts [
        Required ''path'' (object_of f opts [
          Required ''execution_id'' (text_of (string_sample f))])])"

definition fakeGetResultApiV1ExecutionsExecutionIdResultGetResponse200 :: "'s faker \<Rightarrow> 's options option \<Rightarrow> ('s, data) state" where
  "fakeGetResultApiV1ExecutionsExecutionIdResultGetResponse200 faker opts = fakeExecutionResult faker opts"

definition fakeGetResultApiV1ExecutionsExecutionIdResultGetResponse403 :: "'s faker \<Rightarrow> 's options option \<Rightarrow> ('s, data) state" where
  "fakeGetResultApiV1ExecutionsExecutionIdResultGetResponse403 faker opts = fakeErrorResponse faker opts"

definition fakeGetResultApiV1ExecutionsExecutionIdResultGetResponse404 :: "'s faker \<Rightarrow> 's options option \<Rightarrow> ('s, data) state" where
  "fakeGetResultApiV1ExecutionsExecutionIdResultGetResponse404 faker opts = fakeErrorResponse faker opts"

definition fakeGetResultApiV1ExecutionsExecutionIdResultGetResponsedefault :: "'s faker \<Rightarrow> 's options option \<Rightarrow> ('s, data) state" where
  "fakeGetResultApiV1ExecutionsExecutionIdResultGetResponsedefault faker opts = fakeErrorResponse faker opts"

definition fakeCancelExecutionApiV1ExecutionsExecutionIdCancelPostRequest :: "'s faker \<Rightarrow> 's options option \<Rightarrow> ('s, data) state" where
  "fakeCancelExecutionApiV1ExecutionsExecutionIdCancelPostRequest faker opts =
     (let f = the_faker faker opts in
      object_of f opts [
        Required ''path'' (object_of f opts [
          Required ''execution_id'' (text_of (string_sample f))])])"

definition fakeCancelExecutionApiV1ExecutionsExecutionIdCancelPostResponse200 :: "'s faker \<Rightarrow> 's options option \<Rightarrow> ('s, data) state" where
  "fakeCancelExecutionApiV1ExecutionsExecutionIdCancelPostResponse200 faker opts = fakeCancelResponse faker opts"

definition fakeCancelExecutionApiV1ExecutionsExecutionIdCancelPostResponse400 :: "'s faker \<Rightarrow> 's options option \<Rightarrow> ('s, data) state" where
  "fakeCancelExecutionApiV1ExecutionsExecutionIdCancelPostResponse400 faker opts = fakeErrorResponse faker opts"

definition fakeCancelExecutionApiV1ExecutionsExecutionIdCancelPostResponse403 :: "'s faker \<Rightarrow> 's options option \<Rightarrow> ('s, data) state" where
  "fakeCancelExecutionApiV1ExecutionsExecutionIdCancelPostResponse403 faker opts = fakeErrorResponse faker opts"

definition fakeCancelExecutionApiV1ExecutionsExecutionIdCancelPostResponse404 :: "'s faker \<Rightarrow> 's options option \<Rightarrow> ('s, data) state" where
  "fakeCancelExecutionApiV1ExecutionsExecutionIdCancelPostResponse404 faker opts = fakeErrorResponse faker opts"

definition fakeCancelExecutionApiV1ExecutionsExecutionIdCancelPostResponsedefault :: "'s faker \<Rightarrow> 's options option \<Rightarrow> ('s, data) state" where
  "fakeCancelExecutionApiV1ExecutionsExecutionIdCancelPostResponsedefault faker opts = fakeErrorResponse faker opts"

definition fakeRetryExecutionApiV1ExecutionsExecutionIdRetryPostRequest :: "'s faker \<Rightarrow> 's options option \<Rightarrow> ('s, data) state" where
  "fakeRetryExecutionApiV1ExecutionsExecutionIdRetryPostRequest faker opts =
     (let f = the_faker faker opts in
      object_of f opts [
        Required ''path'' (object_of f opts [
          Required ''execution_id'' (text_of (string_sample f))])])"

definition fakeRetryExecutionApiV1ExecutionsExecutionIdRetryPostResponse200 :: "'s faker \<Rightarrow> 's options option \<Rightarrow> ('s, data) state" where
  "fakeRetryExecutionApiV1ExecutionsExecutionIdRetryPostResponse200 faker opts = fakeExecutionResponse faker opts"

definition fakeRetryExecutionApiV1ExecutionsExecutionIdRetryPostResponse400 :: "'s faker \<Rightarrow> 's options option \<Rightarrow> ('s, data) state" where
  "fakeRetryExecutionApiV1ExecutionsExecutionIdRetryPostResponse400 faker opts = fakeErrorResponse faker opts"

definition fakeRetryExecutionApiV1ExecutionsExecutionIdRetryPostResponse403 :: "'s faker \<Rightarrow> 's options option \<Rightarrow> ('s, data) state" where
  "fakeRetryExecutionApiV1ExecutionsExecutionIdRetryPostResponse403 faker opts = fakeErrorResponse faker opts"

definition fakeRetryExecutionApiV1ExecutionsExecutionIdRetryPostResponse404 :: "'s faker \<Rightarrow> 's options option \<Rightarrow> ('s, data) state" where
  "fakeRetryExecutionApiV1ExecutionsExecutionIdRetryPostResponse404 faker opts = fakeErrorResponse faker opts"

definition fakeRetryExecutionApiV1ExecutionsExecutionIdRetryPostResponse422 :: "'s faker \<Rightarrow> 's options option \<Rightarrow> ('s, data) state" where
  "fakeRetryExecutionApiV1ExecutionsExecutionIdRetryPostResponse422 faker opts = fakeErrorResponse faker opts"

definition fakeRetryExecutionApiV1ExecutionsExecutionIdRetryPostResponse429 :: "'s faker \<Rightarrow> 's options option \<Rightarrow> ('s, data) state" where
  "fakeRetryExecutionApiV1ExecutionsExecutionIdRetryPostResponse429 faker opts = fakeErrorResponse faker opts"

definition fakeRetryExecutionApiV1ExecutionsExecutionIdRetryPostResponsedefault :: "'s faker \<Rightarrow> 's options option \<Rightarrow> ('s, data) state" where
  "fakeRetryExecutionApiV1ExecutionsExecutionIdRetryPostResponsedefault faker opts = fakeErrorResponse faker opts"

definition fakeGetExecutionEventsApiV1ExecutionsExecutionIdEventsGetRequest :: "'s faker \<Rightarrow> 's options option \<Rightarrow> ('s, data) state" where
  "fakeGetExecutionEventsApiV1ExecutionsExecutionIdEventsGetRequest faker opts =
     (let f = the_faker faker opts in
      object_of f opts [
        Required ''path'' (object_of f opts [
          Required ''execution_id'' (text_of (string_sample f))]),
        Required ''query'' (object_of f opts [
          Optional ''event_types'' (nullable f (multiple_of f (fakeEventType faker opts))),
          Optional ''limit'' (default_or f opts (VNum 100) (number_of (number_int f [(''min'', 1), (''max'', 1000)])))])])"

definition fakeGetExecutionEventsApiV1ExecutionsExecutionIdEventsGetResponse200 :: "'s faker \<Rightarrow> 's options option \<Rightarrow> ('s, data) state" where
  "fakeGetExecutionEventsApiV1ExecutionsExecutionIdEventsGetResponse200 faker opts =
     (let f = the_faker faker opts in
      multiple_of f (element_of f [
        fakeExecutionRequestedEvent faker opts,
        fakeExecutionAcceptedEvent faker opts,
        fakeExecutionQueuedEvent faker opts,
        fakeExecutionStartedEvent faker opts,
        fakeExecutionRunningEvent faker opts,
        fakeExecutionCompletedEvent faker opts,
        fakeExecutionFailedEvent faker opts,
        fakeExecutionTimeoutEvent faker opts,
        fakeExecutionCancelledEvent faker opts,
        fakePodCreatedEvent faker opts,
        fakePodScheduledEvent faker opts,
        fakePodRunningEvent faker opts,
        fakePodSucceededEvent faker opts,
        fakePodFailedEvent faker opts,
        fakePodTerminatedEvent faker opts,
        fakePodDeletedEvent faker opts,
        fakeResultStoredEvent faker opts,
        fakeResultFailedEvent faker opts,
        fakeUserSettingsUpdatedEvent faker opts,
        fakeUserRegisteredEvent faker opts,
        fakeUserLoginEvent faker opts,
        fakeUserLoggedInEvent faker opts,
        fakeUserLoggedOutEvent faker opts,
        fakeUserUpdatedEvent faker opts,
        fakeUserDeletedEvent faker opts,
        fakeNotificationCreatedEvent faker opts,
        fakeNotificationSentEvent faker opts,
        fakeNotificationDeliveredEvent faker opts,
        fakeNotificationFailedEvent faker opts,
        fakeNotificationReadEvent faker opts,
        fakeNotificationAllReadEvent faker opts,
        fakeNotificationClickedEvent faker opts,
        fakeNotificationPreferencesUpdatedEvent faker opts,
        fakeScriptSavedEvent faker opts,
        fakeScriptDeletedEvent faker opts,
        fakeScriptSharedEvent faker opts,
        fakeSecurityViolationEvent faker opts,
        fakeRateLimitExceededEvent faker opts,
        fakeAuthFailedEvent faker opts,
        fakeResourceLimitExceededEvent faker opts,
        fakeQuotaExceededEvent faker opts,
        fakeSystemErrorEvent faker opts,
        fakeServiceUnhealthyEvent faker opts,
        fakeServiceRecoveredEvent faker opts,
        fakeDlqMessageReceivedEvent faker opts,
        fakeDlqMessageRetriedEvent faker opts,
        fakeDlqMessageDiscardedEvent faker opts]))"

definition fakeGetExecutionEventsApiV1ExecutionsExecutionIdEventsGetResponse403 :: "'s faker \<Rightarrow> 's options option \<Rightarrow> ('s, data) state" where
  "fakeGetExecutionEventsApiV1ExecutionsExecutionIdEventsGetResponse403 faker opts = fakeErrorResponse faker opts"

definition fakeGetExecutionEventsApiV1ExecutionsExecutionIdEventsGetResponse404 :: "'s faker \<Rightarrow> 's options option \<Rightarrow> ('s, data) state" where
  "fakeGetExecutionEventsApiV1ExecutionsExecutionIdEventsGetResponse404 faker opts = fakeErrorResponse faker opts"

definition fakeGetExecutionEventsApiV1ExecutionsExecutionIdEventsGetResponsedefault :: "'s faker \<Rightarrow> 's options option \<Rightarrow> ('s, data) state" where
  "fakeGetExecutionEventsApiV1ExecutionsExecutionIdEventsGetResponsedefault faker opts = fakeErrorResponse faker opts"

definition fakeGetUserExecutionsApiV1UserExecutionsGetRequest :: "'s faker \<Rightarrow> 's options option \<Rightarrow> ('s, data) state" where
  "fakeGetUserExecutionsApiV1UserExecutionsGetRequest faker opts =
     (let f = the_faker faker opts in
      object_of f opts [
        Required ''query'' (object_of f opts [
          Optional ''status'' (nullable f (fakeExecutionStatus faker opts)),
          Optional ''lang'' (nullable f (text_of (string_sample f))),
          Optional ''start_time'' (nullable f (text_of (date_recent f))),
          Optional ''end_time'' (nullable f (text_of (date_recent f))),
          Optional ''limit'' (default_or f opts (VNum 50) (number_of (number_int f [(''min'', 1), (''max'', 200)]))),
          Optional ''skip'' (default_or f opts (VNum 0) (number_of (number_int f [(''min'', 0)])))])])"

definition fakeGetUserExecutionsApiV1UserExecutionsGetResponse200 :: "'s faker \<Rightarrow> 's options option \<Rightarrow> ('s, data) state" where
  "fakeGetUserExecutionsApiV1UserExecutionsGetResponse200 faker opts = fakeExecutionListResponse faker opts"

definition fakeGetUserExecutionsApiV1UserExecutionsGetResponsedefault :: "'s faker \<Rightarrow> 's options option \<Rightarrow> ('s, data) state" where
  "fakeGetUserExecutionsApiV1UserExecutionsGetResponsedefault faker opts = fakeErrorResponse faker opts"

definition fakeGetExampleScriptsApiV1ExampleScriptsGetResponse200 :: "'s faker \<Rightarrow> 's options option \<Rightarrow> ('s, data) state" where
  "fakeGetExampleScriptsApiV1ExampleScriptsGetResponse200 faker opts = fakeExampleScripts faker opts"

definition fakeGetExampleScriptsApiV1ExampleScriptsGetResponsedefault :: "'s faker \<Rightarrow> 's options option \<Rightarrow> ('s, data) state" where
  "fakeGetExampleScriptsApiV1ExampleScriptsGetResponsedefault faker opts = fakeErrorResponse faker opts"

definition fakeGetK8sResourceLimitsApiV1K8sLimitsGetResponse200 :: "'s faker \<Rightarrow> 's options option \<Rightarrow> ('s, data) state" where
  "fakeGetK8sResourceLimitsApiV1K8sLimitsGetResponse200 faker opts = fakeResourceLimits faker opts"

definition fakeGetK8sResourceLimitsApiV1K8sLimitsGetResponsedefault :: "'s faker \<Rightarrow> 's options option \<Rightarrow> ('s, data) state" where
  "fakeGetK8sResourceLimitsApiV1K8sLimitsGetResponsedefault faker opts = fakeErrorResponse faker opts"

definition fakeDeleteExecutionApiV1ExecutionsExecutionIdDeleteRequest :: "'s faker \<Rightarrow> 's options option \<Rightarrow> ('s, data) state" where
  "fakeDeleteExecutionApiV1ExecutionsExecutionIdDeleteRequest faker opts =
     (let f = the_faker faker opts in
      object_of f opts [
        Required ''path'' (object_of f opts [
          Required ''execution_id'' (text_of (string_sample f))])])"

definition fakeDeleteExecutionApiV1ExecutionsExecutionIdDeleteResponse200 :: "'s faker \<Rightarrow> 's options option \<Rightarrow> ('s, data) state" where
  "fakeDeleteExecutionApiV1ExecutionsExecutionIdDeleteResponse200 faker opts = fakeDeleteResponse faker opts"

definition fakeDeleteExecutionApiV1ExecutionsExecutionIdDeleteResponsedefault :: "'s faker \<Rightarrow> 's options option \<Rightarrow> ('s, data) state" where
  "fakeDeleteExecutionApiV1ExecutionsExecutionIdDeleteResponsedefault faker opts = fakeErrorResponse faker opts"

definition fakeListSavedScriptsApiV1ScriptsGetResponse200 :: "'s faker \<Rightarrow> 's options option \<Rightarrow> ('s, data) state" where
  "fakeListSavedScriptsApiV1ScriptsGetResponse200 faker opts = fakeSavedScriptListResponse faker opts"

definition fakeListSavedScriptsApiV1ScriptsGetResponsedefault :: "'s faker \<Rightarrow> 's options option \<Rightarrow> ('s, data) state" where
  "fakeListSavedScriptsApiV1ScriptsGetResponsedefault faker opts = fakeErrorResponse faker opts"

definition fakeCreateSavedScriptApiV1ScriptsPostRequest :: "'s faker \<Rightarrow> 's options option \<Rightarrow> ('s, data) state" where
  "fakeCreateSavedScriptApiV1ScriptsPostRequest faker opts =
     (let f = the_faker faker opts in
      object_of f opts [
        Required ''body'' (fakeSavedScriptCreateRequest faker opts)])"

definition fakeCreateSavedScriptApiV1ScriptsPostResponse200 :: "'s faker \<Rightarrow> 's options option \<Rightarrow> ('s, data) state" where
  "fakeCreateSavedScriptApiV1ScriptsPostResponse200 faker opts = fakeSavedScriptResponse faker opts"

definition fakeCreateSavedScriptApiV1ScriptsPostResponse422 :: "'s faker \<Rightarrow> 's options option \<Rightarrow> ('s, data) state" where
  "fakeCreateSavedScriptApiV1ScriptsPostResponse422 faker opts = fakeErrorResponse faker opts"

definition fakeCreateSavedScriptApiV1ScriptsPostResponsedefault :: "'s faker \<Rightarrow> 's options option \<Rightarrow> ('s, data) state" where
  "fakeCreateSavedScriptApiV1ScriptsPostResponsedefault faker opts = fakeErrorResponse faker opts"

definition fakeDeleteSavedScriptApiV1ScriptsScriptIdDeleteRequest :: "'s faker \<Rightarrow> 's options option \<Rightarrow> ('s, data) state" where
  "fakeDeleteSavedScriptApiV1ScriptsScriptIdDeleteRequest faker opts =
     (let f = the_faker faker opts in
      object_of f opts [
        Required ''path'' (object_of f opts [
          Required ''script_id'' (text_of (string_sample f))])])"

definition fakeDeleteSavedScriptApiV1ScriptsScriptIdDeleteResponse404 :: "'s faker \<Rightarrow> 's options option \<Rightarrow> ('s, data) state" where
  "fakeDeleteSavedScriptApiV1ScriptsScriptIdDeleteResponse404 faker opts = fakeErrorResponse faker opts"

definition fakeDeleteSavedScriptApiV1ScriptsScriptIdDeleteResponsedefault :: "'s faker \<Rightarrow> 's options option \<Rightarrow> ('s, data) state" where
  "fakeDeleteSavedScriptApiV1ScriptsScriptIdDeleteResponsedefault faker opts = fakeErrorResponse faker opts"

definition fakeGetSavedScriptApiV1ScriptsScriptIdGetRequest :: "'s faker \<Rightarrow> 's options option \<Rightarrow> ('s, data) state" where
  "fakeGetSavedScriptApiV1ScriptsScriptIdGetRequest faker opts =
     (let f = the_faker faker opts in
      object_of f opts [
        Required ''path'' (object_of f opts [
          Required ''script_id'' (text_of (string_sample f))])])"

definition fakeGetSavedScriptApiV1ScriptsScriptIdGetResponse200 :: "'s faker \<Rightarrow> 's options option \<Rightarrow> ('s, data) state" where
  "fakeGetSavedScriptApiV1ScriptsScriptIdGetResponse200 faker opts = fakeSavedScriptResponse faker opts"

definition fakeGetSavedScriptApiV1ScriptsScriptIdGetResponse404 :: "'s faker \<Rightarrow> 's options option \<Rightarrow> ('s, data) state" where
  "fakeGetSavedScriptApiV1ScriptsScriptIdGetResponse404 faker opts = fakeErrorResponse faker opts"

definition fakeGetSavedScriptApiV1ScriptsScriptIdGetResponsedefault :: "'s faker \<Rightarrow> 's options option \<Rightarrow> ('s, data) state" where
  "fakeGetSavedScriptApiV1ScriptsScriptIdGetResponsedefault faker opts = fakeErrorResponse faker opts"

definition fakeUpdateSavedScriptApiV1ScriptsScriptIdPutRequest :: "'s faker \<Rightarrow> 's options option \<Rightarrow> ('s, data) state" where
  "fakeUpdateSavedScriptApiV1ScriptsScriptIdPutRequest faker opts =
     (let f = the_faker faker opts in
      object_of f opts [
        Required ''body'' (fakeSavedScriptUpdate faker opts),
        Required ''path'' (object_of f opts [
          Required ''script_id'' (text_of (string_sample f))])])"

definition fakeUpdateSavedScriptApiV1ScriptsScriptIdPutResponse200 :: "'s faker \<Rightarrow> 's options option \<Rightarrow> ('s, data) state" where
  "fakeUpdateSavedScriptApiV1ScriptsScriptIdPutResponse200 faker opts = fakeSavedScriptResponse faker opts"

definition fakeUpdateSavedScriptApiV1ScriptsScriptIdPutResponse404 :: "'s faker \<Rightarrow> 's options option \<Rightarrow> ('s, data) state" where
  "fakeUpdateSavedScriptApiV1ScriptsScriptIdPutResponse404 faker opts = fakeErrorResponse faker opts"

definition fakeUpdateSavedScriptApiV1ScriptsScriptIdPutResponse422 :: "'s faker \<Rightarrow> 's options option \<Rightarrow> ('s, data) state" where
  "fakeUpdateSavedScriptApiV1ScriptsScriptIdPutResponse422 faker opts = fakeErrorResponse faker opts"

definition fakeUpdateSavedScriptApiV1ScriptsScriptIdPutResponsedefault :: "'s faker \<Rightarrow> 's options option \<Rightarrow> ('s, data) state" where
  "fakeUpdateSavedScriptApiV1ScriptsScriptIdPutResponsedefault faker opts = fakeErrorResponse faker opts"

definition fakeLivenessApiV1HealthLiveGetResponse200 :: "'s faker \<Rightarrow> 's options option \<Rightarrow> ('s, data) state" where
  "fakeLivenessApiV1HealthLiveGetResponse200 faker opts = fakeLivenessResponse faker opts"

definition fakeLivenessApiV1HealthLiveGetResponsedefault :: "'s faker \<Rightarrow> 's options option \<Rightarrow> ('s, data) state" where
  "fakeLivenessApiV1HealthLiveGetResponsedefault faker opts = fakeErrorResponse faker opts"

definition fakeNotificationStreamApiV1EventsNotificationsStreamGetResponse200 :: "'s faker \<Rightarrow> 's options option \<Rightarrow> ('s, data) state" where
  "fakeNotificationStreamApiV1EventsNotificationsStreamGetResponse200 faker opts = fakeNotificationResponse faker opts"

definition fakeNotificationStreamApiV1EventsNotificationsStreamGetResponsedefault :: "'s faker \<Rightarrow> 's options option \<Rightarrow> ('s, data) state" where
  "fakeNotificationStreamApiV1EventsNotificationsStreamGetResponsedefault faker opts = fakeErrorResponse faker opts"

definition fakeExecutionEventsApiV1EventsExecutionsExecutionIdGetRequest :: "'s faker \<Rightarrow> 's options option \<Rightarrow> ('s, data) state" where
  "fakeExecutionEventsApiV1EventsExecutionsExecutionIdGetRequest faker opts =
     (let f = the_faker faker opts in
      object_of f opts [
        Required ''path'' (object_of f opts [
          Required ''execution_id'' (text_of (string_sample f))])])"

definition fakeExecutionEventsApiV1EventsExecutionsExecutionIdGetResponse200 :: "'s faker \<Rightarrow> 's options option \<Rightarrow> ('s, data) state" where
  "fakeExecutionEventsApiV1EventsExecutionsExecutionIdGetResponse200 faker opts = fakeSseExecutionEventSchema faker opts"

definition fakeExecutionEventsApiV1EventsExecutionsExecutionIdGetResponsedefault :: "'s faker \<Rightarrow> 's options option \<Rightarrow> ('s, data) state" where
  "fakeExecutionEventsApiV1EventsExecutionsExecutionIdGetResponsedefault faker opts = fakeErrorResponse faker opts"

definition fakeBrowseEventsApiV1AdminEventsBrowsePostRequest :: "'s faker \<Rightarrow> 's options option \<Rightarrow> ('s, data) state" where
  "fakeBrowseEventsApiV1AdminEventsBrowsePostRequest faker opts =
     (let f = the_faker faker opts in
      object_of f opts [
        Required ''body'' (fakeEventBrowseRequest faker opts)])"

definition fakeBrowseEventsApiV1AdminEventsBrowsePostResponse200 :: "'s faker \<Rightarrow> 's options option \<Rightarrow> ('s, data) state" where
  "fakeBrowseEventsApiV1AdminEventsBrowsePostResponse200 faker opts = fakeEventBrowseResponse faker opts"

definition fakeBrowseEventsApiV1AdminEventsBrowsePostResponsedefault :: "'s faker \<Rightarrow> 's options option \<Rightarrow> ('s, data) state" where
  "fakeBrowseEventsApiV1AdminEventsBrowsePostResponsedefault faker opts = fakeErrorResponse faker opts"

definition fakeGetEventStatsApiV1AdminEventsStatsGetRequest :: "'s faker \<Rightarrow> 's options option \<Rightarrow> ('s, data) state" where
  "fakeGetEventStatsApiV1AdminEventsStatsGetRequest faker opts =
     (let f = the_faker faker opts in
      object_of f opts [
        Required ''query'' (object_of f opts [
          Optional ''hours'' (default_or f opts (VNum 24) (number_of (number_int f [(''min'', 1), (''max'', 168)])))])])"

definition fakeGetEventStatsApiV1AdminEventsStatsGetResponse200 :: "'s faker \<Rightarrow> 's options option \<Rightarrow> ('s, data) state" where
  "fakeGetEventStatsApiV1AdminEventsStatsGetResponse200 faker opts = fakeEventStatsResponse faker opts"

definition fakeGetEventStatsApiV1AdminEventsStatsGetResponsedefault :: "'s faker \<Rightarrow> 's options option \<Rightarrow> ('s, data) state" where
  "fakeGetEventStatsApiV1AdminEventsStatsGetResponsedefault faker opts = fakeErrorResponse faker opts"

definition fakeExportEventsApiV1AdminEventsExportExportFormatGetRequest :: "'s faker \<Rightarrow> 's options option \<Rightarrow> ('s, data) state" where
  "fakeExportEventsApiV1AdminEventsExportExportFormatGetRequest faker opts =
     (let f = the_faker faker opts in
      object_of f opts [
        Required ''path'' (object_of f opts [
          Required ''export_format'' (fakeExportFormat faker opts)]),
        Required ''query'' (object_of f opts [
          Optional ''event_types'' (nullable f (multiple_of f (fakeEventType faker opts))),
          Optional ''aggregate_id'' (nullable f (text_of (string_sample f))),
          Optional ''user_id'' (nullable f (text_of (string_sample f))),
          Optional ''service_name'' (nullable f (text_of (string_sample f))),
          Optional ''start_time'' (nullable f (text_of (date_recent f))),
          Optional ''end_time'' (nullable f (text_of (date_recent f))),
          Optional ''limit'' (default_or f opts (VNum 10000) (number_of (number_int f [(''min'', 1), (''max'', 50000)])))])])"

definition fakeExportEventsApiV1AdminEventsExportExportFormatGetResponse200 :: "('s, data) state" where
  "fakeExportEventsApiV1AdminEventsExportExportFormatGetResponse200 = const VUndefined"

definition fakeExportEventsApiV1AdminEventsExportExportFormatGetResponsedefault :: "'s faker \<Rightarrow> 's options option \<Rightarrow> ('s, data) state" where
  "fakeExportEventsApiV1AdminEventsExportExportFormatGetResponsedefault faker opts = fakeErrorResponse faker opts"

definition fakeDeleteEventApiV1AdminEventsEventIdDeleteRequest :: "'s faker \<Rightarrow> 's options option \<Rightarrow> ('s, data) state" where
  "fakeDeleteEventApiV1AdminEventsEventIdDeleteRequest faker opts =
     (let f = the_faker faker opts in
      object_of f opts [
        Required ''path'' (object_of f opts [
          Required ''event_id'' (text_of (string_sample f))])])"

definition fakeDeleteEventApiV1AdminEventsEventIdDeleteResponse200 :: "'s faker \<Rightarrow> 's options option \<Rightarrow> ('s, data) state" where
  "fakeDeleteEventApiV1AdminEventsEventIdDeleteResponse200 faker opts = fakeEventDeleteResponse faker opts"

definition fakeDeleteEventApiV1AdminEventsEventIdDeleteResponse404 :: "'s faker \<Rightarrow> 's options option \<Rightarrow> ('s, data) state" where
  "fakeDeleteEventApiV1AdminEventsEventIdDeleteResponse404 faker opts = fakeErrorResponse faker opts"

definition fakeDeleteEventApiV1AdminEventsEventIdDeleteResponsedefault :: "'s faker \<Rightarrow> 's options option \<Rightarrow> ('s, data) state" where
  "fakeDeleteEventApiV1AdminEventsEventIdDeleteResponsedefault faker opts = fakeErrorResponse faker opts"

definition fakeGetEventDetailApiV1AdminEventsEventIdGetRequest :: "'s faker \<Rightarrow> 's options option \<Rightarrow> ('s, data) state" where
  "fakeGetEventDetailApiV1AdminEventsEventIdGetRequest faker opts =
     (let f = the_faker faker opts in
      object_of f opts [
        Required ''path'' (object_of f opts [
          Required ''event_id'' (text_of (string_sample f))])])"

definition fakeGetEventDetailApiV1AdminEventsEventIdGetResponse200 :: "'s faker \<Rightarrow> 's options option \<Rightarrow> ('s, data) state" where
  "fakeGetEventDetailApiV1AdminEventsEventIdGetResponse200 faker opts = fakeEventDetailResponse faker opts"

definition fakeGetEventDetailApiV1AdminEventsEventIdGetResponse404 :: "'s faker \<Rightarrow> 's options option \<Rightarrow> ('s, data) state" where
  "fakeGetEventDetailApiV1AdminEventsEventIdGetResponse404 faker opts = fakeErrorResponse faker opts"

definition fakeGetEventDetailApiV1AdminEventsEventIdGetResponsedefault :: "'s faker \<Rightarrow> 's options option \<Rightarrow> ('s, data) state" where
  "fakeGetEventDetailApiV1AdminEventsEventIdGetResponsedefault faker opts = fakeErrorResponse faker opts"

definition fakeReplayEventsApiV1AdminEventsReplayPostRequest :: "'s faker \<Rightarrow> 's options option \<Rightarrow> ('s, data) state" where
  "fakeReplayEventsApiV1AdminEventsReplayPostRequest faker opts =
     (let f = the_faker faker opts in
      object_of f opts [
        Required ''body'' (fakeEventReplayRequest faker opts)])"

definition fakeReplayEventsApiV1AdminEventsReplayPostResponse200 :: "'s faker \<Rightarrow> 's options option \<Rightarrow> ('s, data) state" where
  "fakeReplayEventsApiV1AdminEventsReplayPostResponse200 faker opts = fakeEventReplayResponse faker opts"

definition fakeReplayEventsApiV1AdminEventsReplayPostResponse404 :: "'s faker \<Rightarrow> 's options option \<Rightarrow> ('s, data) state" where
  "fakeReplayEventsApiV1AdminEventsReplayPostResponse404 faker opts = fakeErrorResponse faker opts"

definition fakeReplayEventsApiV1AdminEventsReplayPostResponse422 :: "'s faker \<Rightarrow> 's options option \<Rightarrow> ('s, data) state" where
  "fakeReplayEventsApiV1AdminEventsReplayPostResponse422 faker opts = fakeErrorResponse faker opts"

definition fakeReplayEventsApiV1AdminEventsReplayPostResponsedefault :: "'s faker \<Rightarrow> 's options option \<Rightarrow> ('s, data) state" where
  "fakeReplayEventsApiV1AdminEventsReplayPostResponsedefault faker opts = fakeErrorResponse faker opts"

definition fakeStreamReplayStatusApiV1AdminEventsReplaySessionIdStatusGetRequest :: "'s faker \<Rightarrow> 's options option \<Rightarrow> ('s, data) state" where
  "fakeStreamReplayStatusApiV1AdminEventsReplaySessionIdStatusGetRequest faker opts =
     (let f = the_faker faker opts in
      object_of f opts [
        Required ''path'' (object_of f opts [
          Required ''session_id'' (text_of (string_sample f))])])"

definition fakeStreamReplayStatusApiV1AdminEventsReplaySessionIdStatusGetResponse200 :: "'s faker \<Rightarrow> 's options option \<Rightarrow> ('s, data) state" where
  "fakeStreamReplayStatusApiV1AdminEventsReplaySessionIdStatusGetResponse200 faker opts = fakeEventReplayStatusResponse faker opts"

definition fakeStreamReplayStatusApiV1AdminEventsReplaySessionIdStatusGetResponsedefault :: "'s faker \<Rightarrow> 's options option \<Rightarrow> ('s, data) state" where
  "fakeStreamReplayStatusApiV1AdminEventsReplaySessionIdStatusGetResponsedefault faker opts = fakeErrorResponse faker opts"

definition fakeListExecutionsApiV1AdminExecutionsGetRequest :: "'s faker \<Rightarrow> 's options option \<Rightarrow> ('s, data) state" where
  "fakeListExecutionsApiV1AdminExecutionsGetRequest faker opts =
     (let f = the_faker faker opts in
      object_of f opts [
        Required ''query'' (object_of f opts [
          Optional ''status'' (nullable f (fakeExecutionStatus faker opts)),
          Optional ''priority'' (nullable f (fakeQueuePriority faker opts)),
          Optional ''user_id'' (nullable f (text_of (string_sample f))),
          Optional ''limit'' (default_or f opts (VNum 50) (number_of (number_int f [(''min'', 1), (''max'', 200)]))),
          Optional ''skip'' (default_or f opts (VNum 0) (number_of (number_int f [(''min'', 0)])))])])"

definition fakeListExecutionsApiV1AdminExecutionsGetResponse200 :: "'s faker \<Rightarrow> 's options option \<Rightarrow> ('s, data) state" where
  "fakeListExecutionsApiV1AdminExecutionsGetResponse200 faker opts = fakeAdminExecutionListResponse faker opts"

definition fakeListExecutionsApiV1AdminExecutionsGetResponse403 :: "'s faker \<Rightarrow> 's options option \<Rightarrow> ('s, data) state" where
  "fakeListExecutionsApiV1AdminExecutionsGetResponse403 faker opts = fakeErrorResponse faker opts"

definition fakeListExecutionsApiV1AdminExecutionsGetResponsedefault :: "'s faker \<Rightarrow> 's options option \<Rightarrow> ('s, data) state" where
  "fakeListExecutionsApiV1AdminExecutionsGetResponsedefault faker opts = fakeErrorResponse faker opts"

definition fakeUpdatePriorityApiV1AdminExecutionsExecutionIdPriorityPutRequest :: "'s faker \<Rightarrow> 's options option \<Rightarrow> ('s, data) state" where
  "fakeUpdatePriorityApiV1AdminExecutionsExecutionIdPriorityPutRequest faker opts =
     (let f = the_faker faker opts in
      object_of f opts [
        Required ''body'' (fakePriorityUpdateRequest faker opts),
        Required ''path'' (object_of f opts [
          Required ''execution_id'' (text_of (string_sample f))])])"

definition fakeUpdatePriorityApiV1AdminExecutionsExecutionIdPriorityPutResponse200 :: "'s faker \<Rightarrow> 's options option \<Rightarrow> ('s, data) state" where
  "fakeUpdatePriorityApiV1AdminExecutionsExecutionIdPriorityPutResponse200 faker opts = fakeAdminExecutionResponse faker opts"

definition fakeUpdatePriorityApiV1AdminExecutionsExecutionIdPriorityPutResponse403 :: "'s faker \<Rightarrow> 's options option \<Rightarrow> ('s, data) state" where
  "fakeUpdatePriorityApiV1AdminExecutionsExecutionIdPriorityPutResponse403 faker opts = fakeErrorResponse faker opts"

definition fakeUpdatePriorityApiV1AdminExecutionsExecutionIdPriorityPutResponse404 :: "'s faker \<Rightarrow> 's options option \<Rightarrow> ('s, data) state" where
  "fakeUpdatePriorityApiV1AdminExecutionsExecutionIdPriorityPutResponse404 faker opts = fakeErrorResponse faker opts"

definition fakeUpdatePriorityApiV1AdminExecutionsExecutionIdPriorityPutResponsedefault :: "'s faker \<Rightarrow> 's options option \<Rightarrow> ('s, data) state" where
  "fakeUpdatePriorityApiV1AdminExecutionsExecutionIdPriorityPutResponsedefault faker opts = fakeErrorResponse faker opts"

definition fakeGetQueueStatusApiV1AdminExecutionsQueueGetResponse200 :: "'s faker \<Rightarrow> 's options option \<Rightarrow> ('s, data) state" where
  "fakeGetQueueStatusApiV1AdminExecutionsQueueGetResponse200 faker opts = fakeQueueStatusResponse faker opts"

definition fakeGetQueueStatusApiV1AdminExecutionsQueueGetResponse403 :: "'s faker \<Rightarrow> 's options option \<Rightarrow> ('s, data) state" where
  "fakeGetQueueStatusApiV1AdminExecutionsQueueGetResponse403 faker opts = fakeErrorResponse faker opts"

definition fakeGetQueueStatusApiV1AdminExecutionsQueueGetResponsedefault :: "'s faker \<Rightarrow> 's options option \<Rightarrow> ('s, data) state" where
  "fakeGetQueueStatusApiV1AdminExecutionsQueueGetResponsedefault faker opts = fakeErrorResponse faker opts"

definition fakeGetDefaultRateLimitRulesApiV1AdminRateLimitsDefaultsGetResponse200 :: "'s faker \<Rightarrow> 's options option \<Rightarrow> ('s, data) state" where
  "fakeGetDefaultRateLimitRulesApiV1AdminRateLimitsDefaultsGetResponse200 faker opts =
     (let f = the_faker faker opts in
      multiple_of f (fakeRateLimitRuleResponse faker opts))"

definition fakeGetDefaultRateLimitRulesApiV1AdminRateLimitsDefaultsGetResponsedefault :: "'s faker \<Rightarrow> 's options option \<Rightarrow> ('s, data) state" where
  "fakeGetDefaultRateLimitRulesApiV1AdminRateLimitsDefaultsGetResponsedefault faker opts = fakeErrorResponse faker opts"

definition fakeGetUserRateLimitsApiV1AdminRateLimitsUserIdGetRequest :: "'s faker \<Rightarrow> 's options option \<Rightarrow> ('s, data) state" where
  "fakeGetUserRateLimitsApiV1AdminRateLimitsUserIdGetRequest faker opts =
     (let f = the_faker faker opts in
      object_of f opts [
        Required ''path'' (object_of f opts [
          Required ''user_id'' (text_of (string_sample f))])])"

definition fakeGetUserRateLimitsApiV1AdminRateLimitsUserIdGetResponse200 :: "'s faker \<Rightarrow> 's options option \<Rightarrow> ('s, data) state" where
  "fakeGetUserRateLimitsApiV1AdminRateLimitsUserIdGetResponse200 faker opts = fakeUserRateLimitsResponse faker opts"

definition fakeGetUserRateLimitsApiV1AdminRateLimitsUserIdGetResponsedefault :: "'s faker \<Rightarrow> 's options option \<Rightarrow> ('s, data) state" where
  "fakeGetUserRateLimitsApiV1AdminRateLimitsUserIdGetResponsedefault faker opts = fakeErrorResponse faker opts"

definition fakeUpdateUserRateLimitsApiV1AdminRateLimitsUserIdPutRequest :: "'s faker \<Rightarrow> 's options option \<Rightarrow> ('s, data) state" where
  "fakeUpdateUserRateLimitsApiV1AdminRateLimitsUserIdPutRequest faker opts =
     (let f = the_faker faker opts in
      object_of f opts [
        Required ''body'' (fakeRateLimitUpdateRequest faker opts),
        Required ''path'' (object_of f opts [
          Required ''user_id'' (text_of (string_sample f))])])"

definition fakeUpdateUserRateLimitsApiV1AdminRateLimitsUserIdPutResponse200 :: "'s faker \<Rightarrow> 's options option \<Rightarrow> ('s, data) state" where
  "fakeUpdateUserRateLimitsApiV1AdminRateLimitsUserIdPutResponse200 faker opts = fakeRateLimitUpdateResponse faker opts"

definition fakeUpdateUserRateLimitsApiV1AdminRateLimitsUserIdPutResponsedefault :: "'s faker \<Rightarrow> 's options option \<Rightarrow> ('s, data) state" where
  "fakeUpdateUserRateLimitsApiV1AdminRateLimitsUserIdPutResponsedefault faker opts = fakeErrorResponse faker opts"

definition fakeResetUserRateLimitsApiV1AdminRateLimitsUserIdResetPostRequest :: "'s faker \<Rightarrow> 's options option \<Rightarrow> ('s, data) state" where
  "fakeResetUserRateLimitsApiV1AdminRateLimitsUserIdResetPostRequest faker opts =
     (let f = the_faker faker opts in
      object_of f opts [
        Required ''path'' (object_of f opts [
          Required ''user_id'' (text_of (string_sample f))])])"

definition fakeResetUserRateLimitsApiV1AdminRateLimitsUserIdResetPostResponse200 :: "'s faker \<Rightarrow> 's options option \<Rightarrow> ('s, data) state" where
  "fakeResetUserRateLimitsApiV1AdminRateLimitsUserIdResetPostResponse200 faker opts = fakeMessageResponse faker opts"

definition fakeResetUserRateLimitsApiV1AdminRateLimitsUserIdResetPostResponsedefault :: "'s faker \<Rightarrow> 's options option \<Rightarrow> ('s, data) state" where
  "fakeResetUserRateLimitsApiV1AdminRateLimitsUserIdResetPostResponsedefault faker opts = fakeErrorResponse faker opts"

definition fakeGetSystemSettingsApiV1AdminSettingsGetResponse200 :: "'s faker \<Rightarrow> 's options option \<Rightarrow> ('s, data) state" where
  "fakeGetSystemSettingsApiV1AdminSettingsGetResponse200 faker opts = fakeSystemSettingsSchemaOutput faker opts"

definition fakeGetSystemSettingsApiV1AdminSettingsGetResponse500 :: "'s faker \<Rightarrow> 's options option \<Rightarrow> ('s, data) state" where
  "fakeGetSystemSettingsApiV1AdminSettingsGetResponse500 faker opts = fakeErrorResponse faker opts"

definition fakeGetSystemSettingsApiV1AdminSettingsGetResponsedefault :: "'s faker \<Rightarrow> 's options option \<Rightarrow> ('s, data) state" where
  "fakeGetSystemSettingsApiV1AdminSettingsGetResponsedefault faker opts = fakeErrorResponse faker opts"

definition fakeUpdateSystemSettingsApiV1AdminSettingsPutRequest :: "'s faker \<Rightarrow> 's options option \<Rightarrow> ('s, data) state" where
  "fakeUpdateSystemSettingsApiV1AdminSettingsPutRequest faker opts =
     (let f = the_faker faker opts in
      object_of f opts [
        Required ''body'' (fakeSystemSettingsSchemaInput faker opts)])"

definition fakeUpdateSystemSettingsApiV1AdminSettingsPutResponse200 :: "'s faker \<Rightarrow> 's options option \<Rightarrow> ('s, data) state" where
  "fakeUpdateSystemSettingsApiV1AdminSettingsPutResponse200 faker opts = fakeSystemSettingsSchemaOutput faker opts"

definition fakeUpdateSystemSettingsApiV1AdminSettingsPutResponse400 :: "'s faker \<Rightarrow> 's options option \<Rightarrow> ('s, data) state" where
  "fakeUpdateSystemSettingsApiV1AdminSettingsPutResponse400 faker opts = fakeErrorResponse faker opts"

definition fakeUpdateSystemSettingsApiV1AdminSettingsPutResponse422 :: "'s faker \<Rightarrow> 's options option \<Rightarrow> ('s, data) state" where
  "fakeUpdateSystemSettingsApiV1AdminSettingsPutResponse422 faker opts = fakeErrorResponse faker opts"

definition fakeUpdateSystemSettingsApiV1AdminSettingsPutResponse500 :: "'s faker \<Rightarrow> 's options option \<Rightarrow> ('s, data) state" where
  "fakeUpdateSystemSettingsApiV1AdminSettingsPutResponse500 faker opts = fakeErrorResponse faker opts"

definition fakeUpdateSystemSettingsApiV1AdminSettingsPutResponsedefault :: "'s faker \<Rightarrow> 's options option \<Rightarrow> ('s, data) state" where
  "fakeUpdateSystemSettingsApiV1AdminSettingsPutResponsedefault faker opts = fakeErrorResponse faker opts"

definition fakeResetSystemSettingsApiV1AdminSettingsResetPostResponse200 :: "'s faker \<Rightarrow> 's options option \<Rightarrow> ('s, data) state" where
  "fakeResetSystemSettingsApiV1AdminSettingsResetPostResponse200 faker opts = fakeSystemSettingsSchemaOutput faker opts"

definition fakeResetSystemSettingsApiV1AdminSettingsResetPostResponse500 :: "'s faker \<Rightarrow> 's options option \<Rightarrow> ('s, data) state" where
  "fakeResetSystemSettingsApiV1AdminSettingsResetPostResponse500 faker opts = fakeErrorResponse faker opts"

definition fakeResetSystemSettingsApiV1AdminSettingsResetPostResponsedefault :: "'s faker \<Rightarrow> 's options option \<Rightarrow> ('s, data) state" where
  "fakeResetSystemSettingsApiV1AdminSettingsResetPostResponsedefault faker opts = fakeErrorResponse faker opts"

definition fakeListUsersApiV1AdminUsersGetRequest :: "'s faker \<Rightarrow> 's options option \<Rightarrow> ('s, data) state" where
  "fakeListUsersApiV1AdminUsersGetRequest faker opts =
     (let f = the_faker faker opts in
      object_of f opts [
        Required ''query'' (object_of f opts [
          Optional ''limit'' (default_or f opts (VNum 100) (number_of (number_int f [(''min'', 1), (''max'', 1000)]))),
          Optional ''offset'' (default_or f opts (VNum 0) (number_of (number_int f [(''min'', 0)]))),
          Optional ''search'' (nullable f (text_of (string_sample f))),
          Optional ''role'' (nullable f (fakeUserRole faker opts)),
          Optional ''is_active'' (nullable f (bool_of (datatype_boolean f None))),
          Optional ''bypass_rate_limit'' (nullable f (bool_of (datatype_boolean f None))),
          Optional ''has_custom_limits'' (nullable f (bool_of (datatype_boolean f None))),
          Optional ''custom_multiplier'' (nullable f (bool_of (datatype_boolean f None)))])])"

definition fakeListUsersApiV1AdminUsersGetResponse200 :: "'s faker \<Rightarrow> 's options option \<Rightarrow> ('s, data) state" where
  "fakeListUsersApiV1AdminUsersGetResponse200 faker opts = fakeUserListResponse faker opts"

definition fakeListUsersApiV1AdminUsersGetResponsedefault :: "'s faker \<Rightarrow> 's options option \<Rightarrow> ('s, data) state" where
  "fakeListUsersApiV1AdminUsersGetResponsedefault faker opts = fakeErrorResponse faker opts"

definition fakeCreateUserApiV1AdminUsersPostRequest :: "'s faker \<Rightarrow> 's options option \<Rightarrow> ('s, data) state" where
  "fakeCreateUserApiV1AdminUsersPostRequest faker opts =
     (let f = the_faker faker opts in
      object_of f opts [
        Required ''body'' (fakeUserCreateWritable faker opts)])"

definition fakeCreateUserApiV1AdminUsersPostResponse200 :: "'s faker \<Rightarrow> 's options option \<Rightarrow> ('s, data) state" where
  "fakeCreateUserApiV1AdminUsersPostResponse200 faker opts = fakeUserResponse faker opts"

definition fakeCreateUserApiV1AdminUsersPostResponse409 :: "'s faker \<Rightarrow> 's options option \<Rightarrow> ('s, data) state" where
  "fakeCreateUserApiV1AdminUsersPostResponse409 faker opts = fakeErrorResponse faker opts"

definition fakeCreateUserApiV1AdminUsersPostResponsedefault :: "'s faker \<Rightarrow> 's options option \<Rightarrow> ('s, data) state" where
  "fakeCreateUserApiV1AdminUsersPostResponsedefault faker opts = fakeErrorResponse faker opts"

definition fakeDeleteUserApiV1AdminUsersUserIdDeleteRequest :: "'s faker \<Rightarrow> 's options option \<Rightarrow> ('s, data) state" where
  "fakeDeleteUserApiV1AdminUsersUserIdDeleteRequest faker opts =
     (let f = the_faker faker opts in
      object_of f opts [
        Required ''path'' (object_of f opts [
          Required ''user_id'' (text_of (string_sample f))]),
        Required ''query'' (object_of f opts [
          Optional ''cascade'' (default_or f opts (VBool True) (bool_of (datatype_boolean f None)))])])"

definition fakeDeleteUserApiV1AdminUsersUserIdDeleteResponse200 :: "'s faker \<Rightarrow> 's options option \<Rightarrow> ('s, data) state" where
  "fakeDeleteUserApiV1AdminUsersUserIdDeleteResponse200 faker opts = fakeDeleteUserResponse faker opts"

definition fakeDeleteUserApiV1AdminUsersUserIdDeleteResponse400 :: "'s faker \<Rightarrow> 's options option \<Rightarrow> ('s, data) state" where
  "fakeDeleteUserApiV1AdminUsersUserIdDeleteResponse400 faker opts = fakeErrorResponse faker opts"

definition fakeDeleteUserApiV1AdminUsersUserIdDeleteResponse404 :: "'s faker \<Rightarrow> 's options option \<Rightarrow> ('s, data) state" where
  "fakeDeleteUserApiV1AdminUsersUserIdDeleteResponse404 faker opts = fakeErrorResponse faker opts"

definition fakeDeleteUserApiV1AdminUsersUserIdDeleteResponsedefault :: "'s faker \<Rightarrow> 's options option \<Rightarrow> ('s, data) state" where
  "fakeDeleteUserApiV1AdminUsersUserIdDeleteResponsedefault faker opts = fakeErrorResponse faker opts"

definition fakeGetUserApiV1AdminUsersUserIdGetRequest :: "'s faker \<Rightarrow> 's options option \<Rightarrow> ('s, data) state" where
  "fakeGetUserApiV1AdminUsersUserIdGetRequest faker opts =
     (let f = the_faker faker opts in
      object_of f opts [
        Required ''path'' (object_of f opts [
          Required ''user_id'' (text_of (string_sample f))])])"

definition fakeGetUserApiV1AdminUsersUserIdGetResponse200 :: "'s faker \<Rightarrow> 's options option \<Rightarrow> ('s, data) state" where
  "fakeGetUserApiV1AdminUsersUserIdGetResponse200 faker opts = fakeUserResponse faker opts"

definition fakeGetUserApiV1AdminUsersUserIdGetResponse404 :: "'s faker \<Rightarrow> 's options option \<Rightarrow> ('s, data) state" where
  "fakeGetUserApiV1AdminUsersUserIdGetResponse404 faker opts = fakeErrorResponse faker opts"

definition fakeGetUserApiV1AdminUsersUserIdGetResponsedefault :: "'s faker \<Rightarrow> 's options option \<Rightarrow> ('s, data) state" where
  "fakeGetUserApiV1AdminUsersUserIdGetResponsedefault faker opts = fakeErrorResponse faker opts"

definition fakeUpdateUserApiV1AdminUsersUserIdPutRequest :: "'s faker \<Rightarrow> 's options option \<Rightarrow> ('s, data) state" where
  "fakeUpdateUserApiV1AdminUsersUserIdPutRequest faker opts =
     (let f = the_faker faker opts in
      object_of f opts [
        Required ''body'' (fakeUserUpdateWritable faker opts),
        Required ''path'' (object_of f opts [
          Required ''user_id'' (text_of (string_sample f))])])"

definition fakeUpdateUserApiV1AdminUsersUserIdPutResponse200 :: "'s faker \<Rightarrow> 's options option \<Rightarrow> ('s, data) state" where
  "fakeUpdateUserApiV1AdminUsersUserIdPutResponse200 faker opts = fakeUserResponse faker opts"

definition fakeUpdateUserApiV1AdminUsersUserIdPutResponse404 :: "'s faker \<Rightarrow> 's options option \<Rightarrow> ('s, data) state" where
  "fakeUpdateUserApiV1AdminUsersUserIdPutResponse404 faker opts = fakeErrorResponse faker opts"

definition fakeUpdateUserApiV1AdminUsersUserIdPutResponse409 :: "'s faker \<Rightarrow> 's options option \<Rightarrow> ('s, data) state" where
  "fakeUpdateUserApiV1AdminUsersUserIdPutResponse409 faker opts = fakeErrorResponse faker opts"

definition fakeUpdateUserApiV1AdminUsersUserIdPutResponsedefault :: "'s faker \<Rightarrow> 's options option \<Rightarrow> ('s, data) state" where
  "fakeUpdateUserApiV1AdminUsersUserIdPutResponsedefault faker opts = fakeErrorResponse faker opts"

definition fakeGetUserOverviewApiV1AdminUsersUserIdOverviewGetRequest :: "'s faker \<Rightarrow> 's options option \<Rightarrow> ('s, data) state" where
  "fakeGetUserOverviewApiV1AdminUsersUserIdOverviewGetRequest faker opts =
     (let f = the_faker faker opts in
      object_of f opts [
        Required ''path'' (object_of f opts [
          Required ''user_id'' (text_of (string_sample f))])])"

definition fakeGetUserOverviewApiV1AdminUsersUserIdOverviewGetResponse200 :: "'s faker \<Rightarrow> 's options option \<Rightarrow> ('s, data) state" where
  "fakeGetUserOverviewApiV1AdminUsersUserIdOverviewGetResponse200 faker opts = fakeAdminUserOverview faker opts"

definition fakeGetUserOverviewApiV1AdminUsersUserIdOverviewGetResponse404 :: "'s faker \<Rightarrow> 's options option \<Rightarrow> ('s, data) state" where
  "fakeGetUserOverviewApiV1AdminUsersUserIdOverviewGetResponse404 faker opts = fakeErrorResponse faker opts"

definition fakeGetUserOverviewApiV1AdminUsersUserIdOverviewGetResponsedefault :: "'s faker \<Rightarrow> 's options option \<Rightarrow> ('s, data) state" where
  "fakeGetUserOverviewApiV1AdminUsersUserIdOverviewGetResponsedefault faker opts = fakeErrorResponse faker opts"

definition fakeResetUserPasswordApiV1AdminUsersUserIdResetPasswordPostRequest :: "'s faker \<Rightarrow> 's options option \<Rightarrow> ('s, data) state" where
  "fakeResetUserPasswordApiV1AdminUsersUserIdResetPasswordPostRequest faker opts =
     (let f = the_faker faker opts in
      object_of f opts [
        Required ''body'' (fakePasswordResetRequest faker opts),
        Required ''path'' (object_of f opts [
          Required ''user_id'' (text_of (string_sample f))])])"

definition fakeResetUserPasswordApiV1AdminUsersUserIdResetPasswordPostResponse200 :: "'s faker \<Rightarrow> 's options option \<Rightarrow> ('s, data) state" where
  "fakeResetUserPasswordApiV1AdminUsersUserIdResetPasswordPostResponse200 faker opts = fakeMessageResponse faker opts"

definition fakeResetUserPasswordApiV1AdminUsersUserIdResetPasswordPostResponse404 :: "'s faker \<Rightarrow> 's options option \<Rightarrow> ('s, data) state" where
  "fakeResetUserPasswordApiV1AdminUsersUserIdResetPasswordPostResponse404 faker opts = fakeErrorResponse faker opts"

definition fakeResetUserPasswordApiV1AdminUsersUserIdResetPasswordPostResponsedefault :: "'s faker \<Rightarrow> 's options option \<Rightarrow> ('s, data) state" where
  "fakeResetUserPasswordApiV1AdminUsersUserIdResetPasswordPostResponsedefault faker opts = fakeErrorResponse faker opts"

definition fakeUnlockUserApiV1AdminUsersUserIdUnlockPostRequest :: "'s faker \<Rightarrow> 's options option \<Rightarrow> ('s, data) state" where
  "fakeUnlockUserApiV1AdminUsersUserIdUnlockPostRequest faker opts =
     (let f = the_faker faker opts in
      object_of f opts [
        Required ''path'' (object_of f opts [
          Required ''user_id'' (text_of (string_sample f))])])"

definition fakeUnlockUserApiV1AdminUsersUserIdUnlockPostResponse200 :: "'s faker \<Rightarrow> 's options option \<Rightarrow> ('s, data) state" where
  "fakeUnlockUserApiV1AdminUsersUserIdUnlockPostResponse200 faker opts = fakeUnlockResponse faker opts"

definition fakeUnlockUserApiV1AdminUsersUserIdUnlockPostResponse404 :: "'s faker \<Rightarrow> 's options option \<Rightarrow> ('s, data) state" where
  "fakeUnlockUserApiV1AdminUsersUserIdUnlockPostResponse404 faker opts = fakeErrorResponse faker opts"

definition fakeUnlockUserApiV1AdminUsersUserIdUnlockPostResponsedefault :: "'s faker \<Rightarrow> 's options option \<Rightarrow> ('s, data) state" where
  "fakeUnlockUserApiV1AdminUsersUserIdUnlockPostResponsedefault faker opts = fakeErrorResponse faker opts"

definition fakeGetUserSettingsApiV1UserSettingsGetResponse200 :: "'s faker \<Rightarrow> 's options option \<Rightarrow> ('s, data) state" where
  "fakeGetUserSettingsApiV1UserSettingsGetResponse200 faker opts = fakeUserSettings faker opts"

definition fakeGetUserSettingsApiV1UserSettingsGetResponsedefault :: "'s faker \<Rightarrow> 's options option \<Rightarrow> ('s, data) state" where
  "fakeGetUserSettingsApiV1UserSettingsGetResponsedefault faker opts = fakeErrorResponse faker opts"

definition fakeUpdateUserSettingsApiV1UserSettingsPutRequest :: "'s faker \<Rightarrow> 's options option \<Rightarrow> ('s, data) state" where
  "fakeUpdateUserSettingsApiV1UserSettingsPutRequest faker opts =
     (let f = the_faker faker opts in
      object_of f opts [
        Required ''body'' (fakeUserSettingsUpdate faker opts)])"

definition fakeUpdateUserSettingsApiV1UserSettingsPutResponse200 :: "'s faker \<Rightarrow> 's options option \<Rightarrow> ('s, data) state" where
  "fakeUpdateUserSettingsApiV1UserSettingsPutResponse200 faker opts = fakeUserSettings faker opts"

definition fakeUpdateUserSettingsApiV1UserSettingsPutResponsedefault :: "'s faker \<Rightarrow> 's options option \<Rightarrow> ('s, data) state" where
  "fakeUpdateUserSettingsApiV1UserSettingsPutResponsedefault faker opts = fakeErrorResponse faker opts"

definition fakeUpdateThemeApiV1UserSettingsThemePutRequest :: "'s faker \<Rightarrow> 's options option \<Rightarrow> ('s, data) state" where
  "fakeUpdateThemeApiV1UserSettingsThemePutRequest faker opts =
     (let f = the_faker faker opts in
      object_of f opts [
        Required ''body'' (fakeThemeUpdateRequest faker opts)])"

definition fakeUpdateThemeApiV1UserSettingsThemePutResponse200 :: "'s faker \<Rightarrow> 's options option \<Rightarrow> ('s, data) state" where
  "fakeUpdateThemeApiV1UserSettingsThemePutResponse200 faker opts = fakeUserSettings faker opts"

definition fakeUpdateThemeApiV1UserSettingsThemePutResponsedefault :: "'s faker \<Rightarrow> 's options option \<Rightarrow> ('s, data) state" where
  "fakeUpdateThemeApiV1UserSettingsThemePutResponsedefault faker opts = fakeErrorResponse faker opts"

definition fakeUpdateNotificationSettingsApiV1UserSettingsNotificationsPutRequest :: "'s faker \<Rightarrow> 's options option \<Rightarrow> ('s, data) state" where
  "fakeUpdateNotificationSettingsApiV1UserSettingsNotificationsPutRequest faker opts =
     (let f = the_faker faker opts in
      object_of f opts [
        Required ''body'' (fakeNotificationSettingsInput faker opts)])"

definition fakeUpdateNotificationSettingsApiV1UserSettingsNotificationsPutResponse200 :: "'s faker \<Rightarrow> 's options option \<Rightarrow> ('s, data) state" where
  "fakeUpdateNotificationSettingsApiV1UserSettingsNotificationsPutResponse200 faker opts = fakeUserSettings faker opts"

definition fakeUpdateNotificationSettingsApiV1UserSettingsNotificationsPutResponsedefault :: "'s faker \<Rightarrow> 's options option \<Rightarrow> ('s, data) state" where
  "fakeUpdateNotificationSettingsApiV1UserSettingsNotificationsPutResponsedefault faker opts = fakeErrorResponse faker opts"

definition fakeUpdateEditorSettingsApiV1UserSettingsEditorPutRequest :: "'s faker \<Rightarrow> 's options option \<Rightarrow> ('s, data) state" where
  "fakeUpdateEditorSettingsApiV1UserSettingsEditorPutRequest faker opts =
     (let f = the_faker faker opts in
      object_of f opts [
        Required ''body'' (fakeEditorSettingsInput faker opts)])"

definition fakeUpdateEditorSettingsApiV1UserSettingsEditorPutResponse200 :: "'s faker \<Rightarrow> 's options option \<Rightarrow> ('s, data) state" where
  "fakeUpdateEditorSettingsApiV1UserSettingsEditorPutResponse200 faker opts = fakeUserSettings faker opts"

definition fakeUpdateEditorSettingsApiV1UserSettingsEditorPutResponsedefault :: "'s faker \<Rightarrow> 's options option \<Rightarrow> ('s, data) state" where
  "fakeUpdateEditorSettingsApiV1UserSettingsEditorPutResponsedefault faker opts = fakeErrorResponse faker opts"

definition fakeGetSettingsHistoryApiV1UserSettingsHistoryGetRequest :: "'s faker \<Rightarrow> 's options option \<Rightarrow> ('s, data) state" where
  "fakeGetSettingsHistoryApiV1UserSettingsHistoryGetRequest faker opts =
     (let f = the_faker faker opts in
      object_of f opts [
        Required ''query'' (object_of f opts [
          Optional ''limit'' (default_or f opts (VNum 50) (number_of (number_int f [(''min'', 1), (''max'', 200)])))])])"

definition fakeGetSettingsHistoryApiV1UserSettingsHistoryGetResponse200 :: "'s faker \<Rightarrow> 's options option \<Rightarrow> ('s, data) state" where
  "fakeGetSettingsHistoryApiV1UserSettingsHistoryGetResponse200 faker opts = fakeSettingsHistoryResponse faker opts"

definition fakeGetSettingsHistoryApiV1UserSettingsHistoryGetResponsedefault :: "'s faker \<Rightarrow> 's options option \<Rightarrow> ('s, data) state" where
  "fakeGetSettingsHistoryApiV1UserSettingsHistoryGetResponsedefault faker opts = fakeErrorResponse faker opts"

definition fakeRestoreSettingsApiV1UserSettingsRestorePostRequest :: "'s faker \<Rightarrow> 's options option \<Rightarrow> ('s, data) state" where
  "fakeRestoreSettingsApiV1UserSettingsRestorePostRequest faker opts =
     (let f = the_faker faker opts in
      object_of f opts [
        Required ''body'' (fakeRestoreSettingsRequest faker opts)])"

definition fakeRestoreSettingsApiV1UserSettingsRestorePostResponse200 :: "'s faker \<Rightarrow> 's options option \<Rightarrow> ('s, data) state" where
  "fakeRestoreSettingsApiV1UserSettingsRestorePostResponse200 faker opts = fakeUserSettings faker opts"

definition fakeRestoreSettingsApiV1UserSettingsRestorePostResponsedefault :: "'s faker \<Rightarrow> 's options option \<Rightarrow> ('s, data) state" where
  "fakeRestoreSettingsApiV1UserSettingsRestorePostResponsedefault faker opts = fakeErrorResponse faker opts"

definition fakeUpdateCustomSettingApiV1UserSettingsCustomKeyPutRequest :: "'s faker \<Rightarrow> 's options option \<Rightarrow> ('s, data) state" where
  "fakeUpdateCustomSettingApiV1UserSettingsCustomKeyPutRequest faker opts =
     (let f = the_faker faker opts in
      object_of f opts [
        Required ''body'' (object_of f opts []),
        Required ''path'' (object_of f opts [
          Required ''key'' (text_of (string_sample f))])])"

definition fakeUpdateCustomSettingApiV1UserSettingsCustomKeyPutResponse200 :: "'s faker \<Rightarrow> 's options option \<Rightarrow> ('s, data) state" where
  "fakeUpdateCustomSettingApiV1UserSettingsCustomKeyPutResponse200 faker opts = fakeUserSettings faker opts"

definition fakeUpdateCustomSettingApiV1UserSettingsCustomKeyPutResponsedefault :: "'s faker \<Rightarrow> 's options option \<Rightarrow> ('s, data) state" where
  "fakeUpdateCustomSettingApiV1UserSettingsCustomKeyPutResponsedefault faker opts = fakeErrorResponse faker opts"

definition fakeGetNotificationsApiV1NotificationsGetRequest :: "'s faker \<Rightarrow> 's options option \<Rightarrow> ('s, data) state" where
  "fakeGetNotificationsApiV1NotificationsGetRequest faker opts =
     (let f = the_faker faker opts in
      object_of f opts [
        Required ''query'' (object_of f opts [
          Optional ''status'' (nullable f (fakeNotificationStatus faker opts)),
          Optional ''include_tags'' (nullable f (multiple_of f (text_of (string_sample f)))),
          Optional ''exclude_tags'' (nullable f (multiple_of f (text_of (string_sample f)))),
          Optional ''tag_prefix'' (nullable f (text_of (string_sample f))),
          Optional ''limit'' (default_or f opts (VNum 50) (number_of (number_int f [(''min'', 1), (''max'', 100)]))),
          Optional ''offset'' (default_or f opts (VNum 0) (number_of (number_int f [(''min'', 0)])))])])"

definition fakeGetNotificationsApiV1NotificationsGetResponse200 :: "'s faker \<Rightarrow> 's options option \<Rightarrow> ('s, data) state" where
  "fakeGetNotificationsApiV1NotificationsGetResponse200 faker opts = fakeNotificationListResponse faker opts"

definition fakeGetNotificationsApiV1NotificationsGetResponsedefault :: "'s faker \<Rightarrow> 's options option \<Rightarrow> ('s, data) state" where
  "fakeGetNotificationsApiV1NotificationsGetResponsedefault faker opts = fakeErrorResponse faker opts"

definition fakeMarkNotificationReadApiV1NotificationsNotificationIdReadPutRequest :: "'s faker \<Rightarrow> 's options option \<Rightarrow> ('s, data) state" where
  "fakeMarkNotificationReadApiV1NotificationsNotificationIdReadPutRequest faker opts =
     (let f = the_faker faker opts in
      object_of f opts [
        Required ''path'' (object_of f opts [
          Required ''notification_id'' (text_of (string_sample f))])])"

definition fakeMarkNotificationReadApiV1NotificationsNotificationIdReadPutResponsedefault :: "'s faker \<Rightarrow> 's options option \<Rightarrow> ('s, data) state" where
  "fakeMarkNotificationReadApiV1NotificationsNotificationIdReadPutResponsedefault faker opts = fakeErrorResponse faker opts"

definition fakeMarkAllReadApiV1NotificationsMarkAllReadPostResponsedefault :: "'s faker \<Rightarrow> 's options option \<Rightarrow> ('s, data) state" where
  "fakeMarkAllReadApiV1NotificationsMarkAllReadPostResponsedefault faker opts = fakeErrorResponse faker opts"

definition fakeGetUnreadCountApiV1NotificationsUnreadCountGetResponse200 :: "'s faker \<Rightarrow> 's options option \<Rightarrow> ('s, data) state" where
  "fakeGetUnreadCountApiV1NotificationsUnreadCountGetResponse200 faker opts = fakeUnreadCountResponse faker opts"

definition fakeGetUnreadCountApiV1NotificationsUnreadCountGetResponsedefault :: "'s faker \<Rightarrow> 's options option \<Rightarrow> ('s, data) state" where
  "fakeGetUnreadCountApiV1NotificationsUnreadCountGetResponsedefault faker opts = fakeErrorResponse faker opts"

definition fakeDeleteNotificationApiV1NotificationsNotificationIdDeleteRequest :: "'s faker \<Rightarrow> 's options option \<Rightarrow> ('s, data) state" where
  "fakeDeleteNotificationApiV1NotificationsNotificationIdDeleteRequest faker opts =
     (let f = the_faker faker opts in
      object_of f opts [
        Required ''path'' (object_of f opts [
          Required ''notification_id'' (text_of (string_sample f))])])"

definition fakeDeleteNotificationApiV1NotificationsNotificationIdDeleteResponse200 :: "'s faker \<Rightarrow> 's options option \<Rightarrow> ('s, data) state" where
  "fakeDeleteNotificationApiV1NotificationsNotificationIdDeleteResponse200 faker opts = fakeDeleteNotificationResponse faker opts"

definition fakeDeleteNotificationApiV1NotificationsNotificationIdDeleteResponsedefault :: "'s faker \<Rightarrow> 's options option \<Rightarrow> ('s, data) state" where
  "fakeDeleteNotificationApiV1NotificationsNotificationIdDeleteResponsedefault faker opts = fakeErrorResponse faker opts"

end
