(* ===== verification/FakerTyped.thy ===== *)
theory FakerTyped
  imports Faker
begin

text \<open>
  Every factory of \<open>Faker\<close> produces values of the type it declares, checked one factory after another,
  also where the source casts to \<open>any\<close> and TypeScript does not look.
\<close>

section \<open>What a computation generates\<close>

definition generates :: "('s, data) state \<Rightarrow> ts_type \<Rightarrow> bool" where
  "generates m t \<longleftrightarrow> pred_state (has_type t) m"

named_theorems fakes \<comment> \<open>the types of what the expressions and the factories generate\<close>

lemma pred_state_iff: "pred_state P m \<longleftrightarrow> (\<forall>s. P (fst (run_state m s)))"
proof
  assume "\<forall>s. P (fst (run_state m s))"
  then show "pred_state P m" by (intro pred_stateI) (metis fst_conv)
qed (simp add: pred_state_run_state)

lemma pred_bind: "pred_state (\<lambda>x. pred_state P (f x)) m \<Longrightarrow> pred_state P (State_Monad.bind m f)"
  by (rule bind_predI)

lemma pred_return: "P x \<Longrightarrow> pred_state P (State_Monad.return x)"
  by (simp add: pred_state_iff)

lemma pred_True: "pred_state (\<lambda>x. True) m"
  by (simp add: pred_state_iff)

lemma pred_if: "(b \<Longrightarrow> pred_state P m) \<Longrightarrow> (\<not> b \<Longrightarrow> pred_state P m') \<Longrightarrow> pred_state P (if b then m else m')"
  by simp

lemma pred_weaken: "pred_state P m \<Longrightarrow> (\<And>x. P x \<Longrightarrow> Q x) \<Longrightarrow> pred_state Q m"
  by (simp add: pred_state_iff)

lemma generates_primitives [fakes]:
  "generates (text_of ms) TString" "generates (number_of mn) TNumber" "generates (bool_of mb) TBoolean"
  by (simp_all add: generates_def text_of_def number_of_def bool_of_def pred_state_iff split: prod.splits)

lemma generates_const [fakes]: "has_type t v \<Longrightarrow> generates (const v) t"
  by (simp add: generates_def const_def pred_return)

lemma generates_nullable [fakes]: "has_type t VNull \<Longrightarrow> generates m t \<Longrightarrow> generates (nullable f m) t"
  unfolding generates_def nullable_def
  by (rule pred_bind, rule pred_weaken [OF pred_True]) (simp add: pred_return)

lemma generates_default [fakes]: "has_type t d \<Longrightarrow> generates m t \<Longrightarrow> generates (default_or f opts d m) t"
  unfolding generates_def default_or_def
  by (rule pred_bind, rule pred_weaken [OF pred_True]) (simp add: pred_return)

lemma generates_union [fakes]: "list_ex (generates m) ts \<Longrightarrow> generates m (TUnion ts)"
  by (auto simp: generates_def pred_state_iff list_ex_iff)

lemma generates_inter [fakes]: "list_all (generates m) ts \<Longrightarrow> generates m (TInter ts)"
  by (auto simp: generates_def pred_state_iff list_all_iff)

lemma traverse_each:
  "(\<And>x. x \<in> set xs \<Longrightarrow> pred_state (P x) (g x)) \<Longrightarrow> pred_state (list_all2 P xs) (State_Monad.traverse_list g xs)"
proof (induction xs)
  case Nil
  then show ?case by (simp add: pred_return)
next
  case (Cons x xs)
  have "pred_state (\<lambda>vs. pred_state (list_all2 P (x # xs)) (State_Monad.return (v # vs)))
      (State_Monad.traverse_list g xs)" if "P x v" for v
    using Cons.IH Cons.prems that by (auto intro!: pred_return elim!: pred_weaken)
  then have "pred_state (\<lambda>v. pred_state (list_all2 P (x # xs))
      (State_Monad.bind (State_Monad.traverse_list g xs) (\<lambda>vs. State_Monad.return (v # vs)))) (g x)"
    using Cons.prems by (intro pred_weaken [OF Cons.prems [of x]]) (auto intro!: pred_bind)
  then show ?case by (simp add: pred_bind)
qed

lemma generates_element [fakes]:
  assumes "faker_helpers f" and "ms \<noteq> []" and "list_all (\<lambda>m. generates m t) ms"
  shows "generates (element_of f ms) t"
proof -
  have "pred_state (has_type t) (helpers_arrayElement f vs)" if "length vs = length ms" "list_all (has_type t) vs" for vs
  proof -
    have "vs \<noteq> []" using that(1) assms(2) by auto
    then show ?thesis using assms(1) that(2) by (auto simp: faker_helpers_def pred_state_iff list_all_iff)
  qed
  moreover have "pred_state (\<lambda>vs. length vs = length ms \<and> list_all (has_type t) vs) (State_Monad.traverse_list (\<lambda>m. m) ms)"
    using assms(3) by (intro pred_weaken [OF traverse_each [where P = "\<lambda>m. has_type t"]])
      (auto simp: generates_def list_all_iff list_all2_conv_all_nth in_set_conv_nth)
  ultimately show ?thesis unfolding generates_def element_of_def by (auto intro!: pred_bind elim!: pred_weaken)
qed

lemma generates_multiple [fakes]:
  assumes "faker_helpers f" and "generates m t"
  shows "generates (multiple_of f m) (TArray t)"
proof -
  have "\<forall>v \<in> set_state m. has_type t v" using assms(2) by (simp add: generates_def state.pred_set)
  then have "pred_state (list_all (has_type t)) (helpers_multiple f m)"
    using assms(1) by (fastforce simp: faker_helpers_def pred_state_iff list_all_iff)
  then show ?thesis unfolding generates_def multiple_of_def
    by (auto intro!: pred_bind pred_return elim!: pred_weaken)
qed

lemma generates_record [fakes]: "generates m t \<Longrightarrow> generates (record_of f opts m) (TRecord t)"
  unfolding generates_def record_of_def
  by (rule pred_bind, rule pred_weaken [OF pred_True]) (auto intro!: pred_bind pred_return elim!: pred_weaken)

section \<open>Objects\<close>

text \<open>The entries that a field may contribute\<close>

definition field_ok :: "('s, data) field \<Rightarrow> (string \<times> data) list \<Rightarrow> bool" where
  "field_ok fd es \<longleftrightarrow>
     (\<exists>v \<in> set_state (field_value fd). es = [(field_key fd, v)]) \<or> (is_optional fd \<and> es = [])"

fun find_key :: "string \<Rightarrow> ('s, 'v) field list \<Rightarrow> ('s, 'v) field option" where
  "find_key k [] = None"
| "find_key k (fd # fds) = (if field_key fd = k then Some fd else find_key k fds)"

lemma pred_member: "pred_state (\<lambda>v. v \<in> set_state m) m"
  by (simp add: state.pred_set)

lemma field_entries_ok:
  fixes fd :: "('s, data) field"
  shows "pred_state (field_ok fd) (field_entries f opts fd)"
proof (cases fd)
  case (Required k m)
  then show ?thesis
    by (auto simp: field_ok_def intro!: pred_bind pred_return pred_weaken [OF pred_member [of m]])
next
  case (Optional k m)
  have "pred_state (field_ok fd) (do { v \<leftarrow> m; State_Monad.return [(k, v)] })"
    using Optional by (auto simp: field_ok_def intro!: pred_bind pred_return pred_weaken [OF pred_member [of m]])
  moreover have "pred_state (field_ok fd) (State_Monad.return [] :: ('s, (string \<times> data) list) state)"
    using Optional by (intro pred_return) (simp add: field_ok_def)
  ultimately have "pred_state (field_ok fd)
      (if b then do { v \<leftarrow> m; State_Monad.return [(k, v)] } else State_Monad.return [])" for b
    by simp
  then show ?thesis
    unfolding Optional field_entries.simps by (rule pred_bind [OF pred_weaken [OF pred_True]])
qed

lemma read_folded:
  assumes "list_all2 field_ok fds ess" and "distinct (map field_key fds)"
  shows "case find_key k fds of
      None \<Rightarrow> read_field (fold (\<lambda>e acc. spread acc e) ess acc) k = read_field acc k
    | Some fd \<Rightarrow> read_field (fold (\<lambda>e acc. spread acc e) ess acc) k \<in> set_state (field_value fd) \<or>
        is_optional fd \<and> read_field (fold (\<lambda>e acc. spread acc e) ess acc) k = read_field acc k"
  using assms
proof (induction fds ess arbitrary: acc rule: list_all2_induct)
  case (Cons fd fds es ess)
  have absent: "find_key k fds = None" if "field_key fd = k"
  proof -
    have "k \<notin> set (map field_key fds)" using that Cons.prems by auto
    then show ?thesis by (induction fds) auto
  qed
  from Cons.hyps(1) consider v where "v \<in> set_state (field_value fd)" "es = [(field_key fd, v)]"
    | "is_optional fd" "es = []" by (auto simp: field_ok_def)
  then show ?case
  proof cases
    case (1 v)
    then show ?thesis
      using Cons.IH [of "spread acc es"] Cons.prems absent
      by (auto simp: spread_def read_field_def map_of_prop_set split: option.splits)
  next
    case 2
    then show ?thesis
      using Cons.IH [of acc] Cons.prems absent by (auto simp: spread_def split: option.splits)
  qed
qed simp

lemma generates_object [fakes]:
  assumes "distinct (map field_key fds)"
    and "list_all (\<lambda>g. case find_key (fst g) fds of
        None \<Rightarrow> fst (snd g)
      | Some fd \<Rightarrow> (fst (snd g) \<or> \<not> is_optional fd) \<and> generates (field_value fd) (snd (snd g))) gs"
  shows "generates (object_of f opts fds) (TObject gs)"
proof -
  have "has_type (TObject gs) (VObject (fold (\<lambda>e acc. spread acc e) ess []))" if "list_all2 field_ok fds ess" for ess
    unfolding has_object
  proof (intro exI conjI ballI refl)
    fix g assume "g \<in> set gs"
    then have g: "case find_key (fst g) fds of None \<Rightarrow> fst (snd g)
      | Some fd \<Rightarrow> (fst (snd g) \<or> \<not> is_optional fd) \<and> generates (field_value fd) (snd (snd g))"
      using assms(2) by (simp add: list_all_iff)
    have "read_field [] (fst g) = VUndefined" by (simp add: read_field_def)
    then show "fst (snd g) \<and> read_field (fold (\<lambda>e acc. spread acc e) ess []) (fst g) = VUndefined \<or>
        has_type (snd (snd g)) (read_field (fold (\<lambda>e acc. spread acc e) ess []) (fst g))"
      using g read_folded [OF that assms(1), where k = "fst g" and acc = "[]"]
      by (auto simp: generates_def state.pred_set split: option.splits)
  qed simp
  then show ?thesis unfolding generates_def object_of_def
    by (auto intro!: pred_bind pred_return pred_weaken [OF traverse_each [OF field_entries_ok]])
qed

lemma generates_any_record [fakes]: "generates (object_of f opts fds) (TRecord TUnknown)"
  unfolding generates_def object_of_def
  by (rule pred_bind, rule pred_weaken [OF pred_True]) (auto intro!: pred_return simp: list_all_iff)

text \<open>\<open>Omit<T, 'url'>\<close>\<close>

fun omit_url :: "ts_type \<Rightarrow> ts_type" where
  "omit_url (TObject gs) = TObject (filter (\<lambda>g. fst g \<noteq> ''url'') gs)"
| "omit_url t = t"


section \<open>The factories\<close>

lemma fakeBodyLoginApiV1AuthLoginPost_typed [fakes]: "faker_helpers (the_faker faker opts) \<Longrightarrow> generates (fakeBodyLoginApiV1AuthLoginPost faker opts) BodyLoginApiV1AuthLoginPost_type"
  by (simp add: fakeBodyLoginApiV1AuthLoginPost_def BodyLoginApiV1AuthLoginPost_type_def fakes Let_def)

lemma fakeCancelStatus_typed [fakes]: "faker_helpers (the_faker faker opts) \<Longrightarrow> generates (fakeCancelStatus faker opts) CancelStatus_type"
  by (simp add: fakeCancelStatus_def CancelStatus_type_def CancelStatus_members_def fakes Let_def)

lemma fakeCancelResponse_typed [fakes]: "faker_helpers (the_faker faker opts) \<Longrightarrow> generates (fakeCancelResponse faker opts) CancelResponse_type"
  by (simp add: fakeCancelResponse_def CancelResponse_type_def fakes Let_def)

lemma fakeContainerStatusInfo_typed [fakes]: "faker_helpers (the_faker faker opts) \<Longrightarrow> generates (fakeContainerStatusInfo faker opts) ContainerStatusInfo_type"
  by (simp add: fakeContainerStatusInfo_def ContainerStatusInfo_type_def fakes Let_def)

lemma fakeDeleteNotificationResponse_typed [fakes]: "faker_helpers (the_faker faker opts) \<Longrightarrow> generates (fakeDeleteNotificationResponse faker opts) DeleteNotificationResponse_type"
  by (simp add: fakeDeleteNotificationResponse_def DeleteNotificationResponse_type_def fakes Let_def)

lemma fakeDeleteResponse_typed [fakes]: "faker_helpers (the_faker faker opts) \<Longrightarrow> generates (fakeDeleteResponse faker opts) DeleteResponse_type"
  by (simp add: fakeDeleteResponse_def DeleteResponse_type_def fakes Let_def)

lemma fakeDeleteUserResponse_typed [fakes]: "faker_helpers (the_faker faker opts) \<Longrightarrow> generates (fakeDeleteUserResponse faker opts) DeleteUserResponse_type"
  by (simp add: fakeDeleteUserResponse_def DeleteUserResponse_type_def fakes Let_def)

lemma fakeDerivedCounts_typed [fakes]: "faker_helpers (the_faker faker opts) \<Longrightarrow> generates (fakeDerivedCounts faker opts) DerivedCounts_type"
  by (simp add: fakeDerivedCounts_def DerivedCounts_type_def fakes Let_def)

lemma fakeEditorSettingsInput_typed [fakes]: "faker_helpers (the_faker faker opts) \<Longrightarrow> generates (fakeEditorSettingsInput faker opts) EditorSettingsInput_type"
  by (simp add: fakeEditorSettingsInput_def EditorSettingsInput_type_def fakes Let_def)

lemma fakeEditorSettingsOutput_typed [fakes]: "faker_helpers (the_faker faker opts) \<Longrightarrow> generates (fakeEditorSettingsOutput faker opts) EditorSettingsOutput_type"
  by (simp add: fakeEditorSettingsOutput_def EditorSettingsOutput_type_def fakes Let_def)

lemma fakeEndpointGroup_typed [fakes]: "faker_helpers (the_faker faker opts) \<Longrightarrow> generates (fakeEndpointGroup faker opts) EndpointGroup_type"
  by (simp add: fakeEndpointGroup_def EndpointGroup_type_def EndpointGroup_members_def fakes Let_def)

lemma fakeEnvironment_typed [fakes]: "faker_helpers (the_faker faker opts) \<Longrightarrow> generates (fakeEnvironment faker opts) Environment_type"
  by (simp add: fakeEnvironment_def Environment_type_def Environment_members_def fakes Let_def)

lemma fakeErrorResponse_typed [fakes]: "faker_helpers (the_faker faker opts) \<Longrightarrow> generates (fakeErrorResponse faker opts) ErrorResponse_type"
  by (simp add: fakeErrorResponse_def ErrorResponse_type_def fakes Let_def)

lemma fakeEventDeleteResponse_typed [fakes]: "faker_helpers (the_faker faker opts) \<Longrightarrow> generates (fakeEventDeleteResponse faker opts) EventDeleteResponse_type"
  by (simp add: fakeEventDeleteResponse_def EventDeleteResponse_type_def fakes Let_def)

lemma fakeEventMetadata_typed [fakes]: "faker_helpers (the_faker faker opts) \<Longrightarrow> generates (fakeEventMetadata faker opts) EventMetadata_type"
  by (simp add: fakeEventMetadata_def EventMetadata_type_def fakes Let_def)

lemma fakeAuthFailedEvent_typed [fakes]: "faker_helpers (the_faker faker opts) \<Longrightarrow> generates (fakeAuthFailedEvent faker opts) AuthFailedEvent_type"
  by (simp add: fakeAuthFailedEvent_def AuthFailedEvent_type_def fakes Let_def)

lemma fakeEventReplayRequest_typed [fakes]: "faker_helpers (the_faker faker opts) \<Longrightarrow> generates (fakeEventReplayRequest faker opts) EventReplayRequest_type"
  by (simp add: fakeEventReplayRequest_def EventReplayRequest_type_def fakes Let_def)

lemma fakeEventType_typed [fakes]: "faker_helpers (the_faker faker opts) \<Longrightarrow> generates (fakeEventType faker opts) EventType_type"
  by (simp add: fakeEventType_def EventType_type_def EventType_members_def fakes Let_def)

lemma fakeDlqMessageDiscardedEvent_typed [fakes]: "faker_helpers (the_faker faker opts) \<Longrightarrow> generates (fakeDlqMessageDiscardedEvent faker opts) DlqMessageDiscardedEvent_type"
  by (simp add: fakeDlqMessageDiscardedEvent_def DlqMessageDiscardedEvent_type_def fakes Let_def)

lemma fakeDlqMessageReceivedEvent_typed [fakes]: "faker_helpers (the_faker faker opts) \<Longrightarrow> generates (fakeDlqMessageReceivedEvent faker opts) DlqMessageReceivedEvent_type"
  by (simp add: fakeDlqMessageReceivedEvent_def DlqMessageReceivedEvent_type_def fakes Let_def)

lemma fakeDlqMessageRetriedEvent_typed [fakes]: "faker_helpers (the_faker faker opts) \<Longrightarrow> generates (fakeDlqMessageRetriedEvent faker opts) DlqMessageRetriedEvent_type"
  by (simp add: fakeDlqMessageRetriedEvent_def DlqMessageRetriedEvent_type_def fakes Let_def)

lemma fakeEventFilter_typed [fakes]: "faker_helpers (the_faker faker opts) \<Longrightarrow> generates (fakeEventFilter faker opts) EventFilter_type"
  by (simp add: fakeEventFilter_def EventFilter_type_def fakes Let_def)

lemma fakeEventBrowseRequest_typed [fakes]: "faker_helpers (the_faker faker opts) \<Longrightarrow> generates (fakeEventBrowseRequest faker opts) EventBrowseRequest_type"
  by (simp add: fakeEventBrowseRequest_def EventBrowseRequest_type_def fakes Let_def)

lemma fakeEventSummary_typed [fakes]: "faker_helpers (the_faker faker opts) \<Longrightarrow> generates (fakeEventSummary faker opts) EventSummary_type"
  by (simp add: fakeEventSummary_def EventSummary_type_def fakes Let_def)

lemma fakeEventTypeCount_typed [fakes]: "faker_helpers (the_faker faker opts) \<Longrightarrow> generates (fakeEventTypeCount faker opts) EventTypeCount_type"
  by (simp add: fakeEventTypeCount_def EventTypeCount_type_def fakes Let_def)

lemma fakeExampleScripts_typed [fakes]: "faker_helpers (the_faker faker opts) \<Longrightarrow> generates (fakeExampleScripts faker opts) ExampleScripts_type"
  by (simp add: fakeExampleScripts_def ExampleScripts_type_def fakes Let_def)

lemma fakeExecutionCancelledEvent_typed [fakes]: "faker_helpers (the_faker faker opts) \<Longrightarrow> generates (fakeExecutionCancelledEvent faker opts) ExecutionCancelledEvent_type"
  by (simp add: fakeExecutionCancelledEvent_def ExecutionCancelledEvent_type_def fakes Let_def)

lemma fakeExecutionErrorType_typed [fakes]: "faker_helpers (the_faker faker opts) \<Longrightarrow> generates (fakeExecutionErrorType faker opts) ExecutionErrorType_type"
  by (simp add: fakeExecutionErrorType_def ExecutionErrorType_type_def ExecutionErrorType_members_def fakes Let_def)

lemma fakeExecutionQueuedEvent_typed [fakes]: "faker_helpers (the_faker faker opts) \<Longrightarrow> generates (fakeExecutionQueuedEvent faker opts) ExecutionQueuedEvent_type"
  by (simp add: fakeExecutionQueuedEvent_def ExecutionQueuedEvent_type_def fakes Let_def)

lemma fakeExecutionRequest_typed [fakes]: "faker_helpers (the_faker faker opts) \<Longrightarrow> generates (fakeExecutionRequest faker opts) ExecutionRequest_type"
  by (simp add: fakeExecutionRequest_def ExecutionRequest_type_def fakes Let_def)

lemma fakeExecutionRunningEvent_typed [fakes]: "faker_helpers (the_faker faker opts) \<Longrightarrow> generates (fakeExecutionRunningEvent faker opts) ExecutionRunningEvent_type"
  by (simp add: fakeExecutionRunningEvent_def ExecutionRunningEvent_type_def fakes Let_def)

lemma fakeExecutionStartedEvent_typed [fakes]: "faker_helpers (the_faker faker opts) \<Longrightarrow> generates (fakeExecutionStartedEvent faker opts) ExecutionStartedEvent_type"
  by (simp add: fakeExecutionStartedEvent_def ExecutionStartedEvent_type_def fakes Let_def)

lemma fakeExecutionStatus_typed [fakes]: "faker_helpers (the_faker faker opts) \<Longrightarrow> generates (fakeExecutionStatus faker opts) ExecutionStatus_type"
  by (simp add: fakeExecutionStatus_def ExecutionStatus_type_def ExecutionStatus_members_def fakes Let_def)

lemma fakeExecutionResponse_typed [fakes]: "faker_helpers (the_faker faker opts) \<Longrightarrow> generates (fakeExecutionResponse faker opts) ExecutionResponse_type"
  by (simp add: fakeExecutionResponse_def ExecutionResponse_type_def fakes Let_def)

lemma fakeExportFormat_typed [fakes]: "faker_helpers (the_faker faker opts) \<Longrightarrow> generates (fakeExportFormat faker opts) ExportFormat_type"
  by (simp add: fakeExportFormat_def ExportFormat_type_def ExportFormat_members_def fakes Let_def)

lemma fakeHourlyEventCount_typed [fakes]: "faker_helpers (the_faker faker opts) \<Longrightarrow> generates (fakeHourlyEventCount faker opts) HourlyEventCount_type"
  by (simp add: fakeHourlyEventCount_def HourlyEventCount_type_def fakes Let_def)

lemma fakeLanguageInfo_typed [fakes]: "faker_helpers (the_faker faker opts) \<Longrightarrow> generates (fakeLanguageInfo faker opts) LanguageInfo_type"
  by (simp add: fakeLanguageInfo_def LanguageInfo_type_def fakes Let_def)

lemma fakeLanguageLimits_typed [fakes]: "faker_helpers (the_faker faker opts) \<Longrightarrow> generates (fakeLanguageLimits faker opts) LanguageLimits_type"
  by (simp add: fakeLanguageLimits_def LanguageLimits_type_def fakes Let_def)

lemma fakeLivenessResponse_typed [fakes]: "faker_helpers (the_faker faker opts) \<Longrightarrow> generates (fakeLivenessResponse faker opts) LivenessResponse_type"
  by (simp add: fakeLivenessResponse_def LivenessResponse_type_def fakes Let_def)

lemma fakeLoginMethod_typed [fakes]: "faker_helpers (the_faker faker opts) \<Longrightarrow> generates (fakeLoginMethod faker opts) LoginMethod_type"
  by (simp add: fakeLoginMethod_def LoginMethod_type_def LoginMethod_members_def fakes Let_def)

lemma fakeMessageResponse_typed [fakes]: "faker_helpers (the_faker faker opts) \<Longrightarrow> generates (fakeMessageResponse faker opts) MessageResponse_type"
  by (simp add: fakeMessageResponse_def MessageResponse_type_def fakes Let_def)

lemma fakeNotificationAllReadEvent_typed [fakes]: "faker_helpers (the_faker faker opts) \<Longrightarrow> generates (fakeNotificationAllReadEvent faker opts) NotificationAllReadEvent_type"
  by (simp add: fakeNotificationAllReadEvent_def NotificationAllReadEvent_type_def fakes Let_def)

lemma fakeNotificationClickedEvent_typed [fakes]: "faker_helpers (the_faker faker opts) \<Longrightarrow> generates (fakeNotificationClickedEvent faker opts) NotificationClickedEvent_type"
  by (simp add: fakeNotificationClickedEvent_def NotificationClickedEvent_type_def fakes Let_def)

lemma fakeNotificationDeliveredEvent_typed [fakes]: "faker_helpers (the_faker faker opts) \<Longrightarrow> generates (fakeNotificationDeliveredEvent faker opts) NotificationDeliveredEvent_type"
  by (simp add: fakeNotificationDeliveredEvent_def NotificationDeliveredEvent_type_def fakes Let_def)

lemma fakeNotificationFailedEvent_typed [fakes]: "faker_helpers (the_faker faker opts) \<Longrightarrow> generates (fakeNotificationFailedEvent faker opts) NotificationFailedEvent_type"
  by (simp add: fakeNotificationFailedEvent_def NotificationFailedEvent_type_def fakes Let_def)

lemma fakeNotificationPreferencesUpdatedEvent_typed [fakes]: "faker_helpers (the_faker faker opts) \<Longrightarrow> generates (fakeNotificationPreferencesUpdatedEvent faker opts) NotificationPreferencesUpdatedEvent_type"
  by (simp add: fakeNotificationPreferencesUpdatedEvent_def NotificationPreferencesUpdatedEvent_type_def fakes Let_def)

lemma fakeNotificationReadEvent_typed [fakes]: "faker_helpers (the_faker faker opts) \<Longrightarrow> generates (fakeNotificationReadEvent faker opts) NotificationReadEvent_type"
  by (simp add: fakeNotificationReadEvent_def NotificationReadEvent_type_def fakes Let_def)

lemma fakeNotificationSentEvent_typed [fakes]: "faker_helpers (the_faker faker opts) \<Longrightarrow> generates (fakeNotificationSentEvent faker opts) NotificationSentEvent_type"
  by (simp add: fakeNotificationSentEvent_def NotificationSentEvent_type_def fakes Let_def)

lemma fakeNotificationSettingsInput_typed [fakes]: "faker_helpers (the_faker faker opts) \<Longrightarrow> generates (fakeNotificationSettingsInput faker opts) NotificationSettingsInput_type"
  by (simp add: fakeNotificationSettingsInput_def NotificationSettingsInput_type_def fakes Let_def)

lemma fakeNotificationSettingsOutput_typed [fakes]: "faker_helpers (the_faker faker opts) \<Longrightarrow> generates (fakeNotificationSettingsOutput faker opts) NotificationSettingsOutput_type"
  by (simp add: fakeNotificationSettingsOutput_def NotificationSettingsOutput_type_def fakes Let_def)

lemma fakeNotificationSeverity_typed [fakes]: "faker_helpers (the_faker faker opts) \<Longrightarrow> generates (fakeNotificationSeverity faker opts) NotificationSeverity_type"
  by (simp add: fakeNotificationSeverity_def NotificationSeverity_type_def NotificationSeverity_members_def fakes Let_def)

lemma fakeNotificationCreatedEvent_typed [fakes]: "faker_helpers (the_faker faker opts) \<Longrightarrow> generates (fakeNotificationCreatedEvent faker opts) NotificationCreatedEvent_type"
  by (simp add: fakeNotificationCreatedEvent_def NotificationCreatedEvent_type_def fakes Let_def)

lemma fakeNotificationStatus_typed [fakes]: "faker_helpers (the_faker faker opts) \<Longrightarrow> generates (fakeNotificationStatus faker opts) NotificationStatus_type"
  by (simp add: fakeNotificationStatus_def NotificationStatus_type_def NotificationStatus_members_def fakes Let_def)

lemma fakeNotificationResponse_typed [fakes]: "faker_helpers (the_faker faker opts) \<Longrightarrow> generates (fakeNotificationResponse faker opts) NotificationResponse_type"
  by (simp add: fakeNotificationResponse_def NotificationResponse_type_def fakes Let_def)

lemma fakeNotificationListResponse_typed [fakes]: "faker_helpers (the_faker faker opts) \<Longrightarrow> generates (fakeNotificationListResponse faker opts) NotificationListResponse_type"
  by (simp add: fakeNotificationListResponse_def NotificationListResponse_type_def fakes Let_def)

lemma fakePasswordResetRequest_typed [fakes]: "faker_helpers (the_faker faker opts) \<Longrightarrow> generates (fakePasswordResetRequest faker opts) PasswordResetRequest_type"
  by (simp add: fakePasswordResetRequest_def PasswordResetRequest_type_def fakes Let_def)

lemma fakePodCreatedEvent_typed [fakes]: "faker_helpers (the_faker faker opts) \<Longrightarrow> generates (fakePodCreatedEvent faker opts) PodCreatedEvent_type"
  by (simp add: fakePodCreatedEvent_def PodCreatedEvent_type_def fakes Let_def)

lemma fakePodDeletedEvent_typed [fakes]: "faker_helpers (the_faker faker opts) \<Longrightarrow> generates (fakePodDeletedEvent faker opts) PodDeletedEvent_type"
  by (simp add: fakePodDeletedEvent_def PodDeletedEvent_type_def fakes Let_def)

lemma fakePodFailedEvent_typed [fakes]: "faker_helpers (the_faker faker opts) \<Longrightarrow> generates (fakePodFailedEvent faker opts) PodFailedEvent_type"
  by (simp add: fakePodFailedEvent_def PodFailedEvent_type_def fakes Let_def)

lemma fakePodRunningEvent_typed [fakes]: "faker_helpers (the_faker faker opts) \<Longrightarrow> generates (fakePodRunningEvent faker opts) PodRunningEvent_type"
  by (simp add: fakePodRunningEvent_def PodRunningEvent_type_def fakes Let_def)

lemma fakePodScheduledEvent_typed [fakes]: "faker_helpers (the_faker faker opts) \<Longrightarrow> generates (fakePodScheduledEvent faker opts) PodScheduledEvent_type"
  by (simp add: fakePodScheduledEvent_def PodScheduledEvent_type_def fakes Let_def)

lemma fakePodSucceededEvent_typed [fakes]: "faker_helpers (the_faker faker opts) \<Longrightarrow> generates (fakePodSucceededEvent faker opts) PodSucceededEvent_type"
  by (simp add: fakePodSucceededEvent_def PodSucceededEvent_type_def fakes Let_def)

lemma fakePodTerminatedEvent_typed [fakes]: "faker_helpers (the_faker faker opts) \<Longrightarrow> generates (fakePodTerminatedEvent faker opts) PodTerminatedEvent_type"
  by (simp add: fakePodTerminatedEvent_def PodTerminatedEvent_type_def fakes Let_def)

lemma fakeQueuePriority_typed [fakes]: "faker_helpers (the_faker faker opts) \<Longrightarrow> generates (fakeQueuePriority faker opts) QueuePriority_type"
  by (simp add: fakeQueuePriority_def QueuePriority_type_def QueuePriority_members_def fakes Let_def)

lemma fakeAdminExecutionResponse_typed [fakes]: "faker_helpers (the_faker faker opts) \<Longrightarrow> generates (fakeAdminExecutionResponse faker opts) AdminExecutionResponse_type"
  by (simp add: fakeAdminExecutionResponse_def AdminExecutionResponse_type_def fakes Let_def)

lemma fakeAdminExecutionListResponse_typed [fakes]: "faker_helpers (the_faker faker opts) \<Longrightarrow> generates (fakeAdminExecutionListResponse faker opts) AdminExecutionListResponse_type"
  by (simp add: fakeAdminExecutionListResponse_def AdminExecutionListResponse_type_def fakes Let_def)

lemma fakeExecutionAcceptedEvent_typed [fakes]: "faker_helpers (the_faker faker opts) \<Longrightarrow> generates (fakeExecutionAcceptedEvent faker opts) ExecutionAcceptedEvent_type"
  by (simp add: fakeExecutionAcceptedEvent_def ExecutionAcceptedEvent_type_def fakes Let_def)

lemma fakeExecutionRequestedEvent_typed [fakes]: "faker_helpers (the_faker faker opts) \<Longrightarrow> generates (fakeExecutionRequestedEvent faker opts) ExecutionRequestedEvent_type"
  by (simp add: fakeExecutionRequestedEvent_def ExecutionRequestedEvent_type_def fakes Let_def)

lemma fakePriorityUpdateRequest_typed [fakes]: "faker_helpers (the_faker faker opts) \<Longrightarrow> generates (fakePriorityUpdateRequest faker opts) PriorityUpdateRequest_type"
  by (simp add: fakePriorityUpdateRequest_def PriorityUpdateRequest_type_def fakes Let_def)

lemma fakeQueueStatusResponse_typed [fakes]: "faker_helpers (the_faker faker opts) \<Longrightarrow> generates (fakeQueueStatusResponse faker opts) QueueStatusResponse_type"
  by (simp add: fakeQueueStatusResponse_def QueueStatusResponse_type_def fakes Let_def)

lemma fakeQuotaExceededEvent_typed [fakes]: "faker_helpers (the_faker faker opts) \<Longrightarrow> generates (fakeQuotaExceededEvent faker opts) QuotaExceededEvent_type"
  by (simp add: fakeQuotaExceededEvent_def QuotaExceededEvent_type_def fakes Let_def)

lemma fakeRateLimitAlgorithm_typed [fakes]: "faker_helpers (the_faker faker opts) \<Longrightarrow> generates (fakeRateLimitAlgorithm faker opts) RateLimitAlgorithm_type"
  by (simp add: fakeRateLimitAlgorithm_def RateLimitAlgorithm_type_def RateLimitAlgorithm_members_def fakes Let_def)

lemma fakeEndpointUsageStats_typed [fakes]: "faker_helpers (the_faker faker opts) \<Longrightarrow> generates (fakeEndpointUsageStats faker opts) EndpointUsageStats_type"
  by (simp add: fakeEndpointUsageStats_def EndpointUsageStats_type_def fakes Let_def)

lemma fakeRateLimitExceededEvent_typed [fakes]: "faker_helpers (the_faker faker opts) \<Longrightarrow> generates (fakeRateLimitExceededEvent faker opts) RateLimitExceededEvent_type"
  by (simp add: fakeRateLimitExceededEvent_def RateLimitExceededEvent_type_def fakes Let_def)

lemma fakeRateLimitRuleRequest_typed [fakes]: "faker_helpers (the_faker faker opts) \<Longrightarrow> generates (fakeRateLimitRuleRequest faker opts) RateLimitRuleRequest_type"
  by (simp add: fakeRateLimitRuleRequest_def RateLimitRuleRequest_type_def fakes Let_def)

lemma fakeRateLimitRuleResponse_typed [fakes]: "faker_helpers (the_faker faker opts) \<Longrightarrow> generates (fakeRateLimitRuleResponse faker opts) RateLimitRuleResponse_type"
  by (simp add: fakeRateLimitRuleResponse_def RateLimitRuleResponse_type_def fakes Let_def)

lemma fakeRateLimitSummary_typed [fakes]: "faker_helpers (the_faker faker opts) \<Longrightarrow> generates (fakeRateLimitSummary faker opts) RateLimitSummary_type"
  by (simp add: fakeRateLimitSummary_def RateLimitSummary_type_def fakes Let_def)

lemma fakeRateLimitUpdateRequest_typed [fakes]: "faker_helpers (the_faker faker opts) \<Longrightarrow> generates (fakeRateLimitUpdateRequest faker opts) RateLimitUpdateRequest_type"
  by (simp add: fakeRateLimitUpdateRequest_def RateLimitUpdateRequest_type_def fakes Let_def)

lemma fakeReplayError_typed [fakes]: "faker_helpers (the_faker faker opts) \<Longrightarrow> generates (fakeReplayError faker opts) ReplayError_type"
  by (simp add: fakeReplayError_def ReplayError_type_def fakes Let_def)

lemma fakeReplayStatus_typed [fakes]: "faker_helpers (the_faker faker opts) \<Longrightarrow> generates (fakeReplayStatus faker opts) ReplayStatus_type"
  by (simp add: fakeReplayStatus_def ReplayStatus_type_def ReplayStatus_members_def fakes Let_def)

lemma fakeEventReplayResponse_typed [fakes]: "faker_helpers (the_faker faker opts) \<Longrightarrow> generates (fakeEventReplayResponse faker opts) EventReplayResponse_type"
  by (simp add: fakeEventReplayResponse_def EventReplayResponse_type_def fakes Let_def)

lemma fakeResourceLimitExceededEvent_typed [fakes]: "faker_helpers (the_faker faker opts) \<Longrightarrow> generates (fakeResourceLimitExceededEvent faker opts) ResourceLimitExceededEvent_type"
  by (simp add: fakeResourceLimitExceededEvent_def ResourceLimitExceededEvent_type_def fakes Let_def)

lemma fakeResourceLimits_typed [fakes]: "faker_helpers (the_faker faker opts) \<Longrightarrow> generates (fakeResourceLimits faker opts) ResourceLimits_type"
  by (simp add: fakeResourceLimits_def ResourceLimits_type_def fakes Let_def)

lemma fakeResourceUsage_typed [fakes]: "faker_helpers (the_faker faker opts) \<Longrightarrow> generates (fakeResourceUsage faker opts) ResourceUsage_type"
  by (simp add: fakeResourceUsage_def ResourceUsage_type_def fakes Let_def)

lemma fakeExecutionResult_typed [fakes]: "faker_helpers (the_faker faker opts) \<Longrightarrow> generates (fakeExecutionResult faker opts) ExecutionResult_type"
  by (simp add: fakeExecutionResult_def ExecutionResult_type_def fakes Let_def)

lemma fakeEventReplayStatusResponse_typed [fakes]: "faker_helpers (the_faker faker opts) \<Longrightarrow> generates (fakeEventReplayStatusResponse faker opts) EventReplayStatusResponse_type"
  by (simp add: fakeEventReplayStatusResponse_def EventReplayStatusResponse_type_def fakes Let_def)

lemma fakeExecutionListResponse_typed [fakes]: "faker_helpers (the_faker faker opts) \<Longrightarrow> generates (fakeExecutionListResponse faker opts) ExecutionListResponse_type"
  by (simp add: fakeExecutionListResponse_def ExecutionListResponse_type_def fakes Let_def)

lemma fakeResourceUsageDomain_typed [fakes]: "faker_helpers (the_faker faker opts) \<Longrightarrow> generates (fakeResourceUsageDomain faker opts) ResourceUsageDomain_type"
  by (simp add: fakeResourceUsageDomain_def ResourceUsageDomain_type_def fakes Let_def)

lemma fakeExecutionCompletedEvent_typed [fakes]: "faker_helpers (the_faker faker opts) \<Longrightarrow> generates (fakeExecutionCompletedEvent faker opts) ExecutionCompletedEvent_type"
  by (simp add: fakeExecutionCompletedEvent_def ExecutionCompletedEvent_type_def fakes Let_def)

lemma fakeExecutionFailedEvent_typed [fakes]: "faker_helpers (the_faker faker opts) \<Longrightarrow> generates (fakeExecutionFailedEvent faker opts) ExecutionFailedEvent_type"
  by (simp add: fakeExecutionFailedEvent_def ExecutionFailedEvent_type_def fakes Let_def)

lemma fakeExecutionTimeoutEvent_typed [fakes]: "faker_helpers (the_faker faker opts) \<Longrightarrow> generates (fakeExecutionTimeoutEvent faker opts) ExecutionTimeoutEvent_type"
  by (simp add: fakeExecutionTimeoutEvent_def ExecutionTimeoutEvent_type_def fakes Let_def)

lemma fakeRestoreSettingsRequest_typed [fakes]: "faker_helpers (the_faker faker opts) \<Longrightarrow> generates (fakeRestoreSettingsRequest faker opts) RestoreSettingsRequest_type"
  by (simp add: fakeRestoreSettingsRequest_def RestoreSettingsRequest_type_def fakes Let_def)

lemma fakeSseControlEvent_typed [fakes]: "generates fakeSseControlEvent SseControlEvent_type"
  by (simp add: fakeSseControlEvent_def SseControlEvent_type_def SseControlEvent_members_def fakes)

lemma fakeSseExecutionEventSchema_typed [fakes]: "faker_helpers (the_faker faker opts) \<Longrightarrow> generates (fakeSseExecutionEventSchema faker opts) SseExecutionEventSchema_type"
  by (simp add: fakeSseExecutionEventSchema_def SseExecutionEventSchema_type_def fakes Let_def)

lemma fakeSavedScriptCreateRequest_typed [fakes]: "faker_helpers (the_faker faker opts) \<Longrightarrow> generates (fakeSavedScriptCreateRequest faker opts) SavedScriptCreateRequest_type"
  by (simp add: fakeSavedScriptCreateRequest_def SavedScriptCreateRequest_type_def fakes Let_def)

lemma fakeSavedScriptResponse_typed [fakes]: "faker_helpers (the_faker faker opts) \<Longrightarrow> generates (fakeSavedScriptResponse faker opts) SavedScriptResponse_type"
  by (simp add: fakeSavedScriptResponse_def SavedScriptResponse_type_def fakes Let_def)

lemma fakeSavedScriptListResponse_typed [fakes]: "faker_helpers (the_faker faker opts) \<Longrightarrow> generates (fakeSavedScriptListResponse faker opts) SavedScriptListResponse_type"
  by (simp add: fakeSavedScriptListResponse_def SavedScriptListResponse_type_def fakes Let_def)

lemma fakeSavedScriptUpdate_typed [fakes]: "faker_helpers (the_faker faker opts) \<Longrightarrow> generates (fakeSavedScriptUpdate faker opts) SavedScriptUpdate_type"
  by (simp add: fakeSavedScriptUpdate_def SavedScriptUpdate_type_def fakes Let_def)

lemma fakeScriptDeletedEvent_typed [fakes]: "faker_helpers (the_faker faker opts) \<Longrightarrow> generates (fakeScriptDeletedEvent faker opts) ScriptDeletedEvent_type"
  by (simp add: fakeScriptDeletedEvent_def ScriptDeletedEvent_type_def fakes Let_def)

lemma fakeScriptSavedEvent_typed [fakes]: "faker_helpers (the_faker faker opts) \<Longrightarrow> generates (fakeScriptSavedEvent faker opts) ScriptSavedEvent_type"
  by (simp add: fakeScriptSavedEvent_def ScriptSavedEvent_type_def fakes Let_def)

lemma fakeScriptSharedEvent_typed [fakes]: "faker_helpers (the_faker faker opts) \<Longrightarrow> generates (fakeScriptSharedEvent faker opts) ScriptSharedEvent_type"
  by (simp add: fakeScriptSharedEvent_def ScriptSharedEvent_type_def fakes Let_def)

lemma fakeSecurityViolationEvent_typed [fakes]: "faker_helpers (the_faker faker opts) \<Longrightarrow> generates (fakeSecurityViolationEvent faker opts) SecurityViolationEvent_type"
  by (simp add: fakeSecurityViolationEvent_def SecurityViolationEvent_type_def fakes Let_def)

lemma fakeServiceEventCount_typed [fakes]: "faker_helpers (the_faker faker opts) \<Longrightarrow> generates (fakeServiceEventCount faker opts) ServiceEventCount_type"
  by (simp add: fakeServiceEventCount_def ServiceEventCount_type_def fakes Let_def)

lemma fakeServiceRecoveredEvent_typed [fakes]: "faker_helpers (the_faker faker opts) \<Longrightarrow> generates (fakeServiceRecoveredEvent faker opts) ServiceRecoveredEvent_type"
  by (simp add: fakeServiceRecoveredEvent_def ServiceRecoveredEvent_type_def fakes Let_def)

lemma fakeServiceUnhealthyEvent_typed [fakes]: "faker_helpers (the_faker faker opts) \<Longrightarrow> generates (fakeServiceUnhealthyEvent faker opts) ServiceUnhealthyEvent_type"
  by (simp add: fakeServiceUnhealthyEvent_def ServiceUnhealthyEvent_type_def fakes Let_def)

lemma fakeSettingsHistoryEntry_typed [fakes]: "faker_helpers (the_faker faker opts) \<Longrightarrow> generates (fakeSettingsHistoryEntry faker opts) SettingsHistoryEntry_type"
  by (simp add: fakeSettingsHistoryEntry_def SettingsHistoryEntry_type_def fakes Let_def)

lemma fakeSettingsHistoryResponse_typed [fakes]: "faker_helpers (the_faker faker opts) \<Longrightarrow> generates (fakeSettingsHistoryResponse faker opts) SettingsHistoryResponse_type"
  by (simp add: fakeSettingsHistoryResponse_def SettingsHistoryResponse_type_def fakes Let_def)

lemma fakeStorageType_typed [fakes]: "faker_helpers (the_faker faker opts) \<Longrightarrow> generates (fakeStorageType faker opts) StorageType_type"
  by (simp add: fakeStorageType_def StorageType_type_def StorageType_members_def fakes Let_def)

lemma fakeResultFailedEvent_typed [fakes]: "faker_helpers (the_faker faker opts) \<Longrightarrow> generates (fakeResultFailedEvent faker opts) ResultFailedEvent_type"
  by (simp add: fakeResultFailedEvent_def ResultFailedEvent_type_def fakes Let_def)

lemma fakeResultStoredEvent_typed [fakes]: "faker_helpers (the_faker faker opts) \<Longrightarrow> generates (fakeResultStoredEvent faker opts) ResultStoredEvent_type"
  by (simp add: fakeResultStoredEvent_def ResultStoredEvent_type_def fakes Let_def)

lemma fakeSystemErrorEvent_typed [fakes]: "faker_helpers (the_faker faker opts) \<Longrightarrow> generates (fakeSystemErrorEvent faker opts) SystemErrorEvent_type"
  by (simp add: fakeSystemErrorEvent_def SystemErrorEvent_type_def fakes Let_def)

lemma fakeSystemSettingsSchemaInput_typed [fakes]: "faker_helpers (the_faker faker opts) \<Longrightarrow> generates (fakeSystemSettingsSchemaInput faker opts) SystemSettingsSchemaInput_type"
  by (simp add: fakeSystemSettingsSchemaInput_def SystemSettingsSchemaInput_type_def fakes Let_def)

lemma fakeSystemSettingsSchemaOutput_typed [fakes]: "faker_helpers (the_faker faker opts) \<Longrightarrow> generates (fakeSystemSettingsSchemaOutput faker opts) SystemSettingsSchemaOutput_type"
  by (simp add: fakeSystemSettingsSchemaOutput_def SystemSettingsSchemaOutput_type_def fakes Let_def)

lemma fakeTheme_typed [fakes]: "faker_helpers (the_faker faker opts) \<Longrightarrow> generates (fakeTheme faker opts) Theme_type"
  by (simp add: fakeTheme_def Theme_type_def Theme_members_def fakes Let_def)

lemma fakeThemeUpdateRequest_typed [fakes]: "faker_helpers (the_faker faker opts) \<Longrightarrow> generates (fakeThemeUpdateRequest faker opts) ThemeUpdateRequest_type"
  by (simp add: fakeThemeUpdateRequest_def ThemeUpdateRequest_type_def fakes Let_def)

lemma fakeUnlockResponse_typed [fakes]: "faker_helpers (the_faker faker opts) \<Longrightarrow> generates (fakeUnlockResponse faker opts) UnlockResponse_type"
  by (simp add: fakeUnlockResponse_def UnlockResponse_type_def fakes Let_def)

lemma fakeUnreadCountResponse_typed [fakes]: "faker_helpers (the_faker faker opts) \<Longrightarrow> generates (fakeUnreadCountResponse faker opts) UnreadCountResponse_type"
  by (simp add: fakeUnreadCountResponse_def UnreadCountResponse_type_def fakes Let_def)

lemma fakeUserDeletedEvent_typed [fakes]: "faker_helpers (the_faker faker opts) \<Longrightarrow> generates (fakeUserDeletedEvent faker opts) UserDeletedEvent_type"
  by (simp add: fakeUserDeletedEvent_def UserDeletedEvent_type_def fakes Let_def)

lemma fakeUserEventCount_typed [fakes]: "faker_helpers (the_faker faker opts) \<Longrightarrow> generates (fakeUserEventCount faker opts) UserEventCount_type"
  by (simp add: fakeUserEventCount_def UserEventCount_type_def fakes Let_def)

lemma fakeEventStatistics_typed [fakes]: "faker_helpers (the_faker faker opts) \<Longrightarrow> generates (fakeEventStatistics faker opts) EventStatistics_type"
  by (simp add: fakeEventStatistics_def EventStatistics_type_def fakes Let_def)

lemma fakeEventStatsResponse_typed [fakes]: "faker_helpers (the_faker faker opts) \<Longrightarrow> generates (fakeEventStatsResponse faker opts) EventStatsResponse_type"
  by (simp add: fakeEventStatsResponse_def EventStatsResponse_type_def fakes Let_def)

lemma fakeUserLoggedInEvent_typed [fakes]: "faker_helpers (the_faker faker opts) \<Longrightarrow> generates (fakeUserLoggedInEvent faker opts) UserLoggedInEvent_type"
  by (simp add: fakeUserLoggedInEvent_def UserLoggedInEvent_type_def fakes Let_def)

lemma fakeUserLoggedOutEvent_typed [fakes]: "faker_helpers (the_faker faker opts) \<Longrightarrow> generates (fakeUserLoggedOutEvent faker opts) UserLoggedOutEvent_type"
  by (simp add: fakeUserLoggedOutEvent_def UserLoggedOutEvent_type_def fakes Let_def)

lemma fakeUserLoginEvent_typed [fakes]: "faker_helpers (the_faker faker opts) \<Longrightarrow> generates (fakeUserLoginEvent faker opts) UserLoginEvent_type"
  by (simp add: fakeUserLoginEvent_def UserLoginEvent_type_def fakes Let_def)

lemma fakeUserRateLimitConfigResponse_typed [fakes]: "faker_helpers (the_faker faker opts) \<Longrightarrow> generates (fakeUserRateLimitConfigResponse faker opts) UserRateLimitConfigResponse_type"
  by (simp add: fakeUserRateLimitConfigResponse_def UserRateLimitConfigResponse_type_def fakes Let_def)

lemma fakeRateLimitUpdateResponse_typed [fakes]: "faker_helpers (the_faker faker opts) \<Longrightarrow> generates (fakeRateLimitUpdateResponse faker opts) RateLimitUpdateResponse_type"
  by (simp add: fakeRateLimitUpdateResponse_def RateLimitUpdateResponse_type_def fakes Let_def)

lemma fakeUserRateLimitsResponse_typed [fakes]: "faker_helpers (the_faker faker opts) \<Longrightarrow> generates (fakeUserRateLimitsResponse faker opts) UserRateLimitsResponse_type"
  by (simp add: fakeUserRateLimitsResponse_def UserRateLimitsResponse_type_def fakes Let_def)

lemma fakeUserRegisteredEvent_typed [fakes]: "faker_helpers (the_faker faker opts) \<Longrightarrow> generates (fakeUserRegisteredEvent faker opts) UserRegisteredEvent_type"
  by (simp add: fakeUserRegisteredEvent_def UserRegisteredEvent_type_def fakes Let_def)

lemma fakeUserRole_typed [fakes]: "faker_helpers (the_faker faker opts) \<Longrightarrow> generates (fakeUserRole faker opts) UserRole_type"
  by (simp add: fakeUserRole_def UserRole_type_def UserRole_members_def fakes Let_def)

lemma fakeLoginResponse_typed [fakes]: "faker_helpers (the_faker faker opts) \<Longrightarrow> generates (fakeLoginResponse faker opts) LoginResponse_type"
  by (simp add: fakeLoginResponse_def LoginResponse_type_def fakes Let_def)

lemma fakeUserCreate_typed [fakes]: "faker_helpers (the_faker faker opts) \<Longrightarrow> generates (fakeUserCreate faker opts) UserCreate_type"
  by (simp add: fakeUserCreate_def UserCreate_type_def fakes Let_def)

lemma fakeUserResponse_typed [fakes]: "faker_helpers (the_faker faker opts) \<Longrightarrow> generates (fakeUserResponse faker opts) UserResponse_type"
  by (simp add: fakeUserResponse_def UserResponse_type_def fakes Let_def)

lemma fakeUserListResponse_typed [fakes]: "faker_helpers (the_faker faker opts) \<Longrightarrow> generates (fakeUserListResponse faker opts) UserListResponse_type"
  by (simp add: fakeUserListResponse_def UserListResponse_type_def fakes Let_def)

lemma fakeUserSettings_typed [fakes]: "faker_helpers (the_faker faker opts) \<Longrightarrow> generates (fakeUserSettings faker opts) UserSettings_type"
  by (simp add: fakeUserSettings_def UserSettings_type_def fakes Let_def)

lemma fakeUserSettingsUpdate_typed [fakes]: "faker_helpers (the_faker faker opts) \<Longrightarrow> generates (fakeUserSettingsUpdate faker opts) UserSettingsUpdate_type"
  by (simp add: fakeUserSettingsUpdate_def UserSettingsUpdate_type_def fakes Let_def)

lemma fakeUserSettingsUpdatedEvent_typed [fakes]: "faker_helpers (the_faker faker opts) \<Longrightarrow> generates (fakeUserSettingsUpdatedEvent faker opts) UserSettingsUpdatedEvent_type"
  by (simp add: fakeUserSettingsUpdatedEvent_def UserSettingsUpdatedEvent_type_def fakes Let_def)

lemma fakeUserUpdate_typed [fakes]: "faker_helpers (the_faker faker opts) \<Longrightarrow> generates (fakeUserUpdate faker opts) UserUpdate_type"
  by (simp add: fakeUserUpdate_def UserUpdate_type_def fakes Let_def)

lemma fakeUserUpdatedEvent_typed [fakes]: "faker_helpers (the_faker faker opts) \<Longrightarrow> generates (fakeUserUpdatedEvent faker opts) UserUpdatedEvent_type"
  by (simp add: fakeUserUpdatedEvent_def UserUpdatedEvent_type_def fakes Let_def)

lemma fakeAdminUserOverview_typed [fakes]: "faker_helpers (the_faker faker opts) \<Longrightarrow> generates (fakeAdminUserOverview faker opts) AdminUserOverview_type"
  by (simp add: fakeAdminUserOverview_def AdminUserOverview_type_def fakes Let_def)

lemma fakeEventBrowseResponse_typed [fakes]: "faker_helpers (the_faker faker opts) \<Longrightarrow> generates (fakeEventBrowseResponse faker opts) EventBrowseResponse_type"
  by (simp add: fakeEventBrowseResponse_def EventBrowseResponse_type_def fakes Let_def)

text \<open>The events of a detail response, told apart by their tags\<close>

lemma fakeExecutionRequestedEvent_tagged [fakes]:
  "faker_helpers (the_faker faker opts) \<Longrightarrow>
   generates (fakeExecutionRequestedEvent faker opts) (TInter [TObject [(''event_type'', False, TLit ''execution_requested'')], ExecutionRequestedEvent_type])"
  by (rule generates_inter, simp add: fakeExecutionRequestedEvent_typed, simp add: fakeExecutionRequestedEvent_def fakes Let_def)

lemma fakeExecutionAcceptedEvent_tagged [fakes]:
  "faker_helpers (the_faker faker opts) \<Longrightarrow>
   generates (fakeExecutionAcceptedEvent faker opts) (TInter [TObject [(''event_type'', False, TLit ''execution_accepted'')], ExecutionAcceptedEvent_type])"
  by (rule generates_inter, simp add: fakeExecutionAcceptedEvent_typed, simp add: fakeExecutionAcceptedEvent_def fakes Let_def)

lemma fakeExecutionQueuedEvent_tagged [fakes]:
  "faker_helpers (the_faker faker opts) \<Longrightarrow>
   generates (fakeExecutionQueuedEvent faker opts) (TInter [TObject [(''event_type'', False, TLit ''execution_queued'')], ExecutionQueuedEvent_type])"
  by (rule generates_inter, simp add: fakeExecutionQueuedEvent_typed, simp add: fakeExecutionQueuedEvent_def fakes Let_def)

lemma fakeExecutionStartedEvent_tagged [fakes]:
  "faker_helpers (the_faker faker opts) \<Longrightarrow>
   generates (fakeExecutionStartedEvent faker opts) (TInter [TObject [(''event_type'', False, TLit ''execution_started'')], ExecutionStartedEvent_type])"
  by (rule generates_inter, simp add: fakeExecutionStartedEvent_typed, simp add: fakeExecutionStartedEvent_def fakes Let_def)

lemma fakeExecutionRunningEvent_tagged [fakes]:
  "faker_helpers (the_faker faker opts) \<Longrightarrow>
   generates (fakeExecutionRunningEvent faker opts) (TInter [TObject [(''event_type'', False, TLit ''execution_running'')], ExecutionRunningEvent_type])"
  by (rule generates_inter, simp add: fakeExecutionRunningEvent_typed, simp add: fakeExecutionRunningEvent_def fakes Let_def)

lemma fakeExecutionCompletedEvent_tagged [fakes]:
  "faker_helpers (the_faker faker opts) \<Longrightarrow>
   generates (fakeExecutionCompletedEvent faker opts) (TInter [TObject [(''event_type'', False, TLit ''execution_completed'')], ExecutionCompletedEvent_type])"
  by (rule generates_inter, simp add: fakeExecutionCompletedEvent_typed, simp add: fakeExecutionCompletedEvent_def fakes Let_def)

lemma fakeExecutionFailedEvent_tagged [fakes]:
  "faker_helpers (the_faker faker opts) \<Longrightarrow>
   generates (fakeExecutionFailedEvent faker opts) (TInter [TObject [(''event_type'', False, TLit ''execution_failed'')], ExecutionFailedEvent_type])"
  by (rule generates_inter, simp add: fakeExecutionFailedEvent_typed, simp add: fakeExecutionFailedEvent_def fakes Let_def)

lemma fakeExecutionTimeoutEvent_tagged [fakes]:
  "faker_helpers (the_faker faker opts) \<Longrightarrow>
   generates (fakeExecutionTimeoutEvent faker opts) (TInter [TObject [(''event_type'', False, TLit ''execution_timeout'')], ExecutionTimeoutEvent_type])"
  by (rule generates_inter, simp add: fakeExecutionTimeoutEvent_typed, simp add: fakeExecutionTimeoutEvent_def fakes Let_def)

lemma fakeExecutionCancelledEvent_tagged [fakes]:
  "faker_helpers (the_faker faker opts) \<Longrightarrow>
   generates (fakeExecutionCancelledEvent faker opts) (TInter [TObject [(''event_type'', False, TLit ''execution_cancelled'')], ExecutionCancelledEvent_type])"
  by (rule generates_inter, simp add: fakeExecutionCancelledEvent_typed, simp add: fakeExecutionCancelledEvent_def fakes Let_def)

lemma fakePodCreatedEvent_tagged [fakes]:
  "faker_helpers (the_faker faker opts) \<Longrightarrow>
   generates (fakePodCreatedEvent faker opts) (TInter [TObject [(''event_type'', False, TLit ''pod_created'')], PodCreatedEvent_type])"
  by (rule generates_inter, simp add: fakePodCreatedEvent_typed, simp add: fakePodCreatedEvent_def fakes Let_def)

lemma fakePodScheduledEvent_tagged [fakes]:
  "faker_helpers (the_faker faker opts) \<Longrightarrow>
   generates (fakePodScheduledEvent faker opts) (TInter [TObject [(''event_type'', False, TLit ''pod_scheduled'')], PodScheduledEvent_type])"
  by (rule generates_inter, simp add: fakePodScheduledEvent_typed, simp add: fakePodScheduledEvent_def fakes Let_def)

lemma fakePodRunningEvent_tagged [fakes]:
  "faker_helpers (the_faker faker opts) \<Longrightarrow>
   generates (fakePodRunningEvent faker opts) (TInter [TObject [(''event_type'', False, TLit ''pod_running'')], PodRunningEvent_type])"
  by (rule generates_inter, simp add: fakePodRunningEvent_typed, simp add: fakePodRunningEvent_def fakes Let_def)

lemma fakePodSucceededEvent_tagged [fakes]:
  "faker_helpers (the_faker faker opts) \<Longrightarrow>
   generates (fakePodSucceededEvent faker opts) (TInter [TObject [(''event_type'', False, TLit ''pod_succeeded'')], PodSucceededEvent_type])"
  by (rule generates_inter, simp add: fakePodSucceededEvent_typed, simp add: fakePodSucceededEvent_def fakes Let_def)

lemma fakePodFailedEvent_tagged [fakes]:
  "faker_helpers (the_faker faker opts) \<Longrightarrow>
   generates (fakePodFailedEvent faker opts) (TInter [TObject [(''event_type'', False, TLit ''pod_failed'')], PodFailedEvent_type])"
  by (rule generates_inter, simp add: fakePodFailedEvent_typed, simp add: fakePodFailedEvent_def fakes Let_def)

lemma fakePodTerminatedEvent_tagged [fakes]:
  "faker_helpers (the_faker faker opts) \<Longrightarrow>
   generates (fakePodTerminatedEvent faker opts) (TInter [TObject [(''event_type'', False, TLit ''pod_terminated'')], PodTerminatedEvent_type])"
  by (rule generates_inter, simp add: fakePodTerminatedEvent_typed, simp add: fakePodTerminatedEvent_def fakes Let_def)

lemma fakePodDeletedEvent_tagged [fakes]:
  "faker_helpers (the_faker faker opts) \<Longrightarrow>
   generates (fakePodDeletedEvent faker opts) (TInter [TObject [(''event_type'', False, TLit ''pod_deleted'')], PodDeletedEvent_type])"
  by (rule generates_inter, simp add: fakePodDeletedEvent_typed, simp add: fakePodDeletedEvent_def fakes Let_def)

lemma fakeResultStoredEvent_tagged [fakes]:
  "faker_helpers (the_faker faker opts) \<Longrightarrow>
   generates (fakeResultStoredEvent faker opts) (TInter [TObject [(''event_type'', False, TLit ''result_stored'')], ResultStoredEvent_type])"
  by (rule generates_inter, simp add: fakeResultStoredEvent_typed, simp add: fakeResultStoredEvent_def fakes Let_def)

lemma fakeResultFailedEvent_tagged [fakes]:
  "faker_helpers (the_faker faker opts) \<Longrightarrow>
   generates (fakeResultFailedEvent faker opts) (TInter [TObject [(''event_type'', False, TLit ''result_failed'')], ResultFailedEvent_type])"
  by (rule generates_inter, simp add: fakeResultFailedEvent_typed, simp add: fakeResultFailedEvent_def fakes Let_def)

lemma fakeUserSettingsUpdatedEvent_tagged [fakes]:
  "faker_helpers (the_faker faker opts) \<Longrightarrow>
   generates (fakeUserSettingsUpdatedEvent faker opts) (TInter [TObject [(''event_type'', False, TLit ''user_settings_updated'')], UserSettingsUpdatedEvent_type])"
  by (rule generates_inter, simp add: fakeUserSettingsUpdatedEvent_typed, simp add: fakeUserSettingsUpdatedEvent_def fakes Let_def)

lemma fakeUserRegisteredEvent_tagged [fakes]:
  "faker_helpers (the_faker faker opts) \<Longrightarrow>
   generates (fakeUserRegisteredEvent faker opts) (TInter [TObject [(''event_type'', False, TLit ''user_registered'')], UserRegisteredEvent_type])"
  by (rule generates_inter, simp add: fakeUserRegisteredEvent_typed, simp add: fakeUserRegisteredEvent_def fakes Let_def)

lemma fakeUserLoginEvent_tagged [fakes]:
  "faker_helpers (the_faker faker opts) \<Longrightarrow>
   generates (fakeUserLoginEvent faker opts) (TInter [TObject [(''event_type'', False, TLit ''user_login'')], UserLoginEvent_type])"
  by (rule generates_inter, simp add: fakeUserLoginEvent_typed, simp add: fakeUserLoginEvent_def fakes Let_def)

lemma fakeUserLoggedInEvent_tagged [fakes]:
  "faker_helpers (the_faker faker opts) \<Longrightarrow>
   generates (fakeUserLoggedInEvent faker opts) (TInter [TObject [(''event_type'', False, TLit ''user_logged_in'')], UserLoggedInEvent_type])"
  by (rule generates_inter, simp add: fakeUserLoggedInEvent_typed, simp add: fakeUserLoggedInEvent_def fakes Let_def)

lemma fakeUserLoggedOutEvent_tagged [fakes]:
  "faker_helpers (the_faker faker opts) \<Longrightarrow>
   generates (fakeUserLoggedOutEvent faker opts) (TInter [TObject [(''event_type'', False, TLit ''user_logged_out'')], UserLoggedOutEvent_type])"
  by (rule generates_inter, simp add: fakeUserLoggedOutEvent_typed, simp add: fakeUserLoggedOutEvent_def fakes Let_def)

lemma fakeUserUpdatedEvent_tagged [fakes]:
  "faker_helpers (the_faker faker opts) \<Longrightarrow>
   generates (fakeUserUpdatedEvent faker opts) (TInter [TObject [(''event_type'', False, TLit ''user_updated'')], UserUpdatedEvent_type])"
  by (rule generates_inter, simp add: fakeUserUpdatedEvent_typed, simp add: fakeUserUpdatedEvent_def fakes Let_def)

lemma fakeUserDeletedEvent_tagged [fakes]:
  "faker_helpers (the_faker faker opts) \<Longrightarrow>
   generates (fakeUserDeletedEvent faker opts) (TInter [TObject [(''event_type'', False, TLit ''user_deleted'')], UserDeletedEvent_type])"
  by (rule generates_inter, simp add: fakeUserDeletedEvent_typed, simp add: fakeUserDeletedEvent_def fakes Let_def)

lemma fakeNotificationCreatedEvent_tagged [fakes]:
  "faker_helpers (the_faker faker opts) \<Longrightarrow>
   generates (fakeNotificationCreatedEvent faker opts) (TInter [TObject [(''event_type'', False, TLit ''notification_created'')], NotificationCreatedEvent_type])"
  by (rule generates_inter, simp add: fakeNotificationCreatedEvent_typed, simp add: fakeNotificationCreatedEvent_def fakes Let_def)

lemma fakeNotificationSentEvent_tagged [fakes]:
  "faker_helpers (the_faker faker opts) \<Longrightarrow>
   generates (fakeNotificationSentEvent faker opts) (TInter [TObject [(''event_type'', False, TLit ''notification_sent'')], NotificationSentEvent_type])"
  by (rule generates_inter, simp add: fakeNotificationSentEvent_typed, simp add: fakeNotificationSentEvent_def fakes Let_def)

lemma fakeNotificationDeliveredEvent_tagged [fakes]:
  "faker_helpers (the_faker faker opts) \<Longrightarrow>
   generates (fakeNotificationDeliveredEvent faker opts) (TInter [TObject [(''event_type'', False, TLit ''notification_delivered'')], NotificationDeliveredEvent_type])"
  by (rule generates_inter, simp add: fakeNotificationDeliveredEvent_typed, simp add: fakeNotificationDeliveredEvent_def fakes Let_def)

lemma fakeNotificationFailedEvent_tagged [fakes]:
  "faker_helpers (the_faker faker opts) \<Longrightarrow>
   generates (fakeNotificationFailedEvent faker opts) (TInter [TObject [(''event_type'', False, TLit ''notification_failed'')], NotificationFailedEvent_type])"
  by (rule generates_inter, simp add: fakeNotificationFailedEvent_typed, simp add: fakeNotificationFailedEvent_def fakes Let_def)

lemma fakeNotificationReadEvent_tagged [fakes]:
  "faker_helpers (the_faker faker opts) \<Longrightarrow>
   generates (fakeNotificationReadEvent faker opts) (TInter [TObject [(''event_type'', False, TLit ''notification_read'')], NotificationReadEvent_type])"
  by (rule generates_inter, simp add: fakeNotificationReadEvent_typed, simp add: fakeNotificationReadEvent_def fakes Let_def)

lemma fakeNotificationAllReadEvent_tagged [fakes]:
  "faker_helpers (the_faker faker opts) \<Longrightarrow>
   generates (fakeNotificationAllReadEvent faker opts) (TInter [TObject [(''event_type'', False, TLit ''notification_all_read'')], NotificationAllReadEvent_type])"
  by (rule generates_inter, simp add: fakeNotificationAllReadEvent_typed, simp add: fakeNotificationAllReadEvent_def fakes Let_def)

lemma fakeNotificationClickedEvent_tagged [fakes]:
  "faker_helpers (the_faker faker opts) \<Longrightarrow>
   generates (fakeNotificationClickedEvent faker opts) (TInter [TObject [(''event_type'', False, TLit ''notification_clicked'')], NotificationClickedEvent_type])"
  by (rule generates_inter, simp add: fakeNotificationClickedEvent_typed, simp add: fakeNotificationClickedEvent_def fakes Let_def)

lemma fakeNotificationPreferencesUpdatedEvent_tagged [fakes]:
  "faker_helpers (the_faker faker opts) \<Longrightarrow>
   generates (fakeNotificationPreferencesUpdatedEvent faker opts) (TInter [TObject [(''event_type'', False, TLit ''notification_preferences_updated'')], NotificationPreferencesUpdatedEvent_type])"
  by (rule generates_inter, simp add: fakeNotificationPreferencesUpdatedEvent_typed, simp add: fakeNotificationPreferencesUpdatedEvent_def fakes Let_def)

lemma fakeScriptSavedEvent_tagged [fakes]:
  "faker_helpers (the_faker faker opts) \<Longrightarrow>
   generates (fakeScriptSavedEvent faker opts) (TInter [TObject [(''event_type'', False, TLit ''script_saved'')], ScriptSavedEvent_type])"
  by (rule generates_inter, simp add: fakeScriptSavedEvent_typed, simp add: fakeScriptSavedEvent_def fakes Let_def)

lemma fakeScriptDeletedEvent_tagged [fakes]:
  "faker_helpers (the_faker faker opts) \<Longrightarrow>
   generates (fakeScriptDeletedEvent faker opts) (TInter [TObject [(''event_type'', False, TLit ''script_deleted'')], ScriptDeletedEvent_type])"
  by (rule generates_inter, simp add: fakeScriptDeletedEvent_typed, simp add: fakeScriptDeletedEvent_def fakes Let_def)

lemma fakeScriptSharedEvent_tagged [fakes]:
  "faker_helpers (the_faker faker opts) \<Longrightarrow>
   generates (fakeScriptSharedEvent faker opts) (TInter [TObject [(''event_type'', False, TLit ''script_shared'')], ScriptSharedEvent_type])"
  by (rule generates_inter, simp add: fakeScriptSharedEvent_typed, simp add: fakeScriptSharedEvent_def fakes Let_def)

lemma fakeSecurityViolationEvent_tagged [fakes]:
  "faker_helpers (the_faker faker opts) \<Longrightarrow>
   generates (fakeSecurityViolationEvent faker opts) (TInter [TObject [(''event_type'', False, TLit ''security_violation'')], SecurityViolationEvent_type])"
  by (rule generates_inter, simp add: fakeSecurityViolationEvent_typed, simp add: fakeSecurityViolationEvent_def fakes Let_def)

lemma fakeRateLimitExceededEvent_tagged [fakes]:
  "faker_helpers (the_faker faker opts) \<Longrightarrow>
   generates (fakeRateLimitExceededEvent faker opts) (TInter [TObject [(''event_type'', False, TLit ''rate_limit_exceeded'')], RateLimitExceededEvent_type])"
  by (rule generates_inter, simp add: fakeRateLimitExceededEvent_typed, simp add: fakeRateLimitExceededEvent_def fakes Let_def)

lemma fakeAuthFailedEvent_tagged [fakes]:
  "faker_helpers (the_faker faker opts) \<Longrightarrow>
   generates (fakeAuthFailedEvent faker opts) (TInter [TObject [(''event_type'', False, TLit ''auth_failed'')], AuthFailedEvent_type])"
  by (rule generates_inter, simp add: fakeAuthFailedEvent_typed, simp add: fakeAuthFailedEvent_def fakes Let_def)

lemma fakeResourceLimitExceededEvent_tagged [fakes]:
  "faker_helpers (the_faker faker opts) \<Longrightarrow>
   generates (fakeResourceLimitExceededEvent faker opts) (TInter [TObject [(''event_type'', False, TLit ''resource_limit_exceeded'')], ResourceLimitExceededEvent_type])"
  by (rule generates_inter, simp add: fakeResourceLimitExceededEvent_typed, simp add: fakeResourceLimitExceededEvent_def fakes Let_def)

lemma fakeQuotaExceededEvent_tagged [fakes]:
  "faker_helpers (the_faker faker opts) \<Longrightarrow>
   generates (fakeQuotaExceededEvent faker opts) (TInter [TObject [(''event_type'', False, TLit ''quota_exceeded'')], QuotaExceededEvent_type])"
  by (rule generates_inter, simp add: fakeQuotaExceededEvent_typed, simp add: fakeQuotaExceededEvent_def fakes Let_def)

lemma fakeSystemErrorEvent_tagged [fakes]:
  "faker_helpers (the_faker faker opts) \<Longrightarrow>
   generates (fakeSystemErrorEvent faker opts) (TInter [TObject [(''event_type'', False, TLit ''system_error'')], SystemErrorEvent_type])"
  by (rule generates_inter, simp add: fakeSystemErrorEvent_typed, simp add: fakeSystemErrorEvent_def fakes Let_def)

lemma fakeServiceUnhealthyEvent_tagged [fakes]:
  "faker_helpers (the_faker faker opts) \<Longrightarrow>
   generates (fakeServiceUnhealthyEvent faker opts) (TInter [TObject [(''event_type'', False, TLit ''service_unhealthy'')], ServiceUnhealthyEvent_type])"
  by (rule generates_inter, simp add: fakeServiceUnhealthyEvent_typed, simp add: fakeServiceUnhealthyEvent_def fakes Let_def)

lemma fakeServiceRecoveredEvent_tagged [fakes]:
  "faker_helpers (the_faker faker opts) \<Longrightarrow>
   generates (fakeServiceRecoveredEvent faker opts) (TInter [TObject [(''event_type'', False, TLit ''service_recovered'')], ServiceRecoveredEvent_type])"
  by (rule generates_inter, simp add: fakeServiceRecoveredEvent_typed, simp add: fakeServiceRecoveredEvent_def fakes Let_def)

lemma fakeDlqMessageReceivedEvent_tagged [fakes]:
  "faker_helpers (the_faker faker opts) \<Longrightarrow>
   generates (fakeDlqMessageReceivedEvent faker opts) (TInter [TObject [(''event_type'', False, TLit ''dlq_message_received'')], DlqMessageReceivedEvent_type])"
  by (rule generates_inter, simp add: fakeDlqMessageReceivedEvent_typed, simp add: fakeDlqMessageReceivedEvent_def fakes Let_def)

lemma fakeDlqMessageRetriedEvent_tagged [fakes]:
  "faker_helpers (the_faker faker opts) \<Longrightarrow>
   generates (fakeDlqMessageRetriedEvent faker opts) (TInter [TObject [(''event_type'', False, TLit ''dlq_message_retried'')], DlqMessageRetriedEvent_type])"
  by (rule generates_inter, simp add: fakeDlqMessageRetriedEvent_typed, simp add: fakeDlqMessageRetriedEvent_def fakes Let_def)

lemma fakeDlqMessageDiscardedEvent_tagged [fakes]:
  "faker_helpers (the_faker faker opts) \<Longrightarrow>
   generates (fakeDlqMessageDiscardedEvent faker opts) (TInter [TObject [(''event_type'', False, TLit ''dlq_message_discarded'')], DlqMessageDiscardedEvent_type])"
  by (rule generates_inter, simp add: fakeDlqMessageDiscardedEvent_typed, simp add: fakeDlqMessageDiscardedEvent_def fakes Let_def)

lemma fakeEventDetailResponse_typed [fakes]: "faker_helpers (the_faker faker opts) \<Longrightarrow> generates (fakeEventDetailResponse faker opts) EventDetailResponse_type"
  by (simp add: fakeEventDetailResponse_def EventDetailResponse_type_def fakes Let_def)

lemma fakeEventReplayStatusResponseWritable_typed [fakes]: "faker_helpers (the_faker faker opts) \<Longrightarrow> generates (fakeEventReplayStatusResponseWritable faker opts) EventReplayStatusResponseWritable_type"
  by (simp add: fakeEventReplayStatusResponseWritable_def EventReplayStatusResponseWritable_type_def fakes Let_def)

lemma fakeUserCreateWritable_typed [fakes]: "faker_helpers (the_faker faker opts) \<Longrightarrow> generates (fakeUserCreateWritable faker opts) UserCreateWritable_type"
  by (simp add: fakeUserCreateWritable_def UserCreateWritable_type_def fakes Let_def)

lemma fakeUserUpdateWritable_typed [fakes]: "faker_helpers (the_faker faker opts) \<Longrightarrow> generates (fakeUserUpdateWritable faker opts) UserUpdateWritable_type"
  by (simp add: fakeUserUpdateWritable_def UserUpdateWritable_type_def fakes Let_def)

lemma fakeLoginApiV1AuthLoginPostRequest_typed [fakes]: "faker_helpers (the_faker faker opts) \<Longrightarrow> generates (fakeLoginApiV1AuthLoginPostRequest faker opts) (omit_url LoginApiV1AuthLoginPostData_type)"
  by (simp add: fakeLoginApiV1AuthLoginPostRequest_def LoginApiV1AuthLoginPostData_type_def fakes Let_def)

lemma fakeLoginApiV1AuthLoginPostResponse200_typed [fakes]: "faker_helpers (the_faker faker opts) \<Longrightarrow> generates (fakeLoginApiV1AuthLoginPostResponse200 faker opts) (field_of ''200'' LoginApiV1AuthLoginPostResponses_type)"
  by (simp add: fakeLoginApiV1AuthLoginPostResponse200_def LoginApiV1AuthLoginPostResponses_type_def fakes Let_def)

lemma fakeLoginApiV1AuthLoginPostResponse401_typed [fakes]: "faker_helpers (the_faker faker opts) \<Longrightarrow> generates (fakeLoginApiV1AuthLoginPostResponse401 faker opts) (field_of ''401'' LoginApiV1AuthLoginPostErrors_type)"
  by (simp add: fakeLoginApiV1AuthLoginPostResponse401_def LoginApiV1AuthLoginPostErrors_type_def fakes Let_def)

lemma fakeLoginApiV1AuthLoginPostResponse403_typed [fakes]: "faker_helpers (the_faker faker opts) \<Longrightarrow> generates (fakeLoginApiV1AuthLoginPostResponse403 faker opts) (field_of ''403'' LoginApiV1AuthLoginPostErrors_type)"
  by (simp add: fakeLoginApiV1AuthLoginPostResponse403_def LoginApiV1AuthLoginPostErrors_type_def fakes Let_def)

lemma fakeLoginApiV1AuthLoginPostResponse423_typed [fakes]: "faker_helpers (the_faker faker opts) \<Longrightarrow> generates (fakeLoginApiV1AuthLoginPostResponse423 faker opts) (field_of ''423'' LoginApiV1AuthLoginPostErrors_type)"
  by (simp add: fakeLoginApiV1AuthLoginPostResponse423_def LoginApiV1AuthLoginPostErrors_type_def fakes Let_def)

lemma fakeLoginApiV1AuthLoginPostResponsedefault_typed [fakes]: "faker_helpers (the_faker faker opts) \<Longrightarrow> generates (fakeLoginApiV1AuthLoginPostResponsedefault faker opts) (field_of ''default'' LoginApiV1AuthLoginPostErrors_type)"
  by (simp add: fakeLoginApiV1AuthLoginPostResponsedefault_def LoginApiV1AuthLoginPostErrors_type_def fakes Let_def)

lemma fakeRegisterApiV1AuthRegisterPostRequest_typed [fakes]: "faker_helpers (the_faker faker opts) \<Longrightarrow> generates (fakeRegisterApiV1AuthRegisterPostRequest faker opts) (omit_url RegisterApiV1AuthRegisterPostData_type)"
  by (simp add: fakeRegisterApiV1AuthRegisterPostRequest_def RegisterApiV1AuthRegisterPostData_type_def fakes Let_def)

lemma fakeRegisterApiV1AuthRegisterPostResponse200_typed [fakes]: "faker_helpers (the_faker faker opts) \<Longrightarrow> generates (fakeRegisterApiV1AuthRegisterPostResponse200 faker opts) (field_of ''200'' RegisterApiV1AuthRegisterPostResponses_type)"
  by (simp add: fakeRegisterApiV1AuthRegisterPostResponse200_def RegisterApiV1AuthRegisterPostResponses_type_def fakes Let_def)

lemma fakeRegisterApiV1AuthRegisterPostResponse409_typed [fakes]: "faker_helpers (the_faker faker opts) \<Longrightarrow> generates (fakeRegisterApiV1AuthRegisterPostResponse409 faker opts) (field_of ''409'' RegisterApiV1AuthRegisterPostErrors_type)"
  by (simp add: fakeRegisterApiV1AuthRegisterPostResponse409_def RegisterApiV1AuthRegisterPostErrors_type_def fakes Let_def)

lemma fakeRegisterApiV1AuthRegisterPostResponse422_typed [fakes]: "faker_helpers (the_faker faker opts) \<Longrightarrow> generates (fakeRegisterApiV1AuthRegisterPostResponse422 faker opts) (field_of ''422'' RegisterApiV1AuthRegisterPostErrors_type)"
  by (simp add: fakeRegisterApiV1AuthRegisterPostResponse422_def RegisterApiV1AuthRegisterPostErrors_type_def fakes Let_def)

lemma fakeRegisterApiV1AuthRegisterPostResponsedefault_typed [fakes]: "faker_helpers (the_faker faker opts) \<Longrightarrow> generates (fakeRegisterApiV1AuthRegisterPostResponsedefault faker opts) (field_of ''default'' RegisterApiV1AuthRegisterPostErrors_type)"
  by (simp add: fakeRegisterApiV1AuthRegisterPostResponsedefault_def RegisterApiV1AuthRegisterPostErrors_type_def fakes Let_def)

lemma fakeGetCurrentUserProfileApiV1AuthMeGetResponse200_typed [fakes]: "faker_helpers (the_faker faker opts) \<Longrightarrow> generates (fakeGetCurrentUserProfileApiV1AuthMeGetResponse200 faker opts) (field_of ''200'' GetCurrentUserProfileApiV1AuthMeGetResponses_type)"
  by (simp add: fakeGetCurrentUserProfileApiV1AuthMeGetResponse200_def GetCurrentUserProfileApiV1AuthMeGetResponses_type_def fakes Let_def)

lemma fakeGetCurrentUserProfileApiV1AuthMeGetResponse401_typed [fakes]: "faker_helpers (the_faker faker opts) \<Longrightarrow> generates (fakeGetCurrentUserProfileApiV1AuthMeGetResponse401 faker opts) (field_of ''401'' GetCurrentUserProfileApiV1AuthMeGetErrors_type)"
  by (simp add: fakeGetCurrentUserProfileApiV1AuthMeGetResponse401_def GetCurrentUserProfileApiV1AuthMeGetErrors_type_def fakes Let_def)

lemma fakeGetCurrentUserProfileApiV1AuthMeGetResponsedefault_typed [fakes]: "faker_helpers (the_faker faker opts) \<Longrightarrow> generates (fakeGetCurrentUserProfileApiV1AuthMeGetResponsedefault faker opts) (field_of ''default'' GetCurrentUserProfileApiV1AuthMeGetErrors_type)"
  by (simp add: fakeGetCurrentUserProfileApiV1AuthMeGetResponsedefault_def GetCurrentUserProfileApiV1AuthMeGetErrors_type_def fakes Let_def)

lemma fakeLogoutApiV1AuthLogoutPostResponse200_typed [fakes]: "faker_helpers (the_faker faker opts) \<Longrightarrow> generates (fakeLogoutApiV1AuthLogoutPostResponse200 faker opts) (field_of ''200'' LogoutApiV1AuthLogoutPostResponses_type)"
  by (simp add: fakeLogoutApiV1AuthLogoutPostResponse200_def LogoutApiV1AuthLogoutPostResponses_type_def fakes Let_def)

lemma fakeLogoutApiV1AuthLogoutPostResponse403_typed [fakes]: "faker_helpers (the_faker faker opts) \<Longrightarrow> generates (fakeLogoutApiV1AuthLogoutPostResponse403 faker opts) (field_of ''403'' LogoutApiV1AuthLogoutPostErrors_type)"
  by (simp add: fakeLogoutApiV1AuthLogoutPostResponse403_def LogoutApiV1AuthLogoutPostErrors_type_def fakes Let_def)

lemma fakeLogoutApiV1AuthLogoutPostResponsedefault_typed [fakes]: "faker_helpers (the_faker faker opts) \<Longrightarrow> generates (fakeLogoutApiV1AuthLogoutPostResponsedefault faker opts) (field_of ''default'' LogoutApiV1AuthLogoutPostErrors_type)"
  by (simp add: fakeLogoutApiV1AuthLogoutPostResponsedefault_def LogoutApiV1AuthLogoutPostErrors_type_def fakes Let_def)

lemma fakeCreateExecutionApiV1ExecutePostRequest_typed [fakes]: "faker_helpers (the_faker faker opts) \<Longrightarrow> generates (fakeCreateExecutionApiV1ExecutePostRequest faker opts) (omit_url CreateExecutionApiV1ExecutePostData_type)"
  by (simp add: fakeCreateExecutionApiV1ExecutePostRequest_def CreateExecutionApiV1ExecutePostData_type_def fakes Let_def)

lemma fakeCreateExecutionApiV1ExecutePostResponse200_typed [fakes]: "faker_helpers (the_faker faker opts) \<Longrightarrow> generates (fakeCreateExecutionApiV1ExecutePostResponse200 faker opts) (field_of ''200'' CreateExecutionApiV1ExecutePostResponses_type)"
  by (simp add: fakeCreateExecutionApiV1ExecutePostResponse200_def CreateExecutionApiV1ExecutePostResponses_type_def fakes Let_def)

lemma fakeCreateExecutionApiV1ExecutePostResponse409_typed [fakes]: "faker_helpers (the_faker faker opts) \<Longrightarrow> generates (fakeCreateExecutionApiV1ExecutePostResponse409 faker opts) (field_of ''409'' CreateExecutionApiV1ExecutePostErrors_type)"
  by (simp add: fakeCreateExecutionApiV1ExecutePostResponse409_def CreateExecutionApiV1ExecutePostErrors_type_def fakes Let_def)

lemma fakeCreateExecutionApiV1ExecutePostResponse429_typed [fakes]: "faker_helpers (the_faker faker opts) \<Longrightarrow> generates (fakeCreateExecutionApiV1ExecutePostResponse429 faker opts) (field_of ''429'' CreateExecutionApiV1ExecutePostErrors_type)"
  by (simp add: fakeCreateExecutionApiV1ExecutePostResponse429_def CreateExecutionApiV1ExecutePostErrors_type_def fakes Let_def)

lemma fakeCreateExecutionApiV1ExecutePostResponse500_typed [fakes]: "faker_helpers (the_faker faker opts) \<Longrightarrow> generates (fakeCreateExecutionApiV1ExecutePostResponse500 faker opts) (field_of ''500'' CreateExecutionApiV1ExecutePostErrors_type)"
  by (simp add: fakeCreateExecutionApiV1ExecutePostResponse500_def CreateExecutionApiV1ExecutePostErrors_type_def fakes Let_def)

lemma fakeCreateExecutionApiV1ExecutePostResponsedefault_typed [fakes]: "faker_helpers (the_faker faker opts) \<Longrightarrow> generates (fakeCreateExecutionApiV1ExecutePostResponsedefault faker opts) (field_of ''default'' CreateExecutionApiV1ExecutePostErrors_type)"
  by (simp add: fakeCreateExecutionApiV1ExecutePostResponsedefault_def CreateExecutionApiV1ExecutePostErrors_type_def fakes Let_def)

lemma fakeGetResultApiV1ExecutionsExecutionIdResultGetRequest_typed [fakes]: "faker_helpers (the_faker faker opts) \<Longrightarrow> generates (fakeGetResultApiV1ExecutionsExecutionIdResultGetRequest faker opts) (omit_url GetResultApiV1ExecutionsExecutionIdResultGetData_type)"
  by (simp add: fakeGetResultApiV1ExecutionsExecutionIdResultGetRequest_def GetResultApiV1ExecutionsExecutionIdResultGetData_type_def fakes Let_def)

lemma fakeGetResultApiV1ExecutionsExecutionIdResultGetResponse200_typed [fakes]: "faker_helpers (the_faker faker opts) \<Longrightarrow> generates (fakeGetResultApiV1ExecutionsExecutionIdResultGetResponse200 faker opts) (field_of ''200'' GetResultApiV1ExecutionsExecutionIdResultGetResponses_type)"
  by (simp add: fakeGetResultApiV1ExecutionsExecutionIdResultGetResponse200_def GetResultApiV1ExecutionsExecutionIdResultGetResponses_type_def fakes Let_def)

lemma fakeGetResultApiV1ExecutionsExecutionIdResultGetResponse403_typed [fakes]: "faker_helpers (the_faker faker opts) \<Longrightarrow> generates (fakeGetResultApiV1ExecutionsExecutionIdResultGetResponse403 faker opts) (field_of ''403'' GetResultApiV1ExecutionsExecutionIdResultGetErrors_type)"
  by (simp add: fakeGetResultApiV1ExecutionsExecutionIdResultGetResponse403_def GetResultApiV1ExecutionsExecutionIdResultGetErrors_type_def fakes Let_def)

lemma fakeGetResultApiV1ExecutionsExecutionIdResultGetResponse404_typed [fakes]: "faker_helpers (the_faker faker opts) \<Longrightarrow> generates (fakeGetResultApiV1ExecutionsExecutionIdResultGetResponse404 faker opts) (field_of ''404'' GetResultApiV1ExecutionsExecutionIdResultGetErrors_type)"
  by (simp add: fakeGetResultApiV1ExecutionsExecutionIdResultGetResponse404_def GetResultApiV1ExecutionsExecutionIdResultGetErrors_type_def fakes Let_def)

lemma fakeGetResultApiV1ExecutionsExecutionIdResultGetResponsedefault_typed [fakes]: "faker_helpers (the_faker faker opts) \<Longrightarrow> generates (fakeGetResultApiV1ExecutionsExecutionIdResultGetResponsedefault faker opts) (field_of ''default'' GetResultApiV1ExecutionsExecutionIdResultGetErrors_type)"
  by (simp add: fakeGetResultApiV1ExecutionsExecutionIdResultGetResponsedefault_def GetResultApiV1ExecutionsExecutionIdResultGetErrors_type_def fakes Let_def)

lemma fakeCancelExecutionApiV1ExecutionsExecutionIdCancelPostRequest_typed [fakes]: "faker_helpers (the_faker faker opts) \<Longrightarrow> generates (fakeCancelExecutionApiV1ExecutionsExecutionIdCancelPostRequest faker opts) (omit_url CancelExecutionApiV1ExecutionsExecutionIdCancelPostData_type)"
  by (simp add: fakeCancelExecutionApiV1ExecutionsExecutionIdCancelPostRequest_def CancelExecutionApiV1ExecutionsExecutionIdCancelPostData_type_def fakes Let_def)

lemma fakeCancelExecutionApiV1ExecutionsExecutionIdCancelPostResponse200_typed [fakes]: "faker_helpers (the_faker faker opts) \<Longrightarrow> generates (fakeCancelExecutionApiV1ExecutionsExecutionIdCancelPostResponse200 faker opts) (field_of ''200'' CancelExecutionApiV1ExecutionsExecutionIdCancelPostResponses_type)"
  by (simp add: fakeCancelExecutionApiV1ExecutionsExecutionIdCancelPostResponse200_def CancelExecutionApiV1ExecutionsExecutionIdCancelPostResponses_type_def fakes Let_def)

lemma fakeCancelExecutionApiV1ExecutionsExecutionIdCancelPostResponse400_typed [fakes]: "faker_helpers (the_faker faker opts) \<Longrightarrow> generates (fakeCancelExecutionApiV1ExecutionsExecutionIdCancelPostResponse400 faker opts) (field_of ''400'' CancelExecutionApiV1ExecutionsExecutionIdCancelPostErrors_type)"
  by (simp add: fakeCancelExecutionApiV1ExecutionsExecutionIdCancelPostResponse400_def CancelExecutionApiV1ExecutionsExecutionIdCancelPostErrors_type_def fakes Let_def)

lemma fakeCancelExecutionApiV1ExecutionsExecutionIdCancelPostResponse403_typed [fakes]: "faker_helpers (the_faker faker opts) \<Longrightarrow> generates (fakeCancelExecutionApiV1ExecutionsExecutionIdCancelPostResponse403 faker opts) (field_of ''403'' CancelExecutionApiV1ExecutionsExecutionIdCancelPostErrors_type)"
  by (simp add: fakeCancelExecutionApiV1ExecutionsExecutionIdCancelPostResponse403_def CancelExecutionApiV1ExecutionsExecutionIdCancelPostErrors_type_def fakes Let_def)

lemma fakeCancelExecutionApiV1ExecutionsExecutionIdCancelPostResponse404_typed [fakes]: "faker_helpers (the_faker faker opts) \<Longrightarrow> generates (fakeCancelExecutionApiV1ExecutionsExecutionIdCancelPostResponse404 faker opts) (field_of ''404'' CancelExecutionApiV1ExecutionsExecutionIdCancelPostErrors_type)"
  by (simp add: fakeCancelExecutionApiV1ExecutionsExecutionIdCancelPostResponse404_def CancelExecutionApiV1ExecutionsExecutionIdCancelPostErrors_type_def fakes Let_def)

lemma fakeCancelExecutionApiV1ExecutionsExecutionIdCancelPostResponsedefault_typed [fakes]: "faker_helpers (the_faker faker opts) \<Longrightarrow> generates (fakeCancelExecutionApiV1ExecutionsExecutionIdCancelPostResponsedefault faker opts) (field_of ''default'' CancelExecutionApiV1ExecutionsExecutionIdCancelPostErrors_type)"
  by (simp add: fakeCancelExecutionApiV1ExecutionsExecutionIdCancelPostResponsedefault_def CancelExecutionApiV1ExecutionsExecutionIdCancelPostErrors_type_def fakes Let_def)

lemma fakeRetryExecutionApiV1ExecutionsExecutionIdRetryPostRequest_typed [fakes]: "faker_helpers (the_faker faker opts) \<Longrightarrow> generates (fakeRetryExecutionApiV1ExecutionsExecutionIdRetryPostRequest faker opts) (omit_url RetryExecutionApiV1ExecutionsExecutionIdRetryPostData_type)"
  by (simp add: fakeRetryExecutionApiV1ExecutionsExecutionIdRetryPostRequest_def RetryExecutionApiV1ExecutionsExecutionIdRetryPostData_type_def fakes Let_def)

lemma fakeRetryExecutionApiV1ExecutionsExecutionIdRetryPostResponse200_typed [fakes]: "faker_helpers (the_faker faker opts) \<Longrightarrow> generates (fakeRetryExecutionApiV1ExecutionsExecutionIdRetryPostResponse200 faker opts) (field_of ''200'' RetryExecutionApiV1ExecutionsExecutionIdRetryPostResponses_type)"
  by (simp add: fakeRetryExecutionApiV1ExecutionsExecutionIdRetryPostResponse200_def RetryExecutionApiV1ExecutionsExecutionIdRetryPostResponses_type_def fakes Let_def)

lemma fakeRetryExecutionApiV1ExecutionsExecutionIdRetryPostResponse400_typed [fakes]: "faker_helpers (the_faker faker opts) \<Longrightarrow> generates (fakeRetryExecutionApiV1ExecutionsExecutionIdRetryPostResponse400 faker opts) (field_of ''400'' RetryExecutionApiV1ExecutionsExecutionIdRetryPostErrors_type)"
  by (simp add: fakeRetryExecutionApiV1ExecutionsExecutionIdRetryPostResponse400_def RetryExecutionApiV1ExecutionsExecutionIdRetryPostErrors_type_def fakes Let_def)

lemma fakeRetryExecutionApiV1ExecutionsExecutionIdRetryPostResponse403_typed [fakes]: "faker_helpers (the_faker faker opts) \<Longrightarrow> generates (fakeRetryExecutionApiV1ExecutionsExecutionIdRetryPostResponse403 faker opts) (field_of ''403'' RetryExecutionApiV1ExecutionsExecutionIdRetryPostErrors_type)"
  by (simp add: fakeRetryExecutionApiV1ExecutionsExecutionIdRetryPostResponse403_def RetryExecutionApiV1ExecutionsExecutionIdRetryPostErrors_type_def fakes Let_def)

lemma fakeRetryExecutionApiV1ExecutionsExecutionIdRetryPostResponse404_typed [fakes]: "faker_helpers (the_faker faker opts) \<Longrightarrow> generates (fakeRetryExecutionApiV1ExecutionsExecutionIdRetryPostResponse404 faker opts) (field_of ''404'' RetryExecutionApiV1ExecutionsExecutionIdRetryPostErrors_type)"
  by (simp add: fakeRetryExecutionApiV1ExecutionsExecutionIdRetryPostResponse404_def RetryExecutionApiV1ExecutionsExecutionIdRetryPostErrors_type_def fakes Let_def)

lemma fakeRetryExecutionApiV1ExecutionsExecutionIdRetryPostResponse422_typed [fakes]: "faker_helpers (the_faker faker opts) \<Longrightarrow> generates (fakeRetryExecutionApiV1ExecutionsExecutionIdRetryPostResponse422 faker opts) (field_of ''422'' RetryExecutionApiV1ExecutionsExecutionIdRetryPostErrors_type)"
  by (simp add: fakeRetryExecutionApiV1ExecutionsExecutionIdRetryPostResponse422_def RetryExecutionApiV1ExecutionsExecutionIdRetryPostErrors_type_def fakes Let_def)

lemma fakeRetryExecutionApiV1ExecutionsExecutionIdRetryPostResponse429_typed [fakes]: "faker_helpers (the_faker faker opts) \<Longrightarrow> generates (fakeRetryExecutionApiV1ExecutionsExecutionIdRetryPostResponse429 faker opts) (field_of ''429'' RetryExecutionApiV1ExecutionsExecutionIdRetryPostErrors_type)"
  by (simp add: fakeRetryExecutionApiV1ExecutionsExecutionIdRetryPostResponse429_def RetryExecutionApiV1ExecutionsExecutionIdRetryPostErrors_type_def fakes Let_def)

lemma fakeRetryExecutionApiV1ExecutionsExecutionIdRetryPostResponsedefault_typed [fakes]: "faker_helpers (the_faker faker opts) \<Longrightarrow> generates (fakeRetryExecutionApiV1ExecutionsExecutionIdRetryPostResponsedefault faker opts) (field_of ''default'' RetryExecutionApiV1ExecutionsExecutionIdRetryPostErrors_type)"
  by (simp add: fakeRetryExecutionApiV1ExecutionsExecutionIdRetryPostResponsedefault_def RetryExecutionApiV1ExecutionsExecutionIdRetryPostErrors_type_def fakes Let_def)

lemma fakeGetExecutionEventsApiV1ExecutionsExecutionIdEventsGetRequest_typed [fakes]: "faker_helpers (the_faker faker opts) \<Longrightarrow> generates (fakeGetExecutionEventsApiV1ExecutionsExecutionIdEventsGetRequest faker opts) (omit_url GetExecutionEventsApiV1ExecutionsExecutionIdEventsGetData_type)"
  by (simp add: fakeGetExecutionEventsApiV1ExecutionsExecutionIdEventsGetRequest_def GetExecutionEventsApiV1ExecutionsExecutionIdEventsGetData_type_def fakes Let_def)

lemma fakeGetExecutionEventsApiV1ExecutionsExecutionIdEventsGetResponse200_typed [fakes]: "faker_helpers (the_faker faker opts) \<Longrightarrow> generates (fakeGetExecutionEventsApiV1ExecutionsExecutionIdEventsGetResponse200 faker opts) (field_of ''200'' GetExecutionEventsApiV1ExecutionsExecutionIdEventsGetResponses_type)"
  by (simp add: fakeGetExecutionEventsApiV1ExecutionsExecutionIdEventsGetResponse200_def GetExecutionEventsApiV1ExecutionsExecutionIdEventsGetResponses_type_def fakes Let_def)

lemma fakeGetExecutionEventsApiV1ExecutionsExecutionIdEventsGetResponse403_typed [fakes]: "faker_helpers (the_faker faker opts) \<Longrightarrow> generates (fakeGetExecutionEventsApiV1ExecutionsExecutionIdEventsGetResponse403 faker opts) (field_of ''403'' GetExecutionEventsApiV1ExecutionsExecutionIdEventsGetErrors_type)"
  by (simp add: fakeGetExecutionEventsApiV1ExecutionsExecutionIdEventsGetResponse403_def GetExecutionEventsApiV1ExecutionsExecutionIdEventsGetErrors_type_def fakes Let_def)

lemma fakeGetExecutionEventsApiV1ExecutionsExecutionIdEventsGetResponse404_typed [fakes]: "faker_helpers (the_faker faker opts) \<Longrightarrow> generates (fakeGetExecutionEventsApiV1ExecutionsExecutionIdEventsGetResponse404 faker opts) (field_of ''404'' GetExecutionEventsApiV1ExecutionsExecutionIdEventsGetErrors_type)"
  by (simp add: fakeGetExecutionEventsApiV1ExecutionsExecutionIdEventsGetResponse404_def GetExecutionEventsApiV1ExecutionsExecutionIdEventsGetErrors_type_def fakes Let_def)

lemma fakeGetExecutionEventsApiV1ExecutionsExecutionIdEventsGetResponsedefault_typed [fakes]: "faker_helpers (the_faker faker opts) \<Longrightarrow> generates (fakeGetExecutionEventsApiV1ExecutionsExecutionIdEventsGetResponsedefault faker opts) (field_of ''default'' GetExecutionEventsApiV1ExecutionsExecutionIdEventsGetErrors_type)"
  by (simp add: fakeGetExecutionEventsApiV1ExecutionsExecutionIdEventsGetResponsedefault_def GetExecutionEventsApiV1ExecutionsExecutionIdEventsGetErrors_type_def fakes Let_def)

lemma fakeGetUserExecutionsApiV1UserExecutionsGetRequest_typed [fakes]: "faker_helpers (the_faker faker opts) \<Longrightarrow> generates (fakeGetUserExecutionsApiV1UserExecutionsGetRequest faker opts) (omit_url GetUserExecutionsApiV1UserExecutionsGetData_type)"
  by (simp add: fakeGetUserExecutionsApiV1UserExecutionsGetRequest_def GetUserExecutionsApiV1UserExecutionsGetData_type_def fakes Let_def)

lemma fakeGetUserExecutionsApiV1UserExecutionsGetResponse200_typed [fakes]: "faker_helpers (the_faker faker opts) \<Longrightarrow> generates (fakeGetUserExecutionsApiV1UserExecutionsGetResponse200 faker opts) (field_of ''200'' GetUserExecutionsApiV1UserExecutionsGetResponses_type)"
  by (simp add: fakeGetUserExecutionsApiV1UserExecutionsGetResponse200_def GetUserExecutionsApiV1UserExecutionsGetResponses_type_def fakes Let_def)

lemma fakeGetUserExecutionsApiV1UserExecutionsGetResponsedefault_typed [fakes]: "faker_helpers (the_faker faker opts) \<Longrightarrow> generates (fakeGetUserExecutionsApiV1UserExecutionsGetResponsedefault faker opts) (field_of ''default'' GetUserExecutionsApiV1UserExecutionsGetErrors_type)"
  by (simp add: fakeGetUserExecutionsApiV1UserExecutionsGetResponsedefault_def GetUserExecutionsApiV1UserExecutionsGetErrors_type_def fakes Let_def)

lemma fakeGetExampleScriptsApiV1ExampleScriptsGetResponse200_typed [fakes]: "faker_helpers (the_faker faker opts) \<Longrightarrow> generates (fakeGetExampleScriptsApiV1ExampleScriptsGetResponse200 faker opts) (field_of ''200'' GetExampleScriptsApiV1ExampleScriptsGetResponses_type)"
  by (simp add: fakeGetExampleScriptsApiV1ExampleScriptsGetResponse200_def GetExampleScriptsApiV1ExampleScriptsGetResponses_type_def fakes Let_def)

lemma fakeGetExampleScriptsApiV1ExampleScriptsGetResponsedefault_typed [fakes]: "faker_helpers (the_faker faker opts) \<Longrightarrow> generates (fakeGetExampleScriptsApiV1ExampleScriptsGetResponsedefault faker opts) (field_of ''default'' GetExampleScriptsApiV1ExampleScriptsGetErrors_type)"
  by (simp add: fakeGetExampleScriptsApiV1ExampleScriptsGetResponsedefault_def GetExampleScriptsApiV1ExampleScriptsGetErrors_type_def fakes Let_def)

lemma fakeGetK8sResourceLimitsApiV1K8sLimitsGetResponse200_typed [fakes]: "faker_helpers (the_faker faker opts) \<Longrightarrow> generates (fakeGetK8sResourceLimitsApiV1K8sLimitsGetResponse200 faker opts) (field_of ''200'' GetK8sResourceLimitsApiV1K8sLimitsGetResponses_type)"
  by (simp add: fakeGetK8sResourceLimitsApiV1K8sLimitsGetResponse200_def GetK8sResourceLimitsApiV1K8sLimitsGetResponses_type_def fakes Let_def)

lemma fakeGetK8sResourceLimitsApiV1K8sLimitsGetResponsedefault_typed [fakes]: "faker_helpers (the_faker faker opts) \<Longrightarrow> generates (fakeGetK8sResourceLimitsApiV1K8sLimitsGetResponsedefault faker opts) (field_of ''default'' GetK8sResourceLimitsApiV1K8sLimitsGetErrors_type)"
  by (simp add: fakeGetK8sResourceLimitsApiV1K8sLimitsGetResponsedefault_def GetK8sResourceLimitsApiV1K8sLimitsGetErrors_type_def fakes Let_def)

lemma fakeDeleteExecutionApiV1ExecutionsExecutionIdDeleteRequest_typed [fakes]: "faker_helpers (the_faker faker opts) \<Longrightarrow> generates (fakeDeleteExecutionApiV1ExecutionsExecutionIdDeleteRequest faker opts) (omit_url DeleteExecutionApiV1ExecutionsExecutionIdDeleteData_type)"
  by (simp add: fakeDeleteExecutionApiV1ExecutionsExecutionIdDeleteRequest_def DeleteExecutionApiV1ExecutionsExecutionIdDeleteData_type_def fakes Let_def)

lemma fakeDeleteExecutionApiV1ExecutionsExecutionIdDeleteResponse200_typed [fakes]: "faker_helpers (the_faker faker opts) \<Longrightarrow> generates (fakeDeleteExecutionApiV1ExecutionsExecutionIdDeleteResponse200 faker opts) (field_of ''200'' DeleteExecutionApiV1ExecutionsExecutionIdDeleteResponses_type)"
  by (simp add: fakeDeleteExecutionApiV1ExecutionsExecutionIdDeleteResponse200_def DeleteExecutionApiV1ExecutionsExecutionIdDeleteResponses_type_def fakes Let_def)

lemma fakeDeleteExecutionApiV1ExecutionsExecutionIdDeleteResponsedefault_typed [fakes]: "faker_helpers (the_faker faker opts) \<Longrightarrow> generates (fakeDeleteExecutionApiV1ExecutionsExecutionIdDeleteResponsedefault faker opts) (field_of ''default'' DeleteExecutionApiV1ExecutionsExecutionIdDeleteErrors_type)"
  by (simp add: fakeDeleteExecutionApiV1ExecutionsExecutionIdDeleteResponsedefault_def DeleteExecutionApiV1ExecutionsExecutionIdDeleteErrors_type_def fakes Let_def)

lemma fakeListSavedScriptsApiV1ScriptsGetResponse200_typed [fakes]: "faker_helpers (the_faker faker opts) \<Longrightarrow> generates (fakeListSavedScriptsApiV1ScriptsGetResponse200 faker opts) (field_of ''200'' ListSavedScriptsApiV1ScriptsGetResponses_type)"
  by (simp add: fakeListSavedScriptsApiV1ScriptsGetResponse200_def ListSavedScriptsApiV1ScriptsGetResponses_type_def fakes Let_def)

lemma fakeListSavedScriptsApiV1ScriptsGetResponsedefault_typed [fakes]: "faker_helpers (the_faker faker opts) \<Longrightarrow> generates (fakeListSavedScriptsApiV1ScriptsGetResponsedefault faker opts) (field_of ''default'' ListSavedScriptsApiV1ScriptsGetErrors_type)"
  by (simp add: fakeListSavedScriptsApiV1ScriptsGetResponsedefault_def ListSavedScriptsApiV1ScriptsGetErrors_type_def fakes Let_def)

lemma fakeCreateSavedScriptApiV1ScriptsPostRequest_typed [fakes]: "faker_helpers (the_faker faker opts) \<Longrightarrow> generates (fakeCreateSavedScriptApiV1ScriptsPostRequest faker opts) (omit_url CreateSavedScriptApiV1ScriptsPostData_type)"
  by (simp add: fakeCreateSavedScriptApiV1ScriptsPostRequest_def CreateSavedScriptApiV1ScriptsPostData_type_def fakes Let_def)

lemma fakeCreateSavedScriptApiV1ScriptsPostResponse200_typed [fakes]: "faker_helpers (the_faker faker opts) \<Longrightarrow> generates (fakeCreateSavedScriptApiV1ScriptsPostResponse200 faker opts) (field_of ''200'' CreateSavedScriptApiV1ScriptsPostResponses_type)"
  by (simp add: fakeCreateSavedScriptApiV1ScriptsPostResponse200_def CreateSavedScriptApiV1ScriptsPostResponses_type_def fakes Let_def)

lemma fakeCreateSavedScriptApiV1ScriptsPostResponse422_typed [fakes]: "faker_helpers (the_faker faker opts) \<Longrightarrow> generates (fakeCreateSavedScriptApiV1ScriptsPostResponse422 faker opts) (field_of ''422'' CreateSavedScriptApiV1ScriptsPostErrors_type)"
  by (simp add: fakeCreateSavedScriptApiV1ScriptsPostResponse422_def CreateSavedScriptApiV1ScriptsPostErrors_type_def fakes Let_def)

lemma fakeCreateSavedScriptApiV1ScriptsPostResponsedefault_typed [fakes]: "faker_helpers (the_faker faker opts) \<Longrightarrow> generates (fakeCreateSavedScriptApiV1ScriptsPostResponsedefault faker opts) (field_of ''default'' CreateSavedScriptApiV1ScriptsPostErrors_type)"
  by (simp add: fakeCreateSavedScriptApiV1ScriptsPostResponsedefault_def CreateSavedScriptApiV1ScriptsPostErrors_type_def fakes Let_def)

lemma fakeDeleteSavedScriptApiV1ScriptsScriptIdDeleteRequest_typed [fakes]: "faker_helpers (the_faker faker opts) \<Longrightarrow> generates (fakeDeleteSavedScriptApiV1ScriptsScriptIdDeleteRequest faker opts) (omit_url DeleteSavedScriptApiV1ScriptsScriptIdDeleteData_type)"
  by (simp add: fakeDeleteSavedScriptApiV1ScriptsScriptIdDeleteRequest_def DeleteSavedScriptApiV1ScriptsScriptIdDeleteData_type_def fakes Let_def)

lemma fakeDeleteSavedScriptApiV1ScriptsScriptIdDeleteResponse404_typed [fakes]: "faker_helpers (the_faker faker opts) \<Longrightarrow> generates (fakeDeleteSavedScriptApiV1ScriptsScriptIdDeleteResponse404 faker opts) (field_of ''404'' DeleteSavedScriptApiV1ScriptsScriptIdDeleteErrors_type)"
  by (simp add: fakeDeleteSavedScriptApiV1ScriptsScriptIdDeleteResponse404_def DeleteSavedScriptApiV1ScriptsScriptIdDeleteErrors_type_def fakes Let_def)

lemma fakeDeleteSavedScriptApiV1ScriptsScriptIdDeleteResponsedefault_typed [fakes]: "faker_helpers (the_faker faker opts) \<Longrightarrow> generates (fakeDeleteSavedScriptApiV1ScriptsScriptIdDeleteResponsedefault faker opts) (field_of ''default'' DeleteSavedScriptApiV1ScriptsScriptIdDeleteErrors_type)"
  by (simp add: fakeDeleteSavedScriptApiV1ScriptsScriptIdDeleteResponsedefault_def DeleteSavedScriptApiV1ScriptsScriptIdDeleteErrors_type_def fakes Let_def)

lemma fakeGetSavedScriptApiV1ScriptsScriptIdGetRequest_typed [fakes]: "faker_helpers (the_faker faker opts) \<Longrightarrow> generates (fakeGetSavedScriptApiV1ScriptsScriptIdGetRequest faker opts) (omit_url GetSavedScriptApiV1ScriptsScriptIdGetData_type)"
  by (simp add: fakeGetSavedScriptApiV1ScriptsScriptIdGetRequest_def GetSavedScriptApiV1ScriptsScriptIdGetData_type_def fakes Let_def)

lemma fakeGetSavedScriptApiV1ScriptsScriptIdGetResponse200_typed [fakes]: "faker_helpers (the_faker faker opts) \<Longrightarrow> generates (fakeGetSavedScriptApiV1ScriptsScriptIdGetResponse200 faker opts) (field_of ''200'' GetSavedScriptApiV1ScriptsScriptIdGetResponses_type)"
  by (simp add: fakeGetSavedScriptApiV1ScriptsScriptIdGetResponse200_def GetSavedScriptApiV1ScriptsScriptIdGetResponses_type_def fakes Let_def)

lemma fakeGetSavedScriptApiV1ScriptsScriptIdGetResponse404_typed [fakes]: "faker_helpers (the_faker faker opts) \<Longrightarrow> generates (fakeGetSavedScriptApiV1ScriptsScriptIdGetResponse404 faker opts) (field_of ''404'' GetSavedScriptApiV1ScriptsScriptIdGetErrors_type)"
  by (simp add: fakeGetSavedScriptApiV1ScriptsScriptIdGetResponse404_def GetSavedScriptApiV1ScriptsScriptIdGetErrors_type_def fakes Let_def)

lemma fakeGetSavedScriptApiV1ScriptsScriptIdGetResponsedefault_typed [fakes]: "faker_helpers (the_faker faker opts) \<Longrightarrow> generates (fakeGetSavedScriptApiV1ScriptsScriptIdGetResponsedefault faker opts) (field_of ''default'' GetSavedScriptApiV1ScriptsScriptIdGetErrors_type)"
  by (simp add: fakeGetSavedScriptApiV1ScriptsScriptIdGetResponsedefault_def GetSavedScriptApiV1ScriptsScriptIdGetErrors_type_def fakes Let_def)

lemma fakeUpdateSavedScriptApiV1ScriptsScriptIdPutRequest_typed [fakes]: "faker_helpers (the_faker faker opts) \<Longrightarrow> generates (fakeUpdateSavedScriptApiV1ScriptsScriptIdPutRequest faker opts) (omit_url UpdateSavedScriptApiV1ScriptsScriptIdPutData_type)"
  by (simp add: fakeUpdateSavedScriptApiV1ScriptsScriptIdPutRequest_def UpdateSavedScriptApiV1ScriptsScriptIdPutData_type_def fakes Let_def)

lemma fakeUpdateSavedScriptApiV1ScriptsScriptIdPutResponse200_typed [fakes]: "faker_helpers (the_faker faker opts) \<Longrightarrow> generates (fakeUpdateSavedScriptApiV1ScriptsScriptIdPutResponse200 faker opts) (field_of ''200'' UpdateSavedScriptApiV1ScriptsScriptIdPutResponses_type)"
  by (simp add: fakeUpdateSavedScriptApiV1ScriptsScriptIdPutResponse200_def UpdateSavedScriptApiV1ScriptsScriptIdPutResponses_type_def fakes Let_def)

lemma fakeUpdateSavedScriptApiV1ScriptsScriptIdPutResponse404_typed [fakes]: "faker_helpers (the_faker faker opts) \<Longrightarrow> generates (fakeUpdateSavedScriptApiV1ScriptsScriptIdPutResponse404 faker opts) (field_of ''404'' UpdateSavedScriptApiV1ScriptsScriptIdPutErrors_type)"
  by (simp add: fakeUpdateSavedScriptApiV1ScriptsScriptIdPutResponse404_def UpdateSavedScriptApiV1ScriptsScriptIdPutErrors_type_def fakes Let_def)

lemma fakeUpdateSavedScriptApiV1ScriptsScriptIdPutResponse422_typed [fakes]: "faker_helpers (the_faker faker opts) \<Longrightarrow> generates (fakeUpdateSavedScriptApiV1ScriptsScriptIdPutResponse422 faker opts) (field_of ''422'' UpdateSavedScriptApiV1ScriptsScriptIdPutErrors_type)"
  by (simp add: fakeUpdateSavedScriptApiV1ScriptsScriptIdPutResponse422_def UpdateSavedScriptApiV1ScriptsScriptIdPutErrors_type_def fakes Let_def)

lemma fakeUpdateSavedScriptApiV1ScriptsScriptIdPutResponsedefault_typed [fakes]: "faker_helpers (the_faker faker opts) \<Longrightarrow> generates (fakeUpdateSavedScriptApiV1ScriptsScriptIdPutResponsedefault faker opts) (field_of ''default'' UpdateSavedScriptApiV1ScriptsScriptIdPutErrors_type)"
  by (simp add: fakeUpdateSavedScriptApiV1ScriptsScriptIdPutResponsedefault_def UpdateSavedScriptApiV1ScriptsScriptIdPutErrors_type_def fakes Let_def)

lemma fakeLivenessApiV1HealthLiveGetResponse200_typed [fakes]: "faker_helpers (the_faker faker opts) \<Longrightarrow> generates (fakeLivenessApiV1HealthLiveGetResponse200 faker opts) (field_of ''200'' LivenessApiV1HealthLiveGetResponses_type)"
  by (simp add: fakeLivenessApiV1HealthLiveGetResponse200_def LivenessApiV1HealthLiveGetResponses_type_def fakes Let_def)

lemma fakeLivenessApiV1HealthLiveGetResponsedefault_typed [fakes]: "faker_helpers (the_faker faker opts) \<Longrightarrow> generates (fakeLivenessApiV1HealthLiveGetResponsedefault faker opts) (field_of ''default'' LivenessApiV1HealthLiveGetErrors_type)"
  by (simp add: fakeLivenessApiV1HealthLiveGetResponsedefault_def LivenessApiV1HealthLiveGetErrors_type_def fakes Let_def)

lemma fakeNotificationStreamApiV1EventsNotificationsStreamGetResponse200_typed [fakes]: "faker_helpers (the_faker faker opts) \<Longrightarrow> generates (fakeNotificationStreamApiV1EventsNotificationsStreamGetResponse200 faker opts) (field_of ''200'' NotificationStreamApiV1EventsNotificationsStreamGetResponses_type)"
  by (simp add: fakeNotificationStreamApiV1EventsNotificationsStreamGetResponse200_def NotificationStreamApiV1EventsNotificationsStreamGetResponses_type_def fakes Let_def)

lemma fakeNotificationStreamApiV1EventsNotificationsStreamGetResponsedefault_typed [fakes]: "faker_helpers (the_faker faker opts) \<Longrightarrow> generates (fakeNotificationStreamApiV1EventsNotificationsStreamGetResponsedefault faker opts) (field_of ''default'' NotificationStreamApiV1EventsNotificationsStreamGetErrors_type)"
  by (simp add: fakeNotificationStreamApiV1EventsNotificationsStreamGetResponsedefault_def NotificationStreamApiV1EventsNotificationsStreamGetErrors_type_def fakes Let_def)

lemma fakeExecutionEventsApiV1EventsExecutionsExecutionIdGetRequest_typed [fakes]: "faker_helpers (the_faker faker opts) \<Longrightarrow> generates (fakeExecutionEventsApiV1EventsExecutionsExecutionIdGetRequest faker opts) (omit_url ExecutionEventsApiV1EventsExecutionsExecutionIdGetData_type)"
  by (simp add: fakeExecutionEventsApiV1EventsExecutionsExecutionIdGetRequest_def ExecutionEventsApiV1EventsExecutionsExecutionIdGetData_type_def fakes Let_def)

lemma fakeExecutionEventsApiV1EventsExecutionsExecutionIdGetResponse200_typed [fakes]: "faker_helpers (the_faker faker opts) \<Longrightarrow> generates (fakeExecutionEventsApiV1EventsExecutionsExecutionIdGetResponse200 faker opts) (field_of ''200'' ExecutionEventsApiV1EventsExecutionsExecutionIdGetResponses_type)"
  by (simp add: fakeExecutionEventsApiV1EventsExecutionsExecutionIdGetResponse200_def ExecutionEventsApiV1EventsExecutionsExecutionIdGetResponses_type_def fakes Let_def)

lemma fakeExecutionEventsApiV1EventsExecutionsExecutionIdGetResponsedefault_typed [fakes]: "faker_helpers (the_faker faker opts) \<Longrightarrow> generates (fakeExecutionEventsApiV1EventsExecutionsExecutionIdGetResponsedefault faker opts) (field_of ''default'' ExecutionEventsApiV1EventsExecutionsExecutionIdGetErrors_type)"
  by (simp add: fakeExecutionEventsApiV1EventsExecutionsExecutionIdGetResponsedefault_def ExecutionEventsApiV1EventsExecutionsExecutionIdGetErrors_type_def fakes Let_def)

lemma fakeBrowseEventsApiV1AdminEventsBrowsePostRequest_typed [fakes]: "faker_helpers (the_faker faker opts) \<Longrightarrow> generates (fakeBrowseEventsApiV1AdminEventsBrowsePostRequest faker opts) (omit_url BrowseEventsApiV1AdminEventsBrowsePostData_type)"
  by (simp add: fakeBrowseEventsApiV1AdminEventsBrowsePostRequest_def BrowseEventsApiV1AdminEventsBrowsePostData_type_def fakes Let_def)

lemma fakeBrowseEventsApiV1AdminEventsBrowsePostResponse200_typed [fakes]: "faker_helpers (the_faker faker opts) \<Longrightarrow> generates (fakeBrowseEventsApiV1AdminEventsBrowsePostResponse200 faker opts) (field_of ''200'' BrowseEventsApiV1AdminEventsBrowsePostResponses_type)"
  by (simp add: fakeBrowseEventsApiV1AdminEventsBrowsePostResponse200_def BrowseEventsApiV1AdminEventsBrowsePostResponses_type_def fakes Let_def)

lemma fakeBrowseEventsApiV1AdminEventsBrowsePostResponsedefault_typed [fakes]: "faker_helpers (the_faker faker opts) \<Longrightarrow> generates (fakeBrowseEventsApiV1AdminEventsBrowsePostResponsedefault faker opts) (field_of ''default'' BrowseEventsApiV1AdminEventsBrowsePostErrors_type)"
  by (simp add: fakeBrowseEventsApiV1AdminEventsBrowsePostResponsedefault_def BrowseEventsApiV1AdminEventsBrowsePostErrors_type_def fakes Let_def)

lemma fakeGetEventStatsApiV1AdminEventsStatsGetRequest_typed [fakes]: "faker_helpers (the_faker faker opts) \<Longrightarrow> generates (fakeGetEventStatsApiV1AdminEventsStatsGetRequest faker opts) (omit_url GetEventStatsApiV1AdminEventsStatsGetData_type)"
  by (simp add: fakeGetEventStatsApiV1AdminEventsStatsGetRequest_def GetEventStatsApiV1AdminEventsStatsGetData_type_def fakes Let_def)

lemma fakeGetEventStatsApiV1AdminEventsStatsGetResponse200_typed [fakes]: "faker_helpers (the_faker faker opts) \<Longrightarrow> generates (fakeGetEventStatsApiV1AdminEventsStatsGetResponse200 faker opts) (field_of ''200'' GetEventStatsApiV1AdminEventsStatsGetResponses_type)"
  by (simp add: fakeGetEventStatsApiV1AdminEventsStatsGetResponse200_def GetEventStatsApiV1AdminEventsStatsGetResponses_type_def fakes Let_def)

lemma fakeGetEventStatsApiV1AdminEventsStatsGetResponsedefault_typed [fakes]: "faker_helpers (the_faker faker opts) \<Longrightarrow> generates (fakeGetEventStatsApiV1AdminEventsStatsGetResponsedefault faker opts) (field_of ''default'' GetEventStatsApiV1AdminEventsStatsGetErrors_type)"
  by (simp add: fakeGetEventStatsApiV1AdminEventsStatsGetResponsedefault_def GetEventStatsApiV1AdminEventsStatsGetErrors_type_def fakes Let_def)

lemma fakeExportEventsApiV1AdminEventsExportExportFormatGetRequest_typed [fakes]: "faker_helpers (the_faker faker opts) \<Longrightarrow> generates (fakeExportEventsApiV1AdminEventsExportExportFormatGetRequest faker opts) (omit_url ExportEventsApiV1AdminEventsExportExportFormatGetData_type)"
  by (simp add: fakeExportEventsApiV1AdminEventsExportExportFormatGetRequest_def ExportEventsApiV1AdminEventsExportExportFormatGetData_type_def fakes Let_def)

lemma fakeExportEventsApiV1AdminEventsExportExportFormatGetResponse200_typed [fakes]: "generates fakeExportEventsApiV1AdminEventsExportExportFormatGetResponse200 (field_of ''200'' ExportEventsApiV1AdminEventsExportExportFormatGetResponses_type)"
  by (simp add: fakeExportEventsApiV1AdminEventsExportExportFormatGetResponse200_def ExportEventsApiV1AdminEventsExportExportFormatGetResponses_type_def fakes)

lemma fakeExportEventsApiV1AdminEventsExportExportFormatGetResponsedefault_typed [fakes]: "faker_helpers (the_faker faker opts) \<Longrightarrow> generates (fakeExportEventsApiV1AdminEventsExportExportFormatGetResponsedefault faker opts) (field_of ''default'' ExportEventsApiV1AdminEventsExportExportFormatGetErrors_type)"
  by (simp add: fakeExportEventsApiV1AdminEventsExportExportFormatGetResponsedefault_def ExportEventsApiV1AdminEventsExportExportFormatGetErrors_type_def fakes Let_def)

lemma fakeDeleteEventApiV1AdminEventsEventIdDeleteRequest_typed [fakes]: "faker_helpers (the_faker faker opts) \<Longrightarrow> generates (fakeDeleteEventApiV1AdminEventsEventIdDeleteRequest faker opts) (omit_url DeleteEventApiV1AdminEventsEventIdDeleteData_type)"
  by (simp add: fakeDeleteEventApiV1AdminEventsEventIdDeleteRequest_def DeleteEventApiV1AdminEventsEventIdDeleteData_type_def fakes Let_def)

lemma fakeDeleteEventApiV1AdminEventsEventIdDeleteResponse200_typed [fakes]: "faker_helpers (the_faker faker opts) \<Longrightarrow> generates (fakeDeleteEventApiV1AdminEventsEventIdDeleteResponse200 faker opts) (field_of ''200'' DeleteEventApiV1AdminEventsEventIdDeleteResponses_type)"
  by (simp add: fakeDeleteEventApiV1AdminEventsEventIdDeleteResponse200_def DeleteEventApiV1AdminEventsEventIdDeleteResponses_type_def fakes Let_def)

lemma fakeDeleteEventApiV1AdminEventsEventIdDeleteResponse404_typed [fakes]: "faker_helpers (the_faker faker opts) \<Longrightarrow> generates (fakeDeleteEventApiV1AdminEventsEventIdDeleteResponse404 faker opts) (field_of ''404'' DeleteEventApiV1AdminEventsEventIdDeleteErrors_type)"
  by (simp add: fakeDeleteEventApiV1AdminEventsEventIdDeleteResponse404_def DeleteEventApiV1AdminEventsEventIdDeleteErrors_type_def fakes Let_def)

lemma fakeDeleteEventApiV1AdminEventsEventIdDeleteResponsedefault_typed [fakes]: "faker_helpers (the_faker faker opts) \<Longrightarrow> generates (fakeDeleteEventApiV1AdminEventsEventIdDeleteResponsedefault faker opts) (field_of ''default'' DeleteEventApiV1AdminEventsEventIdDeleteErrors_type)"
  by (simp add: fakeDeleteEventApiV1AdminEventsEventIdDeleteResponsedefault_def DeleteEventApiV1AdminEventsEventIdDeleteErrors_type_def fakes Let_def)

lemma fakeGetEventDetailApiV1AdminEventsEventIdGetRequest_typed [fakes]: "faker_helpers (the_faker faker opts) \<Longrightarrow> generates (fakeGetEventDetailApiV1AdminEventsEventIdGetRequest faker opts) (omit_url GetEventDetailApiV1AdminEventsEventIdGetData_type)"
  by (simp add: fakeGetEventDetailApiV1AdminEventsEventIdGetRequest_def GetEventDetailApiV1AdminEventsEventIdGetData_type_def fakes Let_def)

lemma fakeGetEventDetailApiV1AdminEventsEventIdGetResponse200_typed [fakes]: "faker_helpers (the_faker faker opts) \<Longrightarrow> generates (fakeGetEventDetailApiV1AdminEventsEventIdGetResponse200 faker opts) (field_of ''200'' GetEventDetailApiV1AdminEventsEventIdGetResponses_type)"
  by (simp add: fakeGetEventDetailApiV1AdminEventsEventIdGetResponse200_def GetEventDetailApiV1AdminEventsEventIdGetResponses_type_def fakes Let_def)

lemma fakeGetEventDetailApiV1AdminEventsEventIdGetResponse404_typed [fakes]: "faker_helpers (the_faker faker opts) \<Longrightarrow> generates (fakeGetEventDetailApiV1AdminEventsEventIdGetResponse404 faker opts) (field_of ''404'' GetEventDetailApiV1AdminEventsEventIdGetErrors_type)"
  by (simp add: fakeGetEventDetailApiV1AdminEventsEventIdGetResponse404_def GetEventDetailApiV1AdminEventsEventIdGetErrors_type_def fakes Let_def)

lemma fakeGetEventDetailApiV1AdminEventsEventIdGetResponsedefault_typed [fakes]: "faker_helpers (the_faker faker opts) \<Longrightarrow> generates (fakeGetEventDetailApiV1AdminEventsEventIdGetResponsedefault faker opts) (field_of ''default'' GetEventDetailApiV1AdminEventsEventIdGetErrors_type)"
  by (simp add: fakeGetEventDetailApiV1AdminEventsEventIdGetResponsedefault_def GetEventDetailApiV1AdminEventsEventIdGetErrors_type_def fakes Let_def)

lemma fakeReplayEventsApiV1AdminEventsReplayPostRequest_typed [fakes]: "faker_helpers (the_faker faker opts) \<Longrightarrow> generates (fakeReplayEventsApiV1AdminEventsReplayPostRequest faker opts) (omit_url ReplayEventsApiV1AdminEventsReplayPostData_type)"
  by (simp add: fakeReplayEventsApiV1AdminEventsReplayPostRequest_def ReplayEventsApiV1AdminEventsReplayPostData_type_def fakes Let_def)

lemma fakeReplayEventsApiV1AdminEventsReplayPostResponse200_typed [fakes]: "faker_helpers (the_faker faker opts) \<Longrightarrow> generates (fakeReplayEventsApiV1AdminEventsReplayPostResponse200 faker opts) (field_of ''200'' ReplayEventsApiV1AdminEventsReplayPostResponses_type)"
  by (simp add: fakeReplayEventsApiV1AdminEventsReplayPostResponse200_def ReplayEventsApiV1AdminEventsReplayPostResponses_type_def fakes Let_def)

lemma fakeReplayEventsApiV1AdminEventsReplayPostResponse404_typed [fakes]: "faker_helpers (the_faker faker opts) \<Longrightarrow> generates (fakeReplayEventsApiV1AdminEventsReplayPostResponse404 faker opts) (field_of ''404'' ReplayEventsApiV1AdminEventsReplayPostErrors_type)"
  by (simp add: fakeReplayEventsApiV1AdminEventsReplayPostResponse404_def ReplayEventsApiV1AdminEventsReplayPostErrors_type_def fakes Let_def)

lemma fakeReplayEventsApiV1AdminEventsReplayPostResponse422_typed [fakes]: "faker_helpers (the_faker faker opts) \<Longrightarrow> generates (fakeReplayEventsApiV1AdminEventsReplayPostResponse422 faker opts) (field_of ''422'' ReplayEventsApiV1AdminEventsReplayPostErrors_type)"
  by (simp add: fakeReplayEventsApiV1AdminEventsReplayPostResponse422_def ReplayEventsApiV1AdminEventsReplayPostErrors_type_def fakes Let_def)

lemma fakeReplayEventsApiV1AdminEventsReplayPostResponsedefault_typed [fakes]: "faker_helpers (the_faker faker opts) \<Longrightarrow> generates (fakeReplayEventsApiV1AdminEventsReplayPostResponsedefault faker opts) (field_of ''default'' ReplayEventsApiV1AdminEventsReplayPostErrors_type)"
  by (simp add: fakeReplayEventsApiV1AdminEventsReplayPostResponsedefault_def ReplayEventsApiV1AdminEventsReplayPostErrors_type_def fakes Let_def)

lemma fakeStreamReplayStatusApiV1AdminEventsReplaySessionIdStatusGetRequest_typed [fakes]: "faker_helpers (the_faker faker opts) \<Longrightarrow> generates (fakeStreamReplayStatusApiV1AdminEventsReplaySessionIdStatusGetRequest faker opts) (omit_url StreamReplayStatusApiV1AdminEventsReplaySessionIdStatusGetData_type)"
  by (simp add: fakeStreamReplayStatusApiV1AdminEventsReplaySessionIdStatusGetRequest_def StreamReplayStatusApiV1AdminEventsReplaySessionIdStatusGetData_type_def fakes Let_def)

lemma fakeStreamReplayStatusApiV1AdminEventsReplaySessionIdStatusGetResponse200_typed [fakes]: "faker_helpers (the_faker faker opts) \<Longrightarrow> generates (fakeStreamReplayStatusApiV1AdminEventsReplaySessionIdStatusGetResponse200 faker opts) (field_of ''200'' StreamReplayStatusApiV1AdminEventsReplaySessionIdStatusGetResponses_type)"
  by (simp add: fakeStreamReplayStatusApiV1AdminEventsReplaySessionIdStatusGetResponse200_def StreamReplayStatusApiV1AdminEventsReplaySessionIdStatusGetResponses_type_def fakes Let_def)

lemma fakeStreamReplayStatusApiV1AdminEventsReplaySessionIdStatusGetResponsedefault_typed [fakes]: "faker_helpers (the_faker faker opts) \<Longrightarrow> generates (fakeStreamReplayStatusApiV1AdminEventsReplaySessionIdStatusGetResponsedefault faker opts) (field_of ''default'' StreamReplayStatusApiV1AdminEventsReplaySessionIdStatusGetErrors_type)"
  by (simp add: fakeStreamReplayStatusApiV1AdminEventsReplaySessionIdStatusGetResponsedefault_def StreamReplayStatusApiV1AdminEventsReplaySessionIdStatusGetErrors_type_def fakes Let_def)

lemma fakeListExecutionsApiV1AdminExecutionsGetRequest_typed [fakes]: "faker_helpers (the_faker faker opts) \<Longrightarrow> generates (fakeListExecutionsApiV1AdminExecutionsGetRequest faker opts) (omit_url ListExecutionsApiV1AdminExecutionsGetData_type)"
  by (simp add: fakeListExecutionsApiV1AdminExecutionsGetRequest_def ListExecutionsApiV1AdminExecutionsGetData_type_def fakes Let_def)

lemma fakeListExecutionsApiV1AdminExecutionsGetResponse200_typed [fakes]: "faker_helpers (the_faker faker opts) \<Longrightarrow> generates (fakeListExecutionsApiV1AdminExecutionsGetResponse200 faker opts) (field_of ''200'' ListExecutionsApiV1AdminExecutionsGetResponses_type)"
  by (simp add: fakeListExecutionsApiV1AdminExecutionsGetResponse200_def ListExecutionsApiV1AdminExecutionsGetResponses_type_def fakes Let_def)

lemma fakeListExecutionsApiV1AdminExecutionsGetResponse403_typed [fakes]: "faker_helpers (the_faker faker opts) \<Longrightarrow> generates (fakeListExecutionsApiV1AdminExecutionsGetResponse403 faker opts) (field_of ''403'' ListExecutionsApiV1AdminExecutionsGetErrors_type)"
  by (simp add: fakeListExecutionsApiV1AdminExecutionsGetResponse403_def ListExecutionsApiV1AdminExecutionsGetErrors_type_def fakes Let_def)

lemma fakeListExecutionsApiV1AdminExecutionsGetResponsedefault_typed [fakes]: "faker_helpers (the_faker faker opts) \<Longrightarrow> generates (fakeListExecutionsApiV1AdminExecutionsGetResponsedefault faker opts) (field_of ''default'' ListExecutionsApiV1AdminExecutionsGetErrors_type)"
  by (simp add: fakeListExecutionsApiV1AdminExecutionsGetResponsedefault_def ListExecutionsApiV1AdminExecutionsGetErrors_type_def fakes Let_def)

lemma fakeUpdatePriorityApiV1AdminExecutionsExecutionIdPriorityPutRequest_typed [fakes]: "faker_helpers (the_faker faker opts) \<Longrightarrow> generates (fakeUpdatePriorityApiV1AdminExecutionsExecutionIdPriorityPutRequest faker opts) (omit_url UpdatePriorityApiV1AdminExecutionsExecutionIdPriorityPutData_type)"
  by (simp add: fakeUpdatePriorityApiV1AdminExecutionsExecutionIdPriorityPutRequest_def UpdatePriorityApiV1AdminExecutionsExecutionIdPriorityPutData_type_def fakes Let_def)

lemma fakeUpdatePriorityApiV1AdminExecutionsExecutionIdPriorityPutResponse200_typed [fakes]: "faker_helpers (the_faker faker opts) \<Longrightarrow> generates (fakeUpdatePriorityApiV1AdminExecutionsExecutionIdPriorityPutResponse200 faker opts) (field_of ''200'' UpdatePriorityApiV1AdminExecutionsExecutionIdPriorityPutResponses_type)"
  by (simp add: fakeUpdatePriorityApiV1AdminExecutionsExecutionIdPriorityPutResponse200_def UpdatePriorityApiV1AdminExecutionsExecutionIdPriorityPutResponses_type_def fakes Let_def)

lemma fakeUpdatePriorityApiV1AdminExecutionsExecutionIdPriorityPutResponse403_typed [fakes]: "faker_helpers (the_faker faker opts) \<Longrightarrow> generates (fakeUpdatePriorityApiV1AdminExecutionsExecutionIdPriorityPutResponse403 faker opts) (field_of ''403'' UpdatePriorityApiV1AdminExecutionsExecutionIdPriorityPutErrors_type)"
  by (simp add: fakeUpdatePriorityApiV1AdminExecutionsExecutionIdPriorityPutResponse403_def UpdatePriorityApiV1AdminExecutionsExecutionIdPriorityPutErrors_type_def fakes Let_def)

lemma fakeUpdatePriorityApiV1AdminExecutionsExecutionIdPriorityPutResponse404_typed [fakes]: "faker_helpers (the_faker faker opts) \<Longrightarrow> generates (fakeUpdatePriorityApiV1AdminExecutionsExecutionIdPriorityPutResponse404 faker opts) (field_of ''404'' UpdatePriorityApiV1AdminExecutionsExecutionIdPriorityPutErrors_type)"
  by (simp add: fakeUpdatePriorityApiV1AdminExecutionsExecutionIdPriorityPutResponse404_def UpdatePriorityApiV1AdminExecutionsExecutionIdPriorityPutErrors_type_def fakes Let_def)

lemma fakeUpdatePriorityApiV1AdminExecutionsExecutionIdPriorityPutResponsedefault_typed [fakes]: "faker_helpers (the_faker faker opts) \<Longrightarrow> generates (fakeUpdatePriorityApiV1AdminExecutionsExecutionIdPriorityPutResponsedefault faker opts) (field_of ''default'' UpdatePriorityApiV1AdminExecutionsExecutionIdPriorityPutErrors_type)"
  by (simp add: fakeUpdatePriorityApiV1AdminExecutionsExecutionIdPriorityPutResponsedefault_def UpdatePriorityApiV1AdminExecutionsExecutionIdPriorityPutErrors_type_def fakes Let_def)

lemma fakeGetQueueStatusApiV1AdminExecutionsQueueGetResponse200_typed [fakes]: "faker_helpers (the_faker faker opts) \<Longrightarrow> generates (fakeGetQueueStatusApiV1AdminExecutionsQueueGetResponse200 faker opts) (field_of ''200'' GetQueueStatusApiV1AdminExecutionsQueueGetResponses_type)"
  by (simp add: fakeGetQueueStatusApiV1AdminExecutionsQueueGetResponse200_def GetQueueStatusApiV1AdminExecutionsQueueGetResponses_type_def fakes Let_def)

lemma fakeGetQueueStatusApiV1AdminExecutionsQueueGetResponse403_typed [fakes]: "faker_helpers (the_faker faker opts) \<Longrightarrow> generates (fakeGetQueueStatusApiV1AdminExecutionsQueueGetResponse403 faker opts) (field_of ''403'' GetQueueStatusApiV1AdminExecutionsQueueGetErrors_type)"
  by (simp add: fakeGetQueueStatusApiV1AdminExecutionsQueueGetResponse403_def GetQueueStatusApiV1AdminExecutionsQueueGetErrors_type_def fakes Let_def)

lemma fakeGetQueueStatusApiV1AdminExecutionsQueueGetResponsedefault_typed [fakes]: "faker_helpers (the_faker faker opts) \<Longrightarrow> generates (fakeGetQueueStatusApiV1AdminExecutionsQueueGetResponsedefault faker opts) (field_of ''default'' GetQueueStatusApiV1AdminExecutionsQueueGetErrors_type)"
  by (simp add: fakeGetQueueStatusApiV1AdminExecutionsQueueGetResponsedefault_def GetQueueStatusApiV1AdminExecutionsQueueGetErrors_type_def fakes Let_def)

lemma fakeGetDefaultRateLimitRulesApiV1AdminRateLimitsDefaultsGetResponse200_typed [fakes]: "faker_helpers (the_faker faker opts) \<Longrightarrow> generates (fakeGetDefaultRateLimitRulesApiV1AdminRateLimitsDefaultsGetResponse200 faker opts) (field_of ''200'' GetDefaultRateLimitRulesApiV1AdminRateLimitsDefaultsGetResponses_type)"
  by (simp add: fakeGetDefaultRateLimitRulesApiV1AdminRateLimitsDefaultsGetResponse200_def GetDefaultRateLimitRulesApiV1AdminRateLimitsDefaultsGetResponses_type_def fakes Let_def)

lemma fakeGetDefaultRateLimitRulesApiV1AdminRateLimitsDefaultsGetResponsedefault_typed [fakes]: "faker_helpers (the_faker faker opts) \<Longrightarrow> generates (fakeGetDefaultRateLimitRulesApiV1AdminRateLimitsDefaultsGetResponsedefault faker opts) (field_of ''default'' GetDefaultRateLimitRulesApiV1AdminRateLimitsDefaultsGetErrors_type)"
  by (simp add: fakeGetDefaultRateLimitRulesApiV1AdminRateLimitsDefaultsGetResponsedefault_def GetDefaultRateLimitRulesApiV1AdminRateLimitsDefaultsGetErrors_type_def fakes Let_def)

lemma fakeGetUserRateLimitsApiV1AdminRateLimitsUserIdGetRequest_typed [fakes]: "faker_helpers (the_faker faker opts) \<Longrightarrow> generates (fakeGetUserRateLimitsApiV1AdminRateLimitsUserIdGetRequest faker opts) (omit_url GetUserRateLimitsApiV1AdminRateLimitsUserIdGetData_type)"
  by (simp add: fakeGetUserRateLimitsApiV1AdminRateLimitsUserIdGetRequest_def GetUserRateLimitsApiV1AdminRateLimitsUserIdGetData_type_def fakes Let_def)

lemma fakeGetUserRateLimitsApiV1AdminRateLimitsUserIdGetResponse200_typed [fakes]: "faker_helpers (the_faker faker opts) \<Longrightarrow> generates (fakeGetUserRateLimitsApiV1AdminRateLimitsUserIdGetResponse200 faker opts) (field_of ''200'' GetUserRateLimitsApiV1AdminRateLimitsUserIdGetResponses_type)"
  by (simp add: fakeGetUserRateLimitsApiV1AdminRateLimitsUserIdGetResponse200_def GetUserRateLimitsApiV1AdminRateLimitsUserIdGetResponses_type_def fakes Let_def)

lemma fakeGetUserRateLimitsApiV1AdminRateLimitsUserIdGetResponsedefault_typed [fakes]: "faker_helpers (the_faker faker opts) \<Longrightarrow> generates (fakeGetUserRateLimitsApiV1AdminRateLimitsUserIdGetResponsedefault faker opts) (field_of ''default'' GetUserRateLimitsApiV1AdminRateLimitsUserIdGetErrors_type)"
  by (simp add: fakeGetUserRateLimitsApiV1AdminRateLimitsUserIdGetResponsedefault_def GetUserRateLimitsApiV1AdminRateLimitsUserIdGetErrors_type_def fakes Let_def)

lemma fakeUpdateUserRateLimitsApiV1AdminRateLimitsUserIdPutRequest_typed [fakes]: "faker_helpers (the_faker faker opts) \<Longrightarrow> generates (fakeUpdateUserRateLimitsApiV1AdminRateLimitsUserIdPutRequest faker opts) (omit_url UpdateUserRateLimitsApiV1AdminRateLimitsUserIdPutData_type)"
  by (simp add: fakeUpdateUserRateLimitsApiV1AdminRateLimitsUserIdPutRequest_def UpdateUserRateLimitsApiV1AdminRateLimitsUserIdPutData_type_def fakes Let_def)

lemma fakeUpdateUserRateLimitsApiV1AdminRateLimitsUserIdPutResponse200_typed [fakes]: "faker_helpers (the_faker faker opts) \<Longrightarrow> generates (fakeUpdateUserRateLimitsApiV1AdminRateLimitsUserIdPutResponse200 faker opts) (field_of ''200'' UpdateUserRateLimitsApiV1AdminRateLimitsUserIdPutResponses_type)"
  by (simp add: fakeUpdateUserRateLimitsApiV1AdminRateLimitsUserIdPutResponse200_def UpdateUserRateLimitsApiV1AdminRateLimitsUserIdPutResponses_type_def fakes Let_def)

lemma fakeUpdateUserRateLimitsApiV1AdminRateLimitsUserIdPutResponsedefault_typed [fakes]: "faker_helpers (the_faker faker opts) \<Longrightarrow> generates (fakeUpdateUserRateLimitsApiV1AdminRateLimitsUserIdPutResponsedefault faker opts) (field_of ''default'' UpdateUserRateLimitsApiV1AdminRateLimitsUserIdPutErrors_type)"
  by (simp add: fakeUpdateUserRateLimitsApiV1AdminRateLimitsUserIdPutResponsedefault_def UpdateUserRateLimitsApiV1AdminRateLimitsUserIdPutErrors_type_def fakes Let_def)

lemma fakeResetUserRateLimitsApiV1AdminRateLimitsUserIdResetPostRequest_typed [fakes]: "faker_helpers (the_faker faker opts) \<Longrightarrow> generates (fakeResetUserRateLimitsApiV1AdminRateLimitsUserIdResetPostRequest faker opts) (omit_url ResetUserRateLimitsApiV1AdminRateLimitsUserIdResetPostData_type)"
  by (simp add: fakeResetUserRateLimitsApiV1AdminRateLimitsUserIdResetPostRequest_def ResetUserRateLimitsApiV1AdminRateLimitsUserIdResetPostData_type_def fakes Let_def)

lemma fakeResetUserRateLimitsApiV1AdminRateLimitsUserIdResetPostResponse200_typed [fakes]: "faker_helpers (the_faker faker opts) \<Longrightarrow> generates (fakeResetUserRateLimitsApiV1AdminRateLimitsUserIdResetPostResponse200 faker opts) (field_of ''200'' ResetUserRateLimitsApiV1AdminRateLimitsUserIdResetPostResponses_type)"
  by (simp add: fakeResetUserRateLimitsApiV1AdminRateLimitsUserIdResetPostResponse200_def ResetUserRateLimitsApiV1AdminRateLimitsUserIdResetPostResponses_type_def fakes Let_def)

lemma fakeResetUserRateLimitsApiV1AdminRateLimitsUserIdResetPostResponsedefault_typed [fakes]: "faker_helpers (the_faker faker opts) \<Longrightarrow> generates (fakeResetUserRateLimitsApiV1AdminRateLimitsUserIdResetPostResponsedefault faker opts) (field_of ''default'' ResetUserRateLimitsApiV1AdminRateLimitsUserIdResetPostErrors_type)"
  by (simp add: fakeResetUserRateLimitsApiV1AdminRateLimitsUserIdResetPostResponsedefault_def ResetUserRateLimitsApiV1AdminRateLimitsUserIdResetPostErrors_type_def fakes Let_def)

lemma fakeGetSystemSettingsApiV1AdminSettingsGetResponse200_typed [fakes]: "faker_helpers (the_faker faker opts) \<Longrightarrow> generates (fakeGetSystemSettingsApiV1AdminSettingsGetResponse200 faker opts) (field_of ''200'' GetSystemSettingsApiV1AdminSettingsGetResponses_type)"
  by (simp add: fakeGetSystemSettingsApiV1AdminSettingsGetResponse200_def GetSystemSettingsApiV1AdminSettingsGetResponses_type_def fakes Let_def)

lemma fakeGetSystemSettingsApiV1AdminSettingsGetResponse500_typed [fakes]: "faker_helpers (the_faker faker opts) \<Longrightarrow> generates (fakeGetSystemSettingsApiV1AdminSettingsGetResponse500 faker opts) (field_of ''500'' GetSystemSettingsApiV1AdminSettingsGetErrors_type)"
  by (simp add: fakeGetSystemSettingsApiV1AdminSettingsGetResponse500_def GetSystemSettingsApiV1AdminSettingsGetErrors_type_def fakes Let_def)

lemma fakeGetSystemSettingsApiV1AdminSettingsGetResponsedefault_typed [fakes]: "faker_helpers (the_faker faker opts) \<Longrightarrow> generates (fakeGetSystemSettingsApiV1AdminSettingsGetResponsedefault faker opts) (field_of ''default'' GetSystemSettingsApiV1AdminSettingsGetErrors_type)"
  by (simp add: fakeGetSystemSettingsApiV1AdminSettingsGetResponsedefault_def GetSystemSettingsApiV1AdminSettingsGetErrors_type_def fakes Let_def)

lemma fakeUpdateSystemSettingsApiV1AdminSettingsPutRequest_typed [fakes]: "faker_helpers (the_faker faker opts) \<Longrightarrow> generates (fakeUpdateSystemSettingsApiV1AdminSettingsPutRequest faker opts) (omit_url UpdateSystemSettingsApiV1AdminSettingsPutData_type)"
  by (simp add: fakeUpdateSystemSettingsApiV1AdminSettingsPutRequest_def UpdateSystemSettingsApiV1AdminSettingsPutData_type_def fakes Let_def)

lemma fakeUpdateSystemSettingsApiV1AdminSettingsPutResponse200_typed [fakes]: "faker_helpers (the_faker faker opts) \<Longrightarrow> generates (fakeUpdateSystemSettingsApiV1AdminSettingsPutResponse200 faker opts) (field_of ''200'' UpdateSystemSettingsApiV1AdminSettingsPutResponses_type)"
  by (simp add: fakeUpdateSystemSettingsApiV1AdminSettingsPutResponse200_def UpdateSystemSettingsApiV1AdminSettingsPutResponses_type_def fakes Let_def)

lemma fakeUpdateSystemSettingsApiV1AdminSettingsPutResponse400_typed [fakes]: "faker_helpers (the_faker faker opts) \<Longrightarrow> generates (fakeUpdateSystemSettingsApiV1AdminSettingsPutResponse400 faker opts) (field_of ''400'' UpdateSystemSettingsApiV1AdminSettingsPutErrors_type)"
  by (simp add: fakeUpdateSystemSettingsApiV1AdminSettingsPutResponse400_def UpdateSystemSettingsApiV1AdminSettingsPutErrors_type_def fakes Let_def)

lemma fakeUpdateSystemSettingsApiV1AdminSettingsPutResponse422_typed [fakes]: "faker_helpers (the_faker faker opts) \<Longrightarrow> generates (fakeUpdateSystemSettingsApiV1AdminSettingsPutResponse422 faker opts) (field_of ''422'' UpdateSystemSettingsApiV1AdminSettingsPutErrors_type)"
  by (simp add: fakeUpdateSystemSettingsApiV1AdminSettingsPutResponse422_def UpdateSystemSettingsApiV1AdminSettingsPutErrors_type_def fakes Let_def)

lemma fakeUpdateSystemSettingsApiV1AdminSettingsPutResponse500_typed [fakes]: "faker_helpers (the_faker faker opts) \<Longrightarrow> generates (fakeUpdateSystemSettingsApiV1AdminSettingsPutResponse500 faker opts) (field_of ''500'' UpdateSystemSettingsApiV1AdminSettingsPutErrors_type)"
  by (simp add: fakeUpdateSystemSettingsApiV1AdminSettingsPutResponse500_def UpdateSystemSettingsApiV1AdminSettingsPutErrors_type_def fakes Let_def)

lemma fakeUpdateSystemSettingsApiV1AdminSettingsPutResponsedefault_typed [fakes]: "faker_helpers (the_faker faker opts) \<Longrightarrow> generates (fakeUpdateSystemSettingsApiV1AdminSettingsPutResponsedefault faker opts) (field_of ''default'' UpdateSystemSettingsApiV1AdminSettingsPutErrors_type)"
  by (simp add: fakeUpdateSystemSettingsApiV1AdminSettingsPutResponsedefault_def UpdateSystemSettingsApiV1AdminSettingsPutErrors_type_def fakes Let_def)

lemma fakeResetSystemSettingsApiV1AdminSettingsResetPostResponse200_typed [fakes]: "faker_helpers (the_faker faker opts) \<Longrightarrow> generates (fakeResetSystemSettingsApiV1AdminSettingsResetPostResponse200 faker opts) (field_of ''200'' ResetSystemSettingsApiV1AdminSettingsResetPostResponses_type)"
  by (simp add: fakeResetSystemSettingsApiV1AdminSettingsResetPostResponse200_def ResetSystemSettingsApiV1AdminSettingsResetPostResponses_type_def fakes Let_def)

lemma fakeResetSystemSettingsApiV1AdminSettingsResetPostResponse500_typed [fakes]: "faker_helpers (the_faker faker opts) \<Longrightarrow> generates (fakeResetSystemSettingsApiV1AdminSettingsResetPostResponse500 faker opts) (field_of ''500'' ResetSystemSettingsApiV1AdminSettingsResetPostErrors_type)"
  by (simp add: fakeResetSystemSettingsApiV1AdminSettingsResetPostResponse500_def ResetSystemSettingsApiV1AdminSettingsResetPostErrors_type_def fakes Let_def)

lemma fakeResetSystemSettingsApiV1AdminSettingsResetPostResponsedefault_typed [fakes]: "faker_helpers (the_faker faker opts) \<Longrightarrow> generates (fakeResetSystemSettingsApiV1AdminSettingsResetPostResponsedefault faker opts) (field_of ''default'' ResetSystemSettingsApiV1AdminSettingsResetPostErrors_type)"
  by (simp add: fakeResetSystemSettingsApiV1AdminSettingsResetPostResponsedefault_def ResetSystemSettingsApiV1AdminSettingsResetPostErrors_type_def fakes Let_def)

lemma fakeListUsersApiV1AdminUsersGetRequest_typed [fakes]: "faker_helpers (the_faker faker opts) \<Longrightarrow> generates (fakeListUsersApiV1AdminUsersGetRequest faker opts) (omit_url ListUsersApiV1AdminUsersGetData_type)"
  by (simp add: fakeListUsersApiV1AdminUsersGetRequest_def ListUsersApiV1AdminUsersGetData_type_def fakes Let_def)

lemma fakeListUsersApiV1AdminUsersGetResponse200_typed [fakes]: "faker_helpers (the_faker faker opts) \<Longrightarrow> generates (fakeListUsersApiV1AdminUsersGetResponse200 faker opts) (field_of ''200'' ListUsersApiV1AdminUsersGetResponses_type)"
  by (simp add: fakeListUsersApiV1AdminUsersGetResponse200_def ListUsersApiV1AdminUsersGetResponses_type_def fakes Let_def)

lemma fakeListUsersApiV1AdminUsersGetResponsedefault_typed [fakes]: "faker_helpers (the_faker faker opts) \<Longrightarrow> generates (fakeListUsersApiV1AdminUsersGetResponsedefault faker opts) (field_of ''default'' ListUsersApiV1AdminUsersGetErrors_type)"
  by (simp add: fakeListUsersApiV1AdminUsersGetResponsedefault_def ListUsersApiV1AdminUsersGetErrors_type_def fakes Let_def)

lemma fakeCreateUserApiV1AdminUsersPostRequest_typed [fakes]: "faker_helpers (the_faker faker opts) \<Longrightarrow> generates (fakeCreateUserApiV1AdminUsersPostRequest faker opts) (omit_url CreateUserApiV1AdminUsersPostData_type)"
  by (simp add: fakeCreateUserApiV1AdminUsersPostRequest_def CreateUserApiV1AdminUsersPostData_type_def fakes Let_def)

lemma fakeCreateUserApiV1AdminUsersPostResponse200_typed [fakes]: "faker_helpers (the_faker faker opts) \<Longrightarrow> generates (fakeCreateUserApiV1AdminUsersPostResponse200 faker opts) (field_of ''200'' CreateUserApiV1AdminUsersPostResponses_type)"
  by (simp add: fakeCreateUserApiV1AdminUsersPostResponse200_def CreateUserApiV1AdminUsersPostResponses_type_def fakes Let_def)

lemma fakeCreateUserApiV1AdminUsersPostResponse409_typed [fakes]: "faker_helpers (the_faker faker opts) \<Longrightarrow> generates (fakeCreateUserApiV1AdminUsersPostResponse409 faker opts) (field_of ''409'' CreateUserApiV1AdminUsersPostErrors_type)"
  by (simp add: fakeCreateUserApiV1AdminUsersPostResponse409_def CreateUserApiV1AdminUsersPostErrors_type_def fakes Let_def)

lemma fakeCreateUserApiV1AdminUsersPostResponsedefault_typed [fakes]: "faker_helpers (the_faker faker opts) \<Longrightarrow> generates (fakeCreateUserApiV1AdminUsersPostResponsedefault faker opts) (field_of ''default'' CreateUserApiV1AdminUsersPostErrors_type)"
  by (simp add: fakeCreateUserApiV1AdminUsersPostResponsedefault_def CreateUserApiV1AdminUsersPostErrors_type_def fakes Let_def)

lemma fakeDeleteUserApiV1AdminUsersUserIdDeleteRequest_typed [fakes]: "faker_helpers (the_faker faker opts) \<Longrightarrow> generates (fakeDeleteUserApiV1AdminUsersUserIdDeleteRequest faker opts) (omit_url DeleteUserApiV1AdminUsersUserIdDeleteData_type)"
  by (simp add: fakeDeleteUserApiV1AdminUsersUserIdDeleteRequest_def DeleteUserApiV1AdminUsersUserIdDeleteData_type_def fakes Let_def)

lemma fakeDeleteUserApiV1AdminUsersUserIdDeleteResponse200_typed [fakes]: "faker_helpers (the_faker faker opts) \<Longrightarrow> generates (fakeDeleteUserApiV1AdminUsersUserIdDeleteResponse200 faker opts) (field_of ''200'' DeleteUserApiV1AdminUsersUserIdDeleteResponses_type)"
  by (simp add: fakeDeleteUserApiV1AdminUsersUserIdDeleteResponse200_def DeleteUserApiV1AdminUsersUserIdDeleteResponses_type_def fakes Let_def)

lemma fakeDeleteUserApiV1AdminUsersUserIdDeleteResponse400_typed [fakes]: "faker_helpers (the_faker faker opts) \<Longrightarrow> generates (fakeDeleteUserApiV1AdminUsersUserIdDeleteResponse400 faker opts) (field_of ''400'' DeleteUserApiV1AdminUsersUserIdDeleteErrors_type)"
  by (simp add: fakeDeleteUserApiV1AdminUsersUserIdDeleteResponse400_def DeleteUserApiV1AdminUsersUserIdDeleteErrors_type_def fakes Let_def)

lemma fakeDeleteUserApiV1AdminUsersUserIdDeleteResponse404_typed [fakes]: "faker_helpers (the_faker faker opts) \<Longrightarrow> generates (fakeDeleteUserApiV1AdminUsersUserIdDeleteResponse404 faker opts) (field_of ''404'' DeleteUserApiV1AdminUsersUserIdDeleteErrors_type)"
  by (simp add: fakeDeleteUserApiV1AdminUsersUserIdDeleteResponse404_def DeleteUserApiV1AdminUsersUserIdDeleteErrors_type_def fakes Let_def)

lemma fakeDeleteUserApiV1AdminUsersUserIdDeleteResponsedefault_typed [fakes]: "faker_helpers (the_faker faker opts) \<Longrightarrow> generates (fakeDeleteUserApiV1AdminUsersUserIdDeleteResponsedefault faker opts) (field_of ''default'' DeleteUserApiV1AdminUsersUserIdDeleteErrors_type)"
  by (simp add: fakeDeleteUserApiV1AdminUsersUserIdDeleteResponsedefault_def DeleteUserApiV1AdminUsersUserIdDeleteErrors_type_def fakes Let_def)

lemma fakeGetUserApiV1AdminUsersUserIdGetRequest_typed [fakes]: "faker_helpers (the_faker faker opts) \<Longrightarrow> generates (fakeGetUserApiV1AdminUsersUserIdGetRequest faker opts) (omit_url GetUserApiV1AdminUsersUserIdGetData_type)"
  by (simp add: fakeGetUserApiV1AdminUsersUserIdGetRequest_def GetUserApiV1AdminUsersUserIdGetData_type_def fakes Let_def)

lemma fakeGetUserApiV1AdminUsersUserIdGetResponse200_typed [fakes]: "faker_helpers (the_faker faker opts) \<Longrightarrow> generates (fakeGetUserApiV1AdminUsersUserIdGetResponse200 faker opts) (field_of ''200'' GetUserApiV1AdminUsersUserIdGetResponses_type)"
  by (simp add: fakeGetUserApiV1AdminUsersUserIdGetResponse200_def GetUserApiV1AdminUsersUserIdGetResponses_type_def fakes Let_def)

lemma fakeGetUserApiV1AdminUsersUserIdGetResponse404_typed [fakes]: "faker_helpers (the_faker faker opts) \<Longrightarrow> generates (fakeGetUserApiV1AdminUsersUserIdGetResponse404 faker opts) (field_of ''404'' GetUserApiV1AdminUsersUserIdGetErrors_type)"
  by (simp add: fakeGetUserApiV1AdminUsersUserIdGetResponse404_def GetUserApiV1AdminUsersUserIdGetErrors_type_def fakes Let_def)

lemma fakeGetUserApiV1AdminUsersUserIdGetResponsedefault_typed [fakes]: "faker_helpers (the_faker faker opts) \<Longrightarrow> generates (fakeGetUserApiV1AdminUsersUserIdGetResponsedefault faker opts) (field_of ''default'' GetUserApiV1AdminUsersUserIdGetErrors_type)"
  by (simp add: fakeGetUserApiV1AdminUsersUserIdGetResponsedefault_def GetUserApiV1AdminUsersUserIdGetErrors_type_def fakes Let_def)

lemma fakeUpdateUserApiV1AdminUsersUserIdPutRequest_typed [fakes]: "faker_helpers (the_faker faker opts) \<Longrightarrow> generates (fakeUpdateUserApiV1AdminUsersUserIdPutRequest faker opts) (omit_url UpdateUserApiV1AdminUsersUserIdPutData_type)"
  by (simp add: fakeUpdateUserApiV1AdminUsersUserIdPutRequest_def UpdateUserApiV1AdminUsersUserIdPutData_type_def fakes Let_def)

lemma fakeUpdateUserApiV1AdminUsersUserIdPutResponse200_typed [fakes]: "faker_helpers (the_faker faker opts) \<Longrightarrow> generates (fakeUpdateUserApiV1AdminUsersUserIdPutResponse200 faker opts) (field_of ''200'' UpdateUserApiV1AdminUsersUserIdPutResponses_type)"
  by (simp add: fakeUpdateUserApiV1AdminUsersUserIdPutResponse200_def UpdateUserApiV1AdminUsersUserIdPutResponses_type_def fakes Let_def)

lemma fakeUpdateUserApiV1AdminUsersUserIdPutResponse404_typed [fakes]: "faker_helpers (the_faker faker opts) \<Longrightarrow> generates (fakeUpdateUserApiV1AdminUsersUserIdPutResponse404 faker opts) (field_of ''404'' UpdateUserApiV1AdminUsersUserIdPutErrors_type)"
  by (simp add: fakeUpdateUserApiV1AdminUsersUserIdPutResponse404_def UpdateUserApiV1AdminUsersUserIdPutErrors_type_def fakes Let_def)

lemma fakeUpdateUserApiV1AdminUsersUserIdPutResponse409_typed [fakes]: "faker_helpers (the_faker faker opts) \<Longrightarrow> generates (fakeUpdateUserApiV1AdminUsersUserIdPutResponse409 faker opts) (field_of ''409'' UpdateUserApiV1AdminUsersUserIdPutErrors_type)"
  by (simp add: fakeUpdateUserApiV1AdminUsersUserIdPutResponse409_def UpdateUserApiV1AdminUsersUserIdPutErrors_type_def fakes Let_def)

lemma fakeUpdateUserApiV1AdminUsersUserIdPutResponsedefault_typed [fakes]: "faker_helpers (the_faker faker opts) \<Longrightarrow> generates (fakeUpdateUserApiV1AdminUsersUserIdPutResponsedefault faker opts) (field_of ''default'' UpdateUserApiV1AdminUsersUserIdPutErrors_type)"
  by (simp add: fakeUpdateUserApiV1AdminUsersUserIdPutResponsedefault_def UpdateUserApiV1AdminUsersUserIdPutErrors_type_def fakes Let_def)

lemma fakeGetUserOverviewApiV1AdminUsersUserIdOverviewGetRequest_typed [fakes]: "faker_helpers (the_faker faker opts) \<Longrightarrow> generates (fakeGetUserOverviewApiV1AdminUsersUserIdOverviewGetRequest faker opts) (omit_url GetUserOverviewApiV1AdminUsersUserIdOverviewGetData_type)"
  by (simp add: fakeGetUserOverviewApiV1AdminUsersUserIdOverviewGetRequest_def GetUserOverviewApiV1AdminUsersUserIdOverviewGetData_type_def fakes Let_def)

lemma fakeGetUserOverviewApiV1AdminUsersUserIdOverviewGetResponse200_typed [fakes]: "faker_helpers (the_faker faker opts) \<Longrightarrow> generates (fakeGetUserOverviewApiV1AdminUsersUserIdOverviewGetResponse200 faker opts) (field_of ''200'' GetUserOverviewApiV1AdminUsersUserIdOverviewGetResponses_type)"
  by (simp add: fakeGetUserOverviewApiV1AdminUsersUserIdOverviewGetResponse200_def GetUserOverviewApiV1AdminUsersUserIdOverviewGetResponses_type_def fakes Let_def)

lemma fakeGetUserOverviewApiV1AdminUsersUserIdOverviewGetResponse404_typed [fakes]: "faker_helpers (the_faker faker opts) \<Longrightarrow> generates (fakeGetUserOverviewApiV1AdminUsersUserIdOverviewGetResponse404 faker opts) (field_of ''404'' GetUserOverviewApiV1AdminUsersUserIdOverviewGetErrors_type)"
  by (simp add: fakeGetUserOverviewApiV1AdminUsersUserIdOverviewGetResponse404_def GetUserOverviewApiV1AdminUsersUserIdOverviewGetErrors_type_def fakes Let_def)

lemma fakeGetUserOverviewApiV1AdminUsersUserIdOverviewGetResponsedefault_typed [fakes]: "faker_helpers (the_faker faker opts) \<Longrightarrow> generates (fakeGetUserOverviewApiV1AdminUsersUserIdOverviewGetResponsedefault faker opts) (field_of ''default'' GetUserOverviewApiV1AdminUsersUserIdOverviewGetErrors_type)"
  by (simp add: fakeGetUserOverviewApiV1AdminUsersUserIdOverviewGetResponsedefault_def GetUserOverviewApiV1AdminUsersUserIdOverviewGetErrors_type_def fakes Let_def)

lemma fakeResetUserPasswordApiV1AdminUsersUserIdResetPasswordPostRequest_typed [fakes]: "faker_helpers (the_faker faker opts) \<Longrightarrow> generates (fakeResetUserPasswordApiV1AdminUsersUserIdResetPasswordPostRequest faker opts) (omit_url ResetUserPasswordApiV1AdminUsersUserIdResetPasswordPostData_type)"
  by (simp add: fakeResetUserPasswordApiV1AdminUsersUserIdResetPasswordPostRequest_def ResetUserPasswordApiV1AdminUsersUserIdResetPasswordPostData_type_def fakes Let_def)

lemma fakeResetUserPasswordApiV1AdminUsersUserIdResetPasswordPostResponse200_typed [fakes]: "faker_helpers (the_faker faker opts) \<Longrightarrow> generates (fakeResetUserPasswordApiV1AdminUsersUserIdResetPasswordPostResponse200 faker opts) (field_of ''200'' ResetUserPasswordApiV1AdminUsersUserIdResetPasswordPostResponses_type)"
  by (simp add: fakeResetUserPasswordApiV1AdminUsersUserIdResetPasswordPostResponse200_def ResetUserPasswordApiV1AdminUsersUserIdResetPasswordPostResponses_type_def fakes Let_def)

lemma fakeResetUserPasswordApiV1AdminUsersUserIdResetPasswordPostResponse404_typed [fakes]: "faker_helpers (the_faker faker opts) \<Longrightarrow> generates (fakeResetUserPasswordApiV1AdminUsersUserIdResetPasswordPostResponse404 faker opts) (field_of ''404'' ResetUserPasswordApiV1AdminUsersUserIdResetPasswordPostErrors_type)"
  by (simp add: fakeResetUserPasswordApiV1AdminUsersUserIdResetPasswordPostResponse404_def ResetUserPasswordApiV1AdminUsersUserIdResetPasswordPostErrors_type_def fakes Let_def)

lemma fakeResetUserPasswordApiV1AdminUsersUserIdResetPasswordPostResponsedefault_typed [fakes]: "faker_helpers (the_faker faker opts) \<Longrightarrow> generates (fakeResetUserPasswordApiV1AdminUsersUserIdResetPasswordPostResponsedefault faker opts) (field_of ''default'' ResetUserPasswordApiV1AdminUsersUserIdResetPasswordPostErrors_type)"
  by (simp add: fakeResetUserPasswordApiV1AdminUsersUserIdResetPasswordPostResponsedefault_def ResetUserPasswordApiV1AdminUsersUserIdResetPasswordPostErrors_type_def fakes Let_def)

lemma fakeUnlockUserApiV1AdminUsersUserIdUnlockPostRequest_typed [fakes]: "faker_helpers (the_faker faker opts) \<Longrightarrow> generates (fakeUnlockUserApiV1AdminUsersUserIdUnlockPostRequest faker opts) (omit_url UnlockUserApiV1AdminUsersUserIdUnlockPostData_type)"
  by (simp add: fakeUnlockUserApiV1AdminUsersUserIdUnlockPostRequest_def UnlockUserApiV1AdminUsersUserIdUnlockPostData_type_def fakes Let_def)

lemma fakeUnlockUserApiV1AdminUsersUserIdUnlockPostResponse200_typed [fakes]: "faker_helpers (the_faker faker opts) \<Longrightarrow> generates (fakeUnlockUserApiV1AdminUsersUserIdUnlockPostResponse200 faker opts) (field_of ''200'' UnlockUserApiV1AdminUsersUserIdUnlockPostResponses_type)"
  by (simp add: fakeUnlockUserApiV1AdminUsersUserIdUnlockPostResponse200_def UnlockUserApiV1AdminUsersUserIdUnlockPostResponses_type_def fakes Let_def)

lemma fakeUnlockUserApiV1AdminUsersUserIdUnlockPostResponse404_typed [fakes]: "faker_helpers (the_faker faker opts) \<Longrightarrow> generates (fakeUnlockUserApiV1AdminUsersUserIdUnlockPostResponse404 faker opts) (field_of ''404'' UnlockUserApiV1AdminUsersUserIdUnlockPostErrors_type)"
  by (simp add: fakeUnlockUserApiV1AdminUsersUserIdUnlockPostResponse404_def UnlockUserApiV1AdminUsersUserIdUnlockPostErrors_type_def fakes Let_def)

lemma fakeUnlockUserApiV1AdminUsersUserIdUnlockPostResponsedefault_typed [fakes]: "faker_helpers (the_faker faker opts) \<Longrightarrow> generates (fakeUnlockUserApiV1AdminUsersUserIdUnlockPostResponsedefault faker opts) (field_of ''default'' UnlockUserApiV1AdminUsersUserIdUnlockPostErrors_type)"
  by (simp add: fakeUnlockUserApiV1AdminUsersUserIdUnlockPostResponsedefault_def UnlockUserApiV1AdminUsersUserIdUnlockPostErrors_type_def fakes Let_def)

lemma fakeGetUserSettingsApiV1UserSettingsGetResponse200_typed [fakes]: "faker_helpers (the_faker faker opts) \<Longrightarrow> generates (fakeGetUserSettingsApiV1UserSettingsGetResponse200 faker opts) (field_of ''200'' GetUserSettingsApiV1UserSettingsGetResponses_type)"
  by (simp add: fakeGetUserSettingsApiV1UserSettingsGetResponse200_def GetUserSettingsApiV1UserSettingsGetResponses_type_def fakes Let_def)

lemma fakeGetUserSettingsApiV1UserSettingsGetResponsedefault_typed [fakes]: "faker_helpers (the_faker faker opts) \<Longrightarrow> generates (fakeGetUserSettingsApiV1UserSettingsGetResponsedefault faker opts) (field_of ''default'' GetUserSettingsApiV1UserSettingsGetErrors_type)"
  by (simp add: fakeGetUserSettingsApiV1UserSettingsGetResponsedefault_def GetUserSettingsApiV1UserSettingsGetErrors_type_def fakes Let_def)

lemma fakeUpdateUserSettingsApiV1UserSettingsPutRequest_typed [fakes]: "faker_helpers (the_faker faker opts) \<Longrightarrow> generates (fakeUpdateUserSettingsApiV1UserSettingsPutRequest faker opts) (omit_url UpdateUserSettingsApiV1UserSettingsPutData_type)"
  by (simp add: fakeUpdateUserSettingsApiV1UserSettingsPutRequest_def UpdateUserSettingsApiV1UserSettingsPutData_type_def fakes Let_def)

lemma fakeUpdateUserSettingsApiV1UserSettingsPutResponse200_typed [fakes]: "faker_helpers (the_faker faker opts) \<Longrightarrow> generates (fakeUpdateUserSettingsApiV1UserSettingsPutResponse200 faker opts) (field_of ''200'' UpdateUserSettingsApiV1UserSettingsPutResponses_type)"
  by (simp add: fakeUpdateUserSettingsApiV1UserSettingsPutResponse200_def UpdateUserSettingsApiV1UserSettingsPutResponses_type_def fakes Let_def)

lemma fakeUpdateUserSettingsApiV1UserSettingsPutResponsedefault_typed [fakes]: "faker_helpers (the_faker faker opts) \<Longrightarrow> generates (fakeUpdateUserSettingsApiV1UserSettingsPutResponsedefault faker opts) (field_of ''default'' UpdateUserSettingsApiV1UserSettingsPutErrors_type)"
  by (simp add: fakeUpdateUserSettingsApiV1UserSettingsPutResponsedefault_def UpdateUserSettingsApiV1UserSettingsPutErrors_type_def fakes Let_def)

lemma fakeUpdateThemeApiV1UserSettingsThemePutRequest_typed [fakes]: "faker_helpers (the_faker faker opts) \<Longrightarrow> generates (fakeUpdateThemeApiV1UserSettingsThemePutRequest faker opts) (omit_url UpdateThemeApiV1UserSettingsThemePutData_type)"
  by (simp add: fakeUpdateThemeApiV1UserSettingsThemePutRequest_def UpdateThemeApiV1UserSettingsThemePutData_type_def fakes Let_def)

lemma fakeUpdateThemeApiV1UserSettingsThemePutResponse200_typed [fakes]: "faker_helpers (the_faker faker opts) \<Longrightarrow> generates (fakeUpdateThemeApiV1UserSettingsThemePutResponse200 faker opts) (field_of ''200'' UpdateThemeApiV1UserSettingsThemePutResponses_type)"
  by (simp add: fakeUpdateThemeApiV1UserSettingsThemePutResponse200_def UpdateThemeApiV1UserSettingsThemePutResponses_type_def fakes Let_def)

lemma fakeUpdateThemeApiV1UserSettingsThemePutResponsedefault_typed [fakes]: "faker_helpers (the_faker faker opts) \<Longrightarrow> generates (fakeUpdateThemeApiV1UserSettingsThemePutResponsedefault faker opts) (field_of ''default'' UpdateThemeApiV1UserSettingsThemePutErrors_type)"
  by (simp add: fakeUpdateThemeApiV1UserSettingsThemePutResponsedefault_def UpdateThemeApiV1UserSettingsThemePutErrors_type_def fakes Let_def)

lemma fakeUpdateNotificationSettingsApiV1UserSettingsNotificationsPutRequest_typed [fakes]: "faker_helpers (the_faker faker opts) \<Longrightarrow> generates (fakeUpdateNotificationSettingsApiV1UserSettingsNotificationsPutRequest faker opts) (omit_url UpdateNotificationSettingsApiV1UserSettingsNotificationsPutData_type)"
  by (simp add: fakeUpdateNotificationSettingsApiV1UserSettingsNotificationsPutRequest_def UpdateNotificationSettingsApiV1UserSettingsNotificationsPutData_type_def fakes Let_def)

lemma fakeUpdateNotificationSettingsApiV1UserSettingsNotificationsPutResponse200_typed [fakes]: "faker_helpers (the_faker faker opts) \<Longrightarrow> generates (fakeUpdateNotificationSettingsApiV1UserSettingsNotificationsPutResponse200 faker opts) (field_of ''200'' UpdateNotificationSettingsApiV1UserSettingsNotificationsPutResponses_type)"
  by (simp add: fakeUpdateNotificationSettingsApiV1UserSettingsNotificationsPutResponse200_def UpdateNotificationSettingsApiV1UserSettingsNotificationsPutResponses_type_def fakes Let_def)

lemma fakeUpdateNotificationSettingsApiV1UserSettingsNotificationsPutResponsedefault_typed [fakes]: "faker_helpers (the_faker faker opts) \<Longrightarrow> generates (fakeUpdateNotificationSettingsApiV1UserSettingsNotificationsPutResponsedefault faker opts) (field_of ''default'' UpdateNotificationSettingsApiV1UserSettingsNotificationsPutErrors_type)"
  by (simp add: fakeUpdateNotificationSettingsApiV1UserSettingsNotificationsPutResponsedefault_def UpdateNotificationSettingsApiV1UserSettingsNotificationsPutErrors_type_def fakes Let_def)

lemma fakeUpdateEditorSettingsApiV1UserSettingsEditorPutRequest_typed [fakes]: "faker_helpers (the_faker faker opts) \<Longrightarrow> generates (fakeUpdateEditorSettingsApiV1UserSettingsEditorPutRequest faker opts) (omit_url UpdateEditorSettingsApiV1UserSettingsEditorPutData_type)"
  by (simp add: fakeUpdateEditorSettingsApiV1UserSettingsEditorPutRequest_def UpdateEditorSettingsApiV1UserSettingsEditorPutData_type_def fakes Let_def)

lemma fakeUpdateEditorSettingsApiV1UserSettingsEditorPutResponse200_typed [fakes]: "faker_helpers (the_faker faker opts) \<Longrightarrow> generates (fakeUpdateEditorSettingsApiV1UserSettingsEditorPutResponse200 faker opts) (field_of ''200'' UpdateEditorSettingsApiV1UserSettingsEditorPutResponses_type)"
  by (simp add: fakeUpdateEditorSettingsApiV1UserSettingsEditorPutResponse200_def UpdateEditorSettingsApiV1UserSettingsEditorPutResponses_type_def fakes Let_def)

lemma fakeUpdateEditorSettingsApiV1UserSettingsEditorPutResponsedefault_typed [fakes]: "faker_helpers (the_faker faker opts) \<Longrightarrow> generates (fakeUpdateEditorSettingsApiV1UserSettingsEditorPutResponsedefault faker opts) (field_of ''default'' UpdateEditorSettingsApiV1UserSettingsEditorPutErrors_type)"
  by (simp add: fakeUpdateEditorSettingsApiV1UserSettingsEditorPutResponsedefault_def UpdateEditorSettingsApiV1UserSettingsEditorPutErrors_type_def fakes Let_def)

lemma fakeGetSettingsHistoryApiV1UserSettingsHistoryGetRequest_typed [fakes]: "faker_helpers (the_faker faker opts) \<Longrightarrow> generates (fakeGetSettingsHistoryApiV1UserSettingsHistoryGetRequest faker opts) (omit_url GetSettingsHistoryApiV1UserSettingsHistoryGetData_type)"
  by (simp add: fakeGetSettingsHistoryApiV1UserSettingsHistoryGetRequest_def GetSettingsHistoryApiV1UserSettingsHistoryGetData_type_def fakes Let_def)

lemma fakeGetSettingsHistoryApiV1UserSettingsHistoryGetResponse200_typed [fakes]: "faker_helpers (the_faker faker opts) \<Longrightarrow> generates (fakeGetSettingsHistoryApiV1UserSettingsHistoryGetResponse200 faker opts) (field_of ''200'' GetSettingsHistoryApiV1UserSettingsHistoryGetResponses_type)"
  by (simp add: fakeGetSettingsHistoryApiV1UserSettingsHistoryGetResponse200_def GetSettingsHistoryApiV1UserSettingsHistoryGetResponses_type_def fakes Let_def)

lemma fakeGetSettingsHistoryApiV1UserSettingsHistoryGetResponsedefault_typed [fakes]: "faker_helpers (the_faker faker opts) \<Longrightarrow> generates (fakeGetSettingsHistoryApiV1UserSettingsHistoryGetResponsedefault faker opts) (field_of ''default'' GetSettingsHistoryApiV1UserSettingsHistoryGetErrors_type)"
  by (simp add: fakeGetSettingsHistoryApiV1UserSettingsHistoryGetResponsedefault_def GetSettingsHistoryApiV1UserSettingsHistoryGetErrors_type_def fakes Let_def)

lemma fakeRestoreSettingsApiV1UserSettingsRestorePostRequest_typed [fakes]: "faker_helpers (the_faker faker opts) \<Longrightarrow> generates (fakeRestoreSettingsApiV1UserSettingsRestorePostRequest faker opts) (omit_url RestoreSettingsApiV1UserSettingsRestorePostData_type)"
  by (simp add: fakeRestoreSettingsApiV1UserSettingsRestorePostRequest_def RestoreSettingsApiV1UserSettingsRestorePostData_type_def fakes Let_def)

lemma fakeRestoreSettingsApiV1UserSettingsRestorePostResponse200_typed [fakes]: "faker_helpers (the_faker faker opts) \<Longrightarrow> generates (fakeRestoreSettingsApiV1UserSettingsRestorePostResponse200 faker opts) (field_of ''200'' RestoreSettingsApiV1UserSettingsRestorePostResponses_type)"
  by (simp add: fakeRestoreSettingsApiV1UserSettingsRestorePostResponse200_def RestoreSettingsApiV1UserSettingsRestorePostResponses_type_def fakes Let_def)

lemma fakeRestoreSettingsApiV1UserSettingsRestorePostResponsedefault_typed [fakes]: "faker_helpers (the_faker faker opts) \<Longrightarrow> generates (fakeRestoreSettingsApiV1UserSettingsRestorePostResponsedefault faker opts) (field_of ''default'' RestoreSettingsApiV1UserSettingsRestorePostErrors_type)"
  by (simp add: fakeRestoreSettingsApiV1UserSettingsRestorePostResponsedefault_def RestoreSettingsApiV1UserSettingsRestorePostErrors_type_def fakes Let_def)

lemma fakeUpdateCustomSettingApiV1UserSettingsCustomKeyPutRequest_typed [fakes]: "faker_helpers (the_faker faker opts) \<Longrightarrow> generates (fakeUpdateCustomSettingApiV1UserSettingsCustomKeyPutRequest faker opts) (omit_url UpdateCustomSettingApiV1UserSettingsCustomKeyPutData_type)"
  by (simp add: fakeUpdateCustomSettingApiV1UserSettingsCustomKeyPutRequest_def UpdateCustomSettingApiV1UserSettingsCustomKeyPutData_type_def fakes Let_def)

lemma fakeUpdateCustomSettingApiV1UserSettingsCustomKeyPutResponse200_typed [fakes]: "faker_helpers (the_faker faker opts) \<Longrightarrow> generates (fakeUpdateCustomSettingApiV1UserSettingsCustomKeyPutResponse200 faker opts) (field_of ''200'' UpdateCustomSettingApiV1UserSettingsCustomKeyPutResponses_type)"
  by (simp add: fakeUpdateCustomSettingApiV1UserSettingsCustomKeyPutResponse200_def UpdateCustomSettingApiV1UserSettingsCustomKeyPutResponses_type_def fakes Let_def)

lemma fakeUpdateCustomSettingApiV1UserSettingsCustomKeyPutResponsedefault_typed [fakes]: "faker_helpers (the_faker faker opts) \<Longrightarrow> generates (fakeUpdateCustomSettingApiV1UserSettingsCustomKeyPutResponsedefault faker opts) (field_of ''default'' UpdateCustomSettingApiV1UserSettingsCustomKeyPutErrors_type)"
  by (simp add: fakeUpdateCustomSettingApiV1UserSettingsCustomKeyPutResponsedefault_def UpdateCustomSettingApiV1UserSettingsCustomKeyPutErrors_type_def fakes Let_def)

lemma fakeGetNotificationsApiV1NotificationsGetRequest_typed [fakes]: "faker_helpers (the_faker faker opts) \<Longrightarrow> generates (fakeGetNotificationsApiV1NotificationsGetRequest faker opts) (omit_url GetNotificationsApiV1NotificationsGetData_type)"
  by (simp add: fakeGetNotificationsApiV1NotificationsGetRequest_def GetNotificationsApiV1NotificationsGetData_type_def fakes Let_def)

lemma fakeGetNotificationsApiV1NotificationsGetResponse200_typed [fakes]: "faker_helpers (the_faker faker opts) \<Longrightarrow> generates (fakeGetNotificationsApiV1NotificationsGetResponse200 faker opts) (field_of ''200'' GetNotificationsApiV1NotificationsGetResponses_type)"
  by (simp add: fakeGetNotificationsApiV1NotificationsGetResponse200_def GetNotificationsApiV1NotificationsGetResponses_type_def fakes Let_def)

lemma fakeGetNotificationsApiV1NotificationsGetResponsedefault_typed [fakes]: "faker_helpers (the_faker faker opts) \<Longrightarrow> generates (fakeGetNotificationsApiV1NotificationsGetResponsedefault faker opts) (field_of ''default'' GetNotificationsApiV1NotificationsGetErrors_type)"
  by (simp add: fakeGetNotificationsApiV1NotificationsGetResponsedefault_def GetNotificationsApiV1NotificationsGetErrors_type_def fakes Let_def)

lemma fakeMarkNotificationReadApiV1NotificationsNotificationIdReadPutRequest_typed [fakes]: "faker_helpers (the_faker faker opts) \<Longrightarrow> generates (fakeMarkNotificationReadApiV1NotificationsNotificationIdReadPutRequest faker opts) (omit_url MarkNotificationReadApiV1NotificationsNotificationIdReadPutData_type)"
  by (simp add: fakeMarkNotificationReadApiV1NotificationsNotificationIdReadPutRequest_def MarkNotificationReadApiV1NotificationsNotificationIdReadPutData_type_def fakes Let_def)

lemma fakeMarkNotificationReadApiV1NotificationsNotificationIdReadPutResponsedefault_typed [fakes]: "faker_helpers (the_faker faker opts) \<Longrightarrow> generates (fakeMarkNotificationReadApiV1NotificationsNotificationIdReadPutResponsedefault faker opts) (field_of ''default'' MarkNotificationReadApiV1NotificationsNotificationIdReadPutErrors_type)"
  by (simp add: fakeMarkNotificationReadApiV1NotificationsNotificationIdReadPutResponsedefault_def MarkNotificationReadApiV1NotificationsNotificationIdReadPutErrors_type_def fakes Let_def)

lemma fakeMarkAllReadApiV1NotificationsMarkAllReadPostResponsedefault_typed [fakes]: "faker_helpers (the_faker faker opts) \<Longrightarrow> generates (fakeMarkAllReadApiV1NotificationsMarkAllReadPostResponsedefault faker opts) (field_of ''default'' MarkAllReadApiV1NotificationsMarkAllReadPostErrors_type)"
  by (simp add: fakeMarkAllReadApiV1NotificationsMarkAllReadPostResponsedefault_def MarkAllReadApiV1NotificationsMarkAllReadPostErrors_type_def fakes Let_def)

lemma fakeGetUnreadCountApiV1NotificationsUnreadCountGetResponse200_typed [fakes]: "faker_helpers (the_faker faker opts) \<Longrightarrow> generates (fakeGetUnreadCountApiV1NotificationsUnreadCountGetResponse200 faker opts) (field_of ''200'' GetUnreadCountApiV1NotificationsUnreadCountGetResponses_type)"
  by (simp add: fakeGetUnreadCountApiV1NotificationsUnreadCountGetResponse200_def GetUnreadCountApiV1NotificationsUnreadCountGetResponses_type_def fakes Let_def)

lemma fakeGetUnreadCountApiV1NotificationsUnreadCountGetResponsedefault_typed [fakes]: "faker_helpers (the_faker faker opts) \<Longrightarrow> generates (fakeGetUnreadCountApiV1NotificationsUnreadCountGetResponsedefault faker opts) (field_of ''default'' GetUnreadCountApiV1NotificationsUnreadCountGetErrors_type)"
  by (simp add: fakeGetUnreadCountApiV1NotificationsUnreadCountGetResponsedefault_def GetUnreadCountApiV1NotificationsUnreadCountGetErrors_type_def fakes Let_def)

lemma fakeDeleteNotificationApiV1NotificationsNotificationIdDeleteRequest_typed [fakes]: "faker_helpers (the_faker faker opts) \<Longrightarrow> generates (fakeDeleteNotificationApiV1NotificationsNotificationIdDeleteRequest faker opts) (omit_url DeleteNotificationApiV1NotificationsNotificationIdDeleteData_type)"
  by (simp add: fakeDeleteNotificationApiV1NotificationsNotificationIdDeleteRequest_def DeleteNotificationApiV1NotificationsNotificationIdDeleteData_type_def fakes Let_def)

lemma fakeDeleteNotificationApiV1NotificationsNotificationIdDeleteResponse200_typed [fakes]: "faker_helpers (the_faker faker opts) \<Longrightarrow> generates (fakeDeleteNotificationApiV1NotificationsNotificationIdDeleteResponse200 faker opts) (field_of ''200'' DeleteNotificationApiV1NotificationsNotificationIdDeleteResponses_type)"
  by (simp add: fakeDeleteNotificationApiV1NotificationsNotificationIdDeleteResponse200_def DeleteNotificationApiV1NotificationsNotificationIdDeleteResponses_type_def fakes Let_def)

lemma fakeDeleteNotificationApiV1NotificationsNotificationIdDeleteResponsedefault_typed [fakes]: "faker_helpers (the_faker faker opts) \<Longrightarrow> generates (fakeDeleteNotificationApiV1NotificationsNotificationIdDeleteResponsedefault faker opts) (field_of ''default'' DeleteNotificationApiV1NotificationsNotificationIdDeleteErrors_type)"
  by (simp add: fakeDeleteNotificationApiV1NotificationsNotificationIdDeleteResponsedefault_def DeleteNotificationApiV1NotificationsNotificationIdDeleteErrors_type_def fakes Let_def)

text \<open>Every factory with the type its declaration names\<close>

definition all_factories :: "'s faker \<Rightarrow> 's options option \<Rightarrow> (string \<times> ('s, data) state \<times> ts_type) list" where
  "all_factories faker opts = [
     (''fakeBodyLoginApiV1AuthLoginPost'', fakeBodyLoginApiV1AuthLoginPost faker opts, BodyLoginApiV1AuthLoginPost_type),
     (''fakeCancelStatus'', fakeCancelStatus faker opts, CancelStatus_type),
     (''fakeCancelResponse'', fakeCancelResponse faker opts, CancelResponse_type),
     (''fakeContainerStatusInfo'', fakeContainerStatusInfo faker opts, ContainerStatusInfo_type),
     (''fakeDeleteNotificationResponse'', fakeDeleteNotificationResponse faker opts, DeleteNotificationResponse_type),
     (''fakeDeleteResponse'', fakeDeleteResponse faker opts, DeleteResponse_type),
     (''fakeDeleteUserResponse'', fakeDeleteUserResponse faker opts, DeleteUserResponse_type),
     (''fakeDerivedCounts'', fakeDerivedCounts faker opts, DerivedCounts_type),
     (''fakeEditorSettingsInput'', fakeEditorSettingsInput faker opts, EditorSettingsInput_type),
     (''fakeEditorSettingsOutput'', fakeEditorSettingsOutput faker opts, EditorSettingsOutput_type),
     (''fakeEndpointGroup'', fakeEndpointGroup faker opts, EndpointGroup_type),
     (''fakeEnvironment'', fakeEnvironment faker opts, Environment_type),
     (''fakeErrorResponse'', fakeErrorResponse faker opts, ErrorResponse_type),
     (''fakeEventDeleteResponse'', fakeEventDeleteResponse faker opts, EventDeleteResponse_type),
     (''fakeEventMetadata'', fakeEventMetadata faker opts, EventMetadata_type),
     (''fakeAuthFailedEvent'', fakeAuthFailedEvent faker opts, AuthFailedEvent_type),
     (''fakeEventReplayRequest'', fakeEventReplayRequest faker opts, EventReplayRequest_type),
     (''fakeEventType'', fakeEventType faker opts, EventType_type),
     (''fakeDlqMessageDiscardedEvent'', fakeDlqMessageDiscardedEvent faker opts, DlqMessageDiscardedEvent_type),
     (''fakeDlqMessageReceivedEvent'', fakeDlqMessageReceivedEvent faker opts, DlqMessageReceivedEvent_type),
     (''fakeDlqMessageRetriedEvent'', fakeDlqMessageRetriedEvent faker opts, DlqMessageRetriedEvent_type),
     (''fakeEventFilter'', fakeEventFilter faker opts, EventFilter_type),
     (''fakeEventBrowseRequest'', fakeEventBrowseRequest faker opts, EventBrowseRequest_type),
     (''fakeEventSummary'', fakeEventSummary faker opts, EventSummary_type),
     (''fakeEventTypeCount'', fakeEventTypeCount faker opts, EventTypeCount_type),
     (''fakeExampleScripts'', fakeExampleScripts faker opts, ExampleScripts_type),
     (''fakeExecutionCancelledEvent'', fakeExecutionCancelledEvent faker opts, ExecutionCancelledEvent_type),
     (''fakeExecutionErrorType'', fakeExecutionErrorType faker opts, ExecutionErrorType_type),
     (''fakeExecutionQueuedEvent'', fakeExecutionQueuedEvent faker opts, ExecutionQueuedEvent_type),
     (''fakeExecutionRequest'', fakeExecutionRequest faker opts, ExecutionRequest_type),
     (''fakeExecutionRunningEvent'', fakeExecutionRunningEvent faker opts, ExecutionRunningEvent_type),
     (''fakeExecutionStartedEvent'', fakeExecutionStartedEvent faker opts, ExecutionStartedEvent_type),
     (''fakeExecutionStatus'', fakeExecutionStatus faker opts, ExecutionStatus_type),
     (''fakeExecutionResponse'', fakeExecutionResponse faker opts, ExecutionResponse_type),
     (''fakeExportFormat'', fakeExportFormat faker opts, ExportFormat_type),
     (''fakeHourlyEventCount'', fakeHourlyEventCount faker opts, HourlyEventCount_type),
     (''fakeLanguageInfo'', fakeLanguageInfo faker opts, LanguageInfo_type),
     (''fakeLanguageLimits'', fakeLanguageLimits faker opts, LanguageLimits_type),
     (''fakeLivenessResponse'', fakeLivenessResponse faker opts, LivenessResponse_type),
     (''fakeLoginMethod'', fakeLoginMethod faker opts, LoginMethod_type),
     (''fakeMessageResponse'', fakeMessageResponse faker opts, MessageResponse_type),
     (''fakeNotificationAllReadEvent'', fakeNotificationAllReadEvent faker opts, NotificationAllReadEvent_type),
     (''fakeNotificationClickedEvent'', fakeNotificationClickedEvent faker opts, NotificationClickedEvent_type),
     (''fakeNotificationDeliveredEvent'', fakeNotificationDeliveredEvent faker opts, NotificationDeliveredEvent_type),
     (''fakeNotificationFailedEvent'', fakeNotificationFailedEvent faker opts, NotificationFailedEvent_type),
     (''fakeNotificationPreferencesUpdatedEvent'', fakeNotificationPreferencesUpdatedEvent faker opts, NotificationPreferencesUpdatedEvent_type),
     (''fakeNotificationReadEvent'', fakeNotificationReadEvent faker opts, NotificationReadEvent_type),
     (''fakeNotificationSentEvent'', fakeNotificationSentEvent faker opts, NotificationSentEvent_type),
     (''fakeNotificationSettingsInput'', fakeNotificationSettingsInput faker opts, NotificationSettingsInput_type),
     (''fakeNotificationSettingsOutput'', fakeNotificationSettingsOutput faker opts, NotificationSettingsOutput_type),
     (''fakeNotificationSeverity'', fakeNotificationSeverity faker opts, NotificationSeverity_type),
     (''fakeNotificationCreatedEvent'', fakeNotificationCreatedEvent faker opts, NotificationCreatedEvent_type),
     (''fakeNotificationStatus'', fakeNotificationStatus faker opts, NotificationStatus_type),
     (''fakeNotificationResponse'', fakeNotificationResponse faker opts, NotificationResponse_type),
     (''fakeNotificationListResponse'', fakeNotificationListResponse faker opts, NotificationListResponse_type),
     (''fakePasswordResetRequest'', fakePasswordResetRequest faker opts, PasswordResetRequest_type),
     (''fakePodCreatedEvent'', fakePodCreatedEvent faker opts, PodCreatedEvent_type),
     (''fakePodDeletedEvent'', fakePodDeletedEvent faker opts, PodDeletedEvent_type),
     (''fakePodFailedEvent'', fakePodFailedEvent faker opts, PodFailedEvent_type),
     (''fakePodRunningEvent'', fakePodRunningEvent faker opts, PodRunningEvent_type),
     (''fakePodScheduledEvent'', fakePodScheduledEvent faker opts, PodScheduledEvent_type),
     (''fakePodSucceededEvent'', fakePodSucceededEvent faker opts, PodSucceededEvent_type),
     (''fakePodTerminatedEvent'', fakePodTerminatedEvent faker opts, PodTerminatedEvent_type),
     (''fakeQueuePriority'', fakeQueuePriority faker opts, QueuePriority_type),
     (''fakeAdminExecutionResponse'', fakeAdminExecutionResponse faker opts, AdminExecutionResponse_type),
     (''fakeAdminExecutionListResponse'', fakeAdminExecutionListResponse faker opts, AdminExecutionListResponse_type),
     (''fakeExecutionAcceptedEvent'', fakeExecutionAcceptedEvent faker opts, ExecutionAcceptedEvent_type),
     (''fakeExecutionRequestedEvent'', fakeExecutionRequestedEvent faker opts, ExecutionRequestedEvent_type),
     (''fakePriorityUpdateRequest'', fakePriorityUpdateRequest faker opts, PriorityUpdateRequest_type),
     (''fakeQueueStatusResponse'', fakeQueueStatusResponse faker opts, QueueStatusResponse_type),
     (''fakeQuotaExceededEvent'', fakeQuotaExceededEvent faker opts, QuotaExceededEvent_type),
     (''fakeRateLimitAlgorithm'', fakeRateLimitAlgorithm faker opts, RateLimitAlgorithm_type),
     (''fakeEndpointUsageStats'', fakeEndpointUsageStats faker opts, EndpointUsageStats_type),
     (''fakeRateLimitExceededEvent'', fakeRateLimitExceededEvent faker opts, RateLimitExceededEvent_type),
     (''fakeRateLimitRuleRequest'', fakeRateLimitRuleRequest faker opts, RateLimitRuleRequest_type),
     (''fakeRateLimitRuleResponse'', fakeRateLimitRuleResponse faker opts, RateLimitRuleResponse_type),
     (''fakeRateLimitSummary'', fakeRateLimitSummary faker opts, RateLimitSummary_type),
     (''fakeRateLimitUpdateRequest'', fakeRateLimitUpdateRequest faker opts, RateLimitUpdateRequest_type),
     (''fakeReplayError'', fakeReplayError faker opts, ReplayError_type),
     (''fakeReplayStatus'', fakeReplayStatus faker opts, ReplayStatus_type),
     (''fakeEventReplayResponse'', fakeEventReplayResponse faker opts, EventReplayResponse_type),
     (''fakeResourceLimitExceededEvent'', fakeResourceLimitExceededEvent faker opts, ResourceLimitExceededEvent_type),
     (''fakeResourceLimits'', fakeResourceLimits faker opts, ResourceLimits_type),
     (''fakeResourceUsage'', fakeResourceUsage faker opts, ResourceUsage_type),
     (''fakeExecutionResult'', fakeExecutionResult faker opts, ExecutionResult_type),
     (''fakeEventReplayStatusResponse'', fakeEventReplayStatusResponse faker opts, EventReplayStatusResponse_type),
     (''fakeExecutionListResponse'', fakeExecutionListResponse faker opts, ExecutionListResponse_type),
     (''fakeResourceUsageDomain'', fakeResourceUsageDomain faker opts, ResourceUsageDomain_type),
     (''fakeExecutionCompletedEvent'', fakeExecutionCompletedEvent faker opts, ExecutionCompletedEvent_type),
     (''fakeExecutionFailedEvent'', fakeExecutionFailedEvent faker opts, ExecutionFailedEvent_type),
     (''fakeExecutionTimeoutEvent'', fakeExecutionTimeoutEvent faker opts, ExecutionTimeoutEvent_type),
     (''fakeRestoreSettingsRequest'', fakeRestoreSettingsRequest faker opts, RestoreSettingsRequest_type),
     (''fakeSseControlEvent'', fakeSseControlEvent, SseControlEvent_type),
     (''fakeSseExecutionEventSchema'', fakeSseExecutionEventSchema faker opts, SseExecutionEventSchema_type),
     (''fakeSavedScriptCreateRequest'', fakeSavedScriptCreateRequest faker opts, SavedScriptCreateRequest_type),
     (''fakeSavedScriptResponse'', fakeSavedScriptResponse faker opts, SavedScriptResponse_type),
     (''fakeSavedScriptListResponse'', fakeSavedScriptListResponse faker opts, SavedScriptListResponse_type),
     (''fakeSavedScriptUpdate'', fakeSavedScriptUpdate faker opts, SavedScriptUpdate_type),
     (''fakeScriptDeletedEvent'', fakeScriptDeletedEvent faker opts, ScriptDeletedEvent_type),
     (''fakeScriptSavedEvent'', fakeScriptSavedEvent faker opts, ScriptSavedEvent_type),
     (''fakeScriptSharedEvent'', fakeScriptSharedEvent faker opts, ScriptSharedEvent_type),
     (''fakeSecurityViolationEvent'', fakeSecurityViolationEvent faker opts, SecurityViolationEvent_type),
     (''fakeServiceEventCount'', fakeServiceEventCount faker opts, ServiceEventCount_type),
     (''fakeServiceRecoveredEvent'', fakeServiceRecoveredEvent faker opts, ServiceRecoveredEvent_type),
     (''fakeServiceUnhealthyEvent'', fakeServiceUnhealthyEvent faker opts, ServiceUnhealthyEvent_type),
     (''fakeSettingsHistoryEntry'', fakeSettingsHistoryEntry faker opts, SettingsHistoryEntry_type),
     (''fakeSettingsHistoryResponse'', fakeSettingsHistoryResponse faker opts, SettingsHistoryResponse_type),
     (''fakeStorageType'', fakeStorageType faker opts, StorageType_type),
     (''fakeResultFailedEvent'', fakeResultFailedEvent faker opts, ResultFailedEvent_type),
     (''fakeResultStoredEvent'', fakeResultStoredEvent faker opts, ResultStoredEvent_type),
     (''fakeSystemErrorEvent'', fakeSystemErrorEvent faker opts, SystemErrorEvent_type),
     (''fakeSystemSettingsSchemaInput'', fakeSystemSettingsSchemaInput faker opts, SystemSettingsSchemaInput_type),
     (''fakeSystemSettingsSchemaOutput'', fakeSystemSettingsSchemaOutput faker opts, SystemSettingsSchemaOutput_type),
     (''fakeTheme'', fakeTheme faker opts, Theme_type),
     (''fakeThemeUpdateRequest'', fakeThemeUpdateRequest faker opts, ThemeUpdateRequest_type),
     (''fakeUnlockResponse'', fakeUnlockResponse faker opts, UnlockResponse_type),
     (''fakeUnreadCountResponse'', fakeUnreadCountResponse faker opts, UnreadCountResponse_type),
     (''fakeUserDeletedEvent'', fakeUserDeletedEvent faker opts, UserDeletedEvent_type),
     (''fakeUserEventCount'', fakeUserEventCount faker opts, UserEventCount_type),
     (''fakeEventStatistics'', fakeEventStatistics faker opts, EventStatistics_type),
     (''fakeEventStatsResponse'', fakeEventStatsResponse faker opts, EventStatsResponse_type),
     (''fakeUserLoggedInEvent'', fakeUserLoggedInEvent faker opts, UserLoggedInEvent_type),
     (''fakeUserLoggedOutEvent'', fakeUserLoggedOutEvent faker opts, UserLoggedOutEvent_type),
     (''fakeUserLoginEvent'', fakeUserLoginEvent faker opts, UserLoginEvent_type),
     (''fakeUserRateLimitConfigResponse'', fakeUserRateLimitConfigResponse faker opts, UserRateLimitConfigResponse_type),
     (''fakeRateLimitUpdateResponse'', fakeRateLimitUpdateResponse faker opts, RateLimitUpdateResponse_type),
     (''fakeUserRateLimitsResponse'', fakeUserRateLimitsResponse faker opts, UserRateLimitsResponse_type),
     (''fakeUserRegisteredEvent'', fakeUserRegisteredEvent faker opts, UserRegisteredEvent_type),
     (''fakeUserRole'', fakeUserRole faker opts, UserRole_type),
     (''fakeLoginResponse'', fakeLoginResponse faker opts, LoginResponse_type),
     (''fakeUserCreate'', fakeUserCreate faker opts, UserCreate_type),
     (''fakeUserResponse'', fakeUserResponse faker opts, UserResponse_type),
     (''fakeUserListResponse'', fakeUserListResponse faker opts, UserListResponse_type),
     (''fakeUserSettings'', fakeUserSettings faker opts, UserSettings_type),
     (''fakeUserSettingsUpdate'', fakeUserSettingsUpdate faker opts, UserSettingsUpdate_type),
     (''fakeUserSettingsUpdatedEvent'', fakeUserSettingsUpdatedEvent faker opts, UserSettingsUpdatedEvent_type),
     (''fakeUserUpdate'', fakeUserUpdate faker opts, UserUpdate_type),
     (''fakeUserUpdatedEvent'', fakeUserUpdatedEvent faker opts, UserUpdatedEvent_type),
     (''fakeAdminUserOverview'', fakeAdminUserOverview faker opts, AdminUserOverview_type),
     (''fakeEventBrowseResponse'', fakeEventBrowseResponse faker opts, EventBrowseResponse_type),
     (''fakeEventDetailResponse'', fakeEventDetailResponse faker opts, EventDetailResponse_type),
     (''fakeEventReplayStatusResponseWritable'', fakeEventReplayStatusResponseWritable faker opts, EventReplayStatusResponseWritable_type),
     (''fakeUserCreateWritable'', fakeUserCreateWritable faker opts, UserCreateWritable_type),
     (''fakeUserUpdateWritable'', fakeUserUpdateWritable faker opts, UserUpdateWritable_type),
     (''fakeLoginApiV1AuthLoginPostRequest'', fakeLoginApiV1AuthLoginPostRequest faker opts, omit_url LoginApiV1AuthLoginPostData_type),
     (''fakeLoginApiV1AuthLoginPostResponse200'', fakeLoginApiV1AuthLoginPostResponse200 faker opts, field_of ''200'' LoginApiV1AuthLoginPostResponses_type),
     (''fakeLoginApiV1AuthLoginPostResponse401'', fakeLoginApiV1AuthLoginPostResponse401 faker opts, field_of ''401'' LoginApiV1AuthLoginPostErrors_type),
     (''fakeLoginApiV1AuthLoginPostResponse403'', fakeLoginApiV1AuthLoginPostResponse403 faker opts, field_of ''403'' LoginApiV1AuthLoginPostErrors_type),
     (''fakeLoginApiV1AuthLoginPostResponse423'', fakeLoginApiV1AuthLoginPostResponse423 faker opts, field_of ''423'' LoginApiV1AuthLoginPostErrors_type),
     (''fakeLoginApiV1AuthLoginPostResponsedefault'', fakeLoginApiV1AuthLoginPostResponsedefault faker opts, field_of ''default'' LoginApiV1AuthLoginPostErrors_type),
     (''fakeRegisterApiV1AuthRegisterPostRequest'', fakeRegisterApiV1AuthRegisterPostRequest faker opts, omit_url RegisterApiV1AuthRegisterPostData_type),
     (''fakeRegisterApiV1AuthRegisterPostResponse200'', fakeRegisterApiV1AuthRegisterPostResponse200 faker opts, field_of ''200'' RegisterApiV1AuthRegisterPostResponses_type),
     (''fakeRegisterApiV1AuthRegisterPostResponse409'', fakeRegisterApiV1AuthRegisterPostResponse409 faker opts, field_of ''409'' RegisterApiV1AuthRegisterPostErrors_type),
     (''fakeRegisterApiV1AuthRegisterPostResponse422'', fakeRegisterApiV1AuthRegisterPostResponse422 faker opts, field_of ''422'' RegisterApiV1AuthRegisterPostErrors_type),
     (''fakeRegisterApiV1AuthRegisterPostResponsedefault'', fakeRegisterApiV1AuthRegisterPostResponsedefault faker opts, field_of ''default'' RegisterApiV1AuthRegisterPostErrors_type),
     (''fakeGetCurrentUserProfileApiV1AuthMeGetResponse200'', fakeGetCurrentUserProfileApiV1AuthMeGetResponse200 faker opts, field_of ''200'' GetCurrentUserProfileApiV1AuthMeGetResponses_type),
     (''fakeGetCurrentUserProfileApiV1AuthMeGetResponse401'', fakeGetCurrentUserProfileApiV1AuthMeGetResponse401 faker opts, field_of ''401'' GetCurrentUserProfileApiV1AuthMeGetErrors_type),
     (''fakeGetCurrentUserProfileApiV1AuthMeGetResponsedefault'', fakeGetCurrentUserProfileApiV1AuthMeGetResponsedefault faker opts, field_of ''default'' GetCurrentUserProfileApiV1AuthMeGetErrors_type),
     (''fakeLogoutApiV1AuthLogoutPostResponse200'', fakeLogoutApiV1AuthLogoutPostResponse200 faker opts, field_of ''200'' LogoutApiV1AuthLogoutPostResponses_type),
     (''fakeLogoutApiV1AuthLogoutPostResponse403'', fakeLogoutApiV1AuthLogoutPostResponse403 faker opts, field_of ''403'' LogoutApiV1AuthLogoutPostErrors_type),
     (''fakeLogoutApiV1AuthLogoutPostResponsedefault'', fakeLogoutApiV1AuthLogoutPostResponsedefault faker opts, field_of ''default'' LogoutApiV1AuthLogoutPostErrors_type),
     (''fakeCreateExecutionApiV1ExecutePostRequest'', fakeCreateExecutionApiV1ExecutePostRequest faker opts, omit_url CreateExecutionApiV1ExecutePostData_type),
     (''fakeCreateExecutionApiV1ExecutePostResponse200'', fakeCreateExecutionApiV1ExecutePostResponse200 faker opts, field_of ''200'' CreateExecutionApiV1ExecutePostResponses_type),
     (''fakeCreateExecutionApiV1ExecutePostResponse409'', fakeCreateExecutionApiV1ExecutePostResponse409 faker opts, field_of ''409'' CreateExecutionApiV1ExecutePostErrors_type),
     (''fakeCreateExecutionApiV1ExecutePostResponse429'', fakeCreateExecutionApiV1ExecutePostResponse429 faker opts, field_of ''429'' CreateExecutionApiV1ExecutePostErrors_type),
     (''fakeCreateExecutionApiV1ExecutePostResponse500'', fakeCreateExecutionApiV1ExecutePostResponse500 faker opts, field_of ''500'' CreateExecutionApiV1ExecutePostErrors_type),
     (''fakeCreateExecutionApiV1ExecutePostResponsedefault'', fakeCreateExecutionApiV1ExecutePostResponsedefault faker opts, field_of ''default'' CreateExecutionApiV1ExecutePostErrors_type),
     (''fakeGetResultApiV1ExecutionsExecutionIdResultGetRequest'', fakeGetResultApiV1ExecutionsExecutionIdResultGetRequest faker opts, omit_url GetResultApiV1ExecutionsExecutionIdResultGetData_type),
     (''fakeGetResultApiV1ExecutionsExecutionIdResultGetResponse200'', fakeGetResultApiV1ExecutionsExecutionIdResultGetResponse200 faker opts, field_of ''200'' GetResultApiV1ExecutionsExecutionIdResultGetResponses_type),
     (''fakeGetResultApiV1ExecutionsExecutionIdResultGetResponse403'', fakeGetResultApiV1ExecutionsExecutionIdResultGetResponse403 faker opts, field_of ''403'' GetResultApiV1ExecutionsExecutionIdResultGetErrors_type),
     (''fakeGetResultApiV1ExecutionsExecutionIdResultGetResponse404'', fakeGetResultApiV1ExecutionsExecutionIdResultGetResponse404 faker opts, field_of ''404'' GetResultApiV1ExecutionsExecutionIdResultGetErrors_type),
     (''fakeGetResultApiV1ExecutionsExecutionIdResultGetResponsedefault'', fakeGetResultApiV1ExecutionsExecutionIdResultGetResponsedefault faker opts, field_of ''default'' GetResultApiV1ExecutionsExecutionIdResultGetErrors_type),
     (''fakeCancelExecutionApiV1ExecutionsExecutionIdCancelPostRequest'', fakeCancelExecutionApiV1ExecutionsExecutionIdCancelPostRequest faker opts, omit_url CancelExecutionApiV1ExecutionsExecutionIdCancelPostData_type),
     (''fakeCancelExecutionApiV1ExecutionsExecutionIdCancelPostResponse200'', fakeCancelExecutionApiV1ExecutionsExecutionIdCancelPostResponse200 faker opts, field_of ''200'' CancelExecutionApiV1ExecutionsExecutionIdCancelPostResponses_type),
     (''fakeCancelExecutionApiV1ExecutionsExecutionIdCancelPostResponse400'', fakeCancelExecutionApiV1ExecutionsExecutionIdCancelPostResponse400 faker opts, field_of ''400'' CancelExecutionApiV1ExecutionsExecutionIdCancelPostErrors_type),
     (''fakeCancelExecutionApiV1ExecutionsExecutionIdCancelPostResponse403'', fakeCancelExecutionApiV1ExecutionsExecutionIdCancelPostResponse403 faker opts, field_of ''403'' CancelExecutionApiV1ExecutionsExecutionIdCancelPostErrors_type),
     (''fakeCancelExecutionApiV1ExecutionsExecutionIdCancelPostResponse404'', fakeCancelExecutionApiV1ExecutionsExecutionIdCancelPostResponse404 faker opts, field_of ''404'' CancelExecutionApiV1ExecutionsExecutionIdCancelPostErrors_type),
     (''fakeCancelExecutionApiV1ExecutionsExecutionIdCancelPostResponsedefault'', fakeCancelExecutionApiV1ExecutionsExecutionIdCancelPostResponsedefault faker opts, field_of ''default'' CancelExecutionApiV1ExecutionsExecutionIdCancelPostErrors_type),
     (''fakeRetryExecutionApiV1ExecutionsExecutionIdRetryPostRequest'', fakeRetryExecutionApiV1ExecutionsExecutionIdRetryPostRequest faker opts, omit_url RetryExecutionApiV1ExecutionsExecutionIdRetryPostData_type),
     (''fakeRetryExecutionApiV1ExecutionsExecutionIdRetryPostResponse200'', fakeRetryExecutionApiV1ExecutionsExecutionIdRetryPostResponse200 faker opts, field_of ''200'' RetryExecutionApiV1ExecutionsExecutionIdRetryPostResponses_type),
     (''fakeRetryExecutionApiV1ExecutionsExecutionIdRetryPostResponse400'', fakeRetryExecutionApiV1ExecutionsExecutionIdRetryPostResponse400 faker opts, field_of ''400'' RetryExecutionApiV1ExecutionsExecutionIdRetryPostErrors_type),
     (''fakeRetryExecutionApiV1ExecutionsExecutionIdRetryPostResponse403'', fakeRetryExecutionApiV1ExecutionsExecutionIdRetryPostResponse403 faker opts, field_of ''403'' RetryExecutionApiV1ExecutionsExecutionIdRetryPostErrors_type),
     (''fakeRetryExecutionApiV1ExecutionsExecutionIdRetryPostResponse404'', fakeRetryExecutionApiV1ExecutionsExecutionIdRetryPostResponse404 faker opts, field_of ''404'' RetryExecutionApiV1ExecutionsExecutionIdRetryPostErrors_type),
     (''fakeRetryExecutionApiV1ExecutionsExecutionIdRetryPostResponse422'', fakeRetryExecutionApiV1ExecutionsExecutionIdRetryPostResponse422 faker opts, field_of ''422'' RetryExecutionApiV1ExecutionsExecutionIdRetryPostErrors_type),
     (''fakeRetryExecutionApiV1ExecutionsExecutionIdRetryPostResponse429'', fakeRetryExecutionApiV1ExecutionsExecutionIdRetryPostResponse429 faker opts, field_of ''429'' RetryExecutionApiV1ExecutionsExecutionIdRetryPostErrors_type),
     (''fakeRetryExecutionApiV1ExecutionsExecutionIdRetryPostResponsedefault'', fakeRetryExecutionApiV1ExecutionsExecutionIdRetryPostResponsedefault faker opts, field_of ''default'' RetryExecutionApiV1ExecutionsExecutionIdRetryPostErrors_type),
     (''fakeGetExecutionEventsApiV1ExecutionsExecutionIdEventsGetRequest'', fakeGetExecutionEventsApiV1ExecutionsExecutionIdEventsGetRequest faker opts, omit_url GetExecutionEventsApiV1ExecutionsExecutionIdEventsGetData_type),
     (''fakeGetExecutionEventsApiV1ExecutionsExecutionIdEventsGetResponse200'', fakeGetExecutionEventsApiV1ExecutionsExecutionIdEventsGetResponse200 faker opts, field_of ''200'' GetExecutionEventsApiV1ExecutionsExecutionIdEventsGetResponses_type),
     (''fakeGetExecutionEventsApiV1ExecutionsExecutionIdEventsGetResponse403'', fakeGetExecutionEventsApiV1ExecutionsExecutionIdEventsGetResponse403 faker opts, field_of ''403'' GetExecutionEventsApiV1ExecutionsExecutionIdEventsGetErrors_type),
     (''fakeGetExecutionEventsApiV1ExecutionsExecutionIdEventsGetResponse404'', fakeGetExecutionEventsApiV1ExecutionsExecutionIdEventsGetResponse404 faker opts, field_of ''404'' GetExecutionEventsApiV1ExecutionsExecutionIdEventsGetErrors_type),
     (''fakeGetExecutionEventsApiV1ExecutionsExecutionIdEventsGetResponsedefault'', fakeGetExecutionEventsApiV1ExecutionsExecutionIdEventsGetResponsedefault faker opts, field_of ''default'' GetExecutionEventsApiV1ExecutionsExecutionIdEventsGetErrors_type),
     (''fakeGetUserExecutionsApiV1UserExecutionsGetRequest'', fakeGetUserExecutionsApiV1UserExecutionsGetRequest faker opts, omit_url GetUserExecutionsApiV1UserExecutionsGetData_type),
     (''fakeGetUserExecutionsApiV1UserExecutionsGetResponse200'', fakeGetUserExecutionsApiV1UserExecutionsGetResponse200 faker opts, field_of ''200'' GetUserExecutionsApiV1UserExecutionsGetResponses_type),
     (''fakeGetUserExecutionsApiV1UserExecutionsGetResponsedefault'', fakeGetUserExecutionsApiV1UserExecutionsGetResponsedefault faker opts, field_of ''default'' GetUserExecutionsApiV1UserExecutionsGetErrors_type),
     (''fakeGetExampleScriptsApiV1ExampleScriptsGetResponse200'', fakeGetExampleScriptsApiV1ExampleScriptsGetResponse200 faker opts, field_of ''200'' GetExampleScriptsApiV1ExampleScriptsGetResponses_type),
     (''fakeGetExampleScriptsApiV1ExampleScriptsGetResponsedefault'', fakeGetExampleScriptsApiV1ExampleScriptsGetResponsedefault faker opts, field_of ''default'' GetExampleScriptsApiV1ExampleScriptsGetErrors_type),
     (''fakeGetK8sResourceLimitsApiV1K8sLimitsGetResponse200'', fakeGetK8sResourceLimitsApiV1K8sLimitsGetResponse200 faker opts, field_of ''200'' GetK8sResourceLimitsApiV1K8sLimitsGetResponses_type),
     (''fakeGetK8sResourceLimitsApiV1K8sLimitsGetResponsedefault'', fakeGetK8sResourceLimitsApiV1K8sLimitsGetResponsedefault faker opts, field_of ''default'' GetK8sResourceLimitsApiV1K8sLimitsGetErrors_type),
     (''fakeDeleteExecutionApiV1ExecutionsExecutionIdDeleteRequest'', fakeDeleteExecutionApiV1ExecutionsExecutionIdDeleteRequest faker opts, omit_url DeleteExecutionApiV1ExecutionsExecutionIdDeleteData_type),
     (''fakeDeleteExecutionApiV1ExecutionsExecutionIdDeleteResponse200'', fakeDeleteExecutionApiV1ExecutionsExecutionIdDeleteResponse200 faker opts, field_of ''200'' DeleteExecutionApiV1ExecutionsExecutionIdDeleteResponses_type),
     (''fakeDeleteExecutionApiV1ExecutionsExecutionIdDeleteResponsedefault'', fakeDeleteExecutionApiV1ExecutionsExecutionIdDeleteResponsedefault faker opts, field_of ''default'' DeleteExecutionApiV1ExecutionsExecutionIdDeleteErrors_type),
     (''fakeListSavedScriptsApiV1ScriptsGetResponse200'', fakeListSavedScriptsApiV1ScriptsGetResponse200 faker opts, field_of ''200'' ListSavedScriptsApiV1ScriptsGetResponses_type),
     (''fakeListSavedScriptsApiV1ScriptsGetResponsedefault'', fakeListSavedScriptsApiV1ScriptsGetResponsedefault faker opts, field_of ''default'' ListSavedScriptsApiV1ScriptsGetErrors_type),
     (''fakeCreateSavedScriptApiV1ScriptsPostRequest'', fakeCreateSavedScriptApiV1ScriptsPostRequest faker opts, omit_url CreateSavedScriptApiV1ScriptsPostData_type),
     (''fakeCreateSavedScriptApiV1ScriptsPostResponse200'', fakeCreateSavedScriptApiV1ScriptsPostResponse200 faker opts, field_of ''200'' CreateSavedScriptApiV1ScriptsPostResponses_type),
     (''fakeCreateSavedScriptApiV1ScriptsPostResponse422'', fakeCreateSavedScriptApiV1ScriptsPostResponse422 faker opts, field_of ''422'' CreateSavedScriptApiV1ScriptsPostErrors_type),
     (''fakeCreateSavedScriptApiV1ScriptsPostResponsedefault'', fakeCreateSavedScriptApiV1ScriptsPostResponsedefault faker opts, field_of ''default'' CreateSavedScriptApiV1ScriptsPostErrors_type),
     (''fakeDeleteSavedScriptApiV1ScriptsScriptIdDeleteRequest'', fakeDeleteSavedScriptApiV1ScriptsScriptIdDeleteRequest faker opts, omit_url DeleteSavedScriptApiV1ScriptsScriptIdDeleteData_type),
     (''fakeDeleteSavedScriptApiV1ScriptsScriptIdDeleteResponse404'', fakeDeleteSavedScriptApiV1ScriptsScriptIdDeleteResponse404 faker opts, field_of ''404'' DeleteSavedScriptApiV1ScriptsScriptIdDeleteErrors_type),
     (''fakeDeleteSavedScriptApiV1ScriptsScriptIdDeleteResponsedefault'', fakeDeleteSavedScriptApiV1ScriptsScriptIdDeleteResponsedefault faker opts, field_of ''default'' DeleteSavedScriptApiV1ScriptsScriptIdDeleteErrors_type),
     (''fakeGetSavedScriptApiV1ScriptsScriptIdGetRequest'', fakeGetSavedScriptApiV1ScriptsScriptIdGetRequest faker opts, omit_url GetSavedScriptApiV1ScriptsScriptIdGetData_type),
     (''fakeGetSavedScriptApiV1ScriptsScriptIdGetResponse200'', fakeGetSavedScriptApiV1ScriptsScriptIdGetResponse200 faker opts, field_of ''200'' GetSavedScriptApiV1ScriptsScriptIdGetResponses_type),
     (''fakeGetSavedScriptApiV1ScriptsScriptIdGetResponse404'', fakeGetSavedScriptApiV1ScriptsScriptIdGetResponse404 faker opts, field_of ''404'' GetSavedScriptApiV1ScriptsScriptIdGetErrors_type),
     (''fakeGetSavedScriptApiV1ScriptsScriptIdGetResponsedefault'', fakeGetSavedScriptApiV1ScriptsScriptIdGetResponsedefault faker opts, field_of ''default'' GetSavedScriptApiV1ScriptsScriptIdGetErrors_type),
     (''fakeUpdateSavedScriptApiV1ScriptsScriptIdPutRequest'', fakeUpdateSavedScriptApiV1ScriptsScriptIdPutRequest faker opts, omit_url UpdateSavedScriptApiV1ScriptsScriptIdPutData_type),
     (''fakeUpdateSavedScriptApiV1ScriptsScriptIdPutResponse200'', fakeUpdateSavedScriptApiV1ScriptsScriptIdPutResponse200 faker opts, field_of ''200'' UpdateSavedScriptApiV1ScriptsScriptIdPutResponses_type),
     (''fakeUpdateSavedScriptApiV1ScriptsScriptIdPutResponse404'', fakeUpdateSavedScriptApiV1ScriptsScriptIdPutResponse404 faker opts, field_of ''404'' UpdateSavedScriptApiV1ScriptsScriptIdPutErrors_type),
     (''fakeUpdateSavedScriptApiV1ScriptsScriptIdPutResponse422'', fakeUpdateSavedScriptApiV1ScriptsScriptIdPutResponse422 faker opts, field_of ''422'' UpdateSavedScriptApiV1ScriptsScriptIdPutErrors_type),
     (''fakeUpdateSavedScriptApiV1ScriptsScriptIdPutResponsedefault'', fakeUpdateSavedScriptApiV1ScriptsScriptIdPutResponsedefault faker opts, field_of ''default'' UpdateSavedScriptApiV1ScriptsScriptIdPutErrors_type),
     (''fakeLivenessApiV1HealthLiveGetResponse200'', fakeLivenessApiV1HealthLiveGetResponse200 faker opts, field_of ''200'' LivenessApiV1HealthLiveGetResponses_type),
     (''fakeLivenessApiV1HealthLiveGetResponsedefault'', fakeLivenessApiV1HealthLiveGetResponsedefault faker opts, field_of ''default'' LivenessApiV1HealthLiveGetErrors_type),
     (''fakeNotificationStreamApiV1EventsNotificationsStreamGetResponse200'', fakeNotificationStreamApiV1EventsNotificationsStreamGetResponse200 faker opts, field_of ''200'' NotificationStreamApiV1EventsNotificationsStreamGetResponses_type),
     (''fakeNotificationStreamApiV1EventsNotificationsStreamGetResponsedefault'', fakeNotificationStreamApiV1EventsNotificationsStreamGetResponsedefault faker opts, field_of ''default'' NotificationStreamApiV1EventsNotificationsStreamGetErrors_type),
     (''fakeExecutionEventsApiV1EventsExecutionsExecutionIdGetRequest'', fakeExecutionEventsApiV1EventsExecutionsExecutionIdGetRequest faker opts, omit_url ExecutionEventsApiV1EventsExecutionsExecutionIdGetData_type),
     (''fakeExecutionEventsApiV1EventsExecutionsExecutionIdGetResponse200'', fakeExecutionEventsApiV1EventsExecutionsExecutionIdGetResponse200 faker opts, field_of ''200'' ExecutionEventsApiV1EventsExecutionsExecutionIdGetResponses_type),
     (''fakeExecutionEventsApiV1EventsExecutionsExecutionIdGetResponsedefault'', fakeExecutionEventsApiV1EventsExecutionsExecutionIdGetResponsedefault faker opts, field_of ''default'' ExecutionEventsApiV1EventsExecutionsExecutionIdGetErrors_type),
     (''fakeBrowseEventsApiV1AdminEventsBrowsePostRequest'', fakeBrowseEventsApiV1AdminEventsBrowsePostRequest faker opts, omit_url BrowseEventsApiV1AdminEventsBrowsePostData_type),
     (''fakeBrowseEventsApiV1AdminEventsBrowsePostResponse200'', fakeBrowseEventsApiV1AdminEventsBrowsePostResponse200 faker opts, field_of ''200'' BrowseEventsApiV1AdminEventsBrowsePostResponses_type),
     (''fakeBrowseEventsApiV1AdminEventsBrowsePostResponsedefault'', fakeBrowseEventsApiV1AdminEventsBrowsePostResponsedefault faker opts, field_of ''default'' BrowseEventsApiV1AdminEventsBrowsePostErrors_type),
     (''fakeGetEventStatsApiV1AdminEventsStatsGetRequest'', fakeGetEventStatsApiV1AdminEventsStatsGetRequest faker opts, omit_url GetEventStatsApiV1AdminEventsStatsGetData_type),
     (''fakeGetEventStatsApiV1AdminEventsStatsGetResponse200'', fakeGetEventStatsApiV1AdminEventsStatsGetResponse200 faker opts, field_of ''200'' GetEventStatsApiV1AdminEventsStatsGetResponses_type),
     (''fakeGetEventStatsApiV1AdminEventsStatsGetResponsedefault'', fakeGetEventStatsApiV1AdminEventsStatsGetResponsedefault faker opts, field_of ''default'' GetEventStatsApiV1AdminEventsStatsGetErrors_type),
     (''fakeExportEventsApiV1AdminEventsExportExportFormatGetRequest'', fakeExportEventsApiV1AdminEventsExportExportFormatGetRequest faker opts, omit_url ExportEventsApiV1AdminEventsExportExportFormatGetData_type),
     (''fakeExportEventsApiV1AdminEventsExportExportFormatGetResponse200'', fakeExportEventsApiV1AdminEventsExportExportFormatGetResponse200, field_of ''200'' ExportEventsApiV1AdminEventsExportExportFormatGetResponses_type),
     (''fakeExportEventsApiV1AdminEventsExportExportFormatGetResponsedefault'', fakeExportEventsApiV1AdminEventsExportExportFormatGetResponsedefault faker opts, field_of ''default'' ExportEventsApiV1AdminEventsExportExportFormatGetErrors_type),
     (''fakeDeleteEventApiV1AdminEventsEventIdDeleteRequest'', fakeDeleteEventApiV1AdminEventsEventIdDeleteRequest faker opts, omit_url DeleteEventApiV1AdminEventsEventIdDeleteData_type),
     (''fakeDeleteEventApiV1AdminEventsEventIdDeleteResponse200'', fakeDeleteEventApiV1AdminEventsEventIdDeleteResponse200 faker opts, field_of ''200'' DeleteEventApiV1AdminEventsEventIdDeleteResponses_type),
     (''fakeDeleteEventApiV1AdminEventsEventIdDeleteResponse404'', fakeDeleteEventApiV1AdminEventsEventIdDeleteResponse404 faker opts, field_of ''404'' DeleteEventApiV1AdminEventsEventIdDeleteErrors_type),
     (''fakeDeleteEventApiV1AdminEventsEventIdDeleteResponsedefault'', fakeDeleteEventApiV1AdminEventsEventIdDeleteResponsedefault faker opts, field_of ''default'' DeleteEventApiV1AdminEventsEventIdDeleteErrors_type),
     (''fakeGetEventDetailApiV1AdminEventsEventIdGetRequest'', fakeGetEventDetailApiV1AdminEventsEventIdGetRequest faker opts, omit_url GetEventDetailApiV1AdminEventsEventIdGetData_type),
     (''fakeGetEventDetailApiV1AdminEventsEventIdGetResponse200'', fakeGetEventDetailApiV1AdminEventsEventIdGetResponse200 faker opts, field_of ''200'' GetEventDetailApiV1AdminEventsEventIdGetResponses_type),
     (''fakeGetEventDetailApiV1AdminEventsEventIdGetResponse404'', fakeGetEventDetailApiV1AdminEventsEventIdGetResponse404 faker opts, field_of ''404'' GetEventDetailApiV1AdminEventsEventIdGetErrors_type),
     (''fakeGetEventDetailApiV1AdminEventsEventIdGetResponsedefault'', fakeGetEventDetailApiV1AdminEventsEventIdGetResponsedefault faker opts, field_of ''default'' GetEventDetailApiV1AdminEventsEventIdGetErrors_type),
     (''fakeReplayEventsApiV1AdminEventsReplayPostRequest'', fakeReplayEventsApiV1AdminEventsReplayPostRequest faker opts, omit_url ReplayEventsApiV1AdminEventsReplayPostData_type),
     (''fakeReplayEventsApiV1AdminEventsReplayPostResponse200'', fakeReplayEventsApiV1AdminEventsReplayPostResponse200 faker opts, field_of ''200'' ReplayEventsApiV1AdminEventsReplayPostResponses_type),
     (''fakeReplayEventsApiV1AdminEventsReplayPostResponse404'', fakeReplayEventsApiV1AdminEventsReplayPostResponse404 faker opts, field_of ''404'' ReplayEventsApiV1AdminEventsReplayPostErrors_type),
     (''fakeReplayEventsApiV1AdminEventsReplayPostResponse422'', fakeReplayEventsApiV1AdminEventsReplayPostResponse422 faker opts, field_of ''422'' ReplayEventsApiV1AdminEventsReplayPostErrors_type),
     (''fakeReplayEventsApiV1AdminEventsReplayPostResponsedefault'', fakeReplayEventsApiV1AdminEventsReplayPostResponsedefault faker opts, field_of ''default'' ReplayEventsApiV1AdminEventsReplayPostErrors_type),
     (''fakeStreamReplayStatusApiV1AdminEventsReplaySessionIdStatusGetRequest'', fakeStreamReplayStatusApiV1AdminEventsReplaySessionIdStatusGetRequest faker opts, omit_url StreamReplayStatusApiV1AdminEventsReplaySessionIdStatusGetData_type),
     (''fakeStreamReplayStatusApiV1AdminEventsReplaySessionIdStatusGetResponse200'', fakeStreamReplayStatusApiV1AdminEventsReplaySessionIdStatusGetResponse200 faker opts, field_of ''200'' StreamReplayStatusApiV1AdminEventsReplaySessionIdStatusGetResponses_type),
     (''fakeStreamReplayStatusApiV1AdminEventsReplaySessionIdStatusGetResponsedefault'', fakeStreamReplayStatusApiV1AdminEventsReplaySessionIdStatusGetResponsedefault faker opts, field_of ''default'' StreamReplayStatusApiV1AdminEventsReplaySessionIdStatusGetErrors_type),
     (''fakeListExecutionsApiV1AdminExecutionsGetRequest'', fakeListExecutionsApiV1AdminExecutionsGetRequest faker opts, omit_url ListExecutionsApiV1AdminExecutionsGetData_type),
     (''fakeListExecutionsApiV1AdminExecutionsGetResponse200'', fakeListExecutionsApiV1AdminExecutionsGetResponse200 faker opts, field_of ''200'' ListExecutionsApiV1AdminExecutionsGetResponses_type),
     (''fakeListExecutionsApiV1AdminExecutionsGetResponse403'', fakeListExecutionsApiV1AdminExecutionsGetResponse403 faker opts, field_of ''403'' ListExecutionsApiV1AdminExecutionsGetErrors_type),
     (''fakeListExecutionsApiV1AdminExecutionsGetResponsedefault'', fakeListExecutionsApiV1AdminExecutionsGetResponsedefault faker opts, field_of ''default'' ListExecutionsApiV1AdminExecutionsGetErrors_type),
     (''fakeUpdatePriorityApiV1AdminExecutionsExecutionIdPriorityPutRequest'', fakeUpdatePriorityApiV1AdminExecutionsExecutionIdPriorityPutRequest faker opts, omit_url UpdatePriorityApiV1AdminExecutionsExecutionIdPriorityPutData_type),
     (''fakeUpdatePriorityApiV1AdminExecutionsExecutionIdPriorityPutResponse200'', fakeUpdatePriorityApiV1AdminExecutionsExecutionIdPriorityPutResponse200 faker opts, field_of ''200'' UpdatePriorityApiV1AdminExecutionsExecutionIdPriorityPutResponses_type),
     (''fakeUpdatePriorityApiV1AdminExecutionsExecutionIdPriorityPutResponse403'', fakeUpdatePriorityApiV1AdminExecutionsExecutionIdPriorityPutResponse403 faker opts, field_of ''403'' UpdatePriorityApiV1AdminExecutionsExecutionIdPriorityPutErrors_type),
     (''fakeUpdatePriorityApiV1AdminExecutionsExecutionIdPriorityPutResponse404'', fakeUpdatePriorityApiV1AdminExecutionsExecutionIdPriorityPutResponse404 faker opts, field_of ''404'' UpdatePriorityApiV1AdminExecutionsExecutionIdPriorityPutErrors_type),
     (''fakeUpdatePriorityApiV1AdminExecutionsExecutionIdPriorityPutResponsedefault'', fakeUpdatePriorityApiV1AdminExecutionsExecutionIdPriorityPutResponsedefault faker opts, field_of ''default'' UpdatePriorityApiV1AdminExecutionsExecutionIdPriorityPutErrors_type),
     (''fakeGetQueueStatusApiV1AdminExecutionsQueueGetResponse200'', fakeGetQueueStatusApiV1AdminExecutionsQueueGetResponse200 faker opts, field_of ''200'' GetQueueStatusApiV1AdminExecutionsQueueGetResponses_type),
     (''fakeGetQueueStatusApiV1AdminExecutionsQueueGetResponse403'', fakeGetQueueStatusApiV1AdminExecutionsQueueGetResponse403 faker opts, field_of ''403'' GetQueueStatusApiV1AdminExecutionsQueueGetErrors_type),
     (''fakeGetQueueStatusApiV1AdminExecutionsQueueGetResponsedefault'', fakeGetQueueStatusApiV1AdminExecutionsQueueGetResponsedefault faker opts, field_of ''default'' GetQueueStatusApiV1AdminExecutionsQueueGetErrors_type),
     (''fakeGetDefaultRateLimitRulesApiV1AdminRateLimitsDefaultsGetResponse200'', fakeGetDefaultRateLimitRulesApiV1AdminRateLimitsDefaultsGetResponse200 faker opts, field_of ''200'' GetDefaultRateLimitRulesApiV1AdminRateLimitsDefaultsGetResponses_type),
     (''fakeGetDefaultRateLimitRulesApiV1AdminRateLimitsDefaultsGetResponsedefault'', fakeGetDefaultRateLimitRulesApiV1AdminRateLimitsDefaultsGetResponsedefault faker opts, field_of ''default'' GetDefaultRateLimitRulesApiV1AdminRateLimitsDefaultsGetErrors_type),
     (''fakeGetUserRateLimitsApiV1AdminRateLimitsUserIdGetRequest'', fakeGetUserRateLimitsApiV1AdminRateLimitsUserIdGetRequest faker opts, omit_url GetUserRateLimitsApiV1AdminRateLimitsUserIdGetData_type),
     (''fakeGetUserRateLimitsApiV1AdminRateLimitsUserIdGetResponse200'', fakeGetUserRateLimitsApiV1AdminRateLimitsUserIdGetResponse200 faker opts, field_of ''200'' GetUserRateLimitsApiV1AdminRateLimitsUserIdGetResponses_type),
     (''fakeGetUserRateLimitsApiV1AdminRateLimitsUserIdGetResponsedefault'', fakeGetUserRateLimitsApiV1AdminRateLimitsUserIdGetResponsedefault faker opts, field_of ''default'' GetUserRateLimitsApiV1AdminRateLimitsUserIdGetErrors_type),
     (''fakeUpdateUserRateLimitsApiV1AdminRateLimitsUserIdPutRequest'', fakeUpdateUserRateLimitsApiV1AdminRateLimitsUserIdPutRequest faker opts, omit_url UpdateUserRateLimitsApiV1AdminRateLimitsUserIdPutData_type),
     (''fakeUpdateUserRateLimitsApiV1AdminRateLimitsUserIdPutResponse200'', fakeUpdateUserRateLimitsApiV1AdminRateLimitsUserIdPutResponse200 faker opts, field_of ''200'' UpdateUserRateLimitsApiV1AdminRateLimitsUserIdPutResponses_type),
     (''fakeUpdateUserRateLimitsApiV1AdminRateLimitsUserIdPutResponsedefault'', fakeUpdateUserRateLimitsApiV1AdminRateLimitsUserIdPutResponsedefault faker opts, field_of ''default'' UpdateUserRateLimitsApiV1AdminRateLimitsUserIdPutErrors_type),
     (''fakeResetUserRateLimitsApiV1AdminRateLimitsUserIdResetPostRequest'', fakeResetUserRateLimitsApiV1AdminRateLimitsUserIdResetPostRequest faker opts, omit_url ResetUserRateLimitsApiV1AdminRateLimitsUserIdResetPostData_type),
     (''fakeResetUserRateLimitsApiV1AdminRateLimitsUserIdResetPostResponse200'', fakeResetUserRateLimitsApiV1AdminRateLimitsUserIdResetPostResponse200 faker opts, field_of ''200'' ResetUserRateLimitsApiV1AdminRateLimitsUserIdResetPostResponses_type),
     (''fakeResetUserRateLimitsApiV1AdminRateLimitsUserIdResetPostResponsedefault'', fakeResetUserRateLimitsApiV1AdminRateLimitsUserIdResetPostResponsedefault faker opts, field_of ''default'' ResetUserRateLimitsApiV1AdminRateLimitsUserIdResetPostErrors_type),
     (''fakeGetSystemSettingsApiV1AdminSettingsGetResponse200'', fakeGetSystemSettingsApiV1AdminSettingsGetResponse200 faker opts, field_of ''200'' GetSystemSettingsApiV1AdminSettingsGetResponses_type),
     (''fakeGetSystemSettingsApiV1AdminSettingsGetResponse500'', fakeGetSystemSettingsApiV1AdminSettingsGetResponse500 faker opts, field_of ''500'' GetSystemSettingsApiV1AdminSettingsGetErrors_type),
     (''fakeGetSystemSettingsApiV1AdminSettingsGetResponsedefault'', fakeGetSystemSettingsApiV1AdminSettingsGetResponsedefault faker opts, field_of ''default'' GetSystemSettingsApiV1AdminSettingsGetErrors_type),
     (''fakeUpdateSystemSettingsApiV1AdminSettingsPutRequest'', fakeUpdateSystemSettingsApiV1AdminSettingsPutRequest faker opts, omit_url UpdateSystemSettingsApiV1AdminSettingsPutData_type),
     (''fakeUpdateSystemSettingsApiV1AdminSettingsPutResponse200'', fakeUpdateSystemSettingsApiV1AdminSettingsPutResponse200 faker opts, field_of ''200'' UpdateSystemSettingsApiV1AdminSettingsPutResponses_type),
     (''fakeUpdateSystemSettingsApiV1AdminSettingsPutResponse400'', fakeUpdateSystemSettingsApiV1AdminSettingsPutResponse400 faker opts, field_of ''400'' UpdateSystemSettingsApiV1AdminSettingsPutErrors_type),
     (''fakeUpdateSystemSettingsApiV1AdminSettingsPutResponse422'', fakeUpdateSystemSettingsApiV1AdminSettingsPutResponse422 faker opts, field_of ''422'' UpdateSystemSettingsApiV1AdminSettingsPutErrors_type),
     (''fakeUpdateSystemSettingsApiV1AdminSettingsPutResponse500'', fakeUpdateSystemSettingsApiV1AdminSettingsPutResponse500 faker opts, field_of ''500'' UpdateSystemSettingsApiV1AdminSettingsPutErrors_type),
     (''fakeUpdateSystemSettingsApiV1AdminSettingsPutResponsedefault'', fakeUpdateSystemSettingsApiV1AdminSettingsPutResponsedefault faker opts, field_of ''default'' UpdateSystemSettingsApiV1AdminSettingsPutErrors_type),
     (''fakeResetSystemSettingsApiV1AdminSettingsResetPostResponse200'', fakeResetSystemSettingsApiV1AdminSettingsResetPostResponse200 faker opts, field_of ''200'' ResetSystemSettingsApiV1AdminSettingsResetPostResponses_type),
     (''fakeResetSystemSettingsApiV1AdminSettingsResetPostResponse500'', fakeResetSystemSettingsApiV1AdminSettingsResetPostResponse500 faker opts, field_of ''500'' ResetSystemSettingsApiV1AdminSettingsResetPostErrors_type),
     (''fakeResetSystemSettingsApiV1AdminSettingsResetPostResponsedefault'', fakeResetSystemSettingsApiV1AdminSettingsResetPostResponsedefault faker opts, field_of ''default'' ResetSystemSettingsApiV1AdminSettingsResetPostErrors_type),
     (''fakeListUsersApiV1AdminUsersGetRequest'', fakeListUsersApiV1AdminUsersGetRequest faker opts, omit_url ListUsersApiV1AdminUsersGetData_type),
     (''fakeListUsersApiV1AdminUsersGetResponse200'', fakeListUsersApiV1AdminUsersGetResponse200 faker opts, field_of ''200'' ListUsersApiV1AdminUsersGetResponses_type),
     (''fakeListUsersApiV1AdminUsersGetResponsedefault'', fakeListUsersApiV1AdminUsersGetResponsedefault faker opts, field_of ''default'' ListUsersApiV1AdminUsersGetErrors_type),
     (''fakeCreateUserApiV1AdminUsersPostRequest'', fakeCreateUserApiV1AdminUsersPostRequest faker opts, omit_url CreateUserApiV1AdminUsersPostData_type),
     (''fakeCreateUserApiV1AdminUsersPostResponse200'', fakeCreateUserApiV1AdminUsersPostResponse200 faker opts, field_of ''200'' CreateUserApiV1AdminUsersPostResponses_type),
     (''fakeCreateUserApiV1AdminUsersPostResponse409'', fakeCreateUserApiV1AdminUsersPostResponse409 faker opts, field_of ''409'' CreateUserApiV1AdminUsersPostErrors_type),
     (''fakeCreateUserApiV1AdminUsersPostResponsedefault'', fakeCreateUserApiV1AdminUsersPostResponsedefault faker opts, field_of ''default'' CreateUserApiV1AdminUsersPostErrors_type),
     (''fakeDeleteUserApiV1AdminUsersUserIdDeleteRequest'', fakeDeleteUserApiV1AdminUsersUserIdDeleteRequest faker opts, omit_url DeleteUserApiV1AdminUsersUserIdDeleteData_type),
     (''fakeDeleteUserApiV1AdminUsersUserIdDeleteResponse200'', fakeDeleteUserApiV1AdminUsersUserIdDeleteResponse200 faker opts, field_of ''200'' DeleteUserApiV1AdminUsersUserIdDeleteResponses_type),
     (''fakeDeleteUserApiV1AdminUsersUserIdDeleteResponse400'', fakeDeleteUserApiV1AdminUsersUserIdDeleteResponse400 faker opts, field_of ''400'' DeleteUserApiV1AdminUsersUserIdDeleteErrors_type),
     (''fakeDeleteUserApiV1AdminUsersUserIdDeleteResponse404'', fakeDeleteUserApiV1AdminUsersUserIdDeleteResponse404 faker opts, field_of ''404'' DeleteUserApiV1AdminUsersUserIdDeleteErrors_type),
     (''fakeDeleteUserApiV1AdminUsersUserIdDeleteResponsedefault'', fakeDeleteUserApiV1AdminUsersUserIdDeleteResponsedefault faker opts, field_of ''default'' DeleteUserApiV1AdminUsersUserIdDeleteErrors_type),
     (''fakeGetUserApiV1AdminUsersUserIdGetRequest'', fakeGetUserApiV1AdminUsersUserIdGetRequest faker opts, omit_url GetUserApiV1AdminUsersUserIdGetData_type),
     (''fakeGetUserApiV1AdminUsersUserIdGetResponse200'', fakeGetUserApiV1AdminUsersUserIdGetResponse200 faker opts, field_of ''200'' GetUserApiV1AdminUsersUserIdGetResponses_type),
     (''fakeGetUserApiV1AdminUsersUserIdGetResponse404'', fakeGetUserApiV1AdminUsersUserIdGetResponse404 faker opts, field_of ''404'' GetUserApiV1AdminUsersUserIdGetErrors_type),
     (''fakeGetUserApiV1AdminUsersUserIdGetResponsedefault'', fakeGetUserApiV1AdminUsersUserIdGetResponsedefault faker opts, field_of ''default'' GetUserApiV1AdminUsersUserIdGetErrors_type),
     (''fakeUpdateUserApiV1AdminUsersUserIdPutRequest'', fakeUpdateUserApiV1AdminUsersUserIdPutRequest faker opts, omit_url UpdateUserApiV1AdminUsersUserIdPutData_type),
     (''fakeUpdateUserApiV1AdminUsersUserIdPutResponse200'', fakeUpdateUserApiV1AdminUsersUserIdPutResponse200 faker opts, field_of ''200'' UpdateUserApiV1AdminUsersUserIdPutResponses_type),
     (''fakeUpdateUserApiV1AdminUsersUserIdPutResponse404'', fakeUpdateUserApiV1AdminUsersUserIdPutResponse404 faker opts, field_of ''404'' UpdateUserApiV1AdminUsersUserIdPutErrors_type),
     (''fakeUpdateUserApiV1AdminUsersUserIdPutResponse409'', fakeUpdateUserApiV1AdminUsersUserIdPutResponse409 faker opts, field_of ''409'' UpdateUserApiV1AdminUsersUserIdPutErrors_type),
     (''fakeUpdateUserApiV1AdminUsersUserIdPutResponsedefault'', fakeUpdateUserApiV1AdminUsersUserIdPutResponsedefault faker opts, field_of ''default'' UpdateUserApiV1AdminUsersUserIdPutErrors_type),
     (''fakeGetUserOverviewApiV1AdminUsersUserIdOverviewGetRequest'', fakeGetUserOverviewApiV1AdminUsersUserIdOverviewGetRequest faker opts, omit_url GetUserOverviewApiV1AdminUsersUserIdOverviewGetData_type),
     (''fakeGetUserOverviewApiV1AdminUsersUserIdOverviewGetResponse200'', fakeGetUserOverviewApiV1AdminUsersUserIdOverviewGetResponse200 faker opts, field_of ''200'' GetUserOverviewApiV1AdminUsersUserIdOverviewGetResponses_type),
     (''fakeGetUserOverviewApiV1AdminUsersUserIdOverviewGetResponse404'', fakeGetUserOverviewApiV1AdminUsersUserIdOverviewGetResponse404 faker opts, field_of ''404'' GetUserOverviewApiV1AdminUsersUserIdOverviewGetErrors_type),
     (''fakeGetUserOverviewApiV1AdminUsersUserIdOverviewGetResponsedefault'', fakeGetUserOverviewApiV1AdminUsersUserIdOverviewGetResponsedefault faker opts, field_of ''default'' GetUserOverviewApiV1AdminUsersUserIdOverviewGetErrors_type),
     (''fakeResetUserPasswordApiV1AdminUsersUserIdResetPasswordPostRequest'', fakeResetUserPasswordApiV1AdminUsersUserIdResetPasswordPostRequest faker opts, omit_url ResetUserPasswordApiV1AdminUsersUserIdResetPasswordPostData_type),
     (''fakeResetUserPasswordApiV1AdminUsersUserIdResetPasswordPostResponse200'', fakeResetUserPasswordApiV1AdminUsersUserIdResetPasswordPostResponse200 faker opts, field_of ''200'' ResetUserPasswordApiV1AdminUsersUserIdResetPasswordPostResponses_type),
     (''fakeResetUserPasswordApiV1AdminUsersUserIdResetPasswordPostResponse404'', fakeResetUserPasswordApiV1AdminUsersUserIdResetPasswordPostResponse404 faker opts, field_of ''404'' ResetUserPasswordApiV1AdminUsersUserIdResetPasswordPostErrors_type),
     (''fakeResetUserPasswordApiV1AdminUsersUserIdResetPasswordPostResponsedefault'', fakeResetUserPasswordApiV1AdminUsersUserIdResetPasswordPostResponsedefault faker opts, field_of ''default'' ResetUserPasswordApiV1AdminUsersUserIdResetPasswordPostErrors_type),
     (''fakeUnlockUserApiV1AdminUsersUserIdUnlockPostRequest'', fakeUnlockUserApiV1AdminUsersUserIdUnlockPostRequest faker opts, omit_url UnlockUserApiV1AdminUsersUserIdUnlockPostData_type),
     (''fakeUnlockUserApiV1AdminUsersUserIdUnlockPostResponse200'', fakeUnlockUserApiV1AdminUsersUserIdUnlockPostResponse200 faker opts, field_of ''200'' UnlockUserApiV1AdminUsersUserIdUnlockPostResponses_type),
     (''fakeUnlockUserApiV1AdminUsersUserIdUnlockPostResponse404'', fakeUnlockUserApiV1AdminUsersUserIdUnlockPostResponse404 faker opts, field_of ''404'' UnlockUserApiV1AdminUsersUserIdUnlockPostErrors_type),
     (''fakeUnlockUserApiV1AdminUsersUserIdUnlockPostResponsedefault'', fakeUnlockUserApiV1AdminUsersUserIdUnlockPostResponsedefault faker opts, field_of ''default'' UnlockUserApiV1AdminUsersUserIdUnlockPostErrors_type),
     (''fakeGetUserSettingsApiV1UserSettingsGetResponse200'', fakeGetUserSettingsApiV1UserSettingsGetResponse200 faker opts, field_of ''200'' GetUserSettingsApiV1UserSettingsGetResponses_type),
     (''fakeGetUserSettingsApiV1UserSettingsGetResponsedefault'', fakeGetUserSettingsApiV1UserSettingsGetResponsedefault faker opts, field_of ''default'' GetUserSettingsApiV1UserSettingsGetErrors_type),
     (''fakeUpdateUserSettingsApiV1UserSettingsPutRequest'', fakeUpdateUserSettingsApiV1UserSettingsPutRequest faker opts, omit_url UpdateUserSettingsApiV1UserSettingsPutData_type),
     (''fakeUpdateUserSettingsApiV1UserSettingsPutResponse200'', fakeUpdateUserSettingsApiV1UserSettingsPutResponse200 faker opts, field_of ''200'' UpdateUserSettingsApiV1UserSettingsPutResponses_type),
     (''fakeUpdateUserSettingsApiV1UserSettingsPutResponsedefault'', fakeUpdateUserSettingsApiV1UserSettingsPutResponsedefault faker opts, field_of ''default'' UpdateUserSettingsApiV1UserSettingsPutErrors_type),
     (''fakeUpdateThemeApiV1UserSettingsThemePutRequest'', fakeUpdateThemeApiV1UserSettingsThemePutRequest faker opts, omit_url UpdateThemeApiV1UserSettingsThemePutData_type),
     (''fakeUpdateThemeApiV1UserSettingsThemePutResponse200'', fakeUpdateThemeApiV1UserSettingsThemePutResponse200 faker opts, field_of ''200'' UpdateThemeApiV1UserSettingsThemePutResponses_type),
     (''fakeUpdateThemeApiV1UserSettingsThemePutResponsedefault'', fakeUpdateThemeApiV1UserSettingsThemePutResponsedefault faker opts, field_of ''default'' UpdateThemeApiV1UserSettingsThemePutErrors_type),
     (''fakeUpdateNotificationSettingsApiV1UserSettingsNotificationsPutRequest'', fakeUpdateNotificationSettingsApiV1UserSettingsNotificationsPutRequest faker opts, omit_url UpdateNotificationSettingsApiV1UserSettingsNotificationsPutData_type),
     (''fakeUpdateNotificationSettingsApiV1UserSettingsNotificationsPutResponse200'', fakeUpdateNotificationSettingsApiV1UserSettingsNotificationsPutResponse200 faker opts, field_of ''200'' UpdateNotificationSettingsApiV1UserSettingsNotificationsPutResponses_type),
     (''fakeUpdateNotificationSettingsApiV1UserSettingsNotificationsPutResponsedefault'', fakeUpdateNotificationSettingsApiV1UserSettingsNotificationsPutResponsedefault faker opts, field_of ''default'' UpdateNotificationSettingsApiV1UserSettingsNotificationsPutErrors_type),
     (''fakeUpdateEditorSettingsApiV1UserSettingsEditorPutRequest'', fakeUpdateEditorSettingsApiV1UserSettingsEditorPutRequest faker opts, omit_url UpdateEditorSettingsApiV1UserSettingsEditorPutData_type),
     (''fakeUpdateEditorSettingsApiV1UserSettingsEditorPutResponse200'', fakeUpdateEditorSettingsApiV1UserSettingsEditorPutResponse200 faker opts, field_of ''200'' UpdateEditorSettingsApiV1UserSettingsEditorPutResponses_type),
     (''fakeUpdateEditorSettingsApiV1UserSettingsEditorPutResponsedefault'', fakeUpdateEditorSettingsApiV1UserSettingsEditorPutResponsedefault faker opts, field_of ''default'' UpdateEditorSettingsApiV1UserSettingsEditorPutErrors_type),
     (''fakeGetSettingsHistoryApiV1UserSettingsHistoryGetRequest'', fakeGetSettingsHistoryApiV1UserSettingsHistoryGetRequest faker opts, omit_url GetSettingsHistoryApiV1UserSettingsHistoryGetData_type),
     (''fakeGetSettingsHistoryApiV1UserSettingsHistoryGetResponse200'', fakeGetSettingsHistoryApiV1UserSettingsHistoryGetResponse200 faker opts, field_of ''200'' GetSettingsHistoryApiV1UserSettingsHistoryGetResponses_type),
     (''fakeGetSettingsHistoryApiV1UserSettingsHistoryGetResponsedefault'', fakeGetSettingsHistoryApiV1UserSettingsHistoryGetResponsedefault faker opts, field_of ''default'' GetSettingsHistoryApiV1UserSettingsHistoryGetErrors_type),
     (''fakeRestoreSettingsApiV1UserSettingsRestorePostRequest'', fakeRestoreSettingsApiV1UserSettingsRestorePostRequest faker opts, omit_url RestoreSettingsApiV1UserSettingsRestorePostData_type),
     (''fakeRestoreSettingsApiV1UserSettingsRestorePostResponse200'', fakeRestoreSettingsApiV1UserSettingsRestorePostResponse200 faker opts, field_of ''200'' RestoreSettingsApiV1UserSettingsRestorePostResponses_type),
     (''fakeRestoreSettingsApiV1UserSettingsRestorePostResponsedefault'', fakeRestoreSettingsApiV1UserSettingsRestorePostResponsedefault faker opts, field_of ''default'' RestoreSettingsApiV1UserSettingsRestorePostErrors_type),
     (''fakeUpdateCustomSettingApiV1UserSettingsCustomKeyPutRequest'', fakeUpdateCustomSettingApiV1UserSettingsCustomKeyPutRequest faker opts, omit_url UpdateCustomSettingApiV1UserSettingsCustomKeyPutData_type),
     (''fakeUpdateCustomSettingApiV1UserSettingsCustomKeyPutResponse200'', fakeUpdateCustomSettingApiV1UserSettingsCustomKeyPutResponse200 faker opts, field_of ''200'' UpdateCustomSettingApiV1UserSettingsCustomKeyPutResponses_type),
     (''fakeUpdateCustomSettingApiV1UserSettingsCustomKeyPutResponsedefault'', fakeUpdateCustomSettingApiV1UserSettingsCustomKeyPutResponsedefault faker opts, field_of ''default'' UpdateCustomSettingApiV1UserSettingsCustomKeyPutErrors_type),
     (''fakeGetNotificationsApiV1NotificationsGetRequest'', fakeGetNotificationsApiV1NotificationsGetRequest faker opts, omit_url GetNotificationsApiV1NotificationsGetData_type),
     (''fakeGetNotificationsApiV1NotificationsGetResponse200'', fakeGetNotificationsApiV1NotificationsGetResponse200 faker opts, field_of ''200'' GetNotificationsApiV1NotificationsGetResponses_type),
     (''fakeGetNotificationsApiV1NotificationsGetResponsedefault'', fakeGetNotificationsApiV1NotificationsGetResponsedefault faker opts, field_of ''default'' GetNotificationsApiV1NotificationsGetErrors_type),
     (''fakeMarkNotificationReadApiV1NotificationsNotificationIdReadPutRequest'', fakeMarkNotificationReadApiV1NotificationsNotificationIdReadPutRequest faker opts, omit_url MarkNotificationReadApiV1NotificationsNotificationIdReadPutData_type),
     (''fakeMarkNotificationReadApiV1NotificationsNotificationIdReadPutResponsedefault'', fakeMarkNotificationReadApiV1NotificationsNotificationIdReadPutResponsedefault faker opts, field_of ''default'' MarkNotificationReadApiV1NotificationsNotificationIdReadPutErrors_type),
     (''fakeMarkAllReadApiV1NotificationsMarkAllReadPostResponsedefault'', fakeMarkAllReadApiV1NotificationsMarkAllReadPostResponsedefault faker opts, field_of ''default'' MarkAllReadApiV1NotificationsMarkAllReadPostErrors_type),
     (''fakeGetUnreadCountApiV1NotificationsUnreadCountGetResponse200'', fakeGetUnreadCountApiV1NotificationsUnreadCountGetResponse200 faker opts, field_of ''200'' GetUnreadCountApiV1NotificationsUnreadCountGetResponses_type),
     (''fakeGetUnreadCountApiV1NotificationsUnreadCountGetResponsedefault'', fakeGetUnreadCountApiV1NotificationsUnreadCountGetResponsedefault faker opts, field_of ''default'' GetUnreadCountApiV1NotificationsUnreadCountGetErrors_type),
     (''fakeDeleteNotificationApiV1NotificationsNotificationIdDeleteRequest'', fakeDeleteNotificationApiV1NotificationsNotificationIdDeleteRequest faker opts, omit_url DeleteNotificationApiV1NotificationsNotificationIdDeleteData_type),
     (''fakeDeleteNotificationApiV1NotificationsNotificationIdDeleteResponse200'', fakeDeleteNotificationApiV1NotificationsNotificationIdDeleteResponse200 faker opts, field_of ''200'' DeleteNotificationApiV1NotificationsNotificationIdDeleteResponses_type),
     (''fakeDeleteNotificationApiV1NotificationsNotificationIdDeleteResponsedefault'', fakeDeleteNotificationApiV1NotificationsNotificationIdDeleteResponsedefault faker opts, field_of ''default'' DeleteNotificationApiV1NotificationsNotificationIdDeleteErrors_type)]"

lemma factories_typed:
  "faker_helpers (the_faker faker opts) \<Longrightarrow> list_all (\<lambda>e. generates (fst (snd e)) (snd (snd e))) (all_factories faker opts)"
  by (simp add: all_factories_def fakes)

section \<open>A concrete library\<close>

text \<open>A library that counts its calls, and takes elements in turn\<close>

definition ticket :: "(nat \<Rightarrow> 'a) \<Rightarrow> (nat, 'a) state" where
  "ticket g = State (\<lambda>n. (g n, Suc n))"

definition counting_faker :: "nat faker" where
  "counting_faker =
     \<lparr>datatype_boolean = (\<lambda>p. ticket odd), number_int = (\<lambda>os. ticket of_nat), number_float = (\<lambda>os. ticket of_nat),
      string_sample = ticket (\<lambda>n. ''sample''), string_alpha = (\<lambda>l. ticket (\<lambda>n. ''alpha'')),
      internet_username = ticket (\<lambda>n. ''ann''), internet_email = ticket (\<lambda>n. ''ann@example.com''),
      internet_password = ticket (\<lambda>n. ''password''), internet_ip = ticket (\<lambda>n. ''127.0.0.1''),
      internet_userAgent = ticket (\<lambda>n. ''Mozilla''), location_timeZone = ticket (\<lambda>n. ''Europe/Berlin''),
      location_state = ticket (\<lambda>n. ''Ohio''), lorem_sentence = ticket (\<lambda>n. ''Lorem ipsum.''),
      lorem_words = ticket (\<lambda>n. ''lorem ipsum''), date_recent = ticket (\<lambda>n. ''2026-01-01T00:00:00.000Z''),
      helpers_fromRegExp = (\<lambda>r. ticket (\<lambda>n. ''password'')),
      helpers_arrayElement = (\<lambda>xs. ticket (\<lambda>n. xs ! (n mod length xs))),
      helpers_multiple = (\<lambda>m. do { v \<leftarrow> m; w \<leftarrow> m; State_Monad.return [v, w] })\<rparr>"

lemma run_in_set: "run_state m s = (v, s') \<Longrightarrow> v \<in> set_state m"
  by (metis fst_conv pred_state_iff pred_member)

lemma counting_faker_helpers: "faker_helpers counting_faker"
  by (auto simp: faker_helpers_def counting_faker_def ticket_def State_Monad.bind_def split: prod.splits intro: run_in_set)

section \<open>Properties\<close>

text \<open>
  C37: the mock data of the tests are values of the declared types: whatever the library draws, whichever
  optional fields the options leave out and whether or not they ask for the schema's defaults, each of the
  353 factories returns a value of the type it declares.
\<close>

theorem mock_data_has_declared_types:
  assumes "faker_helpers (the_faker faker opts)"
    and "(name, m, t) \<in> set (all_factories faker opts)"
  shows "has_type t (fst (run_state m s))"
proof -
  have "generates m t"
    using bspec [OF factories_typed [OF assms(1), unfolded list_all_iff] assms(2)] by simp
  then show ?thesis by (simp add: generates_def pred_state_iff)
qed

theorem mock_data_has_declared_types_witness:
  "has_type UserResponse_type (fst (run_state (fakeUserResponse counting_faker None) 0))"
  by (rule mock_data_has_declared_types [of counting_faker None "''fakeUserResponse''"])
    (simp_all add: the_faker_def counting_faker_helpers all_factories_def)

end
